(* ===== verification/Prelude.thy ===== *)
theory Prelude
  imports Complex_Main "HOL-Library.Word"
begin

text \<open>
  Shared vocabulary of the development: the arithmetic of C's integers, the parts of the
  C library's string routines that libical relies on (\<open>printf\<close> and \<open>scanf\<close> of decimal
  numbers, \<open>atoi\<close>, \<open>strtol\<close>, \<open>strchr\<close>, \<open>strcasecmp\<close>), and the collections of
  simplification rules used by the component theories.

  C strings are lists of characters that do not contain the terminating NUL. A result
  \<open>None\<close> of a model that returns an option stands for a C execution that is undefined
  (a null or dangling dereference) or does not end; each theory says which.
\<close>

section \<open>Collections of rules\<close>

named_theorems c_arith \<open>facts that turn C division, remainder and casts into HOL arithmetic\<close>
named_theorems scan_simps \<open>facts that evaluate the scanning functions on printed text\<close>
named_theorems tt_simps \<open>field equations of broken-down times\<close>

section \<open>Integer division and casts of C\<close>

text \<open>C rounds integer division towards zero; HOL's \<open>div\<close> rounds down.\<close>

definition c_div :: "int \<Rightarrow> int \<Rightarrow> int" where
  "c_div a b = sgn a * sgn b * (\<bar>a\<bar> div \<bar>b\<bar>)"

definition c_mod :: "int \<Rightarrow> int \<Rightarrow> int" where
  "c_mod a b = a - b * c_div a b"

text \<open>Conversion to a 32-bit \<open>int\<close>, to a 16-bit \<open>short\<close>, and to \<open>unsigned int\<close>.\<close>

definition to_int32 :: "int \<Rightarrow> int" where
  "to_int32 v = sint (word_of_int v :: 32 word)"

definition to_short :: "int \<Rightarrow> int" where
  "to_short v = sint (word_of_int v :: 16 word)"

text \<open>The cast of a \<open>double\<close> to \<open>long\<close>, which drops the fraction; doubles are rationals.\<close>

definition c_trunc :: "rat \<Rightarrow> int" where
  "c_trunc x = (if 0 \<le> x then \<lfloor>x\<rfloor> else \<lceil>x\<rceil>)"

lemma c_div_nonneg [c_arith]: "0 \<le> a \<Longrightarrow> 0 < b \<Longrightarrow> c_div a b = a div b"
  by (cases "a = 0") (auto simp: c_div_def sgn_if)

lemma c_div_neg [c_arith]: "a \<le> 0 \<Longrightarrow> 0 < b \<Longrightarrow> c_div a b = - ((- a) div b)"
  by (cases "a = 0") (auto simp: c_div_def sgn_if)

lemma c_mod_nonneg [c_arith]: "0 \<le> a \<Longrightarrow> 0 < b \<Longrightarrow> c_mod a b = a mod b"
  by (simp add: c_mod_def c_div_nonneg minus_mult_div_eq_mod)

lemma c_mod_neg [c_arith]: "a \<le> 0 \<Longrightarrow> 0 < b \<Longrightarrow> c_mod a b = - ((- a) mod b)"
proof -
  assume ab: "a \<le> 0" "0 < b"
  have "(- a) mod b = - a - b * ((- a) div b)"
    by (rule minus_mult_div_eq_mod [symmetric])
  then show ?thesis using ab by (simp add: c_mod_def c_div_neg)
qed

lemma c_mod_eq_0_iff [c_arith]: "0 < b \<Longrightarrow> c_mod a b = 0 \<longleftrightarrow> b dvd a"
proof (cases "0 \<le> a")
  case True
  assume "0 < b" with True show ?thesis by (simp add: c_mod_nonneg dvd_eq_mod_eq_0)
next
  case False
  assume "0 < b" with False show ?thesis
    by (simp add: c_mod_neg) (metis dvd_eq_mod_eq_0 dvd_minus_iff)
qed

text \<open>
  The carry idiom of the time routines: take the remainder and the quotient, and borrow
  one when the remainder is negative. It computes the floor quotient and remainder.
\<close>

lemma c_mod_bounds:
  assumes "0 < b"
  shows "- b < c_mod a b" "c_mod a b < b"
proof -
  have "0 \<le> a mod b" "a mod b < b" "0 \<le> (- a) mod b" "(- a) mod b < b"
    using assms by simp_all
  then show "- b < c_mod a b" "c_mod a b < b"
    using assms c_mod_nonneg [of a b] c_mod_neg [of a b] by linarith+
qed

lemma c_div_borrow [c_arith]:
  assumes "0 < b"
  shows "(if c_mod a b < 0 then c_div a b - 1 else c_div a b) = a div b"
proof (cases "c_mod a b < 0")
  case True
  have "a div b = c_div a b - 1"
  proof (rule int_div_pos_eq)
    show "a = b * (c_div a b - 1) + (c_mod a b + b)" by (simp add: c_mod_def algebra_simps)
  qed (use True c_mod_bounds [OF assms, of a] in simp_all)
  with True show ?thesis by simp
next
  case False
  have "a div b = c_div a b"
  proof (rule int_div_pos_eq)
    show "a = b * c_div a b + c_mod a b" by (simp add: c_mod_def)
  qed (use False c_mod_bounds [OF assms, of a] in simp_all)
  with False show ?thesis by simp
qed

lemma c_mod_borrow [c_arith]:
  assumes "0 < b"
  shows "(if c_mod a b < 0 then c_mod a b + b else c_mod a b) = a mod b"
proof -
  have "a mod b = a - b * (a div b)" by (rule minus_mult_div_eq_mod [symmetric])
  then show ?thesis
    using c_div_borrow [OF assms, of a] by (auto simp: c_mod_def algebra_simps split: if_splits)
qed

lemma c_trunc_of_int [simp, c_arith]: "c_trunc (of_int n) = n"
  by (simp add: c_trunc_def)

lemma c_trunc_nonneg [c_arith]: "0 \<le> x \<Longrightarrow> c_trunc x = \<lfloor>x\<rfloor>"
  by (simp add: c_trunc_def)

lemma c_trunc_divide [c_arith]:
  "0 \<le> a \<Longrightarrow> 0 < b \<Longrightarrow> c_trunc (of_int a / of_int b) = a div b"
  by (simp add: c_trunc_def floor_divide_of_int_eq)

lemma to_int32_id [c_arith]: "- (2 ^ 31) \<le> v \<Longrightarrow> v < 2 ^ 31 \<Longrightarrow> to_int32 v = v"
  by (simp add: to_int32_def sint_word_ariths signed_take_bit_int_eq_self sint_sbintrunc')

lemma to_short_id [c_arith]: "- (2 ^ 15) \<le> v \<Longrightarrow> v < 2 ^ 15 \<Longrightarrow> to_short v = v"
  by (simp add: to_short_def signed_take_bit_int_eq_self sint_sbintrunc')

end
