(* ===== verification/Pvl.thy ===== *)
theory Pvl
  imports Prelude "HOL-Library.Monad_Syntax"
begin

text \<open>
  The doubly linked list of \<^verbatim>\<open>pvl.c\<close>, which holds the properties of a component and the
  days of an expanded rule. Elements live in a heap from addresses to elements, and the
  address 0 is the null pointer; the list record holds the head and tail pointers, the
  item count and the iterator pointer. \<open>malloc\<close> returns an address that was never used
  (it does not fail here), \<open>free\<close> takes the cell out of the heap. A result \<open>None\<close> is a
  null or dangling dereference or a loop over a cyclic list.

  The first half are the operations. The second half relates the pointer structure to a
  list of items (\<open>chain\<close>, \<open>pvl_rep\<close>), shows what each operation does to that list, and
  packages the laws a user of the list relies on in the locale \<open>item_list\<close>.
\<close>

section \<open>The structures\<close>

record 'a pvl_elem =
  e_magic :: int
  e_data :: 'a
  e_next :: nat
  e_prior :: nat

record pvl_list =
  l_magic :: int
  l_head :: nat
  l_tail :: nat
  l_count :: int
  l_p :: nat

text \<open>The heap of elements, the next unused address and the two global counters.\<close>

record 'a pvl_heap =
  cells :: "nat \<rightharpoonup> 'a pvl_elem"
  fresh :: nat
  pvl_elem_count :: int
  pvl_list_count :: int

definition set_next :: "nat \<Rightarrow> nat \<Rightarrow> 'a pvl_heap \<Rightarrow> 'a pvl_heap option" where
  "set_next a v h =
     (case cells h a of None \<Rightarrow> None | Some e \<Rightarrow> Some (h\<lparr>cells := (cells h)(a \<mapsto> e\<lparr>e_next := v\<rparr>)\<rparr>))"

definition set_prior :: "nat \<Rightarrow> nat \<Rightarrow> 'a pvl_heap \<Rightarrow> 'a pvl_heap option" where
  "set_prior a v h =
     (case cells h a of None \<Rightarrow> None | Some e \<Rightarrow> Some (h\<lparr>cells := (cells h)(a \<mapsto> e\<lparr>e_prior := v\<rparr>)\<rparr>))"

definition free_cell :: "nat \<Rightarrow> 'a pvl_heap \<Rightarrow> 'a pvl_heap" where
  "free_cell a h = h\<lparr>cells := (cells h)(a := None)\<rparr>"

section \<open>The operations\<close>

definition pvl_newlist :: "'a pvl_heap \<Rightarrow> pvl_list \<times> 'a pvl_heap" where
  "pvl_newlist h =
     (\<lparr>l_magic = pvl_list_count h, l_head = 0, l_tail = 0, l_count = 0, l_p = 0\<rparr>,
      h\<lparr>pvl_list_count := pvl_list_count h + 1\<rparr>)"

definition pvl_new_element :: "'a \<Rightarrow> nat \<Rightarrow> nat \<Rightarrow> 'a pvl_heap \<Rightarrow> nat \<times> 'a pvl_heap" where
  "pvl_new_element x nxt pri h =
     (fresh h,
      h\<lparr>cells := (cells h)(fresh h \<mapsto> \<lparr>e_magic = pvl_elem_count h, e_data = x, e_next = nxt, e_prior = pri\<rparr>),
        fresh := Suc (fresh h), pvl_elem_count := pvl_elem_count h + 1\<rparr>)"

definition pvl_unshift :: "pvl_list \<Rightarrow> 'a \<Rightarrow> 'a pvl_heap \<Rightarrow> (pvl_list \<times> 'a pvl_heap) option" where
  "pvl_unshift L x h =
     (let (E, h1) = pvl_new_element x (l_head L) 0 h
      in do {
        e \<leftarrow> cells h1 E;
        h2 \<leftarrow> (if e_next e \<noteq> 0 then set_prior (e_next e) E h1 else Some h1);
        Some (L\<lparr>l_head := E, l_tail := (if l_tail L = 0 then E else l_tail L),
                l_count := l_count L + 1\<rparr>, h2) })"

definition pvl_push :: "pvl_list \<Rightarrow> 'a \<Rightarrow> 'a pvl_heap \<Rightarrow> (pvl_list \<times> 'a pvl_heap) option" where
  "pvl_push L x h =
     (let (E, h1) = pvl_new_element x 0 (l_tail L) h
      in do {
        h2 \<leftarrow> (if l_tail L \<noteq> 0 then set_next (l_tail L) E h1 else Some h1);
        Some (L\<lparr>l_head := (if l_head L = 0 then E else l_head L), l_tail := E,
                l_count := l_count L + 1\<rparr>, h2) })"

definition pvl_remove ::
    "pvl_list \<Rightarrow> nat \<Rightarrow> 'a pvl_heap \<Rightarrow> ('a \<times> pvl_list \<times> 'a pvl_heap) option" where
  "pvl_remove L E h = do {
     e \<leftarrow> cells h E;
     (L1, h1) \<leftarrow>
       (if E = l_head L then
          (if e_next e \<noteq> 0
           then do { h1 \<leftarrow> set_prior (e_next e) 0 h; Some (L\<lparr>l_head := e_next e\<rparr>, h1) }
           else Some (L\<lparr>l_tail := 0, l_head := 0\<rparr>, h))
        else if E = l_tail L then
          (if e_prior e \<noteq> 0
           then do { h1 \<leftarrow> set_next (e_prior e) 0 h; Some (L\<lparr>l_tail := e_prior e\<rparr>, h1) }
           else Some (L\<lparr>l_head := 0, l_tail := 0\<rparr>, h))
        else do {
          h1 \<leftarrow> set_next (e_prior e) (e_next e) h;
          e1 \<leftarrow> cells h1 E;
          h2 \<leftarrow> set_prior (e_next e1) (e_prior e1) h1;
          Some (L, h2) });
     Some (e_data e, L1\<lparr>l_count := l_count L1 - 1\<rparr>, free_cell E h1) }"

definition pvl_shift ::
    "pvl_list \<Rightarrow> 'a pvl_heap \<Rightarrow> ('a option \<times> pvl_list \<times> 'a pvl_heap) option" where
  "pvl_shift L h =
     (if l_head L = 0 then Some (None, L, h)
      else do { (x, L1, h1) \<leftarrow> pvl_remove L (l_head L) h; Some (Some x, L1, h1) })"

definition pvl_pop ::
    "pvl_list \<Rightarrow> 'a pvl_heap \<Rightarrow> ('a option \<times> pvl_list \<times> 'a pvl_heap) option" where
  "pvl_pop L h =
     (if l_tail L = 0 then Some (None, L, h)
      else do { (x, L1, h1) \<leftarrow> pvl_remove L (l_tail L) h; Some (Some x, L1, h1) })"

definition pvl_insert_after ::
    "pvl_list \<Rightarrow> nat \<Rightarrow> 'a \<Rightarrow> 'a pvl_heap \<Rightarrow> (pvl_list \<times> 'a pvl_heap) option" where
  "pvl_insert_after L0 P x h =
     (let L = L0\<lparr>l_count := l_count L0 + 1\<rparr>
      in if P = 0 then pvl_unshift L x h
      else if P = l_tail L then
        (let (E, h1) = pvl_new_element x 0 P h
         in do { h2 \<leftarrow> set_next P E h1; Some (L\<lparr>l_tail := E\<rparr>, h2) })
      else do {
        p \<leftarrow> cells h P;
        let (E, h1) = pvl_new_element x (e_next p) P h;
        h2 \<leftarrow> set_prior (e_next p) E h1;
        h3 \<leftarrow> set_next P E h2;
        Some (L, h3) })"

definition pvl_insert_before ::
    "pvl_list \<Rightarrow> nat \<Rightarrow> 'a \<Rightarrow> 'a pvl_heap \<Rightarrow> (pvl_list \<times> 'a pvl_heap) option" where
  "pvl_insert_before L0 P x h =
     (let L = L0\<lparr>l_count := l_count L0 + 1\<rparr>
      in if P = 0 then pvl_unshift L x h
      else if P = l_head L then
        (let (E, h1) = pvl_new_element x P 0 h
         in do { h2 \<leftarrow> set_prior P E h1; Some (L\<lparr>l_head := E\<rparr>, h2) })
      else do {
        p \<leftarrow> cells h P;
        let (E, h1) = pvl_new_element x P (e_prior p) h;
        h2 \<leftarrow> set_next (e_prior p) E h1;
        h3 \<leftarrow> set_prior P E h2;
        Some (L, h3) })"

text \<open>
  The loops over a list follow \<open>next\<close> from the head. The fuel is the number of addresses
  ever handed out, which no acyclic list exceeds; running out of it is a loop that does
  not end.
\<close>

fun walk_ordered ::
    "nat \<Rightarrow> ('a \<Rightarrow> 'a \<Rightarrow> int) \<Rightarrow> 'a \<Rightarrow> nat \<Rightarrow> 'a pvl_heap \<Rightarrow> nat option" where
  "walk_ordered 0 f x P h = None"
| "walk_ordered (Suc n) f x P h =
     (if P = 0 then None
      else do { p \<leftarrow> cells h P;
                if 0 \<le> f (e_data p) x then Some P else walk_ordered n f x (e_next p) h })"

definition pvl_insert_ordered ::
    "pvl_list \<Rightarrow> ('a \<Rightarrow> 'a \<Rightarrow> int) \<Rightarrow> 'a \<Rightarrow> 'a pvl_heap \<Rightarrow> (pvl_list \<times> 'a pvl_heap) option" where
  "pvl_insert_ordered L0 f x h =
     (let L = L0\<lparr>l_count := l_count L0 + 1\<rparr>
      in if l_head L = 0 then pvl_unshift L x h
      else do {
        hd_e \<leftarrow> cells h (l_head L);
        if f x (e_data hd_e) \<le> 0 then pvl_unshift L x h
        else do {
          tl_e \<leftarrow> cells h (l_tail L);
          if 0 \<le> f x (e_data tl_e) then pvl_push L x h
          else do {
            P \<leftarrow> walk_ordered (fresh h) f x (l_head L) h;
            pvl_insert_before L P x h } } })"

fun walk_find ::
    "nat \<Rightarrow> ('a \<Rightarrow> 'v \<Rightarrow> int) \<Rightarrow> 'v \<Rightarrow> nat \<Rightarrow> 'a pvl_heap \<Rightarrow> nat option" where
  "walk_find 0 f v e h = None"
| "walk_find (Suc n) f v e h =
     (if e = 0 then Some 0
      else do { c \<leftarrow> cells h e;
                if f (e_data c) v = 1 then Some e else walk_find n f v (e_next c) h })"

text \<open>The element found (0 if none); the list remembers it in its iterator pointer.\<close>

definition pvl_find ::
    "pvl_list \<Rightarrow> ('a \<Rightarrow> 'v \<Rightarrow> int) \<Rightarrow> 'v \<Rightarrow> 'a pvl_heap \<Rightarrow> (nat \<times> pvl_list) option" where
  "pvl_find L f v h = do {
     e \<leftarrow> walk_find (fresh h) f v (l_head L) h;
     Some (e, if e = 0 then L else L\<lparr>l_p := e\<rparr>) }"

text \<open>The code of the continued search is that of the first one: it starts at the head.\<close>

definition pvl_find_next ::
    "pvl_list \<Rightarrow> ('a \<Rightarrow> 'v \<Rightarrow> int) \<Rightarrow> 'v \<Rightarrow> 'a pvl_heap \<Rightarrow> (nat \<times> pvl_list) option" where
  "pvl_find_next L f v h = do {
     e \<leftarrow> walk_find (fresh h) f v (l_head L) h;
     Some (e, if e = 0 then L else L\<lparr>l_p := e\<rparr>) }"

definition pvl_count :: "pvl_list \<Rightarrow> int" where
  "pvl_count L = l_count L"

definition pvl_next :: "nat \<Rightarrow> 'a pvl_heap \<Rightarrow> nat option" where
  "pvl_next e h = (if e = 0 then Some 0 else map_option e_next (cells h e))"

definition pvl_prior :: "nat \<Rightarrow> 'a pvl_heap \<Rightarrow> nat option" where
  "pvl_prior e h = map_option e_prior (cells h e)"

definition pvl_head :: "pvl_list \<Rightarrow> nat" where
  "pvl_head L = l_head L"

definition pvl_tail :: "pvl_list \<Rightarrow> nat" where
  "pvl_tail L = l_tail L"

definition pvl_data :: "nat \<Rightarrow> 'a pvl_heap \<Rightarrow> 'a option option" where
  "pvl_data e h = (if e = 0 then Some None else map_option (\<lambda>c. Some (e_data c)) (cells h e))"

fun clear_from :: "nat \<Rightarrow> nat \<Rightarrow> pvl_list \<Rightarrow> 'a pvl_heap \<Rightarrow> (pvl_list \<times> 'a pvl_heap) option" where
  "clear_from 0 e L h = None"
| "clear_from (Suc n) e L h =
     (if e = 0 then Some (L, h)
      else do {
        nxt \<leftarrow> pvl_next e h;
        (_, L1, h1) \<leftarrow> pvl_remove L e h;
        clear_from n nxt L1 h1 })"

definition pvl_clear :: "pvl_list \<Rightarrow> 'a pvl_heap \<Rightarrow> (pvl_list \<times> 'a pvl_heap) option" where
  "pvl_clear L h =
     (if pvl_head L = 0 then Some (L, h) else clear_from (fresh h) (pvl_head L) L h)"

text \<open>Freeing a list clears it and frees the list record, which nothing refers to after.\<close>

definition pvl_free :: "pvl_list \<Rightarrow> 'a pvl_heap \<Rightarrow> 'a pvl_heap option" where
  "pvl_free L h = do { (L1, h1) \<leftarrow> pvl_clear L h; Some h1 }"

fun apply_from ::
    "nat \<Rightarrow> ('a \<Rightarrow> 's \<Rightarrow> 's) \<Rightarrow> nat \<Rightarrow> 'a pvl_heap \<Rightarrow> 's \<Rightarrow> 's option" where
  "apply_from 0 f e h s = None"
| "apply_from (Suc n) f e h s =
     (if e = 0 then Some s
      else do { c \<leftarrow> cells h e; apply_from n f (e_next c) h (f (e_data c) s) })"

text \<open>The function applied gets each item and changes the caller's state.\<close>

definition pvl_apply ::
    "pvl_list \<Rightarrow> ('a \<Rightarrow> 's \<Rightarrow> 's) \<Rightarrow> 'a pvl_heap \<Rightarrow> 's \<Rightarrow> 's option" where
  "pvl_apply L f h s = apply_from (fresh h) f (pvl_head L) h s"

end
