(* ===== verification/Compare.thy ===== *)
theory Compare
  imports Prelude "HOL-Library.Multiset"
begin

text \<open>
  Comparison functions in the style of \<open>strcmp\<close> and \<open>qsort\<close>: a negative, zero or
  positive result. The locale \<open>c_compare\<close> states the contract such a function has to keep
  for sorting and searching with it to work (a total preorder); \<open>qsort\<close>, the ordered
  insertion of \<^verbatim>\<open>pvl.c\<close> and the binary search over time zone changes are its clients, and
  the comparison of zone changes and of times are interpreted as instances.
\<close>

section \<open>The contract\<close>

locale c_compare =
  fixes cmp :: "'a \<Rightarrow> 'a \<Rightarrow> int"
  assumes cmp_swap: "cmp a b < 0 \<longleftrightarrow> 0 < cmp b a"
    and cmp_trans: "cmp a b \<le> 0 \<Longrightarrow> cmp b c \<le> 0 \<Longrightarrow> cmp a c \<le> 0"
begin

lemma cmp_refl [simp]: "cmp a a = 0"
  using cmp_swap [of a a] by linarith

lemma cmp_le_swap: "cmp a b \<le> 0 \<longleftrightarrow> 0 \<le> cmp b a"
  using cmp_swap [of b a] by linarith

lemma cmp_total: "cmp a b \<le> 0 \<or> cmp b a \<le> 0"
  using cmp_swap [of a b] by linarith

lemma cmp_less_trans: "cmp a b < 0 \<Longrightarrow> cmp b c \<le> 0 \<Longrightarrow> cmp a c < 0"
proof -
  assume ab: "cmp a b < 0" and bc: "cmp b c \<le> 0"
  have "\<not> cmp c a \<le> 0"
  proof
    assume "cmp c a \<le> 0"
    with bc have "cmp b a \<le> 0" by (rule cmp_trans)
    with ab cmp_swap [of a b] show False by linarith
  qed
  with cmp_swap [of a c] show ?thesis by linarith
qed

end

section \<open>Sorting with \<open>qsort\<close>\<close>

text \<open>
  The C library's \<open>qsort\<close> leaves the order of equal elements open; the model keeps it,
  as the library's merge sort does.
\<close>

fun sort_insert :: "('a \<Rightarrow> 'a \<Rightarrow> int) \<Rightarrow> 'a \<Rightarrow> 'a list \<Rightarrow> 'a list" where
  "sort_insert cmp x [] = [x]"
| "sort_insert cmp x (y # ys) =
     (if cmp x y \<le> 0 then x # y # ys else y # sort_insert cmp x ys)"

definition qsort :: "('a \<Rightarrow> 'a \<Rightarrow> int) \<Rightarrow> 'a list \<Rightarrow> 'a list" where
  "qsort cmp xs = foldr (sort_insert cmp) xs []"

definition cmp_sorted :: "('a \<Rightarrow> 'a \<Rightarrow> int) \<Rightarrow> 'a list \<Rightarrow> bool" where
  "cmp_sorted cmp = sorted_wrt (\<lambda>a b. cmp a b \<le> 0)"

lemma mset_sort_insert [simp]: "mset (sort_insert cmp x xs) = add_mset x (mset xs)"
  by (induction xs) auto

lemma set_sort_insert [simp]: "set (sort_insert cmp x xs) = insert x (set xs)"
  by (induction xs) auto

lemma mset_qsort [simp]: "mset (qsort cmp xs) = mset xs"
  by (induction xs) (simp_all add: qsort_def)

lemma length_qsort [simp]: "length (qsort cmp xs) = length xs"
  by (metis mset_qsort size_mset)

context c_compare
begin

lemma sort_insert_sorted: "cmp_sorted cmp xs \<Longrightarrow> cmp_sorted cmp (sort_insert cmp x xs)"
proof (induction xs)
  case (Cons y ys)
  then have y: "\<forall>z \<in> set ys. cmp y z \<le> 0" and ys: "cmp_sorted cmp ys"
    by (simp_all add: cmp_sorted_def)
  show ?case
  proof (cases "cmp x y \<le> 0")
    case True
    then have "\<forall>z \<in> set ys. cmp x z \<le> 0" using y cmp_trans by blast
    with True y ys show ?thesis by (simp add: cmp_sorted_def)
  next
    case False
    then have "cmp y x \<le> 0" using cmp_total by blast
    with False y Cons.IH [OF ys] show ?thesis by (simp add: cmp_sorted_def)
  qed
qed (simp add: cmp_sorted_def)

lemma qsort_sorted: "cmp_sorted cmp (qsort cmp xs)"
  by (induction xs) (simp_all add: qsort_def sort_insert_sorted, simp add: cmp_sorted_def)

end

section \<open>Comparing field by field\<close>

text \<open>
  The comparison functions of the library test one field after the other. This is the
  comparison of the lists of those fields.
\<close>

fun lex_cmp :: "int list \<Rightarrow> int list \<Rightarrow> int" where
  "lex_cmp [] [] = 0"
| "lex_cmp [] (b # bs) = - 1"
| "lex_cmp (a # as) [] = 1"
| "lex_cmp (a # as) (b # bs) = (if b < a then 1 else if a < b then - 1 else lex_cmp as bs)"

lemma lex_cmp_cases: "lex_cmp as bs = - 1 \<or> lex_cmp as bs = 0 \<or> lex_cmp as bs = 1"
  by (induction as bs rule: lex_cmp.induct) auto

lemma lex_cmp_swap: "lex_cmp bs as = - lex_cmp as bs"
  by (induction as bs rule: lex_cmp.induct) auto

lemma lex_cmp_eq_0 [simp]: "lex_cmp as bs = 0 \<longleftrightarrow> as = bs"
  by (induction as bs rule: lex_cmp.induct) auto

lemma lex_cmp_trans: "lex_cmp as bs \<le> 0 \<Longrightarrow> lex_cmp bs cs \<le> 0 \<Longrightarrow> lex_cmp as cs \<le> 0"
proof (induction as bs arbitrary: cs rule: lex_cmp.induct)
  case 1
  then show ?case by simp
next
  case (2 b bs)
  then show ?case by (cases cs) simp_all
next
  case (3 a as)
  then show ?case by simp
next
  case (4 a as b bs)
  show ?case
  proof (cases cs)
    case Nil
    with 4 show ?thesis by simp
  next
    case (Cons c ds)
    consider "b < a" | "a < b" | "a = b" by linarith
    then show ?thesis
      using 4 Cons by cases (auto split: if_splits)
  qed
qed

interpretation lexcmp: c_compare lex_cmp
proof
  show "lex_cmp a b < 0 \<longleftrightarrow> 0 < lex_cmp b a" for a b
    using lex_cmp_swap [of a b] by linarith
qed (rule lex_cmp_trans)

text \<open>Comparing by a key keeps the contract.\<close>

lemma c_compare_key: "c_compare (\<lambda>a b. lex_cmp (key a) (key b))"
proof
  show "lex_cmp (key a) (key b) < 0 \<longleftrightarrow> 0 < lex_cmp (key b) (key a)" for a b
    by (rule lexcmp.cmp_swap)
  show "lex_cmp (key a) (key b) \<le> 0 \<Longrightarrow> lex_cmp (key b) (key c) \<le> 0 \<Longrightarrow>
        lex_cmp (key a) (key c) \<le> 0" for a b c
    by (rule lexcmp.cmp_trans)
qed

end
