(* ===== verification/PvlSeq.thy ===== *)
theory PvlSeq
  imports Pvl Compare
begin

text \<open>
  What the operations of \<^verbatim>\<open>pvl.c\<close> do to the list of items. \<open>chain\<close> follows the
  pointers of the heap along a list of addresses and items, \<open>pvl_rep\<close> says that a list
  record and a heap represent such a list, and one lemma per operation gives the new list.
  The locale \<open>item_list\<close> holds the laws a caller needs, interpreted by the operations.
\<close>

section \<open>Pointer structure\<close>

fun chain ::
    "(nat \<rightharpoonup> 'a pvl_elem) \<Rightarrow> nat \<Rightarrow> nat \<Rightarrow> (nat \<times> 'a) list \<Rightarrow> nat \<Rightarrow> nat \<Rightarrow> bool" where
  "chain c pri st [] lst nxt \<longleftrightarrow> lst = pri \<and> nxt = st"
| "chain c pri st ((a, x) # r) lst nxt \<longleftrightarrow>
     st = a \<and> a \<noteq> 0 \<and>
     (case c a of None \<Rightarrow> False
      | Some e \<Rightarrow> e_data e = x \<and> e_prior e = pri \<and> chain c a (e_next e) r lst nxt)"

definition heap_ok :: "'a pvl_heap \<Rightarrow> bool" where
  "heap_ok h \<longleftrightarrow> 0 < fresh h \<and> (\<forall>a \<in> dom (cells h). 0 < a \<and> a < fresh h)"

definition pvl_rep :: "'a pvl_heap \<Rightarrow> pvl_list \<Rightarrow> (nat \<times> 'a) list \<Rightarrow> bool" where
  "pvl_rep h L axs \<longleftrightarrow>
     heap_ok h \<and> distinct (map fst axs) \<and> chain (cells h) 0 (l_head L) axs (l_tail L) 0"

lemma chain_app:
  "chain c pri st (xs @ ys) lst nxt \<longleftrightarrow> (\<exists>m k. chain c pri st xs m k \<and> chain c m k ys lst nxt)"
proof (induction xs arbitrary: pri st)
  case (Cons p xs)
  then show ?case by (cases p) (simp split: option.split)
qed simp

lemma chain_upd [simp]:
  "a \<notin> fst ` set xs \<Longrightarrow> chain (c(a := v)) pri st xs lst nxt = chain c pri st xs lst nxt"
  by (induction xs arbitrary: pri st) (auto split: option.splits)

lemma chain_dom: "chain c pri st xs lst nxt \<Longrightarrow> fst ` set xs \<subseteq> dom c"
proof (induction xs arbitrary: pri st)
  case (Cons p xs)
  then show ?case by (cases p) (force split: option.splits)
qed simp

lemma chain_nonzero: "chain c pri st xs lst nxt \<Longrightarrow> 0 \<notin> fst ` set xs"
proof (induction xs arbitrary: pri st)
  case (Cons p xs)
  then show ?case by (cases p) (force split: option.splits)
qed simp

lemma chain_snoc:
  "chain c pri st (xs @ [(a, x)]) lst nxt \<longleftrightarrow>
     lst = a \<and> a \<noteq> 0 \<and> (\<exists>m e. chain c pri st xs m a \<and> c a = Some e \<and> e_data e = x \<and> e_prior e = m
                          \<and> e_next e = nxt)"
  by (auto simp: chain_app split: option.splits)

text \<open>Writing one pointer of the last or the first element of a chain.\<close>

lemma chain_set_next:
  assumes "chain c pri st (xs @ [(a, x)]) lst nxt" "a \<notin> fst ` set xs" "c a = Some e"
  shows "chain (c(a \<mapsto> e\<lparr>e_next := n\<rparr>)) pri st (xs @ [(a, x)]) a n"
  using assms by (auto simp: chain_snoc)

lemma chain_set_prior:
  assumes "chain c pri st ((a, x) # r) lst nxt" "a \<notin> fst ` set r" "c a = Some e"
  shows "chain (c(a \<mapsto> e\<lparr>e_prior := p\<rparr>)) p st ((a, x) # r) lst nxt"
  using assms by auto

lemma chain_ends:
  assumes "chain c pri st xs lst nxt" "xs \<noteq> []"
  shows "st \<in> fst ` set xs" "lst \<in> fst ` set xs"
proof -
  show "st \<in> fst ` set xs" using assms by (cases xs) auto
  from assms(2) obtain ys p where xs: "xs = ys @ [p]" by (cases xs rule: rev_cases) auto
  with assms(1) show "lst \<in> fst ` set xs" by (cases p) (simp add: chain_snoc)
qed

lemma rep_head_zero: "pvl_rep h L axs \<Longrightarrow> l_head L = 0 \<longleftrightarrow> axs = []"
  by (cases axs) (auto simp: pvl_rep_def)

lemma rep_tail_zero: "pvl_rep h L axs \<Longrightarrow> l_tail L = 0 \<longleftrightarrow> axs = []"
  by (cases axs rule: rev_cases) (auto simp: pvl_rep_def chain_snoc)

lemma rep_head: "pvl_rep h L ((a, x) # axs) \<Longrightarrow> l_head L = a"
  by (simp add: pvl_rep_def)

lemma rep_tail: "pvl_rep h L (axs @ [(a, x)]) \<Longrightarrow> l_tail L = a"
  by (simp add: pvl_rep_def chain_snoc)

lemma rep_cell:
  "pvl_rep h L (xs @ (a, x) # ys) \<Longrightarrow> \<exists>e. cells h a = Some e \<and> e_data e = x"
  by (auto simp: pvl_rep_def chain_app split: option.splits)

lemma rep_fresh:
  assumes "pvl_rep h L axs"
  shows "fresh h \<notin> fst ` set axs" "cells h (fresh h) = None" "fresh h \<noteq> 0"
proof -
  have "fst ` set axs \<subseteq> dom (cells h)" using assms by (auto simp: pvl_rep_def dest: chain_dom)
  moreover have "fresh h \<notin> dom (cells h)" "fresh h \<noteq> 0"
    using assms by (auto simp: pvl_rep_def heap_ok_def)
  ultimately show "fresh h \<notin> fst ` set axs" "cells h (fresh h) = None" "fresh h \<noteq> 0"
    by auto
qed

text \<open>The fuel of the loops covers every represented list.\<close>

lemma rep_length:
  assumes "pvl_rep h L axs"
  shows "length axs < fresh h"
proof -
  have "fst ` set axs \<subseteq> dom (cells h)" using assms by (auto simp only: pvl_rep_def dest: chain_dom)
  moreover have "dom (cells h) \<subseteq> {1..<fresh h}"
    using assms by (auto simp: pvl_rep_def heap_ok_def Suc_le_eq)
  ultimately have "fst ` set axs \<subseteq> {1..<fresh h}" by (rule subset_trans)
  then have "card (fst ` set axs) \<le> card {1..<fresh h}" by (rule card_mono [rotated]) simp
  moreover have "card (fst ` set axs) = length axs"
    using assms by (simp add: pvl_rep_def distinct_card flip: set_map)
  ultimately show ?thesis using assms by (auto simp: pvl_rep_def heap_ok_def)
qed

lemma heap_ok_new:
  "heap_ok h \<Longrightarrow> heap_ok (h\<lparr>cells := (cells h)(fresh h \<mapsto> e), fresh := Suc (fresh h), pvl_elem_count := n\<rparr>)"
  by (auto simp: heap_ok_def less_Suc_eq)

lemma heap_ok_write:
  "heap_ok h \<Longrightarrow> a \<in> dom (cells h) \<Longrightarrow> heap_ok (h\<lparr>cells := (cells h)(a \<mapsto> e)\<rparr>)"
  by (auto simp: heap_ok_def)

lemma heap_ok_free: "heap_ok h \<Longrightarrow> heap_ok (free_cell a h)"
  by (auto simp: heap_ok_def free_cell_def)

section \<open>Each operation on the list of items\<close>

lemma rep_newlist: "heap_ok h \<Longrightarrow> pvl_newlist h = (L, h') \<Longrightarrow> pvl_rep h' L [] \<and> l_count L = 0"
  by (auto simp: pvl_newlist_def pvl_rep_def heap_ok_def)

lemma rep_push:
  assumes rep: "pvl_rep h L axs"
  shows "\<exists>L' h'. pvl_push L x h = Some (L', h') \<and> pvl_rep h' L' (axs @ [(fresh h, x)]) \<and>
           l_count L' = l_count L + 1 \<and> fresh h' = Suc (fresh h)"
proof (cases axs rule: rev_cases)
  case Nil
  with rep rep_fresh [OF rep] show ?thesis
    by (simp add: pvl_push_def pvl_new_element_def pvl_rep_def heap_ok_new)
next
  case (snoc ys p)
  obtain a y where p: "p = (a, y)" by force
  note rep' = rep [unfolded snoc p]
  have a: "l_tail L = a" "a \<noteq> 0" "l_head L \<noteq> 0"
    using rep_tail [OF rep'] rep_tail_zero [OF rep'] rep_head_zero [OF rep'] by simp_all
  obtain e where e: "cells h a = Some e" using rep_cell [OF rep'] by blast
  note f = rep_fresh [OF rep', simplified]
  have "a \<notin> fst ` set ys" "chain (cells h) 0 (l_head L) (ys @ [(a, y)]) (l_tail L) 0"
    using rep' by (simp_all add: pvl_rep_def)
  then have "chain ((cells h)(a \<mapsto> e\<lparr>e_next := fresh h\<rparr>)) 0 (l_head L) (ys @ [(a, y)]) a (fresh h)"
    using e by (intro chain_set_next) auto
  then have "chain ((cells h)(fresh h \<mapsto> E, a \<mapsto> e\<lparr>e_next := fresh h\<rparr>)) 0 (l_head L)
               (ys @ [(a, y)]) a (fresh h)" for E
    using f by (subst fun_upd_twist) auto
  note c = this
  let ?e = "\<lparr>e_magic = pvl_elem_count h, e_data = x, e_next = 0, e_prior = a\<rparr>"
  let ?c = "(cells h)(fresh h \<mapsto> ?e, a \<mapsto> e\<lparr>e_next := fresh h\<rparr>)"
  let ?h = "h\<lparr>fresh := Suc (fresh h), pvl_elem_count := pvl_elem_count h + 1, cells := ?c\<rparr>"
  let ?L = "L\<lparr>l_tail := fresh h, l_count := l_count L + 1\<rparr>"
  have eq: "pvl_push L x h = Some (?L, ?h)"
    using a e f by (simp add: pvl_push_def pvl_new_element_def set_next_def)
  have "heap_ok ?h"
    using rep' e by (auto simp: pvl_rep_def heap_ok_def less_Suc_eq)
  moreover have "chain ?c 0 (l_head L) ((ys @ [(a, y)]) @ [(fresh h, x)]) (fresh h) 0"
    using c [of ?e] f by (subst chain_app) auto
  moreover have "distinct (map fst ((ys @ [(a, y)]) @ [(fresh h, x)]))"
    using rep' f by (auto simp: pvl_rep_def)
  ultimately have "pvl_rep ?h ?L (axs @ [(fresh h, x)])"
    unfolding pvl_rep_def snoc p by simp
  with eq show ?thesis by simp
qed

lemma rep_unshift:
  assumes rep: "pvl_rep h L axs"
  shows "\<exists>L' h'. pvl_unshift L x h = Some (L', h') \<and> pvl_rep h' L' ((fresh h, x) # axs) \<and>
           l_count L' = l_count L + 1 \<and> fresh h' = Suc (fresh h)"
proof (cases axs)
  case Nil
  with rep rep_fresh [OF rep] show ?thesis
    by (simp add: pvl_unshift_def pvl_new_element_def pvl_rep_def heap_ok_new)
next
  case (Cons p ys)
  obtain a y where p: "p = (a, y)" by force
  note rep' = rep [unfolded Cons p]
  have a: "l_head L = a" "a \<noteq> 0" "l_tail L \<noteq> 0"
    using rep_head [OF rep'] rep_tail_zero [OF rep'] rep_head_zero [OF rep'] by simp_all
  obtain e where e: "cells h a = Some e" using rep_cell [of h L "[]" a y ys] rep' by auto
  note f = rep_fresh [OF rep', simplified]
  let ?e = "\<lparr>e_magic = pvl_elem_count h, e_data = x, e_next = a, e_prior = 0\<rparr>"
  let ?c = "(cells h)(fresh h \<mapsto> ?e, a \<mapsto> e\<lparr>e_prior := fresh h\<rparr>)"
  let ?h = "h\<lparr>fresh := Suc (fresh h), pvl_elem_count := pvl_elem_count h + 1, cells := ?c\<rparr>"
  let ?L = "L\<lparr>l_head := fresh h, l_count := l_count L + 1\<rparr>"
  have eq: "pvl_unshift L x h = Some (?L, ?h)"
    using a e f by (simp add: pvl_unshift_def pvl_new_element_def set_prior_def)
  have "heap_ok ?h"
    using rep' e by (auto simp: pvl_rep_def heap_ok_def less_Suc_eq)
  moreover have "chain ?c (fresh h) a ((a, y) # ys) (l_tail L) 0"
    using rep' e f a by (auto simp: pvl_rep_def fun_upd_twist)
  moreover have "distinct (map fst ((fresh h, x) # (a, y) # ys))"
    using rep' f by (auto simp: pvl_rep_def)
  ultimately have "pvl_rep ?h ?L ((fresh h, x) # axs)"
    using f unfolding pvl_rep_def Cons p by simp
  with eq show ?thesis by simp
qed

lemma chain_split:
  "chain c pri st (xs @ (a, x) # ys) lst nxt \<longleftrightarrow>
     (\<exists>e. c a = Some e \<and> a \<noteq> 0 \<and> e_data e = x \<and> chain c pri st xs (e_prior e) a \<and>
          chain c a (e_next e) ys lst nxt)"
  by (auto simp: chain_app split: option.splits)

lemma rep_remove:
  assumes rep: "pvl_rep h L (xs @ (a, x) # ys)"
  shows "\<exists>L' h'. pvl_remove L a h = Some (x, L', h') \<and> pvl_rep h' L' (xs @ ys) \<and>
           l_count L' = l_count L - 1 \<and> fresh h' = fresh h \<and> l_p L' = l_p L"
proof -
  have ok: "heap_ok h" and dist: "distinct (map fst (xs @ (a, x) # ys))"
    and ch: "chain (cells h) 0 (l_head L) (xs @ (a, x) # ys) (l_tail L) 0"
    using rep by (simp_all add: pvl_rep_def)
  from ch obtain e where e: "cells h a = Some e" "a \<noteq> 0" "e_data e = x"
    and left: "chain (cells h) 0 (l_head L) xs (e_prior e) a"
    and right: "chain (cells h) a (e_next e) ys (l_tail L) 0"
    by (auto simp: chain_split)
  show ?thesis
  proof (cases "xs = []")
    case xs: True
    then have hd: "l_head L = a" using left by simp
    show ?thesis
    proof (cases ys)
      case Nil
      then show ?thesis
        using xs hd e ok right
        by (simp add: pvl_remove_def pvl_rep_def heap_ok_free) (simp add: free_cell_def)
    next
      case (Cons q zs)
      obtain b z where q: "q = (b, z)" by force
      from right Cons q have b: "e_next e = b" "b \<noteq> 0" by simp_all
      obtain eb where eb: "cells h b = Some eb" using right Cons q by (auto split: option.splits)
      have d: "b \<notin> fst ` set zs" "a \<notin> fst ` set zs" "a \<noteq> b" "distinct (map fst zs)"
        using dist Cons q by auto
      have "chain ((cells h)(b \<mapsto> eb\<lparr>e_prior := 0\<rparr>, a := None)) 0 b ((b, z) # zs) (l_tail L) 0"
        using right Cons q eb d b by simp
      then show ?thesis
        using xs hd e ok Cons q b eb d
        by (simp add: pvl_remove_def pvl_rep_def set_prior_def free_cell_def) (auto simp: heap_ok_def)
    qed
  next
    case False
    then obtain us b y where xs: "xs = us @ [(b, y)]" by (cases xs rule: rev_cases) auto
    from left xs have b: "e_prior e = b" "b \<noteq> 0" by (simp_all add: chain_snoc)
    obtain eb where eb: "cells h b = Some eb" using left xs by (auto simp: chain_snoc)
    have d: "b \<notin> fst ` set us" "a \<notin> fst ` set us" "a \<noteq> b" "distinct (map fst us)"
      using dist xs by auto
    have hd: "l_head L \<noteq> a"
      using chain_ends(1) [OF left False] dist by auto
    have left': "chain ((cells h)(b \<mapsto> eb\<lparr>e_next := n\<rparr>, a := None)) 0 (l_head L) xs b n" for n
      using left xs eb d chain_set_next [of "cells h" 0 "l_head L" us b y _ a eb n] by simp
    show ?thesis
    proof (cases ys)
      case Nil
      then have "l_tail L = a" using right by simp
      then show ?thesis
        using hd e ok Nil b eb d left' [of 0] dist
        by (simp add: pvl_remove_def pvl_rep_def set_next_def free_cell_def) (auto simp: heap_ok_def)
    next
      case (Cons q zs)
      obtain c z where q: "q = (c, z)" by force
      from right Cons q have c: "e_next e = c" "c \<noteq> 0" by simp_all
      obtain ec where ec: "cells h c = Some ec" using right Cons q by (auto split: option.splits)
      have dc: "c \<notin> fst ` set zs" "a \<noteq> c" "b \<noteq> c" "a \<notin> fst ` set zs" "b \<notin> fst ` set zs" "c \<notin> fst ` set us"
        using dist Cons q xs by auto
      have tl: "l_tail L \<noteq> a"
        using chain_ends(2) [OF right] Cons dist by auto
      let ?c = "(cells h)(b \<mapsto> eb\<lparr>e_next := c\<rparr>, c \<mapsto> ec\<lparr>e_prior := b\<rparr>, a := None)"
      have "chain ?c b c ys (l_tail L) 0"
        using right Cons q ec dc by simp
      moreover have "chain ?c 0 (l_head L) xs b c"
        using left' [of c] dc d xs by (simp add: fun_upd_twist)
      ultimately have "chain ?c 0 (l_head L) (xs @ ys) (l_tail L) 0" by (auto simp: chain_app)
      then show ?thesis
        using hd tl e ok b eb c ec dc d dist
        by (simp add: pvl_remove_def pvl_rep_def set_next_def set_prior_def free_cell_def)
           (auto simp: heap_ok_def)
    qed
  qed
qed

lemma rep_insert_before:
  assumes rep: "pvl_rep h L (xs @ (a, x) # ys)"
  shows "\<exists>L' h'. pvl_insert_before L a v h = Some (L', h') \<and>
           pvl_rep h' L' (xs @ (fresh h, v) # (a, x) # ys) \<and>
           l_count L' = l_count L + 1 \<and> fresh h' = Suc (fresh h)"
proof -
  have ok: "heap_ok h" and dist: "distinct (map fst (xs @ (a, x) # ys))"
    and ch: "chain (cells h) 0 (l_head L) (xs @ (a, x) # ys) (l_tail L) 0"
    using rep by (simp_all add: pvl_rep_def)
  from ch obtain e where e: "cells h a = Some e" "a \<noteq> 0" "e_data e = x"
    and left: "chain (cells h) 0 (l_head L) xs (e_prior e) a"
    and right: "chain (cells h) a (e_next e) ys (l_tail L) 0"
    by (auto simp: chain_split)
  note f = rep_fresh [OF rep, simplified, unfolded image_Un Un_iff de_Morgan_disj]
  show ?thesis
  proof (cases "xs = []")
    case True
    then have hd: "l_head L = a" using left by simp
    then show ?thesis
      using True ok dist e right f
      by (simp add: pvl_insert_before_def pvl_new_element_def set_prior_def pvl_rep_def)
         (auto simp: heap_ok_def less_Suc_eq)
  next
    case False
    then obtain us b y where xs: "xs = us @ [(b, y)]" by (cases xs rule: rev_cases) auto
    from left xs have b: "e_prior e = b" "b \<noteq> 0" by (simp_all add: chain_snoc)
    obtain eb where eb: "cells h b = Some eb" using left xs by (auto simp: chain_snoc)
    have d: "b \<notin> fst ` set us" "a \<notin> fst ` set us" "a \<noteq> b" "fresh h \<noteq> b" "fresh h \<noteq> a"
      using dist xs f by auto
    have hd: "l_head L \<noteq> a" using chain_ends(1) [OF left False] dist by auto
    let ?E = "\<lparr>e_magic = pvl_elem_count h, e_data = v, e_next = a, e_prior = b\<rparr>"
    let ?c = "(cells h)(fresh h \<mapsto> ?E, b \<mapsto> eb\<lparr>e_next := fresh h\<rparr>, a \<mapsto> e\<lparr>e_prior := fresh h\<rparr>)"
    have "chain ((cells h)(b \<mapsto> eb\<lparr>e_next := fresh h\<rparr>)) 0 (l_head L) xs b (fresh h)"
      using chain_set_next [of "cells h" 0 "l_head L" us b y _ a eb] left xs d eb by simp
    moreover have "?c = (cells h)(b \<mapsto> eb\<lparr>e_next := fresh h\<rparr>, fresh h \<mapsto> ?E, a \<mapsto> e\<lparr>e_prior := fresh h\<rparr>)"
      using d by (simp add: fun_upd_twist)
    ultimately have "chain ?c 0 (l_head L) xs b (fresh h)" using dist f by simp
    moreover have "chain ?c b (fresh h) ((fresh h, v) # (a, x) # ys) (l_tail L) 0"
      using right e d dist f xs by simp
    ultimately have "chain ?c 0 (l_head L) (xs @ (fresh h, v) # (a, x) # ys) (l_tail L) 0"
      by (subst chain_app) blast
    then show ?thesis
      using hd e ok b eb d dist f
      by (simp add: pvl_insert_before_def pvl_new_element_def pvl_rep_def set_next_def set_prior_def)
         (auto simp: heap_ok_def less_Suc_eq)
  qed
qed

lemma rep_insert_after:
  assumes rep: "pvl_rep h L (xs @ (a, x) # ys)"
  shows "\<exists>L' h'. pvl_insert_after L a v h = Some (L', h') \<and>
           pvl_rep h' L' (xs @ (a, x) # (fresh h, v) # ys) \<and>
           l_count L' = l_count L + 1 \<and> fresh h' = Suc (fresh h)"
proof -
  have ok: "heap_ok h" and dist: "distinct (map fst (xs @ (a, x) # ys))"
    and ch: "chain (cells h) 0 (l_head L) (xs @ (a, x) # ys) (l_tail L) 0"
    using rep by (simp_all add: pvl_rep_def)
  from ch obtain e where e: "cells h a = Some e" "a \<noteq> 0" "e_data e = x"
    and left: "chain (cells h) 0 (l_head L) xs (e_prior e) a"
    and right: "chain (cells h) a (e_next e) ys (l_tail L) 0"
    by (auto simp: chain_split)
  note f = rep_fresh [OF rep, simplified, unfolded image_Un Un_iff de_Morgan_disj]
  show ?thesis
  proof (cases ys)
    case Nil
    then have tl: "l_tail L = a" using right by simp
    let ?E = "\<lparr>e_magic = pvl_elem_count h, e_data = v, e_next = 0, e_prior = a\<rparr>"
    let ?c = "(cells h)(fresh h \<mapsto> ?E, a \<mapsto> e\<lparr>e_next := fresh h\<rparr>)"
    have "chain ?c 0 (l_head L) (xs @ (a, x) # (fresh h, v) # ys) (fresh h) 0"
      using left e dist f Nil by (subst chain_app) auto
    then show ?thesis
      using tl e ok f dist
      by (simp add: pvl_insert_after_def pvl_new_element_def pvl_rep_def set_next_def)
         (auto simp: heap_ok_def less_Suc_eq)
  next
    case (Cons q zs)
    obtain c z where q: "q = (c, z)" by force
    from right Cons q have c: "e_next e = c" "c \<noteq> 0" by simp_all
    obtain ec where ec: "cells h c = Some ec" using right Cons q by (auto split: option.splits)
    have d: "c \<notin> fst ` set zs" "a \<noteq> c" "c \<notin> fst ` set xs" "fresh h \<noteq> a" "fresh h \<noteq> c"
      "a \<notin> fst ` set zs" "a \<notin> fst ` set xs"
      using dist Cons q f by auto
    have tl: "l_tail L \<noteq> a" using chain_ends(2) [OF right] Cons dist by auto
    let ?E = "\<lparr>e_magic = pvl_elem_count h, e_data = v, e_next = c, e_prior = a\<rparr>"
    let ?c = "(cells h)(fresh h \<mapsto> ?E, c \<mapsto> ec\<lparr>e_prior := fresh h\<rparr>, a \<mapsto> e\<lparr>e_next := fresh h\<rparr>)"
    have "chain ?c a (fresh h) ((fresh h, v) # ys) (l_tail L) 0"
      using right Cons q ec d f by simp
    moreover have "chain ?c 0 (l_head L) xs (e_prior e) a"
      using left d f dist by simp
    ultimately have "chain ?c 0 (l_head L) (xs @ (a, x) # (fresh h, v) # ys) (l_tail L) 0"
      using e by (subst chain_app) auto
    then show ?thesis
      using tl e ok c ec d dist f
      by (simp add: pvl_insert_after_def pvl_new_element_def pvl_rep_def set_next_def set_prior_def)
         (auto simp: heap_ok_def less_Suc_eq)
  qed
qed

text \<open>
  The loops over a list (search, application, clearing, ordered insertion) and the
  interface of the list as its callers see it: a value with a list of items, on which
  each operation has one law. The operations of \<^verbatim>\<open>pvl.c\<close> are interpreted as such a list.
\<close>

section \<open>Loops\<close>

lemma chain_start: "chain c pri st xs lst 0 \<Longrightarrow> st = (case xs of [] \<Rightarrow> 0 | p # _ \<Rightarrow> fst p)"
  by (cases xs) (auto split: option.splits)

lemma apply_from_chain:
  assumes "chain (cells h) pri st axs lst 0" "length axs < n"
  shows "apply_from n f st h s = Some (fold f (map snd axs) s)"
  using assms
proof (induction axs arbitrary: pri st n s)
  case Nil
  then show ?case by (cases n) auto
next
  case (Cons p axs)
  obtain a x where "p = (a, x)" by force
  with Cons show ?case by (cases n) (auto split: option.splits)
qed

lemma walk_find_chain:
  assumes "chain (cells h) pri st axs lst 0" "length axs < n"
  shows "walk_find n f v st h =
           Some (case List.find (\<lambda>p. f (snd p) v = 1) axs of None \<Rightarrow> 0 | Some p \<Rightarrow> fst p)"
  using assms
proof (induction axs arbitrary: pri st n)
  case Nil
  then show ?case by (cases n) auto
next
  case (Cons p axs)
  obtain a x where "p = (a, x)" by force
  with Cons show ?case by (cases n) (auto split: option.splits)
qed

lemma walk_ordered_chain:
  assumes "chain (cells h) pri st (xs @ (a, y) # ys) lst 0" "length (xs @ (a, y) # ys) < n"
    and "\<forall>p \<in> set xs. f (snd p) x < 0" "0 \<le> f y x"
  shows "walk_ordered n f x st h = Some a"
  using assms
proof (induction xs arbitrary: pri st n)
  case Nil
  then show ?case by (cases n) (auto split: option.splits)
next
  case (Cons p xs)
  obtain b z where "p = (b, z)" by force
  with Cons show ?case by (cases n) (auto split: option.splits)
qed

lemma rep_apply: "pvl_rep h L axs \<Longrightarrow> pvl_apply L f h s = Some (fold f (map snd axs) s)"
  using rep_length [of h L axs] by (auto simp: pvl_apply_def pvl_head_def pvl_rep_def apply_from_chain)

lemma clear_from_rep:
  assumes "pvl_rep h L axs" "length axs < n"
  shows "\<exists>L' h'. clear_from n (l_head L) L h = Some (L', h') \<and> pvl_rep h' L' [] \<and>
           l_count L' = l_count L - int (length axs)"
  using assms
proof (induction axs arbitrary: h L n)
  case Nil
  then have "l_head L = 0" using rep_head_zero by fastforce
  with Nil show ?case by (cases n) auto
next
  case (Cons p axs)
  obtain a x where p: "p = (a, x)" by force
  note rep = Cons.prems(1) [unfolded p]
  from rep_remove [of h L "[]" a x axs] rep obtain L1 h1
    where r: "pvl_remove L a h = Some (x, L1, h1)" "pvl_rep h1 L1 axs" "l_count L1 = l_count L - 1"
    by auto
  obtain m where n: "n = Suc m" "length axs < m" using Cons.prems(2) by (cases n) auto
  have hd: "l_head L = a" "a \<noteq> 0" using rep_head [OF rep] rep_head_zero [OF rep] by auto
  obtain e where e: "cells h a = Some e" "chain (cells h) a (e_next e) axs (l_tail L) 0"
    using rep by (auto simp: pvl_rep_def split: option.splits)
  have "e_next e = l_head L1"
    using chain_start [OF e(2)] chain_start [of "cells h1" 0 "l_head L1" axs "l_tail L1"] r(2)
    by (simp add: pvl_rep_def)
  with Cons.IH [OF r(2) n(2)] show ?case
    using r n hd e(1) by (auto simp: pvl_next_def)
qed

lemma rep_clear:
  assumes "pvl_rep h L axs"
  shows "\<exists>L' h'. pvl_clear L h = Some (L', h') \<and> pvl_rep h' L' [] \<and>
           l_count L' = l_count L - int (length axs)"
  using clear_from_rep [OF assms rep_length [OF assms]] rep_head_zero [OF assms] assms
  by (auto simp: pvl_clear_def pvl_head_def)

section \<open>Ordered insertion\<close>

lemma split_at_insert_point:
  assumes "\<exists>y \<in> set xs. \<not> P y"
  shows "\<exists>us y vs. xs = us @ y # vs \<and> (\<forall>u \<in> set us. P u) \<and> \<not> P y"
  using assms split_list_first_prop [of xs "\<lambda>y. \<not> P y"] by blast

context c_compare
begin

text \<open>
  The item goes before the first item that is not smaller, and the list stays sorted. The
  count, which each of the three inserting routines increments as well, grows by two.
\<close>

lemma rep_insert_ordered:
  assumes rep: "pvl_rep h L axs" and srt: "cmp_sorted cmp (map snd axs)"
  shows "\<exists>L' h' us vs. pvl_insert_ordered L cmp x h = Some (L', h') \<and> axs = us @ vs \<and>
           pvl_rep h' L' (us @ (fresh h, x) # vs) \<and>
           cmp_sorted cmp (map snd us @ x # map snd vs) \<and> l_count L' = l_count L + 2"
proof -
  let ?L = "L\<lparr>l_count := l_count L + 1\<rparr>"
  have rep1: "pvl_rep h ?L axs" using rep by (simp add: pvl_rep_def)
  consider "axs = []"
    | b y ys where "axs = (b, y) # ys" "cmp x y \<le> 0"
    | b y ys us c z where "axs = (b, y) # ys" "\<not> cmp x y \<le> 0" "axs = us @ [(c, z)]" "0 \<le> cmp x z"
    | b y ys us c z where "axs = (b, y) # ys" "\<not> cmp x y \<le> 0" "axs = us @ [(c, z)]" "\<not> 0 \<le> cmp x z"
    by (metis neq_Nil_conv old.prod.exhaust rev_exhaust)
  then show ?thesis
  proof cases
    case 1
    with rep_unshift [OF rep1, of x] rep_head_zero [OF rep1] show ?thesis
      by (auto simp: pvl_insert_ordered_def cmp_sorted_def intro: exI [of _ "[]"])
  next
    case (2 b y ys)
    have hd: "l_head L = b" "b \<noteq> 0" using rep_head [of h ?L b y ys] rep_head_zero [OF rep1] rep1 2 by auto
    obtain e where "cells h b = Some e" "e_data e = y" using rep_cell [of h ?L "[]" b y ys] rep1 2 by auto
    moreover have "\<forall>z \<in> snd ` set ys. cmp x z \<le> 0"
      using srt 2 cmp_trans by (auto simp: cmp_sorted_def)
    ultimately have srt': "cmp_sorted cmp (x # map snd axs)"
      and eq: "pvl_insert_ordered L cmp x h = pvl_unshift ?L x h"
      using hd 2 srt by (auto simp: pvl_insert_ordered_def cmp_sorted_def)
    obtain L' h' where "pvl_unshift ?L x h = Some (L', h')" "pvl_rep h' L' ((fresh h, x) # axs)"
      "l_count L' = l_count L + 2"
      using rep_unshift [OF rep1, of x] by auto
    with srt' eq show ?thesis
      by (intro exI [of _ L'] exI [of _ h'] exI [of _ "[]"] exI [of _ axs]) simp
  next
    case (3 b y ys us c z)
    have hd: "l_head L = b" "b \<noteq> 0" using rep_head [of h ?L b y ys] rep_head_zero [OF rep1] rep1 3 by auto
    have tl: "l_tail L = c" using rep_tail [of h ?L us c z] rep1 3 by auto
    obtain e where e: "cells h b = Some e" "e_data e = y" using rep_cell [of h ?L "[]" b y ys] rep1 3 by auto
    obtain e' where e': "cells h c = Some e'" "e_data e' = z" using rep_cell [of h ?L us c z "[]"] rep1 3 by auto
    have "cmp z x \<le> 0" using 3(4) cmp_le_swap by blast
    moreover have "\<forall>p \<in> set us. cmp (snd p) z \<le> 0"
      using srt 3(3) by (auto simp: cmp_sorted_def sorted_wrt_append)
    ultimately have "\<forall>p \<in> set axs. cmp (snd p) x \<le> 0"
      using cmp_trans 3(3) by auto
    with srt have "cmp_sorted cmp (map snd axs @ [x])"
      by (auto simp: cmp_sorted_def sorted_wrt_append)
    moreover have "pvl_insert_ordered L cmp x h = pvl_push ?L x h"
      using hd tl e e' 3 by (auto simp: pvl_insert_ordered_def)
    moreover obtain L' h' where "pvl_push ?L x h = Some (L', h')"
      "pvl_rep h' L' (axs @ [(fresh h, x)])" "l_count L' = l_count L + 2"
      using rep_push [OF rep1, of x] by auto
    ultimately show ?thesis
      by (intro exI [of _ L'] exI [of _ h'] exI [of _ axs] exI [of _ "[]"]) simp
  next
    case (4 b y ys us c z)
    have hd: "l_head L = b" "b \<noteq> 0" using rep_head [of h ?L b y ys] rep_head_zero [OF rep1] rep1 4 by auto
    have tl: "l_tail L = c" using rep_tail [of h ?L us c z] rep1 4 by auto
    obtain e where e: "cells h b = Some e" "e_data e = y" using rep_cell [of h ?L "[]" b y ys] rep1 4 by auto
    obtain e' where e': "cells h c = Some e'" "e_data e' = z" using rep_cell [of h ?L us c z "[]"] rep1 4 by auto
    have "\<exists>p \<in> set axs. \<not> cmp (snd p) x < 0" using 4(3,4) cmp_swap [of x z] by force
    then obtain vs p ws where s: "axs = vs @ p # ws" "\<forall>u \<in> set vs. cmp (snd u) x < 0" "\<not> cmp (snd p) x < 0"
      using split_at_insert_point [of axs "\<lambda>p. cmp (snd p) x < 0"] by blast
    obtain d w where p: "p = (d, w)" by force
    have rep1': "pvl_rep h ?L (vs @ (d, w) # ws)" using rep1 s(1) p by simp
    have wo: "walk_ordered (fresh h) cmp x (l_head ?L) h = Some d"
      using rep1' s p rep_length [OF rep1'] by (intro walk_ordered_chain) (auto simp: pvl_rep_def)
    have "\<forall>q \<in> set ((d, w) # ws). cmp x (snd q) \<le> 0"
    proof -
      have "cmp x w \<le> 0" using s(3) p cmp_le_swap [of x w] by simp
      moreover have "\<forall>q \<in> set ws. cmp w (snd q) \<le> 0"
        using srt s(1) p by (auto simp: cmp_sorted_def sorted_wrt_append)
      ultimately show ?thesis using cmp_trans by auto
    qed
    moreover have "cmp_sorted cmp (map snd vs @ map snd ((d, w) # ws))" using srt s(1) p by simp
    ultimately have "cmp_sorted cmp (map snd vs @ x # map snd ((d, w) # ws))"
      using s(2) by (auto simp: cmp_sorted_def sorted_wrt_append intro: less_imp_le)
    moreover have "pvl_insert_ordered L cmp x h = pvl_insert_before ?L d x h"
      using wo hd tl e e' 4 by (auto simp: pvl_insert_ordered_def)
    moreover obtain L' h' where "pvl_insert_before ?L d x h = Some (L', h')"
      "pvl_rep h' L' (vs @ (fresh h, x) # (d, w) # ws)" "l_count L' = l_count L + 2"
      using rep_insert_before [OF rep1', of x] by auto
    ultimately show ?thesis
      using s(1) p
      by (intro exI [of _ L'] exI [of _ h'] exI [of _ vs] exI [of _ "(d, w) # ws"]) simp
  qed
qed

end

section \<open>The list as its callers see it\<close>

text \<open>
  A state with a list of items: adding at either end and taking from either end. The
  laws are those of a double-ended queue; the lemmas are what a caller that fills a list
  and then reads or drains it needs.
\<close>

locale item_list =
  fixes items :: "'s \<Rightarrow> 'a list"
    and good :: "'s \<Rightarrow> bool"
    and push :: "'a \<Rightarrow> 's \<Rightarrow> 's option"
    and unshift :: "'a \<Rightarrow> 's \<Rightarrow> 's option"
    and shift :: "'s \<Rightarrow> ('a option \<times> 's) option"
    and pop :: "'s \<Rightarrow> ('a option \<times> 's) option"
  assumes push_items: "good s \<Longrightarrow> \<exists>s'. push x s = Some s' \<and> good s' \<and> items s' = items s @ [x]"
    and unshift_items: "good s \<Longrightarrow> \<exists>s'. unshift x s = Some s' \<and> good s' \<and> items s' = x # items s"
    and shift_empty: "good s \<Longrightarrow> items s = [] \<Longrightarrow> shift s = Some (None, s)"
    and shift_items: "good s \<Longrightarrow> items s = x # xs \<Longrightarrow>
           \<exists>s'. shift s = Some (Some x, s') \<and> good s' \<and> items s' = xs"
    and pop_empty: "good s \<Longrightarrow> items s = [] \<Longrightarrow> pop s = Some (None, s)"
    and pop_items: "good s \<Longrightarrow> items s = xs @ [x] \<Longrightarrow>
           \<exists>s'. pop s = Some (Some x, s') \<and> good s' \<and> items s' = xs"
begin

primrec push_all :: "'a list \<Rightarrow> 's \<Rightarrow> 's option" where
  "push_all [] s = Some s"
| "push_all (x # xs) s = Option.bind (push x s) (push_all xs)"

primrec shift_n :: "nat \<Rightarrow> 's \<Rightarrow> ('a option list \<times> 's) option" where
  "shift_n 0 s = Some ([], s)"
| "shift_n (Suc n) s =
     Option.bind (shift s) (\<lambda>(x, s1). map_option (\<lambda>(ys, s2). (x # ys, s2)) (shift_n n s1))"

lemma push_all_items:
  "good s \<Longrightarrow> \<exists>s'. push_all xs s = Some s' \<and> good s' \<and> items s' = items s @ xs"
proof (induction xs arbitrary: s)
  case (Cons x xs)
  from push_items [OF Cons.prems, of x] obtain s1
    where "push x s = Some s1" "good s1" "items s1 = items s @ [x]" by blast
  with Cons.IH [of s1] show ?case by auto
qed simp

lemma shift_n_items:
  "good s \<Longrightarrow> items s = xs @ ys \<Longrightarrow>
     \<exists>s'. shift_n (length xs) s = Some (map Some xs, s') \<and> good s' \<and> items s' = ys"
proof (induction xs arbitrary: s)
  case (Cons x xs)
  from shift_items [of s x "xs @ ys"] Cons.prems obtain s1
    where "shift s = Some (Some x, s1)" "good s1" "items s1 = xs @ ys" by auto
  with Cons.IH [of s1] show ?case by auto
qed simp

text \<open>Items come out at the front in the order they were added at the back.\<close>

lemma fifo:
  assumes "good s" "items s = []"
  shows "\<exists>s1 s2. push_all xs s = Some s1 \<and> shift_n (length xs) s1 = Some (map Some xs, s2) \<and>
           good s2 \<and> items s2 = []"
proof -
  from push_all_items [OF assms(1), of xs] assms(2) obtain s1
    where s1: "push_all xs s = Some s1" "good s1" "items s1 = xs" by auto
  with shift_n_items [of s1 xs "[]"] show ?thesis by auto
qed

end

text \<open>
  The state is a list record and its heap; its items are read by walking the list. The
  count of the record is the number of items.
\<close>

definition pvl_items :: "pvl_list \<times> 'a pvl_heap \<Rightarrow> 'a list" where
  "pvl_items s = (case pvl_apply (fst s) (\<lambda>x acc. x # acc) (snd s) [] of
                    None \<Rightarrow> [] | Some acc \<Rightarrow> rev acc)"

definition pvl_good :: "pvl_list \<times> 'a pvl_heap \<Rightarrow> bool" where
  "pvl_good s \<longleftrightarrow> (\<exists>axs. pvl_rep (snd s) (fst s) axs \<and> l_count (fst s) = int (length axs))"

lemma rep_items: "pvl_rep h L axs \<Longrightarrow> pvl_items (L, h) = map snd axs"
  using rep_apply [of h L axs "\<lambda>x acc. x # acc" "[]"] by (simp add: pvl_items_def fold_Cons_rev)

lemma pvl_good_rep:
  "pvl_good (L, h) \<Longrightarrow> \<exists>axs. pvl_rep h L axs \<and> l_count L = int (length axs) \<and> pvl_items (L, h) = map snd axs"
  unfolding pvl_good_def using rep_items by fastforce

lemma pvl_goodI: "pvl_rep h L axs \<Longrightarrow> l_count L = int (length axs) \<Longrightarrow> pvl_good (L, h)"
  by (auto simp: pvl_good_def)

lemma pvl_remove_good:
  assumes "pvl_rep h L (xs @ (a, x) # ys)" "l_count L = int (length (xs @ (a, x) # ys))"
  shows "\<exists>L' h'. pvl_remove L a h = Some (x, L', h') \<and> pvl_good (L', h') \<and>
           pvl_items (L', h') = map snd (xs @ ys)"
  using rep_remove [OF assms(1)] assms(2) by (auto intro!: pvl_goodI simp: rep_items)

interpretation pvlq: item_list pvl_items pvl_good
  "\<lambda>x s. pvl_push (fst s) x (snd s)" "\<lambda>x s. pvl_unshift (fst s) x (snd s)"
  "\<lambda>s. pvl_shift (fst s) (snd s)" "\<lambda>s. pvl_pop (fst s) (snd s)"
proof (unfold_locales, goal_cases)
  case (1 s x)
  then obtain L h axs where s: "s = (L, h)" "pvl_rep h L axs" "l_count L = int (length axs)"
    "pvl_items s = map snd axs" using pvl_good_rep by (cases s) blast
  with rep_push [OF s(2), of x] show ?case by (auto intro!: pvl_goodI simp: rep_items)
next
  case (2 s x)
  then obtain L h axs where s: "s = (L, h)" "pvl_rep h L axs" "l_count L = int (length axs)"
    "pvl_items s = map snd axs" using pvl_good_rep by (cases s) blast
  with rep_unshift [OF s(2), of x] show ?case by (auto intro!: pvl_goodI simp: rep_items)
next
  case (3 s)
  then obtain L h axs where s: "s = (L, h)" "pvl_rep h L axs" "pvl_items s = map snd axs"
    using pvl_good_rep by (cases s) blast
  with 3 rep_head_zero [OF s(2)] show ?case by (simp add: pvl_shift_def)
next
  case (4 s x xs)
  then obtain L h axs where s: "s = (L, h)" "pvl_rep h L axs" "l_count L = int (length axs)"
    "pvl_items s = map snd axs" using pvl_good_rep by (cases s) blast
  with 4(2) obtain a ys where axs: "axs = [] @ (a, x) # ys" "map snd ys = xs" by auto
  with s rep_head [of h L a x ys] rep_head_zero [OF s(2)] have hd: "l_head L = a" "a \<noteq> 0" by auto
  from pvl_remove_good [of h L "[]" a x ys] s axs hd show ?case
    by (auto simp: pvl_shift_def)
next
  case (5 s)
  then obtain L h axs where s: "s = (L, h)" "pvl_rep h L axs" "pvl_items s = map snd axs"
    using pvl_good_rep by (cases s) blast
  with 5 rep_tail_zero [OF s(2)] show ?case by (simp add: pvl_pop_def)
next
  case (6 s xs x)
  then obtain L h axs where s: "s = (L, h)" "pvl_rep h L axs" "l_count L = int (length axs)"
    "pvl_items s = map snd axs" using pvl_good_rep by (cases s) blast
  with 6(2) obtain a ys where axs: "axs = ys @ [(a, x)]" "map snd ys = xs"
    by (cases axs rule: rev_cases) auto
  with s rep_tail [of h L ys a x] rep_tail_zero [OF s(2)] have tl: "l_tail L = a" "a \<noteq> 0" by auto
  from pvl_remove_good [of h L ys a x "[]"] s axs tl show ?case
    by (auto simp: pvl_pop_def)
qed

end
