(* ===== verification/IcalArray.thy ===== *)
theory IcalArray
  imports Compare "HOL-Library.Monad_Syntax"
begin

text \<open>
  The growing array of \<^verbatim>\<open>icalarray.c\<close>, which holds the changes of a time zone. The
  untyped memory is a list of slots, one per element, \<open>None\<close> for a slot that was
  allocated and never written. A failed assertion, a write behind the memory or a read of
  an unwritten slot is the result \<open>None\<close>; allocation does not fail.

  The locale \<open>growable\<close> states what the users of an array rely on, and is interpreted by
  the operations.
\<close>

section \<open>The operations\<close>

record 'a icalarray =
  element_size :: nat
  increment_size :: nat
  num_elements :: nat
  space_allocated :: nat
  array_data :: "'a option list"

definition icalarray_new :: "nat \<Rightarrow> nat \<Rightarrow> 'a icalarray" where
  "icalarray_new esize isize =
     \<lparr>element_size = esize, increment_size = isize, num_elements = 0, space_allocated = 0,
      array_data = []\<rparr>"

definition icalarray_expand :: "'a icalarray \<Rightarrow> nat \<Rightarrow> 'a icalarray" where
  "icalarray_expand a space_needed =
     (let new_space0 = space_allocated a + increment_size a;
          new_space = (if space_needed > increment_size a then new_space0 + space_needed else new_space0);
          new_data = take (space_allocated a) (array_data a) @ replicate (new_space - space_allocated a) None
      in a\<lparr>array_data := new_data, space_allocated := new_space\<rparr>)"

definition icalarray_append :: "'a icalarray \<Rightarrow> 'a \<Rightarrow> 'a icalarray option" where
  "icalarray_append a x =
     (let a1 = (if num_elements a \<ge> space_allocated a then icalarray_expand a 1 else a)
      in if num_elements a1 < length (array_data a1)
         then Some (a1\<lparr>array_data := (array_data a1)[num_elements a1 := Some x],
                       num_elements := num_elements a1 + 1\<rparr>)
         else None)"

definition icalarray_element_at :: "'a icalarray \<Rightarrow> int \<Rightarrow> 'a option" where
  "icalarray_element_at a position =
     (if 0 \<le> position \<and> nat position < num_elements a \<and> nat position < length (array_data a)
      then array_data a ! nat position else None)"

text \<open>\<open>memmove\<close> shifts the elements behind the position one slot to the front.\<close>

definition icalarray_remove_element_at :: "'a icalarray \<Rightarrow> int \<Rightarrow> 'a icalarray option" where
  "icalarray_remove_element_at a position =
     (if 0 \<le> position \<and> nat position < num_elements a then
        let p = nat position;
            elements_to_move = num_elements a - p - 1;
            d = array_data a;
            d1 = (if elements_to_move > 0
                  then take p d @ take elements_to_move (drop (p + 1) d) @ drop (p + elements_to_move) d
                  else d)
        in Some (a\<lparr>array_data := d1, num_elements := num_elements a - 1\<rparr>)
      else None)"

definition icalarray_sort :: "'a icalarray \<Rightarrow> ('a \<Rightarrow> 'a \<Rightarrow> int) \<Rightarrow> 'a icalarray option" where
  "icalarray_sort a cmp =
     (let used = take (num_elements a) (array_data a)
      in if None \<in> set used then None
         else Some (a\<lparr>array_data := map Some (qsort cmp (map the used)) @ drop (num_elements a) (array_data a)\<rparr>))"

section \<open>The elements of an array\<close>

definition elements :: "'a icalarray \<Rightarrow> 'a list" where
  "elements a = map the (take (num_elements a) (array_data a))"

definition array_ok :: "'a icalarray \<Rightarrow> bool" where
  "array_ok a \<longleftrightarrow> length (array_data a) = space_allocated a \<and> num_elements a \<le> space_allocated a \<and>
     None \<notin> set (take (num_elements a) (array_data a))"

lemma array_okD:
  "array_ok a \<Longrightarrow> take (num_elements a) (array_data a) = map Some (elements a)"
proof -
  assume "array_ok a"
  then have "\<forall>x \<in> set (take (num_elements a) (array_data a)). Some (the x) = x"
    by (metis array_ok_def option.collapse)
  then show ?thesis by (simp add: elements_def comp_def map_idI)
qed

lemma length_elements: "array_ok a \<Longrightarrow> length (elements a) = num_elements a"
  by (simp add: array_ok_def elements_def)

text \<open>An array is good when its memory starts with its elements.\<close>

lemma array_shape:
  "array_ok a \<longleftrightarrow> length (array_data a) = space_allocated a \<and>
     (\<exists>r. array_data a = map Some (elements a) @ r) \<and> length (elements a) = num_elements a"
proof
  assume ok: "array_ok a"
  have "array_data a = map Some (elements a) @ drop (num_elements a) (array_data a)"
    using array_okD [OF ok] by (metis append_take_drop_id)
  with ok length_elements [OF ok] show "length (array_data a) = space_allocated a \<and>
     (\<exists>r. array_data a = map Some (elements a) @ r) \<and> length (elements a) = num_elements a"
    by (auto simp: array_ok_def)
next
  assume r: "length (array_data a) = space_allocated a \<and>
     (\<exists>r. array_data a = map Some (elements a) @ r) \<and> length (elements a) = num_elements a"
  then obtain r where "array_data a = map Some (elements a) @ r" by blast
  then have "take (num_elements a) (array_data a) = map Some (elements a)"
    "num_elements a \<le> space_allocated a"
    using r by (metis append_eq_conv_conj length_map, metis le_add1 length_append length_map)
  with r show "array_ok a" by (auto simp: array_ok_def)
qed

lemma array_okI:
  "array_data a = map Some es @ r \<Longrightarrow> length es = num_elements a \<Longrightarrow>
   length (array_data a) = space_allocated a \<Longrightarrow> array_ok a \<and> elements a = es"
  by (auto simp: array_ok_def elements_def comp_def)

lemma new_elements: "array_ok (icalarray_new e i) \<and> elements (icalarray_new e i) = []"
  by (simp add: icalarray_new_def array_ok_def elements_def)

lemma expand_elements:
  assumes "array_ok a"
  shows "array_ok (icalarray_expand a k)" "elements (icalarray_expand a k) = elements a"
    "num_elements (icalarray_expand a k) = num_elements a"
    "0 < k \<Longrightarrow> space_allocated a < space_allocated (icalarray_expand a k)"
  using assms by (auto simp: array_ok_def elements_def icalarray_expand_def Let_def)

lemma append_elements:
  assumes ok: "array_ok a"
  shows "\<exists>a'. icalarray_append a x = Some a' \<and> array_ok a' \<and> elements a' = elements a @ [x]"
proof -
  define a1 where "a1 = (if num_elements a \<ge> space_allocated a then icalarray_expand a 1 else a)"
  have a1: "array_ok a1" "elements a1 = elements a" "num_elements a1 < space_allocated a1"
    using expand_elements [OF ok, of 1] ok by (auto simp: a1_def array_ok_def)
  then obtain r where r: "array_data a1 = map Some (elements a) @ r"
    "length (elements a) = num_elements a1" "length (array_data a1) = space_allocated a1"
    by (auto simp: array_shape)
  with a1(3) obtain s q where s: "r = s # q" by (cases r) auto
  let ?a = "a1\<lparr>array_data := (array_data a1)[num_elements a1 := Some x], num_elements := num_elements a1 + 1\<rparr>"
  have "array_data ?a = map Some (elements a @ [x]) @ q" using r s by (simp add: list_update_append)
  then have "array_ok ?a \<and> elements ?a = elements a @ [x]" using r s by (intro array_okI) auto
  moreover have "icalarray_append a x = Some ?a"
    using a1(3) r(3) by (simp add: icalarray_append_def Let_def a1_def [symmetric])
  ultimately show ?thesis by blast
qed

lemma element_at_elements:
  "array_ok a \<Longrightarrow> 0 \<le> i \<Longrightarrow> i < int (length (elements a)) \<Longrightarrow>
     icalarray_element_at a i = Some (elements a ! nat i)"
  by (auto simp: array_shape icalarray_element_at_def nth_append nat_less_iff)

lemma element_at_outside:
  "array_ok a \<Longrightarrow> i < 0 \<or> int (length (elements a)) \<le> i \<Longrightarrow> icalarray_element_at a i = None"
  by (auto simp: array_shape icalarray_element_at_def)

lemma remove_elements:
  assumes ok: "array_ok a" and i: "0 \<le> i" "i < int (length (elements a))"
  shows "\<exists>a'. icalarray_remove_element_at a i = Some a' \<and> array_ok a' \<and>
           elements a' = take (nat i) (elements a) @ drop (nat i + 1) (elements a)"
proof -
  from ok obtain r where r: "array_data a = map Some (elements a) @ r"
    "length (elements a) = num_elements a" "length (array_data a) = space_allocated a"
    by (auto simp: array_shape)
  let ?p = "nat i" and ?es = "elements a"
  have p: "?p < length ?es" using i by (simp add: nat_less_iff)
  then obtain xs x ys where es: "?es = xs @ x # ys" "length xs = ?p"
    by (metis id_take_nth_drop length_take less_imp_le min.absorb2)
  obtain q where "icalarray_remove_element_at a i =
      Some (a\<lparr>array_data := map Some (xs @ ys) @ q, num_elements := num_elements a - 1\<rparr>)"
    "length (map Some (xs @ ys) @ q) = space_allocated a"
  proof (cases ys)
    case Nil
    with that [of "Some x # r"] r es i show ?thesis
      by (simp add: icalarray_remove_element_at_def Let_def)
  next
    case (Cons y zs)
    have n: "num_elements a = ?p + Suc (length ys)" using r(2) es by simp
    with that [of "drop (length ys) (Some x # map Some ys @ r)"] r es i Cons show ?thesis
      by (simp add: icalarray_remove_element_at_def Let_def)
  qed
  moreover have "length (xs @ ys) = num_elements a - 1" using r(2) es by simp
  ultimately show ?thesis
    using array_okI [of "a\<lparr>array_data := map Some (xs @ ys) @ q, num_elements := num_elements a - 1\<rparr>"
        "xs @ ys" q] es by simp
qed

lemma sort_elements:
  assumes ok: "array_ok a"
  shows "\<exists>a'. icalarray_sort a cmp = Some a' \<and> array_ok a' \<and> elements a' = qsort cmp (elements a)"
proof -
  from ok have s: "icalarray_sort a cmp =
      Some (a\<lparr>array_data := map Some (qsort cmp (elements a)) @ drop (num_elements a) (array_data a)\<rparr>)"
    by (simp add: icalarray_sort_def Let_def array_ok_def elements_def)
  moreover from ok have "length (map Some (qsort cmp (elements a)) @ drop (num_elements a) (array_data a)) =
      space_allocated a" by (simp add: length_elements) (simp add: array_ok_def)
  ultimately show ?thesis using ok
    using array_okI [of "a\<lparr>array_data := map Some (qsort cmp (elements a)) @ drop (num_elements a) (array_data a)\<rparr>"
        "qsort cmp (elements a)" "drop (num_elements a) (array_data a)"]
    by (simp add: length_elements)
qed

section \<open>The interface of its users\<close>

locale growable =
  fixes elems :: "'arr \<Rightarrow> 'a list"
    and ok :: "'arr \<Rightarrow> bool"
    and append :: "'arr \<Rightarrow> 'a \<Rightarrow> 'arr option"
    and elem_at :: "'arr \<Rightarrow> int \<Rightarrow> 'a option"
    and sort_by :: "'arr \<Rightarrow> ('a \<Rightarrow> 'a \<Rightarrow> int) \<Rightarrow> 'arr option"
  assumes append_law: "ok a \<Longrightarrow> \<exists>a'. append a x = Some a' \<and> ok a' \<and> elems a' = elems a @ [x]"
    and at_law: "ok a \<Longrightarrow> 0 \<le> i \<Longrightarrow> i < int (length (elems a)) \<Longrightarrow> elem_at a i = Some (elems a ! nat i)"
    and sort_law: "ok a \<Longrightarrow> \<exists>a'. sort_by a cmp = Some a' \<and> ok a' \<and> elems a' = qsort cmp (elems a)"
begin

lemma fold_append:
  "ok a \<Longrightarrow> \<exists>a'. foldl (\<lambda>r x. Option.bind r (\<lambda>b. append b x)) (Some a) xs = Some a' \<and> ok a' \<and>
     elems a' = elems a @ xs"
proof (induction xs arbitrary: a)
  case (Cons x xs)
  from append_law [OF Cons.prems, of x] obtain a1
    where "append a x = Some a1" "ok a1" "elems a1 = elems a @ [x]" by blast
  with Cons.IH [of a1] show ?case by simp
qed simp

text \<open>Reading after an append: the old elements and the new one are where they were put.\<close>

lemma append_then_at:
  assumes "ok a" "append a x = Some a'"
  shows "elem_at a' (int (length (elems a))) = Some x"
    and "0 \<le> i \<Longrightarrow> i < int (length (elems a)) \<Longrightarrow> elem_at a' i = elem_at a i"
proof -
  from append_law [OF assms(1), of x] assms(2) have a': "ok a'" "elems a' = elems a @ [x]" by auto
  with at_law [OF a'(1), of "int (length (elems a))"] show "elem_at a' (int (length (elems a))) = Some x"
    by simp
  assume i: "0 \<le> i" "i < int (length (elems a))"
  with at_law [OF a'(1), of i] at_law [OF assms(1), of i] a' show "elem_at a' i = elem_at a i"
    by (simp add: nth_append nat_less_iff)
qed

end

interpretation ica: growable elements array_ok icalarray_append icalarray_element_at icalarray_sort
  by unfold_locales (rule append_elements element_at_elements sort_elements; assumption)+

end
