(* ===== verification/CText.thy ===== *)
theory CText
  imports Prelude
begin

text \<open>
  The C library's text routines as libical uses them: decimal output of \<open>printf\<close>
  (\<open>%d\<close>, \<open>%02d\<close>, \<open>%04d\<close>), decimal input of \<open>sscanf\<close>, \<open>atoi\<close> and \<open>strtol\<close>,
  and the searching and comparing routines of \<open>string.h\<close>. The lemmas say that the
  scanners read back what the printers wrote.
\<close>

section \<open>Printing\<close>

definition digit_char :: "nat \<Rightarrow> char" where
  "digit_char n = char_of (48 + n)"

definition is_digit :: "char \<Rightarrow> bool" where
  "is_digit c \<longleftrightarrow> 48 \<le> (of_char c :: nat) \<and> (of_char c :: nat) \<le> 57"

definition digit_val :: "char \<Rightarrow> int" where
  "digit_val c = int (of_char c) - 48"

fun nat_str :: "nat \<Rightarrow> string" where
  "nat_str n = (if n < 10 then [digit_char n] else nat_str (n div 10) @ [digit_char (n mod 10)])"

declare nat_str.simps [simp del]

text \<open>\<open>printf\<close> with \<open>%d\<close> and with a zero-padded width, where a sign counts.\<close>

definition fmt_d :: "int \<Rightarrow> string" where
  "fmt_d v = (if v < 0 then CHR ''-'' # nat_str (nat (- v)) else nat_str (nat v))"

definition pad0 :: "nat \<Rightarrow> string \<Rightarrow> string" where
  "pad0 w s = replicate (w - length s) (CHR ''0'') @ s"

definition fmt_0d :: "nat \<Rightarrow> int \<Rightarrow> string" where
  "fmt_0d w v =
     (if v < 0 then CHR ''-'' # pad0 (w - 1) (nat_str (nat (- v))) else pad0 w (nat_str (nat v)))"

section \<open>Scanning\<close>

definition is_space :: "char \<Rightarrow> bool" where
  "is_space c \<longleftrightarrow> (of_char c :: nat) = 32 \<or> (9 \<le> (of_char c :: nat) \<and> (of_char c :: nat) \<le> 13)"

definition digits_val :: "string \<Rightarrow> int" where
  "digits_val ds = foldl (\<lambda>a c. 10 * a + digit_val c) 0 ds"

text \<open>At most \<open>w\<close> leading digits, and what follows them.\<close>

fun take_digits :: "nat \<Rightarrow> string \<Rightarrow> string \<times> string" where
  "take_digits 0 cs = ([], cs)"
| "take_digits (Suc w) [] = ([], [])"
| "take_digits (Suc w) (c # cs) =
     (if is_digit c then (let (ds, r) = take_digits w cs in (c # ds, r)) else ([], c # cs))"

definition clamp_long :: "int \<Rightarrow> int" where
  "clamp_long v = max (- (2 ^ 63)) (min (2 ^ 63 - 1) v)"

text \<open>
  The number a conversion of field width \<open>w\<close> reads: white space is skipped and not
  counted, a sign is counted. \<open>None\<close> is a matching failure.
\<close>

definition scan_long :: "nat \<Rightarrow> string \<Rightarrow> (int \<times> string) option" where
  "scan_long w cs =
     (let cs1 = dropWhile is_space cs;
          sgnd = (w \<noteq> 0 \<and> cs1 \<noteq> [] \<and> (hd cs1 = CHR ''-'' \<or> hd cs1 = CHR ''+''));
          neg = (sgnd \<and> hd cs1 = CHR ''-'');
          (ds, r) = (if sgnd then take_digits (w - 1) (tl cs1) else take_digits w cs1)
      in if ds = [] then None
         else Some (clamp_long (if neg then - digits_val ds else digits_val ds), r))"

text \<open>\<open>sscanf\<close>'s \<open>%d\<close> with a field width, and without one.\<close>

definition scan_wd :: "nat \<Rightarrow> string \<Rightarrow> (int \<times> string) option" where
  "scan_wd w cs = map_option (\<lambda>(v, r). (to_int32 v, r)) (scan_long w cs)"

definition scan_d :: "string \<Rightarrow> (int \<times> string) option" where
  "scan_d cs = scan_wd (length cs) cs"

text \<open>\<open>sscanf\<close>'s \<open>%c\<close>, which skips nothing.\<close>

fun scan_c :: "string \<Rightarrow> (char \<times> string) option" where
  "scan_c [] = None"
| "scan_c (c # cs) = Some (c, cs)"

definition atoi :: "string \<Rightarrow> int" where
  "atoi cs = (case scan_d cs of None \<Rightarrow> 0 | Some (v, _) \<Rightarrow> v)"

text \<open>\<open>strtol\<close> in base ten: the value and the end pointer, the start if nothing matched.\<close>

definition strtol :: "string \<Rightarrow> int \<times> string" where
  "strtol cs = (case scan_long (length cs) cs of None \<Rightarrow> (0, cs) | Some (v, r) \<Rightarrow> (v, r))"

section \<open>Searching and comparing\<close>

text \<open>
  The library splits at a character by finding it with \<open>strchr\<close>, writing NUL over it and
  keeping a pointer to what follows: the text before it, and the text after it if it
  occurs.
\<close>

fun split_chr :: "char \<Rightarrow> string \<Rightarrow> string \<times> string option" where
  "split_chr x [] = ([], None)"
| "split_chr x (c # cs) =
     (if c = x then ([], Some cs) else (let (a, b) = split_chr x cs in (c # a, b)))"

definition to_lower :: "char \<Rightarrow> char" where
  "to_lower c = (if 65 \<le> (of_char c :: nat) \<and> (of_char c :: nat) \<le> 90
                 then char_of ((of_char c :: nat) + 32) else c)"

definition strcaseeq :: "string \<Rightarrow> string \<Rightarrow> bool" where
  "strcaseeq a b \<longleftrightarrow> map to_lower a = map to_lower b"

section \<open>What was printed is read back\<close>

lemma of_digit_char: "n < 10 \<Longrightarrow> (of_char (digit_char n) :: nat) = 48 + n"
  by (simp add: digit_char_def)

lemma is_digit_char [simp]: "n < 10 \<Longrightarrow> is_digit (digit_char n)"
  by (simp add: is_digit_def of_digit_char)

lemma digit_val_char [simp]: "n < 10 \<Longrightarrow> digit_val (digit_char n) = int n"
  by (simp add: digit_val_def of_digit_char)

lemma digits_val_Nil [simp]: "digits_val [] = 0"
  by (simp add: digits_val_def)

lemma digits_val_snoc [simp]: "digits_val (ds @ [c]) = 10 * digits_val ds + digit_val c"
  by (simp add: digits_val_def)

lemma nat_str_digits: "\<forall>c \<in> set (nat_str n). is_digit c"
  by (induction n rule: nat_str.induct) (subst nat_str.simps, auto)

lemma nat_str_nonempty [simp]: "nat_str n \<noteq> []"
  by (subst nat_str.simps) simp

lemma digits_val_nat_str [simp]: "digits_val (nat_str n) = int n"
proof (induction n rule: nat_str.induct)
  case (1 n)
  show ?case
  proof (cases "n < 10")
    case True
    then show ?thesis
      using digits_val_snoc [of "[]" "digit_char n"] by (simp add: nat_str.simps [of n])
  next
    case False
    then have "digits_val (nat_str (n div 10)) = int (n div 10)" by (rule "1.IH")
    with False show ?thesis by (simp add: nat_str.simps [of n] of_nat_div of_nat_mod)
  qed
qed

lemma length_nat_str: "0 < w \<Longrightarrow> length (nat_str n) \<le> w \<longleftrightarrow> n < 10 ^ w"
proof (induction n arbitrary: w rule: nat_str.induct)
  case (1 n)
  show ?case
  proof (cases "n < 10")
    case True
    moreover have "(10::nat) \<le> 10 ^ w" using "1.prems" self_le_power [of 10 w] by simp
    ultimately show ?thesis using "1.prems" by (simp add: nat_str.simps [of n])
  next
    case False
    show ?thesis
    proof (cases "w = 1")
      case True
      with False show ?thesis by (simp add: nat_str.simps [of n])
    next
      case w: False
      with "1.prems" obtain v where v: "w = Suc v" "0 < v" by (cases w) auto
      have "length (nat_str (n div 10)) \<le> v \<longleftrightarrow> n div 10 < 10 ^ v"
        using False v(2) by (rule "1.IH")
      also have "\<dots> \<longleftrightarrow> n < 10 ^ w" by (simp add: v div_less_iff_less_mult mult.commute)
      finally show ?thesis using False v by (simp add: nat_str.simps [of n])
    qed
  qed
qed

lemma digits_val_pad [simp]: "digits_val (replicate k (CHR ''0'') @ ds) = digits_val ds"
  by (induction k) (simp_all add: digits_val_def digit_val_def)

lemma length_pad0: "length (pad0 w s) = max w (length s)"
  by (simp add: pad0_def)

lemma pad0_digits: "\<forall>c \<in> set s. is_digit c \<Longrightarrow> \<forall>c \<in> set (pad0 w s). is_digit c"
  by (auto simp: pad0_def is_digit_def)

text \<open>The scanner stops at the field width or at the first character that is no digit.\<close>

lemma take_digits_app:
  assumes "\<forall>c \<in> set ds. is_digit c" and "length ds \<le> w"
    and "length ds = w \<or> r = [] \<or> \<not> is_digit (hd r)"
  shows "take_digits w (ds @ r) = (ds, r)"
  using assms
proof (induction ds arbitrary: w)
  case Nil
  then show ?case by (cases w; cases r) auto
next
  case (Cons c ds)
  then obtain v where "w = Suc v" by (cases w) auto
  with Cons show ?case by simp
qed

lemma digit_not_space: "is_digit c \<Longrightarrow> \<not> is_space c"
  by (auto simp: is_digit_def is_space_def)

lemma digit_not_sign: "is_digit c \<Longrightarrow> c \<noteq> CHR ''-'' \<and> c \<noteq> CHR ''+''"
  by (auto simp: is_digit_def)

lemma scan_long_digits:
  assumes ds: "\<forall>c \<in> set ds. is_digit c" "ds \<noteq> []" "length ds \<le> w"
    and r: "length ds = w \<or> r = [] \<or> \<not> is_digit (hd r)"
  shows "scan_long w (ds @ r) = Some (clamp_long (digits_val ds), r)"
proof -
  obtain c cs where dc: "ds = c # cs" using ds(2) by (cases ds) auto
  have c: "\<not> is_space c" "c \<noteq> CHR ''-''" "c \<noteq> CHR ''+''"
    using ds(1) dc digit_not_space [of c] digit_not_sign [of c] by auto
  show ?thesis
    using take_digits_app [OF ds(1,3) r] c ds(2)
    by (simp add: scan_long_def dc)
qed

lemma clamp_long_id: "- (2 ^ 63) \<le> v \<Longrightarrow> v < 2 ^ 63 \<Longrightarrow> clamp_long v = v"
  by (simp add: clamp_long_def)

lemma fmt_0d_width: "0 \<le> v \<Longrightarrow> v < 10 ^ w \<Longrightarrow> 0 < w \<Longrightarrow> length (fmt_0d w v) = w"
  using length_nat_str [of w "nat v"] by (simp add: fmt_0d_def length_pad0 nat_less_iff)

lemma fmt_0d_digits: "0 \<le> v \<Longrightarrow> \<forall>c \<in> set (fmt_0d w v). is_digit c"
  using pad0_digits [OF nat_str_digits] by (simp add: fmt_0d_def)

lemma digits_val_fmt_0d: "0 \<le> v \<Longrightarrow> digits_val (fmt_0d w v) = v"
  by (simp add: fmt_0d_def pad0_def)

text \<open>A field printed in its width is read back, whatever follows.\<close>

lemma scan_wd_fmt_0d [scan_simps]:
  assumes v: "0 \<le> v" "v < 10 ^ w" and w: "0 < w" "w \<le> 9"
  shows "scan_wd w (fmt_0d w v @ r) = Some (v, r)"
proof -
  have "(10::int) ^ w \<le> 10 ^ 9" using w by (intro power_increasing) auto
  with v have b: "v < 2 ^ 31" by simp
  have "fmt_0d w v \<noteq> []" using fmt_0d_width [OF v w(1)] w by auto
  then have "scan_long w (fmt_0d w v @ r) = Some (clamp_long v, r)"
    using scan_long_digits [of "fmt_0d w v" w r] fmt_0d_digits [OF v(1)] fmt_0d_width [OF v w(1)]
    by (simp add: digits_val_fmt_0d [OF v(1)])
  then show ?thesis using b v(1) by (simp add: scan_wd_def clamp_long_id to_int32_id)
qed

text \<open>A number printed with \<open>%d\<close> is read back when no digit follows it.\<close>

lemma scan_d_fmt_d [scan_simps]:
  assumes v: "0 \<le> v" "v < 2 ^ 31" and r: "r = [] \<or> \<not> is_digit (hd r)"
  shows "scan_d (fmt_d v @ r) = Some (v, r)"
proof -
  have "scan_long (length (fmt_d v @ r)) (fmt_d v @ r) = Some (clamp_long v, r)"
    using v(1) r scan_long_digits [OF nat_str_digits nat_str_nonempty, of "nat v"]
    by (simp add: fmt_d_def)
  then show ?thesis using v by (simp add: scan_d_def scan_wd_def clamp_long_id to_int32_id)
qed

lemma split_chr_none: "x \<notin> set cs \<Longrightarrow> split_chr x cs = (cs, None)"
  by (induction cs) auto

lemma split_chr_first: "x \<notin> set a \<Longrightarrow> split_chr x (a @ x # b) = (a, Some b)"
  by (induction a) auto

lemma split_chr_shorter: "split_chr x cs = (a, Some b) \<Longrightarrow> length b < length cs"
  by (induction cs arbitrary: a) (auto split: if_splits prod.splits)

lemma split_chr_join: "split_chr x cs = (a, Some b) \<Longrightarrow> cs = a @ x # b \<and> x \<notin> set a"
  by (induction cs arbitrary: a) (auto split: if_splits prod.splits)

end
