(* ===== verification/IcalMemory.thy ===== *)
theory IcalMemory
  imports CText "HOL-Library.Monad_Syntax"
begin

text \<open>
  The memory routines of \<^verbatim>\<open>icalmemory.c\<close>: growing string buffers, with which every
  component prints itself, and the ring of temporary buffers, which owns the strings handed
  to callers. A buffer is its bytes (\<open>None\<close> for a byte that was never written), the
  append position and the recorded size; a write outside the bytes is the result \<open>None\<close>.
  Allocation does not fail, and the sizes do not reach \<open>2 ^ 64\<close>.

  The locale \<open>string_writer\<close> is what the printing routines rely on: appending a string
  appends to the text, and always succeeds.
\<close>

section \<open>Growing buffers\<close>

definition NUL :: char where
  "NUL = char_of (0 :: nat)"

record sbuf =
  sb_mem :: "char option list"
  sb_pos :: nat
  sb_size :: nat

definition icalmemory_new_buffer :: "nat \<Rightarrow> sbuf" where
  "icalmemory_new_buffer sz = \<lparr>sb_mem = replicate sz (Some NUL), sb_pos = 0, sb_size = sz\<rparr>"

text \<open>\<open>realloc\<close> keeps the bytes that fit and leaves the new ones unwritten.\<close>

definition icalmemory_resize_buffer :: "nat \<Rightarrow> sbuf \<Rightarrow> sbuf" where
  "icalmemory_resize_buffer sz b =
     b\<lparr>sb_mem := take sz (sb_mem b) @ replicate (sz - length (sb_mem b)) None, sb_size := sz\<rparr>"

definition put_bytes :: "nat \<Rightarrow> string \<Rightarrow> char option list \<Rightarrow> char option list option" where
  "put_bytes p s m =
     (if p + length s \<le> length m then Some (take p m @ map Some s @ drop (p + length s) m) else None)"

text \<open>A zero size is refused by the argument check; the buffer is then left alone.\<close>

definition icalmemory_append_string :: "sbuf \<Rightarrow> string \<Rightarrow> sbuf option" where
  "icalmemory_append_string b str =
     (if sb_size b = 0 then Some b
      else
        let string_length = length str;
            data_length = sb_pos b;
            final_length = data_length + string_length;
            b1 = (if final_length \<ge> sb_size b
                  then icalmemory_resize_buffer (sb_size b * 2 + final_length) b else b)
        in do {
          m \<leftarrow> put_bytes (sb_pos b1) (str @ [NUL]) (sb_mem b1);
          Some (b1\<lparr>sb_mem := m, sb_pos := sb_pos b1 + string_length\<rparr>) })"

definition icalmemory_append_char :: "sbuf \<Rightarrow> char \<Rightarrow> sbuf option" where
  "icalmemory_append_char b ch =
     (if sb_size b = 0 then Some b
      else
        let data_length = sb_pos b;
            final_length = data_length + 2;
            b1 = (if final_length > sb_size b
                  then icalmemory_resize_buffer (sb_size b * 2 + final_length + 1) b else b)
        in do {
          m \<leftarrow> put_bytes (sb_pos b1) [ch, NUL] (sb_mem b1);
          Some (b1\<lparr>sb_mem := m, sb_pos := sb_pos b1 + 1\<rparr>) })"

text \<open>The C string a buffer holds: the bytes before the first NUL.\<close>

definition sb_text :: "sbuf \<Rightarrow> string" where
  "sb_text b = map the (takeWhile (\<lambda>c. c \<noteq> Some NUL) (sb_mem b))"

definition nul_free :: "string \<Rightarrow> bool" where
  "nul_free s \<longleftrightarrow> NUL \<notin> set s"

lemma NUL_iff: "c = NUL \<longleftrightarrow> (of_char c :: nat) = 0"
  by (auto simp: NUL_def) (metis char_of_char)

lemma nul_free_codes: "nul_free s \<longleftrightarrow> (\<forall>c \<in> set s. (of_char c :: nat) \<noteq> 0)"
  unfolding nul_free_def using NUL_iff by metis

lemma nul_free_simps [simp]: "nul_free []" "nul_free (s @ t) \<longleftrightarrow> nul_free s \<and> nul_free t"
  "nul_free (c # s) \<longleftrightarrow> (of_char c :: nat) \<noteq> 0 \<and> nul_free s"
  by (auto simp: nul_free_codes)

lemma nul_free_nat_str [simp]: "nul_free (nat_str n)"
  using nat_str_digits [of n] by (auto simp: nul_free_codes is_digit_def)

lemma nul_free_fmt_d [simp]: "nul_free (fmt_d v)"
  by (simp add: fmt_d_def)

text \<open>The bytes match the recorded size, and the text ends at the append position.\<close>

definition sb_ok :: "sbuf \<Rightarrow> bool" where
  "sb_ok b \<longleftrightarrow> length (sb_mem b) = sb_size b \<and> sb_pos b < sb_size b \<and>
     sb_mem b ! sb_pos b = Some NUL \<and>
     (\<forall>i < sb_pos b. \<exists>c. sb_mem b ! i = Some c \<and> c \<noteq> NUL)"

lemma sb_ok_iff:
  "sb_ok b \<longleftrightarrow> length (sb_mem b) = sb_size b \<and>
     (\<exists>s r. sb_mem b = map Some s @ Some NUL # r \<and> nul_free s \<and> length s = sb_pos b)"
proof
  assume ok: "sb_ok b"
  let ?m = "sb_mem b" and ?p = "sb_pos b"
  have p: "?p < length ?m" using ok by (simp add: sb_ok_def)
  let ?s = "map the (take ?p ?m)"
  have "map Some ?s = take ?p ?m"
    using ok by (intro nth_equalityI) (auto simp: sb_ok_def nth_map)
  moreover have "?m = take ?p ?m @ ?m ! ?p # drop (Suc ?p) ?m" using p by (rule id_take_nth_drop)
  ultimately have "?m = map Some ?s @ Some NUL # drop (Suc ?p) ?m"
    using ok by (simp add: sb_ok_def)
  moreover have "nul_free ?s"
    using ok by (auto simp: nul_free_def sb_ok_def in_set_conv_nth) (metis option.sel)
  ultimately show "length ?m = sb_size b \<and>
     (\<exists>s r. ?m = map Some s @ Some NUL # r \<and> nul_free s \<and> length s = ?p)"
    using ok p by (metis length_map length_take less_imp_le min.absorb2 sb_ok_def)
next
  assume "length (sb_mem b) = sb_size b \<and>
     (\<exists>s r. sb_mem b = map Some s @ Some NUL # r \<and> nul_free s \<and> length s = sb_pos b)"
  then obtain s r where m: "sb_mem b = map Some s @ Some NUL # r" "nul_free s" "length s = sb_pos b"
    and len: "length (sb_mem b) = sb_size b" by blast
  have "\<exists>c. sb_mem b ! i = Some c \<and> c \<noteq> NUL" if "i < sb_pos b" for i
  proof -
    have "s ! i \<in> set s" using that m(3) by simp
    then have "s ! i \<noteq> NUL" using m(2) by (auto simp: nul_free_def)
    with that m show ?thesis by (simp add: nth_append)
  qed
  moreover have "sb_mem b ! sb_pos b = Some NUL" "sb_pos b < sb_size b"
    using m len [symmetric] by (simp_all add: nth_append)
  ultimately show "sb_ok b" using len by (simp add: sb_ok_def)
qed

lemma sb_text_shape: "sb_mem b = map Some s @ Some NUL # r \<Longrightarrow> nul_free s \<Longrightarrow> sb_text b = s"
proof -
  assume m: "sb_mem b = map Some s @ Some NUL # r" and n: "nul_free s"
  from n have "takeWhile (\<lambda>c. c \<noteq> Some NUL) (map Some s @ Some NUL # r) = map Some s"
    by (subst takeWhile_append2) (auto simp: nul_free_def)
  then show ?thesis unfolding sb_text_def m by (simp add: comp_def)
qed

lemma sb_okD:
  assumes "sb_ok b"
  obtains r where "sb_mem b = map Some (sb_text b) @ Some NUL # r" "nul_free (sb_text b)"
    "length (sb_text b) = sb_pos b" "length (sb_mem b) = sb_size b" "sb_pos b < sb_size b"
proof -
  from assms obtain s r where sr: "sb_mem b = map Some s @ Some NUL # r" "nul_free s"
    "length s = sb_pos b" "length (sb_mem b) = sb_size b" by (auto simp: sb_ok_iff)
  moreover have "sb_text b = s" using sb_text_shape sr(1,2) .
  moreover have "sb_pos b < sb_size b" using assms by (simp add: sb_ok_def)
  ultimately show ?thesis using that by blast
qed

lemma sb_okI:
  "sb_mem b = map Some s @ Some NUL # r \<Longrightarrow> nul_free s \<Longrightarrow> length s = sb_pos b \<Longrightarrow>
   length (sb_mem b) = sb_size b \<Longrightarrow> sb_ok b \<and> sb_text b = s"
  using sb_text_shape [of b s r] by (simp add: sb_ok_iff) blast

lemma put_bytes_end:
  "length s \<le> length r \<Longrightarrow>
     put_bytes (length t) s (map Some t @ r) = Some (map Some (t @ s) @ drop (length s) r)"
  by (simp add: put_bytes_def)

text \<open>Growing keeps the text and makes room for it.\<close>

lemma resize_shape:
  assumes "sb_mem b = map Some t @ Some NUL # r" "length (sb_mem b) = sb_size b" "sb_size b \<le> sz"
  shows "sb_mem (icalmemory_resize_buffer sz b) =
           map Some t @ Some NUL # r @ replicate (sz - sb_size b) None"
    "length (sb_mem (icalmemory_resize_buffer sz b)) = sz"
  using assms by (simp_all add: icalmemory_resize_buffer_def)

lemma append_string_law:
  assumes ok: "sb_ok b" and str: "nul_free str"
  shows "\<exists>b'. icalmemory_append_string b str = Some b' \<and> sb_ok b' \<and> sb_text b' = sb_text b @ str"
proof -
  from ok obtain r where r: "sb_mem b = map Some (sb_text b) @ Some NUL # r" "nul_free (sb_text b)"
    "length (sb_text b) = sb_pos b" "length (sb_mem b) = sb_size b" "sb_pos b < sb_size b"
    by (rule sb_okD)
  let ?f = "sb_pos b + length str"
  define b1 where "b1 = (if ?f \<ge> sb_size b
                  then icalmemory_resize_buffer (sb_size b * 2 + ?f) b else b)"
  obtain q where q: "sb_mem b1 = map Some (sb_text b) @ Some NUL # q" "sb_pos b1 = sb_pos b"
    "length (sb_mem b1) = sb_size b1" "?f < sb_size b1"
  proof (cases "?f \<ge> sb_size b")
    case True
    with that [of "r @ replicate (sb_size b * 2 + ?f - sb_size b) None"] r
      resize_shape [OF r(1,4), of "sb_size b * 2 + ?f"] show ?thesis
      by (simp add: b1_def) (simp add: icalmemory_resize_buffer_def)
  next
    case False
    with that [of r] r show ?thesis by (simp add: b1_def)
  qed
  have len: "length (str @ [NUL]) \<le> length (Some NUL # q)"
    using q(1,3,4) r(3) by simp
  let ?m = "map Some (sb_text b @ str @ [NUL]) @ drop (length (str @ [NUL])) (Some NUL # q)"
  have "put_bytes (sb_pos b1) (str @ [NUL]) (sb_mem b1) = Some ?m"
    using put_bytes_end [OF len, of "sb_text b"] q r(3) by simp
  moreover have "icalmemory_append_string b str =
      Option.bind (put_bytes (sb_pos b1) (str @ [NUL]) (sb_mem b1))
        (\<lambda>m. Some (b1\<lparr>sb_mem := m, sb_pos := sb_pos b1 + length str\<rparr>))"
    unfolding icalmemory_append_string_def Let_def b1_def by (subst if_not_P) (use r(5) in auto)
  ultimately have "icalmemory_append_string b str = Some (b1\<lparr>sb_mem := ?m, sb_pos := sb_pos b1 + length str\<rparr>)"
    by simp
  moreover have "sb_ok (b1\<lparr>sb_mem := ?m, sb_pos := sb_pos b1 + length str\<rparr>) \<and>
      sb_text (b1\<lparr>sb_mem := ?m, sb_pos := sb_pos b1 + length str\<rparr>) = sb_text b @ str"
    using q r len str by (intro sb_okI) (auto simp: nul_free_def)
  ultimately show ?thesis by blast
qed

lemma append_char_shape:
  assumes ok: "sb_ok b"
  shows "\<exists>b' q. icalmemory_append_char b ch = Some b' \<and> sb_mem b' = map Some (sb_text b @ [ch, NUL]) @ q \<and>
    length (sb_mem b') = sb_size b' \<and> sb_pos b' = Suc (length (sb_text b)) \<and> nul_free (sb_text b)"
proof -
  from ok obtain r where r: "sb_mem b = map Some (sb_text b) @ Some NUL # r" "nul_free (sb_text b)"
    "length (sb_text b) = sb_pos b" "length (sb_mem b) = sb_size b" "sb_pos b < sb_size b"
    by (rule sb_okD)
  let ?f = "sb_pos b + 2"
  define b1 where "b1 = (if ?f > sb_size b
                  then icalmemory_resize_buffer (sb_size b * 2 + ?f + 1) b else b)"
  obtain q where q: "sb_mem b1 = map Some (sb_text b) @ Some NUL # q" "sb_pos b1 = sb_pos b"
    "length (sb_mem b1) = sb_size b1" "?f \<le> sb_size b1"
  proof (cases "?f > sb_size b")
    case True
    with that [of "r @ replicate (sb_size b * 2 + ?f + 1 - sb_size b) None"] r
      resize_shape [OF r(1,4), of "sb_size b * 2 + ?f + 1"] show ?thesis
      by (simp add: b1_def) (simp add: icalmemory_resize_buffer_def)
  next
    case False
    with that [of r] r show ?thesis by (simp add: b1_def)
  qed
  have len: "length [ch, NUL] \<le> length (Some NUL # q)"
    using q(1,3,4) r(3) by simp
  let ?m = "map Some (sb_text b @ [ch, NUL]) @ drop (length [ch, NUL]) (Some NUL # q)"
  have "put_bytes (sb_pos b1) [ch, NUL] (sb_mem b1) = Some ?m"
    using put_bytes_end [OF len, of "sb_text b"] q r(3) by simp
  moreover have "icalmemory_append_char b ch =
      Option.bind (put_bytes (sb_pos b1) [ch, NUL] (sb_mem b1)) (\<lambda>m. Some (b1\<lparr>sb_mem := m, sb_pos := sb_pos b1 + 1\<rparr>))"
    unfolding icalmemory_append_char_def Let_def b1_def by (subst if_not_P) (use r(5) in auto)
  ultimately have "icalmemory_append_char b ch = Some (b1\<lparr>sb_mem := ?m, sb_pos := sb_pos b1 + 1\<rparr>)"
    by simp
  with q r len show ?thesis by (intro exI conjI) auto
qed

lemma append_char_law:
  assumes ok: "sb_ok b" and ch: "ch \<noteq> NUL"
  shows "\<exists>b'. icalmemory_append_char b ch = Some b' \<and> sb_ok b' \<and> sb_text b' = sb_text b @ [ch]"
proof -
  from append_char_shape [OF ok, of ch] obtain b' q where b: "icalmemory_append_char b ch = Some b'"
    "sb_mem b' = map Some (sb_text b @ [ch]) @ Some NUL # q" "length (sb_mem b') = sb_size b'"
    "sb_pos b' = length (sb_text b @ [ch])" "nul_free (sb_text b)" by auto
  moreover have "nul_free (sb_text b @ [ch])" using b(5) ch NUL_iff by simp
  ultimately show ?thesis using sb_okI [OF b(2)] by auto
qed

text \<open>The routines that end their text themselves append a NUL, which the text does not show.\<close>

lemma append_NUL:
  assumes ok: "sb_ok b"
  shows "\<exists>b'. icalmemory_append_char b NUL = Some b' \<and> sb_text b' = sb_text b"
proof -
  from append_char_shape [OF ok, of NUL] obtain b' q where b: "icalmemory_append_char b NUL = Some b'"
    "sb_mem b' = map Some (sb_text b) @ Some NUL # q" "nul_free (sb_text b)" by auto
  with sb_text_shape show ?thesis by blast
qed

lemma new_buffer_ok: "0 < sz \<Longrightarrow> sb_ok (icalmemory_new_buffer sz) \<and> sb_text (icalmemory_new_buffer sz) = []"
  by (cases sz) (auto simp: sb_ok_def icalmemory_new_buffer_def sb_text_def)

section \<open>The interface of the printing routines\<close>

locale string_writer =
  fixes wtext :: "'b \<Rightarrow> string"
    and wok :: "'b \<Rightarrow> bool"
    and wstr :: "'b \<Rightarrow> string \<Rightarrow> 'b option"
    and wchr :: "'b \<Rightarrow> char \<Rightarrow> 'b option"
  assumes wstr_law: "wok b \<Longrightarrow> nul_free s \<Longrightarrow> \<exists>b'. wstr b s = Some b' \<and> wok b' \<and> wtext b' = wtext b @ s"
    and wchr_law: "wok b \<Longrightarrow> c \<noteq> NUL \<Longrightarrow> \<exists>b'. wchr b c = Some b' \<and> wok b' \<and> wtext b' = wtext b @ [c]"
begin

text \<open>A step of a printing routine that writes the text \<open>s\<close>.\<close>

definition writes :: "('b \<Rightarrow> 'b option) \<Rightarrow> string \<Rightarrow> bool" where
  "writes f s \<longleftrightarrow> (\<forall>b. wok b \<longrightarrow> (\<exists>b'. f b = Some b' \<and> wok b' \<and> wtext b' = wtext b @ s))"

lemma writesI: "nul_free s \<Longrightarrow> writes (\<lambda>b. wstr b s) s"
  using wstr_law by (simp add: writes_def)

lemma writes_char: "c \<noteq> NUL \<Longrightarrow> writes (\<lambda>b. wchr b c) [c]"
  using wchr_law by (simp add: writes_def)

lemma writes_skip: "writes Some []"
  by (simp add: writes_def)

lemma writes_seq: "writes f s \<Longrightarrow> writes g t \<Longrightarrow> writes (\<lambda>b. Option.bind (f b) g) (s @ t)"
  unfolding writes_def by (metis append.assoc bind.bind_lunit)

lemma writes_if: "(P \<Longrightarrow> writes f s) \<Longrightarrow> (\<not> P \<Longrightarrow> writes g t) \<Longrightarrow>
    writes (if P then f else g) (if P then s else t)"
  by simp

lemma writesD: "writes f s \<Longrightarrow> wok b \<Longrightarrow> \<exists>b'. f b = Some b' \<and> wok b' \<and> wtext b' = wtext b @ s"
  by (simp add: writes_def)

end

interpretation icm: string_writer sb_text sb_ok icalmemory_append_string icalmemory_append_char
  by unfold_locales (rule append_string_law append_char_law; assumption)+

section \<open>The ring of temporary buffers\<close>

definition BUFFER_RING_SIZE :: nat where "BUFFER_RING_SIZE = 2500"
definition MIN_BUFFER_SIZE :: nat where "MIN_BUFFER_SIZE = 200"

text \<open>Slots hold buffer addresses of a type of the caller's choice; \<open>None\<close> is the null pointer.\<close>

record 'p buffer_ring =
  br_pos :: nat
  br_ring :: "'p option list"

definition buffer_ring_new :: "'p buffer_ring" where
  "buffer_ring_new = \<lparr>br_pos = 0, br_ring = replicate BUFFER_RING_SIZE None\<rparr>"

text \<open>The ring after the addition, and the buffer that was freed for it.\<close>

definition icalmemory_add_tmp_buffer :: "'p \<Rightarrow> 'p buffer_ring \<Rightarrow> 'p option \<times> 'p buffer_ring" where
  "icalmemory_add_tmp_buffer buf br =
     (let p = (if br_pos br + 1 = BUFFER_RING_SIZE then 0 else br_pos br + 1)
      in (br_ring br ! p, \<lparr>br_pos = p, br_ring = (br_ring br)[p := Some buf]\<rparr>))"

text \<open>The size a temporary buffer really gets.\<close>

definition tmp_buffer_size :: "nat \<Rightarrow> nat" where
  "tmp_buffer_size sz = (if sz < MIN_BUFFER_SIZE then MIN_BUFFER_SIZE else sz)"

definition icalmemory_tmp_buffer :: "nat \<Rightarrow> sbuf" where
  "icalmemory_tmp_buffer sz = icalmemory_new_buffer (tmp_buffer_size sz)"

definition icalmemory_tmp_copy :: "string \<Rightarrow> sbuf option" where
  "icalmemory_tmp_copy str =
     (let b = icalmemory_tmp_buffer (length str + 1)
      in do { m \<leftarrow> put_bytes 0 (str @ [NUL]) (sb_mem b); Some (b\<lparr>sb_mem := m\<rparr>) })"

text \<open>Freeing the ring frees what its slots hold.\<close>

definition icalmemory_free_ring_byval :: "'p buffer_ring \<Rightarrow> 'p list" where
  "icalmemory_free_ring_byval br = map the (filter (\<lambda>x. x \<noteq> None) (br_ring br))"

text \<open>The slots from the oldest to the newest.\<close>

definition ring_window :: "'p buffer_ring \<Rightarrow> 'p option list" where
  "ring_window br = drop (Suc (br_pos br)) (br_ring br) @ take (Suc (br_pos br)) (br_ring br)"

definition ring_ok :: "'p buffer_ring \<Rightarrow> bool" where
  "ring_ok br \<longleftrightarrow> length (br_ring br) = BUFFER_RING_SIZE \<and> br_pos br < BUFFER_RING_SIZE"

fun add_all :: "'p list \<Rightarrow> 'p buffer_ring \<Rightarrow> 'p option list \<times> 'p buffer_ring" where
  "add_all [] br = ([], br)"
| "add_all (b # bs) br =
     (let (f, br1) = icalmemory_add_tmp_buffer b br; (fs, br2) = add_all bs br1 in (f # fs, br2))"

lemma ring_new_ok: "ring_ok buffer_ring_new"
  by (simp add: ring_ok_def buffer_ring_new_def BUFFER_RING_SIZE_def)

lemma ring_window_new: "ring_window buffer_ring_new = replicate BUFFER_RING_SIZE None"
proof -
  have "drop (Suc 0) (replicate n x) @ take (Suc 0) (replicate n x) = replicate n x" for n and x :: "'a option"
    by (cases n) (simp_all add: replicate_append_same)
  then show ?thesis by (simp only: ring_window_def buffer_ring_new_def buffer_ring.select_convs)
qed

lemma ring_add:
  assumes ok: "ring_ok br"
  shows "ring_ok (snd (icalmemory_add_tmp_buffer b br))"
    and "fst (icalmemory_add_tmp_buffer b br) = hd (ring_window br)"
    and "ring_window (snd (icalmemory_add_tmp_buffer b br)) = tl (ring_window br) @ [Some b]"
proof -
  let ?r = "br_ring br" and ?p = "br_pos br"
  have len: "length ?r = BUFFER_RING_SIZE" "?p < BUFFER_RING_SIZE" using ok by (simp_all add: ring_ok_def)
  have pos: "0 < BUFFER_RING_SIZE" by (simp add: BUFFER_RING_SIZE_def)
  show "ring_ok (snd (icalmemory_add_tmp_buffer b br))"
    using len pos by (auto simp: ring_ok_def icalmemory_add_tmp_buffer_def Let_def)
  have "fst (icalmemory_add_tmp_buffer b br) = hd (ring_window br) \<and>
        ring_window (snd (icalmemory_add_tmp_buffer b br)) = tl (ring_window br) @ [Some b]"
  proof (cases "Suc ?p = BUFFER_RING_SIZE")
    case True
    then obtain x xs where "?r = x # xs" using len by (cases ?r) auto
    with True len show ?thesis
      by (simp add: icalmemory_add_tmp_buffer_def ring_window_def)
  next
    case False
    then have p: "Suc ?p < length ?r" using len by simp
    have "drop (Suc ?p) ?r = ?r ! Suc ?p # drop (Suc (Suc ?p)) ?r" using p by (rule Cons_nth_drop_Suc [symmetric])
    moreover have "take (Suc (Suc ?p)) (?r[Suc ?p := Some b]) = take (Suc ?p) ?r @ [Some b]"
      using p by (simp add: take_Suc_conv_app_nth)
    ultimately show ?thesis
      using False p by (simp add: icalmemory_add_tmp_buffer_def ring_window_def)
  qed
  then show "fst (icalmemory_add_tmp_buffer b br) = hd (ring_window br)"
    "ring_window (snd (icalmemory_add_tmp_buffer b br)) = tl (ring_window br) @ [Some b]" by simp_all
qed

lemma ring_window_length: "ring_ok br \<Longrightarrow> length (ring_window br) = BUFFER_RING_SIZE"
  by (auto simp: ring_ok_def ring_window_def)

lemma add_all_window:
  assumes "ring_ok br" "length bs \<le> BUFFER_RING_SIZE" "ring_window br = ws @ map Some cs"
    "length bs \<le> length ws"
  shows "ring_window (snd (add_all bs br)) = drop (length bs) ws @ map Some (cs @ bs) \<and>
         fst (add_all bs br) = take (length bs) ws"
  using assms
proof (induction bs arbitrary: br ws cs)
  case (Cons b bs)
  then obtain w ws' where ws: "ws = w # ws'" by (cases ws) auto
  obtain f br1 where a: "icalmemory_add_tmp_buffer b br = (f, br1)" by force
  have "ring_ok br1" "f = w" "ring_window br1 = ws' @ map Some (cs @ [b])"
    using ring_add [OF Cons.prems(1), of b] Cons.prems(3) ws a by simp_all
  with Cons.IH [of br1 ws' "cs @ [b]"] Cons.prems ws a show ?case
    by (auto split: prod.splits)
qed simp

end
