(* ===== verification/IcalError.thy ===== *)
theory IcalError
  imports Prelude
begin

text \<open>
  The error reporting of \<^verbatim>\<open>icalerror.c\<close>: the error number, the flag that makes errors
  fatal, and the table that overrides it error by error. Setting the error number of a
  fatal error ends the process, which is the result \<open>None\<close>.

  The other theories only need to know which error a routine raised last: their functions
  return an \<open>icalerrorenum option\<close> beside the value. \<open>raise\<close> turns that into the new
  state.
\<close>

datatype icalerrorenum =
    ICAL_NO_ERROR | ICAL_BADARG_ERROR | ICAL_NEWFAILED_ERROR | ICAL_ALLOCATION_ERROR
  | ICAL_MALFORMEDDATA_ERROR | ICAL_PARSE_ERROR | ICAL_INTERNAL_ERROR | ICAL_FILE_ERROR
  | ICAL_USAGE_ERROR | ICAL_UNIMPLEMENTED_ERROR | ICAL_UNKNOWN_ERROR

datatype icalerrorstate =
    ICAL_ERROR_FATAL | ICAL_ERROR_NONFATAL | ICAL_ERROR_DEFAULT | ICAL_ERROR_UNKNOWN

record icalerror_state =
  icalerrno :: icalerrorenum
  icalerror_errors_are_fatal :: int
  error_state_map :: "(icalerrorenum \<times> icalerrorstate) list"

definition error_state_map_init :: "(icalerrorenum \<times> icalerrorstate) list" where
  "error_state_map_init =
     [(ICAL_BADARG_ERROR, ICAL_ERROR_DEFAULT), (ICAL_NEWFAILED_ERROR, ICAL_ERROR_DEFAULT),
      (ICAL_ALLOCATION_ERROR, ICAL_ERROR_DEFAULT), (ICAL_MALFORMEDDATA_ERROR, ICAL_ERROR_DEFAULT),
      (ICAL_PARSE_ERROR, ICAL_ERROR_DEFAULT), (ICAL_INTERNAL_ERROR, ICAL_ERROR_DEFAULT),
      (ICAL_FILE_ERROR, ICAL_ERROR_DEFAULT), (ICAL_USAGE_ERROR, ICAL_ERROR_DEFAULT),
      (ICAL_UNIMPLEMENTED_ERROR, ICAL_ERROR_DEFAULT), (ICAL_UNKNOWN_ERROR, ICAL_ERROR_DEFAULT),
      (ICAL_NO_ERROR, ICAL_ERROR_DEFAULT)]"

definition string_map :: "(string \<times> icalerrorenum \<times> string) list" where
  "string_map =
     [(''BADARG'', ICAL_BADARG_ERROR, ''BADARG: Bad argument to function''),
      (''NEWFAILED'', ICAL_NEWFAILED_ERROR,
        ''NEWFAILED: Failed to create a new object via a *_new() routine''),
      (''ALLOCATION'', ICAL_ALLOCATION_ERROR, ''ALLOCATION: Failed to allocate new memory''),
      (''MALFORMEDDATA'', ICAL_MALFORMEDDATA_ERROR,
        ''MALFORMEDDATA: An input string was not correctly formed or a component has missing or extra properties''),
      (''PARSE'', ICAL_PARSE_ERROR, ''PARSE: Failed to parse a part of an iCal component''),
      (''INTERNAL'', ICAL_INTERNAL_ERROR,
        ''INTERNAL: Random internal error. This indicates an error in the library code, not an error in use''),
      (''FILE'', ICAL_FILE_ERROR,
        ''FILE: An operation on a file failed. Check errno for more detail.''),
      (''USAGE'', ICAL_USAGE_ERROR,
        ''USAGE: Failed to propertyl sequence calls to a set of interfaces''),
      (''UNIMPLEMENTED'', ICAL_UNIMPLEMENTED_ERROR,
        ''UNIMPLEMENTED: This feature has not been implemented''),
      (''NO'', ICAL_NO_ERROR, ''NO: No error''),
      (''UNKNOWN'', ICAL_UNKNOWN_ERROR,
        ''UNKNOWN: Unknown error type -- icalerror_strerror() was probably given bad input'')]"

text \<open>The loops over the tables stop at the entry of the end marker, which they do not test.\<close>

fun get_state :: "(icalerrorenum \<times> icalerrorstate) list \<Rightarrow> icalerrorenum \<Rightarrow> icalerrorstate" where
  "get_state [] e = ICAL_ERROR_UNKNOWN"
| "get_state ((e', st) # m) e =
     (if e' = ICAL_NO_ERROR then ICAL_ERROR_UNKNOWN
      else if e' = e then st else get_state m e)"

fun put_state ::
    "(icalerrorenum \<times> icalerrorstate) list \<Rightarrow> icalerrorenum \<Rightarrow> icalerrorstate
       \<Rightarrow> (icalerrorenum \<times> icalerrorstate) list" where
  "put_state [] e st = []"
| "put_state ((e', s') # m) e st =
     (if e' = ICAL_NO_ERROR then (e', s') # m
      else (e', if e' = e then st else s') # put_state m e st)"

definition icalerror_get_error_state :: "icalerrorenum \<Rightarrow> icalerror_state \<Rightarrow> icalerrorstate" where
  "icalerror_get_error_state e s = get_state (error_state_map s) e"

definition icalerror_set_error_state ::
    "icalerrorenum \<Rightarrow> icalerrorstate \<Rightarrow> icalerror_state \<Rightarrow> icalerror_state" where
  "icalerror_set_error_state e st s = s\<lparr>error_state_map := put_state (error_state_map s) e st\<rparr>"

definition icalerror_set_errno :: "icalerrorenum \<Rightarrow> icalerror_state \<Rightarrow> icalerror_state option" where
  "icalerror_set_errno x s =
     (let s1 = s\<lparr>icalerrno := x\<rparr>
      in if icalerror_get_error_state x s1 = ICAL_ERROR_FATAL \<or>
            (icalerror_get_error_state x s1 = ICAL_ERROR_DEFAULT \<and> icalerror_errors_are_fatal s1 = 1)
         then None else Some s1)"

definition icalerror_clear_errno :: "icalerror_state \<Rightarrow> icalerror_state" where
  "icalerror_clear_errno s = s\<lparr>icalerrno := ICAL_NO_ERROR\<rparr>"

definition icalerror_error_from_string :: "string \<Rightarrow> icalerrorenum" where
  "icalerror_error_from_string str =
     (case List.find (\<lambda>(k, e, _). e = ICAL_UNKNOWN_ERROR \<or> k = str) string_map of
        None \<Rightarrow> ICAL_UNKNOWN_ERROR | Some (_, e, _) \<Rightarrow> e)"

definition icalerror_strerror :: "icalerrorenum \<Rightarrow> string" where
  "icalerror_strerror e =
     (case List.find (\<lambda>(_, e', _). e' = ICAL_UNKNOWN_ERROR \<or> e' = e) string_map of
        None \<Rightarrow> [] | Some (_, _, name) \<Rightarrow> name)"

definition icalerror_perror :: "icalerror_state \<Rightarrow> string" where
  "icalerror_perror s = icalerror_strerror (icalerrno s)"

definition icalerror_supress :: "string \<Rightarrow> icalerror_state \<Rightarrow> icalerrorstate \<times> icalerror_state" where
  "icalerror_supress err s =
     (let e = icalerror_error_from_string err
      in if e = ICAL_NO_ERROR then (ICAL_ERROR_UNKNOWN, s)
         else (icalerror_get_error_state e s, icalerror_set_error_state e ICAL_ERROR_NONFATAL s))"

definition icalerror_restore :: "string \<Rightarrow> icalerrorstate \<Rightarrow> icalerror_state \<Rightarrow> icalerror_state" where
  "icalerror_restore err es s =
     (let e = icalerror_error_from_string err
      in if e \<noteq> ICAL_NO_ERROR then icalerror_set_error_state e es s else s)"

definition raise :: "icalerrorenum option \<Rightarrow> icalerror_state \<Rightarrow> icalerror_state option" where
  "raise e s = (case e of None \<Rightarrow> Some s | Some x \<Rightarrow> icalerror_set_errno x s)"

section \<open>Laws of the table\<close>

text \<open>The errors that the table has an entry for before its end marker.\<close>

fun listed :: "(icalerrorenum \<times> icalerrorstate) list \<Rightarrow> icalerrorenum \<Rightarrow> bool" where
  "listed [] e = False"
| "listed ((e', s') # m) e = (e' \<noteq> ICAL_NO_ERROR \<and> (e' = e \<or> listed m e))"

lemma get_put_same: "listed m e \<Longrightarrow> get_state (put_state m e st) e = st"
  by (induction m e rule: listed.induct) auto

lemma get_put_other: "e \<noteq> e' \<Longrightarrow> get_state (put_state m e st) e' = get_state m e'"
  by (induction m e st rule: put_state.induct) auto

lemma listed_put [simp]: "listed (put_state m e st) e' = listed m e'"
  by (induction m e st rule: put_state.induct) auto

lemma put_put [simp]: "put_state (put_state m e st) e st' = put_state m e st'"
  by (induction m e st rule: put_state.induct) auto

lemma put_get [simp]: "distinct (map fst m) \<Longrightarrow> put_state m e (get_state m e) = m"
proof (induction m e "get_state m e" rule: put_state.induct)
  case (2 e' s' m e)
  have "put_state m e st = m" if "e \<notin> fst ` set m" for st m
    using that by (induction m e st rule: put_state.induct) auto
  with 2 show ?case by auto
qed simp

lemma listed_init [simp]: "listed error_state_map_init e \<longleftrightarrow> e \<noteq> ICAL_NO_ERROR"
  by (cases e) (simp_all add: error_state_map_init_def)

end
