(* ===== verification/StoreProperties.thy ===== *)
theory StoreProperties
  imports PvlSeq IcalArray IcalMemory IcalError
begin

text \<open>
  The properties of the storage components: the linked list of \<^verbatim>\<open>pvl.c\<close>, the array of
  \<^verbatim>\<open>icalarray.c\<close>, the buffers of \<^verbatim>\<open>icalmemory.c\<close> and the error table of \<^verbatim>\<open>icalerror.c\<close>. Each
  is followed by an instance on concrete data.
\<close>

section \<open>The linked list\<close>

text \<open>A list of the numbers 10 and 30, built by two pushes, for the instances.\<close>

definition sample_heap :: "int pvl_heap" where
  "sample_heap =
     \<lparr>cells = [1 \<mapsto> \<lparr>e_magic = 0, e_data = 10, e_next = 2, e_prior = 0\<rparr>,
               2 \<mapsto> \<lparr>e_magic = 1, e_data = 30, e_next = 0, e_prior = 1\<rparr>],
      fresh = 3, pvl_elem_count = 2, pvl_list_count = 1\<rparr>"

definition sample_list :: pvl_list where
  "sample_list = \<lparr>l_magic = 0, l_head = 1, l_tail = 2, l_count = 2, l_p = 0\<rparr>"

lemma sample_rep: "pvl_rep sample_heap sample_list [(1, 10), (2, 30)]"
  by (simp add: pvl_rep_def heap_ok_def sample_heap_def sample_list_def)

lemma sample_good: "pvl_good (sample_list, sample_heap)"
  by (rule pvl_goodI [OF sample_rep]) (simp add: sample_list_def)

lemma int_compare: "c_compare (\<lambda>a b. a - b :: int)"
  by unfold_locales auto

text \<open>C11: \<open>pvl_insert_ordered\<close> on a list sorted by a total preorder puts the new item at a place
  where the list stays sorted and loses nothing. The list's count grows by two, because this
  routine and the inserting routine it calls both increment it.\<close>

theorem insert_ordered_sorted:
  assumes "c_compare cmp" "pvl_rep h L axs" "cmp_sorted cmp (map snd axs)"
  shows "\<exists>L' h' us vs. pvl_insert_ordered L cmp x h = Some (L', h') \<and> axs = us @ vs \<and>
           pvl_rep h' L' (us @ (fresh h, x) # vs) \<and>
           cmp_sorted cmp (map snd us @ x # map snd vs) \<and> l_count L' = l_count L + 2"
  by (rule c_compare.rep_insert_ordered [OF assms])

theorem insert_ordered_sorted_witness:
  "\<exists>L' h' us vs. pvl_insert_ordered sample_list (\<lambda>a b. a - b) 20 sample_heap = Some (L', h') \<and>
     [(1, 10), (2, 30)] = us @ vs \<and> pvl_rep h' L' (us @ (fresh sample_heap, 20) # vs) \<and>
     cmp_sorted (\<lambda>a b. a - b) (map snd us @ 20 # map snd vs) \<and> l_count L' = l_count sample_list + 2"
  by (rule insert_ordered_sorted [OF int_compare sample_rep]) (simp add: cmp_sorted_def)

text \<open>C12: \<open>pvl_remove\<close> unlinks exactly the element it is given, at the head, at the tail or
  inside, returns its item, lowers the count by one, and what is left is a well-linked list of
  the other elements in their order.\<close>

theorem remove_unlinks:
  assumes "pvl_rep h L (xs @ (a, x) # ys)"
  shows "\<exists>L' h'. pvl_remove L a h = Some (x, L', h') \<and> pvl_rep h' L' (xs @ ys) \<and>
           l_count L' = l_count L - 1 \<and> cells h' a = None"
proof -
  from rep_remove [OF assms] obtain L' h'
    where r: "pvl_remove L a h = Some (x, L', h')" "pvl_rep h' L' (xs @ ys)" "l_count L' = l_count L - 1"
    by blast
  then have "cells h' a = None"
    by (auto simp: pvl_remove_def free_cell_def bind_eq_Some_conv split: prod.splits)
  with r show ?thesis by blast
qed

theorem remove_unlinks_witness:
  "\<exists>L' h'. pvl_remove sample_list 1 sample_heap = Some (10, L', h') \<and> pvl_rep h' L' ([] @ [(2, 30)]) \<and>
     l_count L' = l_count sample_list - 1 \<and> cells h' 1 = None"
  by (rule remove_unlinks) (unfold append_Nil, rule sample_rep)

text \<open>A good list is a double-ended queue: what \<open>pvl_push\<close> appended, \<open>pvl_pop\<close> takes off again
  and leaves the items as they were, and \<open>pvl_shift\<close> takes off what \<open>pvl_unshift\<close> put in front.\<close>

theorem push_pop_unshift_shift:
  assumes "pvl_good (L, h)"
  shows "(\<exists>L1 h1 L2 h2. pvl_push L x h = Some (L1, h1) \<and> pvl_items (L1, h1) = pvl_items (L, h) @ [x] \<and>
      pvl_pop L1 h1 = Some (Some x, L2, h2) \<and> pvl_good (L2, h2) \<and> pvl_items (L2, h2) = pvl_items (L, h)) \<and>
    (\<exists>L1 h1 L2 h2. pvl_unshift L x h = Some (L1, h1) \<and> pvl_items (L1, h1) = x # pvl_items (L, h) \<and>
      pvl_shift L1 h1 = Some (Some x, L2, h2) \<and> pvl_good (L2, h2) \<and> pvl_items (L2, h2) = pvl_items (L, h))"
proof
  from pvlq.push_items [OF assms, of x] obtain L1 h1
    where 1: "pvl_push L x h = Some (L1, h1)" "pvl_good (L1, h1)" "pvl_items (L1, h1) = pvl_items (L, h) @ [x]"
    by auto
  with pvlq.pop_items [OF 1(2,3)] 1(1) show "\<exists>L1 h1 L2 h2. pvl_push L x h = Some (L1, h1) \<and>
      pvl_items (L1, h1) = pvl_items (L, h) @ [x] \<and> pvl_pop L1 h1 = Some (Some x, L2, h2) \<and>
      pvl_good (L2, h2) \<and> pvl_items (L2, h2) = pvl_items (L, h)" by auto
  from pvlq.unshift_items [OF assms, of x] obtain L1 h1
    where 2: "pvl_unshift L x h = Some (L1, h1)" "pvl_good (L1, h1)" "pvl_items (L1, h1) = x # pvl_items (L, h)"
    by auto
  with pvlq.shift_items [OF 2(2,3)] 2(1) show "\<exists>L1 h1 L2 h2. pvl_unshift L x h = Some (L1, h1) \<and>
      pvl_items (L1, h1) = x # pvl_items (L, h) \<and> pvl_shift L1 h1 = Some (Some x, L2, h2) \<and>
      pvl_good (L2, h2) \<and> pvl_items (L2, h2) = pvl_items (L, h)" by auto
qed

theorem push_pop_unshift_shift_witness:
  "(\<exists>L1 h1 L2 h2. pvl_push sample_list 5 sample_heap = Some (L1, h1) \<and>
      pvl_items (L1, h1) = pvl_items (sample_list, sample_heap) @ [5] \<and>
      pvl_pop L1 h1 = Some (Some 5, L2, h2) \<and> pvl_good (L2, h2) \<and>
      pvl_items (L2, h2) = pvl_items (sample_list, sample_heap)) \<and>
   (\<exists>L1 h1 L2 h2. pvl_unshift sample_list 5 sample_heap = Some (L1, h1) \<and>
      pvl_items (L1, h1) = 5 # pvl_items (sample_list, sample_heap) \<and>
      pvl_shift L1 h1 = Some (Some 5, L2, h2) \<and> pvl_good (L2, h2) \<and>
      pvl_items (L2, h2) = pvl_items (sample_list, sample_heap))"
  by (rule push_pop_unshift_shift [OF sample_good])

text \<open>C20: The loops over a well-linked list end: \<open>pvl_apply\<close> visits the items once each in their
  order, and \<open>pvl_clear\<close> removes all of them and lowers the count by their number.\<close>

theorem apply_clear_total:
  assumes "pvl_rep h L axs"
  shows "pvl_apply L f h s = Some (fold f (map snd axs) s) \<and>
    (\<exists>L' h'. pvl_clear L h = Some (L', h') \<and> pvl_rep h' L' [] \<and> l_count L' = l_count L - int (length axs))"
  by (intro conjI rep_apply [OF assms] rep_clear [OF assms])

theorem apply_clear_total_witness:
  "pvl_apply sample_list (\<lambda>x acc. x + acc) sample_heap 0 = Some (fold (\<lambda>x acc. x + acc) (map snd [(1 :: nat, 10), (2, 30)]) 0) \<and>
   (\<exists>L' h'. pvl_clear sample_list sample_heap = Some (L', h') \<and> pvl_rep h' L' [] \<and>
      l_count L' = l_count sample_list - int (length [(1 :: nat, 10 :: int), (2, 30)]))"
  by (rule apply_clear_total [OF sample_rep])

section \<open>The array\<close>

definition sample_array :: "int icalarray" where
  "sample_array = \<lparr>element_size = 4, increment_size = 2, num_elements = 3, space_allocated = 4,
     array_data = [Some 3, Some 1, Some 2, None]\<rparr>"

lemma sample_array_ok: "array_ok sample_array" "elements sample_array = [3, 1, 2]"
  by (simp_all add: array_ok_def elements_def sample_array_def)

text \<open>After any number of appends \<open>icalarray_element_at\<close> gives every element at the position it
  was appended at, whether or not the memory had to grow, and nothing outside; growing never
  writes behind the memory.\<close>

theorem array_append_at:
  assumes "array_ok a"
  shows "\<exists>a'. foldl (\<lambda>r x. Option.bind r (\<lambda>b. icalarray_append b x)) (Some a) xs = Some a' \<and> array_ok a' \<and>
    (\<forall>i. icalarray_element_at a' i =
       (if 0 \<le> i \<and> i < int (length (elements a @ xs)) then Some ((elements a @ xs) ! nat i) else None))"
proof -
  from ica.fold_append [OF assms, of xs] obtain a'
    where "foldl (\<lambda>r x. Option.bind r (\<lambda>b. icalarray_append b x)) (Some a) xs = Some a'" "array_ok a'"
      "elements a' = elements a @ xs" by blast
  then show ?thesis
    using ica.at_law [of a'] element_at_outside [of a'] by (intro exI [of _ a']) auto
qed

theorem array_append_at_witness:
  "\<exists>a'. foldl (\<lambda>r x. Option.bind r (\<lambda>b. icalarray_append b x)) (Some sample_array) [7, 8] = Some a' \<and> array_ok a' \<and>
    (\<forall>i. icalarray_element_at a' i =
       (if 0 \<le> i \<and> i < int (length (elements sample_array @ [7, 8]))
        then Some ((elements sample_array @ [7, 8]) ! nat i) else None))"
  by (rule array_append_at [OF sample_array_ok(1)])

text \<open>C21: \<open>icalarray_remove_element_at\<close> takes out the element of the position and moves the later
  ones one to the front; \<open>icalarray_sort\<close> with a total preorder leaves a sorted permutation.\<close>

theorem array_remove_sort:
  assumes "array_ok a" "0 \<le> i" "i < int (length (elements a))" "c_compare cmp"
  shows "(\<exists>a'. icalarray_remove_element_at a i = Some a' \<and> array_ok a' \<and>
           elements a' = take (nat i) (elements a) @ drop (nat i + 1) (elements a)) \<and>
         (\<exists>a'. icalarray_sort a cmp = Some a' \<and> array_ok a' \<and> mset (elements a') = mset (elements a) \<and>
           cmp_sorted cmp (elements a'))"
  using remove_elements [OF assms(1-3)] sort_elements [OF assms(1), of cmp]
    c_compare.qsort_sorted [OF assms(4)] by auto

theorem array_remove_sort_witness:
  "(\<exists>a'. icalarray_remove_element_at sample_array 1 = Some a' \<and> array_ok a' \<and>
      elements a' = take (nat 1) (elements sample_array) @ drop (nat 1 + 1) (elements sample_array)) \<and>
   (\<exists>a'. icalarray_sort sample_array (\<lambda>a b. a - b) = Some a' \<and> array_ok a' \<and>
      mset (elements a') = mset (elements sample_array) \<and> cmp_sorted (\<lambda>a b. a - b) (elements a'))"
  by (rule array_remove_sort [OF sample_array_ok(1) _ _ int_compare]) (simp_all add: sample_array_ok)

section \<open>Buffers\<close>

text \<open>C22: Appending to a well-formed growing buffer, a text or a character, never writes outside it
  and leaves a well-formed buffer that holds the old text and the new one, at any size.\<close>

theorem append_text:
  assumes "sb_ok b" "nul_free s" "c \<noteq> NUL"
  shows "\<exists>b1 b2. icalmemory_append_string b s = Some b1 \<and> icalmemory_append_char b1 c = Some b2 \<and>
    sb_ok b2 \<and> sb_text b2 = sb_text b @ s @ [c]"
proof -
  from icm.wstr_law [OF assms(1,2)] obtain b1
    where 1: "icalmemory_append_string b s = Some b1" "sb_ok b1" "sb_text b1 = sb_text b @ s" by blast
  from icm.wchr_law [OF 1(2) assms(3)] 1 show ?thesis by auto
qed

theorem append_text_witness:
  "\<exists>b1 b2. icalmemory_append_string (icalmemory_new_buffer 2) ''PT15M'' = Some b1 \<and>
     icalmemory_append_char b1 (CHR ''/'') = Some b2 \<and> sb_ok b2 \<and>
     sb_text b2 = sb_text (icalmemory_new_buffer 2) @ ''PT15M'' @ [CHR ''/'']"
  using new_buffer_ok [of 2] by (intro append_text) (auto simp: NUL_iff)

text \<open>C23: A temporary buffer stays alive while fewer than 2500 others are added after it: it is not
  among the buffers freed for them, and the ring still holds it.\<close>

theorem tmp_buffer_lives:
  assumes "ring_ok br" "length bs < BUFFER_RING_SIZE" "Some b \<notin> set (br_ring br)"
  shows "let (freed, br1) = icalmemory_add_tmp_buffer b br in
    Some b \<notin> set (fst (add_all bs br1)) \<and> Some b \<in> set (br_ring (snd (add_all bs br1)))"
proof -
  obtain f br1 where a: "icalmemory_add_tmp_buffer b br = (f, br1)" by force
  have br1: "ring_ok br1" "ring_window br1 = tl (ring_window br) @ map Some [b]"
    using ring_add [OF assms(1), of b] a by simp_all
  have len: "length bs \<le> length (tl (ring_window br))"
    using ring_window_length [OF assms(1)] assms(2) by simp
  have w: "ring_window (snd (add_all bs br1)) = drop (length bs) (tl (ring_window br)) @ map Some ([b] @ bs)"
    "fst (add_all bs br1) = take (length bs) (tl (ring_window br))"
    using add_all_window [OF br1(1) _ br1(2) len] assms(2) by auto
  have "set (ring_window br) \<subseteq> set (br_ring br)"
    unfolding ring_window_def by (auto dest: in_set_takeD in_set_dropD)
  then have "set (tl (ring_window br)) \<subseteq> set (br_ring br)"
    by (cases "ring_window br") auto
  then have "Some b \<notin> set (fst (add_all bs br1))" using w(2) assms(3) by (auto dest: in_set_takeD)
  moreover have "Some b \<in> set (ring_window (snd (add_all bs br1)))" using w(1) by simp
  then have "Some b \<in> set (br_ring (snd (add_all bs br1)))"
    by (auto simp: ring_window_def dest: in_set_takeD in_set_dropD)
  ultimately show ?thesis by (simp add: a)
qed

theorem tmp_buffer_lives_witness:
  "let (freed, br1) = icalmemory_add_tmp_buffer (7 :: nat) buffer_ring_new in
     Some 7 \<notin> set (fst (add_all [1, 2, 3] br1)) \<and> Some 7 \<in> set (br_ring (snd (add_all [1, 2, 3] br1)))"
  by (rule tmp_buffer_lives [OF ring_new_ok]) (simp_all add: BUFFER_RING_SIZE_def buffer_ring_new_def)

section \<open>Errors\<close>

lemma not_listed_end: "\<not> listed m ICAL_NO_ERROR"
  by (induction m) auto

text \<open>Suppressing an error by name and restoring it with the state that was returned gives the
  error table back; in between the error does not abort.\<close>

theorem supress_restore:
  assumes "distinct (map fst (error_state_map s))" "listed (error_state_map s) (icalerror_error_from_string err)"
  shows "icalerror_restore err (fst (icalerror_supress err s)) (snd (icalerror_supress err s)) = s \<and>
    icalerror_set_errno (icalerror_error_from_string err) (snd (icalerror_supress err s)) \<noteq> None"
proof
  show "icalerror_restore err (fst (icalerror_supress err s)) (snd (icalerror_supress err s)) = s"
    using assms(1) by (simp add: icalerror_restore_def icalerror_supress_def Let_def
        icalerror_set_error_state_def icalerror_get_error_state_def)
  have "icalerror_error_from_string err \<noteq> ICAL_NO_ERROR"
    using not_listed_end [of "error_state_map s"] assms(2) by auto
  with assms(2) show "icalerror_set_errno (icalerror_error_from_string err) (snd (icalerror_supress err s)) \<noteq> None"
    by (simp add: icalerror_set_errno_def icalerror_supress_def Let_def icalerror_set_error_state_def
        icalerror_get_error_state_def get_put_same)
qed

definition initial_errors :: icalerror_state where
  "initial_errors = \<lparr>icalerrno = ICAL_NO_ERROR, icalerror_errors_are_fatal = 0, error_state_map = error_state_map_init\<rparr>"

theorem supress_restore_witness:
  "icalerror_restore ''PARSE'' (fst (icalerror_supress ''PARSE'' initial_errors))
     (snd (icalerror_supress ''PARSE'' initial_errors)) = initial_errors \<and>
   icalerror_set_errno (icalerror_error_from_string ''PARSE'') (snd (icalerror_supress ''PARSE'' initial_errors)) \<noteq> None"
  by (rule supress_restore)
    (simp_all add: initial_errors_def error_state_map_init_def icalerror_error_from_string_def string_map_def)

end
