(* ===== verification/CalDate.thy ===== *)
theory CalDate
  imports Prelude
begin

text \<open>
  The Julian day routines of \<^verbatim>\<open>caldate.c\<close>, on which the day of the week and the week
  number rest. The code computes in \<open>double\<close>; the model computes the same expressions on
  exact rationals. The library calls them with a time of day of zero. Every product and
  quotient is then either exact in \<open>double\<close> or at least \<open>1e-9\<close> away from the next integer
  that a truncation or comparison could confuse it with, so the integer results agree.
\<close>

section \<open>The routines\<close>

record ut_instant =
  j_date :: rat
  ut_year :: int
  ut_month :: int
  ut_day :: int
  i_hour :: int
  i_minute :: int
  i_second :: int
  d_hour :: rat
  d_minute :: rat
  d_second :: rat
  weekday :: int
  day_of_year :: int

definition caldat :: "ut_instant \<Rightarrow> int \<times> ut_instant" where
  "caldat date =
    (let jd = c_trunc (j_date date + 1/2);
         frac = j_date date + 1/2 - of_int jd + 1 / 10 ^ 10;
         ka = (if jd \<ge> 2299161 then
                 let ialp = c_trunc ((of_int jd - 186721625/100) / (3652425/100))
                 in jd + 1 + ialp - ialp div 4
               else jd);
         kb = ka + 1524;
         kc = c_trunc ((of_int kb - 1221/10) / (36525/100));
         kd = c_trunc (of_int kc * (36525/100));
         ke = c_trunc (of_int (kb - kd) / (306001/10000));
         day0 = kb - kd - c_trunc (of_int ke * (306001/10000));
         month = (if ke > 13 then ke - 13 else ke - 1);
         day = (if month = 2 \<and> day0 > 28 then 29 else day0);
         year = (if month = 2 \<and> day = 29 \<and> ke = 3 then kc - 4716
                 else if month > 2 then kc - 4716 else kc - 4715);
         dh = frac * 24;
         ih = c_trunc dh;
         dm = (dh - of_int ih) * 60;
         im = c_trunc dm;
         ds = (dm - of_int im) * 60;
         is = c_trunc ds;
         doy = (if year = (year div 4) * 4
                then c_div (275 * month) 9 - c_div (month + 9) 12 + day - 30
                else c_div (275 * month) 9 - c_div (month + 9) 12 * 2 + day - 30)
     in (year, date\<lparr>ut_day := day, ut_month := month, ut_year := year,
                    i_hour := ih, d_hour := dh, i_minute := im, d_minute := dm,
                    i_second := is, d_second := ds,
                    weekday := c_mod (jd + 1) 7, day_of_year := doy\<rparr>))"

definition juldat :: "ut_instant \<Rightarrow> rat \<times> ut_instant" where
  "juldat date =
    (let frac = of_int (i_hour date) / 24 + of_int (i_minute date) / 1440 + d_second date / 86400;
         gyr = of_int (ut_year date) + of_int (ut_month date) / 100 + of_int (ut_day date) / 10000
               + frac / 10000 + 1 / 10 ^ 9;
         iy0 = (if ut_month date \<le> 2 then ut_year date - 1 else ut_year date);
         im0 = (if ut_month date \<le> 2 then ut_month date + 12 else ut_month date);
         ia = c_div iy0 100;
         ib = 2 - ia + ia div 4;
         jd = (if ut_year date < 0
               then c_trunc (36525/100 * of_int iy0 - 3/4) + c_trunc (306001/10000 * of_int (im0 + 1))
                    + ut_day date + 1720994
               else c_trunc (36525/100 * of_int iy0) + c_trunc (306001/10000 * of_int (im0 + 1))
                    + ut_day date + 1720994);
         jd1 = (if gyr \<ge> 15821015/10000 then jd + ib else jd);
         jdate = of_int jd1 + frac + 1/2
     in (jdate, date\<lparr>j_date := jdate, weekday := c_mod (c_trunc (jdate + 1/2) + 1) 7\<rparr>))"

text \<open>The structure the callers fill in: a date at midnight, everything else zero.\<close>

definition ut_date :: "int \<Rightarrow> int \<Rightarrow> int \<Rightarrow> ut_instant" where
  "ut_date y m d =
     \<lparr>j_date = 0, ut_year = y, ut_month = m, ut_day = d, i_hour = 0, i_minute = 0, i_second = 0,
      d_hour = 0, d_minute = 0, d_second = 0, weekday = 0, day_of_year = 0\<rparr>"

section \<open>Closed forms on the integers\<close>

text \<open>
  The Julian day number of a date of the Gregorian calendar, counted from March: \<open>iy\<close> and
  \<open>im\<close> are the year and month when January and February belong to the year before.
\<close>

definition jdn_of :: "int \<Rightarrow> int \<Rightarrow> int \<Rightarrow> int" where
  "jdn_of iy im d = (1461 * iy) div 4 + (306001 * (im + 1)) div 10000 + d + 1720995
                    + (2 - iy div 100 + iy div 400)"

definition jdn :: "int \<Rightarrow> int \<Rightarrow> int \<Rightarrow> int" where
  "jdn y m d = (if m \<le> 2 then jdn_of (y - 1) (m + 12) d else jdn_of y m d)"

lemma trunc_year [simp]: "0 \<le> y \<Longrightarrow> c_trunc (36525/100 * of_int y) = (1461 * y) div 4"
  using c_trunc_divide [of "1461 * y" 4] by simp

lemma trunc_month [simp]: "0 \<le> m \<Longrightarrow> c_trunc (306001/10000 * of_int m) = (306001 * m) div 10000"
  using c_trunc_divide [of "306001 * m" 10000] by simp

lemma jdn_of_nonneg:
  assumes "0 \<le> iy" "0 \<le> im" "1 \<le> d"
  shows "0 \<le> jdn_of iy im d"
proof -
  have "iy div 100 \<le> iy" "iy \<le> (1461 * iy) div 4" using assms(1) by simp_all
  moreover have "0 \<le> iy div 400" "0 \<le> (306001 * (im + 1)) div 10000"
    using assms by (simp_all add: pos_imp_zdiv_nonneg_iff)
  ultimately show ?thesis using assms(3) unfolding jdn_of_def by linarith
qed

lemma jdn_nonneg: "1583 \<le> y \<Longrightarrow> 1 \<le> m \<Longrightarrow> 1 \<le> d \<Longrightarrow> 0 \<le> jdn y m d"
  by (simp add: jdn_def jdn_of_nonneg)

lemma juldat_jdn:
  assumes "1583 \<le> y" "1 \<le> m" "m \<le> 12" "1 \<le> d"
  shows "juldat (ut_date y m d) =
           (of_int (jdn y m d) - 1/2,
            (ut_date y m d)\<lparr>j_date := of_int (jdn y m d) - 1/2, weekday := (jdn y m d + 1) mod 7\<rparr>)"
proof -
  define iy where "iy = (if m \<le> 2 then y - 1 else y)"
  define im where "im = (if m \<le> 2 then m + 12 else m)"
  have b: "0 \<le> iy" "0 \<le> im + 1" using assms by (auto simp: iy_def im_def)
  have "(1583::rat) \<le> of_int y" "(1::rat) \<le> of_int m" "(1::rat) \<le> of_int d"
    using assms by simp_all
  then have gyr: "((15821015/10000 :: rat) \<le> of_int y + of_int m / 100 + of_int d / 10000 + 1 / 10 ^ 9) = True"
    by simp
  have ib: "iy div 100 div 4 = iy div 400" "c_div iy 100 = iy div 100"
    using b by (simp_all add: c_div_nonneg zdiv_zmult2_eq [symmetric])
  have jd: "(1461 * iy) div 4 + (306001 * (im + 1)) div 10000 + d + 1720994
             + (2 - iy div 100 + iy div 400) = jdn y m d - 1"
    by (simp add: jdn_def jdn_of_def iy_def im_def)
  have tr: "c_trunc (of_int (jdn y m d) - 1/2 + 1/2) = jdn y m d"
    using c_trunc_of_int [of "jdn y m d"] by simp
  have "0 \<le> jdn y m d" using assms by (intro jdn_nonneg) auto
  then have wd: "c_mod (jdn y m d + 1) 7 = (jdn y m d + 1) mod 7" by (simp add: c_mod_nonneg)
  have half: "(of_int (jdn y m d - 1) + 1/2 :: rat) = of_int (jdn y m d) - 1/2" by simp
  have neg: "(y < 0) = False" using assms(1) by simp
  show ?thesis
    unfolding juldat_def ut_date_def Let_def
    by (simp only: ut_instant.simps of_int_0 div_0 add_0_left add_0_right gyr neg if_True if_False
        iy_def [symmetric] im_def [symmetric] trunc_year [OF b(1)] trunc_month [OF b(2)] ib jd tr wd half)
qed

section \<open>The day number counts days\<close>

definition greg_leap :: "int \<Rightarrow> bool" where
  "greg_leap y \<longleftrightarrow> (4 dvd y \<and> \<not> 100 dvd y) \<or> 400 dvd y"

definition greg_month_len :: "int \<Rightarrow> int \<Rightarrow> int" where
  "greg_month_len m y =
     (if m = 2 then (if greg_leap y then 29 else 28)
      else if m = 4 \<or> m = 6 \<or> m = 9 \<or> m = 11 then 30 else 31)"

lemma div_step: "0 < n \<Longrightarrow> y div n - (y - 1) div n = (if n dvd y then 1 else (0::int))"
proof -
  assume n: "0 < n"
  show ?thesis
  proof (cases "n dvd y")
    case True
    then obtain k where k: "y = n * k" by (rule dvdE)
    have "(y - 1) div n = k - 1"
      using n k by (intro int_div_pos_eq [where r = "n - 1"]) (auto simp: algebra_simps)
    with True n k show ?thesis by simp
  next
    case False
    then have "0 < y mod n" using n by (metis dvd_eq_mod_eq_0 order_le_less pos_mod_sign)
    then have "(y - 1) div n = y div n"
      using n pos_mod_bound [OF n, of y]
      by (intro int_div_pos_eq [where r = "y mod n - 1"]) (auto simp: algebra_simps)
    with False show ?thesis by simp
  qed
qed

lemma month_cases: "1 \<le> m \<Longrightarrow> m \<le> 12 \<Longrightarrow> m = 1 \<or> m = 2 \<or> m = 3 \<or> m = 4 \<or> m = 5 \<or> m = 6 \<or> m = 7 \<or>
    m = 8 \<or> m = 9 \<or> m = 10 \<or> m = 11 \<or> m = (12::int)"
  by arith

lemma jdn_add_day: "jdn y m (d + k) = jdn y m d + k"
  by (simp add: jdn_def jdn_of_def)

lemma year_step: "(1461 * y) div 4 - (1461 * (y - 1)) div 4 = 365 + (if 4 dvd y then 1 else (0::int))"
proof -
  have "(1461 * z) div 4 = 365 * z + z div 4" for z :: int
    using div_mult_self3 [of 4 "z" "365 * z"] by (simp add: algebra_simps)
  then show ?thesis using div_step [of 4 y] by simp
qed

lemma jdn_next_month:
  assumes "1 \<le> m" "m < 12"
  shows "jdn y (m + 1) d = jdn y m d + greg_month_len m y"
proof (cases "m = 2")
  case True
  have h: "100 dvd y \<Longrightarrow> 4 dvd y" "400 dvd y \<Longrightarrow> 100 dvd y"
    by (auto intro: dvd_trans [of 4 100] dvd_trans [of 100 400])
  have "jdn y 3 d - jdn y 2 d =
      ((1461 * y) div 4 - (1461 * (y - 1)) div 4) - (y div 100 - (y - 1) div 100)
      + (y div 400 - (y - 1) div 400) - 337"
    by (simp add: jdn_def jdn_of_def)
  also have "\<dots> = greg_month_len 2 y"
    unfolding year_step div_step [of 100 y, simplified] div_step [of 400 y, simplified]
    using h by (simp add: greg_month_len_def greg_leap_def)
  finally show ?thesis using True by simp
next
  case False
  have "m = 1 \<or> m = 3 \<or> m = 4 \<or> m = 5 \<or> m = 6 \<or> m = 7 \<or> m = 8 \<or> m = 9 \<or> m = 10 \<or> m = 11"
    using month_cases [of m] assms False by auto
  then show ?thesis by (elim disjE) (simp_all add: jdn_def jdn_of_def greg_month_len_def)
qed

lemma jdn_next_year: "jdn (y + 1) 1 d = jdn y 12 d + 31"
  by (simp add: jdn_def jdn_of_def)

section \<open>The date of a Julian day\<close>

definition month_off :: "int \<Rightarrow> int" where
  "month_off im = (306001 * (im + 1)) div 10000"

text \<open>
  What the routine computes from the day number of a date: the century term that undoes the
  Gregorian correction, then the year, the month and the day. The bounds on the day of the
  March-based year are those of real months, with day 488 for the leap day only.
\<close>

lemma caldat_terms:
  assumes iy0: "1582 \<le> iy" and n: "n = month_off im + d"
    and lo: "123 \<le> n" and hi: "n \<le> 487 \<or> n = 488 \<and> greg_leap (iy + 1)"
    and jd: "jd = jdn_of iy im d" and kb: "kb = (1461 * iy) div 4 + n + 1722519"
  shows "c_trunc ((of_int jd - 186721625/100) / (3652425/100)) = iy div 100 - 4"
    and "c_trunc ((of_int kb - 1221/10) / (36525/100)) = iy + 4716"
    and "jd + 1 + (iy div 100 - 4) - (iy div 100 - 4) div 4 + 1524 = kb"
    and "c_trunc (of_int (iy + 4716) * (36525/100)) = (1461 * iy) div 4 + 1722519"
proof -
  have iy: "0 \<le> iy" using iy0 by simp
  define c where "c = iy div 100"
  have c15: "15 \<le> c" using iy0 zdiv_mono1 [of 1582 iy 100] by (simp add: c_def)
  define r where "r = iy mod 100"
  have cr: "iy = 100 * c + r" "0 \<le> r" "r \<le> 99" "0 \<le> c" using iy by (simp_all add: c_def r_def)
  have c400: "iy div 400 = c div 4" by (simp add: c_def zdiv_zmult2_eq [symmetric])
  have y4: "(1461 * iy) div 4 = 36525 * c + (1461 * r) div 4"
    using div_mult_self3 [of 4 "1461 * r" "36525 * c"] by (simp add: cr(1) algebra_simps)
  have jd': "jd = 36525 * c + (1461 * r) div 4 + n + 1720995 + (2 - c + c div 4)"
    by (simp add: jd jdn_of_def n month_off_def c400 y4 c_def)
  have leap: "n = 488 \<Longrightarrow> (r = 99 \<longrightarrow> c mod 4 = 3) \<and> iy mod 4 = 3"
  proof -
    assume "n = 488"
    with hi have "greg_leap (iy + 1)" by auto
    then have "4 dvd iy + 1 \<or> 400 dvd iy + 1" and g: "100 dvd iy + 1 \<Longrightarrow> 400 dvd iy + 1"
      unfolding greg_leap_def by blast+
    then have "4 dvd iy + 1" using dvd_trans [of 4 400 "iy + 1"] by fastforce
    then have "iy mod 4 = 3" by presburger
    moreover have "c mod 4 = 3" if "r = 99"
    proof -
      have "iy + 1 = 100 * (c + 1)" using that cr(1) by simp
      with g have "100 * 4 dvd 100 * (c + 1)" by simp
      then have "4 dvd c + 1" by (simp only: dvd_mult_cancel_left) simp
      then show ?thesis by presburger
    qed
    ultimately show ?thesis by blast
  qed
  have num: "146097 * c - 584388 \<le> 4 * jd - 7468865" "4 * jd - 7468865 < 146097 * c - 438291"
  proof -
    have r4: "(1461 * r) div 4 \<le> 36159" "r \<noteq> 99 \<Longrightarrow> (1461 * r) div 4 \<le> 35794" "0 \<le> (1461 * r) div 4"
      using cr(2,3) zdiv_mono1 [of "1461 * r" "1461 * 99" 4] zdiv_mono1 [of "1461 * r" "1461 * 98" 4]
      by (simp_all add: pos_imp_zdiv_nonneg_iff)
    have c4: "c = 4 * (c div 4) + c mod 4" "0 \<le> c mod 4" "c mod 4 \<le> 3" by simp_all
    show "146097 * c - 584388 \<le> 4 * jd - 7468865" using jd' lo r4 c4 by linarith
    show "4 * jd - 7468865 < 146097 * c - 438291"
    proof (cases "n = 488")
      case True
      with leap have "r = 99 \<longrightarrow> c mod 4 = 3" by blast
      then show ?thesis using True jd' r4 c4 by (cases "r = 99") linarith+
    next
      case False
      with hi have "n \<le> 487" by blast
      then show ?thesis using jd' r4 c4 by linarith
    qed
  qed
  have "(of_int jd - 186721625/100) / (3652425/100 :: rat) = of_int (4 * jd - 7468865) / of_int 146097"
    by (simp add: field_simps)
  moreover have "0 \<le> 4 * jd - 7468865"
    using num(1) c15 by linarith
  moreover have "(4 * jd - 7468865) div 146097 = c - 4"
    using num by (intro int_div_pos_eq [where r = "4 * jd - 7468865 - 146097 * (c - 4)"]) auto
  ultimately show "c_trunc ((of_int jd - 186721625/100) / (3652425/100)) = iy div 100 - 4"
    using c_trunc_divide [of "4 * jd - 7468865" 146097] by (simp add: c_def mult.commute)
  show "jd + 1 + (iy div 100 - 4) - (iy div 100 - 4) div 4 + 1524 = kb"
    by (simp add: jd jdn_of_def kb n month_off_def c400 c_def [symmetric])
  have s: "1461 * iy = 4 * ((1461 * iy) div 4) + iy mod 4"
  proof -
    have "(1461 * iy) mod 4 = iy mod 4" using mod_mult_left_eq [of 1461 4 iy] by simp
    then show ?thesis by (metis mult_div_mod_eq)
  qed
  have m4: "0 \<le> iy mod 4" "iy mod 4 \<le> 3" by simp_all
  have e: "(of_int kb - 1221/10) / (36525/100 :: rat) = of_int (20 * kb - 2442) / of_int 7305"
    by (simp add: field_simps)
  have "(20 * kb - 2442) div 7305 = iy + 4716"
  proof (rule int_div_pos_eq)
    show "20 * kb - 2442 = 7305 * (iy + 4716) + (20 * n - 2442 - 5 * (iy mod 4))"
      unfolding distrib_left using kb s by linarith
    show "0 \<le> 20 * n - 2442 - 5 * (iy mod 4)" using lo m4 by linarith
    show "20 * n - 2442 - 5 * (iy mod 4) < 7305" using hi m4 leap by (cases "n = 488") auto
  qed
  moreover have "0 \<le> 20 * kb - 2442" using kb lo iy by (simp add: pos_imp_zdiv_nonneg_iff)
  ultimately show "c_trunc ((of_int kb - 1221/10) / (36525/100)) = iy + 4716"
    unfolding e using c_trunc_divide [of "20 * kb - 2442" 7305] by simp
  have "of_int (iy + 4716) * (36525/100 :: rat) = of_int (1461 * (iy + 4716)) / of_int 4" by simp
  moreover have "(1461 * (iy + 4716)) div 4 = (1461 * iy) div 4 + 1722519"
    using div_mult_self3 [of 4 "1461 * iy" 1722519] by (simp add: algebra_simps)
  ultimately show "c_trunc (of_int (iy + 4716) * (36525/100)) = (1461 * iy) div 4 + 1722519"
    using c_trunc_divide [of "1461 * (iy + 4716)" 4] iy by (simp add: mult.commute)
qed

lemma less_mult_div: "0 < n \<Longrightarrow> (z::int) < n * (z div n + 1)"
  by (metis add.commute add_less_cancel_left distrib_left mult.right_neutral mult_div_mod_eq pos_mod_bound)

lemma caldat_month:
  assumes "0 \<le> im" "1 \<le> d" "10000 * (month_off im + d) < 306001 * (im + 2)"
  shows "c_trunc (of_int (month_off im + d) / (306001/10000)) = im + 1"
    and "c_trunc (of_int (im + 1) * (306001/10000)) = month_off im"
proof -
  have b: "306001 * (im + 1) < 10000 * (month_off im + 1)"
    unfolding month_off_def by (rule less_mult_div) simp
  have b2: "0 \<le> month_off im" using assms(1) by (simp add: month_off_def pos_imp_zdiv_nonneg_iff)
  have b3: "306001 * (im + 1) \<le> 10000 * (month_off im + d)" using b assms(2) by simp
  have "of_int (month_off im + d) / (306001/10000 :: rat) = of_int (10000 * (month_off im + d)) / of_int 306001"
    by simp
  moreover have "(10000 * (month_off im + d)) div 306001 = im + 1"
    using assms(3) b3 by (intro int_div_pos_eq [where r = "10000 * (month_off im + d) - 306001 * (im + 1)"]) auto
  ultimately show "c_trunc (of_int (month_off im + d) / (306001/10000)) = im + 1"
    using c_trunc_divide [of "10000 * (month_off im + d)" 306001] assms(2) b2
    by (simp add: mult.commute)
  have "of_int (im + 1) * (306001/10000 :: rat) = of_int (306001 * (im + 1)) / of_int 10000" by simp
  then show "c_trunc (of_int (im + 1) * (306001/10000)) = month_off im"
    using c_trunc_divide [of "306001 * (im + 1)" 10000] assms(1) by (simp add: month_off_def mult.commute)
qed

text \<open>A date whose day exists in its month gives such a March-based day.\<close>

lemma month_off_table:
  "month_off 3 = 122" "month_off 4 = 153" "month_off 5 = 183" "month_off 6 = 214"
  "month_off 7 = 244" "month_off 8 = 275" "month_off 9 = 306" "month_off 10 = 336"
  "month_off 11 = 367" "month_off 12 = 397" "month_off 13 = 428" "month_off 14 = 459"
  by (simp_all add: month_off_def)

lemma march_month:
  assumes "1 \<le> m" "m \<le> 12" "1 \<le> d" "d \<le> greg_month_len m y"
  defines "im \<equiv> (if m \<le> 2 then m + 12 else m)" and "iy \<equiv> (if m \<le> 2 then y - 1 else y)"
  shows "3 \<le> im" "123 \<le> month_off im + d"
    "month_off im + d \<le> 487 \<or> month_off im + d = 488 \<and> greg_leap (iy + 1)"
    "10000 * (month_off im + d) < 306001 * (im + 2)"
proof -
  have d31: "m \<noteq> 2 \<Longrightarrow> d \<le> 31" "m = 2 \<Longrightarrow> d \<le> 29" "m = 2 \<Longrightarrow> \<not> greg_leap y \<Longrightarrow> d \<le> 28"
    "m = 4 \<or> m = 6 \<or> m = 9 \<or> m = 11 \<Longrightarrow> d \<le> 30"
    using assms(4) by (auto simp: greg_month_len_def split: if_splits)
  show "3 \<le> im" using assms(1) by (simp add: im_def)
  show "123 \<le> month_off im + d"
    using month_cases [OF assms(1,2)] assms(3) by (elim disjE) (simp_all add: im_def month_off_table)
  show "month_off im + d \<le> 487 \<or> month_off im + d = 488 \<and> greg_leap (iy + 1)"
    using month_cases [OF assms(1,2)] d31
    by (elim disjE) (auto simp: im_def iy_def month_off_table)
  show "10000 * (month_off im + d) < 306001 * (im + 2)"
    using month_cases [OF assms(1,2)] d31
    by (elim disjE) (simp_all add: im_def month_off_table)
qed

lemma jdn_gregorian: "1583 \<le> y \<Longrightarrow> 1 \<le> m \<Longrightarrow> m \<le> 12 \<Longrightarrow> 1 \<le> d \<Longrightarrow> 2299161 \<le> jdn y m d"
proof -
  assume a: "1583 \<le> y" "1 \<le> m" "m \<le> 12" "1 \<le> d"
  have e: "(1461 * i) div 4 = 365 * i + i div 4" for i :: int
    using div_mult_self3 [of 4 i "365 * i"] by (simp add: algebra_simps)
  have b: "577812 \<le> (1461 * i) div 4 - i div 100 + i div 400" if "1582 \<le> i" for i :: int
  proof -
    have "i div 4 = 25 * (i div 100) + (i mod 100) div 4"
    proof -
      have "i = 4 * (25 * (i div 100)) + i mod 100" by simp
      then have "i div 4 = (4 * (25 * (i div 100)) + i mod 100) div 4" by simp
      also have "\<dots> = 25 * (i div 100) + (i mod 100) div 4" by (rule div_mult_self4 [THEN trans]) simp_all
      finally show ?thesis .
    qed
    moreover have "15 \<le> i div 100" "3 \<le> i div 400" "0 \<le> (i mod 100) div 4"
      using that zdiv_mono1 [of 1582 i 100] zdiv_mono1 [of 1582 i 400] by simp_all
    ultimately show ?thesis using that unfolding e by linarith
  qed
  show ?thesis
  proof (cases "m \<le> 2")
    case True
    then have "m = 1 \<or> m = 2" using a by auto
    then have "428 \<le> (306001 * (m + 13)) div 10000" by auto
    with True a b [of "y - 1"] show ?thesis by (simp add: jdn_def jdn_of_def add.commute)
  next
    case False
    have "122 \<le> (306001 * (m + 1)) div 10000"
      using False zdiv_mono1 [of "306001 * 4" "306001 * (m + 1)" 10000] by simp
    moreover have "577812 \<le> (1461 * y) div 4 - y div 100 + y div 400"
      using a(1) by (intro b) simp
    ultimately show ?thesis using False a by (simp add: jdn_def jdn_of_def)
  qed
qed

text \<open>
  Going to the day number and back gives the date, with the weekday of the day number.
\<close>

lemma caldat_juldat:
  assumes y: "1583 \<le> y" and m: "1 \<le> m" "m \<le> 12" and d: "1 \<le> d" "d \<le> greg_month_len m y"
  defines "r \<equiv> snd (caldat (snd (juldat (ut_date y m d))))"
  shows "ut_year r = y" "ut_month r = m" "ut_day r = d" "weekday r = (jdn y m d + 1) mod 7"
    "day_of_year r = (if 4 dvd y then c_div (275 * m) 9 - c_div (m + 9) 12 + d - 30
                      else c_div (275 * m) 9 - c_div (m + 9) 12 * 2 + d - 30)"
proof -
  define im where "im = (if m \<le> 2 then m + 12 else m)"
  define iy where "iy = (if m \<le> 2 then y - 1 else y)"
  define jd where "jd = jdn y m d"
  define n where "n = month_off im + d"
  define kb where "kb = (1461 * iy) div 4 + n + 1722519"
  note mm = march_month [OF m d, folded im_def iy_def]
  have jd': "jd = jdn_of iy im d" by (simp add: jd_def jdn_def iy_def im_def)
  have iy: "1582 \<le> iy" using y by (simp add: iy_def)
  note t = caldat_terms [OF iy n_def mm(2,3) [folded n_def] jd' kb_def]
  have im0: "0 \<le> im" using mm(1) by simp
  note q = caldat_month [OF im0 d(1) mm(4), folded n_def]
  have big: "(2299161 \<le> jd) = True" using jdn_gregorian [OF y m d(1)] by (simp add: jd_def)
  have j: "c_trunc (of_int jd - 1/2 + 1/2) = jd" using c_trunc_of_int [of jd] by simp
  have kn: "kb - ((1461 * iy) div 4 + 1722519) = n" by (simp add: kb_def)
  have dd: "n - month_off im = d" by (simp add: n_def)
  have mo: "(if im + 1 > 13 then im + 1 - 13 else im + 1 - 1) = m" using m by (auto simp: im_def)
  have d29: "(if m = 2 \<and> d > 28 then 29 else d) = d" using d(2) by (auto simp: greg_month_len_def split: if_splits)
  have k3: "(im + 1 = 3) = False" using mm(1) by simp
  have yy: "(if m > 2 then iy + 4716 - 4716 else iy + 4716 - 4715) = y" by (simp add: iy_def)
  have wd: "c_mod (jd + 1) 7 = (jd + 1) mod 7" using jdn_nonneg [OF y m(1) d(1)] by (simp add: jd_def c_mod_nonneg)
  have lp: "(y = y div 4 * 4) = (4 dvd y)" by presburger
  have eq: "j_date (snd (juldat (ut_date y m d))) = of_int jd - 1/2"
    using juldat_jdn [OF y m d(1)] by (simp add: jd_def)
  note rw = eq j big t(1,2) t(3) t(4) kn q dd mo d29 k3 yy wd lp if_True if_False simp_thms
  show "ut_year r = y" "ut_month r = m" "ut_day r = d" "weekday r = (jdn y m d + 1) mod 7"
    "day_of_year r = (if 4 dvd y then c_div (275 * m) 9 - c_div (m + 9) 12 + d - 30
                      else c_div (275 * m) 9 - c_div (m + 9) 12 * 2 + d - 30)"
    unfolding r_def caldat_def Let_def jd_def [symmetric]
    by (simp_all only: snd_conv ut_instant.simps rw) simp_all
qed

end
