(* ===== verification/TimeBase.thy ===== *)
theory TimeBase
  imports CText CalDate IcalError
begin

text \<open>
  The part of \<^verbatim>\<open>icaltime.c\<close> that does not look at time zones: the broken-down time, the
  calendar (leap years, month lengths, day of the year, day of the week, week number) and
  the normalising adjustment on which all arithmetic on times rests. The C fields are
  \<open>int\<close>; signed overflow is undefined in C and not modelled. Reading one of the static
  tables outside its bounds is the result \<open>None\<close>.

  The locale \<open>day_numbering\<close> is a numbering of the days that agrees with the library's
  month lengths; the adjustment is proved once for all of them. It is interpreted by the
  day count of the library's own leap year rule, and by the Julian day of \<^verbatim>\<open>caldate.c\<close>
  for the years in which the two rules agree.
\<close>

section \<open>Broken-down times\<close>

text \<open>A zone is referred to by its address; \<open>None\<close> is the null pointer of floating times.\<close>

type_synonym zone_ref = nat

record icaltimetype =
  year :: int
  month :: int
  day :: int
  hour :: int
  minute :: int
  second :: int
  is_utc :: int
  is_date :: int
  is_daylight :: int
  zone :: "zone_ref option"

definition icaltime_null_time :: icaltimetype where
  "icaltime_null_time =
     \<lparr>year = 0, month = 0, day = 0, hour = 0, minute = 0, second = 0,
      is_utc = 0, is_date = 0, is_daylight = 0, zone = None\<rparr>"

definition icaltime_null_date :: icaltimetype where
  "icaltime_null_date =
     icaltime_null_time\<lparr>is_date := 1, hour := - 1, minute := - 1, second := - 1\<rparr>"

definition icaltime_is_null_time :: "icaltimetype \<Rightarrow> bool" where
  "icaltime_is_null_time t \<longleftrightarrow> second t + minute t + hour t + day t + month t + year t = 0"

definition icaltime_is_valid_time :: "icaltimetype \<Rightarrow> bool" where
  "icaltime_is_valid_time t \<longleftrightarrow>
     \<not> (is_utc t > 1 \<or> is_utc t < 0 \<or> year t < 0 \<or> year t > 3000 \<or> is_date t > 1 \<or> is_date t < 0)"

definition icaltime_is_date :: "icaltimetype \<Rightarrow> int" where
  "icaltime_is_date t = is_date t"

definition icaltime_is_utc :: "icaltimetype \<Rightarrow> int" where
  "icaltime_is_utc t = is_utc t"

section \<open>The calendar\<close>

text \<open>Leap years: the Julian rule up to 1752, the Gregorian rule after.\<close>

definition icaltime_is_leap_year :: "int \<Rightarrow> int" where
  "icaltime_is_leap_year y =
     (if y \<le> 1752 then of_bool (c_mod y 4 = 0)
      else of_bool ((c_mod y 4 = 0 \<and> c_mod y 100 \<noteq> 0) \<or> c_mod y 400 = 0))"

definition ycaltime_days_in_year :: "int \<Rightarrow> int" where
  "ycaltime_days_in_year y = (if icaltime_is_leap_year y \<noteq> 0 then 366 else 365)"

definition days_in_month_table :: "int list" where
  "days_in_month_table = [0, 31, 28, 31, 30, 31, 30, 31, 31, 30, 31, 30, 31]"

text \<open>
  The table is read before the month is checked; for a month outside 1 to 12 the value
  read is dropped and the answer is 30.
\<close>

definition icaltime_days_in_month :: "int \<Rightarrow> int \<Rightarrow> int" where
  "icaltime_days_in_month m y =
     (if m < 1 \<or> m > 12 then 30
      else let days = days_in_month_table ! nat m
           in if m = 2 then days + icaltime_is_leap_year y else days)"

definition days_in_year_passed_month :: "int list list" where
  "days_in_year_passed_month =
     [[0, 31, 59, 90, 120, 151, 181, 212, 243, 273, 304, 334, 365],
      [0, 31, 60, 91, 121, 152, 182, 213, 244, 274, 305, 335, 366]]"

definition passed_month :: "int \<Rightarrow> int \<Rightarrow> int option" where
  "passed_month is_leap m =
     (if 0 \<le> m \<and> m \<le> 12 then Some (days_in_year_passed_month ! nat is_leap ! nat m) else None)"

definition icaltime_day_of_year :: "icaltimetype \<Rightarrow> int option" where
  "icaltime_day_of_year t =
     map_option (\<lambda>p. p + day t) (passed_month (icaltime_is_leap_year (year t)) (month t - 1))"

text \<open>The search for the month goes down from December.\<close>

fun month_of_doy :: "int \<Rightarrow> int \<Rightarrow> nat \<Rightarrow> (int \<times> int) option" where
  "month_of_doy is_leap doy 0 = None"
| "month_of_doy is_leap doy (Suc m) =
     (let p = days_in_year_passed_month ! nat is_leap ! m
      in if doy > p then Some (int m + 1, doy - p) else month_of_doy is_leap doy m)"

definition icaltime_from_day_of_year :: "int \<Rightarrow> int \<Rightarrow> icaltimetype" where
  "icaltime_from_day_of_year doy0 year0 =
     (let is_leap0 = icaltime_is_leap_year year0;
          len0 = days_in_year_passed_month ! nat is_leap0 ! 12;
          (doy, y, is_leap) =
            (if doy0 < 1 then
               let y1 = year0 - 1; l1 = icaltime_is_leap_year y1
               in (doy0 + days_in_year_passed_month ! nat l1 ! 12, y1, l1)
             else if doy0 > len0 then (doy0 - len0, year0 + 1, is_leap0)
             else (doy0, year0, is_leap0))
      in case month_of_doy is_leap doy 12 of
           None \<Rightarrow> icaltime_null_date\<lparr>year := y\<rparr>
         | Some (m, d) \<Rightarrow> icaltime_null_date\<lparr>year := y, month := m, day := d\<rparr>)"

section \<open>Weekdays and weeks\<close>

text \<open>1 is Sunday, 7 is Saturday.\<close>

definition icaltime_day_of_week :: "icaltimetype \<Rightarrow> int" where
  "icaltime_day_of_week t = weekday (snd (juldat (ut_date (year t) (month t) (day t)))) + 1"

definition ut_of :: "icaltimetype \<Rightarrow> ut_instant" where
  "ut_of t = snd (caldat (snd (juldat (ut_date (year t) (month t) (day t)))))"

definition icaltime_start_doy_week :: "icaltimetype \<Rightarrow> int \<Rightarrow> int" where
  "icaltime_start_doy_week t fdow =
     (let jt = ut_of t;
          delta0 = weekday jt - (fdow - 1);
          delta = (if delta0 < 0 then delta0 + 7 else delta0)
      in day_of_year jt - delta)"

definition icaltime_start_doy_of_week :: "icaltimetype \<Rightarrow> int" where
  "icaltime_start_doy_of_week t = icaltime_start_doy_week t 1"

definition icaltime_week_number :: "icaltimetype \<Rightarrow> int" where
  "icaltime_week_number t = (let jt = ut_of t in c_div (day_of_year jt - weekday jt) 7)"

section \<open>Adjusting a time\<close>

text \<open>One field with its carry: the remainder, made positive, and the overflow.\<close>

definition carry :: "int \<Rightarrow> int \<Rightarrow> int \<times> int" where
  "carry v base =
     (let r = c_mod v base; q = c_div v base in if r < 0 then (r + base, q - 1) else (r, q))"

definition normalize_month :: "int \<Rightarrow> int \<Rightarrow> int \<times> int" where
  "normalize_month y m =
     (if m \<ge> 13 then let years_overflow = c_div (m - 1) 12
                      in (y + years_overflow, m - years_overflow * 12)
      else if m \<le> 0 then let years_overflow = c_div m 12 - 1
                      in (y + years_overflow, m - years_overflow * 12)
      else (y, m))"

lemma days_in_month_pos: "28 \<le> icaltime_days_in_month m y"
proof (cases "m < 1 \<or> m > 12")
  case False
  then have "m = 1 \<or> m = 2 \<or> m = 3 \<or> m = 4 \<or> m = 5 \<or> m = 6 \<or> m = 7 \<or> m = 8 \<or>
    m = 9 \<or> m = 10 \<or> m = 11 \<or> m = 12" by arith
  then show ?thesis
    by (elim disjE) (simp_all add: icaltime_days_in_month_def days_in_month_table_def icaltime_is_leap_year_def)
qed (auto simp: icaltime_days_in_month_def)

text \<open>Moving a day number that is too large forward, and one that is too small back.\<close>

function days_forward :: "int \<Rightarrow> int \<Rightarrow> int \<Rightarrow> int \<times> int \<times> int" where
  "days_forward y m d =
     (let days_in_month = icaltime_days_in_month m y
      in if d \<le> days_in_month then (y, m, d)
         else if m + 1 \<ge> 13 then days_forward (y + 1) 1 (d - days_in_month)
         else days_forward y (m + 1) (d - days_in_month))"
  by pat_completeness auto
termination
proof (relation "measure (\<lambda>(y, m, d). nat d)", goal_cases)
  case (2 y m d)
  then show ?case using days_in_month_pos [of m y] by simp
next
  case (3 y m d)
  then show ?case using days_in_month_pos [of m y] by simp
qed simp

function days_back :: "int \<Rightarrow> int \<Rightarrow> int \<Rightarrow> int \<times> int \<times> int" where
  "days_back y m d =
     (if d > 0 then (y, m, d)
      else if m = 1 then days_back (y - 1) 12 (d + icaltime_days_in_month 12 (y - 1))
      else days_back y (m - 1) (d + icaltime_days_in_month (m - 1) y))"
  by pat_completeness auto
termination
proof (relation "measure (\<lambda>(y, m, d). nat (1 - d))", goal_cases)
  case (2 y m d)
  then show ?case using days_in_month_pos [of 12 "y - 1"] by simp
next
  case (3 y m d)
  then show ?case using days_in_month_pos [of "m - 1" y] by simp
qed simp

declare days_forward.simps [simp del] days_back.simps [simp del]

definition move_days :: "int \<Rightarrow> int \<Rightarrow> int \<Rightarrow> int \<times> int \<times> int" where
  "move_days y m d = (if d > 0 then days_forward y m d else days_back y m d)"

definition icaltime_adjust ::
    "icaltimetype \<Rightarrow> int \<Rightarrow> int \<Rightarrow> int \<Rightarrow> int \<Rightarrow> icaltimetype" where
  "icaltime_adjust tt days hours minutes seconds =
     (let (tt1, days_overflow) =
            (if is_date tt \<noteq> 0 then (tt, 0)
             else let (s, minutes_overflow) = carry (second tt + seconds) 60;
                      (mi, hours_overflow) = carry (minute tt + minutes + minutes_overflow) 60;
                      (h, days_overflow) = carry (hour tt + hours + hours_overflow) 24
                  in (tt\<lparr>second := s, minute := mi, hour := h\<rparr>, days_overflow));
          (y, m) = normalize_month (year tt1) (month tt1);
          (y2, m2, d2) = move_days y m (day tt1 + days + days_overflow)
      in tt1\<lparr>year := y2, month := m2, day := d2\<rparr>)"

definition icaltime_normalize :: "icaltimetype \<Rightarrow> icaltimetype" where
  "icaltime_normalize tt = icaltime_adjust tt 0 0 0 0"


section \<open>The carries\<close>

text \<open>The remainder, the correction and the borrow together are division with floor.\<close>

lemma carry_div_mod: "0 < b \<Longrightarrow> carry v b = (v mod b, v div b)"
  using c_mod_borrow [of b v] c_div_borrow [of b v] by (auto simp: carry_def Let_def split: if_splits)

lemma normalize_month_range:
  assumes "normalize_month y m = (y2, m2)"
  shows "1 \<le> m2" "m2 \<le> 12" "12 * y2 + m2 = 12 * y + m"
proof -
  consider "m \<ge> 13" | "m \<le> 0" | "1 \<le> m" "m \<le> 12" by linarith
  then have "1 \<le> m2 \<and> m2 \<le> 12 \<and> 12 * y2 + m2 = 12 * y + m"
  proof cases
    case 1
    then show ?thesis using assms by (auto simp: normalize_month_def c_div_nonneg Let_def)
  next
    case 2
    have "c_div m 12 = - (- m div 12)" using 2 by (simp add: c_div_neg)
    then show ?thesis using assms 2 by (auto simp: normalize_month_def Let_def)
  next
    case 3
    then show ?thesis using assms by (auto simp: normalize_month_def)
  qed
  then show "1 \<le> m2" "m2 \<le> 12" "12 * y2 + m2 = 12 * y + m" by blast+
qed

lemma normalize_month_id: "1 \<le> m \<Longrightarrow> m \<le> 12 \<Longrightarrow> normalize_month y m = (y, m)"
  by (simp add: normalize_month_def)

section \<open>Numbering the days\<close>

locale day_numbering =
  fixes dn :: "int \<Rightarrow> int \<Rightarrow> int \<Rightarrow> int" and ok :: "int \<Rightarrow> bool"
  assumes ok_up: "ok y \<Longrightarrow> y \<le> z \<Longrightarrow> ok z"
    and dn_day: "dn y m (d + k) = dn y m d + k"
    and dn_month: "ok y \<Longrightarrow> 1 \<le> m \<Longrightarrow> m < 12 \<Longrightarrow> dn y (m + 1) d = dn y m d + icaltime_days_in_month m y"
    and dn_year: "ok y \<Longrightarrow> dn (y + 1) 1 d = dn y 12 d + icaltime_days_in_month 12 y"
begin

lemma dn_shift: "dn y m (d - k) = dn y m d - k"
  using dn_day [of y m "d - k" k] by simp

lemma days_forward_keeps:
  "days_forward y m d = (y2, m2, d2) \<Longrightarrow> ok y \<Longrightarrow> 1 \<le> m \<Longrightarrow> m \<le> 12 \<Longrightarrow> 0 < d \<Longrightarrow>
   dn y2 m2 d2 = dn y m d \<and> 1 \<le> m2 \<and> m2 \<le> 12 \<and> 0 < d2 \<and> d2 \<le> icaltime_days_in_month m2 y2 \<and> y \<le> y2"
proof (induction y m d rule: days_forward.induct)
  case (1 y m d)
  let ?n = "icaltime_days_in_month m y"
  consider "d \<le> ?n" | "\<not> d \<le> ?n" "m = 12" | "\<not> d \<le> ?n" "m < 12" using "1.prems" by linarith
  then show ?case
  proof cases
    case 1
    then show ?thesis using "1.prems" by (simp add: days_forward.simps)
  next
    case 2
    have eq: "days_forward (y + 1) 1 (d - ?n) = (y2, m2, d2)"
      using 2 "1.prems"(1) by (subst (asm) days_forward.simps) simp
    have oky: "ok (y + 1)" by (rule ok_up [OF "1.prems"(2)]) simp
    have "dn (y + 1) 1 (d - ?n) = dn y 12 d"
      using dn_year [OF "1.prems"(2)] dn_shift [of y 12 d ?n] 2(2) by simp
    then show ?thesis using "1.IH"(1) [OF refl 2(1) _ eq oky] 2 by simp
  next
    case 3
    have eq: "days_forward y (m + 1) (d - ?n) = (y2, m2, d2)"
      using 3 "1.prems"(1) by (subst (asm) days_forward.simps) simp
    have "dn y (m + 1) (d - ?n) = dn y m d"
      using dn_month [OF "1.prems"(2,3) 3(2)] dn_shift [of y m d ?n] by simp
    then show ?thesis using "1.IH"(2) [OF refl 3(1) _ eq "1.prems"(2)] 3 "1.prems"(3) by simp
  qed
qed

text \<open>Going back, the numbering must reach as far as the year of the result.\<close>

lemma days_back_keeps:
  "days_back y m d = (y2, m2, d2) \<Longrightarrow> ok y2 \<Longrightarrow> 1 \<le> m \<Longrightarrow> m \<le> 12 \<Longrightarrow> d \<le> 0 \<Longrightarrow>
   dn y2 m2 d2 = dn y m d \<and> 1 \<le> m2 \<and> m2 \<le> 12 \<and> 0 < d2 \<and> d2 \<le> icaltime_days_in_month m2 y2 \<and> y2 \<le> y"
proof (induction y m d rule: days_back.induct)
  case (1 y m d)
  have d0: "\<not> 0 < d" using "1.prems"(5) by simp
  let ?y = "if m = 1 then y - 1 else y" and ?m = "if m = 1 then 12 else m - 1"
  let ?n = "icaltime_days_in_month ?m ?y"
  have eq: "days_back ?y ?m (d + ?n) = (y2, m2, d2)"
    using "1.prems"(1) d0 by (subst (asm) days_back.simps) (simp split: if_splits)
  have step: "dn ?y ?m (d + ?n) = dn y m d" if "ok ?y"
    using that dn_year [of "y - 1" d] dn_month [of y "m - 1" d] dn_day [of ?y ?m d ?n] "1.prems"(3,4)
    by (simp split: if_splits)
  have m: "1 \<le> ?m" "?m \<le> 12" using "1.prems"(3,4) by auto
  show ?case
  proof (cases "d + ?n > 0")
    case True
    then have "days_back ?y ?m (d + ?n) = (?y, ?m, d + ?n)"
      by (subst days_back.simps) (simp only: if_True)
    then have "(?y, ?m, d + ?n) = (y2, m2, d2)" using eq by (rule trans [OF sym])
    then have e: "?y = y2" "?m = m2" "d + ?n = d2" unfolding prod.inject by blast+
    have s: "dn ?y ?m (d + ?n) = dn y m d" using step "1.prems"(2) unfolding e(1) .
    have k: "d + icaltime_days_in_month m2 y2 = d2" using e(3) unfolding e(1,2) .
    show ?thesis using s m True d0 e(1) unfolding e k by (auto simp flip: e(1) k)
  next
    case False
    have "dn y2 m2 d2 = dn ?y ?m (d + ?n) \<and> 1 \<le> m2 \<and> m2 \<le> 12 \<and> 0 < d2 \<and>
        d2 \<le> icaltime_days_in_month m2 y2 \<and> y2 \<le> ?y"
    proof (cases "m = 1")
      case True
      then show ?thesis using "1.IH"(1) d0 eq "1.prems"(2) False by simp
    next
      case False
      then show ?thesis using "1.IH"(2) d0 eq "1.prems" \<open>\<not> d + ?n > 0\<close> by simp
    qed
    moreover from this have "ok ?y" using ok_up [OF "1.prems"(2)] by blast
    ultimately show ?thesis using step by (auto split: if_splits)
  qed
qed

lemma move_days_keeps:
  assumes "move_days y m d = (y2, m2, d2)" "ok y" "ok y2" "1 \<le> m" "m \<le> 12"
  shows "dn y2 m2 d2 = dn y m d" "1 \<le> m2" "m2 \<le> 12" "0 < d2" "d2 \<le> icaltime_days_in_month m2 y2"
  using days_forward_keeps [of y m d] days_back_keeps [of y m d] assms
  by (auto simp: move_days_def split: if_splits)

end

section \<open>The day count of the library's calendar\<close>

definition leaps_upto :: "int \<Rightarrow> int" where
  "leaps_upto y = (if y \<le> 1752 then y div 4 else y div 4 - y div 100 + y div 400 + 13)"

definition year_start :: "int \<Rightarrow> int" where
  "year_start y = 365 * (y - 1) + leaps_upto (y - 1)"

definition month_start :: "int \<Rightarrow> int \<Rightarrow> int" where
  "month_start y m = days_in_year_passed_month ! nat (icaltime_is_leap_year y) ! nat (m - 1)"

text \<open>Months outside 1 to 12 count into the years before and after.\<close>

definition ical_days :: "int \<Rightarrow> int \<Rightarrow> int \<Rightarrow> int" where
  "ical_days y m d =
     (let y1 = y + (m - 1) div 12; m1 = (m - 1) mod 12 + 1 in year_start y1 + month_start y1 m1 + d)"

definition ical_secs :: "icaltimetype \<Rightarrow> int" where
  "ical_secs t = 86400 * ical_days (year t) (month t) (day t) + 3600 * hour t + 60 * minute t + second t"

definition normal_date :: "icaltimetype \<Rightarrow> bool" where
  "normal_date t \<longleftrightarrow> 1 \<le> month t \<and> month t \<le> 12 \<and> 1 \<le> day t \<and>
     day t \<le> icaltime_days_in_month (month t) (year t)"

definition normal_time :: "icaltimetype \<Rightarrow> bool" where
  "normal_time t \<longleftrightarrow> normal_date t \<and> 0 \<le> hour t \<and> hour t < 24 \<and> 0 \<le> minute t \<and> minute t < 60 \<and>
     0 \<le> second t \<and> second t < 60"

lemma leap_01: "icaltime_is_leap_year y = 0 \<or> icaltime_is_leap_year y = 1"
  by (simp add: icaltime_is_leap_year_def)

lemma leap_greg: "1752 \<le> y \<Longrightarrow> icaltime_is_leap_year y = of_bool (greg_leap y)"
  by (auto simp: icaltime_is_leap_year_def greg_leap_def c_mod_eq_0_iff)

lemma leaps_step: "leaps_upto y = leaps_upto (y - 1) + icaltime_is_leap_year y"
proof -
  consider "y \<le> 1752" | "y = 1753" | "1753 < y" by linarith
  then show ?thesis
  proof cases
    case 1
    have "icaltime_is_leap_year y = (if 4 dvd y then 1 else 0)"
      using 1 c_mod_eq_0_iff [of 4 y] by (simp add: icaltime_is_leap_year_def)
    moreover have "leaps_upto y = y div 4" "leaps_upto (y - 1) = (y - 1) div 4"
      using 1 by (simp_all add: leaps_upto_def)
    ultimately show ?thesis using div_step [of 4 y] by linarith
  next
    case 2
    then show ?thesis by (simp add: leaps_upto_def leap_greg greg_leap_def)
  next
    case 3
    have h: "100 dvd y \<Longrightarrow> 4 dvd y" "400 dvd y \<Longrightarrow> 100 dvd y"
      by (auto intro: dvd_trans [of 4 100] dvd_trans [of 100 400])
    have "icaltime_is_leap_year y =
        (if 4 dvd y then 1 else 0) - (if 100 dvd y then 1 else 0) + (if 400 dvd y then 1 else 0)"
      using 3 h leap_greg [of y] by (simp add: greg_leap_def)
    moreover have "leaps_upto z = z div 4 - z div 100 + z div 400 + 13" if "z = y \<or> z = y - 1" for z
      using 3 that by (auto simp: leaps_upto_def)
    ultimately show ?thesis using div_step [of 4 y] div_step [of 100 y] div_step [of 400 y] by simp
  qed
qed

lemma year_start_step: "year_start (y + 1) = year_start y + ycaltime_days_in_year y"
  using leaps_step [of y] leap_01 [of y] by (auto simp: year_start_def ycaltime_days_in_year_def)

lemma month_start_table:
  assumes "1 \<le> m" "m \<le> 12"
  shows "month_start y m + icaltime_days_in_month m y =
      (if m < 12 then month_start y (m + 1) else ycaltime_days_in_year y)" "0 \<le> month_start y m"
proof -
  note tables = month_start_def days_in_year_passed_month_def icaltime_days_in_month_def
    days_in_month_table_def ycaltime_days_in_year_def
  have l: "icaltime_is_leap_year y = 0 \<or> icaltime_is_leap_year y = 1" by (rule leap_01)
  show "month_start y m + icaltime_days_in_month m y =
      (if m < 12 then month_start y (m + 1) else ycaltime_days_in_year y)"
    using l
  proof
    assume "icaltime_is_leap_year y = 0"
    with month_cases [OF assms] show ?thesis by (elim disjE) (simp_all add: tables)
  next
    assume "icaltime_is_leap_year y = 1"
    with month_cases [OF assms] show ?thesis by (elim disjE) (simp_all add: tables)
  qed
  show "0 \<le> month_start y m"
    using l
  proof
    assume "icaltime_is_leap_year y = 0"
    with month_cases [OF assms] show ?thesis by (elim disjE) (simp_all add: tables)
  next
    assume "icaltime_is_leap_year y = 1"
    with month_cases [OF assms] show ?thesis by (elim disjE) (simp_all add: tables)
  qed
qed

lemma ical_days_month: "1 \<le> m \<Longrightarrow> m \<le> 12 \<Longrightarrow> ical_days y m d = year_start y + month_start y m + d"
  by (simp add: ical_days_def Let_def div_pos_pos_trivial mod_pos_pos_trivial)

lemma month_start_1 [simp]: "month_start y 1 = 0"
  using leap_01 [of y] by (auto simp: month_start_def days_in_year_passed_month_def)

interpretation ical: day_numbering ical_days "\<lambda>y. True"
proof
  show "ical_days y m (d + k) = ical_days y m d + k" for y m d k
    by (simp add: ical_days_def Let_def)
  show "ical_days y (m + 1) d = ical_days y m d + icaltime_days_in_month m y" if "1 \<le> m" "m < 12" for y m d
    using that month_start_table(1) [of m y] by (simp add: ical_days_month)
  show "ical_days (y + 1) 1 d = ical_days y 12 d + icaltime_days_in_month 12 y" for y d
    using month_start_table(1) [of 12 y] by (simp add: ical_days_month year_start_step)
qed simp

lemma dim_greg: "1752 \<le> y \<Longrightarrow> 1 \<le> m \<Longrightarrow> m \<le> 12 \<Longrightarrow> icaltime_days_in_month m y = greg_month_len m y"
  using month_cases [of m]
  by (simp, elim disjE)
    (simp_all add: icaltime_days_in_month_def greg_month_len_def days_in_month_table_def leap_greg)

interpretation julian: day_numbering jdn "\<lambda>y. 1752 \<le> y"
  by unfold_locales (simp_all add: jdn_add_day jdn_next_month jdn_next_year dim_greg greg_month_len_def)

lemma normalize_month_floor: "normalize_month y m = (y + (m - 1) div 12, (m - 1) mod 12 + 1)"
proof -
  obtain y2 m2 where e: "normalize_month y m = (y2, m2)" by (cases "normalize_month y m")
  note r = normalize_month_range [OF e]
  have "(m - 1) div 12 = y2 - y" "(m - 1) mod 12 = m2 - 1"
    using r by (auto intro!: int_div_pos_eq [where r = "m2 - 1"] int_mod_pos_eq [where q = "y2 - y"])
  then show ?thesis by (simp add: e)
qed

lemma ical_days_normalize: "normalize_month y m = (y2, m2) \<Longrightarrow> ical_days y m d = ical_days y2 m2 d"
  using normalize_month_range [of y m y2 m2] normalize_month_floor [of y m]
  by (simp add: ical_days_month) (simp add: ical_days_def Let_def)

section \<open>What the adjustment computes\<close>

lemma adjust_time:
  assumes "is_date t = 0"
  shows "ical_secs (icaltime_adjust t d h mi s) = ical_secs t + 86400 * d + 3600 * h + 60 * mi + s"
    and "normal_time (icaltime_adjust t d h mi s)"
proof -
  define a where "a = second t + s"
  define b where "b = minute t + mi + a div 60"
  define c where "c = hour t + h + b div 60"
  obtain y1 m1 where n: "normalize_month (year t) (month t) = (y1, m1)" by (rule prod.exhaust)
  note nr = normalize_month_range [OF n]
  obtain y2 m2 d2 where v: "move_days y1 m1 (day t + d + c div 24) = (y2, m2, d2)" by (rule prod_cases3)
  note vk = ical.move_days_keeps [OF v TrueI TrueI nr(1,2)]
  have e: "icaltime_adjust t d h mi s =
      t\<lparr>second := a mod 60, minute := b mod 60, hour := c mod 24, year := y2, month := m2, day := d2\<rparr>"
    using assms by (simp add: icaltime_adjust_def carry_div_mod Let_def a_def b_def c_def n v [unfolded c_def b_def a_def])
  have "ical_days y1 m1 (day t + d + c div 24) = ical_days (year t) (month t) (day t) + d + c div 24"
    using ical_days_normalize [OF n] ical.dn_day by (simp add: add.assoc)
  moreover have "ical_secs (icaltime_adjust t d h mi s) =
      86400 * ical_days y2 m2 d2 + 3600 * (c mod 24) + 60 * (b mod 60) + a mod 60"
    by (simp add: ical_secs_def e)
  ultimately show "ical_secs (icaltime_adjust t d h mi s) = ical_secs t + 86400 * d + 3600 * h + 60 * mi + s"
    using vk(1) mult_div_mod_eq [of 60 a] mult_div_mod_eq [of 60 b] mult_div_mod_eq [of 24 c]
      a_def b_def c_def unfolding ical_secs_def by linarith
  show "normal_time (icaltime_adjust t d h mi s)"
    using vk(2-5) by (simp add: normal_time_def normal_date_def e)
qed


lemma adjust_date:
  fixes t :: icaltimetype and d h mi s :: int
  assumes "is_date t \<noteq> 0"
  defines "r \<equiv> icaltime_adjust t d h mi s"
  shows "ical_days (year r) (month r) (day r) = ical_days (year t) (month t) (day t) + d"
    and "normal_date r" and "hour r = hour t" "minute r = minute t" "second r = second t"
proof -
  obtain y1 m1 where n: "normalize_month (year t) (month t) = (y1, m1)" by (rule prod.exhaust)
  note nr = normalize_month_range [OF n]
  obtain y2 m2 d2 where v: "move_days y1 m1 (day t + d) = (y2, m2, d2)" by (rule prod_cases3)
  note vk = ical.move_days_keeps [OF v TrueI TrueI nr(1,2)]
  have e: "r = t\<lparr>year := y2, month := m2, day := d2\<rparr>"
    using assms(1) by (simp add: r_def icaltime_adjust_def n v)
  show "ical_days (year r) (month r) (day r) = ical_days (year t) (month t) (day t) + d"
    using vk(1) ical_days_normalize [OF n] ical.dn_day by (simp add: e)
  show "normal_date r" using vk(2-5) by (simp add: normal_date_def e)
  show "hour r = hour t" "minute r = minute t" "second r = second t" by (simp_all add: e)
qed

lemma adjust_other_fields [simp]:
  "is_date (icaltime_adjust t d h mi s) = is_date t" "is_utc (icaltime_adjust t d h mi s) = is_utc t"
  "zone (icaltime_adjust t d h mi s) = zone t" "is_daylight (icaltime_adjust t d h mi s) = is_daylight t"
  by (simp_all add: icaltime_adjust_def split: prod.split)

end
