(* ===== verification/TimeDays.thy ===== *)
theory TimeDays
  imports TimeBase
begin

text \<open>
  What the calendar functions of \<^verbatim>\<open>icaltime.c\<close> compute, in terms of the day count of the
  theory before: the day count orders the normal dates, so that adjustments of normal times
  add up; the day of the year and the date of a day of the year are inverse; the weekday
  goes round with the day count.
\<close>

section \<open>The day count orders the dates\<close>

lemma normal_day_of_year:
  assumes "normal_date t"
  shows "1 \<le> month_start (year t) (month t) + day t"
    "month_start (year t) (month t) + day t \<le> ycaltime_days_in_year (year t)"
proof -
  have m: "1 \<le> month t" "month t \<le> 12" using assms by (simp_all add: normal_date_def)
  have up: "month_start y k + icaltime_days_in_month k y \<le> ycaltime_days_in_year y"
    if "1 \<le> k" "k \<le> 12" for y k
    using that(2,1)
  proof (induction k rule: int_le_induct)
    case base
    then show ?case using month_start_table(1) [of 12 y] by simp
  next
    case (step k)
    then show ?case
      using month_start_table(1) [of "k - 1" y] days_in_month_pos [of k y] by simp
  qed
  show "1 \<le> month_start (year t) (month t) + day t"
    using month_start_table(2) [OF m, of "year t"] assms by (simp add: normal_date_def)
  show "month_start (year t) (month t) + day t \<le> ycaltime_days_in_year (year t)"
    using up [OF m] assms by (simp add: normal_date_def) (meson add_left_mono dual_order.trans)
qed

lemma month_start_mono: "m < n \<Longrightarrow> 1 \<le> m \<Longrightarrow> n \<le> 12 \<Longrightarrow> month_start y m + icaltime_days_in_month m y \<le> month_start y n"
proof (induction n rule: int_gr_induct)
  case base
  then show ?case using month_start_table(1) [of m y] by simp
next
  case (step n)
  then show ?case using month_start_table(1) [of n y] days_in_month_pos [of n y] by simp
qed

lemma year_start_mono: "y < z \<Longrightarrow> year_start y + ycaltime_days_in_year y \<le> year_start z"
proof (induction z rule: int_gr_induct)
  case base
  then show ?case by (simp add: year_start_step)
next
  case (step z)
  then show ?case using year_start_step [of z] by (simp add: ycaltime_days_in_year_def split: if_splits)
qed

definition date_less :: "icaltimetype \<Rightarrow> icaltimetype \<Rightarrow> bool" where
  "date_less a b \<longleftrightarrow> year a < year b \<or> year a = year b \<and>
     (month a < month b \<or> month a = month b \<and> day a < day b)"

lemma date_less_days:
  assumes "normal_date a" "normal_date b" "date_less a b"
  shows "ical_days (year a) (month a) (day a) < ical_days (year b) (month b) (day b)"
proof -
  have e: "ical_days (year t) (month t) (day t) = year_start (year t) + (month_start (year t) (month t) + day t)"
    if "normal_date t" for t
    using that by (simp add: ical_days_month normal_date_def)
  note b = normal_day_of_year [OF assms(1)] normal_day_of_year [OF assms(2)]
  consider "year a < year b" | "year a = year b" "month a < month b"
    | "year a = year b" "month a = month b" "day a < day b"
    using assms(3) unfolding date_less_def by blast
  then show ?thesis
  proof cases
    case 1
    then show ?thesis using year_start_mono [of "year a" "year b"] b e assms(1,2) by simp
  next
    case 2
    then show ?thesis using month_start_mono [of "month a" "month b" "year b"] e [OF assms(1)] e [OF assms(2)] assms(1,2)
      by (simp add: normal_date_def)
  next
    case 3
    then show ?thesis using e [OF assms(1)] e [OF assms(2)] by simp
  qed
qed

lemma date_less_iff:
  assumes "normal_date a" "normal_date b"
  shows "date_less a b \<longleftrightarrow> ical_days (year a) (month a) (day a) < ical_days (year b) (month b) (day b)"
proof
  assume l: "ical_days (year a) (month a) (day a) < ical_days (year b) (month b) (day b)"
  have "\<not> date_less b a" using date_less_days [OF assms(2,1)] l by auto
  moreover have "\<not> (year a = year b \<and> month a = month b \<and> day a = day b)" using l by auto
  ultimately show "date_less a b" unfolding date_less_def by linarith
qed (rule date_less_days [OF assms])

lemma ical_days_inj:
  assumes "normal_date a" "normal_date b"
    and "ical_days (year a) (month a) (day a) = ical_days (year b) (month b) (day b)"
  shows "year a = year b" "month a = month b" "day a = day b"
  using date_less_iff [OF assms(1,2)] date_less_iff [OF assms(2,1)] assms(3)
  unfolding date_less_def by linarith+

lemma secs_split:
  fixes D H M S :: int
  assumes "0 \<le> H" "H < 24" "0 \<le> M" "M < 60" "0 \<le> S" "S < 60"
  shows "(86400 * D + 3600 * H + 60 * M + S) div 86400 = D"
    "(86400 * D + 3600 * H + 60 * M + S) mod 86400 div 3600 = H"
    "(86400 * D + 3600 * H + 60 * M + S) mod 3600 div 60 = M"
    "(86400 * D + 3600 * H + 60 * M + S) mod 60 = S"
proof -
  let ?x = "86400 * D + 3600 * H + 60 * M + S"
  show "?x div 86400 = D"
    using assms by (intro int_div_pos_eq [where r = "3600 * H + 60 * M + S"]) auto
  have "?x mod 86400 = 3600 * H + 60 * M + S"
    using assms by (intro int_mod_pos_eq [where q = D]) auto
  moreover have "(3600 * H + 60 * M + S) div 3600 = H"
    using assms by (intro int_div_pos_eq [where r = "60 * M + S"]) auto
  ultimately show "?x mod 86400 div 3600 = H" by simp
  have "?x mod 3600 = 60 * M + S"
    using assms by (intro int_mod_pos_eq [where q = "24 * D + H"]) auto
  moreover have "(60 * M + S) div 60 = M"
    using assms by (intro int_div_pos_eq [where r = S]) auto
  ultimately show "?x mod 3600 div 60 = M" by simp
  show "?x mod 60 = S"
    using assms by (intro int_mod_pos_eq [where q = "1440 * D + 60 * H + M"]) auto
qed

lemma ical_secs_inj:
  assumes "normal_time a" "normal_time b" "ical_secs a = ical_secs b"
  shows "year a = year b" "month a = month b" "day a = day b" "hour a = hour b"
    "minute a = minute b" "second a = second b"
proof -
  have na: "normal_date a" "normal_date b" using assms(1,2) by (simp_all add: normal_time_def)
  have da: "(ical_secs t) div 86400 = ical_days (year t) (month t) (day t)"
    "(ical_secs t) mod 86400 div 3600 = hour t" "(ical_secs t) mod 3600 div 60 = minute t"
    "(ical_secs t) mod 60 = second t" if "normal_time t" for t
    using that by (simp_all only: ical_secs_def normal_time_def secs_split)
  have "ical_days (year a) (month a) (day a) = ical_days (year b) (month b) (day b)"
    using da(1) assms by metis
  then show "year a = year b" "month a = month b" "day a = day b" by (rule ical_days_inj [OF na])+
  show "hour a = hour b" "minute a = minute b" "second a = second b"
    using da(2-4) assms by metis+
qed

lemma icaltime_eqI:
  assumes "normal_time a" "normal_time b" "ical_secs a = ical_secs b"
    "is_utc a = is_utc b" "is_date a = is_date b" "is_daylight a = is_daylight b" "zone a = zone b"
  shows "a = (b :: icaltimetype)"
  by (rule icaltimetype.equality) (use ical_secs_inj [OF assms(1-3)] assms(4-7) in simp_all)

section \<open>Times in lexical order\<close>

definition time_less :: "icaltimetype \<Rightarrow> icaltimetype \<Rightarrow> bool" where
  "time_less a b \<longleftrightarrow> date_less a b \<or> year a = year b \<and> month a = month b \<and> day a = day b \<and>
     (hour a < hour b \<or> hour a = hour b \<and>
        (minute a < minute b \<or> minute a = minute b \<and> second a < second b))"

lemma time_less_secs:
  assumes "normal_time a" "normal_time b"
  shows "time_less a b \<longleftrightarrow> ical_secs a < ical_secs b"
proof -
  have n: "normal_date a" "normal_date b" using assms by (simp_all add: normal_time_def)
  let ?d = "\<lambda>t. ical_days (year t) (month t) (day t)"
  have r: "0 \<le> hour a" "hour a < 24" "0 \<le> minute a" "minute a < 60" "0 \<le> second a" "second a < 60"
    "0 \<le> hour b" "hour b < 24" "0 \<le> minute b" "minute b < 60" "0 \<le> second b" "second b < 60"
    using assms by (simp_all add: normal_time_def)
  consider "?d a < ?d b" | "?d b < ?d a" | "?d a = ?d b" by linarith
  then show ?thesis
  proof cases
    case 1
    then have "date_less a b" by (simp add: date_less_iff [OF n])
    moreover have "ical_secs a < ical_secs b" using 1 r unfolding ical_secs_def by linarith
    ultimately show ?thesis by (simp add: time_less_def)
  next
    case 2
    then have "date_less b a" by (simp add: date_less_iff [OF n(2,1)])
    then have "\<not> time_less a b" by (auto simp: time_less_def date_less_def)
    moreover have "ical_secs b < ical_secs a" using 2 r unfolding ical_secs_def by linarith
    ultimately show ?thesis by simp
  next
    case 3
    note e = ical_days_inj [OF n 3]
    have "time_less a b \<longleftrightarrow> hour a < hour b \<or> hour a = hour b \<and>
        (minute a < minute b \<or> minute a = minute b \<and> second a < second b)"
      using e by (auto simp: time_less_def date_less_def)
    also have "\<dots> \<longleftrightarrow> ical_secs a < ical_secs b" using 3 r unfolding ical_secs_def by linarith
    finally show ?thesis .
  qed
qed

section \<open>Adjusting twice\<close>

text \<open>Adjusting is an action of the integers: it adds up, and normal times are its fixed points.\<close>

lemma adjust_adjust:
  assumes "is_date t = 0"
  shows "icaltime_adjust (icaltime_adjust t d h mi s) d' h' mi' s' =
         icaltime_adjust t (d + d') (h + h') (mi + mi') (s + s')"
  by (rule icaltime_eqI) (simp_all add: adjust_time assms)

lemma normalize_id: "is_date t = 0 \<Longrightarrow> normal_time t \<Longrightarrow> icaltime_normalize t = t"
  unfolding icaltime_normalize_def by (rule icaltime_eqI) (simp_all add: adjust_time)


section \<open>Days of the year and weekdays\<close>

lemma day_of_year_days:
  assumes "1 \<le> month t" "month t \<le> 12"
  shows "icaltime_day_of_year t = Some (ical_days (year t) (month t) (day t) - year_start (year t))"
  using assms by (simp add: icaltime_day_of_year_def passed_month_def ical_days_month month_start_def)

lemma month_of_doy_start:
  assumes "n \<le> 12" "0 < doy"
    and "month_of_doy (icaltime_is_leap_year y) doy n = Some (m, d)"
  shows "1 \<le> m" "m \<le> int n" "month_start y m + d = doy" "1 \<le> d"
    "m < int n \<longrightarrow> doy \<le> month_start y (m + 1)"
proof -
  have "1 \<le> m \<and> m \<le> int n \<and> month_start y m + d = doy \<and> 1 \<le> d \<and> (m < int n \<longrightarrow> doy \<le> month_start y (m + 1))"
    using assms
  proof (induction n)
    case (Suc n)
    let ?p = "days_in_year_passed_month ! nat (icaltime_is_leap_year y) ! n"
    have p: "month_start y (int n + 1) = ?p" by (simp add: month_start_def)
    show ?case
    proof (cases "doy > ?p")
      case True
      then have "m = int n + 1" "d = doy - ?p" using Suc.prems(3) by (auto simp: Let_def)
      with True p show ?thesis by simp
    next
      case False
      then have "month_of_doy (icaltime_is_leap_year y) doy n = Some (m, d)"
        using Suc.prems(3) by (simp add: Let_def)
      then have "1 \<le> m \<and> m \<le> int n \<and> month_start y m + d = doy \<and> 1 \<le> d \<and>
          (m < int n \<longrightarrow> doy \<le> month_start y (m + 1))"
        using Suc.IH Suc.prems(1,2) by simp
      with False p show ?thesis by (cases "m = int n") auto
    qed
  qed simp
  then show "1 \<le> m" "m \<le> int n" "month_start y m + d = doy" "1 \<le> d"
    "m < int n \<longrightarrow> doy \<le> month_start y (m + 1)" by blast+
qed

lemma month_of_doy_total:
  assumes "0 < doy"
  shows "\<exists>m d. month_of_doy (icaltime_is_leap_year y) doy (Suc n) = Some (m, d)"
proof (induction n)
  case 0
  have "days_in_year_passed_month ! nat (icaltime_is_leap_year y) ! 0 = 0"
    using leap_01 [of y] by (auto simp: days_in_year_passed_month_def)
  with assms show ?case by (simp add: Let_def)
next
  case (Suc n)
  then show ?case by (subst month_of_doy.simps(2)) (simp add: Let_def del: month_of_doy.simps)
qed

text \<open>The date of a day of the year, for the day numbers of the year itself.\<close>

lemma from_day_of_year_in:
  assumes "1 \<le> doy" "doy \<le> ycaltime_days_in_year y"
  defines "t \<equiv> icaltime_from_day_of_year doy y"
  shows "year t = y" "normal_date t" "icaltime_day_of_year t = Some doy" "is_date t = 1"
proof -
  let ?l = "icaltime_is_leap_year y"
  have len: "days_in_year_passed_month ! nat ?l ! 12 = ycaltime_days_in_year y"
    using leap_01 [of y] by (auto simp: days_in_year_passed_month_def ycaltime_days_in_year_def)
  obtain m d where md: "month_of_doy ?l doy 12 = Some (m, d)"
    using month_of_doy_total [of doy y 11] assms(1) by (auto simp: numeral_eq_Suc)
  have e: "t = icaltime_null_date\<lparr>year := y, month := m, day := d\<rparr>"
    using assms(1,2) len md by (simp add: t_def icaltime_from_day_of_year_def Let_def)
  have b: "1 \<le> m" "m \<le> 12" "month_start y m + d = doy" "1 \<le> d" "m < 12 \<longrightarrow> doy \<le> month_start y (m + 1)"
    using month_of_doy_start [OF _ _ md] assms(1) by auto
  show "year t = y" "is_date t = 1"
    by (simp_all add: e icaltime_null_date_def icaltime_null_time_def)
  have "d \<le> icaltime_days_in_month m y"
    using month_start_table(1) [OF b(1,2), of y] b assms(2) by (cases "m < 12") auto
  then show "normal_date t" using b by (simp add: normal_date_def e)
  show "icaltime_day_of_year t = Some doy"
    using day_of_year_days [of t] b by (simp add: e ical_days_month)
qed

lemma from_day_of_year_wraps:
  "- ycaltime_days_in_year (y - 1) < doy \<Longrightarrow> doy < 1 \<Longrightarrow>
     icaltime_from_day_of_year doy y = icaltime_from_day_of_year (doy + ycaltime_days_in_year (y - 1)) (y - 1)"
proof -
  assume a: "- ycaltime_days_in_year (y - 1) < doy" "doy < 1"
  have len: "days_in_year_passed_month ! nat (icaltime_is_leap_year (y - 1)) ! 12 = ycaltime_days_in_year (y - 1)"
    using leap_01 [of "y - 1"] by (auto simp: days_in_year_passed_month_def ycaltime_days_in_year_def)
  show ?thesis using a by (simp add: icaltime_from_day_of_year_def Let_def len)
qed

lemma day_of_year_roundtrip:
  assumes "normal_date t" "icaltime_day_of_year t = Some n"
  defines "r \<equiv> icaltime_from_day_of_year n (year t)"
  shows "year r = year t" "month r = month t" "day r = day t"
proof -
  have m: "1 \<le> month t" "month t \<le> 12" using assms(1) by (simp_all add: normal_date_def)
  then have n: "n = month_start (year t) (month t) + day t"
    using assms(2) by (simp add: day_of_year_days ical_days_month)
  note f = from_day_of_year_in [of n "year t", folded r_def]
  have b: "1 \<le> n" "n \<le> ycaltime_days_in_year (year t)" using normal_day_of_year [OF assms(1)] n by simp_all
  have nr: "normal_date r" and y: "year r = year t" using f b by auto
  then have "1 \<le> month r" "month r \<le> 12" by (simp_all add: normal_date_def)
  then have "Some n = Some (ical_days (year r) (month r) (day r) - year_start (year t))"
    using f(3) [OF b] y by (simp add: day_of_year_days)
  then have "ical_days (year r) (month r) (day r) = ical_days (year t) (month t) (day t)"
    using n m y by (simp add: ical_days_month)
  from ical_days_inj [OF nr assms(1) this]
  show "year r = year t" "month r = month t" "day r = day t" by simp_all
qed

lemma day_of_week_jdn:
  assumes "1583 \<le> year t" "1 \<le> month t" "month t \<le> 12" "1 \<le> day t"
  shows "icaltime_day_of_week t = (jdn (year t) (month t) (day t) + 1) mod 7 + 1"
  using assms by (simp add: icaltime_day_of_week_def juldat_jdn)

text \<open>The Julian day and the library's own day count differ by a constant after 1752.\<close>

lemma jdn_ical_days:
  assumes "1752 \<le> y" "1 \<le> m" "m \<le> 12"
  shows "jdn y m d = ical_days y m d + 1721412"
proof -
  have jan: "jdn y 1 d = ical_days y 1 d + 1721412"
    using assms(1)
  proof (induction y rule: int_ge_induct)
    case base
    show ?case by (simp add: jdn_def jdn_of_def ical_days_month year_start_def leaps_upto_def)
  next
    case (step y)
    have months: "jdn y k d = ical_days y k d + 1721412" if "k \<le> 12" "1 \<le> k" for k
      using that(2,1)
    proof (induction k rule: int_ge_induct)
      case base
      show ?case by (rule step.IH)
    next
      case (step k)
      then show ?case
        using julian.dn_month [of y k d] ical.dn_month [of k y d] \<open>1752 \<le> y\<close> by simp
    qed
    show ?case using julian.dn_year [of y d] ical.dn_year [of y d] months [of 12] step.hyps by simp
  qed
  show ?thesis
    using assms(2,3)
  proof (induction m rule: int_ge_induct)
    case base
    show ?case by (rule jan)
  next
    case (step k)
    then show ?case
      using julian.dn_month [of y k d] ical.dn_month [of k y d] assms(1) by simp
  qed
qed

lemma day_of_week_range: "1583 \<le> year t \<Longrightarrow> 1 \<le> month t \<Longrightarrow> month t \<le> 12 \<Longrightarrow> 1 \<le> day t \<Longrightarrow>
    1 \<le> icaltime_day_of_week t \<and> icaltime_day_of_week t \<le> 7"
  using pos_mod_bound [of 7 "jdn (year t) (month t) (day t) + 1"] by (simp add: day_of_week_jdn)

lemma day_of_week_days:
  assumes "1752 \<le> year t" "1 \<le> month t" "month t \<le> 12" "1 \<le> day t"
  shows "icaltime_day_of_week t = (ical_days (year t) (month t) (day t) + 1) mod 7 + 1"
proof -
  have "(ical_days (year t) (month t) (day t) + 1 + 245916 * 7) mod 7 = (ical_days (year t) (month t) (day t) + 1) mod 7"
    by (rule mod_mult_self1)
  then show ?thesis using assms by (simp add: day_of_week_jdn jdn_ical_days add.commute)
qed

end
