(* ===== verification/IcalTimezone.thy ===== *)
theory IcalTimezone
  imports TimeDays IcalArray
begin

text \<open>
  The part of \<^verbatim>\<open>icaltimezone.c\<close> that converts between zones with a table of changes: the
  comparison of changes, their adjustment, the binary search, the two offset look-ups and
  the conversion of a time.

  The table is an array of \<^verbatim>\<open>icalarray.c\<close>. Which table a zone has once the coverage of a
  year is ensured is an argument of the definitions (\<open>coverage\<close>); the expansion of a
  \<open>VTIMEZONE\<close> that fills it rests on the recurrence iterator. \<open>None\<close> is an access outside
  the table or a failed assertion.

  The locale \<open>change_points\<close> is what the scan over the table needs of the comparison:
  that it turns from ``at or after'' to ``before'' once. The UTC look-up is an
  interpretation for every sorted table, the local one for every table whose changes are
  spaced wider than the offsets jump.
\<close>

section \<open>Changes\<close>

record icaltimezonechange =
  utc_offset :: int
  prev_utc_offset :: int
  c_year :: int
  c_month :: int
  c_day :: int
  c_hour :: int
  c_minute :: int
  c_second :: int
  c_is_daylight :: int

definition icaltimezone_compare_change_fn ::
    "icaltimezonechange \<Rightarrow> icaltimezonechange \<Rightarrow> int" where
  "icaltimezone_compare_change_fn change1 change2 =
     (if c_year change1 < c_year change2 then - 1
      else if c_year change1 > c_year change2 then 1
      else if c_month change1 < c_month change2 then - 1
      else if c_month change1 > c_month change2 then 1
      else if c_day change1 < c_day change2 then - 1
      else if c_day change1 > c_day change2 then 1
      else if c_hour change1 < c_hour change2 then - 1
      else if c_hour change1 > c_hour change2 then 1
      else if c_minute change1 < c_minute change2 then - 1
      else if c_minute change1 > c_minute change2 then 1
      else if c_second change1 < c_second change2 then - 1
      else if c_second change1 > c_second change2 then 1
      else 0)"

text \<open>As the adjustment of a time, but without a normalisation of the month.\<close>

definition icaltimezone_adjust_change ::
    "icaltimezonechange \<Rightarrow> int \<Rightarrow> int \<Rightarrow> int \<Rightarrow> int \<Rightarrow> icaltimezonechange" where
  "icaltimezone_adjust_change tt days hours minutes seconds =
     (let (s, minutes_overflow) = carry (c_second tt + seconds) 60;
          (mi, hours_overflow) = carry (c_minute tt + minutes + minutes_overflow) 60;
          (h, days_overflow) = carry (c_hour tt + hours + hours_overflow) 24;
          (y, m, d) = move_days (c_year tt) (c_month tt) (c_day tt + days + days_overflow)
      in tt\<lparr>c_second := s, c_minute := mi, c_hour := h, c_year := y, c_month := m, c_day := d\<rparr>)"

text \<open>The fields the look-ups copy out of a time; the others are not read.\<close>

definition change_of_time :: "icaltimetype \<Rightarrow> icaltimezonechange" where
  "change_of_time tt =
     \<lparr>utc_offset = 0, prev_utc_offset = 0, c_year = year tt, c_month = month tt, c_day = day tt,
      c_hour = hour tt, c_minute = minute tt, c_second = second tt, c_is_daylight = 0\<rparr>"

section \<open>Searching the table\<close>

type_synonym changes = "icaltimezonechange icalarray"

function nearby_loop ::
    "changes \<Rightarrow> icaltimezonechange \<Rightarrow> nat \<Rightarrow> nat \<Rightarrow> nat \<Rightarrow> nat option" where
  "nearby_loop cs change lower upper middle =
     (if lower < upper then
        (let mid = (lower + upper) div 2
         in case icalarray_element_at cs (int mid) of
              None \<Rightarrow> None
            | Some zone_change \<Rightarrow>
                let cmp = icaltimezone_compare_change_fn change zone_change
                in if cmp = 0 then Some mid
                   else if cmp < 0 then nearby_loop cs change lower mid mid
                   else nearby_loop cs change (mid + 1) upper mid)
      else Some middle)"
  by pat_completeness auto
termination
  by (relation "measure (\<lambda>(cs, change, lower, upper, middle). upper - lower)") auto

declare nearby_loop.simps [simp del]

definition icaltimezone_find_nearby_change :: "changes \<Rightarrow> icaltimezonechange \<Rightarrow> nat option" where
  "icaltimezone_find_nearby_change cs change = nearby_loop cs change 0 (num_elements cs) 0"

text \<open>
  The loop of both look-ups that steps from the change found to the one that applies.
  \<open>cmp_at\<close> is the comparison with the change of an index, \<open>forward\<close> says that
  \<^verbatim>\<open>step\<close> is 1, \<open>to_use\<close> is \<^verbatim>\<open>change_num_to_use\<close> with \<open>None\<close> for -1. No data for the
  time is \<open>Some None\<close>.
\<close>

function scan_changes ::
    "(nat \<Rightarrow> int option) \<Rightarrow> nat \<Rightarrow> nat \<Rightarrow> bool \<Rightarrow> nat option \<Rightarrow> nat option option" where
  "scan_changes cmp_at n num forward to_use =
     (case cmp_at num of
        None \<Rightarrow> None
      | Some cmp \<Rightarrow>
          (let use1 = (if cmp \<ge> 0 then Some num else to_use);
               forward1 = (if cmp \<ge> 0 then forward else False)
           in if \<not> forward1 \<and> use1 \<noteq> None then Some use1
              else if forward1 then
                (if num + 1 \<ge> n then (if use1 = None then None else Some use1)
                 else scan_changes cmp_at n (num + 1) forward1 use1)
              else if num = 0 then Some None
              else if num - 1 \<ge> n then (if use1 = None then None else Some use1)
              else scan_changes cmp_at n (num - 1) forward1 use1))"
  by pat_completeness auto
termination
  by (relation "measures [\<lambda>(c, n, num, forward, u). if forward then 1 else 0,
                          \<lambda>(c, n, num, forward, u). if forward then n - num else num]")
    (auto split: if_splits)

declare scan_changes.simps [simp del]

section \<open>The offset of a local time\<close>

definition region_start :: "icaltimezonechange \<Rightarrow> icaltimezonechange" where
  "region_start change =
     (if utc_offset change < prev_utc_offset change
      then icaltimezone_adjust_change change 0 0 0 (utc_offset change)
      else icaltimezone_adjust_change change 0 0 0 (prev_utc_offset change))"

definition choose_overlap ::
    "changes \<Rightarrow> icaltimetype \<Rightarrow> nat \<Rightarrow> icaltimezonechange \<Rightarrow> icaltimezonechange option" where
  "choose_overlap cs tt to_use zone_change =
     (if utc_offset zone_change - prev_utc_offset zone_change < 0 \<and> to_use > 0 then
        (let tmp_change = icaltimezone_adjust_change zone_change 0 0 0 (prev_utc_offset zone_change)
         in if icaltimezone_compare_change_fn (change_of_time tt) tmp_change < 0 then
              (case icalarray_element_at cs (int to_use - 1) of
                 None \<Rightarrow> None
               | Some prev_zone_change \<Rightarrow>
                   let want_daylight = (if is_daylight tt = 1 then 1 else 0)
                   in Some (if c_is_daylight zone_change \<noteq> want_daylight \<and>
                               c_is_daylight prev_zone_change = want_daylight
                            then prev_zone_change else zone_change))
            else Some zone_change)
      else Some zone_change)"

text \<open>The result is the offset and the daylight flag.\<close>

definition offset_of_local :: "changes \<Rightarrow> icaltimetype \<Rightarrow> (int \<times> int) option" where
  "offset_of_local cs tt =
     (let tt_change = change_of_time tt
      in case icaltimezone_find_nearby_change cs tt_change of
           None \<Rightarrow> None
         | Some change_num \<Rightarrow>
             if change_num \<ge> num_elements cs then None
             else case scan_changes
                    (\<lambda>i. map_option (\<lambda>c. icaltimezone_compare_change_fn tt_change (region_start c))
                           (icalarray_element_at cs (int i)))
                    (num_elements cs) change_num True None of
                    None \<Rightarrow> None
                  | Some None \<Rightarrow> Some (0, 0)
                  | Some (Some to_use) \<Rightarrow>
                      case icalarray_element_at cs (int to_use) of
                        None \<Rightarrow> None
                      | Some zone_change \<Rightarrow>
                          map_option (\<lambda>c. (utc_offset c, c_is_daylight c))
                            (choose_overlap cs tt to_use zone_change))"

section \<open>The offset of a UTC time\<close>

definition offset_of_utc :: "changes \<Rightarrow> icaltimetype \<Rightarrow> (int \<times> int) option" where
  "offset_of_utc cs tt =
     (let tt_change = change_of_time tt
      in case icaltimezone_find_nearby_change cs tt_change of
           None \<Rightarrow> None
         | Some change_num \<Rightarrow>
             if change_num \<ge> num_elements cs then None
             else case scan_changes
                    (\<lambda>i. map_option (icaltimezone_compare_change_fn tt_change)
                           (icalarray_element_at cs (int i)))
                    (num_elements cs) change_num True None of
                    None \<Rightarrow> None
                  | Some None \<Rightarrow> Some (0, 0)
                  | Some (Some to_use) \<Rightarrow>
                      map_option (\<lambda>c. (utc_offset c, c_is_daylight c))
                        (icalarray_element_at cs (int to_use)))"

section \<open>Zones\<close>

text \<open>The address of the static \<^verbatim>\<open>utc_timezone\<close>.\<close>

definition utc_timezone :: zone_ref where
  "utc_timezone = 0"

definition icaltimezone_get_utc_timezone :: "zone_ref option" where
  "icaltimezone_get_utc_timezone = Some utc_timezone"

type_synonym coverage = "zone_ref \<Rightarrow> int \<Rightarrow> changes option"

definition icaltimezone_get_utc_offset ::
    "coverage \<Rightarrow> zone_ref option \<Rightarrow> icaltimetype \<Rightarrow> (int \<times> int) option" where
  "icaltimezone_get_utc_offset cov zn tt =
     (case zn of
        None \<Rightarrow> Some (0, 0)
      | Some z \<Rightarrow>
          if z = utc_timezone then Some (0, 0)
          else case cov z (year tt) of
                 None \<Rightarrow> Some (0, 0)
               | Some cs \<Rightarrow> if num_elements cs = 0 then Some (0, 0) else offset_of_local cs tt)"

definition icaltimezone_get_utc_offset_of_utc_time ::
    "coverage \<Rightarrow> zone_ref option \<Rightarrow> icaltimetype \<Rightarrow> (int \<times> int) option" where
  "icaltimezone_get_utc_offset_of_utc_time cov zn tt =
     (case zn of
        None \<Rightarrow> Some (0, 0)
      | Some z \<Rightarrow>
          if z = utc_timezone then Some (0, 0)
          else case cov z (year tt) of
                 None \<Rightarrow> Some (0, 0)
               | Some cs \<Rightarrow> if num_elements cs = 0 then Some (0, 0) else offset_of_utc cs tt)"

definition icaltimezone_convert_time ::
    "coverage \<Rightarrow> icaltimetype \<Rightarrow> zone_ref option \<Rightarrow> zone_ref option \<Rightarrow> icaltimetype option" where
  "icaltimezone_convert_time cov tt from_zone to_zone =
     (if icaltime_is_date tt \<noteq> 0 \<or> from_zone = to_zone \<or> from_zone = None then Some tt
      else case icaltimezone_get_utc_offset cov from_zone tt of
             None \<Rightarrow> None
           | Some (offset1, _) \<Rightarrow>
               let tt1 = icaltime_adjust tt 0 0 0 (- offset1)
               in case icaltimezone_get_utc_offset_of_utc_time cov to_zone tt1 of
                    None \<Rightarrow> None
                  | Some (offset2, daylight) \<Rightarrow>
                      Some (icaltime_adjust (tt1\<lparr>is_daylight := daylight\<rparr>) 0 0 0 offset2))"

section \<open>The comparison of changes\<close>

definition change_key :: "icaltimezonechange \<Rightarrow> int list" where
  "change_key c = [c_year c, c_month c, c_day c, c_hour c, c_minute c, c_second c]"

lemma compare_change_lex: "icaltimezone_compare_change_fn a b = lex_cmp (change_key a) (change_key b)"
  by (simp add: icaltimezone_compare_change_fn_def change_key_def)

interpretation changecmp: c_compare icaltimezone_compare_change_fn
  using c_compare_key [of change_key] by (simp add: compare_change_lex [abs_def])

text \<open>A change as a time: the same fields.\<close>

definition time_of_change :: "icaltimezonechange \<Rightarrow> icaltimetype" where
  "time_of_change c = icaltime_null_time\<lparr>year := c_year c, month := c_month c, day := c_day c,
     hour := c_hour c, minute := c_minute c, second := c_second c\<rparr>"

abbreviation change_secs :: "icaltimezonechange \<Rightarrow> int" where
  "change_secs c \<equiv> ical_secs (time_of_change c)"

abbreviation normal_change :: "icaltimezonechange \<Rightarrow> bool" where
  "normal_change c \<equiv> normal_time (time_of_change c)"

lemma time_of_change_sel [simp]:
  "year (time_of_change c) = c_year c" "month (time_of_change c) = c_month c"
  "day (time_of_change c) = c_day c" "hour (time_of_change c) = c_hour c"
  "minute (time_of_change c) = c_minute c" "second (time_of_change c) = c_second c"
  "is_date (time_of_change c) = 0"
  by (simp_all add: time_of_change_def icaltime_null_time_def)

lemma change_of_time_secs [simp]:
  "change_secs (change_of_time t) = ical_secs t" "normal_change (change_of_time t) \<longleftrightarrow> normal_time t"
  by (simp_all add: ical_secs_def normal_time_def normal_date_def change_of_time_def)

lemma compare_change_secs:
  assumes "normal_change a" "normal_change b"
  shows "icaltimezone_compare_change_fn a b < 0 \<longleftrightarrow> change_secs a < change_secs b"
    "0 \<le> icaltimezone_compare_change_fn a b \<longleftrightarrow> change_secs b \<le> change_secs a"
proof -
  have l: "icaltimezone_compare_change_fn a b < 0 \<longleftrightarrow> change_secs a < change_secs b"
    if "normal_change a" "normal_change b" for a b
  proof -
    have "icaltimezone_compare_change_fn a b < 0 \<longleftrightarrow> time_less (time_of_change a) (time_of_change b)"
      unfolding icaltimezone_compare_change_fn_def time_less_def date_less_def time_of_change_sel by auto
    with time_less_secs [OF that] show ?thesis by simp
  qed
  from l [OF assms] show "icaltimezone_compare_change_fn a b < 0 \<longleftrightarrow> change_secs a < change_secs b"
    "0 \<le> icaltimezone_compare_change_fn a b \<longleftrightarrow> change_secs b \<le> change_secs a" by linarith+
qed

lemma adjust_change_secs:
  assumes "1 \<le> c_month c" "c_month c \<le> 12"
  shows "change_secs (icaltimezone_adjust_change c d h mi s) = change_secs c + 86400 * d + 3600 * h + 60 * mi + s"
    and "normal_change (icaltimezone_adjust_change c d h mi s)"
proof -
  have "icaltime_adjust (time_of_change c) d h mi s = time_of_change (icaltimezone_adjust_change c d h mi s)"
    using assms
    by (simp add: icaltime_adjust_def icaltimezone_adjust_change_def normalize_month_id Let_def time_of_change_def
        icaltime_null_time_def split: prod.split)
  then show "change_secs (icaltimezone_adjust_change c d h mi s) = change_secs c + 86400 * d + 3600 * h + 60 * mi + s"
    "normal_change (icaltimezone_adjust_change c d h mi s)"
    using adjust_time [of "time_of_change c" d h mi s] by simp_all
qed

section \<open>The binary search\<close>

lemma changes_element_at:
  assumes "array_ok cs" "i < num_elements cs"
  shows "icalarray_element_at cs (int i) = Some (elements cs ! i)"
  using element_at_elements [OF assms(1), of "int i"] assms(2) length_elements [OF assms(1)] by simp

lemma nearby_bound:
  "array_ok cs \<Longrightarrow> upper \<le> num_elements cs \<Longrightarrow> middle < num_elements cs \<Longrightarrow>
    \<exists>m. nearby_loop cs change lower upper middle = Some m \<and> m < num_elements cs"
proof (induction cs change lower upper middle rule: nearby_loop.induct)
  case (1 cs change lower upper middle)
  let ?mid = "(lower + upper) div 2"
  show ?case
  proof (cases "lower < upper")
    case True
    then have mid: "?mid < num_elements cs" using "1.prems"(2) by auto
    then have e: "icalarray_element_at cs (int ?mid) = Some (elements cs ! ?mid)"
      by (rule changes_element_at [OF "1.prems"(1)])
    let ?c = "icaltimezone_compare_change_fn change (elements cs ! ?mid)"
    have eq: "nearby_loop cs change lower upper middle =
        (if ?c = 0 then Some ?mid else if ?c < 0 then nearby_loop cs change lower ?mid ?mid
         else nearby_loop cs change (?mid + 1) upper ?mid)"
      using True e by (subst nearby_loop.simps) (simp add: Let_def)
    consider "?c = 0" | "?c < 0" | "0 < ?c" by linarith
    then show ?thesis
    proof cases
      case 1
      with eq mid show ?thesis by simp
    next
      case 2
      have "?mid \<le> num_elements cs" using mid by simp
      then show ?thesis using "1.IH"(1) [OF True refl e refl _ 2 "1.prems"(1) _ mid] eq 2 by simp
    next
      case 3
      then show ?thesis using "1.IH"(2) [OF True refl e refl _ _ "1.prems"(1,2) mid] eq by simp
    qed
  next
    case False
    then show ?thesis using "1.prems" by (subst nearby_loop.simps) simp
  qed
qed

section \<open>The scan\<close>

locale change_points =
  fixes cmp_at :: "'a \<Rightarrow> nat \<Rightarrow> int option" and len :: "'a \<Rightarrow> nat" and good :: "'a \<Rightarrow> bool"
  assumes cmp_defined: "good x \<Longrightarrow> i < len x \<Longrightarrow> cmp_at x i \<noteq> None"
    and cmp_once: "good x \<Longrightarrow> i \<le> j \<Longrightarrow> j < len x \<Longrightarrow> 0 \<le> the (cmp_at x j) \<Longrightarrow> 0 \<le> the (cmp_at x i)"
begin

abbreviation applies :: "'a \<Rightarrow> nat \<Rightarrow> bool" where
  "applies x i \<equiv> 0 \<le> the (cmp_at x i)"

lemma scan_step: "good x \<Longrightarrow> num < len x \<Longrightarrow> scan_changes (cmp_at x) (len x) num forward to_use =
    (if applies x num then
       (if \<not> forward then Some (Some num) else if num + 1 \<ge> len x then Some (Some num)
        else scan_changes (cmp_at x) (len x) (num + 1) True (Some num))
     else if to_use \<noteq> None then Some to_use
     else if num = 0 then Some None
     else scan_changes (cmp_at x) (len x) (num - 1) False None)"
  using cmp_defined [of x num] by (subst scan_changes.simps) auto

lemma scan_up:
  "good x \<Longrightarrow> num < len x \<Longrightarrow> 0 < num \<Longrightarrow> applies x (num - 1) \<Longrightarrow>
   \<exists>k < len x. scan_changes (cmp_at x) (len x) num True (Some (num - 1)) = Some (Some k) \<and> applies x k \<and>
     (k + 1 < len x \<longrightarrow> \<not> applies x (k + 1))"
proof (induction "len x - num" arbitrary: num)
  case (Suc l)
  note step = scan_step [OF Suc.prems(1,2), of True "Some (num - 1)"]
  consider "applies x num" "num + 1 < len x" | "applies x num" "len x \<le> num + 1" | "\<not> applies x num" by linarith
  then show ?case
  proof cases
    case 1
    have "\<exists>k < len x. scan_changes (cmp_at x) (len x) (num + 1) True (Some (num + 1 - 1)) = Some (Some k) \<and> applies x k \<and>
        (k + 1 < len x \<longrightarrow> \<not> applies x (k + 1))"
      by (rule Suc.hyps(1)) (use Suc.hyps(2) Suc.prems 1 in auto)
    with step 1 show ?thesis by simp
  next
    case 2
    with step have "scan_changes (cmp_at x) (len x) num True (Some (num - 1)) = Some (Some num)" by simp
    then show ?thesis using 2 Suc.prems(2) by (intro exI [of _ num]) auto
  next
    case 3
    with step have "scan_changes (cmp_at x) (len x) num True (Some (num - 1)) = Some (Some (num - 1))" by simp
    then show ?thesis using 3 Suc.prems by (intro exI [of _ "num - 1"]) auto
  qed
qed simp

lemma scan_down:
  "good x \<Longrightarrow> num < len x \<Longrightarrow> (\<forall>j < len x. num < j \<longrightarrow> \<not> applies x j) \<Longrightarrow>
   (\<exists>k < len x. scan_changes (cmp_at x) (len x) num False None = Some (Some k) \<and> applies x k \<and>
      (k + 1 < len x \<longrightarrow> \<not> applies x (k + 1))) \<or>
   scan_changes (cmp_at x) (len x) num False None = Some None \<and> (\<forall>j < len x. \<not> applies x j)"
proof (induction num)
  case 0
  note step = scan_step [OF 0(1,2), of False None]
  show ?case
  proof (cases "applies x 0")
    case True
    then show ?thesis using step 0 by (intro disjI1 exI [of _ 0]) auto
  next
    case False
    then have "\<forall>j < len x. \<not> applies x j" using 0(3) by (metis neq0_conv)
    with False step show ?thesis by simp
  qed
next
  case (Suc num)
  note step = scan_step [OF Suc.prems(1,2), of False None]
  show ?case
  proof (cases "applies x (Suc num)")
    case True
    then show ?thesis using step Suc.prems by (intro disjI1 exI [of _ "Suc num"]) auto
  next
    case False
    then have "\<forall>j < len x. num < j \<longrightarrow> \<not> applies x j" using Suc.prems(3) by (metis Suc_lessI)
    with Suc.IH Suc.prems(1,2) have "(\<exists>k < len x. scan_changes (cmp_at x) (len x) num False None = Some (Some k) \<and> applies x k \<and>
      (k + 1 < len x \<longrightarrow> \<not> applies x (k + 1))) \<or>
      scan_changes (cmp_at x) (len x) num False None = Some None \<and> (\<forall>j < len x. \<not> applies x j)" by simp
    with False step show ?thesis by simp
  qed
qed

text \<open>From wherever it starts, the scan ends at the last change that applies.\<close>

lemma scan_last:
  assumes good: "good x" and start: "start < len x"
  shows "(\<exists>k < len x. scan_changes (cmp_at x) (len x) start True None = Some (Some k) \<and>
            (\<forall>j < len x. applies x j \<longleftrightarrow> j \<le> k)) \<or>
         scan_changes (cmp_at x) (len x) start True None = Some None \<and> (\<forall>j < len x. \<not> applies x j)"
proof -
  have last: "\<forall>j < len x. applies x j \<longleftrightarrow> j \<le> k" if "k < len x" "applies x k" "k + 1 < len x \<longrightarrow> \<not> applies x (k + 1)" for k
    using that cmp_once [OF good] by (metis Suc_eq_plus1 Suc_leI not_less order_le_less_trans)
  note step = scan_step [OF good start, of True None]
  consider "applies x start" "start + 1 < len x" | "applies x start" "len x \<le> start + 1"
    | "\<not> applies x start" "start = 0" | m where "\<not> applies x start" "start = Suc m"
    by (cases start) force+
  then show ?thesis
  proof cases
    case 1
    then obtain k where k: "k < len x" "scan_changes (cmp_at x) (len x) (start + 1) True (Some start) = Some (Some k)"
        "applies x k" "k + 1 < len x \<longrightarrow> \<not> applies x (k + 1)"
      using scan_up [OF good, of "start + 1"] by auto
    then show ?thesis using step 1 last [OF k(1,3,4)] by (intro disjI1 exI [of _ k]) simp
  next
    case 2
    then have "start + 1 < len x \<longrightarrow> \<not> applies x (start + 1)" by simp
    with step 2 last [OF start 2(1)] assms show ?thesis by (intro disjI1 exI [of _ start]) simp
  next
    case 3
    have "\<forall>j < len x. \<not> applies x j" using 3 cmp_once [OF good, of 0] by blast
    with 3 step show ?thesis by simp
  next
    case 4
    have "\<forall>j < len x. m < j \<longrightarrow> \<not> applies x j" using 4 cmp_once [OF good, of start] by (metis Suc_leI)
    then have "(\<exists>k < len x. scan_changes (cmp_at x) (len x) m False None = Some (Some k) \<and> applies x k \<and>
      (k + 1 < len x \<longrightarrow> \<not> applies x (k + 1))) \<or>
      scan_changes (cmp_at x) (len x) m False None = Some None \<and> (\<forall>j < len x. \<not> applies x j)"
      using scan_down [OF good, of m] 4 assms by simp
    then show ?thesis
    proof
      assume "\<exists>k < len x. scan_changes (cmp_at x) (len x) m False None = Some (Some k) \<and> applies x k \<and>
        (k + 1 < len x \<longrightarrow> \<not> applies x (k + 1))"
      then obtain k where k: "k < len x" "scan_changes (cmp_at x) (len x) m False None = Some (Some k)"
        "applies x k" "k + 1 < len x \<longrightarrow> \<not> applies x (k + 1)" by blast
      show ?thesis using step 4 k(1,2) last [OF k(1,3,4)] by (intro disjI1 exI [of _ k]) simp
    qed (use step 4 in simp)
  qed
qed

end

end
