(* ===== verification/TzLookup.thy ===== *)
theory TzLookup
  imports IcalTimezone
begin

text \<open>
  What the look-ups of \<^verbatim>\<open>icaltimezone.c\<close> find. In a sorted table the offset of a UTC time
  is that of the last change at or before it. In a regular table the local look-up inverts
  the UTC look-up, also in the stretch of local time that occurs twice when clocks go back,
  where the daylight flag decides; so a conversion to a zone and back gives the time again.

  \<open>utc_scan\<close> and \<open>local_scan\<close> interpret the contract of the scan on the two comparisons the
  code makes.
\<close>

section \<open>Tables of changes\<close>

definition table_ok :: "changes \<Rightarrow> bool" where
  "table_ok cs \<longleftrightarrow> array_ok cs \<and> num_elements cs \<noteq> 0 \<and> (\<forall>c \<in> set (elements cs). normal_change c)"

definition utc_cmp :: "changes \<times> icaltimetype \<Rightarrow> nat \<Rightarrow> int option" where
  "utc_cmp x i = map_option (icaltimezone_compare_change_fn (change_of_time (snd x)))
                   (icalarray_element_at (fst x) (int i))"

definition local_cmp :: "changes \<times> icaltimetype \<Rightarrow> nat \<Rightarrow> int option" where
  "local_cmp x i = map_option (\<lambda>c. icaltimezone_compare_change_fn (change_of_time (snd x)) (region_start c))
                     (icalarray_element_at (fst x) (int i))"

definition utc_good :: "changes \<times> icaltimetype \<Rightarrow> bool" where
  "utc_good x \<longleftrightarrow> table_ok (fst x) \<and> cmp_sorted icaltimezone_compare_change_fn (elements (fst x)) \<and>
     normal_time (snd x)"

text \<open>
  When clocks jump, the local times between the two readings are skipped or repeated. A
  table is well spaced when these stretches of local time do not overlap.
\<close>

definition jump_start :: "icaltimezonechange \<Rightarrow> int" where
  "jump_start c = change_secs c + min (utc_offset c) (prev_utc_offset c)"

definition jump_end :: "icaltimezonechange \<Rightarrow> int" where
  "jump_end c = change_secs c + max (utc_offset c) (prev_utc_offset c)"

definition well_spaced :: "icaltimezonechange list \<Rightarrow> bool" where
  "well_spaced cs \<longleftrightarrow> (\<forall>i. i + 1 < length cs \<longrightarrow> jump_end (cs ! i) \<le> jump_start (cs ! (i + 1)))"

definition local_good :: "changes \<times> icaltimetype \<Rightarrow> bool" where
  "local_good x \<longleftrightarrow> table_ok (fst x) \<and> well_spaced (elements (fst x)) \<and> normal_time (snd x)"

lemma table_element:
  assumes "table_ok cs" "i < num_elements cs"
  shows "icalarray_element_at cs (int i) = Some (elements cs ! i)" "normal_change (elements cs ! i)"
  using assms changes_element_at [of cs i] length_elements [of cs] by (auto simp: table_ok_def)

lemma utc_cmp_applies:
  assumes "table_ok cs" "normal_time t" "i < num_elements cs"
  shows "utc_cmp (cs, t) i \<noteq> None"
    "0 \<le> the (utc_cmp (cs, t) i) \<longleftrightarrow> change_secs (elements cs ! i) \<le> ical_secs t"
  using compare_change_secs(2) [of "change_of_time t"] table_element [OF assms(1,3)] assms(2)
  by (simp_all add: utc_cmp_def)

lemma region_start_secs:
  assumes "normal_change c"
  shows "change_secs (region_start c) = jump_start c" "normal_change (region_start c)"
proof -
  have m: "1 \<le> c_month c" "c_month c \<le> 12" using assms by (simp_all add: normal_time_def normal_date_def)
  show "change_secs (region_start c) = jump_start c" "normal_change (region_start c)"
    using adjust_change_secs [OF m] by (simp_all add: region_start_def jump_start_def)
qed

lemma local_cmp_applies:
  assumes "table_ok cs" "normal_time t" "i < num_elements cs"
  shows "local_cmp (cs, t) i \<noteq> None"
    "0 \<le> the (local_cmp (cs, t) i) \<longleftrightarrow> jump_start (elements cs ! i) \<le> ical_secs t"
  using compare_change_secs(2) [of "change_of_time t" "region_start (elements cs ! i)"]
    table_element [OF assms(1,3)] region_start_secs [of "elements cs ! i"] assms(2)
  by (simp_all add: local_cmp_def)

lemma sorted_change_secs:
  assumes "table_ok cs" "cmp_sorted icaltimezone_compare_change_fn (elements cs)" "i \<le> j" "j < num_elements cs"
  shows "change_secs (elements cs ! i) \<le> change_secs (elements cs ! j)"
proof (cases "i = j")
  case False
  have l: "length (elements cs) = num_elements cs" using assms(1) by (simp add: table_ok_def length_elements)
  have "icaltimezone_compare_change_fn (elements cs ! i) (elements cs ! j) \<le> 0"
    using sorted_wrt_nth_less [OF assms(2) [unfolded cmp_sorted_def], of i j] assms(3,4) False l by simp
  then have "0 \<le> icaltimezone_compare_change_fn (elements cs ! j) (elements cs ! i)"
    by (simp add: changecmp.cmp_le_swap)
  then show ?thesis
    using compare_change_secs(2) table_element(2) [OF assms(1)] assms(3,4) by (meson order_le_less_trans)
qed simp

lemma jump_start_mono:
  assumes "well_spaced cs" "i \<le> j" "j < length cs"
  shows "jump_start (cs ! i) \<le> jump_start (cs ! j)"
  using assms(2,3)
proof (induction j rule: dec_induct)
  case (step j)
  have "jump_start (cs ! j) \<le> jump_end (cs ! j)" by (simp add: jump_start_def jump_end_def)
  also have "\<dots> \<le> jump_start (cs ! Suc j)" using assms(1) step.prems by (simp add: well_spaced_def)
  finally show ?case using step by simp
qed simp

interpretation utc_scan: change_points utc_cmp "\<lambda>x. num_elements (fst x)" utc_good
proof
  fix x :: "changes \<times> icaltimetype" and i j
  obtain cs t where x: "x = (cs, t)" by (cases x)
  assume g: "utc_good x"
  show "i < num_elements (fst x) \<Longrightarrow> utc_cmp x i \<noteq> None"
    using g utc_cmp_applies(1) by (simp add: x utc_good_def)
  assume "i \<le> j" "j < num_elements (fst x)" "0 \<le> the (utc_cmp x j)"
  then show "0 \<le> the (utc_cmp x i)"
    using g sorted_change_secs [of cs i j] utc_cmp_applies(2) [of cs t] by (auto simp: x utc_good_def)
qed

interpretation local_scan: change_points local_cmp "\<lambda>x. num_elements (fst x)" local_good
proof
  fix x :: "changes \<times> icaltimetype" and i j
  obtain cs t where x: "x = (cs, t)" by (cases x)
  assume g: "local_good x"
  show "i < num_elements (fst x) \<Longrightarrow> local_cmp x i \<noteq> None"
    using g local_cmp_applies(1) by (simp add: x local_good_def)
  assume a: "i \<le> j" "j < num_elements (fst x)" "0 \<le> the (local_cmp x j)"
  have "length (elements cs) = num_elements cs" using g by (simp add: x local_good_def table_ok_def length_elements)
  then show "0 \<le> the (local_cmp x i)"
    using g a jump_start_mono [of "elements cs" i j] local_cmp_applies(2) [of cs t] by (auto simp: x local_good_def)
qed

section \<open>The offset of a UTC time is that of the last change\<close>

definition last_change :: "icaltimezonechange list \<Rightarrow> int \<Rightarrow> icaltimezonechange option" where
  "last_change cs s =
     (let before = filter (\<lambda>c. change_secs c \<le> s) cs in if before = [] then None else Some (last before))"

definition change_offset :: "icaltimezonechange option \<Rightarrow> int \<times> int" where
  "change_offset co = (case co of None \<Rightarrow> (0, 0) | Some c \<Rightarrow> (utc_offset c, c_is_daylight c))"

lemma filter_prefix:
  "(\<forall>j < length xs. P (xs ! j) \<longleftrightarrow> j < k) \<Longrightarrow> filter P xs = take k xs"
proof (induction xs arbitrary: k)
  case (Cons x xs)
  show ?case
  proof (cases k)
    case 0
    with Cons.prems have "\<forall>j < length (x # xs). \<not> P ((x # xs) ! j)" by simp
    then have "\<forall>y \<in> set (x # xs). \<not> P y" by (simp only: all_set_conv_all_nth)
    with 0 show ?thesis by simp
  next
    case (Suc l)
    have "P x" using Cons.prems Suc by force
    moreover have "\<forall>j < length xs. P (xs ! j) \<longleftrightarrow> j < l" using Cons.prems Suc by force
    ultimately show ?thesis using Cons.IH [of l] Suc by simp
  qed
qed simp

lemma nearby_some:
  assumes "table_ok cs"
  obtains m where "icaltimezone_find_nearby_change cs c = Some m" "m < num_elements cs"
  using nearby_bound [of cs "num_elements cs" 0 c 0] assms that
  by (auto simp: icaltimezone_find_nearby_change_def table_ok_def)

lemma offset_of_utc_last:
  assumes "utc_good (cs, t)"
  shows "offset_of_utc cs t = Some (change_offset (last_change (elements cs) (ical_secs t)))"
proof -
  have ok: "table_ok cs" and nt: "normal_time t" using assms by (simp_all add: utc_good_def)
  obtain m where m: "icaltimezone_find_nearby_change cs (change_of_time t) = Some m" "m < num_elements cs"
    using nearby_some [OF ok] .
  have l: "length (elements cs) = num_elements cs" using ok by (simp add: table_ok_def length_elements)
  have ap: "\<forall>j < num_elements cs. 0 \<le> the (utc_cmp (cs, t) j) \<longleftrightarrow> change_secs (elements cs ! j) \<le> ical_secs t"
    using utc_cmp_applies(2) [OF ok nt] by blast
  let ?scan = "scan_changes (utc_cmp (cs, t)) (num_elements cs) m True None"
  have e: "offset_of_utc cs t = (case ?scan of None \<Rightarrow> None | Some None \<Rightarrow> Some (0, 0)
      | Some (Some k) \<Rightarrow> map_option (\<lambda>c. (utc_offset c, c_is_daylight c)) (icalarray_element_at cs (int k)))"
    using m by (simp add: offset_of_utc_def utc_cmp_def [abs_def] Let_def)
  from utc_scan.scan_last [OF assms, of m] m(2)
  consider k where "k < num_elements cs" "?scan = Some (Some k)"
      "\<forall>j < num_elements cs. 0 \<le> the (utc_cmp (cs, t) j) \<longleftrightarrow> j \<le> k"
    | "?scan = Some None" "\<forall>j < num_elements cs. \<not> 0 \<le> the (utc_cmp (cs, t) j)" by auto
  then show ?thesis
  proof cases
    case 1
    have "filter (\<lambda>c. change_secs c \<le> ical_secs t) (elements cs) = take (Suc k) (elements cs)"
      by (rule filter_prefix) (use 1 ap l in auto)
    then have "last_change (elements cs) (ical_secs t) = Some (elements cs ! k)"
      using 1(1) l by (auto simp: last_change_def take_Suc_conv_app_nth)
    then show ?thesis using e 1 table_element(1) [OF ok 1(1)] by (simp add: change_offset_def)
  next
    case 2
    have "\<forall>c \<in> set (elements cs). \<not> change_secs c \<le> ical_secs t"
      unfolding all_set_conv_all_nth using 2(2) ap l by simp
    then have "last_change (elements cs) (ical_secs t) = None"
      by (simp add: last_change_def)
    then show ?thesis using e 2 by (simp add: change_offset_def)
  qed
qed

section \<open>Going to local time and back\<close>

text \<open>
  A regular table: every change starts from the offset of the one before, the jumps are
  well spaced, and the daylight flag tells the two sides of a jump back apart.
\<close>

definition regular :: "icaltimezonechange list \<Rightarrow> bool" where
  "regular cs \<longleftrightarrow> well_spaced cs \<and> (\<forall>c \<in> set cs. c_is_daylight c = 0 \<or> c_is_daylight c = 1) \<and>
     (\<forall>i. i + 1 < length cs \<longrightarrow> prev_utc_offset (cs ! (i + 1)) = utc_offset (cs ! i) \<and>
        (utc_offset (cs ! (i + 1)) < utc_offset (cs ! i) \<longrightarrow>
           c_is_daylight (cs ! (i + 1)) \<noteq> c_is_daylight (cs ! i)))"

lemma regular_secs_mono:
  assumes "regular cs" "i \<le> j" "j < length cs"
  shows "change_secs (cs ! i) \<le> change_secs (cs ! j)"
  using assms(2,3)
proof (induction j rule: dec_induct)
  case (step j)
  have "jump_end (cs ! j) \<le> jump_start (cs ! (j + 1))" "prev_utc_offset (cs ! (j + 1)) = utc_offset (cs ! j)"
    using assms(1) step.prems by (auto simp: regular_def well_spaced_def)
  then have "change_secs (cs ! j) \<le> change_secs (cs ! Suc j)" by (simp add: jump_start_def jump_end_def)
  with step show ?case by simp
qed simp

lemma regular_sorted:
  assumes "table_ok cs" "regular (elements cs)"
  shows "cmp_sorted icaltimezone_compare_change_fn (elements cs)"
  unfolding cmp_sorted_def sorted_wrt_iff_nth_less
proof (intro allI impI)
  fix i j assume ij: "i < j" "j < length (elements cs)"
  have l: "length (elements cs) = num_elements cs" using assms(1) by (simp add: table_ok_def length_elements)
  have "change_secs (elements cs ! i) \<le> change_secs (elements cs ! j)"
    using regular_secs_mono [OF assms(2)] ij by simp
  moreover have "normal_change (elements cs ! i)" "normal_change (elements cs ! j)"
    using table_element(2) [OF assms(1)] ij l by simp_all
  ultimately have "0 \<le> icaltimezone_compare_change_fn (elements cs ! j) (elements cs ! i)"
    using compare_change_secs(2) by blast
  then show "icaltimezone_compare_change_fn (elements cs ! i) (elements cs ! j) \<le> 0"
    by (simp add: changecmp.cmp_le_swap)
qed

lemma overlap_test:
  assumes "normal_change c" "normal_time t"
  shows "icaltimezone_compare_change_fn (change_of_time t)
           (icaltimezone_adjust_change c 0 0 0 (prev_utc_offset c)) < 0 \<longleftrightarrow>
         ical_secs t < change_secs c + prev_utc_offset c"
proof -
  have m: "1 \<le> c_month c" "c_month c \<le> 12" using assms(1) by (simp_all add: normal_time_def normal_date_def)
  show ?thesis
    using compare_change_secs(1) [of "change_of_time t"] adjust_change_secs [OF m] assms(2) by simp
qed

lemma local_scan_end:
  assumes "local_good (cs, t)" "icaltimezone_find_nearby_change cs (change_of_time t) = Some m"
    "m < num_elements cs" "k < num_elements cs"
    "jump_start (elements cs ! k) \<le> ical_secs t"
    "k + 1 < num_elements cs \<longrightarrow> \<not> jump_start (elements cs ! (k + 1)) \<le> ical_secs t"
  shows "offset_of_local cs t =
    map_option (\<lambda>c. (utc_offset c, c_is_daylight c)) (choose_overlap cs t k (elements cs ! k))"
proof -
  have ok: "table_ok cs" and nt: "normal_time t" using assms(1) by (simp_all add: local_good_def)
  let ?scan = "scan_changes (local_cmp (cs, t)) (num_elements cs) m True None"
  have ap: "\<forall>j < num_elements cs. 0 \<le> the (local_cmp (cs, t) j) \<longleftrightarrow> jump_start (elements cs ! j) \<le> ical_secs t"
    using local_cmp_applies(2) [OF ok nt] by blast
  from local_scan.scan_last [OF assms(1), of m] assms(3)
  consider k' where "k' < num_elements cs" "?scan = Some (Some k')"
      "\<forall>j < num_elements cs. 0 \<le> the (local_cmp (cs, t) j) \<longleftrightarrow> j \<le> k'"
    | "\<forall>j < num_elements cs. \<not> 0 \<le> the (local_cmp (cs, t) j)" by auto
  then have "?scan = Some (Some k)"
  proof cases
    case 1
    have "k \<le> k'" using 1 ap assms(4,5) by blast
    moreover have "\<not> k + 1 \<le> k'" using 1 ap assms(6) by (metis order_le_less_trans)
    ultimately show ?thesis using 1(2) by simp
  next
    case 2
    then show ?thesis using ap assms(4,5) by blast
  qed
  then show ?thesis
    using assms(2,3) table_element(1) [OF ok assms(4)]
    by (simp add: offset_of_local_def local_cmp_def [abs_def] Let_def)
qed

lemma offset_of_local_inverts:
  assumes ok: "table_ok cs" and reg: "regular (elements cs)" and nt: "normal_time t"
    and k: "k < num_elements cs" "change_secs (elements cs ! k) \<le> s"
    and next_k: "k + 1 < num_elements cs \<longrightarrow> s < change_secs (elements cs ! (k + 1))"
    and t: "ical_secs t = s + utc_offset (elements cs ! k)" "is_daylight t = c_is_daylight (elements cs ! k)"
  shows "offset_of_local cs t = Some (utc_offset (elements cs ! k), c_is_daylight (elements cs ! k))"
proof -
  let ?c = "\<lambda>i. elements cs ! i"
  have l: "length (elements cs) = num_elements cs" using ok by (simp add: table_ok_def length_elements)
  have lg: "local_good (cs, t)" using ok reg nt by (simp add: local_good_def regular_def)
  obtain m where m: "icaltimezone_find_nearby_change cs (change_of_time t) = Some m" "m < num_elements cs"
    using nearby_some [OF ok] .
  have flag: "c_is_daylight (?c i) = 0 \<or> c_is_daylight (?c i) = 1" if "i < num_elements cs" for i
    using reg that l by (auto simp: regular_def)
  have step: "prev_utc_offset (?c (i + 1)) = utc_offset (?c i)"
    "utc_offset (?c (i + 1)) < utc_offset (?c i) \<Longrightarrow> c_is_daylight (?c (i + 1)) \<noteq> c_is_daylight (?c i)"
    if "i + 1 < num_elements cs" for i using reg that l by (auto simp: regular_def)
  have here: "jump_start (?c k) \<le> ical_secs t" using k(2) t(1) by (simp add: jump_start_def)
  show ?thesis
  proof (cases "k + 1 < num_elements cs \<and> jump_start (?c (k + 1)) \<le> ical_secs t")
    case False
    have nc: "normal_change (?c k)" by (rule table_element(2) [OF ok k(1)])
    have "choose_overlap cs t k (?c k) = Some (?c k)"
    proof (cases "0 < k")
      case True
      then have p: "icalarray_element_at cs (int k - 1) = Some (?c (k - 1))"
        using table_element(1) [OF ok, of "k - 1"] k(1) by (simp add: of_nat_diff)
      have "c_is_daylight (?c k) = (if is_daylight t = 1 then 1 else 0)" using flag [OF k(1)] t(2) by auto
      with p show ?thesis by (simp add: choose_overlap_def Let_def)
    qed (simp add: choose_overlap_def)
    then show ?thesis using local_scan_end [OF lg m k(1) here] False by auto
  next
    case True
    then have k1: "k + 1 < num_elements cs" by blast
    note st = step [OF k1]
    have less: "utc_offset (?c (k + 1)) < utc_offset (?c k)"
      using True next_k t(1) st(1) by (auto simp: jump_start_def min_def split: if_splits)
    have after: "\<not> jump_start (?c (k + 2)) \<le> ical_secs t" if "k + 2 < num_elements cs"
    proof -
      have "jump_end (?c (k + 1)) \<le> jump_start (?c (k + 1 + 1))"
        using reg that l unfolding regular_def well_spaced_def by simp
      moreover have "ical_secs t < jump_end (?c (k + 1))"
        using next_k k1 t(1) st(1) by (simp add: jump_end_def)
      ultimately show ?thesis by simp
    qed
    have nc: "normal_change (?c (k + 1))" by (rule table_element(2) [OF ok k1])
    have ov: "ical_secs t < change_secs (?c (k + 1)) + prev_utc_offset (?c (k + 1))"
      using next_k k1 t(1) st(1) by simp
    have p: "icalarray_element_at cs (int (k + 1) - 1) = Some (?c k)"
      using table_element(1) [OF ok k(1)] by simp
    have "choose_overlap cs t (k + 1) (?c (k + 1)) = Some (?c k)"
      using less st ov overlap_test [OF nc nt] p flag [OF k(1)] flag [OF k1] t(2)
      by (auto simp: choose_overlap_def Let_def)
    then show ?thesis using local_scan_end [OF lg m k1] True after by simp
  qed
qed

lemma last_change_index:
  assumes ok: "table_ok cs" and reg: "regular (elements cs)" and some: "last_change (elements cs) s = Some c"
  obtains k where "k < num_elements cs" "c = elements cs ! k" "change_secs c \<le> s"
    "k + 1 < num_elements cs \<longrightarrow> s < change_secs (elements cs ! (k + 1))"
proof -
  let ?xs = "elements cs" and ?P = "\<lambda>c. change_secs c \<le> s"
  have l: "length ?xs = num_elements cs" using ok by (simp add: table_ok_def length_elements)
  have ne: "filter ?P ?xs \<noteq> []" and c: "c = last (filter ?P ?xs)"
    using some by (auto simp: last_change_def Let_def split: if_splits)
  let ?n = "length (takeWhile ?P ?xs)"
  have pre: "filter ?P ?xs = take ?n ?xs"
  proof (rule filter_prefix, intro allI impI iffI)
    fix j assume j: "j < length ?xs"
    show "?P (?xs ! j)" if "j < ?n" using that by (metis nth_mem set_takeWhileD takeWhile_nth)
    show "j < ?n" if "?P (?xs ! j)"
    proof (rule ccontr)
      assume "\<not> j < ?n"
      then have "?n \<le> j" by simp
      then have "?P (?xs ! ?n)" using regular_secs_mono [OF reg, of ?n j] j that by simp
      then show False using nth_length_takeWhile [of ?P ?xs] \<open>?n \<le> j\<close> j by simp
    qed
  qed
  have n0: "0 < ?n" using ne pre by auto
  have nl: "?n \<le> length ?xs" by (rule length_takeWhile_le)
  have "c = ?xs ! (?n - 1)"
  proof -
    obtain m where m: "?n = Suc m" using n0 gr0_implies_Suc by blast
    then have "take ?n ?xs = take m ?xs @ [?xs ! m]" using nl by (simp add: take_Suc_conv_app_nth)
    with c pre m show ?thesis by simp
  qed
  moreover have "change_secs c \<le> s" using last_in_set [OF ne] c by simp
  moreover have "?n - 1 + 1 < num_elements cs \<longrightarrow> s < change_secs (?xs ! (?n - 1 + 1))"
    using nth_length_takeWhile [of ?P ?xs] n0 l by auto
  moreover have "?n - 1 < num_elements cs" using n0 nl l by linarith
  ultimately show ?thesis by (intro that [of "?n - 1"])
qed

text \<open>Converting a UTC time to a zone and back gives the time again.\<close>

lemma convert_time_back:
  assumes ok: "table_ok cs" and reg: "regular (elements cs)" and cov: "\<And>y. cov z y = Some cs"
    and z: "z \<noteq> utc_timezone" and t: "normal_time t" "is_date t = 0"
    and some: "last_change (elements cs) (ical_secs t) \<noteq> None"
  shows "\<exists>l. icaltimezone_convert_time cov t (Some utc_timezone) (Some z) = Some l \<and>
    ical_secs l = ical_secs t + utc_offset (the (last_change (elements cs) (ical_secs t))) \<and>
    icaltimezone_convert_time cov l (Some z) (Some utc_timezone) = Some (t\<lparr>is_daylight := 0\<rparr>)"
proof -
  obtain c where c: "last_change (elements cs) (ical_secs t) = Some c" using some by blast
  obtain k where k: "k < num_elements cs" "c = elements cs ! k" "change_secs c \<le> ical_secs t"
    "k + 1 < num_elements cs \<longrightarrow> ical_secs t < change_secs (elements cs ! (k + 1))"
    using last_change_index [OF ok reg c] .
  have n0: "num_elements cs \<noteq> 0" using ok by (simp add: table_ok_def)
  have t0: "icaltime_adjust t 0 0 0 0 = t"
    using normalize_id [OF t(2,1)] by (simp add: icaltime_normalize_def)
  have "utc_good (cs, t)" using ok t(1) regular_sorted [OF ok reg] by (simp add: utc_good_def)
  from offset_of_utc_last [OF this] have u: "offset_of_utc cs t = Some (utc_offset c, c_is_daylight c)"
    by (simp add: c change_offset_def)
  define l where "l = icaltime_adjust (t\<lparr>is_daylight := c_is_daylight c\<rparr>) 0 0 0 (utc_offset c)"
  have there: "icaltimezone_convert_time cov t (Some utc_timezone) (Some z) = Some l"
    using z t(2) n0 u cov t0
    by (simp add: icaltimezone_convert_time_def icaltime_is_date_def icaltimezone_get_utc_offset_def
        icaltimezone_get_utc_offset_of_utc_time_def l_def)
  have ls: "ical_secs l = ical_secs t + utc_offset c" "normal_time l" "is_daylight l = c_is_daylight c" "is_date l = 0"
    using adjust_time [of "t\<lparr>is_daylight := c_is_daylight c\<rparr>" 0 0 0 "utc_offset c"] t(2)
    by (simp_all add: l_def ical_secs_def)
  have loc: "offset_of_local cs l = Some (utc_offset c, c_is_daylight c)"
    using offset_of_local_inverts [OF ok reg ls(2) k(1), of "ical_secs t"] k ls by simp
  define b where "b = (icaltime_adjust l 0 0 0 (- utc_offset c))\<lparr>is_daylight := 0\<rparr>"
  have "icaltimezone_convert_time cov l (Some z) (Some utc_timezone) = Some (icaltime_adjust b 0 0 0 0)"
    using z ls(4) n0 loc cov
    by (simp add: icaltimezone_convert_time_def icaltime_is_date_def icaltimezone_get_utc_offset_def
        icaltimezone_get_utc_offset_of_utc_time_def b_def)
  moreover have "icaltime_adjust b 0 0 0 0 = t\<lparr>is_daylight := 0\<rparr>"
  proof (rule icaltime_eqI)
    have bs: "ical_secs b = ical_secs t" "is_date b = 0"
      using adjust_time(1) [OF ls(4), of 0 0 0 "- utc_offset c"] ls by (simp_all add: b_def ical_secs_def)
    show "ical_secs (icaltime_adjust b 0 0 0 0) = ical_secs (t\<lparr>is_daylight := 0\<rparr>)"
      using adjust_time(1) [OF bs(2), of 0 0 0 0] bs(1) by (simp add: ical_secs_def)
    show "normal_time (icaltime_adjust b 0 0 0 0)" by (rule adjust_time(2) [OF bs(2)])
    show "normal_time (t\<lparr>is_daylight := 0\<rparr>)" using t(1) by (simp add: normal_time_def normal_date_def)
  qed (simp_all add: b_def l_def)
  ultimately show ?thesis using there ls(1) c by auto
qed

end
