(* ===== verification/LibcTime.thy ===== *)
theory LibcTime
  imports TzLookup
begin

text \<open>
  The C library's \<open>gmtime\<close> and \<open>mktime\<close> under \<open>TZ=UTC\<close>, as far as \<^verbatim>\<open>icaltime.c\<close> uses them:
  seconds since 1970 and the broken-down time of the Gregorian calendar. The environment
  variable \<open>TZ\<close> is the state that \<^verbatim>\<open>set_tz\<close> and \<^verbatim>\<open>unset_tz\<close> change.
\<close>

section \<open>The library\<close>

record tm =
  tm_sec :: int
  tm_min :: int
  tm_hour :: int
  tm_mday :: int
  tm_mon :: int
  tm_year :: int

text \<open>Days of the 400 years that begin in March, before year \<open>y\<close> of them.\<close>

definition era_start :: "int \<Rightarrow> int" where
  "era_start y = 365 * y + y div 4 - y div 100"

definition civil_of_days :: "int \<Rightarrow> int \<times> int \<times> int" where
  "civil_of_days days =
     (let z = days + 719468;
          era = z div 146097;
          doe = z mod 146097;
          y0 = min 399 (doe div 365);
          yoe = (if era_start y0 > doe then y0 - 1 else y0);
          doy = doe - era_start yoe;
          mp = (5 * doy + 2) div 153;
          d = doy - (153 * mp + 2) div 5 + 1;
          m = (if mp < 10 then mp + 3 else mp - 9);
          y = yoe + 400 * era + (if m \<le> 2 then 1 else 0)
      in (y, m, d))"

definition gmtime :: "int \<Rightarrow> tm" where
  "gmtime t =
     (let (y, m, d) = civil_of_days (t div 86400); s = t mod 86400
      in \<lparr>tm_sec = s mod 60, tm_min = s mod 3600 div 60, tm_hour = s div 3600,
          tm_mday = d, tm_mon = m - 1, tm_year = y - 1900\<rparr>)"

definition mktime_utc :: "tm \<Rightarrow> int" where
  "mktime_utc tm =
     86400 * (jdn (tm_year tm + 1900 + tm_mon tm div 12) (tm_mon tm mod 12 + 1) (tm_mday tm) - 2440588)
     + 3600 * tm_hour tm + 60 * tm_min tm + tm_sec tm"

section \<open>Dates and day numbers\<close>

lemma era_start_step:
  "0 \<le> y \<Longrightarrow> era_start (y + 1) = era_start y + 365 +
     (if 4 dvd y + 1 then 1 else 0) - (if 100 dvd y + 1 then 1 else 0)"
  using div_step [of 4 "y + 1"] div_step [of 100 "y + 1"] by (simp add: era_start_def)

lemma era_year:
  assumes "0 \<le> doe" "doe < 146097"
  defines "y0 \<equiv> min 399 (doe div 365)"
  defines "yoe \<equiv> (if era_start y0 > doe then y0 - 1 else y0)"
  shows "0 \<le> yoe" "yoe \<le> 399" "era_start yoe \<le> doe"
    "doe < era_start yoe + 365 \<or> doe = era_start yoe + 365 \<and> greg_leap (yoe + 1)"
proof -
  have y0: "0 \<le> y0" "y0 \<le> 399" "365 * y0 \<le> doe" "y0 < 399 \<Longrightarrow> doe < 365 * (y0 + 1)"
    using assms(1) by (auto simp: y0_def min_def pos_imp_zdiv_nonneg_iff)
  have e: "365 * y \<le> era_start y" "era_start y \<le> 365 * y + 99" if "0 \<le> y" "y \<le> 399" for y
  proof -
    have "y div 100 \<le> y div 4" using that zdiv_mono2 [of y 4 100] by simp
    moreover have "y div 4 \<le> 99" using that zdiv_mono1 [of y 399 4] by simp
    moreover have "0 \<le> y div 100" using that by (simp add: pos_imp_zdiv_nonneg_iff)
    ultimately show "365 * y \<le> era_start y" "era_start y \<le> 365 * y + 99"
      by (simp_all add: era_start_def)
  qed
  have zero: "era_start 0 = 0" by (simp add: era_start_def)
  show yoe: "0 \<le> yoe" "yoe \<le> 399"
    using y0(1,2) zero assms(1) unfolding yoe_def by (cases "y0 = 0"; simp)+
  show low: "era_start yoe \<le> doe"
    using e(2) [of "y0 - 1"] y0 yoe by (auto simp: yoe_def split: if_splits)
  have high: "doe < era_start (yoe + 1)" if "yoe < 399"
  proof (cases "era_start y0 > doe")
    case False
    then have "y0 < 399" using that by (simp add: yoe_def)
    then have "doe < 365 * (y0 + 1)" "365 * (y0 + 1) \<le> era_start (y0 + 1)"
      using y0(4) e(1) [of "y0 + 1"] y0(1) by auto
    then show ?thesis using False by (simp add: yoe_def)
  qed (simp add: yoe_def)
  have h: "100 dvd y \<Longrightarrow> 4 dvd y" "400 dvd y \<Longrightarrow> 100 dvd y" for y :: int
    by (auto intro: dvd_trans [of 4 100] dvd_trans [of 100 400])
  show "doe < era_start yoe + 365 \<or> doe = era_start yoe + 365 \<and> greg_leap (yoe + 1)"
  proof (cases "yoe < 399")
    case True
    then show ?thesis
      using high era_start_step [OF yoe(1)] h(1) [of "yoe + 1"] low
      by (auto simp: greg_leap_def split: if_splits)
  next
    case False
    then have "yoe = 399" using yoe by simp
    then show ?thesis using assms(2) by (simp add: era_start_def greg_leap_def) linarith
  qed
qed

lemma month_off_linear:
  assumes "0 \<le> mp" "mp \<le> 11"
  shows "month_off (mp + 3) = 122 + (153 * mp + 2) div 5"
proof -
  have "mp = 0 \<or> mp = 1 \<or> mp = 2 \<or> mp = 3 \<or> mp = 4 \<or> mp = 5 \<or> mp = 6 \<or> mp = 7 \<or> mp = 8 \<or> mp = 9 \<or> mp = 10 \<or> mp = 11"
    using assms by arith
  then show ?thesis by (elim disjE) (simp_all add: month_off_def)
qed

lemma jdn_of_era:
  "jdn_of (yoe + 400 * era) im d = 146097 * era + (365 * yoe + yoe div 4 - yoe div 100 + yoe div 400)
     + month_off im + d + 1720997"
proof -
  have a: "(1461 * (yoe + 400 * era)) div 4 = 365 * (yoe + 400 * era) + yoe div 4 + 100 * era"
    using div_mult_self3 [of 4 "yoe" "365 * (yoe + 400 * era) + 100 * era"] by (simp add: algebra_simps)
  have b: "(yoe + 400 * era) div 100 = yoe div 100 + 4 * era"
    using div_mult_self1 [of 100 yoe "4 * era"] by (simp add: algebra_simps)
  have c: "(yoe + 400 * era) div 400 = yoe div 400 + era"
    using div_mult_self1 [of 400 yoe era] by (simp add: algebra_simps)
  show ?thesis unfolding jdn_of_def a b c month_off_def by simp
qed

lemma greg_leap_era: "greg_leap (y + 400 * era) = greg_leap y"
proof -
  have "n dvd y + 400 * era \<longleftrightarrow> n dvd y" if "n dvd 400" for n
    using that by (simp add: dvd_add_left_iff)
  then show ?thesis by (simp add: greg_leap_def)
qed

lemma civil_of_days_ok:
  assumes "civil_of_days z0 = (y, m, d)"
  shows "jdn y m d = z0 + 2440588" "1 \<le> m" "m \<le> 12" "1 \<le> d" "d \<le> greg_month_len m y"
proof -
  define z where "z = z0 + 719468"
  define era where "era = z div 146097"
  define doe where "doe = z mod 146097"
  define y0 where "y0 = min 399 (doe div 365)"
  define yoe where "yoe = (if era_start y0 > doe then y0 - 1 else y0)"
  define doy where "doy = doe - era_start yoe"
  define mp where "mp = (5 * doy + 2) div 153"
  have r: "m = (if mp < 10 then mp + 3 else mp - 9)" "d = doy - (153 * mp + 2) div 5 + 1"
    "y = yoe + 400 * era + (if m \<le> 2 then 1 else 0)"
    using assms unfolding civil_of_days_def Let_def z_def [symmetric] era_def [symmetric] doe_def [symmetric]
      y0_def [symmetric] yoe_def [symmetric] doy_def [symmetric] mp_def [symmetric] prod.inject by blast+
  have doe: "0 \<le> doe" "doe < 146097" by (simp_all add: doe_def)
  note ey = era_year [OF doe, folded y0_def, folded yoe_def]
  have doy: "0 \<le> doy" "doy \<le> 364 \<or> doy = 365 \<and> greg_leap (yoe + 1)" using ey(3,4) by (auto simp: doy_def)
  have mp: "153 * mp \<le> 5 * doy + 2" "5 * doy + 2 < 153 * mp + 153"
    unfolding mp_def using mult_div_mod_eq [of 153 "5 * doy + 2"] pos_mod_bound [of 153 "5 * doy + 2"]
      pos_mod_sign [of 153 "5 * doy + 2"] by linarith+
  have mr: "0 \<le> mp" "mp \<le> 11" using mp doy by linarith+
  then have m12: "mp = 0 \<or> mp = 1 \<or> mp = 2 \<or> mp = 3 \<or> mp = 4 \<or> mp = 5 \<or> mp = 6 \<or> mp = 7 \<or> mp = 8 \<or>
      mp = 9 \<or> mp = 10 \<or> mp = 11" by arith
  show "1 \<le> m" "m \<le> 12" using r(1) mr by auto
  have j: "jdn y m d = jdn_of (yoe + 400 * era) (mp + 3) d"
    using r(1,3) mr by (auto simp: jdn_def add.commute)
  have "yoe div 400 = 0" using ey(1,2) by (simp add: div_pos_pos_trivial)
  then have "jdn y m d = 146097 * era + era_start yoe + month_off (mp + 3) + d + 1720997"
    unfolding j jdn_of_era by (simp add: era_start_def)
  also have "\<dots> = 146097 * era + doe + 1721120"
    unfolding month_off_linear [OF mr] r(2) doy_def by simp
  also have "\<dots> = z0 + 2440588"
    using mult_div_mod_eq [of 146097 z] unfolding era_def doe_def z_def by simp
  finally show "jdn y m d = z0 + 2440588" .
  show "1 \<le> d" using m12 mp doy(1) r(2) by (elim disjE) simp_all
  have leap: "mp = 11 \<Longrightarrow> greg_leap y = greg_leap (yoe + 1)"
    using greg_leap_era [of "yoe + 1" era] r(1,3) by (simp add: algebra_simps)
  show "d \<le> greg_month_len m y"
    using m12 mp doy(2) r(1,2) leap by (elim disjE) (auto simp: greg_month_len_def)
qed

text \<open>\<open>mktime\<close> is the inverse of \<open>gmtime\<close>.\<close>

lemma mktime_gmtime: "mktime_utc (gmtime t) = t"
proof -
  obtain y m d where c: "civil_of_days (t div 86400) = (y, m, d)" by (rule prod_cases3)
  note ok = civil_of_days_ok [OF c]
  define s where "s = t mod 86400"
  have "s = 3600 * (s div 3600) + s mod 3600" "s mod 3600 = 60 * (s mod 3600 div 60) + s mod 3600 mod 60"
    by (simp_all only: mult_div_mod_eq)
  moreover have "s mod 3600 mod 60 = s mod 60" by (simp add: mod_mod_cancel)
  moreover have "t = 86400 * (t div 86400) + s" by (simp add: s_def)
  ultimately have "86400 * (t div 86400) + 3600 * (s div 3600) + 60 * (s mod 3600 div 60) + s mod 60 = t"
    by linarith
  then show ?thesis
    using ok by (simp add: mktime_utc_def gmtime_def c s_def [symmetric] div_pos_pos_trivial mod_pos_pos_trivial)
qed

text \<open>The times of \<open>gmtime\<close> are normal times of the library from 1752 on.\<close>

definition epoch_days :: int where
  "epoch_days = 719176"

lemma mktime_ical:
  assumes "1752 \<le> year t" "1 \<le> month t" "month t \<le> 12"
  shows "mktime_utc \<lparr>tm_sec = second t, tm_min = minute t, tm_hour = hour t, tm_mday = day t,
      tm_mon = month t - 1, tm_year = year t - 1900\<rparr> = ical_secs t - 86400 * epoch_days"
  using assms jdn_ical_days [of "year t" "month t" "day t"]
  by (simp add: mktime_utc_def ical_secs_def epoch_days_def div_pos_pos_trivial mod_pos_pos_trivial algebra_simps)

end
