(* ===== verification/IcalTime.thy ===== *)
theory IcalTime
  imports LibcTime
begin

text \<open>
  The rest of \<^verbatim>\<open>icaltime.c\<close>: conversion to and from seconds, the iCalendar text of a time,
  comparison after conversion to a zone, and spans. Operations that look at zones take the
  \<open>coverage\<close> of the theory of zones and give \<open>None\<close> where a look-up aborts.
\<close>

section \<open>Seconds since 1970\<close>

definition make_time_days :: "int list" where
  "make_time_days = [- 1, 30, 58, 89, 119, 150, 180, 211, 242, 272, 303, 333, 364]"

definition make_time :: "tm \<Rightarrow> int \<Rightarrow> int" where
  "make_time tm tzm =
     (if tm_year tm < 70 \<or> tm_year tm > 138 then - 1
      else if tm_mon tm < 0 \<or> tm_mon tm > 11 then - 1
      else if tm_year tm = 138 \<and> tm_mon tm > 0 then - 1
      else if tm_year tm = 138 \<and> tm_mday tm > 17 then - 1
      else
        let t0 = (tm_year tm - 70) * 365 + c_div (tm_year tm - 1) 4 - 17;
            t1 = t0 + make_time_days ! nat (tm_mon tm);
            t2 = (if tm_year tm mod 4 = 0 \<and> tm_mon tm > 1 then t1 + 1 else t1);
            t3 = t2 + tm_mday tm;
            t4 = t3 * 24 + tm_hour tm;
            t5 = t4 * 60 + tm_min tm;
            t6 = t5 - tzm
        in t6 * 60 + tm_sec tm)"

definition icaltime_as_timet :: "icaltimetype \<Rightarrow> int" where
  "icaltime_as_timet tt =
     (if icaltime_is_null_time tt then 0
      else
        let (s, mi, h) = (if icaltime_is_date tt \<noteq> 0 then (0, 0, 0) else (second tt, minute tt, hour tt))
        in make_time \<lparr>tm_sec = s, tm_min = mi, tm_hour = h, tm_mday = day tt,
                      tm_mon = month tt - 1, tm_year = year tt - 1900\<rparr> 0)"

definition time_of_tm :: "tm \<Rightarrow> zone_ref option \<Rightarrow> icaltimetype" where
  "time_of_tm t zn =
     \<lparr>year = tm_year t + 1900, month = tm_mon t + 1, day = tm_mday t,
      hour = tm_hour t, minute = tm_min t, second = tm_sec t,
      is_utc = (if zn = icaltimezone_get_utc_timezone then 1 else 0), is_date = 0,
      is_daylight = 0, zone = None\<rparr>"

definition icaltime_from_timet_with_zone ::
    "coverage \<Rightarrow> int \<Rightarrow> int \<Rightarrow> zone_ref option \<Rightarrow> icaltimetype option" where
  "icaltime_from_timet_with_zone cov tm isdate zn =
     (case icaltimezone_convert_time cov (time_of_tm (gmtime tm) zn) icaltimezone_get_utc_timezone zn of
        None \<Rightarrow> None
      | Some tt \<Rightarrow>
          let tt1 = tt\<lparr>is_date := isdate\<rparr>
          in Some (if isdate \<noteq> 0 then tt1\<lparr>hour := 0, minute := 0, second := 0\<rparr> else tt1))"

definition icaltime_from_timet :: "coverage \<Rightarrow> int \<Rightarrow> int \<Rightarrow> icaltimetype option" where
  "icaltime_from_timet cov tm isdate = icaltime_from_timet_with_zone cov tm isdate None"

text \<open>
  The environment variable and the pointer to the text last put into it. The variable
  holds the text after \<^verbatim>\<open>TZ=\<close>.
\<close>

record tz_env =
  env_TZ :: "string option"
  saved_tz :: "string option"

definition set_tz :: "string \<Rightarrow> tz_env \<Rightarrow> string option \<times> tz_env" where
  "set_tz tzid env = (env_TZ env, env\<lparr>env_TZ := Some tzid, saved_tz := Some tzid\<rparr>)"

definition unset_tz :: "string option \<Rightarrow> tz_env \<Rightarrow> tz_env" where
  "unset_tz tzstr env = env\<lparr>env_TZ := tzstr, saved_tz := tzstr\<rparr>"

text \<open>\<open>mktime_in\<close> is the C library's \<open>mktime\<close> under a value of \<open>TZ\<close> other than \<open>UTC\<close>.\<close>

definition mktime :: "(string option \<Rightarrow> tm \<Rightarrow> int) \<Rightarrow> tz_env \<Rightarrow> tm \<Rightarrow> int" where
  "mktime mktime_in env tm = (if env_TZ env = Some ''UTC'' then mktime_utc tm else mktime_in (env_TZ env) tm)"

definition icaltime_as_timet_with_zone ::
    "coverage \<Rightarrow> (string option \<Rightarrow> tm \<Rightarrow> int) \<Rightarrow> icaltimetype \<Rightarrow> zone_ref option \<Rightarrow> tz_env
       \<Rightarrow> (int \<times> tz_env) option" where
  "icaltime_as_timet_with_zone cov mktime_in tt zn env =
     (if icaltime_is_null_time tt then Some (0, env)
      else case icaltimezone_convert_time cov (tt\<lparr>is_date := 0\<rparr>) zn icaltimezone_get_utc_timezone of
             None \<Rightarrow> None
           | Some l \<Rightarrow>
               let stm = \<lparr>tm_sec = second l, tm_min = minute l, tm_hour = hour l, tm_mday = day l,
                          tm_mon = month l - 1, tm_year = year l - 1900\<rparr>;
                   (old_tz, env1) = set_tz ''UTC'' env;
                   t = mktime mktime_in env1 stm
               in Some (t, unset_tz old_tz env1))"

section \<open>The text of a time\<close>

text \<open>\<open>snprintf\<close> into 17 bytes keeps 16 characters.\<close>

definition icaltime_as_ical_string_r :: "icaltimetype \<Rightarrow> string" where
  "icaltime_as_ical_string_r tt =
     take 16
       (if is_date tt \<noteq> 0 then fmt_0d 4 (year tt) @ fmt_0d 2 (month tt) @ fmt_0d 2 (day tt)
        else fmt_0d 4 (year tt) @ fmt_0d 2 (month tt) @ fmt_0d 2 (day tt) @ ''T'' @
             fmt_0d 2 (hour tt) @ fmt_0d 2 (minute tt) @ fmt_0d 2 (second tt) @
             (if is_utc tt \<noteq> 0 then ''Z'' else []))"

definition scan_date_basic :: "string \<Rightarrow> ((int \<times> int \<times> int) \<times> string) option" where
  "scan_date_basic s0 = do {
     (y, s1) \<leftarrow> scan_wd 4 s0;
     (mo, s2) \<leftarrow> scan_wd 2 s1;
     (d, s3) \<leftarrow> scan_wd 2 s2;
     Some ((y, mo, d), s3) }"

definition scan_date_extended :: "string \<Rightarrow> ((int \<times> int \<times> int) \<times> string) option" where
  "scan_date_extended s0 = do {
     (y, s1) \<leftarrow> scan_wd 4 s0;
     (dsep1, s2) \<leftarrow> scan_c s1;
     (mo, s3) \<leftarrow> scan_wd 2 s2;
     (dsep2, s4) \<leftarrow> scan_c s3;
     (d, s5) \<leftarrow> scan_wd 2 s4;
     if dsep1 \<noteq> CHR ''-'' \<or> dsep2 \<noteq> CHR ''-'' then None else Some ((y, mo, d), s5) }"

definition scan_time_basic :: "string \<Rightarrow> (int \<times> int \<times> int) option" where
  "scan_time_basic s0 = do {
     (tsep, s1) \<leftarrow> scan_c s0;
     (h, s2) \<leftarrow> scan_wd 2 s1;
     (mi, s3) \<leftarrow> scan_wd 2 s2;
     (s, s4) \<leftarrow> scan_wd 2 s3;
     if tsep \<noteq> CHR ''T'' then None else Some (h, mi, s) }"

definition scan_time_extended :: "string \<Rightarrow> (int \<times> int \<times> int) option" where
  "scan_time_extended s0 = do {
     (tsep, s1) \<leftarrow> scan_c s0;
     (h, s2) \<leftarrow> scan_wd 2 s1;
     (tsep1, s3) \<leftarrow> scan_c s2;
     (mi, s4) \<leftarrow> scan_wd 2 s3;
     (tsep2, s5) \<leftarrow> scan_c s4;
     (s, s6) \<leftarrow> scan_wd 2 s5;
     if tsep \<noteq> CHR ''T'' \<or> tsep1 \<noteq> CHR '':'' \<or> tsep2 \<noteq> CHR '':'' then None else Some (h, mi, s) }"

text \<open>
  The flags that the length of the text decides. With 16 characters and no \<open>Z\<close> at the end
  the code reads the character 19, behind the end: \<open>None\<close>. \<open>Some None\<close> is the jump to
  \<^verbatim>\<open>FAIL\<close>.
\<close>

definition time_of_size :: "string \<Rightarrow> icaltimetype option option" where
  "time_of_size str =
     (let size = length str; tt = icaltime_null_time
      in if size = 15 \<or> size = 19 then Some (Some tt)
         else if size = 16 \<or> size = 20 then
           (if str ! 15 \<noteq> CHR ''Z'' \<and> size = 16 then None
            else if str ! 15 \<noteq> CHR ''Z'' \<and> str ! 19 \<noteq> CHR ''Z'' then Some None
            else Some (Some (tt\<lparr>is_utc := 1, zone := icaltimezone_get_utc_timezone\<rparr>)))
         else if size = 8 \<or> size = 10 then Some (Some (tt\<lparr>is_date := 1\<rparr>))
         else Some None)"

definition time_fields :: "icaltimetype \<Rightarrow> string \<Rightarrow> icaltimetype option" where
  "time_fields tt str =
     (let size = length str
      in if is_date tt = 1 then
           map_option (\<lambda>((y, mo, d), _). tt\<lparr>year := y, month := mo, day := d\<rparr>)
             (if size = 10 then scan_date_extended str else scan_date_basic str)
         else
           do { ((y, mo, d), rest) \<leftarrow> (if size > 16 then scan_date_extended str else scan_date_basic str);
                (h, mi, s) \<leftarrow> (if size > 16 then scan_time_extended rest else scan_time_basic rest);
                Some (tt\<lparr>year := y, month := mo, day := d, hour := h, minute := mi, second := s\<rparr>) })"

text \<open>The result and the error state; \<open>None\<close> is an abort or the read behind the end.\<close>

definition icaltime_from_string ::
    "string \<Rightarrow> icalerror_state \<Rightarrow> (icaltimetype \<times> icalerror_state) option" where
  "icaltime_from_string str es =
     (case time_of_size str of
        None \<Rightarrow> None
      | Some r \<Rightarrow>
          (case Option.bind r (\<lambda>tt. time_fields tt str) of
             Some tt \<Rightarrow> Some (tt, es)
           | None \<Rightarrow> map_option (\<lambda>es1. (icaltime_null_time, es1))
                       (icalerror_set_errno ICAL_MALFORMEDDATA_ERROR es)))"

section \<open>Zones of times\<close>

definition flag_zone :: "icaltimetype \<Rightarrow> zone_ref option \<Rightarrow> icaltimetype" where
  "flag_zone tt zn =
     tt\<lparr>zone := zn, is_utc := (if zn = icaltimezone_get_utc_timezone then 1 else 0)\<rparr>"

definition icaltime_convert_to_zone ::
    "coverage \<Rightarrow> icaltimetype \<Rightarrow> zone_ref option \<Rightarrow> icaltimetype option" where
  "icaltime_convert_to_zone cov tt zn =
     (if is_date tt \<noteq> 0 then Some tt
      else if zone tt = zn then Some tt
      else case (if zone tt \<noteq> None then icaltimezone_convert_time cov tt (zone tt) zn else Some tt) of
             None \<Rightarrow> None
           | Some ret \<Rightarrow> Some (flag_zone ret zn))"

definition icaltime_get_timezone :: "icaltimetype \<Rightarrow> zone_ref option" where
  "icaltime_get_timezone t = zone t"

definition icaltime_set_timezone :: "icaltimetype \<Rightarrow> zone_ref option \<Rightarrow> icaltimetype" where
  "icaltime_set_timezone t zn =
     (if is_date t \<noteq> 0 then t else if zone t = zn then t else flag_zone t zn)"

section \<open>Comparison\<close>

definition compare_times :: "icaltimetype \<Rightarrow> icaltimetype \<Rightarrow> int" where
  "compare_times a b =
     (if year a > year b then 1 else if year a < year b then - 1
      else if month a > month b then 1 else if month a < month b then - 1
      else if day a > day b then 1 else if day a < day b then - 1
      else if is_date a \<noteq> 0 \<and> is_date b \<noteq> 0 then 0
      else if is_date b \<noteq> 0 then 1
      else if is_date a \<noteq> 0 then - 1
      else if hour a > hour b then 1 else if hour a < hour b then - 1
      else if minute a > minute b then 1 else if minute a < minute b then - 1
      else if second a > second b then 1 else if second a < second b then - 1
      else 0)"

definition compare_dates :: "icaltimetype \<Rightarrow> icaltimetype \<Rightarrow> int" where
  "compare_dates a b =
     (if year a > year b then 1 else if year a < year b then - 1
      else if month a > month b then 1 else if month a < month b then - 1
      else if day a > day b then 1 else if day a < day b then - 1
      else 0)"

definition icaltime_compare :: "coverage \<Rightarrow> icaltimetype \<Rightarrow> icaltimetype \<Rightarrow> int option" where
  "icaltime_compare cov a_in b_in = do {
     a \<leftarrow> icaltime_convert_to_zone cov a_in icaltimezone_get_utc_timezone;
     b \<leftarrow> icaltime_convert_to_zone cov b_in icaltimezone_get_utc_timezone;
     Some (compare_times a b) }"

definition icaltime_compare_date_only_tz ::
    "coverage \<Rightarrow> icaltimetype \<Rightarrow> icaltimetype \<Rightarrow> zone_ref option \<Rightarrow> int option" where
  "icaltime_compare_date_only_tz cov a_in b_in tz = do {
     a \<leftarrow> icaltime_convert_to_zone cov a_in tz;
     b \<leftarrow> icaltime_convert_to_zone cov b_in tz;
     Some (compare_dates a b) }"

definition icaltime_compare_date_only :: "coverage \<Rightarrow> icaltimetype \<Rightarrow> icaltimetype \<Rightarrow> int option" where
  "icaltime_compare_date_only cov a_in b_in = do {
     a \<leftarrow> icaltime_convert_to_zone cov a_in icaltimezone_get_utc_timezone;
     b \<leftarrow> icaltime_convert_to_zone cov b_in icaltimezone_get_utc_timezone;
     Some (compare_dates a b) }"

section \<open>Spans\<close>

record icaltime_span =
  span_start :: int
  span_end :: int
  span_is_busy :: int

definition zone_or_utc :: "icaltimetype \<Rightarrow> zone_ref option" where
  "zone_or_utc t = (if zone t \<noteq> None then zone t else icaltimezone_get_utc_timezone)"

definition icaltime_span_new ::
    "coverage \<Rightarrow> (string option \<Rightarrow> tm \<Rightarrow> int) \<Rightarrow> icaltimetype \<Rightarrow> icaltimetype \<Rightarrow> int \<Rightarrow> tz_env
       \<Rightarrow> (icaltime_span \<times> tz_env) option" where
  "icaltime_span_new cov mktime_in dtstart dtend0 busy env = do {
     (s, env1) \<leftarrow> icaltime_as_timet_with_zone cov mktime_in dtstart (zone_or_utc dtstart) env;
     if icaltime_is_null_time dtend0 \<and> icaltime_is_date dtstart = 0
     then Some (\<lparr>span_start = s, span_end = s, span_is_busy = busy\<rparr>, env1)
     else do {
       let dtend = (if icaltime_is_null_time dtend0 then dtstart else dtend0);
       (e, env2) \<leftarrow> icaltime_as_timet_with_zone cov mktime_in dtend (zone_or_utc dtend) env1;
       let e1 = (if icaltime_is_date dtstart \<noteq> 0 then e + (60 * 60 * 24 - 1) else e);
       Some (\<lparr>span_start = s, span_end = e1, span_is_busy = busy\<rparr>, env2) } }"

definition icaltime_span_overlaps :: "icaltime_span \<Rightarrow> icaltime_span \<Rightarrow> bool" where
  "icaltime_span_overlaps s1 s2 =
     (if span_start s1 > span_start s2 \<and> span_start s1 < span_end s2 then True
      else if span_end s1 > span_start s2 \<and> span_end s1 < span_end s2 then True
      else if span_start s2 > span_start s1 \<and> span_start s2 < span_end s1 then True
      else if span_end s2 > span_start s1 \<and> span_end s2 < span_end s1 then True
      else if span_start s1 = span_start s2 \<and> span_end s1 = span_end s2 then True
      else False)"

definition icaltime_span_contains :: "icaltime_span \<Rightarrow> icaltime_span \<Rightarrow> bool" where
  "icaltime_span_contains s container \<longleftrightarrow>
     (span_start s \<ge> span_start container \<and> span_start s < span_end container) \<and>
     (span_end s \<le> span_end container \<and> span_end s > span_start container)"

end
