(* ===== verification/TimeLaws.thy ===== *)
theory TimeLaws
  imports IcalTime
begin

text \<open>
  What the operations of \<^verbatim>\<open>icaltime.c\<close> on seconds, text, zones and spans compute: the
  seconds agree with the day count, the text of a time is read back, the comparison is a
  total preorder that agrees with the instants, and a conversion to a zone and back to
  seconds is the identity.
\<close>

section \<open>Seconds\<close>

lemma make_time_table: "1 \<le> m \<Longrightarrow> m \<le> 12 \<Longrightarrow> 1970 \<le> y \<Longrightarrow> y \<le> 2038 \<Longrightarrow>
    make_time_days ! nat (m - 1) + (if y mod 4 = 0 \<and> m > 2 then 1 else 0) = month_start y m - 1"
proof -
  assume m: "1 \<le> m" "m \<le> 12" and y: "1970 \<le> y" "y \<le> 2038"
  have leap: "icaltime_is_leap_year y = (if y mod 4 = 0 then 1 else 0)"
  proof -
    have "100 dvd y \<Longrightarrow> y = 2000"
    proof -
      assume "100 dvd y"
      then obtain k where "y = 100 * k" by (rule dvdE)
      then show ?thesis using y by simp
    qed
    then have "greg_leap y \<longleftrightarrow> 4 dvd y" by (auto simp: greg_leap_def)
    then show ?thesis using leap_greg [of y] y by (simp add: dvd_eq_mod_eq_0)
  qed
  show ?thesis
  proof (cases "y mod 4 = 0")
    case True
    with leap have "icaltime_is_leap_year y = 1" by simp
    with True month_cases [OF m] show ?thesis
      by (elim disjE) (simp_all add: make_time_days_def month_start_def days_in_year_passed_month_def)
  next
    case False
    with leap have "icaltime_is_leap_year y = 0" by simp
    with False month_cases [OF m] show ?thesis
      by (elim disjE) (simp_all add: make_time_days_def month_start_def days_in_year_passed_month_def)
  qed
qed

lemma year_start_epoch: "1970 \<le> y \<Longrightarrow> y \<le> 2038 \<Longrightarrow> year_start y = 365 * (y - 1) + (y - 1) div 4 - 2"
proof -
  assume y: "1970 \<le> y" "y \<le> 2038"
  have "(y - 1) div 100 = 19 \<and> (y - 1) div 400 = 4 \<or> (y - 1) div 100 = 20 \<and> (y - 1) div 400 = 5"
  proof (cases "y - 1 < 2000")
    case True
    have "(y - 1) div 100 = 19" using y True by (intro int_div_pos_eq [where r = "y - 1901"]) auto
    moreover have "(y - 1) div 400 = 4" using y True by (intro int_div_pos_eq [where r = "y - 1601"]) auto
    ultimately show ?thesis by simp
  next
    case False
    have "(y - 1) div 100 = 20" using y False by (intro int_div_pos_eq [where r = "y - 2001"]) auto
    moreover have "(y - 1) div 400 = 5" using y False by (intro int_div_pos_eq [where r = "y - 2001"]) auto
    ultimately show ?thesis by simp
  qed
  then show ?thesis using y by (auto simp: year_start_def leaps_upto_def)
qed

lemma make_time_secs:
  assumes m: "1 \<le> month t" "month t \<le> 12" and y: "1970 \<le> year t"
    and last: "year t < 2038 \<or> year t = 2038 \<and> month t = 1 \<and> day t \<le> 17"
  shows "make_time \<lparr>tm_sec = second t, tm_min = minute t, tm_hour = hour t, tm_mday = day t,
      tm_mon = month t - 1, tm_year = year t - 1900\<rparr> 0 = ical_secs t - 86400 * epoch_days"
proof -
  have y2: "year t \<le> 2038" using last by auto
  have d4: "c_div (year t - 1901) 4 = (year t - 1) div 4 - 475"
  proof -
    have "(year t - 1) div 4 = (year t - 1901) div 4 + 475"
      using div_mult_self1 [of 4 "year t - 1901" 475] by (simp add: algebra_simps)
    then show ?thesis using y by (simp add: c_div_nonneg)
  qed
  have m4: "(year t - 1900) mod 4 = year t mod 4"
    using mod_mult_self2 [of "year t - 1900" 4 475] by simp
  have days: "ical_days (year t) (month t) (day t) = 365 * (year t - 1) + (year t - 1) div 4 - 2
      + month_start (year t) (month t) + day t"
    using m y y2 by (simp add: ical_days_month year_start_epoch)
  have range: "\<not> (year t - 1900 < 70 \<or> year t - 1900 > 138)" "\<not> (month t - 1 < 0 \<or> month t - 1 > 11)"
    "\<not> (year t - 1900 = 138 \<and> month t - 1 > 0)" "\<not> (year t - 1900 = 138 \<and> day t > 17)"
    using m y y2 last by auto
  define g where "g = make_time_days ! nat (month t - 1)"
  define e where "e = (if year t mod 4 = 0 \<and> month t > 2 then 1 else 0 :: int)"
  have g: "g + e = month_start (year t) (month t) - 1"
    using make_time_table [OF m y y2] by (simp add: g_def e_def)
  have ee: "(if year t mod 4 = 0 \<and> month t - 1 > 1 then x + 1 else x) = x + e" for x
    using m by (simp add: e_def)
  have "make_time \<lparr>tm_sec = second t, tm_min = minute t, tm_hour = hour t, tm_mday = day t,
      tm_mon = month t - 1, tm_year = year t - 1900\<rparr> 0
    = (((((year t - 1900 - 70) * 365 + ((year t - 1) div 4 - 475) - 17) + g + e + day t) * 24 + hour t) * 60
        + minute t) * 60 + second t"
    unfolding make_time_def tm.select_convs if_not_P [OF range(1)] if_not_P [OF range(2)]
      if_not_P [OF range(3)] if_not_P [OF range(4)] Let_def
    using d4 m4 ee by (simp add: g_def)
  then show ?thesis using g days by (simp add: ical_secs_def epoch_days_def algebra_simps)
qed

lemma not_null_time: "1 \<le> year t \<Longrightarrow> normal_time t \<Longrightarrow> \<not> icaltime_is_null_time t"
  by (auto simp: icaltime_is_null_time_def normal_time_def normal_date_def)

text \<open>Positive second counts belong to positive years.\<close>

lemma positive_year:
  assumes "normal_time t" "86400 \<le> ical_secs t"
  shows "1 \<le> year t"
proof (rule ccontr)
  assume y: "\<not> 1 \<le> year t"
  have nd: "normal_date t" using assms(1) by (simp add: normal_time_def)
  have "ical_days (year t) (month t) (day t) \<le> year_start (year t) + ycaltime_days_in_year (year t)"
    using normal_day_of_year(2) [OF nd] nd by (simp add: ical_days_month normal_date_def)
  also have "\<dots> \<le> year_start 1" using y by (intro year_start_mono) simp
  also have "year_start 1 = 0" by (simp add: year_start_def leaps_upto_def)
  finally show False using assms by (simp add: ical_secs_def normal_time_def)
qed

section \<open>Text\<close>

text \<open>The times that the text can show: every field fits its width, and the zone is the flag.\<close>

definition printable_date :: "icaltimetype \<Rightarrow> bool" where
  "printable_date t \<longleftrightarrow> 0 \<le> year t \<and> year t \<le> 9999 \<and> 0 \<le> month t \<and> month t \<le> 99 \<and> 0 \<le> day t \<and> day t \<le> 99"

definition printable_time :: "icaltimetype \<Rightarrow> bool" where
  "printable_time t \<longleftrightarrow> printable_date t \<and> is_daylight t = 0 \<and>
     (if is_date t = 1 then hour t = 0 \<and> minute t = 0 \<and> second t = 0 \<and> is_utc t = 0 \<and> zone t = None
      else is_date t = 0 \<and> 0 \<le> hour t \<and> hour t \<le> 99 \<and> 0 \<le> minute t \<and> minute t \<le> 99 \<and>
           0 \<le> second t \<and> second t \<le> 99 \<and>
           (is_utc t = 0 \<and> zone t = None \<or> is_utc t = 1 \<and> zone t = icaltimezone_get_utc_timezone))"

lemma scan_date_basic_fmt [scan_simps]:
  assumes "printable_date t"
  shows "scan_date_basic (fmt_0d 4 (year t) @ fmt_0d 2 (month t) @ fmt_0d 2 (day t) @ r) =
    Some ((year t, month t, day t), r)"
  using assms by (simp add: scan_date_basic_def scan_simps printable_date_def)

lemma scan_time_basic_fmt [scan_simps]:
  assumes "0 \<le> h" "h \<le> 99" "0 \<le> mi" "mi \<le> 99" "0 \<le> s" "s \<le> 99"
  shows "scan_time_basic (''T'' @ fmt_0d 2 h @ fmt_0d 2 mi @ fmt_0d 2 s @ r) = Some (h, mi, s)"
  using assms by (simp add: scan_time_basic_def scan_simps)

lemma date_text_length:
  "printable_date t \<Longrightarrow> length (fmt_0d 4 (year t)) = 4 \<and> length (fmt_0d 2 (month t)) = 2 \<and> length (fmt_0d 2 (day t)) = 2"
  by (simp add: printable_date_def fmt_0d_width)

text \<open>What is printed for a printable time: nothing is cut off.\<close>

definition time_text :: "icaltimetype \<Rightarrow> string" where
  "time_text t =
     (if is_date t \<noteq> 0 then fmt_0d 4 (year t) @ fmt_0d 2 (month t) @ fmt_0d 2 (day t)
      else fmt_0d 4 (year t) @ fmt_0d 2 (month t) @ fmt_0d 2 (day t) @ ''T'' @
           fmt_0d 2 (hour t) @ fmt_0d 2 (minute t) @ fmt_0d 2 (second t) @ (if is_utc t \<noteq> 0 then ''Z'' else []))"

lemma time_text_length:
  assumes "printable_time t"
  shows "length (time_text t) = (if is_date t = 1 then 8 else if is_utc t = 1 then 16 else 15)"
  using assms date_text_length [of t]
  by (auto simp: time_text_def printable_time_def fmt_0d_width split: if_splits)

lemma as_ical_string_text: "printable_time t \<Longrightarrow> icaltime_as_ical_string_r t = time_text t"
  using time_text_length [of t]
  by (simp add: icaltime_as_ical_string_r_def time_text_def split: if_splits)

lemma time_text_Z:
  assumes "printable_time t" "is_date t = 0" "is_utc t = 1"
  shows "time_text t ! 15 = CHR ''Z''"
proof -
  let ?p = "fmt_0d 4 (year t) @ fmt_0d 2 (month t) @ fmt_0d 2 (day t) @ ''T'' @
           fmt_0d 2 (hour t) @ fmt_0d 2 (minute t) @ fmt_0d 2 (second t)"
  have "time_text t = ?p @ ''Z''" using assms(2,3) by (simp add: time_text_def)
  moreover have "length ?p = 15"
    using time_text_length [OF assms(1)] assms(2,3) by (simp add: time_text_def)
  ultimately show ?thesis by (metis nth_append_length)
qed

lemma from_string_text:
  assumes "printable_time t"
  shows "icaltime_from_string (time_text t) es = Some (t, es)"
proof -
  have pd: "printable_date t" and dl: "is_daylight t = 0" using assms by (simp_all add: printable_time_def)
  note len = time_text_length [OF assms]
  consider "is_date t = 1" | "is_date t = 0" "is_utc t = 0" | "is_date t = 0" "is_utc t = 1"
    using assms by (auto simp: printable_time_def split: if_splits)
  then show ?thesis
  proof cases
    case 1
    have "scan_date_basic (time_text t) = Some ((year t, month t, day t), [])"
      using scan_date_basic_fmt [OF pd, of "[]"] 1 by (simp add: time_text_def)
    then have "time_fields (icaltime_null_time\<lparr>is_date := 1\<rparr>) (time_text t) = Some t"
      using 1 len assms by (simp add: time_fields_def icaltime_null_time_def printable_time_def)
    then show ?thesis using 1 len by (simp add: icaltime_from_string_def time_of_size_def)
  next
    case 2
    have d: "scan_date_basic (time_text t) = Some ((year t, month t, day t),
        ''T'' @ fmt_0d 2 (hour t) @ fmt_0d 2 (minute t) @ fmt_0d 2 (second t) @ [])"
      using scan_date_basic_fmt [OF pd] 2 by (simp add: time_text_def)
    have "scan_time_basic (''T'' @ fmt_0d 2 (hour t) @ fmt_0d 2 (minute t) @ fmt_0d 2 (second t) @ []) =
        Some (hour t, minute t, second t)"
      using assms 2 by (intro scan_time_basic_fmt) (auto simp: printable_time_def)
    with d have "time_fields icaltime_null_time (time_text t) = Some t"
      using 2 len assms by (simp add: time_fields_def icaltime_null_time_def printable_time_def)
    then show ?thesis using 2 len by (simp add: icaltime_from_string_def time_of_size_def)
  next
    case 3
    have d: "scan_date_basic (time_text t) = Some ((year t, month t, day t),
        ''T'' @ fmt_0d 2 (hour t) @ fmt_0d 2 (minute t) @ fmt_0d 2 (second t) @ ''Z'')"
      using scan_date_basic_fmt [OF pd] 3 by (simp add: time_text_def)
    have "scan_time_basic (''T'' @ fmt_0d 2 (hour t) @ fmt_0d 2 (minute t) @ fmt_0d 2 (second t) @ ''Z'') =
        Some (hour t, minute t, second t)"
      using assms 3 by (intro scan_time_basic_fmt) (auto simp: printable_time_def)
    with d have "time_fields (icaltime_null_time\<lparr>is_utc := 1, zone := icaltimezone_get_utc_timezone\<rparr>) (time_text t) = Some t"
      using 3 len assms by (simp add: time_fields_def icaltime_null_time_def printable_time_def)
    then show ?thesis
      using 3 len time_text_Z [OF assms 3] by (simp add: icaltime_from_string_def time_of_size_def)
  qed
qed

section \<open>Comparison\<close>

text \<open>A date sorts before every time of its day.\<close>

definition time_key :: "icaltimetype \<Rightarrow> int list" where
  "time_key t = [year t, month t, day t, (if is_date t \<noteq> 0 then 0 else 1),
     (if is_date t \<noteq> 0 then 0 else hour t), (if is_date t \<noteq> 0 then 0 else minute t),
     (if is_date t \<noteq> 0 then 0 else second t)]"

lemma compare_times_lex: "compare_times a b = lex_cmp (time_key a) (time_key b)"
  by (simp add: compare_times_def time_key_def)

interpretation timecmp: c_compare compare_times
  using c_compare_key [of time_key] by (simp add: compare_times_lex [abs_def])

lemma compare_dates_lex: "compare_dates a b = lex_cmp [year a, month a, day a] [year b, month b, day b]"
  by (simp add: compare_dates_def)

interpretation datecmp: c_compare compare_dates
  using c_compare_key [of "\<lambda>t. [year t, month t, day t]"] by (simp add: compare_dates_lex [abs_def])

lemma compare_times_secs:
  assumes "normal_time a" "normal_time b" "is_date a = 0" "is_date b = 0"
  shows "compare_times a b = sgn (ical_secs a - ical_secs b)"
proof -
  have l: "compare_times a b < 0 \<longleftrightarrow> ical_secs a < ical_secs b"
    if "normal_time a" "normal_time b" "is_date a = 0" "is_date b = 0" for a b
  proof -
    have "compare_times a b < 0 \<longleftrightarrow> time_less a b"
      unfolding compare_times_def time_less_def date_less_def using that(3,4) by auto
    with time_less_secs [OF that(1,2)] show ?thesis by simp
  qed
  have c: "compare_times a b = - 1 \<or> compare_times a b = 0 \<or> compare_times a b = 1"
    unfolding compare_times_lex by (rule lex_cmp_cases)
  have "0 < compare_times a b \<longleftrightarrow> ical_secs b < ical_secs a"
    using l [OF assms(2,1,4,3)] by (simp add: timecmp.cmp_swap)
  with c l [OF assms] show ?thesis by (auto simp: sgn_if)
qed

text \<open>The zone a time says it is in must be the one its seconds are counted in.\<close>

lemma convert_to_zone_utc:
  assumes "is_date t = 0" "zone t = icaltimezone_get_utc_timezone"
  shows "icaltime_convert_to_zone cov t icaltimezone_get_utc_timezone = Some t"
  using assms by (simp add: icaltime_convert_to_zone_def)

lemma convert_to_zone_floating:
  assumes "is_date t = 0" "zone t = None"
  shows "icaltime_convert_to_zone cov t icaltimezone_get_utc_timezone =
    Some (flag_zone t icaltimezone_get_utc_timezone)"
  using assms by (simp add: icaltime_convert_to_zone_def icaltimezone_get_utc_timezone_def)

lemma compare_flag_zone [simp]: "compare_times (flag_zone a z) b = compare_times a b"
  "compare_times a (flag_zone b z) = compare_times a b"
  by (simp_all add: compare_times_def flag_zone_def)

section \<open>Spans\<close>

lemma overlaps_disj: "icaltime_span_overlaps s1 s2 \<longleftrightarrow>
    (span_start s1 > span_start s2 \<and> span_start s1 < span_end s2) \<or>
    (span_end s1 > span_start s2 \<and> span_end s1 < span_end s2) \<or>
    (span_start s2 > span_start s1 \<and> span_start s2 < span_end s1) \<or>
    (span_end s2 > span_start s1 \<and> span_end s2 < span_end s1) \<or>
    (span_start s1 = span_start s2 \<and> span_end s1 = span_end s2)"
  unfolding icaltime_span_overlaps_def by (simp only: if_bool_eq_disj) blast
lemma overlaps_iff:
  assumes "span_start a < span_end a" "span_start b < span_end b"
  shows "icaltime_span_overlaps a b \<longleftrightarrow> span_start a < span_end b \<and> span_start b < span_end a"
  using assms unfolding overlaps_disj by linarith
lemma overlaps_swap: "icaltime_span_overlaps a b = icaltime_span_overlaps b a"
  unfolding overlaps_disj by auto

section \<open>From seconds to a zone and back\<close>

lemma year_growth:
  "(1461 * (y - 1)) div 4 + 365 \<le> (1461 * y) div (4 :: int)" "y div 100 \<le> (y - 1) div (100 :: int) + 1"
  "(y - 1) div 400 \<le> y div (400 :: int)"
proof -
  show "(1461 * (y - 1)) div 4 + 365 \<le> (1461 * y) div 4"
    using year_step [of y] by (cases "4 dvd y") simp_all
  have "y div 100 \<le> (y - 1 + 100) div 100" by (rule zdiv_mono1) simp_all
  then show "y div 100 \<le> (y - 1) div 100 + 1" by (simp only: div_add_self2)
  show "(y - 1) div 400 \<le> y div 400" by (rule zdiv_mono1) simp_all
qed

lemma jdn_of_parts:
  "\<exists>S. (\<forall>im d. jdn_of y im d = S + month_off im + d) \<and>
       (\<forall>im d. jdn_of (y - 1) im d \<le> S - 364 + month_off im + d)"
proof -
  define S where "S = (1461 * y) div 4 - y div 100 + y div 400 + 1720997"
  define S' where "S' = (1461 * (y - 1)) div 4 - (y - 1) div 100 + (y - 1) div 400 + 1720997"
  have 1: "jdn_of y im d = S + month_off im + d" for im d
    unfolding jdn_of_def month_off_def S_def by (simp only: algebra_simps)
  have 2: "jdn_of (y - 1) im d = S' + month_off im + d" for im d
    unfolding jdn_of_def month_off_def S'_def by (simp only: algebra_simps)
  have "S' \<le> S - 364"
    unfolding S_def S'_def using add_mono [OF add_mono [OF year_growth(1,2)] year_growth(3)]
    by (simp only: algebra_simps) simp
  with 1 2 show ?thesis by (intro exI [of _ S]) simp
qed

lemma jdn_year_end: "1 \<le> m \<Longrightarrow> m \<le> 12 \<Longrightarrow> d \<le> 31 \<Longrightarrow> jdn y m d \<le> jdn y 12 31"
proof -
  assume m: "1 \<le> m" "m \<le> 12" and d: "d \<le> 31"
  obtain S where S: "\<forall>im d. jdn_of y im d = S + month_off im + d"
    "\<forall>im d. jdn_of (y - 1) im d \<le> S - 364 + month_off im + d" using jdn_of_parts [of y] by blast
  show ?thesis
  proof (cases "m \<le> 2")
    case True
    then have "m = 1 \<or> m = 2" using m by auto
    then have "month_off (m + 12) \<le> 459" by (auto simp: month_off_table)
    then show ?thesis using True S(1) [rule_format, of 12 31] S(2) [rule_format, of "m + 12" d] d by (simp add: jdn_def month_off_table)
  next
    case False
    have "month_off m \<le> month_off 12" unfolding month_off_def using m by (intro zdiv_mono1) auto
    then show ?thesis using False S(1) d by (simp add: jdn_def)
  qed
qed

lemma jdn_year_mono: "y \<le> z \<Longrightarrow> jdn y 12 31 \<le> jdn z 12 31"
proof (induction z rule: int_ge_induct)
  case (step z)
  obtain S where S: "\<forall>im d. jdn_of (z + 1) im d = S + month_off im + d"
    "\<forall>im d. jdn_of (z + 1 - 1) im d \<le> S - 364 + month_off im + d" using jdn_of_parts [of "z + 1"] by blast
  from S(1) [rule_format, of 12 31] S(2) [rule_format, of 12 31] have "jdn z 12 31 \<le> jdn (z + 1) 12 31"
    by (simp add: jdn_def)
  with step show ?case by simp
qed simp

lemma time_of_gmtime:
  fixes s :: int and z :: "zone_ref option"
  assumes t: "- 6000000000 \<le> s"
  defines "tt \<equiv> time_of_tm (gmtime s) z"
  shows "normal_time tt" "ical_secs tt = s + 86400 * epoch_days" "1752 \<le> year tt" "is_date tt = 0"
proof -
  obtain y m d where c: "civil_of_days (s div 86400) = (y, m, d)" by (rule prod_cases3)
  note ok = civil_of_days_ok [OF c]
  have sel: "year tt = y" "month tt = m" "day tt = d" "is_date tt = 0" "hour tt = s mod 86400 div 3600"
    "minute tt = s mod 86400 mod 3600 div 60" "second tt = s mod 86400 mod 60"
    by (simp_all add: tt_def time_of_tm_def gmtime_def c Let_def mod_mod_cancel)
  show y: "1752 \<le> year tt"
  proof (rule ccontr)
    assume a: "\<not> 1752 \<le> year tt"
    then have "y \<le> 1751" using sel(1) by simp
    moreover have "d \<le> 31" using ok(5) by (simp add: greg_month_len_def split: if_splits)
    ultimately have "jdn y m d \<le> jdn 1751 12 31"
      using jdn_year_end [OF ok(2,3)] jdn_year_mono order_trans by blast
    moreover have "jdn 1751 12 31 = 2360964" by (simp add: jdn_def jdn_of_def)
    moreover have "- 69445 \<le> s div 86400" using zdiv_mono1 [OF t, of 86400] by simp
    ultimately show False using ok(1) by simp
  qed
  show "is_date tt = 0" by (rule sel)
  have nd: "normal_date tt" using ok y dim_greg [of y m] by (simp add: normal_date_def sel)
  have r: "0 \<le> hour tt" "hour tt < 24" "0 \<le> minute tt" "minute tt < 60" "0 \<le> second tt" "second tt < 60"
    unfolding sel
    using zdiv_mono1 [of "s mod 86400" 86399 3600] zdiv_mono1 [of "s mod 86400 mod 3600" 3599 60]
    by (simp_all add: pos_imp_zdiv_nonneg_iff)
  with nd show "normal_time tt" by (simp add: normal_time_def)
  have "gmtime s = \<lparr>tm_sec = second tt, tm_min = minute tt, tm_hour = hour tt, tm_mday = day tt,
      tm_mon = month tt - 1, tm_year = year tt - 1900\<rparr>"
    by (simp add: tt_def time_of_tm_def)
  then have "mktime_utc (gmtime s) = ical_secs tt - 86400 * epoch_days"
    using mktime_ical [OF y] ok(2,3) sel(2) by simp
  then show "ical_secs tt = s + 86400 * epoch_days" by (simp add: mktime_gmtime)
qed


text \<open>
  Seconds are turned into a local time of a zone with a regular table and back into the
  same seconds; the environment is left as it was.
\<close>

lemma as_timet_from_timet:
  assumes ok: "table_ok cs" and reg: "regular (elements cs)" and cov: "\<And>y. cov z y = Some cs"
    and z: "z \<noteq> utc_timezone" and s: "- 6000000000 \<le> s"
    and some: "last_change (elements cs) (s + 86400 * epoch_days) \<noteq> None"
    and off: "- 86400 \<le> utc_offset (the (last_change (elements cs) (s + 86400 * epoch_days)))"
  shows "\<exists>l. icaltime_from_timet_with_zone cov s 0 (Some z) = Some l \<and> is_date l = 0 \<and>
    icaltime_as_timet_with_zone cov mk l (Some z) env = Some (s, env\<lparr>saved_tz := env_TZ env\<rparr>)"
proof -
  define t where "t = time_of_tm (gmtime s) (Some z)"
  note tg = time_of_gmtime [OF s, of "Some z", folded t_def]
  from convert_time_back [of cs cov z t] ok reg cov z tg(1,4) some tg(2)
  obtain l where l: "icaltimezone_convert_time cov t (Some utc_timezone) (Some z) = Some l"
    "icaltimezone_convert_time cov l (Some z) (Some utc_timezone) = Some (t\<lparr>is_daylight := 0\<rparr>)"
    "ical_secs l = ical_secs t + utc_offset (the (last_change (elements cs) (ical_secs t)))" by auto
  have "is_date t = 0" by (rule tg(4))
  then have dl: "is_date l = 0"
    using l(1) by (auto simp: icaltimezone_convert_time_def Let_def split: if_splits option.splits prod.splits)
  then have ld: "l\<lparr>is_date := 0\<rparr> = l" by simp
  have from_s: "icaltime_from_timet_with_zone cov s 0 (Some z) = Some l"
    using l(1) ld by (simp add: icaltime_from_timet_with_zone_def t_def icaltimezone_get_utc_timezone_def)
  have nl: "normal_time l"
    using l(1) \<open>is_date t = 0\<close> adjust_time(2)
    by (auto simp: icaltimezone_convert_time_def icaltime_is_date_def Let_def z [symmetric]
        split: if_splits option.splits prod.splits)
  have "86400 \<le> ical_secs l"
    using l(3) tg(2) off s by (simp add: epoch_days_def)
  then have nn: "\<not> icaltime_is_null_time l" using not_null_time [OF positive_year [OF nl] nl] by blast
  have m: "1 \<le> month t" "month t \<le> 12" using tg(1) by (simp_all add: normal_time_def normal_date_def)
  have "mktime_utc \<lparr>tm_sec = second t, tm_min = minute t, tm_hour = hour t, tm_mday = day t,
      tm_mon = month t - 1, tm_year = year t - 1900\<rparr> = s"
    using mktime_ical [OF tg(3) m] tg(2) by simp
  then have "icaltime_as_timet_with_zone cov mk l (Some z) env = Some (s, env\<lparr>saved_tz := env_TZ env\<rparr>)"
    using nn l(2) ld
    by (simp add: icaltime_as_timet_with_zone_def icaltimezone_get_utc_timezone_def set_tz_def unset_tz_def mktime_def)
  with from_s dl show ?thesis by blast
qed

end
