(* ===== verification/TimeProperties.thy ===== *)
theory TimeProperties
  imports TimeLaws
begin

text \<open>
  The properties of the calendar, of time zones and of times, each with an instance on
  concrete data: a zone with one summer, whose table \<open>summer_table\<close> has a change forward on
  25 March 2007 at 01:00 UTC and one back on 28 October 2007 at 01:00 UTC.
\<close>

section \<open>Concrete data\<close>

definition summer_begin :: icaltimezonechange where
  "summer_begin = \<lparr>utc_offset = 7200, prev_utc_offset = 3600, c_year = 2007, c_month = 3, c_day = 25,
     c_hour = 1, c_minute = 0, c_second = 0, c_is_daylight = 1\<rparr>"

definition summer_end :: icaltimezonechange where
  "summer_end = \<lparr>utc_offset = 3600, prev_utc_offset = 7200, c_year = 2007, c_month = 10, c_day = 28,
     c_hour = 1, c_minute = 0, c_second = 0, c_is_daylight = 0\<rparr>"

definition summer_table :: changes where
  "summer_table = \<lparr>element_size = 36, increment_size = 32, num_elements = 2, space_allocated = 3,
     array_data = [Some summer_begin, Some summer_end, None]\<rparr>"

definition plain_time :: "int \<Rightarrow> int \<Rightarrow> int \<Rightarrow> int \<Rightarrow> int \<Rightarrow> int \<Rightarrow> icaltimetype" where
  "plain_time y m d h mi s = icaltime_null_time\<lparr>year := y, month := m, day := d, hour := h, minute := mi, second := s\<rparr>"

lemma plain_time_sel [simp]:
  "year (plain_time y m d h mi s) = y" "month (plain_time y m d h mi s) = m" "day (plain_time y m d h mi s) = d"
  "hour (plain_time y m d h mi s) = h" "minute (plain_time y m d h mi s) = mi" "second (plain_time y m d h mi s) = s"
  "is_date (plain_time y m d h mi s) = 0" "is_utc (plain_time y m d h mi s) = 0"
  "zone (plain_time y m d h mi s) = None" "is_daylight (plain_time y m d h mi s) = 0"
  by (simp_all add: plain_time_def icaltime_null_time_def)

lemmas day_count_simps = ical_days_def year_start_def leaps_upto_def month_start_def days_in_year_passed_month_def
  icaltime_is_leap_year_def c_mod_def c_div_def ical_secs_def

lemma summer_elements: "elements summer_table = [summer_begin, summer_end]"
  by (simp add: elements_def summer_table_def)

lemma summer_ok: "table_ok summer_table"
  by (simp add: table_ok_def summer_elements array_ok_def)
    (simp add: summer_table_def summer_begin_def summer_end_def normal_time_def normal_date_def
      icaltime_days_in_month_def days_in_month_table_def)

lemma summer_secs: "change_secs summer_begin = 63311590800" "change_secs summer_end = 63330339600"
  by (simp_all add: summer_begin_def summer_end_def day_count_simps)

lemma summer_regular: "regular (elements summer_table)"
proof -
  have "jump_end summer_begin \<le> jump_start summer_end"
    unfolding jump_end_def jump_start_def summer_secs by (simp add: summer_begin_def summer_end_def)
  moreover have "i + 1 < length [summer_begin, summer_end] \<Longrightarrow> i = 0" for i by simp
  moreover have "c_is_daylight summer_begin = 1" "c_is_daylight summer_end = 0"
    "prev_utc_offset summer_end = utc_offset summer_begin" by (simp_all add: summer_begin_def summer_end_def)
  ultimately show ?thesis
    unfolding regular_def summer_elements well_spaced_def by force
qed

text \<open>The first of November 2007 at noon.\<close>

lemma november_secs: "ical_secs (plain_time 2007 11 1 12 0 0) = 63330724800"
  by (simp add: day_count_simps)

lemma november_normal: "normal_time (plain_time 2007 11 1 12 0 0)"
  by (simp add: normal_time_def normal_date_def icaltime_days_in_month_def days_in_month_table_def)

lemma november_change: "last_change (elements summer_table) 63330724800 = Some summer_end"
  by (simp add: last_change_def summer_elements summer_secs)

section \<open>The calendar\<close>

text \<open>C14: \<open>caldat\<close> undoes \<open>juldat\<close>: a date of the Gregorian calendar goes to its Julian date and comes
  back, with the weekday of its day number.\<close>

theorem caldat_of_juldat:
  assumes "1583 \<le> y" "1 \<le> m" "m \<le> 12" "1 \<le> d" "d \<le> greg_month_len m y"
  shows "let r = snd (caldat (snd (juldat (ut_date y m d))))
    in ut_year r = y \<and> ut_month r = m \<and> ut_day r = d \<and> weekday r = (jdn y m d + 1) mod 7"
  using caldat_juldat [OF assms] by (simp add: Let_def)

theorem caldat_of_juldat_witness:
  "let r = snd (caldat (snd (juldat (ut_date 2004 2 29))))
    in ut_year r = 2004 \<and> ut_month r = 2 \<and> ut_day r = 29 \<and> weekday r = (jdn 2004 2 29 + 1) mod 7"
  by (rule caldat_of_juldat) (simp_all add: greg_month_len_def greg_leap_def)

text \<open>C8: \<open>icaltime_adjust\<close> of a date-time moves it by exactly the seconds asked for, in the calendar
  of the library, whatever the fields were before, and its result is a normal time: month 1 to
  12, a day of that month, hour, minute and second in range.\<close>

theorem adjust_moves:
  assumes "is_date t = 0"
  shows "ical_secs (icaltime_adjust t d h mi s) = ical_secs t + 86400 * d + 3600 * h + 60 * mi + s \<and>
    normal_time (icaltime_adjust t d h mi s)"
  using adjust_time [OF assms] by blast

theorem adjust_moves_witness:
  "ical_secs (icaltime_adjust (plain_time 2007 14 (- 3) 30 0 (- 1)) 40 (- 5) 0 7) =
     ical_secs (plain_time 2007 14 (- 3) 30 0 (- 1)) + 86400 * 40 + 3600 * (- 5) + 60 * 0 + 7 \<and>
   normal_time (icaltime_adjust (plain_time 2007 14 (- 3) 30 0 (- 1)) 40 (- 5) 0 7)"
  by (rule adjust_moves) simp

text \<open>C17: Two adjustments of a date-time in a row are one adjustment by the sums, and normalising a
  normal time changes nothing.\<close>

theorem adjust_adds_up:
  assumes "is_date t = 0" "normal_time t"
  shows "icaltime_adjust (icaltime_adjust t d h mi s) d' h' mi' s' =
           icaltime_adjust t (d + d') (h + h') (mi + mi') (s + s') \<and> icaltime_normalize t = t"
  using adjust_adjust [OF assms(1)] normalize_id [OF assms] by blast

theorem adjust_adds_up_witness:
  "icaltime_adjust (icaltime_adjust (plain_time 2007 11 1 12 0 0) 30 0 0 0) (- 30) 0 0 0 =
     icaltime_adjust (plain_time 2007 11 1 12 0 0) (30 + - 30) (0 + 0) (0 + 0) (0 + 0) \<and>
   icaltime_normalize (plain_time 2007 11 1 12 0 0) = plain_time 2007 11 1 12 0 0"
  by (rule adjust_adds_up [OF _ november_normal]) simp

text \<open>C15: The day of the year and the date of a day of the year are inverse to each other.\<close>

theorem day_of_year_inverse:
  assumes "normal_date t" "icaltime_day_of_year t = Some n" "1 \<le> k" "k \<le> ycaltime_days_in_year y"
  shows "year (icaltime_from_day_of_year n (year t)) = year t \<and>
    month (icaltime_from_day_of_year n (year t)) = month t \<and>
    day (icaltime_from_day_of_year n (year t)) = day t \<and>
    icaltime_day_of_year (icaltime_from_day_of_year k y) = Some k"
  using day_of_year_roundtrip [OF assms(1,2)] from_day_of_year_in(3) [OF assms(3,4)] by simp

theorem day_of_year_inverse_witness:
  "year (icaltime_from_day_of_year 60 2004) = 2004 \<and> month (icaltime_from_day_of_year 60 2004) = 2 \<and>
   day (icaltime_from_day_of_year 60 2004) = 29 \<and>
   icaltime_day_of_year (icaltime_from_day_of_year 366 2004) = Some 366"
  using day_of_year_inverse [of "plain_time 2004 2 29 0 0 0" 60 366 2004]
  by (simp add: normal_date_def icaltime_days_in_month_def days_in_month_table_def icaltime_day_of_year_def
      passed_month_def days_in_year_passed_month_def icaltime_is_leap_year_def ycaltime_days_in_year_def
      c_mod_def c_div_def)

text \<open>From 1752 on the weekday goes round with the days: \<open>n\<close> days later (or earlier) the weekday
  is \<open>n\<close> days later modulo seven. The weekday goes through the Julian date of \<open>caldate.c\<close>, the
  adjustment through the month lengths of \<open>icaltime.c\<close>.\<close>

theorem weekday_advances:
  assumes "normal_date t" "1752 \<le> year t" "1752 \<le> year (icaltime_adjust t n 0 0 0)" "is_date t \<noteq> 0"
  shows "icaltime_day_of_week (icaltime_adjust t n 0 0 0) = (icaltime_day_of_week t - 1 + n) mod 7 + 1"
proof -
  let ?r = "icaltime_adjust t n 0 0 0"
  note a = adjust_date [OF assms(4), of n 0 0 0]
  have r: "1 \<le> month ?r" "month ?r \<le> 12" "1 \<le> day ?r" "1 \<le> month t" "month t \<le> 12" "1 \<le> day t"
    using a(2) assms(1) by (simp_all add: normal_date_def)
  show ?thesis
    using day_of_week_days [OF assms(3) r(1-3)] day_of_week_days [OF assms(2) r(4-6)] a(1)
    by (simp add: mod_simps algebra_simps)
qed

theorem weekday_advances_witness:
  "icaltime_day_of_week (icaltime_adjust (icaltime_null_date\<lparr>year := 2007, month := 12, day := 30\<rparr>) 3 0 0 0) =
     (icaltime_day_of_week (icaltime_null_date\<lparr>year := 2007, month := 12, day := 30\<rparr>) - 1 + 3) mod 7 + 1"
proof (rule weekday_advances)
  show "1752 \<le> year (icaltime_adjust (icaltime_null_date\<lparr>year := 2007, month := 12, day := 30\<rparr>) 3 0 0 0)"
    by (simp add: icaltime_adjust_def icaltime_null_date_def icaltime_null_time_def normalize_month_def
        move_days_def days_forward.simps icaltime_days_in_month_def days_in_month_table_def)
qed (simp_all add: normal_date_def icaltime_null_date_def icaltime_null_time_def icaltime_days_in_month_def
    days_in_month_table_def)

section \<open>Time zones\<close>

text \<open>C9: In a sorted table of changes the offset of a UTC time is that of the last change at or before
  it, and zero if there is none, wherever the binary search lands.\<close>

theorem utc_offset_is_last_change:
  assumes "table_ok cs" "cmp_sorted icaltimezone_compare_change_fn (elements cs)" "normal_time t"
    and "cov z (year t) = Some cs" "z \<noteq> utc_timezone"
  shows "icaltimezone_get_utc_offset_of_utc_time cov (Some z) t =
    Some (change_offset (last_change (elements cs) (ical_secs t)))"
  using offset_of_utc_last [of cs t] assms
  by (simp add: icaltimezone_get_utc_offset_of_utc_time_def utc_good_def table_ok_def)

theorem utc_offset_is_last_change_witness:
  "icaltimezone_get_utc_offset_of_utc_time (\<lambda>z y. Some summer_table) (Some 1) (plain_time 2007 11 1 12 0 0) =
     Some (change_offset (last_change (elements summer_table) (ical_secs (plain_time 2007 11 1 12 0 0))))"
  by (rule utc_offset_is_last_change)
    (simp_all add: summer_ok regular_sorted summer_regular november_normal utc_timezone_def)

text \<open>C7: The conversion of a UTC time to a zone with a regular table and back to UTC gives the same
  time, also for a local time that occurs twice when clocks go back.\<close>

theorem zone_conversion_inverse:
  assumes "table_ok cs" "regular (elements cs)" "\<And>y. cov z y = Some cs" "z \<noteq> utc_timezone"
    "normal_time t" "is_date t = 0" "last_change (elements cs) (ical_secs t) \<noteq> None"
  shows "\<exists>l. icaltimezone_convert_time cov t (Some utc_timezone) (Some z) = Some l \<and>
    ical_secs l = ical_secs t + utc_offset (the (last_change (elements cs) (ical_secs t))) \<and>
    icaltimezone_convert_time cov l (Some z) (Some utc_timezone) = Some (t\<lparr>is_daylight := 0\<rparr>)"
  by (rule convert_time_back) (fact assms)+

theorem zone_conversion_inverse_witness:
  "\<exists>l. icaltimezone_convert_time (\<lambda>z y. Some summer_table) (plain_time 2007 11 1 12 0 0) (Some utc_timezone) (Some 1) = Some l \<and>
    ical_secs l = ical_secs (plain_time 2007 11 1 12 0 0) +
      utc_offset (the (last_change (elements summer_table) (ical_secs (plain_time 2007 11 1 12 0 0)))) \<and>
    icaltimezone_convert_time (\<lambda>z y. Some summer_table) l (Some 1) (Some utc_timezone) =
      Some ((plain_time 2007 11 1 12 0 0)\<lparr>is_daylight := 0\<rparr>)"
  by (rule zone_conversion_inverse [of summer_table])
    (simp_all add: summer_ok summer_regular november_normal november_secs november_change utc_timezone_def)

section \<open>Seconds\<close>

text \<open>C10: \<open>icaltime_as_timet_with_zone\<close> gives back the seconds that
  \<open>icaltime_from_timet_with_zone\<close> made a local time of, and restores the environment's \<open>TZ\<close>.\<close>

theorem timet_zone_inverse:
  assumes "table_ok cs" "regular (elements cs)" "\<And>y. cov z y = Some cs" "z \<noteq> utc_timezone"
    "- 6000000000 \<le> s" "last_change (elements cs) (s + 86400 * epoch_days) \<noteq> None"
    "- 86400 \<le> utc_offset (the (last_change (elements cs) (s + 86400 * epoch_days)))"
  shows "\<exists>l. icaltime_from_timet_with_zone cov s 0 (Some z) = Some l \<and> is_date l = 0 \<and>
    icaltime_as_timet_with_zone cov mk l (Some z) env = Some (s, env\<lparr>saved_tz := env_TZ env\<rparr>)"
  by (rule as_timet_from_timet) (fact assms)+

theorem timet_zone_inverse_witness:
  "\<exists>l. icaltime_from_timet_with_zone (\<lambda>z y. Some summer_table) 1193918400 0 (Some 1) = Some l \<and> is_date l = 0 \<and>
    icaltime_as_timet_with_zone (\<lambda>z y. Some summer_table) (\<lambda>tz tm. 0) l (Some 1)
      \<lparr>env_TZ = Some ''CET'', saved_tz = None\<rparr> =
      Some (1193918400, \<lparr>env_TZ = Some ''CET'', saved_tz = None\<rparr>\<lparr>saved_tz := env_TZ \<lparr>env_TZ = Some ''CET'', saved_tz = None\<rparr>\<rparr>)"
  by (rule timet_zone_inverse [of summer_table])
    (simp_all add: summer_ok summer_regular utc_timezone_def epoch_days_def november_change,
      simp add: summer_end_def)

text \<open>C16: Between 1970 and 17 January 2038 \<open>icaltime_as_timet\<close> of a normal date-time is its distance
  in seconds from 1 January 1970; outside those years it is -1.\<close>

theorem as_timet_distance:
  assumes "normal_time t" "is_date t = 0" "1 \<le> year t"
  shows "icaltime_as_timet t =
    (if 1970 \<le> year t \<and> (year t < 2038 \<or> year t = 2038 \<and> month t = 1 \<and> day t \<le> 17)
     then ical_secs t - ical_secs (plain_time 1970 1 1 0 0 0) else - 1)"
proof -
  have m: "1 \<le> month t" "month t \<le> 12" using assms(1) by (simp_all add: normal_time_def normal_date_def)
  have e: "ical_secs (plain_time 1970 1 1 0 0 0) = 86400 * epoch_days"
    by (simp add: day_count_simps epoch_days_def)
  have nn: "\<not> icaltime_is_null_time t" by (rule not_null_time [OF assms(3,1)])
  show ?thesis
    using make_time_secs [OF m] nn assms(2) m unfolding e
    by (auto simp: icaltime_as_timet_def icaltime_is_date_def make_time_def)
qed

theorem as_timet_distance_witness:
  "icaltime_as_timet (plain_time 2007 11 1 12 0 0) =
    (if 1970 \<le> year (plain_time 2007 11 1 12 0 0) \<and> (year (plain_time 2007 11 1 12 0 0) < 2038 \<or>
        year (plain_time 2007 11 1 12 0 0) = 2038 \<and> month (plain_time 2007 11 1 12 0 0) = 1 \<and>
        day (plain_time 2007 11 1 12 0 0) \<le> 17)
     then ical_secs (plain_time 2007 11 1 12 0 0) - ical_secs (plain_time 1970 1 1 0 0 0) else - 1)"
  by (rule as_timet_distance [OF november_normal]) simp_all

section \<open>Text\<close>

text \<open>C13: Reading the iCalendar text of a time gives the time again, for dates, floating and UTC times,
  without an error; the sixteen characters that are kept of the text are enough.\<close>

theorem time_text_inverse:
  assumes "printable_time t"
  shows "icaltime_from_string (icaltime_as_ical_string_r t) es = Some (t, es)"
  by (simp only: as_ical_string_text [OF assms] from_string_text [OF assms])

theorem time_text_inverse_witness:
  "icaltime_from_string (icaltime_as_ical_string_r (plain_time 2007 11 1 12 0 0))
     \<lparr>icalerrno = ICAL_NO_ERROR, icalerror_errors_are_fatal = 0, error_state_map = []\<rparr> =
   Some (plain_time 2007 11 1 12 0 0,
     \<lparr>icalerrno = ICAL_NO_ERROR, icalerror_errors_are_fatal = 0, error_state_map = []\<rparr>)"
  by (rule time_text_inverse) (simp add: printable_time_def printable_date_def)

section \<open>Order\<close>

text \<open>C18: For UTC times \<open>icaltime_compare\<close> is the sign of the difference of the instants.\<close>

theorem compare_is_order:
  assumes "normal_time a" "normal_time b" "is_date a = 0" "is_date b = 0"
    "zone a = icaltimezone_get_utc_timezone" "zone b = icaltimezone_get_utc_timezone"
  shows "icaltime_compare cov a b = Some (sgn (ical_secs a - ical_secs b))"
  using compare_times_secs [OF assms(1-4)] assms(3-6)
  by (simp add: icaltime_compare_def convert_to_zone_utc)

theorem compare_is_order_witness:
  "icaltime_compare (\<lambda>z y. None) (plain_time 2007 11 1 12 0 0\<lparr>zone := Some 0\<rparr>) (plain_time 2007 11 1 12 0 0\<lparr>zone := Some 0\<rparr>) =
     Some (sgn (ical_secs (plain_time 2007 11 1 12 0 0\<lparr>zone := Some 0\<rparr>) - ical_secs (plain_time 2007 11 1 12 0 0\<lparr>zone := Some 0\<rparr>)))"
  by (rule compare_is_order)
    (simp_all add: normal_time_def normal_date_def icaltime_days_in_month_def days_in_month_table_def
      icaltimezone_get_utc_timezone_def utc_timezone_def)

text \<open>C19: Two spans of positive length overlap exactly if each begins before the other ends; adjacent
  spans do not, and the test is symmetric.\<close>

theorem overlaps_intervals:
  assumes "span_start a < span_end a" "span_start b < span_end b"
  shows "(icaltime_span_overlaps a b \<longleftrightarrow> span_start a < span_end b \<and> span_start b < span_end a) \<and>
    icaltime_span_overlaps a b = icaltime_span_overlaps b a"
  using overlaps_iff [OF assms] overlaps_swap by blast

theorem overlaps_intervals_witness:
  "(icaltime_span_overlaps \<lparr>span_start = 0, span_end = 10, span_is_busy = 1\<rparr> \<lparr>span_start = 10, span_end = 20, span_is_busy = 1\<rparr>
     \<longleftrightarrow> span_start \<lparr>span_start = 0, span_end = 10, span_is_busy = 1\<rparr> < span_end \<lparr>span_start = 10, span_end = 20, span_is_busy = 1\<rparr> \<and>
         span_start \<lparr>span_start = 10, span_end = 20, span_is_busy = 1\<rparr> < span_end \<lparr>span_start = 0, span_end = 10, span_is_busy = 1\<rparr>) \<and>
   icaltime_span_overlaps \<lparr>span_start = 0, span_end = 10, span_is_busy = 1\<rparr> \<lparr>span_start = 10, span_end = 20, span_is_busy = 1\<rparr> =
     icaltime_span_overlaps \<lparr>span_start = 10, span_end = 20, span_is_busy = 1\<rparr> \<lparr>span_start = 0, span_end = 10, span_is_busy = 1\<rparr>"
  by (rule overlaps_intervals) simp_all

end
