(* ===== verification/IcalDuration.thy ===== *)
theory IcalDuration
  imports TimeLaws IcalMemory "HOL-Library.Word"
begin

text \<open>
  Durations, \<^verbatim>\<open>icalduration.c\<close>. The sign is an \<open>int\<close>; the five amounts are \<open>unsigned int\<close>,
  32 bit words, and the seconds of a duration are computed modulo \<open>2 ^ 32\<close>.
\<close>

section \<open>The structure\<close>

record icaldurationtype =
  is_neg :: int
  days :: "32 word"
  weeks :: "32 word"
  hours :: "32 word"
  minutes :: "32 word"
  seconds :: "32 word"

definition icaldurationtype_null_duration :: icaldurationtype where
  "icaldurationtype_null_duration =
     \<lparr>is_neg = 0, days = 0, weeks = 0, hours = 0, minutes = 0, seconds = 0\<rparr>"

definition icaldurationtype_bad_duration :: icaldurationtype where
  "icaldurationtype_bad_duration = icaldurationtype_null_duration\<lparr>is_neg := - 1\<rparr>"

definition icaldurationtype_is_bad_duration :: "icaldurationtype \<Rightarrow> bool" where
  "icaldurationtype_is_bad_duration d \<longleftrightarrow> is_neg d = - 1"

text \<open>The sum and the product with the sign are unsigned; the result is read as signed.\<close>

definition icaldurationtype_as_int :: "icaldurationtype \<Rightarrow> int" where
  "icaldurationtype_as_int dur =
     sint ((seconds dur + 60 * minutes dur + 60 * 60 * hours dur + 60 * 60 * 24 * days dur
            + 60 * 60 * 24 * 7 * weeks dur) * (if is_neg dur = 1 then - 1 else 1))"

definition icaldurationtype_is_null_duration :: "icaldurationtype \<Rightarrow> bool" where
  "icaldurationtype_is_null_duration d \<longleftrightarrow> icaldurationtype_as_int d = 0"

section \<open>From seconds\<close>

definition icaldurationtype_from_int :: "int \<Rightarrow> icaldurationtype" where
  "icaldurationtype_from_int t0 =
     (let dur0 = icaldurationtype_null_duration;
          (dur1, t) = (if t0 < 0 then (dur0\<lparr>is_neg := 1\<rparr>, - t0) else (dur0, t0))
      in if c_mod t (60 * 60 * 24 * 7) = 0
         then dur1\<lparr>weeks := word_of_int (c_div t (60 * 60 * 24 * 7))\<rparr>
         else
           let used0 = 0;
               d = c_div (t - used0) (60 * 60 * 24); used1 = used0 + d * (60 * 60 * 24);
               h = c_div (t - used1) (60 * 60); used2 = used1 + h * (60 * 60);
               m = c_div (t - used2) 60; used3 = used2 + m * 60
           in dur1\<lparr>days := word_of_int d, hours := word_of_int h, minutes := word_of_int m,
                   seconds := word_of_int (t - used3)\<rparr>)"

section \<open>From text\<close>

record dur_scan =
  begin_flag :: bool
  time_flag :: bool
  date_flag :: bool
  week_flag :: bool
  digits :: int
  dur :: icaldurationtype

definition dur_scan_init :: dur_scan where
  "dur_scan_init = \<lparr>begin_flag = False, time_flag = False, date_flag = False, week_flag = False,
     digits = - 1, dur = icaldurationtype_null_duration\<rparr>"

text \<open>
  One character of the text at index \<open>i\<close>; \<open>rest\<close> is the text from it on, out of which all
  digits are read at once. \<open>None\<close> is the jump to \<^verbatim>\<open>error\<close>.
\<close>

definition dur_char :: "nat \<Rightarrow> char \<Rightarrow> string \<Rightarrow> dur_scan \<Rightarrow> dur_scan option" where
  "dur_char i p rest s =
     (if p = CHR ''-'' then
        (if i \<noteq> 0 \<or> begin_flag s then None else Some (s\<lparr>dur := (dur s)\<lparr>is_neg := 1\<rparr>\<rparr>))
      else if p = CHR ''P'' then
        (if i \<noteq> 0 \<and> i \<noteq> 1 then None else Some (s\<lparr>begin_flag := True\<rparr>))
      else if p = CHR ''T'' then Some (s\<lparr>time_flag := True\<rparr>)
      else if is_digit p then
        (if digits s \<noteq> - 1 then Some s
         else if \<not> begin_flag s then None
         else case scan_d rest of None \<Rightarrow> None | Some (v, _) \<Rightarrow> Some (s\<lparr>digits := v\<rparr>))
      else if p = CHR ''H'' then
        (if \<not> time_flag s \<or> week_flag s \<or> hours (dur s) \<noteq> 0 \<or> digits s = - 1 then None
         else Some (s\<lparr>dur := (dur s)\<lparr>hours := word_of_int (digits s)\<rparr>, digits := - 1\<rparr>))
      else if p = CHR ''M'' then
        (if \<not> time_flag s \<or> week_flag s \<or> minutes (dur s) \<noteq> 0 \<or> digits s = - 1 then None
         else Some (s\<lparr>dur := (dur s)\<lparr>minutes := word_of_int (digits s)\<rparr>, digits := - 1\<rparr>))
      else if p = CHR ''S'' then
        (if \<not> time_flag s \<or> week_flag s \<or> seconds (dur s) \<noteq> 0 \<or> digits s = - 1 then None
         else Some (s\<lparr>dur := (dur s)\<lparr>seconds := word_of_int (digits s)\<rparr>, digits := - 1\<rparr>))
      else if p = CHR ''W'' then
        (if time_flag s \<or> date_flag s \<or> weeks (dur s) \<noteq> 0 \<or> digits s = - 1 then None
         else Some (s\<lparr>week_flag := True, dur := (dur s)\<lparr>weeks := word_of_int (digits s)\<rparr>, digits := - 1\<rparr>))
      else if p = CHR ''D'' then
        (if time_flag s \<or> week_flag s \<or> days (dur s) \<noteq> 0 \<or> digits s = - 1 then None
         else Some (s\<lparr>date_flag := True, dur := (dur s)\<lparr>days := word_of_int (digits s)\<rparr>, digits := - 1\<rparr>))
      else None)"

fun dur_loop :: "nat \<Rightarrow> string \<Rightarrow> dur_scan \<Rightarrow> dur_scan option" where
  "dur_loop i [] s = Some s"
| "dur_loop i (p # r) s =
     (case dur_char i p (p # r) s of None \<Rightarrow> None | Some s1 \<Rightarrow> dur_loop (Suc i) r s1)"

definition icaldurationtype_from_string ::
    "string \<Rightarrow> icalerror_state \<Rightarrow> (icaldurationtype \<times> icalerror_state) option" where
  "icaldurationtype_from_string str es =
     (case dur_loop 0 str dur_scan_init of
        Some s \<Rightarrow> Some (dur s, es)
      | None \<Rightarrow> map_option (\<lambda>es1. (icaldurationtype_bad_duration, es1))
                  (icalerror_set_errno ICAL_MALFORMEDDATA_ERROR es))"

section \<open>To text\<close>

text \<open>The amount is printed with \<open>%d\<close>, as a signed number.\<close>

definition append_duration_segment :: "string \<Rightarrow> 32 word \<Rightarrow> sbuf \<Rightarrow> sbuf option" where
  "append_duration_segment sep v b =
     Option.bind (icalmemory_append_string b (fmt_d (sint v))) (\<lambda>b1. icalmemory_append_string b1 sep)"

definition append_if_set :: "string \<Rightarrow> 32 word \<Rightarrow> sbuf \<Rightarrow> sbuf option" where
  "append_if_set sep v = (if v \<noteq> 0 then append_duration_segment sep v else Some)"

definition icaldurationtype_as_ical_string_r :: "icaldurationtype \<Rightarrow> sbuf option" where
  "icaldurationtype_as_ical_string_r d =
     (let b0 = icalmemory_new_buffer 256
      in if icaldurationtype_as_int d \<noteq> 0 then do {
           b1 \<leftarrow> (if is_neg d = 1 then icalmemory_append_char b0 (CHR ''-'') else Some b0);
           b2 \<leftarrow> icalmemory_append_char b1 (CHR ''P'');
           b3 \<leftarrow> append_if_set ''W'' (weeks d) b2;
           b4 \<leftarrow> append_if_set ''D'' (days d) b3;
           if hours d \<noteq> 0 \<or> minutes d \<noteq> 0 \<or> seconds d \<noteq> 0 then do {
             b5 \<leftarrow> icalmemory_append_string b4 ''T'';
             b6 \<leftarrow> append_if_set ''H'' (hours d) b5;
             b7 \<leftarrow> append_if_set ''M'' (minutes d) b6;
             append_if_set ''S'' (seconds d) b7 }
           else Some b4 }
         else icalmemory_append_string b0 ''PT0S'')"

section \<open>Times and durations\<close>

definition icaltime_add :: "icaltimetype \<Rightarrow> icaldurationtype \<Rightarrow> icaltimetype" where
  "icaltime_add t d =
     (let t1 =
        (if is_neg d = 0 then
           t\<lparr>second := to_int32 (second t + uint (seconds d)),
             minute := to_int32 (minute t + uint (minutes d)),
             hour := to_int32 (hour t + uint (hours d)),
             day := to_int32 (to_int32 (day t + uint (days d)) + uint (weeks d * 7))\<rparr>
         else
           t\<lparr>second := to_int32 (second t - uint (seconds d)),
             minute := to_int32 (minute t - uint (minutes d)),
             hour := to_int32 (hour t - uint (hours d)),
             day := to_int32 (to_int32 (day t - uint (days d)) - uint (weeks d * 7))\<rparr>)
      in icaltime_normalize t1)"

definition icaltime_subtract :: "icaltimetype \<Rightarrow> icaltimetype \<Rightarrow> icaldurationtype" where
  "icaltime_subtract t1 t2 =
     icaldurationtype_from_int (to_int32 (icaltime_as_timet t1 - icaltime_as_timet t2))"

end
