(* ===== verification/DurationLaws.thy ===== *)
theory DurationLaws
  imports IcalDuration
begin

text \<open>
  Laws of durations: the seconds they stand for, the text that is printed through the growing
  buffer and read back, and the addition to times, which is the inverse of the subtraction.
\<close>

section \<open>Seconds and back\<close>

lemma sint_of_int: "- (2 ^ 31) \<le> v \<Longrightarrow> v < 2 ^ 31 \<Longrightarrow> sint (of_int v :: 32 word) = v"
  by (simp add: sint_sbintrunc' signed_take_bit_int_eq_self)

lemma uint_of_int: "0 \<le> v \<Longrightarrow> v < 2 ^ 32 \<Longrightarrow> uint (of_int v :: 32 word) = v"
  by (simp add: uint_word_of_int take_bit_int_eq_self)

text \<open>The amounts as numbers, and the seconds they stand for.\<close>

definition dur_secs :: "icaldurationtype \<Rightarrow> int" where
  "dur_secs d = uint (seconds d) + 60 * uint (minutes d) + 3600 * uint (hours d)
                + 86400 * uint (days d) + 604800 * uint (weeks d)"

definition dur_sign :: "icaldurationtype \<Rightarrow> int" where
  "dur_sign d = (if is_neg d = 1 then - 1 else 1)"

lemma as_int_secs:
  assumes "dur_secs d < 2 ^ 31"
  shows "icaldurationtype_as_int d = dur_sign d * dur_secs d"
proof -
  have w: "(of_int (uint w) :: 32 word) = w" for w by simp
  have "(seconds d + 60 * minutes d + 60 * 60 * hours d + 60 * 60 * 24 * days d
        + 60 * 60 * 24 * 7 * weeks d) * (if is_neg d = 1 then - 1 else 1) = of_int (dur_sign d * dur_secs d)"
    by (simp add: dur_secs_def dur_sign_def)
  moreover have "0 \<le> dur_secs d" by (simp add: dur_secs_def)
  ultimately show ?thesis
    unfolding icaldurationtype_as_int_def
    using assms by (simp only:) (rule sint_of_int; simp add: dur_sign_def)
qed

lemma from_int_fields:
  assumes "- (2 ^ 31) < t" "t < 2 ^ 31"
  defines "a \<equiv> \<bar>t\<bar>" and "d \<equiv> icaldurationtype_from_int t"
  shows "is_neg d = (if t < 0 then 1 else 0)" and "dur_secs d = a"
    and "weeks d \<noteq> 0 \<Longrightarrow> days d = 0 \<and> hours d = 0 \<and> minutes d = 0 \<and> seconds d = 0"
    and "uint (weeks d) < 2 ^ 31 \<and> uint (days d) < 2 ^ 31 \<and> uint (hours d) < 2 ^ 31 \<and>
      uint (minutes d) < 2 ^ 31 \<and> uint (seconds d) < 2 ^ 31"
proof -
  have a: "0 \<le> a" "a < 2 ^ 31" using assms by (auto simp: a_def)
  define dd hh mm ss where "dd = a div 86400" and "hh = (a - dd * 86400) div 3600"
    and "mm = (a - (dd * 86400 + hh * 3600)) div 60" and "ss = a - (dd * 86400 + hh * 3600 + mm * 60)"
  have r1: "0 \<le> a - dd * 86400" "a - dd * 86400 < 86400"
    unfolding dd_def using a(1) by (simp_all add: minus_div_mult_eq_mod)
  have r2: "0 \<le> a - (dd * 86400 + hh * 3600)" "a - (dd * 86400 + hh * 3600) < 3600"
    using minus_div_mult_eq_mod [of "a - dd * 86400" 3600] unfolding hh_def [symmetric]
    by (simp_all add: algebra_simps)
  have r3: "0 \<le> ss" "ss < 60"
    using minus_div_mult_eq_mod [of "a - (dd * 86400 + hh * 3600)" 60] unfolding mm_def [symmetric] ss_def
    by (simp_all add: algebra_simps)
  have p: "0 \<le> dd" "0 \<le> hh" "0 \<le> mm"
    using a(1) r1 r2 by (simp_all add: dd_def hh_def mm_def pos_imp_zdiv_nonneg_iff)
  have b: "dd \<le> a" "hh \<le> a" "mm \<le> a" "ss \<le> a" using p r1 r2 r3 unfolding ss_def by linarith+
  have fields: "d = (if a mod 604800 = 0
      then icaldurationtype_null_duration\<lparr>is_neg := (if t < 0 then 1 else 0), weeks := of_int (a div 604800)\<rparr>
      else icaldurationtype_null_duration\<lparr>is_neg := (if t < 0 then 1 else 0), days := of_int dd,
        hours := of_int hh, minutes := of_int mm, seconds := of_int ss\<rparr>)"
  proof -
    have t: "(if t < 0 then (icaldurationtype_null_duration\<lparr>is_neg := 1\<rparr>, - t) else (icaldurationtype_null_duration, t))
        = (icaldurationtype_null_duration\<lparr>is_neg := (if t < 0 then 1 else 0)\<rparr>, a)"
      by (simp add: a_def icaldurationtype_null_duration_def)
    have k: "60 * 60 * 24 * 7 = (604800 :: int)" "60 * 60 * 24 = (86400 :: int)" "60 * 60 = (3600 :: int)"
      "a - 0 = a" "0 + dd * 86400 = dd * 86400" by simp_all
    have q: "c_mod a 604800 = a mod 604800" "c_div a 604800 = a div 604800" "c_div a 86400 = dd"
      "c_div (a - dd * 86400) 3600 = hh" "c_div (a - (dd * 86400 + hh * 3600)) 60 = mm"
      using a(1) r1(1) r2(1) by (simp_all add: c_mod_nonneg c_div_nonneg dd_def hh_def mm_def)
    show ?thesis
      unfolding d_def icaldurationtype_from_int_def Let_def t prod.case k by (simp add: q ss_def)
  qed
  have wk: "0 \<le> a div 604800" "a div 604800 \<le> a" using a by (simp_all add: pos_imp_zdiv_nonneg_iff div_le_dividend)
  show "is_neg d = (if t < 0 then 1 else 0)" by (simp add: fields)
  show "dur_secs d = a"
  proof (cases "a mod 604800 = 0")
    case True
    then have "604800 * (a div 604800) = a" using mult_div_mod_eq [of 604800 a] by simp
    then show ?thesis using True wk a by (simp add: fields dur_secs_def icaldurationtype_null_duration_def uint_of_int)
  next
    case False
    then show ?thesis using p r3 b a
      by (simp add: fields dur_secs_def icaldurationtype_null_duration_def uint_of_int) (simp add: ss_def)
  qed
  show "weeks d \<noteq> 0 \<Longrightarrow> days d = 0 \<and> hours d = 0 \<and> minutes d = 0 \<and> seconds d = 0"
    by (simp add: fields icaldurationtype_null_duration_def split: if_splits)
  show "uint (weeks d) < 2 ^ 31 \<and> uint (days d) < 2 ^ 31 \<and> uint (hours d) < 2 ^ 31 \<and>
      uint (minutes d) < 2 ^ 31 \<and> uint (seconds d) < 2 ^ 31"
    using p r3 b a wk by (simp add: fields icaldurationtype_null_duration_def uint_of_int)
qed

lemma as_int_from_int:
  assumes "- (2 ^ 31) < t" "t < 2 ^ 31"
  shows "icaldurationtype_as_int (icaldurationtype_from_int t) = t"
  using as_int_secs [of "icaldurationtype_from_int t"] from_int_fields(1,2) [OF assms] assms
  by (simp add: dur_sign_def abs_if split: if_splits)

section \<open>The text of a duration\<close>

definition segment :: "string \<Rightarrow> 32 word \<Rightarrow> string" where
  "segment sep v = (if v \<noteq> 0 then fmt_d (sint v) @ sep else [])"

definition dur_text :: "icaldurationtype \<Rightarrow> string" where
  "dur_text d =
     (if icaldurationtype_as_int d \<noteq> 0 then
        (if is_neg d = 1 then ''-'' else []) @ ''P'' @ segment ''W'' (weeks d) @ segment ''D'' (days d) @
        (if hours d \<noteq> 0 \<or> minutes d \<noteq> 0 \<or> seconds d \<noteq> 0
         then ''T'' @ segment ''H'' (hours d) @ segment ''M'' (minutes d) @ segment ''S'' (seconds d) else [])
      else ''PT0S'')"

lemma writes_segment: "nul_free sep \<Longrightarrow> icm.writes (append_if_set sep v) (segment sep v)"
  unfolding append_if_set_def segment_def
  by (rule icm.writes_if)
    (auto simp: append_duration_segment_def [abs_def] intro!: icm.writes_seq icm.writesI icm.writes_skip)

lemma as_ical_string_dur:
  "\<exists>b. icaldurationtype_as_ical_string_r d = Some b \<and> sb_ok b \<and> sb_text b = dur_text d"
proof -
  let ?tail = "\<lambda>b4. if hours d \<noteq> 0 \<or> minutes d \<noteq> 0 \<or> seconds d \<noteq> 0 then do {
             b5 \<leftarrow> icalmemory_append_string b4 ''T'';
             b6 \<leftarrow> append_if_set ''H'' (hours d) b5;
             b7 \<leftarrow> append_if_set ''M'' (minutes d) b6;
             append_if_set ''S'' (seconds d) b7 }
           else Some b4"
  let ?tt = "if hours d \<noteq> 0 \<or> minutes d \<noteq> 0 \<or> seconds d \<noteq> 0
         then ''T'' @ segment ''H'' (hours d) @ segment ''M'' (minutes d) @ segment ''S'' (seconds d) else []"
  have t: "icm.writes ?tail ?tt"
  proof (cases "hours d \<noteq> 0 \<or> minutes d \<noteq> 0 \<or> seconds d \<noteq> 0")
    case True
    have "icm.writes (\<lambda>b4. Option.bind (icalmemory_append_string b4 ''T'') (\<lambda>b5. Option.bind (append_if_set ''H'' (hours d) b5)
        (\<lambda>b6. Option.bind (append_if_set ''M'' (minutes d) b6) (append_if_set ''S'' (seconds d)))))
        (''T'' @ segment ''H'' (hours d) @ segment ''M'' (minutes d) @ segment ''S'' (seconds d))"
      by (intro icm.writes_seq icm.writesI writes_segment) simp_all
    with True show ?thesis by simp
  qed (simp add: icm.writes_skip)
  have s: "icm.writes (\<lambda>b0. if is_neg d = 1 then icalmemory_append_char b0 (CHR ''-'') else Some b0)
      (if is_neg d = 1 then ''-'' else [])"
    by (cases "is_neg d = 1") (simp_all add: icm.writes_skip icm.writes_char NUL_iff)
  have p: "icm.writes (\<lambda>b. icalmemory_append_char b (CHR ''P'')) ''P''"
    by (simp add: icm.writes_char NUL_iff)
  have all: "icm.writes (\<lambda>b0. Option.bind (if is_neg d = 1 then icalmemory_append_char b0 (CHR ''-'') else Some b0)
      (\<lambda>b1. Option.bind (icalmemory_append_char b1 (CHR ''P'')) (\<lambda>b2. Option.bind (append_if_set ''W'' (weeks d) b2)
        (\<lambda>b3. Option.bind (append_if_set ''D'' (days d) b3) ?tail))))
      ((if is_neg d = 1 then ''-'' else []) @ ''P'' @ segment ''W'' (weeks d) @ segment ''D'' (days d) @ ?tt)"
    by (intro icm.writes_seq s p writes_segment t) simp_all
  have z: "icm.writes (\<lambda>b. icalmemory_append_string b ''PT0S'') ''PT0S''"
    by (rule icm.writesI) simp
  have nb: "sb_ok (icalmemory_new_buffer 256)" "sb_text (icalmemory_new_buffer 256) = []"
    using new_buffer_ok [of 256] by simp_all
  show ?thesis
  proof (cases "icaldurationtype_as_int d = 0")
    case True
    with icm.writesD [OF z nb(1)] nb(2) show ?thesis
      by (simp add: icaldurationtype_as_ical_string_r_def dur_text_def Let_def)
  next
    case False
    with icm.writesD [OF all nb(1)] nb(2) show ?thesis
      by (simp add: icaldurationtype_as_ical_string_r_def dur_text_def Let_def)
  qed
qed

section \<open>Reading it back\<close>

lemma dur_char_digit: "is_digit p \<Longrightarrow> dur_char i p rest s =
    (if digits s \<noteq> - 1 then Some s else if \<not> begin_flag s then None
     else case scan_d rest of None \<Rightarrow> None | Some (v, _) \<Rightarrow> Some (s\<lparr>digits := v\<rparr>))"
proof -
  assume d: "is_digit p"
  have "\<not> is_digit c" if "c \<in> {CHR ''-'', CHR ''P'', CHR ''T''}" for c
    using that by (auto simp: is_digit_def)
  with d have "p \<noteq> CHR ''-''" "p \<noteq> CHR ''P''" "p \<noteq> CHR ''T''" by blast+
  with d show ?thesis by (simp add: dur_char_def)
qed

lemma dur_loop_skip:
  "digits s \<noteq> - 1 \<Longrightarrow> \<forall>c \<in> set ds. is_digit c \<Longrightarrow> dur_loop i (ds @ r) s = dur_loop (i + length ds) r s"
  by (induction ds arbitrary: i) (simp_all add: dur_char_digit)

lemma dur_loop_number:
  assumes "begin_flag s" "digits s = - 1" "0 \<le> v" "v < 2 ^ 31" "r = [] \<or> \<not> is_digit (hd r)"
  shows "\<exists>j. dur_loop i (fmt_d v @ r) s = dur_loop j r (s\<lparr>digits := v\<rparr>)"
proof -
  obtain c ds where f: "fmt_d v = c # ds" "is_digit c" "\<forall>c \<in> set ds. is_digit c"
    using nat_str_digits [of "nat v"] nat_str_nonempty [of "nat v"] assms(3)
    by (cases "nat_str (nat v)") (auto simp: fmt_d_def)
  have "scan_d (c # ds @ r) = Some (v, r)" using scan_d_fmt_d [OF assms(3-5)] f(1) by simp
  then have "dur_loop i (fmt_d v @ r) s = dur_loop (Suc i) (ds @ r) (s\<lparr>digits := v\<rparr>)"
    using f assms(1,2) by (simp add: dur_char_digit)
  also have "\<dots> = dur_loop (Suc i + length ds) r (s\<lparr>digits := v\<rparr>)"
    using f(3) assms(3) by (intro dur_loop_skip) simp_all
  finally show ?thesis by blast
qed

lemma small_word:
  fixes w :: "32 word"
  assumes "uint w < 2 ^ 31"
  shows "sint w = uint w" "of_int (uint w) = w"
proof -
  have "- (2 ^ 31) \<le> uint w" by (rule order_trans [of _ 0]) simp_all
  from sint_of_int [OF this assms] show "sint w = uint w" by simp
qed simp

text \<open>A segment sets its amount, when the flags allow it and the amount is not set yet.\<close>

lemma dur_loop_segment:
  assumes "begin_flag s" "digits s = - 1" "uint v < 2 ^ 31" "\<not> is_digit c"
    and "v = 0 \<Longrightarrow> s' = s"
    and "\<And>i rest. v \<noteq> 0 \<Longrightarrow> dur_char i c rest (s\<lparr>digits := uint v\<rparr>) = Some s'"
  shows "\<exists>j. dur_loop i (segment [c] v @ r) s = dur_loop j r s'"
proof (cases "v = 0")
  case True
  then show ?thesis using assms(5) by (auto simp: segment_def)
next
  case False
  from dur_loop_number [OF assms(1,2), of "uint v" "c # r" i] assms(3,4)
  obtain j where "dur_loop i (fmt_d (uint v) @ c # r) s = dur_loop j (c # r) (s\<lparr>digits := uint v\<rparr>)" by auto
  with False assms(6) show ?thesis
    by (auto simp: segment_def small_word [OF assms(3)] simp del: fmt_d_def)
qed

definition printable_dur :: "icaldurationtype \<Rightarrow> bool" where
  "printable_dur d \<longleftrightarrow> (is_neg d = 0 \<or> is_neg d = 1) \<and> dur_secs d < 2 ^ 31 \<and>
     (weeks d \<noteq> 0 \<longrightarrow> days d = 0 \<and> hours d = 0 \<and> minutes d = 0 \<and> seconds d = 0) \<and>
     (dur_secs d = 0 \<longrightarrow> is_neg d = 0)"

lemma amounts_le:
  "dur_secs d < 2 ^ 31 \<Longrightarrow> uint (weeks d) < 2 ^ 31 \<and> uint (days d) < 2 ^ 31 \<and> uint (hours d) < 2 ^ 31 \<and>
     uint (minutes d) < 2 ^ 31 \<and> uint (seconds d) < 2 ^ 31"
proof -
  assume a: "dur_secs d < 2 ^ 31"
  have "0 \<le> uint (seconds d)" "0 \<le> uint (minutes d)" "0 \<le> uint (hours d)" "0 \<le> uint (days d)"
    "0 \<le> uint (weeks d)" by simp_all
  with a show ?thesis unfolding dur_secs_def by (intro conjI; linarith)
qed

lemma dur_secs_0: "dur_secs d = 0 \<longleftrightarrow> weeks d = 0 \<and> days d = 0 \<and> hours d = 0 \<and> minutes d = 0 \<and> seconds d = 0"
proof
  assume a: "dur_secs d = 0"
  have "0 \<le> uint (seconds d)" "0 \<le> uint (minutes d)" "0 \<le> uint (hours d)" "0 \<le> uint (days d)" "0 \<le> uint (weeks d)"
    by simp_all
  with a have "uint (seconds d) = 0" "uint (minutes d) = 0" "uint (hours d) = 0" "uint (days d) = 0" "uint (weeks d) = 0"
    unfolding dur_secs_def by linarith+
  then show "weeks d = 0 \<and> days d = 0 \<and> hours d = 0 \<and> minutes d = 0 \<and> seconds d = 0"
    by (simp add: uint_0_iff)
qed (simp add: dur_secs_def)


text \<open>The state before the first amount: the sign and the \<open>P\<close> are read.\<close>

definition dur_begun :: "int \<Rightarrow> dur_scan" where
  "dur_begun neg = dur_scan_init\<lparr>begin_flag := True, dur := icaldurationtype_null_duration\<lparr>is_neg := neg\<rparr>\<rparr>"

lemma dur_loop_begin:
  "neg = 0 \<or> neg = 1 \<Longrightarrow>
    \<exists>j. dur_loop 0 ((if neg = 1 then ''-'' else []) @ ''P'' @ r) dur_scan_init = dur_loop j r (dur_begun neg)"
  by (auto simp: dur_char_def dur_begun_def dur_scan_init_def icaldurationtype_null_duration_def)

lemma uint_not_minus_1 [simp]: "uint (v :: 32 word) \<noteq> - 1"
proof -
  have "0 \<le> uint v" by simp
  then show ?thesis by linarith
qed

lemma dur_loop_T: "dur_loop i (''T'' @ r) s = dur_loop (Suc i) r (s\<lparr>time_flag := True\<rparr>)"
  by (simp add: dur_char_def)

lemmas dur_state_simps = dur_begun_def dur_scan_init_def icaldurationtype_null_duration_def dur_char_def is_digit_def

lemma dur_loop_text:
  assumes p: "printable_dur d" and nz: "icaldurationtype_as_int d \<noteq> 0"
  shows "\<exists>s. dur_loop 0 (dur_text d) dur_scan_init = Some s \<and> dur s = d"
proof -
  have le: "uint (weeks d) < 2 ^ 31" "uint (days d) < 2 ^ 31" "uint (hours d) < 2 ^ 31"
    "uint (minutes d) < 2 ^ 31" "uint (seconds d) < 2 ^ 31" and neg: "is_neg d = 0 \<or> is_neg d = 1"
    using amounts_le [of d] p by (simp_all add: printable_dur_def)
  have w: "of_int (uint v) = v" for v :: "32 word" by simp
  let ?time = "if hours d \<noteq> 0 \<or> minutes d \<noteq> 0 \<or> seconds d \<noteq> 0
     then ''T'' @ segment ''H'' (hours d) @ segment ''M'' (minutes d) @ segment ''S'' (seconds d) else []"
  let ?r = "segment ''W'' (weeks d) @ segment ''D'' (days d) @ ?time"
  obtain j where j: "dur_loop 0 (dur_text d) dur_scan_init = dur_loop j ?r (dur_begun (is_neg d))"
    using dur_loop_begin [OF neg, of ?r] nz by (auto simp: dur_text_def)
  show ?thesis
  proof (cases "weeks d = 0")
    case False
    then have z: "days d = 0" "hours d = 0" "minutes d = 0" "seconds d = 0"
      using p by (simp_all add: printable_dur_def)
    define s where "s = (dur_begun (is_neg d))\<lparr>week_flag := True,
      dur := icaldurationtype_null_duration\<lparr>is_neg := is_neg d, weeks := weeks d\<rparr>\<rparr>"
    have "\<exists>k. dur_loop j (segment ''W'' (weeks d) @ []) (dur_begun (is_neg d)) = dur_loop k [] s"
      by (rule dur_loop_segment [OF _ _ le(1)]) (use False in \<open>auto simp: s_def dur_state_simps w\<close>)
    moreover have "dur s = d" using z by (simp add: s_def icaldurationtype_null_duration_def)
    ultimately show ?thesis using j z by (auto simp: segment_def)
  next
    case True
    define s1 where "s1 = (dur_begun (is_neg d))\<lparr>date_flag := (days d \<noteq> 0),
      dur := icaldurationtype_null_duration\<lparr>is_neg := is_neg d, days := days d\<rparr>\<rparr>"
    have "\<exists>k. dur_loop j (segment ''D'' (days d) @ ?time) (dur_begun (is_neg d)) = dur_loop k ?time s1"
      by (rule dur_loop_segment [OF _ _ le(2)]) (auto simp: s1_def dur_state_simps w)
    then obtain k where k: "dur_loop j ?r (dur_begun (is_neg d)) = dur_loop k ?time s1"
      using True by (auto simp: segment_def)
    show ?thesis
    proof (cases "hours d \<noteq> 0 \<or> minutes d \<noteq> 0 \<or> seconds d \<noteq> 0")
      case False
      then show ?thesis using j k True by (simp add: s1_def icaldurationtype_null_duration_def)
    next
      case time: True
      define s2 where "s2 = s1\<lparr>time_flag := True\<rparr>"
      define s3 where "s3 = s2\<lparr>dur := (dur s1)\<lparr>hours := hours d\<rparr>\<rparr>"
      define s4 where "s4 = s3\<lparr>dur := (dur s3)\<lparr>minutes := minutes d\<rparr>\<rparr>"
      define s5 where "s5 = s4\<lparr>dur := (dur s4)\<lparr>seconds := seconds d\<rparr>\<rparr>"
      note ss = s1_def s2_def s3_def s4_def s5_def
      have "\<exists>i. dur_loop (Suc k) (segment ''H'' (hours d) @ segment ''M'' (minutes d) @ segment ''S'' (seconds d)) s2
          = dur_loop i (segment ''M'' (minutes d) @ segment ''S'' (seconds d)) s3"
        by (rule dur_loop_segment [OF _ _ le(3)]) (auto simp: ss dur_state_simps w)
      then obtain i3 where i3: "dur_loop (Suc k) (segment ''H'' (hours d) @ segment ''M'' (minutes d) @ segment ''S'' (seconds d)) s2
          = dur_loop i3 (segment ''M'' (minutes d) @ segment ''S'' (seconds d)) s3" by blast
      have "\<exists>i. dur_loop i3 (segment ''M'' (minutes d) @ segment ''S'' (seconds d)) s3
          = dur_loop i (segment ''S'' (seconds d)) s4"
        by (rule dur_loop_segment [OF _ _ le(4)]) (auto simp: ss dur_state_simps w)
      then obtain i4 where i4: "dur_loop i3 (segment ''M'' (minutes d) @ segment ''S'' (seconds d)) s3
          = dur_loop i4 (segment ''S'' (seconds d)) s4" by blast
      have "\<exists>i. dur_loop i4 (segment ''S'' (seconds d) @ []) s4 = dur_loop i [] s5"
        by (rule dur_loop_segment [OF _ _ le(5)]) (auto simp: ss dur_state_simps w)
      then have "dur_loop i4 (segment ''S'' (seconds d)) s4 = Some s5" by auto
      moreover have "dur s5 = d" using True by (simp add: ss icaldurationtype_null_duration_def)
      ultimately show ?thesis
        using j k i3 i4 time by (simp add: dur_loop_T [simplified] s2_def [symmetric])
    qed
  qed
qed

lemma dur_loop_zero: "dur_loop 0 ''PT0S'' dur_scan_init = Some (dur_scan_init\<lparr>begin_flag := True, time_flag := True\<rparr>)"
  by (simp add: dur_char_def dur_scan_init_def icaldurationtype_null_duration_def is_digit_def scan_d_def
      scan_wd_def scan_long_def is_space_def digits_val_def digit_val_def clamp_long_def to_int32_def)

lemma from_string_dur_text:
  assumes "printable_dur d"
  shows "icaldurationtype_from_string (dur_text d) es = Some (d, es)"
proof (cases "icaldurationtype_as_int d = 0")
  case True
  then have "dur_secs d = 0" using as_int_secs [of d] assms
    by (auto simp: printable_dur_def dur_sign_def split: if_splits)
  then have "d = icaldurationtype_null_duration"
    using assms by (simp add: dur_secs_0 printable_dur_def icaldurationtype_null_duration_def)
  with True show ?thesis
    by (simp add: icaldurationtype_from_string_def dur_text_def dur_loop_zero del: dur_loop.simps)
      (simp add: dur_scan_init_def)
next
  case False
  with dur_loop_text [OF assms] show ?thesis by (auto simp: icaldurationtype_from_string_def)
qed

section \<open>Adding and subtracting\<close>

lemma weeks_times_7: "uint (w :: 32 word) < 2 ^ 31 div 7 \<Longrightarrow> uint (w * 7) = 7 * uint w"
  by (simp add: uint_word_ariths)

lemma secs_of_shifted:
  "ical_secs (t\<lparr>second := second t + a, minute := minute t + b, hour := hour t + c, day := day t + e\<rparr>) =
     ical_secs t + a + 60 * b + 3600 * c + 86400 * e"
  using ical.dn_day [of "year t" "month t" "day t" e] by (simp add: ical_secs_def)

lemma days_in_month_le: "icaltime_days_in_month m y \<le> 31"
proof (cases "1 \<le> m \<and> m \<le> 12")
  case True
  then show ?thesis
    using month_cases [of m] leap_01 [of y]
    by (simp add: icaltime_days_in_month_def days_in_month_table_def) (elim disjE; simp)
qed (auto simp: icaltime_days_in_month_def)

lemma icaltime_add_secs:
  assumes t: "normal_time t" "is_date t = 0" and d: "is_neg d = 0 \<or> is_neg d = 1" "dur_secs d < 2 ^ 31 - 60"
  shows "ical_secs (icaltime_add t d) = ical_secs t + icaldurationtype_as_int d" "normal_time (icaltime_add t d)"
proof -
  define g where "g = dur_sign d"
  have n: "0 \<le> uint (seconds d)" "0 \<le> uint (minutes d)" "0 \<le> uint (hours d)" "0 \<le> uint (days d)"
    "0 \<le> uint (weeks d)" by simp_all
  have le: "uint (seconds d) < 2 ^ 31 - 60" "60 * uint (minutes d) < 2 ^ 31" "3600 * uint (hours d) < 2 ^ 31"
    "86400 * uint (days d) < 2 ^ 31" "604800 * uint (weeks d) < 2 ^ 31"
    using d(2) n unfolding dur_secs_def by linarith+
  have w7: "uint (weeks d * 7) = 7 * uint (weeks d)" using le(5) by (intro weeks_times_7) simp
  have tb: "0 \<le> second t" "second t < 60" "0 \<le> minute t" "minute t < 60" "0 \<le> hour t" "hour t < 24"
    "1 \<le> day t" "day t \<le> 31"
  proof -
    show "day t \<le> 31"
      using t(1) days_in_month_le [of "month t" "year t"] by (simp add: normal_time_def normal_date_def)
  qed (use t(1) in \<open>simp_all add: normal_time_def normal_date_def\<close>)
  have g: "g = 1 \<and> is_neg d = 0 \<or> g = - 1 \<and> is_neg d = 1" using d(1) by (auto simp: g_def dur_sign_def)
  have sh: "to_int32 (a + g * x) = a + g * x" if "- 30000 \<le> a" "a \<le> 30000" "0 \<le> x" "x < 2 ^ 31 - 60"
      "a < 60 \<or> x < 2 ^ 31 - 30000" "0 \<le> a \<or> x < 2 ^ 31 - 30000" for a x
    using g that by (intro to_int32_id) auto
  have small: "uint (minutes d) < 2 ^ 31 - 30000" "uint (hours d) < 2 ^ 31 - 30000" "uint (days d) \<le> 24855"
    "uint (weeks d) \<le> 3550"
    using le n by auto
  have i1: "to_int32 (second t + g * uint (seconds d)) = second t + g * uint (seconds d)"
    by (rule sh) (use tb n le in auto)
  have i2: "to_int32 (minute t + g * uint (minutes d)) = minute t + g * uint (minutes d)"
    by (rule sh) (use tb n small in auto)
  have i3: "to_int32 (hour t + g * uint (hours d)) = hour t + g * uint (hours d)"
    by (rule sh) (use tb n small in auto)
  have i4: "to_int32 (day t + g * uint (days d)) = day t + g * uint (days d)"
    by (rule sh) (use tb n small in auto)
  have db: "- 30000 \<le> day t + g * uint (days d)" "day t + g * uint (days d) \<le> 30000"
  proof -
    have "g * uint (days d) = uint (days d) \<or> g * uint (days d) = - uint (days d)" using g by auto
    then show "- 30000 \<le> day t + g * uint (days d)" "day t + g * uint (days d) \<le> 30000"
      using tb(7,8) n(4) small(3) by linarith+
  qed
  have i5: "to_int32 (day t + g * uint (days d) + g * (7 * uint (weeks d))) =
      day t + g * uint (days d) + g * (7 * uint (weeks d))"
    by (rule sh) (use db n small in auto)
  have ids: "to_int32 (second t + g * uint (seconds d)) = second t + g * uint (seconds d)"
    "to_int32 (minute t + g * uint (minutes d)) = minute t + g * uint (minutes d)"
    "to_int32 (hour t + g * uint (hours d)) = hour t + g * uint (hours d)"
    "to_int32 (to_int32 (day t + g * uint (days d)) + g * (7 * uint (weeks d))) =
       day t + g * (uint (days d) + 7 * uint (weeks d))"
    using i1 i2 i3 i4 i5 by (simp_all add: distrib_left)
  have "icaltime_add t d = icaltime_normalize (t\<lparr>second := second t + g * uint (seconds d),
      minute := minute t + g * uint (minutes d), hour := hour t + g * uint (hours d),
      day := day t + g * (uint (days d) + 7 * uint (weeks d))\<rparr>)"
    using g ids by (auto simp: icaltime_add_def Let_def w7)
  moreover have "icaldurationtype_as_int d = g * dur_secs d" using as_int_secs [of d] d(2) by (simp add: g_def)
  ultimately show "ical_secs (icaltime_add t d) = ical_secs t + icaldurationtype_as_int d" "normal_time (icaltime_add t d)"
    using t(2) by (simp_all add: icaltime_normalize_def adjust_time secs_of_shifted dur_secs_def algebra_simps)
qed

lemma icaltime_add_other [simp]:
  "is_date (icaltime_add t d) = is_date t" "is_utc (icaltime_add t d) = is_utc t"
  "zone (icaltime_add t d) = zone t" "is_daylight (icaltime_add t d) = is_daylight t"
  by (simp_all add: icaltime_add_def icaltime_normalize_def Let_def)

definition epoch_time :: "icaltimetype \<Rightarrow> bool" where
  "epoch_time t \<longleftrightarrow> normal_time t \<and> is_date t = 0 \<and> 1970 \<le> year t \<and>
     (year t < 2038 \<or> year t = 2038 \<and> month t = 1 \<and> day t \<le> 17)"

lemma epoch_time_timet:
  assumes "epoch_time t"
  shows "icaltime_as_timet t = ical_secs t - 86400 * epoch_days" "0 \<le> icaltime_as_timet t"
    "icaltime_as_timet t < 2147472000"
proof -
  have n: "normal_time t" "normal_date t" "1 \<le> month t" "month t \<le> 12" "is_date t = 0" "1970 \<le> year t"
    using assms by (simp_all add: epoch_time_def normal_time_def normal_date_def)
  have last: "year t < 2038 \<or> year t = 2038 \<and> month t = 1 \<and> day t \<le> 17" using assms by (simp add: epoch_time_def)
  have "\<not> icaltime_is_null_time t" using not_null_time [of t] n by simp
  then show e: "icaltime_as_timet t = ical_secs t - 86400 * epoch_days"
    using make_time_secs [OF n(3,4,6) last] n(5) by (simp add: icaltime_as_timet_def icaltime_is_date_def)
  have dd: "ical_days (year t) (month t) (day t) = year_start (year t) + month_start (year t) (month t) + day t"
    using n(3,4) by (simp add: ical_days_month)
  have y1970: "year_start 1970 = 719175" "year_start 2038 = 744012"
    by (simp_all add: year_start_def leaps_upto_def)
  have "719175 \<le> year_start (year t)"
    using year_start_mono [of 1970 "year t"] n(6) y1970 by (cases "year t = 1970") (auto simp: ycaltime_days_in_year_def split: if_splits)
  then have low: "719176 \<le> ical_days (year t) (month t) (day t)"
    using dd normal_day_of_year(1) [OF n(2)] by simp
  have high: "ical_days (year t) (month t) (day t) \<le> 744029"
  proof (cases "year t < 2038")
    case True
    then show ?thesis
      using year_start_mono [of "year t" 2038] normal_day_of_year(2) [OF n(2)] dd y1970 by simp
  next
    case False
    then show ?thesis using last dd y1970 by auto
  qed
  have r: "0 \<le> 3600 * hour t + 60 * minute t + second t" "3600 * hour t + 60 * minute t + second t < 86400"
    using n(1) unfolding normal_time_def by linarith+
  show "0 \<le> icaltime_as_timet t" "icaltime_as_timet t < 2147472000"
    using low high r unfolding e ical_secs_def epoch_days_def by linarith+
qed

lemma add_subtract:
  assumes "epoch_time t1" "epoch_time t2" "is_utc t1 = is_utc t2" "zone t1 = zone t2" "is_daylight t1 = is_daylight t2"
  shows "icaltime_add t2 (icaltime_subtract t1 t2) = t1"
proof -
  define s where "s = icaltime_as_timet t1 - icaltime_as_timet t2"
  note e = epoch_time_timet [OF assms(1)] epoch_time_timet [OF assms(2)]
  have s: "- 2147472000 < s" "s < 2147472000" using e by (auto simp: s_def)
  then have id: "to_int32 s = s" by (intro to_int32_id) auto
  define d where "d = icaldurationtype_from_int s"
  have r: "- (2 ^ 31) < s" "s < 2 ^ 31" using s by auto
  note f = from_int_fields(1,2) [OF r, folded d_def]
  have n: "normal_time t1" "normal_time t2" "is_date t1 = 0" "is_date t2 = 0"
    using assms(1,2) by (simp_all add: epoch_time_def)
  have dn: "is_neg d = 0 \<or> is_neg d = 1" "dur_secs d < 2 ^ 31 - 60" using f s by auto
  have "ical_secs (icaltime_add t2 d) = ical_secs t1"
    using icaltime_add_secs(1) [OF n(2,4) dn] as_int_from_int [OF r] e(1,4) by (simp add: d_def s_def)
  then have "icaltime_add t2 d = t1"
    by (intro icaltime_eqI) (use icaltime_add_secs(2) [OF n(2,4) dn] n assms in simp_all)
  then show ?thesis by (simp add: icaltime_subtract_def s_def [symmetric] id d_def)
qed

end
