(* ===== verification/IcalPeriod.thy ===== *)
theory IcalPeriod
  imports DurationLaws
begin

text \<open>
  Periods, \<^verbatim>\<open>icalperiod.c\<close>: a start with an end or a duration. Reading a period saves and
  restores the error number and the error state around the attempt to read the end as a time.
\<close>

section \<open>The structure\<close>

record icalperiodtype =
  p_start :: icaltimetype
  p_end :: icaltimetype
  p_duration :: icaldurationtype

definition icalperiodtype_null_period :: icalperiodtype where
  "icalperiodtype_null_period =
     \<lparr>p_start = icaltime_null_time, p_end = icaltime_null_time, p_duration = icaldurationtype_null_duration\<rparr>"

definition icalperiodtype_is_null_period :: "icalperiodtype \<Rightarrow> bool" where
  "icalperiodtype_is_null_period p \<longleftrightarrow>
     icaltime_is_null_time (p_start p) \<and> icaltime_is_null_time (p_end p) \<and>
     icaldurationtype_is_null_duration (p_duration p)"

definition icalperiodtype_is_valid_period :: "icalperiodtype \<Rightarrow> bool" where
  "icalperiodtype_is_valid_period p \<longleftrightarrow>
     icaltime_is_valid_time (p_start p) \<and>
     (icaltime_is_valid_time (p_end p) \<or> icaltime_is_null_time (p_end p))"

section \<open>From text\<close>

definition read_period :: "string \<Rightarrow> icalperiodtype \<Rightarrow> icalerror_state \<Rightarrow> (icalperiodtype option \<times> icalerror_state) option" where
  "read_period str p0 es0 =
     (case split_chr (CHR ''/'') str of
        (_, None) \<Rightarrow> Some (None, es0)
      | (start, Some endt) \<Rightarrow> do {
          (st, es1) \<leftarrow> icaltime_from_string start es0;
          if icaltime_is_null_time st then Some (None, es1)
          else do {
            let saved = icalerror_get_error_state ICAL_MALFORMEDDATA_ERROR es1;
            (en, es3) \<leftarrow> icaltime_from_string endt
                            (icalerror_set_error_state ICAL_MALFORMEDDATA_ERROR ICAL_ERROR_NONFATAL es1);
            let es4 = icalerror_set_error_state ICAL_MALFORMEDDATA_ERROR saved es3;
            let p1 = p0\<lparr>p_start := st, p_end := en\<rparr>;
            if icaltime_is_null_time en then do {
              (d, es5) \<leftarrow> icaldurationtype_from_string endt es4;
              if icaldurationtype_as_int d = 0 then Some (None, es5)
              else Some (Some (p1\<lparr>p_duration := d\<rparr>), es5) }
            else Some (Some p1, es4) } })"

definition icalperiodtype_from_string ::
    "string \<Rightarrow> icalerror_state \<Rightarrow> (icalperiodtype \<times> icalerror_state) option" where
  "icalperiodtype_from_string str es =
     (let null_p = \<lparr>p_start = icaltime_null_time, p_end = icaltime_null_time,
                    p_duration = icaldurationtype_from_int 0\<rparr>
      in do {
        (r, es1) \<leftarrow> read_period str null_p es;
        case r of
          Some p \<Rightarrow> Some (p, es1\<lparr>icalerrno := icalerrno es\<rparr>)
        | None \<Rightarrow> map_option (\<lambda>es2. (null_p, es2)) (icalerror_set_errno ICAL_MALFORMEDDATA_ERROR es1) })"

section \<open>To text\<close>

definition icalperiodtype_as_ical_string_r :: "icalperiodtype \<Rightarrow> sbuf option" where
  "icalperiodtype_as_ical_string_r p = do {
     b1 \<leftarrow> icalmemory_append_string (icalmemory_new_buffer 40) (icaltime_as_ical_string_r (p_start p));
     endt \<leftarrow> (if \<not> icaltime_is_null_time (p_end p) then Some (icaltime_as_ical_string_r (p_end p))
              else map_option sb_text (icaldurationtype_as_ical_string_r (p_duration p)));
     b2 \<leftarrow> icalmemory_append_char b1 (CHR ''/'');
     icalmemory_append_string b2 endt }"

section \<open>What is printed is read undo\<close>

text \<open>
  A period whose text can be read: a start and an end with a null duration, or a start and
  a duration that is not zero. The text of a duration must not have 16 characters: the
  attempt to read it as a time then looks behind its end.
\<close>

definition printable_period :: "icalperiodtype \<Rightarrow> bool" where
  "printable_period p \<longleftrightarrow> printable_time (p_start p) \<and> \<not> icaltime_is_null_time (p_start p) \<and>
     (printable_time (p_end p) \<and> \<not> icaltime_is_null_time (p_end p) \<and>
        p_duration p = icaldurationtype_null_duration \<or>
      p_end p = icaltime_null_time \<and> printable_dur (p_duration p) \<and>
        icaldurationtype_as_int (p_duration p) \<noteq> 0 \<and> length (dur_text (p_duration p)) \<noteq> 16)"

definition period_text :: "icalperiodtype \<Rightarrow> string" where
  "period_text p = time_text (p_start p) @ ''/'' @
     (if icaltime_is_null_time (p_end p) then dur_text (p_duration p) else time_text (p_end p))"

lemma nul_free_digits: "\<forall>c \<in> set s. is_digit c \<Longrightarrow> nul_free s"
  by (auto simp: nul_free_codes is_digit_def)

lemma time_text_chars:
  assumes "printable_time t"
  shows "\<forall>c \<in> set (time_text t). is_digit c \<or> c = CHR ''T'' \<or> c = CHR ''Z''"
proof -
  have "printable_date t" using assms by (simp add: printable_time_def)
  then show ?thesis
    using assms fmt_0d_digits [of "year t" 4] fmt_0d_digits [of "month t" 2] fmt_0d_digits [of "day t" 2]
      fmt_0d_digits [of "hour t" 2] fmt_0d_digits [of "minute t" 2] fmt_0d_digits [of "second t" 2]
    unfolding time_text_def printable_date_def printable_time_def by (auto split: if_splits)
qed

lemma time_text_nul_free: "printable_time t \<Longrightarrow> nul_free (time_text t)"
  using time_text_chars [of t] by (force simp: nul_free_codes is_digit_def)

lemma dur_text_nul_free: "nul_free (dur_text d)"
  by (simp add: dur_text_def segment_def)

lemma as_ical_string_period:
  assumes "printable_period p"
  shows "\<exists>b. icalperiodtype_as_ical_string_r p = Some b \<and> sb_ok b \<and> sb_text b = period_text p"
proof -
  let ?e = "if icaltime_is_null_time (p_end p) then dur_text (p_duration p) else time_text (p_end p)"
  have st: "icaltime_as_ical_string_r (p_start p) = time_text (p_start p)" "nul_free (time_text (p_start p))"
    using assms by (simp_all add: printable_period_def as_ical_string_text time_text_nul_free)
  have en: "(if \<not> icaltime_is_null_time (p_end p) then Some (icaltime_as_ical_string_r (p_end p))
      else map_option sb_text (icaldurationtype_as_ical_string_r (p_duration p))) = Some ?e" "nul_free ?e"
    using assms as_ical_string_dur [of "p_duration p"]
    by (auto simp: printable_period_def as_ical_string_text time_text_nul_free dur_text_nul_free
        icaltime_is_null_time_def icaltime_null_time_def)
  have w: "icm.writes (\<lambda>b. Option.bind (icalmemory_append_string b (time_text (p_start p)))
      (\<lambda>b1. Option.bind (icalmemory_append_char b1 (CHR ''/'')) (\<lambda>b2. icalmemory_append_string b2 ?e))) (period_text p)"
    unfolding period_text_def
    using st(2) en(2) by (intro icm.writes_seq icm.writesI icm.writes_char) (simp_all add: NUL_iff)
  have nb: "sb_ok (icalmemory_new_buffer 40)" "sb_text (icalmemory_new_buffer 40) = []"
    using new_buffer_ok [of 40] by simp_all
  from icm.writesD [OF w nb(1)] nb(2) show ?thesis
    by (simp add: icalperiodtype_as_ical_string_r_def st(1) en(1))
qed

text \<open>The text of a duration is not read as a time, and leaves the error number.\<close>

lemma scan_dur_text: "icaldurationtype_as_int d \<noteq> 0 \<Longrightarrow> scan_wd 4 (dur_text d) = None"
  by (auto simp: dur_text_def scan_wd_def scan_long_def is_space_def is_digit_def numeral_eq_Suc)

lemma time_of_dur_text:
  assumes "icaldurationtype_as_int d \<noteq> 0" "length (dur_text d) \<noteq> 16"
  shows "icaltime_from_string (dur_text d) es =
    map_option (\<lambda>es1. (icaltime_null_time, es1)) (icalerror_set_errno ICAL_MALFORMEDDATA_ERROR es)"
proof -
  have "time_fields tt (dur_text d) = None" for tt
    using scan_dur_text [OF assms(1)]
    by (simp add: time_fields_def Let_def scan_date_basic_def scan_date_extended_def)
  moreover have "time_of_size (dur_text d) \<noteq> None" using assms(2) by (simp add: time_of_size_def Let_def)
  ultimately show ?thesis by (auto simp: icaltime_from_string_def)
qed

lemma from_string_period_text:
  assumes p: "printable_period p"
    and es: "distinct (map fst (error_state_map es))" "listed (error_state_map es) ICAL_MALFORMEDDATA_ERROR"
  shows "icalperiodtype_from_string (period_text p) es = Some (p, es)"
proof -
  let ?e = "if icaltime_is_null_time (p_end p) then dur_text (p_duration p) else time_text (p_end p)"
  have st: "printable_time (p_start p)" "\<not> icaltime_is_null_time (p_start p)" using p by (simp_all add: printable_period_def)
  have "CHR ''/'' \<notin> set (time_text (p_start p))"
    using time_text_chars [OF st(1)] by (auto simp: is_digit_def)
  then have split: "split_chr (CHR ''/'') (period_text p) = (time_text (p_start p), Some ?e)"
    by (simp add: period_text_def split_chr_first)
  have undo: "icalerror_set_error_state ICAL_MALFORMEDDATA_ERROR
      (icalerror_get_error_state ICAL_MALFORMEDDATA_ERROR es)
      (icalerror_set_error_state ICAL_MALFORMEDDATA_ERROR ICAL_ERROR_NONFATAL es\<lparr>icalerrno := x\<rparr>) = es\<lparr>icalerrno := x\<rparr>" for x
    using es(1) by (simp add: icalerror_set_error_state_def icalerror_get_error_state_def)
  have undo0: "icalerror_set_error_state ICAL_MALFORMEDDATA_ERROR
      (icalerror_get_error_state ICAL_MALFORMEDDATA_ERROR es)
      (icalerror_set_error_state ICAL_MALFORMEDDATA_ERROR ICAL_ERROR_NONFATAL es) = es"
    using es(1) by (simp add: icalerror_set_error_state_def icalerror_get_error_state_def)
  have nonfatal: "icalerror_set_errno ICAL_MALFORMEDDATA_ERROR
      (icalerror_set_error_state ICAL_MALFORMEDDATA_ERROR ICAL_ERROR_NONFATAL es) =
      Some (icalerror_set_error_state ICAL_MALFORMEDDATA_ERROR ICAL_ERROR_NONFATAL es\<lparr>icalerrno := ICAL_MALFORMEDDATA_ERROR\<rparr>)"
    using es(2) by (simp add: icalerror_set_errno_def icalerror_set_error_state_def icalerror_get_error_state_def
        get_put_same)
  have zero: "icaldurationtype_from_int 0 = icaldurationtype_null_duration"
    by (simp add: icaldurationtype_from_int_def icaldurationtype_null_duration_def c_mod_nonneg c_div_nonneg)
  show ?thesis
  proof (cases "icaltime_is_null_time (p_end p)")
    case False
    then have "printable_time (p_end p)" "p_duration p = icaldurationtype_null_duration"
      using p by (auto simp: printable_period_def icaltime_is_null_time_def icaltime_null_time_def)
    then show ?thesis
      using False split st undo0
      by (simp add: icalperiodtype_from_string_def read_period_def from_string_text zero)
  next
    case True
    then have d: "p_end p = icaltime_null_time" "printable_dur (p_duration p)"
      "icaldurationtype_as_int (p_duration p) \<noteq> 0" "length (dur_text (p_duration p)) \<noteq> 16"
      using p by (auto simp: printable_period_def)
    have n: "icaltime_is_null_time icaltime_null_time" by (simp add: icaltime_is_null_time_def icaltime_null_time_def)
    show ?thesis
      using True split st undo nonfatal d n
      by (simp add: icalperiodtype_from_string_def read_period_def from_string_text time_of_dur_text
          from_string_dur_text zero)
  qed
qed

end
