(* ===== verification/DurationProperties.thy ===== *)
theory DurationProperties
  imports IcalPeriod TimeProperties
begin

text \<open>
  The properties of durations and periods: seconds and text of a duration, the sum of a time
  and a duration, and the text of a period.
\<close>

text \<open>C24: Every number of seconds in the range of a 32 bit \<open>int\<close> (but its minimum) is split into a
  duration that stands for the same number, whose text, written through the growing buffer, is
  read back as the same duration without an error.\<close>

theorem duration_text_inverse:
  assumes "- (2 ^ 31) < t" "t < 2 ^ 31"
  shows "icaldurationtype_as_int (icaldurationtype_from_int t) = t \<and>
    (\<exists>b. icaldurationtype_as_ical_string_r (icaldurationtype_from_int t) = Some b \<and> sb_ok b \<and>
       icaldurationtype_from_string (sb_text b) es = Some (icaldurationtype_from_int t, es))"
proof -
  let ?d = "icaldurationtype_from_int t"
  note f = from_int_fields [OF assms]
  have "printable_dur ?d" using f assms by (auto simp: printable_dur_def)
  with as_ical_string_dur [of ?d] from_string_dur_text [of ?d es] as_int_from_int [OF assms] show ?thesis by auto
qed

theorem duration_text_inverse_witness:
  "icaldurationtype_as_int (icaldurationtype_from_int (- 93784)) = - 93784 \<and>
    (\<exists>b. icaldurationtype_as_ical_string_r (icaldurationtype_from_int (- 93784)) = Some b \<and> sb_ok b \<and>
       icaldurationtype_from_string (sb_text b)
         \<lparr>icalerrno = ICAL_NO_ERROR, icalerror_errors_are_fatal = 0, error_state_map = []\<rparr> =
       Some (icaldurationtype_from_int (- 93784),
         \<lparr>icalerrno = ICAL_NO_ERROR, icalerror_errors_are_fatal = 0, error_state_map = []\<rparr>))"
  by (rule duration_text_inverse) simp_all

text \<open>C26: \<open>icaltime_add\<close> moves a normal date-time by the seconds of the duration, forward or backward,
  and gives a normal time.\<close>

theorem add_moves_by_duration:
  assumes "normal_time t" "is_date t = 0" "is_neg d = 0 \<or> is_neg d = 1" "dur_secs d < 2 ^ 31 - 60"
  shows "ical_secs (icaltime_add t d) = ical_secs t + icaldurationtype_as_int d \<and> normal_time (icaltime_add t d)"
  using icaltime_add_secs [OF assms] by blast

theorem add_moves_by_duration_witness:
  "ical_secs (icaltime_add (plain_time 2007 11 1 12 0 0) (icaldurationtype_null_duration\<lparr>is_neg := 1, days := 31, hours := 13\<rparr>)) =
     ical_secs (plain_time 2007 11 1 12 0 0) +
     icaldurationtype_as_int (icaldurationtype_null_duration\<lparr>is_neg := 1, days := 31, hours := 13\<rparr>) \<and>
   normal_time (icaltime_add (plain_time 2007 11 1 12 0 0) (icaldurationtype_null_duration\<lparr>is_neg := 1, days := 31, hours := 13\<rparr>))"
  by (rule add_moves_by_duration [OF november_normal])
    (simp_all add: icaldurationtype_null_duration_def dur_secs_def)

text \<open>C25: Between 1970 and 17 January 2038 the difference of two date-times that share their zone,
  added to the second, gives the first.\<close>

theorem add_of_subtract:
  assumes "epoch_time t1" "epoch_time t2" "is_utc t1 = is_utc t2" "zone t1 = zone t2" "is_daylight t1 = is_daylight t2"
  shows "icaltime_add t2 (icaltime_subtract t1 t2) = t1"
  by (rule add_subtract [OF assms])

theorem add_of_subtract_witness:
  "icaltime_add (plain_time 1970 1 1 0 0 0) (icaltime_subtract (plain_time 2007 11 1 12 0 0) (plain_time 1970 1 1 0 0 0)) =
     plain_time 2007 11 1 12 0 0"
  by (rule add_of_subtract)
    (simp_all add: epoch_time_def normal_time_def normal_date_def icaltime_days_in_month_def days_in_month_table_def)

text \<open>C27: Reading the text of a period gives the period again, with an end or with a duration, and
  leaves the error number and the error table as they were.\<close>

theorem period_text_inverse:
  assumes "printable_period p" "distinct (map fst (error_state_map es))"
    "listed (error_state_map es) ICAL_MALFORMEDDATA_ERROR"
  shows "\<exists>b. icalperiodtype_as_ical_string_r p = Some b \<and> sb_ok b \<and>
    icalperiodtype_from_string (sb_text b) es = Some (p, es)"
  using as_ical_string_period [OF assms(1)] from_string_period_text [OF assms] by auto

definition sample_period :: icalperiodtype where
  "sample_period = \<lparr>p_start = plain_time 2007 11 1 12 0 0, p_end = icaltime_null_time,
     p_duration = icaldurationtype_null_duration\<lparr>days := 1\<rparr>\<rparr>"

theorem period_text_inverse_witness:
  "\<exists>b. icalperiodtype_as_ical_string_r sample_period = Some b \<and> sb_ok b \<and>
    icalperiodtype_from_string (sb_text b)
      \<lparr>icalerrno = ICAL_NO_ERROR, icalerror_errors_are_fatal = 1, error_state_map = error_state_map_init\<rparr> =
    Some (sample_period, \<lparr>icalerrno = ICAL_NO_ERROR, icalerror_errors_are_fatal = 1, error_state_map = error_state_map_init\<rparr>)"
proof (rule period_text_inverse)
  have s: "dur_secs (icaldurationtype_null_duration\<lparr>days := 1\<rparr>) = 86400"
    by (simp add: dur_secs_def icaldurationtype_null_duration_def)
  have i: "icaldurationtype_as_int (icaldurationtype_null_duration\<lparr>days := 1\<rparr>) = 86400"
    using as_int_secs [of "icaldurationtype_null_duration\<lparr>days := 1\<rparr>"] s
    by (simp add: dur_sign_def icaldurationtype_null_duration_def)
  have l: "length (dur_text (icaldurationtype_null_duration\<lparr>days := 1\<rparr>)) = 3"
    using i by (simp add: dur_text_def segment_def icaldurationtype_null_duration_def fmt_d_def nat_str.simps)
  show "printable_period sample_period"
    by (simp add: printable_period_def sample_period_def printable_time_def printable_date_def
        icaltime_is_null_time_def printable_dur_def s i l)
      (simp add: icaldurationtype_null_duration_def icaltime_null_time_def)
qed (simp_all add: error_state_map_init_def)

end
