(* ===== verification/IcalRecur.thy ===== *)
theory IcalRecur
  imports IcalTime IcalMemory
begin

text \<open>
  Recurrence rules, the first half of \<^verbatim>\<open>icalrecur.c\<close>: the rule structure, the encoding of
  weekdays with a position, the sorting of the BYDAY list, the parser and the printer of
  the RECUR text.

  A \<open>BY\<close> list is an array of shorts of a fixed size that is terminated by
  \<open>ICAL_RECURRENCE_ARRAY_MAX\<close> unless it is full. The model keeps the array's contents up
  to some point from which on it holds only terminators: the list \<open>a\<close> with size \<open>n\<close> is the
  array \<open>a @ replicate (n - length a) ICAL_RECURRENCE_ARRAY_MAX\<close>, so every contents of the
  array is represented, the cleared array as \<open>[]\<close>. Reading or writing behind the size gives
  \<open>None\<close>.
\<close>

section \<open>Enumerations\<close>

datatype icalrecurrencetype_frequency =
    ICAL_SECONDLY_RECURRENCE | ICAL_MINUTELY_RECURRENCE | ICAL_HOURLY_RECURRENCE
  | ICAL_DAILY_RECURRENCE | ICAL_WEEKLY_RECURRENCE | ICAL_MONTHLY_RECURRENCE
  | ICAL_YEARLY_RECURRENCE | ICAL_NO_RECURRENCE

datatype icalrecurrencetype_weekday =
    ICAL_NO_WEEKDAY | ICAL_SUNDAY_WEEKDAY | ICAL_MONDAY_WEEKDAY | ICAL_TUESDAY_WEEKDAY
  | ICAL_WEDNESDAY_WEEKDAY | ICAL_THURSDAY_WEEKDAY | ICAL_FRIDAY_WEEKDAY | ICAL_SATURDAY_WEEKDAY

definition weekdays :: "icalrecurrencetype_weekday list" where
  "weekdays = [ICAL_NO_WEEKDAY, ICAL_SUNDAY_WEEKDAY, ICAL_MONDAY_WEEKDAY, ICAL_TUESDAY_WEEKDAY,
     ICAL_WEDNESDAY_WEEKDAY, ICAL_THURSDAY_WEEKDAY, ICAL_FRIDAY_WEEKDAY, ICAL_SATURDAY_WEEKDAY]"

text \<open>The number of a weekday in arithmetic, and the cast of a number from 0 to 7.\<close>

fun wd_num :: "icalrecurrencetype_weekday \<Rightarrow> int" where
  "wd_num ICAL_NO_WEEKDAY = 0"
| "wd_num ICAL_SUNDAY_WEEKDAY = 1"
| "wd_num ICAL_MONDAY_WEEKDAY = 2"
| "wd_num ICAL_TUESDAY_WEEKDAY = 3"
| "wd_num ICAL_WEDNESDAY_WEEKDAY = 4"
| "wd_num ICAL_THURSDAY_WEEKDAY = 5"
| "wd_num ICAL_FRIDAY_WEEKDAY = 6"
| "wd_num ICAL_SATURDAY_WEEKDAY = 7"

definition wd_of :: "int \<Rightarrow> icalrecurrencetype_weekday" where
  "wd_of n = weekdays ! nat n"

definition wd_map :: "(icalrecurrencetype_weekday \<times> string) list" where
  "wd_map =
     [(ICAL_SUNDAY_WEEKDAY, ''SU''), (ICAL_MONDAY_WEEKDAY, ''MO''), (ICAL_TUESDAY_WEEKDAY, ''TU''),
      (ICAL_WEDNESDAY_WEEKDAY, ''WE''), (ICAL_THURSDAY_WEEKDAY, ''TH''),
      (ICAL_FRIDAY_WEEKDAY, ''FR''), (ICAL_SATURDAY_WEEKDAY, ''SA'')]"

definition freq_map :: "(icalrecurrencetype_frequency \<times> string) list" where
  "freq_map =
     [(ICAL_SECONDLY_RECURRENCE, ''SECONDLY''), (ICAL_MINUTELY_RECURRENCE, ''MINUTELY''),
      (ICAL_HOURLY_RECURRENCE, ''HOURLY''), (ICAL_DAILY_RECURRENCE, ''DAILY''),
      (ICAL_WEEKLY_RECURRENCE, ''WEEKLY''), (ICAL_MONTHLY_RECURRENCE, ''MONTHLY''),
      (ICAL_YEARLY_RECURRENCE, ''YEARLY'')]"

text \<open>The loops over the tables: the first entry with the key, or with the text.\<close>

definition icalrecur_weekday_to_string :: "icalrecurrencetype_weekday \<Rightarrow> string option" where
  "icalrecur_weekday_to_string kind = map_option snd (List.find (\<lambda>e. fst e = kind) wd_map)"

definition icalrecur_string_to_weekday :: "string \<Rightarrow> icalrecurrencetype_weekday" where
  "icalrecur_string_to_weekday str =
     (case List.find (\<lambda>e. strcaseeq str (snd e)) wd_map of None \<Rightarrow> ICAL_NO_WEEKDAY | Some e \<Rightarrow> fst e)"

definition icalrecur_freq_to_string :: "icalrecurrencetype_frequency \<Rightarrow> string option" where
  "icalrecur_freq_to_string kind = map_option snd (List.find (\<lambda>e. fst e = kind) freq_map)"

definition icalrecur_string_to_freq :: "string \<Rightarrow> icalrecurrencetype_frequency" where
  "icalrecur_string_to_freq str =
     (case List.find (\<lambda>e. strcaseeq str (snd e)) freq_map of None \<Rightarrow> ICAL_NO_RECURRENCE | Some e \<Rightarrow> fst e)"

section \<open>Weekdays with a position\<close>

definition icalrecurrencetype_day_day_of_week :: "int \<Rightarrow> icalrecurrencetype_weekday" where
  "icalrecurrencetype_day_day_of_week v = wd_of (c_mod \<bar>v\<bar> 8)"

definition icalrecurrencetype_day_position :: "int \<Rightarrow> int" where
  "icalrecurrencetype_day_position v =
     (let wd = wd_num (icalrecurrencetype_day_day_of_week v)
      in c_div (\<bar>v\<bar> - wd) 8 * (if v < 0 then - 1 else 1))"

section \<open>The rule\<close>

definition ICAL_RECURRENCE_ARRAY_MAX :: int where
  "ICAL_RECURRENCE_ARRAY_MAX = 0x7f7f"

record icalrecurrencetype =
  r_freq :: icalrecurrencetype_frequency
  r_until :: icaltimetype
  r_count :: int
  r_interval :: int
  r_week_start :: icalrecurrencetype_weekday
  by_second :: "int list"
  by_minute :: "int list"
  by_hour :: "int list"
  by_day :: "int list"
  by_month_day :: "int list"
  by_year_day :: "int list"
  by_week_no :: "int list"
  by_month :: "int list"
  by_set_pos :: "int list"

definition ICAL_BY_SECOND_SIZE :: nat where "ICAL_BY_SECOND_SIZE = 61"
definition ICAL_BY_MINUTE_SIZE :: nat where "ICAL_BY_MINUTE_SIZE = 61"
definition ICAL_BY_HOUR_SIZE :: nat where "ICAL_BY_HOUR_SIZE = 25"
definition ICAL_BY_DAY_SIZE :: nat where "ICAL_BY_DAY_SIZE = 364"
definition ICAL_BY_MONTHDAY_SIZE :: nat where "ICAL_BY_MONTHDAY_SIZE = 32"
definition ICAL_BY_YEARDAY_SIZE :: nat where "ICAL_BY_YEARDAY_SIZE = 367"
definition ICAL_BY_WEEKNO_SIZE :: nat where "ICAL_BY_WEEKNO_SIZE = 54"
definition ICAL_BY_MONTH_SIZE :: nat where "ICAL_BY_MONTH_SIZE = 13"
definition ICAL_BY_SETPOS_SIZE :: nat where "ICAL_BY_SETPOS_SIZE = 367"

lemmas by_sizes = ICAL_BY_SECOND_SIZE_def ICAL_BY_MINUTE_SIZE_def ICAL_BY_HOUR_SIZE_def
  ICAL_BY_DAY_SIZE_def ICAL_BY_MONTHDAY_SIZE_def ICAL_BY_YEARDAY_SIZE_def
  ICAL_BY_WEEKNO_SIZE_def ICAL_BY_MONTH_SIZE_def ICAL_BY_SETPOS_SIZE_def

definition icalrecurrencetype_clear :: icalrecurrencetype where
  "icalrecurrencetype_clear =
     \<lparr>r_freq = ICAL_NO_RECURRENCE, r_until = icaltime_null_time, r_count = 0, r_interval = 1,
      r_week_start = ICAL_MONDAY_WEEKDAY, by_second = [], by_minute = [], by_hour = [],
      by_day = [], by_month_day = [], by_year_day = [], by_week_no = [], by_month = [],
      by_set_pos = []\<rparr>"

section \<open>Arrays of shorts\<close>

definition arr_get :: "nat \<Rightarrow> int list \<Rightarrow> nat \<Rightarrow> int option" where
  "arr_get n a i =
     (if i < n then Some (if i < length a then a ! i else ICAL_RECURRENCE_ARRAY_MAX) else None)"

definition arr_put :: "nat \<Rightarrow> int list \<Rightarrow> nat \<Rightarrow> int \<Rightarrow> int list option" where
  "arr_put n a i v =
     (if i < n then Some (take i (a @ replicate (i - length a) ICAL_RECURRENCE_ARRAY_MAX) @ v # drop (Suc i) a)
      else None)"

text \<open>The cells from the start up to the first one of the padding, if the array has padding.\<close>

definition cells :: "nat \<Rightarrow> int list \<Rightarrow> int list" where
  "cells n a = (if length a < n then a @ [ICAL_RECURRENCE_ARRAY_MAX] else take n a)"

text \<open>
  The loop over an array up to its terminator, which folds a step over the values and runs
  off the array's end if there is no terminator; and the loop that stops at the first value
  with a property.
\<close>

fun each_cell :: "(int \<Rightarrow> 'a \<Rightarrow> 'a option) \<Rightarrow> int list \<Rightarrow> 'a \<Rightarrow> 'a option" where
  "each_cell f [] acc = None"
| "each_cell f (v # cs) acc =
     (if v = ICAL_RECURRENCE_ARRAY_MAX then Some acc
      else case f v acc of None \<Rightarrow> None | Some acc1 \<Rightarrow> each_cell f cs acc1)"

fun find_cell :: "(int \<Rightarrow> bool option) \<Rightarrow> int list \<Rightarrow> bool option" where
  "find_cell P [] = None"
| "find_cell P (v # cs) =
     (if v = ICAL_RECURRENCE_ARRAY_MAX then Some False
      else case P v of None \<Rightarrow> None | Some b \<Rightarrow> (if b then Some True else find_cell P cs))"

text \<open>The values before the terminator.\<close>

definition entries :: "int list \<Rightarrow> int list" where
  "entries a = takeWhile (\<lambda>v. v \<noteq> ICAL_RECURRENCE_ARRAY_MAX) a"

section \<open>Parsing\<close>

text \<open>
  The parser's copy of the text is cut at the semicolons by writing NUL over them; the two
  pointers into it are the clause at hand and the text that follows it.
\<close>

record icalrecur_parser =
  this_clause :: "string option"
  next_clause :: "string option"
  rt :: icalrecurrencetype

definition icalrecur_first_clause :: "string \<Rightarrow> icalrecur_parser \<Rightarrow> icalrecur_parser" where
  "icalrecur_first_clause copy parser =
     (let (clause, rest) = split_chr (CHR '';'') copy
      in parser\<lparr>this_clause := Some clause, next_clause := rest\<rparr>)"

definition icalrecur_next_clause :: "icalrecur_parser \<Rightarrow> icalrecur_parser" where
  "icalrecur_next_clause parser =
     (case next_clause parser of
        None \<Rightarrow> parser\<lparr>this_clause := None\<rparr>
      | Some s \<Rightarrow> (let (clause, rest) = split_chr (CHR '';'') s
                    in parser\<lparr>this_clause := Some clause, next_clause := rest\<rparr>))"

definition icalrecur_clause_name_and_value :: "string \<Rightarrow> (string \<times> string) option" where
  "icalrecur_clause_name_and_value clause =
     (case split_chr (CHR ''='') clause of (_, None) \<Rightarrow> None | (name, Some val) \<Rightarrow> Some (name, val))"

text \<open>The optional sign before a value.\<close>

definition take_sign :: "string \<Rightarrow> int \<times> string" where
  "take_sign t =
     (case t of [] \<Rightarrow> (1, [])
      | c # cs \<Rightarrow> if c = CHR ''-'' then (- 1, cs) else if c = CHR ''+'' then (1, cs) else (1, t))"

text \<open>
  The values are stored with a terminator after each. The check against the size comes
  before the value, so the terminator after the last value that fits is written behind the
  array.
\<close>

function add_byrules_loop :: "nat \<Rightarrow> int list \<Rightarrow> nat \<Rightarrow> string option \<Rightarrow> int list option" where
  "add_byrules_loop sz array i None = Some array"
| "add_byrules_loop sz array i (Some n) =
     (if i = sz then Some array
      else
        let (t, n1) = split_chr (CHR '','') n;
            (sign, t1) = take_sign t;
            v = atoi t1 * sign
        in do {
          a1 \<leftarrow> arr_put sz array i (to_short v);
          a2 \<leftarrow> arr_put sz a1 (Suc i) ICAL_RECURRENCE_ARRAY_MAX;
          add_byrules_loop sz a2 (Suc i) n1 })"
  by pat_completeness auto
termination
  by (relation "measure (\<lambda>(sz, array, i, n). case n of None \<Rightarrow> 0 | Some s \<Rightarrow> Suc (length s))")
    (auto split: option.splits dest: split_chr_shorter [OF sym])

definition icalrecur_add_byrules :: "int list \<Rightarrow> nat \<Rightarrow> string \<Rightarrow> int list option" where
  "icalrecur_add_byrules array sz vals = add_byrules_loop sz array 0 (Some vals)"

text \<open>The position of a day in the week that starts at \<open>week_start\<close>.\<close>

definition day_rank :: "icalrecurrencetype_weekday \<Rightarrow> int \<Rightarrow> int" where
  "day_rank week_start v =
     (let one = wd_num (icalrecurrencetype_day_day_of_week v) - wd_num week_start
      in if one < 0 then one + 7 else one)"

function sort_inner :: "icalrecurrencetype_weekday \<Rightarrow> int list \<Rightarrow> nat \<Rightarrow> nat \<Rightarrow> int list" where
  "sort_inner ws array i j =
     (if j < i then
        (if day_rank ws (array ! j) > day_rank ws (array ! i)
         then sort_inner ws (array[j := array ! i, i := array ! j]) i (Suc j)
         else sort_inner ws array i (Suc j))
      else array)"
  by pat_completeness auto
termination
  by (relation "measure (\<lambda>(ws, array, i, j). i - j)") auto

text \<open>The loop ends at the terminator or at the array's size, whichever comes first.\<close>

function sort_outer :: "icalrecurrencetype_weekday \<Rightarrow> int list \<Rightarrow> nat \<Rightarrow> int list" where
  "sort_outer ws array i =
     (if i < ICAL_BY_DAY_SIZE \<and> i < length array \<and> array ! i \<noteq> ICAL_RECURRENCE_ARRAY_MAX
      then sort_outer ws (sort_inner ws array i 0) (Suc i)
      else array)"
  by pat_completeness auto
termination
  by (relation "measure (\<lambda>(ws, array, i). ICAL_BY_DAY_SIZE - i)") auto

declare sort_inner.simps [simp del] sort_outer.simps [simp del]

definition sort_bydayrules :: "icalrecurrencetype \<Rightarrow> icalrecurrencetype" where
  "sort_bydayrules r = r\<lparr>by_day := sort_outer (r_week_start r) (by_day r) 0\<rparr>"

text \<open>One value of a BYDAY list: sign, week number, an optional space, the weekday.\<close>

definition byday_value :: "string \<Rightarrow> int" where
  "byday_value t =
     (let (sign, t1) = take_sign t;
          (w, t2) = strtol t1;
          weekno = to_int32 w;
          t3 = (case t2 of c # cs \<Rightarrow> if c = CHR '' '' then cs else t2 | [] \<Rightarrow> [])
      in to_short (sign * (wd_num (icalrecur_string_to_weekday t3) + 8 * weekno)))"

function add_bydayrules_loop :: "int list \<Rightarrow> nat \<Rightarrow> string option \<Rightarrow> int list option" where
  "add_bydayrules_loop array i None = Some array"
| "add_bydayrules_loop array i (Some n) =
     (let (t, n1) = split_chr (CHR '','') n
      in do {
        a1 \<leftarrow> arr_put ICAL_BY_DAY_SIZE array i (byday_value t);
        a2 \<leftarrow> arr_put ICAL_BY_DAY_SIZE a1 (Suc i) ICAL_RECURRENCE_ARRAY_MAX;
        add_bydayrules_loop a2 (Suc i) n1 })"
  by pat_completeness auto
termination
  by (relation "measure (\<lambda>(array, i, n). case n of None \<Rightarrow> 0 | Some s \<Rightarrow> Suc (length s))")
    (auto split: option.splits dest: split_chr_shorter [OF sym])

definition icalrecur_add_bydayrules :: "string \<Rightarrow> icalrecurrencetype \<Rightarrow> icalrecurrencetype option" where
  "icalrecur_add_bydayrules vals r =
     map_option (\<lambda>a. sort_bydayrules (r\<lparr>by_day := a\<rparr>)) (add_bydayrules_loop (by_day r) 0 (Some vals))"

text \<open>One clause: the rule with its value stored, or no rule if the name is unknown.\<close>

definition recur_clause ::
    "string \<Rightarrow> string \<Rightarrow> icalrecurrencetype \<Rightarrow> icalerror_state
       \<Rightarrow> (icalrecurrencetype option \<times> icalerror_state) option" where
  "recur_clause name val r es =
     (if strcaseeq name ''FREQ'' then Some (Some (r\<lparr>r_freq := icalrecur_string_to_freq val\<rparr>), es)
      else if strcaseeq name ''COUNT'' then Some (Some (r\<lparr>r_count := atoi val\<rparr>), es)
      else if strcaseeq name ''UNTIL'' then
        map_option (\<lambda>(t, es1). (Some (r\<lparr>r_until := t\<rparr>), es1)) (icaltime_from_string val es)
      else if strcaseeq name ''INTERVAL'' then Some (Some (r\<lparr>r_interval := to_short (atoi val)\<rparr>), es)
      else if strcaseeq name ''WKST'' then
        Some (Some (sort_bydayrules (r\<lparr>r_week_start := icalrecur_string_to_weekday val\<rparr>)), es)
      else if strcaseeq name ''BYSECOND'' then
        map_option (\<lambda>a. (Some (r\<lparr>by_second := a\<rparr>), es)) (icalrecur_add_byrules (by_second r) ICAL_BY_SECOND_SIZE val)
      else if strcaseeq name ''BYMINUTE'' then
        map_option (\<lambda>a. (Some (r\<lparr>by_minute := a\<rparr>), es)) (icalrecur_add_byrules (by_minute r) ICAL_BY_MINUTE_SIZE val)
      else if strcaseeq name ''BYHOUR'' then
        map_option (\<lambda>a. (Some (r\<lparr>by_hour := a\<rparr>), es)) (icalrecur_add_byrules (by_hour r) ICAL_BY_HOUR_SIZE val)
      else if strcaseeq name ''BYDAY'' then
        map_option (\<lambda>r1. (Some r1, es)) (icalrecur_add_bydayrules val r)
      else if strcaseeq name ''BYMONTHDAY'' then
        map_option (\<lambda>a. (Some (r\<lparr>by_month_day := a\<rparr>), es)) (icalrecur_add_byrules (by_month_day r) ICAL_BY_MONTHDAY_SIZE val)
      else if strcaseeq name ''BYYEARDAY'' then
        map_option (\<lambda>a. (Some (r\<lparr>by_year_day := a\<rparr>), es)) (icalrecur_add_byrules (by_year_day r) ICAL_BY_YEARDAY_SIZE val)
      else if strcaseeq name ''BYWEEKNO'' then
        map_option (\<lambda>a. (Some (r\<lparr>by_week_no := a\<rparr>), es)) (icalrecur_add_byrules (by_week_no r) ICAL_BY_WEEKNO_SIZE val)
      else if strcaseeq name ''BYMONTH'' then
        map_option (\<lambda>a. (Some (r\<lparr>by_month := a\<rparr>), es)) (icalrecur_add_byrules (by_month r) ICAL_BY_MONTH_SIZE val)
      else if strcaseeq name ''BYSETPOS'' then
        map_option (\<lambda>a. (Some (r\<lparr>by_set_pos := a\<rparr>), es)) (icalrecur_add_byrules (by_set_pos r) ICAL_BY_SETPOS_SIZE val)
      else Some (None, es))"

definition malformed_rule :: "icalerror_state \<Rightarrow> (icalrecurrencetype \<times> icalerror_state) option" where
  "malformed_rule es =
     map_option (\<lambda>es1. (icalrecurrencetype_clear, es1)) (icalerror_set_errno ICAL_MALFORMEDDATA_ERROR es)"

function recur_clauses ::
    "icalrecur_parser \<Rightarrow> icalerror_state \<Rightarrow> (icalrecurrencetype \<times> icalerror_state) option" where
  "recur_clauses parser es =
     (case this_clause parser of
        None \<Rightarrow> Some (rt parser, es)
      | Some clause \<Rightarrow>
          (case icalrecur_clause_name_and_value clause of
             None \<Rightarrow> malformed_rule es
           | Some (name, val) \<Rightarrow>
               (case recur_clause name val (rt parser) es of
                  None \<Rightarrow> None
                | Some (None, es1) \<Rightarrow> malformed_rule es1
                | Some (Some r, es1) \<Rightarrow> recur_clauses (icalrecur_next_clause (parser\<lparr>rt := r\<rparr>)) es1)))"
  by pat_completeness auto
termination
  by (relation "measure (\<lambda>(p, es). case this_clause p of None \<Rightarrow> 0
        | Some _ \<Rightarrow> Suc (case next_clause p of None \<Rightarrow> 0 | Some s \<Rightarrow> Suc (length s)))")
    (auto simp: icalrecur_next_clause_def split: option.splits prod.splits dest: split_chr_shorter)

declare recur_clauses.simps [simp del]

definition icalrecurrencetype_from_string ::
    "string \<Rightarrow> icalerror_state \<Rightarrow> (icalrecurrencetype \<times> icalerror_state) option" where
  "icalrecurrencetype_from_string str es =
     (let parser = \<lparr>this_clause = None, next_clause = None, rt = icalrecurrencetype_clear\<rparr>
      in recur_clauses (icalrecur_first_clause str parser) es)"

section \<open>Printing\<close>

text \<open>The time printers of \<^verbatim>\<open>icalvalue.c\<close>, which cut at eight, seven and six characters.\<close>

definition print_time_to_string :: "icaltimetype \<Rightarrow> string" where
  "print_time_to_string t =
     (if icaltime_is_utc t \<noteq> 0
      then take 7 (take 19 (fmt_0d 2 (hour t) @ fmt_0d 2 (minute t) @ fmt_0d 2 (second t) @ ''Z''))
      else take 6 (take 19 (fmt_0d 2 (hour t) @ fmt_0d 2 (minute t) @ fmt_0d 2 (second t))))"

definition print_date_to_string :: "icaltimetype \<Rightarrow> string" where
  "print_date_to_string t = take 8 (take 19 (fmt_0d 4 (year t) @ fmt_0d 2 (month t) @ fmt_0d 2 (day t)))"

definition print_datetime_to_string :: "icaltimetype \<Rightarrow> string" where
  "print_datetime_to_string t =
     (if is_date t = 0 then print_date_to_string t @ ''T'' @ print_time_to_string t else print_date_to_string t)"

text \<open>
  The output buffer with the error state, which a null text passed to
  \<open>icalmemory_append_string\<close> sets.
\<close>

type_synonym writer = "sbuf \<times> icalerror_state"

definition put_text :: "string option \<Rightarrow> writer \<Rightarrow> writer option" where
  "put_text so w =
     (case so of
        None \<Rightarrow> map_option (\<lambda>es. (fst w, es)) (icalerror_set_errno ICAL_BADARG_ERROR (snd w))
      | Some s \<Rightarrow> map_option (\<lambda>b. (b, snd w)) (icalmemory_append_string (fst w) s))"

definition put_char :: "char \<Rightarrow> writer \<Rightarrow> writer option" where
  "put_char c w = map_option (\<lambda>b. (b, snd w)) (icalmemory_append_char (fst w) c)"

text \<open>A value with a position is printed with its weekday's name, which must not be null there.\<close>

definition put_value :: "bool \<Rightarrow> int \<Rightarrow> writer \<Rightarrow> writer option" where
  "put_value is_day v w =
     (if is_day then
        let daystr = icalrecur_weekday_to_string (icalrecurrencetype_day_day_of_week v);
            pos = icalrecurrencetype_day_position v
        in if pos = 0 then put_text daystr w
           else case daystr of None \<Rightarrow> None | Some s \<Rightarrow> put_text (Some (take 19 (fmt_d pos @ s))) w
      else put_text (Some (fmt_d v)) w)"

function put_values :: "bool \<Rightarrow> nat \<Rightarrow> int list \<Rightarrow> nat \<Rightarrow> writer \<Rightarrow> writer option" where
  "put_values is_day limit array i w =
     (if i < limit \<and> i < length array \<and> array ! i \<noteq> ICAL_RECURRENCE_ARRAY_MAX then do {
        w1 \<leftarrow> put_value is_day (array ! i) w;
        w2 \<leftarrow> (if Suc i < limit \<and> Suc i < length array \<and> array ! Suc i \<noteq> ICAL_RECURRENCE_ARRAY_MAX
               then put_char (CHR '','') w1 else Some w1);
        put_values is_day limit array (Suc i) w2 }
      else Some w)"
  by pat_completeness auto
termination
  by (relation "measure (\<lambda>(is_day, limit, array, i, w). limit - i)") auto

declare put_values.simps [simp del]

definition recurmap :: "(string \<times> (icalrecurrencetype \<Rightarrow> int list) \<times> nat) list" where
  "recurmap =
     [('';BYSECOND='', by_second, ICAL_BY_SECOND_SIZE - 1),
      ('';BYMINUTE='', by_minute, ICAL_BY_MINUTE_SIZE - 1),
      ('';BYHOUR='', by_hour, ICAL_BY_HOUR_SIZE - 1),
      ('';BYDAY='', by_day, ICAL_BY_DAY_SIZE - 1),
      ('';BYMONTHDAY='', by_month_day, ICAL_BY_MONTHDAY_SIZE - 1),
      ('';BYYEARDAY='', by_year_day, ICAL_BY_YEARDAY_SIZE - 1),
      ('';BYWEEKNO='', by_week_no, ICAL_BY_WEEKNO_SIZE - 1),
      ('';BYMONTH='', by_month, ICAL_BY_MONTH_SIZE - 1),
      ('';BYSETPOS='', by_set_pos, ICAL_BY_SETPOS_SIZE - 1)]"

fun put_arrays ::
    "nat \<Rightarrow> (string \<times> (icalrecurrencetype \<Rightarrow> int list) \<times> nat) list \<Rightarrow> icalrecurrencetype
       \<Rightarrow> writer \<Rightarrow> writer option" where
  "put_arrays j [] r w = Some w"
| "put_arrays j ((str, array, limit) # m) r w = do {
     w1 \<leftarrow> (if array r \<noteq> [] \<and> hd (array r) \<noteq> ICAL_RECURRENCE_ARRAY_MAX
            then Option.bind (put_text (Some str) w) (put_values (j = 3) limit (array r) 0)
            else Some w);
     put_arrays (Suc j) m r w1 }"

definition put_until :: "icalrecurrencetype \<Rightarrow> writer \<Rightarrow> writer option" where
  "put_until r w =
     (if year (r_until r) \<noteq> 0 then
        let temp = (if is_date (r_until r) \<noteq> 0 then print_date_to_string (r_until r)
                    else print_datetime_to_string (r_until r))
        in Option.bind (put_text (Some '';UNTIL='') w) (put_text (Some temp))
      else Some w)"

definition put_count :: "icalrecurrencetype \<Rightarrow> writer \<Rightarrow> writer option" where
  "put_count r w =
     (if r_count r \<noteq> 0 then Option.bind (put_text (Some '';COUNT='') w) (put_text (Some (fmt_d (r_count r))))
      else Some w)"

definition put_interval :: "icalrecurrencetype \<Rightarrow> writer \<Rightarrow> writer option" where
  "put_interval r w =
     (if r_interval r \<noteq> 1
      then Option.bind (put_text (Some '';INTERVAL='') w) (put_text (Some (fmt_d (r_interval r))))
      else Some w)"

definition put_wkst :: "icalrecurrencetype \<Rightarrow> writer \<Rightarrow> writer option" where
  "put_wkst r w =
     (if r_week_start r \<noteq> ICAL_MONDAY_WEEKDAY \<and> r_week_start r \<noteq> ICAL_NO_WEEKDAY then
        let daystr = icalrecur_weekday_to_string (icalrecurrencetype_day_day_of_week (wd_num (r_week_start r)))
        in Option.bind (put_text (Some '';WKST='') w) (put_text daystr)
      else Some w)"

text \<open>No text is the null pointer that a rule without a frequency gives.\<close>

definition icalrecurrencetype_as_string_r ::
    "icalrecurrencetype \<Rightarrow> icalerror_state \<Rightarrow> (sbuf option \<times> icalerror_state) option" where
  "icalrecurrencetype_as_string_r r es =
     (if r_freq r = ICAL_NO_RECURRENCE then Some (None, es)
      else do {
        w1 \<leftarrow> put_text (Some ''FREQ='') (icalmemory_new_buffer 200, es);
        w2 \<leftarrow> put_text (icalrecur_freq_to_string (r_freq r)) w1;
        w3 \<leftarrow> put_until r w2;
        w4 \<leftarrow> put_count r w3;
        w5 \<leftarrow> put_interval r w4;
        w6 \<leftarrow> put_arrays 0 recurmap r w5;
        w7 \<leftarrow> put_wkst r w6;
        Some (Some (fst w7), snd w7) })"

end
