(* ===== verification/RecurText.thy ===== *)
theory RecurText
  imports IcalRecur IcalPeriod "HOL-Library.Multiset"
begin

text \<open>
  Laws of the rule structure: the encoding of weekdays with a position, the tables of names,
  the sorting of the BYDAY list, and the round trip of a rule through its text.
\<close>

section \<open>Weekdays with a position\<close>

definition day_code :: "icalrecurrencetype_weekday \<Rightarrow> int \<Rightarrow> int" where
  "day_code w p = (if p < 0 then - (wd_num w + 8 * (- p)) else wd_num w + 8 * p)"

lemma wd_num_range: "0 \<le> wd_num w \<and> wd_num w \<le> 7"
  by (cases w) simp_all

lemma wd_of_num [simp]: "wd_of (wd_num w) = w"
  by (cases w) (simp_all add: wd_of_def weekdays_def)

lemma wd_num_of: "0 \<le> n \<Longrightarrow> n \<le> 7 \<Longrightarrow> wd_num (wd_of n) = n"
proof -
  assume "0 \<le> n" "n \<le> 7"
  then have "n = 0 \<or> n = 1 \<or> n = 2 \<or> n = 3 \<or> n = 4 \<or> n = 5 \<or> n = 6 \<or> n = 7" by arith
  then show ?thesis by (elim disjE) (simp_all add: wd_of_def weekdays_def)
qed

lemma wd_num_inj: "wd_num w = wd_num w' \<Longrightarrow> w = w'"
  by (metis wd_of_num)

lemma abs_day_code: "\<bar>day_code w p\<bar> = wd_num w + 8 * \<bar>p\<bar>"
  using wd_num_range [of w] by (auto simp: day_code_def)

lemma day_code_dow: "icalrecurrencetype_day_day_of_week (day_code w p) = w"
proof -
  have "c_mod \<bar>day_code w p\<bar> 8 = wd_num w"
    using wd_num_range [of w] by (simp add: abs_day_code c_mod_nonneg)
  then show ?thesis by (simp add: icalrecurrencetype_day_day_of_week_def)
qed

lemma day_code_position: "icalrecurrencetype_day_position (day_code w p) = p"
proof -
  have "c_div (\<bar>day_code w p\<bar> - wd_num w) 8 = \<bar>p\<bar>"
    by (simp add: abs_day_code c_div_nonneg)
  moreover have "day_code w p < 0 \<longleftrightarrow> p < 0"
    using wd_num_range [of w] by (auto simp: day_code_def)
  ultimately show ?thesis by (simp add: icalrecurrencetype_day_position_def day_code_dow)
qed

lemma dow_num: "wd_num (icalrecurrencetype_day_day_of_week v) = \<bar>v\<bar> mod 8"
  by (simp add: icalrecurrencetype_day_day_of_week_def c_mod_nonneg wd_num_of)

lemma position_eq: "icalrecurrencetype_day_position v = (\<bar>v\<bar> div 8) * (if v < 0 then - 1 else 1)"
proof -
  have "\<bar>v\<bar> - \<bar>v\<bar> mod 8 = 8 * (\<bar>v\<bar> div 8)" by (rule minus_mod_eq_mult_div)
  then show ?thesis by (simp add: icalrecurrencetype_day_position_def dow_num c_div_nonneg)
qed

lemma day_code_of:
  assumes "0 \<le> v \<or> v \<le> - 8"
  shows "day_code (icalrecurrencetype_day_day_of_week v) (icalrecurrencetype_day_position v) = v"
proof -
  define q where "q = \<bar>v\<bar> div 8"
  define m where "m = \<bar>v\<bar> mod 8"
  have v: "\<bar>v\<bar> = 8 * q + m" "0 \<le> m" "m < 8" by (simp_all add: q_def m_def)
  have "q > 0" if "v < 0"
  proof -
    have "8 \<le> \<bar>v\<bar>" using assms that by linarith
    then show ?thesis using v by linarith
  qed
  then show ?thesis using v assms unfolding day_code_def dow_num position_eq q_def [symmetric] m_def [symmetric] by auto
qed

section \<open>The tables of names\<close>

lemma weekday_text: "w \<noteq> ICAL_NO_WEEKDAY \<Longrightarrow>
    \<exists>s. icalrecur_weekday_to_string w = Some s \<and> icalrecur_string_to_weekday s = w \<and> length s = 2 \<and>
      nul_free s \<and> (\<forall>c \<in> set s. 65 \<le> (of_char c :: nat) \<and> (of_char c :: nat) \<le> 90)"
  by (cases w) (simp_all add: icalrecur_weekday_to_string_def wd_map_def icalrecur_string_to_weekday_def
      strcaseeq_def to_lower_def)

lemma freq_text: "f \<noteq> ICAL_NO_RECURRENCE \<Longrightarrow>
    \<exists>s. icalrecur_freq_to_string f = Some s \<and> icalrecur_string_to_freq s = f \<and>
      nul_free s \<and> CHR '';'' \<notin> set s"
  by (cases f) (simp_all add: icalrecur_freq_to_string_def freq_map_def icalrecur_string_to_freq_def
      strcaseeq_def to_lower_def)

definition weekday_name :: "icalrecurrencetype_weekday \<Rightarrow> string" where
  "weekday_name w = the (icalrecur_weekday_to_string w)"

definition freq_name :: "icalrecurrencetype_frequency \<Rightarrow> string" where
  "freq_name f = the (icalrecur_freq_to_string f)"

lemma weekday_name:
  assumes "w \<noteq> ICAL_NO_WEEKDAY"
  shows "icalrecur_weekday_to_string w = Some (weekday_name w)"
    "icalrecur_string_to_weekday (weekday_name w) = w" "length (weekday_name w) = 2"
    "nul_free (weekday_name w)" "\<forall>c \<in> set (weekday_name w). 65 \<le> (of_char c :: nat) \<and> (of_char c :: nat) \<le> 90"
  using weekday_text [OF assms] by (auto simp: weekday_name_def)

lemma freq_name:
  assumes "f \<noteq> ICAL_NO_RECURRENCE"
  shows "icalrecur_freq_to_string f = Some (freq_name f)" "icalrecur_string_to_freq (freq_name f) = f"
    "nul_free (freq_name f)" "CHR '';'' \<notin> set (freq_name f)"
  using freq_text [OF assms] by (auto simp: freq_name_def)

section \<open>Sorting the BYDAY list\<close>

lemma sort_inner_steps:
  "\<not> j < i \<Longrightarrow> sort_inner ws a i j = a"
  "j < i \<Longrightarrow> day_rank ws (a ! i) < day_rank ws (a ! j) \<Longrightarrow>
    sort_inner ws a i j = sort_inner ws (a[j := a ! i, i := a ! j]) i (Suc j)"
  "j < i \<Longrightarrow> \<not> day_rank ws (a ! i) < day_rank ws (a ! j) \<Longrightarrow>
    sort_inner ws a i j = sort_inner ws a i (Suc j)"
  by (subst sort_inner.simps; simp)+

lemma sort_inner_append:
  "i < length e \<Longrightarrow> j \<le> i \<Longrightarrow> sort_inner ws (e @ r) i j = sort_inner ws e i j @ r"
proof (induction ws e i j rule: sort_inner.induct)
  case (1 ws e i j)
  show ?case
  proof (cases "j < i")
    case True
    with 1 show ?thesis
      by (cases "day_rank ws (e ! i) < day_rank ws (e ! j)")
        (simp_all add: sort_inner_steps(2,3) nth_append list_update_append)
  qed (simp add: sort_inner_steps(1))
qed

text \<open>The inner loop puts the element at \<open>i\<close> into the sorted part before it.\<close>

lemma sort_inner_spec:
  assumes "i < length a" "j \<le> i"
    and "\<And>p q. p < q \<Longrightarrow> q < i \<Longrightarrow> day_rank ws (a ! p) \<le> day_rank ws (a ! q)"
    and "\<And>p. p < j \<Longrightarrow> day_rank ws (a ! p) \<le> day_rank ws (a ! i)"
  shows "mset (sort_inner ws a i j) = mset a \<and>
    (\<forall>p q. p < q \<longrightarrow> q \<le> i \<longrightarrow> day_rank ws (sort_inner ws a i j ! p) \<le> day_rank ws (sort_inner ws a i j ! q))"
  using assms
proof (induction ws a i j rule: sort_inner.induct)
  case (1 ws a i j)
  let ?f = "day_rank ws"
  show ?case
  proof (cases "j < i")
    case False
    with "1.prems" have "j = i" by simp
    with "1.prems" show ?thesis by (auto simp: sort_inner_steps(1) le_less)
  next
    case True
    show ?thesis
    proof (cases "?f (a ! j) > ?f (a ! i)")
      case False
      have "?f (a ! p) \<le> ?f (a ! i)" if "p < Suc j" for p
        using that False "1.prems"(4) [of p] by (cases "p = j") auto
      from "1.IH"(2) [OF True False "1.prems"(1) _ "1.prems"(3) this] True False
      show ?thesis by (simp add: sort_inner_steps(3))
    next
      case swap: True
      let ?b = "a[j := a ! i, i := a ! j]"
      have "?f (?b ! p) \<le> ?f (?b ! q)" if pq: "p < q" "q < i" for p q
      proof -
        have "?f (a ! p) \<le> ?f (a ! q)" using pq by (rule "1.prems"(3))
        moreover have "?f (a ! j) \<le> ?f (a ! q)" if "j < q" using that pq(2) by (rule "1.prems"(3))
        moreover have "?f (a ! p) \<le> ?f (a ! i)" if "q = j" using that pq(1) "1.prems"(4) by simp
        ultimately show ?thesis using pq swap True "1.prems"(1) by (auto simp: nth_list_update)
      qed
      moreover have "?f (?b ! p) \<le> ?f (?b ! i)" if "p < Suc j" for p
        using that True swap "1.prems"(1) "1.prems"(3) [of p j] by (cases "p = j") (auto simp: nth_list_update)
      ultimately have "mset (sort_inner ws ?b i (Suc j)) = mset ?b \<and>
          (\<forall>p q. p < q \<longrightarrow> q \<le> i \<longrightarrow> ?f (sort_inner ws ?b i (Suc j) ! p) \<le> ?f (sort_inner ws ?b i (Suc j) ! q))"
        using "1.prems"(1) True by (intro "1.IH"(1) [OF True swap]) simp_all
      moreover have "mset ?b = mset a" using "1.prems"(1) True by (intro mset_swap) simp_all
      moreover have "sort_inner ws a i j = sort_inner ws ?b i (Suc j)"
        using True swap by (simp add: sort_inner_steps(2))
      ultimately show ?thesis by simp
    qed
  qed
qed

definition plain_entries :: "int list \<Rightarrow> bool" where
  "plain_entries e \<longleftrightarrow> ICAL_RECURRENCE_ARRAY_MAX \<notin> set e"

definition at_end :: "int list \<Rightarrow> bool" where
  "at_end r \<longleftrightarrow> r = [] \<or> hd r = ICAL_RECURRENCE_ARRAY_MAX"

lemma entries_split: "\<exists>r. a = entries a @ r \<and> at_end r"
  unfolding entries_def at_end_def
  by (rule exI [of _ "dropWhile (\<lambda>v. v \<noteq> ICAL_RECURRENCE_ARRAY_MAX) a"])
    (use hd_dropWhile [of "\<lambda>v. v \<noteq> ICAL_RECURRENCE_ARRAY_MAX" a] in auto)

lemma entries_append: "plain_entries e \<Longrightarrow> at_end r \<Longrightarrow> entries (e @ r) = e"
  unfolding entries_def plain_entries_def at_end_def
  by (subst takeWhile_append2) (auto simp: takeWhile_eq_Nil_iff)

lemma plain_entries_entries [simp]: "plain_entries (entries a)"
  by (auto simp: plain_entries_def entries_def dest: set_takeWhileD)

lemma sort_outer_steps:
  "at_end r \<Longrightarrow> sort_outer ws (e @ r) (length e) = e @ r"
  "i < length e \<Longrightarrow> length e \<le> ICAL_BY_DAY_SIZE \<Longrightarrow> plain_entries e \<Longrightarrow>
    sort_outer ws (e @ r) i = sort_outer ws (sort_inner ws e i 0 @ r) (Suc i)"
proof -
  show "at_end r \<Longrightarrow> sort_outer ws (e @ r) (length e) = e @ r"
    by (subst sort_outer.simps) (auto simp: at_end_def nth_append hd_conv_nth)
  show "sort_outer ws (e @ r) i = sort_outer ws (sort_inner ws e i 0 @ r) (Suc i)"
    if "i < length e" "length e \<le> ICAL_BY_DAY_SIZE" "plain_entries e"
  proof -
    have "e ! i \<noteq> ICAL_RECURRENCE_ARRAY_MAX" using that by (metis plain_entries_def nth_mem)
    then show ?thesis
      using that by (subst sort_outer.simps) (simp add: nth_append sort_inner_append)
  qed
qed

lemma sort_outer_spec:
  assumes "plain_entries e" "at_end r" "length e \<le> ICAL_BY_DAY_SIZE" "i \<le> length e"
    and "\<And>p q. p < q \<Longrightarrow> q < i \<Longrightarrow> day_rank ws (e ! p) \<le> day_rank ws (e ! q)"
  shows "\<exists>e'. sort_outer ws (e @ r) i = e' @ r \<and> mset e' = mset e \<and> sorted (map (day_rank ws) e')"
  using assms
proof (induction "length e - i" arbitrary: e i)
  case 0
  then have i: "i = length e" by simp
  then show ?case using 0 by (auto simp: sort_outer_steps(1) sorted_iff_nth_mono_less)
next
  case (Suc k)
  then have i: "i < length e" by simp
  let ?e = "sort_inner ws e i 0"
  have sp: "mset ?e = mset e"
    "\<And>p q. p < q \<Longrightarrow> q \<le> i \<Longrightarrow> day_rank ws (?e ! p) \<le> day_rank ws (?e ! q)"
    using sort_inner_spec [OF i _ Suc.prems(5), of 0] by simp_all
  have len: "length ?e = length e" using sp(1) by (metis size_mset)
  have step: "sort_outer ws (e @ r) i = sort_outer ws (?e @ r) (Suc i)"
    using i Suc.prems(3,1) by (rule sort_outer_steps(2))
  have "\<exists>e'. sort_outer ws (?e @ r) (Suc i) = e' @ r \<and> mset e' = mset ?e \<and> sorted (map (day_rank ws) e')"
  proof (rule Suc.hyps(1))
    show "plain_entries ?e" using Suc.prems(1) sp(1) by (metis plain_entries_def set_mset_mset)
  qed (use Suc len sp(2) i in auto)
  with step sp(1) show ?case by simp
qed

lemma sort_outer_entries:
  assumes "length (entries a) \<le> ICAL_BY_DAY_SIZE"
  shows "mset (entries (sort_outer ws a 0)) = mset (entries a) \<and>
    sorted (map (day_rank ws) (entries (sort_outer ws a 0)))"
proof -
  obtain r where r: "a = entries a @ r" "at_end r" using entries_split by blast
  obtain e' where e': "sort_outer ws (entries a @ r) 0 = e' @ r" "mset e' = mset (entries a)"
    "sorted (map (day_rank ws) e')"
    using sort_outer_spec [OF plain_entries_entries r(2) assms, of 0 ws] by auto
  have "plain_entries e'" using e'(2) plain_entries_entries [of a] by (metis plain_entries_def set_mset_mset)
  then show ?thesis using e' r by (metis entries_append)
qed

text \<open>
  The text of a rule: what the printer writes for a printable rule, and that the parser
  reads it back, clause by clause.
\<close>

section \<open>The text of a rule\<close>

fun commas :: "string list \<Rightarrow> string" where
  "commas [] = []"
| "commas [s] = s"
| "commas (s # t # ts) = s @ CHR '','' # commas (t # ts)"

definition value_text :: "bool \<Rightarrow> int \<Rightarrow> string" where
  "value_text is_day v =
     (if is_day then
        let p = icalrecurrencetype_day_position v;
            name = weekday_name (icalrecurrencetype_day_day_of_week v)
        in if p = 0 then name else fmt_d p @ name
      else fmt_d v)"

text \<open>A clause is a name with a value; an absent one is left out.\<close>

type_synonym clause = "string \<times> string"

definition array_clause :: "bool \<Rightarrow> string \<Rightarrow> int list \<Rightarrow> clause list" where
  "array_clause is_day name a =
     (if entries a = [] then [] else [(name, commas (map (value_text is_day) (entries a)))])"

definition until_clause :: "icalrecurrencetype \<Rightarrow> clause list" where
  "until_clause r = (if year (r_until r) \<noteq> 0 then [(''UNTIL'', time_text (r_until r))] else [])"

definition count_clause :: "icalrecurrencetype \<Rightarrow> clause list" where
  "count_clause r = (if r_count r \<noteq> 0 then [(''COUNT'', fmt_d (r_count r))] else [])"

definition interval_clause :: "icalrecurrencetype \<Rightarrow> clause list" where
  "interval_clause r = (if r_interval r \<noteq> 1 then [(''INTERVAL'', fmt_d (r_interval r))] else [])"

definition wkst_clause :: "icalrecurrencetype \<Rightarrow> clause list" where
  "wkst_clause r =
     (if r_week_start r \<noteq> ICAL_MONDAY_WEEKDAY then [(''WKST'', weekday_name (r_week_start r))] else [])"

definition rule_arrays :: "icalrecurrencetype \<Rightarrow> clause list" where
  "rule_arrays r =
     array_clause False ''BYSECOND'' (by_second r) @ array_clause False ''BYMINUTE'' (by_minute r) @
     array_clause False ''BYHOUR'' (by_hour r) @ array_clause True ''BYDAY'' (by_day r) @
     array_clause False ''BYMONTHDAY'' (by_month_day r) @ array_clause False ''BYYEARDAY'' (by_year_day r) @
     array_clause False ''BYWEEKNO'' (by_week_no r) @ array_clause False ''BYMONTH'' (by_month r) @
     array_clause False ''BYSETPOS'' (by_set_pos r)"

definition rule_clauses :: "icalrecurrencetype \<Rightarrow> clause list" where
  "rule_clauses r = until_clause r @ count_clause r @ interval_clause r @ rule_arrays r @ wkst_clause r"

definition clause_str :: "clause \<Rightarrow> string" where
  "clause_str c = fst c @ CHR ''='' # snd c"

definition clauses_str :: "clause list \<Rightarrow> string" where
  "clauses_str cs = concat (map (\<lambda>c. CHR '';'' # clause_str c) cs)"

definition recur_text :: "icalrecurrencetype \<Rightarrow> string" where
  "recur_text r = clause_str (''FREQ'', freq_name (r_freq r)) @ clauses_str (rule_clauses r)"

lemma clauses_str_simps [simp]:
  "clauses_str [] = []" "clauses_str (c # cs) = CHR '';'' # clause_str c @ clauses_str cs"
  "clauses_str (cs @ ds) = clauses_str cs @ clauses_str ds"
  by (simp_all add: clauses_str_def)

section \<open>Printable rules\<close>

text \<open>
  The entries of every list leave room for the terminator and are shorts; entries of BYDAY
  have a weekday, and a position if they are negative.
\<close>

definition array_printable :: "nat \<Rightarrow> int list \<Rightarrow> bool" where
  "array_printable n a \<longleftrightarrow> length (entries a) < n \<and> (\<forall>v \<in> set (entries a). - (2 ^ 15) < v \<and> v < 2 ^ 15)"

definition day_printable :: "int \<Rightarrow> bool" where
  "day_printable v \<longleftrightarrow> (0 \<le> v \<or> v \<le> - 8) \<and> icalrecurrencetype_day_day_of_week v \<noteq> ICAL_NO_WEEKDAY"

definition printable_rule :: "icalrecurrencetype \<Rightarrow> bool" where
  "printable_rule r \<longleftrightarrow> r_freq r \<noteq> ICAL_NO_RECURRENCE \<and>
     (r_until r = icaltime_null_time \<or> year (r_until r) \<noteq> 0 \<and> printable_time (r_until r)) \<and>
     (0 \<le> r_count r \<and> r_count r < 2 ^ 31) \<and> (0 \<le> r_interval r \<and> r_interval r < 2 ^ 15) \<and>
     r_week_start r \<noteq> ICAL_NO_WEEKDAY \<and>
     array_printable ICAL_BY_SECOND_SIZE (by_second r) \<and> array_printable ICAL_BY_MINUTE_SIZE (by_minute r) \<and>
     array_printable ICAL_BY_HOUR_SIZE (by_hour r) \<and>
     (array_printable ICAL_BY_DAY_SIZE (by_day r) \<and> (\<forall>v \<in> set (entries (by_day r)). day_printable v)) \<and>
     array_printable ICAL_BY_MONTHDAY_SIZE (by_month_day r) \<and>
     array_printable ICAL_BY_YEARDAY_SIZE (by_year_day r) \<and>
     array_printable ICAL_BY_WEEKNO_SIZE (by_week_no r) \<and>
     array_printable ICAL_BY_MONTH_SIZE (by_month r) \<and> array_printable ICAL_BY_SETPOS_SIZE (by_set_pos r)"

section \<open>The printer writes the text\<close>

text \<open>The writer with an error state that stays as it is.\<close>

interpretation rw: string_writer "\<lambda>w. sb_text (fst w)" "\<lambda>w. sb_ok (fst w) \<and> snd w = es"
    "\<lambda>w s. put_text (Some s) w" "\<lambda>w c. put_char c w" for es :: icalerror_state
proof unfold_locales
  fix w :: writer and s
  assume "sb_ok (fst w) \<and> snd w = es" and s: "nul_free s"
  then show "\<exists>b'. put_text (Some s) w = Some b' \<and> (sb_ok (fst b') \<and> snd b' = es) \<and>
      sb_text (fst b') = sb_text (fst w) @ s"
    using append_string_law [OF _ s, of "fst w"] by (auto simp: put_text_def)
next
  fix w :: writer and c
  assume "sb_ok (fst w) \<and> snd w = es" and c: "c \<noteq> NUL"
  then show "\<exists>b'. put_char c w = Some b' \<and> (sb_ok (fst b') \<and> snd b' = es) \<and>
      sb_text (fst b') = sb_text (fst w) @ [c]"
    using append_char_law [OF _ c, of "fst w"] by (auto simp: put_char_def)
qed

lemma length_fmt_d: "\<bar>v\<bar> < 10 ^ w \<Longrightarrow> 0 < w \<Longrightarrow> length (fmt_d v) \<le> Suc w"
  using length_nat_str [of w "nat \<bar>v\<bar>"] by (auto simp: fmt_d_def nat_less_iff)

lemma value_text_nul_free: "day_printable v \<or> \<not> is_day \<Longrightarrow> nul_free (value_text is_day v)"
  using weekday_name(4) [of "icalrecurrencetype_day_day_of_week v"]
  by (auto simp: value_text_def Let_def day_printable_def)

lemma writes_value:
  assumes "- (2 ^ 15) < v" "v < 2 ^ 15" "day_printable v \<or> \<not> is_day"
  shows "rw.writes es (put_value is_day v) (value_text is_day v)"
proof (cases is_day)
  case False
  then show ?thesis
    using rw.writesI [of "fmt_d v" es] by (simp add: put_value_def [abs_def] value_text_def)
next
  case True
  let ?w = "icalrecurrencetype_day_day_of_week v" and ?p = "icalrecurrencetype_day_position v"
  have "?w \<noteq> ICAL_NO_WEEKDAY" using True assms(3) by (simp add: day_printable_def)
  note name = weekday_name [OF this]
  have "\<bar>v\<bar> div 8 \<le> \<bar>v\<bar>" "0 \<le> \<bar>v\<bar> div 8" by presburger+
  then have "\<bar>?p\<bar> \<le> \<bar>v\<bar>" by (cases "v < 0") (simp_all add: position_eq)
  then have "length (fmt_d ?p) \<le> Suc 5" using assms(1,2) by (intro length_fmt_d) auto
  then have "take 19 (fmt_d ?p @ weekday_name ?w) = fmt_d ?p @ weekday_name ?w"
    using name(3) by simp
  then show ?thesis
    using True name rw.writesI [of "weekday_name ?w" es] rw.writesI [of "fmt_d ?p @ weekday_name ?w" es]
    by (simp add: put_value_def [abs_def] value_text_def Let_def)
qed

lemma commas_Cons: "commas (s # ts) = s @ (if ts = [] then [] else CHR '','' # commas ts)"
  by (cases ts) simp_all

lemma at_end_nth: "at_end r \<Longrightarrow> k = length e \<Longrightarrow> k < length (e @ r) \<Longrightarrow> (e @ r) ! k = ICAL_RECURRENCE_ARRAY_MAX"
  by (cases r) (auto simp: at_end_def)

lemma put_values_steps:
  assumes "plain_entries e" "at_end r" "length e \<le> limit"
  shows "put_values is_day limit (e @ r) (length e) w = Some w"
    "i < length e \<Longrightarrow> put_values is_day limit (e @ r) i w =
       Option.bind (Option.bind (put_value is_day (e ! i) w)
          (\<lambda>w1. if Suc i < length e then put_char (CHR '','') w1 else Some w1))
        (put_values is_day limit (e @ r) (Suc i))"
proof -
  show "put_values is_day limit (e @ r) (length e) w = Some w"
    using assms(2) by (subst put_values.simps) (auto simp: at_end_def nth_append hd_conv_nth)
  assume i: "i < length e"
  have ne: "e ! k \<noteq> ICAL_RECURRENCE_ARRAY_MAX" if "k < length e" for k
    using that assms(1) by (metis plain_entries_def nth_mem)
  have "(Suc i < limit \<and> Suc i < length (e @ r) \<and> (e @ r) ! Suc i \<noteq> ICAL_RECURRENCE_ARRAY_MAX) = (Suc i < length e)"
    using at_end_nth [OF assms(2), of "Suc i" e] assms(3) i ne [of "Suc i"]
    by (cases "Suc i < length e") (auto simp: nth_append)
  then show "put_values is_day limit (e @ r) i w =
       Option.bind (Option.bind (put_value is_day (e ! i) w)
          (\<lambda>w1. if Suc i < length e then put_char (CHR '','') w1 else Some w1))
        (put_values is_day limit (e @ r) (Suc i))"
    using i assms(3) ne [OF i] by (subst put_values.simps) (simp add: nth_append)
qed

lemma writes_values:
  assumes "plain_entries e" "at_end r" "length e \<le> limit" "i \<le> length e"
    and "\<And>v. v \<in> set e \<Longrightarrow> - (2 ^ 15) < v \<and> v < 2 ^ 15 \<and> (day_printable v \<or> \<not> is_day)"
  shows "rw.writes es (put_values is_day limit (e @ r) i) (commas (map (value_text is_day) (drop i e)))"
  using assms(4)
proof (induction "length e - i" arbitrary: i)
  case 0
  then have "put_values is_day limit (e @ r) i = Some"
    using put_values_steps(1) [OF assms(1-3)] by (auto simp: fun_eq_iff)
  then show ?case using 0 rw.writes_skip by simp
next
  case (Suc k)
  then have i: "i < length e" by simp
  let ?t = "if Suc i < length e then [CHR '','' ] else []"
  have "rw.writes es (\<lambda>w. if Suc i < length e then put_char (CHR '','') w else Some w) ?t"
    using rw.writes_char [of "CHR '',''" es] rw.writes_skip [of es] by (simp add: NUL_iff)
  from rw.writes_seq [OF rw.writes_seq [OF writes_value this] Suc.hyps(1)]
  have "rw.writes es (\<lambda>w. Option.bind (Option.bind (put_value is_day (e ! i) w)
          (\<lambda>w1. if Suc i < length e then put_char (CHR '','') w1 else Some w1))
        (put_values is_day limit (e @ r) (Suc i)))
      ((value_text is_day (e ! i) @ ?t) @ commas (map (value_text is_day) (drop (Suc i) e)))"
    using assms(5) [of "e ! i"] i Suc.hyps(2) by simp
  moreover have "commas (map (value_text is_day) (drop i e)) =
      (value_text is_day (e ! i) @ ?t) @ commas (map (value_text is_day) (drop (Suc i) e))"
    using i by (simp add: Cons_nth_drop_Suc [symmetric] commas_Cons)
  moreover have "put_values is_day limit (e @ r) i = (\<lambda>w. Option.bind (Option.bind (put_value is_day (e ! i) w)
          (\<lambda>w1. if Suc i < length e then put_char (CHR '','') w1 else Some w1))
        (put_values is_day limit (e @ r) (Suc i)))"
    using put_values_steps(2) [OF assms(1-3) i] by (simp add: fun_eq_iff)
  ultimately show ?case by simp
qed

text \<open>One entry of the map of arrays.\<close>

lemma writes_array:
  assumes "array_printable (Suc limit) (f r)" "is_day \<Longrightarrow> \<forall>v \<in> set (entries (f r)). day_printable v"
    and "nul_free name" and "(j = 3) = is_day"
    and rest: "rw.writes es (put_arrays (Suc j) m r) s"
  shows "rw.writes es (put_arrays j ((CHR '';'' # name @ ''='', f, limit) # m) r)
    (clauses_str (array_clause is_day name (f r)) @ s)"
proof -
  obtain t where t: "f r = entries (f r) @ t" "at_end t" using entries_split by blast
  have bounds: "\<And>v. v \<in> set (entries (f r)) \<Longrightarrow> - (2 ^ 15) < v \<and> v < 2 ^ 15 \<and> (day_printable v \<or> \<not> is_day)"
    and len: "length (entries (f r)) \<le> limit"
    using assms(1,2) by (auto simp: array_printable_def)
  have e: "(f r \<noteq> [] \<and> hd (f r) \<noteq> ICAL_RECURRENCE_ARRAY_MAX) = (entries (f r) \<noteq> [])"
    by (cases "f r") (auto simp: entries_def)
  have "rw.writes es (\<lambda>w. if entries (f r) \<noteq> []
        then Option.bind (put_text (Some (CHR '';'' # name @ ''='')) w) (put_values (j = 3) limit (f r) 0) else Some w)
      (clauses_str (array_clause is_day name (f r)))"
  proof (cases "entries (f r) = []")
    case True
    then show ?thesis using rw.writes_skip [of es] by (simp add: array_clause_def)
  next
    case False
    have "rw.writes es (put_values is_day limit (entries (f r) @ t) 0) (commas (map (value_text is_day) (drop 0 (entries (f r)))))"
      using bounds by (intro writes_values plain_entries_entries t(2) len) auto
    then have "rw.writes es (put_values (j = 3) limit (f r) 0) (commas (map (value_text is_day) (entries (f r))))"
      using t(1) assms(4) by simp
    from rw.writes_seq [OF rw.writesI this, of "CHR '';'' # name @ ''=''"] show ?thesis
      using False assms(3) by (simp add: array_clause_def clause_str_def)
  qed
  from rw.writes_seq [OF this rest] show ?thesis by (simp add: e [symmetric] rw.writes_def)
qed

end
