(* ===== verification/RecurRoundTrip.thy ===== *)
theory RecurRoundTrip
  imports RecurText
begin

text \<open>
  The parser on the text of a rule, and the round trip: the printed text of a printable rule
  is read back as the same rule, with the BYDAY list sorted by the days of the week.
\<close>

section \<open>The printer's output\<close>

lemma date_fields_length:
  assumes "printable_date t"
  shows "length (fmt_0d 4 (year t)) = 4" "length (fmt_0d 2 (month t)) = 2" "length (fmt_0d 2 (day t)) = 2"
  using assms by (simp_all add: printable_date_def fmt_0d_width)

lemma until_text:
  assumes "printable_time t"
  shows "(if is_date t \<noteq> 0 then print_date_to_string t else print_datetime_to_string t) = time_text t"
proof -
  have d: "printable_date t" using assms by (simp add: printable_time_def)
  have "length (fmt_0d 2 (hour t)) = 2 \<and> length (fmt_0d 2 (minute t)) = 2 \<and> length (fmt_0d 2 (second t)) = 2"
    if "is_date t = 0"
    using assms that by (auto simp: printable_time_def fmt_0d_width)
  then show ?thesis
    using date_fields_length [OF d]
    by (auto simp: print_date_to_string_def print_datetime_to_string_def print_time_to_string_def
        time_text_def icaltime_is_utc_def)
qed

lemma writes_until:
  assumes "printable_rule r"
  shows "rw.writes es (put_until r) (clauses_str (until_clause r))"
proof (cases "year (r_until r) = 0")
  case True
  then show ?thesis using rw.writes_skip [of es] by (simp add: put_until_def [abs_def] until_clause_def)
next
  case False
  then have t: "printable_time (r_until r)"
    using assms by (auto simp: printable_rule_def icaltime_null_time_def)
  have "rw.writes es (\<lambda>w. Option.bind (put_text (Some '';UNTIL='') w) (put_text (Some (time_text (r_until r)))))
     ('';UNTIL='' @ time_text (r_until r))"
    by (intro rw.writes_seq rw.writesI time_text_nul_free t) simp
  then show ?thesis
    using False until_text [OF t] by (simp add: put_until_def [abs_def] until_clause_def clause_str_def)
qed

lemma writes_count: "rw.writes es (put_count r) (clauses_str (count_clause r))"
  using rw.writes_skip [of es] rw.writes_seq [OF rw.writesI rw.writesI, of "'';COUNT=''" "fmt_d (r_count r)" es]
  by (simp add: put_count_def [abs_def] count_clause_def clause_str_def)

lemma writes_interval: "rw.writes es (put_interval r) (clauses_str (interval_clause r))"
  using rw.writes_skip [of es] rw.writes_seq [OF rw.writesI rw.writesI, of "'';INTERVAL=''" "fmt_d (r_interval r)" es]
  by (simp add: put_interval_def [abs_def] interval_clause_def clause_str_def)

lemma writes_wkst:
  assumes "r_week_start r \<noteq> ICAL_NO_WEEKDAY"
  shows "rw.writes es (put_wkst r) (clauses_str (wkst_clause r))"
proof -
  have d: "icalrecurrencetype_day_day_of_week (wd_num (r_week_start r)) = r_week_start r"
    using day_code_dow [of "r_week_start r" 0] by (simp add: day_code_def)
  show ?thesis
    using rw.writes_skip [of es] weekday_name [OF assms] assms
      rw.writes_seq [OF rw.writesI rw.writesI, of "'';WKST=''" "weekday_name (r_week_start r)" es]
    by (simp add: put_wkst_def [abs_def] wkst_clause_def clause_str_def d Let_def)
qed

lemma recurmap_names:
  "recurmap =
     [(CHR '';'' # ''BYSECOND'' @ ''='', by_second, ICAL_BY_SECOND_SIZE - 1),
      (CHR '';'' # ''BYMINUTE'' @ ''='', by_minute, ICAL_BY_MINUTE_SIZE - 1),
      (CHR '';'' # ''BYHOUR'' @ ''='', by_hour, ICAL_BY_HOUR_SIZE - 1),
      (CHR '';'' # ''BYDAY'' @ ''='', by_day, ICAL_BY_DAY_SIZE - 1),
      (CHR '';'' # ''BYMONTHDAY'' @ ''='', by_month_day, ICAL_BY_MONTHDAY_SIZE - 1),
      (CHR '';'' # ''BYYEARDAY'' @ ''='', by_year_day, ICAL_BY_YEARDAY_SIZE - 1),
      (CHR '';'' # ''BYWEEKNO'' @ ''='', by_week_no, ICAL_BY_WEEKNO_SIZE - 1),
      (CHR '';'' # ''BYMONTH'' @ ''='', by_month, ICAL_BY_MONTH_SIZE - 1),
      (CHR '';'' # ''BYSETPOS'' @ ''='', by_set_pos, ICAL_BY_SETPOS_SIZE - 1)]"
  by (simp add: recurmap_def)

lemma writes_arrays:
  assumes "printable_rule r"
  shows "rw.writes es (put_arrays 0 recurmap r) (clauses_str (rule_arrays r))"
proof -
  have z: "rw.writes es (put_arrays j [] r) []" for j
    using rw.writes_skip [of es] by (simp add: rw.writes_def)
  have "rw.writes es (put_arrays 0 recurmap r)
     (clauses_str (array_clause False ''BYSECOND'' (by_second r)) @
      clauses_str (array_clause False ''BYMINUTE'' (by_minute r)) @
      clauses_str (array_clause False ''BYHOUR'' (by_hour r)) @
      clauses_str (array_clause True ''BYDAY'' (by_day r)) @
      clauses_str (array_clause False ''BYMONTHDAY'' (by_month_day r)) @
      clauses_str (array_clause False ''BYYEARDAY'' (by_year_day r)) @
      clauses_str (array_clause False ''BYWEEKNO'' (by_week_no r)) @
      clauses_str (array_clause False ''BYMONTH'' (by_month r)) @
      clauses_str (array_clause False ''BYSETPOS'' (by_set_pos r)) @ [])"
    unfolding recurmap_names
    by (intro writes_array z) (use assms in \<open>simp_all add: printable_rule_def by_sizes\<close>)
  then show ?thesis by (simp add: rule_arrays_def)
qed

lemma as_string_recur_text:
  assumes "printable_rule r"
  shows "\<exists>b. icalrecurrencetype_as_string_r r es = Some (Some b, es) \<and> sb_ok b \<and> sb_text b = recur_text r"
proof -
  have f: "r_freq r \<noteq> ICAL_NO_RECURRENCE" and w: "r_week_start r \<noteq> ICAL_NO_WEEKDAY"
    using assms by (simp_all add: printable_rule_def)
  let ?F = "\<lambda>w. Option.bind (put_text (Some ''FREQ='') w) (\<lambda>w1.
      Option.bind (put_text (Some (freq_name (r_freq r))) w1) (\<lambda>w2.
      Option.bind (put_until r w2) (\<lambda>w3. Option.bind (put_count r w3) (\<lambda>w4.
      Option.bind (put_interval r w4) (\<lambda>w5. Option.bind (put_arrays 0 recurmap r w5) (put_wkst r))))))"
  have "rw.writes es ?F (''FREQ='' @ freq_name (r_freq r) @ clauses_str (until_clause r) @
      clauses_str (count_clause r) @ clauses_str (interval_clause r) @ clauses_str (rule_arrays r) @
      clauses_str (wkst_clause r))"
    by (intro rw.writes_seq rw.writesI writes_until writes_count writes_interval writes_arrays writes_wkst
        assms w freq_name(3) [OF f]) simp
  moreover have "sb_ok (fst (icalmemory_new_buffer 200, es)) \<and> snd (icalmemory_new_buffer 200, es) = es"
    and "sb_text (fst (icalmemory_new_buffer 200, es)) = []"
    using new_buffer_ok [of 200] by simp_all
  ultimately obtain w' where "?F (icalmemory_new_buffer 200, es) = Some w'" "sb_ok (fst w')" "snd w' = es"
    "sb_text (fst w') = recur_text r"
    using rw.writesD by (fastforce simp: recur_text_def rule_clauses_def clause_str_def)
  then show ?thesis
    using f freq_name(1) [OF f]
    by (auto simp: icalrecurrencetype_as_string_r_def split: bind_splits)
qed

section \<open>The parser, clause by clause\<close>

text \<open>What the clauses do to a rule, one after the other.\<close>

fun fold_clauses ::
    "clause list \<Rightarrow> icalrecurrencetype \<Rightarrow> icalerror_state \<Rightarrow> (icalrecurrencetype \<times> icalerror_state) option" where
  "fold_clauses [] r es = Some (r, es)"
| "fold_clauses ((name, val) # cs) r es =
     (case recur_clause name val r es of
        None \<Rightarrow> None
      | Some (None, es1) \<Rightarrow> malformed_rule es1
      | Some (Some r1, es1) \<Rightarrow> fold_clauses cs r1 es1)"

definition clean_clause :: "clause \<Rightarrow> bool" where
  "clean_clause c \<longleftrightarrow> CHR '';'' \<notin> set (fst c) \<and> CHR ''='' \<notin> set (fst c) \<and> CHR '';'' \<notin> set (snd c)"

lemma clause_name_value: "clean_clause c \<Longrightarrow> icalrecur_clause_name_and_value (clause_str c) = Some c"
  by (cases c) (simp add: icalrecur_clause_name_and_value_def clause_str_def clean_clause_def split_chr_first)

text \<open>The text behind the clause at hand.\<close>

definition rest_str :: "clause list \<Rightarrow> string option" where
  "rest_str cs = (case cs of [] \<Rightarrow> None | c # ds \<Rightarrow> Some (clause_str c @ clauses_str ds))"

lemma split_clause:
  "clean_clause c \<Longrightarrow> split_chr (CHR '';'') (clause_str c @ clauses_str cs) = (clause_str c, rest_str cs)"
  by (cases cs) (simp_all add: clause_str_def clean_clause_def split_chr_none split_chr_first rest_str_def
      split_chr_first [of _ "_ @ CHR ''='' # _", simplified])

lemma recur_clauses_fold:
  assumes "clean_clause c" "\<forall>d \<in> set cs. clean_clause d"
  shows "recur_clauses \<lparr>this_clause = Some (clause_str c), next_clause = rest_str cs, rt = r\<rparr> es =
    fold_clauses (c # cs) r es"
  using assms
proof (induction cs arbitrary: c r es)
  case Nil
  have stop: "recur_clauses \<lparr>this_clause = None, next_clause = None, rt = r1\<rparr> es1 = Some (r1, es1)" for r1 es1
    by (subst recur_clauses.simps) simp
  obtain name val where c: "c = (name, val)" by (cases c)
  show ?case
    using clause_name_value [OF Nil(1)] stop
    by (subst recur_clauses.simps)
      (auto simp: c rest_str_def icalrecur_next_clause_def split: option.splits prod.splits)
next
  case (Cons d ds)
  obtain name val where c: "c = (name, val)" by (cases c)
  have nxt: "recur_clauses (icalrecur_next_clause \<lparr>this_clause = Some (clause_str c),
        next_clause = rest_str (d # ds), rt = r1\<rparr>) es1 = fold_clauses (d # ds) r1 es1" for r1 es1
    using Cons split_clause [of d ds] by (simp add: icalrecur_next_clause_def rest_str_def)
  show ?case
    using clause_name_value [OF Cons.prems(1)] nxt
    by (subst recur_clauses.simps) (auto simp: c split: option.splits prod.splits)
qed

lemma from_string_fold:
  assumes "clean_clause c" "\<forall>d \<in> set cs. clean_clause d"
  shows "icalrecurrencetype_from_string (clause_str c @ clauses_str cs) es =
    fold_clauses (c # cs) icalrecurrencetype_clear es"
  using recur_clauses_fold [OF assms] split_clause [OF assms(1)]
  by (simp add: icalrecurrencetype_from_string_def icalrecur_first_clause_def)

section \<open>Values\<close>

lemma fmt_d_cases: "fmt_d v = (if v < 0 then CHR ''-'' # nat_str (nat (- v)) else nat_str (nat v))"
  by (simp add: fmt_d_def)

lemma nat_str_first: "\<exists>c cs. nat_str n = c # cs \<and> is_digit c"
  using nat_str_digits [of n] nat_str_nonempty [of n] by (cases "nat_str n") auto

lemma take_sign_digit: "is_digit c \<Longrightarrow> take_sign (c # cs) = (1, c # cs)"
  using digit_not_sign [of c] by (simp add: take_sign_def)

lemma take_sign_fmt_d:
  "take_sign (fmt_d v @ s) = (if v < 0 then (- 1, nat_str (nat (- v)) @ s) else (1, nat_str (nat v) @ s))"
proof -
  obtain c cs where "nat_str (nat v) = c # cs" "is_digit c" using nat_str_first by blast
  then have "take_sign (nat_str (nat v) @ s) = (1, nat_str (nat v) @ s)" by (simp add: take_sign_digit)
  then show ?thesis by (simp add: fmt_d_def take_sign_def)
qed

lemma atoi_nat_str: "n < 2 ^ 31 \<Longrightarrow> atoi (nat_str n) = int n"
  using scan_d_fmt_d [of "int n" "[]"] by (simp add: atoi_def fmt_d_def nat_less_iff)

lemma atoi_fmt_d: "0 \<le> v \<Longrightarrow> v < 2 ^ 31 \<Longrightarrow> atoi (fmt_d v) = v"
  using atoi_nat_str [of "nat v"] by (simp add: fmt_d_def nat_less_iff)

lemma fmt_d_chars: "c \<in> set (fmt_d v) \<Longrightarrow> is_digit c \<or> c = CHR ''-''"
  using nat_str_digits by (auto simp: fmt_d_def split: if_splits)

lemma digit_neq: "is_digit c \<Longrightarrow> c \<noteq> CHR '','' \<and> c \<noteq> CHR '';''"
  by (auto simp: is_digit_def)

lemma fmt_d_clean: "CHR '','' \<notin> set (fmt_d v)" "CHR '';'' \<notin> set (fmt_d v)"
  using fmt_d_chars digit_neq by fastforce+

text \<open>A list of values is stored from an index on, with one terminator behind it.\<close>

lemma arr_put_end:
  assumes "length x \<le> 1" "length a < n"
  shows "arr_put n (a @ x) (length a) v = Some (a @ [v])"
  using assms by (cases x) (simp_all add: arr_put_def)

lemma split_commas:
  "CHR '','' \<notin> set s \<Longrightarrow> split_chr (CHR '','') (commas (s # ts)) = (s, if ts = [] then None else Some (commas ts))"
  by (cases ts) (simp_all add: split_chr_none split_chr_first)

lemma add_byrules_commas:
  assumes "vs \<noteq> []" "\<forall>v \<in> set vs. - (2 ^ 15) < v \<and> v < 2 ^ 15" "length a + length vs < n" "length x \<le> 1"
  shows "add_byrules_loop n (a @ x) (length a) (Some (commas (map fmt_d vs))) =
    Some (a @ vs @ [ICAL_RECURRENCE_ARRAY_MAX])"
  using assms
proof (induction vs arbitrary: a x)
  case (Cons v vs)
  have v: "- (2 ^ 15) < v" "v < 2 ^ 15" using Cons.prems(2) by auto
  have val: "take_sign (fmt_d v) = (s, t) \<Longrightarrow> to_short (atoi t * s) = v" for s t
    using v atoi_nat_str [of "nat v"] atoi_nat_str [of "nat (- v)"] take_sign_fmt_d [of v "[]"] to_short_id [of v]
    by (auto split: if_splits)
  have p1: "arr_put n (a @ x) (length a) v = Some (a @ [v])"
    using Cons.prems by (intro arr_put_end) auto
  have p2: "arr_put n (a @ [v]) (Suc (length a)) ICAL_RECURRENCE_ARRAY_MAX = Some ((a @ [v]) @ [ICAL_RECURRENCE_ARRAY_MAX])"
    using arr_put_end [of "[]" "a @ [v]" n ICAL_RECURRENCE_ARRAY_MAX] Cons.prems by simp
  obtain s t where st: "take_sign (fmt_d v) = (s, t)" by fastforce
  have step: "add_byrules_loop n (a @ x) (length a) (Some (commas (map fmt_d (v # vs)))) =
      add_byrules_loop n ((a @ [v]) @ [ICAL_RECURRENCE_ARRAY_MAX]) (Suc (length a))
        (if vs = [] then None else Some (commas (map fmt_d vs)))"
    using Cons.prems(3) st val [OF st] p1 p2 split_commas [OF fmt_d_clean(1), of v "map fmt_d vs"] by simp
  show ?case
  proof (cases "vs = []")
    case True
    with step show ?thesis by simp
  next
    case False
    have "add_byrules_loop n ((a @ [v]) @ [ICAL_RECURRENCE_ARRAY_MAX]) (length (a @ [v])) (Some (commas (map fmt_d vs))) =
        Some ((a @ [v]) @ vs @ [ICAL_RECURRENCE_ARRAY_MAX])"
      using Cons.prems False by (intro Cons.IH) auto
    with step False show ?thesis by simp
  qed
qed simp

text \<open>With too many values a terminator is written behind the array.\<close>

lemma add_byrules_overflow:
  assumes "vs \<noteq> []" "\<forall>v \<in> set vs. - (2 ^ 15) < v \<and> v < 2 ^ 15" "length a < n" "n \<le> length a + length vs"
    "length x \<le> 1"
  shows "add_byrules_loop n (a @ x) (length a) (Some (commas (map fmt_d vs))) = None"
  using assms
proof (induction vs arbitrary: a x)
  case (Cons v vs)
  obtain s t where st: "take_sign (fmt_d v) = (s, t)" by fastforce
  let ?v = "to_short (atoi t * s)"
  have p1: "arr_put n (a @ x) (length a) ?v = Some (a @ [?v])"
    using Cons.prems by (intro arr_put_end) auto
  note sp = split_commas [OF fmt_d_clean(1), of v "map fmt_d vs"]
  show ?case
  proof (cases "Suc (length a) < n")
    case False
    then have "arr_put n (a @ [?v]) (Suc (length a)) ICAL_RECURRENCE_ARRAY_MAX = None" by (simp add: arr_put_def)
    then show ?thesis using Cons.prems(3) st p1 sp by simp
  next
    case True
    then have ne: "vs \<noteq> []" using Cons.prems(4) by auto
    have p2: "arr_put n (a @ [?v]) (Suc (length a)) ICAL_RECURRENCE_ARRAY_MAX =
        Some ((a @ [?v]) @ [ICAL_RECURRENCE_ARRAY_MAX])"
      using arr_put_end [of "[]" "a @ [?v]" n ICAL_RECURRENCE_ARRAY_MAX] True by simp
    have "add_byrules_loop n ((a @ [?v]) @ [ICAL_RECURRENCE_ARRAY_MAX]) (length (a @ [?v]))
        (Some (commas (map fmt_d vs))) = None"
      using Cons.prems True ne by (intro Cons.IH) auto
    then show ?thesis using Cons.prems(3) st p1 p2 sp ne by simp
  qed
qed simp

text \<open>A BYDAY value is read back.\<close>

lemma strtol_nat_str:
  assumes "n < 2 ^ 31" "s = [] \<or> \<not> is_digit (hd s)"
  shows "strtol (nat_str n @ s) = (int n, s)"
proof -
  have "scan_long (length (nat_str n @ s)) (nat_str n @ s) = Some (clamp_long (digits_val (nat_str n)), s)"
    using assms(2) by (intro scan_long_digits nat_str_digits) auto
  then show ?thesis using assms(1) by (simp add: strtol_def clamp_long_id)
qed

lemma letter_props: "65 \<le> (of_char c :: nat) \<Longrightarrow>
    \<not> is_digit c \<and> \<not> is_space c \<and> c \<noteq> CHR ''-'' \<and> c \<noteq> CHR ''+'' \<and> c \<noteq> CHR '' '' \<and> c \<noteq> CHR '','' \<and> c \<noteq> CHR '';''"
  by (auto simp: is_digit_def is_space_def)

lemma byday_value_text:
  assumes "- (2 ^ 15) < v" "v < 2 ^ 15" "day_printable v"
  shows "byday_value (value_text True v) = v"
proof -
  let ?w = "icalrecurrencetype_day_day_of_week v" and ?p = "icalrecurrencetype_day_position v"
  have w: "?w \<noteq> ICAL_NO_WEEKDAY" and code: "day_code ?w ?p = v"
    using assms(3) by (simp_all add: day_printable_def day_code_of)
  note name = weekday_name [OF w]
  obtain c cs where c: "weekday_name ?w = c # cs" "65 \<le> (of_char c :: nat)"
    using name(3,5) by (cases "weekday_name ?w") auto
  note letter = letter_props [OF c(2)]
  have "0 \<le> \<bar>v\<bar> div 8" "\<bar>v\<bar> div 8 < 2 ^ 15" using assms(1,2) by auto
  then have p: "\<bar>?p\<bar> < 2 ^ 15" by (cases "v < 0") (simp_all add: position_eq)
  have num: "strtol (nat_str n @ weekday_name ?w) = (int n, weekday_name ?w)" if "n < 2 ^ 31" for n
    using that letter c(1) by (intro strtol_nat_str) auto
  have none: "strtol (weekday_name ?w) = (0, weekday_name ?w)"
    using letter by (simp add: strtol_def scan_long_def c(1))
  have rest: "(case weekday_name ?w of [] \<Rightarrow> [] | d # ds \<Rightarrow> if d = CHR '' '' then ds else weekday_name ?w) = weekday_name ?w"
    using letter by (simp add: c(1))
  have short: "to_short (s * (wd_num ?w + 8 * q)) = v" if "s * (wd_num ?w + 8 * q) = v" for s q
    using that assms(1,2) to_short_id [of v] by simp
  show ?thesis
  proof (cases "?p = 0")
    case True
    then have "1 * (wd_num ?w + 8 * 0) = v" using code by (simp add: day_code_def)
    from short [OF this] show ?thesis
      using True none rest name(2) letter
      by (simp add: byday_value_def value_text_def Let_def take_sign_def c(1) to_int32_id)
  next
    case False
    have "(if ?p < 0 then - 1 else 1) * (wd_num ?w + 8 * \<bar>?p\<bar>) = v"
      using code False by (auto simp: day_code_def split: if_splits)
    from short [OF this] show ?thesis
      using False num [of "nat \<bar>?p\<bar>"] p rest name(2) take_sign_fmt_d [of ?p "weekday_name ?w"]
      by (auto simp: byday_value_def value_text_def Let_def to_int32_id nat_less_iff abs_if split: if_splits)
  qed
qed

text \<open>The printed text of a printable rule, read back clause by clause.\<close>

section \<open>BYDAY\<close>

lemma value_text_clean:
  assumes "day_printable v \<or> \<not> is_day"
  shows "CHR '','' \<notin> set (value_text is_day v)" "CHR '';'' \<notin> set (value_text is_day v)"
proof -
  have "\<forall>c \<in> set (value_text is_day v). c \<noteq> CHR '','' \<and> c \<noteq> CHR '';''"
    using assms fmt_d_clean weekday_name(5) [of "icalrecurrencetype_day_day_of_week v"] letter_props
    by (auto simp: value_text_def Let_def day_printable_def split: if_splits)
  then show "CHR '','' \<notin> set (value_text is_day v)" "CHR '';'' \<notin> set (value_text is_day v)" by auto
qed

lemma add_bydayrules_commas:
  assumes "vs \<noteq> []" "\<forall>v \<in> set vs. - (2 ^ 15) < v \<and> v < 2 ^ 15 \<and> day_printable v"
    and "length a + length vs < ICAL_BY_DAY_SIZE" "length x \<le> 1"
  shows "add_bydayrules_loop (a @ x) (length a) (Some (commas (map (value_text True) vs))) =
    Some (a @ vs @ [ICAL_RECURRENCE_ARRAY_MAX])"
  using assms
proof (induction vs arbitrary: a x)
  case (Cons v vs)
  have v: "- (2 ^ 15) < v" "v < 2 ^ 15" "day_printable v" using Cons.prems(2) by auto
  have p1: "arr_put ICAL_BY_DAY_SIZE (a @ x) (length a) v = Some (a @ [v])"
    using Cons.prems by (intro arr_put_end) auto
  have p2: "arr_put ICAL_BY_DAY_SIZE (a @ [v]) (Suc (length a)) ICAL_RECURRENCE_ARRAY_MAX =
      Some ((a @ [v]) @ [ICAL_RECURRENCE_ARRAY_MAX])"
    using arr_put_end [of "[]" "a @ [v]" ICAL_BY_DAY_SIZE ICAL_RECURRENCE_ARRAY_MAX] Cons.prems by simp
  have step: "add_bydayrules_loop (a @ x) (length a) (Some (commas (map (value_text True) (v # vs)))) =
      add_bydayrules_loop ((a @ [v]) @ [ICAL_RECURRENCE_ARRAY_MAX]) (Suc (length a))
        (if vs = [] then None else Some (commas (map (value_text True) vs)))"
    using p1 p2 byday_value_text [OF v] split_commas [OF value_text_clean(1), of v True "map (value_text True) vs"] v(3)
    by simp
  show ?case
  proof (cases "vs = []")
    case True
    with step show ?thesis by simp
  next
    case False
    have "add_bydayrules_loop ((a @ [v]) @ [ICAL_RECURRENCE_ARRAY_MAX]) (length (a @ [v]))
        (Some (commas (map (value_text True) vs))) = Some ((a @ [v]) @ vs @ [ICAL_RECURRENCE_ARRAY_MAX])"
      using Cons.prems False by (intro Cons.IH) auto
    with step False show ?thesis by simp
  qed
qed simp

section \<open>Every clause\<close>

text \<open>The array with the entries of another and one terminator.\<close>

definition canon :: "int list \<Rightarrow> int list" where
  "canon a = (if entries a = [] then [] else entries a @ [ICAL_RECURRENCE_ARRAY_MAX])"

lemma entries_canon [simp]: "entries (canon a) = entries a"
  using entries_append [OF plain_entries_entries, of "[ICAL_RECURRENCE_ARRAY_MAX]" a]
  by (auto simp: canon_def at_end_def) (simp add: entries_def)

lemma clause_names:
  "recur_clause ''UNTIL'' val r es = map_option (\<lambda>(t, es1). (Some (r\<lparr>r_until := t\<rparr>), es1)) (icaltime_from_string val es)"
  "recur_clause ''FREQ'' val r es = Some (Some (r\<lparr>r_freq := icalrecur_string_to_freq val\<rparr>), es)"
  "recur_clause ''COUNT'' val r es = Some (Some (r\<lparr>r_count := atoi val\<rparr>), es)"
  "recur_clause ''INTERVAL'' val r es = Some (Some (r\<lparr>r_interval := to_short (atoi val)\<rparr>), es)"
  "recur_clause ''WKST'' val r es =
     Some (Some (sort_bydayrules (r\<lparr>r_week_start := icalrecur_string_to_weekday val\<rparr>)), es)"
  "recur_clause ''BYSECOND'' val r es =
     map_option (\<lambda>a. (Some (r\<lparr>by_second := a\<rparr>), es)) (icalrecur_add_byrules (by_second r) ICAL_BY_SECOND_SIZE val)"
  "recur_clause ''BYMINUTE'' val r es =
     map_option (\<lambda>a. (Some (r\<lparr>by_minute := a\<rparr>), es)) (icalrecur_add_byrules (by_minute r) ICAL_BY_MINUTE_SIZE val)"
  "recur_clause ''BYHOUR'' val r es =
     map_option (\<lambda>a. (Some (r\<lparr>by_hour := a\<rparr>), es)) (icalrecur_add_byrules (by_hour r) ICAL_BY_HOUR_SIZE val)"
  "recur_clause ''BYDAY'' val r es = map_option (\<lambda>r1. (Some r1, es)) (icalrecur_add_bydayrules val r)"
  "recur_clause ''BYMONTHDAY'' val r es =
     map_option (\<lambda>a. (Some (r\<lparr>by_month_day := a\<rparr>), es)) (icalrecur_add_byrules (by_month_day r) ICAL_BY_MONTHDAY_SIZE val)"
  "recur_clause ''BYYEARDAY'' val r es =
     map_option (\<lambda>a. (Some (r\<lparr>by_year_day := a\<rparr>), es)) (icalrecur_add_byrules (by_year_day r) ICAL_BY_YEARDAY_SIZE val)"
  "recur_clause ''BYWEEKNO'' val r es =
     map_option (\<lambda>a. (Some (r\<lparr>by_week_no := a\<rparr>), es)) (icalrecur_add_byrules (by_week_no r) ICAL_BY_WEEKNO_SIZE val)"
  "recur_clause ''BYMONTH'' val r es =
     map_option (\<lambda>a. (Some (r\<lparr>by_month := a\<rparr>), es)) (icalrecur_add_byrules (by_month r) ICAL_BY_MONTH_SIZE val)"
  "recur_clause ''BYSETPOS'' val r es =
     map_option (\<lambda>a. (Some (r\<lparr>by_set_pos := a\<rparr>), es)) (icalrecur_add_byrules (by_set_pos r) ICAL_BY_SETPOS_SIZE val)"
  unfolding recur_clause_def strcaseeq_def to_lower_def by simp_all

lemma add_byrules_text:
  assumes "array_printable n a" "entries a \<noteq> []"
  shows "icalrecur_add_byrules [] n (commas (map (value_text False) (entries a))) = Some (canon a)"
proof -
  have "value_text False = fmt_d" by (simp add: fun_eq_iff value_text_def)
  then show ?thesis
    using add_byrules_commas [OF assms(2), of "[]" n "[]"] assms
    by (simp add: icalrecur_add_byrules_def canon_def array_printable_def del: add_byrules_loop.simps)
qed

lemma add_bydayrules_text:
  assumes "array_printable ICAL_BY_DAY_SIZE a" "\<forall>v \<in> set (entries a). day_printable v" "entries a \<noteq> []"
    and "by_day r = []"
  shows "icalrecur_add_bydayrules (commas (map (value_text True) (entries a))) r =
    Some (sort_bydayrules (r\<lparr>by_day := canon a\<rparr>))"
  using add_bydayrules_commas [OF assms(3), of "[]" "[]"] assms
  by (simp add: icalrecur_add_bydayrules_def canon_def array_printable_def del: add_bydayrules_loop.simps)

lemma sort_empty: "sort_outer ws [] 0 = []"
  by (subst sort_outer.simps) simp

text \<open>The clauses of a printable rule, each on a rule that has the default in its field.\<close>

lemma fold_scalars:
  assumes "printable_rule r"
  shows "r_until q = icaltime_null_time \<Longrightarrow>
      fold_clauses (until_clause r @ cs) q es = fold_clauses cs (q\<lparr>r_until := r_until r\<rparr>) es"
    "r_count q = 0 \<Longrightarrow> fold_clauses (count_clause r @ cs) q es = fold_clauses cs (q\<lparr>r_count := r_count r\<rparr>) es"
    "r_interval q = 1 \<Longrightarrow> fold_clauses (interval_clause r @ cs) q es = fold_clauses cs (q\<lparr>r_interval := r_interval r\<rparr>) es"
proof -
  have u: "r_until r = icaltime_null_time \<or> year (r_until r) \<noteq> 0 \<and> printable_time (r_until r)"
    and n: "0 \<le> r_count r" "r_count r < 2 ^ 31" "0 \<le> r_interval r" "r_interval r < 2 ^ 15"
    using assms by (simp_all add: printable_rule_def)
  show "fold_clauses (until_clause r @ cs) q es = fold_clauses cs (q\<lparr>r_until := r_until r\<rparr>) es"
    if "r_until q = icaltime_null_time"
    using u that by (cases q) (auto simp: until_clause_def clause_names from_string_text icaltime_null_time_def)
  show "fold_clauses (count_clause r @ cs) q es = fold_clauses cs (q\<lparr>r_count := r_count r\<rparr>) es"
    if "r_count q = 0"
    using n that by (cases q) (auto simp: count_clause_def clause_names atoi_fmt_d)
  show "fold_clauses (interval_clause r @ cs) q es = fold_clauses cs (q\<lparr>r_interval := r_interval r\<rparr>) es"
    if "r_interval q = 1"
    using n that by (cases q) (auto simp: interval_clause_def clause_names atoi_fmt_d to_short_id)
qed

lemma fold_arrays:
  assumes "printable_rule r"
  shows "by_second q = [] \<Longrightarrow> fold_clauses (array_clause False ''BYSECOND'' (by_second r) @ cs) q es =
      fold_clauses cs (q\<lparr>by_second := canon (by_second r)\<rparr>) es"
    "by_minute q = [] \<Longrightarrow> fold_clauses (array_clause False ''BYMINUTE'' (by_minute r) @ cs) q es =
      fold_clauses cs (q\<lparr>by_minute := canon (by_minute r)\<rparr>) es"
    "by_hour q = [] \<Longrightarrow> fold_clauses (array_clause False ''BYHOUR'' (by_hour r) @ cs) q es =
      fold_clauses cs (q\<lparr>by_hour := canon (by_hour r)\<rparr>) es"
    "by_month_day q = [] \<Longrightarrow> fold_clauses (array_clause False ''BYMONTHDAY'' (by_month_day r) @ cs) q es =
      fold_clauses cs (q\<lparr>by_month_day := canon (by_month_day r)\<rparr>) es"
    "by_year_day q = [] \<Longrightarrow> fold_clauses (array_clause False ''BYYEARDAY'' (by_year_day r) @ cs) q es =
      fold_clauses cs (q\<lparr>by_year_day := canon (by_year_day r)\<rparr>) es"
    "by_week_no q = [] \<Longrightarrow> fold_clauses (array_clause False ''BYWEEKNO'' (by_week_no r) @ cs) q es =
      fold_clauses cs (q\<lparr>by_week_no := canon (by_week_no r)\<rparr>) es"
    "by_month q = [] \<Longrightarrow> fold_clauses (array_clause False ''BYMONTH'' (by_month r) @ cs) q es =
      fold_clauses cs (q\<lparr>by_month := canon (by_month r)\<rparr>) es"
    "by_set_pos q = [] \<Longrightarrow> fold_clauses (array_clause False ''BYSETPOS'' (by_set_pos r) @ cs) q es =
      fold_clauses cs (q\<lparr>by_set_pos := canon (by_set_pos r)\<rparr>) es"
  using assms
  by (cases q; auto simp: printable_rule_def array_clause_def clause_names add_byrules_text canon_def)+

lemma fold_byday:
  assumes "printable_rule r" "by_day q = []"
  shows "fold_clauses (array_clause True ''BYDAY'' (by_day r) @ cs) q es =
    fold_clauses cs (sort_bydayrules (q\<lparr>by_day := canon (by_day r)\<rparr>)) es"
  using assms
  by (cases q) (auto simp: printable_rule_def array_clause_def clause_names add_bydayrules_text canon_def
      sort_bydayrules_def sort_empty)

lemma fold_wkst:
  assumes "printable_rule r" "r_week_start q = ICAL_MONDAY_WEEKDAY"
  shows "fold_clauses (wkst_clause r) q es =
    Some (if r_week_start r = ICAL_MONDAY_WEEKDAY then q
          else sort_bydayrules (q\<lparr>r_week_start := r_week_start r\<rparr>), es)"
  using assms weekday_name [of "r_week_start r"]
  by (auto simp: printable_rule_def wkst_clause_def clause_names)

section \<open>The round trip\<close>

text \<open>The rule with its arrays in their canonical form and a BYDAY array of its own.\<close>

definition canon_rule :: "icalrecurrencetype \<Rightarrow> int list \<Rightarrow> icalrecurrencetype" where
  "canon_rule r d = r\<lparr>by_second := canon (by_second r), by_minute := canon (by_minute r),
     by_hour := canon (by_hour r), by_day := d, by_month_day := canon (by_month_day r),
     by_year_day := canon (by_year_day r), by_week_no := canon (by_week_no r),
     by_month := canon (by_month r), by_set_pos := canon (by_set_pos r)\<rparr>"

definition read_byday :: "icalrecurrencetype \<Rightarrow> int list" where
  "read_byday r =
     (let d = sort_outer ICAL_MONDAY_WEEKDAY (canon (by_day r)) 0
      in if r_week_start r = ICAL_MONDAY_WEEKDAY then d else sort_outer (r_week_start r) d 0)"

lemma fold_rule_clauses:
  assumes "printable_rule r"
  shows "fold_clauses ((''FREQ'', freq_name (r_freq r)) # rule_clauses r) icalrecurrencetype_clear es =
    Some (canon_rule r (read_byday r), es)"
proof -
  have f: "r_freq r \<noteq> ICAL_NO_RECURRENCE" using assms by (simp add: printable_rule_def)
  show ?thesis
    using assms freq_name(2) [OF f]
    by (simp add: rule_clauses_def rule_arrays_def clause_names icalrecurrencetype_clear_def fold_scalars
        fold_arrays fold_byday fold_wkst sort_bydayrules_def canon_rule_def read_byday_def Let_def)
qed

lemma commas_clean: "\<forall>s \<in> set ss. CHR '';'' \<notin> set s \<Longrightarrow> CHR '';'' \<notin> set (commas ss)"
  by (induction ss rule: commas.induct) auto

lemma array_clause_clean:
  assumes "is_day \<Longrightarrow> \<forall>v \<in> set (entries a). day_printable v" "CHR '';'' \<notin> set name" "CHR ''='' \<notin> set name"
  shows "\<forall>c \<in> set (array_clause is_day name a). clean_clause c"
  using assms value_text_clean(2) [of _ is_day]
  by (cases is_day) (auto simp: array_clause_def clean_clause_def intro!: commas_clean)

lemma time_text_clean: "printable_time t \<Longrightarrow> CHR '';'' \<notin> set (time_text t)"
  using time_text_chars [of t] digit_neq by fastforce

lemma rule_clauses_clean:
  assumes "printable_rule r"
  shows "\<forall>c \<in> set (rule_clauses r). clean_clause c"
proof -
  have "\<forall>c \<in> set (rule_arrays r). clean_clause c"
    unfolding rule_arrays_def set_append ball_Un
    using assms by (intro conjI array_clause_clean) (simp_all add: printable_rule_def)
  moreover have "\<forall>c \<in> set (until_clause r). clean_clause c"
    using assms time_text_clean [of "r_until r"]
    by (auto simp: until_clause_def printable_rule_def clean_clause_def icaltime_null_time_def)
  moreover have "\<forall>c \<in> set (count_clause r) \<union> set (interval_clause r). clean_clause c"
    by (auto simp: count_clause_def interval_clause_def clean_clause_def fmt_d_clean)
  moreover have "\<forall>c \<in> set (wkst_clause r). clean_clause c"
    using assms weekday_name(5) [of "r_week_start r"] letter_props
    by (auto simp: wkst_clause_def printable_rule_def clean_clause_def)
  ultimately show ?thesis by (auto simp: rule_clauses_def)
qed

lemma from_string_recur_text:
  assumes "printable_rule r"
  shows "icalrecurrencetype_from_string (recur_text r) es = Some (canon_rule r (read_byday r), es)"
proof -
  have "clean_clause (''FREQ'', freq_name (r_freq r))"
    using assms freq_name(4) [of "r_freq r"] by (simp add: clean_clause_def printable_rule_def)
  from from_string_fold [OF this rule_clauses_clean [OF assms]] show ?thesis
    by (simp only: recur_text_def fold_rule_clauses [OF assms])
qed

lemma read_byday_sorted:
  assumes "printable_rule r"
  shows "mset (entries (read_byday r)) = mset (entries (by_day r)) \<and>
    sorted (map (day_rank (r_week_start r)) (entries (read_byday r)))"
proof -
  let ?d = "sort_outer ICAL_MONDAY_WEEKDAY (canon (by_day r)) 0"
  have len: "length (entries (canon (by_day r))) \<le> ICAL_BY_DAY_SIZE"
    using assms by (simp add: printable_rule_def array_printable_def)
  note d = sort_outer_entries [OF len, of ICAL_MONDAY_WEEKDAY]
  have "length (entries ?d) \<le> ICAL_BY_DAY_SIZE"
    using d len by (metis size_mset)
  from sort_outer_entries [OF this, of "r_week_start r"] d show ?thesis
    by (auto simp: read_byday_def Let_def)
qed

end
