(* ===== verification/RecurIter.thy ===== *)
theory RecurIter
  imports IcalRecur
begin

text \<open>
  The recurrence iterator, the second half of \<^verbatim>\<open>icalrecur.c\<close>: its state, its creation from
  a rule and a start, the steps of the seven frequencies, the expansion of a year, the
  contracting rules and the loop that looks for the next occurrence.

  Every operation takes the iterator and returns it updated. \<open>None\<close> is an execution that
  reads or writes behind an array, fails an assertion, aborts on a fatal error or does not
  end; the loops without a bound are partial functions, for which not ending is \<open>None\<close>.
\<close>

section \<open>The state\<close>

datatype byrule =
    BY_SECOND | BY_MINUTE | BY_HOUR | BY_DAY | BY_MONTH_DAY | BY_YEAR_DAY | BY_WEEK_NO | BY_MONTH
  | BY_SET_POS

text \<open>The arrays of the rule that the iterator's pointers lead to.\<close>

fun by_ptr :: "byrule \<Rightarrow> icalrecurrencetype \<Rightarrow> int list" where
  "by_ptr BY_SECOND r = by_second r"
| "by_ptr BY_MINUTE r = by_minute r"
| "by_ptr BY_HOUR r = by_hour r"
| "by_ptr BY_DAY r = by_day r"
| "by_ptr BY_MONTH_DAY r = by_month_day r"
| "by_ptr BY_YEAR_DAY r = by_year_day r"
| "by_ptr BY_WEEK_NO r = by_week_no r"
| "by_ptr BY_MONTH r = by_month r"
| "by_ptr BY_SET_POS r = by_set_pos r"

fun set_by_ptr :: "byrule \<Rightarrow> int list \<Rightarrow> icalrecurrencetype \<Rightarrow> icalrecurrencetype" where
  "set_by_ptr BY_SECOND a r = r\<lparr>by_second := a\<rparr>"
| "set_by_ptr BY_MINUTE a r = r\<lparr>by_minute := a\<rparr>"
| "set_by_ptr BY_HOUR a r = r\<lparr>by_hour := a\<rparr>"
| "set_by_ptr BY_DAY a r = r\<lparr>by_day := a\<rparr>"
| "set_by_ptr BY_MONTH_DAY a r = r\<lparr>by_month_day := a\<rparr>"
| "set_by_ptr BY_YEAR_DAY a r = r\<lparr>by_year_day := a\<rparr>"
| "set_by_ptr BY_WEEK_NO a r = r\<lparr>by_week_no := a\<rparr>"
| "set_by_ptr BY_MONTH a r = r\<lparr>by_month := a\<rparr>"
| "set_by_ptr BY_SET_POS a r = r\<lparr>by_set_pos := a\<rparr>"

fun by_size :: "byrule \<Rightarrow> nat" where
  "by_size BY_SECOND = ICAL_BY_SECOND_SIZE"
| "by_size BY_MINUTE = ICAL_BY_MINUTE_SIZE"
| "by_size BY_HOUR = ICAL_BY_HOUR_SIZE"
| "by_size BY_DAY = ICAL_BY_DAY_SIZE"
| "by_size BY_MONTH_DAY = ICAL_BY_MONTHDAY_SIZE"
| "by_size BY_YEAR_DAY = ICAL_BY_YEARDAY_SIZE"
| "by_size BY_WEEK_NO = ICAL_BY_WEEKNO_SIZE"
| "by_size BY_MONTH = ICAL_BY_MONTH_SIZE"
| "by_size BY_SET_POS = ICAL_BY_SETPOS_SIZE"

text \<open>The array of the year's days has 366 cells and is represented like a \<open>BY\<close> array.\<close>

record icalrecur_iterator =
  it_dtstart :: icaltimetype
  it_last :: icaltimetype
  occurrence_no :: int
  it_rule :: icalrecurrencetype
  it_days :: "int list"
  days_index :: nat
  by_indices :: "byrule \<Rightarrow> nat"
  orig_data :: "byrule \<Rightarrow> bool"

definition DAYS_SIZE :: nat where "DAYS_SIZE = 366"

abbreviation upd_last :: "(icaltimetype \<Rightarrow> icaltimetype) \<Rightarrow> icalrecur_iterator \<Rightarrow> icalrecur_iterator" where
  "upd_last f impl \<equiv> impl\<lparr>it_last := f (it_last impl)\<rparr>"

definition by_at :: "icalrecur_iterator \<Rightarrow> byrule \<Rightarrow> nat \<Rightarrow> int option" where
  "by_at impl b i = arr_get (by_size b) (by_ptr b (it_rule impl)) i"

definition by_cells :: "icalrecur_iterator \<Rightarrow> byrule \<Rightarrow> int list" where
  "by_cells impl b = cells (by_size b) (by_ptr b (it_rule impl))"

text \<open>Whether the first cell of an array is not the terminator.\<close>

definition has_values :: "icalrecur_iterator \<Rightarrow> byrule \<Rightarrow> bool" where
  "has_values impl b \<longleftrightarrow> by_at impl b 0 \<noteq> Some ICAL_RECURRENCE_ARRAY_MAX"

definition has_by_data :: "icalrecur_iterator \<Rightarrow> byrule \<Rightarrow> bool" where
  "has_by_data impl b = orig_data impl b"

definition c_assert :: "bool \<Rightarrow> unit option" where
  "c_assert b = (if b then Some () else None)"

section \<open>Expanding and contracting rules\<close>

datatype expand_table = UNKNOWN | CONTRACT | EXPAND | ILLEGAL

fun expand_map :: "icalrecurrencetype_frequency \<Rightarrow> expand_table list" where
  "expand_map ICAL_SECONDLY_RECURRENCE =
     [CONTRACT, CONTRACT, CONTRACT, CONTRACT, CONTRACT, CONTRACT, CONTRACT, CONTRACT]"
| "expand_map ICAL_MINUTELY_RECURRENCE =
     [EXPAND, CONTRACT, CONTRACT, CONTRACT, CONTRACT, CONTRACT, CONTRACT, CONTRACT]"
| "expand_map ICAL_HOURLY_RECURRENCE =
     [EXPAND, EXPAND, CONTRACT, CONTRACT, CONTRACT, CONTRACT, CONTRACT, CONTRACT]"
| "expand_map ICAL_DAILY_RECURRENCE =
     [EXPAND, EXPAND, EXPAND, CONTRACT, CONTRACT, CONTRACT, CONTRACT, CONTRACT]"
| "expand_map ICAL_WEEKLY_RECURRENCE =
     [EXPAND, EXPAND, EXPAND, EXPAND, ILLEGAL, ILLEGAL, CONTRACT, CONTRACT]"
| "expand_map ICAL_MONTHLY_RECURRENCE =
     [EXPAND, EXPAND, EXPAND, EXPAND, EXPAND, ILLEGAL, ILLEGAL, CONTRACT]"
| "expand_map ICAL_YEARLY_RECURRENCE =
     [EXPAND, EXPAND, EXPAND, EXPAND, EXPAND, EXPAND, EXPAND, EXPAND]"
| "expand_map ICAL_NO_RECURRENCE =
     [UNKNOWN, UNKNOWN, UNKNOWN, UNKNOWN, UNKNOWN, UNKNOWN, UNKNOWN, UNKNOWN]"

fun byrule_num :: "byrule \<Rightarrow> nat" where
  "byrule_num BY_SECOND = 0"
| "byrule_num BY_MINUTE = 1"
| "byrule_num BY_HOUR = 2"
| "byrule_num BY_DAY = 3"
| "byrule_num BY_MONTH_DAY = 4"
| "byrule_num BY_YEAR_DAY = 5"
| "byrule_num BY_WEEK_NO = 6"
| "byrule_num BY_MONTH = 7"
| "byrule_num BY_SET_POS = 8"

text \<open>The map has an entry for every rule but BYSETPOS, for which it is never asked.\<close>

definition expands :: "icalrecurrencetype_frequency \<Rightarrow> byrule \<Rightarrow> expand_table" where
  "expands freq b = expand_map freq ! byrule_num b"

definition interday_rules :: "byrule list" where
  "interday_rules = [BY_DAY, BY_MONTH_DAY, BY_YEAR_DAY, BY_WEEK_NO, BY_MONTH]"

text \<open>The loop over the rules assigns the flag \<open>passes\<close>; here it starts at zero.\<close>

definition icalrecur_two_byrule :: "icalrecur_iterator \<Rightarrow> byrule \<Rightarrow> byrule \<Rightarrow> int" where
  "icalrecur_two_byrule impl one two =
     foldl (\<lambda>passes itr.
         let test = (itr = one \<or> itr = two)
         in if (\<not> test \<and> has_values impl itr) \<or> (test \<and> \<not> has_values impl itr) then 0 else passes)
       0 interday_rules"

definition icalrecur_one_byrule :: "icalrecur_iterator \<Rightarrow> byrule \<Rightarrow> int" where
  "icalrecur_one_byrule impl one =
     foldl (\<lambda>passes itr.
         if (itr = one \<and> \<not> has_values impl itr) \<or> (itr \<noteq> one \<and> has_values impl itr) then 0 else passes)
       1 interday_rules"

text \<open>The default of an array, and the value the time part gets from it, if any.\<close>

definition setup_defaults ::
    "byrule \<Rightarrow> icalrecurrencetype_frequency \<Rightarrow> int \<Rightarrow> (int \<Rightarrow> icaltimetype \<Rightarrow> icaltimetype)
       \<Rightarrow> icalrecur_iterator \<Rightarrow> icalrecur_iterator option" where
  "setup_defaults b req deftime set_part impl =
     (let freq = r_freq (it_rule impl)
      in do {
        impl1 \<leftarrow> (if \<not> has_values impl b \<and> expands freq b \<noteq> CONTRACT
                 then map_option (\<lambda>a. impl\<lparr>it_rule := set_by_ptr b a (it_rule impl)\<rparr>)
                        (arr_put (by_size b) (by_ptr b (it_rule impl)) 0 (to_short deftime))
                 else Some impl);
        if freq \<noteq> req \<and> expands freq b \<noteq> CONTRACT
        then map_option (\<lambda>v. upd_last (set_part v) impl1) (by_at impl1 b 0)
        else Some impl1 })"

section \<open>Moving the last time\<close>

definition increment_year :: "int \<Rightarrow> icalrecur_iterator \<Rightarrow> icalrecur_iterator" where
  "increment_year inc impl = upd_last (\<lambda>t. t\<lparr>year := year t + inc\<rparr>) impl"

text \<open>The next index of an array, back to the first with a signal at the terminator.\<close>

definition next_index :: "byrule \<Rightarrow> icalrecur_iterator \<Rightarrow> (bool \<times> icalrecur_iterator) option" where
  "next_index b impl =
     (let i = Suc (by_indices impl b)
      in map_option (\<lambda>v. if v = ICAL_RECURRENCE_ARRAY_MAX
                         then (True, impl\<lparr>by_indices := (by_indices impl)(b := 0)\<rparr>)
                         else (False, impl\<lparr>by_indices := (by_indices impl)(b := i)\<rparr>))
           (by_at impl b i))"

definition cur_value :: "byrule \<Rightarrow> icalrecur_iterator \<Rightarrow> int option" where
  "cur_value b impl = by_at impl b (by_indices impl b)"

definition increment_month :: "icalrecur_iterator \<Rightarrow> icalrecur_iterator option" where
  "increment_month impl =
     (if has_by_data impl BY_MONTH then do {
        (wrapped, impl1) \<leftarrow> next_index BY_MONTH impl;
        let impl2 = (if wrapped then increment_year 1 impl1 else impl1);
        v \<leftarrow> cur_value BY_MONTH impl2;
        Some (upd_last (\<lambda>t. t\<lparr>month := v\<rparr>) impl2) }
      else
        let inc = (if r_freq (it_rule impl) = ICAL_MONTHLY_RECURRENCE then r_interval (it_rule impl) else 1);
            m = month (it_last impl) + inc - 1;
            years = c_div m 12;
            impl1 = upd_last (\<lambda>t. t\<lparr>month := c_mod m 12 + 1\<rparr>) impl
        in Some (if years \<noteq> 0 then increment_year years impl1 else impl1))"

fun monthday_steps :: "nat \<Rightarrow> icalrecur_iterator \<Rightarrow> icalrecur_iterator option" where
  "monthday_steps 0 impl = Some impl"
| "monthday_steps (Suc n) impl =
     (let days_in_month = icaltime_days_in_month (month (it_last impl)) (year (it_last impl));
          d = day (it_last impl) + 1
      in Option.bind
           (if d > days_in_month
            then increment_month (upd_last (\<lambda>t. t\<lparr>day := d - days_in_month\<rparr>) impl)
            else Some (upd_last (\<lambda>t. t\<lparr>day := d\<rparr>) impl))
           (monthday_steps n))"

definition increment_monthday :: "int \<Rightarrow> icalrecur_iterator \<Rightarrow> icalrecur_iterator option" where
  "increment_monthday inc impl = monthday_steps (nat inc) impl"

definition increment_hour :: "int \<Rightarrow> icalrecur_iterator \<Rightarrow> icalrecur_iterator option" where
  "increment_hour inc impl =
     (let h = hour (it_last impl) + inc;
          days = c_div h 24;
          impl1 = upd_last (\<lambda>t. t\<lparr>hour := c_mod h 24\<rparr>) impl
      in if days \<noteq> 0 then increment_monthday days impl1 else Some impl1)"

definition increment_minute :: "int \<Rightarrow> icalrecur_iterator \<Rightarrow> icalrecur_iterator option" where
  "increment_minute inc impl =
     (let m = minute (it_last impl) + inc;
          hours = c_div m 60;
          impl1 = upd_last (\<lambda>t. t\<lparr>minute := c_mod m 60\<rparr>) impl
      in if hours \<noteq> 0 then increment_hour hours impl1 else Some impl1)"

definition increment_second :: "int \<Rightarrow> icalrecur_iterator \<Rightarrow> icalrecur_iterator option" where
  "increment_second inc impl =
     (let s = second (it_last impl) + inc;
          minutes = c_div s 60;
          impl1 = upd_last (\<lambda>t. t\<lparr>second := c_mod s 60\<rparr>) impl
      in if minutes \<noteq> 0 then increment_minute minutes impl1 else Some impl1)"

section \<open>The steps within a day\<close>

text \<open>The flag of a step is set when the end of the data of its level was passed.\<close>

definition next_second :: "icalrecur_iterator \<Rightarrow> (bool \<times> icalrecur_iterator) option" where
  "next_second impl =
     (let has_by_second = has_values impl BY_SECOND;
          this_frequency = (r_freq (it_rule impl) = ICAL_SECONDLY_RECURRENCE)
      in do {
        _ \<leftarrow> c_assert (has_by_second \<or> this_frequency);
        (end_of_data, impl2) \<leftarrow>
          (if has_by_second then do {
             (e, impl1) \<leftarrow> next_index BY_SECOND impl;
             v \<leftarrow> cur_value BY_SECOND impl1;
             Some (e, upd_last (\<lambda>t. t\<lparr>second := v\<rparr>) impl1) }
           else map_option (Pair False) (increment_second (r_interval (it_rule impl)) impl));
        impl3 \<leftarrow> (if has_by_second \<and> end_of_data \<and> this_frequency then increment_minute 1 impl2
                 else Some impl2);
        Some (end_of_data, impl3) })"

definition next_minute :: "icalrecur_iterator \<Rightarrow> (bool \<times> icalrecur_iterator) option" where
  "next_minute impl =
     (let has_by_minute = has_values impl BY_MINUTE;
          this_frequency = (r_freq (it_rule impl) = ICAL_MINUTELY_RECURRENCE)
      in do {
        _ \<leftarrow> c_assert (has_by_minute \<or> this_frequency);
        (e0, impl0) \<leftarrow> next_second impl;
        if \<not> e0 then Some (False, impl0)
        else do {
          (end_of_data, impl2) \<leftarrow>
            (if has_by_minute then do {
               (e, impl1) \<leftarrow> next_index BY_MINUTE impl0;
               v \<leftarrow> cur_value BY_MINUTE impl1;
               Some (e, upd_last (\<lambda>t. t\<lparr>minute := v\<rparr>) impl1) }
             else map_option (Pair False) (increment_minute (r_interval (it_rule impl0)) impl0));
          impl3 \<leftarrow> (if has_by_minute \<and> end_of_data \<and> this_frequency then increment_hour 1 impl2
                   else Some impl2);
          Some (end_of_data, impl3) } })"

definition next_hour :: "icalrecur_iterator \<Rightarrow> (bool \<times> icalrecur_iterator) option" where
  "next_hour impl =
     (let has_by_hour = has_values impl BY_HOUR;
          this_frequency = (r_freq (it_rule impl) = ICAL_HOURLY_RECURRENCE)
      in do {
        _ \<leftarrow> c_assert (has_by_hour \<or> this_frequency);
        (e0, impl0) \<leftarrow> next_minute impl;
        if \<not> e0 then Some (False, impl0)
        else do {
          (end_of_data, impl2) \<leftarrow>
            (if has_by_hour then do {
               (e, impl1) \<leftarrow> next_index BY_HOUR impl0;
               v \<leftarrow> cur_value BY_HOUR impl1;
               Some (e, upd_last (\<lambda>t. t\<lparr>hour := v\<rparr>) impl1) }
             else map_option (Pair False) (increment_hour (r_interval (it_rule impl0)) impl0));
          impl3 \<leftarrow> (if has_by_hour \<and> end_of_data \<and> this_frequency then increment_monthday 1 impl2
                   else Some impl2);
          Some (end_of_data, impl3) } })"

definition next_day :: "icalrecur_iterator \<Rightarrow> (bool \<times> icalrecur_iterator) option" where
  "next_day impl =
     (let has_by_day = has_values impl BY_DAY;
          this_frequency = (r_freq (it_rule impl) = ICAL_DAILY_RECURRENCE)
      in do {
        _ \<leftarrow> c_assert (has_by_day \<or> this_frequency);
        (e0, impl0) \<leftarrow> next_hour impl;
        if \<not> e0 then Some (False, impl0)
        else map_option (Pair False)
               (increment_monthday (if this_frequency then r_interval (it_rule impl0) else 1) impl0) })"

section \<open>The step of a month\<close>

definition nth_weekday :: "int \<Rightarrow> int \<Rightarrow> icaltimetype \<Rightarrow> int" where
  "nth_weekday dow pos t =
     (let days_in_month = icaltime_days_in_month (month t) (year t)
      in if pos \<ge> 0 then
           let start_dow = icaltime_day_of_week (t\<lparr>day := 1\<rparr>);
               pos1 = (if pos \<noteq> 0 then pos - 1 else pos);
               wd = dow - start_dow + 1;
               wd1 = (if wd \<le> 0 then wd + 7 else wd)
           in wd1 + pos1 * 7
         else
           let end_dow = icaltime_day_of_week (t\<lparr>day := days_in_month\<rparr>);
               pos1 = pos + 1;
               wd = end_dow - dow;
               wd1 = (if wd < 0 then wd + 7 else wd)
           in days_in_month - wd1 + pos1 * 7)"

text \<open>Whether a time falls on a day with a weekday and a position, zero being any.\<close>

definition on_weekday :: "int \<Rightarrow> icaltimetype \<Rightarrow> bool" where
  "on_weekday v tt =
     (let dow = wd_num (icalrecurrencetype_day_day_of_week v);
          pos = icalrecurrencetype_day_position v;
          this_dow = icaltime_day_of_week tt
      in (pos = 0 \<and> dow = this_dow) \<or> nth_weekday dow pos tt = day tt)"

definition is_day_in_byday :: "icalrecur_iterator \<Rightarrow> icaltimetype \<Rightarrow> bool option" where
  "is_day_in_byday impl tt = find_cell (\<lambda>v. Some (on_weekday v tt)) (by_cells impl BY_DAY)"

definition check_set_position :: "icalrecur_iterator \<Rightarrow> int \<Rightarrow> bool option" where
  "check_set_position impl set_pos = find_cell (\<lambda>v. Some (v = set_pos)) (by_cells impl BY_SET_POS)"

text \<open>The first of the days that passes a test.\<close>

fun first_day :: "(int \<Rightarrow> bool option) \<Rightarrow> int list \<Rightarrow> int option option" where
  "first_day P [] = Some None"
| "first_day P (d # ds) =
     (case P d of None \<Rightarrow> None | Some b \<Rightarrow> (if b then Some (Some d) else first_day P ds))"

text \<open>Case 1 of \<open>next_month\<close>: the next day that is in both lists.\<close>

definition on_byday_and_monthday :: "icalrecur_iterator \<Rightarrow> int \<Rightarrow> bool option" where
  "on_byday_and_monthday impl d =
     find_cell (\<lambda>v. find_cell (\<lambda>mday.
           let t = (it_last impl)\<lparr>day := d\<rparr>;
               dow = wd_num (icalrecurrencetype_day_day_of_week v);
               pos = icalrecurrencetype_day_position v;
               this_dow = icaltime_day_of_week t
           in Some ((pos = 0 \<and> dow = this_dow \<and> mday = d) \<or> (nth_weekday dow pos t = d \<and> mday = d)))
         (by_cells impl BY_MONTH_DAY))
       (by_cells impl BY_DAY)"

definition month_byday_and_monthday :: "icalrecur_iterator \<Rightarrow> (bool \<times> icalrecur_iterator) option" where
  "month_byday_and_monthday impl =
     (let t = it_last impl; days_in_month = icaltime_days_in_month (month t) (year t)
      in do {
        found \<leftarrow> first_day (on_byday_and_monthday impl) [day t + 1..days_in_month];
        case found of
          Some d \<Rightarrow> Some (True, upd_last (\<lambda>t. t\<lparr>day := d\<rparr>) impl)
        | None \<Rightarrow> map_option (Pair False) (increment_month (upd_last (\<lambda>t. t\<lparr>day := 1\<rparr>) impl)) })"

text \<open>
  Case 2: the next day in the BYDAY list whose position among the days of the month that
  are in the list is in the BYSETPOS list, if there is one.
\<close>

fun count_set_pos ::
    "icalrecur_iterator \<Rightarrow> int \<Rightarrow> int list \<Rightarrow> int \<times> int \<Rightarrow> (int \<times> int) option" where
  "count_set_pos impl last_day [] c = Some c"
| "count_set_pos impl last_day (d # ds) (tot, counter) = do {
     b \<leftarrow> is_day_in_byday impl ((it_last impl)\<lparr>day := d\<rparr>);
     count_set_pos impl last_day ds
       (if b then (tot + 1, if d \<le> last_day then counter + 1 else counter) else (tot, counter)) }"

fun find_byday :: "icalrecur_iterator \<Rightarrow> int \<Rightarrow> int list \<Rightarrow> int \<Rightarrow> int option option" where
  "find_byday impl tot [] counter = Some None"
| "find_byday impl tot (d # ds) counter = do {
     b \<leftarrow> is_day_in_byday impl ((it_last impl)\<lparr>day := d\<rparr>);
     if \<not> b then find_byday impl tot ds counter
     else if \<not> has_by_data impl BY_SET_POS then Some (Some d)
     else do {
       c1 \<leftarrow> check_set_position impl (counter + 1);
       if c1 then Some (Some d)
       else do {
         c2 \<leftarrow> check_set_position impl (counter + 1 - tot - 1);
         if c2 then Some (Some d) else find_byday impl tot ds (counter + 1) } } }"

definition month_byday :: "icalrecur_iterator \<Rightarrow> (bool \<times> icalrecur_iterator) option" where
  "month_byday impl =
     (let t = it_last impl; days_in_month = icaltime_days_in_month (month t) (year t)
      in do {
        _ \<leftarrow> c_assert (has_values impl BY_DAY);
        (tot, counter) \<leftarrow> (if has_by_data impl BY_SET_POS
                             then count_set_pos impl (day t) [1..days_in_month] (0, 0) else Some (0, 0));
        found \<leftarrow> find_byday impl tot [day t + 1..days_in_month] counter;
        case found of
          Some d \<Rightarrow> Some (True, upd_last (\<lambda>t. t\<lparr>day := d\<rparr>) impl)
        | None \<Rightarrow> do {
            impl1 \<leftarrow> increment_month (upd_last (\<lambda>t. t\<lparr>day := 1\<rparr>) impl);
            b \<leftarrow> is_day_in_byday impl1 (it_last impl1);
            if \<not> b then Some (False, impl1)
            else if \<not> has_by_data impl BY_SET_POS then Some (True, impl1)
            else map_option (\<lambda>c. (c, impl1)) (check_set_position impl1 1) } })"

text \<open>Case 3: the next entry of the BYMONTHDAY list, counted from the month's end if negative.\<close>

definition month_bymonthday :: "icalrecur_iterator \<Rightarrow> (bool \<times> icalrecur_iterator) option" where
  "month_bymonthday impl = do {
     _ \<leftarrow> c_assert (has_values impl BY_MONTH_DAY);
     (wrapped, impl1) \<leftarrow> next_index BY_MONTH_DAY impl;
     impl2 \<leftarrow> (if wrapped then increment_month impl1 else Some impl1);
     let t = it_last impl2;
     let days_in_month = icaltime_days_in_month (month t) (year t);
     v \<leftarrow> cur_value BY_MONTH_DAY impl2;
     let d = (if v < 0 then days_in_month + v + 1 else v);
     data_valid \<leftarrow> (if d > days_in_month then is_day_in_byday impl2 (t\<lparr>day := 1\<rparr>) else Some True);
     Some (data_valid, upd_last (\<lambda>t. t\<lparr>day := d\<rparr>) impl2) }"

text \<open>Case 4: the same day of the next month, or the last if the month is shorter.\<close>

definition month_plain :: "icalrecur_iterator \<Rightarrow> (bool \<times> icalrecur_iterator) option" where
  "month_plain impl = do {
     _ \<leftarrow> c_assert (has_values impl BY_MONTH_DAY);
     v \<leftarrow> by_at impl BY_MONTH_DAY 0;
     impl1 \<leftarrow> increment_month (upd_last (\<lambda>t. t\<lparr>day := v\<rparr>) impl);
     let days_in_month = icaltime_days_in_month (month (it_last impl1)) (year (it_last impl1));
     Some (True, if day (it_last impl1) > days_in_month
                 then upd_last (\<lambda>t. t\<lparr>day := days_in_month\<rparr>) impl1 else impl1) }"

definition next_month :: "icalrecur_iterator \<Rightarrow> (bool \<times> icalrecur_iterator) option" where
  "next_month impl = do {
     _ \<leftarrow> c_assert (has_by_data impl BY_MONTH \<or> r_freq (it_rule impl) = ICAL_MONTHLY_RECURRENCE);
     (e0, impl0) \<leftarrow> next_hour impl;
     if \<not> e0 then Some (True, impl0)
     else if has_by_data impl0 BY_DAY \<and> has_by_data impl0 BY_MONTH_DAY then month_byday_and_monthday impl0
     else if has_by_data impl0 BY_DAY then month_byday impl0
     else if has_by_data impl0 BY_MONTH_DAY then month_bymonthday impl0
     else month_plain impl0 }"

section \<open>The step of a week\<close>

text \<open>
  The next entry of the BYDAY list; an entry in the week's part in the year before is left
  out, unless the list was used up.
\<close>

partial_function (option) weekday_loop ::
    "icalrecur_iterator \<Rightarrow> (bool \<times> icalrecur_iterator) option" where
  "weekday_loop impl = do {
     (end_of_data, impl1) \<leftarrow> next_index BY_DAY impl;
     v \<leftarrow> cur_value BY_DAY impl1;
     let d = wd_num (icalrecurrencetype_day_day_of_week v) - wd_num (r_week_start (it_rule impl1));
     let dow = (if d < 0 then d + 7 else d);
     let l = it_last impl1;
     let start_of_week = icaltime_start_doy_week
           (icaltime_null_time\<lparr>year := year l, day := day l, month := month l\<rparr>)
           (wd_num (r_week_start (it_rule impl1)));
     if dow + start_of_week < 1 \<and> \<not> end_of_data then weekday_loop impl1
     else
       let nxt = icaltime_from_day_of_year (start_of_week + dow) (year l)
       in Some (end_of_data, upd_last (\<lambda>t. t\<lparr>day := day nxt, month := month nxt, year := year nxt\<rparr>) impl1) }"

declare weekday_loop.simps [code]

definition next_weekday_by_week :: "icalrecur_iterator \<Rightarrow> (bool \<times> icalrecur_iterator) option" where
  "next_weekday_by_week impl = do {
     (e0, impl0) \<leftarrow> next_hour impl;
     if \<not> e0 then Some (False, impl0)
     else if \<not> has_by_data impl0 BY_DAY then Some (True, impl0)
     else weekday_loop impl0 }"

definition next_week :: "icalrecur_iterator \<Rightarrow> (bool \<times> icalrecur_iterator) option" where
  "next_week impl = do {
     (e0, impl0) \<leftarrow> next_weekday_by_week impl;
     if \<not> e0 then Some (False, impl0)
     else if has_by_data impl0 BY_WEEK_NO then do {
       (end_of_data, impl1) \<leftarrow> next_index BY_WEEK_NO impl0;
       week_no \<leftarrow> cur_value BY_WEEK_NO impl1;
       let impl2 = upd_last (\<lambda>t. icaltime_normalize (t\<lparr>day := day t + week_no * 7\<rparr>)) impl1;
       Some (end_of_data, if end_of_data then increment_year 1 impl2 else impl2) }
     else map_option (Pair False) (increment_monthday (7 * r_interval (it_rule impl0)) impl0) }"

end
