(* ===== verification/RecurYear.thy ===== *)
theory RecurYear
  imports RecurIter
begin

text \<open>
  The yearly part of \<^verbatim>\<open>icalrecur.c\<close>: the list of the days of a year that a rule names
  (\<open>expand_by_day\<close>, \<open>expand_year_days\<close>), and the creation of an iterator. The list that
  \<open>expand_by_day\<close> builds with \<open>pvl_push\<close> and reads from head to tail is a HOL list here; the
  theories of the list component show that this is what the operations do.
\<close>

section \<open>Days of a year by weekday\<close>

text \<open>Every seventh day from a day on.\<close>

function every_week :: "int \<Rightarrow> int \<Rightarrow> int list" where
  "every_week doy end_day = (if doy \<le> end_day then doy # every_week (doy + 7) end_day else [])"
  by pat_completeness auto
termination
  by (relation "measure (\<lambda>(d, e). nat (e + 1 - d))") auto

declare every_week.simps [simp del]

definition byday_days :: "int \<Rightarrow> int \<Rightarrow> int \<Rightarrow> int \<Rightarrow> int list" where
  "byday_days start_dow end_dow end_year_day v =
     (let dow = wd_num (icalrecurrencetype_day_day_of_week v);
          pos = icalrecurrencetype_day_position v
      in if pos = 0 then every_week (c_mod (dow + 7 - start_dow) 7 + 1) end_year_day
         else if pos > 0 then
           let first = (if dow \<ge> start_dow then dow - start_dow + 1 else dow - start_dow + 8)
           in [first + (pos - 1) * 7]
         else
           let pos1 = - pos;
               lst = (if dow \<le> end_dow then end_year_day - end_dow + dow else end_year_day - end_dow + dow - 7)
           in [lst - (pos1 - 1) * 7])"

definition expand_by_day :: "icalrecur_iterator \<Rightarrow> int \<Rightarrow> int list option" where
  "expand_by_day impl y =
     (let tmp1 = (it_last impl)\<lparr>year := y, month := 1, day := 1, is_date := 1\<rparr>;
          start_dow = icaltime_day_of_week tmp1;
          tmp2 = tmp1\<lparr>year := y, month := 12, day := 31, is_date := 1\<rparr>;
          end_dow = icaltime_day_of_week tmp2
      in do {
        end_year_day \<leftarrow> icaltime_day_of_year tmp2;
        each_cell (\<lambda>v ds. Some (ds @ byday_days start_dow end_dow end_year_day v)) (by_cells impl BY_DAY) [] })"

section \<open>The days of a rule in a year\<close>

text \<open>Storing a day at the next index of the array of days.\<close>

definition push_day :: "int \<Rightarrow> int list \<Rightarrow> int list option" where
  "push_day d ds = (if length ds < DAYS_SIZE then Some (ds @ [to_short d]) else None)"

fun push_days :: "int list \<Rightarrow> int list \<Rightarrow> int list option" where
  "push_days [] ds = Some ds"
| "push_days (d # r) ds = Option.bind (push_day d ds) (push_days r)"

text \<open>
  The weeks of the BYMONTH months, marked in a table. The inner loop uses the outer loop's
  counter: after a month the outer loop goes on behind the month's last week, or its first
  if that is larger.
\<close>

fun mark_weeks :: "nat \<Rightarrow> int \<Rightarrow> int \<Rightarrow> bool list \<Rightarrow> bool list option" where
  "mark_weeks 0 j last_week valid_weeks = Some valid_weeks"
| "mark_weeks (Suc n) j last_week valid_weeks =
     (if j < last_week then
        (if 0 \<le> j \<and> nat j < length valid_weeks
         then mark_weeks n (j + 1) last_week (valid_weeks[nat j := True]) else None)
      else Some valid_weeks)"

partial_function (option) month_weeks ::
    "icalrecur_iterator \<Rightarrow> int \<Rightarrow> int \<Rightarrow> bool list \<Rightarrow> bool list option" where
  "month_weeks impl y j valid_weeks = do {
     m \<leftarrow> (if 0 \<le> j then by_at impl BY_MONTH (nat j) else None);
     if m = ICAL_RECURRENCE_ARRAY_MAX then Some valid_weeks
     else do {
       let t = icaltime_null_date\<lparr>year := y, is_date := 1, month := m, day := 1\<rparr>;
       let first_week = icaltime_week_number t;
       let last_week = icaltime_week_number (t\<lparr>day := icaltime_days_in_month m y\<rparr>);
       valid1 \<leftarrow> mark_weeks (nat (last_week - first_week)) first_week last_week valid_weeks;
       month_weeks impl y (max first_week last_week + 1) valid1 } }"

declare month_weeks.simps [code]

text \<open>The check of the BYWEEKNO list looks up the table at the index of the week, not at the week.\<close>

fun check_weeks :: "int list \<Rightarrow> nat \<Rightarrow> bool list \<Rightarrow> bool \<Rightarrow> bool option" where
  "check_weeks [] i valid_weeks valid = None"
| "check_weeks (weekno # cs) i valid_weeks valid =
     (if weekno = ICAL_RECURRENCE_ARRAY_MAX \<or> \<not> valid then Some valid
      else check_weeks cs (Suc i) valid_weeks
             (if weekno < int ICAL_BY_WEEKNO_SIZE then valid \<and> valid_weeks ! i else False))"

definition flag_of :: "byrule \<Rightarrow> int" where
  "flag_of b = 2 ^ byrule_num b"

definition year_flags :: "icalrecur_iterator \<Rightarrow> int" where
  "year_flags impl =
     (if has_by_data impl BY_DAY then flag_of BY_DAY else 0) +
     (if has_by_data impl BY_WEEK_NO then flag_of BY_WEEK_NO else 0) +
     (if has_by_data impl BY_MONTH_DAY then flag_of BY_MONTH_DAY else 0) +
     (if has_by_data impl BY_MONTH then flag_of BY_MONTH else 0) +
     (if has_by_data impl BY_YEAR_DAY then flag_of BY_YEAR_DAY else 0)"

definition settle_flags :: "icalrecur_iterator \<Rightarrow> int \<Rightarrow> int option" where
  "settle_flags impl y =
     (let flags = year_flags impl
      in if has_by_data impl BY_MONTH \<and> has_by_data impl BY_WEEK_NO then do {
           valid_weeks \<leftarrow> month_weeks impl y 0 (replicate ICAL_BY_WEEKNO_SIZE False);
           valid \<leftarrow> check_weeks (by_cells impl BY_WEEK_NO) 0 valid_weeks True;
           Some (if valid then flags - flag_of BY_MONTH else flags - flag_of BY_WEEK_NO) }
         else Some flags)"

text \<open>The cases of the switch over the rules that are present.\<close>

definition days_plain :: "icalrecur_iterator \<Rightarrow> int list option" where
  "days_plain impl = do {
     doy \<leftarrow> icaltime_day_of_year ((it_dtstart impl)\<lparr>year := year (it_last impl)\<rparr>);
     push_day doy [] }"

definition days_bymonth :: "icalrecur_iterator \<Rightarrow> int \<Rightarrow> int list option" where
  "days_bymonth impl y =
     each_cell (\<lambda>m ds. do {
         doy \<leftarrow> icaltime_day_of_year ((it_dtstart impl)\<lparr>year := y, month := m, is_date := 1\<rparr>);
         push_day doy ds })
       (by_cells impl BY_MONTH) []"

definition days_bymonthday :: "icalrecur_iterator \<Rightarrow> int \<Rightarrow> int list option" where
  "days_bymonthday impl y =
     each_cell (\<lambda>md ds. do {
         doy \<leftarrow> icaltime_day_of_year ((it_dtstart impl)\<lparr>day := md, year := y, is_date := 1\<rparr>);
         push_day doy ds })
       (by_cells impl BY_MONTH_DAY) []"

definition days_bymonthday_bymonth :: "icalrecur_iterator \<Rightarrow> int \<Rightarrow> int list option" where
  "days_bymonthday_bymonth impl y =
     each_cell (\<lambda>m. each_cell (\<lambda>md ds. do {
           doy \<leftarrow> icaltime_day_of_year (icaltime_null_date\<lparr>day := md, month := m, year := y, is_date := 1\<rparr>);
           push_day doy ds })
         (by_cells impl BY_MONTH_DAY))
       (by_cells impl BY_MONTH) []"

definition days_byday :: "icalrecur_iterator \<Rightarrow> int \<Rightarrow> int list option" where
  "days_byday impl y = Option.bind (expand_by_day impl y) (\<lambda>ds. push_days ds [])"

text \<open>BYDAY within the months, all of them or those with a BYSETPOS position.\<close>

fun bydays_of_month :: "icalrecur_iterator \<Rightarrow> icaltimetype \<Rightarrow> int list \<Rightarrow> int list option" where
  "bydays_of_month impl t [] = Some []"
| "bydays_of_month impl t (d # ds) = do {
     b \<leftarrow> is_day_in_byday impl (t\<lparr>day := d\<rparr>);
     r \<leftarrow> bydays_of_month impl t ds;
     Some (if b then d # r else r) }"

fun push_set_pos ::
    "icalrecur_iterator \<Rightarrow> int \<Rightarrow> int \<Rightarrow> int \<Rightarrow> int list \<Rightarrow> int list \<Rightarrow> int list option" where
  "push_set_pos impl doy_offset tot counter [] ds = Some ds"
| "push_set_pos impl doy_offset tot counter (md # r) ds = do {
     c1 \<leftarrow> check_set_position impl (counter + 1);
     c2 \<leftarrow> (if c1 then Some True else check_set_position impl (counter - tot));
     ds1 \<leftarrow> (if c2 then push_day (doy_offset + md) ds else Some ds);
     push_set_pos impl doy_offset tot (counter + 1) r ds1 }"

definition byday_of_month :: "int \<Rightarrow> int \<Rightarrow> int \<Rightarrow> int \<Rightarrow> int list" where
  "byday_of_month days_in_month first_dow last_dow v =
     (let dow = wd_num (icalrecurrencetype_day_day_of_week v);
          pos = icalrecurrencetype_day_position v;
          first_matching_day = c_mod (dow + 7 - first_dow) 7 + 1;
          last_matching_day = days_in_month - c_mod (last_dow + 7 - dow) 7
      in if pos = 0 then every_week first_matching_day days_in_month
         else if pos > 0 then
           let month_day = first_matching_day + (pos - 1) * 7
           in if month_day \<le> days_in_month then [month_day] else []
         else
           let month_day = last_matching_day + (pos + 1) * 7
           in if month_day > 0 then [month_day] else [])"

definition days_byday_in_month :: "icalrecur_iterator \<Rightarrow> int \<Rightarrow> int \<Rightarrow> int list \<Rightarrow> int list option" where
  "days_byday_in_month impl y m ds =
     (let days_in_month = icaltime_days_in_month m y;
          t = icaltime_null_date\<lparr>year := y, month := m, day := 1, is_date := 1\<rparr>;
          first_dow = icaltime_day_of_week t;
          t1 = t\<lparr>day := days_in_month\<rparr>;
          last_dow = icaltime_day_of_week t1
      in do {
        doy \<leftarrow> icaltime_day_of_year t;
        let doy_offset = doy - 1;
        if has_by_data impl BY_SET_POS then do {
          by_month_day \<leftarrow> bydays_of_month impl t1 [1..days_in_month];
          push_set_pos impl doy_offset (int (length by_month_day)) 0 by_month_day ds }
        else each_cell
               (\<lambda>v. push_days (map (\<lambda>d. doy_offset + d) (byday_of_month days_in_month first_dow last_dow v)))
               (by_cells impl BY_DAY) ds })"

definition days_byday_bymonth :: "icalrecur_iterator \<Rightarrow> int \<Rightarrow> int list option" where
  "days_byday_bymonth impl y = each_cell (days_byday_in_month impl y) (by_cells impl BY_MONTH) []"

text \<open>A day is stored once for every entry, or pair of entries, of the other lists that it matches.\<close>

fun push_matching :: "(icaltimetype \<Rightarrow> int \<Rightarrow> int list \<Rightarrow> int list option) \<Rightarrow> int \<Rightarrow> int list \<Rightarrow> int list \<Rightarrow> int list option" where
  "push_matching f y [] ds = Some ds"
| "push_matching f y (d # r) ds =
     (let doy = to_short d
      in Option.bind (f (icaltime_from_day_of_year doy y) doy ds) (push_matching f y r))"

definition days_byday_bymonthday :: "icalrecur_iterator \<Rightarrow> int \<Rightarrow> int list option" where
  "days_byday_bymonthday impl y = do {
     days_list \<leftarrow> expand_by_day impl y;
     push_matching (\<lambda>tt d. each_cell (\<lambda>mday ds. if day tt = mday then push_day d ds else Some ds)
                             (by_cells impl BY_MONTH_DAY))
       y days_list [] }"

definition days_byday_bymonthday_bymonth :: "icalrecur_iterator \<Rightarrow> int \<Rightarrow> int list option" where
  "days_byday_bymonthday_bymonth impl y = do {
     days_list \<leftarrow> expand_by_day impl y;
     push_matching (\<lambda>tt d. each_cell (\<lambda>m. each_cell (\<lambda>mday ds.
                               if month tt = m \<and> day tt = mday then push_day d ds else Some ds)
                             (by_cells impl BY_MONTH_DAY)) (by_cells impl BY_MONTH))
       y days_list [] }"

definition days_byday_byweekno :: "icalrecur_iterator \<Rightarrow> int \<Rightarrow> int list option" where
  "days_byday_byweekno impl y = do {
     days_list \<leftarrow> expand_by_day impl y;
     push_matching (\<lambda>tt d. each_cell (\<lambda>weekno ds. if weekno = icaltime_week_number tt then push_day d ds else Some ds)
                             (by_cells impl BY_WEEK_NO))
       y days_list [] }"

definition days_byyearday :: "icalrecur_iterator \<Rightarrow> int list option" where
  "days_byyearday impl = each_cell push_day (by_cells impl BY_YEAR_DAY) []"

text \<open>
  The switch. A combination that is not implemented leaves the days empty and sets the
  error number.
\<close>

definition expand_year_days ::
    "icalrecur_iterator \<Rightarrow> int \<Rightarrow> icalerror_state \<Rightarrow> (icalrecur_iterator \<times> icalerror_state) option" where
  "expand_year_days impl y es =
     (let stored = map_option (\<lambda>ds. (impl\<lparr>it_days := ds\<rparr>, es))
      in do {
        flags \<leftarrow> settle_flags impl y;
        if flags = 0 then stored (days_plain impl)
        else if flags = flag_of BY_MONTH then stored (days_bymonth impl y)
        else if flags = flag_of BY_MONTH_DAY then stored (days_bymonthday impl y)
        else if flags = flag_of BY_MONTH_DAY + flag_of BY_MONTH then stored (days_bymonthday_bymonth impl y)
        else if flags = flag_of BY_DAY then stored (days_byday impl y)
        else if flags = flag_of BY_DAY + flag_of BY_MONTH then stored (days_byday_bymonth impl y)
        else if flags = flag_of BY_DAY + flag_of BY_MONTH_DAY then stored (days_byday_bymonthday impl y)
        else if flags = flag_of BY_DAY + flag_of BY_MONTH_DAY + flag_of BY_MONTH
          then stored (days_byday_bymonthday_bymonth impl y)
        else if flags = flag_of BY_DAY + flag_of BY_WEEK_NO then stored (days_byday_byweekno impl y)
        else if flags = flag_of BY_YEAR_DAY then stored (days_byyearday impl)
        else map_option (\<lambda>es1. (impl\<lparr>it_days := []\<rparr>, es1)) (icalerror_set_errno ICAL_UNIMPLEMENTED_ERROR es) })"

text \<open>The first stored day, which is the terminator if there is none.\<close>

definition no_days :: "icalrecur_iterator \<Rightarrow> bool" where
  "no_days impl \<longleftrightarrow> arr_get DAYS_SIZE (it_days impl) 0 = Some ICAL_RECURRENCE_ARRAY_MAX"

text \<open>The loops over the years until one has days: when created, and when stepping on.\<close>

partial_function (option) first_year ::
    "icalrecur_iterator \<Rightarrow> icalerror_state \<Rightarrow> (icalrecur_iterator option \<times> icalerror_state) option" where
  "first_year impl es = do {
     (impl1, es1) \<leftarrow> expand_year_days impl (year (it_last impl)) es;
     if icalerrno es1 \<noteq> ICAL_NO_ERROR
     then map_option (Pair None) (icalerror_set_errno ICAL_MALFORMEDDATA_ERROR es1)
     else if \<not> no_days impl1 then Some (Some impl1, es1)
     else first_year (increment_year (r_interval (it_rule impl1)) impl1) es1 }"

declare first_year.simps [code]

partial_function (option) later_year ::
    "icalrecur_iterator \<Rightarrow> icalerror_state \<Rightarrow> (icalrecur_iterator \<times> icalerror_state) option" where
  "later_year impl es = do {
     let impl0 = increment_year (r_interval (it_rule impl)) impl;
     (impl1, es1) \<leftarrow> expand_year_days impl0 (year (it_last impl0)) es;
     if \<not> no_days impl1 then Some (impl1, es1) else later_year impl1 es1 }"

declare later_year.simps [code]

definition goto_day :: "int \<Rightarrow> icalrecur_iterator \<Rightarrow> icalrecur_iterator" where
  "goto_day doy impl =
     (let nxt = icaltime_from_day_of_year doy (year (it_last impl))
      in upd_last (\<lambda>t. t\<lparr>day := day nxt, month := month nxt\<rparr>) impl)"

definition next_year ::
    "icalrecur_iterator \<Rightarrow> icalerror_state \<Rightarrow> (bool \<times> icalrecur_iterator \<times> icalerror_state) option" where
  "next_year impl es = do {
     (e0, impl0) \<leftarrow> next_hour impl;
     if \<not> e0 then Some (False, impl0, es)
     else do {
       let impl1 = impl0\<lparr>days_index := Suc (days_index impl0)\<rparr>;
       v \<leftarrow> arr_get DAYS_SIZE (it_days impl1) (days_index impl1);
       (impl2, es2) \<leftarrow> (if v = ICAL_RECURRENCE_ARRAY_MAX
                         then later_year (impl1\<lparr>days_index := 0\<rparr>) es else Some (impl1, es));
       doy \<leftarrow> arr_get DAYS_SIZE (it_days impl2) (days_index impl2);
       Some (True, goto_day doy impl2, es2) } }"

section \<open>Creating an iterator\<close>

definition fresh_iterator :: "icalrecurrencetype \<Rightarrow> icaltimetype \<Rightarrow> icalrecur_iterator" where
  "fresh_iterator rule dtstart =
     \<lparr>it_dtstart = dtstart, it_last = dtstart, occurrence_no = 0, it_rule = rule,
      it_days = replicate DAYS_SIZE 0, days_index = 0, by_indices = (\<lambda>b. 0),
      orig_data = (\<lambda>b. arr_get (by_size b) (by_ptr b rule) 0 \<noteq> Some ICAL_RECURRENCE_ARRAY_MAX)\<rparr>"

definition rule_illegal :: "icalrecur_iterator \<Rightarrow> bool" where
  "rule_illegal impl \<longleftrightarrow>
     (let freq = r_freq (it_rule impl)
      in (icalrecur_two_byrule impl BY_YEAR_DAY BY_MONTH \<noteq> 0 \<or>
          icalrecur_two_byrule impl BY_YEAR_DAY BY_WEEK_NO \<noteq> 0 \<or>
          icalrecur_two_byrule impl BY_YEAR_DAY BY_MONTH_DAY \<noteq> 0 \<or>
          icalrecur_two_byrule impl BY_YEAR_DAY BY_DAY \<noteq> 0) \<or>
         icalrecur_two_byrule impl BY_WEEK_NO BY_MONTH_DAY \<noteq> 0 \<or>
         (freq = ICAL_MONTHLY_RECURRENCE \<and> icalrecur_one_byrule impl BY_WEEK_NO \<noteq> 0) \<or>
         (freq = ICAL_WEEKLY_RECURRENCE \<and> icalrecur_one_byrule impl BY_MONTH_DAY \<noteq> 0) \<or>
         (freq \<noteq> ICAL_YEARLY_RECURRENCE \<and> icalrecur_one_byrule impl BY_YEAR_DAY \<noteq> 0))"

definition setup_all :: "icalrecur_iterator \<Rightarrow> icalrecur_iterator option" where
  "setup_all impl0 =
     (let st = it_dtstart impl0
      in do {
        impl1 \<leftarrow> setup_defaults BY_SECOND ICAL_SECONDLY_RECURRENCE (second st) (\<lambda>v t. t\<lparr>second := v\<rparr>) impl0;
        impl2 \<leftarrow> setup_defaults BY_MINUTE ICAL_MINUTELY_RECURRENCE (minute st) (\<lambda>v t. t\<lparr>minute := v\<rparr>) impl1;
        impl3 \<leftarrow> setup_defaults BY_HOUR ICAL_HOURLY_RECURRENCE (hour st) (\<lambda>v t. t\<lparr>hour := v\<rparr>) impl2;
        impl4 \<leftarrow> setup_defaults BY_MONTH_DAY ICAL_DAILY_RECURRENCE (day st) (\<lambda>v t. t\<lparr>day := v\<rparr>) impl3;
        setup_defaults BY_MONTH ICAL_MONTHLY_RECURRENCE (month st) (\<lambda>v t. t\<lparr>month := v\<rparr>) impl4 })"

text \<open>A weekly rule: the weekday of the start, or back to the first day of the BYDAY list.\<close>

definition setup_weekly :: "icalrecur_iterator \<Rightarrow> icalrecur_iterator option" where
  "setup_weekly impl =
     (if r_freq (it_rule impl) = ICAL_WEEKLY_RECURRENCE then
        (if \<not> has_values impl BY_DAY
         then map_option (\<lambda>a. impl\<lparr>it_rule := (it_rule impl)\<lparr>by_day := a\<rparr>\<rparr>)
                (arr_put ICAL_BY_DAY_SIZE (by_day (it_rule impl)) 0 (to_short (icaltime_day_of_week (it_dtstart impl))))
         else do {
           v \<leftarrow> by_at impl BY_DAY 0;
           let dow = to_short (v - icaltime_day_of_week (it_last impl));
           Some (if (icaltime_day_of_week (it_last impl) < v \<and> dow \<ge> 0) \<or> dow < 0
                 then upd_last (\<lambda>t. icaltime_normalize (t\<lparr>day := day t + dow\<rparr>)) impl else impl) })
      else Some impl)"

text \<open>
  A monthly rule with BYDAY: the first day of the month that matches the first entry. The
  two loops count the weekdays from the month's start up and from its end down.
\<close>

fun seek_up :: "int \<Rightarrow> int \<Rightarrow> int \<Rightarrow> icaltimetype \<Rightarrow> int list \<Rightarrow> int option" where
  "seek_up dow pos poscount t [] = None"
| "seek_up dow pos poscount t (d # ds) =
     (if icaltime_day_of_week (t\<lparr>day := d\<rparr>) = dow
      then (if poscount + 1 = pos \<or> pos = 0 then Some d else seek_up dow pos (poscount + 1) t ds)
      else seek_up dow pos poscount t ds)"

fun seek_down :: "int \<Rightarrow> int \<Rightarrow> int \<Rightarrow> icaltimetype \<Rightarrow> int list \<Rightarrow> int option" where
  "seek_down dow pos poscount t [] = None"
| "seek_down dow pos poscount t (d # ds) =
     (if icaltime_day_of_week (t\<lparr>day := d\<rparr>) = dow
      then (if poscount + 1 = pos then Some d else seek_down dow pos (poscount + 1) t ds)
      else seek_down dow pos poscount t ds)"

definition month_start_day :: "int \<Rightarrow> icaltimetype \<Rightarrow> int option" where
  "month_start_day v t =
     (let dow = wd_num (icalrecurrencetype_day_day_of_week v);
          pos = icalrecurrencetype_day_position v;
          days_in_month = icaltime_days_in_month (month t) (year t)
      in if pos \<ge> 0 then seek_up dow pos 0 t [1..days_in_month]
         else seek_down dow (- pos) 0 t (rev [1..days_in_month]))"

text \<open>No iterator is the null pointer, with the error number set.\<close>

definition malformed_iterator ::
    "icalerror_state \<Rightarrow> (icalrecur_iterator option \<times> icalerror_state) option" where
  "malformed_iterator es = map_option (Pair None) (icalerror_set_errno ICAL_MALFORMEDDATA_ERROR es)"

definition setup_monthly ::
    "icalrecur_iterator \<Rightarrow> icalerror_state \<Rightarrow> (icalrecur_iterator option \<times> icalerror_state) option" where
  "setup_monthly impl es =
     (if r_freq (it_rule impl) = ICAL_MONTHLY_RECURRENCE \<and> has_by_data impl BY_DAY then do {
        v \<leftarrow> cur_value BY_DAY impl;
        (case month_start_day v (it_last impl) of
           None \<Rightarrow> malformed_iterator es
         | Some d \<Rightarrow> Some (Some (upd_last (\<lambda>t. t\<lparr>day := d\<rparr>) impl), es)) }
      else if has_by_data impl BY_MONTH_DAY then Some (Some (upd_last icaltime_normalize impl), es)
      else Some (Some impl, es))"

definition setup_yearly ::
    "icalrecur_iterator \<Rightarrow> icalerror_state \<Rightarrow> (icalrecur_iterator option \<times> icalerror_state) option" where
  "setup_yearly impl es =
     (if r_freq (it_rule impl) = ICAL_YEARLY_RECURRENCE then do {
        (r, es1) \<leftarrow> first_year impl (icalerror_clear_errno es);
        (case r of
           None \<Rightarrow> Some (None, es1)
         | Some impl1 \<Rightarrow> map_option (\<lambda>doy. (Some (goto_day doy impl1), es1))
                           (arr_get DAYS_SIZE (it_days impl1) 0)) }
      else Some (Some impl, es))"

definition icalrecur_iterator_new ::
    "icalrecurrencetype \<Rightarrow> icaltimetype \<Rightarrow> icalerror_state
       \<Rightarrow> (icalrecur_iterator option \<times> icalerror_state) option" where
  "icalrecur_iterator_new rule dtstart es =
     (let es0 = icalerror_clear_errno es;
          impl = fresh_iterator rule dtstart
      in if rule_illegal impl then malformed_iterator es0
         else do {
           impl1 \<leftarrow> setup_all impl;
           impl2 \<leftarrow> setup_weekly impl1;
           (r, es1) \<leftarrow> setup_yearly impl2 es0;
           (case r of None \<Rightarrow> Some (None, es1) | Some impl3 \<Rightarrow> setup_monthly impl3 es1) })"

end
