(* ===== verification/RecurNext.thy ===== *)
theory RecurNext
  imports RecurYear
begin

text \<open>
  The loop of \<open>icalrecur_iterator_next\<close> and the routine that fills an array with the
  occurrences of a rule.
\<close>

section \<open>Contracting rules\<close>

definition icalrecur_check_rulepart :: "icalrecur_iterator \<Rightarrow> int \<Rightarrow> byrule \<Rightarrow> bool option" where
  "icalrecur_check_rulepart impl v b =
     (if has_values impl b then find_cell (\<lambda>x. Some (x = v)) (by_cells impl b) else Some False)"

definition check_contract_restriction :: "icalrecur_iterator \<Rightarrow> byrule \<Rightarrow> int \<Rightarrow> bool option" where
  "check_contract_restriction impl b v =
     (if has_values impl b \<and> expands (r_freq (it_rule impl)) b = CONTRACT
      then find_cell (\<lambda>x. Some (x = v)) (by_cells impl b) else Some True)"

fun all_checks :: "(byrule \<times> int) list \<Rightarrow> icalrecur_iterator \<Rightarrow> bool option" where
  "all_checks [] impl = Some True"
| "all_checks ((b, v) # cs) impl =
     (case check_contract_restriction impl b v of
        None \<Rightarrow> None | Some ok \<Rightarrow> (if ok then all_checks cs impl else Some False))"

definition check_contracting_rules :: "icalrecur_iterator \<Rightarrow> bool option" where
  "check_contracting_rules impl =
     (let t = it_last impl;
          day_of_week = icaltime_day_of_week t;
          week_no = icaltime_week_number t
      in do {
        year_day \<leftarrow> icaltime_day_of_year t;
        all_checks
          [(BY_SECOND, second t), (BY_MINUTE, minute t), (BY_HOUR, hour t), (BY_DAY, day_of_week),
           (BY_WEEK_NO, week_no), (BY_MONTH_DAY, day t), (BY_MONTH, month t), (BY_YEAR_DAY, year_day)]
          impl })"

section \<open>The next occurrence\<close>

text \<open>
  One step of the frequency, with the flag that the new time is valid. A rule without a
  frequency gives no iterator.
\<close>

definition freq_step ::
    "icalrecur_iterator \<Rightarrow> icalerror_state \<Rightarrow> (bool \<times> icalrecur_iterator \<times> icalerror_state) option option" where
  "freq_step impl es =
     (let always = map_option (\<lambda>(_, i). Some (True, i, es))
      in case r_freq (it_rule impl) of
           ICAL_SECONDLY_RECURRENCE \<Rightarrow> always (next_second impl)
         | ICAL_MINUTELY_RECURRENCE \<Rightarrow> always (next_minute impl)
         | ICAL_HOURLY_RECURRENCE \<Rightarrow> always (next_hour impl)
         | ICAL_DAILY_RECURRENCE \<Rightarrow> always (next_day impl)
         | ICAL_WEEKLY_RECURRENCE \<Rightarrow> always (next_week impl)
         | ICAL_MONTHLY_RECURRENCE \<Rightarrow> map_option (\<lambda>(v, i). Some (v, i, es)) (next_month impl)
         | ICAL_YEARLY_RECURRENCE \<Rightarrow> map_option (\<lambda>(_, i, e). Some (True, i, e)) (next_year impl es)
         | ICAL_NO_RECURRENCE \<Rightarrow> Some None)"

text \<open>
  The loop: \<open>False\<close> is the early return of the null time, \<open>True\<close> a time that passes the
  contracting rules, is not before the start and is valid.
\<close>

partial_function (option) next_loop ::
    "coverage \<Rightarrow> icalrecur_iterator \<Rightarrow> icalerror_state
       \<Rightarrow> (bool \<times> icalrecur_iterator \<times> icalerror_state) option" where
  "next_loop cov impl es = do {
     r \<leftarrow> freq_step impl es;
     (case r of
        None \<Rightarrow> map_option (\<lambda>es1. (False, impl, es1)) (icalerror_set_errno ICAL_MALFORMEDDATA_ERROR es)
      | Some (valid, impl1, es1) \<Rightarrow>
          if year (it_last impl1) \<ge> 2038 then Some (False, impl1, es1)
          else do {
            ok \<leftarrow> check_contracting_rules impl1;
            if \<not> ok then next_loop cov impl1 es1
            else do {
              c \<leftarrow> icaltime_compare cov (it_last impl1) (it_dtstart impl1);
              if c < 0 \<or> \<not> valid then next_loop cov impl1 es1 else Some (True, impl1, es1) } }) }"

declare next_loop.simps [code]

text \<open>Whether the last time is behind the end of the rule, which a null end never is.\<close>

definition after_until :: "coverage \<Rightarrow> icalrecur_iterator \<Rightarrow> bool option" where
  "after_until cov impl =
     (if icaltime_is_null_time (r_until (it_rule impl)) then Some False
      else map_option (\<lambda>c. c > 0) (icaltime_compare cov (it_last impl) (r_until (it_rule impl))))"

definition give_last :: "icalrecur_iterator \<Rightarrow> icaltimetype \<times> icalrecur_iterator" where
  "give_last impl = (it_last impl, impl\<lparr>occurrence_no := occurrence_no impl + 1\<rparr>)"

definition next_from ::
    "coverage \<Rightarrow> icalrecur_iterator \<Rightarrow> icalerror_state
       \<Rightarrow> ((icaltimetype \<times> icalrecur_iterator) \<times> icalerror_state) option" where
  "next_from cov impl es =
     (if r_count (it_rule impl) \<noteq> 0 \<and> occurrence_no impl \<ge> r_count (it_rule impl)
      then Some ((icaltime_null_time, impl), es)
      else do {
        over \<leftarrow> after_until cov impl;
        if over then Some ((icaltime_null_time, impl), es)
        else do {
          c0 \<leftarrow> (if occurrence_no impl = 0 then icaltime_compare cov (it_last impl) (it_dtstart impl) else Some (- 1));
          if c0 \<ge> 0 then Some (give_last impl, es)
          else do {
            (stopped, impl1, es1) \<leftarrow> next_loop cov impl es;
            if \<not> stopped then Some ((icaltime_null_time, impl1), es1)
            else do {
              over1 \<leftarrow> after_until cov impl1;
              Some (if over1 then (icaltime_null_time, impl1) else give_last impl1, es1) } } } })"

text \<open>The iterator pointer may be null.\<close>

definition icalrecur_iterator_next ::
    "coverage \<Rightarrow> icalrecur_iterator option \<Rightarrow> icalerror_state
       \<Rightarrow> (icaltimetype \<times> icalrecur_iterator option \<times> icalerror_state) option" where
  "icalrecur_iterator_next cov ip es =
     (case ip of
        None \<Rightarrow> Some (icaltime_null_time, None, es)
      | Some impl \<Rightarrow> map_option (\<lambda>((t, i), es1). (t, Some i, es1)) (next_from cov impl es))"

section \<open>Filling an array with occurrences\<close>

text \<open>\<open>filled\<close> are the cells written so far; the next occurrence is computed before the test.\<close>

partial_function (option) expand_loop ::
    "coverage \<Rightarrow> int \<Rightarrow> int \<Rightarrow> icalrecur_iterator option \<Rightarrow> icalerror_state \<Rightarrow> int list
       \<Rightarrow> (int list \<times> icalerror_state) option" where
  "expand_loop cov start cnt ip es filled = do {
     (nxt, ip1, es1) \<leftarrow> icalrecur_iterator_next cov ip es;
     if icaltime_is_null_time nxt \<or> int (length filled) \<ge> cnt then Some (filled, es1)
     else
       let tt = icaltime_as_timet nxt
       in expand_loop cov start cnt ip1 es1 (if tt \<ge> start then filled @ [tt] else filled) }"

declare expand_loop.simps [code]

definition icalrecur_expand_recurrence ::
    "coverage \<Rightarrow> string \<Rightarrow> int \<Rightarrow> int \<Rightarrow> icalerror_state \<Rightarrow> (int list \<times> icalerror_state) option" where
  "icalrecur_expand_recurrence cov rule start cnt es = do {
     icstart \<leftarrow> icaltime_from_timet_with_zone cov start 0 None;
     (recur, es1) \<leftarrow> icalrecurrencetype_from_string rule es;
     (ritr, es2) \<leftarrow> icalrecur_iterator_new recur icstart es1;
     (case ritr of
        None \<Rightarrow> Some (replicate (nat cnt) 0, es2)
      | Some i \<Rightarrow> map_option (\<lambda>(filled, es3). (filled @ replicate (nat cnt - length filled) 0, es3))
                    (expand_loop cov start cnt (Some i) es2 [])) }"

end
