(* ===== verification/RecurSteps.thy ===== *)
theory RecurSteps
  imports RecurNext TimeLaws
begin

text \<open>
  The steps of the iterator. The carries from seconds to years compute \<open>icaltime_adjust\<close>;
  a rule with no \<open>BY\<close> part steps from its start in equal intervals.
\<close>

section \<open>The test for two parts never succeeds\<close>

lemma two_byrule_zero: "icalrecur_two_byrule impl one two = 0"
  by (simp add: icalrecur_two_byrule_def interday_rules_def Let_def)

lemma one_byrule_none: "\<not> has_values impl one \<Longrightarrow> one \<in> set interday_rules \<Longrightarrow> icalrecur_one_byrule impl one = 0"
  by (auto simp: icalrecur_one_byrule_def interday_rules_def)

section \<open>Carries\<close>

text \<open>Months advance one by one, not through a list or by the interval of a monthly rule.\<close>

definition month_free :: "icalrecur_iterator \<Rightarrow> bool" where
  "month_free impl \<longleftrightarrow> \<not> has_by_data impl BY_MONTH \<and>
     (r_freq (it_rule impl) \<noteq> ICAL_MONTHLY_RECURRENCE \<or> r_interval (it_rule impl) = 1)"

lemma month_free_upd [simp]: "month_free (impl\<lparr>it_last := t\<rparr>) = month_free impl"
  by (simp add: month_free_def has_by_data_def)

lemma increment_month_free:
  assumes "month_free impl" "1 \<le> month (it_last impl)" "month (it_last impl) \<le> 12"
  shows "increment_month impl =
    Some (upd_last (\<lambda>t. if month t = 12 then t\<lparr>year := year t + 1, month := 1\<rparr> else t\<lparr>month := month t + 1\<rparr>) impl)"
proof -
  let ?m = "month (it_last impl)"
  have inc: "(if r_freq (it_rule impl) = ICAL_MONTHLY_RECURRENCE then r_interval (it_rule impl) else 1) = 1"
    using assms(1) by (auto simp: month_free_def)
  show ?thesis
  proof (cases "?m = 12")
    case True
    then show ?thesis
      using assms inc by (simp add: increment_month_def month_free_def increment_year_def c_div_nonneg c_mod_nonneg)
  next
    case False
    then have "c_div ?m 12 = 0" "c_mod ?m 12 = ?m"
      using assms(2,3) by (simp_all add: c_div_nonneg c_mod_nonneg div_pos_pos_trivial mod_pos_pos_trivial)
    then show ?thesis using False assms inc by (simp add: increment_month_def month_free_def)
  qed
qed

definition set_date :: "int \<Rightarrow> int \<Rightarrow> int \<Rightarrow> icaltimetype \<Rightarrow> icaltimetype" where
  "set_date y m d t = t\<lparr>year := y, month := m, day := d\<rparr>"

lemma set_date_fields [simp]:
  "year (set_date y m d t) = y" "month (set_date y m d t) = m" "day (set_date y m d t) = d"
  "hour (set_date y m d t) = hour t" "minute (set_date y m d t) = minute t" "second (set_date y m d t) = second t"
  "is_date (set_date y m d t) = is_date t" "is_utc (set_date y m d t) = is_utc t"
  "is_daylight (set_date y m d t) = is_daylight t" "zone (set_date y m d t) = zone t"
  "set_date y m d (set_date y' m' d' t) = set_date y m d t"
  by (simp_all add: set_date_def)

lemma set_date_self: "set_date (year t) (month t) (day t) t = t"
  by (cases t) (simp add: set_date_def)

lemma monthday_steps_0: "monthday_steps 0 = Some"
  by (simp add: fun_eq_iff)

text \<open>One day forward.\<close>

lemma monthday_step:
  assumes free: "month_free impl" and nd: "normal_date (it_last impl)"
  shows "\<exists>y m d. monthday_steps 1 impl = Some (upd_last (set_date y m d) impl) \<and>
    normal_date (set_date y m d (it_last impl)) \<and>
    ical_days y m d = ical_days (year (it_last impl)) (month (it_last impl)) (day (it_last impl)) + 1"
proof -
  let ?t = "it_last impl"
  let ?dim = "icaltime_days_in_month (month ?t) (year ?t)"
  have m: "1 \<le> month ?t" "month ?t \<le> 12" "1 \<le> day ?t" "day ?t \<le> ?dim" using nd by (simp_all add: normal_date_def)
  show ?thesis
  proof (cases "day ?t + 1 > ?dim")
    case False
    have "monthday_steps 1 impl = Some (upd_last (set_date (year ?t) (month ?t) (day ?t + 1)) impl)"
      using False by (cases ?t) (simp add: set_date_def)
    moreover have "normal_date (set_date (year ?t) (month ?t) (day ?t + 1) ?t)"
      using m False by (simp add: normal_date_def)
    ultimately show ?thesis using ical.dn_day by blast
  next
    case True
    then have d: "day ?t + 1 - ?dim = 1" using m by simp
    let ?i = "upd_last (\<lambda>t. t\<lparr>day := 1\<rparr>) impl"
    have inc: "monthday_steps 1 impl = increment_month ?i"
      using True d by (simp add: monthday_steps_0)
    have mi: "increment_month ?i = Some (upd_last (\<lambda>t. if month t = 12 then t\<lparr>year := year t + 1, month := 1\<rparr>
        else t\<lparr>month := month t + 1\<rparr>) ?i)"
      using free m by (intro increment_month_free) simp_all
    show ?thesis
    proof (cases "month ?t = 12")
      case dec: True
      have "monthday_steps 1 impl = Some (upd_last (set_date (year ?t + 1) 1 1) impl)"
        using dec by (simp only: inc mi) (simp add: set_date_def)
      moreover have "normal_date (set_date (year ?t + 1) 1 1 ?t)"
        using days_in_month_pos [of 1 "year ?t + 1"] by (simp add: normal_date_def)
      moreover have "ical_days (year ?t + 1) 1 1 = ical_days (year ?t) (month ?t) (day ?t) + 1"
        using ical.dn_year [of "year ?t" 1] ical.dn_day [of "year ?t" 12 "day ?t" 1]
          ical.dn_day [of "year ?t" 12 1 ?dim] d dec
        by (simp add: algebra_simps)
      ultimately show ?thesis by blast
    next
      case nodec: False
      have "monthday_steps 1 impl = Some (upd_last (set_date (year ?t) (month ?t + 1) 1) impl)"
        using nodec by (simp only: inc mi) (cases ?t, simp add: set_date_def)
      moreover have "normal_date (set_date (year ?t) (month ?t + 1) 1 ?t)"
        using m nodec days_in_month_pos [of "month ?t + 1" "year ?t"] by (simp add: normal_date_def)
      moreover have "ical_days (year ?t) (month ?t + 1) 1 = ical_days (year ?t) (month ?t) (day ?t) + 1"
        using ical.dn_month [of "month ?t" "year ?t" 1] ical.dn_day [of "year ?t" "month ?t" "day ?t" 1]
          ical.dn_day [of "year ?t" "month ?t" 1 ?dim] d m nodec
        by (simp add: algebra_simps)
      ultimately show ?thesis by blast
    qed
  qed
qed

lemma monthday_steps_Suc: "monthday_steps (Suc n) impl = Option.bind (monthday_steps 1 impl) (monthday_steps n)"
  by (simp add: monthday_steps_0 Let_def)

lemma monthday_steps_move:
  assumes "month_free impl" "normal_date (it_last impl)"
  shows "\<exists>y m d. monthday_steps n impl = Some (upd_last (set_date y m d) impl) \<and>
    normal_date (set_date y m d (it_last impl)) \<and>
    ical_days y m d = ical_days (year (it_last impl)) (month (it_last impl)) (day (it_last impl)) + int n"
  using assms
proof (induction n arbitrary: impl)
  case 0
  then show ?case
    by (intro exI [of _ "year (it_last impl)"] exI [of _ "month (it_last impl)"] exI [of _ "day (it_last impl)"])
      (simp add: set_date_self)
next
  case (Suc n)
  obtain y m d where 1: "monthday_steps 1 impl = Some (upd_last (set_date y m d) impl)"
    "normal_date (set_date y m d (it_last impl))"
    "ical_days y m d = ical_days (year (it_last impl)) (month (it_last impl)) (day (it_last impl)) + 1"
    using monthday_step [OF Suc.prems] by blast
  let ?i = "upd_last (set_date y m d) impl"
  have "month_free ?i" "normal_date (it_last ?i)" using Suc.prems(1) 1(2) by simp_all
  from Suc.IH [OF this] obtain y' m' d' where 2: "monthday_steps n ?i = Some (upd_last (set_date y' m' d') ?i)"
    "normal_date (set_date y' m' d' (it_last ?i))" "ical_days y' m' d' = ical_days y m d + int n"
    by auto
  then have "monthday_steps (Suc n) impl = Some (upd_last (set_date y' m' d') impl)"
    by (simp only: monthday_steps_Suc 1(1) Option.bind.simps) simp
  with 1(3) 2(2,3) show ?case
    by (intro exI [of _ y'] exI [of _ m'] exI [of _ d']) (simp del: monthday_steps.simps)
qed

section \<open>The carries are the adjustment\<close>

lemma normal_set_date: "normal_time t \<Longrightarrow> normal_date (set_date y m d t) \<Longrightarrow> normal_time (set_date y m d t)"
  by (simp add: normal_time_def)

lemma set_date_adjust:
  assumes t: "normal_time t" and n: "normal_date (set_date y m d t)"
    and days: "ical_days y m d = ical_days (year t) (month t) (day t) + k"
  shows "set_date y m d t = icaltime_adjust t k 0 0 0"
proof (cases "is_date t = 0")
  case True
  show ?thesis
    using adjust_time [OF True, of k 0 0 0] normal_set_date [OF t n] days
    by (intro icaltime_eqI) (simp_all add: ical_secs_def)
next
  case False
  let ?r = "icaltime_adjust t k 0 0 0"
  note r = adjust_date [OF False, of k 0 0 0]
  have "ical_days y m d = ical_days (year ?r) (month ?r) (day ?r)" using r(1) days by simp
  then have "year ?r = y" "month ?r = m" "day ?r = d"
    using ical_days_inj [OF n r(2)] by simp_all
  then show ?thesis by (intro icaltimetype.equality) (simp_all add: r(3-5))
qed

lemma increment_monthday_adjust:
  assumes "month_free impl" "normal_time (it_last impl)" "0 \<le> k"
  shows "increment_monthday k impl = Some (upd_last (\<lambda>t. icaltime_adjust t k 0 0 0) impl)"
proof -
  have nd: "normal_date (it_last impl)" using assms(2) by (simp add: normal_time_def)
  obtain y m d where "monthday_steps (nat k) impl = Some (upd_last (set_date y m d) impl)"
    "normal_date (set_date y m d (it_last impl))"
    "ical_days y m d = ical_days (year (it_last impl)) (month (it_last impl)) (day (it_last impl)) + k"
    using monthday_steps_move [OF assms(1) nd, of "nat k"] assms(3) by auto
  then show ?thesis using set_date_adjust [OF assms(2)] by (simp add: increment_monthday_def)
qed

text \<open>A timed \<open>last\<close> that is reduced in one field, with the carry into the next.\<close>

lemma adjust_carry:
  assumes t: "is_date t = 0" "normal_time u" "is_date u = 0"
    and same: "is_utc u = is_utc t" "is_daylight u = is_daylight t" "zone u = zone t"
    and secs: "ical_secs u + 86400 * d + 3600 * h + 60 * mi + s = ical_secs t + 86400 * d' + 3600 * h' + 60 * mi' + s'"
  shows "icaltime_adjust u d h mi s = icaltime_adjust t d' h' mi' s'"
  by (rule icaltime_eqI) (use t same secs in \<open>simp_all add: adjust_time\<close>)

lemma adjust_none: "is_date u = 0 \<Longrightarrow> normal_time u \<Longrightarrow> icaltime_adjust u 0 0 0 0 = u"
  using normalize_id by (simp add: icaltime_normalize_def)

text \<open>The state of a timed iterator the carries apply to.\<close>

definition timed :: "icalrecur_iterator \<Rightarrow> bool" where
  "timed impl \<longleftrightarrow> month_free impl \<and> normal_time (it_last impl) \<and> is_date (it_last impl) = 0"

lemma timed_upd:
  assumes "timed impl"
  shows "0 \<le> v \<Longrightarrow> v < 24 \<Longrightarrow> timed (upd_last (\<lambda>t. t\<lparr>hour := v\<rparr>) impl)"
    "0 \<le> v \<Longrightarrow> v < 60 \<Longrightarrow> timed (upd_last (\<lambda>t. t\<lparr>minute := v\<rparr>) impl)"
    "0 \<le> v \<Longrightarrow> v < 60 \<Longrightarrow> timed (upd_last (\<lambda>t. t\<lparr>second := v\<rparr>) impl)"
    "timed (upd_last (\<lambda>t. icaltime_adjust t d h mi s) impl)"
  using assms by (simp_all add: timed_def normal_time_def normal_date_def adjust_time(2) [unfolded normal_time_def normal_date_def])

lemma div_mod_carry:
  fixes v b :: int
  assumes "0 \<le> v" "0 < b"
  shows "c_div v b = v div b" "c_mod v b = v mod b" "0 \<le> v mod b" "v mod b < b" "0 \<le> v div b"
    "v = b * (v div b) + v mod b"
  using assms by (simp_all add: c_div_nonneg c_mod_nonneg pos_imp_zdiv_nonneg_iff)

text \<open>The shape of the three carries: reduce a field, then pass the quotient on if there is one.\<close>

lemma carry_into:
  assumes "timed impl" "timed (impl\<lparr>it_last := u\<rparr>)" "0 \<le> q"
    and carry: "g q (impl\<lparr>it_last := u\<rparr>) = Some (upd_last (\<lambda>t. icaltime_adjust t d h mi 0) (impl\<lparr>it_last := u\<rparr>))"
    and none: "q = 0 \<Longrightarrow> d = 0 \<and> h = 0 \<and> mi = 0"
    and same: "is_utc u = is_utc (it_last impl)" "is_daylight u = is_daylight (it_last impl)" "zone u = zone (it_last impl)"
    and secs: "ical_secs u + 86400 * d + 3600 * h + 60 * mi = ical_secs (it_last impl) + 3600 * h' + 60 * mi' + s'"
  shows "(if q \<noteq> 0 then g q (impl\<lparr>it_last := u\<rparr>) else Some (impl\<lparr>it_last := u\<rparr>)) =
    Some (upd_last (\<lambda>t. icaltime_adjust t 0 h' mi' s') impl)"
proof -
  have u: "normal_time u" "is_date u = 0" "is_date (it_last impl) = 0" using assms(1,2) by (simp_all add: timed_def)
  have "icaltime_adjust u d h mi 0 = icaltime_adjust (it_last impl) 0 h' mi' s'"
    by (rule adjust_carry) (use u same secs in simp_all)
  moreover have "icaltime_adjust u d h mi 0 = u" if "q = 0"
    using none [OF that] u by (simp add: adjust_none)
  ultimately show ?thesis using carry by auto
qed

lemma increment_hour_adjust:
  assumes t: "timed impl" and n: "0 \<le> n"
  shows "increment_hour n impl = Some (upd_last (\<lambda>t. icaltime_adjust t 0 n 0 0) impl)"
proof -
  define h where "h = hour (it_last impl) + n"
  have "0 \<le> h" using t n by (simp add: h_def timed_def normal_time_def)
  note dm = div_mod_carry [OF this, of 24, OF zero_less_numeral]
  let ?i = "upd_last (\<lambda>t. t\<lparr>hour := h mod 24\<rparr>) impl"
  have i: "timed ?i" using t dm by (intro timed_upd)
  have sc: "3600 * (h mod 24) + 86400 * (h div 24) = 3600 * hour (it_last impl) + 3600 * n"
    using dm(6) h_def by linarith
  have "(if h div 24 \<noteq> 0 then increment_monthday (h div 24) ?i else Some ?i) =
      Some (upd_last (\<lambda>t. icaltime_adjust t 0 n 0 0) impl)"
    using t i dm(5) sc i [unfolded timed_def]
    by (intro carry_into [where d = "h div 24" and h = 0 and mi = 0] increment_monthday_adjust)
      (simp_all add: ical_secs_def)
  then show ?thesis using dm(1,2) by (simp add: increment_hour_def h_def [symmetric])
qed

lemma increment_minute_adjust:
  assumes t: "timed impl" and n: "0 \<le> n"
  shows "increment_minute n impl = Some (upd_last (\<lambda>t. icaltime_adjust t 0 0 n 0) impl)"
proof -
  define m where "m = minute (it_last impl) + n"
  have "0 \<le> m" using t n by (simp add: m_def timed_def normal_time_def)
  note dm = div_mod_carry [OF this, of 60, OF zero_less_numeral]
  let ?i = "upd_last (\<lambda>t. t\<lparr>minute := m mod 60\<rparr>) impl"
  have i: "timed ?i" using t dm by (intro timed_upd)
  have sc: "60 * (m mod 60) + 3600 * (m div 60) = 60 * minute (it_last impl) + 60 * n"
    using dm(6) m_def by linarith
  have "(if m div 60 \<noteq> 0 then increment_hour (m div 60) ?i else Some ?i) =
      Some (upd_last (\<lambda>t. icaltime_adjust t 0 0 n 0) impl)"
    using t i dm(5) sc by (intro carry_into [where h = "m div 60" and d = 0 and mi = 0] increment_hour_adjust)
      (simp_all add: ical_secs_def)
  then show ?thesis using dm(1,2) by (simp add: increment_minute_def m_def [symmetric])
qed

lemma increment_second_adjust:
  assumes t: "timed impl" and n: "0 \<le> n"
  shows "increment_second n impl = Some (upd_last (\<lambda>t. icaltime_adjust t 0 0 0 n) impl)"
proof -
  define s where "s = second (it_last impl) + n"
  have "0 \<le> s" using t n by (simp add: s_def timed_def normal_time_def)
  note dm = div_mod_carry [OF this, of 60, OF zero_less_numeral]
  let ?i = "upd_last (\<lambda>t. t\<lparr>second := s mod 60\<rparr>) impl"
  have i: "timed ?i" using t dm by (intro timed_upd)
  have sc: "s mod 60 + 60 * (s div 60) = second (it_last impl) + n"
    using dm(6) s_def by linarith
  have "(if s div 60 \<noteq> 0 then increment_minute (s div 60) ?i else Some ?i) =
      Some (upd_last (\<lambda>t. icaltime_adjust t 0 0 0 n) impl)"
    using t i dm(5) sc by (intro carry_into [where mi = "s div 60" and d = 0 and h = 0] increment_minute_adjust)
      (simp_all add: ical_secs_def)
  then show ?thesis using dm(1,2) by (simp add: increment_second_def s_def [symmetric])
qed

end
