(* ===== verification/RecurPlain.thy ===== *)
theory RecurPlain
  imports RecurSteps DurationLaws
begin

text \<open>
  Rules with no \<open>BY\<close> part that repeat every so many seconds, minutes, hours, days or weeks:
  the iterator gives the start moved by the multiples of the interval, one after the other,
  up to the count and the year 2038.
\<close>

section \<open>The state of the iterator\<close>

definition freq_shift :: "icalrecurrencetype_frequency \<Rightarrow> int \<Rightarrow> icaltimetype \<Rightarrow> icaltimetype" where
  "freq_shift f k t =
     (case f of ICAL_SECONDLY_RECURRENCE \<Rightarrow> icaltime_adjust t 0 0 0 k
      | ICAL_MINUTELY_RECURRENCE \<Rightarrow> icaltime_adjust t 0 0 k 0
      | ICAL_HOURLY_RECURRENCE \<Rightarrow> icaltime_adjust t 0 k 0 0
      | ICAL_DAILY_RECURRENCE \<Rightarrow> icaltime_adjust t k 0 0 0
      | _ \<Rightarrow> icaltime_adjust t (7 * k) 0 0 0)"

definition freq_secs :: "icalrecurrencetype_frequency \<Rightarrow> int" where
  "freq_secs f =
     (case f of ICAL_SECONDLY_RECURRENCE \<Rightarrow> 1 | ICAL_MINUTELY_RECURRENCE \<Rightarrow> 60
      | ICAL_HOURLY_RECURRENCE \<Rightarrow> 3600 | ICAL_DAILY_RECURRENCE \<Rightarrow> 86400 | _ \<Rightarrow> 604800)"

definition periodic :: "icalrecurrencetype_frequency \<Rightarrow> bool" where
  "periodic f \<longleftrightarrow> f = ICAL_SECONDLY_RECURRENCE \<or> f = ICAL_MINUTELY_RECURRENCE \<or> f = ICAL_HOURLY_RECURRENCE \<or>
     f = ICAL_DAILY_RECURRENCE \<or> f = ICAL_WEEKLY_RECURRENCE"

definition plain_rule :: "icalrecurrencetype \<Rightarrow> bool" where
  "plain_rule r \<longleftrightarrow> periodic (r_freq r) \<and> 1 \<le> r_interval r \<and> 0 \<le> r_count r \<and>
     icaltime_is_null_time (r_until r) \<and> by_second r = [] \<and> by_minute r = [] \<and> by_hour r = [] \<and>
     by_day r = [] \<and> by_month_day r = [] \<and> by_year_day r = [] \<and> by_week_no r = [] \<and> by_month r = [] \<and>
     by_set_pos r = []"

text \<open>A start the comparison does not have to convert: floating or UTC.\<close>

definition plain_start :: "icaltimetype \<Rightarrow> bool" where
  "plain_start t \<longleftrightarrow> normal_time t \<and> is_date t = 0 \<and> (zone t = None \<or> zone t = icaltimezone_get_utc_timezone)"

lemma freq_shift_time:
  assumes "is_date t = 0" "periodic f"
  shows "ical_secs (freq_shift f k t) = ical_secs t + freq_secs f * k" "normal_time (freq_shift f k t)"
  using assms by (auto simp: freq_shift_def freq_secs_def adjust_time periodic_def)

lemma freq_shift_flags [simp]:
  "is_date (freq_shift f k t) = is_date t" "is_utc (freq_shift f k t) = is_utc t"
  "zone (freq_shift f k t) = zone t" "is_daylight (freq_shift f k t) = is_daylight t"
  by (simp_all add: freq_shift_def split: icalrecurrencetype_frequency.split)

lemma freq_shift_shift:
  "is_date t = 0 \<Longrightarrow> freq_shift f l (freq_shift f k t) = freq_shift f (k + l) t"
  by (simp add: freq_shift_def adjust_adjust distrib_left split: icalrecurrencetype_frequency.split)

lemma freq_shift_0: "is_date t = 0 \<Longrightarrow> normal_time t \<Longrightarrow> freq_shift f 0 t = t"
  by (simp add: freq_shift_def adjust_none split: icalrecurrencetype_frequency.split)

text \<open>The fields below the unit stay as they are.\<close>

lemma adjust_low_fields:
  assumes "is_date t = 0" "normal_time t"
  shows "second (icaltime_adjust t d h mi 0) = second t"
    "minute (icaltime_adjust t d h 0 0) = minute t" "hour (icaltime_adjust t d 0 0 0) = hour t"
proof -
  have r: "0 \<le> second t" "second t < 60" "0 \<le> minute t" "minute t < 60" "0 \<le> hour t" "hour t < 24"
    using assms(2) by (simp_all add: normal_time_def)
  show "second (icaltime_adjust t d h mi 0) = second t"
    "minute (icaltime_adjust t d h 0 0) = minute t" "hour (icaltime_adjust t d 0 0 0) = hour t"
    using assms(1) r by (simp_all add: icaltime_adjust_def carry_div_mod Let_def split: prod.split)
qed

lemma freq_shift_low:
  assumes "is_date t = 0" "normal_time t"
  shows "f \<noteq> ICAL_SECONDLY_RECURRENCE \<Longrightarrow> second (freq_shift f k t) = second t"
    "f \<noteq> ICAL_SECONDLY_RECURRENCE \<Longrightarrow> f \<noteq> ICAL_MINUTELY_RECURRENCE \<Longrightarrow> minute (freq_shift f k t) = minute t"
    "f \<noteq> ICAL_SECONDLY_RECURRENCE \<Longrightarrow> f \<noteq> ICAL_MINUTELY_RECURRENCE \<Longrightarrow> f \<noteq> ICAL_HOURLY_RECURRENCE \<Longrightarrow>
       hour (freq_shift f k t) = hour t"
  using assms by (simp_all add: freq_shift_def adjust_low_fields split: icalrecurrencetype_frequency.split)

text \<open>The arrays the creation fills in.\<close>

definition plain_init :: "icalrecurrencetype \<Rightarrow> icaltimetype \<Rightarrow> icalrecurrencetype" where
  "plain_init r t =
     (let f = r_freq r
      in r\<lparr>by_second := (if f = ICAL_SECONDLY_RECURRENCE then [] else [second t]),
           by_minute := (if f = ICAL_SECONDLY_RECURRENCE \<or> f = ICAL_MINUTELY_RECURRENCE then [] else [minute t]),
           by_hour := (if f = ICAL_DAILY_RECURRENCE \<or> f = ICAL_WEEKLY_RECURRENCE then [hour t] else []),
           by_day := (if f = ICAL_WEEKLY_RECURRENCE then [to_short (icaltime_day_of_week t)] else []),
           by_month_day := (if f = ICAL_WEEKLY_RECURRENCE then [day t] else [])\<rparr>)"

lemma plain_init_fields [simp]:
  "r_freq (plain_init r t) = r_freq r" "r_interval (plain_init r t) = r_interval r"
  "r_count (plain_init r t) = r_count r" "r_until (plain_init r t) = r_until r"
  "by_second (plain_init r t) = (if r_freq r = ICAL_SECONDLY_RECURRENCE then [] else [second t])"
  "by_minute (plain_init r t) =
     (if r_freq r = ICAL_SECONDLY_RECURRENCE \<or> r_freq r = ICAL_MINUTELY_RECURRENCE then [] else [minute t])"
  "by_hour (plain_init r t) =
     (if r_freq r = ICAL_DAILY_RECURRENCE \<or> r_freq r = ICAL_WEEKLY_RECURRENCE then [hour t] else [])"
  "by_day (plain_init r t) =
     (if r_freq r = ICAL_WEEKLY_RECURRENCE then [to_short (icaltime_day_of_week t)] else [])"
  "by_month_day (plain_init r t) = (if r_freq r = ICAL_WEEKLY_RECURRENCE then [day t] else [])"
  "by_year_day (plain_init r t) = by_year_day r" "by_week_no (plain_init r t) = by_week_no r"
  "by_month (plain_init r t) = by_month r"
  by (simp_all add: plain_init_def Let_def)

definition plain_at :: "icalrecurrencetype \<Rightarrow> icaltimetype \<Rightarrow> int \<Rightarrow> int \<Rightarrow> icalrecur_iterator \<Rightarrow> bool" where
  "plain_at r t k n impl \<longleftrightarrow> it_dtstart impl = t \<and> it_last impl = freq_shift (r_freq r) (k * r_interval r) t \<and>
     occurrence_no impl = n \<and> it_rule impl = plain_init r t \<and> by_indices impl = (\<lambda>b. 0) \<and>
     orig_data impl = (\<lambda>b. False)"

lemma arr_get_small:
  "arr_get n [] i = (if i < n then Some ICAL_RECURRENCE_ARRAY_MAX else None)"
  "arr_get n [v] 0 = (if 0 < n then Some v else None)"
  "arr_get n [v] (Suc 0) = (if 1 < n then Some ICAL_RECURRENCE_ARRAY_MAX else None)"
  by (simp_all add: arr_get_def)

lemma arr_put_0: "arr_put n [] 0 v = (if 0 < n then Some [v] else None)"
  by (simp add: arr_put_def)

lemma small_not_max: "v < 100 \<Longrightarrow> v \<noteq> ICAL_RECURRENCE_ARRAY_MAX"
  by (simp add: ICAL_RECURRENCE_ARRAY_MAX_def)

section \<open>Creation\<close>

lemma icaltime_self_update:
  "t\<lparr>second := second t\<rparr> = t" "t\<lparr>minute := minute t\<rparr> = t" "t\<lparr>hour := hour t\<rparr> = (t::icaltimetype)"
  "t\<lparr>day := day t\<rparr> = t" "t\<lparr>month := month t\<rparr> = t"
  by (cases t; simp)+

lemma setup_defaults_contract:
  "expands (r_freq (it_rule impl)) b = CONTRACT \<Longrightarrow> setup_defaults b req v f impl = Some impl"
  by (simp add: setup_defaults_def)

lemma setup_defaults_empty:
  assumes "by_ptr b (it_rule impl) = []" "expands (r_freq (it_rule impl)) b \<noteq> CONTRACT"
    and "r_freq (it_rule impl) \<noteq> req" "to_short v = v" "f v (it_last impl) = it_last impl"
  shows "setup_defaults b req v f impl = Some (impl\<lparr>it_rule := set_by_ptr b [v] (it_rule impl)\<rparr>)"
proof -
  have n: "0 < by_size b" by (cases b) (simp_all add: by_sizes)
  have s: "by_ptr b (set_by_ptr b [v] (it_rule impl)) = [v]" by (cases b) simp_all
  show ?thesis
    using assms n s by (simp add: setup_defaults_def has_values_def by_at_def arr_get_small arr_put_0)
qed

lemma normal_short:
  assumes "normal_time t"
  shows "to_short (second t) = second t" "to_short (minute t) = minute t" "to_short (hour t) = hour t"
    "to_short (day t) = day t"
  using assms days_in_month_le [of "month t" "year t"]
  by (auto simp: normal_time_def normal_date_def intro!: to_short_id)

lemma periodic_cases:
  assumes "periodic f"
  obtains "f = ICAL_SECONDLY_RECURRENCE" | "f = ICAL_MINUTELY_RECURRENCE" | "f = ICAL_HOURLY_RECURRENCE"
    | "f = ICAL_DAILY_RECURRENCE" | "f = ICAL_WEEKLY_RECURRENCE"
  using assms by (auto simp: periodic_def)

lemma new_plain:
  assumes r: "plain_rule r" and t: "plain_start t"
  shows "\<exists>impl. icalrecur_iterator_new r t es = Some (Some impl, icalerror_clear_errno es) \<and> plain_at r t 0 0 impl"
proof -
  let ?i = "fresh_iterator r t"
  have nt: "normal_time t" "is_date t = 0" using t by (simp_all add: plain_start_def)
  have e: "by_second r = []" "by_minute r = []" "by_hour r = []" "by_day r = []" "by_month_day r = []"
    "by_year_day r = []" "by_week_no r = []" "by_month r = []" "by_set_pos r = []"
    using r by (simp_all add: plain_rule_def)
  have empty: "by_ptr b r = []" for b using e by (cases b) simp_all
  have n: "0 < by_size b" for b by (cases b) (simp_all add: by_sizes)
  have od: "orig_data ?i = (\<lambda>b. False)"
    by (simp add: fresh_iterator_def empty arr_get_small n)
  have hv: "\<not> has_values ?i b" for b
    by (simp add: has_values_def by_at_def fresh_iterator_def empty arr_get_small n)
  have legal: "\<not> rule_illegal ?i"
    unfolding rule_illegal_def by (simp add: two_byrule_zero one_byrule_none [OF hv] interday_rules_def)
  have f: "it_rule ?i = r" "it_last ?i = t" "it_dtstart ?i = t" "by_indices ?i = (\<lambda>b. 0)" "occurrence_no ?i = 0"
    by (simp_all add: fresh_iterator_def)
  have per: "periodic (r_freq r)" using r by (simp add: plain_rule_def)
  let ?j = "?i\<lparr>it_rule := plain_init r t\<rparr>"
  have "\<exists>k. setup_all ?i = Some k \<and> setup_weekly k = Some ?j"
    using per
    by (cases rule: periodic_cases)
      (simp_all add: setup_all_def f expands_def e setup_defaults_contract setup_defaults_empty normal_short [OF nt(1)]
        icaltime_self_update setup_weekly_def plain_init_def has_values_def by_at_def arr_get_small arr_put_0 by_sizes)
  then obtain k where k: "setup_all ?i = Some k" "setup_weekly k = Some ?j" by blast
  have y: "setup_yearly ?j es1 = Some (Some ?j, es1)" "setup_monthly ?j es1 = Some (Some ?j, es1)" for es1
    using per od by (auto simp: setup_yearly_def setup_monthly_def has_by_data_def periodic_def)
  have "icalrecur_iterator_new r t es = Some (Some ?j, icalerror_clear_errno es)"
    by (simp add: icalrecur_iterator_new_def legal k y Let_def)
  moreover have "plain_at r t 0 0 ?j"
    using od f nt by (simp add: plain_at_def freq_shift_0)
  ultimately show ?thesis by blast
qed

section \<open>One step\<close>

text \<open>An array with one entry that is the field itself signals the end and changes nothing.\<close>

lemma next_index_single:
  assumes "by_ptr b (it_rule impl) = [v]" "by_indices impl = (\<lambda>b. 0)"
  shows "next_index b impl = Some (True, impl)" "cur_value b impl = Some v"
proof -
  have n: "1 < by_size b" by (cases b) (simp_all add: by_sizes)
  have "impl\<lparr>by_indices := \<lambda>b. 0\<rparr> = impl" using assms(2) by (cases impl) simp
  then show "next_index b impl = Some (True, impl)"
    using assms n by (simp add: next_index_def by_at_def arr_get_small fun_upd_def)
  show "cur_value b impl = Some v"
    using assms n by (simp add: cur_value_def by_at_def arr_get_small)
qed

lemma has_values_list:
  "by_ptr b (it_rule impl) = [] \<Longrightarrow> \<not> has_values impl b"
  "by_ptr b (it_rule impl) = [v] \<Longrightarrow> v \<noteq> ICAL_RECURRENCE_ARRAY_MAX \<Longrightarrow> has_values impl b"
proof -
  have n: "0 < by_size b" by (cases b) (simp_all add: by_sizes)
  then show "by_ptr b (it_rule impl) = [] \<Longrightarrow> \<not> has_values impl b"
    "by_ptr b (it_rule impl) = [v] \<Longrightarrow> v \<noteq> ICAL_RECURRENCE_ARRAY_MAX \<Longrightarrow> has_values impl b"
    by (simp_all add: has_values_def by_at_def arr_get_small)
qed

lemma upd_last_same: "f (it_last impl) = it_last impl \<Longrightarrow> upd_last f impl = impl"
  by (cases impl) simp

lemma next_second_single:
  assumes "by_second (it_rule impl) = [second (it_last impl)]" "by_indices impl = (\<lambda>b. 0)"
    "r_freq (it_rule impl) \<noteq> ICAL_SECONDLY_RECURRENCE" "second (it_last impl) < 100"
  shows "next_second impl = Some (True, impl)"
  using assms next_index_single [of BY_SECOND impl] has_values_list(2) [of BY_SECOND impl] small_not_max
  by (simp add: next_second_def c_assert_def upd_last_same icaltime_self_update)

lemma next_minute_single:
  assumes "next_second impl = Some (True, impl)" "by_minute (it_rule impl) = [minute (it_last impl)]"
    "by_indices impl = (\<lambda>b. 0)" "r_freq (it_rule impl) \<noteq> ICAL_MINUTELY_RECURRENCE" "minute (it_last impl) < 100"
  shows "next_minute impl = Some (True, impl)"
  using assms next_index_single [of BY_MINUTE impl] has_values_list(2) [of BY_MINUTE impl] small_not_max
  by (simp add: next_minute_def c_assert_def upd_last_same icaltime_self_update)

lemma next_hour_single:
  assumes "next_minute impl = Some (True, impl)" "by_hour (it_rule impl) = [hour (it_last impl)]"
    "by_indices impl = (\<lambda>b. 0)" "r_freq (it_rule impl) \<noteq> ICAL_HOURLY_RECURRENCE" "hour (it_last impl) < 100"
  shows "next_hour impl = Some (True, impl)"
  using assms next_index_single [of BY_HOUR impl] has_values_list(2) [of BY_HOUR impl] small_not_max
  by (simp add: next_hour_def c_assert_def upd_last_same icaltime_self_update)

lemma plain_step:
  assumes r: "plain_rule r" and t: "plain_start t" and at: "plain_at r t k n impl" and k: "0 \<le> k"
  shows "freq_step impl es =
    Some (Some (True, upd_last (freq_shift (r_freq r) (r_interval r)) impl, es))"
proof -
  let ?f = "r_freq r" and ?l = "it_last impl"
  have nt: "normal_time t" "is_date t = 0" using t by (simp_all add: plain_start_def)
  have per: "periodic ?f" and iv: "1 \<le> r_interval r" using r by (simp_all add: plain_rule_def)
  have i: "it_rule impl = plain_init r t" "by_indices impl = (\<lambda>b. 0)" "orig_data impl = (\<lambda>b. False)"
    and l: "?l = freq_shift ?f (k * r_interval r) t" using at by (simp_all add: plain_at_def)
  have nl: "normal_time ?l" "is_date ?l = 0" using freq_shift_time [OF nt(2) per] nt by (simp_all add: l)
  have "timed impl"
    using nl per by (auto simp: timed_def month_free_def has_by_data_def i periodic_def)
  note inc = increment_second_adjust [OF this] increment_minute_adjust [OF this] increment_hour_adjust [OF this]
  have incd: "increment_monthday d impl = Some (upd_last (\<lambda>t. icaltime_adjust t d 0 0 0) impl)" if "0 \<le> d" for d
    using \<open>timed impl\<close> that by (intro increment_monthday_adjust) (simp_all add: timed_def)
  have low: "second ?l < 100" "minute ?l < 100" "hour ?l < 100" using nl(1) by (simp_all add: normal_time_def)
  have e: "by_second r = []" "by_minute r = []" "by_hour r = []" "by_day r = []" "by_week_no r = []"
    using r by (simp_all add: plain_rule_def)
  note low_eq = freq_shift_low [OF nt(2,1), of ?f "k * r_interval r", folded l]
  have sec: "next_second impl = Some (True, impl)" if "?f \<noteq> ICAL_SECONDLY_RECURRENCE"
    using that low(1) low_eq(1) by (intro next_second_single) (simp_all add: i)
  have min: "next_minute impl = Some (True, impl)" if "?f \<noteq> ICAL_SECONDLY_RECURRENCE" "?f \<noteq> ICAL_MINUTELY_RECURRENCE"
    using that low(2) low_eq(2) sec by (intro next_minute_single) (simp_all add: i)
  have hr: "next_hour impl = Some (True, impl)" if "?f = ICAL_DAILY_RECURRENCE \<or> ?f = ICAL_WEEKLY_RECURRENCE"
    using that low(3) low_eq(3) min by (intro next_hour_single) (auto simp: i)
  show ?thesis
    using per
  proof (cases rule: periodic_cases)
    case 1
    have "\<not> has_values impl BY_SECOND" using 1 by (intro has_values_list) (simp add: i)
    then show ?thesis using 1 inc(1) iv by (simp add: freq_step_def freq_shift_def next_second_def c_assert_def i Let_def)
  next
    case 2
    have "\<not> has_values impl BY_MINUTE" using 2 by (intro has_values_list) (simp add: i)
    then show ?thesis
      using 2 inc(2) iv sec by (simp add: freq_step_def freq_shift_def next_minute_def c_assert_def i Let_def)
  next
    case 3
    have "\<not> has_values impl BY_HOUR" using 3 e by (intro has_values_list) (simp add: i)
    then show ?thesis
      using 3 inc(3) iv min by (simp add: freq_step_def freq_shift_def next_hour_def c_assert_def i Let_def)
  next
    case 4
    then show ?thesis
      using incd iv hr by (simp add: freq_step_def freq_shift_def next_day_def c_assert_def i Let_def)
  next
    case 5
    then show ?thesis
      using incd iv hr
      by (simp add: freq_step_def freq_shift_def next_week_def next_weekday_by_week_def has_by_data_def i Let_def)
  qed
qed

text \<open>The moved iterator passes the contracting rules.\<close>

lemma plain_checks:
  assumes r: "plain_rule r" and i: "it_rule impl = plain_init r t" and l: "normal_time (it_last impl)"
  shows "check_contracting_rules impl = Some True"
proof -
  have m: "1 \<le> month (it_last impl)" "month (it_last impl) \<le> 12" using l by (simp_all add: normal_time_def normal_date_def)
  have "periodic (r_freq r)" "by_year_day r = []" "by_week_no r = []" "by_month r = []"
    "by_day r = []" "by_month_day r = []" "by_hour r = []" "by_minute r = []" "by_second r = []"
    using r by (simp_all add: plain_rule_def)
  then have "check_contract_restriction impl b v = Some True" if "b \<noteq> BY_SET_POS" for b v
    using that i has_values_list(1) [of b impl]
    by (cases rule: periodic_cases; cases b) (auto simp: check_contract_restriction_def expands_def)
  then show ?thesis
    using day_of_year_days [OF m] by (simp add: check_contracting_rules_def Let_def)
qed

lemma compare_plain:
  assumes "plain_start a" "plain_start b" "zone a = zone b"
  shows "icaltime_compare cov a b = Some (sgn (ical_secs a - ical_secs b))"
  using assms compare_times_secs [of a b] convert_to_zone_utc [of a cov] convert_to_zone_utc [of b cov]
    convert_to_zone_floating [of a cov] convert_to_zone_floating [of b cov]
  by (auto simp: plain_start_def icaltime_compare_def)

section \<open>The sequence of occurrences\<close>

fun occurrences ::
    "coverage \<Rightarrow> nat \<Rightarrow> icalrecur_iterator option \<Rightarrow> icalerror_state \<Rightarrow> icaltimetype list option" where
  "occurrences cov 0 ip es = Some []"
| "occurrences cov (Suc m) ip es = do {
     (t, ip1, es1) \<leftarrow> icalrecur_iterator_next cov ip es;
     ts \<leftarrow> occurrences cov m ip1 es1;
     Some (t # ts) }"

lemma year_mono:
  assumes "normal_time a" "normal_time b" "ical_secs a \<le> ical_secs b"
  shows "year a \<le> year b"
proof (rule ccontr)
  assume "\<not> year a \<le> year b"
  then have "time_less b a" by (simp add: time_less_def date_less_def)
  then show False using time_less_secs [OF assms(2,1)] assms(3) by simp
qed

lemma freq_shift_mono:
  assumes "plain_start t" "periodic f" "k \<le> l"
  shows "year (freq_shift f k t) \<le> year (freq_shift f l t)"
proof (rule year_mono)
  have d: "is_date t = 0" using assms(1) by (simp add: plain_start_def)
  show "normal_time (freq_shift f k t)" "normal_time (freq_shift f l t)"
    using freq_shift_time [OF d assms(2)] by simp_all
  have "0 < freq_secs f" by (simp add: freq_secs_def split: icalrecurrencetype_frequency.split)
  then show "ical_secs (freq_shift f k t) \<le> ical_secs (freq_shift f l t)"
    using freq_shift_time(1) [OF d assms(2)] assms(3) by (simp add: mult_left_mono)
qed

lemma plain_start_shift: "plain_start t \<Longrightarrow> periodic f \<Longrightarrow> plain_start (freq_shift f k t)"
  using freq_shift_time(2) by (simp add: plain_start_def)

lemma plain_until:
  "plain_rule r \<Longrightarrow> it_rule impl = plain_init r t \<Longrightarrow> after_until cov impl = Some False"
  by (simp add: after_until_def plain_rule_def)

text \<open>The first call gives the start, a later one the next multiple, and none is given behind the count.\<close>

lemma plain_next_first:
  assumes r: "plain_rule r" and t: "plain_start t" and at: "plain_at r t 0 0 impl"
  shows "\<exists>impl1. icalrecur_iterator_next cov (Some impl) es = Some (freq_shift (r_freq r) 0 t, Some impl1, es) \<and>
    plain_at r t 0 1 impl1"
proof -
  have l: "it_last impl = t" "it_dtstart impl = t" "occurrence_no impl = 0" "it_rule impl = plain_init r t"
    and s: "freq_shift (r_freq r) 0 t = t"
    using at t by (simp_all add: plain_at_def plain_start_def freq_shift_0)
  have "icalrecur_iterator_next cov (Some impl) es = Some (t, Some (impl\<lparr>occurrence_no := 1\<rparr>), es)"
    using r compare_plain [OF t t refl, of cov] plain_until [OF r l(4)] l
    by (auto simp: icalrecur_iterator_next_def next_from_def give_last_def plain_rule_def)
  moreover have "plain_at r t 0 1 (impl\<lparr>occurrence_no := 1\<rparr>)" using at by (simp add: plain_at_def)
  ultimately show ?thesis using s by simp
qed

lemma plain_next_later:
  assumes r: "plain_rule r" and t: "plain_start t" and at: "plain_at r t k (k + 1) impl" and k: "0 \<le> k"
    and cnt: "r_count r = 0 \<or> k + 1 < r_count r"
    and y: "year (freq_shift (r_freq r) ((k + 1) * r_interval r) t) < 2038"
  shows "\<exists>impl1. icalrecur_iterator_next cov (Some impl) es =
      Some (freq_shift (r_freq r) ((k + 1) * r_interval r) t, Some impl1, es) \<and> plain_at r t (k + 1) (k + 2) impl1"
proof -
  let ?f = "r_freq r" and ?n = "r_interval r"
  let ?i = "upd_last (freq_shift ?f ?n) impl"
  let ?t = "freq_shift ?f ((k + 1) * ?n) t"
  have per: "periodic ?f" and n: "1 \<le> ?n" and d: "is_date t = 0" using r t by (simp_all add: plain_rule_def plain_start_def)
  have i: "it_rule impl = plain_init r t" "it_dtstart impl = t" "occurrence_no impl = k + 1"
    and l: "it_last impl = freq_shift ?f (k * ?n) t" using at by (simp_all add: plain_at_def)
  have l': "it_last ?i = ?t" using d by (simp add: l freq_shift_shift algebra_simps)
  have st: "plain_start ?t" using t per by (rule plain_start_shift)
  have "check_contracting_rules ?i = Some True"
    using r i st l' by (intro plain_checks) (simp_all add: plain_start_def)
  moreover have "icaltime_compare cov ?t t = Some (sgn (freq_secs ?f * ((k + 1) * ?n)))"
    using compare_plain [OF st t, of cov] freq_shift_time(1) [OF d per] by simp
  moreover have "\<not> sgn (freq_secs ?f * ((k + 1) * ?n)) < 0"
    using n k by (simp add: freq_secs_def split: icalrecurrencetype_frequency.split)
  ultimately have "next_loop cov impl es = Some (True, ?i, es)"
    using plain_step [OF r t at k] y l' i by (subst next_loop.simps) simp
  moreover have "after_until cov impl = Some False" "after_until cov ?i = Some False"
    using i by (auto intro!: plain_until [OF r])
  ultimately have "icalrecur_iterator_next cov (Some impl) es =
      Some (?t, Some (?i\<lparr>occurrence_no := k + 2\<rparr>), es)"
    using i cnt k l' by (auto simp: icalrecur_iterator_next_def next_from_def give_last_def)
  moreover have "plain_at r t (k + 1) (k + 2) (?i\<lparr>occurrence_no := k + 2\<rparr>)"
    using at l' by (simp add: plain_at_def)
  ultimately show ?thesis by blast
qed

lemma plain_next_end:
  assumes "plain_rule r" "it_rule impl = plain_init r t" "occurrence_no impl \<ge> r_count r" "r_count r \<noteq> 0"
  shows "icalrecur_iterator_next cov (Some impl) es = Some (icaltime_null_time, Some impl, es)"
  using assms by (simp add: icalrecur_iterator_next_def next_from_def)

text \<open>The \<open>k\<close>-th occurrence of the rule.\<close>

definition plain_occurrence :: "icalrecurrencetype \<Rightarrow> icaltimetype \<Rightarrow> int \<Rightarrow> icaltimetype" where
  "plain_occurrence r t k =
     (if r_count r = 0 \<or> k < r_count r then freq_shift (r_freq r) (k * r_interval r) t else icaltime_null_time)"

lemma plain_tail:
  assumes "plain_rule r" "it_rule impl = plain_init r t" "occurrence_no impl \<ge> r_count r" "r_count r \<noteq> 0"
  shows "occurrences cov m (Some impl) es = Some (replicate m icaltime_null_time)"
  using plain_next_end [OF assms] by (induction m) simp_all

lemma plain_occurrences_from:
  assumes r: "plain_rule r" and t: "plain_start t"
  shows "plain_at r t k (k + 1) impl \<Longrightarrow> 0 \<le> k \<Longrightarrow>
    year (freq_shift (r_freq r) ((k + int m) * r_interval r) t) < 2038 \<Longrightarrow>
    occurrences cov m (Some impl) es = Some (map (\<lambda>j. plain_occurrence r t (k + 1 + int j)) [0..<m])"
proof (induction m arbitrary: k impl es)
  case (Suc m)
  have per: "periodic (r_freq r)" and n: "1 \<le> r_interval r" using r by (simp_all add: plain_rule_def)
  have upt: "map f [0..<Suc m] = f 0 # map (\<lambda>j. f (Suc j)) [0..<m]" for f :: "nat \<Rightarrow> icaltimetype"
    by (simp only: upt_conv_Cons zero_less_Suc list.map map_Suc_upt [symmetric] map_map comp_def)
  show ?case
  proof (cases "r_count r = 0 \<or> k + 1 < r_count r")
    case True
    have "(k + 1) * r_interval r \<le> (k + int (Suc m)) * r_interval r" using n by (intro mult_right_mono) simp_all
    from order.strict_trans1 [OF freq_shift_mono [OF t per this] Suc.prems(3)]
    obtain impl1 where 1: "icalrecur_iterator_next cov (Some impl) es =
        Some (freq_shift (r_freq r) ((k + 1) * r_interval r) t, Some impl1, es)" "plain_at r t (k + 1) (k + 2) impl1"
      using plain_next_later [OF r t Suc.prems(1,2) True] by blast
    have "occurrences cov m (Some impl1) es = Some (map (\<lambda>j. plain_occurrence r t (k + 1 + 1 + int j)) [0..<m])"
      using 1(2) Suc.prems(2,3) by (intro Suc.IH) (simp_all add: algebra_simps)
    moreover have "plain_occurrence r t (k + 1) = freq_shift (r_freq r) ((k + 1) * r_interval r) t"
      using True by (simp add: plain_occurrence_def)
    ultimately show ?thesis
      using 1(1) by (subst upt) (simp add: add.assoc add.commute add.left_commute)
  next
    case False
    have i: "it_rule impl = plain_init r t" "occurrence_no impl = k + 1" using Suc.prems(1) by (simp_all add: plain_at_def)
    have "occurrences cov (Suc m) (Some impl) es = Some (replicate (Suc m) icaltime_null_time)"
      using False i by (intro plain_tail [OF r]) simp_all
    moreover have "map (\<lambda>j. plain_occurrence r t (k + 1 + int j)) [0..<Suc m] = replicate (Suc m) icaltime_null_time"
      using False by (intro replicate_eqI) (auto simp: plain_occurrence_def)
    ultimately show ?thesis by simp
  qed
qed simp

lemma plain_occurrences:
  assumes r: "plain_rule r" and t: "plain_start t"
    and y: "year (freq_shift (r_freq r) (int m * r_interval r) t) < 2038"
  shows "\<exists>impl es1. icalrecur_iterator_new r t es = Some (Some impl, es1) \<and>
    occurrences cov (Suc m) (Some impl) es1 = Some (map (\<lambda>k. plain_occurrence r t (int k)) [0..<Suc m])"
proof -
  obtain impl where i: "icalrecur_iterator_new r t es = Some (Some impl, icalerror_clear_errno es)" "plain_at r t 0 0 impl"
    using new_plain [OF r t] by blast
  obtain impl1 where 1: "icalrecur_iterator_next cov (Some impl) (icalerror_clear_errno es) =
      Some (freq_shift (r_freq r) 0 t, Some impl1, icalerror_clear_errno es)" "plain_at r t 0 1 impl1"
    using plain_next_first [OF r t i(2)] by blast
  have upt: "map f [0..<Suc m] = f 0 # map (\<lambda>j. f (Suc j)) [0..<m]" for f :: "nat \<Rightarrow> icaltimetype"
    by (simp only: upt_conv_Cons zero_less_Suc list.map map_Suc_upt [symmetric] map_map comp_def)
  have "occurrences cov m (Some impl1) (icalerror_clear_errno es) =
      Some (map (\<lambda>j. plain_occurrence r t (0 + 1 + int j)) [0..<m])"
    using 1(2) y by (intro plain_occurrences_from [OF r t]) simp_all
  moreover have "0 \<le> r_count r" using r by (simp add: plain_rule_def)
  then have "plain_occurrence r t 0 = freq_shift (r_freq r) 0 t" by (auto simp: plain_occurrence_def)
  ultimately show ?thesis using i(1) 1(1) by (subst upt) auto
qed

end
