(* ===== verification/RecurStart.thy ===== *)
theory RecurStart
  imports RecurSteps
begin

text \<open>
  The creation of an iterator: which rules are refused, by the test of the parts or by the expansion
  of the first year, and that every other rule that is not yearly gets an iterator.
\<close>

section \<open>The parts of a rule for days and above\<close>

definition day_parts :: "icalrecurrencetype \<Rightarrow> byrule list" where
  "day_parts r = filter (\<lambda>b. entries (by_ptr b r) \<noteq> []) interday_rules"

text \<open>The rules that the test refuses have one of these parts, and no other.\<close>

definition lone_part :: "icalrecurrencetype \<Rightarrow> bool" where
  "lone_part r \<longleftrightarrow>
     r_freq r = ICAL_MONTHLY_RECURRENCE \<and> day_parts r = [BY_WEEK_NO] \<or>
     r_freq r = ICAL_WEEKLY_RECURRENCE \<and> day_parts r = [BY_MONTH_DAY] \<or>
     r_freq r \<noteq> ICAL_YEARLY_RECURRENCE \<and> day_parts r = [BY_YEAR_DAY]"

text \<open>The rules that the comments of the code forbid have two of them, and no other.\<close>

definition forbidden_pair :: "icalrecurrencetype \<Rightarrow> bool" where
  "forbidden_pair r \<longleftrightarrow>
     day_parts r \<in> {[BY_DAY, BY_YEAR_DAY], [BY_MONTH_DAY, BY_YEAR_DAY], [BY_YEAR_DAY, BY_WEEK_NO], [BY_YEAR_DAY, BY_MONTH],
       [BY_MONTH_DAY, BY_WEEK_NO]}"

lemma size_pos [simp]: "0 < by_size b"
  by (cases b) (simp_all add: by_sizes)

lemma first_entry: "entries a \<noteq> [] \<longleftrightarrow> a \<noteq> [] \<and> a ! 0 \<noteq> ICAL_RECURRENCE_ARRAY_MAX"
  by (cases a) (simp_all add: entries_def)

lemma fresh_given: "has_values (fresh_iterator r t) b \<longleftrightarrow> entries (by_ptr b r) \<noteq> []" "orig_data (fresh_iterator r t) b \<longleftrightarrow> entries (by_ptr b r) \<noteq> []"
  by (auto simp: has_values_def by_at_def fresh_iterator_def arr_get_def first_entry)

lemma day_part_iff: "b \<in> set interday_rules \<Longrightarrow> b \<in> set (day_parts r) \<longleftrightarrow> entries (by_ptr b r) \<noteq> []"
  by (simp add: day_parts_def)

lemma one_byrule_alone:
  assumes "b \<in> set interday_rules"
  shows "icalrecur_one_byrule (fresh_iterator r t) b \<noteq> 0 \<longleftrightarrow> day_parts r = [b]"
  using assms by (auto simp: icalrecur_one_byrule_def interday_rules_def fresh_given day_parts_def)

lemma illegal_alone: "rule_illegal (fresh_iterator r t) \<longleftrightarrow> lone_part r"
proof -
  have f: "it_rule (fresh_iterator r t) = r" by (simp add: fresh_iterator_def)
  have m: "BY_WEEK_NO \<in> set interday_rules" "BY_MONTH_DAY \<in> set interday_rules" "BY_YEAR_DAY \<in> set interday_rules"
    by (simp_all add: interday_rules_def)
  show ?thesis by (simp add: rule_illegal_def two_byrule_zero Let_def f one_byrule_alone [OF m(1)] one_byrule_alone [OF m(2)]
      one_byrule_alone [OF m(3)] lone_part_def)
qed

section \<open>The setup cannot fail\<close>

text \<open>What the setup keeps of the new iterator.\<close>

definition set_up :: "icalrecur_iterator \<Rightarrow> icalrecur_iterator \<Rightarrow> bool" where
  "set_up i k \<longleftrightarrow> r_freq (it_rule k) = r_freq (it_rule i) \<and> orig_data k = orig_data i \<and> it_dtstart k = it_dtstart i \<and>
     occurrence_no k = occurrence_no i \<and> by_indices k = by_indices i"

lemma set_up_refl [simp]: "set_up i i"
  by (simp add: set_up_def)

lemma set_up_trans: "set_up i j \<Longrightarrow> set_up j k \<Longrightarrow> set_up i k"
  by (simp add: set_up_def)

lemma set_by_ptr_freq [simp]: "r_freq (set_by_ptr b a r) = r_freq r"
  by (cases b) simp_all

lemma set_by_ptr_day [simp]: "b \<noteq> BY_DAY \<Longrightarrow> by_day (set_by_ptr b a r) = by_day r"
  by (cases b) simp_all

lemma setup_defaults_total:
  "\<exists>k. setup_defaults b req v f i = Some k \<and> set_up i k \<and> (b \<noteq> BY_DAY \<longrightarrow> by_day (it_rule k) = by_day (it_rule i)) \<and>
     (it_last k = it_last i \<or> r_freq (it_rule i) \<noteq> req \<and> (\<exists>w. it_last k = f w (it_last i)))"
proof -
  obtain j where j: "(if \<not> has_values i b \<and> expands (r_freq (it_rule i)) b \<noteq> CONTRACT
                 then map_option (\<lambda>a. i\<lparr>it_rule := set_by_ptr b a (it_rule i)\<rparr>)
                        (arr_put (by_size b) (by_ptr b (it_rule i)) 0 (to_short v))
                 else Some i) = Some j" "set_up i j" "it_last j = it_last i" "b \<noteq> BY_DAY \<longrightarrow> by_day (it_rule j) = by_day (it_rule i)"
  proof (cases "\<not> has_values i b \<and> expands (r_freq (it_rule i)) b \<noteq> CONTRACT")
    case False
    with that [of i] show ?thesis by simp
  next
    case True
    obtain a where "arr_put (by_size b) (by_ptr b (it_rule i)) 0 (to_short v) = Some a" by (simp add: arr_put_def)
    with that [of "i\<lparr>it_rule := set_by_ptr b a (it_rule i)\<rparr>"] True show ?thesis by (simp add: set_up_def)
  qed
  obtain w where "by_at j b 0 = Some w" by (simp add: by_at_def arr_get_def)
  with j show ?thesis by (auto simp: setup_defaults_def set_up_def Let_def)
qed

lemma setup_all_total:
  "\<exists>k. setup_all i = Some k \<and> set_up i k \<and> by_day (it_rule k) = by_day (it_rule i) \<and> year (it_last k) = year (it_last i) \<and>
     (r_freq (it_rule i) = ICAL_MONTHLY_RECURRENCE \<longrightarrow> month (it_last k) = month (it_last i))"
proof -
  let ?st = "it_dtstart i"
  obtain k1 where k1: "setup_defaults BY_SECOND ICAL_SECONDLY_RECURRENCE (second ?st) (\<lambda>v t. t\<lparr>second := v\<rparr>) i = Some k1" "set_up i k1"
    "by_day (it_rule k1) = by_day (it_rule i)" "year (it_last k1) = year (it_last i)" "month (it_last k1) = month (it_last i)"
    using setup_defaults_total [of BY_SECOND ICAL_SECONDLY_RECURRENCE "second ?st" "\<lambda>v t. t\<lparr>second := v\<rparr>" i] by fastforce
  obtain k2 where k2: "setup_defaults BY_MINUTE ICAL_MINUTELY_RECURRENCE (minute ?st) (\<lambda>v t. t\<lparr>minute := v\<rparr>) k1 = Some k2" "set_up k1 k2"
    "by_day (it_rule k2) = by_day (it_rule k1)" "year (it_last k2) = year (it_last k1)" "month (it_last k2) = month (it_last k1)"
    using setup_defaults_total [of BY_MINUTE ICAL_MINUTELY_RECURRENCE "minute ?st" "\<lambda>v t. t\<lparr>minute := v\<rparr>" k1] by fastforce
  obtain k3 where k3: "setup_defaults BY_HOUR ICAL_HOURLY_RECURRENCE (hour ?st) (\<lambda>v t. t\<lparr>hour := v\<rparr>) k2 = Some k3" "set_up k2 k3"
    "by_day (it_rule k3) = by_day (it_rule k2)" "year (it_last k3) = year (it_last k2)" "month (it_last k3) = month (it_last k2)"
    using setup_defaults_total [of BY_HOUR ICAL_HOURLY_RECURRENCE "hour ?st" "\<lambda>v t. t\<lparr>hour := v\<rparr>" k2] by fastforce
  obtain k4 where k4: "setup_defaults BY_MONTH_DAY ICAL_DAILY_RECURRENCE (day ?st) (\<lambda>v t. t\<lparr>day := v\<rparr>) k3 = Some k4" "set_up k3 k4"
    "by_day (it_rule k4) = by_day (it_rule k3)" "year (it_last k4) = year (it_last k3)" "month (it_last k4) = month (it_last k3)"
    using setup_defaults_total [of BY_MONTH_DAY ICAL_DAILY_RECURRENCE "day ?st" "\<lambda>v t. t\<lparr>day := v\<rparr>" k3] by fastforce
  obtain k5 where k5: "setup_defaults BY_MONTH ICAL_MONTHLY_RECURRENCE (month ?st) (\<lambda>v t. t\<lparr>month := v\<rparr>) k4 = Some k5" "set_up k4 k5"
    "by_day (it_rule k5) = by_day (it_rule k4)" "year (it_last k5) = year (it_last k4)"
    "r_freq (it_rule k4) = ICAL_MONTHLY_RECURRENCE \<longrightarrow> month (it_last k5) = month (it_last k4)"
    using setup_defaults_total [of BY_MONTH ICAL_MONTHLY_RECURRENCE "month ?st" "\<lambda>v t. t\<lparr>month := v\<rparr>" k4] by fastforce
  have "setup_all i = Some k5" using k1(1) k2(1) k3(1) k4(1) k5(1) by (simp add: setup_all_def Let_def)
  moreover have "set_up i k5" using k1(2) k2(2) k3(2) k4(2) k5(2) set_up_trans by blast
  moreover have "r_freq (it_rule k4) = r_freq (it_rule i)" using k1(2) k2(2) k3(2) k4(2) by (simp add: set_up_def)
  ultimately show ?thesis using k1(3-5) k2(3-5) k3(3-5) k4(3-5) k5(3-5) by auto
qed

lemma setup_weekly_total:
  "\<exists>k. setup_weekly i = Some k \<and> set_up i k \<and> (r_freq (it_rule i) \<noteq> ICAL_WEEKLY_RECURRENCE \<longrightarrow> k = i)"
  by (auto simp: setup_weekly_def by_at_def arr_get_def arr_put_def set_up_def Let_def by_sizes)

text \<open>The seek for the first day of the month does not depend on the day.\<close>

lemma month_start_day_same:
  assumes "year u = year t" "month u = month t"
  shows "month_start_day v u = month_start_day v t"
proof -
  have w: "icaltime_day_of_week (u\<lparr>day := d\<rparr>) = icaltime_day_of_week (t\<lparr>day := d\<rparr>)" for d
    using assms by (simp add: icaltime_day_of_week_def)
  have "seek_up dow pos c u ds = seek_up dow pos c t ds" for dow pos c ds
    by (induction ds arbitrary: c) (simp_all add: w)
  moreover have "seek_down dow pos c u ds = seek_down dow pos c t ds" for dow pos c ds
    by (induction ds arbitrary: c) (simp_all add: w)
  ultimately show ?thesis using assms by (simp add: month_start_day_def Let_def)
qed

section \<open>Errors\<close>

text \<open>The errors of the creation are not fatal.\<close>

definition recoverable :: "icalerror_state \<Rightarrow> bool" where
  "recoverable es \<longleftrightarrow> icalerror_set_errno ICAL_MALFORMEDDATA_ERROR es \<noteq> None \<and> icalerror_set_errno ICAL_UNIMPLEMENTED_ERROR es \<noteq> None"

lemma recoverable_errno [simp]: "recoverable (es\<lparr>icalerrno := e\<rparr>) = recoverable es" "recoverable (icalerror_clear_errno es) = recoverable es"
  by (simp_all add: recoverable_def icalerror_set_errno_def icalerror_get_error_state_def icalerror_clear_errno_def)

lemma set_errno_recoverable:
  "recoverable es \<Longrightarrow> e \<in> {ICAL_MALFORMEDDATA_ERROR, ICAL_UNIMPLEMENTED_ERROR} \<Longrightarrow>
     icalerror_set_errno e es = Some (es\<lparr>icalerrno := e\<rparr>)"
  by (auto simp: recoverable_def icalerror_set_errno_def Let_def split: if_splits)

definition refused :: "(icalrecur_iterator option \<times> icalerror_state) option \<Rightarrow> bool" where
  "refused x \<longleftrightarrow> (case x of Some (None, es) \<Rightarrow> icalerrno es = ICAL_MALFORMEDDATA_ERROR | _ \<Rightarrow> False)"

lemma malformed_refused: "recoverable es \<Longrightarrow> refused (malformed_iterator es)"
  by (simp add: malformed_iterator_def set_errno_recoverable refused_def)

section \<open>Rules that are refused\<close>

lemma new_lone_part: "lone_part r \<Longrightarrow> recoverable es \<Longrightarrow> refused (icalrecur_iterator_new r t es)"
  by (simp add: icalrecur_iterator_new_def illegal_alone malformed_refused)

text \<open>The expansion of a year does not know the forbidden pairs.\<close>

lemma pair_flags:
  assumes "orig_data k = orig_data (fresh_iterator r t)" "forbidden_pair r"
  shows "settle_flags k y \<in> {Some 40, Some 48, Some 96, Some 160, Some 80}"
proof -
  have h: "has_by_data k b \<longleftrightarrow> b \<in> set (day_parts r)" if "b \<in> set interday_rules" for b
    using day_part_iff [OF that, of r] assms(1) by (simp add: has_by_data_def fresh_given)
  have "BY_DAY \<in> set interday_rules" "BY_MONTH_DAY \<in> set interday_rules" "BY_YEAR_DAY \<in> set interday_rules"
    "BY_WEEK_NO \<in> set interday_rules" "BY_MONTH \<in> set interday_rules" by (simp_all add: interday_rules_def)
  note h = h [OF this(1)] h [OF this(2)] h [OF this(3)] h [OF this(4)] h [OF this(5)]
  show ?thesis using assms(2)
    by (auto simp: forbidden_pair_def settle_flags_def year_flags_def h flag_of_def)
qed

lemma pair_expansion:
  assumes "orig_data k = orig_data (fresh_iterator r t)" "forbidden_pair r" "recoverable es"
  shows "\<exists>k'. expand_year_days k y es = Some (k', es\<lparr>icalerrno := ICAL_UNIMPLEMENTED_ERROR\<rparr>)"
  using pair_flags [OF assms(1,2), of y] set_errno_recoverable [OF assms(3)]
  by (auto simp: expand_year_days_def flag_of_def Let_def)

lemma new_yearly_pair:
  assumes "r_freq r = ICAL_YEARLY_RECURRENCE" "forbidden_pair r" "recoverable es"
  shows "refused (icalrecur_iterator_new r t es)"
proof -
  let ?i = "fresh_iterator r t"
  have f: "it_rule ?i = r" by (simp add: fresh_iterator_def)
  have legal: "\<not> rule_illegal ?i" using assms(1) by (simp add: illegal_alone lone_part_def)
  obtain k where k: "setup_all ?i = Some k" "set_up ?i k" using setup_all_total by blast
  then have fr: "r_freq (it_rule k) = ICAL_YEARLY_RECURRENCE" "orig_data k = orig_data ?i" using assms(1) f by (simp_all add: set_up_def)
  have w: "setup_weekly k = Some k" using setup_weekly_total [of k] fr(1) by auto
  let ?es = "icalerror_clear_errno (icalerror_clear_errno es)"
  have rec: "recoverable ?es" using assms(3) by simp
  obtain k' where k': "expand_year_days k (year (it_last k)) ?es = Some (k', ?es\<lparr>icalerrno := ICAL_UNIMPLEMENTED_ERROR\<rparr>)"
    using pair_expansion [OF fr(2) assms(2) rec] by blast
  have "first_year k ?es = Some (None, ?es\<lparr>icalerrno := ICAL_MALFORMEDDATA_ERROR\<rparr>)"
    using set_errno_recoverable [of "?es\<lparr>icalerrno := ICAL_UNIMPLEMENTED_ERROR\<rparr>" ICAL_MALFORMEDDATA_ERROR] rec
    by (subst first_year.simps) (simp add: k')
  then have "setup_yearly k (icalerror_clear_errno es) = Some (None, ?es\<lparr>icalerrno := ICAL_MALFORMEDDATA_ERROR\<rparr>)"
    by (simp add: setup_yearly_def fr(1))
  then show ?thesis by (simp add: icalrecur_iterator_new_def legal k(1) w refused_def)
qed

section \<open>Rules that get an iterator\<close>

lemma new_other:
  assumes "r_freq r \<noteq> ICAL_YEARLY_RECURRENCE" "\<not> lone_part r" "recoverable es"
  shows "if r_freq r = ICAL_MONTHLY_RECURRENCE \<and> entries (by_day r) \<noteq> [] \<and> month_start_day (hd (entries (by_day r))) t = None
    then refused (icalrecur_iterator_new r t es)
    else \<exists>i. icalrecur_iterator_new r t es = Some (Some i, icalerror_clear_errno es) \<and> it_dtstart i = t \<and> occurrence_no i = 0"
proof -
  let ?i = "fresh_iterator r t" and ?es = "icalerror_clear_errno es"
  have f: "it_rule ?i = r" "it_dtstart ?i = t" "it_last ?i = t" "occurrence_no ?i = 0" "by_indices ?i = (\<lambda>b. 0)" by (simp_all add: fresh_iterator_def)
  have legal: "\<not> rule_illegal ?i" using assms(2) by (simp add: illegal_alone)
  obtain k where k: "setup_all ?i = Some k" "set_up ?i k" "by_day (it_rule k) = by_day r" "year (it_last k) = year t"
    "r_freq r = ICAL_MONTHLY_RECURRENCE \<longrightarrow> month (it_last k) = month t" using setup_all_total [of ?i] f by auto
  obtain w where w: "setup_weekly k = Some w" "set_up k w" "r_freq (it_rule k) \<noteq> ICAL_WEEKLY_RECURRENCE \<longrightarrow> w = k"
    using setup_weekly_total by blast
  have s: "r_freq (it_rule w) = r_freq r" "orig_data w = orig_data ?i" "it_dtstart w = t" "occurrence_no w = 0" "by_indices w = (\<lambda>b. 0)"
    using set_up_trans [OF k(2) w(2)] f by (simp_all add: set_up_def)
  have y: "setup_yearly w ?es = Some (Some w, ?es)" using assms(1) s(1) by (simp add: setup_yearly_def)
  have run: "icalrecur_iterator_new r t es = setup_monthly w ?es"
    by (simp add: icalrecur_iterator_new_def legal k(1) w(1) y)
  have od: "has_by_data w BY_DAY \<longleftrightarrow> entries (by_day r) \<noteq> []" using s(2) by (simp add: has_by_data_def fresh_given)
  show ?thesis
  proof (cases "r_freq r = ICAL_MONTHLY_RECURRENCE \<and> entries (by_day r) \<noteq> []")
    case False
    then show ?thesis using run s od by (auto simp: setup_monthly_def)
  next
    case True
    then have wk: "w = k" using w(3) k(2) f(1) by (simp add: set_up_def)
    have "cur_value BY_DAY w = Some (hd (entries (by_day r)))"
      using True k(3) s(5) wk
      by (cases "by_day r") (auto simp: cur_value_def by_at_def arr_get_def entries_def by_sizes split: if_splits)
    moreover have "month_start_day v (it_last w) = month_start_day v t" for v
      using month_start_day_same [of "it_last w" t] k(4,5) True wk by simp
    ultimately show ?thesis using True run s od malformed_refused [of ?es] assms(3)
      by (cases "month_start_day (hd (entries (by_day r))) t") (auto simp: setup_monthly_def)
  qed
qed

end
