(* ===== verification/RecurSound.thy ===== *)
theory RecurSound
  imports RecurSteps
begin

text \<open>
  What every call of \<open>icalrecur_iterator_next\<close> guarantees, for any rule: the steps leave the
  rule, the start and the count alone, and a time that is given passes the contracting
  rules, is not before the start, not after the end and not behind the count.
\<close>

section \<open>What the steps leave alone\<close>

definition frame :: "icalrecur_iterator \<Rightarrow> icalrecur_iterator \<Rightarrow> bool" where
  "frame i j \<longleftrightarrow> it_rule j = it_rule i \<and> it_dtstart j = it_dtstart i \<and>
     occurrence_no j = occurrence_no i \<and> orig_data j = orig_data i"

lemma frame_refl [simp]: "frame i i"
  by (simp add: frame_def)

lemma frame_trans [trans]: "frame i j \<Longrightarrow> frame j k \<Longrightarrow> frame i k"
  by (simp add: frame_def)

lemma frame_simps [simp]:
  "frame i (j\<lparr>it_last := t\<rparr>) = frame i j" "frame i (j\<lparr>by_indices := f\<rparr>) = frame i j"
  "frame i (j\<lparr>it_days := ds\<rparr>) = frame i j" "frame i (j\<lparr>days_index := n\<rparr>) = frame i j"
  "frame (i\<lparr>it_last := t\<rparr>) j = frame i j" "frame (i\<lparr>it_days := ds\<rparr>) j = frame i j"
  "frame (i\<lparr>days_index := n\<rparr>) j = frame i j" "frame i (increment_year k j) = frame i j"
  "frame (increment_year k i) j = frame i j" "frame i (goto_day d j) = frame i j"
  by (simp_all add: frame_def increment_year_def goto_day_def Let_def)

named_theorems frame_rules \<open>the operations that keep the frame\<close>

lemma next_index_frame [frame_rules]: "next_index b i = Some (e, j) \<Longrightarrow> frame i j"
  by (auto simp: next_index_def Let_def split: if_splits)

lemma increment_month_frame [frame_rules]: "increment_month i = Some j \<Longrightarrow> frame i j"
  by (auto simp: increment_month_def Let_def split: if_splits bind_splits prod.splits dest!: next_index_frame)

lemma monthday_steps_frame: "monthday_steps n i = Some j \<Longrightarrow> frame i j"
proof (induction n arbitrary: i)
  case (Suc n)
  then show ?case
    by (auto simp: Let_def split: if_splits bind_splits dest!: increment_month_frame Suc.IH intro: frame_trans)
qed simp

lemma increment_frame [frame_rules]:
  "increment_monthday n i = Some j \<Longrightarrow> frame i j" "increment_hour n i = Some j \<Longrightarrow> frame i j"
  "increment_minute n i = Some j \<Longrightarrow> frame i j" "increment_second n i = Some j \<Longrightarrow> frame i j"
proof -
  show d: "increment_monthday n i = Some j \<Longrightarrow> frame i j" for n i
    by (simp add: increment_monthday_def monthday_steps_frame)
  show h: "increment_hour n i = Some j \<Longrightarrow> frame i j" for n i
    using d by (fastforce simp: increment_hour_def Let_def split: if_splits)
  show m: "increment_minute n i = Some j \<Longrightarrow> frame i j" for n i
    using h by (fastforce simp: increment_minute_def Let_def split: if_splits)
  show "increment_second n i = Some j \<Longrightarrow> frame i j"
    using m by (fastforce simp: increment_second_def Let_def split: if_splits)
qed

lemma next_second_frame [frame_rules]: "next_second i = Some (e, j) \<Longrightarrow> frame i j"
  by (auto simp: next_second_def Let_def split: if_splits bind_splits prod.splits
      dest!: frame_rules intro: frame_trans)

lemma next_minute_frame [frame_rules]: "next_minute i = Some (e, j) \<Longrightarrow> frame i j"
  by (auto simp: next_minute_def Let_def split: if_splits bind_splits prod.splits
      dest!: frame_rules intro: frame_trans)

lemma next_hour_frame [frame_rules]: "next_hour i = Some (e, j) \<Longrightarrow> frame i j"
  by (auto simp: next_hour_def Let_def split: if_splits bind_splits prod.splits
      dest!: frame_rules intro: frame_trans)

lemma next_day_frame [frame_rules]: "next_day i = Some (e, j) \<Longrightarrow> frame i j"
  by (auto simp: next_day_def Let_def split: if_splits bind_splits prod.splits
      dest!: frame_rules intro: frame_trans)

lemma month_cases_frame [frame_rules]:
  "month_byday_and_monthday i = Some (e, j) \<Longrightarrow> frame i j" "month_byday i = Some (e, j) \<Longrightarrow> frame i j"
  "month_bymonthday i = Some (e, j) \<Longrightarrow> frame i j" "month_plain i = Some (e, j) \<Longrightarrow> frame i j"
  by (auto simp: month_byday_and_monthday_def month_byday_def month_bymonthday_def month_plain_def Let_def
      split: if_splits bind_splits prod.splits option.splits dest!: frame_rules intro: frame_trans)

lemma next_month_frame [frame_rules]: "next_month i = Some (e, j) \<Longrightarrow> frame i j"
  by (auto simp: next_month_def Let_def split: if_splits bind_splits prod.splits
      dest!: frame_rules intro: frame_trans)

lemma weekday_loop_frame:
  assumes "weekday_loop i = Some r"
  shows "frame i (snd r)"
proof (rule weekday_loop.raw_induct [where P = "\<lambda>i r. frame i (snd r)"])
  show "weekday_loop i = Some r" by fact
qed (auto simp: Let_def split: if_splits bind_splits prod.splits dest!: next_index_frame intro: frame_trans)

lemma next_week_frame [frame_rules]: "next_week i = Some (e, j) \<Longrightarrow> frame i j"
proof -
  have w: "next_weekday_by_week i = Some (e, j) \<Longrightarrow> frame i j" for i e j
    using weekday_loop_frame
    by (fastforce simp: next_weekday_by_week_def split: if_splits bind_splits prod.splits
        dest!: next_hour_frame intro: frame_trans)
  show "next_week i = Some (e, j) \<Longrightarrow> frame i j"
    by (auto simp: next_week_def Let_def split: if_splits bind_splits prod.splits
        dest!: frame_rules w intro: frame_trans)
qed

lemma expand_year_days_frame: "expand_year_days i y es = Some (j, es1) \<Longrightarrow> frame i j"
  by (auto simp: expand_year_days_def Let_def split: if_splits bind_splits)

lemma later_year_frame:
  assumes "later_year i es = Some r"
  shows "frame i (fst r)"
proof (rule later_year.raw_induct [where P = "\<lambda>i es r. frame i (fst r)"])
  show "later_year i es = Some r" by fact
qed (auto simp: Let_def split: if_splits bind_splits prod.splits dest!: expand_year_days_frame intro: frame_trans)

lemma next_year_frame: "next_year i es = Some (e, j, es1) \<Longrightarrow> frame i j"
  by (auto simp: next_year_def Let_def split: if_splits bind_splits prod.splits
      dest!: next_hour_frame later_year_frame intro: frame_trans)

lemma freq_step_frame: "freq_step i es = Some (Some (v, j, es1)) \<Longrightarrow> frame i j"
  by (auto simp: freq_step_def Let_def split: icalrecurrencetype_frequency.splits prod.splits
      dest!: frame_rules next_year_frame)

section \<open>The loop\<close>

lemma freq_step_none: "freq_step i es = Some None \<Longrightarrow> r_freq (it_rule i) = ICAL_NO_RECURRENCE"
  by (auto simp: freq_step_def Let_def split: icalrecurrencetype_frequency.splits)

lemma next_loop_sound:
  assumes "next_loop cov i es = Some (b, j, es1)"
  shows "frame i j \<and> (b \<longrightarrow> year (it_last j) < 2038 \<and> check_contracting_rules j = Some True \<and>
      (\<exists>c \<ge> 0. icaltime_compare cov (it_last j) (it_dtstart j) = Some c)) \<and>
    (\<not> b \<longrightarrow> year (it_last j) \<ge> 2038 \<or> r_freq (it_rule j) = ICAL_NO_RECURRENCE)"
proof -
  let ?P = "\<lambda>cov i es r. frame i (fst (snd r)) \<and>
    (\<not> fst r \<longrightarrow> year (it_last (fst (snd r))) \<ge> 2038 \<or> r_freq (it_rule (fst (snd r))) = ICAL_NO_RECURRENCE) \<and>
    (fst r \<longrightarrow> year (it_last (fst (snd r))) < 2038 \<and>
    check_contracting_rules (fst (snd r)) = Some True \<and>
    (\<exists>c \<ge> 0. icaltime_compare cov (it_last (fst (snd r))) (it_dtstart (fst (snd r))) = Some c))"
  have "?P cov i es (b, j, es1)"
  proof (rule next_loop.raw_induct [where P = ?P])
    show "next_loop cov i es = Some (b, j, es1)" by fact
  qed (auto split: if_splits bind_splits prod.splits option.splits dest!: freq_step_frame freq_step_none intro: frame_trans)
  then show ?thesis by simp
qed

lemma check_occurrence_no [simp]:
  "check_contracting_rules (i\<lparr>occurrence_no := n\<rparr>) = check_contracting_rules i"
proof -
  have c: "check_contract_restriction (i\<lparr>occurrence_no := n\<rparr>) b v = check_contract_restriction i b v" for b v
    by (simp add: check_contract_restriction_def has_values_def by_at_def by_cells_def)
  have "all_checks cs (i\<lparr>occurrence_no := n\<rparr>) = all_checks cs i" for cs
    by (induction cs) (auto simp: c split: option.split)
  then show ?thesis by (simp add: check_contracting_rules_def)
qed

text \<open>
  What a contracting part asks of a time: the field of the time that belongs to the part is one of
  the values of the rule's list. Lists that are empty ask nothing.
\<close>

fun part_of_time :: "byrule \<Rightarrow> icaltimetype \<Rightarrow> int option" where
  "part_of_time BY_SECOND t = Some (second t)"
| "part_of_time BY_MINUTE t = Some (minute t)"
| "part_of_time BY_HOUR t = Some (hour t)"
| "part_of_time BY_DAY t = Some (icaltime_day_of_week t)"
| "part_of_time BY_MONTH_DAY t = Some (day t)"
| "part_of_time BY_YEAR_DAY t = icaltime_day_of_year t"
| "part_of_time BY_WEEK_NO t = Some (icaltime_week_number t)"
| "part_of_time BY_MONTH t = Some (month t)"
| "part_of_time BY_SET_POS t = None"

definition in_contracting_parts :: "icalrecurrencetype \<Rightarrow> icaltimetype \<Rightarrow> bool" where
  "in_contracting_parts r t \<longleftrightarrow>
     (\<forall>b. b \<noteq> BY_SET_POS \<longrightarrow> expands (r_freq r) b = CONTRACT \<longrightarrow> entries (by_ptr b r) \<noteq> [] \<longrightarrow>
        (\<exists>v \<in> set (entries (by_ptr b r)). part_of_time b t = Some v))"

lemma find_cell_entries: "find_cell (\<lambda>x. Some (x = v)) (cells n a) = Some True \<Longrightarrow> v \<in> set (entries a)"
proof -
  have f: "find_cell (\<lambda>x. Some (x = v)) cs = Some True \<Longrightarrow> v \<in> set (entries cs)" for cs
    by (induction cs) (auto simp: entries_def split: if_splits)
  have e: "entries (a @ [ICAL_RECURRENCE_ARRAY_MAX]) = entries a"
    by (induction a) (simp_all add: entries_def)
  have "set (entries (take n a)) \<subseteq> set (entries a)" for n
    by (induction a arbitrary: n) (auto simp: entries_def take_Cons split: nat.splits if_splits)
  then have "set (entries (cells n a)) \<subseteq> set (entries a)"
    by (simp add: cells_def e)
  then show "find_cell (\<lambda>x. Some (x = v)) (cells n a) = Some True \<Longrightarrow> v \<in> set (entries a)"
    using f by blast
qed

lemma has_values_entries: "entries (by_ptr b (it_rule i)) \<noteq> [] \<Longrightarrow> has_values i b"
  by (cases "by_ptr b (it_rule i)"; cases b)
    (auto simp: has_values_def by_at_def arr_get_def entries_def by_sizes)

lemma check_restriction_sound:
  assumes "check_contract_restriction i b v = Some True" "expands (r_freq (it_rule i)) b = CONTRACT"
    and "entries (by_ptr b (it_rule i)) \<noteq> []"
  shows "v \<in> set (entries (by_ptr b (it_rule i)))"
  using assms has_values_entries [of b i]
  by (auto simp: check_contract_restriction_def by_cells_def intro: find_cell_entries)

lemma all_checks_True: "all_checks cs i = Some True \<Longrightarrow> (b, v) \<in> set cs \<Longrightarrow> check_contract_restriction i b v = Some True"
  by (induction cs) (auto split: option.splits if_splits)

lemma contracting_rules_sound:
  assumes "check_contracting_rules i = Some True"
  shows "in_contracting_parts (it_rule i) (it_last i)"
proof -
  obtain y where y: "icaltime_day_of_year (it_last i) = Some y"
    using assms by (cases "icaltime_day_of_year (it_last i)") (simp_all add: check_contracting_rules_def Let_def)
  have c: "check_contract_restriction i b v = Some True" if "b \<noteq> BY_SET_POS" "part_of_time b (it_last i) = Some v" for b v
    by (rule all_checks_True [OF assms [unfolded check_contracting_rules_def y Let_def Option.bind.simps]])
      (use that y in \<open>cases b; simp\<close>)
  have "\<exists>v. part_of_time b (it_last i) = Some v" if "b \<noteq> BY_SET_POS" for b
    using that y by (cases b) simp_all
  with c show ?thesis
    unfolding in_contracting_parts_def by (metis check_restriction_sound)
qed

text \<open>
  A call either gives the null time and counts nothing, for one of four reasons, or gives a good
  occurrence and counts it. The first call gives the time of the iterator without a further test
  if it is not before the start; every other time passes the tests of the loop.
\<close>

definition good_occurrence ::
    "coverage \<Rightarrow> icalrecur_iterator \<Rightarrow> icalrecur_iterator \<Rightarrow> icaltimetype \<Rightarrow> bool" where
  "good_occurrence cov i j t \<longleftrightarrow> t = it_last j \<and> occurrence_no j = occurrence_no i + 1 \<and>
     (r_count (it_rule i) = 0 \<or> occurrence_no j \<le> r_count (it_rule i)) \<and>
     (\<exists>c \<ge> 0. icaltime_compare cov t (it_dtstart i) = Some c) \<and>
     (icaltime_is_null_time (r_until (it_rule i)) \<or> (\<exists>c \<le> 0. icaltime_compare cov t (r_until (it_rule i)) = Some c)) \<and>
     (occurrence_no i = 0 \<and> t = it_last i \<or> year t < 2038 \<and> in_contracting_parts (it_rule i) t)"

definition at_end :: "coverage \<Rightarrow> icalrecur_iterator \<Rightarrow> icalrecur_iterator \<Rightarrow> bool" where
  "at_end cov i j \<longleftrightarrow> occurrence_no j = occurrence_no i \<and>
     (r_count (it_rule i) \<noteq> 0 \<and> occurrence_no i \<ge> r_count (it_rule i) \<or>
      \<not> icaltime_is_null_time (r_until (it_rule i)) \<and> (\<exists>c > 0. icaltime_compare cov (it_last j) (r_until (it_rule i)) = Some c) \<or>
      year (it_last j) \<ge> 2038 \<or> r_freq (it_rule i) = ICAL_NO_RECURRENCE)"

lemma after_until_cases:
  "after_until cov i = Some False \<longleftrightarrow> icaltime_is_null_time (r_until (it_rule i)) \<or>
    (\<exists>c \<le> 0. icaltime_compare cov (it_last i) (r_until (it_rule i)) = Some c)"
  "after_until cov i = Some True \<longleftrightarrow> \<not> icaltime_is_null_time (r_until (it_rule i)) \<and>
    (\<exists>c > 0. icaltime_compare cov (it_last i) (r_until (it_rule i)) = Some c)"
  by (auto simp: after_until_def)

lemma next_from_sound:
  assumes "next_from cov i es = Some ((t, j), es1)"
  shows "it_rule j = it_rule i \<and> it_dtstart j = it_dtstart i \<and>
    (t = icaltime_null_time \<and> at_end cov i j \<or> good_occurrence cov i j t)"
proof -
  consider "t = icaltime_null_time" "j = i" "r_count (it_rule i) \<noteq> 0" "occurrence_no i \<ge> r_count (it_rule i)"
    | "t = icaltime_null_time" "j = i" "after_until cov i = Some True"
    | "after_until cov i = Some False" "(t, j) = give_last i" "occurrence_no i = 0"
      "\<exists>c \<ge> 0. icaltime_compare cov (it_last i) (it_dtstart i) = Some c"
      "r_count (it_rule i) = 0 \<or> occurrence_no i < r_count (it_rule i)"
    | k where "next_loop cov i es = Some (False, k, es1)" "t = icaltime_null_time" "j = k"
    | k where "next_loop cov i es = Some (True, k, es1)" "t = icaltime_null_time" "j = k" "after_until cov k = Some True"
    | k where "next_loop cov i es = Some (True, k, es1)" "after_until cov k = Some False" "(t, j) = give_last k"
      "r_count (it_rule i) = 0 \<or> occurrence_no i < r_count (it_rule i)"
    using assms
    by (auto simp: next_from_def split: if_splits bind_splits prod.splits)
  then show ?thesis
  proof cases
    case 3
    then show ?thesis by (auto simp: good_occurrence_def give_last_def after_until_cases)
  next
    case 6
    note l = next_loop_sound [OF 6(1)]
    with 6 show ?thesis
      by (auto simp: good_occurrence_def give_last_def after_until_cases frame_def dest: contracting_rules_sound)
  next
    case 4
    with next_loop_sound [OF 4(1)] show ?thesis by (auto simp: frame_def at_end_def)
  next
    case 5
    with next_loop_sound [OF 5(1)] show ?thesis by (auto simp: frame_def at_end_def after_until_cases)
  qed (auto simp: at_end_def after_until_cases)
qed

end
