(* ===== verification/RecurWeekday.thy ===== *)
theory RecurWeekday
  imports RecurNext RecurText TimeDays RecurYear
begin

text \<open>
  The meaning of a weekday with a position: \<open>nth_weekday\<close> finds the day by arithmetic, the
  lemmas show that it is the day that counting the month's weekdays gives.
\<close>

section \<open>Counting every seventh day\<close>

lemma upto_snoc: "a \<le> b + 1 \<Longrightarrow> [a..b + 1] = [a..b] @ [b + 1 :: int]"
  using upto_rec2 [of a "b + 1"] by simp

lemma count_up:
  fixes e1 :: int
  assumes "1 \<le> e1" "e1 \<le> 7"
  shows "int (length (filter (\<lambda>e. 7 dvd e - e1) [1..int d])) = (int d - e1 + 7) div 7"
proof (induction d)
  case 0
  then show ?case using assms by (simp add: div_pos_pos_trivial)
next
  case (Suc d)
  have "(int d + 1 - e1 + 7) div 7 = (int d - e1 + 7) div 7 + (if 7 dvd int d + 1 - e1 + 7 then 1 else 0)"
    using div_step [of 7 "int d + 1 - e1 + 7"] by (simp add: algebra_simps)
  moreover have "7 dvd int d + 1 - e1 + 7 \<longleftrightarrow> 7 dvd int d + 1 - e1" by presburger
  ultimately show ?case
    using Suc upto_snoc [of 1 "int d"] by (simp add: add.commute)
qed

lemma count_down:
  fixes l len :: int
  assumes "len - 6 \<le> l" "l \<le> len"
  shows "a = len + 1 - int k \<Longrightarrow> int (length (filter (\<lambda>e. 7 dvd e - l) [a..len])) = (l - a + 7) div 7"
proof (induction k arbitrary: a)
  case 0
  then show ?case using assms by (simp add: div_pos_pos_trivial)
next
  case (Suc k)
  then have a: "a \<le> len" by simp
  have "int (length (filter (\<lambda>e. 7 dvd e - l) [a + 1..len])) = (l - (a + 1) + 7) div 7"
    using Suc.prems by (intro Suc.IH) simp
  moreover have "(l - a + 7) div 7 = (l - (a + 1) + 7) div 7 + (if 7 dvd l - a + 7 then 1 else 0)"
    using div_step [of 7 "l - a + 7"] by (simp add: algebra_simps)
  moreover have "7 dvd l - a + 7 \<longleftrightarrow> 7 dvd a - l" by presburger
  ultimately show ?case using upto_rec1 [OF a] by simp
qed

section \<open>The weekdays of a month\<close>

definition month_day :: "icaltimetype \<Rightarrow> bool" where
  "month_day t \<longleftrightarrow> 1752 \<le> year t \<and> normal_date t"

text \<open>How often a weekday comes up to a day of the month, and from it on.\<close>

definition weekdays_upto :: "int \<Rightarrow> icaltimetype \<Rightarrow> int" where
  "weekdays_upto dow t =
     int (length (filter (\<lambda>e. icaltime_day_of_week (t\<lparr>day := e\<rparr>) = dow) [1..day t]))"

definition weekdays_from :: "int \<Rightarrow> icaltimetype \<Rightarrow> int" where
  "weekdays_from dow t =
     int (length (filter (\<lambda>e. icaltime_day_of_week (t\<lparr>day := e\<rparr>) = dow)
       [day t..icaltime_days_in_month (month t) (year t)]))"

lemma weekday_of_day:
  assumes "month_day t" "1 \<le> e"
  shows "icaltime_day_of_week (t\<lparr>day := e\<rparr>) = (ical_days (year t) (month t) 0 + e + 1) mod 7 + 1"
  using assms day_of_week_days [of "t\<lparr>day := e\<rparr>"] ical.dn_day [of "year t" "month t" 0 e]
  by (simp add: month_day_def normal_date_def)

lemma weekday_cong:
  assumes "month_day t" "1 \<le> e" "1 \<le> d" "1 \<le> dow" "dow \<le> 7" "icaltime_day_of_week (t\<lparr>day := d\<rparr>) = dow"
  shows "icaltime_day_of_week (t\<lparr>day := e\<rparr>) = dow \<longleftrightarrow> 7 dvd e - d"
proof -
  define B where "B = ical_days (year t) (month t) 0"
  have "(B + d + 1) mod 7 + 1 = dow" using weekday_of_day [OF assms(1,3)] assms(6) by (simp add: B_def)
  then have "(B + e + 1) mod 7 + 1 = dow \<longleftrightarrow> (B + e + 1) mod 7 = (B + d + 1) mod 7" by auto
  also have "\<dots> \<longleftrightarrow> 7 dvd (B + e + 1) - (B + d + 1)" by (rule mod_eq_dvd_iff)
  finally show ?thesis using weekday_of_day [OF assms(1,2)] by (simp add: B_def)
qed

text \<open>The first and the last day of the month with a weekday, as the code computes them.\<close>

definition first_weekday :: "int \<Rightarrow> icaltimetype \<Rightarrow> int" where
  "first_weekday dow t = nth_weekday dow 0 t"

definition last_weekday :: "int \<Rightarrow> icaltimetype \<Rightarrow> int" where
  "last_weekday dow t = nth_weekday dow (- 1) t"

lemma nth_weekday_step:
  "0 < pos \<Longrightarrow> nth_weekday dow pos t = first_weekday dow t + (pos - 1) * 7"
  "pos < 0 \<Longrightarrow> nth_weekday dow pos t = last_weekday dow t + (pos + 1) * 7"
  by (simp_all add: nth_weekday_def first_weekday_def last_weekday_def Let_def)

lemma shifted_mod_7:
  fixes a b :: int
  assumes "0 \<le> a" "a < 7" "x mod 7 = b"
  shows "(x + (a - b)) mod 7 = a" "(x + (a - b) + 7) mod 7 = a" "(x + (a - b) - 7) mod 7 = a"
proof -
  have "(x + (a - b)) mod 7 = (b + (a - b)) mod 7" using assms(3) by (metis mod_add_left_eq)
  then show 1: "(x + (a - b)) mod 7 = a" using assms(1,2) by (simp add: mod_pos_pos_trivial)
  then show "(x + (a - b) + 7) mod 7 = a" by simp
  show "(x + (a - b) - 7) mod 7 = a" using 1 by (metis minus_mod_self2)
qed

lemma first_weekday:
  assumes t: "month_day t" and dow: "1 \<le> dow" "dow \<le> 7"
  shows "1 \<le> first_weekday dow t" "first_weekday dow t \<le> 7"
    "icaltime_day_of_week (t\<lparr>day := first_weekday dow t\<rparr>) = dow"
proof -
  define B where "B = ical_days (year t) (month t) 0"
  define s where "s = icaltime_day_of_week (t\<lparr>day := 1\<rparr>)"
  have s: "(B + 2) mod 7 = s - 1" using weekday_of_day [OF t, of 1] by (simp add: s_def B_def add.commute)
  have sr: "1 \<le> s" "s \<le> 7" using s pos_mod_sign [of 7 "B + 2"] pos_mod_bound [of 7 "B + 2"] by linarith+
  have f: "first_weekday dow t = (if dow - s + 1 \<le> 0 then dow - s + 8 else dow - s + 1)"
    by (simp add: first_weekday_def nth_weekday_def Let_def s_def)
  show r: "1 \<le> first_weekday dow t" "first_weekday dow t \<le> 7" using sr dow by (simp_all add: f)
  have "(B + first_weekday dow t + 1) mod 7 = dow - 1"
    using shifted_mod_7(1,2) [of "dow - 1" "B + 2" "s - 1"] dow s by (simp add: f algebra_simps)
  then show "icaltime_day_of_week (t\<lparr>day := first_weekday dow t\<rparr>) = dow"
    using weekday_of_day [OF t r(1)] by (simp add: B_def)
qed

lemma last_weekday:
  fixes t :: icaltimetype and len :: int
  defines "len \<equiv> icaltime_days_in_month (month t) (year t)"
  assumes t: "month_day t" and dow: "1 \<le> dow" "dow \<le> 7"
  shows "len - 6 \<le> last_weekday dow t" "last_weekday dow t \<le> len"
    "icaltime_day_of_week (t\<lparr>day := last_weekday dow t\<rparr>) = dow"
proof -
  define B where "B = ical_days (year t) (month t) 0"
  define s where "s = icaltime_day_of_week (t\<lparr>day := len\<rparr>)"
  have len: "28 \<le> len" unfolding len_def by (rule days_in_month_pos)
  have s: "(B + len + 1) mod 7 = s - 1" using weekday_of_day [OF t, of len] len by (simp add: s_def B_def)
  have sr: "1 \<le> s" "s \<le> 7" using s pos_mod_sign [of 7 "B + len + 1"] pos_mod_bound [of 7 "B + len + 1"] by linarith+
  have f: "last_weekday dow t = len - (if s - dow < 0 then s - dow + 7 else s - dow)"
    by (simp add: last_weekday_def nth_weekday_def Let_def s_def len_def)
  show r: "len - 6 \<le> last_weekday dow t" "last_weekday dow t \<le> len" using sr dow by (simp_all add: f)
  have "(B + last_weekday dow t + 1) mod 7 = dow - 1"
    using shifted_mod_7(1,3) [of "dow - 1" "B + len + 1" "s - 1"] dow s by (simp add: f algebra_simps)
  then show "icaltime_day_of_week (t\<lparr>day := last_weekday dow t\<rparr>) = dow"
    using weekday_of_day [OF t, of "last_weekday dow t"] r len by (simp add: B_def)
qed

lemma weekdays_upto_eq:
  assumes t: "month_day t" and dow: "1 \<le> dow" "dow \<le> 7"
  shows "weekdays_upto dow t = (day t - first_weekday dow t + 7) div 7"
proof -
  note f = first_weekday [OF t dow]
  have d: "1 \<le> day t" using t by (simp add: month_day_def normal_date_def)
  have "filter (\<lambda>e. icaltime_day_of_week (t\<lparr>day := e\<rparr>) = dow) [1..day t] =
      filter (\<lambda>e. 7 dvd e - first_weekday dow t) [1..int (nat (day t))]"
    using d by (intro filter_cong) (auto simp: weekday_cong [OF t _ f(1) dow f(3)])
  then show ?thesis using count_up [OF f(1,2), of "nat (day t)"] d by (simp add: weekdays_upto_def)
qed

lemma weekdays_from_eq:
  assumes t: "month_day t" and dow: "1 \<le> dow" "dow \<le> 7"
  shows "weekdays_from dow t = (last_weekday dow t - day t + 7) div 7"
proof -
  let ?dim = "icaltime_days_in_month (month t) (year t)"
  note l = last_weekday [OF t dow]
  have d: "1 \<le> day t" "day t \<le> ?dim" using t by (simp_all add: month_day_def normal_date_def)
  have l1: "1 \<le> last_weekday dow t" using l(1) days_in_month_pos [of "month t" "year t"] by linarith
  have "filter (\<lambda>e. icaltime_day_of_week (t\<lparr>day := e\<rparr>) = dow) [day t..?dim] =
      filter (\<lambda>e. 7 dvd e - last_weekday dow t) [day t..?dim]"
    using d by (intro filter_cong) (auto simp: weekday_cong [OF t _ l1 dow l(3)])
  then show ?thesis
    using count_down [OF l(1,2), of "day t" "nat (?dim + 1 - day t)"] d by (simp add: weekdays_from_def)
qed

text \<open>A day is at a position exactly if its weekday is right and counting gives the position.\<close>

lemma nth_weekday_up:
  assumes t: "month_day t" and dow: "1 \<le> dow" "dow \<le> 7" and p: "0 < p"
  shows "nth_weekday dow p t = day t \<longleftrightarrow> icaltime_day_of_week t = dow \<and> weekdays_upto dow t = p"
proof -
  note f = first_weekday [OF t dow]
  have d: "1 \<le> day t" using t by (simp add: month_day_def normal_date_def)
  have w: "icaltime_day_of_week t = dow \<longleftrightarrow> 7 dvd day t - first_weekday dow t"
    using weekday_cong [OF t d f(1) dow f(3)] by (cases t) simp
  show ?thesis
    unfolding nth_weekday_step(1) [OF p] weekdays_upto_eq [OF t dow] w by presburger
qed

lemma nth_weekday_down:
  assumes t: "month_day t" and dow: "1 \<le> dow" "dow \<le> 7" and p: "p < 0"
  shows "nth_weekday dow p t = day t \<longleftrightarrow> icaltime_day_of_week t = dow \<and> weekdays_from dow t = - p"
proof -
  note l = last_weekday [OF t dow]
  have d: "1 \<le> day t" using t by (simp add: month_day_def normal_date_def)
  have l1: "1 \<le> last_weekday dow t" using l(1) days_in_month_pos [of "month t" "year t"] by linarith
  have w: "icaltime_day_of_week t = dow \<longleftrightarrow> 7 dvd day t - last_weekday dow t"
    using weekday_cong [OF t d l1 dow l(3)] by (cases t) simp
  show ?thesis
    unfolding nth_weekday_step(2) [OF p] weekdays_from_eq [OF t dow] w by presburger
qed

lemma on_weekday_iff:
  assumes t: "month_day t" and w: "w \<noteq> ICAL_NO_WEEKDAY"
  shows "on_weekday (day_code w p) t \<longleftrightarrow> icaltime_day_of_week t = wd_num w \<and>
    (p = 0 \<or> (if p > 0 then weekdays_upto (wd_num w) t = p else weekdays_from (wd_num w) t = - p))"
proof -
  have dow: "1 \<le> wd_num w" "wd_num w \<le> 7" using w by (cases w; simp)+
  have d: "1 \<le> day t" using t by (simp add: month_day_def normal_date_def)
  have self: "t\<lparr>day := day t\<rparr> = t" by (cases t) simp
  consider "p = 0" | "p > 0" | "p < 0" by linarith
  then show ?thesis
  proof cases
    case 1
    have "nth_weekday (wd_num w) 0 t = day t \<Longrightarrow> icaltime_day_of_week t = wd_num w"
      using first_weekday(3) [OF t dow] self by (simp add: first_weekday_def)
    then show ?thesis using 1 by (auto simp: on_weekday_def day_code_dow day_code_position Let_def)
  next
    case 2
    then show ?thesis using nth_weekday_up [OF t dow 2] by (auto simp: on_weekday_def day_code_dow day_code_position Let_def)
  next
    case 3
    then show ?thesis using nth_weekday_down [OF t dow 3] by (auto simp: on_weekday_def day_code_dow day_code_position Let_def)
  qed
qed

text \<open>
  The expansion of a year: a BYDAY list of bare weekdays gives exactly the days of the year
  that fall on one of them.
\<close>

section \<open>Every seventh day\<close>

lemma set_every_week: "set (every_week a b) = {d. a \<le> d \<and> d \<le> b \<and> 7 dvd d - a}"
proof (induction a b rule: every_week.induct)
  case (1 a b)
  show ?case
  proof (cases "a \<le> b")
    case True
    have "7 dvd d - (a + 7) \<longleftrightarrow> 7 dvd d - a" for d by presburger
    moreover have "7 dvd d - a \<Longrightarrow> a \<le> d \<Longrightarrow> d \<noteq> a \<Longrightarrow> a + 7 \<le> d" for d
      using zdvd_imp_le [of 7 "d - a"] by simp
    ultimately have "insert a {d. a + 7 \<le> d \<and> d \<le> b \<and> 7 dvd d - (a + 7)} = {d. a \<le> d \<and> d \<le> b \<and> 7 dvd d - a}"
      using True by auto
    then show ?thesis using 1 True by (simp add: every_week.simps [of a b])
  qed (simp add: every_week.simps [of a b])
qed

section \<open>The days of a year\<close>

lemma weekday_of_doy:
  assumes "1752 \<le> y" "1 \<le> d" "d \<le> ycaltime_days_in_year y"
  shows "icaltime_day_of_week (icaltime_from_day_of_year d y) = (year_start y + d + 1) mod 7 + 1"
proof -
  let ?t = "icaltime_from_day_of_year d y"
  note t = from_day_of_year_in [OF assms(2,3)]
  have m: "1 \<le> month ?t" "month ?t \<le> 12" "1 \<le> day ?t" using t(2) by (simp_all add: normal_date_def)
  have "ical_days (year ?t) (month ?t) (day ?t) = year_start y + d"
    using day_of_year_days [OF m(1,2)] t(1,3) by simp
  then show ?thesis using day_of_week_days [of ?t] t(1) m assms(1) by simp
qed

lemma byday_days_bare:
  assumes y: "1752 \<le> y" and p: "icalrecurrencetype_day_position v = 0"
    and w: "icalrecurrencetype_day_day_of_week v = w" "w \<noteq> ICAL_NO_WEEKDAY"
    and s: "start_dow = (year_start y + 2) mod 7 + 1"
  shows "set (byday_days start_dow end_dow (ycaltime_days_in_year y) v) =
    {d. 1 \<le> d \<and> d \<le> ycaltime_days_in_year y \<and>
        icaltime_day_of_week (icaltime_from_day_of_year d y) = wd_num w}"
proof -
  let ?len = "ycaltime_days_in_year y"
  have dow: "1 \<le> wd_num w" "wd_num w \<le> 7" using w(2) by (cases w; simp)+
  have sr: "1 \<le> start_dow" "start_dow \<le> 7"
    using s pos_mod_sign [of 7 "year_start y + 2"] pos_mod_bound [of 7 "year_start y + 2"] by linarith+
  define f where "f = (wd_num w + 7 - start_dow) mod 7 + 1"
  have fr: "1 \<le> f" "f \<le> 7"
    using pos_mod_sign [of 7 "wd_num w + 7 - start_dow"] pos_mod_bound [of 7 "wd_num w + 7 - start_dow"]
    by (simp_all add: f_def)
  have key: "(year_start y + d + 1) mod 7 + 1 = wd_num w \<longleftrightarrow> 7 dvd d - f" for d
  proof -
    have "7 dvd (year_start y + 2) - (start_dow - 1)" "7 dvd (wd_num w + 7 - start_dow) - (f - 1)"
      using s by (simp_all add: f_def mod_eq_dvd_iff [symmetric])
    then have "7 dvd (year_start y + d + 1) - (wd_num w - 1) \<longleftrightarrow> 7 dvd d - f" by presburger
    moreover have "(year_start y + d + 1) mod 7 = (wd_num w - 1) mod 7 \<longleftrightarrow> 7 dvd (year_start y + d + 1) - (wd_num w - 1)"
      by (rule mod_eq_dvd_iff)
    moreover have "(wd_num w - 1) mod 7 = wd_num w - 1" using dow by (simp add: mod_pos_pos_trivial)
    ultimately show ?thesis by linarith
  qed
  have "byday_days start_dow end_dow ?len v = every_week f ?len"
    using p w(1) sr dow by (simp add: byday_days_def Let_def f_def c_mod_nonneg)
  moreover have "d \<ge> f" if "1 \<le> d" "7 dvd d - f" for d
    using that fr zdvd_imp_le [of 7 "f - d"] dvd_diff_commute [of 7 d f] by linarith
  ultimately show ?thesis
    using fr by (auto simp: set_every_week weekday_of_doy [OF y] key)
qed

text \<open>A loop over an array with a terminator goes over its entries.\<close>

lemma each_cell_entries:
  assumes "length a < n" and step: "\<And>v acc. v \<in> set (entries a) \<Longrightarrow> f v acc = Some (g v acc)"
  shows "each_cell f (cells n a) acc = Some (fold g (entries a) acc)"
proof -
  obtain r where r: "a = entries a @ r" "at_end r" using entries_split by blast
  have c: "cells n a = entries a @ (r @ [ICAL_RECURRENCE_ARRAY_MAX])" using assms(1) r(1) by (simp add: cells_def)
  have tail: "each_cell f (r @ [ICAL_RECURRENCE_ARRAY_MAX]) acc = Some acc" for acc
    using r(2) by (cases r) (auto simp: at_end_def)
  have "each_cell f (e @ (r @ [ICAL_RECURRENCE_ARRAY_MAX])) acc = Some (fold g e acc)"
    if "set e \<subseteq> set (entries a)" "plain_entries e" for e acc
    using that
  proof (induction e arbitrary: acc)
    case (Cons v e)
    then have "v \<noteq> ICAL_RECURRENCE_ARRAY_MAX" "plain_entries e" by (auto simp: plain_entries_def)
    then show ?case using Cons step [of v acc] by simp
  qed (use tail in simp)
  then show ?thesis using c by simp
qed

lemma set_fold_append: "set (fold (\<lambda>v ds. ds @ f v) vs acc) = set acc \<union> (\<Union>v \<in> set vs. set (f v))"
  by (induction vs arbitrary: acc) auto

lemma expand_by_day_bare:
  assumes y: "1752 \<le> y" and len: "length (by_day (it_rule impl)) < ICAL_BY_DAY_SIZE"
    and vs: "\<forall>v \<in> set (entries (by_day (it_rule impl))). icalrecurrencetype_day_position v = 0 \<and>
      icalrecurrencetype_day_day_of_week v \<noteq> ICAL_NO_WEEKDAY"
  shows "\<exists>ds. expand_by_day impl y = Some ds \<and>
    set ds = {d. 1 \<le> d \<and> d \<le> ycaltime_days_in_year y \<and> (\<exists>v \<in> set (entries (by_day (it_rule impl))).
      icaltime_day_of_week (icaltime_from_day_of_year d y) = wd_num (icalrecurrencetype_day_day_of_week v))}"
proof -
  let ?t1 = "(it_last impl)\<lparr>year := y, month := 1, day := 1, is_date := 1\<rparr>"
  let ?t2 = "?t1\<lparr>year := y, month := 12, day := 31, is_date := 1\<rparr>"
  let ?e = "icaltime_day_of_week ?t2"
  have "ical_days y 1 1 = year_start y + 1" by (simp add: ical_days_month)
  then have start: "icaltime_day_of_week ?t1 = (year_start y + 2) mod 7 + 1"
    using day_of_week_days [of ?t1] y by (simp add: add.commute)
  have "month_start y 12 + 31 = ycaltime_days_in_year y"
    using month_start_table(1) [of 12 y] by (simp add: icaltime_days_in_month_def days_in_month_table_def)
  then have last: "icaltime_day_of_year ?t2 = Some (ycaltime_days_in_year y)"
    using day_of_year_days [of ?t2] by (simp add: ical_days_month)
  have "expand_by_day impl y = Some (fold (\<lambda>v ds. ds @ byday_days (icaltime_day_of_week ?t1) ?e (ycaltime_days_in_year y) v)
      (entries (by_day (it_rule impl))) [])"
    using each_cell_entries [OF len, of "\<lambda>v ds. Some (ds @ byday_days (icaltime_day_of_week ?t1) ?e (ycaltime_days_in_year y) v)"
        "\<lambda>v ds. ds @ byday_days (icaltime_day_of_week ?t1) ?e (ycaltime_days_in_year y) v" "[]"] last
    by (simp add: expand_by_day_def Let_def by_cells_def)
  moreover have "set (byday_days (icaltime_day_of_week ?t1) ?e (ycaltime_days_in_year y) v) =
      {d. 1 \<le> d \<and> d \<le> ycaltime_days_in_year y \<and>
        icaltime_day_of_week (icaltime_from_day_of_year d y) = wd_num (icalrecurrencetype_day_day_of_week v)}"
    if "v \<in> set (entries (by_day (it_rule impl)))" for v
    using that vs by (intro byday_days_bare [OF y _ refl _ start]) auto
  ultimately show ?thesis by (auto simp: set_fold_append)
qed

end
