(* ===== verification/RecurProperties.thy ===== *)
theory RecurProperties
  imports RecurRoundTrip RecurPlain RecurStart RecurSound RecurWeekday TimeProperties
begin

text \<open>The properties of recurrence rules and of their iterator.\<close>

section \<open>Sample rules\<close>

definition daily_rule :: icalrecurrencetype where
  "daily_rule = icalrecurrencetype_clear\<lparr>r_freq := ICAL_DAILY_RECURRENCE, r_interval := 2, r_count := 2\<rparr>"

definition monthly_rule :: icalrecurrencetype where
  "monthly_rule = icalrecurrencetype_clear\<lparr>r_freq := ICAL_MONTHLY_RECURRENCE, r_week_start := ICAL_SUNDAY_WEEKDAY,
     by_day := [14, - 10], by_hour := [8, 17], r_count := 12\<rparr>"

definition quiet :: icalerror_state where
  "quiet = \<lparr>icalerrno = ICAL_NO_ERROR, icalerror_errors_are_fatal = 0, error_state_map = []\<rparr>"

section \<open>Text\<close>

text \<open>C28: The text that is printed for a rule is read back as the same rule, without an error: frequency,
  end, count, interval, week start and all lists; the BYDAY list comes back sorted by the days of
  the week. The buffer is never overrun.\<close>

theorem rule_text_inverse:
  assumes "printable_rule r"
  shows "\<exists>b d. icalrecurrencetype_as_string_r r es = Some (Some b, es) \<and>
    icalrecurrencetype_from_string (sb_text b) es = Some (canon_rule r d, es) \<and>
    mset (entries d) = mset (entries (by_day r)) \<and> sorted (map (day_rank (r_week_start r)) (entries d))"
proof -
  obtain b where b: "icalrecurrencetype_as_string_r r es = Some (Some b, es)" "sb_text b = recur_text r"
    using as_string_recur_text [OF assms] by blast
  show ?thesis
    using b from_string_recur_text [OF assms, of es] read_byday_sorted [OF assms]
    by (intro exI [of _ b] exI [of _ "read_byday r"]) simp
qed

theorem rule_text_inverse_witness:
  "\<exists>b d. icalrecurrencetype_as_string_r monthly_rule quiet = Some (Some b, quiet) \<and>
    icalrecurrencetype_from_string (sb_text b) quiet = Some (canon_rule monthly_rule d, quiet) \<and>
    mset (entries d) = mset (entries (by_day monthly_rule)) \<and>
    sorted (map (day_rank (r_week_start monthly_rule)) (entries d))"
  by (rule rule_text_inverse)
    (simp add: printable_rule_def monthly_rule_def icalrecurrencetype_clear_def array_printable_def entries_def
      by_sizes ICAL_RECURRENCE_ARRAY_MAX_def day_printable_def icalrecurrencetype_day_day_of_week_def
      c_mod_nonneg wd_of_def weekdays_def)

text \<open>C34: Reading a list of numbers fills the array and terminates it if there are fewer numbers than the
  array has cells; with as many or more the terminator is written behind the array.\<close>

theorem byrules_bounds:
  assumes "vs \<noteq> []" "\<forall>v \<in> set vs. - (2 ^ 15) < v \<and> v < 2 ^ 15" "0 < n"
  shows "icalrecur_add_byrules [] n (commas (map fmt_d vs)) =
    (if length vs < n then Some (vs @ [ICAL_RECURRENCE_ARRAY_MAX]) else None)"
  using assms add_byrules_commas [OF assms(1,2), of "[]" n "[]"] add_byrules_overflow [OF assms(1,2), of "[]" n "[]"]
  by (simp add: icalrecur_add_byrules_def del: add_byrules_loop.simps)

theorem byrules_bounds_witness:
  "icalrecur_add_byrules [] 2 (commas (map fmt_d [7, - 3])) =
    (if length [7, - 3 :: int] < 2 then Some ([7, - 3] @ [ICAL_RECURRENCE_ARRAY_MAX]) else None)"
  by (rule byrules_bounds) simp_all

text \<open>Sorting the BYDAY list puts its days in the order of the week that starts at the rule's week start,
  and neither loses nor adds one.\<close>

theorem bydays_sorted:
  assumes "length (entries (by_day r)) \<le> ICAL_BY_DAY_SIZE"
  shows "mset (entries (by_day (sort_bydayrules r))) = mset (entries (by_day r)) \<and>
    sorted (map (day_rank (r_week_start r)) (entries (by_day (sort_bydayrules r))))"
  using sort_outer_entries [OF assms] by (simp add: sort_bydayrules_def)

theorem bydays_sorted_witness:
  "mset (entries (by_day (sort_bydayrules monthly_rule))) = mset (entries (by_day monthly_rule)) \<and>
    sorted (map (day_rank (r_week_start monthly_rule)) (entries (by_day (sort_bydayrules monthly_rule))))"
  by (rule bydays_sorted)
    (simp add: monthly_rule_def icalrecurrencetype_clear_def entries_def ICAL_RECURRENCE_ARRAY_MAX_def by_sizes)

text \<open>The code of a weekday and a position gives both back, for every weekday and every position of
  either sign.\<close>

theorem day_code_inverse:
  "icalrecurrencetype_day_day_of_week (day_code w p) = w \<and> icalrecurrencetype_day_position (day_code w p) = p"
  by (simp add: day_code_dow day_code_position)

section \<open>The iterator\<close>

text \<open>C29: A rule that repeats every so many seconds, minutes, hours, days or weeks: the iterator is created,
  every call returns, and the calls give the start moved by the multiples of the interval, one
  after the other, and null times once the count is reached.\<close>

theorem plain_rule_occurrences:
  assumes "plain_rule r" "plain_start t" "year (freq_shift (r_freq r) (int m * r_interval r) t) < 2038"
  shows "\<exists>impl es1. icalrecur_iterator_new r t es = Some (Some impl, es1) \<and>
    occurrences cov (Suc m) (Some impl) es1 = Some (map (\<lambda>k. plain_occurrence r t (int k)) [0..<Suc m])"
  by (rule plain_occurrences [OF assms])

theorem plain_rule_occurrences_witness:
  "\<exists>impl es1. icalrecur_iterator_new daily_rule (plain_time 2007 11 1 12 0 0) quiet = Some (Some impl, es1) \<and>
    occurrences (\<lambda>z y. None) (Suc 2) (Some impl) es1 =
      Some (map (\<lambda>k. plain_occurrence daily_rule (plain_time 2007 11 1 12 0 0) (int k)) [0..<Suc 2])"
  by (rule plain_rule_occurrences)
    (simp_all add: plain_rule_def daily_rule_def icalrecurrencetype_clear_def periodic_def icaltime_is_null_time_def
      icaltime_null_time_def plain_start_def november_normal freq_shift_def icaltime_adjust_def carry_div_mod
      normalize_month_def move_days_def days_forward.simps icaltime_days_in_month_def days_in_month_table_def)

text \<open>C30: A call for the next occurrence, of any rule, that returns keeps the rule and the start. Either it gives
  the null time and counts nothing; then the count is reached, the iterator's time is after the end of the
  rule or in 2038 or later, or the rule has no frequency. Or it gives the iterator's time and counts one: a
  time that is not before the start, not after the end and within the count. Unless it is the time that the
  iterator was created with, which the first call gives as it is, the time is also before 2038 and
  accepted by the contracting parts of the rule.\<close>

theorem next_is_sound:
  assumes "next_from cov i es = Some ((t, j), es1)"
  shows "it_rule j = it_rule i \<and> it_dtstart j = it_dtstart i \<and>
    (t = icaltime_null_time \<and> at_end cov i j \<or> good_occurrence cov i j t)"
  by (rule next_from_sound [OF assms])

text \<open>The witness: the second call for a rule of every other day goes through the loop, the third is at the end.\<close>

definition second_state :: icalrecur_iterator where
  "second_state = (fresh_iterator daily_rule (plain_time 2007 11 1 12 0 0))
     \<lparr>it_rule := plain_init daily_rule (plain_time 2007 11 1 12 0 0), occurrence_no := 1\<rparr>"

lemma daily_facts:
  "plain_rule daily_rule" "plain_start (plain_time 2007 11 1 12 0 0)" "plain_at daily_rule (plain_time 2007 11 1 12 0 0) 0 1 second_state"
  "freq_shift ICAL_DAILY_RECURRENCE 2 (plain_time 2007 11 1 12 0 0) = plain_time 2007 11 3 12 0 0"
proof -
  let ?t = "plain_time 2007 11 1 12 0 0"
  show r: "plain_rule daily_rule"
    by (simp add: plain_rule_def daily_rule_def icalrecurrencetype_clear_def periodic_def icaltime_is_null_time_def icaltime_null_time_def)
  show t: "plain_start ?t" using november_normal by (simp add: plain_start_def)
  have "orig_data second_state = (\<lambda>b. False)"
  proof
    fix b
    have "by_ptr b daily_rule = []" by (cases b) (simp_all add: daily_rule_def icalrecurrencetype_clear_def)
    then show "orig_data second_state b = False"
      by (cases b) (simp_all add: second_state_def fresh_iterator_def arr_get_small by_sizes)
  qed
  then show "plain_at daily_rule ?t 0 1 second_state"
    using t by (simp add: plain_at_def second_state_def fresh_iterator_def freq_shift_0 plain_start_def)
  show "freq_shift ICAL_DAILY_RECURRENCE 2 ?t = plain_time 2007 11 3 12 0 0"
    by (simp add: plain_time_def icaltime_null_time_def freq_shift_def icaltime_adjust_def carry_div_mod
      normalize_month_def move_days_def days_forward.simps icaltime_days_in_month_def days_in_month_table_def)
qed

theorem next_is_sound_witness:
  "\<exists>j k. icalrecur_iterator_next (\<lambda>z y. None) (Some second_state) quiet = Some (plain_time 2007 11 3 12 0 0, Some j, quiet) \<and>
    plain_time 2007 11 3 12 0 0 \<noteq> icaltime_null_time \<and>
    good_occurrence (\<lambda>z y. None) second_state j (plain_time 2007 11 3 12 0 0) \<and>
    icalrecur_iterator_next (\<lambda>z y. None) (Some j) quiet = Some (icaltime_null_time, Some k, quiet) \<and> at_end (\<lambda>z y. None) j k"
proof -
  let ?t = "plain_time 2007 11 1 12 0 0" and ?u = "plain_time 2007 11 3 12 0 0"
  have c: "r_freq daily_rule = ICAL_DAILY_RECURRENCE" "r_interval daily_rule = 2" "r_count daily_rule = 2" by (simp_all add: daily_rule_def)
  obtain j where j: "icalrecur_iterator_next (\<lambda>z y. None) (Some second_state) quiet = Some (?u, Some j, quiet)" "plain_at daily_rule ?t 1 2 j"
    using plain_next_later [OF daily_facts(1,2), of 0 second_state "\<lambda>z y. None" quiet] daily_facts(3,4) c by auto
  have n: "next_from (\<lambda>z y. None) second_state quiet = Some ((?u, j), quiet)" using j(1) by (auto simp: icalrecur_iterator_next_def)
  have ne: "?u \<noteq> icaltime_null_time" by (simp add: plain_time_def icaltime_null_time_def)
  have e: "icalrecur_iterator_next (\<lambda>z y. None) (Some j) quiet = Some (icaltime_null_time, Some j, quiet)"
    using plain_next_end [OF daily_facts(1), of j ?t] j(2) c(3) by (simp add: plain_at_def)
  then have m: "next_from (\<lambda>z y. None) j quiet = Some ((icaltime_null_time, j), quiet)" by (auto simp: icalrecur_iterator_next_def)
  have "\<not> good_occurrence (\<lambda>z y. None) j j icaltime_null_time" by (simp add: good_occurrence_def)
  with next_is_sound [OF n] next_is_sound [OF m] j(1) e ne show ?thesis by blast
qed

text \<open>C32: The carries of the iterator are \<open>icaltime_adjust\<close>: adding seconds, minutes, hours or days to its time
  gives the same time, when months are not taken from a BYMONTH list.\<close>

theorem carries_adjust:
  assumes "timed i" "0 \<le> n"
  shows "increment_second n i = Some (upd_last (\<lambda>t. icaltime_adjust t 0 0 0 n) i) \<and>
    increment_minute n i = Some (upd_last (\<lambda>t. icaltime_adjust t 0 0 n 0) i) \<and>
    increment_hour n i = Some (upd_last (\<lambda>t. icaltime_adjust t 0 n 0 0) i) \<and>
    increment_monthday n i = Some (upd_last (\<lambda>t. icaltime_adjust t n 0 0 0) i)"
  using increment_second_adjust [OF assms] increment_minute_adjust [OF assms] increment_hour_adjust [OF assms]
    increment_monthday_adjust [of i n] assms by (simp add: timed_def)

theorem carries_adjust_witness:
  "increment_second 3600 (fresh_iterator daily_rule (plain_time 2007 11 1 12 0 0)) =
     Some (upd_last (\<lambda>t. icaltime_adjust t 0 0 0 3600) (fresh_iterator daily_rule (plain_time 2007 11 1 12 0 0))) \<and>
   increment_minute 3600 (fresh_iterator daily_rule (plain_time 2007 11 1 12 0 0)) =
     Some (upd_last (\<lambda>t. icaltime_adjust t 0 0 3600 0) (fresh_iterator daily_rule (plain_time 2007 11 1 12 0 0))) \<and>
   increment_hour 3600 (fresh_iterator daily_rule (plain_time 2007 11 1 12 0 0)) =
     Some (upd_last (\<lambda>t. icaltime_adjust t 0 3600 0 0) (fresh_iterator daily_rule (plain_time 2007 11 1 12 0 0))) \<and>
   increment_monthday 3600 (fresh_iterator daily_rule (plain_time 2007 11 1 12 0 0)) =
     Some (upd_last (\<lambda>t. icaltime_adjust t 3600 0 0 0) (fresh_iterator daily_rule (plain_time 2007 11 1 12 0 0)))"
  by (rule carries_adjust)
    (simp_all add: timed_def month_free_def has_by_data_def fresh_iterator_def daily_rule_def november_normal
      icalrecurrencetype_clear_def arr_get_small by_sizes)

text \<open>C31: A day of a month is at a position of a weekday, as the BYDAY tests decide by arithmetic, exactly if it
  falls on the weekday and counting the weekday's days from the start of the month, or from its
  end, gives the position.\<close>

theorem weekday_position:
  assumes "month_day t" "w \<noteq> ICAL_NO_WEEKDAY"
  shows "on_weekday (day_code w p) t \<longleftrightarrow> icaltime_day_of_week t = wd_num w \<and>
    (p = 0 \<or> (if p > 0 then weekdays_upto (wd_num w) t = p else weekdays_from (wd_num w) t = - p))"
  by (rule on_weekday_iff [OF assms])

theorem weekday_position_witness:
  "on_weekday (day_code ICAL_THURSDAY_WEEKDAY 1) (plain_time 2007 11 1 12 0 0) \<longleftrightarrow>
    icaltime_day_of_week (plain_time 2007 11 1 12 0 0) = wd_num ICAL_THURSDAY_WEEKDAY \<and>
    ((1::int) = 0 \<or> (if (1::int) > 0 then weekdays_upto (wd_num ICAL_THURSDAY_WEEKDAY) (plain_time 2007 11 1 12 0 0) = 1
       else weekdays_from (wd_num ICAL_THURSDAY_WEEKDAY) (plain_time 2007 11 1 12 0 0) = - 1))"
  by (rule weekday_position) (use november_normal in \<open>simp_all add: month_day_def normal_time_def\<close>)

text \<open>C33: A yearly BYDAY list of bare weekdays is expanded to exactly the days of the year that fall on one of
  the weekdays.\<close>

theorem year_bydays:
  assumes "1752 \<le> y" "length (by_day (it_rule i)) < ICAL_BY_DAY_SIZE"
    and "\<forall>v \<in> set (entries (by_day (it_rule i))). icalrecurrencetype_day_position v = 0 \<and>
      icalrecurrencetype_day_day_of_week v \<noteq> ICAL_NO_WEEKDAY"
  shows "\<exists>ds. expand_by_day i y = Some ds \<and>
    set ds = {d. 1 \<le> d \<and> d \<le> ycaltime_days_in_year y \<and> (\<exists>v \<in> set (entries (by_day (it_rule i))).
      icaltime_day_of_week (icaltime_from_day_of_year d y) = wd_num (icalrecurrencetype_day_day_of_week v))}"
  by (rule expand_by_day_bare [OF assms])

theorem year_bydays_witness:
  "\<exists>ds. expand_by_day (fresh_iterator (monthly_rule\<lparr>by_day := [3]\<rparr>) icaltime_null_time) 2009 = Some ds \<and>
    set ds = {d. 1 \<le> d \<and> d \<le> ycaltime_days_in_year 2009 \<and>
      (\<exists>v \<in> set (entries (by_day (it_rule (fresh_iterator (monthly_rule\<lparr>by_day := [3]\<rparr>) icaltime_null_time)))).
      icaltime_day_of_week (icaltime_from_day_of_year d 2009) = wd_num (icalrecurrencetype_day_day_of_week v))}"
  by (rule year_bydays)
    (simp_all add: fresh_iterator_def by_sizes entries_def ICAL_RECURRENCE_ARRAY_MAX_def position_eq
      icalrecurrencetype_day_day_of_week_def c_mod_nonneg wd_of_def weekdays_def)

text \<open>C35: Which rules the creation of an iterator refuses, with the null pointer and the error of malformed data, when
  that error is not fatal. The test of the parts refuses exactly a monthly rule with BYWEEKNO, a weekly one
  with BYMONTHDAY and one that is not yearly with BYYEARDAY as the only part for days and above. The pairs
  that the comments forbid, such as BYYEARDAY with BYMONTH, are not refused by the test: a yearly rule with such a
  pair is refused by the expansion of its first year, and any other gets an iterator. Every rule
  that is not yearly and passes the test gets an iterator at the start with nothing counted and no error,
  but for a monthly one whose first BYDAY entry names a day that the month of the start does not have.\<close>

theorem rejected_rules:
  assumes "recoverable es"
  shows "(lone_part r \<longrightarrow> refused (icalrecur_iterator_new r t es)) \<and>
    (r_freq r = ICAL_YEARLY_RECURRENCE \<and> forbidden_pair r \<longrightarrow> refused (icalrecur_iterator_new r t es)) \<and>
    (r_freq r \<noteq> ICAL_YEARLY_RECURRENCE \<and> (forbidden_pair r \<or> \<not> lone_part r) \<longrightarrow>
      (if r_freq r = ICAL_MONTHLY_RECURRENCE \<and> entries (by_day r) \<noteq> [] \<and> month_start_day (hd (entries (by_day r))) t = None
       then refused (icalrecur_iterator_new r t es)
       else \<exists>i. icalrecur_iterator_new r t es = Some (Some i, icalerror_clear_errno es) \<and> it_dtstart i = t \<and> occurrence_no i = 0))"
proof -
  have "\<not> lone_part r" if "forbidden_pair r" using that by (auto simp: forbidden_pair_def lone_part_def)
  then show ?thesis using new_lone_part [OF _ assms] new_yearly_pair [OF _ _ assms] new_other [OF _ _ assms] by blast
qed

text \<open>The witness: BYMONTHDAY alone in a weekly rule, and BYYEARDAY with BYMONTH in a daily and in a yearly one.\<close>

theorem rejected_rules_witness:
  "refused (icalrecur_iterator_new (icalrecurrencetype_clear\<lparr>r_freq := ICAL_WEEKLY_RECURRENCE, by_month_day := [13]\<rparr>)
     (plain_time 2007 11 1 12 0 0) quiet) \<and>
   refused (icalrecur_iterator_new (icalrecurrencetype_clear\<lparr>r_freq := ICAL_YEARLY_RECURRENCE, by_year_day := [100], by_month := [4]\<rparr>)
     (plain_time 2007 11 1 12 0 0) quiet) \<and>
   (\<exists>i. icalrecur_iterator_new (icalrecurrencetype_clear\<lparr>r_freq := ICAL_DAILY_RECURRENCE, by_year_day := [100], by_month := [4]\<rparr>)
     (plain_time 2007 11 1 12 0 0) quiet = Some (Some i, quiet))"
proof -
  let ?w = "icalrecurrencetype_clear\<lparr>r_freq := ICAL_WEEKLY_RECURRENCE, by_month_day := [13]\<rparr>"
  let ?y = "icalrecurrencetype_clear\<lparr>r_freq := ICAL_YEARLY_RECURRENCE, by_year_day := [100], by_month := [4]\<rparr>"
  let ?d = "icalrecurrencetype_clear\<lparr>r_freq := ICAL_DAILY_RECURRENCE, by_year_day := [100], by_month := [4]\<rparr>"
  have q: "recoverable quiet"
    by (simp add: recoverable_def icalerror_set_errno_def icalerror_get_error_state_def quiet_def)
  have "day_parts ?w = [BY_MONTH_DAY]" "day_parts ?y = [BY_YEAR_DAY, BY_MONTH]" "day_parts ?d = [BY_YEAR_DAY, BY_MONTH]"
    by (simp_all add: day_parts_def interday_rules_def icalrecurrencetype_clear_def entries_def ICAL_RECURRENCE_ARRAY_MAX_def)
  then have "lone_part ?w" "forbidden_pair ?y" "forbidden_pair ?d" by (simp_all add: lone_part_def forbidden_pair_def)
  with rejected_rules [OF q, of ?w] rejected_rules [OF q, of ?y] rejected_rules [OF q, of ?d "plain_time 2007 11 1 12 0 0"]
  show ?thesis by (auto simp: icalerror_clear_errno_def quiet_def)
qed

end
