(* ===== verification/IcalLine.thy ===== *)
theory IcalLine
  imports IcalMemory
begin

text \<open>
  The text layer of \<^verbatim>\<open>icalparser.c\<close>: the generator that cuts a text into pieces of at most
  79 characters, the routine that puts the pieces of a content line together and undoes its
  folding, and the routines that find the name, the parameters and the values in a line; and
  the folding of \<^verbatim>\<open>icalproperty.c\<close>.

  The buffer \<open>temp\<close> of the parser is a list of its 80 bytes. The growing buffer in which
  \<open>icalparser_get_line\<close> builds the line is its text up to the append position, since every
  use of it appends with \<open>icalmemory_append_string\<close>, whose law is proved with the memory
  component, or moves the append position back.
\<close>

section \<open>The line buffer\<close>

definition TMP_BUF_SIZE :: nat where "TMP_BUF_SIZE = 80"

text \<open>The C string at the start of some bytes, if it ends there.\<close>

definition c_str :: "string \<Rightarrow> string option" where
  "c_str bs = (if NUL \<in> set bs then Some (takeWhile (\<lambda>c. c \<noteq> NUL) bs) else None)"

definition MARK :: char where "MARK = char_of (1 :: nat)"

definition LF :: char where "LF = char_of (10 :: nat)"
definition CR :: char where "CR = char_of (13 :: nat)"
definition TAB :: char where "TAB = char_of (9 :: nat)"

lemma char_of_iff: "n < 256 \<Longrightarrow> c = char_of (n :: nat) \<longleftrightarrow> (of_char c :: nat) = n"
  by (metis char_of_char of_char_of mod_less)

lemma char_of_iff': "n < 256 \<Longrightarrow> char_of (n :: nat) = c \<longleftrightarrow> (of_char c :: nat) = n"
  using char_of_iff [of n c] by auto

lemma char_codes:
  "c = LF \<longleftrightarrow> (of_char c :: nat) = 10" "c = CR \<longleftrightarrow> (of_char c :: nat) = 13"
  "c = TAB \<longleftrightarrow> (of_char c :: nat) = 9"
  "LF = c \<longleftrightarrow> (of_char c :: nat) = 10" "CR = c \<longleftrightarrow> (of_char c :: nat) = 13"
  "TAB = c \<longleftrightarrow> (of_char c :: nat) = 9"
  by (simp_all add: LF_def CR_def TAB_def char_of_iff char_of_iff')

record icalparser_lines =
  buffer_full :: bool
  continuation_line :: bool
  temp :: string

definition icalparser_new_lines :: icalparser_lines where
  "icalparser_new_lines =
     \<lparr>buffer_full = False, continuation_line = False, temp = replicate TMP_BUF_SIZE NUL\<rparr>"

text \<open>
  A line generator writes at most the given number of bytes to a buffer and returns whether
  there was something: the null pointer is \<open>False\<close>.
\<close>

type_synonym 'd line_gen = "string \<Rightarrow> nat \<Rightarrow> 'd \<Rightarrow> bool \<times> string \<times> 'd"

record slg_data =
  slg_pos :: "string option"
  slg_str :: string

definition icalparser_string_line_generator :: "slg_data line_gen" where
  "icalparser_string_line_generator out buf_size d =
     (let pos = (case slg_pos d of None \<Rightarrow> slg_str d | Some p \<Rightarrow> p);
          d1 = d\<lparr>slg_pos := Some pos\<rparr>
      in if pos = [] then (False, out, d1)
         else
           let size1 = (case split_chr LF pos of (a, None) \<Rightarrow> length pos | (a, Some _) \<Rightarrow> length a + 1);
               sz = (if size1 > buf_size - 1 then buf_size - 1 else size1)
           in (True, take sz pos @ NUL # drop (Suc sz) out, d1\<lparr>slg_pos := Some (drop sz pos)\<rparr>))"

section \<open>Reading a content line\<close>

text \<open>Moving the append position back over the line break of a folded line.\<close>

definition back_up :: "string \<Rightarrow> string" where
  "back_up line =
     (let l1 = butlast line in if l1 \<noteq> [] \<and> last l1 = CR then butlast l1 else l1)"

text \<open>The first part of the loop: the bytes read before are appended to the line.\<close>

definition take_temp :: "icalparser_lines \<Rightarrow> string \<Rightarrow> (icalparser_lines \<times> string) option" where
  "take_temp p line =
     (if temp p ! 0 \<noteq> NUL then
        let full = (temp p ! (TMP_BUF_SIZE - 1) = NUL \<and> temp p ! (TMP_BUF_SIZE - 2) \<noteq> LF \<and>
                    temp p ! (TMP_BUF_SIZE - 2) \<noteq> NUL);
            p1 = p\<lparr>buffer_full := full, continuation_line := False, temp := (temp p)[0 := NUL]\<rparr>
        in if continuation_line p
           then map_option (\<lambda>s. (p1, back_up line @ s)) (c_str (tl (temp p)))
           else map_option (\<lambda>s. (p1, line @ s)) (c_str (temp p))
      else Some (p, line))"

text \<open>The end of a line: its line break and the white space before it are erased, but for the first character.\<close>

definition erase_newline :: "string \<Rightarrow> string" where
  "erase_newline line =
     (if length line > 1 \<and> last line = LF
      then (let l1 = butlast line in if last l1 = CR then butlast l1 else l1)
      else line)"

definition strip_tail :: "string \<Rightarrow> string" where
  "strip_tail line = (case line of [] \<Rightarrow> [] | c # cs \<Rightarrow> c # rev (dropWhile is_space (rev cs)))"

text \<open>\<open>None\<close> inside the result is the null pointer at the end of the input.\<close>

partial_function (option) line_loop ::
    "'d line_gen \<Rightarrow> icalparser_lines \<Rightarrow> string \<Rightarrow> 'd \<Rightarrow> (string option \<times> icalparser_lines \<times> 'd) option" where
  "line_loop gen p line d = do {
     (p1, line1) \<leftarrow> take_temp p line;
     let (more, bytes, d1) = gen ((temp p1)[TMP_BUF_SIZE - 1 := MARK]) TMP_BUF_SIZE d;
     let p2 = p1\<lparr>temp := bytes\<rparr>;
     if \<not> more \<and> bytes ! 0 = NUL
     then Some (if line1 = [] then None else Some (strip_tail (erase_newline line1)), p2, d1)
     else if length line1 > 1 \<and> last line1 = LF \<and> (bytes ! 0 = CHR '' '' \<or> bytes ! 0 = TAB)
     then line_loop gen (p2\<lparr>continuation_line := True\<rparr>) line1 d1
     else if buffer_full p2 then line_loop gen p2 line1 d1
     else Some (Some (strip_tail (erase_newline line1)), p2, d1) }"

declare line_loop.simps [code]

definition icalparser_get_line ::
    "'d line_gen \<Rightarrow> icalparser_lines \<Rightarrow> 'd \<Rightarrow> (string option \<times> icalparser_lines \<times> 'd) option" where
  "icalparser_get_line gen p d = line_loop gen p [] d"

text \<open>The loop of \<open>icalparser_parse\<close> over the lines, up to the end of the input.\<close>

partial_function (option) all_lines ::
    "'d line_gen \<Rightarrow> icalparser_lines \<Rightarrow> 'd \<Rightarrow> (string list \<times> icalparser_lines \<times> 'd) option" where
  "all_lines gen p d = do {
     (line, p1, d1) \<leftarrow> icalparser_get_line gen p d;
     (case line of
        None \<Rightarrow> Some ([], p1, d1)
      | Some l \<Rightarrow> do { (ls, r) \<leftarrow> all_lines gen p1 d1; Some (l # ls, r) }) }"

declare all_lines.simps [code]

definition line_is_blank :: "string \<Rightarrow> bool" where
  "line_is_blank line \<longleftrightarrow> list_all (\<lambda>c. c = CHR '' '' \<or> c = LF \<or> c = TAB) line"

section \<open>Folding\<close>

definition MAX_LINE_LEN :: nat where "MAX_LINE_LEN = 75"

text \<open>The searches from a position down to the second character.\<close>

fun find_down :: "(char \<Rightarrow> bool) \<Rightarrow> string \<Rightarrow> nat \<Rightarrow> nat option" where
  "find_down P line 0 = None"
| "find_down P line (Suc pos) = (if P (line ! Suc pos) then Some (Suc pos) else find_down P line pos)"

definition get_next_line_start :: "string \<Rightarrow> nat \<Rightarrow> nat" where
  "get_next_line_start line_start chars_left =
     (if chars_left < MAX_LINE_LEN then chars_left
      else case find_down (\<lambda>c. c = CHR '';'' \<or> c = CHR '':'' \<or> c = CHR '' '') line_start (MAX_LINE_LEN - 2) of
        Some pos \<Rightarrow> pos + 1
      | None \<Rightarrow>
          (case find_down (\<lambda>c. and (of_char c :: nat) 128 = 0 \<or> and (of_char c :: nat) 192 = 192)
                  line_start (MAX_LINE_LEN - 1) of
             Some pos \<Rightarrow> pos
           | None \<Rightarrow> MAX_LINE_LEN - 1))"

lemma find_down_pos: "find_down P line n = Some k \<Longrightarrow> 0 < k \<and> k \<le> n"
  by (induction n) (auto split: if_splits)

lemma next_line_start_range:
  "line \<noteq> [] \<Longrightarrow> 0 < get_next_line_start line (length line) \<and>
     get_next_line_start line (length line) \<le> min (length line) (MAX_LINE_LEN - 1)"
  by (auto simp: get_next_line_start_def MAX_LINE_LEN_def split: option.splits dest!: find_down_pos)

function fold_lines :: "bool \<Rightarrow> string \<Rightarrow> sbuf \<Rightarrow> sbuf option" where
  "fold_lines first_line line b =
     (if line = [] then Some b
      else
        let n = get_next_line_start line (length line)
        in do {
          b1 \<leftarrow> (if first_line then Some b else icalmemory_append_string b [CR, LF, CHR '' '']);
          b2 \<leftarrow> icalmemory_append_string b1 (take n line);
          fold_lines False (drop n line) b2 })"
  by pat_completeness auto
termination
  by (relation "measure (\<lambda>(f, line, b). length line)")
    (auto simp: Let_def dest!: next_line_start_range)

declare fold_lines.simps [simp del]

definition fold_property_line :: "string \<Rightarrow> sbuf option" where
  "fold_property_line txt = fold_lines True txt (icalmemory_new_buffer (length txt * 2))"

end
