(* ===== verification/LineLaws.thy ===== *)
theory LineLaws
  imports IcalLine
begin

text \<open>
  The laws of the text layer. Reading through the buffer of 80 bytes is unfolding the whole
  text: the line that \<open>icalparser_get_line\<close> returns and the text it leaves depend on the
  text alone and not on where the buffer cuts it. What the folding writes is unfolded to the
  line it was made from.
\<close>

section \<open>Unfolding on the whole text\<close>

lemma neq_LF: "CHR '' '' \<noteq> LF" "TAB \<noteq> LF" "CR \<noteq> LF"
  unfolding LF_def TAB_def CR_def by code_simp+

text \<open>The first physical line, with its line feed, and the text behind it.\<close>

definition phys :: "string \<Rightarrow> string \<times> string" where
  "phys R = (case split_chr LF R of (a, None) \<Rightarrow> (a, []) | (a, Some b) \<Rightarrow> (a @ [LF], b))"

lemma phys_join: "phys R = (a, b) \<Longrightarrow> R = a @ b"
proof -
  have none: "split_chr LF R = (a, None) \<Longrightarrow> a = R" for a
    by (induction R arbitrary: a) (auto split: if_splits prod.splits)
  show "phys R = (a, b) \<Longrightarrow> R = a @ b"
    by (auto simp: phys_def split: prod.splits option.splits dest: none split_chr_join)
qed

lemma phys_Nil [simp]: "phys [] = ([], [])"
  by (simp add: phys_def)

lemma phys_LF: "LF \<notin> set a \<Longrightarrow> phys (a @ LF # b) = (a @ [LF], b)"
  by (simp add: phys_def split_chr_first)

lemma phys_no_LF: "LF \<notin> set a \<Longrightarrow> phys a = (a, [])"
  by (simp add: phys_def split_chr_none)

lemma phys_prefix: "LF \<notin> set a \<Longrightarrow> phys (a @ R) = (a @ fst (phys R), snd (phys R))"
proof (cases "LF \<in> set R")
  case True
  assume a: "LF \<notin> set a"
  from True obtain u v where "R = u @ LF # v" "LF \<notin> set u" by (auto dest: split_list_first)
  with a show ?thesis using phys_LF [of "a @ u" v] by (simp add: phys_LF)
qed (simp add: phys_no_LF)

lemma phys_cases:
  obtains (line) u where "LF \<notin> set u" "fst (phys R) = u @ [LF]" "R = u @ LF # snd (phys R)"
    | (last) "LF \<notin> set R" "phys R = (R, [])"
proof (cases "LF \<in> set R")
  case True
  then obtain u v where "R = u @ LF # v" "LF \<notin> set u" by (auto dest: split_list_first)
  then show ?thesis by (intro line [of u]) (simp_all add: phys_LF)
qed (auto intro: last simp: phys_no_LF)

lemma phys_shorter: "length (snd (phys R)) \<le> length R"
  using phys_join [of R "fst (phys R)" "snd (phys R)"] by (metis length_append le_add2 prod.collapse)

definition folded_on :: "string \<Rightarrow> string \<Rightarrow> bool" where
  "folded_on L R \<longleftrightarrow> length L > 1 \<and> last L = LF \<and> R \<noteq> [] \<and> (hd R = CHR '' '' \<or> hd R = TAB)"

function unfold_line :: "string \<Rightarrow> string \<Rightarrow> string \<times> string" where
  "unfold_line L R =
     (let L1 = L @ fst (phys R)
      in if folded_on L1 (snd (phys R)) then unfold_line (back_up L1) (tl (snd (phys R))) else (L1, snd (phys R)))"
  by pat_completeness auto
termination
proof (relation "measure (\<lambda>(L, R). length R)", goal_cases)
  case (2 L R L1)
  then show ?case using phys_shorter [of R] by (cases "snd (phys R)") (auto simp: folded_on_def)
qed simp

declare unfold_line.simps [simp del]

lemma unfold_line_shorter: "snd (unfold_line L R) = R1 \<Longrightarrow> length R1 \<le> length R"
proof (induction L R arbitrary: R1 rule: unfold_line.induct)
  case (1 L R)
  show ?case
  proof (cases "folded_on (L @ fst (phys R)) (snd (phys R))")
    case True
    then have "length R1 \<le> length (tl (snd (phys R)))"
      using 1 by (simp add: unfold_line.simps [of L R] Let_def)
    then show ?thesis using phys_shorter [of R] by simp
  next
    case False
    then show ?thesis using "1.prems" phys_shorter [of R] by (simp add: unfold_line.simps [of L R] Let_def)
  qed
qed

lemma unfold_line_prefix: "LF \<notin> set a \<Longrightarrow> unfold_line L (a @ R) = unfold_line (L @ a) R"
  by (simp add: unfold_line.simps [of L "a @ R"] unfold_line.simps [of "L @ a" R] phys_prefix Let_def)

definition finish_line :: "string \<Rightarrow> string" where
  "finish_line L = strip_tail (erase_newline L)"

text \<open>A returned line: none exactly if there is neither a line nor a text behind it.\<close>

definition line_of :: "string \<Rightarrow> string \<Rightarrow> string option" where
  "line_of L R = (if L = [] \<and> R = [] then None else Some (finish_line L))"

section \<open>The buffer\<close>

definition rest_of :: "slg_data \<Rightarrow> string" where
  "rest_of d = (case slg_pos d of None \<Rightarrow> slg_str d | Some p \<Rightarrow> p)"

text \<open>What the generator gives next: the first physical line, but at most 79 characters.\<close>

definition piece :: "string \<Rightarrow> string" where
  "piece R = take (TMP_BUF_SIZE - 1) (fst (phys R))"

definition loaded :: "string \<Rightarrow> string \<Rightarrow> bool" where
  "loaded bs c \<longleftrightarrow> length bs = TMP_BUF_SIZE \<and> c \<noteq> [] \<and> nul_free c \<and> length c < TMP_BUF_SIZE \<and>
     (\<exists>r. bs = c @ NUL # r \<and> (r \<noteq> [] \<longrightarrow> last r = MARK))"

definition pending :: "icalparser_lines \<Rightarrow> slg_data \<Rightarrow> string \<Rightarrow> bool" where
  "pending p d R \<longleftrightarrow> nul_free R \<and>
     (if R = [] then length (temp p) = TMP_BUF_SIZE \<and> temp p ! 0 = NUL \<and> rest_of d = []
      else loaded (temp p) (piece R) \<and> R = piece R @ rest_of d)"

lemma fst_phys_Nil [simp]: "fst (phys R) = [] \<longleftrightarrow> R = []"
  by (cases R rule: phys_cases) auto

lemma fst_snd_phys: "fst (phys R) @ snd (phys R) = R"
  using phys_join [of R "fst (phys R)" "snd (phys R)"] by simp

lemma piece_prefix: "R = piece R @ drop (length (piece R)) R"
proof -
  have "piece R = take (min (TMP_BUF_SIZE - 1) (length (fst (phys R)))) R"
    using fst_snd_phys [of R] by (metis append_take_drop_id piece_def take_append take_all take_take nat_le_linear min.absorb1 min.absorb2 length_take append_eq_conv_conj)
  then show ?thesis by (metis append_take_drop_id length_take min_def append_eq_conv_conj)
qed

lemma string_generator:
  assumes "length bs = TMP_BUF_SIZE" "last bs = MARK" "nul_free (rest_of d)"
  shows "\<exists>d1. rest_of d1 = drop (length (piece (rest_of d))) (rest_of d) \<and>
    (if rest_of d = [] then icalparser_string_line_generator bs TMP_BUF_SIZE d = (False, bs, d1)
     else \<exists>bs1. icalparser_string_line_generator bs TMP_BUF_SIZE d = (True, bs1, d1) \<and>
            loaded bs1 (piece (rest_of d)))"
proof (cases "rest_of d = []")
  case True
  then show ?thesis
    by (auto simp: icalparser_string_line_generator_def rest_of_def Let_def piece_def split: option.splits)
next
  case False
  let ?R = "rest_of d"
  define sz where "sz = min (TMP_BUF_SIZE - 1) (length (fst (phys ?R)))"
  have piece: "piece ?R = take sz ?R" and sz: "sz \<le> length ?R" "0 < sz" "sz < TMP_BUF_SIZE"
  proof -
    have "piece ?R = take sz (fst (phys ?R))" by (simp add: piece_def sz_def min_def)
    then show "piece ?R = take sz ?R"
      using fst_snd_phys [of ?R] by (metis sz_def min.cobounded2 take_append append_Nil2 diff_is_0_eq take_0)
    show "sz \<le> length ?R" using fst_snd_phys [of ?R] by (metis length_append le_add1 le_trans sz_def min.cobounded2)
    show "0 < sz" "sz < TMP_BUF_SIZE" using False by (auto simp: sz_def TMP_BUF_SIZE_def)
  qed
  have size1: "(case split_chr LF ?R of (a, None) \<Rightarrow> length ?R | (a, Some _) \<Rightarrow> Suc (length a)) = length (fst (phys ?R))"
  proof (cases ?R rule: phys_cases)
    case (line u)
    then show ?thesis using split_chr_first [of LF u "snd (phys ?R)"] by simp
  next
    case last
    then show ?thesis by (simp add: split_chr_none)
  qed
  have "icalparser_string_line_generator bs TMP_BUF_SIZE d =
      (True, take sz ?R @ NUL # drop (Suc sz) bs, d\<lparr>slg_pos := Some (drop sz ?R)\<rparr>)"
  proof -
    have "(if length (fst (phys ?R)) > TMP_BUF_SIZE - 1 then TMP_BUF_SIZE - 1 else length (fst (phys ?R))) = sz"
      by (simp add: sz_def min_def)
    then show ?thesis
      using False by (simp add: icalparser_string_line_generator_def rest_of_def [symmetric] Let_def size1 split: if_splits)
  qed
  moreover have "loaded (take sz ?R @ NUL # drop (Suc sz) bs) (piece ?R)"
    unfolding loaded_def piece using sz assms
    by (auto simp: nul_free_def last_drop dest: in_set_takeD)
  ultimately show ?thesis
    using False sz piece by (auto simp: rest_of_def)
qed

section \<open>Reading is unfolding\<close>

lemma loaded_facts:
  assumes "loaded bs c"
  shows "length bs = TMP_BUF_SIZE" "c \<noteq> []" "c_str bs = Some c" "c_str (tl bs) = Some (tl c)"
    "bs ! 0 = hd c" "bs ! 0 \<noteq> NUL"
    "bs ! (TMP_BUF_SIZE - 1) = NUL \<and> bs ! (TMP_BUF_SIZE - 2) \<noteq> LF \<and> bs ! (TMP_BUF_SIZE - 2) \<noteq> NUL \<longleftrightarrow>
       length c = TMP_BUF_SIZE - 1 \<and> last c \<noteq> LF"
proof -
  from assms obtain r where r: "bs = c @ NUL # r" "r \<noteq> [] \<longrightarrow> last r = MARK" "length bs = TMP_BUF_SIZE"
    "c \<noteq> []" "NUL \<notin> set c" "length c < TMP_BUF_SIZE" by (auto simp: loaded_def nul_free_def)
  then obtain x xs where c: "c = x # xs" by (cases c) auto
  show "length bs = TMP_BUF_SIZE" "c \<noteq> []" by (rule r(3), rule r(4))
  show "c_str bs = Some c" "c_str (tl bs) = Some (tl c)" "bs ! 0 = hd c" "bs ! 0 \<noteq> NUL"
    using r(5) c by (auto simp: r(1) c_str_def takeWhile_append)
  have "MARK \<noteq> NUL" by (simp add: MARK_def NUL_def)
  show "bs ! (TMP_BUF_SIZE - 1) = NUL \<and> bs ! (TMP_BUF_SIZE - 2) \<noteq> LF \<and> bs ! (TMP_BUF_SIZE - 2) \<noteq> NUL \<longleftrightarrow>
       length c = TMP_BUF_SIZE - 1 \<and> last c \<noteq> LF"
  proof (cases r)
    case Nil
    then have len: "TMP_BUF_SIZE = Suc (Suc (length xs))" using r(1,3) c by simp
    have "bs ! length xs = c ! length xs" unfolding r(1) by (subst nth_append) (simp add: c)
    moreover have "last c = c ! length xs" using last_conv_nth [OF r(4)] by (simp only: c) simp
    ultimately have "bs ! length xs = last c" by (simp only:)
    moreover have "TMP_BUF_SIZE - 2 = length xs" using len by simp
    ultimately have "bs ! (TMP_BUF_SIZE - 2) = last c" by metis
    moreover have "last c \<noteq> NUL" using r(4,5) last_in_set by metis
    moreover have c1: "length c = TMP_BUF_SIZE - 1" using len c by simp
    moreover have "bs ! (TMP_BUF_SIZE - 1) = NUL" unfolding c1 [symmetric] r(1) by (rule nth_append_length)
    ultimately show ?thesis by argo
  next
    case Cons
    have "bs ! (TMP_BUF_SIZE - 1) = last bs" using r(3,4) r(1) by (simp add: last_conv_nth)
    then have "bs ! (TMP_BUF_SIZE - 1) = MARK" using Cons r(1,2) by simp
    moreover have "length c \<noteq> TMP_BUF_SIZE - 1" using r(1,3) Cons by auto
    ultimately show ?thesis using \<open>MARK \<noteq> NUL\<close> by simp
  qed
qed

lemma piece_nonempty: "R \<noteq> [] \<Longrightarrow> piece R \<noteq> []"
  by (simp add: piece_def TMP_BUF_SIZE_def)

text \<open>The three ways a piece ends: at a line feed, at the end of the text, or because it is full.\<close>

lemma piece_cases:
  assumes "R = c @ R1" "c = piece R" "R \<noteq> []"
  obtains (line) u where "c = u @ [LF]" "LF \<notin> set u"
    | (eof) "R1 = []" "LF \<notin> set c"
    | (full) "length c = TMP_BUF_SIZE - 1" "LF \<notin> set c" "R1 \<noteq> []"
proof (cases "length (fst (phys R)) \<le> TMP_BUF_SIZE - 1")
  case True
  then have c: "c = fst (phys R)" using assms(2) by (simp add: piece_def)
  show ?thesis
  proof (cases R rule: phys_cases)
    case (line u)
    then show ?thesis using that(1) c by simp
  next
    case last
    then have "c = R" using c by simp
    then show ?thesis using that(2) assms(1) last by simp
  qed
next
  case False
  then have l: "length c = TMP_BUF_SIZE - 1" using assms(2) by (simp add: piece_def)
  have c: "c = take (TMP_BUF_SIZE - 1) (fst (phys R))" using assms(2) by (simp add: piece_def)
  have n: "LF \<notin> set c"
  proof (cases R rule: phys_cases)
    case (line u)
    then have "TMP_BUF_SIZE - 1 \<le> length u" using False by simp
    then show ?thesis using c line by (auto dest: in_set_takeD)
  next
    case last
    then show ?thesis using c by (auto dest: in_set_takeD)
  qed
  have "R1 \<noteq> []" using assms(1) l False fst_snd_phys [of R] by (metis append_Nil2 length_append le_add1)
  then show ?thesis using that(3) l n by blast
qed

text \<open>One turn of the loop, with the text that has been read into the buffer.\<close>

definition held :: "bool \<Rightarrow> string \<Rightarrow> string \<Rightarrow> string" where
  "held k L c = (if k then back_up L @ tl c else L @ c)"

lemma take_temp_loaded:
  assumes "loaded (temp p) c"
  shows "\<exists>p1. take_temp p L = Some (p1, held (continuation_line p) L c) \<and>
    length (temp p1) = TMP_BUF_SIZE \<and> temp p1 ! 0 = NUL \<and> \<not> continuation_line p1 \<and>
    buffer_full p1 = (length c = TMP_BUF_SIZE - 1 \<and> last c \<noteq> LF)"
proof -
  note l = loaded_facts [OF assms]
  have "(temp p)[0 := NUL] ! 0 = NUL" using l(1) by (simp add: TMP_BUF_SIZE_def)
  then show ?thesis using l by (auto simp: take_temp_def held_def Let_def simp del: One_nat_def)
qed

lemma mark_bytes:
  "length bs = TMP_BUF_SIZE \<Longrightarrow> last (bs[TMP_BUF_SIZE - 1 := MARK]) = MARK"
  "length bs = TMP_BUF_SIZE \<Longrightarrow> bs ! 0 = NUL \<Longrightarrow> bs[TMP_BUF_SIZE - 1 := MARK] ! 0 = NUL"
  by (subst last_conv_nth) (auto simp: TMP_BUF_SIZE_def)

lemma take_temp_empty: "temp p ! 0 = NUL \<Longrightarrow> take_temp p L = Some (p, L)"
  by (simp add: take_temp_def)

text \<open>The rest of a turn: the generator is called and the loop goes on or ends.\<close>

lemma line_loop_turn:
  assumes "take_temp p L = Some (p1, L1)" "length (temp p1) = TMP_BUF_SIZE" "temp p1 ! 0 = NUL"
    and "\<not> continuation_line p1" "nul_free (rest_of d)"
  shows "\<exists>p2 d1. pending p2 d1 (rest_of d) \<and> \<not> continuation_line p2 \<and> buffer_full p2 = buffer_full p1 \<and>
    line_loop icalparser_string_line_generator p L d =
      (if rest_of d = [] then Some (if L1 = [] then None else Some (finish_line L1), p2, d1)
       else if folded_on L1 (rest_of d)
       then line_loop icalparser_string_line_generator (p2\<lparr>continuation_line := True\<rparr>) L1 d1
       else if buffer_full p1 then line_loop icalparser_string_line_generator p2 L1 d1
       else Some (Some (finish_line L1), p2, d1))"
proof -
  let ?bs = "(temp p1)[TMP_BUF_SIZE - 1 := MARK]" and ?R = "rest_of d"
  have bs: "length ?bs = TMP_BUF_SIZE" "last ?bs = MARK" "?bs ! 0 = NUL"
    using mark_bytes [OF assms(2)] assms(2,3) by simp_all
  from string_generator [OF bs(1,2) assms(5)] obtain d1 where d1:
    "rest_of d1 = drop (length (piece ?R)) ?R"
    "?R = [] \<Longrightarrow> icalparser_string_line_generator ?bs TMP_BUF_SIZE d = (False, ?bs, d1)"
    "?R \<noteq> [] \<Longrightarrow> \<exists>bs1. icalparser_string_line_generator ?bs TMP_BUF_SIZE d = (True, bs1, d1) \<and> loaded bs1 (piece ?R)"
    by (auto split: if_splits)
  show ?thesis
  proof (cases "?R = []")
    case True
    have "pending (p1\<lparr>temp := ?bs\<rparr>) d1 ?R" using True bs d1(1) by (simp add: pending_def)
    then show ?thesis
      using True d1(2) [OF True] assms(1,4) bs(3)
      by (intro exI [of _ "p1\<lparr>temp := ?bs\<rparr>"] exI [of _ d1])
        (simp add: line_loop.simps [of _ p L d] finish_line_def)
  next
    case False
    from d1(3) [OF False] obtain bs1 where g:
      "icalparser_string_line_generator ?bs TMP_BUF_SIZE d = (True, bs1, d1)" "loaded bs1 (piece ?R)" by blast
    have "bs1 ! 0 = hd ?R"
    proof -
      have "hd (piece ?R) = hd ?R" using piece_nonempty [OF False] piece_prefix [of ?R] by (metis hd_append2)
      then show ?thesis using loaded_facts(5) [OF g(2)] by simp
    qed
    moreover have "pending (p1\<lparr>temp := bs1\<rparr>) d1 ?R"
      using False g(2) assms(5) d1(1) piece_prefix [of ?R] by (simp add: pending_def)
    ultimately show ?thesis
      using False g assms(1,4)
      by (intro exI [of _ "p1\<lparr>temp := bs1\<rparr>"] exI [of _ d1])
        (auto simp: line_loop.simps [of _ p L d] finish_line_def folded_on_def Let_def)
  qed
qed

text \<open>The line and the text that are left, from the middle of a line on.\<close>

definition from_here :: "bool \<Rightarrow> string \<Rightarrow> string \<Rightarrow> string \<times> string" where
  "from_here k L R = (if k then unfold_line (back_up L) (tl R) else unfold_line L R)"

lemma from_here_line:
  assumes "R = u @ LF # R1" "LF \<notin> set u" "k \<longrightarrow> hd R \<noteq> LF"
  shows "from_here k L R = (if folded_on (held k L (u @ [LF])) R1
     then from_here True (held k L (u @ [LF])) R1 else (held k L (u @ [LF]), R1))"
proof -
  have "phys (tl R) = (tl u @ [LF], R1)" if k
  proof -
    from that assms obtain x xs where "u = x # xs" by (cases u) auto
    with assms show ?thesis by (simp add: phys_LF)
  qed
  moreover have "phys R = (u @ [LF], R1)" using assms by (simp add: phys_LF)
  moreover have "tl (u @ [LF]) = tl u @ [LF]" if k using assms that by (cases u) auto
  ultimately show ?thesis
    by (cases k) (simp_all add: from_here_def held_def unfold_line.simps [of "back_up L" "tl R"]
      unfold_line.simps [of L R] Let_def)
qed

lemma from_here_part:
  assumes "R = c @ R1" "LF \<notin> set c" "c \<noteq> []"
  shows "from_here k L R = unfold_line (held k L c) R1"
proof (cases c)
  case (Cons x xs)
  then show ?thesis
    using assms unfold_line_prefix [of c L R1] unfold_line_prefix [of xs "back_up L" R1]
    by (simp add: from_here_def held_def)
qed (use assms in simp)

lemma unfold_line_Nil [simp]: "unfold_line L [] = (L, [])"
  by (simp add: unfold_line.simps [of L "[]"] folded_on_def)

lemma line_loop_unfold:
  assumes "pending p d R" "R \<noteq> []" "continuation_line p \<longrightarrow> hd R \<noteq> LF"
  shows "\<exists>p1 d1. line_loop icalparser_string_line_generator p L d =
      Some (case_prod line_of (from_here (continuation_line p) L R), p1, d1) \<and>
    pending p1 d1 (snd (from_here (continuation_line p) L R)) \<and> \<not> continuation_line p1"
  using assms
proof (induction "length R" arbitrary: p d L R rule: less_induct)
  case less
  let ?c = "piece R" and ?R1 = "rest_of d" and ?k = "continuation_line p"
  let ?L1 = "held ?k L ?c"
  from less.prems have R: "R = ?c @ ?R1" "loaded (temp p) ?c" "nul_free R" by (simp_all add: pending_def)
  have c: "?c \<noteq> []" using less.prems(2) by (rule piece_nonempty)
  have n: "nul_free ?R1" using R(1,3) by (metis nul_free_simps(2))
  from take_temp_loaded [OF R(2)] obtain p1 where t: "take_temp p L = Some (p1, ?L1)"
    "length (temp p1) = TMP_BUF_SIZE" "temp p1 ! 0 = NUL" "\<not> continuation_line p1"
    "buffer_full p1 = (length ?c = TMP_BUF_SIZE - 1 \<and> last ?c \<noteq> LF)" by blast
  from line_loop_turn [OF t(1-4) n] obtain p2 d1 where p2: "pending p2 d1 ?R1" "\<not> continuation_line p2"
    and turn: "line_loop icalparser_string_line_generator p L d =
      (if ?R1 = [] then Some (if ?L1 = [] then None else Some (finish_line ?L1), p2, d1)
       else if folded_on ?L1 ?R1
       then line_loop icalparser_string_line_generator (p2\<lparr>continuation_line := True\<rparr>) ?L1 d1
       else if buffer_full p1 then line_loop icalparser_string_line_generator p2 ?L1 d1
       else Some (Some (finish_line ?L1), p2, d1))" by blast
  have shorter: "length ?R1 < length R" using c R(1) by (metis length_append length_greater_0_conv less_add_same_cancel2)
  have pc: "pending (p2\<lparr>continuation_line := b\<rparr>) d1 ?R1" for b using p2(1) by (simp add: pending_def)
  show ?case
  proof (cases rule: piece_cases [OF R(1) refl less.prems(2)])
    case (1 u)
    have f: "from_here ?k L R = (if folded_on ?L1 ?R1 then from_here True ?L1 ?R1 else (?L1, ?R1))"
      using from_here_line [of R u ?R1 ?k L] 1 R(1) less.prems(3) by simp
    have full: "\<not> buffer_full p1" using t(5) 1 by simp
    show ?thesis
    proof (cases "folded_on ?L1 ?R1")
      case True
      then have h: "?R1 \<noteq> []" "hd ?R1 \<noteq> LF" using neq_LF by (auto simp: folded_on_def)
      show ?thesis
        using less.hyps [OF shorter pc [of True] h(1), of ?L1] h True turn f by simp
    next
      case False
      then show ?thesis using turn f full p2 by (auto simp: line_of_def)
    qed
  next
    case 2
    have "from_here ?k L R = (?L1, [])"
      using from_here_part [OF R(1) 2(2) c, of ?k L] 2(1) by simp
    then show ?thesis using turn p2 2(1) by (auto simp: line_of_def)
  next
    case 3
    have "last ?c \<noteq> LF" "last ?L1 \<noteq> LF"
    proof -
      show "last ?c \<noteq> LF" using 3(2) c last_in_set by metis
      moreover have "last ?L1 = last ?c"
        using 3(1) c by (cases ?c) (auto simp: held_def TMP_BUF_SIZE_def)
      ultimately show "last ?L1 \<noteq> LF" by simp
    qed
    then have "line_loop icalparser_string_line_generator p L d = line_loop icalparser_string_line_generator p2 ?L1 d1"
      using turn t(5) 3 by (simp add: folded_on_def)
    moreover have "from_here ?k L R = from_here False ?L1 ?R1"
      using from_here_part [OF R(1) 3(2) c, of ?k L] by (simp add: from_here_def)
    ultimately show ?thesis
      using less.hyps [OF shorter p2(1) 3(3), of ?L1] p2(2) by simp
  qed
qed

text \<open>A call for the next line.\<close>

lemma get_line_unfold:
  assumes "pending p d R" "\<not> continuation_line p"
  shows "\<exists>p1 d1. icalparser_get_line icalparser_string_line_generator p d =
      Some (case_prod line_of (unfold_line [] R), p1, d1) \<and>
    pending p1 d1 (snd (unfold_line [] R)) \<and> \<not> continuation_line p1"
proof (cases "R = []")
  case True
  then have p: "temp p ! 0 = NUL" "length (temp p) = TMP_BUF_SIZE" "rest_of d = []"
    using assms by (simp_all add: pending_def)
  have n: "nul_free (rest_of d)" using p(3) by simp
  from line_loop_turn [OF take_temp_empty [OF p(1), of "[]"] p(2,1) assms(2) n] p(3) True
  show ?thesis by (auto simp: icalparser_get_line_def line_of_def)
next
  case False
  from line_loop_unfold [OF assms(1) this, of "[]"] assms(2)
  show ?thesis by (simp add: icalparser_get_line_def from_here_def)
qed

text \<open>The first call of a new parser only fills the buffer: it returns an empty line.\<close>

lemma get_line_first:
  assumes "rest_of d = R" "nul_free R" "R \<noteq> []"
  shows "\<exists>p1 d1. icalparser_get_line icalparser_string_line_generator icalparser_new_lines d = Some (Some [], p1, d1) \<and>
    pending p1 d1 R \<and> \<not> continuation_line p1"
proof -
  have p: "temp icalparser_new_lines ! 0 = NUL" "length (temp icalparser_new_lines) = TMP_BUF_SIZE"
    "\<not> continuation_line icalparser_new_lines" "\<not> buffer_full icalparser_new_lines"
    by (simp_all add: icalparser_new_lines_def TMP_BUF_SIZE_def)
  have n: "nul_free (rest_of d)" using assms by simp
  from line_loop_turn [OF take_temp_empty [OF p(1), of "[]"] p(2,1,3) n] p(4) assms
  show ?thesis
    by (auto simp: icalparser_get_line_def folded_on_def finish_line_def strip_tail_def erase_newline_def)
qed

section \<open>All lines of a text\<close>

lemma unfold_line_strict: "R \<noteq> [] \<Longrightarrow> length (snd (unfold_line L R)) < length R"
proof -
  assume "R \<noteq> []"
  then have "fst (phys R) \<noteq> []" by simp
  then have s: "length (snd (phys R)) < length R"
    using fst_snd_phys [of R] by (metis length_append length_greater_0_conv less_add_same_cancel2)
  show ?thesis
    using s unfold_line_shorter [of "back_up (L @ fst (phys R))" "tl (snd (phys R))"]
    by (auto simp: unfold_line.simps [of L R] Let_def)
qed

function unfold_all :: "string \<Rightarrow> string list" where
  "unfold_all R = (if R = [] then [] else
     (let (L, R1) = unfold_line [] R in if L = [] \<and> R1 = [] then [] else finish_line L # unfold_all R1))"
  by pat_completeness auto
termination
  by (relation "measure length") (auto dest!: unfold_line_strict [of _ "[]"] dest: arg_cong [of _ _ snd, OF sym])

declare unfold_all.simps [simp del]

lemma all_lines_pending:
  assumes "pending p d R" "\<not> continuation_line p"
  shows "\<exists>r. all_lines icalparser_string_line_generator p d = Some (unfold_all R, r)"
  using assms
proof (induction R arbitrary: p d rule: unfold_all.induct)
  case (1 R)
  obtain L R1 where u: "unfold_line [] R = (L, R1)" by force
  from get_line_unfold [OF "1.prems"] u obtain p1 d1 where
    g: "icalparser_get_line icalparser_string_line_generator p d = Some (line_of L R1, p1, d1)"
      "pending p1 d1 R1" "\<not> continuation_line p1" by auto
  show ?case
  proof (cases "L = [] \<and> R1 = []")
    case True
    then show ?thesis using g(1) u by (simp add: all_lines.simps [of _ p d] unfold_all.simps [of R] line_of_def)
  next
    case False
    then have R: "R \<noteq> []" using u by auto
    from "1.IH" [OF R refl u [symmetric] False g(2,3)] obtain r where
      "all_lines icalparser_string_line_generator p1 d1 = Some (unfold_all R1, r)" by blast
    then show ?thesis
      using g(1) u False R by (simp add: all_lines.simps [of _ p d] unfold_all.simps [of R] line_of_def)
  qed
qed

definition text_data :: "string \<Rightarrow> slg_data" where
  "text_data s = \<lparr>slg_pos = None, slg_str = s\<rparr>"

lemma all_lines_unfold:
  assumes "nul_free s" "s \<noteq> []"
  shows "\<exists>r. all_lines icalparser_string_line_generator icalparser_new_lines (text_data s) =
    Some ([] # unfold_all s, r)"
proof -
  have "rest_of (text_data s) = s" by (simp add: rest_of_def text_data_def)
  from get_line_first [OF this assms] obtain p1 d1 where
    g: "icalparser_get_line icalparser_string_line_generator icalparser_new_lines (text_data s) = Some (Some [], p1, d1)"
      "pending p1 d1 s" "\<not> continuation_line p1" by blast
  from all_lines_pending [OF g(2,3)] g(1) show ?thesis
    by (auto simp: all_lines.simps [of _ icalparser_new_lines])
qed

section \<open>Folding\<close>

text \<open>The text that is written for a line.\<close>

definition CRLF :: string where "CRLF = [CR, LF]"

function folded :: "bool \<Rightarrow> string \<Rightarrow> string" where
  "folded first t =
     (if t = [] then [] else
        let n = get_next_line_start t (length t)
        in (if first then [] else CRLF @ '' '') @ take n t @ folded False (drop n t))"
  by pat_completeness auto
termination
  by (relation "measure (\<lambda>(first, t). length t)") (auto simp: Let_def dest!: next_line_start_range)

declare folded.simps [simp del]

lemma folded_Nil [simp]: "folded f [] = []"
  by (simp add: folded.simps)

lemma writes_fold_lines: "nul_free t \<Longrightarrow> icm.writes (fold_lines first t) (folded first t)"
proof (induction first t rule: folded.induct)
  case (1 first t)
  show ?case
  proof (cases "t = []")
    case True
    then show ?thesis using icm.writes_skip by (simp add: fold_lines.simps [abs_def])
  next
    case False
    define n where "n = get_next_line_start t (length t)"
    have n: "nul_free (take n t)" "nul_free (drop n t)"
      using "1.prems" by (auto simp: nul_free_def dest: in_set_takeD in_set_dropD)
    have "icm.writes (if first then Some else (\<lambda>b. icalmemory_append_string b (CRLF @ '' '')))
            (if first then [] else CRLF @ '' '')"
      by (rule icm.writes_if) (auto intro!: icm.writes_skip icm.writesI simp: CRLF_def CR_def LF_def)
    from icm.writes_seq [OF this icm.writes_seq [OF icm.writesI [OF n(1)] "1.IH" [OF False n_def n(2)]]]
    show ?thesis
      using False
      by (cases first)
        (simp_all add: fold_lines.simps [abs_def] folded.simps [of _ t] n_def [symmetric] Let_def CRLF_def)
  qed
qed

text \<open>A folded line is the line cut into parts of at most 74 characters.\<close>

definition fold_join :: "string list \<Rightarrow> string" where
  "fold_join ps = (case ps of [] \<Rightarrow> [] | p # qs \<Rightarrow> p @ concat (map (\<lambda>q. CRLF @ '' '' @ q) qs))"

lemma folded_parts:
  "\<exists>ps. folded first t = (if first then fold_join ps else concat (map (\<lambda>q. CRLF @ '' '' @ q) ps)) \<and> concat ps = t \<and>
     (\<forall>p \<in> set ps. p \<noteq> [] \<and> length p < MAX_LINE_LEN)"
proof (induction first t rule: folded.induct)
  case (1 first t)
  show ?case
  proof (cases "t = []")
    case True
    then show ?thesis by (intro exI [of _ "[]"]) (simp add: fold_join_def)
  next
    case False
    define n where "n = get_next_line_start t (length t)"
    have n: "0 < n" "n \<le> length t" "n < MAX_LINE_LEN"
      using next_line_start_range [OF False] by (simp_all add: n_def MAX_LINE_LEN_def)
    from "1.IH" [OF False n_def] obtain ps where ps:
      "folded False (drop n t) = concat (map (\<lambda>q. CRLF @ '' '' @ q) ps)" "concat ps = drop n t"
      "\<forall>p \<in> set ps. p \<noteq> [] \<and> length p < MAX_LINE_LEN" by auto
    show ?thesis
      using False n ps
      by (intro exI [of _ "take n t # ps"]) (simp add: folded.simps [of first t] n_def [symmetric] fold_join_def Let_def)
  qed
qed

lemma fold_property_line_text:
  assumes "nul_free t" "t \<noteq> []"
  shows "\<exists>b. fold_property_line t = Some b \<and> sb_ok b \<and> sb_text b = folded True t"
  using icm.writesD [OF writes_fold_lines [OF assms(1), of True]] new_buffer_ok [of "length t * 2"] assms(2)
  by (fastforce simp: fold_property_line_def)

section \<open>Unfolding what was folded\<close>

definition foldable :: "string \<Rightarrow> bool" where
  "foldable t \<longleftrightarrow> t \<noteq> [] \<and> nul_free t \<and> LF \<notin> set t \<and> hd t \<noteq> CHR '' '' \<and> hd t \<noteq> TAB \<and>
     (tl t \<noteq> [] \<longrightarrow> \<not> is_space (last t))"

lemma folded_first: "u \<noteq> [] \<Longrightarrow> folded False u = CRLF @ '' '' @ folded True u"
  by (simp add: folded.simps [of _ u] Let_def)

text \<open>
  The printer folds a line together with its line break, which the folding may cut apart; the
  text is still the one it was made from.
\<close>

lemma unfold_folded:
  assumes "LF \<notin> set t" "R = [] \<or> hd R \<noteq> CHR '' '' \<and> hd R \<noteq> TAB"
  shows "unfold_line acc (folded True (t @ [LF]) @ R) = (acc @ t @ [LF], R)"
  using assms
proof (induction "length t" arbitrary: t acc rule: less_induct)
  case less
  let ?s = "t @ [LF]"
  define n where "n = get_next_line_start ?s (length ?s)"
  let ?a = "take n ?s" and ?u = "drop n ?s"
  have f: "folded True ?s = ?a @ folded False ?u"
    by (subst folded.simps) (simp only: n_def Let_def append_is_Nil_conv list.distinct if_False if_True append_Nil simp_thms)
  have n: "0 < n" using next_line_start_range [of ?s] by (simp add: n_def)
  show ?case
  proof (cases "n \<le> length t")
    case False
    then have "folded True ?s @ R = t @ LF # R" using f by simp
    then have "phys (folded True ?s @ R) = (?s, R)" using phys_LF [OF less.prems(1)] by simp
    then show ?thesis
      using less.prems(2) by (auto simp: unfold_line.simps [of acc "folded True ?s @ R"] folded_on_def Let_def)
  next
    case True
    let ?t = "drop n t"
    let ?R = "folded True (?t @ [LF]) @ R"
    have a: "?a = take n t" "?u = ?t @ [LF]" using True by simp_all
    have "LF \<notin> set (take n t @ [CR])" using less.prems(1) neq_LF by (auto dest: in_set_takeD)
    moreover have "folded True ?s @ R = (take n t @ [CR]) @ LF # '' '' @ ?R"
      using f a by (simp add: folded_first CRLF_def)
    ultimately have p: "phys (folded True ?s @ R) = (take n t @ CRLF, '' '' @ ?R)"
      using phys_LF [of "take n t @ [CR]" "'' '' @ ?R"] by (simp only: CRLF_def append_assoc append_Cons append_Nil not_False_eq_True simp_thms)
    have "unfold_line acc (folded True ?s @ R) = unfold_line (acc @ take n t) ?R"
    proof -
      have "back_up (acc @ take n t @ CRLF) = acc @ take n t"
        by (simp add: back_up_def CRLF_def butlast_append Let_def)
      moreover have "folded_on (acc @ take n t @ CRLF) ('' '' @ ?R)" by (simp add: folded_on_def CRLF_def)
      ultimately show ?thesis using p by (simp add: unfold_line.simps [of acc "folded True ?s @ R"])
    qed
    also have "\<dots> = ((acc @ take n t) @ ?t @ [LF], R)"
    proof (rule less.hyps)
      show "length ?t < length t" using n True by simp
      show "LF \<notin> set ?t" using less.prems(1) by (auto dest: in_set_dropD)
    qed (rule less.prems(2))
    finally show ?thesis by simp
  qed
qed

lemma finish_foldable: "foldable t \<Longrightarrow> finish_line (t @ CRLF) = t"
proof -
  assume t: "foldable t"
  then obtain c cs where c: "t = c # cs" by (cases t) (auto simp: foldable_def)
  have "erase_newline (t @ CRLF) = t"
    using c by (simp add: erase_newline_def CRLF_def butlast_append Let_def)
  moreover have "rev (dropWhile is_space (rev cs)) = cs"
    using t c by (cases cs rule: rev_cases) (auto simp: foldable_def)
  ultimately show ?thesis by (simp add: finish_line_def strip_tail_def c)
qed

lemma hd_folded: "t \<noteq> [] \<Longrightarrow> folded True t \<noteq> [] \<and> hd (folded True t) = hd t"
proof -
  assume t: "t \<noteq> []"
  with next_line_start_range [OF t] have "take (get_next_line_start t (length t)) t \<noteq> []" by simp
  moreover from this have "hd (take (get_next_line_start t (length t)) t) = hd t" by (cases t) (simp_all add: hd_take)
  ultimately show ?thesis using t by (simp add: folded.simps [of _ t] Let_def)
qed

lemma unfold_all_folded:
  "\<forall>t \<in> set ts. foldable t \<Longrightarrow> unfold_all (concat (map (\<lambda>t. folded True (t @ CRLF)) ts)) = ts"
proof (induction ts)
  case (Cons t ts)
  let ?R = "concat (map (\<lambda>t. folded True (t @ CRLF)) ts)"
  have t: "foldable t" "LF \<notin> set (t @ [CR])" "t @ CRLF \<noteq> []"
    using Cons.prems neq_LF by (simp_all add: foldable_def CRLF_def)
  have "?R = [] \<or> hd ?R \<noteq> CHR '' '' \<and> hd ?R \<noteq> TAB"
    using Cons.prems hd_folded by (cases ts) (auto simp: foldable_def CRLF_def)
  from unfold_folded [OF t(2) this, of "[]"]
  have "unfold_line [] (folded True (t @ CRLF) @ ?R) = (t @ CRLF, ?R)" by (simp add: CRLF_def)
  with finish_foldable [OF t(1)] hd_folded [OF t(3)] Cons t(1)
  show ?case by (simp add: unfold_all.simps [of "folded True (t @ CRLF) @ ?R"] foldable_def)
qed (simp add: unfold_all.simps)

lemma nul_free_folded: "nul_free t \<Longrightarrow> nul_free (folded first t)"
proof (induction first t rule: folded.induct)
  case (1 first t)
  have "nul_free (CRLF @ '' '')" by (simp add: CRLF_def CR_def LF_def)
  moreover have "nul_free (take n t)" "nul_free (drop n t)" for n
    using "1.prems" by (auto simp: nul_free_def dest: in_set_takeD in_set_dropD)
  ultimately show ?case using 1 by (simp add: folded.simps [of first t] Let_def)
qed

end
