(* ===== verification/IcalScan.thy ===== *)
theory IcalScan
  imports IcalLine
begin

text \<open>
  The routines of \<^verbatim>\<open>icalparser.c\<close> that take a content line apart. A pointer into a line is
  an index. The search looks at the character before the one at hand; at the start of the
  line's memory that is a read outside it, the result \<open>None\<close>.
\<close>

section \<open>Searching\<close>

definition BACKSLASH :: char where "BACKSLASH = char_of (92 :: nat)"
definition DQUOTE :: char where "DQUOTE = char_of (34 :: nat)"

text \<open>The first unescaped character \<open>c\<close> at or behind index \<open>i\<close>, outside quotes if \<open>qm\<close>.\<close>

fun next_char :: "char \<Rightarrow> bool \<Rightarrow> bool \<Rightarrow> char option \<Rightarrow> string \<Rightarrow> nat \<Rightarrow> nat option option" where
  "next_char c qm quote_mode prev [] i = Some None"
| "next_char c qm quote_mode prev (x # xs) i =
     (if qm \<and> x = DQUOTE \<and> prev = None then None
      else if qm \<and> x = DQUOTE \<and> prev \<noteq> Some BACKSLASH
      then next_char c qm (\<not> quote_mode) (Some x) xs (Suc i)
      else if \<not> quote_mode \<and> x = c \<and> prev = None then None
      else if \<not> quote_mode \<and> x = c \<and> prev \<noteq> Some BACKSLASH then Some (Some i)
      else next_char c qm quote_mode (Some x) xs (Suc i))"

definition parser_get_next_char :: "char \<Rightarrow> string \<Rightarrow> nat \<Rightarrow> bool \<Rightarrow> nat option option" where
  "parser_get_next_char c line str qm =
     next_char c qm False (if str = 0 then None else Some (line ! (str - 1))) (drop str line) str"

text \<open>A copy of a part of a line, without the white space at its end.\<close>

definition strip_right :: "string \<Rightarrow> string" where
  "strip_right s = rev (dropWhile is_space (rev s))"

definition make_segment :: "string \<Rightarrow> nat \<Rightarrow> nat \<Rightarrow> string" where
  "make_segment line start end_pos = strip_right (take (end_pos - start) (drop start line))"

definition strstriplt :: "string \<Rightarrow> string" where
  "strstriplt buf = dropWhile is_space (strip_right buf)"

section \<open>The parts of a line\<close>

text \<open>
  The name of the property and the index behind it, or no name; then the text of a
  parameter up to the separator behind it, and its name and value.
\<close>

definition parser_get_prop_name :: "string \<Rightarrow> (string \<times> nat) option option" where
  "parser_get_prop_name line = do {
     p \<leftarrow> parser_get_next_char (CHR '';'') line 0 True;
     v \<leftarrow> parser_get_next_char (CHR '':'') line 0 True;
     Some (case v of
        Some vi \<Rightarrow> (case p of
            Some pj \<Rightarrow> if pj > vi then Some (make_segment line 0 vi, vi + 1) else Some (make_segment line 0 pj, pj + 1)
          | None \<Rightarrow> Some (make_segment line 0 vi, vi + 1))
      | None \<Rightarrow> (case p of Some pj \<Rightarrow> Some (make_segment line 0 pj, pj + 1) | None \<Rightarrow> None)) }"

definition parser_get_next_parameter :: "string \<Rightarrow> nat \<Rightarrow> (string option \<times> nat) option" where
  "parser_get_next_parameter line start = do {
     v \<leftarrow> parser_get_next_char (CHR '':'') line start True;
     n \<leftarrow> parser_get_next_char (CHR '';'') line start True;
     let nxt = (case n of None \<Rightarrow> v
       | Some ni \<Rightarrow> (case v of None \<Rightarrow> v | Some vi \<Rightarrow> if ni > vi then v else n));
     Some (case nxt of Some i \<Rightarrow> (Some (make_segment line start i), i + 1) | None \<Rightarrow> (None, start)) }"

text \<open>The value is a new copy if it is quoted, and the rest of the parameter's text if not.\<close>

definition parser_get_param_name :: "string \<Rightarrow> (string \<times> string) option option" where
  "parser_get_param_name str = do {
     nxt \<leftarrow> parser_get_next_char (CHR ''='') str 0 True;
     (case nxt of
        None \<Rightarrow> Some None
      | Some i \<Rightarrow>
          let name = make_segment str 0 i; e = i + 1
          in if e < length str \<and> str ! e = DQUOTE then do {
               q \<leftarrow> parser_get_next_char DQUOTE str (e + 1) False;
               Some (case q of None \<Rightarrow> None | Some j \<Rightarrow> Some (name, make_segment str (e + 1) j)) }
             else Some (Some (name, drop e str))) }"

section \<open>Values\<close>

definition icalparser_get_value :: "string \<Rightarrow> nat \<Rightarrow> string option \<times> nat" where
  "icalparser_get_value line start =
     (if start \<ge> length line then (None, start)
      else (Some (make_segment line start (length line)), length line))"

text \<open>The two kinds of value in which a comma is treated in its own way, and the others.\<close>

datatype value_commas = RECUR_COMMAS | QUERY_COMMAS | OTHER_COMMAS

text \<open>
  The search for the comma that ends a value. In a RECUR value a comma would count if the
  text at the comma were \<open>FREQ\<close>; a comma that follows a backslash, or has one three
  characters before it, does not count. \<open>end_pos\<close> is the caller's end pointer, which is not
  set before the loop.
\<close>

lemma next_char_range: "next_char c qm q prev xs i = Some (Some j) \<Longrightarrow> i \<le> j \<and> j < i + length xs"
  by (induction c qm q prev xs i rule: next_char.induct) (auto split: if_splits)

lemma next_char_bounds: "parser_get_next_char c line str qm = Some (Some i) \<Longrightarrow> str \<le> i \<and> i < length line"
  using next_char_range [of c qm False _ "drop str line" str i] by (fastforce simp: parser_get_next_char_def)

function value_end :: "value_commas \<Rightarrow> string \<Rightarrow> nat \<Rightarrow> nat \<Rightarrow> nat \<Rightarrow> nat option option" where
  "value_end kind line end_pos len p =
     (case parser_get_next_char (CHR '','') line p True of
        None \<Rightarrow> None
      | Some None \<Rightarrow> Some None
      | Some (Some nxt) \<Rightarrow>
          if kind = RECUR_COMMAS \<and> \<not> (end_pos + len > nxt + 5 \<and> take 4 (drop nxt line) = ''FREQ'')
          then value_end kind line end_pos len (nxt + 1)
          else if kind = QUERY_COMMAS then value_end kind line end_pos len (nxt + 1)
          else if nxt = 0 then None
          else if line ! (nxt - 1) = BACKSLASH then value_end kind line end_pos len (nxt + 1)
          else if nxt < 3 then None
          else if line ! (nxt - 3) = BACKSLASH then value_end kind line end_pos len (nxt + 1)
          else Some (Some nxt))"
  by pat_completeness auto
termination
  by (relation "measure (\<lambda>(kind, line, e, len, p). Suc (length line) - p)")
    (auto dest: next_char_bounds)

declare value_end.simps [simp del]

definition parser_get_next_value :: "value_commas \<Rightarrow> string \<Rightarrow> nat \<Rightarrow> (string option \<times> nat) option" where
  "parser_get_next_value kind line start = do {
     nxt \<leftarrow> value_end kind line start (length line - start) start;
     let (stop, e) = (case nxt of None \<Rightarrow> (length line, length line) | Some n \<Rightarrow> (n, n + 1));
     Some (if stop = start then None else Some (make_segment line start stop), e) }"

section \<open>What the routines find\<close>

text \<open>A text in which a separator search finds nothing and leaves no open quote.\<close>

definition plain_text :: "string \<Rightarrow> bool" where
  "plain_text s \<longleftrightarrow> (\<forall>c \<in> set s. c \<noteq> DQUOTE \<and> c \<noteq> BACKSLASH \<and> c \<noteq> CHR '';'' \<and> c \<noteq> CHR '':'' \<and>
     c \<noteq> CHR '','' \<and> c \<noteq> CHR ''='')"

lemma next_char_skip:
  assumes "c \<notin> set s" "DQUOTE \<notin> set s"
  shows "next_char c qm q prev (s @ r) i =
    next_char c qm q (if s = [] then prev else Some (last s)) r (i + length s)"
  using assms by (induction s arbitrary: prev i) auto

lemma next_char_found:
  assumes "c \<notin> set s" "DQUOTE \<notin> set s" "c \<noteq> DQUOTE" "s \<noteq> [] \<or> prev \<noteq> None"
    and "(if s = [] then prev else Some (last s)) \<noteq> Some BACKSLASH"
  shows "next_char c qm False prev (s @ c # r) i = Some (Some (i + length s))"
  using assms next_char_skip [OF assms(1,2), of qm False prev "c # r" i] by (cases "s = []") auto

lemma next_char_none: "c \<notin> set s \<Longrightarrow> DQUOTE \<notin> set s \<Longrightarrow> next_char c qm q prev s i = Some None"
  using next_char_skip [of c s qm q prev "[]" i] by simp

end
