(* ===== verification/TextProperties.thy ===== *)
theory TextProperties
  imports LineLaws IcalScan
begin

text \<open>The properties of the text layer: content lines, their folding and their parts.\<close>

section \<open>Content lines\<close>

text \<open>C37: Reading all lines of a text through the parser's buffer of 80 bytes gives exactly the lines that
  unfolding the whole text gives, wherever the buffer cuts it, after the empty line that the first
  call returns; the loop over the lines ends.\<close>

theorem lines_are_unfolded:
  assumes "nul_free s" "s \<noteq> []"
  shows "\<exists>r. all_lines icalparser_string_line_generator icalparser_new_lines (text_data s) =
    Some ([] # unfold_all s, r)"
  by (rule all_lines_unfold [OF assms])

theorem lines_are_unfolded_witness:
  "\<exists>r. all_lines icalparser_string_line_generator icalparser_new_lines
      (text_data ([CHR ''A'', CHR '':'', CHR ''b''] @ CRLF @ '' c'' @ CRLF)) =
    Some ([] # unfold_all ([CHR ''A'', CHR '':'', CHR ''b''] @ CRLF @ '' c'' @ CRLF), r)"
  by (rule lines_are_unfolded) (simp_all add: CRLF_def CR_def LF_def)

text \<open>C36: The folding cuts a line, with the line break at its end, into parts of 1 to 74 characters, loses
  nothing of it, and stays inside its buffer; and the parser reads the folded lines of a text back as
  the lines they were made from, even where the line break itself was cut apart.\<close>

theorem fold_and_read:
  assumes "ts \<noteq> []" "\<forall>t \<in> set ts. foldable t"
  shows "\<exists>bs r. map (\<lambda>t. fold_property_line (t @ CRLF)) ts = map Some bs \<and>
    (\<forall>b \<in> set bs. \<exists>ps. sb_text b = fold_join ps \<and> (\<forall>p \<in> set ps. p \<noteq> [] \<and> length p < MAX_LINE_LEN)) \<and>
    all_lines icalparser_string_line_generator icalparser_new_lines (text_data (concat (map sb_text bs))) =
      Some ([] # ts, r)"
proof -
  let ?bs = "map (\<lambda>t. the (fold_property_line (t @ CRLF))) ts"
  have b: "fold_property_line (t @ CRLF) = Some (the (fold_property_line (t @ CRLF))) \<and>
      sb_text (the (fold_property_line (t @ CRLF))) = folded True (t @ CRLF)" if "t \<in> set ts" for t
    using fold_property_line_text [of "t @ CRLF"] that assms(2)
    by (fastforce simp: foldable_def CRLF_def CR_def LF_def)
  have "concat (map sb_text ?bs) = concat (map (\<lambda>t. folded True (t @ CRLF)) ts)"
    using b by (auto intro!: arg_cong [of _ _ concat])
  moreover have "nul_free (concat (map (\<lambda>t. folded True (t @ CRLF)) ts))"
    using assms(2) by (induction ts) (auto simp: foldable_def CRLF_def CR_def LF_def intro: nul_free_folded)
  moreover have "concat (map (\<lambda>t. folded True (t @ CRLF)) ts) \<noteq> []"
    using assms(1) hd_folded by (cases ts) (simp_all add: CRLF_def)
  ultimately obtain r where "all_lines icalparser_string_line_generator icalparser_new_lines
      (text_data (concat (map sb_text ?bs))) = Some ([] # ts, r)"
    using all_lines_unfold unfold_all_folded [OF assms(2)] by metis
  moreover have "\<exists>ps. sb_text b = fold_join ps \<and> (\<forall>p \<in> set ps. p \<noteq> [] \<and> length p < MAX_LINE_LEN)"
    if "b \<in> set ?bs" for b
    using that b folded_parts [of True] by fastforce
  moreover have "map (\<lambda>t. fold_property_line (t @ CRLF)) ts = map Some ?bs" using b by simp
  ultimately show ?thesis by blast
qed

theorem fold_and_read_witness:
  "\<exists>bs r. map (\<lambda>t. fold_property_line (t @ CRLF)) [''SUMMARY:'' @ replicate 73 CHR ''x''] = map Some bs \<and>
    (\<forall>b \<in> set bs. \<exists>ps. sb_text b = fold_join ps \<and> (\<forall>p \<in> set ps. p \<noteq> [] \<and> length p < MAX_LINE_LEN)) \<and>
    all_lines icalparser_string_line_generator icalparser_new_lines (text_data (concat (map sb_text bs))) =
      Some ([] # [''SUMMARY:'' @ replicate 73 CHR ''x''], r)"
  by (rule fold_and_read) (simp_all add: foldable_def nul_free_codes char_codes is_space_def)

end
