(* ===== verification/IcalKinds.thy ===== *)
theory IcalKinds
  imports CText IcalError
begin

text \<open>
  The kinds of components, properties, parameters and values, and the tables that give their
  names: \<^verbatim>\<open>icalcomponent.c\<close> and the generated tables of \<^verbatim>\<open>icalderivedproperty.c\<close>,
  \<^verbatim>\<open>icalderivedparameter.c\<close> and \<^verbatim>\<open>icalderivedvalue.c\<close>. The kinds of properties and the
  enumerated values of properties and parameters are the numbers of the C enumerations.
\<close>

section \<open>Kinds\<close>

datatype icalcomponent_kind =
    ICAL_NO_COMPONENT | ICAL_ANY_COMPONENT | ICAL_XROOT_COMPONENT | ICAL_XATTACH_COMPONENT |
    ICAL_VEVENT_COMPONENT | ICAL_VTODO_COMPONENT | ICAL_VJOURNAL_COMPONENT | ICAL_VCALENDAR_COMPONENT |
    ICAL_VAGENDA_COMPONENT | ICAL_VFREEBUSY_COMPONENT | ICAL_VALARM_COMPONENT |
    ICAL_XAUDIOALARM_COMPONENT | ICAL_XDISPLAYALARM_COMPONENT | ICAL_XEMAILALARM_COMPONENT |
    ICAL_XPROCEDUREALARM_COMPONENT | ICAL_VTIMEZONE_COMPONENT | ICAL_XSTANDARD_COMPONENT |
    ICAL_XDAYLIGHT_COMPONENT | ICAL_X_COMPONENT | ICAL_VSCHEDULE_COMPONENT | ICAL_VQUERY_COMPONENT |
    ICAL_VREPLY_COMPONENT | ICAL_VCAR_COMPONENT | ICAL_VCOMMAND_COMPONENT | ICAL_XLICINVALID_COMPONENT |
    ICAL_XLICMIMEPART_COMPONENT

datatype icalvalue_kind =
    ICAL_ANY_VALUE | ICAL_QUERY_VALUE | ICAL_DATE_VALUE | ICAL_ATTACH_VALUE | ICAL_GEO_VALUE |
    ICAL_STATUS_VALUE | ICAL_TRANSP_VALUE | ICAL_STRING_VALUE | ICAL_TEXT_VALUE |
    ICAL_REQUESTSTATUS_VALUE | ICAL_CMD_VALUE | ICAL_BINARY_VALUE | ICAL_QUERYLEVEL_VALUE |
    ICAL_PERIOD_VALUE | ICAL_FLOAT_VALUE | ICAL_DATETIMEPERIOD_VALUE | ICAL_CARLEVEL_VALUE |
    ICAL_INTEGER_VALUE | ICAL_CLASS_VALUE | ICAL_URI_VALUE | ICAL_DURATION_VALUE | ICAL_BOOLEAN_VALUE |
    ICAL_X_VALUE | ICAL_CALADDRESS_VALUE | ICAL_TRIGGER_VALUE | ICAL_XLICCLASS_VALUE | ICAL_RECUR_VALUE |
    ICAL_ACTION_VALUE | ICAL_DATETIME_VALUE | ICAL_UTCOFFSET_VALUE | ICAL_METHOD_VALUE | ICAL_NO_VALUE

datatype icalparameter_kind =
    ICAL_ANY_PARAMETER | ICAL_ACTIONPARAM_PARAMETER | ICAL_ALTREP_PARAMETER | ICAL_CHARSET_PARAMETER |
    ICAL_CN_PARAMETER | ICAL_CUTYPE_PARAMETER | ICAL_DELEGATEDFROM_PARAMETER | ICAL_DELEGATEDTO_PARAMETER |
    ICAL_DIR_PARAMETER | ICAL_ENABLE_PARAMETER | ICAL_ENCODING_PARAMETER | ICAL_FBTYPE_PARAMETER |
    ICAL_FMTTYPE_PARAMETER | ICAL_ID_PARAMETER | ICAL_LANGUAGE_PARAMETER | ICAL_LATENCY_PARAMETER |
    ICAL_LOCAL_PARAMETER | ICAL_LOCALIZE_PARAMETER | ICAL_MEMBER_PARAMETER | ICAL_OPTIONS_PARAMETER |
    ICAL_PARTSTAT_PARAMETER | ICAL_RANGE_PARAMETER | ICAL_RELATED_PARAMETER | ICAL_RELTYPE_PARAMETER |
    ICAL_ROLE_PARAMETER | ICAL_RSVP_PARAMETER | ICAL_SENTBY_PARAMETER | ICAL_TZID_PARAMETER |
    ICAL_VALUE_PARAMETER | ICAL_X_PARAMETER | ICAL_XLICCOMPARETYPE_PARAMETER |
    ICAL_XLICERRORTYPE_PARAMETER | ICAL_NO_PARAMETER

type_synonym icalproperty_kind = int

abbreviation (input) ICAL_ANY_PROPERTY :: icalproperty_kind where "ICAL_ANY_PROPERTY \<equiv> 0"
abbreviation (input) ICAL_ACTION_PROPERTY :: icalproperty_kind where "ICAL_ACTION_PROPERTY \<equiv> 1"
abbreviation (input) ICAL_ALLOWCONFLICT_PROPERTY :: icalproperty_kind where "ICAL_ALLOWCONFLICT_PROPERTY \<equiv> 2"
abbreviation (input) ICAL_ATTACH_PROPERTY :: icalproperty_kind where "ICAL_ATTACH_PROPERTY \<equiv> 3"
abbreviation (input) ICAL_ATTENDEE_PROPERTY :: icalproperty_kind where "ICAL_ATTENDEE_PROPERTY \<equiv> 4"
abbreviation (input) ICAL_CALID_PROPERTY :: icalproperty_kind where "ICAL_CALID_PROPERTY \<equiv> 5"
abbreviation (input) ICAL_CALMASTER_PROPERTY :: icalproperty_kind where "ICAL_CALMASTER_PROPERTY \<equiv> 6"
abbreviation (input) ICAL_CALSCALE_PROPERTY :: icalproperty_kind where "ICAL_CALSCALE_PROPERTY \<equiv> 7"
abbreviation (input) ICAL_CAPVERSION_PROPERTY :: icalproperty_kind where "ICAL_CAPVERSION_PROPERTY \<equiv> 8"
abbreviation (input) ICAL_CARLEVEL_PROPERTY :: icalproperty_kind where "ICAL_CARLEVEL_PROPERTY \<equiv> 9"
abbreviation (input) ICAL_CARID_PROPERTY :: icalproperty_kind where "ICAL_CARID_PROPERTY \<equiv> 10"
abbreviation (input) ICAL_CATEGORIES_PROPERTY :: icalproperty_kind where "ICAL_CATEGORIES_PROPERTY \<equiv> 11"
abbreviation (input) ICAL_CLASS_PROPERTY :: icalproperty_kind where "ICAL_CLASS_PROPERTY \<equiv> 12"
abbreviation (input) ICAL_CMD_PROPERTY :: icalproperty_kind where "ICAL_CMD_PROPERTY \<equiv> 13"
abbreviation (input) ICAL_COMMENT_PROPERTY :: icalproperty_kind where "ICAL_COMMENT_PROPERTY \<equiv> 14"
abbreviation (input) ICAL_COMPLETED_PROPERTY :: icalproperty_kind where "ICAL_COMPLETED_PROPERTY \<equiv> 15"
abbreviation (input) ICAL_COMPONENTS_PROPERTY :: icalproperty_kind where "ICAL_COMPONENTS_PROPERTY \<equiv> 16"
abbreviation (input) ICAL_CONTACT_PROPERTY :: icalproperty_kind where "ICAL_CONTACT_PROPERTY \<equiv> 17"
abbreviation (input) ICAL_CREATED_PROPERTY :: icalproperty_kind where "ICAL_CREATED_PROPERTY \<equiv> 18"
abbreviation (input) ICAL_CSID_PROPERTY :: icalproperty_kind where "ICAL_CSID_PROPERTY \<equiv> 19"
abbreviation (input) ICAL_DATEMAX_PROPERTY :: icalproperty_kind where "ICAL_DATEMAX_PROPERTY \<equiv> 20"
abbreviation (input) ICAL_DATEMIN_PROPERTY :: icalproperty_kind where "ICAL_DATEMIN_PROPERTY \<equiv> 21"
abbreviation (input) ICAL_DECREED_PROPERTY :: icalproperty_kind where "ICAL_DECREED_PROPERTY \<equiv> 22"
abbreviation (input) ICAL_DEFAULTCHARSET_PROPERTY :: icalproperty_kind where "ICAL_DEFAULTCHARSET_PROPERTY \<equiv> 23"
abbreviation (input) ICAL_DEFAULTLOCALE_PROPERTY :: icalproperty_kind where "ICAL_DEFAULTLOCALE_PROPERTY \<equiv> 24"
abbreviation (input) ICAL_DEFAULTTZID_PROPERTY :: icalproperty_kind where "ICAL_DEFAULTTZID_PROPERTY \<equiv> 25"
abbreviation (input) ICAL_DEFAULTVCARS_PROPERTY :: icalproperty_kind where "ICAL_DEFAULTVCARS_PROPERTY \<equiv> 26"
abbreviation (input) ICAL_DENY_PROPERTY :: icalproperty_kind where "ICAL_DENY_PROPERTY \<equiv> 27"
abbreviation (input) ICAL_DESCRIPTION_PROPERTY :: icalproperty_kind where "ICAL_DESCRIPTION_PROPERTY \<equiv> 28"
abbreviation (input) ICAL_DTEND_PROPERTY :: icalproperty_kind where "ICAL_DTEND_PROPERTY \<equiv> 29"
abbreviation (input) ICAL_DTSTAMP_PROPERTY :: icalproperty_kind where "ICAL_DTSTAMP_PROPERTY \<equiv> 30"
abbreviation (input) ICAL_DTSTART_PROPERTY :: icalproperty_kind where "ICAL_DTSTART_PROPERTY \<equiv> 31"
abbreviation (input) ICAL_DUE_PROPERTY :: icalproperty_kind where "ICAL_DUE_PROPERTY \<equiv> 32"
abbreviation (input) ICAL_DURATION_PROPERTY :: icalproperty_kind where "ICAL_DURATION_PROPERTY \<equiv> 33"
abbreviation (input) ICAL_EXDATE_PROPERTY :: icalproperty_kind where "ICAL_EXDATE_PROPERTY \<equiv> 34"
abbreviation (input) ICAL_EXPAND_PROPERTY :: icalproperty_kind where "ICAL_EXPAND_PROPERTY \<equiv> 35"
abbreviation (input) ICAL_EXRULE_PROPERTY :: icalproperty_kind where "ICAL_EXRULE_PROPERTY \<equiv> 36"
abbreviation (input) ICAL_FREEBUSY_PROPERTY :: icalproperty_kind where "ICAL_FREEBUSY_PROPERTY \<equiv> 37"
abbreviation (input) ICAL_GEO_PROPERTY :: icalproperty_kind where "ICAL_GEO_PROPERTY \<equiv> 38"
abbreviation (input) ICAL_GRANT_PROPERTY :: icalproperty_kind where "ICAL_GRANT_PROPERTY \<equiv> 39"
abbreviation (input) ICAL_ITIPVERSION_PROPERTY :: icalproperty_kind where "ICAL_ITIPVERSION_PROPERTY \<equiv> 40"
abbreviation (input) ICAL_LASTMODIFIED_PROPERTY :: icalproperty_kind where "ICAL_LASTMODIFIED_PROPERTY \<equiv> 41"
abbreviation (input) ICAL_LOCATION_PROPERTY :: icalproperty_kind where "ICAL_LOCATION_PROPERTY \<equiv> 42"
abbreviation (input) ICAL_MAXCOMPONENTSIZE_PROPERTY :: icalproperty_kind where "ICAL_MAXCOMPONENTSIZE_PROPERTY \<equiv> 43"
abbreviation (input) ICAL_MAXDATE_PROPERTY :: icalproperty_kind where "ICAL_MAXDATE_PROPERTY \<equiv> 44"
abbreviation (input) ICAL_MAXRESULTS_PROPERTY :: icalproperty_kind where "ICAL_MAXRESULTS_PROPERTY \<equiv> 45"
abbreviation (input) ICAL_MAXRESULTSSIZE_PROPERTY :: icalproperty_kind where "ICAL_MAXRESULTSSIZE_PROPERTY \<equiv> 46"
abbreviation (input) ICAL_METHOD_PROPERTY :: icalproperty_kind where "ICAL_METHOD_PROPERTY \<equiv> 47"
abbreviation (input) ICAL_MINDATE_PROPERTY :: icalproperty_kind where "ICAL_MINDATE_PROPERTY \<equiv> 48"
abbreviation (input) ICAL_MULTIPART_PROPERTY :: icalproperty_kind where "ICAL_MULTIPART_PROPERTY \<equiv> 49"
abbreviation (input) ICAL_NAME_PROPERTY :: icalproperty_kind where "ICAL_NAME_PROPERTY \<equiv> 50"
abbreviation (input) ICAL_ORGANIZER_PROPERTY :: icalproperty_kind where "ICAL_ORGANIZER_PROPERTY \<equiv> 51"
abbreviation (input) ICAL_OWNER_PROPERTY :: icalproperty_kind where "ICAL_OWNER_PROPERTY \<equiv> 52"
abbreviation (input) ICAL_PERCENTCOMPLETE_PROPERTY :: icalproperty_kind where "ICAL_PERCENTCOMPLETE_PROPERTY \<equiv> 53"
abbreviation (input) ICAL_PERMISSION_PROPERTY :: icalproperty_kind where "ICAL_PERMISSION_PROPERTY \<equiv> 54"
abbreviation (input) ICAL_PRIORITY_PROPERTY :: icalproperty_kind where "ICAL_PRIORITY_PROPERTY \<equiv> 55"
abbreviation (input) ICAL_PRODID_PROPERTY :: icalproperty_kind where "ICAL_PRODID_PROPERTY \<equiv> 56"
abbreviation (input) ICAL_QUERY_PROPERTY :: icalproperty_kind where "ICAL_QUERY_PROPERTY \<equiv> 57"
abbreviation (input) ICAL_QUERYLEVEL_PROPERTY :: icalproperty_kind where "ICAL_QUERYLEVEL_PROPERTY \<equiv> 58"
abbreviation (input) ICAL_QUERYID_PROPERTY :: icalproperty_kind where "ICAL_QUERYID_PROPERTY \<equiv> 59"
abbreviation (input) ICAL_QUERYNAME_PROPERTY :: icalproperty_kind where "ICAL_QUERYNAME_PROPERTY \<equiv> 60"
abbreviation (input) ICAL_RDATE_PROPERTY :: icalproperty_kind where "ICAL_RDATE_PROPERTY \<equiv> 61"
abbreviation (input) ICAL_RECURACCEPTED_PROPERTY :: icalproperty_kind where "ICAL_RECURACCEPTED_PROPERTY \<equiv> 62"
abbreviation (input) ICAL_RECUREXPAND_PROPERTY :: icalproperty_kind where "ICAL_RECUREXPAND_PROPERTY \<equiv> 63"
abbreviation (input) ICAL_RECURLIMIT_PROPERTY :: icalproperty_kind where "ICAL_RECURLIMIT_PROPERTY \<equiv> 64"
abbreviation (input) ICAL_RECURRENCEID_PROPERTY :: icalproperty_kind where "ICAL_RECURRENCEID_PROPERTY \<equiv> 65"
abbreviation (input) ICAL_RELATEDTO_PROPERTY :: icalproperty_kind where "ICAL_RELATEDTO_PROPERTY \<equiv> 66"
abbreviation (input) ICAL_RELCALID_PROPERTY :: icalproperty_kind where "ICAL_RELCALID_PROPERTY \<equiv> 67"
abbreviation (input) ICAL_REPEAT_PROPERTY :: icalproperty_kind where "ICAL_REPEAT_PROPERTY \<equiv> 68"
abbreviation (input) ICAL_REQUESTSTATUS_PROPERTY :: icalproperty_kind where "ICAL_REQUESTSTATUS_PROPERTY \<equiv> 69"
abbreviation (input) ICAL_RESOURCES_PROPERTY :: icalproperty_kind where "ICAL_RESOURCES_PROPERTY \<equiv> 70"
abbreviation (input) ICAL_RESTRICTION_PROPERTY :: icalproperty_kind where "ICAL_RESTRICTION_PROPERTY \<equiv> 71"
abbreviation (input) ICAL_RRULE_PROPERTY :: icalproperty_kind where "ICAL_RRULE_PROPERTY \<equiv> 72"
abbreviation (input) ICAL_SCOPE_PROPERTY :: icalproperty_kind where "ICAL_SCOPE_PROPERTY \<equiv> 73"
abbreviation (input) ICAL_SEQUENCE_PROPERTY :: icalproperty_kind where "ICAL_SEQUENCE_PROPERTY \<equiv> 74"
abbreviation (input) ICAL_STATUS_PROPERTY :: icalproperty_kind where "ICAL_STATUS_PROPERTY \<equiv> 75"
abbreviation (input) ICAL_STORESEXPANDED_PROPERTY :: icalproperty_kind where "ICAL_STORESEXPANDED_PROPERTY \<equiv> 76"
abbreviation (input) ICAL_SUMMARY_PROPERTY :: icalproperty_kind where "ICAL_SUMMARY_PROPERTY \<equiv> 77"
abbreviation (input) ICAL_TARGET_PROPERTY :: icalproperty_kind where "ICAL_TARGET_PROPERTY \<equiv> 78"
abbreviation (input) ICAL_TRANSP_PROPERTY :: icalproperty_kind where "ICAL_TRANSP_PROPERTY \<equiv> 79"
abbreviation (input) ICAL_TRIGGER_PROPERTY :: icalproperty_kind where "ICAL_TRIGGER_PROPERTY \<equiv> 80"
abbreviation (input) ICAL_TZID_PROPERTY :: icalproperty_kind where "ICAL_TZID_PROPERTY \<equiv> 81"
abbreviation (input) ICAL_TZNAME_PROPERTY :: icalproperty_kind where "ICAL_TZNAME_PROPERTY \<equiv> 82"
abbreviation (input) ICAL_TZOFFSETFROM_PROPERTY :: icalproperty_kind where "ICAL_TZOFFSETFROM_PROPERTY \<equiv> 83"
abbreviation (input) ICAL_TZOFFSETTO_PROPERTY :: icalproperty_kind where "ICAL_TZOFFSETTO_PROPERTY \<equiv> 84"
abbreviation (input) ICAL_TZURL_PROPERTY :: icalproperty_kind where "ICAL_TZURL_PROPERTY \<equiv> 85"
abbreviation (input) ICAL_UID_PROPERTY :: icalproperty_kind where "ICAL_UID_PROPERTY \<equiv> 86"
abbreviation (input) ICAL_URL_PROPERTY :: icalproperty_kind where "ICAL_URL_PROPERTY \<equiv> 87"
abbreviation (input) ICAL_VERSION_PROPERTY :: icalproperty_kind where "ICAL_VERSION_PROPERTY \<equiv> 88"
abbreviation (input) ICAL_X_PROPERTY :: icalproperty_kind where "ICAL_X_PROPERTY \<equiv> 89"
abbreviation (input) ICAL_XLICCLASS_PROPERTY :: icalproperty_kind where "ICAL_XLICCLASS_PROPERTY \<equiv> 90"
abbreviation (input) ICAL_XLICCLUSTERCOUNT_PROPERTY :: icalproperty_kind where "ICAL_XLICCLUSTERCOUNT_PROPERTY \<equiv> 91"
abbreviation (input) ICAL_XLICERROR_PROPERTY :: icalproperty_kind where "ICAL_XLICERROR_PROPERTY \<equiv> 92"
abbreviation (input) ICAL_XLICMIMECHARSET_PROPERTY :: icalproperty_kind where "ICAL_XLICMIMECHARSET_PROPERTY \<equiv> 93"
abbreviation (input) ICAL_XLICMIMECID_PROPERTY :: icalproperty_kind where "ICAL_XLICMIMECID_PROPERTY \<equiv> 94"
abbreviation (input) ICAL_XLICMIMECONTENTTYPE_PROPERTY :: icalproperty_kind where "ICAL_XLICMIMECONTENTTYPE_PROPERTY \<equiv> 95"
abbreviation (input) ICAL_XLICMIMEENCODING_PROPERTY :: icalproperty_kind where "ICAL_XLICMIMEENCODING_PROPERTY \<equiv> 96"
abbreviation (input) ICAL_XLICMIMEFILENAME_PROPERTY :: icalproperty_kind where "ICAL_XLICMIMEFILENAME_PROPERTY \<equiv> 97"
abbreviation (input) ICAL_XLICMIMEOPTINFO_PROPERTY :: icalproperty_kind where "ICAL_XLICMIMEOPTINFO_PROPERTY \<equiv> 98"
abbreviation (input) ICAL_NO_PROPERTY :: icalproperty_kind where "ICAL_NO_PROPERTY \<equiv> 99"

section \<open>Components\<close>

definition component_map :: "(icalcomponent_kind \<times> string) list" where
  "component_map =
    [(ICAL_VEVENT_COMPONENT, ''VEVENT''), (ICAL_VTODO_COMPONENT, ''VTODO''),
     (ICAL_VJOURNAL_COMPONENT, ''VJOURNAL''), (ICAL_VCALENDAR_COMPONENT, ''VCALENDAR''),
     (ICAL_VAGENDA_COMPONENT, ''VAGENDA''), (ICAL_VFREEBUSY_COMPONENT, ''VFREEBUSY''),
     (ICAL_VTIMEZONE_COMPONENT, ''VTIMEZONE''), (ICAL_VALARM_COMPONENT, ''VALARM''),
     (ICAL_XSTANDARD_COMPONENT, ''STANDARD''), (ICAL_XDAYLIGHT_COMPONENT, ''DAYLIGHT''),
     (ICAL_X_COMPONENT, ''X''), (ICAL_VSCHEDULE_COMPONENT, ''SCHEDULE''), (ICAL_VCAR_COMPONENT, ''VCAR''),
     (ICAL_VCOMMAND_COMPONENT, ''VCOMMAND''), (ICAL_VQUERY_COMPONENT, ''VQUERY''),
     (ICAL_VREPLY_COMPONENT, ''VREPLY''), (ICAL_XLICINVALID_COMPONENT, ''X-LIC-UNKNOWN''),
     (ICAL_XLICMIMEPART_COMPONENT, ''X-LIC-MIME-PART''), (ICAL_ANY_COMPONENT, ''ANY''),
     (ICAL_XROOT_COMPONENT, ''XROOT''), (ICAL_NO_COMPONENT, '''')]"

text \<open>A search stops at the entry that ends the table; a test of validity accepts that entry too.\<close>

definition icalcomponent_kind_is_valid :: "icalcomponent_kind \<Rightarrow> bool" where
  "icalcomponent_kind_is_valid kind \<longleftrightarrow> kind \<in> set (map fst component_map)"

definition component_entries :: "(icalcomponent_kind \<times> string) list" where
  "component_entries = takeWhile (\<lambda>e. fst e \<noteq> ICAL_NO_COMPONENT) component_map"

definition icalcomponent_kind_to_string :: "icalcomponent_kind \<Rightarrow> string option" where
  "icalcomponent_kind_to_string kind = map_option snd (List.find (\<lambda>e. fst e = kind) component_entries)"

text \<open>Only the length of the table's name is compared, so a longer text is accepted.\<close>

definition icalcomponent_string_to_kind :: "string option \<Rightarrow> icalcomponent_kind" where
  "icalcomponent_string_to_kind str =
     (case str of None \<Rightarrow> ICAL_NO_COMPONENT
      | Some s \<Rightarrow> (case List.find (\<lambda>e. strcaseeq (take (length (snd e)) s) (snd e)) component_entries of
                    None \<Rightarrow> ICAL_NO_COMPONENT | Some e \<Rightarrow> fst e))"

section \<open>Properties\<close>

definition property_map :: "(icalproperty_kind \<times> string \<times> icalvalue_kind) list" where
  "property_map =
    [(ICAL_ACTION_PROPERTY, ''ACTION'', ICAL_ACTION_VALUE),
     (ICAL_ALLOWCONFLICT_PROPERTY, ''ALLOW-CONFLICT'', ICAL_TEXT_VALUE),
     (ICAL_ANY_PROPERTY, ''ANY'', ICAL_NO_VALUE), (ICAL_ATTACH_PROPERTY, ''ATTACH'', ICAL_ATTACH_VALUE),
     (ICAL_ATTENDEE_PROPERTY, ''ATTENDEE'', ICAL_CALADDRESS_VALUE),
     (ICAL_CALID_PROPERTY, ''CALID'', ICAL_TEXT_VALUE),
     (ICAL_CALMASTER_PROPERTY, ''CALMASTER'', ICAL_TEXT_VALUE),
     (ICAL_CALSCALE_PROPERTY, ''CALSCALE'', ICAL_TEXT_VALUE),
     (ICAL_CAPVERSION_PROPERTY, ''CAP-VERSION'', ICAL_TEXT_VALUE),
     (ICAL_CARLEVEL_PROPERTY, ''CAR-LEVEL'', ICAL_CARLEVEL_VALUE),
     (ICAL_CARID_PROPERTY, ''CARID'', ICAL_TEXT_VALUE),
     (ICAL_CATEGORIES_PROPERTY, ''CATEGORIES'', ICAL_TEXT_VALUE),
     (ICAL_CLASS_PROPERTY, ''CLASS'', ICAL_CLASS_VALUE), (ICAL_CMD_PROPERTY, ''CMD'', ICAL_CMD_VALUE),
     (ICAL_COMMENT_PROPERTY, ''COMMENT'', ICAL_TEXT_VALUE),
     (ICAL_COMPLETED_PROPERTY, ''COMPLETED'', ICAL_DATETIME_VALUE),
     (ICAL_COMPONENTS_PROPERTY, ''COMPONENTS'', ICAL_TEXT_VALUE),
     (ICAL_CONTACT_PROPERTY, ''CONTACT'', ICAL_TEXT_VALUE),
     (ICAL_CREATED_PROPERTY, ''CREATED'', ICAL_DATETIME_VALUE),
     (ICAL_CSID_PROPERTY, ''CSID'', ICAL_URI_VALUE),
     (ICAL_DATEMAX_PROPERTY, ''DATE-MAX'', ICAL_DATETIME_VALUE),
     (ICAL_DATEMIN_PROPERTY, ''DATE-MIN'', ICAL_DATETIME_VALUE),
     (ICAL_DECREED_PROPERTY, ''DECREED'', ICAL_TEXT_VALUE),
     (ICAL_DEFAULTCHARSET_PROPERTY, ''DEFAULT-CHARSET'', ICAL_TEXT_VALUE),
     (ICAL_DEFAULTLOCALE_PROPERTY, ''DEFAULT-LOCALE'', ICAL_TEXT_VALUE),
     (ICAL_DEFAULTTZID_PROPERTY, ''DEFAULT-TZID'', ICAL_TEXT_VALUE),
     (ICAL_DEFAULTVCARS_PROPERTY, ''DEFAULT-VCARS'', ICAL_TEXT_VALUE),
     (ICAL_DENY_PROPERTY, ''DENY'', ICAL_TEXT_VALUE),
     (ICAL_DESCRIPTION_PROPERTY, ''DESCRIPTION'', ICAL_TEXT_VALUE),
     (ICAL_DTEND_PROPERTY, ''DTEND'', ICAL_DATETIME_VALUE),
     (ICAL_DTSTAMP_PROPERTY, ''DTSTAMP'', ICAL_DATETIME_VALUE),
     (ICAL_DTSTART_PROPERTY, ''DTSTART'', ICAL_DATETIME_VALUE),
     (ICAL_DUE_PROPERTY, ''DUE'', ICAL_DATETIME_VALUE),
     (ICAL_DURATION_PROPERTY, ''DURATION'', ICAL_DURATION_VALUE),
     (ICAL_EXDATE_PROPERTY, ''EXDATE'', ICAL_DATETIME_VALUE),
     (ICAL_EXPAND_PROPERTY, ''EXPAND'', ICAL_INTEGER_VALUE),
     (ICAL_EXRULE_PROPERTY, ''EXRULE'', ICAL_RECUR_VALUE),
     (ICAL_FREEBUSY_PROPERTY, ''FREEBUSY'', ICAL_PERIOD_VALUE),
     (ICAL_GEO_PROPERTY, ''GEO'', ICAL_GEO_VALUE), (ICAL_GRANT_PROPERTY, ''GRANT'', ICAL_TEXT_VALUE),
     (ICAL_ITIPVERSION_PROPERTY, ''ITIP-VERSION'', ICAL_TEXT_VALUE),
     (ICAL_LASTMODIFIED_PROPERTY, ''LAST-MODIFIED'', ICAL_DATETIME_VALUE),
     (ICAL_LOCATION_PROPERTY, ''LOCATION'', ICAL_TEXT_VALUE),
     (ICAL_MAXCOMPONENTSIZE_PROPERTY, ''MAX-COMPONENT-SIZE'', ICAL_INTEGER_VALUE),
     (ICAL_MAXDATE_PROPERTY, ''MAXDATE'', ICAL_DATETIME_VALUE),
     (ICAL_MAXRESULTS_PROPERTY, ''MAXRESULTS'', ICAL_INTEGER_VALUE),
     (ICAL_MAXRESULTSSIZE_PROPERTY, ''MAXRESULTSSIZE'', ICAL_INTEGER_VALUE),
     (ICAL_METHOD_PROPERTY, ''METHOD'', ICAL_METHOD_VALUE),
     (ICAL_MINDATE_PROPERTY, ''MINDATE'', ICAL_DATETIME_VALUE),
     (ICAL_MULTIPART_PROPERTY, ''MULTIPART'', ICAL_TEXT_VALUE),
     (ICAL_NAME_PROPERTY, ''NAME'', ICAL_TEXT_VALUE),
     (ICAL_ORGANIZER_PROPERTY, ''ORGANIZER'', ICAL_CALADDRESS_VALUE),
     (ICAL_OWNER_PROPERTY, ''OWNER'', ICAL_TEXT_VALUE),
     (ICAL_PERCENTCOMPLETE_PROPERTY, ''PERCENT-COMPLETE'', ICAL_INTEGER_VALUE),
     (ICAL_PERMISSION_PROPERTY, ''PERMISSION'', ICAL_TEXT_VALUE),
     (ICAL_PRIORITY_PROPERTY, ''PRIORITY'', ICAL_INTEGER_VALUE),
     (ICAL_PRODID_PROPERTY, ''PRODID'', ICAL_TEXT_VALUE),
     (ICAL_QUERY_PROPERTY, ''QUERY'', ICAL_QUERY_VALUE),
     (ICAL_QUERYLEVEL_PROPERTY, ''QUERY-LEVEL'', ICAL_QUERYLEVEL_VALUE),
     (ICAL_QUERYID_PROPERTY, ''QUERYID'', ICAL_TEXT_VALUE),
     (ICAL_QUERYNAME_PROPERTY, ''QUERYNAME'', ICAL_TEXT_VALUE),
     (ICAL_RDATE_PROPERTY, ''RDATE'', ICAL_DATETIMEPERIOD_VALUE),
     (ICAL_RECURACCEPTED_PROPERTY, ''RECUR-ACCEPTED'', ICAL_TEXT_VALUE),
     (ICAL_RECUREXPAND_PROPERTY, ''RECUR-EXPAND'', ICAL_TEXT_VALUE),
     (ICAL_RECURLIMIT_PROPERTY, ''RECUR-LIMIT'', ICAL_TEXT_VALUE),
     (ICAL_RECURRENCEID_PROPERTY, ''RECURRENCE-ID'', ICAL_DATETIME_VALUE),
     (ICAL_RELATEDTO_PROPERTY, ''RELATED-TO'', ICAL_TEXT_VALUE),
     (ICAL_RELCALID_PROPERTY, ''RELCALID'', ICAL_TEXT_VALUE),
     (ICAL_REPEAT_PROPERTY, ''REPEAT'', ICAL_INTEGER_VALUE),
     (ICAL_REQUESTSTATUS_PROPERTY, ''REQUEST-STATUS'', ICAL_REQUESTSTATUS_VALUE),
     (ICAL_RESOURCES_PROPERTY, ''RESOURCES'', ICAL_TEXT_VALUE),
     (ICAL_RESTRICTION_PROPERTY, ''RESTRICTION'', ICAL_QUERY_VALUE),
     (ICAL_RRULE_PROPERTY, ''RRULE'', ICAL_RECUR_VALUE), (ICAL_SCOPE_PROPERTY, ''SCOPE'', ICAL_TEXT_VALUE),
     (ICAL_SEQUENCE_PROPERTY, ''SEQUENCE'', ICAL_INTEGER_VALUE),
     (ICAL_STATUS_PROPERTY, ''STATUS'', ICAL_STATUS_VALUE),
     (ICAL_STORESEXPANDED_PROPERTY, ''STORES-EXPANDED'', ICAL_TEXT_VALUE),
     (ICAL_SUMMARY_PROPERTY, ''SUMMARY'', ICAL_TEXT_VALUE),
     (ICAL_TARGET_PROPERTY, ''TARGET'', ICAL_CALADDRESS_VALUE),
     (ICAL_TRANSP_PROPERTY, ''TRANSP'', ICAL_TRANSP_VALUE),
     (ICAL_TRIGGER_PROPERTY, ''TRIGGER'', ICAL_TRIGGER_VALUE),
     (ICAL_TZID_PROPERTY, ''TZID'', ICAL_TEXT_VALUE), (ICAL_TZNAME_PROPERTY, ''TZNAME'', ICAL_TEXT_VALUE),
     (ICAL_TZOFFSETFROM_PROPERTY, ''TZOFFSETFROM'', ICAL_UTCOFFSET_VALUE),
     (ICAL_TZOFFSETTO_PROPERTY, ''TZOFFSETTO'', ICAL_UTCOFFSET_VALUE),
     (ICAL_TZURL_PROPERTY, ''TZURL'', ICAL_URI_VALUE), (ICAL_UID_PROPERTY, ''UID'', ICAL_TEXT_VALUE),
     (ICAL_URL_PROPERTY, ''URL'', ICAL_URI_VALUE), (ICAL_VERSION_PROPERTY, ''VERSION'', ICAL_TEXT_VALUE),
     (ICAL_X_PROPERTY, ''X'', ICAL_X_VALUE),
     (ICAL_XLICCLASS_PROPERTY, ''X-LIC-CLASS'', ICAL_XLICCLASS_VALUE),
     (ICAL_XLICCLUSTERCOUNT_PROPERTY, ''X-LIC-CLUSTERCOUNT'', ICAL_STRING_VALUE),
     (ICAL_XLICERROR_PROPERTY, ''X-LIC-ERROR'', ICAL_TEXT_VALUE),
     (ICAL_XLICMIMECHARSET_PROPERTY, ''X-LIC-MIMECHARSET'', ICAL_STRING_VALUE),
     (ICAL_XLICMIMECID_PROPERTY, ''X-LIC-MIMECID'', ICAL_STRING_VALUE),
     (ICAL_XLICMIMECONTENTTYPE_PROPERTY, ''X-LIC-MIMECONTENTTYPE'', ICAL_STRING_VALUE),
     (ICAL_XLICMIMEENCODING_PROPERTY, ''X-LIC-MIMEENCODING'', ICAL_STRING_VALUE),
     (ICAL_XLICMIMEFILENAME_PROPERTY, ''X-LIC-MIMEFILENAME'', ICAL_STRING_VALUE),
     (ICAL_XLICMIMEOPTINFO_PROPERTY, ''X-LIC-MIMEOPTINFO'', ICAL_STRING_VALUE),
     (ICAL_NO_PROPERTY, '''', ICAL_NO_VALUE)]"

definition enum_map :: "(icalproperty_kind \<times> int \<times> string) list" where
  "enum_map =
    [(ICAL_ACTION_PROPERTY, 10000, ''''), (ICAL_ACTION_PROPERTY, 10001, ''AUDIO''),
     (ICAL_ACTION_PROPERTY, 10002, ''DISPLAY''), (ICAL_ACTION_PROPERTY, 10003, ''EMAIL''),
     (ICAL_ACTION_PROPERTY, 10004, ''PROCEDURE''), (ICAL_ACTION_PROPERTY, 10005, ''''),
     (ICAL_CARLEVEL_PROPERTY, 10006, ''''), (ICAL_CARLEVEL_PROPERTY, 10007, ''CAR-NONE''),
     (ICAL_CARLEVEL_PROPERTY, 10008, ''CAR-MIN''), (ICAL_CARLEVEL_PROPERTY, 10009, ''CAR-FULL-1''),
     (ICAL_CARLEVEL_PROPERTY, 10010, ''''), (ICAL_CLASS_PROPERTY, 10011, ''''),
     (ICAL_CLASS_PROPERTY, 10012, ''PUBLIC''), (ICAL_CLASS_PROPERTY, 10013, ''PRIVATE''),
     (ICAL_CLASS_PROPERTY, 10014, ''CONFIDENTIAL''), (ICAL_CLASS_PROPERTY, 10015, ''''),
     (ICAL_CMD_PROPERTY, 10016, ''''), (ICAL_CMD_PROPERTY, 10017, ''ABORT''),
     (ICAL_CMD_PROPERTY, 10018, ''CONTINUE''), (ICAL_CMD_PROPERTY, 10019, ''CREATE''),
     (ICAL_CMD_PROPERTY, 10020, ''DELETE''), (ICAL_CMD_PROPERTY, 10021, ''GENERATE-UID''),
     (ICAL_CMD_PROPERTY, 10022, ''GET-CAPABILITY''), (ICAL_CMD_PROPERTY, 10023, ''IDENTIFY''),
     (ICAL_CMD_PROPERTY, 10024, ''MODIFY''), (ICAL_CMD_PROPERTY, 10025, ''MOVE''),
     (ICAL_CMD_PROPERTY, 10026, ''REPLY''), (ICAL_CMD_PROPERTY, 10027, ''SEARCH''),
     (ICAL_CMD_PROPERTY, 10028, ''SET-LOCALE''), (ICAL_CMD_PROPERTY, 10029, ''''),
     (ICAL_METHOD_PROPERTY, 10030, ''''), (ICAL_METHOD_PROPERTY, 10031, ''PUBLISH''),
     (ICAL_METHOD_PROPERTY, 10032, ''REQUEST''), (ICAL_METHOD_PROPERTY, 10033, ''REPLY''),
     (ICAL_METHOD_PROPERTY, 10034, ''ADD''), (ICAL_METHOD_PROPERTY, 10035, ''CANCEL''),
     (ICAL_METHOD_PROPERTY, 10036, ''REFRESH''), (ICAL_METHOD_PROPERTY, 10037, ''COUNTER''),
     (ICAL_METHOD_PROPERTY, 10038, ''DECLINECOUNTER''), (ICAL_METHOD_PROPERTY, 10039, ''CREATE''),
     (ICAL_METHOD_PROPERTY, 10040, ''READ''), (ICAL_METHOD_PROPERTY, 10041, ''RESPONSE''),
     (ICAL_METHOD_PROPERTY, 10042, ''MOVE''), (ICAL_METHOD_PROPERTY, 10043, ''MODIFY''),
     (ICAL_METHOD_PROPERTY, 10044, ''GENERATEUID''), (ICAL_METHOD_PROPERTY, 10045, ''DELETE''),
     (ICAL_METHOD_PROPERTY, 10046, ''''), (ICAL_QUERYLEVEL_PROPERTY, 10047, ''''),
     (ICAL_QUERYLEVEL_PROPERTY, 10048, ''CAL-QL-1''), (ICAL_QUERYLEVEL_PROPERTY, 10049, ''CAL-QL-NONE''),
     (ICAL_QUERYLEVEL_PROPERTY, 10050, ''''), (ICAL_STATUS_PROPERTY, 10051, ''''),
     (ICAL_STATUS_PROPERTY, 10052, ''TENTATIVE''), (ICAL_STATUS_PROPERTY, 10053, ''CONFIRMED''),
     (ICAL_STATUS_PROPERTY, 10054, ''COMPLETED''), (ICAL_STATUS_PROPERTY, 10055, ''NEEDS-ACTION''),
     (ICAL_STATUS_PROPERTY, 10056, ''CANCELLED''), (ICAL_STATUS_PROPERTY, 10057, ''IN-PROCESS''),
     (ICAL_STATUS_PROPERTY, 10058, ''DRAFT''), (ICAL_STATUS_PROPERTY, 10059, ''FINAL''),
     (ICAL_STATUS_PROPERTY, 10060, ''''), (ICAL_TRANSP_PROPERTY, 10061, ''''),
     (ICAL_TRANSP_PROPERTY, 10062, ''OPAQUE''), (ICAL_TRANSP_PROPERTY, 10063, ''OPAQUE-NOCONFLICT''),
     (ICAL_TRANSP_PROPERTY, 10064, ''TRANSPARENT''),
     (ICAL_TRANSP_PROPERTY, 10065, ''TRANSPARENT-NOCONFLICT''), (ICAL_TRANSP_PROPERTY, 10066, ''''),
     (ICAL_XLICCLASS_PROPERTY, 10067, ''''), (ICAL_XLICCLASS_PROPERTY, 10068, ''PUBLISH-NEW''),
     (ICAL_XLICCLASS_PROPERTY, 10069, ''PUBLISH-UPDATE''),
     (ICAL_XLICCLASS_PROPERTY, 10070, ''PUBLISH-FREEBUSY''),
     (ICAL_XLICCLASS_PROPERTY, 10071, ''REQUEST-NEW''),
     (ICAL_XLICCLASS_PROPERTY, 10072, ''REQUEST-UPDATE''),
     (ICAL_XLICCLASS_PROPERTY, 10073, ''REQUEST-RESCHEDULE''),
     (ICAL_XLICCLASS_PROPERTY, 10074, ''REQUEST-DELEGATE''),
     (ICAL_XLICCLASS_PROPERTY, 10075, ''REQUEST-NEW-ORGANIZER''),
     (ICAL_XLICCLASS_PROPERTY, 10076, ''REQUEST-FORWARD''),
     (ICAL_XLICCLASS_PROPERTY, 10077, ''REQUEST-STATUS''),
     (ICAL_XLICCLASS_PROPERTY, 10078, ''REQUEST-FREEBUSY''),
     (ICAL_XLICCLASS_PROPERTY, 10079, ''REPLY-ACCEPT''),
     (ICAL_XLICCLASS_PROPERTY, 10080, ''REPLY-DECLINE''),
     (ICAL_XLICCLASS_PROPERTY, 10081, ''REPLY-DELEGATE''),
     (ICAL_XLICCLASS_PROPERTY, 10082, ''REPLY-CRASHER-ACCEPT''),
     (ICAL_XLICCLASS_PROPERTY, 10083, ''REPLY-CRASHER-DECLINE''),
     (ICAL_XLICCLASS_PROPERTY, 10084, ''ADD-INSTANCE''),
     (ICAL_XLICCLASS_PROPERTY, 10085, ''CANCEL-EVENT''),
     (ICAL_XLICCLASS_PROPERTY, 10086, ''CANCEL-INSTANCE''),
     (ICAL_XLICCLASS_PROPERTY, 10087, ''CANCEL-ALL''), (ICAL_XLICCLASS_PROPERTY, 10088, ''REFRESH''),
     (ICAL_XLICCLASS_PROPERTY, 10089, ''COUNTER''), (ICAL_XLICCLASS_PROPERTY, 10090, ''DECLINECOUNTER''),
     (ICAL_XLICCLASS_PROPERTY, 10091, ''MALFORMED''), (ICAL_XLICCLASS_PROPERTY, 10092, ''OBSOLETE''),
     (ICAL_XLICCLASS_PROPERTY, 10093, ''MISSEQUENCED''), (ICAL_XLICCLASS_PROPERTY, 10094, ''UNKNOWN''),
     (ICAL_XLICCLASS_PROPERTY, 10095, ''''), (ICAL_NO_PROPERTY, 0, '''')]"

definition property_entries :: "(icalproperty_kind \<times> string \<times> icalvalue_kind) list" where
  "property_entries = takeWhile (\<lambda>e. fst e \<noteq> ICAL_NO_PROPERTY) property_map"

definition icalproperty_kind_is_valid :: "icalproperty_kind \<Rightarrow> bool" where
  "icalproperty_kind_is_valid kind \<longleftrightarrow> kind \<in> set (map fst property_map)"

definition icalproperty_kind_to_string :: "icalproperty_kind \<Rightarrow> string option" where
  "icalproperty_kind_to_string kind =
     map_option (\<lambda>(_, name, _). name) (List.find (\<lambda>e. fst e = kind) property_entries)"

definition icalproperty_string_to_kind :: "string option \<Rightarrow> icalproperty_kind" where
  "icalproperty_string_to_kind str =
     (case str of None \<Rightarrow> ICAL_NO_PROPERTY
      | Some s \<Rightarrow> (case List.find (\<lambda>(_, name, _). strcaseeq name s) property_entries of
                    Some e \<Rightarrow> fst e
                  | None \<Rightarrow> if take 2 s = ''X-'' then ICAL_X_PROPERTY else ICAL_NO_PROPERTY))"

definition icalproperty_value_kind_to_kind :: "icalvalue_kind \<Rightarrow> icalproperty_kind" where
  "icalproperty_value_kind_to_kind kind =
     (case List.find (\<lambda>(_, _, v). v = kind) property_entries of Some e \<Rightarrow> fst e | None \<Rightarrow> ICAL_NO_PROPERTY)"

definition icalproperty_kind_to_value_kind :: "icalproperty_kind \<Rightarrow> icalvalue_kind" where
  "icalproperty_kind_to_value_kind kind =
     (case List.find (\<lambda>e. fst e = kind) property_entries of Some (_, _, v) \<Rightarrow> v | None \<Rightarrow> ICAL_NO_VALUE)"

text \<open>
  The enumerated values of properties. The loops run over the entries before
  \<^verbatim>\<open>ICALPROPERTY_LAST_ENUM\<close>, whose entry is not visited.
\<close>

definition ICALPROPERTY_FIRST_ENUM :: int where "ICALPROPERTY_FIRST_ENUM = 10000"
definition ICALPROPERTY_LAST_ENUM :: int where "ICALPROPERTY_LAST_ENUM = 10096"

definition enum_entries :: "(icalproperty_kind \<times> int \<times> string) list" where
  "enum_entries = take (nat (ICALPROPERTY_LAST_ENUM - ICALPROPERTY_FIRST_ENUM)) enum_map"

text \<open>A value outside the enumeration is an error.\<close>

definition icalproperty_enum_to_string :: "int \<Rightarrow> icalerror_state \<Rightarrow> (string option \<times> icalerror_state) option" where
  "icalproperty_enum_to_string e es =
     (if \<not> e \<ge> ICALPROPERTY_FIRST_ENUM \<or> \<not> e \<le> ICALPROPERTY_LAST_ENUM
      then map_option (\<lambda>es1. (None, es1)) (icalerror_set_errno ICAL_BADARG_ERROR es)
      else Some (Some (snd (snd (enum_map ! nat (e - ICALPROPERTY_FIRST_ENUM)))), es))"

text \<open>The search by name starts at the first entry of the property and does not stop at its last.\<close>

definition icalproperty_kind_and_string_to_enum :: "icalvalue_kind \<Rightarrow> string \<Rightarrow> int" where
  "icalproperty_kind_and_string_to_enum kind str =
     (let pkind = icalproperty_value_kind_to_kind kind;
          s = dropWhile (\<lambda>c. c = CHR '' '') str
      in if pkind = ICAL_NO_PROPERTY then 0
         else case List.find (\<lambda>(_, _, name). strcaseeq name s)
                     (dropWhile (\<lambda>e. fst e \<noteq> pkind) enum_entries) of
                Some (_, e, _) \<Rightarrow> e | None \<Rightarrow> 0)"

definition icalproperty_string_to_enum :: "string \<Rightarrow> int" where
  "icalproperty_string_to_enum str =
     (case List.find (\<lambda>(_, _, name). strcaseeq name (dropWhile (\<lambda>c. c = CHR '' '') str)) enum_entries of
        Some (_, e, _) \<Rightarrow> e | None \<Rightarrow> 0)"

definition icalproperty_enum_belongs_to_property :: "icalproperty_kind \<Rightarrow> int \<Rightarrow> bool" where
  "icalproperty_enum_belongs_to_property kind e \<longleftrightarrow> (\<exists>x \<in> set enum_entries. fst (snd x) = e \<and> fst x = kind)"

text \<open>Two of the enumerations have conversions of their own.\<close>

definition ICAL_METHOD_X :: int where "ICAL_METHOD_X = 10030"
definition ICAL_METHOD_NONE :: int where "ICAL_METHOD_NONE = 10046"
definition ICAL_STATUS_X :: int where "ICAL_STATUS_X = 10051"
definition ICAL_STATUS_NONE :: int where "ICAL_STATUS_NONE = 10060"

definition enum_in_range :: "int \<Rightarrow> int \<Rightarrow> int \<Rightarrow> icalerror_state \<Rightarrow> (string option \<times> icalerror_state) option" where
  "enum_in_range lo hi e es =
     (if \<not> e \<ge> lo \<or> \<not> e \<le> hi then map_option (\<lambda>es1. (None, es1)) (icalerror_set_errno ICAL_BADARG_ERROR es)
      else Some (Some (snd (snd (enum_map ! nat (e - ICALPROPERTY_FIRST_ENUM)))), es))"

definition string_in_range :: "int \<Rightarrow> int \<Rightarrow> string \<Rightarrow> int" where
  "string_in_range lo hi str =
     (case List.find (\<lambda>(_, _, name). strcaseeq name (dropWhile (\<lambda>c. c = CHR '' '') str))
             (take (nat (hi - lo)) (drop (nat (lo - ICALPROPERTY_FIRST_ENUM)) enum_map)) of
        Some (_, e, _) \<Rightarrow> e | None \<Rightarrow> hi)"

definition icalproperty_method_to_string :: "int \<Rightarrow> icalerror_state \<Rightarrow> (string option \<times> icalerror_state) option" where
  "icalproperty_method_to_string = enum_in_range ICAL_METHOD_X ICAL_METHOD_NONE"

definition icalproperty_string_to_method :: "string \<Rightarrow> int" where
  "icalproperty_string_to_method = string_in_range ICAL_METHOD_X ICAL_METHOD_NONE"

definition icalenum_status_to_string :: "int \<Rightarrow> icalerror_state \<Rightarrow> (string option \<times> icalerror_state) option" where
  "icalenum_status_to_string = enum_in_range ICAL_STATUS_X ICAL_STATUS_NONE"

definition icalenum_string_to_status :: "string \<Rightarrow> int" where
  "icalenum_string_to_status = string_in_range ICAL_STATUS_X ICAL_STATUS_NONE"

section \<open>Parameters\<close>

definition value_kind_map :: "(int \<times> icalvalue_kind) list" where
  "value_kind_map =
    [(20062, ICAL_BINARY_VALUE), (20063, ICAL_BOOLEAN_VALUE), (20064, ICAL_DATE_VALUE),
     (20065, ICAL_DURATION_VALUE), (20066, ICAL_FLOAT_VALUE), (20067, ICAL_INTEGER_VALUE),
     (20068, ICAL_PERIOD_VALUE), (20069, ICAL_RECUR_VALUE), (20070, ICAL_TEXT_VALUE),
     (20071, ICAL_URI_VALUE), (20073, ICAL_DATETIME_VALUE), (20074, ICAL_UTCOFFSET_VALUE),
     (20075, ICAL_CALADDRESS_VALUE), (20061, ICAL_X_VALUE), (20076, ICAL_NO_VALUE)]"

definition parameter_map :: "(icalparameter_kind \<times> string) list" where
  "parameter_map =
    [(ICAL_ACTIONPARAM_PARAMETER, ''ACTIONPARAM''), (ICAL_ALTREP_PARAMETER, ''ALTREP''),
     (ICAL_CHARSET_PARAMETER, ''CHARSET''), (ICAL_CN_PARAMETER, ''CN''),
     (ICAL_CUTYPE_PARAMETER, ''CUTYPE''), (ICAL_DELEGATEDFROM_PARAMETER, ''DELEGATED-FROM''),
     (ICAL_DELEGATEDTO_PARAMETER, ''DELEGATED-TO''), (ICAL_DIR_PARAMETER, ''DIR''),
     (ICAL_ENABLE_PARAMETER, ''ENABLE''), (ICAL_ENCODING_PARAMETER, ''ENCODING''),
     (ICAL_FBTYPE_PARAMETER, ''FBTYPE''), (ICAL_FMTTYPE_PARAMETER, ''FMTTYPE''),
     (ICAL_ID_PARAMETER, ''ID''), (ICAL_LANGUAGE_PARAMETER, ''LANGUAGE''),
     (ICAL_LATENCY_PARAMETER, ''LATENCY''), (ICAL_LOCAL_PARAMETER, ''LOCAL''),
     (ICAL_LOCALIZE_PARAMETER, ''LOCALIZE''), (ICAL_MEMBER_PARAMETER, ''MEMBER''),
     (ICAL_OPTIONS_PARAMETER, ''OPTIONS''), (ICAL_PARTSTAT_PARAMETER, ''PARTSTAT''),
     (ICAL_RANGE_PARAMETER, ''RANGE''), (ICAL_RELATED_PARAMETER, ''RELATED''),
     (ICAL_RELTYPE_PARAMETER, ''RELTYPE''), (ICAL_ROLE_PARAMETER, ''ROLE''),
     (ICAL_RSVP_PARAMETER, ''RSVP''), (ICAL_SENTBY_PARAMETER, ''SENT-BY''),
     (ICAL_TZID_PARAMETER, ''TZID''), (ICAL_VALUE_PARAMETER, ''VALUE''), (ICAL_X_PARAMETER, ''X''),
     (ICAL_XLICCOMPARETYPE_PARAMETER, ''X-LIC-COMPARETYPE''),
     (ICAL_XLICERRORTYPE_PARAMETER, ''X-LIC-ERRORTYPE''), (ICAL_NO_PARAMETER, '''')]"

definition icalparameter_map :: "(icalparameter_kind \<times> int \<times> string) list" where
  "icalparameter_map =
    [(ICAL_ANY_PARAMETER, 0, ''''), (ICAL_ACTIONPARAM_PARAMETER, 20001, ''ASK''),
     (ICAL_ACTIONPARAM_PARAMETER, 20002, ''ABORT''), (ICAL_CUTYPE_PARAMETER, 20005, ''INDIVIDUAL''),
     (ICAL_CUTYPE_PARAMETER, 20006, ''GROUP''), (ICAL_CUTYPE_PARAMETER, 20007, ''RESOURCE''),
     (ICAL_CUTYPE_PARAMETER, 20008, ''ROOM''), (ICAL_CUTYPE_PARAMETER, 20009, ''UNKNOWN''),
     (ICAL_ENABLE_PARAMETER, 20012, ''TRUE''), (ICAL_ENABLE_PARAMETER, 20013, ''FALSE''),
     (ICAL_ENCODING_PARAMETER, 20016, ''8BIT''), (ICAL_ENCODING_PARAMETER, 20017, ''BASE64''),
     (ICAL_FBTYPE_PARAMETER, 20020, ''FREE''), (ICAL_FBTYPE_PARAMETER, 20021, ''BUSY''),
     (ICAL_FBTYPE_PARAMETER, 20022, ''BUSY-UNAVAILABLE''),
     (ICAL_FBTYPE_PARAMETER, 20023, ''BUSY-TENTATIVE''), (ICAL_LOCAL_PARAMETER, 20026, ''TRUE''),
     (ICAL_LOCAL_PARAMETER, 20027, ''FALSE''), (ICAL_PARTSTAT_PARAMETER, 20030, ''NEEDS-ACTION''),
     (ICAL_PARTSTAT_PARAMETER, 20031, ''ACCEPTED''), (ICAL_PARTSTAT_PARAMETER, 20032, ''DECLINED''),
     (ICAL_PARTSTAT_PARAMETER, 20033, ''TENTATIVE''), (ICAL_PARTSTAT_PARAMETER, 20034, ''DELEGATED''),
     (ICAL_PARTSTAT_PARAMETER, 20035, ''COMPLETED''), (ICAL_PARTSTAT_PARAMETER, 20036, ''INPROCESS''),
     (ICAL_RANGE_PARAMETER, 20039, ''THISANDPRIOR''), (ICAL_RANGE_PARAMETER, 20040, ''THISANDFUTURE''),
     (ICAL_RELATED_PARAMETER, 20043, ''START''), (ICAL_RELATED_PARAMETER, 20044, ''END''),
     (ICAL_RELTYPE_PARAMETER, 20047, ''PARENT''), (ICAL_RELTYPE_PARAMETER, 20048, ''CHILD''),
     (ICAL_RELTYPE_PARAMETER, 20049, ''SIBLING''), (ICAL_ROLE_PARAMETER, 20052, ''CHAIR''),
     (ICAL_ROLE_PARAMETER, 20053, ''REQ-PARTICIPANT''), (ICAL_ROLE_PARAMETER, 20054, ''OPT-PARTICIPANT''),
     (ICAL_ROLE_PARAMETER, 20055, ''NON-PARTICIPANT''), (ICAL_RSVP_PARAMETER, 20058, ''TRUE''),
     (ICAL_RSVP_PARAMETER, 20059, ''FALSE''), (ICAL_VALUE_PARAMETER, 20062, ''BINARY''),
     (ICAL_VALUE_PARAMETER, 20063, ''BOOLEAN''), (ICAL_VALUE_PARAMETER, 20064, ''DATE''),
     (ICAL_VALUE_PARAMETER, 20065, ''DURATION''), (ICAL_VALUE_PARAMETER, 20066, ''FLOAT''),
     (ICAL_VALUE_PARAMETER, 20067, ''INTEGER''), (ICAL_VALUE_PARAMETER, 20068, ''PERIOD''),
     (ICAL_VALUE_PARAMETER, 20069, ''RECUR''), (ICAL_VALUE_PARAMETER, 20070, ''TEXT''),
     (ICAL_VALUE_PARAMETER, 20071, ''URI''), (ICAL_VALUE_PARAMETER, 20072, ''ERROR''),
     (ICAL_VALUE_PARAMETER, 20073, ''DATE-TIME''), (ICAL_VALUE_PARAMETER, 20074, ''UTC-OFFSET''),
     (ICAL_VALUE_PARAMETER, 20075, ''CAL-ADDRESS''), (ICAL_XLICCOMPARETYPE_PARAMETER, 20078, ''EQUAL''),
     (ICAL_XLICCOMPARETYPE_PARAMETER, 20079, ''NOTEQUAL''),
     (ICAL_XLICCOMPARETYPE_PARAMETER, 20080, ''LESS''),
     (ICAL_XLICCOMPARETYPE_PARAMETER, 20081, ''GREATER''),
     (ICAL_XLICCOMPARETYPE_PARAMETER, 20082, ''LESSEQUAL''),
     (ICAL_XLICCOMPARETYPE_PARAMETER, 20083, ''GREATEREQUAL''),
     (ICAL_XLICCOMPARETYPE_PARAMETER, 20084, ''REGEX''),
     (ICAL_XLICCOMPARETYPE_PARAMETER, 20085, ''ISNULL''),
     (ICAL_XLICCOMPARETYPE_PARAMETER, 20086, ''ISNOTNULL''),
     (ICAL_XLICERRORTYPE_PARAMETER, 20089, ''COMPONENT-PARSE-ERROR''),
     (ICAL_XLICERRORTYPE_PARAMETER, 20090, ''PROPERTY-PARSE-ERROR''),
     (ICAL_XLICERRORTYPE_PARAMETER, 20091, ''PARAMETER-NAME-PARSE-ERROR''),
     (ICAL_XLICERRORTYPE_PARAMETER, 20092, ''PARAMETER-VALUE-PARSE-ERROR''),
     (ICAL_XLICERRORTYPE_PARAMETER, 20093, ''VALUE-PARSE-ERROR''),
     (ICAL_XLICERRORTYPE_PARAMETER, 20094, ''INVALID-ITIP''),
     (ICAL_XLICERRORTYPE_PARAMETER, 20095, ''UNKNOWN-VCAL-PROP-ERROR''),
     (ICAL_XLICERRORTYPE_PARAMETER, 20096, ''MIME-PARSE-ERROR''),
     (ICAL_XLICERRORTYPE_PARAMETER, 20097, ''VCAL-PROP-PARSE-ERROR''), (ICAL_NO_PARAMETER, 0, '''')]"

definition parameter_entries :: "(icalparameter_kind \<times> string) list" where
  "parameter_entries = takeWhile (\<lambda>e. fst e \<noteq> ICAL_NO_PARAMETER) parameter_map"

definition parameter_enum_entries :: "(icalparameter_kind \<times> int \<times> string) list" where
  "parameter_enum_entries = takeWhile (\<lambda>e. fst e \<noteq> ICAL_NO_PARAMETER) icalparameter_map"

definition icalparameter_kind_to_string :: "icalparameter_kind \<Rightarrow> string option" where
  "icalparameter_kind_to_string kind = map_option snd (List.find (\<lambda>e. fst e = kind) parameter_entries)"

definition icalparameter_string_to_kind :: "string option \<Rightarrow> icalparameter_kind" where
  "icalparameter_string_to_kind str =
     (case str of None \<Rightarrow> ICAL_NO_PARAMETER
      | Some s \<Rightarrow> (case List.find (\<lambda>(_, name). strcaseeq name s) parameter_entries of
                    Some e \<Rightarrow> fst e
                  | None \<Rightarrow> if take 2 s = ''X-'' then ICAL_X_PARAMETER else ICAL_NO_PARAMETER))"

definition icalparameter_value_to_value_kind :: "int \<Rightarrow> icalvalue_kind" where
  "icalparameter_value_to_value_kind v =
     (case List.find (\<lambda>e. fst e = v) (takeWhile (\<lambda>e. snd e \<noteq> ICAL_NO_VALUE) value_kind_map) of
        Some e \<Rightarrow> snd e | None \<Rightarrow> ICAL_NO_VALUE)"

definition ICALPARAMETER_FIRST_ENUM :: int where "ICALPARAMETER_FIRST_ENUM = 20000"
definition ICALPARAMETER_LAST_ENUM :: int where "ICALPARAMETER_LAST_ENUM = 20099"

definition icalparameter_enum_to_string :: "int \<Rightarrow> icalerror_state \<Rightarrow> (string option \<times> icalerror_state) option" where
  "icalparameter_enum_to_string e es =
     (if \<not> e \<ge> ICALPARAMETER_FIRST_ENUM \<or> \<not> e \<le> ICALPARAMETER_LAST_ENUM
      then map_option (\<lambda>es1. (None, es1)) (icalerror_set_errno ICAL_BADARG_ERROR es)
      else Some (map_option (\<lambda>(_, _, s). s) (List.find (\<lambda>x. fst (snd x) = e) parameter_enum_entries), es))"

definition icalparameter_string_to_enum :: "string \<Rightarrow> int" where
  "icalparameter_string_to_enum str =
     (case List.find (\<lambda>(_, _, s). strcaseeq str s) parameter_enum_entries of Some (_, e, _) \<Rightarrow> e | None \<Rightarrow> 0)"

section \<open>Values\<close>

definition value_map :: "(icalvalue_kind \<times> string) list" where
  "value_map =
    [(ICAL_QUERY_VALUE, ''QUERY''), (ICAL_DATE_VALUE, ''DATE''), (ICAL_ATTACH_VALUE, ''ATTACH''),
     (ICAL_GEO_VALUE, ''GEO''), (ICAL_STATUS_VALUE, ''STATUS''), (ICAL_TRANSP_VALUE, ''TRANSP''),
     (ICAL_STRING_VALUE, ''STRING''), (ICAL_TEXT_VALUE, ''TEXT''),
     (ICAL_REQUESTSTATUS_VALUE, ''REQUEST-STATUS''), (ICAL_CMD_VALUE, ''CMD''),
     (ICAL_BINARY_VALUE, ''BINARY''), (ICAL_QUERYLEVEL_VALUE, ''QUERY-LEVEL''),
     (ICAL_PERIOD_VALUE, ''PERIOD''), (ICAL_FLOAT_VALUE, ''FLOAT''),
     (ICAL_DATETIMEPERIOD_VALUE, ''DATE-TIME-PERIOD''), (ICAL_CARLEVEL_VALUE, ''CAR-LEVEL''),
     (ICAL_INTEGER_VALUE, ''INTEGER''), (ICAL_CLASS_VALUE, ''CLASS''), (ICAL_URI_VALUE, ''URI''),
     (ICAL_DURATION_VALUE, ''DURATION''), (ICAL_BOOLEAN_VALUE, ''BOOLEAN''), (ICAL_X_VALUE, ''X''),
     (ICAL_CALADDRESS_VALUE, ''CAL-ADDRESS''), (ICAL_TRIGGER_VALUE, ''TRIGGER''),
     (ICAL_XLICCLASS_VALUE, ''X-LIC-CLASS''), (ICAL_RECUR_VALUE, ''RECUR''),
     (ICAL_ACTION_VALUE, ''ACTION''), (ICAL_DATETIME_VALUE, ''DATE-TIME''),
     (ICAL_UTCOFFSET_VALUE, ''UTC-OFFSET''), (ICAL_METHOD_VALUE, ''METHOD''), (ICAL_NO_VALUE, '''')]"

definition value_entries :: "(icalvalue_kind \<times> string) list" where
  "value_entries = takeWhile (\<lambda>e. fst e \<noteq> ICAL_NO_VALUE) value_map"

definition icalvalue_kind_is_valid :: "icalvalue_kind \<Rightarrow> bool" where
  "icalvalue_kind_is_valid kind \<longleftrightarrow> kind \<in> set (map fst value_map)"

definition icalvalue_kind_to_string :: "icalvalue_kind \<Rightarrow> string option" where
  "icalvalue_kind_to_string kind = map_option snd (List.find (\<lambda>e. fst e = kind) value_entries)"

definition icalvalue_string_to_kind :: "string \<Rightarrow> icalvalue_kind" where
  "icalvalue_string_to_kind str =
     (case List.find (\<lambda>(_, name). strcaseeq name str) value_entries of Some e \<Rightarrow> fst e | None \<Rightarrow> ICAL_NO_VALUE)"

end
