(* ===== verification/IcalTypes.thy ===== *)
theory IcalTypes
  imports IcalPeriod IcalKinds
begin

text \<open>
  The small compound types of \<^verbatim>\<open>icaltypes.c\<close>, triggers and request statuses, with the status
  table of \<^verbatim>\<open>icalenums.c\<close>. The status codes are the numbers of the C enumeration.
\<close>

section \<open>Triggers\<close>

record icaltriggertype =
  tr_time :: icaltimetype
  tr_duration :: icaldurationtype

definition icaltriggertype_is_null_trigger :: "icaltriggertype \<Rightarrow> bool" where
  "icaltriggertype_is_null_trigger tr \<longleftrightarrow>
     icaltime_is_null_time (tr_time tr) \<and> icaldurationtype_is_null_duration (tr_duration tr)"

definition icaltriggertype_is_bad_trigger :: "icaltriggertype \<Rightarrow> bool" where
  "icaltriggertype_is_bad_trigger tr \<longleftrightarrow> icaldurationtype_is_bad_duration (tr_duration tr)"

definition icaltriggertype_from_int :: "int \<Rightarrow> icaltriggertype" where
  "icaltriggertype_from_int reltime =
     \<lparr>tr_time = icaltime_null_time, tr_duration = icaldurationtype_from_int reltime\<rparr>"

text \<open>
  The old error number is put back through \<open>icalerror_set_errno\<close>, which ends the process if
  that error is fatal.
\<close>

definition icaltriggertype_from_string ::
    "string \<Rightarrow> icalerror_state \<Rightarrow> (icaltriggertype \<times> icalerror_state) option" where
  "icaltriggertype_from_string str es0 =
     (let tr0 = \<lparr>tr_time = icaltime_null_time, tr_duration = icaldurationtype_from_int 0\<rparr>;
          saved = icalerror_get_error_state ICAL_MALFORMEDDATA_ERROR es0;
          es1 = icalerror_set_error_state ICAL_MALFORMEDDATA_ERROR ICAL_ERROR_NONFATAL es0;
          e = icalerrno es1
      in do {
        es2 \<leftarrow> icalerror_set_errno ICAL_NO_ERROR es1;
        (t, es3) \<leftarrow> icaltime_from_string str es2;
        let tr1 = tr0\<lparr>tr_time := t\<rparr>;
        (tr2, es4, ok) \<leftarrow>
          (if icaltime_is_null_time t then do {
             (d, es4) \<leftarrow> icaldurationtype_from_string str es3;
             Some (tr1\<lparr>tr_duration := d\<rparr>, es4, \<not> icaldurationtype_is_bad_duration d) }
           else Some (tr1, es3, True));
        let es5 = icalerror_set_error_state ICAL_MALFORMEDDATA_ERROR saved es4;
        es6 \<leftarrow> icalerror_set_errno (if ok then e else ICAL_MALFORMEDDATA_ERROR) es5;
        Some (tr2, es6) })"

section \<open>Request statuses\<close>

type_synonym icalrequeststatus = int

abbreviation (input) ICAL_UNKNOWN_STATUS :: icalrequeststatus where "ICAL_UNKNOWN_STATUS \<equiv> 0"
abbreviation (input) ICAL_2_0_SUCCESS_STATUS :: icalrequeststatus where "ICAL_2_0_SUCCESS_STATUS \<equiv> 1"
abbreviation (input) ICAL_2_1_FALLBACK_STATUS :: icalrequeststatus where "ICAL_2_1_FALLBACK_STATUS \<equiv> 2"
abbreviation (input) ICAL_2_2_IGPROP_STATUS :: icalrequeststatus where "ICAL_2_2_IGPROP_STATUS \<equiv> 3"
abbreviation (input) ICAL_2_3_IGPARAM_STATUS :: icalrequeststatus where "ICAL_2_3_IGPARAM_STATUS \<equiv> 4"
abbreviation (input) ICAL_2_4_IGXPROP_STATUS :: icalrequeststatus where "ICAL_2_4_IGXPROP_STATUS \<equiv> 5"
abbreviation (input) ICAL_2_5_IGXPARAM_STATUS :: icalrequeststatus where "ICAL_2_5_IGXPARAM_STATUS \<equiv> 6"
abbreviation (input) ICAL_2_6_IGCOMP_STATUS :: icalrequeststatus where "ICAL_2_6_IGCOMP_STATUS \<equiv> 7"
abbreviation (input) ICAL_2_7_FORWARD_STATUS :: icalrequeststatus where "ICAL_2_7_FORWARD_STATUS \<equiv> 8"
abbreviation (input) ICAL_2_8_ONEEVENT_STATUS :: icalrequeststatus where "ICAL_2_8_ONEEVENT_STATUS \<equiv> 9"
abbreviation (input) ICAL_2_9_TRUNC_STATUS :: icalrequeststatus where "ICAL_2_9_TRUNC_STATUS \<equiv> 10"
abbreviation (input) ICAL_2_10_ONETODO_STATUS :: icalrequeststatus where "ICAL_2_10_ONETODO_STATUS \<equiv> 11"
abbreviation (input) ICAL_2_11_TRUNCRRULE_STATUS :: icalrequeststatus where "ICAL_2_11_TRUNCRRULE_STATUS \<equiv> 12"
abbreviation (input) ICAL_3_0_INVPROPNAME_STATUS :: icalrequeststatus where "ICAL_3_0_INVPROPNAME_STATUS \<equiv> 13"
abbreviation (input) ICAL_3_1_INVPROPVAL_STATUS :: icalrequeststatus where "ICAL_3_1_INVPROPVAL_STATUS \<equiv> 14"
abbreviation (input) ICAL_3_2_INVPARAM_STATUS :: icalrequeststatus where "ICAL_3_2_INVPARAM_STATUS \<equiv> 15"
abbreviation (input) ICAL_3_3_INVPARAMVAL_STATUS :: icalrequeststatus where "ICAL_3_3_INVPARAMVAL_STATUS \<equiv> 16"
abbreviation (input) ICAL_3_4_INVCOMP_STATUS :: icalrequeststatus where "ICAL_3_4_INVCOMP_STATUS \<equiv> 17"
abbreviation (input) ICAL_3_5_INVTIME_STATUS :: icalrequeststatus where "ICAL_3_5_INVTIME_STATUS \<equiv> 18"
abbreviation (input) ICAL_3_6_INVRULE_STATUS :: icalrequeststatus where "ICAL_3_6_INVRULE_STATUS \<equiv> 19"
abbreviation (input) ICAL_3_7_INVCU_STATUS :: icalrequeststatus where "ICAL_3_7_INVCU_STATUS \<equiv> 20"
abbreviation (input) ICAL_3_8_NOAUTH_STATUS :: icalrequeststatus where "ICAL_3_8_NOAUTH_STATUS \<equiv> 21"
abbreviation (input) ICAL_3_9_BADVERSION_STATUS :: icalrequeststatus where "ICAL_3_9_BADVERSION_STATUS \<equiv> 22"
abbreviation (input) ICAL_3_10_TOOBIG_STATUS :: icalrequeststatus where "ICAL_3_10_TOOBIG_STATUS \<equiv> 23"
abbreviation (input) ICAL_3_11_MISSREQCOMP_STATUS :: icalrequeststatus where "ICAL_3_11_MISSREQCOMP_STATUS \<equiv> 24"
abbreviation (input) ICAL_3_12_UNKCOMP_STATUS :: icalrequeststatus where "ICAL_3_12_UNKCOMP_STATUS \<equiv> 25"
abbreviation (input) ICAL_3_13_BADCOMP_STATUS :: icalrequeststatus where "ICAL_3_13_BADCOMP_STATUS \<equiv> 26"
abbreviation (input) ICAL_3_14_NOCAP_STATUS :: icalrequeststatus where "ICAL_3_14_NOCAP_STATUS \<equiv> 27"
abbreviation (input) ICAL_3_15_INVCOMMAND :: icalrequeststatus where "ICAL_3_15_INVCOMMAND \<equiv> 28"
abbreviation (input) ICAL_4_0_BUSY_STATUS :: icalrequeststatus where "ICAL_4_0_BUSY_STATUS \<equiv> 29"
abbreviation (input) ICAL_4_1_STORE_ACCESS_DENIED :: icalrequeststatus where "ICAL_4_1_STORE_ACCESS_DENIED \<equiv> 30"
abbreviation (input) ICAL_4_2_STORE_FAILED :: icalrequeststatus where "ICAL_4_2_STORE_FAILED \<equiv> 31"
abbreviation (input) ICAL_4_3_STORE_NOT_FOUND :: icalrequeststatus where "ICAL_4_3_STORE_NOT_FOUND \<equiv> 32"
abbreviation (input) ICAL_5_0_MAYBE_STATUS :: icalrequeststatus where "ICAL_5_0_MAYBE_STATUS \<equiv> 33"
abbreviation (input) ICAL_5_1_UNAVAIL_STATUS :: icalrequeststatus where "ICAL_5_1_UNAVAIL_STATUS \<equiv> 34"
abbreviation (input) ICAL_5_2_NOSERVICE_STATUS :: icalrequeststatus where "ICAL_5_2_NOSERVICE_STATUS \<equiv> 35"
abbreviation (input) ICAL_5_3_NOSCHED_STATUS :: icalrequeststatus where "ICAL_5_3_NOSCHED_STATUS \<equiv> 36"
abbreviation (input) ICAL_6_1_CONTAINER_NOT_FOUND :: icalrequeststatus where "ICAL_6_1_CONTAINER_NOT_FOUND \<equiv> 37"
abbreviation (input) ICAL_9_0_UNRECOGNIZED_COMMAND :: icalrequeststatus where "ICAL_9_0_UNRECOGNIZED_COMMAND \<equiv> 38"

definition request_status_map :: "(icalrequeststatus \<times> int \<times> int \<times> string) list" where
  "request_status_map =
    [(ICAL_2_0_SUCCESS_STATUS, 2, 0, ''Success.''),
     (ICAL_2_1_FALLBACK_STATUS, 2, 1, ''Success but fallback taken  on one or more property  values.''),
     (ICAL_2_2_IGPROP_STATUS, 2, 2, ''Success, invalid property ignored.''),
     (ICAL_2_3_IGPARAM_STATUS, 2, 3, ''Success, invalid property parameter ignored.''),
     (ICAL_2_4_IGXPROP_STATUS, 2, 4, ''Success, unknown non-standard property ignored.''),
     (ICAL_2_5_IGXPARAM_STATUS, 2, 5, ''Success, unknown non standard property value  ignored.''),
     (ICAL_2_6_IGCOMP_STATUS, 2, 6, ''Success, invalid calendar component ignored.''),
     (ICAL_2_7_FORWARD_STATUS, 2, 7, ''Success, request forwarded to Calendar User.''),
     (ICAL_2_8_ONEEVENT_STATUS, 2, 8, ''Success, repeating event ignored. Scheduled as a  single component.''),
     (ICAL_2_9_TRUNC_STATUS, 2, 9, ''Success, truncated end date time to date boundary.''),
     (ICAL_2_10_ONETODO_STATUS, 2, 10, ''Success, repeating VTODO ignored. Scheduled as a  single VTODO.''),
     (ICAL_2_11_TRUNCRRULE_STATUS, 2, 11, ''Success, unbounded RRULE clipped at some finite  number of instances  ''),
     (ICAL_3_0_INVPROPNAME_STATUS, 3, 0, ''Invalid property name.''),
     (ICAL_3_1_INVPROPVAL_STATUS, 3, 1, ''Invalid property value.''),
     (ICAL_3_2_INVPARAM_STATUS, 3, 2, ''Invalid property parameter.''),
     (ICAL_3_3_INVPARAMVAL_STATUS, 3, 3, ''Invalid property parameter  value.''),
     (ICAL_3_4_INVCOMP_STATUS, 3, 4, ''Invalid calendar component.''),
     (ICAL_3_5_INVTIME_STATUS, 3, 5, ''Invalid date or time.''),
     (ICAL_3_6_INVRULE_STATUS, 3, 6, ''Invalid rule.''),
     (ICAL_3_7_INVCU_STATUS, 3, 7, ''Invalid Calendar User.''),
     (ICAL_3_8_NOAUTH_STATUS, 3, 8, ''No authority.''),
     (ICAL_3_9_BADVERSION_STATUS, 3, 9, ''Unsupported version.''),
     (ICAL_3_10_TOOBIG_STATUS, 3, 10, ''Request entity too large.''),
     (ICAL_3_11_MISSREQCOMP_STATUS, 3, 11, ''Required component or property missing.''),
     (ICAL_3_12_UNKCOMP_STATUS, 3, 12, ''Unknown component or property found.''),
     (ICAL_3_13_BADCOMP_STATUS, 3, 13, ''Unsupported component or property found''),
     (ICAL_3_14_NOCAP_STATUS, 3, 14, ''Unsupported capability.''),
     (ICAL_3_15_INVCOMMAND, 3, 15, ''Invalid command.''),
     (ICAL_4_0_BUSY_STATUS, 4, 0, ''Event conflict. Date/time  is busy.''),
     (ICAL_4_1_STORE_ACCESS_DENIED, 4, 1, ''Store Access Denied.''),
     (ICAL_4_2_STORE_FAILED, 4, 2, ''Store Failed.''),
     (ICAL_4_3_STORE_NOT_FOUND, 4, 3, ''Store not found.''),
     (ICAL_5_0_MAYBE_STATUS, 5, 0, ''Request MAY supported.''),
     (ICAL_5_1_UNAVAIL_STATUS, 5, 1, ''Service unavailable.''),
     (ICAL_5_2_NOSERVICE_STATUS, 5, 2, ''Invalid calendar service.''),
     (ICAL_5_3_NOSCHED_STATUS, 5, 3, ''No scheduling support for  user.''),
     (ICAL_6_1_CONTAINER_NOT_FOUND, 6, 1, ''Container not found.''),
     (ICAL_9_0_UNRECOGNIZED_COMMAND, 9, 0, ''An unrecognized command was received.''),
     (ICAL_UNKNOWN_STATUS, 0, 0, ''Error: Unknown request status'')]"

definition status_entry :: "icalrequeststatus \<Rightarrow> (icalrequeststatus \<times> int \<times> int \<times> string) option" where
  "status_entry stat =
     List.find (\<lambda>e. fst e = stat) (takeWhile (\<lambda>e. fst e \<noteq> ICAL_UNKNOWN_STATUS) request_status_map)"

definition icalenum_reqstat_desc :: "icalrequeststatus \<Rightarrow> string option" where
  "icalenum_reqstat_desc stat = map_option (\<lambda>(_, _, _, str). str) (status_entry stat)"

definition icalenum_reqstat_code_r :: "icalrequeststatus \<Rightarrow> string option" where
  "icalenum_reqstat_code_r stat =
     map_option (\<lambda>(_, major, minor, _). take 35 (fmt_d major @ ''.'' @ fmt_d minor)) (status_entry stat)"

definition icalenum_reqstat_major :: "icalrequeststatus \<Rightarrow> int" where
  "icalenum_reqstat_major stat = (case status_entry stat of Some (_, major, _, _) \<Rightarrow> major | None \<Rightarrow> - 1)"

definition icalenum_reqstat_minor :: "icalrequeststatus \<Rightarrow> int" where
  "icalenum_reqstat_minor stat = (case status_entry stat of Some (_, _, minor, _) \<Rightarrow> minor | None \<Rightarrow> - 1)"

definition icalenum_num_to_reqstat :: "int \<Rightarrow> int \<Rightarrow> icalrequeststatus" where
  "icalenum_num_to_reqstat major minor =
     (case List.find (\<lambda>(_, a, b, _). a = major \<and> b = minor)
             (takeWhile (\<lambda>e. fst e \<noteq> ICAL_UNKNOWN_STATUS) request_status_map) of
        Some e \<Rightarrow> fst e | None \<Rightarrow> ICAL_UNKNOWN_STATUS)"

text \<open>A null description or debug text is \<open>None\<close>.\<close>

record icalreqstattype =
  rs_code :: icalrequeststatus
  rs_desc :: "string option"
  rs_debug :: "string option"

text \<open>\<open>sscanf\<close> with \<open>%hd\<close>, and the two numbers of a status, zero where nothing was read.\<close>

definition scan_hd :: "string \<Rightarrow> (int \<times> string) option" where
  "scan_hd cs = map_option (\<lambda>(v, r). (to_short v, r)) (scan_long (length cs) cs)"

definition scan_status :: "string \<Rightarrow> int \<times> int" where
  "scan_status str =
     (case scan_hd str of
        None \<Rightarrow> (0, 0)
      | Some (major, r) \<Rightarrow>
          (case r of
             [] \<Rightarrow> (major, 0)
           | c # r' \<Rightarrow> if c = CHR ''.'' then (case scan_hd r' of None \<Rightarrow> (major, 0) | Some (minor, _) \<Rightarrow> (major, minor))
                       else (major, 0)))"

definition icalreqstattype_from_string ::
    "string \<Rightarrow> icalerror_state \<Rightarrow> (icalreqstattype \<times> icalerror_state) option" where
  "icalreqstattype_from_string str es =
     (let stat = \<lparr>rs_code = ICAL_UNKNOWN_STATUS, rs_desc = None, rs_debug = None\<rparr>;
          (major, minor) = scan_status str;
          bad = map_option (\<lambda>es1. (stat, es1)) (icalerror_set_errno ICAL_MALFORMEDDATA_ERROR es)
      in if major \<le> 0 \<or> minor < 0 then bad
         else if icalenum_num_to_reqstat major minor = ICAL_UNKNOWN_STATUS then bad
         else Some (stat\<lparr>rs_code := icalenum_num_to_reqstat major minor,
                         rs_debug := (case split_chr (CHR '';'') str of
                            (_, None) \<Rightarrow> None
                          | (_, Some p1) \<Rightarrow> snd (split_chr (CHR '';'') p1))\<rparr>, es))"

text \<open>A description that is not in the table is a null pointer, which \<open>snprintf\<close> must not get.\<close>

definition icalreqstattype_as_string_r ::
    "icalreqstattype \<Rightarrow> icalerror_state \<Rightarrow> (string option \<times> icalerror_state) option" where
  "icalreqstattype_as_string_r stat es =
     (if rs_code stat = ICAL_UNKNOWN_STATUS
      then map_option (\<lambda>es1. (None, es1)) (icalerror_set_errno ICAL_BADARG_ERROR es)
      else
        let desc = (if rs_desc stat = None then icalenum_reqstat_desc (rs_code stat) else rs_desc stat);
            nums = fmt_d (icalenum_reqstat_major (rs_code stat)) @ ''.'' @ fmt_d (icalenum_reqstat_minor (rs_code stat))
        in do {
          d \<leftarrow> desc;
          Some (Some (take 1023 (nums @ '';'' @ d @
             (case rs_debug stat of Some g \<Rightarrow> '';'' @ g | None \<Rightarrow> []))), es) })"

end
