(* ===== verification/CFloat.thy ===== *)
theory CFloat
  imports CText "HOL-Library.Monad_Syntax"
begin

text \<open>
  Floating point numbers as the values FLOAT and GEO use them: reading decimal text with
  \<^verbatim>\<open>atof\<close>, the cast from \<^verbatim>\<open>double\<close> to \<^verbatim>\<open>float\<close>, and printing with \<^verbatim>\<open>%f\<close>. A number is a sign
  and a magnitude, a rational of the form that the binary format can hold. Text for \<^verbatim>\<open>atof\<close>
  that begins a hexadecimal number, an infinity or a NaN, and numbers beyond the range of
  the format, are the result \<open>None\<close>.
\<close>

section \<open>Rounding\<close>

record cfloat =
  f_neg :: bool
  f_mag :: rat

fun ilog2 :: "nat \<Rightarrow> nat" where
  "ilog2 n = (if n \<le> 1 then 0 else Suc (ilog2 (n div 2)))"

declare ilog2.simps [simp del]

definition pow_rat :: "rat \<Rightarrow> int \<Rightarrow> rat" where
  "pow_rat b e = (if 0 \<le> e then b ^ nat e else 1 / b ^ nat (- e))"

text \<open>The exponent of the leading binary digit of a positive number.\<close>

definition lead_exp :: "rat \<Rightarrow> int" where
  "lead_exp x =
     (let (n, d) = quotient_of x; k = int (ilog2 (nat n)) - int (ilog2 (nat d))
      in if pow_rat 2 k \<le> x then k else k - 1)"

text \<open>To the nearest integer, and to the even one of two that are equally near.\<close>

definition round_even :: "rat \<Rightarrow> int" where
  "round_even r =
     (let f = \<lfloor>r\<rfloor>; d = r - of_int f
      in if d < 1 / 2 then f else if 1 / 2 < d then f + 1 else if even f then f else f + 1)"

text \<open>To a precision of \<open>p\<close> digits and no exponent below \<open>emin\<close>.\<close>

definition round_binary :: "int \<Rightarrow> int \<Rightarrow> rat \<Rightarrow> rat" where
  "round_binary p emin x =
     (if x = 0 then 0
      else let e = max (lead_exp x - (p - 1)) emin in of_int (round_even (x / pow_rat 2 e)) * pow_rat 2 e)"

definition to_double :: "rat \<Rightarrow> rat option" where
  "to_double x = (let y = round_binary 53 (- 1074) x in if y < pow_rat 2 1024 then Some y else None)"

definition to_float :: "rat \<Rightarrow> rat option" where
  "to_float x = (let y = round_binary 24 (- 149) x in if y < pow_rat 2 128 then Some y else None)"

section \<open>Reading\<close>

fun span_digits :: "string \<Rightarrow> string \<times> string" where
  "span_digits [] = ([], [])"
| "span_digits (c # cs) = (if is_digit c then (let (ds, r) = span_digits cs in (c # ds, r)) else ([], c # cs))"

text \<open>The exponent part, if there is a digit in it.\<close>

definition exponent_part :: "string \<Rightarrow> int" where
  "exponent_part r =
     (case r of
        c # s \<Rightarrow>
          if to_lower c = CHR ''e'' then
            (let neg = (s \<noteq> [] \<and> hd s = CHR ''-'');
                 t = (if s \<noteq> [] \<and> (hd s = CHR ''-'' \<or> hd s = CHR ''+'') then tl s else s);
                 v = digits_val (fst (span_digits t))
             in if neg then - v else v)
          else 0
      | [] \<Rightarrow> 0)"

text \<open>The magnitude of the decimal number at the start of a text.\<close>

definition decimal :: "string \<Rightarrow> rat option" where
  "decimal cs =
     (let (a, r) = span_digits cs;
          (b, r') = (case r of c # s \<Rightarrow> if c = CHR ''.'' then span_digits s else ([], r) | [] \<Rightarrow> ([], []))
      in if a = [] \<and> b = [] then None
         else Some (of_int (digits_val (a @ b)) * pow_rat 10 (exponent_part r' - int (length b))))"

definition special_number :: "string \<Rightarrow> bool" where
  "special_number cs \<longleftrightarrow>
     strcaseeq (take 3 cs) ''inf'' \<or> strcaseeq (take 3 cs) ''nan'' \<or> strcaseeq (take 2 cs) ''0x''"

text \<open>The zero that \<open>memset\<close> leaves.\<close>

definition float_zero :: cfloat where
  "float_zero = \<lparr>f_neg = False, f_mag = 0\<rparr>"

text \<open>\<open>atof\<close> with the cast of its result to \<open>float\<close>, in the C locale.\<close>

definition atof_float :: "string \<Rightarrow> cfloat option" where
  "atof_float cs =
     (let s = dropWhile is_space cs;
          neg = (s \<noteq> [] \<and> hd s = CHR ''-'');
          t = (if s \<noteq> [] \<and> (hd s = CHR ''-'' \<or> hd s = CHR ''+'') then tl s else s)
      in if special_number t then None
         else case decimal t of
                None \<Rightarrow> Some float_zero
              | Some v \<Rightarrow> do { d \<leftarrow> to_double v; f \<leftarrow> to_float d; Some \<lparr>f_neg = neg, f_mag = f\<rparr> })"

section \<open>Printing\<close>

text \<open>\<open>%f\<close>: six decimals, rounded from the exact value.\<close>

definition fmt_f :: "cfloat \<Rightarrow> string" where
  "fmt_f x =
     (let n = nat (round_even (f_mag x * 10 ^ 6))
      in (if f_neg x then ''-'' else []) @ nat_str (n div 10 ^ 6) @ ''.'' @ pad0 6 (nat_str (n mod 10 ^ 6)))"

definition float_val :: "cfloat \<Rightarrow> rat" where
  "float_val x = (if f_neg x then - f_mag x else f_mag x)"

end
