(* ===== verification/IcalValue.thy ===== *)
theory IcalValue
  imports IcalTypes CFloat IcalRecur
begin

text \<open>
  Values: the object of \<^verbatim>\<open>icalvalueimpl.h\<close>, its creation in \<^verbatim>\<open>icalvalue.c\<close> and the functions
  that make, set and read values of each kind in \<^verbatim>\<open>icalderivedvalue.c\<close>. The union of the data
  is a datatype with a constructor for each member; reading another member than the one that
  was written is the result \<open>None\<close>, except after \<open>memset\<close>, when every member is zero. A null
  pointer to a value is \<open>None\<close> where a function can return one.

  Attachments, \<^verbatim>\<open>icalattach.c\<close>, are shared objects with a reference count. They live in a
  store with the error state.
\<close>

section \<open>Attachments\<close>

record icalattach =
  at_refcount :: int
  at_is_url :: bool
  at_text :: string

record value_env =
  env_errs :: icalerror_state
  env_attaches :: "nat \<rightharpoonup> icalattach"
  env_next :: nat

definition env_errno :: "icalerrorenum \<Rightarrow> value_env \<Rightarrow> value_env option" where
  "env_errno e env = map_option (\<lambda>es. env\<lparr>env_errs := es\<rparr>) (icalerror_set_errno e (env_errs env))"

text \<open>A routine of a component that knows only the error state.\<close>

definition with_errs :: "(icalerror_state \<Rightarrow> ('x \<times> icalerror_state) option) \<Rightarrow> value_env \<Rightarrow> ('x \<times> value_env) option" where
  "with_errs f env = map_option (\<lambda>(x, es). (x, env\<lparr>env_errs := es\<rparr>)) (f (env_errs env))"

definition new_attach :: "bool \<Rightarrow> string \<Rightarrow> value_env \<Rightarrow> nat \<times> value_env" where
  "new_attach url s env =
     (env_next env,
      env\<lparr>env_attaches := (env_attaches env)(env_next env \<mapsto> \<lparr>at_refcount = 1, at_is_url = url, at_text = s\<rparr>),
          env_next := Suc (env_next env)\<rparr>)"

definition icalattach_new_from_url :: "string \<Rightarrow> value_env \<Rightarrow> nat \<times> value_env" where
  "icalattach_new_from_url = new_attach True"

text \<open>The function that frees the data is stored but never called.\<close>

definition icalattach_new_from_data :: "string \<Rightarrow> value_env \<Rightarrow> nat \<times> value_env" where
  "icalattach_new_from_data = new_attach False"

definition icalattach_ref :: "nat \<Rightarrow> value_env \<Rightarrow> value_env option" where
  "icalattach_ref a env =
     (case env_attaches env a of
        None \<Rightarrow> None
      | Some t \<Rightarrow> if at_refcount t > 0
                  then Some (env\<lparr>env_attaches := (env_attaches env)(a \<mapsto> t\<lparr>at_refcount := at_refcount t + 1\<rparr>)\<rparr>)
                  else env_errno ICAL_BADARG_ERROR env)"

definition icalattach_unref :: "nat \<Rightarrow> value_env \<Rightarrow> value_env option" where
  "icalattach_unref a env =
     (case env_attaches env a of
        None \<Rightarrow> None
      | Some t \<Rightarrow> if at_refcount t > 0
                  then Some (env\<lparr>env_attaches := (env_attaches env)
                       (a := if at_refcount t - 1 \<noteq> 0 then Some (t\<lparr>at_refcount := at_refcount t - 1\<rparr>) else None)\<rparr>)
                  else env_errno ICAL_BADARG_ERROR env)"

definition icalattach_get_is_url :: "nat \<Rightarrow> value_env \<Rightarrow> bool option" where
  "icalattach_get_is_url a env = map_option at_is_url (env_attaches env a)"

text \<open>The text of the wrong kind of attachment is an argument error, and then a null pointer.\<close>

definition attach_text :: "bool \<Rightarrow> nat \<Rightarrow> value_env \<Rightarrow> (string option \<times> value_env) option" where
  "attach_text url a env =
     (case env_attaches env a of
        None \<Rightarrow> None
      | Some t \<Rightarrow> if at_is_url t = url then Some (Some (at_text t), env)
                  else map_option (\<lambda>env1. (None, env1)) (env_errno ICAL_BADARG_ERROR env))"

definition icalattach_get_url :: "nat \<Rightarrow> value_env \<Rightarrow> (string option \<times> value_env) option" where
  "icalattach_get_url = attach_text True"

definition icalattach_get_data :: "nat \<Rightarrow> value_env \<Rightarrow> (string option \<times> value_env) option" where
  "icalattach_get_data = attach_text False"

section \<open>The object\<close>

type_synonym icalgeotype = "cfloat \<times> cfloat"

datatype icalvalue_data =
    V_zero | V_attach nat | V_string string | V_float cfloat | V_int int
  | V_duration icaldurationtype | V_period icalperiodtype | V_geo icalgeotype | V_time icaltimetype
  | V_requeststatus icalreqstattype | V_recur icalrecurrencetype

record icalvalue =
  v_kind :: icalvalue_kind
  v_size :: int
  v_parent :: nat
  v_x_value :: "string option"
  v_data :: icalvalue_data

text \<open>The members; the pointers among them may be null.\<close>

definition v_attach :: "icalvalue_data \<Rightarrow> nat option option" where
  "v_attach d = (case d of V_zero \<Rightarrow> Some None | V_attach a \<Rightarrow> Some (Some a) | _ \<Rightarrow> None)"

definition v_string :: "icalvalue_data \<Rightarrow> string option option" where
  "v_string d = (case d of V_zero \<Rightarrow> Some None | V_string s \<Rightarrow> Some (Some s) | _ \<Rightarrow> None)"

definition v_float :: "icalvalue_data \<Rightarrow> cfloat option" where
  "v_float d = (case d of V_zero \<Rightarrow> Some float_zero | V_float f \<Rightarrow> Some f | _ \<Rightarrow> None)"

text \<open>The members \<^verbatim>\<open>v_int\<close> and \<^verbatim>\<open>v_enum\<close> are the same cell.\<close>

definition v_int :: "icalvalue_data \<Rightarrow> int option" where
  "v_int d = (case d of V_zero \<Rightarrow> Some 0 | V_int i \<Rightarrow> Some i | _ \<Rightarrow> None)"

definition v_duration :: "icalvalue_data \<Rightarrow> icaldurationtype option" where
  "v_duration d = (case d of V_zero \<Rightarrow> Some icaldurationtype_null_duration | V_duration u \<Rightarrow> Some u | _ \<Rightarrow> None)"

definition v_period :: "icalvalue_data \<Rightarrow> icalperiodtype option" where
  "v_period d = (case d of V_zero \<Rightarrow> Some icalperiodtype_null_period | V_period p \<Rightarrow> Some p | _ \<Rightarrow> None)"

definition v_geo :: "icalvalue_data \<Rightarrow> icalgeotype option" where
  "v_geo d = (case d of V_zero \<Rightarrow> Some (float_zero, float_zero) | V_geo g \<Rightarrow> Some g | _ \<Rightarrow> None)"

definition v_time :: "icalvalue_data \<Rightarrow> icaltimetype option" where
  "v_time d = (case d of V_zero \<Rightarrow> Some icaltime_null_time | V_time t \<Rightarrow> Some t | _ \<Rightarrow> None)"

definition v_requeststatus :: "icalvalue_data \<Rightarrow> icalreqstattype option" where
  "v_requeststatus d =
     (case d of V_zero \<Rightarrow> Some \<lparr>rs_code = ICAL_UNKNOWN_STATUS, rs_desc = None, rs_debug = None\<rparr>
      | V_requeststatus r \<Rightarrow> Some r | _ \<Rightarrow> None)"

definition v_recur :: "icalvalue_data \<Rightarrow> icalrecurrencetype option option" where
  "v_recur d = (case d of V_zero \<Rightarrow> Some None | V_recur r \<Rightarrow> Some (Some r) | _ \<Rightarrow> None)"

definition icalvalue_new_impl :: "icalvalue_kind \<Rightarrow> icalvalue option" where
  "icalvalue_new_impl kind =
     (if icalvalue_kind_is_valid kind
      then Some \<lparr>v_kind = kind, v_size = 0, v_parent = 0, v_x_value = None, v_data = V_zero\<rparr>
      else None)"

definition icalvalue_new :: "icalvalue_kind \<Rightarrow> icalvalue option" where
  "icalvalue_new = icalvalue_new_impl"

definition icalvalue_isa :: "icalvalue option \<Rightarrow> icalvalue_kind" where
  "icalvalue_isa value = (case value of None \<Rightarrow> ICAL_NO_VALUE | Some v \<Rightarrow> v_kind v)"

definition icalvalue_is_valid :: "icalvalue option \<Rightarrow> bool" where
  "icalvalue_is_valid value \<longleftrightarrow> value \<noteq> None"

text \<open>Examine the value and possibly change the kind to agree with it.\<close>

definition icalvalue_reset_kind :: "icalvalue \<Rightarrow> icalvalue option" where
  "icalvalue_reset_kind v =
     (if v_kind v = ICAL_DATETIME_VALUE \<or> v_kind v = ICAL_DATE_VALUE then do {
        t \<leftarrow> v_time (v_data v);
        Some (if icaltime_is_null_time t then v
              else v\<lparr>v_kind := (if icaltime_is_date t \<noteq> 0 then ICAL_DATE_VALUE else ICAL_DATETIME_VALUE)\<rparr>) }
      else Some v)"

definition icalvalue_set_parent :: "nat \<Rightarrow> icalvalue \<Rightarrow> icalvalue" where
  "icalvalue_set_parent p v = v\<lparr>v_parent := p\<rparr>"

definition icalvalue_get_parent :: "icalvalue \<Rightarrow> nat" where
  "icalvalue_get_parent v = v_parent v"

text \<open>Copies of strings and rules are values here; an attachment is shared and counted.\<close>

definition icalvalue_new_clone :: "icalvalue \<Rightarrow> value_env \<Rightarrow> (icalvalue option \<times> value_env) option" where
  "icalvalue_new_clone old env =
     (case icalvalue_new_impl (v_kind old) of
        None \<Rightarrow> Some (None, env)
      | Some n0 \<Rightarrow>
          let n = n0\<lparr>v_size := v_size old\<rparr>; k = v_kind old
          in if k = ICAL_ATTACH_VALUE \<or> k = ICAL_BINARY_VALUE then do {
               a \<leftarrow> v_attach (v_data old);
               (case a of
                  None \<Rightarrow> Some (Some n, env)
                | Some p \<Rightarrow> map_option (\<lambda>env1. (Some (n\<lparr>v_data := V_attach p\<rparr>), env1)) (icalattach_ref p env)) }
             else if k \<in> {ICAL_QUERY_VALUE, ICAL_STRING_VALUE, ICAL_TEXT_VALUE, ICAL_CALADDRESS_VALUE, ICAL_URI_VALUE}
             then do {
               s \<leftarrow> v_string (v_data old);
               Some (Some (case s of None \<Rightarrow> n | Some t \<Rightarrow> n\<lparr>v_data := V_string t\<rparr>), env) }
             else if k = ICAL_RECUR_VALUE then do {
               r \<leftarrow> v_recur (v_data old);
               Some (Some (case r of None \<Rightarrow> n | Some t \<Rightarrow> n\<lparr>v_data := V_recur t\<rparr>), env) }
             else if k = ICAL_X_VALUE then
               Some (Some (case v_x_value old of None \<Rightarrow> n | Some t \<Rightarrow> n\<lparr>v_x_value := Some t\<rparr>), env)
             else Some (Some (n\<lparr>v_data := v_data old\<rparr>), env))"

text \<open>Freeing releases the attachment; a value that has a parent is left alone.\<close>

definition icalvalue_free :: "icalvalue \<Rightarrow> value_env \<Rightarrow> value_env option" where
  "icalvalue_free v env =
     (if v_parent v \<noteq> 0 then Some env
      else if v_kind v = ICAL_BINARY_VALUE \<or> v_kind v = ICAL_ATTACH_VALUE then do {
        a \<leftarrow> v_attach (v_data v);
        (case a of None \<Rightarrow> Some env | Some p \<Rightarrow> icalattach_unref p env) }
      else Some env)"

section \<open>The kinds of values\<close>

text \<open>Setting writes the member of the union and examines the kind.\<close>

definition set_data :: "icalvalue_data \<Rightarrow> icalvalue \<Rightarrow> icalvalue option" where
  "set_data d v = icalvalue_reset_kind (v\<lparr>v_data := d\<rparr>)"

definition new_with :: "icalvalue_kind \<Rightarrow> icalvalue_data \<Rightarrow> icalvalue option" where
  "new_with kind d = Option.bind (icalvalue_new_impl kind) (set_data d)"

definition icalvalue_set_query :: "string \<Rightarrow> icalvalue \<Rightarrow> icalvalue option" where
  "icalvalue_set_query x = set_data (V_string x)"

definition icalvalue_new_query :: "string \<Rightarrow> icalvalue option" where
  "icalvalue_new_query x = new_with ICAL_QUERY_VALUE (V_string x)"

definition icalvalue_get_query :: "icalvalue \<Rightarrow> string option option" where
  "icalvalue_get_query v = v_string (v_data v)"

definition icalvalue_set_string :: "string \<Rightarrow> icalvalue \<Rightarrow> icalvalue option" where
  "icalvalue_set_string x = set_data (V_string x)"

definition icalvalue_new_string :: "string \<Rightarrow> icalvalue option" where
  "icalvalue_new_string x = new_with ICAL_STRING_VALUE (V_string x)"

definition icalvalue_get_string :: "icalvalue \<Rightarrow> string option option" where
  "icalvalue_get_string v = v_string (v_data v)"

definition icalvalue_set_text :: "string \<Rightarrow> icalvalue \<Rightarrow> icalvalue option" where
  "icalvalue_set_text x = set_data (V_string x)"

definition icalvalue_new_text :: "string \<Rightarrow> icalvalue option" where
  "icalvalue_new_text x = new_with ICAL_TEXT_VALUE (V_string x)"

definition icalvalue_get_text :: "icalvalue \<Rightarrow> string option option" where
  "icalvalue_get_text v = v_string (v_data v)"

definition icalvalue_set_binary :: "string \<Rightarrow> icalvalue \<Rightarrow> icalvalue option" where
  "icalvalue_set_binary x = set_data (V_string x)"

definition icalvalue_new_binary :: "string \<Rightarrow> icalvalue option" where
  "icalvalue_new_binary x = new_with ICAL_BINARY_VALUE (V_string x)"

definition icalvalue_get_binary :: "icalvalue \<Rightarrow> string option option" where
  "icalvalue_get_binary v = v_string (v_data v)"

definition icalvalue_set_uri :: "string \<Rightarrow> icalvalue \<Rightarrow> icalvalue option" where
  "icalvalue_set_uri x = set_data (V_string x)"

definition icalvalue_new_uri :: "string \<Rightarrow> icalvalue option" where
  "icalvalue_new_uri x = new_with ICAL_URI_VALUE (V_string x)"

definition icalvalue_get_uri :: "icalvalue \<Rightarrow> string option option" where
  "icalvalue_get_uri v = v_string (v_data v)"

definition icalvalue_set_caladdress :: "string \<Rightarrow> icalvalue \<Rightarrow> icalvalue option" where
  "icalvalue_set_caladdress x = set_data (V_string x)"

definition icalvalue_new_caladdress :: "string \<Rightarrow> icalvalue option" where
  "icalvalue_new_caladdress x = new_with ICAL_CALADDRESS_VALUE (V_string x)"

definition icalvalue_get_caladdress :: "icalvalue \<Rightarrow> string option option" where
  "icalvalue_get_caladdress v = v_string (v_data v)"

definition icalvalue_set_status :: "int \<Rightarrow> icalvalue \<Rightarrow> icalvalue option" where
  "icalvalue_set_status x = set_data (V_int x)"

definition icalvalue_new_status :: "int \<Rightarrow> icalvalue option" where
  "icalvalue_new_status x = new_with ICAL_STATUS_VALUE (V_int x)"

definition icalvalue_get_status :: "icalvalue \<Rightarrow> int option" where
  "icalvalue_get_status v = v_int (v_data v)"

definition icalvalue_set_transp :: "int \<Rightarrow> icalvalue \<Rightarrow> icalvalue option" where
  "icalvalue_set_transp x = set_data (V_int x)"

definition icalvalue_new_transp :: "int \<Rightarrow> icalvalue option" where
  "icalvalue_new_transp x = new_with ICAL_TRANSP_VALUE (V_int x)"

definition icalvalue_get_transp :: "icalvalue \<Rightarrow> int option" where
  "icalvalue_get_transp v = v_int (v_data v)"

definition icalvalue_set_cmd :: "int \<Rightarrow> icalvalue \<Rightarrow> icalvalue option" where
  "icalvalue_set_cmd x = set_data (V_int x)"

definition icalvalue_new_cmd :: "int \<Rightarrow> icalvalue option" where
  "icalvalue_new_cmd x = new_with ICAL_CMD_VALUE (V_int x)"

definition icalvalue_get_cmd :: "icalvalue \<Rightarrow> int option" where
  "icalvalue_get_cmd v = v_int (v_data v)"

definition icalvalue_set_querylevel :: "int \<Rightarrow> icalvalue \<Rightarrow> icalvalue option" where
  "icalvalue_set_querylevel x = set_data (V_int x)"

definition icalvalue_new_querylevel :: "int \<Rightarrow> icalvalue option" where
  "icalvalue_new_querylevel x = new_with ICAL_QUERYLEVEL_VALUE (V_int x)"

definition icalvalue_get_querylevel :: "icalvalue \<Rightarrow> int option" where
  "icalvalue_get_querylevel v = v_int (v_data v)"

definition icalvalue_set_carlevel :: "int \<Rightarrow> icalvalue \<Rightarrow> icalvalue option" where
  "icalvalue_set_carlevel x = set_data (V_int x)"

definition icalvalue_new_carlevel :: "int \<Rightarrow> icalvalue option" where
  "icalvalue_new_carlevel x = new_with ICAL_CARLEVEL_VALUE (V_int x)"

definition icalvalue_get_carlevel :: "icalvalue \<Rightarrow> int option" where
  "icalvalue_get_carlevel v = v_int (v_data v)"

definition icalvalue_set_xlicclass :: "int \<Rightarrow> icalvalue \<Rightarrow> icalvalue option" where
  "icalvalue_set_xlicclass x = set_data (V_int x)"

definition icalvalue_new_xlicclass :: "int \<Rightarrow> icalvalue option" where
  "icalvalue_new_xlicclass x = new_with ICAL_XLICCLASS_VALUE (V_int x)"

definition icalvalue_get_xlicclass :: "icalvalue \<Rightarrow> int option" where
  "icalvalue_get_xlicclass v = v_int (v_data v)"

definition icalvalue_set_action :: "int \<Rightarrow> icalvalue \<Rightarrow> icalvalue option" where
  "icalvalue_set_action x = set_data (V_int x)"

definition icalvalue_new_action :: "int \<Rightarrow> icalvalue option" where
  "icalvalue_new_action x = new_with ICAL_ACTION_VALUE (V_int x)"

definition icalvalue_get_action :: "icalvalue \<Rightarrow> int option" where
  "icalvalue_get_action v = v_int (v_data v)"

definition icalvalue_set_method :: "int \<Rightarrow> icalvalue \<Rightarrow> icalvalue option" where
  "icalvalue_set_method x = set_data (V_int x)"

definition icalvalue_new_method :: "int \<Rightarrow> icalvalue option" where
  "icalvalue_new_method x = new_with ICAL_METHOD_VALUE (V_int x)"

definition icalvalue_get_method :: "icalvalue \<Rightarrow> int option" where
  "icalvalue_get_method v = v_int (v_data v)"

definition icalvalue_set_integer :: "int \<Rightarrow> icalvalue \<Rightarrow> icalvalue option" where
  "icalvalue_set_integer x = set_data (V_int x)"

definition icalvalue_new_integer :: "int \<Rightarrow> icalvalue option" where
  "icalvalue_new_integer x = new_with ICAL_INTEGER_VALUE (V_int x)"

definition icalvalue_get_integer :: "icalvalue \<Rightarrow> int option" where
  "icalvalue_get_integer v = v_int (v_data v)"

definition icalvalue_set_boolean :: "int \<Rightarrow> icalvalue \<Rightarrow> icalvalue option" where
  "icalvalue_set_boolean x = set_data (V_int x)"

definition icalvalue_new_boolean :: "int \<Rightarrow> icalvalue option" where
  "icalvalue_new_boolean x = new_with ICAL_BOOLEAN_VALUE (V_int x)"

definition icalvalue_get_boolean :: "icalvalue \<Rightarrow> int option" where
  "icalvalue_get_boolean v = v_int (v_data v)"

definition icalvalue_set_utcoffset :: "int \<Rightarrow> icalvalue \<Rightarrow> icalvalue option" where
  "icalvalue_set_utcoffset x = set_data (V_int x)"

definition icalvalue_new_utcoffset :: "int \<Rightarrow> icalvalue option" where
  "icalvalue_new_utcoffset x = new_with ICAL_UTCOFFSET_VALUE (V_int x)"

definition icalvalue_get_utcoffset :: "icalvalue \<Rightarrow> int option" where
  "icalvalue_get_utcoffset v = v_int (v_data v)"

definition icalvalue_set_class :: "int \<Rightarrow> icalvalue \<Rightarrow> icalvalue option" where
  "icalvalue_set_class x = set_data (V_int x)"

definition icalvalue_new_class :: "int \<Rightarrow> icalvalue option" where
  "icalvalue_new_class x = new_with ICAL_CLASS_VALUE (V_int x)"

definition icalvalue_get_class :: "icalvalue \<Rightarrow> int option" where
  "icalvalue_get_class v = v_int (v_data v)"

definition icalvalue_set_date :: "icaltimetype \<Rightarrow> icalvalue \<Rightarrow> icalvalue option" where
  "icalvalue_set_date x = set_data (V_time x)"

definition icalvalue_new_date :: "icaltimetype \<Rightarrow> icalvalue option" where
  "icalvalue_new_date x = new_with ICAL_DATE_VALUE (V_time x)"

definition icalvalue_get_date :: "icalvalue \<Rightarrow> icaltimetype option" where
  "icalvalue_get_date v = v_time (v_data v)"

definition icalvalue_set_datetime :: "icaltimetype \<Rightarrow> icalvalue \<Rightarrow> icalvalue option" where
  "icalvalue_set_datetime x = set_data (V_time x)"

definition icalvalue_new_datetime :: "icaltimetype \<Rightarrow> icalvalue option" where
  "icalvalue_new_datetime x = new_with ICAL_DATETIME_VALUE (V_time x)"

definition icalvalue_get_datetime :: "icalvalue \<Rightarrow> icaltimetype option" where
  "icalvalue_get_datetime v = v_time (v_data v)"

definition icalvalue_set_requeststatus :: "icalreqstattype \<Rightarrow> icalvalue \<Rightarrow> icalvalue option" where
  "icalvalue_set_requeststatus x = set_data (V_requeststatus x)"

definition icalvalue_new_requeststatus :: "icalreqstattype \<Rightarrow> icalvalue option" where
  "icalvalue_new_requeststatus x = new_with ICAL_REQUESTSTATUS_VALUE (V_requeststatus x)"

definition icalvalue_get_requeststatus :: "icalvalue \<Rightarrow> icalreqstattype option" where
  "icalvalue_get_requeststatus v = v_requeststatus (v_data v)"

definition icalvalue_set_period :: "icalperiodtype \<Rightarrow> icalvalue \<Rightarrow> icalvalue option" where
  "icalvalue_set_period x = set_data (V_period x)"

definition icalvalue_new_period :: "icalperiodtype \<Rightarrow> icalvalue option" where
  "icalvalue_new_period x = new_with ICAL_PERIOD_VALUE (V_period x)"

definition icalvalue_get_period :: "icalvalue \<Rightarrow> icalperiodtype option" where
  "icalvalue_get_period v = v_period (v_data v)"

definition icalvalue_set_float :: "cfloat \<Rightarrow> icalvalue \<Rightarrow> icalvalue option" where
  "icalvalue_set_float x = set_data (V_float x)"

definition icalvalue_new_float :: "cfloat \<Rightarrow> icalvalue option" where
  "icalvalue_new_float x = new_with ICAL_FLOAT_VALUE (V_float x)"

definition icalvalue_get_float :: "icalvalue \<Rightarrow> cfloat option" where
  "icalvalue_get_float v = v_float (v_data v)"

definition icalvalue_set_duration :: "icaldurationtype \<Rightarrow> icalvalue \<Rightarrow> icalvalue option" where
  "icalvalue_set_duration x = set_data (V_duration x)"

definition icalvalue_new_duration :: "icaldurationtype \<Rightarrow> icalvalue option" where
  "icalvalue_new_duration x = new_with ICAL_DURATION_VALUE (V_duration x)"

definition icalvalue_get_duration :: "icalvalue \<Rightarrow> icaldurationtype option" where
  "icalvalue_get_duration v = v_duration (v_data v)"

definition icalvalue_set_geo :: "icalgeotype \<Rightarrow> icalvalue \<Rightarrow> icalvalue option" where
  "icalvalue_set_geo x = set_data (V_geo x)"

definition icalvalue_new_geo :: "icalgeotype \<Rightarrow> icalvalue option" where
  "icalvalue_new_geo x = new_with ICAL_GEO_VALUE (V_geo x)"

definition icalvalue_get_geo :: "icalvalue \<Rightarrow> icalgeotype option" where
  "icalvalue_get_geo v = v_geo (v_data v)"

text \<open>Values of other kinds are set in their own ways.\<close>

definition icalvalue_set_x :: "string \<Rightarrow> icalvalue \<Rightarrow> icalvalue" where
  "icalvalue_set_x s v = v\<lparr>v_x_value := Some s\<rparr>"

definition icalvalue_new_x :: "string \<Rightarrow> icalvalue option" where
  "icalvalue_new_x s = map_option (icalvalue_set_x s) (icalvalue_new_impl ICAL_X_VALUE)"

definition icalvalue_get_x :: "icalvalue \<Rightarrow> string option" where
  "icalvalue_get_x v = v_x_value v"

definition icalvalue_set_recur :: "icalrecurrencetype \<Rightarrow> icalvalue \<Rightarrow> icalvalue" where
  "icalvalue_set_recur r v = v\<lparr>v_data := V_recur r\<rparr>"

definition icalvalue_new_recur :: "icalrecurrencetype \<Rightarrow> icalvalue option" where
  "icalvalue_new_recur r = map_option (icalvalue_set_recur r) (icalvalue_new_impl ICAL_RECUR_VALUE)"

text \<open>A null rule is dereferenced.\<close>

definition icalvalue_get_recur :: "icalvalue \<Rightarrow> icalrecurrencetype option" where
  "icalvalue_get_recur v = Option.bind (v_recur (v_data v)) (\<lambda>r. r)"

definition icalvalue_set_trigger :: "icaltriggertype \<Rightarrow> icalvalue \<Rightarrow> icalvalue option" where
  "icalvalue_set_trigger tr v =
     (if \<not> icaltime_is_null_time (tr_time tr)
      then map_option (\<lambda>v1. v1\<lparr>v_kind := ICAL_DATETIME_VALUE\<rparr>) (icalvalue_set_datetime (tr_time tr) v)
      else map_option (\<lambda>v1. v1\<lparr>v_kind := ICAL_DURATION_VALUE\<rparr>) (icalvalue_set_duration (tr_duration tr) v))"

definition icalvalue_new_trigger :: "icaltriggertype \<Rightarrow> icalvalue option" where
  "icalvalue_new_trigger tr = Option.bind (icalvalue_new_impl ICAL_TRIGGER_VALUE) (icalvalue_set_trigger tr)"

definition icalvalue_get_trigger ::
    "icalvalue \<Rightarrow> icalerror_state \<Rightarrow> (icaltriggertype \<times> icalerror_state) option" where
  "icalvalue_get_trigger v es =
     (let tr = \<lparr>tr_time = icaltime_null_time, tr_duration = icaldurationtype_from_int 0\<rparr>
      in if v_kind v = ICAL_DATETIME_VALUE then map_option (\<lambda>t. (tr\<lparr>tr_time := t\<rparr>, es)) (v_time (v_data v))
         else if v_kind v = ICAL_DURATION_VALUE
         then map_option (\<lambda>d. (tr\<lparr>tr_duration := d\<rparr>, es)) (v_duration (v_data v))
         else map_option (\<lambda>es1. (tr, es1)) (icalerror_set_errno ICAL_BADARG_ERROR es))"

text \<open>A time or a period, of which one is null.\<close>

record icaldatetimeperiodtype =
  dtp_time :: icaltimetype
  dtp_period :: icalperiodtype

definition icalvalue_set_datetimeperiod ::
    "icaldatetimeperiodtype \<Rightarrow> icalvalue \<Rightarrow> icalerror_state \<Rightarrow> (icalvalue \<times> icalerror_state) option" where
  "icalvalue_set_datetimeperiod d v es =
     (let bad = map_option (\<lambda>es1. (v, es1)) (icalerror_set_errno ICAL_BADARG_ERROR es)
      in if \<not> icaltime_is_null_time (dtp_time d) then
           if \<not> icaltime_is_valid_time (dtp_time d) then bad
           else map_option (\<lambda>v1. (v1, es))
                  (icalvalue_set_datetime (dtp_time d) (v\<lparr>v_kind := ICAL_DATETIME_VALUE\<rparr>))
         else if \<not> icalperiodtype_is_null_period (dtp_period d) then
           if \<not> icalperiodtype_is_valid_period (dtp_period d) then bad
           else map_option (\<lambda>v1. (v1, es))
                  (icalvalue_set_period (dtp_period d) (v\<lparr>v_kind := ICAL_PERIOD_VALUE\<rparr>))
         else bad)"

definition icalvalue_new_datetimeperiod ::
    "icaldatetimeperiodtype \<Rightarrow> icalerror_state \<Rightarrow> (icalvalue \<times> icalerror_state) option" where
  "icalvalue_new_datetimeperiod d es = do {
     v \<leftarrow> icalvalue_new_impl ICAL_DATETIMEPERIOD_VALUE;
     icalvalue_set_datetimeperiod d v es }"

definition icalvalue_get_datetimeperiod ::
    "icalvalue \<Rightarrow> icalerror_state \<Rightarrow> (icaldatetimeperiodtype \<times> icalerror_state) option" where
  "icalvalue_get_datetimeperiod v es =
     (let d = \<lparr>dtp_time = icaltime_null_time, dtp_period = icalperiodtype_null_period\<rparr>
      in if v_kind v = ICAL_DATETIME_VALUE \<or> v_kind v = ICAL_DATE_VALUE
         then map_option (\<lambda>t. (d\<lparr>dtp_time := t\<rparr>, es)) (v_time (v_data v))
         else if v_kind v = ICAL_PERIOD_VALUE then map_option (\<lambda>p. (d\<lparr>dtp_period := p\<rparr>, es)) (v_period (v_data v))
         else map_option (\<lambda>es1. (d, es1)) (icalerror_set_errno ICAL_BADARG_ERROR es))"

definition icalvalue_set_attach :: "nat \<Rightarrow> icalvalue \<Rightarrow> value_env \<Rightarrow> (icalvalue \<times> value_env) option" where
  "icalvalue_set_attach a v env = do {
     env1 \<leftarrow> icalattach_ref a env;
     old \<leftarrow> v_attach (v_data v);
     env2 \<leftarrow> (case old of None \<Rightarrow> Some env1 | Some p \<Rightarrow> icalattach_unref p env1);
     Some (v\<lparr>v_data := V_attach a\<rparr>, env2) }"

definition icalvalue_new_attach :: "nat \<Rightarrow> value_env \<Rightarrow> (icalvalue \<times> value_env) option" where
  "icalvalue_new_attach a env = do { v \<leftarrow> icalvalue_new_impl ICAL_ATTACH_VALUE; icalvalue_set_attach a v env }"

definition icalvalue_get_attach :: "icalvalue \<Rightarrow> nat option option" where
  "icalvalue_get_attach v = v_attach (v_data v)"

end
