(* ===== verification/ValueText.thy ===== *)
theory ValueText
  imports IcalValue IcalScan
begin

text \<open>
  Values from and to text, their comparison, and the coding of text values:
  \<^verbatim>\<open>icalvalue.c\<close>.
\<close>

section \<open>Text values\<close>

definition BS :: char where "BS = char_of (8 :: nat)"
definition FF :: char where "FF = char_of (12 :: nat)"

text \<open>What a character behind a backslash stands for.\<close>

definition dequoted :: "char \<Rightarrow> char" where
  "dequoted c =
     (if c \<in> {CHR ''n'', CHR ''N''} then LF
      else if c \<in> {CHR ''t'', CHR ''T''} then TAB
      else if c \<in> {CHR ''r'', CHR ''R''} then CR
      else if c \<in> {CHR ''b'', CHR ''B''} then BS
      else if c \<in> {CHR ''f'', CHR ''F''} then FF
      else if c \<in> {CHR '';'', CHR '','', DQUOTE, BACKSLASH} then c
      else CHR '' '')"

text \<open>A backslash at the end of the text makes the loop run on behind the terminator.\<close>

fun icalmemory_strdup_and_dequote :: "string \<Rightarrow> string option" where
  "icalmemory_strdup_and_dequote [] = Some []"
| "icalmemory_strdup_and_dequote (c # cs) =
     (if c = BACKSLASH
      then (case cs of [] \<Rightarrow> None
            | e # r \<Rightarrow> map_option (\<lambda>s. dequoted e # s) (icalmemory_strdup_and_dequote r))
      else map_option (\<lambda>s. c # s) (icalmemory_strdup_and_dequote cs))"

text \<open>The printer's step for one character.\<close>

definition put_text_char :: "char \<Rightarrow> sbuf \<Rightarrow> sbuf option" where
  "put_text_char c b =
     (if c = LF then icalmemory_append_string b [BACKSLASH, CHR ''n'']
      else if c = TAB then icalmemory_append_string b [BACKSLASH, CHR ''t'']
      else if c = CR then icalmemory_append_string b [BACKSLASH, CHR ''r'']
      else if c = BS then icalmemory_append_string b [BACKSLASH, CHR ''b'']
      else if c = FF then icalmemory_append_string b [BACKSLASH, CHR ''f'']
      else if c \<in> {CHR '';'', CHR '','', DQUOTE, BACKSLASH}
      then Option.bind (icalmemory_append_char b BACKSLASH) (\<lambda>b1. icalmemory_append_char b1 c)
      else icalmemory_append_char b c)"

fun put_text_chars :: "string \<Rightarrow> sbuf \<Rightarrow> sbuf option" where
  "put_text_chars [] b = Some b"
| "put_text_chars (c # cs) b = Option.bind (put_text_char c b) (put_text_chars cs)"

definition icalvalue_text_as_ical_string_r :: "icalvalue \<Rightarrow> sbuf option" where
  "icalvalue_text_as_ical_string_r value = do {
     so \<leftarrow> v_string (v_data value);
     s \<leftarrow> so;
     b \<leftarrow> put_text_chars s (icalmemory_new_buffer (length s + 1));
     icalmemory_append_char b NUL }"

section \<open>Printing\<close>

definition icalvalue_binary_as_ical_string_r :: "icalvalue \<Rightarrow> string option" where
  "icalvalue_binary_as_ical_string_r value =
     Some (take 59 ''icalvalue_binary_as_ical_string is not implemented yet'')"

definition MAX_INT_DIGITS :: nat where "MAX_INT_DIGITS = 12"

definition icalvalue_int_as_ical_string_r :: "icalvalue \<Rightarrow> string option" where
  "icalvalue_int_as_ical_string_r value =
     map_option (\<lambda>i. take (MAX_INT_DIGITS - 1) (fmt_d i)) (icalvalue_get_integer value)"

definition icalvalue_utcoffset_as_ical_string_r :: "icalvalue \<Rightarrow> string option" where
  "icalvalue_utcoffset_as_ical_string_r value = do {
     v \<leftarrow> icalvalue_get_utcoffset value;
     let sign = (if \<bar>v\<bar> = v then CHR ''+'' else CHR ''-'');
     let h = c_div v 3600;
     let m = c_div (v - h * 3600) 60;
     let s = v - h * 3600 - m * 60;
     Some (take 8 (sign # (if s > 0 then fmt_0d 2 \<bar>h\<bar> @ fmt_0d 2 \<bar>m\<bar> @ fmt_0d 2 \<bar>s\<bar>
                           else fmt_0d 2 \<bar>h\<bar> @ fmt_0d 2 \<bar>m\<bar>))) }"

definition icalvalue_string_as_ical_string_r :: "icalvalue \<Rightarrow> string option" where
  "icalvalue_string_as_ical_string_r value = Option.bind (v_string (v_data value)) (\<lambda>so. so)"

text \<open>The result of a routine that may give a null pointer is an optional text beside the state.\<close>

definition icalvalue_recur_as_ical_string_r ::
    "icalvalue \<Rightarrow> icalerror_state \<Rightarrow> (string option \<times> icalerror_state) option" where
  "icalvalue_recur_as_ical_string_r value es = do {
     ro \<leftarrow> v_recur (v_data value);
     r \<leftarrow> ro;
     map_option (\<lambda>(b, es1). (map_option sb_text b, es1)) (icalrecurrencetype_as_string_r r es) }"

definition icalvalue_attach_as_ical_string_r ::
    "icalvalue \<Rightarrow> value_env \<Rightarrow> (string option \<times> value_env) option" where
  "icalvalue_attach_as_ical_string_r value env = do {
     ao \<leftarrow> icalvalue_get_attach value;
     (case ao of
        None \<Rightarrow> do {
          env1 \<leftarrow> env_errno ICAL_BADARG_ERROR env;
          env2 \<leftarrow> env_errno ICAL_BADARG_ERROR env1;
          None }
      | Some a \<Rightarrow> do {
          url \<leftarrow> icalattach_get_is_url a env;
          (s, env1) \<leftarrow> (if url then icalattach_get_url a env else icalattach_get_data a env);
          case s of None \<Rightarrow> None | Some t \<Rightarrow> Some (Some t, env1) }) }"

definition icalvalue_duration_as_ical_string_r :: "icalvalue \<Rightarrow> string option" where
  "icalvalue_duration_as_ical_string_r value = do {
     d \<leftarrow> icalvalue_get_duration value;
     b \<leftarrow> icaldurationtype_as_ical_string_r d;
     Some (sb_text b) }"

definition icalvalue_date_as_ical_string_r :: "icalvalue \<Rightarrow> string option" where
  "icalvalue_date_as_ical_string_r value = map_option print_date_to_string (icalvalue_get_date value)"

definition icalvalue_datetime_as_ical_string_r ::
    "icalvalue \<Rightarrow> icalerror_state \<Rightarrow> (string option \<times> icalerror_state) option" where
  "icalvalue_datetime_as_ical_string_r value es =
     (if \<not> (v_kind value = ICAL_DATE_VALUE \<or> v_kind value = ICAL_DATETIME_VALUE)
      then map_option (\<lambda>es1. (None, es1)) (icalerror_set_errno ICAL_BADARG_ERROR es)
      else map_option (\<lambda>t. (Some (print_datetime_to_string t), es)) (icalvalue_get_datetime value))"

definition icalvalue_float_as_ical_string_r :: "icalvalue \<Rightarrow> string option" where
  "icalvalue_float_as_ical_string_r value = map_option (\<lambda>f. take 39 (fmt_f f)) (icalvalue_get_float value)"

definition icalvalue_geo_as_ical_string_r :: "icalvalue \<Rightarrow> string option" where
  "icalvalue_geo_as_ical_string_r value =
     map_option (\<lambda>(lat, lon). take 79 (fmt_f lat @ '';'' @ fmt_f lon)) (icalvalue_get_geo value)"

definition icalvalue_period_as_ical_string_r :: "icalvalue \<Rightarrow> string option" where
  "icalvalue_period_as_ical_string_r value = do {
     p \<leftarrow> icalvalue_get_period value;
     b \<leftarrow> icalperiodtype_as_ical_string_r p;
     Some (sb_text b) }"

definition icalvalue_datetimeperiod_as_ical_string_r ::
    "icalvalue \<Rightarrow> icalerror_state \<Rightarrow> (string option \<times> icalerror_state) option" where
  "icalvalue_datetimeperiod_as_ical_string_r value es = do {
     (d, es1) \<leftarrow> icalvalue_get_datetimeperiod value es;
     if \<not> icaltime_is_null_time (dtp_time d) then Some (Some (icaltime_as_ical_string_r (dtp_time d)), es1)
     else map_option (\<lambda>b. (Some (sb_text b), es1)) (icalperiodtype_as_ical_string_r (dtp_period d)) }"

definition icalvalue_trigger_as_ical_string_r ::
    "icalvalue \<Rightarrow> icalerror_state \<Rightarrow> (string option \<times> icalerror_state) option" where
  "icalvalue_trigger_as_ical_string_r value es = do {
     (tr, es1) \<leftarrow> icalvalue_get_trigger value es;
     if \<not> icaltime_is_null_time (tr_time tr) then Some (Some (icaltime_as_ical_string_r (tr_time tr)), es1)
     else map_option (\<lambda>b. (Some (sb_text b), es1)) (icaldurationtype_as_ical_string_r (tr_duration tr)) }"

text \<open>A value of an enumeration; \<open>strdup\<close> of a null name is an access through a null pointer.\<close>

definition enum_as_string :: "icalvalue \<Rightarrow> icalerror_state \<Rightarrow> (string option \<times> icalerror_state) option" where
  "enum_as_string value es =
     (case v_x_value value of
        Some x \<Rightarrow> Some (Some x, es)
      | None \<Rightarrow> do {
          e \<leftarrow> v_int (v_data value);
          (so, es1) \<leftarrow> icalproperty_enum_to_string e es;
          s \<leftarrow> so;
          Some (Some s, es1) })"

definition pure_text :: "string option \<Rightarrow> value_env \<Rightarrow> (string option \<times> value_env) option" where
  "pure_text t env = map_option (\<lambda>s. (Some s, env)) t"

definition icalvalue_as_ical_string_r ::
    "icalvalue option \<Rightarrow> value_env \<Rightarrow> (string option \<times> value_env) option" where
  "icalvalue_as_ical_string_r vo env =
     (case vo of
        None \<Rightarrow> Some (None, env)
      | Some value \<Rightarrow>
         (case v_kind value of
            ICAL_ATTACH_VALUE \<Rightarrow> icalvalue_attach_as_ical_string_r value env
          | ICAL_BINARY_VALUE \<Rightarrow> pure_text (icalvalue_binary_as_ical_string_r value) env
          | ICAL_BOOLEAN_VALUE \<Rightarrow> pure_text (icalvalue_int_as_ical_string_r value) env
          | ICAL_INTEGER_VALUE \<Rightarrow> pure_text (icalvalue_int_as_ical_string_r value) env
          | ICAL_UTCOFFSET_VALUE \<Rightarrow> pure_text (icalvalue_utcoffset_as_ical_string_r value) env
          | ICAL_TEXT_VALUE \<Rightarrow> pure_text (map_option sb_text (icalvalue_text_as_ical_string_r value)) env
          | ICAL_QUERY_VALUE \<Rightarrow> pure_text (icalvalue_string_as_ical_string_r value) env
          | ICAL_STRING_VALUE \<Rightarrow> pure_text (icalvalue_string_as_ical_string_r value) env
          | ICAL_URI_VALUE \<Rightarrow> pure_text (icalvalue_string_as_ical_string_r value) env
          | ICAL_CALADDRESS_VALUE \<Rightarrow> pure_text (icalvalue_string_as_ical_string_r value) env
          | ICAL_DATE_VALUE \<Rightarrow> pure_text (icalvalue_date_as_ical_string_r value) env
          | ICAL_DATETIME_VALUE \<Rightarrow> with_errs (icalvalue_datetime_as_ical_string_r value) env
          | ICAL_DURATION_VALUE \<Rightarrow> pure_text (icalvalue_duration_as_ical_string_r value) env
          | ICAL_PERIOD_VALUE \<Rightarrow> pure_text (icalvalue_period_as_ical_string_r value) env
          | ICAL_DATETIMEPERIOD_VALUE \<Rightarrow> with_errs (icalvalue_datetimeperiod_as_ical_string_r value) env
          | ICAL_FLOAT_VALUE \<Rightarrow> pure_text (icalvalue_float_as_ical_string_r value) env
          | ICAL_GEO_VALUE \<Rightarrow> pure_text (icalvalue_geo_as_ical_string_r value) env
          | ICAL_RECUR_VALUE \<Rightarrow> with_errs (icalvalue_recur_as_ical_string_r value) env
          | ICAL_TRIGGER_VALUE \<Rightarrow> with_errs (icalvalue_trigger_as_ical_string_r value) env
          | ICAL_REQUESTSTATUS_VALUE \<Rightarrow>
              Option.bind (v_requeststatus (v_data value)) (\<lambda>st. with_errs (icalreqstattype_as_string_r st) env)
          | ICAL_ACTION_VALUE \<Rightarrow> with_errs (enum_as_string value) env
          | ICAL_CMD_VALUE \<Rightarrow> with_errs (enum_as_string value) env
          | ICAL_QUERYLEVEL_VALUE \<Rightarrow> with_errs (enum_as_string value) env
          | ICAL_CARLEVEL_VALUE \<Rightarrow> with_errs (enum_as_string value) env
          | ICAL_METHOD_VALUE \<Rightarrow> with_errs (enum_as_string value) env
          | ICAL_STATUS_VALUE \<Rightarrow> with_errs (enum_as_string value) env
          | ICAL_TRANSP_VALUE \<Rightarrow> with_errs (enum_as_string value) env
          | ICAL_CLASS_VALUE \<Rightarrow> with_errs (enum_as_string value) env
          | ICAL_X_VALUE \<Rightarrow> Some (v_x_value value, env)
          | _ \<Rightarrow> Some (None, env)))"

section \<open>Parsing\<close>

text \<open>
  The number at the start of a text and the text behind it, or no number. The number is
  copied to a buffer of 101 bytes with the length of the number and of the white space
  before it, so white space makes the loop read and write too far.
\<close>

definition number_char :: "char \<Rightarrow> bool" where
  "number_char c \<longleftrightarrow> is_digit c \<or> c \<in> {CHR ''.'', CHR ''+'', CHR ''-''}"

definition simple_str_to_float :: "string \<Rightarrow> (cfloat \<times> string) option option" where
  "simple_str_to_float s =
     (let start = dropWhile is_space s;
          num = takeWhile number_char start;
          n = (length s - length start) + length num
      in if length num + 1 > 100 then Some None
         else if n > 101 \<or> n > length start + 1 \<or> (n = 101 \<and> length start > 100) then None
         else map_option (\<lambda>f. Some (f, dropWhile number_char start)) (atof_float (take n start)))"

definition geo_from_string :: "string \<Rightarrow> icalgeotype option option" where
  "geo_from_string str = do {
     lat \<leftarrow> simple_str_to_float str;
     case lat of
       None \<Rightarrow> Some None
     | Some (la, cur) \<Rightarrow>
         (case dropWhile is_space cur of
            [] \<Rightarrow> Some None
          | c # r \<Rightarrow>
              if c \<noteq> CHR '';'' then Some None
              else map_option (map_option (\<lambda>(lo, _). (la, lo))) (simple_str_to_float (dropWhile is_space r))) }"

definition utcoffset_from_string :: "string \<Rightarrow> int" where
  "utcoffset_from_string str =
     (let t0 = to_int32 (fst (strtol str));
          t = (if \<bar>t0\<bar> < 9999 then t0 * 100 else t0);
          hours = c_div t 10000;
          minutes = c_div (t - hours * 10000) 100;
          seconds = t - hours * 10000 - minutes * 100
      in hours * 3600 + minutes * 60 + seconds)"

definition ICAL_ACTION_X :: int where "ICAL_ACTION_X = 10000"
definition ICAL_CARLEVEL_X :: int where "ICAL_CARLEVEL_X = 10006"
definition ICAL_CLASS_X :: int where "ICAL_CLASS_X = 10011"
definition ICAL_CMD_X :: int where "ICAL_CMD_X = 10016"
definition ICAL_QUERYLEVEL_X :: int where "ICAL_QUERYLEVEL_X = 10047"
definition ICAL_TRANSP_X :: int where "ICAL_TRANSP_X = 10061"

definition icalvalue_new_enum :: "icalvalue_kind \<Rightarrow> int \<Rightarrow> string \<Rightarrow> icalvalue option" where
  "icalvalue_new_enum kind x_type str =
     (let e = icalproperty_kind_and_string_to_enum kind str
      in if e \<noteq> 0 \<and> icalproperty_enum_belongs_to_property (icalproperty_value_kind_to_kind kind) e
         then map_option (\<lambda>v. v\<lparr>v_data := V_int e\<rparr>) (icalvalue_new_impl kind)
         else map_option (\<lambda>v. icalvalue_set_x str (v\<lparr>v_data := V_int x_type\<rparr>)) (icalvalue_new_impl kind))"

text \<open>A new value from a text that names an attachment, by address or by content.\<close>

definition value_of_attach :: "nat \<times> value_env \<Rightarrow> (icalvalue option \<times> value_env) option" where
  "value_of_attach p = do {
     (v, env1) \<leftarrow> icalvalue_new_attach (fst p) (snd p);
     env2 \<leftarrow> icalattach_unref (fst p) env1;
     Some (Some v, env2) }"

definition value_of_time :: "icalvalue_kind \<Rightarrow> icaltimetype \<Rightarrow> icalvalue option option" where
  "value_of_time kind tt =
     (if icaltime_is_null_time tt then Some None
      else do {
        v \<leftarrow> icalvalue_new_impl kind;
        map_option Some (icalvalue_reset_kind (v\<lparr>v_data := V_time tt\<rparr>)) })"

text \<open>
  \<open>icalvalue_new_from_string\<close> passes no place for an error property, so an error is only that
  no value comes back.
\<close>

definition pure_value :: "icalvalue option \<Rightarrow> value_env \<Rightarrow> (icalvalue option \<times> value_env) option" where
  "pure_value v env = Some (v, env)"

definition icalvalue_new_from_string ::
    "icalvalue_kind \<Rightarrow> string \<Rightarrow> value_env \<Rightarrow> (icalvalue option \<times> value_env) option" where
  "icalvalue_new_from_string kind str env =
     (case kind of
        ICAL_ATTACH_VALUE \<Rightarrow> value_of_attach (icalattach_new_from_url str env)
      | ICAL_BINARY_VALUE \<Rightarrow> value_of_attach (icalattach_new_from_data str env)
      | ICAL_TRANSP_VALUE \<Rightarrow> pure_value (icalvalue_new_enum kind ICAL_TRANSP_X str) env
      | ICAL_METHOD_VALUE \<Rightarrow> pure_value (icalvalue_new_enum kind ICAL_METHOD_X str) env
      | ICAL_STATUS_VALUE \<Rightarrow> pure_value (icalvalue_new_enum kind ICAL_STATUS_X str) env
      | ICAL_ACTION_VALUE \<Rightarrow> pure_value (icalvalue_new_enum kind ICAL_ACTION_X str) env
      | ICAL_QUERY_VALUE \<Rightarrow> pure_value (icalvalue_new_query str) env
      | ICAL_CLASS_VALUE \<Rightarrow> pure_value (icalvalue_new_enum kind ICAL_CLASS_X str) env
      | ICAL_CMD_VALUE \<Rightarrow> pure_value (icalvalue_new_enum kind ICAL_CMD_X str) env
      | ICAL_QUERYLEVEL_VALUE \<Rightarrow> pure_value (icalvalue_new_enum kind ICAL_QUERYLEVEL_X str) env
      | ICAL_CARLEVEL_VALUE \<Rightarrow> pure_value (icalvalue_new_enum kind ICAL_CARLEVEL_X str) env
      | ICAL_INTEGER_VALUE \<Rightarrow> pure_value (icalvalue_new_integer (atoi str)) env
      | ICAL_FLOAT_VALUE \<Rightarrow> Option.bind (atof_float str) (\<lambda>f. pure_value (icalvalue_new_float f) env)
      | ICAL_UTCOFFSET_VALUE \<Rightarrow> pure_value (icalvalue_new_utcoffset (utcoffset_from_string str)) env
      | ICAL_TEXT_VALUE \<Rightarrow>
          Option.bind (icalmemory_strdup_and_dequote str) (\<lambda>s. pure_value (icalvalue_new_text s) env)
      | ICAL_STRING_VALUE \<Rightarrow> pure_value (icalvalue_new_string str) env
      | ICAL_CALADDRESS_VALUE \<Rightarrow> pure_value (icalvalue_new_caladdress str) env
      | ICAL_URI_VALUE \<Rightarrow> pure_value (icalvalue_new_uri str) env
      | ICAL_GEO_VALUE \<Rightarrow>
          Option.bind (geo_from_string str)
            (\<lambda>g. pure_value (case g of None \<Rightarrow> None | Some p \<Rightarrow> icalvalue_new_geo p) env)
      | ICAL_RECUR_VALUE \<Rightarrow> do {
          (rt, env1) \<leftarrow> with_errs (icalrecurrencetype_from_string str) env;
          pure_value (if r_freq rt \<noteq> ICAL_NO_RECURRENCE then icalvalue_new_recur rt else None) env1 }
      | ICAL_DATE_VALUE \<Rightarrow> do {
          (tt, env1) \<leftarrow> with_errs (icaltime_from_string str) env;
          v \<leftarrow> value_of_time kind tt;
          Some (v, env1) }
      | ICAL_DATETIME_VALUE \<Rightarrow> do {
          (tt, env1) \<leftarrow> with_errs (icaltime_from_string str) env;
          v \<leftarrow> value_of_time kind tt;
          Some (v, env1) }
      | ICAL_DATETIMEPERIOD_VALUE \<Rightarrow> do {
          (tt, env1) \<leftarrow> with_errs (icaltime_from_string str) env;
          if \<not> icaltime_is_null_time tt then pure_value (icalvalue_new_datetime tt) env1
          else do {
            (p, env2) \<leftarrow> with_errs (icalperiodtype_from_string str) env1;
            pure_value (if \<not> icalperiodtype_is_null_period p then icalvalue_new_period p else None) env2 } }
      | ICAL_DURATION_VALUE \<Rightarrow> do {
          (d, env1) \<leftarrow> with_errs (icaldurationtype_from_string str) env;
          pure_value (if \<not> icaldurationtype_is_bad_duration d then icalvalue_new_duration d else None) env1 }
      | ICAL_PERIOD_VALUE \<Rightarrow> do {
          (p, env1) \<leftarrow> with_errs (icalperiodtype_from_string str) env;
          pure_value (if \<not> icalperiodtype_is_null_period p then icalvalue_new_period p else None) env1 }
      | ICAL_TRIGGER_VALUE \<Rightarrow> do {
          (tr, env1) \<leftarrow> with_errs (icaltriggertype_from_string str) env;
          pure_value (if \<not> icaltriggertype_is_bad_trigger tr then icalvalue_new_trigger tr else None) env1 }
      | ICAL_REQUESTSTATUS_VALUE \<Rightarrow> do {
          (st, env1) \<leftarrow> with_errs (icalreqstattype_from_string str) env;
          pure_value (if rs_code st \<noteq> ICAL_UNKNOWN_STATUS then icalvalue_new_requeststatus st else None) env1 }
      | ICAL_X_VALUE \<Rightarrow>
          Option.bind (icalmemory_strdup_and_dequote str) (\<lambda>s. pure_value (icalvalue_new_x s) env)
      | _ \<Rightarrow> Some (None, env))"

section \<open>Comparison\<close>

definition ICAL_XLICCOMPARETYPE_EQUAL :: int where "ICAL_XLICCOMPARETYPE_EQUAL = 20078"
definition ICAL_XLICCOMPARETYPE_NOTEQUAL :: int where "ICAL_XLICCOMPARETYPE_NOTEQUAL = 20079"
definition ICAL_XLICCOMPARETYPE_LESS :: int where "ICAL_XLICCOMPARETYPE_LESS = 20080"
definition ICAL_XLICCOMPARETYPE_GREATER :: int where "ICAL_XLICCOMPARETYPE_GREATER = 20081"

lemmas compare_types = ICAL_XLICCOMPARETYPE_EQUAL_def ICAL_XLICCOMPARETYPE_NOTEQUAL_def
  ICAL_XLICCOMPARETYPE_LESS_def ICAL_XLICCOMPARETYPE_GREATER_def

text \<open>\<open>strcmp\<close>: the sign of the difference at the first place where the texts differ.\<close>

fun c_strcmp :: "string \<Rightarrow> string \<Rightarrow> int" where
  "c_strcmp [] [] = 0"
| "c_strcmp [] (y # ys) = - 1"
| "c_strcmp (x # xs) [] = 1"
| "c_strcmp (x # xs) (y # ys) =
     (if x = y then c_strcmp xs ys else if (of_char x :: nat) < of_char y then - 1 else 1)"

definition icalvalue_is_time :: "icalvalue \<Rightarrow> bool" where
  "icalvalue_is_time a \<longleftrightarrow> v_kind a = ICAL_DATETIME_VALUE \<or> v_kind a = ICAL_DATE_VALUE"

definition order_result :: "bool \<Rightarrow> bool \<Rightarrow> int" where
  "order_result gt lt =
     (if gt then ICAL_XLICCOMPARETYPE_GREATER
      else if lt then ICAL_XLICCOMPARETYPE_LESS else ICAL_XLICCOMPARETYPE_EQUAL)"

definition equal_result :: "bool \<Rightarrow> int" where
  "equal_result eq = (if eq then ICAL_XLICCOMPARETYPE_EQUAL else ICAL_XLICCOMPARETYPE_NOTEQUAL)"

definition compare_attaches :: "icalvalue \<Rightarrow> icalvalue \<Rightarrow> value_env \<Rightarrow> (int \<times> value_env) option" where
  "compare_attaches a b env = do {
     ao \<leftarrow> v_attach (v_data a);
     bo \<leftarrow> v_attach (v_data b);
     (ua, env1) \<leftarrow> (case ao of None \<Rightarrow> map_option (\<lambda>e. (False, e)) (env_errno ICAL_BADARG_ERROR env)
                     | Some p \<Rightarrow> map_option (\<lambda>u. (u, env)) (icalattach_get_is_url p env));
     (ub, env2) \<leftarrow> (if \<not> ua then Some (False, env1)
                     else case bo of None \<Rightarrow> map_option (\<lambda>e. (False, e)) (env_errno ICAL_BADARG_ERROR env1)
                     | Some p \<Rightarrow> map_option (\<lambda>u. (u, env1)) (icalattach_get_is_url p env1));
     if ua \<and> ub then do {
       (sa, env3) \<leftarrow> icalattach_get_url (the ao) env2;
       (sb, env4) \<leftarrow> icalattach_get_url (the bo) env3;
       x \<leftarrow> sa;
       y \<leftarrow> sb;
       Some (equal_result (strcaseeq x y), env4) }
     else Some (equal_result (ao = bo), env2) }"

text \<open>Values that are compared by the order of their texts.\<close>

definition compare_texts :: "icalvalue \<Rightarrow> icalvalue \<Rightarrow> value_env \<Rightarrow> (int \<times> value_env) option" where
  "compare_texts a b env = do {
     (t1, env1) \<leftarrow> icalvalue_as_ical_string_r (Some a) env;
     (t2, env2) \<leftarrow> icalvalue_as_ical_string_r (Some b) env1;
     x \<leftarrow> t1;
     y \<leftarrow> t2;
     Some (order_result (c_strcmp x y > 0) (c_strcmp x y < 0), env2) }"

definition compare_by :: "(icalvalue_data \<Rightarrow> 'x option) \<Rightarrow> ('x \<Rightarrow> 'x \<Rightarrow> int) \<Rightarrow> icalvalue \<Rightarrow> icalvalue
      \<Rightarrow> value_env \<Rightarrow> (int \<times> value_env) option" where
  "compare_by member f a b env = do {
     x \<leftarrow> member (v_data a);
     y \<leftarrow> member (v_data b);
     Some (f x y, env) }"

text \<open>Zero, which is no result of the enumeration, is returned for kinds that cannot be compared.\<close>

definition icalvalue_compare :: "icalvalue \<Rightarrow> icalvalue \<Rightarrow> value_env \<Rightarrow> (int \<times> value_env) option" where
  "icalvalue_compare a b env =
     (if \<not> (icalvalue_is_time a \<and> icalvalue_is_time b) \<and> v_kind a \<noteq> v_kind b
      then Some (ICAL_XLICCOMPARETYPE_NOTEQUAL, env)
      else let k = v_kind a
      in if k = ICAL_ATTACH_VALUE then compare_attaches a b env
         else if k = ICAL_BINARY_VALUE then compare_by v_attach (\<lambda>x y. equal_result (x = y)) a b env
         else if k = ICAL_BOOLEAN_VALUE then compare_by v_int (\<lambda>x y. equal_result (x = y)) a b env
         else if k = ICAL_FLOAT_VALUE
         then compare_by v_float (\<lambda>x y. order_result (float_val x > float_val y) (float_val x < float_val y)) a b env
         else if k = ICAL_INTEGER_VALUE \<or> k = ICAL_UTCOFFSET_VALUE
         then compare_by v_int (\<lambda>x y. order_result (x > y) (x < y)) a b env
         else if k = ICAL_DURATION_VALUE
         then compare_by v_duration (\<lambda>x y. order_result
                (icaldurationtype_as_int x > icaldurationtype_as_int y)
                (icaldurationtype_as_int x < icaldurationtype_as_int y)) a b env
         else if k \<in> {ICAL_TEXT_VALUE, ICAL_URI_VALUE, ICAL_CALADDRESS_VALUE, ICAL_TRIGGER_VALUE, ICAL_DATE_VALUE,
                      ICAL_DATETIME_VALUE, ICAL_DATETIMEPERIOD_VALUE, ICAL_QUERY_VALUE, ICAL_RECUR_VALUE}
         then compare_texts a b env
         else if k \<in> {ICAL_METHOD_VALUE, ICAL_STATUS_VALUE, ICAL_TRANSP_VALUE, ICAL_ACTION_VALUE}
         then compare_by v_int (\<lambda>x y. equal_result (x = y)) a b env
         else Some (0, env))"

section \<open>Coding of texts\<close>

text \<open>
  The result 0 is \<open>None\<close>, the result 1 the text written to the caller's buffer of
  \<open>nMaxBufferLen\<close> bytes.
\<close>

definition icalvalue_encode_ical_string ::
    "string \<Rightarrow> int \<Rightarrow> value_env \<Rightarrow> (string option \<times> value_env) option" where
  "icalvalue_encode_ical_string szText nMaxBufferLen env = do {
     (vo, env1) \<leftarrow> icalvalue_new_from_string ICAL_STRING_VALUE szText env;
     case vo of
       None \<Rightarrow> Some (None, env1)
     | Some value \<Rightarrow> do {
         b \<leftarrow> icalvalue_text_as_ical_string_r value;
         let ptr = sb_text b;
         Some (if int (length ptr) \<ge> nMaxBufferLen then None else Some ptr, env1) } }"

text \<open>
  The character behind a backslash is taken as it is. A backslash at the end makes the loop
  run on behind the terminator. The buffer for an empty text has the recorded size zero,
  which \<open>icalmemory_append_char\<close> refuses. A text as long as the buffer is copied with its
  terminator behind the buffer.
\<close>

fun strip_backslashes :: "string \<Rightarrow> string option" where
  "strip_backslashes [] = Some []"
| "strip_backslashes (c # cs) =
     (if c = BACKSLASH then (case cs of [] \<Rightarrow> None | e # r \<Rightarrow> map_option (\<lambda>s. e # s) (strip_backslashes r))
      else map_option (\<lambda>s. c # s) (strip_backslashes cs))"

definition icalvalue_decode_ical_string ::
    "string \<Rightarrow> int \<Rightarrow> icalerror_state \<Rightarrow> (string option \<times> icalerror_state) option" where
  "icalvalue_decode_ical_string szText nMaxBufferLen es0 = do {
     s \<leftarrow> strip_backslashes szText;
     es \<leftarrow> (if szText = [] then icalerror_set_errno ICAL_BADARG_ERROR es0 else Some es0);
     if int (length s) > nMaxBufferLen then Some (None, es)
     else if int (length s) = nMaxBufferLen then None
     else Some (Some s, es) }"

end
