(* ===== verification/ValueLaws.thy ===== *)
theory ValueLaws
  imports ValueText
begin

text \<open>What the printing and the parsing of values do: texts and offsets from UTC.\<close>

section \<open>Texts\<close>

text \<open>What the printer writes for a character.\<close>

definition quoted :: "char \<Rightarrow> string" where
  "quoted c =
     (if c = LF then [BACKSLASH, CHR ''n''] else if c = TAB then [BACKSLASH, CHR ''t'']
      else if c = CR then [BACKSLASH, CHR ''r''] else if c = BS then [BACKSLASH, CHR ''b'']
      else if c = FF then [BACKSLASH, CHR ''f'']
      else if c \<in> {CHR '';'', CHR '','', DQUOTE, BACKSLASH} then [BACKSLASH, c] else [c])"

definition quote_text :: "string \<Rightarrow> string" where
  "quote_text s = concat (map quoted s)"

lemma quote_text_simps [simp]: "quote_text [] = []" "quote_text (c # s) = quoted c @ quote_text s"
  by (simp_all add: quote_text_def)

lemma special_codes:
  "c = BACKSLASH \<longleftrightarrow> (of_char c :: nat) = 92" "c = DQUOTE \<longleftrightarrow> (of_char c :: nat) = 34"
  "c = BS \<longleftrightarrow> (of_char c :: nat) = 8" "c = FF \<longleftrightarrow> (of_char c :: nat) = 12"
  by (auto simp: BACKSLASH_def DQUOTE_def BS_def FF_def) (metis char_of_char)+

lemma dequoted_values:
  "dequoted (CHR ''n'') = LF" "dequoted (CHR ''t'') = TAB" "dequoted (CHR ''r'') = CR"
  "dequoted (CHR ''b'') = BS" "dequoted (CHR ''f'') = FF" "dequoted (CHR '';'') = CHR '';''"
  "dequoted (CHR '','') = CHR '',''" "dequoted DQUOTE = DQUOTE" "dequoted BACKSLASH = BACKSLASH"
  by code_simp+

lemma nul_free_quoted: "c \<noteq> NUL \<Longrightarrow> nul_free (quoted c)"
  by (auto simp: quoted_def nul_free_codes special_codes NUL_iff BACKSLASH_def)

lemma writes_text_char: "c \<noteq> NUL \<Longrightarrow> icm.writes (put_text_char c) (quoted c)"
proof -
  assume c: "c \<noteq> NUL"
  have b: "BACKSLASH \<noteq> NUL" by (simp add: NUL_iff BACKSLASH_def)
  have "icm.writes (\<lambda>b. Option.bind (icalmemory_append_char b BACKSLASH) (\<lambda>b1. icalmemory_append_char b1 c))
    ([BACKSLASH] @ [c])"
    by (intro icm.writes_seq icm.writes_char b c)
  moreover have "icm.writes (\<lambda>b. icalmemory_append_string b [BACKSLASH, x]) [BACKSLASH, x]" if "(of_char x :: nat) \<noteq> 0" for x
    using that by (intro icm.writesI) (simp add: BACKSLASH_def)
  ultimately show ?thesis
    using icm.writes_char [OF c] unfolding put_text_char_def [abs_def] quoted_def by (simp only: if_split) auto
qed

lemma writes_text_chars: "nul_free s \<Longrightarrow> icm.writes (put_text_chars s) (quote_text s)"
proof (induction s)
  case Nil
  show ?case using icm.writes_skip by (simp add: put_text_chars.simps [abs_def])
next
  case (Cons c s)
  then have "c \<noteq> NUL" "nul_free s" by (simp_all add: NUL_iff)
  from icm.writes_seq [OF writes_text_char [OF this(1)] Cons.IH [OF this(2)]] show ?case
    by (simp add: put_text_chars.simps [abs_def])
qed

lemma text_as_string:
  assumes "v_data v = V_string s" "nul_free s"
  shows "\<exists>b. icalvalue_text_as_ical_string_r v = Some b \<and> sb_text b = quote_text s"
proof -
  from icm.writesD [OF writes_text_chars [OF assms(2)]] new_buffer_ok [of "length s + 1"] obtain b where
    b: "put_text_chars s (icalmemory_new_buffer (length s + 1)) = Some b" "sb_ok b" "sb_text b = quote_text s"
    by fastforce
  from append_NUL [OF b(2)] b assms(1) show ?thesis
    by (fastforce simp: icalvalue_text_as_ical_string_r_def v_string_def)
qed

lemma dequote_quoted:
  "icalmemory_strdup_and_dequote (quoted c @ s) = map_option (\<lambda>t. c # t) (icalmemory_strdup_and_dequote s)"
  by (auto simp: quoted_def dequoted_values)

lemma dequote_quote: "icalmemory_strdup_and_dequote (quote_text s) = Some s"
  by (induction s) (simp_all add: dequote_quoted)


section \<open>Names of enumerated values\<close>

definition not_lower :: "char \<Rightarrow> bool" where
  "not_lower c \<longleftrightarrow> \<not> (97 \<le> (of_char c :: nat) \<and> (of_char c :: nat) \<le> 122)"

text \<open>The table: upper case names, codes in order, properties in order, names of a property distinct.\<close>

lemma enum_names_upper: "list_all (\<lambda>(_, _, n). list_all not_lower n \<and> (n = [] \<or> hd n \<noteq> CHR '' '')) enum_map"
  by code_simp

lemma enum_codes: "list_all (\<lambda>(i, (p, e, n)). e = 10000 + int i) (List.enumerate 0 enum_entries)"
  by code_simp

lemma enum_sorted: "sorted (map fst enum_entries)"
  by code_simp

lemma enum_distinct: "distinct (map (\<lambda>(p, e, n). (p, n)) (filter (\<lambda>(p, e, n). n \<noteq> []) enum_entries))"
  by code_simp

lemma enum_entries_count: "length enum_entries = 96" "length enum_map = 97"
  by code_simp+

lemma to_lower_inj: "not_lower a \<Longrightarrow> not_lower b \<Longrightarrow> to_lower a = to_lower b \<longleftrightarrow> a = b"
proof -
  assume ab: "not_lower a" "not_lower b"
  have c: "(of_char (to_lower x) :: nat) =
      (if 65 \<le> (of_char x :: nat) \<and> (of_char x :: nat) \<le> 90 then of_char x + 32 else of_char x)" for x
    by (auto simp: to_lower_def)
  have "(of_char a :: nat) = of_char b" if "to_lower a = to_lower b"
  proof -
    from that have "(of_char (to_lower a) :: nat) = of_char (to_lower b)" by simp
    then show ?thesis using ab unfolding c not_lower_def by presburger
  qed
  then show ?thesis by (metis char_of_char)
qed

lemma strcaseeq_upper:
  "\<forall>c \<in> set a. not_lower c \<Longrightarrow> \<forall>c \<in> set b. not_lower c \<Longrightarrow> strcaseeq a b \<longleftrightarrow> a = b"
  unfolding strcaseeq_def
proof (induction a arbitrary: b)
  case (Cons x a)
  then show ?case by (cases b) (auto simp: to_lower_inj)
qed auto

lemma find_first: "\<forall>u \<in> set us. \<not> P u \<Longrightarrow> P x \<Longrightarrow> List.find P (us @ x # vs) = Some x"
  by (induction us) auto

lemma dropWhile_sorted:
  "sorted (map fst us) \<Longrightarrow> \<forall>u \<in> set us. fst u \<le> a \<Longrightarrow> \<forall>u \<in> set (dropWhile (\<lambda>e. fst e \<noteq> a) us). fst u = a"
proof (induction us)
  case (Cons u us)
  show ?case
  proof (cases "fst u = a")
    case True
    have "fst w = a" if "w \<in> set us" for w
    proof (rule antisym)
      show "fst w \<le> a" using Cons.prems(2) that by simp
      show "a \<le> fst w" using Cons.prems(1) that True by simp
    qed
    with True show ?thesis by simp
  next
    case False
    then have "dropWhile (\<lambda>e. fst e \<noteq> a) (u # us) = dropWhile (\<lambda>e. fst e \<noteq> a) us" by simp
    moreover have "\<forall>w \<in> set (dropWhile (\<lambda>e. fst e \<noteq> a) us). fst w = a"
      using Cons.prems by (intro Cons.IH) simp_all
    ultimately show ?thesis by (simp only:)
  qed
qed simp

lemma enum_entry_in_map: "x \<in> set enum_entries \<Longrightarrow> x \<in> set enum_map"
  unfolding enum_entries_def by (rule in_set_takeD)

text \<open>The name of an entry is found as that entry, from the first entry of its property on.\<close>

lemma enum_lookup:
  assumes x: "(p, e, n) \<in> set enum_entries" and n: "n \<noteq> []"
  shows "List.find (\<lambda>(_, _, name). strcaseeq name n) (dropWhile (\<lambda>x. fst x \<noteq> p) enum_entries) = Some (p, e, n)"
proof -
  obtain us vs where s: "enum_entries = us @ (p, e, n) # vs" using x by (meson split_list)
  have upper: "\<forall>c \<in> set m. not_lower c" if "(q, f, m) \<in> set enum_entries" for q f m
    using enum_entry_in_map [OF that] enum_names_upper by (auto simp: list_all_iff)
  have "sorted (map fst (us @ [(p, e, n)]))" using enum_sorted unfolding s by (simp add: sorted_append)
  then have blk: "\<forall>u \<in> set (dropWhile (\<lambda>x. fst x \<noteq> p) us). fst u = p"
    by (intro dropWhile_sorted) (simp_all add: sorted_append)
  have "\<not> strcaseeq m n" if "(q, f, m) \<in> set (dropWhile (\<lambda>x. fst x \<noteq> p) us)" for q f m
  proof
    assume eq: "strcaseeq m n"
    have q: "q = p" using bspec [OF blk that] by simp
    have i: "(q, f, m) \<in> set us" using that by (rule set_dropWhileD)
    then have "(q, f, m) \<in> set enum_entries" unfolding s by simp
    then have m: "m = n" using strcaseeq_upper [of m n] upper [OF x] upper eq by blast
    have "distinct (map (\<lambda>(p, e, n). (p, n)) (filter (\<lambda>(p, e, n). n \<noteq> []) us) @ [(p, n)])"
      using enum_distinct n unfolding s by auto
    moreover have "(p, n) \<in> set (map (\<lambda>(p, e, n). (p, n)) (filter (\<lambda>(p, e, n). n \<noteq> []) us))"
      using i n unfolding q m by force
    ultimately show False by simp
  qed
  moreover have "strcaseeq n n" by (simp add: strcaseeq_def)
  moreover have "dropWhile (\<lambda>x. fst x \<noteq> p) enum_entries = dropWhile (\<lambda>x. fst x \<noteq> p) us @ (p, e, n) # vs"
    unfolding s by (induction us) auto
  ultimately show ?thesis by (auto intro!: find_first)
qed

lemma enum_entry_code:
  assumes x: "(p, e, n) \<in> set enum_entries"
  shows "10000 \<le> e \<and> e < 10096 \<and> enum_map ! nat (e - 10000) = (p, e, n)"
proof -
  obtain i where i: "i < 96" "enum_entries ! i = (p, e, n)"
    using x enum_entries_count by (auto simp: in_set_conv_nth)
  then have "(i, (p, e, n)) \<in> set (List.enumerate 0 enum_entries)"
    using enum_entries_count by (auto simp: in_set_enumerate_eq)
  with enum_codes have "e = 10000 + int i" by (auto simp: list_all_iff)
  moreover have "enum_map ! i = (p, e, n)" using i by (simp add: enum_entries_def ICALPROPERTY_FIRST_ENUM_def ICALPROPERTY_LAST_ENUM_def)
  ultimately show ?thesis using i(1) by simp
qed

lemma enum_read_back:
  assumes x: "(icalproperty_value_kind_to_kind k, e, n) \<in> set enum_entries" and n: "n \<noteq> []"
    and k: "icalproperty_value_kind_to_kind k \<noteq> ICAL_NO_PROPERTY"
  shows "icalproperty_enum_to_string e es = Some (Some n, es)"
    "icalvalue_new_enum k t n = map_option (\<lambda>v. v\<lparr>v_data := V_int e\<rparr>) (icalvalue_new_impl k)"
proof -
  note c = enum_entry_code [OF x]
  show "icalproperty_enum_to_string e es = Some (Some n, es)"
    using c by (simp add: icalproperty_enum_to_string_def ICALPROPERTY_FIRST_ENUM_def ICALPROPERTY_LAST_ENUM_def)
  have "hd n \<noteq> CHR '' ''"
    using enum_entry_in_map [OF x] n enum_names_upper by (auto simp: list_all_iff)
  then have "dropWhile (\<lambda>c. c = CHR '' '') n = n" using n by (cases n) auto
  then have "icalproperty_kind_and_string_to_enum k n = e"
    using enum_lookup [OF x n] k by (simp add: icalproperty_kind_and_string_to_enum_def Let_def)
  moreover have "icalproperty_enum_belongs_to_property (icalproperty_value_kind_to_kind k) e"
    using x by (force simp: icalproperty_enum_belongs_to_property_def)
  ultimately show "icalvalue_new_enum k t n = map_option (\<lambda>v. v\<lparr>v_data := V_int e\<rparr>) (icalvalue_new_impl k)"
    using c by (simp add: icalvalue_new_enum_def Let_def)
qed

section \<open>Offsets from UTC\<close>

lemma digits_val_append: "digits_val (a @ b) = digits_val a * 10 ^ length b + digits_val b"
proof (induction b rule: rev_induct)
  case (snoc c b)
  then show ?case using digits_val_snoc [of "a @ b" c] by (simp add: algebra_simps)
qed simp

text \<open>A signed number of digits.\<close>

lemma strtol_signed:
  assumes "\<forall>c \<in> set ds. is_digit c" "ds \<noteq> []" "length ds \<le> 9"
  shows "fst (strtol (CHR ''+'' # ds)) = digits_val ds" "fst (strtol (CHR ''-'' # ds)) = - digits_val ds"
proof -
  have t: "take_digits (length ds) ds = (ds, [])" using take_digits_app [of ds "length ds" "[]"] assms(1) by simp
  have b: "0 \<le> digits_val ds" "digits_val ds < 10 ^ length ds"
    using assms(1) by (induction ds rule: rev_induct) (auto simp: digit_val_def is_digit_def)
  have "(10::int) ^ length ds \<le> 10 ^ 9" using assms(3) by (intro power_increasing) auto
  with b have c: "clamp_long (digits_val ds) = digits_val ds" "clamp_long (- digits_val ds) = - digits_val ds"
    by (simp_all add: clamp_long_id)
  show "fst (strtol (CHR ''+'' # ds)) = digits_val ds" "fst (strtol (CHR ''-'' # ds)) = - digits_val ds"
    using t c assms(2) by (simp_all add: strtol_def scan_long_def is_space_def)
qed

definition offset_text :: "int \<Rightarrow> string" where
  "offset_text i =
     (let a = \<bar>i\<bar>; s = a mod 60
      in (if 0 \<le> i then CHR ''+'' else CHR ''-'') #
         fmt_0d 2 (a div 3600) @ fmt_0d 2 (a div 60 mod 60) @ (if 0 \<le> i \<and> s \<noteq> 0 then fmt_0d 2 s else []))"

text \<open>
  The offsets that can be read back. The seconds of a negative offset are not printed, and
  an offset with seconds of less than an hour is read with its seconds as minutes.
\<close>

definition printable_offset :: "int \<Rightarrow> bool" where
  "printable_offset i \<longleftrightarrow> \<bar>i\<bar> < 360000 \<and> (i mod 60 = 0 \<or> 3600 \<le> i)"

lemma offset_parts:
  fixes a :: int
  assumes "0 \<le> a" "a < 360000"
  shows "0 \<le> a div 3600" "a div 3600 < 100" "0 \<le> a div 60 mod 60" "a div 60 mod 60 < 60" "0 \<le> a mod 60" "a mod 60 < 60"
    "a = a div 3600 * 3600 + a div 60 mod 60 * 60 + a mod 60"
proof -
  define q where "q = a div 60"
  have "a div 3600 = q div 60" using zdiv_zmult2_eq [of 60 a 60] by (simp add: q_def)
  moreover have "a = q * 60 + a mod 60" unfolding q_def by simp
  moreover have "q = q div 60 * 60 + q mod 60" by simp
  moreover have "a = h * 3600 + m * 60 + r" if "h = p" "a = q * 60 + r" "q = p * 60 + m" for h p m r
    using that by (simp add: algebra_simps)
  ultimately show "a = a div 3600 * 3600 + a div 60 mod 60 * 60 + a mod 60" unfolding q_def [symmetric] by blast
  show "a div 3600 < 100" using zdiv_mono1 [of a 359999 3600] assms(2) by simp
qed (use assms in \<open>simp_all add: pos_imp_zdiv_nonneg_iff\<close>)


lemma offset_remainders:
  fixes a :: int
  assumes "0 \<le> a" "a < 360000"
  shows "0 \<le> a - a div 3600 * 3600" "(a - a div 3600 * 3600) div 60 = a div 60 mod 60"
    "a - a div 3600 * 3600 - a div 60 mod 60 * 60 = a mod 60"
proof -
  note p = offset_parts [OF assms]
  define h mi s where "h = a div 3600" and "mi = a div 60 mod 60" and "s = a mod 60"
  have e: "a - h * 3600 = s + mi * 60" "0 \<le> s" "s < 60" "0 \<le> mi"
    using p(3,5,6,7) unfolding h_def [symmetric] mi_def [symmetric] s_def [symmetric] by linarith+
  show "0 \<le> a - h * 3600" "(a - h * 3600) div 60 = mi" "a - h * 3600 - mi * 60 = s"
    using e by simp_all
qed

lemma offset_as_string:
  assumes "v_data v = V_int i" "printable_offset i"
  shows "icalvalue_utcoffset_as_ical_string_r v = Some (offset_text i)"
proof -
  define a where "a = \<bar>i\<bar>"
  have a: "0 \<le> a" "a < 360000" using assms(2) by (simp_all add: a_def printable_offset_def)
  define h mi s where "h = a div 3600" and "mi = a div 60 mod 60" and "s = a mod 60"
  note p = offset_parts [OF a, folded h_def mi_def s_def]
  note m = offset_remainders [OF a, folded h_def mi_def s_def]
  have w: "length (fmt_0d 2 h) = 2" "length (fmt_0d 2 mi) = 2" "length (fmt_0d 2 s) = 2"
    using p by (simp_all add: fmt_0d_width)
  have t: "offset_text i = (if 0 \<le> i then CHR ''+'' else CHR ''-'') # fmt_0d 2 h @ fmt_0d 2 mi @
      (if 0 \<le> i \<and> s \<noteq> 0 then fmt_0d 2 s else [])"
    by (simp only: offset_text_def a_def [symmetric] h_def mi_def s_def Let_def)
  have u: "icalvalue_utcoffset_as_ical_string_r v = (let h = c_div i 3600; m = c_div (i - h * 3600) 60;
      s = i - h * 3600 - m * 60 in Some (take 8 ((if \<bar>i\<bar> = i then CHR ''+'' else CHR ''-'') #
        (if s > 0 then fmt_0d 2 \<bar>h\<bar> @ fmt_0d 2 \<bar>m\<bar> @ fmt_0d 2 \<bar>s\<bar> else fmt_0d 2 \<bar>h\<bar> @ fmt_0d 2 \<bar>m\<bar>))))"
    using assms(1) by (simp add: icalvalue_utcoffset_as_ical_string_r_def icalvalue_get_utcoffset_def v_int_def Let_def)
  show ?thesis
  proof (cases "0 \<le> i")
    case True
    then have i: "i = a" by (simp add: a_def)
    have d: "c_div i 3600 = h" "c_div (i - h * 3600) 60 = mi" "i - h * 3600 - mi * 60 = s"
      using a m by (simp_all only: i h_def c_div_nonneg)
    have "\<bar>i\<bar> = i" "\<bar>h\<bar> = h" "\<bar>mi\<bar> = mi" "\<bar>s\<bar> = s" "s > 0 \<longleftrightarrow> s \<noteq> 0" using True p(1,3,5) by auto
    then show ?thesis using True w unfolding u t Let_def d by simp
  next
    case False
    then have i: "i = - a" by (simp add: a_def)
    have "s = 0"
      using assms(2) False i unfolding s_def by (auto simp: printable_offset_def zmod_zminus1_eq_if split: if_splits)
    have d: "c_div i 3600 = - h" unfolding i h_def using a by (subst c_div_neg) simp_all
    have e: "i - (- h) * 3600 = - (a - h * 3600)" using i by simp
    have f: "c_div (- (a - h * 3600)) 60 = - mi" using m(1,2) by (subst c_div_neg) simp_all
    have g: "- (a - h * 3600) - (- mi) * 60 = 0" using m(3) \<open>s = 0\<close> by simp
    have "\<bar>- h\<bar> = h" "\<bar>- mi\<bar> = mi" "\<bar>i\<bar> \<noteq> i" using False p(1,3) by auto
    then show ?thesis using False w unfolding u t Let_def d e f g by simp
  qed
qed

lemma two_digits:
  assumes "0 \<le> v" "v < 100"
  shows "\<forall>c \<in> set (fmt_0d 2 v). is_digit c" "length (fmt_0d 2 v) = 2" "digits_val (fmt_0d 2 v) = v"
  using fmt_0d_digits [OF assms(1)] fmt_0d_width [of v 2] digits_val_fmt_0d [OF assms(1)] assms by simp_all

lemma offset_read:
  assumes "printable_offset i"
  shows "utcoffset_from_string (offset_text i) = i"
proof -
  define a where "a = \<bar>i\<bar>"
  have a: "0 \<le> a" "a < 360000" using assms by (simp_all add: a_def printable_offset_def)
  define h mi s where "h = a div 3600" and "mi = a div 60 mod 60" and "s = a mod 60"
  note p = offset_parts [OF a, folded h_def mi_def s_def]
  note d = two_digits [of h] two_digits [of mi] two_digits [of s]
  have t: "offset_text i = (if 0 \<le> i then CHR ''+'' else CHR ''-'') # fmt_0d 2 h @ fmt_0d 2 mi @
      (if 0 \<le> i \<and> s \<noteq> 0 then fmt_0d 2 s else [])"
    by (simp only: offset_text_def a_def [symmetric] h_def mi_def s_def Let_def)
  let ?u = "\<lambda>t0. let t = (if \<bar>t0\<bar> < 9999 then t0 * 100 else t0); hours = c_div t 10000;
          minutes = c_div (t - hours * 10000) 100; seconds = t - hours * 10000 - minutes * 100
      in hours * 3600 + minutes * 60 + seconds"
  have u: "utcoffset_from_string x = ?u v" if "fst (strtol x) = v" "- (2 ^ 31) \<le> v" "v < 2 ^ 31" for x v
    using that by (simp add: utcoffset_from_string_def to_int32_id Let_def)
  have q: "(h * 10000 + mi * 100 + z) div 10000 = h" "(mi * 100 + z) div 100 = mi" if "0 \<le> z" "z < 100" for z
    using that p(1-4) by (simp_all add: int_div_pos_eq)
  show ?thesis
  proof (cases "0 \<le> i \<and> s \<noteq> 0")
    case True
    have "3600 \<le> a" using assms True by (auto simp: printable_offset_def a_def s_def)
    then have h: "1 \<le> h" using p(1,3-7) by linarith
    have g: "\<forall>c \<in> set (fmt_0d 2 h @ fmt_0d 2 mi @ fmt_0d 2 s). is_digit c"
      "fmt_0d 2 h @ fmt_0d 2 mi @ fmt_0d 2 s \<noteq> []" "length (fmt_0d 2 h @ fmt_0d 2 mi @ fmt_0d 2 s) \<le> 9"
      using d p by auto
    have v: "fst (strtol (offset_text i)) = h * 10000 + mi * 100 + s"
      unfolding t using True d p strtol_signed(1) [OF g] by (simp add: digits_val_append)
    have "?u (h * 10000 + mi * 100 + s) = h * 3600 + mi * 60 + s"
      using h p q [of s] by (simp add: Let_def c_div_nonneg)
    then show ?thesis using u [OF v] p True by (simp add: a_def)
  next
    case False
    then have s: "s = 0" using assms by (auto simp: printable_offset_def a_def s_def zmod_zminus1_eq_if split: if_splits)
    have b: "h * 100 + mi < 9999" "0 \<le> h * 100 + mi" using p by linarith+
    have dv: "digits_val (fmt_0d 2 h @ fmt_0d 2 mi) = h * 100 + mi" using d p by (simp add: digits_val_append)
    have g: "\<forall>c \<in> set (fmt_0d 2 h @ fmt_0d 2 mi). is_digit c" "fmt_0d 2 h @ fmt_0d 2 mi \<noteq> []" "length (fmt_0d 2 h @ fmt_0d 2 mi) \<le> 9"
      using d p by auto
    show ?thesis
    proof (cases "0 \<le> i")
      case True
      have v: "fst (strtol (offset_text i)) = h * 100 + mi"
        unfolding t using True s strtol_signed(1) [OF g] dv by simp
      have "?u (h * 100 + mi) = h * 3600 + mi * 60"
        using b p q [of 0] by (simp add: Let_def c_div_nonneg algebra_simps)
      then show ?thesis using u [OF v] b p True s by (simp add: a_def)
    next
      case neg: False
      have v: "fst (strtol (offset_text i)) = - (h * 100 + mi)"
        unfolding t using neg s strtol_signed(2) [OF g] dv by simp
      have "?u (- (h * 100 + mi)) = - (h * 3600 + mi * 60)"
        using b p q [of 0] by (simp add: Let_def c_div_neg algebra_simps)
      then show ?thesis using u [OF v] b p neg s by (simp add: a_def)
    qed
  qed
qed

end
