(* ===== verification/ValueRoundTrip.thy ===== *)
theory ValueRoundTrip
  imports ValueLaws RecurRoundTrip
begin

text \<open>Values of the simple kinds, printed and read back.\<close>

definition string_kinds :: "icalvalue_kind list" where
  "string_kinds = [ICAL_QUERY_VALUE, ICAL_STRING_VALUE, ICAL_URI_VALUE, ICAL_CALADDRESS_VALUE]"

definition enum_kinds :: "icalvalue_kind list" where
  "enum_kinds = [ICAL_TRANSP_VALUE, ICAL_METHOD_VALUE, ICAL_STATUS_VALUE, ICAL_ACTION_VALUE, ICAL_CLASS_VALUE,
     ICAL_CMD_VALUE, ICAL_QUERYLEVEL_VALUE, ICAL_CARLEVEL_VALUE]"

definition enum_name :: "int \<Rightarrow> string" where
  "enum_name e = snd (snd (enum_map ! nat (e - 10000)))"

text \<open>The data of a value that can be printed and read back, and its text.\<close>

definition printable_data :: "icalvalue_kind \<Rightarrow> icalvalue_data \<Rightarrow> bool" where
  "printable_data k d =
     (case d of
        V_string s \<Rightarrow> k = ICAL_TEXT_VALUE \<and> nul_free s \<or> k \<in> set string_kinds
      | V_int i \<Rightarrow> k = ICAL_INTEGER_VALUE \<and> - (2 ^ 31) \<le> i \<and> i < 2 ^ 31 \<or> k = ICAL_UTCOFFSET_VALUE \<and> printable_offset i \<or>
          k \<in> set enum_kinds \<and> enum_name i \<noteq> [] \<and>
          (icalproperty_value_kind_to_kind k, i, enum_name i) \<in> set enum_entries
      | V_time t \<Rightarrow> (k = ICAL_DATE_VALUE \<and> is_date t = 1 \<or> k = ICAL_DATETIME_VALUE \<and> is_date t = 0) \<and>
          printable_time t \<and> \<not> icaltime_is_null_time t
      | V_duration u \<Rightarrow> k = ICAL_DURATION_VALUE \<and> printable_dur u
      | V_period p \<Rightarrow> k = ICAL_PERIOD_VALUE \<and> printable_period p
      | V_recur r \<Rightarrow> k = ICAL_RECUR_VALUE \<and> printable_rule r
      | _ \<Rightarrow> False)"

definition data_text :: "icalvalue_kind \<Rightarrow> icalvalue_data \<Rightarrow> string" where
  "data_text k d =
     (case d of
        V_string s \<Rightarrow> if k = ICAL_TEXT_VALUE then quote_text s else s
      | V_int i \<Rightarrow> if k = ICAL_INTEGER_VALUE then fmt_d i else if k = ICAL_UTCOFFSET_VALUE then offset_text i
          else enum_name i
      | V_time t \<Rightarrow> time_text t
      | V_duration u \<Rightarrow> dur_text u
      | V_period p \<Rightarrow> period_text p
      | V_recur r \<Rightarrow> recur_text r
      | _ \<Rightarrow> [])"

text \<open>A rule comes back with its lists in their standard form.\<close>

definition canon_data :: "icalvalue_data \<Rightarrow> icalvalue_data" where
  "canon_data d = (case d of V_recur r \<Rightarrow> V_recur (canon_rule r (read_byday r)) | _ \<Rightarrow> d)"

definition plain_value :: "icalvalue_kind \<Rightarrow> icalvalue_data \<Rightarrow> icalvalue" where
  "plain_value k d = \<lparr>v_kind = k, v_size = 0, v_parent = 0, v_x_value = None, v_data = d\<rparr>"

lemma plain_value_sel [simp]: "v_kind (plain_value k d) = k" "v_data (plain_value k d) = d" "v_x_value (plain_value k d) = None"
  by (simp_all add: plain_value_def)

lemma new_impl_valid: "k \<noteq> ICAL_ANY_VALUE \<Longrightarrow> icalvalue_new_impl k = Some (plain_value k V_zero)"
  by (cases k) (simp_all add: icalvalue_new_impl_def icalvalue_kind_is_valid_def value_map_def plain_value_def)

lemma set_data_plain:
  "k \<noteq> ICAL_DATE_VALUE \<Longrightarrow> k \<noteq> ICAL_DATETIME_VALUE \<Longrightarrow> set_data d (plain_value k e) = Some (plain_value k d)"
  by (simp add: set_data_def icalvalue_reset_kind_def plain_value_def)

lemma new_with_plain:
  "k \<notin> {ICAL_ANY_VALUE, ICAL_DATE_VALUE, ICAL_DATETIME_VALUE} \<Longrightarrow> new_with k d = Some (plain_value k d)"
  by (simp add: new_with_def new_impl_valid set_data_plain)

lemma value_of_time_plain:
  assumes "k = ICAL_DATE_VALUE \<and> is_date t = 1 \<or> k = ICAL_DATETIME_VALUE \<and> is_date t = 0" "\<not> icaltime_is_null_time t"
  shows "value_of_time k t = Some (Some (plain_value k (V_time t)))"
  using assms
  by (auto simp: value_of_time_def new_impl_valid icalvalue_reset_kind_def plain_value_def v_time_def icaltime_is_date_def)

definition errs_ok :: "value_env \<Rightarrow> bool" where
  "errs_ok env \<longleftrightarrow> distinct (map fst (error_state_map (env_errs env))) \<and>
     listed (error_state_map (env_errs env)) ICAL_MALFORMEDDATA_ERROR"

lemma with_errs_same: "f (env_errs env) = Some (x, env_errs env) \<Longrightarrow> with_errs f env = Some (x, env)"
  by (simp add: with_errs_def)


lemma atoi_int32: "- (2 ^ 31) \<le> i \<Longrightarrow> i < 2 ^ 31 \<Longrightarrow> atoi (fmt_d i) = i"
proof (cases "0 \<le> i")
  case False
  assume i: "- (2 ^ 31) \<le> i" "i < 2 ^ 31"
  let ?n = "nat (- i)"
  have t: "take_digits (length (nat_str ?n)) (nat_str ?n) = (nat_str ?n, [])"
    using take_digits_app [of "nat_str ?n" "length (nat_str ?n)" "[]"] nat_str_digits by auto
  have "clamp_long i = i" "to_int32 i = i"
    using i by (simp_all add: clamp_long_id to_int32_id)
  then show ?thesis
    using False t nat_str_nonempty [of ?n]
    by (simp add: atoi_def scan_d_def scan_wd_def scan_long_def is_space_def fmt_d_def digits_val_nat_str)
next
  case True
  assume "i < 2 ^ 31"
  with True show ?thesis by (rule atoi_fmt_d)
qed

lemma integer_digits: "- (2 ^ 31) \<le> i \<Longrightarrow> i < 2 ^ 31 \<Longrightarrow> take 11 (fmt_d i) = fmt_d i"
  using length_fmt_d [of i 10] by simp

lemma time_as_string:
  assumes "printable_time t"
  shows "is_date t = 1 \<Longrightarrow> print_date_to_string t = time_text t"
    "is_date t = 0 \<Longrightarrow> print_datetime_to_string t = time_text t"
  using until_text [OF assms] by simp_all

lemma as_string_kinds:
  "icalvalue_as_ical_string_r (Some (plain_value ICAL_INTEGER_VALUE d)) env =
     pure_text (icalvalue_int_as_ical_string_r (plain_value ICAL_INTEGER_VALUE d)) env"
  "icalvalue_as_ical_string_r (Some (plain_value ICAL_UTCOFFSET_VALUE d)) env =
     pure_text (icalvalue_utcoffset_as_ical_string_r (plain_value ICAL_UTCOFFSET_VALUE d)) env"
  "icalvalue_as_ical_string_r (Some (plain_value ICAL_TEXT_VALUE d)) env =
     pure_text (map_option sb_text (icalvalue_text_as_ical_string_r (plain_value ICAL_TEXT_VALUE d))) env"
  "k \<in> set string_kinds \<Longrightarrow> icalvalue_as_ical_string_r (Some (plain_value k d)) env =
     pure_text (icalvalue_string_as_ical_string_r (plain_value k d)) env"
  "k \<in> set enum_kinds \<Longrightarrow> icalvalue_as_ical_string_r (Some (plain_value k d)) env =
     with_errs (enum_as_string (plain_value k d)) env"
  by (auto simp: icalvalue_as_ical_string_r_def string_kinds_def enum_kinds_def)

lemma enum_kinds_property: "k \<in> set enum_kinds \<Longrightarrow> icalproperty_value_kind_to_kind k \<noteq> ICAL_NO_PROPERTY"
  by (auto simp: enum_kinds_def) code_simp+

lemma data_as_string:
  assumes "printable_data k d"
  shows "icalvalue_as_ical_string_r (Some (plain_value k d)) env = Some (Some (data_text k d), env)"
proof (cases d)
  case (V_string s)
  consider (t) "k = ICAL_TEXT_VALUE" "nul_free s" | (s) "k \<in> set string_kinds" "k \<noteq> ICAL_TEXT_VALUE"
    using assms V_string by (auto simp: printable_data_def string_kinds_def)
  then show ?thesis
  proof cases
    case t
    with text_as_string [of "plain_value k d" s] V_string show ?thesis
      by (auto simp: as_string_kinds pure_text_def data_text_def)
  next
    case s
    with V_string show ?thesis
      by (simp add: as_string_kinds pure_text_def data_text_def icalvalue_string_as_ical_string_r_def v_string_def)
  qed
next
  case (V_int i)
  consider (i) "k = ICAL_INTEGER_VALUE" "- (2 ^ 31) \<le> i" "i < 2 ^ 31" | (u) "k = ICAL_UTCOFFSET_VALUE" "printable_offset i"
    | (e) "k \<in> set enum_kinds" "enum_name i \<noteq> []" "(icalproperty_value_kind_to_kind k, i, enum_name i) \<in> set enum_entries"
    using assms V_int by (auto simp: printable_data_def)
  then show ?thesis
  proof cases
    case i
    then show ?thesis using V_int integer_digits [of i]
      by (simp add: as_string_kinds pure_text_def data_text_def icalvalue_int_as_ical_string_r_def
          icalvalue_get_integer_def v_int_def MAX_INT_DIGITS_def)
  next
    case u
    then show ?thesis using V_int offset_as_string [of "plain_value k d" i]
      by (simp add: as_string_kinds pure_text_def data_text_def)
  next
    case e
    then have n: "k \<noteq> ICAL_INTEGER_VALUE" "k \<noteq> ICAL_UTCOFFSET_VALUE" by (auto simp: enum_kinds_def)
    from enum_read_back(1) [OF e(3,2) enum_kinds_property [OF e(1)], of "env_errs env"]
    show ?thesis using V_int n
      by (simp add: as_string_kinds(5) [OF e(1)] data_text_def enum_as_string_def v_int_def with_errs_def)
  qed
next
  case (V_duration u)
  then show ?thesis using assms as_ical_string_dur [of u]
    by (auto simp: printable_data_def icalvalue_as_ical_string_r_def pure_text_def data_text_def
        icalvalue_duration_as_ical_string_r_def icalvalue_get_duration_def v_duration_def)
next
  case (V_period p)
  then have p: "printable_period p" "k = ICAL_PERIOD_VALUE" using assms by (simp_all add: printable_data_def)
  then show ?thesis using V_period as_ical_string_period [OF p(1)]
    by (auto simp: icalvalue_as_ical_string_r_def pure_text_def data_text_def
        icalvalue_period_as_ical_string_r_def icalvalue_get_period_def v_period_def)
next
  case (V_time t)
  then show ?thesis using assms time_as_string [of t]
    by (auto simp: printable_data_def icalvalue_as_ical_string_r_def pure_text_def data_text_def with_errs_def
        icalvalue_date_as_ical_string_r_def icalvalue_datetime_as_ical_string_r_def icalvalue_get_date_def
        icalvalue_get_datetime_def v_time_def)
next
  case (V_recur r)
  then have r: "printable_rule r" "k = ICAL_RECUR_VALUE" using assms by (simp_all add: printable_data_def)
  then show ?thesis using V_recur as_string_recur_text [OF r(1), of "env_errs env"]
    by (auto simp: icalvalue_as_ical_string_r_def data_text_def with_errs_def
        icalvalue_recur_as_ical_string_r_def v_recur_def)
qed (use assms in \<open>simp_all add: printable_data_def\<close>)

lemma new_from_string_kinds:
  "icalvalue_new_from_string ICAL_INTEGER_VALUE s env = pure_value (icalvalue_new_integer (atoi s)) env"
  "icalvalue_new_from_string ICAL_UTCOFFSET_VALUE s env =
     pure_value (icalvalue_new_utcoffset (utcoffset_from_string s)) env"
  "icalvalue_new_from_string ICAL_TEXT_VALUE s env =
     Option.bind (icalmemory_strdup_and_dequote s) (\<lambda>t. pure_value (icalvalue_new_text t) env)"
  "k \<in> set string_kinds \<Longrightarrow> icalvalue_new_from_string k s env = pure_value (new_with k (V_string s)) env"
  by (auto simp: icalvalue_new_from_string_def string_kinds_def icalvalue_new_query_def icalvalue_new_string_def
      icalvalue_new_uri_def icalvalue_new_caladdress_def)

lemma new_from_string_enum:
  "k \<in> set enum_kinds \<Longrightarrow> \<exists>x. icalvalue_new_from_string k s env = pure_value (icalvalue_new_enum k x s) env"
  by (auto simp: icalvalue_new_from_string_def enum_kinds_def)

lemma data_read:
  assumes d: "printable_data k d" and e: "errs_ok env"
  shows "icalvalue_new_from_string k (data_text k d) env = Some (Some (plain_value k (canon_data d)), env)"
proof (cases d)
  case (V_string s)
  consider (t) "k = ICAL_TEXT_VALUE" | (s) "k \<in> set string_kinds" "k \<noteq> ICAL_TEXT_VALUE"
    using d V_string by (auto simp: printable_data_def string_kinds_def)
  then show ?thesis
  proof cases
    case t
    with V_string show ?thesis
      by (simp add: new_from_string_kinds data_text_def canon_data_def dequote_quote pure_value_def
          icalvalue_new_text_def new_with_plain)
  next
    case s
    then have "k \<notin> {ICAL_ANY_VALUE, ICAL_DATE_VALUE, ICAL_DATETIME_VALUE}" by (auto simp: string_kinds_def)
    with s V_string show ?thesis
      by (simp add: new_from_string_kinds data_text_def canon_data_def pure_value_def new_with_plain)
  qed
next
  case (V_int i)
  consider (i) "k = ICAL_INTEGER_VALUE" "- (2 ^ 31) \<le> i" "i < 2 ^ 31" | (u) "k = ICAL_UTCOFFSET_VALUE" "printable_offset i"
    | (e) "k \<in> set enum_kinds" "enum_name i \<noteq> []" "(icalproperty_value_kind_to_kind k, i, enum_name i) \<in> set enum_entries"
    using d V_int by (auto simp: printable_data_def)
  then show ?thesis
  proof cases
    case i
    then show ?thesis using V_int atoi_int32 [OF i(2,3)]
      by (simp add: new_from_string_kinds data_text_def canon_data_def pure_value_def
          icalvalue_new_integer_def new_with_plain)
  next
    case u
    then show ?thesis using V_int offset_read [OF u(2)]
      by (simp add: new_from_string_kinds data_text_def canon_data_def pure_value_def
          icalvalue_new_utcoffset_def new_with_plain)
  next
    case e
    then have n: "k \<noteq> ICAL_INTEGER_VALUE" "k \<noteq> ICAL_UTCOFFSET_VALUE" "k \<noteq> ICAL_ANY_VALUE" by (auto simp: enum_kinds_def)
    obtain x where "icalvalue_new_from_string k (enum_name i) env = pure_value (icalvalue_new_enum k x (enum_name i)) env"
      using new_from_string_enum [OF e(1)] by blast
    then show ?thesis using V_int n enum_read_back(2) [OF e(3,2) enum_kinds_property [OF e(1)], of x]
      by (simp add: data_text_def canon_data_def pure_value_def new_impl_valid plain_value_def)
  qed
next
  case (V_duration u)
  then have u: "printable_dur u" "k = ICAL_DURATION_VALUE" using d by (simp_all add: printable_data_def)
  then have "\<not> icaldurationtype_is_bad_duration u"
    by (auto simp: printable_dur_def icaldurationtype_is_bad_duration_def)
  then show ?thesis using V_duration u with_errs_same [of "icaldurationtype_from_string (dur_text u)", OF from_string_dur_text [OF u(1)]]
    by (simp add: icalvalue_new_from_string_def data_text_def canon_data_def pure_value_def
        icalvalue_new_duration_def new_with_plain)
next
  case (V_period p)
  then have p: "printable_period p" "k = ICAL_PERIOD_VALUE" using d by (simp_all add: printable_data_def)
  then have "\<not> icalperiodtype_is_null_period p"
    by (auto simp: printable_period_def icalperiodtype_is_null_period_def)
  moreover have "with_errs (icalperiodtype_from_string (period_text p)) env = Some (p, env)"
    using e by (intro with_errs_same from_string_period_text p(1)) (simp_all add: errs_ok_def)
  ultimately show ?thesis using V_period p
    by (simp add: icalvalue_new_from_string_def data_text_def canon_data_def pure_value_def
        icalvalue_new_period_def new_with_plain)
next
  case (V_time t)
  then have t: "k = ICAL_DATE_VALUE \<and> is_date t = 1 \<or> k = ICAL_DATETIME_VALUE \<and> is_date t = 0"
    "\<not> icaltime_is_null_time t" "printable_time t"
    using d by (simp_all add: printable_data_def)
  then have "with_errs (icaltime_from_string (time_text t)) env = Some (t, env)"
    by (intro with_errs_same from_string_text)
  with value_of_time_plain [OF t(1,2)] t(1) V_time show ?thesis
    by (auto simp: icalvalue_new_from_string_def data_text_def canon_data_def)
next
  case (V_recur r)
  then have r: "printable_rule r" "k = ICAL_RECUR_VALUE" using d by (simp_all add: printable_data_def)
  then have "r_freq (canon_rule r (read_byday r)) \<noteq> ICAL_NO_RECURRENCE"
    by (simp add: canon_rule_def printable_rule_def)
  with V_recur r with_errs_same [of "icalrecurrencetype_from_string (recur_text r)", OF from_string_recur_text [OF r(1)]] show ?thesis
    by (simp add: icalvalue_new_from_string_def data_text_def canon_data_def pure_value_def
        icalvalue_new_recur_def icalvalue_set_recur_def new_impl_valid)
      (simp add: plain_value_def)
qed (use d in \<open>simp_all add: printable_data_def\<close>)

end
