(* ===== verification/ValueProperties.thy ===== *)
theory ValueProperties
  imports ValueRoundTrip
begin

text \<open>The properties of values: their types, their text, and the counting of attachments.\<close>

section \<open>Types\<close>

text \<open>The members of the union that the printer and the comparison read for a kind.\<close>

definition data_typed :: "icalvalue_kind \<Rightarrow> icalvalue_data \<Rightarrow> bool" where
  "data_typed k d =
     (case d of
        V_zero \<Rightarrow> k = ICAL_X_VALUE
      | V_attach _ \<Rightarrow> k = ICAL_ATTACH_VALUE
      | V_string _ \<Rightarrow> k = ICAL_TEXT_VALUE \<or> k \<in> set string_kinds
      | V_float _ \<Rightarrow> k = ICAL_FLOAT_VALUE
      | V_int _ \<Rightarrow> k \<in> {ICAL_INTEGER_VALUE, ICAL_UTCOFFSET_VALUE} \<union> set enum_kinds
      | V_duration _ \<Rightarrow> k = ICAL_DURATION_VALUE
      | V_period _ \<Rightarrow> k = ICAL_PERIOD_VALUE
      | V_geo _ \<Rightarrow> k = ICAL_GEO_VALUE
      | V_time t \<Rightarrow> k = ICAL_DATE_VALUE \<and> is_date t \<noteq> 0 \<or> k = ICAL_DATETIME_VALUE
      | V_requeststatus _ \<Rightarrow> k = ICAL_REQUESTSTATUS_VALUE
      | V_recur _ \<Rightarrow> k = ICAL_RECUR_VALUE)"

definition value_typed :: "icalvalue \<Rightarrow> bool" where
  "value_typed v \<longleftrightarrow> data_typed (v_kind v) (v_data v) \<and> v_parent v = 0"

text \<open>The kinds of the values that the text of a kind can give.\<close>

definition result_kinds :: "icalvalue_kind \<Rightarrow> icalvalue_kind set" where
  "result_kinds k =
     (case k of
        ICAL_BINARY_VALUE \<Rightarrow> {ICAL_ATTACH_VALUE}
      | ICAL_DATE_VALUE \<Rightarrow> {ICAL_DATE_VALUE, ICAL_DATETIME_VALUE}
      | ICAL_DATETIME_VALUE \<Rightarrow> {ICAL_DATE_VALUE, ICAL_DATETIME_VALUE}
      | ICAL_DATETIMEPERIOD_VALUE \<Rightarrow> {ICAL_DATE_VALUE, ICAL_DATETIME_VALUE, ICAL_PERIOD_VALUE}
      | ICAL_TRIGGER_VALUE \<Rightarrow> {ICAL_DATETIME_VALUE, ICAL_DURATION_VALUE}
      | _ \<Rightarrow> {k})"

lemma new_with_typed:
  assumes "new_with k d = Some v" "data_typed k d" "k \<notin> {ICAL_DATE_VALUE, ICAL_DATETIME_VALUE}" "k \<noteq> ICAL_ANY_VALUE"
  shows "value_typed v \<and> v_kind v = k"
  using assms new_with_plain [of k d] by (auto simp: value_typed_def plain_value_def)

lemma new_time_typed:
  "new_with ICAL_DATETIME_VALUE (V_time t) = Some v \<Longrightarrow>
     value_typed v \<and> v_kind v \<in> {ICAL_DATE_VALUE, ICAL_DATETIME_VALUE}"
  "value_of_time k t = Some (Some v) \<Longrightarrow> k \<in> {ICAL_DATE_VALUE, ICAL_DATETIME_VALUE} \<Longrightarrow>
     value_typed v \<and> v_kind v \<in> {ICAL_DATE_VALUE, ICAL_DATETIME_VALUE}"
  by (auto simp: new_with_def set_data_def value_of_time_def new_impl_valid icalvalue_reset_kind_def v_time_def
      value_typed_def data_typed_def plain_value_def icaltime_is_date_def split: if_splits)

lemma new_enum_typed:
  "icalvalue_new_enum k x s = Some v \<Longrightarrow> k \<in> set enum_kinds \<Longrightarrow> value_typed v \<and> v_kind v = k"
  by (auto simp: icalvalue_new_enum_def Let_def new_impl_valid value_typed_def data_typed_def plain_value_def
      icalvalue_set_x_def enum_kinds_def split: if_splits)

lemma new_trigger_typed:
  "icalvalue_new_trigger tr = Some v \<Longrightarrow> value_typed v \<and> v_kind v \<in> {ICAL_DATETIME_VALUE, ICAL_DURATION_VALUE}"
  by (auto simp: icalvalue_new_trigger_def icalvalue_set_trigger_def new_impl_valid icalvalue_set_datetime_def
      icalvalue_set_duration_def set_data_def icalvalue_reset_kind_def value_typed_def data_typed_def plain_value_def
      split: if_splits)

lemma new_attach_typed:
  "value_of_attach (a, env) = Some (vo, env') \<Longrightarrow> \<exists>v. vo = Some v \<and> value_typed v \<and> v_kind v = ICAL_ATTACH_VALUE \<and>
     v_data v = V_attach a"
  by (auto simp: value_of_attach_def icalvalue_new_attach_def icalvalue_set_attach_def new_impl_valid
      value_typed_def data_typed_def plain_value_def split: bind_splits)

lemmas new_simple_defs = icalvalue_new_query_def icalvalue_new_string_def icalvalue_new_uri_def
  icalvalue_new_caladdress_def icalvalue_new_text_def icalvalue_new_integer_def icalvalue_new_utcoffset_def
  icalvalue_new_float_def icalvalue_new_geo_def icalvalue_new_duration_def icalvalue_new_period_def
  icalvalue_new_requeststatus_def

lemma new_other_typed:
  "icalvalue_new_recur r = Some v \<Longrightarrow> value_typed v \<and> v_kind v = ICAL_RECUR_VALUE"
  "icalvalue_new_x s = Some v \<Longrightarrow> value_typed v \<and> v_kind v = ICAL_X_VALUE"
  by (auto simp: icalvalue_new_recur_def icalvalue_set_recur_def icalvalue_new_x_def icalvalue_set_x_def
      new_impl_valid value_typed_def data_typed_def plain_value_def)

lemma parsed_typed:
  assumes "icalvalue_new_from_string k s env = Some (Some v, env')"
  shows "value_typed v \<and> v_kind v \<in> result_kinds k"
proof -
  have w: "new_with j d = Some v \<Longrightarrow> data_typed j d \<Longrightarrow> j \<notin> {ICAL_DATE_VALUE, ICAL_DATETIME_VALUE} \<Longrightarrow>
      j \<noteq> ICAL_ANY_VALUE \<Longrightarrow> value_typed v \<and> v_kind v = j" for j d
    by (rule new_with_typed)
  have att: "value_of_attach p = Some (Some v, env') \<Longrightarrow> value_typed v \<and> v_kind v = ICAL_ATTACH_VALUE" for p
    using new_attach_typed [of "fst p" "snd p" "Some v" env'] by auto
  note simps = icalvalue_new_from_string_def pure_value_def result_kinds_def new_simple_defs
    icalvalue_new_datetime_def
  have t: "data_typed ICAL_QUERY_VALUE (V_string x)" "data_typed ICAL_STRING_VALUE (V_string x)"
    "data_typed ICAL_URI_VALUE (V_string x)" "data_typed ICAL_CALADDRESS_VALUE (V_string x)"
    "data_typed ICAL_TEXT_VALUE (V_string x)" "data_typed ICAL_INTEGER_VALUE (V_int i)"
    "data_typed ICAL_UTCOFFSET_VALUE (V_int i)" "data_typed ICAL_FLOAT_VALUE (V_float f)"
    "data_typed ICAL_GEO_VALUE (V_geo g)" "data_typed ICAL_DURATION_VALUE (V_duration u)"
    "data_typed ICAL_PERIOD_VALUE (V_period q)" "data_typed ICAL_REQUESTSTATUS_VALUE (V_requeststatus st)"
    for x i f g u q st
    by (simp_all add: data_typed_def string_kinds_def)
  note parts = w [OF _ t(1)] w [OF _ t(2)] w [OF _ t(3)] w [OF _ t(4)] w [OF _ t(5)] w [OF _ t(6)] w [OF _ t(7)]
    w [OF _ t(8)] w [OF _ t(9)] w [OF _ t(10)] w [OF _ t(11)] w [OF _ t(12)]
    new_time_typed new_trigger_typed new_other_typed att
  have enum: "k \<in> set enum_kinds \<Longrightarrow> value_typed v \<and> v_kind v = k"
    using new_from_string_enum [of k s env] assms new_enum_typed by (auto simp: pure_value_def)
  consider (e) "k \<in> set enum_kinds" | (dtp) "k = ICAL_DATETIMEPERIOD_VALUE"
    | (o) "k \<notin> set enum_kinds" "k \<noteq> ICAL_DATETIMEPERIOD_VALUE" by blast
  then show ?thesis
  proof cases
    case e
    with enum show ?thesis by (auto simp: enum_kinds_def result_kinds_def)
  next
    case dtp
    have "(\<exists>t. new_with ICAL_DATETIME_VALUE (V_time t) = Some v) \<or>
        (\<exists>p. new_with ICAL_PERIOD_VALUE (V_period p) = Some v)"
      using assms unfolding dtp
      by (simp add: simps split: bind_splits if_splits prod.splits) blast+
    then show ?thesis
      using new_time_typed(1) w [OF _ t(11)] by (auto simp: dtp result_kinds_def)
  next
    case o
    with assms show ?thesis
      by (cases k) (auto simp: simps enum_kinds_def dest: parts split: bind_splits if_splits option.splits)
  qed
qed

section \<open>The counts of the attachments\<close>

definition uses :: "icalvalue list \<Rightarrow> nat \<Rightarrow> nat" where
  "uses vs a = length (filter (\<lambda>v. v_data v = V_attach a) vs)"

text \<open>The attachments that exist are those of the values, each with the number of its values as its count.\<close>

definition counted :: "icalvalue list \<Rightarrow> value_env \<Rightarrow> nat \<Rightarrow> bool" where
  "counted vs env a =
     (case env_attaches env a of
        None \<Rightarrow> uses vs a = 0
      | Some t \<Rightarrow> at_refcount t = int (uses vs a) \<and> 0 < uses vs a \<and> a < env_next env)"

definition attach_inv :: "icalvalue list \<Rightarrow> value_env \<Rightarrow> bool" where
  "attach_inv vs env \<longleftrightarrow> (\<forall>v \<in> set vs. value_typed v) \<and> (\<forall>a. counted vs env a)"

lemma uses_Cons: "uses (v # vs) a = (if v_data v = V_attach a then 1 else 0) + uses vs a"
  by (simp add: uses_def)

lemma uses_remove1: "v \<in> set vs \<Longrightarrow> uses vs a = (if v_data v = V_attach a then 1 else 0) + uses (remove1 v vs) a"
  by (induction vs) (auto simp: uses_Cons)

definition kept :: "value_env \<Rightarrow> ('x \<times> value_env) option \<Rightarrow> bool" where
  "kept env m \<longleftrightarrow> (\<forall>x e. m = Some (x, e) \<longrightarrow> env_attaches e = env_attaches env \<and> env_next e = env_next env)"

lemma kept_basic: "kept env (with_errs f env)" "kept env (pure_value v env)" "kept env (Some (x, env))" "kept env None"
  by (auto simp: kept_def with_errs_def pure_value_def)

lemma kept_if: "kept env m \<Longrightarrow> kept env n \<Longrightarrow> kept env (if c then m else n)"
  by simp

lemma kept_bind: "kept env m \<Longrightarrow> (\<And>x e. kept e (f x e)) \<Longrightarrow> kept env (Option.bind m (\<lambda>(x, e). f x e))"
  by (auto simp: kept_def bind_eq_Some_conv)

lemma kept_opt: "(\<And>x. kept env (f x)) \<Longrightarrow> kept env (Option.bind m f)"
  by (auto simp: kept_def bind_eq_Some_conv)

lemma new_from_string_kept:
  "k \<noteq> ICAL_ATTACH_VALUE \<Longrightarrow> k \<noteq> ICAL_BINARY_VALUE \<Longrightarrow> kept env (icalvalue_new_from_string k s env)"
  unfolding icalvalue_new_from_string_def
  by (cases k; simp only: icalvalue_kind.case simp_thms; (rule kept_basic | rule kept_if | rule kept_bind | rule kept_opt)+)

lemma counted_same:
  "env_attaches env' = env_attaches env \<Longrightarrow> env_next env' = env_next env \<Longrightarrow> counted vs env' a = counted vs env a"
  by (simp add: counted_def split: option.splits)

lemma counted_cons: "v_data v \<noteq> V_attach a \<Longrightarrow> counted (v # vs) env a = counted vs env a"
  by (cases "env_attaches env a") (simp_all add: counted_def uses_Cons)

lemma attach_inv_cons:
  "attach_inv vs env \<Longrightarrow> value_typed v \<Longrightarrow> (\<And>a. v_data v \<noteq> V_attach a) \<Longrightarrow> env_attaches env' = env_attaches env \<Longrightarrow>
     env_next env' = env_next env \<Longrightarrow> attach_inv (v # vs) env'"
  using counted_same [of env' env vs] by (simp add: attach_inv_def counted_cons)

lemma typed_attach: "value_typed v \<Longrightarrow> v_kind v \<noteq> ICAL_ATTACH_VALUE \<Longrightarrow> v_data v \<noteq> V_attach a"
  by (auto simp: value_typed_def data_typed_def)

lemma attach_inv_new:
  assumes "attach_inv vs env"
  shows "\<exists>v env'. value_of_attach (new_attach u s env) = Some (Some v, env') \<and> attach_inv (v # vs) env'"
proof -
  let ?a = "env_next env" let ?v = "plain_value ICAL_ATTACH_VALUE (V_attach (env_next env))"
  let ?e = "env\<lparr>env_attaches := (env_attaches env)(?a \<mapsto> \<lparr>at_refcount = 1, at_is_url = u, at_text = s\<rparr>), env_next := Suc ?a\<rparr>"
  have inv: "counted vs env a" for a using assms by (simp add: attach_inv_def)
  have z: "uses vs ?a = 0" using inv [of ?a] by (auto simp: counted_def split: option.splits)
  have r: "value_of_attach (new_attach u s env) = Some (Some ?v, ?e)"
    by (simp add: value_of_attach_def new_attach_def icalvalue_new_attach_def new_impl_valid icalvalue_set_attach_def
        icalattach_ref_def icalattach_unref_def v_attach_def plain_value_def)
  have "counted (?v # vs) ?e a" for a
    using inv [of a] z by (cases "a = ?a") (auto simp: counted_def uses_Cons split: option.splits)
  moreover have "value_typed ?v" by (simp add: value_typed_def data_typed_def plain_value_def)
  ultimately have "attach_inv (?v # vs) ?e" using assms by (simp add: attach_inv_def)
  with r show ?thesis by blast
qed

lemma attach_inv_parse:
  assumes inv: "attach_inv vs env" and r: "icalvalue_new_from_string k s env = Some (vo, env')"
  shows "attach_inv (case vo of None \<Rightarrow> vs | Some v \<Rightarrow> v # vs) env'"
proof (cases "k \<in> {ICAL_ATTACH_VALUE, ICAL_BINARY_VALUE}")
  case True
  then obtain u where "value_of_attach (new_attach u s env) = Some (vo, env')"
    using r by (auto simp: icalvalue_new_from_string_def icalattach_new_from_url_def icalattach_new_from_data_def)
  with attach_inv_new [OF inv, of u s] show ?thesis by auto
next
  case False
  then have e: "env_attaches env' = env_attaches env \<and> env_next env' = env_next env"
    using r new_from_string_kept [of k env s] by (auto simp: kept_def)
  show ?thesis
  proof (cases vo)
    case None
    have "counted vs env' = counted vs env" by (intro ext counted_same) (use e in auto)
    with None inv show ?thesis by (simp add: attach_inv_def)
  next
    case (Some v)
    with r parsed_typed have t: "value_typed v" "v_kind v \<in> result_kinds k" by blast+
    then have "v_kind v \<noteq> ICAL_ATTACH_VALUE" using False by (cases k) (auto simp: result_kinds_def)
    then have "attach_inv (v # vs) env'"
      using e by (intro attach_inv_cons [OF inv t(1) typed_attach [OF t(1)]]) simp_all
    with Some show ?thesis by simp
  qed
qed

lemma attach_inv_clone:
  assumes inv: "attach_inv vs env" and v: "v \<in> set vs"
  shows "\<exists>c env'. icalvalue_new_clone v env = Some (Some c, env') \<and> v_kind c = v_kind v \<and> v_data c = v_data v \<and>
    attach_inv (c # vs) env'"
proof -
  have t: "data_typed (v_kind v) (v_data v)" using inv v by (simp add: attach_inv_def value_typed_def)
  then have k: "v_kind v \<noteq> ICAL_ANY_VALUE" "v_kind v \<noteq> ICAL_BINARY_VALUE"
    by (auto simp: data_typed_def string_kinds_def enum_kinds_def split: icalvalue_data.splits)
  show ?thesis
  proof (cases "v_kind v = ICAL_ATTACH_VALUE")
    case True
    then obtain a where a: "v_data v = V_attach a"
      using t by (auto simp: data_typed_def string_kinds_def enum_kinds_def split: icalvalue_data.splits)
    then have u: "0 < uses vs a" using v by (auto simp: uses_def filter_empty_conv)
    have inv': "counted vs env b" for b using inv by (simp add: attach_inv_def)
    obtain t0 where o: "env_attaches env a = Some t0" "at_refcount t0 = int (uses vs a)"
      using u inv' [of a] by (auto simp: counted_def split: option.splits)
    let ?c = "(plain_value ICAL_ATTACH_VALUE V_zero)\<lparr>v_size := v_size v, v_data := V_attach a\<rparr>"
    let ?e = "env\<lparr>env_attaches := (env_attaches env)(a \<mapsto> t0\<lparr>at_refcount := at_refcount t0 + 1\<rparr>)\<rparr>"
    have r: "icalvalue_new_clone v env = Some (Some ?c, ?e)"
      using True a o u by (simp add: icalvalue_new_clone_def new_impl_valid v_attach_def icalattach_ref_def)
    have "counted (?c # vs) ?e b" for b
      using inv' [of b] o by (cases "a = b") (auto simp: counted_def uses_Cons split: option.splits)
    then have "attach_inv (?c # vs) ?e"
      using inv by (simp add: attach_inv_def value_typed_def data_typed_def plain_value_def)
    with r a True show ?thesis by auto
  next
    case False
    then have n: "v_data v \<noteq> V_attach a" for a using t by (auto simp: data_typed_def)
    obtain c where c: "icalvalue_new_clone v env = Some (Some c, env)" "v_kind c = v_kind v" "v_data c = v_data v"
        "v_parent c = 0"
      using t k False
      by (cases "v_data v") (auto simp: icalvalue_new_clone_def new_impl_valid Let_def data_typed_def string_kinds_def
          enum_kinds_def plain_value_def v_string_def v_recur_def split: option.splits)
    then have "value_typed c" using t by (simp add: value_typed_def)
    then have "attach_inv (c # vs) env" using n c(3) by (intro attach_inv_cons [OF inv]) simp_all
    with c show ?thesis by blast
  qed
qed

lemma attach_inv_free:
  assumes inv: "attach_inv vs env" and v: "v \<in> set vs"
  shows "\<exists>env'. icalvalue_free v env = Some env' \<and> attach_inv (remove1 v vs) env'"
proof -
  have ty: "\<forall>w \<in> set (remove1 v vs). value_typed w" "value_typed v"
    using inv v set_remove1_subset [of v vs] by (auto simp: attach_inv_def)
  have inv': "counted vs env b" for b using inv by (simp add: attach_inv_def)
  show ?thesis
  proof (cases "\<exists>a. v_data v = V_attach a")
    case True
    then obtain a where a: "v_data v = V_attach a" by blast
    then have k: "v_kind v = ICAL_ATTACH_VALUE" "v_parent v = 0" using ty(2) by (auto simp: value_typed_def data_typed_def)
    have u: "0 < uses vs a" using v a by (auto simp: uses_def filter_empty_conv)
    with inv' [of a] obtain t0 where o: "env_attaches env a = Some t0" "at_refcount t0 = int (uses vs a)" "a < env_next env"
      by (auto simp: counted_def split: option.splits)
    let ?e = "env\<lparr>env_attaches := (env_attaches env)
       (a := if at_refcount t0 - 1 \<noteq> 0 then Some (t0\<lparr>at_refcount := at_refcount t0 - 1\<rparr>) else None)\<rparr>"
    have r: "icalvalue_free v env = Some ?e"
      using k a o u by (simp add: icalvalue_free_def v_attach_def icalattach_unref_def)
    have "counted (remove1 v vs) ?e b" for b
      using inv' [of b] uses_remove1 [OF v, of b] o a by (cases "a = b") (auto simp: counted_def split: option.splits)
    with r ty show ?thesis by (auto simp: attach_inv_def)
  next
    case False
    then have "v_kind v \<noteq> ICAL_BINARY_VALUE" "v_kind v \<noteq> ICAL_ATTACH_VALUE"
      using ty(2) by (auto simp: value_typed_def data_typed_def string_kinds_def enum_kinds_def split: icalvalue_data.splits)
    then have r: "icalvalue_free v env = Some env" by (simp add: icalvalue_free_def)
    have "counted (remove1 v vs) env b" for b
      using inv' [of b] uses_remove1 [OF v, of b] False by (auto simp: counted_def split: option.splits)
    with r ty show ?thesis by (auto simp: attach_inv_def)
  qed
qed

section \<open>Properties\<close>

definition quiet_env :: value_env where
  "quiet_env = \<lparr>env_errs = \<lparr>icalerrno = ICAL_NO_ERROR, icalerror_errors_are_fatal = 0,
     error_state_map = [(ICAL_MALFORMEDDATA_ERROR, ICAL_ERROR_DEFAULT)]\<rparr>, env_attaches = Map.empty, env_next = 1\<rparr>"

text \<open>C39: Whatever text is read as a value of a kind, the value that comes back has the member of the union
  that its kind promises, so that printing and comparing never read another member; its kind is
  the kind that was asked for, up to the choices among dates, times, periods and durations.\<close>

theorem parsed_value_typed:
  assumes "icalvalue_new_from_string k s env = Some (Some v, env')"
  shows "value_typed v \<and> v_kind v \<in> result_kinds k"
  by (rule parsed_typed [OF assms])

theorem parsed_value_typed_witness:
  "value_typed (plain_value ICAL_DATE_VALUE (V_time (icaltime_null_time\<lparr>year := 2007, month := 11, day := 1, is_date := 1\<rparr>))) \<and>
   ICAL_DATE_VALUE \<in> result_kinds ICAL_DATETIME_VALUE"
proof -
  let ?t = "icaltime_null_time\<lparr>year := 2007, month := 11, day := 1, is_date := 1\<rparr>"
  have t: "printable_time ?t" by (simp add: printable_time_def printable_date_def icaltime_null_time_def)
  have "icalvalue_new_from_string ICAL_DATETIME_VALUE (time_text ?t) quiet_env =
      Some (Some (plain_value ICAL_DATE_VALUE (V_time ?t)), quiet_env)"
    using from_string_text [OF t, of "env_errs quiet_env"]
    by (simp add: icalvalue_new_from_string_def with_errs_def value_of_time_def icaltime_is_null_time_def
        icaltime_null_time_def new_impl_valid icalvalue_reset_kind_def v_time_def icaltime_is_date_def)
      (simp add: plain_value_def)
  from parsed_value_typed [OF this] show ?thesis by simp
qed

text \<open>C38: The text that is printed for a text, an integer, an offset from UTC, an enumerated value, a date, a
  time, a duration, a period, a rule or a plain string is read back as the same value, and the
  state of the library is unchanged.\<close>

theorem value_text_inverse:
  assumes "printable_data k d" "errs_ok env"
  shows "\<exists>s. icalvalue_as_ical_string_r (Some (plain_value k d)) env = Some (Some s, env) \<and>
    icalvalue_new_from_string k s env = Some (Some (plain_value k (canon_data d)), env)"
  using data_as_string [OF assms(1)] data_read [OF assms] by blast

theorem value_text_inverse_witness:
  "\<exists>s. icalvalue_as_ical_string_r (Some (plain_value ICAL_TEXT_VALUE (V_string ''a, b; c''))) quiet_env = Some (Some s, quiet_env) \<and>
    icalvalue_new_from_string ICAL_TEXT_VALUE s quiet_env =
      Some (Some (plain_value ICAL_TEXT_VALUE (canon_data (V_string ''a, b; c''))), quiet_env)"
  by (rule value_text_inverse)
    (simp_all add: printable_data_def nul_free_codes errs_ok_def quiet_env_def)

text \<open>C40: As long as values are read from texts, cloned and freed, exactly the attachments of the values
  that are alive exist, and the count of each is the number of these values: none is freed while
  it is used and none is left behind.\<close>

theorem attachments_counted:
  assumes "attach_inv vs env"
  shows "(\<forall>k s vo env'. icalvalue_new_from_string k s env = Some (vo, env') \<longrightarrow>
      attach_inv (case vo of None \<Rightarrow> vs | Some v \<Rightarrow> v # vs) env') \<and>
    (\<forall>v \<in> set vs. \<exists>c env'. icalvalue_new_clone v env = Some (Some c, env') \<and> v_kind c = v_kind v \<and>
      v_data c = v_data v \<and> attach_inv (c # vs) env') \<and>
    (\<forall>v \<in> set vs. \<exists>env'. icalvalue_free v env = Some env' \<and> attach_inv (remove1 v vs) env')"
  using attach_inv_parse [OF assms] attach_inv_clone [OF assms] attach_inv_free [OF assms] by blast

theorem attachments_counted_witness:
  "\<exists>c env'. icalvalue_new_clone (plain_value ICAL_ATTACH_VALUE (V_attach 1))
      (quiet_env\<lparr>env_attaches := [1 \<mapsto> \<lparr>at_refcount = 1, at_is_url = True, at_text = ''u''\<rparr>], env_next := 2\<rparr>) =
        Some (Some c, env') \<and>
    attach_inv [c, plain_value ICAL_ATTACH_VALUE (V_attach 1)] env'"
proof -
  let ?v = "plain_value ICAL_ATTACH_VALUE (V_attach 1)"
  let ?e = "quiet_env\<lparr>env_attaches := [1 \<mapsto> \<lparr>at_refcount = 1, at_is_url = True, at_text = ''u''\<rparr>], env_next := 2\<rparr>"
  have "attach_inv [?v] ?e"
    by (simp add: attach_inv_def counted_def uses_def value_typed_def data_typed_def plain_value_def)
  from attachments_counted [OF this] show ?thesis by auto
qed

end
