(* ===== verification/IcalObject.thy ===== *)
theory IcalObject
  imports ValueText Pvl IcalArray
begin

text \<open>
  The store of objects: values, parameters, properties and components, which point to each
  other. An address is a number, and 0 is the null pointer; \<open>malloc\<close> gives an address that was
  never used and \<open>free\<close> takes the object out of the store. The constructor of an object is the
  tag in its member \<^verbatim>\<open>id\<close>. A list of \<^verbatim>\<open>pvl.c\<close> has its elements in a heap of its own, since no
  operation mixes the elements of two lists. Parameters are \<^verbatim>\<open>icalparameter.c\<close> and
  \<^verbatim>\<open>icalderivedparameter.c\<close>.

  A failed assertion, a null or dangling pointer and an object of another kind than the code
  takes it for are the result \<open>None\<close>.
\<close>

section \<open>Objects\<close>

type_synonym plist = "pvl_list \<times> nat pvl_heap"

definition new_plist :: plist where
  "new_plist = pvl_newlist \<lparr>cells = Map.empty, fresh = 1, pvl_elem_count = 0, pvl_list_count = 0\<rparr>"

record icalparameter =
  pa_kind :: icalparameter_kind
  pa_size :: int
  pa_string :: "string option"
  pa_x_name :: "string option"
  pa_parent :: nat
  pa_data :: int

record icalproperty =
  pr_kind :: icalproperty_kind
  pr_x_name :: "string option"
  pr_parameters :: plist
  pr_parameter_iterator :: nat
  pr_value :: nat
  pr_parent :: nat

text \<open>
  A time zone of a calendar. The changes of its offset are there once they were asked for, up to
  the year \<open>tz_end_year\<close>. The coordinates are those of zones of the system.
\<close>

record icaltimezone =
  tz_tzid :: "string option"
  tz_location :: "string option"
  tz_tznames :: "string option"
  tz_latitude :: rat
  tz_longitude :: rat
  tz_component :: nat
  tz_builtin_timezone :: "zone_ref option"
  tz_end_year :: int
  tz_changes :: "changes option"

record icalcomponent =
  co_kind :: icalcomponent_kind
  co_x_name :: "string option"
  co_properties :: plist
  co_property_iterator :: nat
  co_components :: plist
  co_component_iterator :: nat
  co_parent :: nat
  co_timezones :: "icaltimezone icalarray option"
  co_timezones_sorted :: int

datatype icalobject = Val icalvalue | Para icalparameter | Prop icalproperty | Comp icalcomponent

section \<open>The store\<close>

record ical =
  i_env :: value_env
  i_objs :: "nat \<rightharpoonup> icalobject"
  i_next :: nat

definition val_at :: "nat \<Rightarrow> ical \<Rightarrow> icalvalue option" where
  "val_at p st = (case i_objs st p of Some (Val v) \<Rightarrow> Some v | _ \<Rightarrow> None)"

definition para_at :: "nat \<Rightarrow> ical \<Rightarrow> icalparameter option" where
  "para_at p st = (case i_objs st p of Some (Para r) \<Rightarrow> Some r | _ \<Rightarrow> None)"

definition prop_at :: "nat \<Rightarrow> ical \<Rightarrow> icalproperty option" where
  "prop_at p st = (case i_objs st p of Some (Prop r) \<Rightarrow> Some r | _ \<Rightarrow> None)"

definition comp_at :: "nat \<Rightarrow> ical \<Rightarrow> icalcomponent option" where
  "comp_at p st = (case i_objs st p of Some (Comp r) \<Rightarrow> Some r | _ \<Rightarrow> None)"

definition put_obj :: "nat \<Rightarrow> icalobject \<Rightarrow> ical \<Rightarrow> ical" where
  "put_obj p x st = st\<lparr>i_objs := (i_objs st)(p \<mapsto> x)\<rparr>"

definition set_val :: "nat \<Rightarrow> (icalvalue \<Rightarrow> icalvalue) \<Rightarrow> ical \<Rightarrow> ical option" where
  "set_val p f st = map_option (\<lambda>r. put_obj p (Val (f r)) st) (val_at p st)"

definition set_para :: "nat \<Rightarrow> (icalparameter \<Rightarrow> icalparameter) \<Rightarrow> ical \<Rightarrow> ical option" where
  "set_para p f st = map_option (\<lambda>r. put_obj p (Para (f r)) st) (para_at p st)"

definition set_prop :: "nat \<Rightarrow> (icalproperty \<Rightarrow> icalproperty) \<Rightarrow> ical \<Rightarrow> ical option" where
  "set_prop p f st = map_option (\<lambda>r. put_obj p (Prop (f r)) st) (prop_at p st)"

definition set_comp :: "nat \<Rightarrow> (icalcomponent \<Rightarrow> icalcomponent) \<Rightarrow> ical \<Rightarrow> ical option" where
  "set_comp p f st = map_option (\<lambda>r. put_obj p (Comp (f r)) st) (comp_at p st)"

definition new_obj :: "icalobject \<Rightarrow> ical \<Rightarrow> nat \<times> ical" where
  "new_obj x st = (i_next st, (put_obj (i_next st) x st)\<lparr>i_next := Suc (i_next st)\<rparr>)"

definition free_obj :: "nat \<Rightarrow> ical \<Rightarrow> ical" where
  "free_obj p st = st\<lparr>i_objs := (i_objs st)(p := None)\<rparr>"

text \<open>Routines that know the values and their attachments only, or the errors only.\<close>

definition in_env :: "(value_env \<Rightarrow> ('x \<times> value_env) option) \<Rightarrow> ical \<Rightarrow> ('x \<times> ical) option" where
  "in_env f st = map_option (\<lambda>(x, env). (x, st\<lparr>i_env := env\<rparr>)) (f (i_env st))"

definition errs :: "ical \<Rightarrow> icalerror_state" where
  "errs st = env_errs (i_env st)"

definition with_error_state :: "icalerror_state \<Rightarrow> ical \<Rightarrow> ical" where
  "with_error_state es st = st\<lparr>i_env := (i_env st)\<lparr>env_errs := es\<rparr>\<rparr>"

definition set_errno :: "icalerrorenum \<Rightarrow> ical \<Rightarrow> ical option" where
  "set_errno e st = map_option (\<lambda>es. with_error_state es st) (icalerror_set_errno e (errs st))"

definition clear_errno :: "ical \<Rightarrow> ical" where
  "clear_errno st = with_error_state (icalerror_clear_errno (errs st)) st"

text \<open>The check of an argument: an error number and the given result.\<close>

definition bad_arg :: "'x \<Rightarrow> ical \<Rightarrow> ('x \<times> ical) option" where
  "bad_arg x st = map_option (\<lambda>st1. (x, st1)) (set_errno ICAL_BADARG_ERROR st)"

definition bad_arg_v :: "ical \<Rightarrow> ical option" where
  "bad_arg_v = set_errno ICAL_BADARG_ERROR"

text \<open>
  The loops over a list follow \<open>next\<close>; the fuel is the number of elements ever made in the
  list. The first element at or behind \<open>e\<close> whose item satisfies the test, 0 if none.
\<close>

fun find_from :: "nat \<Rightarrow> (nat \<Rightarrow> bool option) \<Rightarrow> nat \<Rightarrow> nat pvl_heap \<Rightarrow> nat option" where
  "find_from 0 P e h = None"
| "find_from (Suc n) P e h =
     (if e = 0 then Some 0
      else do {
        c \<leftarrow> cells h e;
        b \<leftarrow> P (e_data c);
        if b then Some e else find_from n P (e_next c) h })"

definition find_elem :: "(nat \<Rightarrow> bool option) \<Rightarrow> nat \<Rightarrow> plist \<Rightarrow> nat option" where
  "find_elem P e L = find_from (fresh (snd L)) P e (snd L)"

text \<open>A pointer out of an element; a null element gives a null pointer.\<close>

definition elem_data :: "nat \<Rightarrow> plist \<Rightarrow> nat option" where
  "elem_data e L = map_option (\<lambda>d. case d of None \<Rightarrow> 0 | Some x \<Rightarrow> x) (pvl_data e (snd L))"

definition push_elem :: "nat \<Rightarrow> plist \<Rightarrow> plist option" where
  "push_elem x L = pvl_push (fst L) x (snd L)"

definition unshift_elem :: "nat \<Rightarrow> plist \<Rightarrow> plist option" where
  "unshift_elem x L = pvl_unshift (fst L) x (snd L)"

definition remove_elem :: "nat \<Rightarrow> plist \<Rightarrow> plist option" where
  "remove_elem e L = map_option snd (pvl_remove (fst L) e (snd L))"

definition pop_elem :: "plist \<Rightarrow> (nat \<times> plist) option" where
  "pop_elem L = map_option (\<lambda>(x, L1). (case x of None \<Rightarrow> 0 | Some y \<Rightarrow> y, L1)) (pvl_pop (fst L) (snd L))"

section \<open>Parameters\<close>

definition icalparameter_new_impl :: "icalparameter_kind \<Rightarrow> ical \<Rightarrow> nat \<times> ical" where
  "icalparameter_new_impl kind =
     new_obj (Para \<lparr>pa_kind = kind, pa_size = 0, pa_string = None, pa_x_name = None, pa_parent = 0, pa_data = 0\<rparr>)"

definition icalparameter_new :: "icalparameter_kind \<Rightarrow> ical \<Rightarrow> nat \<times> ical" where
  "icalparameter_new = icalparameter_new_impl"

definition icalparameter_free :: "nat \<Rightarrow> ical \<Rightarrow> ical option" where
  "icalparameter_free param st = do {
     r \<leftarrow> para_at param st;
     Some (if pa_parent r \<noteq> 0 then st else free_obj param st) }"

definition icalparameter_new_clone :: "nat \<Rightarrow> ical \<Rightarrow> (nat \<times> ical) option" where
  "icalparameter_new_clone old st = do {
     r \<leftarrow> para_at old st;
     Some (new_obj (Para r) st) }"

definition icalparameter_isa :: "nat \<Rightarrow> ical \<Rightarrow> icalparameter_kind option" where
  "icalparameter_isa p st = (if p = 0 then Some ICAL_NO_PARAMETER else map_option pa_kind (para_at p st))"

definition icalparameter_isa_parameter :: "nat \<Rightarrow> ical \<Rightarrow> bool option" where
  "icalparameter_isa_parameter p st =
     (if p = 0 then Some False
      else map_option (\<lambda>x. case x of Para _ \<Rightarrow> True | _ \<Rightarrow> False) (i_objs st p))"

definition icalparameter_set_xname :: "nat \<Rightarrow> string option \<Rightarrow> ical \<Rightarrow> ical option" where
  "icalparameter_set_xname p v st =
     (if p = 0 \<or> v = None then bad_arg_v st else set_para p (\<lambda>r. r\<lparr>pa_x_name := v\<rparr>) st)"

definition icalparameter_get_xname :: "nat \<Rightarrow> ical \<Rightarrow> (string option \<times> ical) option" where
  "icalparameter_get_xname p st =
     (if p = 0 then bad_arg None st else map_option (\<lambda>r. (pa_x_name r, st)) (para_at p st))"

definition icalparameter_set_xvalue :: "nat \<Rightarrow> string option \<Rightarrow> ical \<Rightarrow> ical option" where
  "icalparameter_set_xvalue p v st =
     (if p = 0 \<or> v = None then bad_arg_v st else set_para p (\<lambda>r. r\<lparr>pa_string := v\<rparr>) st)"

definition icalparameter_get_xvalue :: "nat \<Rightarrow> ical \<Rightarrow> (string option \<times> ical) option" where
  "icalparameter_get_xvalue p st =
     (if p = 0 then bad_arg None st else map_option (\<lambda>r. (pa_string r, st)) (para_at p st))"

definition icalparameter_set_parent :: "nat \<Rightarrow> nat \<Rightarrow> ical \<Rightarrow> ical option" where
  "icalparameter_set_parent p q st = (if p = 0 then bad_arg_v st else set_para p (\<lambda>r. r\<lparr>pa_parent := q\<rparr>) st)"

definition icalparameter_get_parent :: "nat \<Rightarrow> ical \<Rightarrow> (nat \<times> ical) option" where
  "icalparameter_get_parent p st =
     (if p = 0 then bad_arg 0 st else map_option (\<lambda>r. (pa_parent r, st)) (para_at p st))"

text \<open>
  A value is looked up among the enumerated values of its kind; a kind that has them keeps an
  unknown value as an X value, and the other kinds keep the text.
\<close>

definition icalparameter_new_from_value_string ::
    "icalparameter_kind \<Rightarrow> string option \<Rightarrow> ical \<Rightarrow> (nat \<times> ical) option" where
  "icalparameter_new_from_value_string kind vo st =
     (case vo of
        None \<Rightarrow> bad_arg 0 st
      | Some v \<Rightarrow>
          let (param, st1) = icalparameter_new_impl kind st
          in case List.find (\<lambda>(k, e, s). k = kind \<and> strcaseeq v s) parameter_enum_entries of
               Some (k, e, s) \<Rightarrow> map_option (\<lambda>st2. (param, st2)) (set_para param (\<lambda>r. r\<lparr>pa_data := e\<rparr>) st1)
             | None \<Rightarrow>
                 if \<exists>(k, e, s) \<in> set parameter_enum_entries. k = kind
                 then map_option (\<lambda>st2. (param, st2)) (icalparameter_set_xvalue param (Some v) st1)
                 else map_option (\<lambda>st2. (param, st2)) (set_para param (\<lambda>r. r\<lparr>pa_string := Some v\<rparr>) st1))"

definition icalparameter_new_from_string :: "string option \<Rightarrow> ical \<Rightarrow> (nat \<times> ical) option" where
  "icalparameter_new_from_string so st =
     (case so of
        None \<Rightarrow> bad_arg 0 st
      | Some str \<Rightarrow>
          (case split_chr (CHR ''='') str of
             (cpy, None) \<Rightarrow> map_option (\<lambda>st1. (0, st1)) (set_errno ICAL_MALFORMEDDATA_ERROR st)
           | (cpy, Some eq) \<Rightarrow>
               let kind = icalparameter_string_to_kind (Some cpy)
               in if kind = ICAL_NO_PARAMETER
                  then map_option (\<lambda>st1. (0, st1)) (set_errno ICAL_MALFORMEDDATA_ERROR st)
                  else do {
                    (param, st1) \<leftarrow> icalparameter_new_from_value_string kind (Some eq) st;
                    st2 \<leftarrow> (if kind = ICAL_X_PARAMETER then icalparameter_set_xname param (Some cpy) st1 else Some st1);
                    Some (param, st2) }))"

text \<open>
  Printing. The value is put into quotes if it has one of three characters; a quote in it is
  not treated.
\<close>

definition needs_quotes :: "string \<Rightarrow> bool" where
  "needs_quotes s \<longleftrightarrow> (\<exists>c \<in> set s. c \<in> {CHR '';'', CHR '':'', CHR '',''})"

definition put_param_value :: "icalparameter \<Rightarrow> writer \<Rightarrow> writer option" where
  "put_param_value r w =
     (case pa_string r of
        Some s \<Rightarrow>
          if needs_quotes s then do {
            w1 \<leftarrow> put_char DQUOTE w;
            w2 \<leftarrow> put_text (Some s) w1;
            put_char DQUOTE w2 }
          else put_text (Some s) w
      | None \<Rightarrow> do {
          (so, es) \<leftarrow> icalparameter_enum_to_string (pa_data r) (snd w);
          put_text so (fst w, es) })"

definition parameter_text :: "icalparameter \<Rightarrow> icalerror_state \<Rightarrow> (string option \<times> icalerror_state) option" where
  "parameter_text r es =
     (let name = (if pa_kind r = ICAL_X_PARAMETER then pa_x_name r else icalparameter_kind_to_string (pa_kind r));
          fail = (\<lambda>e es. map_option (\<lambda>es1. (None, es1)) (icalerror_set_errno e es))
      in if pa_kind r \<noteq> ICAL_X_PARAMETER \<and>
            (pa_kind r = ICAL_NO_PARAMETER \<or> pa_kind r = ICAL_ANY_PARAMETER \<or> name = None)
         then fail ICAL_BADARG_ERROR es
         else do {
           w1 \<leftarrow> put_text name (icalmemory_new_buffer 1024, es);
           w2 \<leftarrow> put_text (Some ''='') w1;
           if pa_string r = None \<and> pa_data r = 0 then fail ICAL_MALFORMEDDATA_ERROR (snd w2)
           else map_option (\<lambda>w. (Some (sb_text (fst w)), snd w)) (put_param_value r w2) })"

definition icalparameter_as_ical_string_r :: "nat \<Rightarrow> ical \<Rightarrow> (string option \<times> ical) option" where
  "icalparameter_as_ical_string_r p st =
     (if p = 0 then bad_arg None st
      else do {
        r \<leftarrow> para_at p st;
        map_option (\<lambda>(so, es). (so, with_error_state es st)) (parameter_text r (errs st)) })"

end
