(* ===== verification/ParamAccess.thy ===== *)
theory ParamAccess
  imports IcalObject
begin

text \<open>
  The constructors, readers and writers of the kinds of parameters in
  \<^verbatim>\<open>icalderivedparameter.c\<close>: those that hold a text and those that hold an enumerated value,
  some of which give the X value if the parameter has a text. The error number is clear behind
  a writer, so that a constructor never gives its new parameter up.
\<close>

section \<open>The common shape\<close>

definition new_text_parameter :: "icalparameter_kind \<Rightarrow> string option \<Rightarrow> ical \<Rightarrow> (nat \<times> ical) option" where
  "new_text_parameter kind v st =
     (let st0 = clear_errno st
      in if v = None then bad_arg 0 st0
         else let (p, st1) = icalparameter_new_impl kind st0
              in map_option (\<lambda>st2. (p, st2)) (set_para p (\<lambda>r. r\<lparr>pa_string := v\<rparr>) (clear_errno st1)))"

definition get_text_parameter :: "nat \<Rightarrow> ical \<Rightarrow> (string option \<times> ical) option" where
  "get_text_parameter p st =
     (let st0 = clear_errno st
      in if p = 0 then bad_arg None st0 else map_option (\<lambda>r. (pa_string r, st0)) (para_at p st0))"

definition set_text_parameter :: "nat \<Rightarrow> string option \<Rightarrow> ical \<Rightarrow> ical option" where
  "set_text_parameter p v st =
     (if v = None \<or> p = 0 then bad_arg_v st else set_para p (\<lambda>r. r\<lparr>pa_string := v\<rparr>) (clear_errno st))"

definition set_enum_parameter :: "int \<Rightarrow> int \<Rightarrow> nat \<Rightarrow> int \<Rightarrow> ical \<Rightarrow> ical option" where
  "set_enum_parameter lo hi p v st =
     (if \<not> (lo \<le> v \<and> v < hi) \<or> p = 0 then bad_arg_v st else set_para p (\<lambda>r. r\<lparr>pa_data := v\<rparr>) (clear_errno st))"

definition new_enum_parameter ::
    "icalparameter_kind \<Rightarrow> int \<Rightarrow> int \<Rightarrow> int \<Rightarrow> ical \<Rightarrow> (nat \<times> ical) option" where
  "new_enum_parameter kind lo hi v st =
     (let st0 = clear_errno st
      in if \<not> (lo \<le> v \<and> v < hi) then bad_arg 0 st0
         else let (p, st1) = icalparameter_new_impl kind st0
              in map_option (\<lambda>st2. (p, st2)) (set_enum_parameter lo hi p v st1))"

text \<open>A null parameter is an argument error and is then read.\<close>

definition get_enum_parameter :: "int option \<Rightarrow> nat \<Rightarrow> ical \<Rightarrow> (int \<times> ical) option" where
  "get_enum_parameter x p st =
     (let st0 = clear_errno st
      in map_option (\<lambda>r. (case (x, pa_string r) of (Some e, Some s) \<Rightarrow> e | _ \<Rightarrow> pa_data r, st0)) (para_at p st0))"

section \<open>The kinds\<close>

definition icalparameter_new_id :: "string option \<Rightarrow> ical \<Rightarrow> (nat \<times> ical) option" where
  "icalparameter_new_id = new_text_parameter ICAL_ID_PARAMETER"

definition icalparameter_get_id :: "nat \<Rightarrow> ical \<Rightarrow> (string option \<times> ical) option" where
  "icalparameter_get_id = get_text_parameter"

definition icalparameter_set_id :: "nat \<Rightarrow> string option \<Rightarrow> ical \<Rightarrow> ical option" where
  "icalparameter_set_id = set_text_parameter"

definition icalparameter_new_localize :: "string option \<Rightarrow> ical \<Rightarrow> (nat \<times> ical) option" where
  "icalparameter_new_localize = new_text_parameter ICAL_LOCALIZE_PARAMETER"

definition icalparameter_get_localize :: "nat \<Rightarrow> ical \<Rightarrow> (string option \<times> ical) option" where
  "icalparameter_get_localize = get_text_parameter"

definition icalparameter_set_localize :: "nat \<Rightarrow> string option \<Rightarrow> ical \<Rightarrow> ical option" where
  "icalparameter_set_localize = set_text_parameter"

definition icalparameter_new_language :: "string option \<Rightarrow> ical \<Rightarrow> (nat \<times> ical) option" where
  "icalparameter_new_language = new_text_parameter ICAL_LANGUAGE_PARAMETER"

definition icalparameter_get_language :: "nat \<Rightarrow> ical \<Rightarrow> (string option \<times> ical) option" where
  "icalparameter_get_language = get_text_parameter"

definition icalparameter_set_language :: "nat \<Rightarrow> string option \<Rightarrow> ical \<Rightarrow> ical option" where
  "icalparameter_set_language = set_text_parameter"

definition icalparameter_new_dir :: "string option \<Rightarrow> ical \<Rightarrow> (nat \<times> ical) option" where
  "icalparameter_new_dir = new_text_parameter ICAL_DIR_PARAMETER"

definition icalparameter_get_dir :: "nat \<Rightarrow> ical \<Rightarrow> (string option \<times> ical) option" where
  "icalparameter_get_dir = get_text_parameter"

definition icalparameter_set_dir :: "nat \<Rightarrow> string option \<Rightarrow> ical \<Rightarrow> ical option" where
  "icalparameter_set_dir = set_text_parameter"

definition icalparameter_new_reltype :: "int \<Rightarrow> ical \<Rightarrow> (nat \<times> ical) option" where
  "icalparameter_new_reltype = new_enum_parameter ICAL_RELTYPE_PARAMETER 20046 20050"

definition icalparameter_get_reltype :: "nat \<Rightarrow> ical \<Rightarrow> (int \<times> ical) option" where
  "icalparameter_get_reltype = get_enum_parameter (Some 20046)"

definition icalparameter_set_reltype :: "nat \<Rightarrow> int \<Rightarrow> ical \<Rightarrow> ical option" where
  "icalparameter_set_reltype = set_enum_parameter 20046 20050"

definition icalparameter_new_fmttype :: "string option \<Rightarrow> ical \<Rightarrow> (nat \<times> ical) option" where
  "icalparameter_new_fmttype = new_text_parameter ICAL_FMTTYPE_PARAMETER"

definition icalparameter_get_fmttype :: "nat \<Rightarrow> ical \<Rightarrow> (string option \<times> ical) option" where
  "icalparameter_get_fmttype = get_text_parameter"

definition icalparameter_set_fmttype :: "nat \<Rightarrow> string option \<Rightarrow> ical \<Rightarrow> ical option" where
  "icalparameter_set_fmttype = set_text_parameter"

definition icalparameter_new_options :: "string option \<Rightarrow> ical \<Rightarrow> (nat \<times> ical) option" where
  "icalparameter_new_options = new_text_parameter ICAL_OPTIONS_PARAMETER"

definition icalparameter_get_options :: "nat \<Rightarrow> ical \<Rightarrow> (string option \<times> ical) option" where
  "icalparameter_get_options = get_text_parameter"

definition icalparameter_set_options :: "nat \<Rightarrow> string option \<Rightarrow> ical \<Rightarrow> ical option" where
  "icalparameter_set_options = set_text_parameter"

definition icalparameter_new_tzid :: "string option \<Rightarrow> ical \<Rightarrow> (nat \<times> ical) option" where
  "icalparameter_new_tzid = new_text_parameter ICAL_TZID_PARAMETER"

definition icalparameter_get_tzid :: "nat \<Rightarrow> ical \<Rightarrow> (string option \<times> ical) option" where
  "icalparameter_get_tzid = get_text_parameter"

definition icalparameter_set_tzid :: "nat \<Rightarrow> string option \<Rightarrow> ical \<Rightarrow> ical option" where
  "icalparameter_set_tzid = set_text_parameter"

definition icalparameter_new_enable :: "int \<Rightarrow> ical \<Rightarrow> (nat \<times> ical) option" where
  "icalparameter_new_enable = new_enum_parameter ICAL_ENABLE_PARAMETER 20011 20014"

definition icalparameter_get_enable :: "nat \<Rightarrow> ical \<Rightarrow> (int \<times> ical) option" where
  "icalparameter_get_enable = get_enum_parameter (Some 20011)"

definition icalparameter_set_enable :: "nat \<Rightarrow> int \<Rightarrow> ical \<Rightarrow> ical option" where
  "icalparameter_set_enable = set_enum_parameter 20011 20014"

definition icalparameter_new_range :: "int \<Rightarrow> ical \<Rightarrow> (nat \<times> ical) option" where
  "icalparameter_new_range = new_enum_parameter ICAL_RANGE_PARAMETER 20038 20041"

definition icalparameter_get_range :: "nat \<Rightarrow> ical \<Rightarrow> (int \<times> ical) option" where
  "icalparameter_get_range = get_enum_parameter None"

definition icalparameter_set_range :: "nat \<Rightarrow> int \<Rightarrow> ical \<Rightarrow> ical option" where
  "icalparameter_set_range = set_enum_parameter 20038 20041"

definition icalparameter_new_latency :: "string option \<Rightarrow> ical \<Rightarrow> (nat \<times> ical) option" where
  "icalparameter_new_latency = new_text_parameter ICAL_LATENCY_PARAMETER"

definition icalparameter_get_latency :: "nat \<Rightarrow> ical \<Rightarrow> (string option \<times> ical) option" where
  "icalparameter_get_latency = get_text_parameter"

definition icalparameter_set_latency :: "nat \<Rightarrow> string option \<Rightarrow> ical \<Rightarrow> ical option" where
  "icalparameter_set_latency = set_text_parameter"

definition icalparameter_new_delegatedto :: "string option \<Rightarrow> ical \<Rightarrow> (nat \<times> ical) option" where
  "icalparameter_new_delegatedto = new_text_parameter ICAL_DELEGATEDTO_PARAMETER"

definition icalparameter_get_delegatedto :: "nat \<Rightarrow> ical \<Rightarrow> (string option \<times> ical) option" where
  "icalparameter_get_delegatedto = get_text_parameter"

definition icalparameter_set_delegatedto :: "nat \<Rightarrow> string option \<Rightarrow> ical \<Rightarrow> ical option" where
  "icalparameter_set_delegatedto = set_text_parameter"

definition icalparameter_new_local :: "int \<Rightarrow> ical \<Rightarrow> (nat \<times> ical) option" where
  "icalparameter_new_local = new_enum_parameter ICAL_LOCAL_PARAMETER 20025 20028"

definition icalparameter_get_local :: "nat \<Rightarrow> ical \<Rightarrow> (int \<times> ical) option" where
  "icalparameter_get_local = get_enum_parameter (Some 20025)"

definition icalparameter_set_local :: "nat \<Rightarrow> int \<Rightarrow> ical \<Rightarrow> ical option" where
  "icalparameter_set_local = set_enum_parameter 20025 20028"

definition icalparameter_new_cn :: "string option \<Rightarrow> ical \<Rightarrow> (nat \<times> ical) option" where
  "icalparameter_new_cn = new_text_parameter ICAL_CN_PARAMETER"

definition icalparameter_get_cn :: "nat \<Rightarrow> ical \<Rightarrow> (string option \<times> ical) option" where
  "icalparameter_get_cn = get_text_parameter"

definition icalparameter_set_cn :: "nat \<Rightarrow> string option \<Rightarrow> ical \<Rightarrow> ical option" where
  "icalparameter_set_cn = set_text_parameter"

definition icalparameter_new_charset :: "string option \<Rightarrow> ical \<Rightarrow> (nat \<times> ical) option" where
  "icalparameter_new_charset = new_text_parameter ICAL_CHARSET_PARAMETER"

definition icalparameter_get_charset :: "nat \<Rightarrow> ical \<Rightarrow> (string option \<times> ical) option" where
  "icalparameter_get_charset = get_text_parameter"

definition icalparameter_set_charset :: "nat \<Rightarrow> string option \<Rightarrow> ical \<Rightarrow> ical option" where
  "icalparameter_set_charset = set_text_parameter"

definition icalparameter_new_actionparam :: "int \<Rightarrow> ical \<Rightarrow> (nat \<times> ical) option" where
  "icalparameter_new_actionparam = new_enum_parameter ICAL_ACTIONPARAM_PARAMETER 20000 20003"

definition icalparameter_get_actionparam :: "nat \<Rightarrow> ical \<Rightarrow> (int \<times> ical) option" where
  "icalparameter_get_actionparam = get_enum_parameter (Some 20000)"

definition icalparameter_set_actionparam :: "nat \<Rightarrow> int \<Rightarrow> ical \<Rightarrow> ical option" where
  "icalparameter_set_actionparam = set_enum_parameter 20000 20003"

definition icalparameter_new_value :: "int \<Rightarrow> ical \<Rightarrow> (nat \<times> ical) option" where
  "icalparameter_new_value = new_enum_parameter ICAL_VALUE_PARAMETER 20061 20076"

definition icalparameter_get_value :: "nat \<Rightarrow> ical \<Rightarrow> (int \<times> ical) option" where
  "icalparameter_get_value = get_enum_parameter (Some 20061)"

definition icalparameter_set_value :: "nat \<Rightarrow> int \<Rightarrow> ical \<Rightarrow> ical option" where
  "icalparameter_set_value = set_enum_parameter 20061 20076"

definition icalparameter_new_xliccomparetype :: "int \<Rightarrow> ical \<Rightarrow> (nat \<times> ical) option" where
  "icalparameter_new_xliccomparetype = new_enum_parameter ICAL_XLICCOMPARETYPE_PARAMETER 20077 20087"

definition icalparameter_get_xliccomparetype :: "nat \<Rightarrow> ical \<Rightarrow> (int \<times> ical) option" where
  "icalparameter_get_xliccomparetype = get_enum_parameter None"

definition icalparameter_set_xliccomparetype :: "nat \<Rightarrow> int \<Rightarrow> ical \<Rightarrow> ical option" where
  "icalparameter_set_xliccomparetype = set_enum_parameter 20077 20087"

definition icalparameter_new_x :: "string option \<Rightarrow> ical \<Rightarrow> (nat \<times> ical) option" where
  "icalparameter_new_x = new_text_parameter ICAL_X_PARAMETER"

definition icalparameter_get_x :: "nat \<Rightarrow> ical \<Rightarrow> (string option \<times> ical) option" where
  "icalparameter_get_x = get_text_parameter"

definition icalparameter_set_x :: "nat \<Rightarrow> string option \<Rightarrow> ical \<Rightarrow> ical option" where
  "icalparameter_set_x = set_text_parameter"

definition icalparameter_new_member :: "string option \<Rightarrow> ical \<Rightarrow> (nat \<times> ical) option" where
  "icalparameter_new_member = new_text_parameter ICAL_MEMBER_PARAMETER"

definition icalparameter_get_member :: "nat \<Rightarrow> ical \<Rightarrow> (string option \<times> ical) option" where
  "icalparameter_get_member = get_text_parameter"

definition icalparameter_set_member :: "nat \<Rightarrow> string option \<Rightarrow> ical \<Rightarrow> ical option" where
  "icalparameter_set_member = set_text_parameter"

definition icalparameter_new_sentby :: "string option \<Rightarrow> ical \<Rightarrow> (nat \<times> ical) option" where
  "icalparameter_new_sentby = new_text_parameter ICAL_SENTBY_PARAMETER"

definition icalparameter_get_sentby :: "nat \<Rightarrow> ical \<Rightarrow> (string option \<times> ical) option" where
  "icalparameter_get_sentby = get_text_parameter"

definition icalparameter_set_sentby :: "nat \<Rightarrow> string option \<Rightarrow> ical \<Rightarrow> ical option" where
  "icalparameter_set_sentby = set_text_parameter"

definition icalparameter_new_cutype :: "int \<Rightarrow> ical \<Rightarrow> (nat \<times> ical) option" where
  "icalparameter_new_cutype = new_enum_parameter ICAL_CUTYPE_PARAMETER 20004 20010"

definition icalparameter_get_cutype :: "nat \<Rightarrow> ical \<Rightarrow> (int \<times> ical) option" where
  "icalparameter_get_cutype = get_enum_parameter (Some 20004)"

definition icalparameter_set_cutype :: "nat \<Rightarrow> int \<Rightarrow> ical \<Rightarrow> ical option" where
  "icalparameter_set_cutype = set_enum_parameter 20004 20010"

definition icalparameter_new_rsvp :: "int \<Rightarrow> ical \<Rightarrow> (nat \<times> ical) option" where
  "icalparameter_new_rsvp = new_enum_parameter ICAL_RSVP_PARAMETER 20057 20060"

definition icalparameter_get_rsvp :: "nat \<Rightarrow> ical \<Rightarrow> (int \<times> ical) option" where
  "icalparameter_get_rsvp = get_enum_parameter None"

definition icalparameter_set_rsvp :: "nat \<Rightarrow> int \<Rightarrow> ical \<Rightarrow> ical option" where
  "icalparameter_set_rsvp = set_enum_parameter 20057 20060"

definition icalparameter_new_related :: "int \<Rightarrow> ical \<Rightarrow> (nat \<times> ical) option" where
  "icalparameter_new_related = new_enum_parameter ICAL_RELATED_PARAMETER 20042 20045"

definition icalparameter_get_related :: "nat \<Rightarrow> ical \<Rightarrow> (int \<times> ical) option" where
  "icalparameter_get_related = get_enum_parameter None"

definition icalparameter_set_related :: "nat \<Rightarrow> int \<Rightarrow> ical \<Rightarrow> ical option" where
  "icalparameter_set_related = set_enum_parameter 20042 20045"

definition icalparameter_new_xlicerrortype :: "int \<Rightarrow> ical \<Rightarrow> (nat \<times> ical) option" where
  "icalparameter_new_xlicerrortype = new_enum_parameter ICAL_XLICERRORTYPE_PARAMETER 20088 20098"

definition icalparameter_get_xlicerrortype :: "nat \<Rightarrow> ical \<Rightarrow> (int \<times> ical) option" where
  "icalparameter_get_xlicerrortype = get_enum_parameter None"

definition icalparameter_set_xlicerrortype :: "nat \<Rightarrow> int \<Rightarrow> ical \<Rightarrow> ical option" where
  "icalparameter_set_xlicerrortype = set_enum_parameter 20088 20098"

definition icalparameter_new_encoding :: "int \<Rightarrow> ical \<Rightarrow> (nat \<times> ical) option" where
  "icalparameter_new_encoding = new_enum_parameter ICAL_ENCODING_PARAMETER 20015 20018"

definition icalparameter_get_encoding :: "nat \<Rightarrow> ical \<Rightarrow> (int \<times> ical) option" where
  "icalparameter_get_encoding = get_enum_parameter (Some 20015)"

definition icalparameter_set_encoding :: "nat \<Rightarrow> int \<Rightarrow> ical \<Rightarrow> ical option" where
  "icalparameter_set_encoding = set_enum_parameter 20015 20018"

definition icalparameter_new_altrep :: "string option \<Rightarrow> ical \<Rightarrow> (nat \<times> ical) option" where
  "icalparameter_new_altrep = new_text_parameter ICAL_ALTREP_PARAMETER"

definition icalparameter_get_altrep :: "nat \<Rightarrow> ical \<Rightarrow> (string option \<times> ical) option" where
  "icalparameter_get_altrep = get_text_parameter"

definition icalparameter_set_altrep :: "nat \<Rightarrow> string option \<Rightarrow> ical \<Rightarrow> ical option" where
  "icalparameter_set_altrep = set_text_parameter"

definition icalparameter_new_delegatedfrom :: "string option \<Rightarrow> ical \<Rightarrow> (nat \<times> ical) option" where
  "icalparameter_new_delegatedfrom = new_text_parameter ICAL_DELEGATEDFROM_PARAMETER"

definition icalparameter_get_delegatedfrom :: "nat \<Rightarrow> ical \<Rightarrow> (string option \<times> ical) option" where
  "icalparameter_get_delegatedfrom = get_text_parameter"

definition icalparameter_set_delegatedfrom :: "nat \<Rightarrow> string option \<Rightarrow> ical \<Rightarrow> ical option" where
  "icalparameter_set_delegatedfrom = set_text_parameter"

definition icalparameter_new_fbtype :: "int \<Rightarrow> ical \<Rightarrow> (nat \<times> ical) option" where
  "icalparameter_new_fbtype = new_enum_parameter ICAL_FBTYPE_PARAMETER 20019 20024"

definition icalparameter_get_fbtype :: "nat \<Rightarrow> ical \<Rightarrow> (int \<times> ical) option" where
  "icalparameter_get_fbtype = get_enum_parameter (Some 20019)"

definition icalparameter_set_fbtype :: "nat \<Rightarrow> int \<Rightarrow> ical \<Rightarrow> ical option" where
  "icalparameter_set_fbtype = set_enum_parameter 20019 20024"

definition icalparameter_new_partstat :: "int \<Rightarrow> ical \<Rightarrow> (nat \<times> ical) option" where
  "icalparameter_new_partstat = new_enum_parameter ICAL_PARTSTAT_PARAMETER 20029 20037"

definition icalparameter_get_partstat :: "nat \<Rightarrow> ical \<Rightarrow> (int \<times> ical) option" where
  "icalparameter_get_partstat = get_enum_parameter (Some 20029)"

definition icalparameter_set_partstat :: "nat \<Rightarrow> int \<Rightarrow> ical \<Rightarrow> ical option" where
  "icalparameter_set_partstat = set_enum_parameter 20029 20037"

definition icalparameter_new_role :: "int \<Rightarrow> ical \<Rightarrow> (nat \<times> ical) option" where
  "icalparameter_new_role = new_enum_parameter ICAL_ROLE_PARAMETER 20051 20056"

definition icalparameter_get_role :: "nat \<Rightarrow> ical \<Rightarrow> (int \<times> ical) option" where
  "icalparameter_get_role = get_enum_parameter (Some 20051)"

definition icalparameter_set_role :: "nat \<Rightarrow> int \<Rightarrow> ical \<Rightarrow> ical option" where
  "icalparameter_set_role = set_enum_parameter 20051 20056"

end
