(* ===== verification/IcalProperty.thy ===== *)
theory IcalProperty
  imports ParamAccess
begin

text \<open>
  Properties, \<^verbatim>\<open>icalproperty.c\<close>: an object with a list of parameters, an iterator over them,
  and a value. The folding of a printed property is in \<open>IcalLine\<close>.
\<close>

section \<open>Values as objects\<close>

definition new_value :: "icalvalue option \<Rightarrow> ical \<Rightarrow> nat \<times> ical" where
  "new_value vo st = (case vo of None \<Rightarrow> (0, st) | Some v \<Rightarrow> new_obj (Val v) st)"

definition parse_value :: "icalvalue_kind \<Rightarrow> string \<Rightarrow> ical \<Rightarrow> (nat \<times> ical) option" where
  "parse_value kind str st = do {
     (vo, st1) \<leftarrow> in_env (icalvalue_new_from_string kind str) st;
     Some (new_value vo st1) }"

definition clone_value :: "nat \<Rightarrow> ical \<Rightarrow> (nat \<times> ical) option" where
  "clone_value p st = do {
     v \<leftarrow> val_at p st;
     (vo, st1) \<leftarrow> in_env (icalvalue_new_clone v) st;
     Some (new_value vo st1) }"

definition free_value :: "nat \<Rightarrow> ical \<Rightarrow> ical option" where
  "free_value p st = do {
     v \<leftarrow> val_at p st;
     if v_parent v \<noteq> 0 then Some st
     else do {
       (_, st1) \<leftarrow> in_env (\<lambda>env. map_option (\<lambda>e. ((), e)) (icalvalue_free v env)) st;
       Some (free_obj p st1) } }"

definition value_string_at :: "nat \<Rightarrow> ical \<Rightarrow> (string option \<times> ical) option" where
  "value_string_at p st =
     (if p = 0 then in_env (icalvalue_as_ical_string_r None) st
      else do { v \<leftarrow> val_at p st; in_env (icalvalue_as_ical_string_r (Some v)) st })"

definition value_isa :: "nat \<Rightarrow> ical \<Rightarrow> icalvalue_kind option" where
  "value_isa p st = (if p = 0 then Some (icalvalue_isa None) else map_option (\<lambda>v. icalvalue_isa (Some v)) (val_at p st))"

definition icalvalue_isa_value :: "nat \<Rightarrow> ical \<Rightarrow> (bool \<times> ical) option" where
  "icalvalue_isa_value p st =
     (if p = 0 then bad_arg False st
      else map_option (\<lambda>x. (case x of Val _ \<Rightarrow> True | _ \<Rightarrow> False, st)) (i_objs st p))"

section \<open>Creation\<close>

definition icalproperty_new_impl :: "icalproperty_kind \<Rightarrow> ical \<Rightarrow> nat \<times> ical" where
  "icalproperty_new_impl kind st =
     (if \<not> icalproperty_kind_is_valid kind then (0, st)
      else new_obj (Prop \<lparr>pr_kind = kind, pr_x_name = None, pr_parameters = new_plist, pr_parameter_iterator = 0,
                      pr_value = 0, pr_parent = 0\<rparr>) st)"

definition icalproperty_new :: "icalproperty_kind \<Rightarrow> ical \<Rightarrow> nat \<times> ical" where
  "icalproperty_new kind st = (if kind = ICAL_NO_PROPERTY then (0, st) else icalproperty_new_impl kind st)"

definition icalproperty_isa :: "nat \<Rightarrow> ical \<Rightarrow> icalproperty_kind option" where
  "icalproperty_isa p st = (if p = 0 then Some ICAL_NO_PROPERTY else map_option pr_kind (prop_at p st))"

definition icalproperty_isa_property :: "nat \<Rightarrow> ical \<Rightarrow> (bool \<times> ical) option" where
  "icalproperty_isa_property p st =
     (if p = 0 then bad_arg False st
      else map_option (\<lambda>x. (case x of Prop _ \<Rightarrow> True | _ \<Rightarrow> False, st)) (i_objs st p))"

section \<open>Parameters\<close>

definition icalproperty_add_parameter :: "nat \<Rightarrow> nat \<Rightarrow> ical \<Rightarrow> ical option" where
  "icalproperty_add_parameter p param st =
     (if p = 0 \<or> param = 0 then bad_arg_v st
      else do {
        r \<leftarrow> prop_at p st;
        L \<leftarrow> push_elem param (pr_parameters r);
        set_prop p (\<lambda>r. r\<lparr>pr_parameters := L\<rparr>) st })"

text \<open>The variable arguments are a list; values among them are passed over.\<close>

fun icalproperty_add_parameters :: "nat \<Rightarrow> nat list \<Rightarrow> ical \<Rightarrow> ical option" where
  "icalproperty_add_parameters p [] st = Some st"
| "icalproperty_add_parameters p (vp # args) st =
     (if vp = 0 then Some st
      else do {
        (v, st1) \<leftarrow> icalvalue_isa_value vp st;
        a \<leftarrow> icalparameter_isa_parameter vp st1;
        st2 \<leftarrow> (if v then Some st1
                else if a then icalproperty_add_parameter p vp st1
                else set_errno ICAL_BADARG_ERROR st1);
        icalproperty_add_parameters p args st2 })"

definition param_kind_is :: "icalparameter_kind \<Rightarrow> ical \<Rightarrow> nat \<Rightarrow> bool option" where
  "param_kind_is kind st q = map_option (\<lambda>k. k = kind \<or> kind = ICAL_ANY_PARAMETER) (icalparameter_isa q st)"

text \<open>The iterator stops at the first element of the kind at or behind \<open>e\<close>.\<close>

definition seek_parameter :: "nat \<Rightarrow> nat \<Rightarrow> icalparameter_kind \<Rightarrow> ical \<Rightarrow> (nat \<times> ical) option" where
  "seek_parameter p e kind st = do {
     r \<leftarrow> prop_at p st;
     f \<leftarrow> find_elem (param_kind_is kind st) e (pr_parameters r);
     st1 \<leftarrow> set_prop p (\<lambda>r. r\<lparr>pr_parameter_iterator := f\<rparr>) st;
     x \<leftarrow> elem_data f (pr_parameters r);
     Some (x, st1) }"

definition icalproperty_get_first_parameter ::
    "nat \<Rightarrow> icalparameter_kind \<Rightarrow> ical \<Rightarrow> (nat \<times> ical) option" where
  "icalproperty_get_first_parameter p kind st =
     (if p = 0 then bad_arg 0 st
      else do {
        r \<leftarrow> prop_at p st;
        seek_parameter p (pvl_head (fst (pr_parameters r))) kind st })"

definition icalproperty_get_next_parameter ::
    "nat \<Rightarrow> icalparameter_kind \<Rightarrow> ical \<Rightarrow> (nat \<times> ical) option" where
  "icalproperty_get_next_parameter p kind st =
     (if p = 0 then bad_arg 0 st
      else do {
        r \<leftarrow> prop_at p st;
        if pr_parameter_iterator r = 0 then Some (0, st)
        else do {
          e \<leftarrow> pvl_next (pr_parameter_iterator r) (snd (pr_parameters r));
          seek_parameter p e kind st } })"

definition icalproperty_count_parameters :: "nat \<Rightarrow> ical \<Rightarrow> (int \<times> ical) option" where
  "icalproperty_count_parameters p st =
     (if p \<noteq> 0 then map_option (\<lambda>r. (pvl_count (fst (pr_parameters r)), st)) (prop_at p st)
      else map_option (\<lambda>st1. (- 1, st1)) (set_errno ICAL_USAGE_ERROR st))"

text \<open>The first element that satisfies the test leaves the list, and its parameter is given.\<close>

definition unlink_parameter ::
    "nat \<Rightarrow> (nat \<Rightarrow> bool option) \<Rightarrow> ical \<Rightarrow> (nat option \<times> ical) option" where
  "unlink_parameter p P st = do {
     r \<leftarrow> prop_at p st;
     e \<leftarrow> find_elem P (pvl_head (fst (pr_parameters r))) (pr_parameters r);
     if e = 0 then Some (None, st)
     else do {
       x \<leftarrow> elem_data e (pr_parameters r);
       L \<leftarrow> remove_elem e (pr_parameters r);
       st1 \<leftarrow> set_prop p (\<lambda>r. r\<lparr>pr_parameters := L\<rparr>) st;
       Some (Some x, st1) } }"

definition icalproperty_remove_parameter_by_kind :: "nat \<Rightarrow> icalparameter_kind \<Rightarrow> ical \<Rightarrow> ical option" where
  "icalproperty_remove_parameter_by_kind p kind st =
     (if p = 0 then bad_arg_v st
      else do {
        (x, st1) \<leftarrow> unlink_parameter p (\<lambda>q. map_option (\<lambda>k. k = kind) (icalparameter_isa q st)) st;
        case x of None \<Rightarrow> Some st1 | Some q \<Rightarrow> icalparameter_free q st1 })"

definition icalproperty_remove_parameter :: "nat \<Rightarrow> icalparameter_kind \<Rightarrow> ical \<Rightarrow> ical option" where
  "icalproperty_remove_parameter = icalproperty_remove_parameter_by_kind"

text \<open>The name of a parameter, the X name or that of its kind.\<close>

definition param_name :: "nat \<Rightarrow> ical \<Rightarrow> string option option" where
  "param_name q st = do {
     k \<leftarrow> icalparameter_isa q st;
     if k = ICAL_X_PARAMETER then map_option pa_x_name (para_at q st)
     else Some (icalparameter_kind_to_string k) }"

text \<open>A parameter that is removed by its name is not freed.\<close>

definition icalproperty_remove_parameter_by_name :: "nat \<Rightarrow> string option \<Rightarrow> ical \<Rightarrow> ical option" where
  "icalproperty_remove_parameter_by_name p name st =
     (if p = 0 then bad_arg_v st
      else map_option snd
        (unlink_parameter p (\<lambda>q. do {
           s \<leftarrow> param_name q st;
           case s of None \<Rightarrow> Some False | Some t \<Rightarrow> map_option (\<lambda>n. t = n) name }) st))"

definition icalproperty_remove_parameter_by_ref :: "nat \<Rightarrow> nat \<Rightarrow> ical \<Rightarrow> ical option" where
  "icalproperty_remove_parameter_by_ref p param st =
     (if p = 0 \<or> param = 0 then bad_arg_v st
      else do {
        kind \<leftarrow> icalparameter_isa param st;
        r \<leftarrow> para_at param st;
        (x, st1) \<leftarrow> unlink_parameter p (\<lambda>q. do {
            k \<leftarrow> icalparameter_isa q st;
            if k \<noteq> kind then Some False
            else if kind \<noteq> ICAL_X_PARAMETER then Some True
            else do {
              r' \<leftarrow> para_at q st;
              n \<leftarrow> pa_x_name r;
              n' \<leftarrow> pa_x_name r';
              Some (n' = n) } }) st;
        case x of None \<Rightarrow> Some st1 | Some q \<Rightarrow> icalparameter_free q st1 })"

definition icalproperty_set_parameter :: "nat \<Rightarrow> nat \<Rightarrow> ical \<Rightarrow> ical option" where
  "icalproperty_set_parameter p param st =
     (if p = 0 \<or> param = 0 then bad_arg_v st
      else do {
        kind \<leftarrow> icalparameter_isa param st;
        st1 \<leftarrow> (if kind \<noteq> ICAL_X_PARAMETER then icalproperty_remove_parameter_by_kind p kind st
                else do {
                  r \<leftarrow> para_at param st;
                  icalproperty_remove_parameter_by_name p (pa_x_name r) st });
        icalproperty_add_parameter p param st1 })"

definition icalproperty_set_parameter_from_string :: "nat \<Rightarrow> string option \<Rightarrow> string option \<Rightarrow> ical \<Rightarrow> ical option" where
  "icalproperty_set_parameter_from_string p name val st =
     (if p = 0 \<or> name = None \<or> val = None then bad_arg_v st
      else let kind = icalparameter_string_to_kind name
      in if kind = ICAL_NO_PARAMETER then bad_arg_v st
         else do {
           (param, st1) \<leftarrow> icalparameter_new_from_value_string kind val st;
           st2 \<leftarrow> (if kind = ICAL_X_PARAMETER then icalparameter_set_xname param name st1 else Some st1);
           icalproperty_set_parameter p param st2 })"

section \<open>The value and the names\<close>

text \<open>The old value is released before the new one is stored, even if they are the same.\<close>

definition release_value :: "nat \<Rightarrow> ical \<Rightarrow> ical option" where
  "release_value v st =
     (if v = 0 then Some st
      else do {
        st1 \<leftarrow> set_val v (icalvalue_set_parent 0) st;
        free_value v st1 })"

definition icalproperty_set_value :: "nat \<Rightarrow> nat \<Rightarrow> ical \<Rightarrow> ical option" where
  "icalproperty_set_value p v st =
     (if p = 0 \<or> v = 0 then bad_arg_v st
      else do {
        r \<leftarrow> prop_at p st;
        st1 \<leftarrow> release_value (pr_value r) st;
        st2 \<leftarrow> set_prop p (\<lambda>r. r\<lparr>pr_value := v\<rparr>) st1;
        set_val v (icalvalue_set_parent p) st2 })"

definition icalproperty_get_value :: "nat \<Rightarrow> ical \<Rightarrow> (nat \<times> ical) option" where
  "icalproperty_get_value p st =
     (if p = 0 then bad_arg 0 st else map_option (\<lambda>r. (pr_value r, st)) (prop_at p st))"

text \<open>The kind comes from the given name, from the old value, or from the property.\<close>

definition value_kind_for :: "nat \<Rightarrow> string \<Rightarrow> ical \<Rightarrow> icalvalue_kind option" where
  "value_kind_for p type st =
     (if type = ''NO'' then do {
        r \<leftarrow> prop_at p st;
        if pr_value r \<noteq> 0 then value_isa (pr_value r) st
        else Some (icalproperty_kind_to_value_kind (pr_kind r)) }
      else Some (icalvalue_string_to_kind type))"

definition icalproperty_set_value_from_string ::
    "nat \<Rightarrow> string option \<Rightarrow> string option \<Rightarrow> ical \<Rightarrow> ical option" where
  "icalproperty_set_value_from_string p str type st =
     (case (str, type) of
        (Some s, Some t) \<Rightarrow>
          if p = 0 then bad_arg_v st
          else do {
            kind \<leftarrow> value_kind_for p t st;
            if kind = ICAL_NO_VALUE then set_errno ICAL_MALFORMEDDATA_ERROR st
            else do {
              (nval, st1) \<leftarrow> parse_value kind s (clear_errno st);
              if nval = 0 then (if icalerrno (errs st1) \<noteq> ICAL_NO_ERROR then Some st1 else None)
              else icalproperty_set_value p nval st1 } }
      | _ \<Rightarrow> bad_arg_v st)"

definition icalproperty_get_value_as_string_r :: "nat \<Rightarrow> ical \<Rightarrow> (string option \<times> ical) option" where
  "icalproperty_get_value_as_string_r p st =
     (if p = 0 then bad_arg None st
      else do { r \<leftarrow> prop_at p st; value_string_at (pr_value r) st })"

definition icalproperty_set_x_name :: "nat \<Rightarrow> string option \<Rightarrow> ical \<Rightarrow> ical option" where
  "icalproperty_set_x_name p name st =
     (if name = None \<or> p = 0 then bad_arg_v st else set_prop p (\<lambda>r. r\<lparr>pr_x_name := name\<rparr>) st)"

definition icalproperty_get_x_name :: "nat \<Rightarrow> ical \<Rightarrow> (string option \<times> ical) option" where
  "icalproperty_get_x_name p st =
     (if p = 0 then bad_arg None st else map_option (\<lambda>r. (pr_x_name r, st)) (prop_at p st))"

definition icalproperty_set_parent :: "nat \<Rightarrow> nat \<Rightarrow> ical \<Rightarrow> ical option" where
  "icalproperty_set_parent p c st = (if p = 0 then bad_arg_v st else set_prop p (\<lambda>r. r\<lparr>pr_parent := c\<rparr>) st)"

definition icalproperty_get_parent :: "nat \<Rightarrow> ical \<Rightarrow> (nat \<times> ical) option" where
  "icalproperty_get_parent p st =
     (if p = 0 then bad_arg 0 st else map_option (\<lambda>r. (pr_parent r, st)) (prop_at p st))"

definition property_name :: "icalproperty \<Rightarrow> string option" where
  "property_name r =
     (if pr_kind r = ICAL_X_PROPERTY \<and> pr_x_name r \<noteq> None then pr_x_name r
      else icalproperty_kind_to_string (pr_kind r))"

definition icalproperty_get_property_name_r :: "nat \<Rightarrow> ical \<Rightarrow> (string option \<times> ical) option" where
  "icalproperty_get_property_name_r p st =
     (if p = 0 then bad_arg None st
      else do {
        r \<leftarrow> prop_at p st;
        case property_name r of
          None \<Rightarrow> map_option (\<lambda>st1. (None, st1)) (set_errno ICAL_MALFORMEDDATA_ERROR st)
        | Some s \<Rightarrow> do {
            b \<leftarrow> icalmemory_append_string (icalmemory_new_buffer 256) s;
            Some (Some (sb_text b), st) } })"

text \<open>The text of the value of a parameter, without the quotes around it.\<close>

fun seek_named :: "nat \<Rightarrow> nat \<Rightarrow> icalparameter_kind \<Rightarrow> string \<Rightarrow> nat \<Rightarrow> ical \<Rightarrow> (nat \<times> ical) option" where
  "seek_named 0 p kind name param st = None"
| "seek_named (Suc n) p kind name param st =
     (if param = 0 \<or> kind \<noteq> ICAL_X_PARAMETER then Some (param, st)
      else do {
        r \<leftarrow> para_at param st;
        x \<leftarrow> pa_x_name r;
        if x = name then Some (param, st)
        else do {
          (q, st1) \<leftarrow> icalproperty_get_next_parameter p kind st;
          seek_named n p kind name q st1 } })"

definition unquoted :: "string \<Rightarrow> ical \<Rightarrow> (string option \<times> ical) option" where
  "unquoted pv st =
     (case split_chr DQUOTE pv of
        (_, None) \<Rightarrow> Some (Some pv, st)
      | (_, Some str) \<Rightarrow>
          if DQUOTE \<in> set str then Some (Some (rev (tl (dropWhile (\<lambda>c. c \<noteq> DQUOTE) (rev str)))), st)
          else map_option (\<lambda>st1. (None, st1)) (set_errno ICAL_INTERNAL_ERROR st))"

definition icalproperty_get_parameter_as_string_r ::
    "nat \<Rightarrow> string option \<Rightarrow> ical \<Rightarrow> (string option \<times> ical) option" where
  "icalproperty_get_parameter_as_string_r p name st =
     (case name of
        None \<Rightarrow> bad_arg None st
      | Some nm \<Rightarrow>
          if p = 0 then bad_arg None st
          else let kind = icalparameter_string_to_kind name
          in if kind = ICAL_NO_PARAMETER then Some (None, st)
             else do {
               (q0, st1) \<leftarrow> icalproperty_get_first_parameter p kind st;
               r \<leftarrow> prop_at p st;
               (q, st2) \<leftarrow> seek_named (fresh (snd (pr_parameters r))) p kind nm q0 st1;
               if q = 0 then Some (None, st2)
               else do {
                 (so, st3) \<leftarrow> icalparameter_as_ical_string_r q st2;
                 s \<leftarrow> so;
                 (case split_chr (CHR ''='') s of
                    (_, None) \<Rightarrow> map_option (\<lambda>st4. (None, st4)) (set_errno ICAL_INTERNAL_ERROR st3)
                  | (_, Some pv) \<Rightarrow> unquoted pv st3) } })"

section \<open>Printing\<close>

definition icalproperty_get_value_kind :: "nat \<Rightarrow> ical \<Rightarrow> (string option \<times> ical) option" where
  "icalproperty_get_value_kind p st = do {
     (param, st1) \<leftarrow> icalproperty_get_first_parameter p ICAL_VALUE_PARAMETER st;
     (v, st2) \<leftarrow> icalproperty_get_value p st1;
     r \<leftarrow> prop_at p st2;
     let default_kind = icalproperty_kind_to_value_kind (pr_kind r);
     (orig_kind, st3) \<leftarrow>
       (if param = 0 then Some (ICAL_NO_VALUE, st2)
        else map_option (\<lambda>(e, st'). (icalparameter_value_to_value_kind e, st')) (icalparameter_get_value param st2));
     this_kind \<leftarrow> (if v = 0 then Some ICAL_NO_VALUE else value_isa v st3);
     Some (if orig_kind \<noteq> ICAL_NO_VALUE then icalvalue_kind_to_string orig_kind
           else if this_kind = default_kind \<and> orig_kind \<noteq> ICAL_NO_VALUE then icalvalue_kind_to_string default_kind
           else if this_kind \<noteq> default_kind \<and> this_kind \<noteq> ICAL_NO_VALUE then icalvalue_kind_to_string this_kind
           else None, st3) }"

text \<open>A step of the printing, which may set the error number.\<close>

definition write_text :: "string option \<Rightarrow> sbuf \<times> ical \<Rightarrow> (sbuf \<times> ical) option" where
  "write_text so w =
     map_option (\<lambda>(b, es). (b, with_error_state es (snd w))) (put_text so (fst w, errs (snd w)))"

text \<open>A parameter that has no text is passed over, and so is the VALUE parameter.\<close>

fun write_parameters :: "nat \<Rightarrow> nat \<Rightarrow> nat \<Rightarrow> sbuf \<times> ical \<Rightarrow> (sbuf \<times> ical) option" where
  "write_parameters 0 p param w = None"
| "write_parameters (Suc n) p param w =
     (if param = 0 then Some w
      else do {
        kind \<leftarrow> icalparameter_isa param (snd w);
        (so, st1) \<leftarrow> icalparameter_as_ical_string_r param (snd w);
        w1 \<leftarrow> (if so = None \<or> kind = ICAL_VALUE_PARAMETER then Some (fst w, st1)
               else Option.bind (write_text (Some '';'') (fst w, st1)) (write_text so));
        (q, st2) \<leftarrow> icalproperty_get_next_parameter p ICAL_ANY_PARAMETER (snd w1);
        write_parameters n p q (fst w1, st2) })"

definition write_value :: "nat \<Rightarrow> sbuf \<times> ical \<Rightarrow> (sbuf \<times> ical) option" where
  "write_value p w = do {
     (v, st1) \<leftarrow> icalproperty_get_value p (snd w);
     if v \<noteq> 0 then do {
       (so, st2) \<leftarrow> value_string_at v st1;
       s \<leftarrow> so;
       write_text (Some s) (fst w, st2) }
     else write_text (Some ''ERROR: No Value'') (fst w, st1) }"

definition icalproperty_as_ical_string_r :: "nat \<Rightarrow> ical \<Rightarrow> (string option \<times> ical) option" where
  "icalproperty_as_ical_string_r p st =
     (if p = 0 then bad_arg None st
      else do {
        r \<leftarrow> prop_at p st;
        case property_name r of
          None \<Rightarrow> Some (None, st)
        | Some name \<Rightarrow> do {
            w1 \<leftarrow> write_text (Some name) (icalmemory_new_buffer 1024, st);
            (kind, st2) \<leftarrow> icalproperty_get_value_kind p (snd w1);
            w3 \<leftarrow> (if kind = None then Some (fst w1, st2)
                   else Option.bind (write_text (Some '';VALUE='') (fst w1, st2)) (write_text kind));
            (q, st4) \<leftarrow> icalproperty_get_first_parameter p ICAL_ANY_PARAMETER (snd w3);
            w5 \<leftarrow> write_parameters (fresh (snd (pr_parameters r))) p q (fst w3, st4);
            w6 \<leftarrow> write_text (Some '':'') w5;
            w7 \<leftarrow> write_value p w6;
            w8 \<leftarrow> write_text (Some [CR, LF]) w7;
            b \<leftarrow> fold_property_line (sb_text (fst w8));
            Some (Some (sb_text b), snd w8) } })"

section \<open>Copying and freeing\<close>

text \<open>The parameters from an element of the old list on are copied to the end of the new one.\<close>

fun clone_parameters :: "nat \<Rightarrow> nat \<Rightarrow> plist \<Rightarrow> nat \<Rightarrow> ical \<Rightarrow> ical option" where
  "clone_parameters 0 e old p st = None"
| "clone_parameters (Suc n) e old p st =
     (if e = 0 then Some st
      else do {
        q \<leftarrow> elem_data e old;
        (param, st1) \<leftarrow> icalparameter_new_clone q st;
        r \<leftarrow> prop_at p st1;
        L \<leftarrow> push_elem param (pr_parameters r);
        st2 \<leftarrow> set_prop p (\<lambda>r. r\<lparr>pr_parameters := L\<rparr>) st1;
        e' \<leftarrow> pvl_next e (snd old);
        clone_parameters n e' old p st2 })"

definition icalproperty_new_clone :: "nat \<Rightarrow> ical \<Rightarrow> (nat \<times> ical) option" where
  "icalproperty_new_clone old st = do {
     r \<leftarrow> prop_at old st;
     let (p, st1) = icalproperty_new_impl (pr_kind r) st;
     if p = 0 then bad_arg 0 st1
     else do {
       st2 \<leftarrow> (if pr_value r = 0 then Some st1
              else do {
                (v, st') \<leftarrow> clone_value (pr_value r) st1;
                set_prop p (\<lambda>r. r\<lparr>pr_value := v\<rparr>) st' });
       st3 \<leftarrow> set_prop p (\<lambda>q. q\<lparr>pr_x_name := pr_x_name r\<rparr>) st2;
       st4 \<leftarrow> clone_parameters (fresh (snd (pr_parameters r))) (pvl_head (fst (pr_parameters r))) (pr_parameters r) p st3;
       Some (p, st4) } }"

fun free_parameters :: "nat \<Rightarrow> nat \<Rightarrow> ical \<Rightarrow> ical option" where
  "free_parameters 0 p st = None"
| "free_parameters (Suc n) p st = do {
     r \<leftarrow> prop_at p st;
     (q, L) \<leftarrow> pop_elem (pr_parameters r);
     st1 \<leftarrow> set_prop p (\<lambda>r. r\<lparr>pr_parameters := L\<rparr>) st;
     if q = 0 then Some st1
     else do {
       st2 \<leftarrow> icalparameter_free q st1;
       free_parameters n p st2 } }"

definition icalproperty_free :: "nat \<Rightarrow> ical \<Rightarrow> ical option" where
  "icalproperty_free p st =
     (if p = 0 then bad_arg_v st
      else do {
        r \<leftarrow> prop_at p st;
        if pr_parent r \<noteq> 0 then Some st
        else do {
          st1 \<leftarrow> release_value (pr_value r) st;
          st2 \<leftarrow> free_parameters (fresh (snd (pr_parameters r))) p st1;
          Some (free_obj p st2) } })"

end
