(* ===== verification/PropAccess.thy ===== *)
theory PropAccess
  imports IcalProperty
begin

text \<open>
  The constructors, readers and writers of the single properties in
  \<^verbatim>\<open>icalderivedproperty.c\<close>. Each property has a kind and a type of value; they differ in
  what a null pointer to the value gives, and in the four properties whose times may be dates.
  The reader of EXDATE looks its zone up among the zones of the system, which is an argument.
\<close>

section \<open>The common shape\<close>

text \<open>
  The result for a null value is \<open>None\<close> where the code goes on and reads through the null
  pointer.
\<close>

definition get_member_e ::
    "(icalvalue \<Rightarrow> icalerror_state \<Rightarrow> ('x \<times> icalerror_state) option) \<Rightarrow> 'x option \<Rightarrow> nat \<Rightarrow> ical \<Rightarrow> ('x \<times> ical) option" where
  "get_member_e f null p st = do {
     st0 \<leftarrow> (if p = 0 then bad_arg_v st else Some st);
     (v, st1) \<leftarrow> icalproperty_get_value p st0;
     if v = 0 then do {
       st2 \<leftarrow> bad_arg_v st1;
       d \<leftarrow> null;
       Some (d, st2) }
     else do {
       r \<leftarrow> val_at v st1;
       (x, es) \<leftarrow> f r (errs st1);
       Some (x, with_error_state es st1) } }"

definition get_member :: "(icalvalue \<Rightarrow> 'x option) \<Rightarrow> 'x option \<Rightarrow> nat \<Rightarrow> ical \<Rightarrow> ('x \<times> ical) option" where
  "get_member f = get_member_e (\<lambda>v es. map_option (\<lambda>x. (x, es)) (f v))"

definition set_member :: "(value_env \<Rightarrow> (icalvalue \<times> value_env) option) \<Rightarrow> nat \<Rightarrow> ical \<Rightarrow> ical option" where
  "set_member mk p st =
     (if p = 0 then bad_arg_v st
      else do {
        (v, st1) \<leftarrow> in_env mk st;
        let (a, st2) = new_obj (Val v) st1;
        icalproperty_set_value p a st2 })"

definition new_member ::
    "icalproperty_kind \<Rightarrow> (value_env \<Rightarrow> (icalvalue \<times> value_env) option) \<Rightarrow> nat list \<Rightarrow> ical \<Rightarrow> (nat \<times> ical) option" where
  "new_member kind mk args st = do {
     let (p, st1) = icalproperty_new_impl kind st;
     st2 \<leftarrow> set_member mk p st1;
     st3 \<leftarrow> icalproperty_add_parameters p args st2;
     Some (p, st3) }"

text \<open>A value that is made without a change of the surroundings.\<close>

definition plainly :: "icalvalue option \<Rightarrow> value_env \<Rightarrow> (icalvalue \<times> value_env) option" where
  "plainly v env = map_option (\<lambda>x. (x, env)) v"

definition date_or_datetime :: "icaltimetype \<Rightarrow> value_env \<Rightarrow> (icalvalue \<times> value_env) option" where
  "date_or_datetime t = plainly (if is_date t \<noteq> 0 then icalvalue_new_date t else icalvalue_new_datetime t)"

text \<open>A null pointer as the argument is refused.\<close>

definition set_string :: "(string \<Rightarrow> icalvalue option) \<Rightarrow> nat \<Rightarrow> string option \<Rightarrow> ical \<Rightarrow> ical option" where
  "set_string new p so st = (case so of None \<Rightarrow> bad_arg_v st | Some s \<Rightarrow> set_member (plainly (new s)) p st)"

definition new_string ::
    "icalproperty_kind \<Rightarrow> (string \<Rightarrow> icalvalue option) \<Rightarrow> string option \<Rightarrow> nat list \<Rightarrow> ical \<Rightarrow> (nat \<times> ical) option" where
  "new_string kind new so args st =
     (case so of None \<Rightarrow> bad_arg 0 st | Some s \<Rightarrow> new_member kind (plainly (new s)) args st)"

definition null_datetimeperiod :: icaldatetimeperiodtype where
  "null_datetimeperiod = \<lparr>dtp_time = icaltime_null_time, dtp_period = icalperiodtype_null_period\<rparr>"

definition null_trigger :: icaltriggertype where
  "null_trigger = \<lparr>tr_time = icaltime_null_time, tr_duration = icaldurationtype_from_int 0\<rparr>"

definition ICAL_CLASS_NONE :: int where "ICAL_CLASS_NONE = 10015"

text \<open>The position given for a null value, 255 degrees in both directions.\<close>

definition no_geo :: icalgeotype where
  "no_geo = (\<lparr>f_neg = False, f_mag = 255\<rparr>, \<lparr>f_neg = False, f_mag = 255\<rparr>)"

section \<open>The properties\<close>

definition icalproperty_vanew_action :: "int \<Rightarrow> nat list \<Rightarrow> ical \<Rightarrow> (nat \<times> ical) option" where
  "icalproperty_vanew_action v = new_member ICAL_ACTION_PROPERTY (plainly (icalvalue_new_action v))"

definition icalproperty_new_action :: "int \<Rightarrow> ical \<Rightarrow> (nat \<times> ical) option" where
  "icalproperty_new_action v = new_member ICAL_ACTION_PROPERTY (plainly (icalvalue_new_action v)) []"

definition icalproperty_set_action :: "nat \<Rightarrow> int \<Rightarrow> ical \<Rightarrow> ical option" where
  "icalproperty_set_action p v = set_member (plainly (icalvalue_new_action v)) p"

definition icalproperty_get_action :: "nat \<Rightarrow> ical \<Rightarrow> (int \<times> ical) option" where
  "icalproperty_get_action = get_member icalvalue_get_action None"

definition icalproperty_vanew_allowconflict :: "string option \<Rightarrow> nat list \<Rightarrow> ical \<Rightarrow> (nat \<times> ical) option" where
  "icalproperty_vanew_allowconflict = new_string ICAL_ALLOWCONFLICT_PROPERTY icalvalue_new_text"

definition icalproperty_new_allowconflict :: "string option \<Rightarrow> ical \<Rightarrow> (nat \<times> ical) option" where
  "icalproperty_new_allowconflict v = new_string ICAL_ALLOWCONFLICT_PROPERTY icalvalue_new_text v []"

definition icalproperty_set_allowconflict :: "nat \<Rightarrow> string option \<Rightarrow> ical \<Rightarrow> ical option" where
  "icalproperty_set_allowconflict = set_string icalvalue_new_text"

definition icalproperty_get_allowconflict :: "nat \<Rightarrow> ical \<Rightarrow> (string option \<times> ical) option" where
  "icalproperty_get_allowconflict = get_member icalvalue_get_text (Some None)"

text \<open>The attachment is a pointer, which may be null.\<close>

definition icalproperty_vanew_attach :: "nat option \<Rightarrow> nat list \<Rightarrow> ical \<Rightarrow> (nat \<times> ical) option" where
  "icalproperty_vanew_attach vo args st =
     (case vo of None \<Rightarrow> bad_arg 0 st | Some v \<Rightarrow> new_member ICAL_ATTACH_PROPERTY (icalvalue_new_attach v) args st)"

definition icalproperty_new_attach :: "nat option \<Rightarrow> ical \<Rightarrow> (nat \<times> ical) option" where
  "icalproperty_new_attach v = icalproperty_vanew_attach v []"

definition icalproperty_set_attach :: "nat \<Rightarrow> nat option \<Rightarrow> ical \<Rightarrow> ical option" where
  "icalproperty_set_attach p vo st =
     (case vo of None \<Rightarrow> bad_arg_v st | Some v \<Rightarrow> set_member (icalvalue_new_attach v) p st)"

definition icalproperty_get_attach :: "nat \<Rightarrow> ical \<Rightarrow> (nat option \<times> ical) option" where
  "icalproperty_get_attach = get_member icalvalue_get_attach (Some None)"

definition icalproperty_vanew_attendee :: "string option \<Rightarrow> nat list \<Rightarrow> ical \<Rightarrow> (nat \<times> ical) option" where
  "icalproperty_vanew_attendee = new_string ICAL_ATTENDEE_PROPERTY icalvalue_new_caladdress"

definition icalproperty_new_attendee :: "string option \<Rightarrow> ical \<Rightarrow> (nat \<times> ical) option" where
  "icalproperty_new_attendee v = new_string ICAL_ATTENDEE_PROPERTY icalvalue_new_caladdress v []"

definition icalproperty_set_attendee :: "nat \<Rightarrow> string option \<Rightarrow> ical \<Rightarrow> ical option" where
  "icalproperty_set_attendee = set_string icalvalue_new_caladdress"

definition icalproperty_get_attendee :: "nat \<Rightarrow> ical \<Rightarrow> (string option \<times> ical) option" where
  "icalproperty_get_attendee = get_member icalvalue_get_caladdress (Some None)"

definition icalproperty_vanew_calid :: "string option \<Rightarrow> nat list \<Rightarrow> ical \<Rightarrow> (nat \<times> ical) option" where
  "icalproperty_vanew_calid = new_string ICAL_CALID_PROPERTY icalvalue_new_text"

definition icalproperty_new_calid :: "string option \<Rightarrow> ical \<Rightarrow> (nat \<times> ical) option" where
  "icalproperty_new_calid v = new_string ICAL_CALID_PROPERTY icalvalue_new_text v []"

definition icalproperty_set_calid :: "nat \<Rightarrow> string option \<Rightarrow> ical \<Rightarrow> ical option" where
  "icalproperty_set_calid = set_string icalvalue_new_text"

definition icalproperty_get_calid :: "nat \<Rightarrow> ical \<Rightarrow> (string option \<times> ical) option" where
  "icalproperty_get_calid = get_member icalvalue_get_text (Some None)"

definition icalproperty_vanew_calmaster :: "string option \<Rightarrow> nat list \<Rightarrow> ical \<Rightarrow> (nat \<times> ical) option" where
  "icalproperty_vanew_calmaster = new_string ICAL_CALMASTER_PROPERTY icalvalue_new_text"

definition icalproperty_new_calmaster :: "string option \<Rightarrow> ical \<Rightarrow> (nat \<times> ical) option" where
  "icalproperty_new_calmaster v = new_string ICAL_CALMASTER_PROPERTY icalvalue_new_text v []"

definition icalproperty_set_calmaster :: "nat \<Rightarrow> string option \<Rightarrow> ical \<Rightarrow> ical option" where
  "icalproperty_set_calmaster = set_string icalvalue_new_text"

definition icalproperty_get_calmaster :: "nat \<Rightarrow> ical \<Rightarrow> (string option \<times> ical) option" where
  "icalproperty_get_calmaster = get_member icalvalue_get_text (Some None)"

definition icalproperty_vanew_calscale :: "string option \<Rightarrow> nat list \<Rightarrow> ical \<Rightarrow> (nat \<times> ical) option" where
  "icalproperty_vanew_calscale = new_string ICAL_CALSCALE_PROPERTY icalvalue_new_text"

definition icalproperty_new_calscale :: "string option \<Rightarrow> ical \<Rightarrow> (nat \<times> ical) option" where
  "icalproperty_new_calscale v = new_string ICAL_CALSCALE_PROPERTY icalvalue_new_text v []"

definition icalproperty_set_calscale :: "nat \<Rightarrow> string option \<Rightarrow> ical \<Rightarrow> ical option" where
  "icalproperty_set_calscale = set_string icalvalue_new_text"

definition icalproperty_get_calscale :: "nat \<Rightarrow> ical \<Rightarrow> (string option \<times> ical) option" where
  "icalproperty_get_calscale = get_member icalvalue_get_text (Some None)"

definition icalproperty_vanew_capversion :: "string option \<Rightarrow> nat list \<Rightarrow> ical \<Rightarrow> (nat \<times> ical) option" where
  "icalproperty_vanew_capversion = new_string ICAL_CAPVERSION_PROPERTY icalvalue_new_text"

definition icalproperty_new_capversion :: "string option \<Rightarrow> ical \<Rightarrow> (nat \<times> ical) option" where
  "icalproperty_new_capversion v = new_string ICAL_CAPVERSION_PROPERTY icalvalue_new_text v []"

definition icalproperty_set_capversion :: "nat \<Rightarrow> string option \<Rightarrow> ical \<Rightarrow> ical option" where
  "icalproperty_set_capversion = set_string icalvalue_new_text"

definition icalproperty_get_capversion :: "nat \<Rightarrow> ical \<Rightarrow> (string option \<times> ical) option" where
  "icalproperty_get_capversion = get_member icalvalue_get_text (Some None)"

definition icalproperty_vanew_carlevel :: "int \<Rightarrow> nat list \<Rightarrow> ical \<Rightarrow> (nat \<times> ical) option" where
  "icalproperty_vanew_carlevel v = new_member ICAL_CARLEVEL_PROPERTY (plainly (icalvalue_new_carlevel v))"

definition icalproperty_new_carlevel :: "int \<Rightarrow> ical \<Rightarrow> (nat \<times> ical) option" where
  "icalproperty_new_carlevel v = new_member ICAL_CARLEVEL_PROPERTY (plainly (icalvalue_new_carlevel v)) []"

definition icalproperty_set_carlevel :: "nat \<Rightarrow> int \<Rightarrow> ical \<Rightarrow> ical option" where
  "icalproperty_set_carlevel p v = set_member (plainly (icalvalue_new_carlevel v)) p"

definition icalproperty_get_carlevel :: "nat \<Rightarrow> ical \<Rightarrow> (int \<times> ical) option" where
  "icalproperty_get_carlevel = get_member icalvalue_get_carlevel None"

definition icalproperty_vanew_carid :: "string option \<Rightarrow> nat list \<Rightarrow> ical \<Rightarrow> (nat \<times> ical) option" where
  "icalproperty_vanew_carid = new_string ICAL_CARID_PROPERTY icalvalue_new_text"

definition icalproperty_new_carid :: "string option \<Rightarrow> ical \<Rightarrow> (nat \<times> ical) option" where
  "icalproperty_new_carid v = new_string ICAL_CARID_PROPERTY icalvalue_new_text v []"

definition icalproperty_set_carid :: "nat \<Rightarrow> string option \<Rightarrow> ical \<Rightarrow> ical option" where
  "icalproperty_set_carid = set_string icalvalue_new_text"

definition icalproperty_get_carid :: "nat \<Rightarrow> ical \<Rightarrow> (string option \<times> ical) option" where
  "icalproperty_get_carid = get_member icalvalue_get_text (Some None)"

definition icalproperty_vanew_categories :: "string option \<Rightarrow> nat list \<Rightarrow> ical \<Rightarrow> (nat \<times> ical) option" where
  "icalproperty_vanew_categories = new_string ICAL_CATEGORIES_PROPERTY icalvalue_new_text"

definition icalproperty_new_categories :: "string option \<Rightarrow> ical \<Rightarrow> (nat \<times> ical) option" where
  "icalproperty_new_categories v = new_string ICAL_CATEGORIES_PROPERTY icalvalue_new_text v []"

definition icalproperty_set_categories :: "nat \<Rightarrow> string option \<Rightarrow> ical \<Rightarrow> ical option" where
  "icalproperty_set_categories = set_string icalvalue_new_text"

definition icalproperty_get_categories :: "nat \<Rightarrow> ical \<Rightarrow> (string option \<times> ical) option" where
  "icalproperty_get_categories = get_member icalvalue_get_text (Some None)"

definition icalproperty_vanew_class :: "int \<Rightarrow> nat list \<Rightarrow> ical \<Rightarrow> (nat \<times> ical) option" where
  "icalproperty_vanew_class v = new_member ICAL_CLASS_PROPERTY (plainly (icalvalue_new_class v))"

definition icalproperty_new_class :: "int \<Rightarrow> ical \<Rightarrow> (nat \<times> ical) option" where
  "icalproperty_new_class v = new_member ICAL_CLASS_PROPERTY (plainly (icalvalue_new_class v)) []"

definition icalproperty_set_class :: "nat \<Rightarrow> int \<Rightarrow> ical \<Rightarrow> ical option" where
  "icalproperty_set_class p v = set_member (plainly (icalvalue_new_class v)) p"

definition icalproperty_get_class :: "nat \<Rightarrow> ical \<Rightarrow> (int \<times> ical) option" where
  "icalproperty_get_class = get_member icalvalue_get_class (Some ICAL_CLASS_NONE)"

definition icalproperty_vanew_cmd :: "int \<Rightarrow> nat list \<Rightarrow> ical \<Rightarrow> (nat \<times> ical) option" where
  "icalproperty_vanew_cmd v = new_member ICAL_CMD_PROPERTY (plainly (icalvalue_new_cmd v))"

definition icalproperty_new_cmd :: "int \<Rightarrow> ical \<Rightarrow> (nat \<times> ical) option" where
  "icalproperty_new_cmd v = new_member ICAL_CMD_PROPERTY (plainly (icalvalue_new_cmd v)) []"

definition icalproperty_set_cmd :: "nat \<Rightarrow> int \<Rightarrow> ical \<Rightarrow> ical option" where
  "icalproperty_set_cmd p v = set_member (plainly (icalvalue_new_cmd v)) p"

definition icalproperty_get_cmd :: "nat \<Rightarrow> ical \<Rightarrow> (int \<times> ical) option" where
  "icalproperty_get_cmd = get_member icalvalue_get_cmd None"

definition icalproperty_vanew_comment :: "string option \<Rightarrow> nat list \<Rightarrow> ical \<Rightarrow> (nat \<times> ical) option" where
  "icalproperty_vanew_comment = new_string ICAL_COMMENT_PROPERTY icalvalue_new_text"

definition icalproperty_new_comment :: "string option \<Rightarrow> ical \<Rightarrow> (nat \<times> ical) option" where
  "icalproperty_new_comment v = new_string ICAL_COMMENT_PROPERTY icalvalue_new_text v []"

definition icalproperty_set_comment :: "nat \<Rightarrow> string option \<Rightarrow> ical \<Rightarrow> ical option" where
  "icalproperty_set_comment = set_string icalvalue_new_text"

definition icalproperty_get_comment :: "nat \<Rightarrow> ical \<Rightarrow> (string option \<times> ical) option" where
  "icalproperty_get_comment = get_member icalvalue_get_text (Some None)"

definition icalproperty_vanew_completed :: "icaltimetype \<Rightarrow> nat list \<Rightarrow> ical \<Rightarrow> (nat \<times> ical) option" where
  "icalproperty_vanew_completed v = new_member ICAL_COMPLETED_PROPERTY (plainly (icalvalue_new_datetime v))"

definition icalproperty_new_completed :: "icaltimetype \<Rightarrow> ical \<Rightarrow> (nat \<times> ical) option" where
  "icalproperty_new_completed v = new_member ICAL_COMPLETED_PROPERTY (plainly (icalvalue_new_datetime v)) []"

definition icalproperty_set_completed :: "nat \<Rightarrow> icaltimetype \<Rightarrow> ical \<Rightarrow> ical option" where
  "icalproperty_set_completed p v = set_member (plainly (icalvalue_new_datetime v)) p"

definition icalproperty_get_completed :: "nat \<Rightarrow> ical \<Rightarrow> (icaltimetype \<times> ical) option" where
  "icalproperty_get_completed = get_member icalvalue_get_datetime (Some icaltime_null_time)"

definition icalproperty_vanew_components :: "string option \<Rightarrow> nat list \<Rightarrow> ical \<Rightarrow> (nat \<times> ical) option" where
  "icalproperty_vanew_components = new_string ICAL_COMPONENTS_PROPERTY icalvalue_new_text"

definition icalproperty_new_components :: "string option \<Rightarrow> ical \<Rightarrow> (nat \<times> ical) option" where
  "icalproperty_new_components v = new_string ICAL_COMPONENTS_PROPERTY icalvalue_new_text v []"

definition icalproperty_set_components :: "nat \<Rightarrow> string option \<Rightarrow> ical \<Rightarrow> ical option" where
  "icalproperty_set_components = set_string icalvalue_new_text"

definition icalproperty_get_components :: "nat \<Rightarrow> ical \<Rightarrow> (string option \<times> ical) option" where
  "icalproperty_get_components = get_member icalvalue_get_text (Some None)"

definition icalproperty_vanew_contact :: "string option \<Rightarrow> nat list \<Rightarrow> ical \<Rightarrow> (nat \<times> ical) option" where
  "icalproperty_vanew_contact = new_string ICAL_CONTACT_PROPERTY icalvalue_new_text"

definition icalproperty_new_contact :: "string option \<Rightarrow> ical \<Rightarrow> (nat \<times> ical) option" where
  "icalproperty_new_contact v = new_string ICAL_CONTACT_PROPERTY icalvalue_new_text v []"

definition icalproperty_set_contact :: "nat \<Rightarrow> string option \<Rightarrow> ical \<Rightarrow> ical option" where
  "icalproperty_set_contact = set_string icalvalue_new_text"

definition icalproperty_get_contact :: "nat \<Rightarrow> ical \<Rightarrow> (string option \<times> ical) option" where
  "icalproperty_get_contact = get_member icalvalue_get_text (Some None)"

definition icalproperty_vanew_created :: "icaltimetype \<Rightarrow> nat list \<Rightarrow> ical \<Rightarrow> (nat \<times> ical) option" where
  "icalproperty_vanew_created v = new_member ICAL_CREATED_PROPERTY (plainly (icalvalue_new_datetime v))"

definition icalproperty_new_created :: "icaltimetype \<Rightarrow> ical \<Rightarrow> (nat \<times> ical) option" where
  "icalproperty_new_created v = new_member ICAL_CREATED_PROPERTY (plainly (icalvalue_new_datetime v)) []"

definition icalproperty_set_created :: "nat \<Rightarrow> icaltimetype \<Rightarrow> ical \<Rightarrow> ical option" where
  "icalproperty_set_created p v = set_member (plainly (icalvalue_new_datetime v)) p"

definition icalproperty_get_created :: "nat \<Rightarrow> ical \<Rightarrow> (icaltimetype \<times> ical) option" where
  "icalproperty_get_created = get_member icalvalue_get_datetime (Some icaltime_null_time)"

definition icalproperty_vanew_csid :: "string option \<Rightarrow> nat list \<Rightarrow> ical \<Rightarrow> (nat \<times> ical) option" where
  "icalproperty_vanew_csid = new_string ICAL_CSID_PROPERTY icalvalue_new_uri"

definition icalproperty_new_csid :: "string option \<Rightarrow> ical \<Rightarrow> (nat \<times> ical) option" where
  "icalproperty_new_csid v = new_string ICAL_CSID_PROPERTY icalvalue_new_uri v []"

definition icalproperty_set_csid :: "nat \<Rightarrow> string option \<Rightarrow> ical \<Rightarrow> ical option" where
  "icalproperty_set_csid = set_string icalvalue_new_uri"

definition icalproperty_get_csid :: "nat \<Rightarrow> ical \<Rightarrow> (string option \<times> ical) option" where
  "icalproperty_get_csid = get_member icalvalue_get_uri (Some None)"

definition icalproperty_vanew_datemax :: "icaltimetype \<Rightarrow> nat list \<Rightarrow> ical \<Rightarrow> (nat \<times> ical) option" where
  "icalproperty_vanew_datemax v = new_member ICAL_DATEMAX_PROPERTY (plainly (icalvalue_new_datetime v))"

definition icalproperty_new_datemax :: "icaltimetype \<Rightarrow> ical \<Rightarrow> (nat \<times> ical) option" where
  "icalproperty_new_datemax v = new_member ICAL_DATEMAX_PROPERTY (plainly (icalvalue_new_datetime v)) []"

definition icalproperty_set_datemax :: "nat \<Rightarrow> icaltimetype \<Rightarrow> ical \<Rightarrow> ical option" where
  "icalproperty_set_datemax p v = set_member (plainly (icalvalue_new_datetime v)) p"

definition icalproperty_get_datemax :: "nat \<Rightarrow> ical \<Rightarrow> (icaltimetype \<times> ical) option" where
  "icalproperty_get_datemax = get_member icalvalue_get_datetime (Some icaltime_null_time)"

definition icalproperty_vanew_datemin :: "icaltimetype \<Rightarrow> nat list \<Rightarrow> ical \<Rightarrow> (nat \<times> ical) option" where
  "icalproperty_vanew_datemin v = new_member ICAL_DATEMIN_PROPERTY (plainly (icalvalue_new_datetime v))"

definition icalproperty_new_datemin :: "icaltimetype \<Rightarrow> ical \<Rightarrow> (nat \<times> ical) option" where
  "icalproperty_new_datemin v = new_member ICAL_DATEMIN_PROPERTY (plainly (icalvalue_new_datetime v)) []"

definition icalproperty_set_datemin :: "nat \<Rightarrow> icaltimetype \<Rightarrow> ical \<Rightarrow> ical option" where
  "icalproperty_set_datemin p v = set_member (plainly (icalvalue_new_datetime v)) p"

definition icalproperty_get_datemin :: "nat \<Rightarrow> ical \<Rightarrow> (icaltimetype \<times> ical) option" where
  "icalproperty_get_datemin = get_member icalvalue_get_datetime (Some icaltime_null_time)"

definition icalproperty_vanew_decreed :: "string option \<Rightarrow> nat list \<Rightarrow> ical \<Rightarrow> (nat \<times> ical) option" where
  "icalproperty_vanew_decreed = new_string ICAL_DECREED_PROPERTY icalvalue_new_text"

definition icalproperty_new_decreed :: "string option \<Rightarrow> ical \<Rightarrow> (nat \<times> ical) option" where
  "icalproperty_new_decreed v = new_string ICAL_DECREED_PROPERTY icalvalue_new_text v []"

definition icalproperty_set_decreed :: "nat \<Rightarrow> string option \<Rightarrow> ical \<Rightarrow> ical option" where
  "icalproperty_set_decreed = set_string icalvalue_new_text"

definition icalproperty_get_decreed :: "nat \<Rightarrow> ical \<Rightarrow> (string option \<times> ical) option" where
  "icalproperty_get_decreed = get_member icalvalue_get_text (Some None)"

definition icalproperty_vanew_defaultcharset :: "string option \<Rightarrow> nat list \<Rightarrow> ical \<Rightarrow> (nat \<times> ical) option" where
  "icalproperty_vanew_defaultcharset = new_string ICAL_DEFAULTCHARSET_PROPERTY icalvalue_new_text"

definition icalproperty_new_defaultcharset :: "string option \<Rightarrow> ical \<Rightarrow> (nat \<times> ical) option" where
  "icalproperty_new_defaultcharset v = new_string ICAL_DEFAULTCHARSET_PROPERTY icalvalue_new_text v []"

definition icalproperty_set_defaultcharset :: "nat \<Rightarrow> string option \<Rightarrow> ical \<Rightarrow> ical option" where
  "icalproperty_set_defaultcharset = set_string icalvalue_new_text"

definition icalproperty_get_defaultcharset :: "nat \<Rightarrow> ical \<Rightarrow> (string option \<times> ical) option" where
  "icalproperty_get_defaultcharset = get_member icalvalue_get_text (Some None)"

definition icalproperty_vanew_defaultlocale :: "string option \<Rightarrow> nat list \<Rightarrow> ical \<Rightarrow> (nat \<times> ical) option" where
  "icalproperty_vanew_defaultlocale = new_string ICAL_DEFAULTLOCALE_PROPERTY icalvalue_new_text"

definition icalproperty_new_defaultlocale :: "string option \<Rightarrow> ical \<Rightarrow> (nat \<times> ical) option" where
  "icalproperty_new_defaultlocale v = new_string ICAL_DEFAULTLOCALE_PROPERTY icalvalue_new_text v []"

definition icalproperty_set_defaultlocale :: "nat \<Rightarrow> string option \<Rightarrow> ical \<Rightarrow> ical option" where
  "icalproperty_set_defaultlocale = set_string icalvalue_new_text"

definition icalproperty_get_defaultlocale :: "nat \<Rightarrow> ical \<Rightarrow> (string option \<times> ical) option" where
  "icalproperty_get_defaultlocale = get_member icalvalue_get_text (Some None)"

definition icalproperty_vanew_defaulttzid :: "string option \<Rightarrow> nat list \<Rightarrow> ical \<Rightarrow> (nat \<times> ical) option" where
  "icalproperty_vanew_defaulttzid = new_string ICAL_DEFAULTTZID_PROPERTY icalvalue_new_text"

definition icalproperty_new_defaulttzid :: "string option \<Rightarrow> ical \<Rightarrow> (nat \<times> ical) option" where
  "icalproperty_new_defaulttzid v = new_string ICAL_DEFAULTTZID_PROPERTY icalvalue_new_text v []"

definition icalproperty_set_defaulttzid :: "nat \<Rightarrow> string option \<Rightarrow> ical \<Rightarrow> ical option" where
  "icalproperty_set_defaulttzid = set_string icalvalue_new_text"

definition icalproperty_get_defaulttzid :: "nat \<Rightarrow> ical \<Rightarrow> (string option \<times> ical) option" where
  "icalproperty_get_defaulttzid = get_member icalvalue_get_text (Some None)"

definition icalproperty_vanew_defaultvcars :: "string option \<Rightarrow> nat list \<Rightarrow> ical \<Rightarrow> (nat \<times> ical) option" where
  "icalproperty_vanew_defaultvcars = new_string ICAL_DEFAULTVCARS_PROPERTY icalvalue_new_text"

definition icalproperty_new_defaultvcars :: "string option \<Rightarrow> ical \<Rightarrow> (nat \<times> ical) option" where
  "icalproperty_new_defaultvcars v = new_string ICAL_DEFAULTVCARS_PROPERTY icalvalue_new_text v []"

definition icalproperty_set_defaultvcars :: "nat \<Rightarrow> string option \<Rightarrow> ical \<Rightarrow> ical option" where
  "icalproperty_set_defaultvcars = set_string icalvalue_new_text"

definition icalproperty_get_defaultvcars :: "nat \<Rightarrow> ical \<Rightarrow> (string option \<times> ical) option" where
  "icalproperty_get_defaultvcars = get_member icalvalue_get_text (Some None)"

definition icalproperty_vanew_deny :: "string option \<Rightarrow> nat list \<Rightarrow> ical \<Rightarrow> (nat \<times> ical) option" where
  "icalproperty_vanew_deny = new_string ICAL_DENY_PROPERTY icalvalue_new_text"

definition icalproperty_new_deny :: "string option \<Rightarrow> ical \<Rightarrow> (nat \<times> ical) option" where
  "icalproperty_new_deny v = new_string ICAL_DENY_PROPERTY icalvalue_new_text v []"

definition icalproperty_set_deny :: "nat \<Rightarrow> string option \<Rightarrow> ical \<Rightarrow> ical option" where
  "icalproperty_set_deny = set_string icalvalue_new_text"

definition icalproperty_get_deny :: "nat \<Rightarrow> ical \<Rightarrow> (string option \<times> ical) option" where
  "icalproperty_get_deny = get_member icalvalue_get_text (Some None)"

definition icalproperty_vanew_description :: "string option \<Rightarrow> nat list \<Rightarrow> ical \<Rightarrow> (nat \<times> ical) option" where
  "icalproperty_vanew_description = new_string ICAL_DESCRIPTION_PROPERTY icalvalue_new_text"

definition icalproperty_new_description :: "string option \<Rightarrow> ical \<Rightarrow> (nat \<times> ical) option" where
  "icalproperty_new_description v = new_string ICAL_DESCRIPTION_PROPERTY icalvalue_new_text v []"

definition icalproperty_set_description :: "nat \<Rightarrow> string option \<Rightarrow> ical \<Rightarrow> ical option" where
  "icalproperty_set_description = set_string icalvalue_new_text"

definition icalproperty_get_description :: "nat \<Rightarrow> ical \<Rightarrow> (string option \<times> ical) option" where
  "icalproperty_get_description = get_member icalvalue_get_text (Some None)"

definition icalproperty_vanew_dtend :: "icaltimetype \<Rightarrow> nat list \<Rightarrow> ical \<Rightarrow> (nat \<times> ical) option" where
  "icalproperty_vanew_dtend v = new_member ICAL_DTEND_PROPERTY (date_or_datetime v)"

definition icalproperty_new_dtend :: "icaltimetype \<Rightarrow> ical \<Rightarrow> (nat \<times> ical) option" where
  "icalproperty_new_dtend v = new_member ICAL_DTEND_PROPERTY (date_or_datetime v) []"

definition icalproperty_set_dtend :: "nat \<Rightarrow> icaltimetype \<Rightarrow> ical \<Rightarrow> ical option" where
  "icalproperty_set_dtend p v = set_member (date_or_datetime v) p"

definition icalproperty_get_dtend :: "nat \<Rightarrow> ical \<Rightarrow> (icaltimetype \<times> ical) option" where
  "icalproperty_get_dtend = get_member icalvalue_get_datetime (Some icaltime_null_time)"

definition icalproperty_vanew_dtstamp :: "icaltimetype \<Rightarrow> nat list \<Rightarrow> ical \<Rightarrow> (nat \<times> ical) option" where
  "icalproperty_vanew_dtstamp v = new_member ICAL_DTSTAMP_PROPERTY (plainly (icalvalue_new_datetime v))"

definition icalproperty_new_dtstamp :: "icaltimetype \<Rightarrow> ical \<Rightarrow> (nat \<times> ical) option" where
  "icalproperty_new_dtstamp v = new_member ICAL_DTSTAMP_PROPERTY (plainly (icalvalue_new_datetime v)) []"

definition icalproperty_set_dtstamp :: "nat \<Rightarrow> icaltimetype \<Rightarrow> ical \<Rightarrow> ical option" where
  "icalproperty_set_dtstamp p v = set_member (plainly (icalvalue_new_datetime v)) p"

definition icalproperty_get_dtstamp :: "nat \<Rightarrow> ical \<Rightarrow> (icaltimetype \<times> ical) option" where
  "icalproperty_get_dtstamp = get_member icalvalue_get_datetime (Some icaltime_null_time)"

definition icalproperty_vanew_dtstart :: "icaltimetype \<Rightarrow> nat list \<Rightarrow> ical \<Rightarrow> (nat \<times> ical) option" where
  "icalproperty_vanew_dtstart v = new_member ICAL_DTSTART_PROPERTY (date_or_datetime v)"

definition icalproperty_new_dtstart :: "icaltimetype \<Rightarrow> ical \<Rightarrow> (nat \<times> ical) option" where
  "icalproperty_new_dtstart v = new_member ICAL_DTSTART_PROPERTY (date_or_datetime v) []"

definition icalproperty_set_dtstart :: "nat \<Rightarrow> icaltimetype \<Rightarrow> ical \<Rightarrow> ical option" where
  "icalproperty_set_dtstart p v = set_member (date_or_datetime v) p"

definition icalproperty_get_dtstart :: "nat \<Rightarrow> ical \<Rightarrow> (icaltimetype \<times> ical) option" where
  "icalproperty_get_dtstart = get_member icalvalue_get_datetime (Some icaltime_null_time)"

definition icalproperty_vanew_due :: "icaltimetype \<Rightarrow> nat list \<Rightarrow> ical \<Rightarrow> (nat \<times> ical) option" where
  "icalproperty_vanew_due v = new_member ICAL_DUE_PROPERTY (date_or_datetime v)"

definition icalproperty_new_due :: "icaltimetype \<Rightarrow> ical \<Rightarrow> (nat \<times> ical) option" where
  "icalproperty_new_due v = new_member ICAL_DUE_PROPERTY (date_or_datetime v) []"

definition icalproperty_set_due :: "nat \<Rightarrow> icaltimetype \<Rightarrow> ical \<Rightarrow> ical option" where
  "icalproperty_set_due p v = set_member (date_or_datetime v) p"

definition icalproperty_get_due :: "nat \<Rightarrow> ical \<Rightarrow> (icaltimetype \<times> ical) option" where
  "icalproperty_get_due = get_member icalvalue_get_datetime (Some icaltime_null_time)"

definition icalproperty_vanew_duration :: "icaldurationtype \<Rightarrow> nat list \<Rightarrow> ical \<Rightarrow> (nat \<times> ical) option" where
  "icalproperty_vanew_duration v = new_member ICAL_DURATION_PROPERTY (plainly (icalvalue_new_duration v))"

definition icalproperty_new_duration :: "icaldurationtype \<Rightarrow> ical \<Rightarrow> (nat \<times> ical) option" where
  "icalproperty_new_duration v = new_member ICAL_DURATION_PROPERTY (plainly (icalvalue_new_duration v)) []"

definition icalproperty_set_duration :: "nat \<Rightarrow> icaldurationtype \<Rightarrow> ical \<Rightarrow> ical option" where
  "icalproperty_set_duration p v = set_member (plainly (icalvalue_new_duration v)) p"

definition icalproperty_get_duration :: "nat \<Rightarrow> ical \<Rightarrow> (icaldurationtype \<times> ical) option" where
  "icalproperty_get_duration = get_member icalvalue_get_duration None"

definition icalproperty_vanew_exdate :: "icaltimetype \<Rightarrow> nat list \<Rightarrow> ical \<Rightarrow> (nat \<times> ical) option" where
  "icalproperty_vanew_exdate v = new_member ICAL_EXDATE_PROPERTY (date_or_datetime v)"

definition icalproperty_new_exdate :: "icaltimetype \<Rightarrow> ical \<Rightarrow> (nat \<times> ical) option" where
  "icalproperty_new_exdate v = new_member ICAL_EXDATE_PROPERTY (date_or_datetime v) []"

definition icalproperty_set_exdate :: "nat \<Rightarrow> icaltimetype \<Rightarrow> ical \<Rightarrow> ical option" where
  "icalproperty_set_exdate p v = set_member (date_or_datetime v) p"

definition icalproperty_get_exdate ::
    "(string \<Rightarrow> zone_ref option) \<Rightarrow> nat \<Rightarrow> ical \<Rightarrow> (icaltimetype \<times> ical) option" where
  "icalproperty_get_exdate builtin p st = do {
     (itt, st1) \<leftarrow> get_member icalvalue_get_datetime (Some icaltime_null_time) p st;
     (param, st2) \<leftarrow> icalproperty_get_first_parameter p ICAL_TZID_PARAMETER st1;
     if param = 0 then Some (itt, st2)
     else do {
       (tzid, st3) \<leftarrow> icalparameter_get_tzid param st2;
       Some (icaltime_set_timezone itt (Option.bind tzid builtin), st3) } }"

definition icalproperty_vanew_expand :: "int \<Rightarrow> nat list \<Rightarrow> ical \<Rightarrow> (nat \<times> ical) option" where
  "icalproperty_vanew_expand v = new_member ICAL_EXPAND_PROPERTY (plainly (icalvalue_new_integer v))"

definition icalproperty_new_expand :: "int \<Rightarrow> ical \<Rightarrow> (nat \<times> ical) option" where
  "icalproperty_new_expand v = new_member ICAL_EXPAND_PROPERTY (plainly (icalvalue_new_integer v)) []"

definition icalproperty_set_expand :: "nat \<Rightarrow> int \<Rightarrow> ical \<Rightarrow> ical option" where
  "icalproperty_set_expand p v = set_member (plainly (icalvalue_new_integer v)) p"

definition icalproperty_get_expand :: "nat \<Rightarrow> ical \<Rightarrow> (int \<times> ical) option" where
  "icalproperty_get_expand = get_member icalvalue_get_integer None"

definition icalproperty_vanew_exrule :: "icalrecurrencetype \<Rightarrow> nat list \<Rightarrow> ical \<Rightarrow> (nat \<times> ical) option" where
  "icalproperty_vanew_exrule v = new_member ICAL_EXRULE_PROPERTY (plainly (icalvalue_new_recur v))"

definition icalproperty_new_exrule :: "icalrecurrencetype \<Rightarrow> ical \<Rightarrow> (nat \<times> ical) option" where
  "icalproperty_new_exrule v = new_member ICAL_EXRULE_PROPERTY (plainly (icalvalue_new_recur v)) []"

definition icalproperty_set_exrule :: "nat \<Rightarrow> icalrecurrencetype \<Rightarrow> ical \<Rightarrow> ical option" where
  "icalproperty_set_exrule p v = set_member (plainly (icalvalue_new_recur v)) p"

definition icalproperty_get_exrule :: "nat \<Rightarrow> ical \<Rightarrow> (icalrecurrencetype \<times> ical) option" where
  "icalproperty_get_exrule = get_member icalvalue_get_recur (Some icalrecurrencetype_clear)"

definition icalproperty_vanew_freebusy :: "icalperiodtype \<Rightarrow> nat list \<Rightarrow> ical \<Rightarrow> (nat \<times> ical) option" where
  "icalproperty_vanew_freebusy v = new_member ICAL_FREEBUSY_PROPERTY (plainly (icalvalue_new_period v))"

definition icalproperty_new_freebusy :: "icalperiodtype \<Rightarrow> ical \<Rightarrow> (nat \<times> ical) option" where
  "icalproperty_new_freebusy v = new_member ICAL_FREEBUSY_PROPERTY (plainly (icalvalue_new_period v)) []"

definition icalproperty_set_freebusy :: "nat \<Rightarrow> icalperiodtype \<Rightarrow> ical \<Rightarrow> ical option" where
  "icalproperty_set_freebusy p v = set_member (plainly (icalvalue_new_period v)) p"

definition icalproperty_get_freebusy :: "nat \<Rightarrow> ical \<Rightarrow> (icalperiodtype \<times> ical) option" where
  "icalproperty_get_freebusy = get_member icalvalue_get_period None"

definition icalproperty_vanew_geo :: "icalgeotype \<Rightarrow> nat list \<Rightarrow> ical \<Rightarrow> (nat \<times> ical) option" where
  "icalproperty_vanew_geo v = new_member ICAL_GEO_PROPERTY (plainly (icalvalue_new_geo v))"

definition icalproperty_new_geo :: "icalgeotype \<Rightarrow> ical \<Rightarrow> (nat \<times> ical) option" where
  "icalproperty_new_geo v = new_member ICAL_GEO_PROPERTY (plainly (icalvalue_new_geo v)) []"

definition icalproperty_set_geo :: "nat \<Rightarrow> icalgeotype \<Rightarrow> ical \<Rightarrow> ical option" where
  "icalproperty_set_geo p v = set_member (plainly (icalvalue_new_geo v)) p"

definition icalproperty_get_geo :: "nat \<Rightarrow> ical \<Rightarrow> (icalgeotype \<times> ical) option" where
  "icalproperty_get_geo = get_member icalvalue_get_geo (Some no_geo)"

definition icalproperty_vanew_grant :: "string option \<Rightarrow> nat list \<Rightarrow> ical \<Rightarrow> (nat \<times> ical) option" where
  "icalproperty_vanew_grant = new_string ICAL_GRANT_PROPERTY icalvalue_new_text"

definition icalproperty_new_grant :: "string option \<Rightarrow> ical \<Rightarrow> (nat \<times> ical) option" where
  "icalproperty_new_grant v = new_string ICAL_GRANT_PROPERTY icalvalue_new_text v []"

definition icalproperty_set_grant :: "nat \<Rightarrow> string option \<Rightarrow> ical \<Rightarrow> ical option" where
  "icalproperty_set_grant = set_string icalvalue_new_text"

definition icalproperty_get_grant :: "nat \<Rightarrow> ical \<Rightarrow> (string option \<times> ical) option" where
  "icalproperty_get_grant = get_member icalvalue_get_text (Some None)"

definition icalproperty_vanew_itipversion :: "string option \<Rightarrow> nat list \<Rightarrow> ical \<Rightarrow> (nat \<times> ical) option" where
  "icalproperty_vanew_itipversion = new_string ICAL_ITIPVERSION_PROPERTY icalvalue_new_text"

definition icalproperty_new_itipversion :: "string option \<Rightarrow> ical \<Rightarrow> (nat \<times> ical) option" where
  "icalproperty_new_itipversion v = new_string ICAL_ITIPVERSION_PROPERTY icalvalue_new_text v []"

definition icalproperty_set_itipversion :: "nat \<Rightarrow> string option \<Rightarrow> ical \<Rightarrow> ical option" where
  "icalproperty_set_itipversion = set_string icalvalue_new_text"

definition icalproperty_get_itipversion :: "nat \<Rightarrow> ical \<Rightarrow> (string option \<times> ical) option" where
  "icalproperty_get_itipversion = get_member icalvalue_get_text (Some None)"

definition icalproperty_vanew_lastmodified :: "icaltimetype \<Rightarrow> nat list \<Rightarrow> ical \<Rightarrow> (nat \<times> ical) option" where
  "icalproperty_vanew_lastmodified v = new_member ICAL_LASTMODIFIED_PROPERTY (plainly (icalvalue_new_datetime v))"

definition icalproperty_new_lastmodified :: "icaltimetype \<Rightarrow> ical \<Rightarrow> (nat \<times> ical) option" where
  "icalproperty_new_lastmodified v = new_member ICAL_LASTMODIFIED_PROPERTY (plainly (icalvalue_new_datetime v)) []"

definition icalproperty_set_lastmodified :: "nat \<Rightarrow> icaltimetype \<Rightarrow> ical \<Rightarrow> ical option" where
  "icalproperty_set_lastmodified p v = set_member (plainly (icalvalue_new_datetime v)) p"

definition icalproperty_get_lastmodified :: "nat \<Rightarrow> ical \<Rightarrow> (icaltimetype \<times> ical) option" where
  "icalproperty_get_lastmodified = get_member icalvalue_get_datetime (Some icaltime_null_time)"

definition icalproperty_vanew_location :: "string option \<Rightarrow> nat list \<Rightarrow> ical \<Rightarrow> (nat \<times> ical) option" where
  "icalproperty_vanew_location = new_string ICAL_LOCATION_PROPERTY icalvalue_new_text"

definition icalproperty_new_location :: "string option \<Rightarrow> ical \<Rightarrow> (nat \<times> ical) option" where
  "icalproperty_new_location v = new_string ICAL_LOCATION_PROPERTY icalvalue_new_text v []"

definition icalproperty_set_location :: "nat \<Rightarrow> string option \<Rightarrow> ical \<Rightarrow> ical option" where
  "icalproperty_set_location = set_string icalvalue_new_text"

definition icalproperty_get_location :: "nat \<Rightarrow> ical \<Rightarrow> (string option \<times> ical) option" where
  "icalproperty_get_location = get_member icalvalue_get_text (Some None)"

definition icalproperty_vanew_maxcomponentsize :: "int \<Rightarrow> nat list \<Rightarrow> ical \<Rightarrow> (nat \<times> ical) option" where
  "icalproperty_vanew_maxcomponentsize v = new_member ICAL_MAXCOMPONENTSIZE_PROPERTY (plainly (icalvalue_new_integer v))"

definition icalproperty_new_maxcomponentsize :: "int \<Rightarrow> ical \<Rightarrow> (nat \<times> ical) option" where
  "icalproperty_new_maxcomponentsize v = new_member ICAL_MAXCOMPONENTSIZE_PROPERTY (plainly (icalvalue_new_integer v)) []"

definition icalproperty_set_maxcomponentsize :: "nat \<Rightarrow> int \<Rightarrow> ical \<Rightarrow> ical option" where
  "icalproperty_set_maxcomponentsize p v = set_member (plainly (icalvalue_new_integer v)) p"

definition icalproperty_get_maxcomponentsize :: "nat \<Rightarrow> ical \<Rightarrow> (int \<times> ical) option" where
  "icalproperty_get_maxcomponentsize = get_member icalvalue_get_integer None"

definition icalproperty_vanew_maxdate :: "icaltimetype \<Rightarrow> nat list \<Rightarrow> ical \<Rightarrow> (nat \<times> ical) option" where
  "icalproperty_vanew_maxdate v = new_member ICAL_MAXDATE_PROPERTY (plainly (icalvalue_new_datetime v))"

definition icalproperty_new_maxdate :: "icaltimetype \<Rightarrow> ical \<Rightarrow> (nat \<times> ical) option" where
  "icalproperty_new_maxdate v = new_member ICAL_MAXDATE_PROPERTY (plainly (icalvalue_new_datetime v)) []"

definition icalproperty_set_maxdate :: "nat \<Rightarrow> icaltimetype \<Rightarrow> ical \<Rightarrow> ical option" where
  "icalproperty_set_maxdate p v = set_member (plainly (icalvalue_new_datetime v)) p"

definition icalproperty_get_maxdate :: "nat \<Rightarrow> ical \<Rightarrow> (icaltimetype \<times> ical) option" where
  "icalproperty_get_maxdate = get_member icalvalue_get_datetime (Some icaltime_null_time)"

definition icalproperty_vanew_maxresults :: "int \<Rightarrow> nat list \<Rightarrow> ical \<Rightarrow> (nat \<times> ical) option" where
  "icalproperty_vanew_maxresults v = new_member ICAL_MAXRESULTS_PROPERTY (plainly (icalvalue_new_integer v))"

definition icalproperty_new_maxresults :: "int \<Rightarrow> ical \<Rightarrow> (nat \<times> ical) option" where
  "icalproperty_new_maxresults v = new_member ICAL_MAXRESULTS_PROPERTY (plainly (icalvalue_new_integer v)) []"

definition icalproperty_set_maxresults :: "nat \<Rightarrow> int \<Rightarrow> ical \<Rightarrow> ical option" where
  "icalproperty_set_maxresults p v = set_member (plainly (icalvalue_new_integer v)) p"

definition icalproperty_get_maxresults :: "nat \<Rightarrow> ical \<Rightarrow> (int \<times> ical) option" where
  "icalproperty_get_maxresults = get_member icalvalue_get_integer None"

definition icalproperty_vanew_maxresultssize :: "int \<Rightarrow> nat list \<Rightarrow> ical \<Rightarrow> (nat \<times> ical) option" where
  "icalproperty_vanew_maxresultssize v = new_member ICAL_MAXRESULTSSIZE_PROPERTY (plainly (icalvalue_new_integer v))"

definition icalproperty_new_maxresultssize :: "int \<Rightarrow> ical \<Rightarrow> (nat \<times> ical) option" where
  "icalproperty_new_maxresultssize v = new_member ICAL_MAXRESULTSSIZE_PROPERTY (plainly (icalvalue_new_integer v)) []"

definition icalproperty_set_maxresultssize :: "nat \<Rightarrow> int \<Rightarrow> ical \<Rightarrow> ical option" where
  "icalproperty_set_maxresultssize p v = set_member (plainly (icalvalue_new_integer v)) p"

definition icalproperty_get_maxresultssize :: "nat \<Rightarrow> ical \<Rightarrow> (int \<times> ical) option" where
  "icalproperty_get_maxresultssize = get_member icalvalue_get_integer None"

definition icalproperty_vanew_method :: "int \<Rightarrow> nat list \<Rightarrow> ical \<Rightarrow> (nat \<times> ical) option" where
  "icalproperty_vanew_method v = new_member ICAL_METHOD_PROPERTY (plainly (icalvalue_new_method v))"

definition icalproperty_new_method :: "int \<Rightarrow> ical \<Rightarrow> (nat \<times> ical) option" where
  "icalproperty_new_method v = new_member ICAL_METHOD_PROPERTY (plainly (icalvalue_new_method v)) []"

definition icalproperty_set_method :: "nat \<Rightarrow> int \<Rightarrow> ical \<Rightarrow> ical option" where
  "icalproperty_set_method p v = set_member (plainly (icalvalue_new_method v)) p"

definition icalproperty_get_method :: "nat \<Rightarrow> ical \<Rightarrow> (int \<times> ical) option" where
  "icalproperty_get_method = get_member icalvalue_get_method None"

definition icalproperty_vanew_mindate :: "icaltimetype \<Rightarrow> nat list \<Rightarrow> ical \<Rightarrow> (nat \<times> ical) option" where
  "icalproperty_vanew_mindate v = new_member ICAL_MINDATE_PROPERTY (plainly (icalvalue_new_datetime v))"

definition icalproperty_new_mindate :: "icaltimetype \<Rightarrow> ical \<Rightarrow> (nat \<times> ical) option" where
  "icalproperty_new_mindate v = new_member ICAL_MINDATE_PROPERTY (plainly (icalvalue_new_datetime v)) []"

definition icalproperty_set_mindate :: "nat \<Rightarrow> icaltimetype \<Rightarrow> ical \<Rightarrow> ical option" where
  "icalproperty_set_mindate p v = set_member (plainly (icalvalue_new_datetime v)) p"

definition icalproperty_get_mindate :: "nat \<Rightarrow> ical \<Rightarrow> (icaltimetype \<times> ical) option" where
  "icalproperty_get_mindate = get_member icalvalue_get_datetime (Some icaltime_null_time)"

definition icalproperty_vanew_multipart :: "string option \<Rightarrow> nat list \<Rightarrow> ical \<Rightarrow> (nat \<times> ical) option" where
  "icalproperty_vanew_multipart = new_string ICAL_MULTIPART_PROPERTY icalvalue_new_text"

definition icalproperty_new_multipart :: "string option \<Rightarrow> ical \<Rightarrow> (nat \<times> ical) option" where
  "icalproperty_new_multipart v = new_string ICAL_MULTIPART_PROPERTY icalvalue_new_text v []"

definition icalproperty_set_multipart :: "nat \<Rightarrow> string option \<Rightarrow> ical \<Rightarrow> ical option" where
  "icalproperty_set_multipart = set_string icalvalue_new_text"

definition icalproperty_get_multipart :: "nat \<Rightarrow> ical \<Rightarrow> (string option \<times> ical) option" where
  "icalproperty_get_multipart = get_member icalvalue_get_text (Some None)"

definition icalproperty_vanew_name :: "string option \<Rightarrow> nat list \<Rightarrow> ical \<Rightarrow> (nat \<times> ical) option" where
  "icalproperty_vanew_name = new_string ICAL_NAME_PROPERTY icalvalue_new_text"

definition icalproperty_new_name :: "string option \<Rightarrow> ical \<Rightarrow> (nat \<times> ical) option" where
  "icalproperty_new_name v = new_string ICAL_NAME_PROPERTY icalvalue_new_text v []"

definition icalproperty_set_name :: "nat \<Rightarrow> string option \<Rightarrow> ical \<Rightarrow> ical option" where
  "icalproperty_set_name = set_string icalvalue_new_text"

definition icalproperty_get_name :: "nat \<Rightarrow> ical \<Rightarrow> (string option \<times> ical) option" where
  "icalproperty_get_name = get_member icalvalue_get_text (Some None)"

definition icalproperty_vanew_organizer :: "string option \<Rightarrow> nat list \<Rightarrow> ical \<Rightarrow> (nat \<times> ical) option" where
  "icalproperty_vanew_organizer = new_string ICAL_ORGANIZER_PROPERTY icalvalue_new_caladdress"

definition icalproperty_new_organizer :: "string option \<Rightarrow> ical \<Rightarrow> (nat \<times> ical) option" where
  "icalproperty_new_organizer v = new_string ICAL_ORGANIZER_PROPERTY icalvalue_new_caladdress v []"

definition icalproperty_set_organizer :: "nat \<Rightarrow> string option \<Rightarrow> ical \<Rightarrow> ical option" where
  "icalproperty_set_organizer = set_string icalvalue_new_caladdress"

definition icalproperty_get_organizer :: "nat \<Rightarrow> ical \<Rightarrow> (string option \<times> ical) option" where
  "icalproperty_get_organizer = get_member icalvalue_get_caladdress (Some None)"

definition icalproperty_vanew_owner :: "string option \<Rightarrow> nat list \<Rightarrow> ical \<Rightarrow> (nat \<times> ical) option" where
  "icalproperty_vanew_owner = new_string ICAL_OWNER_PROPERTY icalvalue_new_text"

definition icalproperty_new_owner :: "string option \<Rightarrow> ical \<Rightarrow> (nat \<times> ical) option" where
  "icalproperty_new_owner v = new_string ICAL_OWNER_PROPERTY icalvalue_new_text v []"

definition icalproperty_set_owner :: "nat \<Rightarrow> string option \<Rightarrow> ical \<Rightarrow> ical option" where
  "icalproperty_set_owner = set_string icalvalue_new_text"

definition icalproperty_get_owner :: "nat \<Rightarrow> ical \<Rightarrow> (string option \<times> ical) option" where
  "icalproperty_get_owner = get_member icalvalue_get_text (Some None)"

definition icalproperty_vanew_percentcomplete :: "int \<Rightarrow> nat list \<Rightarrow> ical \<Rightarrow> (nat \<times> ical) option" where
  "icalproperty_vanew_percentcomplete v = new_member ICAL_PERCENTCOMPLETE_PROPERTY (plainly (icalvalue_new_integer v))"

definition icalproperty_new_percentcomplete :: "int \<Rightarrow> ical \<Rightarrow> (nat \<times> ical) option" where
  "icalproperty_new_percentcomplete v = new_member ICAL_PERCENTCOMPLETE_PROPERTY (plainly (icalvalue_new_integer v)) []"

definition icalproperty_set_percentcomplete :: "nat \<Rightarrow> int \<Rightarrow> ical \<Rightarrow> ical option" where
  "icalproperty_set_percentcomplete p v = set_member (plainly (icalvalue_new_integer v)) p"

definition icalproperty_get_percentcomplete :: "nat \<Rightarrow> ical \<Rightarrow> (int \<times> ical) option" where
  "icalproperty_get_percentcomplete = get_member icalvalue_get_integer None"

definition icalproperty_vanew_permission :: "string option \<Rightarrow> nat list \<Rightarrow> ical \<Rightarrow> (nat \<times> ical) option" where
  "icalproperty_vanew_permission = new_string ICAL_PERMISSION_PROPERTY icalvalue_new_text"

definition icalproperty_new_permission :: "string option \<Rightarrow> ical \<Rightarrow> (nat \<times> ical) option" where
  "icalproperty_new_permission v = new_string ICAL_PERMISSION_PROPERTY icalvalue_new_text v []"

definition icalproperty_set_permission :: "nat \<Rightarrow> string option \<Rightarrow> ical \<Rightarrow> ical option" where
  "icalproperty_set_permission = set_string icalvalue_new_text"

definition icalproperty_get_permission :: "nat \<Rightarrow> ical \<Rightarrow> (string option \<times> ical) option" where
  "icalproperty_get_permission = get_member icalvalue_get_text (Some None)"

definition icalproperty_vanew_priority :: "int \<Rightarrow> nat list \<Rightarrow> ical \<Rightarrow> (nat \<times> ical) option" where
  "icalproperty_vanew_priority v = new_member ICAL_PRIORITY_PROPERTY (plainly (icalvalue_new_integer v))"

definition icalproperty_new_priority :: "int \<Rightarrow> ical \<Rightarrow> (nat \<times> ical) option" where
  "icalproperty_new_priority v = new_member ICAL_PRIORITY_PROPERTY (plainly (icalvalue_new_integer v)) []"

definition icalproperty_set_priority :: "nat \<Rightarrow> int \<Rightarrow> ical \<Rightarrow> ical option" where
  "icalproperty_set_priority p v = set_member (plainly (icalvalue_new_integer v)) p"

definition icalproperty_get_priority :: "nat \<Rightarrow> ical \<Rightarrow> (int \<times> ical) option" where
  "icalproperty_get_priority = get_member icalvalue_get_integer None"

definition icalproperty_vanew_prodid :: "string option \<Rightarrow> nat list \<Rightarrow> ical \<Rightarrow> (nat \<times> ical) option" where
  "icalproperty_vanew_prodid = new_string ICAL_PRODID_PROPERTY icalvalue_new_text"

definition icalproperty_new_prodid :: "string option \<Rightarrow> ical \<Rightarrow> (nat \<times> ical) option" where
  "icalproperty_new_prodid v = new_string ICAL_PRODID_PROPERTY icalvalue_new_text v []"

definition icalproperty_set_prodid :: "nat \<Rightarrow> string option \<Rightarrow> ical \<Rightarrow> ical option" where
  "icalproperty_set_prodid = set_string icalvalue_new_text"

definition icalproperty_get_prodid :: "nat \<Rightarrow> ical \<Rightarrow> (string option \<times> ical) option" where
  "icalproperty_get_prodid = get_member icalvalue_get_text (Some None)"

definition icalproperty_vanew_query :: "string option \<Rightarrow> nat list \<Rightarrow> ical \<Rightarrow> (nat \<times> ical) option" where
  "icalproperty_vanew_query = new_string ICAL_QUERY_PROPERTY icalvalue_new_query"

definition icalproperty_new_query :: "string option \<Rightarrow> ical \<Rightarrow> (nat \<times> ical) option" where
  "icalproperty_new_query v = new_string ICAL_QUERY_PROPERTY icalvalue_new_query v []"

definition icalproperty_set_query :: "nat \<Rightarrow> string option \<Rightarrow> ical \<Rightarrow> ical option" where
  "icalproperty_set_query = set_string icalvalue_new_query"

definition icalproperty_get_query :: "nat \<Rightarrow> ical \<Rightarrow> (string option \<times> ical) option" where
  "icalproperty_get_query = get_member icalvalue_get_query (Some None)"

definition icalproperty_vanew_querylevel :: "int \<Rightarrow> nat list \<Rightarrow> ical \<Rightarrow> (nat \<times> ical) option" where
  "icalproperty_vanew_querylevel v = new_member ICAL_QUERYLEVEL_PROPERTY (plainly (icalvalue_new_querylevel v))"

definition icalproperty_new_querylevel :: "int \<Rightarrow> ical \<Rightarrow> (nat \<times> ical) option" where
  "icalproperty_new_querylevel v = new_member ICAL_QUERYLEVEL_PROPERTY (plainly (icalvalue_new_querylevel v)) []"

definition icalproperty_set_querylevel :: "nat \<Rightarrow> int \<Rightarrow> ical \<Rightarrow> ical option" where
  "icalproperty_set_querylevel p v = set_member (plainly (icalvalue_new_querylevel v)) p"

definition icalproperty_get_querylevel :: "nat \<Rightarrow> ical \<Rightarrow> (int \<times> ical) option" where
  "icalproperty_get_querylevel = get_member icalvalue_get_querylevel None"

definition icalproperty_vanew_queryid :: "string option \<Rightarrow> nat list \<Rightarrow> ical \<Rightarrow> (nat \<times> ical) option" where
  "icalproperty_vanew_queryid = new_string ICAL_QUERYID_PROPERTY icalvalue_new_text"

definition icalproperty_new_queryid :: "string option \<Rightarrow> ical \<Rightarrow> (nat \<times> ical) option" where
  "icalproperty_new_queryid v = new_string ICAL_QUERYID_PROPERTY icalvalue_new_text v []"

definition icalproperty_set_queryid :: "nat \<Rightarrow> string option \<Rightarrow> ical \<Rightarrow> ical option" where
  "icalproperty_set_queryid = set_string icalvalue_new_text"

definition icalproperty_get_queryid :: "nat \<Rightarrow> ical \<Rightarrow> (string option \<times> ical) option" where
  "icalproperty_get_queryid = get_member icalvalue_get_text (Some None)"

definition icalproperty_vanew_queryname :: "string option \<Rightarrow> nat list \<Rightarrow> ical \<Rightarrow> (nat \<times> ical) option" where
  "icalproperty_vanew_queryname = new_string ICAL_QUERYNAME_PROPERTY icalvalue_new_text"

definition icalproperty_new_queryname :: "string option \<Rightarrow> ical \<Rightarrow> (nat \<times> ical) option" where
  "icalproperty_new_queryname v = new_string ICAL_QUERYNAME_PROPERTY icalvalue_new_text v []"

definition icalproperty_set_queryname :: "nat \<Rightarrow> string option \<Rightarrow> ical \<Rightarrow> ical option" where
  "icalproperty_set_queryname = set_string icalvalue_new_text"

definition icalproperty_get_queryname :: "nat \<Rightarrow> ical \<Rightarrow> (string option \<times> ical) option" where
  "icalproperty_get_queryname = get_member icalvalue_get_text (Some None)"

definition icalproperty_vanew_rdate :: "icaldatetimeperiodtype \<Rightarrow> nat list \<Rightarrow> ical \<Rightarrow> (nat \<times> ical) option" where
  "icalproperty_vanew_rdate v = new_member ICAL_RDATE_PROPERTY (\<lambda>env. map_option (\<lambda>(x, es). (x, env\<lparr>env_errs := es\<rparr>)) (icalvalue_new_datetimeperiod v (env_errs env)))"

definition icalproperty_new_rdate :: "icaldatetimeperiodtype \<Rightarrow> ical \<Rightarrow> (nat \<times> ical) option" where
  "icalproperty_new_rdate v = new_member ICAL_RDATE_PROPERTY (\<lambda>env. map_option (\<lambda>(x, es). (x, env\<lparr>env_errs := es\<rparr>)) (icalvalue_new_datetimeperiod v (env_errs env))) []"

definition icalproperty_set_rdate :: "nat \<Rightarrow> icaldatetimeperiodtype \<Rightarrow> ical \<Rightarrow> ical option" where
  "icalproperty_set_rdate p v = set_member (\<lambda>env. map_option (\<lambda>(x, es). (x, env\<lparr>env_errs := es\<rparr>)) (icalvalue_new_datetimeperiod v (env_errs env))) p"

definition icalproperty_get_rdate :: "nat \<Rightarrow> ical \<Rightarrow> (icaldatetimeperiodtype \<times> ical) option" where
  "icalproperty_get_rdate = get_member_e icalvalue_get_datetimeperiod (Some null_datetimeperiod)"

definition icalproperty_vanew_recuraccepted :: "string option \<Rightarrow> nat list \<Rightarrow> ical \<Rightarrow> (nat \<times> ical) option" where
  "icalproperty_vanew_recuraccepted = new_string ICAL_RECURACCEPTED_PROPERTY icalvalue_new_text"

definition icalproperty_new_recuraccepted :: "string option \<Rightarrow> ical \<Rightarrow> (nat \<times> ical) option" where
  "icalproperty_new_recuraccepted v = new_string ICAL_RECURACCEPTED_PROPERTY icalvalue_new_text v []"

definition icalproperty_set_recuraccepted :: "nat \<Rightarrow> string option \<Rightarrow> ical \<Rightarrow> ical option" where
  "icalproperty_set_recuraccepted = set_string icalvalue_new_text"

definition icalproperty_get_recuraccepted :: "nat \<Rightarrow> ical \<Rightarrow> (string option \<times> ical) option" where
  "icalproperty_get_recuraccepted = get_member icalvalue_get_text (Some None)"

definition icalproperty_vanew_recurexpand :: "string option \<Rightarrow> nat list \<Rightarrow> ical \<Rightarrow> (nat \<times> ical) option" where
  "icalproperty_vanew_recurexpand = new_string ICAL_RECUREXPAND_PROPERTY icalvalue_new_text"

definition icalproperty_new_recurexpand :: "string option \<Rightarrow> ical \<Rightarrow> (nat \<times> ical) option" where
  "icalproperty_new_recurexpand v = new_string ICAL_RECUREXPAND_PROPERTY icalvalue_new_text v []"

definition icalproperty_set_recurexpand :: "nat \<Rightarrow> string option \<Rightarrow> ical \<Rightarrow> ical option" where
  "icalproperty_set_recurexpand = set_string icalvalue_new_text"

definition icalproperty_get_recurexpand :: "nat \<Rightarrow> ical \<Rightarrow> (string option \<times> ical) option" where
  "icalproperty_get_recurexpand = get_member icalvalue_get_text (Some None)"

definition icalproperty_vanew_recurlimit :: "string option \<Rightarrow> nat list \<Rightarrow> ical \<Rightarrow> (nat \<times> ical) option" where
  "icalproperty_vanew_recurlimit = new_string ICAL_RECURLIMIT_PROPERTY icalvalue_new_text"

definition icalproperty_new_recurlimit :: "string option \<Rightarrow> ical \<Rightarrow> (nat \<times> ical) option" where
  "icalproperty_new_recurlimit v = new_string ICAL_RECURLIMIT_PROPERTY icalvalue_new_text v []"

definition icalproperty_set_recurlimit :: "nat \<Rightarrow> string option \<Rightarrow> ical \<Rightarrow> ical option" where
  "icalproperty_set_recurlimit = set_string icalvalue_new_text"

definition icalproperty_get_recurlimit :: "nat \<Rightarrow> ical \<Rightarrow> (string option \<times> ical) option" where
  "icalproperty_get_recurlimit = get_member icalvalue_get_text (Some None)"

definition icalproperty_vanew_recurrenceid :: "icaltimetype \<Rightarrow> nat list \<Rightarrow> ical \<Rightarrow> (nat \<times> ical) option" where
  "icalproperty_vanew_recurrenceid v = new_member ICAL_RECURRENCEID_PROPERTY (date_or_datetime v)"

definition icalproperty_new_recurrenceid :: "icaltimetype \<Rightarrow> ical \<Rightarrow> (nat \<times> ical) option" where
  "icalproperty_new_recurrenceid v = new_member ICAL_RECURRENCEID_PROPERTY (date_or_datetime v) []"

definition icalproperty_set_recurrenceid :: "nat \<Rightarrow> icaltimetype \<Rightarrow> ical \<Rightarrow> ical option" where
  "icalproperty_set_recurrenceid p v = set_member (date_or_datetime v) p"

definition icalproperty_get_recurrenceid :: "nat \<Rightarrow> ical \<Rightarrow> (icaltimetype \<times> ical) option" where
  "icalproperty_get_recurrenceid = get_member icalvalue_get_datetime (Some icaltime_null_time)"

definition icalproperty_vanew_relatedto :: "string option \<Rightarrow> nat list \<Rightarrow> ical \<Rightarrow> (nat \<times> ical) option" where
  "icalproperty_vanew_relatedto = new_string ICAL_RELATEDTO_PROPERTY icalvalue_new_text"

definition icalproperty_new_relatedto :: "string option \<Rightarrow> ical \<Rightarrow> (nat \<times> ical) option" where
  "icalproperty_new_relatedto v = new_string ICAL_RELATEDTO_PROPERTY icalvalue_new_text v []"

definition icalproperty_set_relatedto :: "nat \<Rightarrow> string option \<Rightarrow> ical \<Rightarrow> ical option" where
  "icalproperty_set_relatedto = set_string icalvalue_new_text"

definition icalproperty_get_relatedto :: "nat \<Rightarrow> ical \<Rightarrow> (string option \<times> ical) option" where
  "icalproperty_get_relatedto = get_member icalvalue_get_text (Some None)"

definition icalproperty_vanew_relcalid :: "string option \<Rightarrow> nat list \<Rightarrow> ical \<Rightarrow> (nat \<times> ical) option" where
  "icalproperty_vanew_relcalid = new_string ICAL_RELCALID_PROPERTY icalvalue_new_text"

definition icalproperty_new_relcalid :: "string option \<Rightarrow> ical \<Rightarrow> (nat \<times> ical) option" where
  "icalproperty_new_relcalid v = new_string ICAL_RELCALID_PROPERTY icalvalue_new_text v []"

definition icalproperty_set_relcalid :: "nat \<Rightarrow> string option \<Rightarrow> ical \<Rightarrow> ical option" where
  "icalproperty_set_relcalid = set_string icalvalue_new_text"

definition icalproperty_get_relcalid :: "nat \<Rightarrow> ical \<Rightarrow> (string option \<times> ical) option" where
  "icalproperty_get_relcalid = get_member icalvalue_get_text (Some None)"

definition icalproperty_vanew_repeat :: "int \<Rightarrow> nat list \<Rightarrow> ical \<Rightarrow> (nat \<times> ical) option" where
  "icalproperty_vanew_repeat v = new_member ICAL_REPEAT_PROPERTY (plainly (icalvalue_new_integer v))"

definition icalproperty_new_repeat :: "int \<Rightarrow> ical \<Rightarrow> (nat \<times> ical) option" where
  "icalproperty_new_repeat v = new_member ICAL_REPEAT_PROPERTY (plainly (icalvalue_new_integer v)) []"

definition icalproperty_set_repeat :: "nat \<Rightarrow> int \<Rightarrow> ical \<Rightarrow> ical option" where
  "icalproperty_set_repeat p v = set_member (plainly (icalvalue_new_integer v)) p"

definition icalproperty_get_repeat :: "nat \<Rightarrow> ical \<Rightarrow> (int \<times> ical) option" where
  "icalproperty_get_repeat = get_member icalvalue_get_integer None"

definition icalproperty_vanew_requeststatus :: "icalreqstattype \<Rightarrow> nat list \<Rightarrow> ical \<Rightarrow> (nat \<times> ical) option" where
  "icalproperty_vanew_requeststatus v = new_member ICAL_REQUESTSTATUS_PROPERTY (plainly (icalvalue_new_requeststatus v))"

definition icalproperty_new_requeststatus :: "icalreqstattype \<Rightarrow> ical \<Rightarrow> (nat \<times> ical) option" where
  "icalproperty_new_requeststatus v = new_member ICAL_REQUESTSTATUS_PROPERTY (plainly (icalvalue_new_requeststatus v)) []"

definition icalproperty_set_requeststatus :: "nat \<Rightarrow> icalreqstattype \<Rightarrow> ical \<Rightarrow> ical option" where
  "icalproperty_set_requeststatus p v = set_member (plainly (icalvalue_new_requeststatus v)) p"

definition icalproperty_get_requeststatus :: "nat \<Rightarrow> ical \<Rightarrow> (icalreqstattype \<times> ical) option" where
  "icalproperty_get_requeststatus = get_member icalvalue_get_requeststatus None"

definition icalproperty_vanew_resources :: "string option \<Rightarrow> nat list \<Rightarrow> ical \<Rightarrow> (nat \<times> ical) option" where
  "icalproperty_vanew_resources = new_string ICAL_RESOURCES_PROPERTY icalvalue_new_text"

definition icalproperty_new_resources :: "string option \<Rightarrow> ical \<Rightarrow> (nat \<times> ical) option" where
  "icalproperty_new_resources v = new_string ICAL_RESOURCES_PROPERTY icalvalue_new_text v []"

definition icalproperty_set_resources :: "nat \<Rightarrow> string option \<Rightarrow> ical \<Rightarrow> ical option" where
  "icalproperty_set_resources = set_string icalvalue_new_text"

definition icalproperty_get_resources :: "nat \<Rightarrow> ical \<Rightarrow> (string option \<times> ical) option" where
  "icalproperty_get_resources = get_member icalvalue_get_text (Some None)"

definition icalproperty_vanew_restriction :: "string option \<Rightarrow> nat list \<Rightarrow> ical \<Rightarrow> (nat \<times> ical) option" where
  "icalproperty_vanew_restriction = new_string ICAL_RESTRICTION_PROPERTY icalvalue_new_query"

definition icalproperty_new_restriction :: "string option \<Rightarrow> ical \<Rightarrow> (nat \<times> ical) option" where
  "icalproperty_new_restriction v = new_string ICAL_RESTRICTION_PROPERTY icalvalue_new_query v []"

definition icalproperty_set_restriction :: "nat \<Rightarrow> string option \<Rightarrow> ical \<Rightarrow> ical option" where
  "icalproperty_set_restriction = set_string icalvalue_new_query"

definition icalproperty_get_restriction :: "nat \<Rightarrow> ical \<Rightarrow> (string option \<times> ical) option" where
  "icalproperty_get_restriction = get_member icalvalue_get_query (Some None)"

definition icalproperty_vanew_rrule :: "icalrecurrencetype \<Rightarrow> nat list \<Rightarrow> ical \<Rightarrow> (nat \<times> ical) option" where
  "icalproperty_vanew_rrule v = new_member ICAL_RRULE_PROPERTY (plainly (icalvalue_new_recur v))"

definition icalproperty_new_rrule :: "icalrecurrencetype \<Rightarrow> ical \<Rightarrow> (nat \<times> ical) option" where
  "icalproperty_new_rrule v = new_member ICAL_RRULE_PROPERTY (plainly (icalvalue_new_recur v)) []"

definition icalproperty_set_rrule :: "nat \<Rightarrow> icalrecurrencetype \<Rightarrow> ical \<Rightarrow> ical option" where
  "icalproperty_set_rrule p v = set_member (plainly (icalvalue_new_recur v)) p"

definition icalproperty_get_rrule :: "nat \<Rightarrow> ical \<Rightarrow> (icalrecurrencetype \<times> ical) option" where
  "icalproperty_get_rrule = get_member icalvalue_get_recur (Some icalrecurrencetype_clear)"

definition icalproperty_vanew_scope :: "string option \<Rightarrow> nat list \<Rightarrow> ical \<Rightarrow> (nat \<times> ical) option" where
  "icalproperty_vanew_scope = new_string ICAL_SCOPE_PROPERTY icalvalue_new_text"

definition icalproperty_new_scope :: "string option \<Rightarrow> ical \<Rightarrow> (nat \<times> ical) option" where
  "icalproperty_new_scope v = new_string ICAL_SCOPE_PROPERTY icalvalue_new_text v []"

definition icalproperty_set_scope :: "nat \<Rightarrow> string option \<Rightarrow> ical \<Rightarrow> ical option" where
  "icalproperty_set_scope = set_string icalvalue_new_text"

definition icalproperty_get_scope :: "nat \<Rightarrow> ical \<Rightarrow> (string option \<times> ical) option" where
  "icalproperty_get_scope = get_member icalvalue_get_text (Some None)"

definition icalproperty_vanew_sequence :: "int \<Rightarrow> nat list \<Rightarrow> ical \<Rightarrow> (nat \<times> ical) option" where
  "icalproperty_vanew_sequence v = new_member ICAL_SEQUENCE_PROPERTY (plainly (icalvalue_new_integer v))"

definition icalproperty_new_sequence :: "int \<Rightarrow> ical \<Rightarrow> (nat \<times> ical) option" where
  "icalproperty_new_sequence v = new_member ICAL_SEQUENCE_PROPERTY (plainly (icalvalue_new_integer v)) []"

definition icalproperty_set_sequence :: "nat \<Rightarrow> int \<Rightarrow> ical \<Rightarrow> ical option" where
  "icalproperty_set_sequence p v = set_member (plainly (icalvalue_new_integer v)) p"

definition icalproperty_get_sequence :: "nat \<Rightarrow> ical \<Rightarrow> (int \<times> ical) option" where
  "icalproperty_get_sequence = get_member icalvalue_get_integer None"

definition icalproperty_vanew_status :: "int \<Rightarrow> nat list \<Rightarrow> ical \<Rightarrow> (nat \<times> ical) option" where
  "icalproperty_vanew_status v = new_member ICAL_STATUS_PROPERTY (plainly (icalvalue_new_status v))"

definition icalproperty_new_status :: "int \<Rightarrow> ical \<Rightarrow> (nat \<times> ical) option" where
  "icalproperty_new_status v = new_member ICAL_STATUS_PROPERTY (plainly (icalvalue_new_status v)) []"

definition icalproperty_set_status :: "nat \<Rightarrow> int \<Rightarrow> ical \<Rightarrow> ical option" where
  "icalproperty_set_status p v = set_member (plainly (icalvalue_new_status v)) p"

definition icalproperty_get_status :: "nat \<Rightarrow> ical \<Rightarrow> (int \<times> ical) option" where
  "icalproperty_get_status = get_member icalvalue_get_status None"

definition icalproperty_vanew_storesexpanded :: "string option \<Rightarrow> nat list \<Rightarrow> ical \<Rightarrow> (nat \<times> ical) option" where
  "icalproperty_vanew_storesexpanded = new_string ICAL_STORESEXPANDED_PROPERTY icalvalue_new_text"

definition icalproperty_new_storesexpanded :: "string option \<Rightarrow> ical \<Rightarrow> (nat \<times> ical) option" where
  "icalproperty_new_storesexpanded v = new_string ICAL_STORESEXPANDED_PROPERTY icalvalue_new_text v []"

definition icalproperty_set_storesexpanded :: "nat \<Rightarrow> string option \<Rightarrow> ical \<Rightarrow> ical option" where
  "icalproperty_set_storesexpanded = set_string icalvalue_new_text"

definition icalproperty_get_storesexpanded :: "nat \<Rightarrow> ical \<Rightarrow> (string option \<times> ical) option" where
  "icalproperty_get_storesexpanded = get_member icalvalue_get_text (Some None)"

definition icalproperty_vanew_summary :: "string option \<Rightarrow> nat list \<Rightarrow> ical \<Rightarrow> (nat \<times> ical) option" where
  "icalproperty_vanew_summary = new_string ICAL_SUMMARY_PROPERTY icalvalue_new_text"

definition icalproperty_new_summary :: "string option \<Rightarrow> ical \<Rightarrow> (nat \<times> ical) option" where
  "icalproperty_new_summary v = new_string ICAL_SUMMARY_PROPERTY icalvalue_new_text v []"

definition icalproperty_set_summary :: "nat \<Rightarrow> string option \<Rightarrow> ical \<Rightarrow> ical option" where
  "icalproperty_set_summary = set_string icalvalue_new_text"

definition icalproperty_get_summary :: "nat \<Rightarrow> ical \<Rightarrow> (string option \<times> ical) option" where
  "icalproperty_get_summary = get_member icalvalue_get_text (Some None)"

definition icalproperty_vanew_target :: "string option \<Rightarrow> nat list \<Rightarrow> ical \<Rightarrow> (nat \<times> ical) option" where
  "icalproperty_vanew_target = new_string ICAL_TARGET_PROPERTY icalvalue_new_caladdress"

definition icalproperty_new_target :: "string option \<Rightarrow> ical \<Rightarrow> (nat \<times> ical) option" where
  "icalproperty_new_target v = new_string ICAL_TARGET_PROPERTY icalvalue_new_caladdress v []"

definition icalproperty_set_target :: "nat \<Rightarrow> string option \<Rightarrow> ical \<Rightarrow> ical option" where
  "icalproperty_set_target = set_string icalvalue_new_caladdress"

definition icalproperty_get_target :: "nat \<Rightarrow> ical \<Rightarrow> (string option \<times> ical) option" where
  "icalproperty_get_target = get_member icalvalue_get_caladdress (Some None)"

definition icalproperty_vanew_transp :: "int \<Rightarrow> nat list \<Rightarrow> ical \<Rightarrow> (nat \<times> ical) option" where
  "icalproperty_vanew_transp v = new_member ICAL_TRANSP_PROPERTY (plainly (icalvalue_new_transp v))"

definition icalproperty_new_transp :: "int \<Rightarrow> ical \<Rightarrow> (nat \<times> ical) option" where
  "icalproperty_new_transp v = new_member ICAL_TRANSP_PROPERTY (plainly (icalvalue_new_transp v)) []"

definition icalproperty_set_transp :: "nat \<Rightarrow> int \<Rightarrow> ical \<Rightarrow> ical option" where
  "icalproperty_set_transp p v = set_member (plainly (icalvalue_new_transp v)) p"

definition icalproperty_get_transp :: "nat \<Rightarrow> ical \<Rightarrow> (int \<times> ical) option" where
  "icalproperty_get_transp = get_member icalvalue_get_transp None"

definition icalproperty_vanew_trigger :: "icaltriggertype \<Rightarrow> nat list \<Rightarrow> ical \<Rightarrow> (nat \<times> ical) option" where
  "icalproperty_vanew_trigger v = new_member ICAL_TRIGGER_PROPERTY (plainly (icalvalue_new_trigger v))"

definition icalproperty_new_trigger :: "icaltriggertype \<Rightarrow> ical \<Rightarrow> (nat \<times> ical) option" where
  "icalproperty_new_trigger v = new_member ICAL_TRIGGER_PROPERTY (plainly (icalvalue_new_trigger v)) []"

definition icalproperty_set_trigger :: "nat \<Rightarrow> icaltriggertype \<Rightarrow> ical \<Rightarrow> ical option" where
  "icalproperty_set_trigger p v = set_member (plainly (icalvalue_new_trigger v)) p"

definition icalproperty_get_trigger :: "nat \<Rightarrow> ical \<Rightarrow> (icaltriggertype \<times> ical) option" where
  "icalproperty_get_trigger = get_member_e icalvalue_get_trigger (Some null_trigger)"

definition icalproperty_vanew_tzid :: "string option \<Rightarrow> nat list \<Rightarrow> ical \<Rightarrow> (nat \<times> ical) option" where
  "icalproperty_vanew_tzid = new_string ICAL_TZID_PROPERTY icalvalue_new_text"

definition icalproperty_new_tzid :: "string option \<Rightarrow> ical \<Rightarrow> (nat \<times> ical) option" where
  "icalproperty_new_tzid v = new_string ICAL_TZID_PROPERTY icalvalue_new_text v []"

definition icalproperty_set_tzid :: "nat \<Rightarrow> string option \<Rightarrow> ical \<Rightarrow> ical option" where
  "icalproperty_set_tzid = set_string icalvalue_new_text"

definition icalproperty_get_tzid :: "nat \<Rightarrow> ical \<Rightarrow> (string option \<times> ical) option" where
  "icalproperty_get_tzid = get_member icalvalue_get_text (Some None)"

definition icalproperty_vanew_tzname :: "string option \<Rightarrow> nat list \<Rightarrow> ical \<Rightarrow> (nat \<times> ical) option" where
  "icalproperty_vanew_tzname = new_string ICAL_TZNAME_PROPERTY icalvalue_new_text"

definition icalproperty_new_tzname :: "string option \<Rightarrow> ical \<Rightarrow> (nat \<times> ical) option" where
  "icalproperty_new_tzname v = new_string ICAL_TZNAME_PROPERTY icalvalue_new_text v []"

definition icalproperty_set_tzname :: "nat \<Rightarrow> string option \<Rightarrow> ical \<Rightarrow> ical option" where
  "icalproperty_set_tzname = set_string icalvalue_new_text"

definition icalproperty_get_tzname :: "nat \<Rightarrow> ical \<Rightarrow> (string option \<times> ical) option" where
  "icalproperty_get_tzname = get_member icalvalue_get_text (Some None)"

definition icalproperty_vanew_tzoffsetfrom :: "int \<Rightarrow> nat list \<Rightarrow> ical \<Rightarrow> (nat \<times> ical) option" where
  "icalproperty_vanew_tzoffsetfrom v = new_member ICAL_TZOFFSETFROM_PROPERTY (plainly (icalvalue_new_utcoffset v))"

definition icalproperty_new_tzoffsetfrom :: "int \<Rightarrow> ical \<Rightarrow> (nat \<times> ical) option" where
  "icalproperty_new_tzoffsetfrom v = new_member ICAL_TZOFFSETFROM_PROPERTY (plainly (icalvalue_new_utcoffset v)) []"

definition icalproperty_set_tzoffsetfrom :: "nat \<Rightarrow> int \<Rightarrow> ical \<Rightarrow> ical option" where
  "icalproperty_set_tzoffsetfrom p v = set_member (plainly (icalvalue_new_utcoffset v)) p"

definition icalproperty_get_tzoffsetfrom :: "nat \<Rightarrow> ical \<Rightarrow> (int \<times> ical) option" where
  "icalproperty_get_tzoffsetfrom = get_member icalvalue_get_utcoffset None"

definition icalproperty_vanew_tzoffsetto :: "int \<Rightarrow> nat list \<Rightarrow> ical \<Rightarrow> (nat \<times> ical) option" where
  "icalproperty_vanew_tzoffsetto v = new_member ICAL_TZOFFSETTO_PROPERTY (plainly (icalvalue_new_utcoffset v))"

definition icalproperty_new_tzoffsetto :: "int \<Rightarrow> ical \<Rightarrow> (nat \<times> ical) option" where
  "icalproperty_new_tzoffsetto v = new_member ICAL_TZOFFSETTO_PROPERTY (plainly (icalvalue_new_utcoffset v)) []"

definition icalproperty_set_tzoffsetto :: "nat \<Rightarrow> int \<Rightarrow> ical \<Rightarrow> ical option" where
  "icalproperty_set_tzoffsetto p v = set_member (plainly (icalvalue_new_utcoffset v)) p"

definition icalproperty_get_tzoffsetto :: "nat \<Rightarrow> ical \<Rightarrow> (int \<times> ical) option" where
  "icalproperty_get_tzoffsetto = get_member icalvalue_get_utcoffset None"

definition icalproperty_vanew_tzurl :: "string option \<Rightarrow> nat list \<Rightarrow> ical \<Rightarrow> (nat \<times> ical) option" where
  "icalproperty_vanew_tzurl = new_string ICAL_TZURL_PROPERTY icalvalue_new_uri"

definition icalproperty_new_tzurl :: "string option \<Rightarrow> ical \<Rightarrow> (nat \<times> ical) option" where
  "icalproperty_new_tzurl v = new_string ICAL_TZURL_PROPERTY icalvalue_new_uri v []"

definition icalproperty_set_tzurl :: "nat \<Rightarrow> string option \<Rightarrow> ical \<Rightarrow> ical option" where
  "icalproperty_set_tzurl = set_string icalvalue_new_uri"

definition icalproperty_get_tzurl :: "nat \<Rightarrow> ical \<Rightarrow> (string option \<times> ical) option" where
  "icalproperty_get_tzurl = get_member icalvalue_get_uri (Some None)"

definition icalproperty_vanew_uid :: "string option \<Rightarrow> nat list \<Rightarrow> ical \<Rightarrow> (nat \<times> ical) option" where
  "icalproperty_vanew_uid = new_string ICAL_UID_PROPERTY icalvalue_new_text"

definition icalproperty_new_uid :: "string option \<Rightarrow> ical \<Rightarrow> (nat \<times> ical) option" where
  "icalproperty_new_uid v = new_string ICAL_UID_PROPERTY icalvalue_new_text v []"

definition icalproperty_set_uid :: "nat \<Rightarrow> string option \<Rightarrow> ical \<Rightarrow> ical option" where
  "icalproperty_set_uid = set_string icalvalue_new_text"

definition icalproperty_get_uid :: "nat \<Rightarrow> ical \<Rightarrow> (string option \<times> ical) option" where
  "icalproperty_get_uid = get_member icalvalue_get_text (Some None)"

definition icalproperty_vanew_url :: "string option \<Rightarrow> nat list \<Rightarrow> ical \<Rightarrow> (nat \<times> ical) option" where
  "icalproperty_vanew_url = new_string ICAL_URL_PROPERTY icalvalue_new_uri"

definition icalproperty_new_url :: "string option \<Rightarrow> ical \<Rightarrow> (nat \<times> ical) option" where
  "icalproperty_new_url v = new_string ICAL_URL_PROPERTY icalvalue_new_uri v []"

definition icalproperty_set_url :: "nat \<Rightarrow> string option \<Rightarrow> ical \<Rightarrow> ical option" where
  "icalproperty_set_url = set_string icalvalue_new_uri"

definition icalproperty_get_url :: "nat \<Rightarrow> ical \<Rightarrow> (string option \<times> ical) option" where
  "icalproperty_get_url = get_member icalvalue_get_uri (Some None)"

definition icalproperty_vanew_version :: "string option \<Rightarrow> nat list \<Rightarrow> ical \<Rightarrow> (nat \<times> ical) option" where
  "icalproperty_vanew_version = new_string ICAL_VERSION_PROPERTY icalvalue_new_text"

definition icalproperty_new_version :: "string option \<Rightarrow> ical \<Rightarrow> (nat \<times> ical) option" where
  "icalproperty_new_version v = new_string ICAL_VERSION_PROPERTY icalvalue_new_text v []"

definition icalproperty_set_version :: "nat \<Rightarrow> string option \<Rightarrow> ical \<Rightarrow> ical option" where
  "icalproperty_set_version = set_string icalvalue_new_text"

definition icalproperty_get_version :: "nat \<Rightarrow> ical \<Rightarrow> (string option \<times> ical) option" where
  "icalproperty_get_version = get_member icalvalue_get_text (Some None)"

definition icalproperty_vanew_x :: "string option \<Rightarrow> nat list \<Rightarrow> ical \<Rightarrow> (nat \<times> ical) option" where
  "icalproperty_vanew_x = new_string ICAL_X_PROPERTY icalvalue_new_x"

definition icalproperty_new_x :: "string option \<Rightarrow> ical \<Rightarrow> (nat \<times> ical) option" where
  "icalproperty_new_x v = new_string ICAL_X_PROPERTY icalvalue_new_x v []"

definition icalproperty_set_x :: "nat \<Rightarrow> string option \<Rightarrow> ical \<Rightarrow> ical option" where
  "icalproperty_set_x = set_string icalvalue_new_x"

definition icalproperty_get_x :: "nat \<Rightarrow> ical \<Rightarrow> (string option \<times> ical) option" where
  "icalproperty_get_x = get_member (\<lambda>v. Some (icalvalue_get_x v)) (Some None)"

definition icalproperty_vanew_xlicclass :: "int \<Rightarrow> nat list \<Rightarrow> ical \<Rightarrow> (nat \<times> ical) option" where
  "icalproperty_vanew_xlicclass v = new_member ICAL_XLICCLASS_PROPERTY (plainly (icalvalue_new_xlicclass v))"

definition icalproperty_new_xlicclass :: "int \<Rightarrow> ical \<Rightarrow> (nat \<times> ical) option" where
  "icalproperty_new_xlicclass v = new_member ICAL_XLICCLASS_PROPERTY (plainly (icalvalue_new_xlicclass v)) []"

definition icalproperty_set_xlicclass :: "nat \<Rightarrow> int \<Rightarrow> ical \<Rightarrow> ical option" where
  "icalproperty_set_xlicclass p v = set_member (plainly (icalvalue_new_xlicclass v)) p"

definition icalproperty_get_xlicclass :: "nat \<Rightarrow> ical \<Rightarrow> (int \<times> ical) option" where
  "icalproperty_get_xlicclass = get_member icalvalue_get_xlicclass None"

definition icalproperty_vanew_xlicclustercount :: "string option \<Rightarrow> nat list \<Rightarrow> ical \<Rightarrow> (nat \<times> ical) option" where
  "icalproperty_vanew_xlicclustercount = new_string ICAL_XLICCLUSTERCOUNT_PROPERTY icalvalue_new_string"

definition icalproperty_new_xlicclustercount :: "string option \<Rightarrow> ical \<Rightarrow> (nat \<times> ical) option" where
  "icalproperty_new_xlicclustercount v = new_string ICAL_XLICCLUSTERCOUNT_PROPERTY icalvalue_new_string v []"

definition icalproperty_set_xlicclustercount :: "nat \<Rightarrow> string option \<Rightarrow> ical \<Rightarrow> ical option" where
  "icalproperty_set_xlicclustercount = set_string icalvalue_new_string"

definition icalproperty_get_xlicclustercount :: "nat \<Rightarrow> ical \<Rightarrow> (string option \<times> ical) option" where
  "icalproperty_get_xlicclustercount = get_member icalvalue_get_string (Some None)"

definition icalproperty_vanew_xlicerror :: "string option \<Rightarrow> nat list \<Rightarrow> ical \<Rightarrow> (nat \<times> ical) option" where
  "icalproperty_vanew_xlicerror = new_string ICAL_XLICERROR_PROPERTY icalvalue_new_text"

definition icalproperty_new_xlicerror :: "string option \<Rightarrow> ical \<Rightarrow> (nat \<times> ical) option" where
  "icalproperty_new_xlicerror v = new_string ICAL_XLICERROR_PROPERTY icalvalue_new_text v []"

definition icalproperty_set_xlicerror :: "nat \<Rightarrow> string option \<Rightarrow> ical \<Rightarrow> ical option" where
  "icalproperty_set_xlicerror = set_string icalvalue_new_text"

definition icalproperty_get_xlicerror :: "nat \<Rightarrow> ical \<Rightarrow> (string option \<times> ical) option" where
  "icalproperty_get_xlicerror = get_member icalvalue_get_text (Some None)"

definition icalproperty_vanew_xlicmimecharset :: "string option \<Rightarrow> nat list \<Rightarrow> ical \<Rightarrow> (nat \<times> ical) option" where
  "icalproperty_vanew_xlicmimecharset = new_string ICAL_XLICMIMECHARSET_PROPERTY icalvalue_new_string"

definition icalproperty_new_xlicmimecharset :: "string option \<Rightarrow> ical \<Rightarrow> (nat \<times> ical) option" where
  "icalproperty_new_xlicmimecharset v = new_string ICAL_XLICMIMECHARSET_PROPERTY icalvalue_new_string v []"

definition icalproperty_set_xlicmimecharset :: "nat \<Rightarrow> string option \<Rightarrow> ical \<Rightarrow> ical option" where
  "icalproperty_set_xlicmimecharset = set_string icalvalue_new_string"

definition icalproperty_get_xlicmimecharset :: "nat \<Rightarrow> ical \<Rightarrow> (string option \<times> ical) option" where
  "icalproperty_get_xlicmimecharset = get_member icalvalue_get_string (Some None)"

definition icalproperty_vanew_xlicmimecid :: "string option \<Rightarrow> nat list \<Rightarrow> ical \<Rightarrow> (nat \<times> ical) option" where
  "icalproperty_vanew_xlicmimecid = new_string ICAL_XLICMIMECID_PROPERTY icalvalue_new_string"

definition icalproperty_new_xlicmimecid :: "string option \<Rightarrow> ical \<Rightarrow> (nat \<times> ical) option" where
  "icalproperty_new_xlicmimecid v = new_string ICAL_XLICMIMECID_PROPERTY icalvalue_new_string v []"

definition icalproperty_set_xlicmimecid :: "nat \<Rightarrow> string option \<Rightarrow> ical \<Rightarrow> ical option" where
  "icalproperty_set_xlicmimecid = set_string icalvalue_new_string"

definition icalproperty_get_xlicmimecid :: "nat \<Rightarrow> ical \<Rightarrow> (string option \<times> ical) option" where
  "icalproperty_get_xlicmimecid = get_member icalvalue_get_string (Some None)"

definition icalproperty_vanew_xlicmimecontenttype :: "string option \<Rightarrow> nat list \<Rightarrow> ical \<Rightarrow> (nat \<times> ical) option" where
  "icalproperty_vanew_xlicmimecontenttype = new_string ICAL_XLICMIMECONTENTTYPE_PROPERTY icalvalue_new_string"

definition icalproperty_new_xlicmimecontenttype :: "string option \<Rightarrow> ical \<Rightarrow> (nat \<times> ical) option" where
  "icalproperty_new_xlicmimecontenttype v = new_string ICAL_XLICMIMECONTENTTYPE_PROPERTY icalvalue_new_string v []"

definition icalproperty_set_xlicmimecontenttype :: "nat \<Rightarrow> string option \<Rightarrow> ical \<Rightarrow> ical option" where
  "icalproperty_set_xlicmimecontenttype = set_string icalvalue_new_string"

definition icalproperty_get_xlicmimecontenttype :: "nat \<Rightarrow> ical \<Rightarrow> (string option \<times> ical) option" where
  "icalproperty_get_xlicmimecontenttype = get_member icalvalue_get_string (Some None)"

definition icalproperty_vanew_xlicmimeencoding :: "string option \<Rightarrow> nat list \<Rightarrow> ical \<Rightarrow> (nat \<times> ical) option" where
  "icalproperty_vanew_xlicmimeencoding = new_string ICAL_XLICMIMEENCODING_PROPERTY icalvalue_new_string"

definition icalproperty_new_xlicmimeencoding :: "string option \<Rightarrow> ical \<Rightarrow> (nat \<times> ical) option" where
  "icalproperty_new_xlicmimeencoding v = new_string ICAL_XLICMIMEENCODING_PROPERTY icalvalue_new_string v []"

definition icalproperty_set_xlicmimeencoding :: "nat \<Rightarrow> string option \<Rightarrow> ical \<Rightarrow> ical option" where
  "icalproperty_set_xlicmimeencoding = set_string icalvalue_new_string"

definition icalproperty_get_xlicmimeencoding :: "nat \<Rightarrow> ical \<Rightarrow> (string option \<times> ical) option" where
  "icalproperty_get_xlicmimeencoding = get_member icalvalue_get_string (Some None)"

definition icalproperty_vanew_xlicmimefilename :: "string option \<Rightarrow> nat list \<Rightarrow> ical \<Rightarrow> (nat \<times> ical) option" where
  "icalproperty_vanew_xlicmimefilename = new_string ICAL_XLICMIMEFILENAME_PROPERTY icalvalue_new_string"

definition icalproperty_new_xlicmimefilename :: "string option \<Rightarrow> ical \<Rightarrow> (nat \<times> ical) option" where
  "icalproperty_new_xlicmimefilename v = new_string ICAL_XLICMIMEFILENAME_PROPERTY icalvalue_new_string v []"

definition icalproperty_set_xlicmimefilename :: "nat \<Rightarrow> string option \<Rightarrow> ical \<Rightarrow> ical option" where
  "icalproperty_set_xlicmimefilename = set_string icalvalue_new_string"

definition icalproperty_get_xlicmimefilename :: "nat \<Rightarrow> ical \<Rightarrow> (string option \<times> ical) option" where
  "icalproperty_get_xlicmimefilename = get_member icalvalue_get_string (Some None)"

definition icalproperty_vanew_xlicmimeoptinfo :: "string option \<Rightarrow> nat list \<Rightarrow> ical \<Rightarrow> (nat \<times> ical) option" where
  "icalproperty_vanew_xlicmimeoptinfo = new_string ICAL_XLICMIMEOPTINFO_PROPERTY icalvalue_new_string"

definition icalproperty_new_xlicmimeoptinfo :: "string option \<Rightarrow> ical \<Rightarrow> (nat \<times> ical) option" where
  "icalproperty_new_xlicmimeoptinfo v = new_string ICAL_XLICMIMEOPTINFO_PROPERTY icalvalue_new_string v []"

definition icalproperty_set_xlicmimeoptinfo :: "nat \<Rightarrow> string option \<Rightarrow> ical \<Rightarrow> ical option" where
  "icalproperty_set_xlicmimeoptinfo = set_string icalvalue_new_string"

definition icalproperty_get_xlicmimeoptinfo :: "nat \<Rightarrow> ical \<Rightarrow> (string option \<times> ical) option" where
  "icalproperty_get_xlicmimeoptinfo = get_member icalvalue_get_string (Some None)"

end
