(* ===== verification/IcalComponent.thy ===== *)
theory IcalComponent
  imports PropAccess
begin

text \<open>
  Components, \<^verbatim>\<open>icalcomponent.c\<close>: objects with a list of properties, a list of components and
  an iterator over each. A component knows its parent, and a calendar keeps an array of the time
  zones among its components, which \<^verbatim>\<open>icaltimezone.c\<close> fills. The recursive routines have fuel, the
  number of objects ever made, which the depth of a tree does not exceed; a cycle of components
  is the result \<open>None\<close>.
\<close>

section \<open>Creation\<close>

definition icalcomponent_new_impl :: "icalcomponent_kind \<Rightarrow> ical \<Rightarrow> nat \<times> ical" where
  "icalcomponent_new_impl kind st =
     (if \<not> icalcomponent_kind_is_valid kind then (0, st)
      else new_obj (Comp \<lparr>co_kind = kind, co_x_name = None, co_properties = new_plist, co_property_iterator = 0,
                      co_components = new_plist, co_component_iterator = 0, co_parent = 0, co_timezones = None,
                      co_timezones_sorted = 1\<rparr>) st)"

definition icalcomponent_new :: "icalcomponent_kind \<Rightarrow> ical \<Rightarrow> nat \<times> ical" where
  "icalcomponent_new = icalcomponent_new_impl"

definition icalcomponent_new_x :: "string \<Rightarrow> ical \<Rightarrow> (nat \<times> ical) option" where
  "icalcomponent_new_x x_name st =
     (let (c, st1) = icalcomponent_new_impl ICAL_X_COMPONENT st
      in if c = 0 then Some (0, st1)
         else map_option (\<lambda>st2. (c, st2)) (set_comp c (\<lambda>r. r\<lparr>co_x_name := Some x_name\<rparr>) st1))"

definition icalcomponent_isa :: "nat \<Rightarrow> ical \<Rightarrow> (icalcomponent_kind \<times> ical) option" where
  "icalcomponent_isa c st =
     (if c = 0 then bad_arg ICAL_NO_COMPONENT st else map_option (\<lambda>r. (co_kind r, st)) (comp_at c st))"

definition icalcomponent_isa_component :: "nat \<Rightarrow> ical \<Rightarrow> (bool \<times> ical) option" where
  "icalcomponent_isa_component c st =
     (if c = 0 then bad_arg False st
      else map_option (\<lambda>x. (case x of Comp _ \<Rightarrow> True | _ \<Rightarrow> False, st)) (i_objs st c))"

definition icalcomponent_is_valid :: "nat \<Rightarrow> ical \<Rightarrow> bool option" where
  "icalcomponent_is_valid c st =
     map_option (\<lambda>x. case x of Comp r \<Rightarrow> co_kind r \<noteq> ICAL_NO_COMPONENT | _ \<Rightarrow> False) (i_objs st c)"

definition icalcomponent_get_parent :: "nat \<Rightarrow> ical \<Rightarrow> nat option" where
  "icalcomponent_get_parent c st = map_option co_parent (comp_at c st)"

definition icalcomponent_set_parent :: "nat \<Rightarrow> nat \<Rightarrow> ical \<Rightarrow> ical option" where
  "icalcomponent_set_parent c parent = set_comp c (\<lambda>r. r\<lparr>co_parent := parent\<rparr>)"

section \<open>Properties\<close>

text \<open>A property that has a parent already is an assertion that fails.\<close>

definition icalcomponent_add_property :: "nat \<Rightarrow> nat \<Rightarrow> ical \<Rightarrow> ical option" where
  "icalcomponent_add_property c p st =
     (if c = 0 \<or> p = 0 then bad_arg_v st
      else do {
        (q, st0) \<leftarrow> icalproperty_get_parent p st;
        st1 \<leftarrow> (if q \<noteq> 0 then None else icalproperty_set_parent p c st0);
        r \<leftarrow> comp_at c st1;
        L \<leftarrow> push_elem p (co_properties r);
        set_comp c (\<lambda>r. r\<lparr>co_properties := L\<rparr>) st1 })"

fun unlink_property :: "nat \<Rightarrow> nat \<Rightarrow> nat \<Rightarrow> nat \<Rightarrow> ical \<Rightarrow> ical option" where
  "unlink_property 0 c p e st = None"
| "unlink_property (Suc n) c p e st =
     (if e = 0 then Some st
      else do {
        r \<leftarrow> comp_at c st;
        nxt \<leftarrow> pvl_next e (snd (co_properties r));
        x \<leftarrow> elem_data e (co_properties r);
        st1 \<leftarrow> (if x = p then do {
                  L \<leftarrow> remove_elem e (co_properties r);
                  st' \<leftarrow> set_comp c (\<lambda>r. r\<lparr>co_property_iterator :=
                            (if co_property_iterator r = e then nxt else co_property_iterator r),
                            co_properties := L\<rparr>) st;
                  icalproperty_set_parent p 0 st' }
                else Some st);
        unlink_property n c p nxt st1 })"

definition icalcomponent_remove_property :: "nat \<Rightarrow> nat \<Rightarrow> ical \<Rightarrow> ical option" where
  "icalcomponent_remove_property c p st =
     (if c = 0 \<or> p = 0 then bad_arg_v st
      else do {
        (q, st1) \<leftarrow> icalproperty_get_parent p st;
        r \<leftarrow> comp_at c st1;
        if q = 0 then None
        else unlink_property (fresh (snd (co_properties r))) c p (pvl_head (fst (co_properties r))) st1 })"

text \<open>How many items from an element on satisfy the test.\<close>

fun count_from :: "nat \<Rightarrow> (nat \<Rightarrow> bool option) \<Rightarrow> nat \<Rightarrow> nat pvl_heap \<Rightarrow> int option" where
  "count_from 0 P e h = None"
| "count_from (Suc n) P e h =
     (if e = 0 then Some 0
      else do {
        x \<leftarrow> cells h e;
        b \<leftarrow> P (e_data x);
        k \<leftarrow> count_from n P (e_next x) h;
        Some (k + (if b then 1 else 0)) })"

definition prop_kind_is :: "icalproperty_kind \<Rightarrow> ical \<Rightarrow> nat \<Rightarrow> bool option" where
  "prop_kind_is kind st p = map_option (\<lambda>k. k = kind \<or> kind = ICAL_ANY_PROPERTY) (icalproperty_isa p st)"

definition icalcomponent_count_properties :: "nat \<Rightarrow> icalproperty_kind \<Rightarrow> ical \<Rightarrow> (int \<times> ical) option" where
  "icalcomponent_count_properties c kind st =
     (if c = 0 then bad_arg 0 st
      else do {
        r \<leftarrow> comp_at c st;
        k \<leftarrow> count_from (fresh (snd (co_properties r))) (prop_kind_is kind st)
               (pvl_head (fst (co_properties r))) (snd (co_properties r));
        Some (k, st) })"

definition icalcomponent_get_current_property :: "nat \<Rightarrow> ical \<Rightarrow> (nat \<times> ical) option" where
  "icalcomponent_get_current_property c st =
     (if c = 0 then bad_arg 0 st
      else do {
        r \<leftarrow> comp_at c st;
        p \<leftarrow> elem_data (co_property_iterator r) (co_properties r);
        Some (p, st) })"

definition seek_property :: "nat \<Rightarrow> nat \<Rightarrow> icalproperty_kind \<Rightarrow> ical \<Rightarrow> (nat \<times> ical) option" where
  "seek_property c e kind st = do {
     r \<leftarrow> comp_at c st;
     f \<leftarrow> find_elem (prop_kind_is kind st) e (co_properties r);
     st1 \<leftarrow> set_comp c (\<lambda>r. r\<lparr>co_property_iterator := f\<rparr>) st;
     x \<leftarrow> elem_data f (co_properties r);
     Some (x, st1) }"

definition icalcomponent_get_first_property :: "nat \<Rightarrow> icalproperty_kind \<Rightarrow> ical \<Rightarrow> (nat \<times> ical) option" where
  "icalcomponent_get_first_property c kind st =
     (if c = 0 then bad_arg 0 st
      else do {
        r \<leftarrow> comp_at c st;
        seek_property c (pvl_head (fst (co_properties r))) kind st })"

definition icalcomponent_get_next_property :: "nat \<Rightarrow> icalproperty_kind \<Rightarrow> ical \<Rightarrow> (nat \<times> ical) option" where
  "icalcomponent_get_next_property c kind st =
     (if c = 0 then bad_arg 0 st
      else do {
        r \<leftarrow> comp_at c st;
        if co_property_iterator r = 0 then Some (0, st)
        else do {
          e \<leftarrow> pvl_next (co_property_iterator r) (snd (co_properties r));
          seek_property c e kind st } })"

section \<open>Components\<close>

text \<open>There are no null items, which adding refuses.\<close>

definition comp_kind_is :: "icalcomponent_kind \<Rightarrow> ical \<Rightarrow> nat \<Rightarrow> bool option" where
  "comp_kind_is kind st c = map_option (\<lambda>r. co_kind r = kind \<or> kind = ICAL_ANY_COMPONENT) (comp_at c st)"

definition icalcomponent_count_components :: "nat \<Rightarrow> icalcomponent_kind \<Rightarrow> ical \<Rightarrow> (int \<times> ical) option" where
  "icalcomponent_count_components c kind st =
     (if c = 0 then bad_arg 0 st
      else do {
        r \<leftarrow> comp_at c st;
        k \<leftarrow> count_from (fresh (snd (co_components r))) (comp_kind_is kind st)
               (pvl_head (fst (co_components r))) (snd (co_components r));
        Some (k, st) })"

definition icalcomponent_get_current_component :: "nat \<Rightarrow> ical \<Rightarrow> (nat \<times> ical) option" where
  "icalcomponent_get_current_component c st =
     (if c = 0 then bad_arg 0 st
      else do {
        r \<leftarrow> comp_at c st;
        p \<leftarrow> elem_data (co_component_iterator r) (co_components r);
        Some (p, st) })"

definition seek_component :: "nat \<Rightarrow> nat \<Rightarrow> icalcomponent_kind \<Rightarrow> ical \<Rightarrow> (nat \<times> ical) option" where
  "seek_component c e kind st = do {
     r \<leftarrow> comp_at c st;
     f \<leftarrow> find_elem (comp_kind_is kind st) e (co_components r);
     st1 \<leftarrow> set_comp c (\<lambda>r. r\<lparr>co_component_iterator := f\<rparr>) st;
     x \<leftarrow> elem_data f (co_components r);
     Some (x, st1) }"

definition icalcomponent_get_first_component :: "nat \<Rightarrow> icalcomponent_kind \<Rightarrow> ical \<Rightarrow> (nat \<times> ical) option" where
  "icalcomponent_get_first_component c kind st =
     (if c = 0 then bad_arg 0 st
      else do {
        r \<leftarrow> comp_at c st;
        seek_component c (pvl_head (fst (co_components r))) kind st })"

definition icalcomponent_get_next_component :: "nat \<Rightarrow> icalcomponent_kind \<Rightarrow> ical \<Rightarrow> (nat \<times> ical) option" where
  "icalcomponent_get_next_component c kind st =
     (if c = 0 then bad_arg 0 st
      else do {
        r \<leftarrow> comp_at c st;
        if co_component_iterator r = 0 then Some (0, st)
        else do {
          e \<leftarrow> pvl_next (co_component_iterator r) (snd (co_components r));
          seek_component c e kind st } })"

definition real_kind :: "icalcomponent_kind \<Rightarrow> bool" where
  "real_kind k \<longleftrightarrow> k \<in> {ICAL_VEVENT_COMPONENT, ICAL_VTODO_COMPONENT, ICAL_VJOURNAL_COMPONENT,
     ICAL_VFREEBUSY_COMPONENT, ICAL_VQUERY_COMPONENT, ICAL_VAGENDA_COMPONENT}"

fun seek_real :: "nat \<Rightarrow> nat \<Rightarrow> nat \<Rightarrow> ical \<Rightarrow> (nat \<times> ical) option" where
  "seek_real 0 c x st = None"
| "seek_real (Suc n) c x st =
     (if x = 0 then Some (0, st)
      else do {
        (k, st1) \<leftarrow> icalcomponent_isa x st;
        if real_kind k then Some (x, st1)
        else do {
          (y, st2) \<leftarrow> icalcomponent_get_next_component c ICAL_ANY_COMPONENT st1;
          seek_real n c y st2 } })"

definition icalcomponent_get_first_real_component :: "nat \<Rightarrow> ical \<Rightarrow> (nat \<times> ical) option" where
  "icalcomponent_get_first_real_component c st = do {
     (x, st1) \<leftarrow> icalcomponent_get_first_component c ICAL_ANY_COMPONENT st;
     if c = 0 then Some (0, st1)
     else do {
       r \<leftarrow> comp_at c st1;
       seek_real (fresh (snd (co_components r))) c x st1 } }"

section \<open>Time zones of a calendar\<close>

text \<open>The place of a zone, from LOCATION or X-LIC-LOCATION.\<close>

fun seek_lic_location :: "nat \<Rightarrow> nat \<Rightarrow> nat \<Rightarrow> ical \<Rightarrow> (string option \<times> ical) option" where
  "seek_lic_location 0 c p st = None"
| "seek_lic_location (Suc n) c p st =
     (if p = 0 then Some (None, st)
      else do {
        (name, st1) \<leftarrow> icalproperty_get_x_name p st;
        (location, st2) \<leftarrow>
          (if name \<noteq> None \<and> strcaseeq (the name) ''X-LIC-LOCATION'' then icalproperty_get_x p st1 else Some (None, st1));
        if location \<noteq> None then Some (location, st2)
        else do {
          (q, st3) \<leftarrow> icalcomponent_get_next_property c ICAL_X_PROPERTY st2;
          seek_lic_location n c q st3 } })"

definition icaltimezone_get_location_from_vtimezone :: "nat \<Rightarrow> ical \<Rightarrow> (string option \<times> ical) option" where
  "icaltimezone_get_location_from_vtimezone c st = do {
     (p, st1) \<leftarrow> icalcomponent_get_first_property c ICAL_LOCATION_PROPERTY st;
     (location, st2) \<leftarrow> (if p \<noteq> 0 then icalproperty_get_location p st1 else Some (None, st1));
     if location \<noteq> None then Some (location, st2)
     else do {
       (q, st3) \<leftarrow> icalcomponent_get_first_property c ICAL_X_PROPERTY st2;
       r \<leftarrow> comp_at c st3;
       seek_lic_location (fresh (snd (co_properties r))) c q st3 } }"

text \<open>The TZNAME of a part of a zone and its largest DTSTART or RDATE.\<close>

definition later_of :: "coverage \<Rightarrow> icaltimetype \<Rightarrow> icaltimetype \<Rightarrow> icaltimetype option" where
  "later_of cov t u = map_option (\<lambda>k. if k > 0 then t else u) (icaltime_compare cov t u)"

definition tzname_step ::
    "coverage \<Rightarrow> nat \<Rightarrow> string option \<times> icaltimetype \<Rightarrow> ical \<Rightarrow> ((string option \<times> icaltimetype) \<times> ical) option" where
  "tzname_step cov p cur st = do {
     k \<leftarrow> icalproperty_isa p st;
     if k = ICAL_TZNAME_PROPERTY then do {
       (s, st1) \<leftarrow> icalproperty_get_tzname p st;
       Some ((s, snd cur), st1) }
     else if k = ICAL_DTSTART_PROPERTY then do {
       (t, st1) \<leftarrow> icalproperty_get_dtstart p st;
       u \<leftarrow> later_of cov t (snd cur);
       Some ((fst cur, u), st1) }
     else if k = ICAL_RDATE_PROPERTY then do {
       (d, st1) \<leftarrow> icalproperty_get_rdate p st;
       u \<leftarrow> later_of cov (dtp_time d) (snd cur);
       Some ((fst cur, u), st1) }
     else Some (cur, st) }"

fun scan_tzname ::
    "nat \<Rightarrow> coverage \<Rightarrow> nat \<Rightarrow> nat \<Rightarrow> string option \<times> icaltimetype \<Rightarrow> ical \<Rightarrow> ((string option \<times> icaltimetype) \<times> ical) option" where
  "scan_tzname 0 cov c p cur st = None"
| "scan_tzname (Suc n) cov c p cur st =
     (if p = 0 then Some (cur, st)
      else do {
        (cur1, st1) \<leftarrow> tzname_step cov p cur st;
        (q, st2) \<leftarrow> icalcomponent_get_next_property c ICAL_ANY_PROPERTY st1;
        scan_tzname n cov c q cur1 st2 })"

text \<open>The names found so far for standard and daylight time, each with its date.\<close>

record tz_names =
  tn_standard :: "string option"
  tn_standard_date :: icaltimetype
  tn_daylight :: "string option"
  tn_daylight_date :: icaltimetype

definition take_tzname ::
    "coverage \<Rightarrow> icalcomponent_kind \<Rightarrow> string option \<times> icaltimetype \<Rightarrow> tz_names \<Rightarrow> tz_names option" where
  "take_tzname cov k cur tn =
     (case fst cur of
        None \<Rightarrow> Some tn
      | Some name \<Rightarrow>
          if k = ICAL_XSTANDARD_COMPONENT then do {
            newer \<leftarrow> (if tn_standard tn = None then Some 1 else icaltime_compare cov (snd cur) (tn_standard_date tn));
            Some (if newer > 0 then tn\<lparr>tn_standard := Some name, tn_standard_date := snd cur\<rparr> else tn) }
          else do {
            newer \<leftarrow> (if tn_daylight tn = None then Some 1 else icaltime_compare cov (snd cur) (tn_daylight_date tn));
            Some (if newer > 0 then tn\<lparr>tn_daylight := Some name, tn_daylight_date := snd cur\<rparr> else tn) })"

fun scan_zone_parts :: "nat \<Rightarrow> coverage \<Rightarrow> nat \<Rightarrow> nat \<Rightarrow> tz_names \<Rightarrow> ical \<Rightarrow> (tz_names \<times> ical) option" where
  "scan_zone_parts 0 cov c x tn st = None"
| "scan_zone_parts (Suc n) cov c x tn st =
     (if x = 0 then Some (tn, st)
      else do {
        (k, st1) \<leftarrow> icalcomponent_isa x st;
        (tn1, st2) \<leftarrow>
          (if k = ICAL_XSTANDARD_COMPONENT \<or> k = ICAL_XDAYLIGHT_COMPONENT then do {
             (p, st') \<leftarrow> icalcomponent_get_first_property x ICAL_ANY_PROPERTY st1;
             r \<leftarrow> comp_at x st';
             (cur, st'') \<leftarrow> scan_tzname (fresh (snd (co_properties r))) cov x p (None, icaltime_null_time) st';
             tn' \<leftarrow> take_tzname cov k cur tn;
             Some (tn', st'') }
           else Some (tn, st1));
        (y, st3) \<leftarrow> icalcomponent_get_next_component c ICAL_ANY_COMPONENT st2;
        scan_zone_parts n cov c y tn1 st3 })"

definition tznames_of :: "tz_names \<Rightarrow> string option" where
  "tznames_of tn =
     (case (tn_standard tn, tn_daylight tn) of
        (Some s, Some d) \<Rightarrow>
          if s = ''Standard Time'' then None else if s = d then Some s else Some (s @ ''/'' @ d)
      | (Some s, None) \<Rightarrow> if s = ''Standard Time'' then None else Some s
      | (None, d) \<Rightarrow> d)"

definition icaltimezone_get_tznames_from_vtimezone ::
    "coverage \<Rightarrow> nat \<Rightarrow> ical \<Rightarrow> (string option \<times> ical) option" where
  "icaltimezone_get_tznames_from_vtimezone cov c st = do {
     (x, st1) \<leftarrow> icalcomponent_get_first_component c ICAL_ANY_COMPONENT st;
     r \<leftarrow> comp_at c st1;
     (tn, st2) \<leftarrow> scan_zone_parts (fresh (snd (co_components r))) cov c x
        \<lparr>tn_standard = None, tn_standard_date = icaltime_null_time, tn_daylight = None,
         tn_daylight_date = icaltime_null_time\<rparr> st1;
     Some (tznames_of tn, st2) }"

definition icaltimezone_init :: icaltimezone where
  "icaltimezone_init = \<lparr>tz_tzid = None, tz_location = None, tz_tznames = None, tz_latitude = 0, tz_longitude = 0,
     tz_component = 0, tz_builtin_timezone = None, tz_end_year = 0, tz_changes = None\<rparr>"

text \<open>A zone without a TZID is not a zone. A TZNAME without a value is a copy of a null text.\<close>

definition icaltimezone_get_vtimezone_properties ::
    "coverage \<Rightarrow> nat \<Rightarrow> ical \<Rightarrow> (icaltimezone option \<times> ical) option" where
  "icaltimezone_get_vtimezone_properties cov c st = do {
     (p, st1) \<leftarrow> icalcomponent_get_first_property c ICAL_TZID_PROPERTY st;
     if p = 0 then Some (None, st1)
     else do {
       (tzid, st2) \<leftarrow> icalproperty_get_tzid p st1;
       if tzid = None then Some (None, st2)
       else do {
         (q, st3) \<leftarrow> icalcomponent_get_first_property c ICAL_TZNAME_PROPERTY st2;
         st4 \<leftarrow> (if q \<noteq> 0 then do {
                   (tzname, st') \<leftarrow> icalproperty_get_tzname q st3;
                   if tzname = None then None else Some st' }
                 else Some st3);
         (location, st5) \<leftarrow> icaltimezone_get_location_from_vtimezone c st4;
         (tznames, st6) \<leftarrow> icaltimezone_get_tznames_from_vtimezone cov c st5;
         Some (Some (icaltimezone_init\<lparr>tz_tzid := tzid, tz_location := location, tz_tznames := tznames, tz_component := c\<rparr>), st6) } } }"

definition icaltimezone_array_new :: "icaltimezone icalarray" where
  "icaltimezone_array_new = icalarray_new 1 16"

definition icaltimezone_array_append_from_vtimezone :: "coverage \<Rightarrow> nat \<Rightarrow> nat \<Rightarrow> ical \<Rightarrow> ical option" where
  "icaltimezone_array_append_from_vtimezone cov parent child st = do {
     (zo, st1) \<leftarrow> icaltimezone_get_vtimezone_properties cov child st;
     case zo of
       None \<Rightarrow> Some st1
     | Some z \<Rightarrow> do {
         r \<leftarrow> comp_at parent st1;
         a \<leftarrow> co_timezones r;
         a1 \<leftarrow> icalarray_append a z;
         set_comp parent (\<lambda>r. r\<lparr>co_timezones := Some a1\<rparr>) st1 } }"

section \<open>Adding and removing components\<close>

text \<open>
  A component that has a parent already is an error, and is added all the same. Time zones go to
  the front.
\<close>

definition icalcomponent_add_component :: "coverage \<Rightarrow> nat \<Rightarrow> nat \<Rightarrow> ical \<Rightarrow> ical option" where
  "icalcomponent_add_component cov parent child st =
     (if parent = 0 \<or> child = 0 then bad_arg_v st
      else do {
        x \<leftarrow> comp_at child st;
        st1 \<leftarrow> (if co_parent x \<noteq> 0 then set_errno ICAL_USAGE_ERROR st else Some st);
        st2 \<leftarrow> set_comp child (\<lambda>x. x\<lparr>co_parent := parent\<rparr>) st1;
        r \<leftarrow> comp_at parent st2;
        if co_kind x \<noteq> ICAL_VTIMEZONE_COMPONENT then do {
          L \<leftarrow> push_elem child (co_components r);
          set_comp parent (\<lambda>r. r\<lparr>co_components := L\<rparr>) st2 }
        else do {
          L \<leftarrow> unshift_elem child (co_components r);
          st3 \<leftarrow> set_comp parent (\<lambda>r. r\<lparr>co_components := L, co_timezones :=
                   (case co_timezones r of None \<Rightarrow> Some icaltimezone_array_new | Some a \<Rightarrow> Some a)\<rparr>) st2;
          st4 \<leftarrow> icaltimezone_array_append_from_vtimezone cov parent child st3;
          set_comp parent (\<lambda>r. r\<lparr>co_timezones_sorted := 0\<rparr>) st4 } })"

text \<open>
  The routine that frees the component of a zone is an argument of the routines that free zones,
  since it uses them.
\<close>

definition icaltimezone_free :: "(nat \<Rightarrow> ical \<Rightarrow> ical option) \<Rightarrow> icaltimezone \<Rightarrow> ical \<Rightarrow> ical option" where
  "icaltimezone_free free z st = (if tz_component z \<noteq> 0 then free (tz_component z) st else Some st)"

fun zone_position :: "nat \<Rightarrow> nat \<Rightarrow> nat \<Rightarrow> icaltimezone icalarray \<Rightarrow> nat option option" where
  "zone_position 0 i child a = Some None"
| "zone_position (Suc n) i child a = do {
     z \<leftarrow> icalarray_element_at a (int i);
     if tz_component z = child then Some (Some i) else zone_position n (i + 1) child a }"

definition forget_zone :: "(nat \<Rightarrow> ical \<Rightarrow> ical option) \<Rightarrow> nat \<Rightarrow> nat \<Rightarrow> ical \<Rightarrow> ical option" where
  "forget_zone free parent child st = do {
     r \<leftarrow> comp_at parent st;
     case co_timezones r of
       None \<Rightarrow> Some st
     | Some a \<Rightarrow> do {
         pos \<leftarrow> zone_position (num_elements a) 0 child a;
         case pos of
           None \<Rightarrow> Some st
         | Some i \<Rightarrow> do {
             z \<leftarrow> icalarray_element_at a (int i);
             st1 \<leftarrow> icaltimezone_free free z st;
             a1 \<leftarrow> icalarray_remove_element_at a (int i);
             set_comp parent (\<lambda>r. r\<lparr>co_timezones := Some a1\<rparr>) st1 } } }"

definition unlink_component :: "nat \<Rightarrow> nat \<Rightarrow> ical \<Rightarrow> ical option" where
  "unlink_component parent child st = do {
     r \<leftarrow> comp_at parent st;
     e \<leftarrow> find_elem (\<lambda>x. Some (x = child)) (pvl_head (fst (co_components r))) (co_components r);
     if e = 0 then Some st
     else do {
       nxt \<leftarrow> pvl_next e (snd (co_components r));
       L \<leftarrow> remove_elem e (co_components r);
       st1 \<leftarrow> set_comp parent (\<lambda>r. r\<lparr>co_component_iterator :=
                  (if co_component_iterator r = e then nxt else co_component_iterator r),
                  co_components := L\<rparr>) st;
       set_comp child (\<lambda>x. x\<lparr>co_parent := 0\<rparr>) st1 } }"

definition remove_component_with :: "(nat \<Rightarrow> ical \<Rightarrow> ical option) \<Rightarrow> nat \<Rightarrow> nat \<Rightarrow> ical \<Rightarrow> ical option" where
  "remove_component_with free parent child st =
     (if parent = 0 \<or> child = 0 then bad_arg_v st
      else do {
        x \<leftarrow> comp_at child st;
        st1 \<leftarrow> (if co_kind x = ICAL_VTIMEZONE_COMPONENT then forget_zone free parent child st else Some st);
        unlink_component parent child st1 })"

fun free_properties :: "nat \<Rightarrow> nat \<Rightarrow> ical \<Rightarrow> ical option" where
  "free_properties 0 c st = None"
| "free_properties (Suc n) c st = do {
     r \<leftarrow> comp_at c st;
     (p, L) \<leftarrow> pop_elem (co_properties r);
     st1 \<leftarrow> set_comp c (\<lambda>r. r\<lparr>co_properties := L\<rparr>) st;
     if p = 0 then Some st1
     else do {
       st2 \<leftarrow> icalproperty_set_parent p 0 st1;
       st3 \<leftarrow> icalproperty_free p st2;
       free_properties n c st3 } }"

fun free_components :: "(nat \<Rightarrow> ical \<Rightarrow> ical option) \<Rightarrow> nat \<Rightarrow> nat \<Rightarrow> ical \<Rightarrow> ical option" where
  "free_components free 0 c st = None"
| "free_components free (Suc n) c st = do {
     r \<leftarrow> comp_at c st;
     x \<leftarrow> elem_data (pvl_head (fst (co_components r))) (co_components r);
     if x = 0 then Some st
     else do {
       st1 \<leftarrow> remove_component_with free c x st;
       st2 \<leftarrow> free x st1;
       free_components free n c st2 } }"

fun free_zones :: "(nat \<Rightarrow> ical \<Rightarrow> ical option) \<Rightarrow> icaltimezone list \<Rightarrow> ical \<Rightarrow> ical option" where
  "free_zones free [] st = Some st"
| "free_zones free (z # zs) st = do { st1 \<leftarrow> icaltimezone_free free z st; free_zones free zs st1 }"

definition icaltimezone_array_free ::
    "(nat \<Rightarrow> ical \<Rightarrow> ical option) \<Rightarrow> icaltimezone icalarray \<Rightarrow> ical \<Rightarrow> ical option" where
  "icaltimezone_array_free free a = free_zones free (elements a)"

primrec component_free :: "nat \<Rightarrow> nat \<Rightarrow> ical \<Rightarrow> ical option" where
  "component_free 0 c st = None"
| "component_free (Suc n) c st =
     (if c = 0 then bad_arg_v st
      else do {
        r \<leftarrow> comp_at c st;
        if co_parent r \<noteq> 0 then Some st
        else do {
          st1 \<leftarrow> free_properties (fresh (snd (co_properties r))) c st;
          st2 \<leftarrow> free_components (component_free n) (fresh (snd (co_components r))) c st1;
          r2 \<leftarrow> comp_at c st2;
          st3 \<leftarrow> (case co_timezones r2 of None \<Rightarrow> Some st2
                  | Some a \<Rightarrow> icaltimezone_array_free (component_free n) a st2);
          Some (free_obj c st3) } })"

definition icalcomponent_free :: "nat \<Rightarrow> ical \<Rightarrow> ical option" where
  "icalcomponent_free c st = component_free (Suc (i_next st)) c st"

definition icalcomponent_remove_component :: "nat \<Rightarrow> nat \<Rightarrow> ical \<Rightarrow> ical option" where
  "icalcomponent_remove_component parent child st =
     remove_component_with (component_free (Suc (i_next st))) parent child st"

section \<open>Copying\<close>

text \<open>The X name is not copied, and the time zones come in the reverse order.\<close>

fun clone_properties :: "nat \<Rightarrow> nat \<Rightarrow> plist \<Rightarrow> nat \<Rightarrow> ical \<Rightarrow> ical option" where
  "clone_properties 0 e old c st = None"
| "clone_properties (Suc n) e old c st =
     (if e = 0 then Some st
      else do {
        p \<leftarrow> elem_data e old;
        (q, st1) \<leftarrow> icalproperty_new_clone p st;
        st2 \<leftarrow> icalcomponent_add_property c q st1;
        e' \<leftarrow> pvl_next e (snd old);
        clone_properties n e' old c st2 })"

fun clone_components ::
    "(nat \<Rightarrow> ical \<Rightarrow> (nat \<times> ical) option) \<Rightarrow> coverage \<Rightarrow> nat \<Rightarrow> nat \<Rightarrow> plist \<Rightarrow> nat \<Rightarrow> ical \<Rightarrow> ical option" where
  "clone_components clone cov 0 e old c st = None"
| "clone_components clone cov (Suc n) e old c st =
     (if e = 0 then Some st
      else do {
        x \<leftarrow> elem_data e old;
        (y, st1) \<leftarrow> clone x st;
        st2 \<leftarrow> icalcomponent_add_component cov c y st1;
        e' \<leftarrow> pvl_next e (snd old);
        clone_components clone cov n e' old c st2 })"

primrec component_clone :: "nat \<Rightarrow> coverage \<Rightarrow> nat \<Rightarrow> ical \<Rightarrow> (nat \<times> ical) option" where
  "component_clone 0 cov old st = None"
| "component_clone (Suc n) cov old st =
     (if old = 0 then bad_arg 0 st
      else do {
        r \<leftarrow> comp_at old st;
        let (c, st1) = icalcomponent_new_impl (co_kind r) st;
        if c = 0 then Some (0, st1)
        else do {
          st2 \<leftarrow> clone_properties (fresh (snd (co_properties r))) (pvl_head (fst (co_properties r))) (co_properties r) c st1;
          st3 \<leftarrow> clone_components (component_clone n cov) cov (fresh (snd (co_components r)))
                   (pvl_head (fst (co_components r))) (co_components r) c st2;
          Some (c, st3) } })"

definition icalcomponent_new_clone :: "coverage \<Rightarrow> nat \<Rightarrow> ical \<Rightarrow> (nat \<times> ical) option" where
  "icalcomponent_new_clone cov old st = component_clone (Suc (i_next st)) cov old st"

section \<open>Printing\<close>

fun write_properties :: "nat \<Rightarrow> nat \<Rightarrow> plist \<Rightarrow> sbuf \<times> ical \<Rightarrow> (sbuf \<times> ical) option" where
  "write_properties 0 e L w = None"
| "write_properties (Suc n) e L w =
     (if e = 0 then Some w
      else do {
        p \<leftarrow> elem_data e L;
        (so, st1) \<leftarrow> (if p = 0 then None else icalproperty_as_ical_string_r p (snd w));
        w1 \<leftarrow> write_text so (fst w, st1);
        e' \<leftarrow> pvl_next e (snd L);
        write_properties n e' L w1 })"

fun write_components ::
    "(nat \<Rightarrow> ical \<Rightarrow> (string option \<times> ical) option) \<Rightarrow> nat \<Rightarrow> nat \<Rightarrow> plist \<Rightarrow> sbuf \<times> ical \<Rightarrow> (sbuf \<times> ical) option" where
  "write_components print 0 e L w = None"
| "write_components print (Suc n) e L w =
     (if e = 0 then Some w
      else do {
        c \<leftarrow> elem_data e L;
        (so, st1) \<leftarrow> print c (snd w);
        w1 \<leftarrow> write_text so (fst w, st1);
        e' \<leftarrow> pvl_next e (snd L);
        write_components print n e' L w1 })"

text \<open>The name behind END is that of the kind, also for an X component.\<close>

primrec component_text :: "nat \<Rightarrow> nat \<Rightarrow> ical \<Rightarrow> (string option \<times> ical) option" where
  "component_text 0 c st = None"
| "component_text (Suc n) c st = do {
     (kind, st0) \<leftarrow> icalcomponent_isa c st;
     if c = 0 \<or> kind = ICAL_NO_COMPONENT then bad_arg None st0
     else do {
       r \<leftarrow> comp_at c st0;
       let name = (if kind \<noteq> ICAL_X_COMPONENT then icalcomponent_kind_to_string kind else co_x_name r);
       if name = None then bad_arg None st0
       else do {
         w1 \<leftarrow> write_text (Some ''BEGIN:'') (icalmemory_new_buffer 1024, st0);
         w2 \<leftarrow> write_text name w1;
         w3 \<leftarrow> write_text (Some [CR, LF]) w2;
         w4 \<leftarrow> write_properties (fresh (snd (co_properties r))) (pvl_head (fst (co_properties r))) (co_properties r) w3;
         w5 \<leftarrow> write_components (component_text n) (fresh (snd (co_components r)))
                (pvl_head (fst (co_components r))) (co_components r) w4;
         w6 \<leftarrow> write_text (Some ''END:'') w5;
         w7 \<leftarrow> write_text (icalcomponent_kind_to_string kind) w6;
         w8 \<leftarrow> write_text (Some [CR, LF]) w7;
         Some (Some (sb_text (fst w8)), snd w8) } } }"

definition icalcomponent_as_ical_string_r :: "nat \<Rightarrow> ical \<Rightarrow> (string option \<times> ical) option" where
  "icalcomponent_as_ical_string_r c st = component_text (Suc (i_next st)) c st"

section \<open>Errors\<close>

definition ICAL_XLICERRORTYPE_COMPONENTPARSEERROR :: int where "ICAL_XLICERRORTYPE_COMPONENTPARSEERROR = 20089"
definition ICAL_XLICERRORTYPE_PROPERTYPARSEERROR :: int where "ICAL_XLICERRORTYPE_PROPERTYPARSEERROR = 20090"
definition ICAL_XLICERRORTYPE_PARAMETERNAMEPARSEERROR :: int where "ICAL_XLICERRORTYPE_PARAMETERNAMEPARSEERROR = 20091"
definition ICAL_XLICERRORTYPE_PARAMETERVALUEPARSEERROR :: int where "ICAL_XLICERRORTYPE_PARAMETERVALUEPARSEERROR = 20092"
definition ICAL_XLICERRORTYPE_VALUEPARSEERROR :: int where "ICAL_XLICERRORTYPE_VALUEPARSEERROR = 20093"

primrec sum_over :: "(nat \<Rightarrow> int option) \<Rightarrow> nat \<Rightarrow> nat \<Rightarrow> plist \<Rightarrow> int option" where
  "sum_over f 0 e L = None"
| "sum_over f (Suc n) e L =
     (if e = 0 then Some 0
      else do {
        x \<leftarrow> elem_data e L;
        k \<leftarrow> f x;
        e' \<leftarrow> pvl_next e (snd L);
        m \<leftarrow> sum_over f n e' L;
        Some (k + m) })"

primrec component_errors :: "nat \<Rightarrow> nat \<Rightarrow> ical \<Rightarrow> int option" where
  "component_errors 0 c st = None"
| "component_errors (Suc n) c st = do {
     r \<leftarrow> comp_at c st;
     a \<leftarrow> sum_over (\<lambda>p. map_option (\<lambda>k. if k = ICAL_XLICERROR_PROPERTY then 1 else 0) (icalproperty_isa p st))
            (fresh (snd (co_properties r))) (pvl_head (fst (co_properties r))) (co_properties r);
     b \<leftarrow> sum_over (\<lambda>x. component_errors n x st)
            (fresh (snd (co_components r))) (pvl_head (fst (co_components r))) (co_components r);
     Some (a + b) }"

definition icalcomponent_count_errors :: "nat \<Rightarrow> ical \<Rightarrow> int option" where
  "icalcomponent_count_errors c st = component_errors (Suc (i_next st)) c st"

text \<open>The loops that change the list they run over read the next element first.\<close>

fun strip_properties :: "nat \<Rightarrow> nat \<Rightarrow> nat \<Rightarrow> ical \<Rightarrow> ical option" where
  "strip_properties 0 c e st = None"
| "strip_properties (Suc n) c e st =
     (if e = 0 then Some st
      else do {
        r \<leftarrow> comp_at c st;
        p \<leftarrow> elem_data e (co_properties r);
        nxt \<leftarrow> pvl_next e (snd (co_properties r));
        k \<leftarrow> icalproperty_isa p st;
        st1 \<leftarrow> (if k = ICAL_XLICERROR_PROPERTY then icalcomponent_remove_property c p st else Some st);
        strip_properties n c nxt st1 })"

fun each_component ::
    "(nat \<Rightarrow> ical \<Rightarrow> ical option) \<Rightarrow> nat \<Rightarrow> nat \<Rightarrow> nat \<Rightarrow> ical \<Rightarrow> ical option" where
  "each_component f 0 c e st = None"
| "each_component f (Suc n) c e st =
     (if e = 0 then Some st
      else do {
        r \<leftarrow> comp_at c st;
        x \<leftarrow> elem_data e (co_components r);
        st1 \<leftarrow> f x st;
        r1 \<leftarrow> comp_at c st1;
        nxt \<leftarrow> pvl_next e (snd (co_components r1));
        each_component f n c nxt st1 })"

primrec component_strip :: "nat \<Rightarrow> nat \<Rightarrow> ical \<Rightarrow> ical option" where
  "component_strip 0 c st = None"
| "component_strip (Suc n) c st = do {
     r \<leftarrow> comp_at c st;
     st1 \<leftarrow> strip_properties (fresh (snd (co_properties r))) c (pvl_head (fst (co_properties r))) st;
     r1 \<leftarrow> comp_at c st1;
     each_component (component_strip n) (fresh (snd (co_components r1))) c (pvl_head (fst (co_components r1))) st1 }"

definition icalcomponent_strip_errors :: "nat \<Rightarrow> ical \<Rightarrow> ical option" where
  "icalcomponent_strip_errors c st = component_strip (Suc (i_next st)) c st"

text \<open>The request status that stands for a kind of error, or the unknown one.\<close>

definition status_of_error :: "int \<Rightarrow> icalrequeststatus" where
  "status_of_error e =
     (if e = ICAL_XLICERRORTYPE_PARAMETERNAMEPARSEERROR then ICAL_3_2_INVPARAM_STATUS
      else if e = ICAL_XLICERRORTYPE_PARAMETERVALUEPARSEERROR then ICAL_3_3_INVPARAMVAL_STATUS
      else if e = ICAL_XLICERRORTYPE_PROPERTYPARSEERROR then ICAL_3_0_INVPROPNAME_STATUS
      else if e = ICAL_XLICERRORTYPE_VALUEPARSEERROR then ICAL_3_1_INVPROPVAL_STATUS
      else if e = ICAL_XLICERRORTYPE_COMPONENTPARSEERROR then ICAL_3_4_INVCOMP_STATUS
      else ICAL_UNKNOWN_STATUS)"

definition convert_error :: "nat \<Rightarrow> nat \<Rightarrow> ical \<Rightarrow> ical option" where
  "convert_error c p st = do {
     k \<leftarrow> icalproperty_isa p st;
     if k \<noteq> ICAL_XLICERROR_PROPERTY then Some st
     else do {
       (param, st1) \<leftarrow> icalproperty_get_first_parameter p ICAL_XLICERRORTYPE_PARAMETER st;
       (e, st2) \<leftarrow> icalparameter_get_xlicerrortype param st1;
       if status_of_error e = ICAL_UNKNOWN_STATUS then Some st2
       else do {
         (debug, st3) \<leftarrow> icalproperty_get_xlicerror p st2;
         (q, st4) \<leftarrow> icalproperty_new_requeststatus
            \<lparr>rs_code = status_of_error e, rs_desc = None, rs_debug = debug\<rparr> st3;
         st5 \<leftarrow> icalcomponent_add_property c q st4;
         icalcomponent_remove_property c p st5 } } }"

text \<open>
  The iterator is moved on before a property is converted. Each property that is added is
  looked at as well, so the fuel counts those of the new list.
\<close>

fun convert_properties :: "nat \<Rightarrow> nat \<Rightarrow> nat \<Rightarrow> ical \<Rightarrow> ical option" where
  "convert_properties 0 c p st = None"
| "convert_properties (Suc n) c p st =
     (if p = 0 then Some st
      else do {
        (q, st1) \<leftarrow> icalcomponent_get_next_property c ICAL_ANY_PROPERTY st;
        st2 \<leftarrow> convert_error c p st1;
        convert_properties n c q st2 })"

fun convert_components :: "(nat \<Rightarrow> ical \<Rightarrow> ical option) \<Rightarrow> nat \<Rightarrow> nat \<Rightarrow> nat \<Rightarrow> ical \<Rightarrow> ical option" where
  "convert_components f 0 c x st = None"
| "convert_components f (Suc n) c x st =
     (if x = 0 then Some st
      else do {
        st1 \<leftarrow> f x st;
        (y, st2) \<leftarrow> icalcomponent_get_next_component c ICAL_ANY_COMPONENT st1;
        convert_components f n c y st2 })"

primrec component_convert :: "nat \<Rightarrow> nat \<Rightarrow> ical \<Rightarrow> ical option" where
  "component_convert 0 c st = None"
| "component_convert (Suc n) c st = do {
     (p, st1) \<leftarrow> icalcomponent_get_first_property c ICAL_ANY_PROPERTY st;
     r \<leftarrow> comp_at c st1;
     st2 \<leftarrow> convert_properties (2 * fresh (snd (co_properties r))) c p st1;
     (x, st3) \<leftarrow> icalcomponent_get_first_component c ICAL_ANY_COMPONENT st2;
     convert_components (component_convert n) (fresh (snd (co_components r))) c x st3 }"

definition icalcomponent_convert_errors :: "nat \<Rightarrow> ical \<Rightarrow> ical option" where
  "icalcomponent_convert_errors c st = component_convert (Suc (i_next st)) c st"

end
