(* ===== verification/TzExpand.thy ===== *)
theory TzExpand
  imports IcalComponent RecurNext
begin

text \<open>
  The expansion of a VTIMEZONE into the table of its changes, \<^verbatim>\<open>icaltimezone_ensure_coverage\<close>,
  \<^verbatim>\<open>icaltimezone_expand_changes\<close> and \<^verbatim>\<open>icaltimezone_expand_vtimezone\<close>. The zone of the system that has no
  component yet is loaded from a file, by an argument; today's year is an argument as well.
\<close>

section \<open>One part of a zone\<close>

text \<open>What the first pass over the properties finds; \<open>None\<close> is a flag that is not set.\<close>

record onset =
  on_dtstart :: "icaltimetype option"
  on_to :: "int option"
  on_from :: "int option"
  on_recurs :: bool

definition scan_onset :: "nat \<Rightarrow> onset \<Rightarrow> ical \<Rightarrow> (onset \<times> ical) option" where
  "scan_onset p f st = do {
     k \<leftarrow> icalproperty_isa p st;
     if k = ICAL_DTSTART_PROPERTY then
       map_option (\<lambda>(t, st1). (f\<lparr>on_dtstart := Some t\<rparr>, st1)) (icalproperty_get_dtstart p st)
     else if k = ICAL_TZOFFSETTO_PROPERTY then
       map_option (\<lambda>(x, st1). (f\<lparr>on_to := Some x\<rparr>, st1)) (icalproperty_get_tzoffsetto p st)
     else if k = ICAL_TZOFFSETFROM_PROPERTY then
       map_option (\<lambda>(x, st1). (f\<lparr>on_from := Some x\<rparr>, st1)) (icalproperty_get_tzoffsetfrom p st)
     else if k = ICAL_RDATE_PROPERTY \<or> k = ICAL_RRULE_PROPERTY then Some (f\<lparr>on_recurs := True\<rparr>, st)
     else Some (f, st) }"

fun scan_onsets :: "nat \<Rightarrow> nat \<Rightarrow> nat \<Rightarrow> onset \<Rightarrow> ical \<Rightarrow> (onset \<times> ical) option" where
  "scan_onsets 0 c p f st = None"
| "scan_onsets (Suc n) c p f st =
     (if p = 0 then Some (f, st)
      else do {
        (o1, st1) \<leftarrow> scan_onset p f st;
        (q, st2) \<leftarrow> icalcomponent_get_next_property c ICAL_ANY_PROPERTY st1;
        scan_onsets n c q o1 st2 })"

text \<open>A change at a local time, and at the same time in UTC.\<close>

definition change_at :: "int \<Rightarrow> int \<Rightarrow> int \<Rightarrow> icaltimetype \<Rightarrow> icaltimezonechange" where
  "change_at to from daylight t =
     (change_of_time t)\<lparr>utc_offset := to, prev_utc_offset := from, c_is_daylight := daylight\<rparr>"

definition utc_change :: "int \<Rightarrow> int \<Rightarrow> int \<Rightarrow> icaltimetype \<Rightarrow> icaltimezonechange" where
  "utc_change to from daylight t = icaltimezone_adjust_change (change_at to from daylight t) 0 0 0 (- from)"

text \<open>The change of an RDATE; one with a date has the time of DTSTART, and is not converted.\<close>

definition rdate_change :: "int \<Rightarrow> int \<Rightarrow> int \<Rightarrow> icaltimetype \<Rightarrow> icaltimetype \<Rightarrow> icaltimezonechange" where
  "rdate_change to from daylight dtstart t =
     (if icaltime_is_date t \<noteq> 0
      then change_at to from daylight (t\<lparr>hour := hour dtstart, minute := minute dtstart, second := second dtstart\<rparr>)
      else if icaltime_is_utc t = 0 then utc_change to from daylight t
      else change_at to from daylight t)"

text \<open>The occurrences of a rule up to the end of a year. A rule may have infinitely many before it.\<close>

partial_function (option) rrule_changes ::
    "coverage \<Rightarrow> int \<Rightarrow> (icaltimetype \<Rightarrow> icaltimezonechange) \<Rightarrow> icalrecur_iterator option \<Rightarrow> icalerror_state \<Rightarrow> changes
       \<Rightarrow> (changes \<times> icalerror_state) option" where
  "rrule_changes cov end_year mk ip es cs = do {
     (occ, ip1, es1) \<leftarrow> icalrecur_iterator_next cov ip es;
     if year occ > end_year \<or> icaltime_is_null_time occ then Some (cs, es1)
     else do {
       cs1 \<leftarrow> icalarray_append cs (mk occ);
       rrule_changes cov end_year mk ip1 es1 cs1 } }"

declare rrule_changes.simps [code]

text \<open>An end of the rule in UTC is converted to the local time before the change.\<close>

definition local_until :: "int \<Rightarrow> icalrecurrencetype \<Rightarrow> icalrecurrencetype" where
  "local_until from r =
     (if \<not> icaltime_is_null_time (r_until r) \<and> is_utc (r_until r) \<noteq> 0
      then r\<lparr>r_until := (icaltime_adjust (r_until r) 0 0 0 from)\<lparr>is_utc := 0\<rparr>\<rparr> else r)"

definition expand_rule ::
    "coverage \<Rightarrow> int \<Rightarrow> int \<Rightarrow> (icaltimetype \<Rightarrow> icaltimezonechange) \<Rightarrow> icaltimetype \<Rightarrow> icalrecurrencetype \<Rightarrow> changes \<Rightarrow> ical
       \<Rightarrow> (changes \<times> ical) option" where
  "expand_rule cov end_year from mk dtstart r cs st = do {
     (ip, es1) \<leftarrow> icalrecur_iterator_new (local_until from r) dtstart (errs st);
     case ip of
       None \<Rightarrow> map_option (\<lambda>st1. (cs, st1)) (bad_arg_v (with_error_state es1 st))
     | Some i \<Rightarrow> do {
         (cs1, es2) \<leftarrow> rrule_changes cov end_year mk (Some i) es1 cs;
         Some (cs1, with_error_state es2 st) } }"

definition expand_property ::
    "coverage \<Rightarrow> int \<Rightarrow> int \<Rightarrow> int \<Rightarrow> int \<Rightarrow> icaltimetype \<Rightarrow> nat \<Rightarrow> changes \<Rightarrow> ical \<Rightarrow> (changes \<times> ical) option" where
  "expand_property cov end_year to from daylight dtstart p cs st = do {
     k \<leftarrow> icalproperty_isa p st;
     if k = ICAL_RDATE_PROPERTY then do {
       (d, st1) \<leftarrow> icalproperty_get_rdate p st;
       cs1 \<leftarrow> icalarray_append cs (rdate_change to from daylight dtstart (dtp_time d));
       Some (cs1, st1) }
     else if k = ICAL_RRULE_PROPERTY then do {
       (r, st1) \<leftarrow> icalproperty_get_rrule p st;
       expand_rule cov end_year from (utc_change to from daylight) dtstart r cs st1 }
     else Some (cs, st) }"

fun expand_properties ::
    "nat \<Rightarrow> coverage \<Rightarrow> int \<Rightarrow> int \<Rightarrow> int \<Rightarrow> int \<Rightarrow> icaltimetype \<Rightarrow> nat \<Rightarrow> nat \<Rightarrow> changes \<Rightarrow> ical \<Rightarrow> (changes \<times> ical) option" where
  "expand_properties 0 cov end_year to from daylight dtstart c p cs st = None"
| "expand_properties (Suc n) cov end_year to from daylight dtstart c p cs st =
     (if p = 0 then Some (cs, st)
      else do {
        (cs1, st1) \<leftarrow> expand_property cov end_year to from daylight dtstart p cs st;
        (q, st2) \<leftarrow> icalcomponent_get_next_property c ICAL_ANY_PROPERTY st1;
        expand_properties n cov end_year to from daylight dtstart c q cs1 st2 })"

definition no_onset :: onset where
  "no_onset = \<lparr>on_dtstart = None, on_to = None, on_from = None, on_recurs = False\<rparr>"

definition icaltimezone_expand_vtimezone ::
    "coverage \<Rightarrow> nat \<Rightarrow> int \<Rightarrow> changes \<Rightarrow> ical \<Rightarrow> (changes \<times> ical) option" where
  "icaltimezone_expand_vtimezone cov c end_year cs st = do {
     (k, st0) \<leftarrow> icalcomponent_isa c st;
     if k \<noteq> ICAL_XSTANDARD_COMPONENT \<and> k \<noteq> ICAL_XDAYLIGHT_COMPONENT then Some (cs, st0)
     else do {
       let daylight = (if k = ICAL_XDAYLIGHT_COMPONENT then 1 else 0);
       (p, st1) \<leftarrow> icalcomponent_get_first_property c ICAL_ANY_PROPERTY st0;
       r \<leftarrow> comp_at c st1;
       (f, st2) \<leftarrow> scan_onsets (fresh (snd (co_properties r))) c p no_onset st1;
       (case (on_dtstart f, on_to f, on_from f) of
          (Some dtstart, Some to, Some from) \<Rightarrow>
            if \<not> on_recurs f then
              map_option (\<lambda>cs1. (cs1, st2)) (icalarray_append cs (utc_change to from daylight dtstart))
            else do {
              (q, st3) \<leftarrow> icalcomponent_get_first_property c ICAL_ANY_PROPERTY st2;
              expand_properties (fresh (snd (co_properties r))) cov end_year to from daylight dtstart c q cs st3 }
        | _ \<Rightarrow> Some (cs, st2)) } }"

section \<open>The table of a zone\<close>

fun expand_parts :: "nat \<Rightarrow> coverage \<Rightarrow> nat \<Rightarrow> nat \<Rightarrow> int \<Rightarrow> changes \<Rightarrow> ical \<Rightarrow> (changes \<times> ical) option" where
  "expand_parts 0 cov zc c end_year cs st = None"
| "expand_parts (Suc n) cov zc c end_year cs st =
     (if c = 0 then Some (cs, st)
      else do {
        (cs1, st1) \<leftarrow> icaltimezone_expand_vtimezone cov c end_year cs st;
        (d, st2) \<leftarrow> icalcomponent_get_next_component zc ICAL_ANY_COMPONENT st1;
        expand_parts n cov zc d end_year cs1 st2 })"

definition icaltimezone_expand_changes ::
    "coverage \<Rightarrow> icaltimezone \<Rightarrow> int \<Rightarrow> ical \<Rightarrow> (icaltimezone \<times> ical) option" where
  "icaltimezone_expand_changes cov z end_year st = do {
     (c, st1) \<leftarrow> icalcomponent_get_first_component (tz_component z) ICAL_ANY_COMPONENT st;
     n \<leftarrow> (if tz_component z = 0 then Some 1
          else map_option (\<lambda>r. fresh (snd (co_components r))) (comp_at (tz_component z) st1));
     (cs, st2) \<leftarrow> expand_parts n cov (tz_component z) c end_year (icalarray_new 1 32) st1;
     cs1 \<leftarrow> icalarray_sort cs icaltimezone_compare_change_fn;
     Some (z\<lparr>tz_changes := Some cs1, tz_end_year := end_year\<rparr>, st2) }"

definition ICALTIMEZONE_EXTRA_COVERAGE :: int where "ICALTIMEZONE_EXTRA_COVERAGE = 5"
definition ICALTIMEZONE_MAX_YEAR :: int where "ICALTIMEZONE_MAX_YEAR = 2035"

text \<open>
  The least year of an expansion is a static variable, set by the first call; -1 before. The result has
  its new value.
\<close>

definition icaltimezone_ensure_coverage ::
    "coverage \<Rightarrow> (icaltimezone \<Rightarrow> ical \<Rightarrow> (icaltimezone \<times> ical) option) \<Rightarrow> int \<Rightarrow> int \<Rightarrow> icaltimezone \<Rightarrow> int \<Rightarrow> ical
       \<Rightarrow> (int \<times> icaltimezone \<times> ical) option" where
  "icaltimezone_ensure_coverage cov load today minimum z end_year st = do {
     (z1, st1) \<leftarrow> (if tz_component z = 0 then load z st else Some (z, st));
     let minimum1 = (if minimum = - 1 then today else minimum);
     let changes_end_year = min (max end_year minimum1 + ICALTIMEZONE_EXTRA_COVERAGE) ICALTIMEZONE_MAX_YEAR;
     if tz_changes z1 = None \<or> tz_end_year z1 < end_year
     then map_option (\<lambda>(z2, st2). (minimum1, z2, st2)) (icaltimezone_expand_changes cov z1 changes_end_year st1)
     else Some (minimum1, z1, st1) }"

end
