(* ===== verification/ListLaws.thy ===== *)
theory ListLaws
  imports IcalObject PvlSeq
begin

text \<open>
  The lists of objects as their callers see them: a list of addresses, and cursors into it. The
  cursor is the address of an element; the items before it and those from it on are two lists. The
  loops over a list are inductions on the second.
\<close>

section \<open>Lists\<close>

definition plist_of :: "plist \<Rightarrow> nat list \<Rightarrow> bool" where
  "plist_of L xs \<longleftrightarrow> pvl_good L \<and> pvl_items L = xs"

lemma plist_ofI: "pvl_rep (snd L) (fst L) axs \<Longrightarrow> l_count (fst L) = int (length axs) \<Longrightarrow> map snd axs = xs \<Longrightarrow> plist_of L xs"
  using rep_items [of "snd L" "fst L" axs] by (auto simp: plist_of_def pvl_good_def)

lemma plist_ofE:
  assumes "plist_of L xs"
  obtains axs where "pvl_rep (snd L) (fst L) axs" "l_count (fst L) = int (length axs)" "xs = map snd axs"
  using assms pvl_good_rep [of "fst L" "snd L"] by (auto simp: plist_of_def)

lemma plist_of_unique: "plist_of L xs \<Longrightarrow> plist_of L ys \<Longrightarrow> xs = ys"
  by (simp add: plist_of_def)

lemma new_plist_of [simp]: "plist_of new_plist []"
  by (rule plist_ofI [of _ "[]"])
    (auto simp: new_plist_def pvl_newlist_def pvl_rep_def heap_ok_def)

lemma push_elem_law: "plist_of L xs \<Longrightarrow> \<exists>L'. push_elem x L = Some L' \<and> plist_of L' (xs @ [x])"
  using pvlq.push_items [of L x] by (auto simp: push_elem_def plist_of_def)

lemma unshift_elem_law: "plist_of L xs \<Longrightarrow> \<exists>L'. unshift_elem x L = Some L' \<and> plist_of L' (x # xs)"
  using pvlq.unshift_items [of L x] by (auto simp: unshift_elem_def plist_of_def)

lemma pop_elem_law: "plist_of L (xs @ [x]) \<Longrightarrow> \<exists>L'. pop_elem L = Some (x, L') \<and> plist_of L' xs"
  using pvlq.pop_items [of L xs x] by (auto simp: pop_elem_def plist_of_def)

lemma pop_elem_empty: "plist_of L [] \<Longrightarrow> pop_elem L = Some (0, L)"
  using pvlq.pop_empty [of L] by (auto simp: pop_elem_def plist_of_def)

lemma count_law: "plist_of L xs \<Longrightarrow> pvl_count (fst L) = int (length xs)"
  by (elim plist_ofE) (simp add: pvl_count_def)

lemma fuel_law: "plist_of L xs \<Longrightarrow> length xs < fresh (snd L)"
  by (elim plist_ofE) (auto dest: rep_length)

lemma tail_law: "plist_of L xs \<Longrightarrow> elem_data (pvl_tail (fst L)) L = Some (if xs = [] then 0 else last xs)"
proof (elim plist_ofE)
  fix axs
  assume a: "pvl_rep (snd L) (fst L) axs" "xs = map snd axs"
  show ?thesis
  proof (cases axs rule: rev_cases)
    case Nil
    with a rep_tail_zero [OF a(1)] show ?thesis by (simp add: elem_data_def pvl_tail_def pvl_data_def)
  next
    case (snoc ys p)
    obtain b y where p: "p = (b, y)" by force
    obtain e where "cells (snd L) b = Some e" "e_data e = y"
      using rep_cell [of "snd L" "fst L" ys b y "[]"] a snoc p by auto
    moreover have "l_tail (fst L) = b" using rep_tail [of "snd L" "fst L" ys b y] a snoc p by simp
    moreover have "b \<noteq> 0" using rep_tail_zero [OF a(1)] \<open>l_tail (fst L) = b\<close> snoc by auto
    ultimately show ?thesis using a snoc p by (simp add: elem_data_def pvl_tail_def pvl_data_def)
  qed
qed

section \<open>Cursors\<close>

definition cursor :: "plist \<Rightarrow> nat \<Rightarrow> nat list \<Rightarrow> nat list \<Rightarrow> bool" where
  "cursor L e xs ys \<longleftrightarrow>
     (\<exists>axs bxs. pvl_rep (snd L) (fst L) (axs @ bxs) \<and> l_count (fst L) = int (length (axs @ bxs)) \<and>
        map snd axs = xs \<and> map snd bxs = ys \<and> e = (case bxs of [] \<Rightarrow> 0 | p # _ \<Rightarrow> fst p))"

lemma cursor_head: "plist_of L xs \<Longrightarrow> cursor L (pvl_head (fst L)) [] xs"
proof (elim plist_ofE)
  fix axs
  assume a: "pvl_rep (snd L) (fst L) axs" "l_count (fst L) = int (length axs)" "xs = map snd axs"
  have "l_head (fst L) = (case axs of [] \<Rightarrow> 0 | p # _ \<Rightarrow> fst p)"
    using rep_head_zero [OF a(1)] rep_head a(1) by (cases axs) (auto split: prod.splits)
  with a show ?thesis unfolding cursor_def pvl_head_def by (intro exI [of _ "[]"] exI [of _ axs]) simp
qed

lemma cursor_list: "cursor L e xs ys \<Longrightarrow> plist_of L (xs @ ys)"
  by (auto simp: cursor_def intro!: plist_ofI)

lemma cursor_zero: "cursor L e xs ys \<Longrightarrow> e = 0 \<longleftrightarrow> ys = []"
proof -
  assume "cursor L e xs ys"
  then obtain axs bxs where a: "pvl_rep (snd L) (fst L) (axs @ bxs)" "map snd bxs = ys"
    "e = (case bxs of [] \<Rightarrow> 0 | p # _ \<Rightarrow> fst p)" by (auto simp: cursor_def)
  have "chain (cells (snd L)) 0 (l_head (fst L)) (axs @ bxs) (l_tail (fst L)) 0"
    using a(1) by (simp add: pvl_rep_def)
  then have "0 \<notin> fst ` set (axs @ bxs)" by (rule chain_nonzero)
  with a show ?thesis by (cases bxs) force+
qed

lemma cursor_cell:
  assumes "cursor L e xs (y # ys)"
  shows "\<exists>c. cells (snd L) e = Some c \<and> e_data c = y \<and> cursor L (e_next c) (xs @ [y]) ys"
proof -
  obtain axs b bxs where a: "pvl_rep (snd L) (fst L) (axs @ (b, y) # bxs)"
    "l_count (fst L) = int (length (axs @ (b, y) # bxs))" "map snd axs = xs" "map snd bxs = ys" "e = b"
    using assms by (auto simp: cursor_def)
  then obtain c where c: "cells (snd L) b = Some c" "e_data c = y"
    "chain (cells (snd L)) b (e_next c) bxs (l_tail (fst L)) 0"
    by (auto simp: pvl_rep_def chain_split)
  have "e_next c = (case bxs of [] \<Rightarrow> 0 | p # _ \<Rightarrow> fst p)" using chain_start [OF c(3)] by simp
  then have "cursor L (e_next c) (xs @ [y]) ys"
    unfolding cursor_def using a by (intro exI [of _ "axs @ [(b, y)]"] exI [of _ bxs]) simp
  with c a show ?thesis by auto
qed

lemma cursor_next:
  assumes "cursor L e xs (y # ys)"
  shows "\<exists>e'. pvl_next e (snd L) = Some e' \<and> cursor L e' (xs @ [y]) ys" "elem_data e L = Some y" "e \<noteq> 0"
  using cursor_cell [OF assms] cursor_zero [OF assms] by (auto simp: pvl_next_def elem_data_def pvl_data_def)

lemma cursor_data: "cursor L e xs ys \<Longrightarrow> elem_data e L = Some (case ys of [] \<Rightarrow> 0 | y # _ \<Rightarrow> y)"
  using cursor_next(2) cursor_zero by (cases ys) (auto simp: elem_data_def pvl_data_def)

lemma cursor_remove:
  assumes "cursor L e xs (y # ys)"
  shows "\<exists>L'. remove_elem e L = Some L' \<and> plist_of L' (xs @ ys) \<and> (\<forall>e'. pvl_next e (snd L) = Some e' \<longrightarrow> cursor L' e' xs ys)"
proof -
  obtain axs b bxs where a: "pvl_rep (snd L) (fst L) (axs @ (b, y) # bxs)"
    "l_count (fst L) = int (length (axs @ (b, y) # bxs))" "map snd axs = xs" "map snd bxs = ys" "e = b"
    using assms by (auto simp: cursor_def)
  from rep_remove [OF a(1)] obtain L' h' where r: "pvl_remove (fst L) b (snd L) = Some (y, L', h')"
    "pvl_rep h' L' (axs @ bxs)" "l_count L' = l_count (fst L) - 1" by blast
  have n: "cursor (L', h') (case bxs of [] \<Rightarrow> 0 | p # _ \<Rightarrow> fst p) xs ys"
    unfolding cursor_def using r a by (intro exI [of _ axs] exI [of _ bxs]) auto
  have "pvl_next b (snd L) = Some (case bxs of [] \<Rightarrow> 0 | p # _ \<Rightarrow> fst p)"
    using a(1) by (auto simp: pvl_rep_def chain_split pvl_next_def dest!: chain_start split: list.splits)
  with n r a cursor_list [OF n] show ?thesis by (auto simp: remove_elem_def)
qed

lemma find_elem_law:
  assumes "cursor L e xs ys" "\<forall>y \<in> set ys. P y = Some (p y)"
  shows "\<exists>f. find_elem P e L = Some f \<and> cursor L f (xs @ takeWhile (\<lambda>y. \<not> p y) ys) (dropWhile (\<lambda>y. \<not> p y) ys)"
proof -
  have "length ys < n \<Longrightarrow> \<exists>f. find_from n P e (snd L) = Some f \<and>
      cursor L f (xs @ takeWhile (\<lambda>y. \<not> p y) ys) (dropWhile (\<lambda>y. \<not> p y) ys)" for n
    using assms
  proof (induction ys arbitrary: e xs n)
    case Nil
    then have "e = 0" using cursor_zero by blast
    with Nil show ?case by (cases n) auto
  next
    case (Cons y ys)
    obtain m where n: "n = Suc m" "length ys < m" using Cons.prems(1) by (cases n) auto
    obtain c where c: "cells (snd L) e = Some c" "e_data c = y" "cursor L (e_next c) (xs @ [y]) ys"
      using cursor_cell [OF Cons.prems(2)] by blast
    have "e \<noteq> 0" using cursor_next(3) [OF Cons.prems(2)] .
    with Cons.IH [OF n(2) c(3)] n c Cons.prems show ?case by auto
  qed
  moreover have "length ys < fresh (snd L)" using fuel_law [OF cursor_list [OF assms(1)]] by simp
  ultimately show ?thesis by (simp add: find_elem_def)
qed

end
