(* ===== verification/TreeRep.thy ===== *)
theory TreeRep
  imports ListLaws IcalComponent ValueRoundTrip
begin

text \<open>
  A component in the store is a tree: what the trees hold, which addresses they own, and that a tree
  depends on nothing else. Reading a tree moves iterators and may clear the error number; states that
  differ in these only are alike, and hold the same trees.
\<close>

section \<open>States that are alike\<close>

fun quiet :: "icalobject \<Rightarrow> icalobject" where
  "quiet (Prop r) = Prop (r\<lparr>pr_parameter_iterator := 0\<rparr>)"
| "quiet (Comp r) = Comp (r\<lparr>co_property_iterator := 0, co_component_iterator := 0\<rparr>)"
| "quiet x = x"

definition same_at :: "ical \<Rightarrow> ical \<Rightarrow> nat \<Rightarrow> bool" where
  "same_at st st' a \<longleftrightarrow> map_option quiet (i_objs st a) = map_option quiet (i_objs st' a)"

definition calm_env :: "value_env \<Rightarrow> value_env" where
  "calm_env env = env\<lparr>env_errs := (env_errs env)\<lparr>icalerrno := ICAL_NO_ERROR\<rparr>\<rparr>"

definition alike :: "ical \<Rightarrow> ical \<Rightarrow> bool" where
  "alike st st' \<longleftrightarrow> (\<forall>a. same_at st st' a) \<and> i_next st = i_next st' \<and> calm_env (i_env st) = calm_env (i_env st')"

lemma same_at_refl [simp]: "same_at st st a"
  by (simp add: same_at_def)

lemma alike_refl [simp]: "alike st st"
  by (simp add: alike_def)

lemma alike_sym: "alike st st' \<Longrightarrow> alike st' st"
  by (auto simp: alike_def same_at_def)

lemma alike_trans: "alike st st' \<Longrightarrow> alike st' st'' \<Longrightarrow> alike st st''"
  by (auto simp: alike_def same_at_def)

lemma alike_same_at: "alike st st' \<Longrightarrow> same_at st st' a"
  by (simp add: alike_def)

lemma with_error_state_same [simp]: "with_error_state (errs st) st = st"
  by (simp add: with_error_state_def errs_def)

lemma errs_with_error_state [simp]: "errs (with_error_state es st) = es"
  by (simp add: with_error_state_def errs_def)

lemma objs_with_error_state [simp]: "i_objs (with_error_state es st) = i_objs st" "i_next (with_error_state es st) = i_next st"
  by (simp_all add: with_error_state_def)

lemma at_with_error_state [simp]:
  "val_at a (with_error_state es st) = val_at a st" "para_at a (with_error_state es st) = para_at a st"
  "prop_at a (with_error_state es st) = prop_at a st" "comp_at a (with_error_state es st) = comp_at a st"
  by (simp_all add: val_at_def para_at_def prop_at_def comp_at_def)

lemma clear_errno_objs [simp]: "i_objs (clear_errno st) = i_objs st" "i_next (clear_errno st) = i_next st"
  by (simp_all add: clear_errno_def)

lemma at_clear_errno [simp]:
  "val_at a (clear_errno st) = val_at a st" "para_at a (clear_errno st) = para_at a st"
  "prop_at a (clear_errno st) = prop_at a st" "comp_at a (clear_errno st) = comp_at a st"
  by (simp_all add: clear_errno_def)

lemma alike_clear_errno [simp]: "alike st (clear_errno st)"
  by (simp add: alike_def same_at_def clear_errno_def with_error_state_def calm_env_def errs_def icalerror_clear_errno_def)

lemma quiet_cases:
  "quiet x = Prop r \<longleftrightarrow> (\<exists>r'. x = Prop r' \<and> r'\<lparr>pr_parameter_iterator := 0\<rparr> = r)"
  "quiet x = Comp c \<longleftrightarrow> (\<exists>c'. x = Comp c' \<and> c'\<lparr>co_property_iterator := 0, co_component_iterator := 0\<rparr> = c)"
  "quiet x = Val v \<longleftrightarrow> x = Val v" "quiet x = Para q \<longleftrightarrow> x = Para q"
  "Prop r = quiet x \<longleftrightarrow> (\<exists>r'. x = Prop r' \<and> r'\<lparr>pr_parameter_iterator := 0\<rparr> = r)"
  "Comp c = quiet x \<longleftrightarrow> (\<exists>c'. x = Comp c' \<and> c'\<lparr>co_property_iterator := 0, co_component_iterator := 0\<rparr> = c)"
  "Val v = quiet x \<longleftrightarrow> x = Val v" "Para q = quiet x \<longleftrightarrow> x = Para q"
  by (cases x; auto)+

lemma same_val: "same_at st st' a \<Longrightarrow> val_at a st' = val_at a st"
  by (cases "i_objs st a"; cases "i_objs st' a")
    (auto simp: same_at_def val_at_def quiet_cases split: icalobject.splits)

lemma same_para: "same_at st st' a \<Longrightarrow> para_at a st' = para_at a st"
  by (cases "i_objs st a"; cases "i_objs st' a")
    (auto simp: same_at_def para_at_def quiet_cases split: icalobject.splits)

lemma prop_at_iff [simp]: "prop_at a st = Some r \<longleftrightarrow> i_objs st a = Some (Prop r)"
  by (auto simp: prop_at_def split: option.splits icalobject.splits)

lemma comp_at_iff [simp]: "comp_at a st = Some r \<longleftrightarrow> i_objs st a = Some (Comp r)"
  by (auto simp: comp_at_def split: option.splits icalobject.splits)

lemma para_at_iff [simp]: "para_at a st = Some r \<longleftrightarrow> i_objs st a = Some (Para r)"
  by (auto simp: para_at_def split: option.splits icalobject.splits)

lemma val_at_iff [simp]: "val_at a st = Some r \<longleftrightarrow> i_objs st a = Some (Val r)"
  by (auto simp: val_at_def split: option.splits icalobject.splits)

lemma same_prop:
  assumes "same_at st st' a" "i_objs st a = Some (Prop r)"
  shows "\<exists>i. i_objs st' a = Some (Prop (r\<lparr>pr_parameter_iterator := i\<rparr>))"
proof -
  obtain r' where r': "i_objs st' a = Some (Prop r')" "r'\<lparr>pr_parameter_iterator := 0\<rparr> = r\<lparr>pr_parameter_iterator := 0\<rparr>"
    using assms by (cases "i_objs st' a") (auto simp: same_at_def quiet_cases)
  then have "r' = r\<lparr>pr_parameter_iterator := pr_parameter_iterator r'\<rparr>"
    by (cases r; cases r') simp
  with r' show ?thesis by metis
qed

lemma same_comp:
  assumes "same_at st st' a" "i_objs st a = Some (Comp r)"
  shows "\<exists>i j. i_objs st' a = Some (Comp (r\<lparr>co_property_iterator := i, co_component_iterator := j\<rparr>))"
proof -
  obtain r' where r': "i_objs st' a = Some (Comp r')"
    "r'\<lparr>co_property_iterator := 0, co_component_iterator := 0\<rparr> = r\<lparr>co_property_iterator := 0, co_component_iterator := 0\<rparr>"
    using assms by (cases "i_objs st' a") (auto simp: same_at_def quiet_cases)
  then have "r' = r\<lparr>co_property_iterator := co_property_iterator r', co_component_iterator := co_component_iterator r'\<rparr>"
    by (cases r; cases r') simp
  with r' show ?thesis by metis
qed

lemma same_simple:
  "same_at st st' a \<Longrightarrow> i_objs st a = Some (Val v) \<Longrightarrow> i_objs st' a = Some (Val v)"
  "same_at st st' a \<Longrightarrow> i_objs st a = Some (Para q) \<Longrightarrow> i_objs st' a = Some (Para q)"
  using same_val [of st st' a] same_para [of st st' a] by (metis val_at_iff, metis para_at_iff)

lemma alike_put_prop:
  "i_objs st p = Some (Prop r) \<Longrightarrow> alike st (put_obj p (Prop (r\<lparr>pr_parameter_iterator := i\<rparr>)) st)"
  by (simp add: alike_def same_at_def put_obj_def)

lemma alike_put_comp:
  "i_objs st c = Some (Comp r) \<Longrightarrow> alike st (put_obj c (Comp (r\<lparr>co_property_iterator := i\<rparr>)) st)"
  "i_objs st c = Some (Comp r) \<Longrightarrow> alike st (put_obj c (Comp (r\<lparr>co_component_iterator := i\<rparr>)) st)"
  by (simp_all add: alike_def same_at_def put_obj_def)

lemma put_obj_at [simp]: "i_objs (put_obj a x st) = (i_objs st)(a \<mapsto> x)" "i_next (put_obj a x st) = i_next st"
    "i_env (put_obj a x st) = i_env st" "errs (put_obj a x st) = errs st"
  by (simp_all add: put_obj_def errs_def)

section \<open>Trees\<close>

text \<open>A property with its parameters and its value, and a component, each with its addresses.\<close>

datatype aprop = AProp
  (ap_addr: nat) (ap_kind: icalproperty_kind) (ap_x_name: "string option")
  (ap_params: "(nat \<times> icalparameter) list") (ap_value: "(nat \<times> icalvalue) option")

datatype acomp = AComp
  (ac_addr: nat) (ac_kind: icalcomponent_kind) (ac_x_name: "string option")
  (ac_props: "aprop list") (ac_comps: "acomp list")

definition prop_addrs :: "aprop \<Rightarrow> nat list" where
  "prop_addrs P = ap_addr P # map fst (ap_params P) @ (case ap_value P of None \<Rightarrow> [] | Some (a, v) \<Rightarrow> [a])"

primrec comp_addrs :: "acomp \<Rightarrow> nat list" where
  "comp_addrs (AComp c k x ps cs) = c # concat (map prop_addrs ps) @ concat (map comp_addrs cs)"

definition value_ptr :: "(nat \<times> icalvalue) option \<Rightarrow> nat" where
  "value_ptr vo = (case vo of None \<Rightarrow> 0 | Some (a, v) \<Rightarrow> a)"

definition param_holds :: "ical \<Rightarrow> nat \<times> icalparameter \<Rightarrow> bool" where
  "param_holds st q \<longleftrightarrow> fst q \<noteq> 0 \<and> i_objs st (fst q) = Some (Para (snd q))"

definition value_holds :: "ical \<Rightarrow> (nat \<times> icalvalue) option \<Rightarrow> bool" where
  "value_holds st vo \<longleftrightarrow> (case vo of None \<Rightarrow> True | Some (a, v) \<Rightarrow> a \<noteq> 0 \<and> i_objs st a = Some (Val v))"

definition prop_row :: "nat \<Rightarrow> aprop \<Rightarrow> icalproperty \<Rightarrow> bool" where
  "prop_row c P r \<longleftrightarrow> pr_kind r = ap_kind P \<and> pr_x_name r = ap_x_name P \<and>
     plist_of (pr_parameters r) (map fst (ap_params P)) \<and> pr_value r = value_ptr (ap_value P) \<and> pr_parent r = c"

definition prop_holds :: "ical \<Rightarrow> nat \<Rightarrow> aprop \<Rightarrow> bool" where
  "prop_holds st c P \<longleftrightarrow> ap_addr P \<noteq> 0 \<and> (\<exists>r. i_objs st (ap_addr P) = Some (Prop r) \<and> prop_row c P r) \<and>
     list_all (param_holds st) (ap_params P) \<and> value_holds st (ap_value P)"

definition comp_row :: "nat \<Rightarrow> acomp \<Rightarrow> icalcomponent \<Rightarrow> bool" where
  "comp_row par T r \<longleftrightarrow> co_kind r = ac_kind T \<and> co_x_name r = ac_x_name T \<and> co_parent r = par \<and>
     plist_of (co_properties r) (map ap_addr (ac_props T)) \<and> plist_of (co_components r) (map ac_addr (ac_comps T))"

fun comp_holds :: "ical \<Rightarrow> nat \<Rightarrow> acomp \<Rightarrow> bool" where
  "comp_holds st par (AComp c k x ps cs) \<longleftrightarrow> c \<noteq> 0 \<and>
     (\<exists>r. i_objs st c = Some (Comp r) \<and> comp_row par (AComp c k x ps cs) r) \<and>
     list_all (prop_holds st c) ps \<and> (\<forall>T \<in> set cs. comp_holds st c T)"

lemma prop_row_iterator [simp]: "prop_row c P (r\<lparr>pr_parameter_iterator := i\<rparr>) = prop_row c P r"
  by (simp add: prop_row_def)

lemma comp_row_iterators [simp]:
  "comp_row par T (r\<lparr>co_property_iterator := i, co_component_iterator := j\<rparr>) = comp_row par T r"
  "comp_row par T (r\<lparr>co_property_iterator := i\<rparr>) = comp_row par T r"
  "comp_row par T (r\<lparr>co_component_iterator := i\<rparr>) = comp_row par T r"
  by (simp_all add: comp_row_def)

lemma param_holds_same: "param_holds st q \<Longrightarrow> same_at st st' (fst q) \<Longrightarrow> param_holds st' q"
  by (auto simp: param_holds_def dest: same_simple)

lemma prop_holds_same:
  assumes "prop_holds st c P" "\<forall>a \<in> set (prop_addrs P). same_at st st' a"
  shows "prop_holds st' c P"
proof -
  obtain r where r: "i_objs st (ap_addr P) = Some (Prop r)" "prop_row c P r"
    using assms(1) by (auto simp: prop_holds_def)
  have "same_at st st' (ap_addr P)" using assms(2) by (simp add: prop_addrs_def)
  from same_prop [OF this r(1)] r(2)
  have "\<exists>r. i_objs st' (ap_addr P) = Some (Prop r) \<and> prop_row c P r" by auto
  moreover have "list_all (param_holds st') (ap_params P)"
    using assms by (auto simp: prop_holds_def list_all_iff prop_addrs_def intro: param_holds_same)
  moreover have "value_holds st' (ap_value P)"
    using assms by (auto simp: prop_holds_def value_holds_def prop_addrs_def split: option.splits dest: same_simple)
  ultimately show ?thesis using assms(1) by (simp add: prop_holds_def)
qed

lemma comp_holds_same:
  assumes "comp_holds st par T" "\<forall>a \<in> set (comp_addrs T). same_at st st' a"
  shows "comp_holds st' par T"
  using assms
proof (induction T arbitrary: par)
  case (AComp c k x ps cs)
  from AComp.prems(1) obtain r where r: "i_objs st c = Some (Comp r)" "comp_row par (AComp c k x ps cs) r" by auto
  have "same_at st st' c" using AComp.prems(2) by simp
  from same_comp [OF this r(1)] r(2)
  have "\<exists>r. i_objs st' c = Some (Comp r) \<and> comp_row par (AComp c k x ps cs) r" by auto
  moreover have "prop_holds st' c P" if "P \<in> set ps" for P
    using AComp.prems that by (intro prop_holds_same [of st c P st']) (auto simp: list_all_iff)
  moreover have "comp_holds st' c T" if "T \<in> set cs" for T
    using AComp.IH [OF that, of c] AComp.prems that by auto
  ultimately show ?case using AComp.prems(1) by (simp add: list_all_iff)
qed

lemma prop_holds_alike: "prop_holds st c P \<Longrightarrow> alike st st' \<Longrightarrow> prop_holds st' c P"
  by (auto intro: prop_holds_same alike_same_at)

lemma comp_holds_alike: "comp_holds st par T \<Longrightarrow> alike st st' \<Longrightarrow> comp_holds st' par T"
  by (auto intro: comp_holds_same alike_same_at)

text \<open>A tree that owns each of its addresses once is not deeper than the store has addresses.\<close>

primrec depth :: "acomp \<Rightarrow> nat" where
  "depth (AComp c k x ps cs) = Suc (foldr max (map depth cs) 0)"

lemma foldr_max_le: "foldr max xs (0::nat) \<le> n \<longleftrightarrow> (\<forall>x \<in> set xs. x \<le> n)"
  by (induction xs) auto

lemma length_concat_ge: "x \<in> set xs \<Longrightarrow> length (f x) \<le> length (concat (map f xs))"
  by (induction xs) auto

lemma depth_le: "depth T \<le> length (comp_addrs T)"
proof (induction T)
  case (AComp c k x ps cs)
  then show ?case
    using length_concat_ge [of _ cs comp_addrs] by (fastforce simp: foldr_max_le)
qed

definition tree_in :: "ical \<Rightarrow> acomp \<Rightarrow> bool" where
  "tree_in st T \<longleftrightarrow> distinct (comp_addrs T) \<and> (\<forall>a \<in> set (comp_addrs T). a < i_next st)"

lemma tree_in_depth: "tree_in st T \<Longrightarrow> depth T \<le> i_next st"
proof -
  assume t: "tree_in st T"
  then have "set (comp_addrs T) \<subseteq> {..<i_next st}" by (auto simp: tree_in_def)
  then have "card (set (comp_addrs T)) \<le> card {..<i_next st}" by (rule card_mono [OF finite_lessThan])
  with t depth_le [of T] show ?thesis by (simp add: tree_in_def distinct_card)
qed

end
