(* ===== verification/TreePrint.thy ===== *)
theory TreePrint
  imports ValueLaws TreeRep LineLaws
begin

text \<open>
  The text of a tree, and that printing a component of the store gives it. First the names: those in
  the tables are of upper case letters, digits and dashes, and the look-up of a name gives the entry
  it stands in. Then parameters, properties and components.
\<close>

definition name_char :: "char \<Rightarrow> bool" where
  "name_char c \<longleftrightarrow> (let n = (of_char c :: nat) in 48 \<le> n \<and> n \<le> 57 \<or> 65 \<le> n \<and> n \<le> 90 \<or> n = 45)"

lemma property_names: "list_all (\<lambda>(_, s, _). s \<noteq> [] \<and> list_all name_char s) property_entries"
  by code_simp

lemma parameter_names: "list_all (\<lambda>(_, s). s \<noteq> [] \<and> list_all name_char s) parameter_entries"
  by code_simp

lemma enum_names: "list_all (\<lambda>(_, _, s). list_all name_char s) parameter_enum_entries"
  by code_simp

lemma value_names: "list_all (\<lambda>(_, s). s \<noteq> [] \<and> list_all name_char s) value_entries"
  by code_simp

lemma component_names: "list_all (\<lambda>(_, s). s \<noteq> [] \<and> list_all name_char s) component_entries"
  by code_simp

lemma property_names_distinct: "distinct (map (\<lambda>(_, s, _). s) property_entries)"
  by code_simp

lemma parameter_names_distinct: "distinct (map (\<lambda>(_, s). s) parameter_entries)"
  by code_simp

lemma enum_names_distinct: "distinct (map (\<lambda>(k, _, s). (k, s)) parameter_enum_entries)"
  by code_simp

lemma enum_codes_distinct: "distinct (map (\<lambda>(_, e, _). e) parameter_enum_entries)"
  by code_simp

section \<open>Looking names up\<close>

lemma name_char_upper: "name_char c \<Longrightarrow> not_lower c"
  by (auto simp: name_char_def not_lower_def Let_def)

lemma name_nul_free: "list_all name_char s \<Longrightarrow> nul_free s"
  by (auto simp: list_all_iff nul_free_codes name_char_def Let_def)

lemma name_case: "list_all name_char s \<Longrightarrow> list_all name_char t \<Longrightarrow> strcaseeq s t \<longleftrightarrow> s = t"
  by (intro strcaseeq_upper ballI name_char_upper) (simp_all add: list_all_iff)

lemma entry_names:
  "(k, s, v) \<in> set property_entries \<Longrightarrow> s \<noteq> [] \<and> list_all name_char s"
  "(pk, t) \<in> set parameter_entries \<Longrightarrow> t \<noteq> [] \<and> list_all name_char t"
  "(pk, e, u) \<in> set parameter_enum_entries \<Longrightarrow> list_all name_char u"
  "(vk, w) \<in> set value_entries \<Longrightarrow> w \<noteq> [] \<and> list_all name_char w"
  "(ck, x) \<in> set component_entries \<Longrightarrow> x \<noteq> [] \<and> list_all name_char x"
  using property_names parameter_names enum_names value_names component_names by (auto simp only: list_all_iff)

lemma find_distinct:
  assumes "x \<in> set xs" "P x" "\<And>y. y \<in> set xs \<Longrightarrow> P y \<Longrightarrow> y = x"
  shows "List.find P xs = Some x"
proof -
  obtain us vs where s: "xs = us @ x # vs" "x \<notin> set us" using assms(1) by (meson split_list_first)
  with assms(3) have "\<forall>u \<in> set us. \<not> P u" by (metis UnCI set_append)
  with assms(2) s show ?thesis by (simp add: find_first)
qed

lemma property_name_kind:
  assumes "(k, s, v) \<in> set property_entries"
  shows "icalproperty_string_to_kind (Some s) = k"
proof -
  have "List.find (\<lambda>(_, name, _). strcaseeq name s) property_entries = Some (k, s, v)"
  proof (rule find_distinct [OF assms])
    fix y
    assume y: "y \<in> set property_entries" "(\<lambda>(_, name, _). strcaseeq name s) y"
    obtain k' s' v' where y': "y = (k', s', v')" by (cases y)
    have "s' = s" using y y' entry_names(1) [of k' s' v'] entry_names(1) [OF assms] name_case [of s' s] by simp
    with y y' assms property_names_distinct show "y = (k, s, v)"
      by (auto simp: distinct_map dest!: inj_onD [of _ _ "(k', s', v')" "(k, s, v)"])
  qed (use entry_names(1) [OF assms] name_case [of s s] in simp)
  then show ?thesis by (simp add: icalproperty_string_to_kind_def)
qed

lemma parameter_name_kind:
  assumes "(k, s) \<in> set parameter_entries"
  shows "icalparameter_string_to_kind (Some s) = k"
proof -
  have "List.find (\<lambda>(_, name). strcaseeq name s) parameter_entries = Some (k, s)"
  proof (rule find_distinct [OF assms])
    fix y
    assume y: "y \<in> set parameter_entries" "(\<lambda>(_, name). strcaseeq name s) y"
    obtain k' s' where y': "y = (k', s')" by (cases y)
    have "s' = s" using y y' entry_names(2) [of k' s'] entry_names(2) [OF assms] name_case [of s' s] by simp
    with y y' assms parameter_names_distinct show "y = (k, s)"
      by (auto simp: distinct_map dest!: inj_onD [of _ _ "(k', s')" "(k, s)"])
  qed (use entry_names(2) [OF assms] name_case [of s s] in simp)
  then show ?thesis by (simp add: icalparameter_string_to_kind_def)
qed

lemma enum_name_entry:
  assumes "(k, e, s) \<in> set parameter_enum_entries"
  shows "List.find (\<lambda>(k', _, name). k' = k \<and> strcaseeq s name) parameter_enum_entries = Some (k, e, s)"
proof (rule find_distinct [OF assms])
  fix y
  assume y: "y \<in> set parameter_enum_entries" "(\<lambda>(k', _, name). k' = k \<and> strcaseeq s name) y"
  obtain e' s' where y': "y = (k, e', s')" using y(2) by (cases y) auto
  have "s' = s" using y y' entry_names(3) [of k e' s'] entry_names(3) [OF assms] name_case [of s s'] by simp
  with y y' assms enum_names_distinct show "y = (k, e, s)"
    by (auto simp: distinct_map dest!: inj_onD [of _ _ "(k, e', s')" "(k, e, s)"])
qed (use entry_names(3) [OF assms] name_case [of s s] in simp)

lemma enum_code_entry:
  assumes "(k, e, s) \<in> set parameter_enum_entries"
  shows "List.find (\<lambda>x. fst (snd x) = e) parameter_enum_entries = Some (k, e, s)"
proof (rule find_distinct [OF assms])
  fix y
  assume y: "y \<in> set parameter_enum_entries" "fst (snd y) = e"
  with assms enum_codes_distinct show "y = (k, e, s)"
    by (cases y) (auto simp: distinct_map dest!: inj_onD [of _ _ y "(k, e, s)"])
qed simp

text \<open>
  The text of a tree, and that the printing routines write it: they walk the lists of the store with
  iterators and give the lines of the tree, folded, and leave a state that is alike.
\<close>

section \<open>Walking over the parameters\<close>

lemma while_False [simp]: "dropWhile (\<lambda>y. False) ys = ys" "takeWhile (\<lambda>y. False) ys = []"
  by (cases ys; simp)+

lemma seek_parameter_law:
  assumes "i_objs st p = Some (Prop r)" "cursor (pr_parameters r) e xs ys"
    "\<forall>y \<in> set ys. param_kind_is kind st y = Some (t y)"
  shows "\<exists>f. seek_parameter p e kind st =
      Some (case dropWhile (\<lambda>y. \<not> t y) ys of [] \<Rightarrow> 0 | y # _ \<Rightarrow> y, put_obj p (Prop (r\<lparr>pr_parameter_iterator := f\<rparr>)) st) \<and>
    cursor (pr_parameters r) f (xs @ takeWhile (\<lambda>y. \<not> t y) ys) (dropWhile (\<lambda>y. \<not> t y) ys)"
proof -
  obtain f where f: "find_elem (param_kind_is kind st) e (pr_parameters r) = Some f"
    "cursor (pr_parameters r) f (xs @ takeWhile (\<lambda>y. \<not> t y) ys) (dropWhile (\<lambda>y. \<not> t y) ys)"
    using find_elem_law [OF assms(2,3)] by blast
  with cursor_data [OF f(2)] assms(1) show ?thesis
    by (auto simp: seek_parameter_def set_prop_def prop_at_def)
qed

lemma param_kind_any:
  "list_all (param_holds st) qs \<Longrightarrow> y \<in> fst ` set qs \<Longrightarrow> param_kind_is ICAL_ANY_PARAMETER st y = Some True"
  by (auto simp: list_all_iff param_holds_def param_kind_is_def icalparameter_isa_def)

text \<open>The parameter at the iterator, and the one behind it.\<close>

definition param_cursor :: "nat \<Rightarrow> ical \<Rightarrow> nat list \<Rightarrow> nat list \<Rightarrow> bool" where
  "param_cursor p st xs ys \<longleftrightarrow>
     (\<exists>r. i_objs st p = Some (Prop r) \<and> cursor (pr_parameters r) (pr_parameter_iterator r) xs ys)"

abbreviation hd0 :: "nat list \<Rightarrow> nat" where
  "hd0 ys \<equiv> (case ys of [] \<Rightarrow> 0 | y # _ \<Rightarrow> y)"

lemma first_parameter_law:
  assumes "prop_holds st c P" "\<forall>q \<in> set (ap_params P). t (fst q) \<longleftrightarrow> (pa_kind (snd q) = kind \<or> kind = ICAL_ANY_PARAMETER)"
  shows "\<exists>st'. icalproperty_get_first_parameter (ap_addr P) kind st =
      Some (hd0 (dropWhile (\<lambda>y. \<not> t y) (map fst (ap_params P))), st') \<and> alike st st' \<and> i_env st' = i_env st \<and>
    param_cursor (ap_addr P) st' (takeWhile (\<lambda>y. \<not> t y) (map fst (ap_params P)))
      (dropWhile (\<lambda>y. \<not> t y) (map fst (ap_params P)))"
proof -
  obtain r where r: "i_objs st (ap_addr P) = Some (Prop r)" "prop_row c P r" using assms(1) by (auto simp: prop_holds_def)
  have "cursor (pr_parameters r) (pvl_head (fst (pr_parameters r))) [] (map fst (ap_params P))"
    using r(2) by (auto simp: prop_row_def intro: cursor_head)
  moreover have "\<forall>y \<in> set (map fst (ap_params P)). param_kind_is kind st y = Some (t y)"
    using assms by (auto simp: prop_holds_def list_all_iff param_holds_def param_kind_is_def icalparameter_isa_def)
  ultimately obtain f where f: "seek_parameter (ap_addr P) (pvl_head (fst (pr_parameters r))) kind st =
      Some (hd0 (dropWhile (\<lambda>y. \<not> t y) (map fst (ap_params P))), put_obj (ap_addr P) (Prop (r\<lparr>pr_parameter_iterator := f\<rparr>)) st)"
    "cursor (pr_parameters r) f (takeWhile (\<lambda>y. \<not> t y) (map fst (ap_params P)))
      (dropWhile (\<lambda>y. \<not> t y) (map fst (ap_params P)))"
    using seek_parameter_law [OF r(1)] by fastforce
  have "icalproperty_get_first_parameter (ap_addr P) kind st =
      Some (hd0 (dropWhile (\<lambda>y. \<not> t y) (map fst (ap_params P))), put_obj (ap_addr P) (Prop (r\<lparr>pr_parameter_iterator := f\<rparr>)) st)"
    using f(1) r(1) assms(1) by (simp add: icalproperty_get_first_parameter_def prop_holds_def prop_at_def)
  then show ?thesis
    using f(2) alike_put_prop [OF r(1), of f]
    by (intro exI [of _ "put_obj (ap_addr P) (Prop (r\<lparr>pr_parameter_iterator := f\<rparr>)) st"]) (simp add: param_cursor_def)
qed

lemma next_parameter_law:
  assumes "param_cursor p st xs (y # ys)" "p \<noteq> 0" "\<forall>z \<in> set ys. param_kind_is ICAL_ANY_PARAMETER st z = Some True"
  shows "\<exists>st'. icalproperty_get_next_parameter p ICAL_ANY_PARAMETER st = Some (hd0 ys, st') \<and> alike st st' \<and>
    i_env st' = i_env st \<and> param_cursor p st' (xs @ [y]) ys"
proof -
  obtain r where r: "i_objs st p = Some (Prop r)" "cursor (pr_parameters r) (pr_parameter_iterator r) xs (y # ys)"
    using assms(1) by (auto simp: param_cursor_def)
  obtain e where e: "pvl_next (pr_parameter_iterator r) (snd (pr_parameters r)) = Some e"
    "cursor (pr_parameters r) e (xs @ [y]) ys" using cursor_next(1) [OF r(2)] by blast
  obtain f where f: "seek_parameter p e ICAL_ANY_PARAMETER st =
      Some (hd0 ys, put_obj p (Prop (r\<lparr>pr_parameter_iterator := f\<rparr>)) st)" "cursor (pr_parameters r) f (xs @ [y]) ys"
    using seek_parameter_law [OF r(1) e(2), of ICAL_ANY_PARAMETER "\<lambda>_. True"] assms(3)
    by auto
  have "icalproperty_get_next_parameter p ICAL_ANY_PARAMETER st =
      Some (hd0 ys, put_obj p (Prop (r\<lparr>pr_parameter_iterator := f\<rparr>)) st)"
    using f(1) e r assms(2) cursor_next(3) [OF r(2)] by (simp add: icalproperty_get_next_parameter_def prop_at_def)
  then show ?thesis
    using f(2) alike_put_prop [OF r(1), of f]
    by (intro exI [of _ "put_obj p (Prop (r\<lparr>pr_parameter_iterator := f\<rparr>)) st"]) (simp add: param_cursor_def)
qed

section \<open>The text of a parameter\<close>

definition enum_txt :: "int \<Rightarrow> string option" where
  "enum_txt e = map_option (\<lambda>(_, _, s). s) (List.find (\<lambda>x. fst (snd x) = e) parameter_enum_entries)"

definition param_txt :: "icalparameter \<Rightarrow> string" where
  "param_txt q =
     (if pa_kind q = ICAL_X_PARAMETER then the (pa_x_name q) else the (icalparameter_kind_to_string (pa_kind q))) @ ''='' @
     (case pa_string q of
        Some s \<Rightarrow> if needs_quotes s then [DQUOTE] @ s @ [DQUOTE] else s
      | None \<Rightarrow> the (enum_txt (pa_data q)))"

definition printable_param :: "icalparameter \<Rightarrow> bool" where
  "printable_param q \<longleftrightarrow>
     (if pa_kind q = ICAL_X_PARAMETER then pa_x_name q \<noteq> None \<and> nul_free (the (pa_x_name q))
      else pa_kind q \<noteq> ICAL_NO_PARAMETER \<and> pa_kind q \<noteq> ICAL_ANY_PARAMETER \<and> icalparameter_kind_to_string (pa_kind q) \<noteq> None) \<and>
     (case pa_string q of
        Some s \<Rightarrow> nul_free s
      | None \<Rightarrow> ICALPARAMETER_FIRST_ENUM \<le> pa_data q \<and> pa_data q \<le> ICALPARAMETER_LAST_ENUM \<and> enum_txt (pa_data q) \<noteq> None)"

lemma find_SomeD: "List.find P xs = Some x \<Longrightarrow> x \<in> set xs \<and> P x"
  by (induction xs) (auto split: if_splits)

lemma names_nul_free [simp]:
  "icalparameter_kind_to_string k = Some s \<Longrightarrow> nul_free s"
  "enum_txt e = Some s \<Longrightarrow> nul_free s"
  "icalvalue_kind_to_string vk = Some s \<Longrightarrow> nul_free s"
  "icalproperty_kind_to_string pk = Some s \<Longrightarrow> nul_free s"
  "icalcomponent_kind_to_string ck = Some s \<Longrightarrow> nul_free s"
  using entry_names
  by (fastforce simp: icalparameter_kind_to_string_def enum_txt_def icalvalue_kind_to_string_def icalproperty_kind_to_string_def
      icalcomponent_kind_to_string_def dest!: find_SomeD intro: name_nul_free)+

lemma writes_put_text: "nul_free s \<Longrightarrow> rw.writes es (put_text (Some s)) s"
  by (rule rw.writesI)

lemma writes_param_value:
  assumes "printable_param q"
  shows "rw.writes es (put_param_value q) (case pa_string q of
        Some s \<Rightarrow> if needs_quotes s then [DQUOTE] @ s @ [DQUOTE] else s
      | None \<Rightarrow> the (enum_txt (pa_data q)))"
proof (cases "pa_string q")
  case None
  then have e: "ICALPARAMETER_FIRST_ENUM \<le> pa_data q" "pa_data q \<le> ICALPARAMETER_LAST_ENUM" "enum_txt (pa_data q) \<noteq> None"
    using assms by (simp_all add: printable_param_def)
  then obtain s where s: "enum_txt (pa_data q) = Some s" by auto
  have "put_param_value q w = put_text (Some s) w" if "snd w = es" for w
    using None e s that by (cases w) (auto simp: put_param_value_def icalparameter_enum_to_string_def enum_txt_def)
  then show ?thesis
    using writes_put_text [of s es] names_nul_free(2) [OF s] None s by (auto simp: rw.writes_def)
next
  case (Some s)
  have n: "nul_free s" using assms Some by (simp add: printable_param_def)
  have d: "DQUOTE \<noteq> NUL" by (simp add: DQUOTE_def NUL_def)
  show ?thesis
  proof (cases "needs_quotes s")
    case True
    have "rw.writes es (\<lambda>w. Option.bind (put_char DQUOTE w) (\<lambda>w1. Option.bind (put_text (Some s) w1) (put_char DQUOTE)))
        ([DQUOTE] @ s @ [DQUOTE])"
      by (intro rw.writes_seq rw.writes_char rw.writesI n d)
    then show ?thesis using Some True by (simp add: put_param_value_def [abs_def])
  next
    case False
    then show ?thesis using Some writes_put_text [OF n] by (simp add: put_param_value_def [abs_def])
  qed
qed

lemma parameter_text_law:
  assumes "printable_param q"
  shows "parameter_text q es = Some (Some (param_txt q), es)"
proof -
  define n where "n = (if pa_kind q = ICAL_X_PARAMETER then the (pa_x_name q) else the (icalparameter_kind_to_string (pa_kind q)))"
  have n: "nul_free n" "(if pa_kind q = ICAL_X_PARAMETER then pa_x_name q else icalparameter_kind_to_string (pa_kind q)) = Some n"
    using assms by (auto simp: printable_param_def n_def)
  have w: "rw.writes es (\<lambda>w. Option.bind (put_text (Some n) w) (\<lambda>w1. Option.bind (put_text (Some ''='') w1) (put_param_value q)))
      (param_txt q)"
    using rw.writes_seq [OF writes_put_text [OF n(1)] rw.writes_seq [OF writes_put_text [of "''=''"] writes_param_value [OF assms]]]
    unfolding param_txt_def n_def by simp
  obtain b where b: "Option.bind (put_text (Some n) (icalmemory_new_buffer 1024, es))
      (\<lambda>w1. Option.bind (put_text (Some ''='') w1) (put_param_value q)) = Some (b, es)" "sb_text b = param_txt q"
    using rw.writesD [OF w, of "(icalmemory_new_buffer 1024, es)"] new_buffer_ok [of 1024] by auto
  have "\<not> (pa_string q = None \<and> pa_data q = 0)"
    using assms by (auto simp: printable_param_def ICALPARAMETER_FIRST_ENUM_def split: option.splits)
  moreover have "\<not> (pa_kind q \<noteq> ICAL_X_PARAMETER \<and> (pa_kind q = ICAL_NO_PARAMETER \<or> pa_kind q = ICAL_ANY_PARAMETER))"
    using assms by (auto simp: printable_param_def)
  ultimately show ?thesis
    using b n(2) by (auto simp: parameter_text_def Let_def split: bind_splits)
qed

section \<open>The text of a property\<close>

lemma write_text_law:
  assumes "sb_ok b" "nul_free s"
  shows "\<exists>b'. write_text (Some s) (b, st) = Some (b', st) \<and> sb_ok b' \<and> sb_text b' = sb_text b @ s"
  using rw.writesD [OF writes_put_text [OF assms(2), of "errs st"], of "(b, errs st)"] assms(1)
  by (auto simp: write_text_def)

definition param_clause :: "icalparameter \<Rightarrow> string" where
  "param_clause q = (if pa_kind q = ICAL_VALUE_PARAMETER then [] else '';'' @ param_txt q)"

lemma param_txt_nul_free: "printable_param q \<Longrightarrow> nul_free (param_txt q)"
  using rw.writesD [of undefined]
  by (auto simp: printable_param_def param_txt_def DQUOTE_def split: option.splits if_splits)

lemma write_parameters_law:
  assumes "prop_holds st c P" "ap_params P = us @ qs" "param_cursor (ap_addr P) st (map fst us) (map fst qs)"
    "\<forall>q \<in> set qs. printable_param (snd q)" "length qs < n" "sb_ok b"
  shows "\<exists>b' st'. write_parameters n (ap_addr P) (hd0 (map fst qs)) (b, st) = Some (b', st') \<and> alike st st' \<and>
    sb_ok b' \<and> sb_text b' = sb_text b @ concat (map (param_clause \<circ> snd) qs)"
  using assms
proof (induction qs arbitrary: us st b n)
  case Nil
  then show ?case by (cases n) auto
next
  case (Cons q qs)
  obtain m where n: "n = Suc m" "length qs < m" using Cons.prems(5) by (cases n) auto
  have q: "fst q \<noteq> 0" "i_objs st (fst q) = Some (Para (snd q))" and pr: "printable_param (snd q)"
    using Cons.prems(1,2,4) by (auto simp: prop_holds_def param_holds_def list_all_iff)
  have isa: "icalparameter_isa (fst q) st = Some (pa_kind (snd q))" using q by (simp add: icalparameter_isa_def)
  have ptx: "icalparameter_as_ical_string_r (fst q) st = Some (Some (param_txt (snd q)), st)"
    using q parameter_text_law [OF pr] by (simp add: icalparameter_as_ical_string_r_def para_at_def)
  let ?w = "if pa_kind (snd q) = ICAL_VALUE_PARAMETER then Some (b, st)
      else Option.bind (write_text (Some '';'') (b, st)) (write_text (Some (param_txt (snd q))))"
  obtain b1 where b1: "?w = Some (b1, st)" "sb_ok b1" "sb_text b1 = sb_text b @ param_clause (snd q)"
  proof (cases "pa_kind (snd q) = ICAL_VALUE_PARAMETER")
    case True
    with Cons.prems(6) that show ?thesis by (simp add: param_clause_def)
  next
    case False
    obtain b0 where b0: "write_text (Some '';'') (b, st) = Some (b0, st)" "sb_ok b0" "sb_text b0 = sb_text b @ '';''"
      using write_text_law [OF Cons.prems(6), of "'';''" st] by auto
    with write_text_law [OF b0(2) param_txt_nul_free [OF pr], of st] False that show ?thesis
      by (auto simp: param_clause_def)
  qed
  have "\<forall>z \<in> set (map fst qs). param_kind_is ICAL_ANY_PARAMETER st z = Some True"
    using Cons.prems(1,2) by (auto simp: prop_holds_def intro!: param_kind_any [of st "ap_params P"])
  then obtain st1 where st1: "icalproperty_get_next_parameter (ap_addr P) ICAL_ANY_PARAMETER st = Some (hd0 (map fst qs), st1)"
    "alike st st1" "param_cursor (ap_addr P) st1 (map fst us @ [fst q]) (map fst qs)"
    using next_parameter_law [of "ap_addr P" st "map fst us" "fst q" "map fst qs"] Cons.prems(1,3) by (auto simp: prop_holds_def)
  obtain b' st' where r: "write_parameters m (ap_addr P) (hd0 (map fst qs)) (b1, st1) = Some (b', st')" "alike st1 st'"
    "sb_ok b'" "sb_text b' = sb_text b1 @ concat (map (param_clause \<circ> snd) qs)"
    using Cons.IH [of st1 "us @ [q]" m b1] Cons.prems st1 n(2) b1(2) prop_holds_alike [OF Cons.prems(1) st1(2)]
    by (auto simp: comp_def)
  have "write_parameters n (ap_addr P) (hd0 (map fst (q # qs))) (b, st) = Some (b', st')"
    using n q(1) isa ptx b1(1) st1(1) r(1) by (auto split: if_splits bind_splits)
  with r b1 alike_trans [OF st1(2) r(2)] show ?case by (auto simp: comp_def)
qed

text \<open>The kind behind VALUE: that of the parameter, or of the value if it is not the default of the property.\<close>

definition value_param_kind :: "icalparameter \<Rightarrow> icalvalue_kind" where
  "value_param_kind q = icalparameter_value_to_value_kind (if pa_string q = None then pa_data q else 20061)"

definition given_kind :: "aprop \<Rightarrow> icalvalue_kind" where
  "given_kind P = (case List.find (\<lambda>q. pa_kind (snd q) = ICAL_VALUE_PARAMETER) (ap_params P) of
     None \<Rightarrow> ICAL_NO_VALUE | Some q \<Rightarrow> value_param_kind (snd q))"

definition kind_of_value :: "aprop \<Rightarrow> icalvalue_kind" where
  "kind_of_value P = (case ap_value P of None \<Rightarrow> ICAL_NO_VALUE | Some (_, v) \<Rightarrow> v_kind v)"

definition value_clause :: "aprop \<Rightarrow> string option" where
  "value_clause P =
     (if given_kind P \<noteq> ICAL_NO_VALUE then icalvalue_kind_to_string (given_kind P)
      else if kind_of_value P \<noteq> icalproperty_kind_to_value_kind (ap_kind P) \<and> kind_of_value P \<noteq> ICAL_NO_VALUE
      then icalvalue_kind_to_string (kind_of_value P) else None)"

definition prop_name :: "aprop \<Rightarrow> string option" where
  "prop_name P =
     (if ap_kind P = ICAL_X_PROPERTY \<and> ap_x_name P \<noteq> None then ap_x_name P else icalproperty_kind_to_string (ap_kind P))"

definition printable_value :: "icalvalue \<Rightarrow> bool" where
  "printable_value v \<longleftrightarrow>
     (if v_kind v = ICAL_X_VALUE then v_x_value v \<noteq> None else v_x_value v = None \<and> printable_data (v_kind v) (v_data v))"

definition value_txt :: "icalvalue \<Rightarrow> string" where
  "value_txt v = (if v_kind v = ICAL_X_VALUE then the (v_x_value v) else data_text (v_kind v) (v_data v))"

definition prop_value_txt :: "aprop \<Rightarrow> string" where
  "prop_value_txt P = (case ap_value P of None \<Rightarrow> ''ERROR: No Value'' | Some (_, v) \<Rightarrow> value_txt v)"

definition prop_line :: "aprop \<Rightarrow> string" where
  "prop_line P = the (prop_name P) @ (case value_clause P of None \<Rightarrow> [] | Some s \<Rightarrow> '';VALUE='' @ s) @
     concat (map (param_clause \<circ> snd) (ap_params P)) @ '':'' @ prop_value_txt P"

definition printable_prop :: "aprop \<Rightarrow> bool" where
  "printable_prop P \<longleftrightarrow> prop_name P \<noteq> None \<and> nul_free (the (prop_name P)) \<and> list_all (printable_param \<circ> snd) (ap_params P) \<and>
     (case ap_value P of None \<Rightarrow> True | Some (_, v) \<Rightarrow> printable_value v) \<and> nul_free (prop_value_txt P)"

lemma as_string_parent:
  "icalvalue_as_ical_string_r (Some (v\<lparr>v_parent := p, v_size := n\<rparr>)) env = icalvalue_as_ical_string_r (Some v) env"
  by (cases "v_kind v")
    (simp_all add: icalvalue_as_ical_string_r_def icalvalue_attach_as_ical_string_r_def [abs_def] icalvalue_binary_as_ical_string_r_def [abs_def]
      icalvalue_int_as_ical_string_r_def [abs_def] icalvalue_utcoffset_as_ical_string_r_def [abs_def] icalvalue_text_as_ical_string_r_def [abs_def]
      icalvalue_string_as_ical_string_r_def [abs_def] icalvalue_date_as_ical_string_r_def [abs_def] icalvalue_datetime_as_ical_string_r_def [abs_def]
      icalvalue_duration_as_ical_string_r_def [abs_def] icalvalue_period_as_ical_string_r_def [abs_def] icalvalue_datetimeperiod_as_ical_string_r_def [abs_def]
      icalvalue_float_as_ical_string_r_def [abs_def] icalvalue_geo_as_ical_string_r_def [abs_def] icalvalue_recur_as_ical_string_r_def [abs_def]
      icalvalue_trigger_as_ical_string_r_def [abs_def] enum_as_string_def [abs_def]
      icalvalue_get_datetimeperiod_def [abs_def] icalvalue_get_trigger_def [abs_def] icalvalue_get_attach_def [abs_def]
      icalvalue_get_datetime_def [abs_def] icalvalue_get_period_def [abs_def] icalvalue_get_date_def [abs_def]
      icalvalue_get_duration_def [abs_def] icalvalue_get_float_def [abs_def] icalvalue_get_geo_def [abs_def]
      icalvalue_get_integer_def [abs_def] icalvalue_get_utcoffset_def [abs_def] cong: option.case_cong)

lemma value_txt_law:
  assumes "printable_value v"
  shows "icalvalue_as_ical_string_r (Some v) env = Some (Some (value_txt v), env)"
proof (cases "v_kind v = ICAL_X_VALUE")
  case True
  with assms show ?thesis by (auto simp: icalvalue_as_ical_string_r_def value_txt_def printable_value_def)
next
  case False
  have "v = (plain_value (v_kind v) (v_data v))\<lparr>v_parent := v_parent v, v_size := v_size v\<rparr>"
    using False assms by (cases v) (simp add: plain_value_def printable_value_def)
  then have "icalvalue_as_ical_string_r (Some v) env = icalvalue_as_ical_string_r (Some (plain_value (v_kind v) (v_data v))) env"
    using as_string_parent by metis
  with data_as_string False assms show ?thesis by (simp add: printable_value_def value_txt_def)
qed

lemma hd0_find:
  "\<forall>q \<in> set qs. t (fst q) \<longleftrightarrow> Q q \<Longrightarrow>
     hd0 (dropWhile (\<lambda>y. \<not> t y) (map fst qs)) = (case List.find Q qs of None \<Rightarrow> 0 | Some q \<Rightarrow> fst q)"
  by (induction qs) auto

lemma get_enum_parameter_law:
  "i_objs st a = Some (Para q) \<Longrightarrow>
     icalparameter_get_value a st = Some (if pa_string q = None then pa_data q else 20061, clear_errno st)"
  by (auto simp: icalparameter_get_value_def get_enum_parameter_def Let_def para_at_def split: option.splits)

lemma get_value_kind_law:
  assumes "prop_holds st c P"
  shows "\<exists>st'. icalproperty_get_value_kind (ap_addr P) st = Some (value_clause P, st') \<and> alike st st'"
proof -
  define t where "t y = (\<exists>r. i_objs st y = Some (Para r) \<and> pa_kind r = ICAL_VALUE_PARAMETER)" for y
  have ph: "fst q \<noteq> 0 \<and> i_objs st (fst q) = Some (Para (snd q))" if "q \<in> set (ap_params P)" for q
    using assms that by (auto simp: prop_holds_def list_all_iff param_holds_def)
  then have t: "\<forall>q \<in> set (ap_params P). t (fst q) \<longleftrightarrow> pa_kind (snd q) = ICAL_VALUE_PARAMETER"
    by (auto simp: t_def)
  obtain st1 where st1: "icalproperty_get_first_parameter (ap_addr P) ICAL_VALUE_PARAMETER st =
      Some (case List.find (\<lambda>q. pa_kind (snd q) = ICAL_VALUE_PARAMETER) (ap_params P) of None \<Rightarrow> 0 | Some q \<Rightarrow> fst q, st1)"
    "alike st st1"
    using first_parameter_law [OF assms, of t ICAL_VALUE_PARAMETER] t hd0_find [OF t] by auto
  note h1 = prop_holds_alike [OF assms st1(2)]
  obtain r where r: "i_objs st1 (ap_addr P) = Some (Prop r)" "prop_row c P r" "ap_addr P \<noteq> 0" using h1 by (auto simp: prop_holds_def)
  have gv: "icalproperty_get_value (ap_addr P) st1 = Some (value_ptr (ap_value P), st1)"
    using r by (simp add: icalproperty_get_value_def prop_at_def prop_row_def)
  have isa: "value_isa (value_ptr (ap_value P)) st' = Some (kind_of_value P)"
    if "value_ptr (ap_value P) \<noteq> 0" "alike st1 st'" for st'
    using prop_holds_alike [OF h1 that(2)] that(1)
    by (auto simp: prop_holds_def value_holds_def value_ptr_def value_isa_def kind_of_value_def icalvalue_isa_def val_at_def split: option.splits)
  have zero: "value_ptr (ap_value P) = 0 \<Longrightarrow> kind_of_value P = ICAL_NO_VALUE"
    using h1 by (auto simp: prop_holds_def value_holds_def value_ptr_def kind_of_value_def split: option.splits)
  show ?thesis
  proof (cases "List.find (\<lambda>q. pa_kind (snd q) = ICAL_VALUE_PARAMETER) (ap_params P)")
    case None
    then show ?thesis
      using st1 gv r isa [of st1] zero
      by (auto simp: icalproperty_get_value_kind_def prop_at_def value_clause_def given_kind_def prop_row_def)
  next
    case (Some q)
    then have q: "q \<in> set (ap_params P)" by (auto dest: find_SomeD)
    have "i_objs st1 (fst q) = Some (Para (snd q))" using ph [OF q] same_simple(2) alike_same_at [OF st1(2)] by blast
    note e = get_enum_parameter_law [OF this]
    have k: "given_kind P = icalparameter_value_to_value_kind (if pa_string (snd q) = None then pa_data (snd q) else 20061)"
      using Some by (simp add: given_kind_def value_param_kind_def)
    have "alike st (clear_errno st1)" using alike_trans [OF st1(2) alike_clear_errno] .
    then show ?thesis
      using Some st1 gv r isa [of "clear_errno st1"] zero e ph [OF q] k
      by (auto simp: icalproperty_get_value_kind_def prop_at_def value_clause_def prop_row_def)
  qed
qed

lemma in_env_same: "f (i_env st) = Some (x, i_env st) \<Longrightarrow> in_env f st = Some (x, st)"
  by (simp add: in_env_def)

lemma write_value_law:
  assumes "prop_holds st c P" "printable_prop P" "sb_ok b"
  shows "\<exists>b'. write_value (ap_addr P) (b, st) = Some (b', st) \<and> sb_ok b' \<and> sb_text b' = sb_text b @ prop_value_txt P"
proof -
  obtain r where r: "i_objs st (ap_addr P) = Some (Prop r)" "prop_row c P r" "ap_addr P \<noteq> 0" using assms(1) by (auto simp: prop_holds_def)
  have gv: "icalproperty_get_value (ap_addr P) st = Some (value_ptr (ap_value P), st)"
    using r by (simp add: icalproperty_get_value_def prop_at_def prop_row_def)
  have n: "nul_free (prop_value_txt P)" using assms(2) by (simp add: printable_prop_def)
  obtain b' where b': "write_text (Some (prop_value_txt P)) (b, st) = Some (b', st)" "sb_ok b'" "sb_text b' = sb_text b @ prop_value_txt P"
    using write_text_law [OF assms(3) n] by blast
  show ?thesis
  proof (cases "ap_value P")
    case None
    with b' gv show ?thesis by (simp add: write_value_def value_ptr_def prop_value_txt_def)
  next
    case (Some x)
    obtain a v where x: "x = (a, v)" by force
    have v: "a \<noteq> 0" "i_objs st a = Some (Val v)" "printable_value v"
      using assms(1,2) Some x by (simp_all add: prop_holds_def value_holds_def printable_prop_def)
    have "value_string_at a st = Some (Some (value_txt v), st)"
      using v value_txt_law [OF v(3)] by (simp add: value_string_at_def val_at_def in_env_same)
    with b' gv v(1) Some x show ?thesis by (simp add: write_value_def value_ptr_def prop_value_txt_def)
  qed
qed

text \<open>The property is printed as its line, folded.\<close>

lemma property_as_string:
  assumes "prop_holds st c P" "printable_prop P"
  shows "\<exists>st'. icalproperty_as_ical_string_r (ap_addr P) st = Some (Some (folded True (prop_line P @ CRLF)), st') \<and> alike st st'"
proof -
  obtain n where n: "prop_name P = Some n" "nul_free n" using assms(2) by (auto simp: printable_prop_def)
  obtain r where r: "i_objs st (ap_addr P) = Some (Prop r)" "prop_row c P r" "ap_addr P \<noteq> 0" using assms(1) by (auto simp: prop_holds_def)
  have nm: "property_name r = Some n" using r(2) n by (auto simp: property_name_def prop_name_def prop_row_def split: if_splits)
  obtain b1 where b1: "write_text (Some n) (icalmemory_new_buffer 1024, st) = Some (b1, st)" "sb_ok b1" "sb_text b1 = n"
    using write_text_law [OF _ n(2), of "icalmemory_new_buffer 1024" st] new_buffer_ok [of 1024] by auto
  obtain st2 where st2: "icalproperty_get_value_kind (ap_addr P) st = Some (value_clause P, st2)" "alike st st2"
    using get_value_kind_law [OF assms(1)] by blast
  note h2 = prop_holds_alike [OF assms(1) st2(2)]
  obtain b3 where b3: "(if value_clause P = None then Some (b1, st2)
      else Option.bind (write_text (Some '';VALUE='') (b1, st2)) (write_text (value_clause P))) = Some (b3, st2)" "sb_ok b3"
    "sb_text b3 = n @ (case value_clause P of None \<Rightarrow> [] | Some s \<Rightarrow> '';VALUE='' @ s)"
  proof (cases "value_clause P")
    case None
    with b1 that show ?thesis by simp
  next
    case (Some s)
    then have s: "nul_free s" by (auto simp: value_clause_def split: if_splits)
    obtain b2 where b2: "write_text (Some '';VALUE='') (b1, st2) = Some (b2, st2)" "sb_ok b2" "sb_text b2 = n @ '';VALUE=''"
      using write_text_law [OF b1(2), of "'';VALUE=''" st2] b1(3) by auto
    with write_text_law [OF b2(2) s, of st2] Some that show ?thesis by auto
  qed
  obtain st4 where st4: "icalproperty_get_first_parameter (ap_addr P) ICAL_ANY_PARAMETER st2 = Some (hd0 (map fst (ap_params P)), st4)"
    "alike st2 st4" "param_cursor (ap_addr P) st4 [] (map fst (ap_params P))"
    using first_parameter_law [OF h2, of "\<lambda>_. True" ICAL_ANY_PARAMETER] by auto
  note h4 = prop_holds_alike [OF h2 st4(2)]
  have len: "length (ap_params P) < fresh (snd (pr_parameters r))"
    using fuel_law r(2) by (fastforce simp: prop_row_def)
  have par: "\<forall>q \<in> set (ap_params P). printable_param (snd q)"
    using assms(2) by (simp add: printable_prop_def list_all_iff)
  obtain b5 st5 where st5: "write_parameters (fresh (snd (pr_parameters r))) (ap_addr P) (hd0 (map fst (ap_params P))) (b3, st4) = Some (b5, st5)"
    "alike st4 st5" "sb_ok b5" "sb_text b5 = sb_text b3 @ concat (map (param_clause \<circ> snd) (ap_params P))"
    using write_parameters_law [OF h4 _ _ par len b3(2), of "[]"] st4(3) by auto
  note h5 = prop_holds_alike [OF h4 st5(2)]
  obtain b6 where b6: "write_text (Some '':'') (b5, st5) = Some (b6, st5)" "sb_ok b6" "sb_text b6 = sb_text b5 @ '':''"
    using write_text_law [OF st5(3), of "'':''" st5] by auto
  obtain b7 where b7: "write_value (ap_addr P) (b6, st5) = Some (b7, st5)" "sb_ok b7" "sb_text b7 = sb_text b6 @ prop_value_txt P"
    using write_value_law [OF h5 assms(2) b6(2)] by blast
  have crlf: "nul_free [CR, LF]" by (simp add: CR_def LF_def)
  obtain b8 where b8: "write_text (Some [CR, LF]) (b7, st5) = Some (b8, st5)" "sb_ok b8" "sb_text b8 = sb_text b7 @ [CR, LF]"
    using write_text_law [OF b7(2) crlf] by blast
  have txt8: "sb_text b8 = prop_line P @ CRLF"
    using b8(3) b7(3) b6(3) st5(4) b3(3) n by (simp add: prop_line_def CRLF_def)
  have "nul_free (sb_text b8)" using b8(2) sb_okD by fastforce
  then obtain bf where bf: "fold_property_line (sb_text b8) = Some bf" "sb_text bf = folded True (prop_line P @ CRLF)"
    using fold_property_line_text [of "sb_text b8"] txt8 by (auto simp: CRLF_def)
  have "icalproperty_as_ical_string_r (ap_addr P) st = Some (Some (folded True (prop_line P @ CRLF)), st5)"
    using r nm b1(1) st2(1) b3(1) st4(1) st5(1) b6(1) b7(1) b8(1) bf
    by (cases "value_clause P") (auto simp: icalproperty_as_ical_string_r_def prop_at_def bind_eq_Some_conv)
  moreover have "alike st st5" using st2(2) st4(2) st5(2) alike_trans by blast
  ultimately show ?thesis by blast
qed

section \<open>The text of a component\<close>

definition comp_name :: "acomp \<Rightarrow> string option" where
  "comp_name T = (if ac_kind T \<noteq> ICAL_X_COMPONENT then icalcomponent_kind_to_string (ac_kind T) else ac_x_name T)"

text \<open>The line behind END has the name of the kind.\<close>

primrec tree_lines :: "acomp \<Rightarrow> string list" where
  "tree_lines (AComp c k x ps cs) =
     (''BEGIN:'' @ the (comp_name (AComp c k x ps cs))) # map prop_line ps @ concat (map tree_lines cs) @
     [''END:'' @ the (icalcomponent_kind_to_string k)]"

primrec tree_text :: "acomp \<Rightarrow> string" where
  "tree_text (AComp c k x ps cs) =
     ''BEGIN:'' @ the (comp_name (AComp c k x ps cs)) @ CRLF @
     concat (map (\<lambda>P. folded True (prop_line P @ CRLF)) ps) @ concat (map tree_text cs) @
     ''END:'' @ the (icalcomponent_kind_to_string k) @ CRLF"

primrec printable_tree :: "acomp \<Rightarrow> bool" where
  "printable_tree (AComp c k x ps cs) \<longleftrightarrow>
     k \<noteq> ICAL_NO_COMPONENT \<and> icalcomponent_kind_to_string k \<noteq> None \<and>
     (k = ICAL_X_COMPONENT \<longrightarrow> x \<noteq> None \<and> nul_free (the x)) \<and>
     list_all printable_prop ps \<and> list_all id (map printable_tree cs)"

lemma crlf_nul_free [simp]: "nul_free CRLF" "nul_free [CR, LF]"
  by (simp_all add: CRLF_def CR_def LF_def)

lemma prop_line_nul_free: "printable_prop P \<Longrightarrow> nul_free (prop_line P)"
proof -
  assume p: "printable_prop P"
  have "nul_free (concat (map (param_clause \<circ> snd) qs))" if "list_all (printable_param \<circ> snd) qs" for qs :: "(nat \<times> icalparameter) list"
    using that by (induction qs) (auto simp: param_clause_def intro: param_txt_nul_free)
  moreover have "nul_free (case value_clause P of None \<Rightarrow> [] | Some s \<Rightarrow> '';VALUE='' @ s)"
    by (auto simp: value_clause_def split: option.splits if_splits)
  ultimately show ?thesis using p by (auto simp: printable_prop_def prop_line_def)
qed

lemma write_properties_law:
  assumes "cursor L e xs (map ap_addr Ps)" "list_all (prop_holds st c) Ps" "list_all printable_prop Ps" "length Ps < n" "sb_ok b"
  shows "\<exists>b' st'. write_properties n e L (b, st) = Some (b', st') \<and> alike st st' \<and> sb_ok b' \<and>
    sb_text b' = sb_text b @ concat (map (\<lambda>P. folded True (prop_line P @ CRLF)) Ps)"
  using assms
proof (induction Ps arbitrary: e xs st b n)
  case Nil
  then have "e = 0" using cursor_zero by fastforce
  with Nil show ?case by (cases n) auto
next
  case (Cons P Ps)
  obtain m where n: "n = Suc m" "length Ps < m" using Cons.prems(4) by (cases n) auto
  note cur = cursor_next [of L e xs "ap_addr P" "map ap_addr Ps"]
  obtain e' where e': "pvl_next e (snd L) = Some e'" "cursor L e' (xs @ [ap_addr P]) (map ap_addr Ps)"
    and e: "elem_data e L = Some (ap_addr P)" "e \<noteq> 0" using cur Cons.prems(1) by auto
  have P: "prop_holds st c P" "printable_prop P" "ap_addr P \<noteq> 0" using Cons.prems(2,3) by (simp_all add: prop_holds_def)
  obtain st1 where st1: "icalproperty_as_ical_string_r (ap_addr P) st = Some (Some (folded True (prop_line P @ CRLF)), st1)" "alike st st1"
    using property_as_string [OF P(1,2)] by blast
  have nf: "nul_free (folded True (prop_line P @ CRLF))" using prop_line_nul_free [OF P(2)] by (auto intro: nul_free_folded)
  obtain b1 where b1: "write_text (Some (folded True (prop_line P @ CRLF))) (b, st1) = Some (b1, st1)" "sb_ok b1"
    "sb_text b1 = sb_text b @ folded True (prop_line P @ CRLF)" using write_text_law [OF Cons.prems(5) nf] by blast
  have "list_all (prop_holds st1 c) Ps" using Cons.prems(2) prop_holds_alike [OF _ st1(2)] by (simp add: list_all_iff)
  with Cons.IH [OF e'(2), of st1 m b1] Cons.prems(3) n(2) b1(2) obtain b' st' where
    r: "write_properties m e' L (b1, st1) = Some (b', st')" "alike st1 st'" "sb_ok b'"
      "sb_text b' = sb_text b1 @ concat (map (\<lambda>P. folded True (prop_line P @ CRLF)) Ps)" by auto
  have "write_properties n e L (b, st) = Some (b', st')" using n e e'(1) P(3) st1(1) b1(1) r(1) by simp
  with r b1(3) alike_trans [OF st1(2) r(2)] show ?case by auto
qed

definition prints_tree :: "(nat \<Rightarrow> ical \<Rightarrow> (string option \<times> ical) option) \<Rightarrow> acomp \<Rightarrow> bool" where
  "prints_tree f T \<longleftrightarrow> nul_free (tree_text T) \<and>
     (\<forall>st par. comp_holds st par T \<longrightarrow> (\<exists>st'. f (ac_addr T) st = Some (Some (tree_text T), st') \<and> alike st st'))"

lemma write_components_law:
  assumes "cursor L e xs (map ac_addr Ts)" "\<forall>T \<in> set Ts. comp_holds st c T" "\<forall>T \<in> set Ts. prints_tree f T"
    "length Ts < n" "sb_ok b"
  shows "\<exists>b' st'. write_components f n e L (b, st) = Some (b', st') \<and> alike st st' \<and> sb_ok b' \<and>
    sb_text b' = sb_text b @ concat (map tree_text Ts)"
  using assms
proof (induction Ts arbitrary: e xs st b n)
  case Nil
  then have "e = 0" using cursor_zero by fastforce
  with Nil show ?case by (cases n) auto
next
  case (Cons T Ts)
  obtain m where n: "n = Suc m" "length Ts < m" using Cons.prems(4) by (cases n) auto
  note cur = cursor_next [of L e xs "ac_addr T" "map ac_addr Ts"]
  obtain e' where e': "pvl_next e (snd L) = Some e'" "cursor L e' (xs @ [ac_addr T]) (map ac_addr Ts)"
    and e: "elem_data e L = Some (ac_addr T)" "e \<noteq> 0" using cur Cons.prems(1) by auto
  obtain st1 where st1: "f (ac_addr T) st = Some (Some (tree_text T), st1)" "alike st st1"
    using Cons.prems(2,3) unfolding prints_tree_def by (meson list.set_intros(1))
  have nf: "nul_free (tree_text T)" using Cons.prems(3) by (simp add: prints_tree_def)
  obtain b1 where b1: "write_text (Some (tree_text T)) (b, st1) = Some (b1, st1)" "sb_ok b1"
    "sb_text b1 = sb_text b @ tree_text T" using write_text_law [OF Cons.prems(5) nf] by blast
  have "\<forall>T \<in> set Ts. comp_holds st1 c T" using Cons.prems(2) comp_holds_alike [OF _ st1(2)] by simp
  with Cons.IH [OF e'(2), of st1 m b1] Cons.prems(3) n(2) b1(2) obtain b' st' where
    r: "write_components f m e' L (b1, st1) = Some (b', st')" "alike st1 st'" "sb_ok b'"
      "sb_text b' = sb_text b1 @ concat (map tree_text Ts)" by auto
  have "write_components f n e L (b, st) = Some (b', st')" using n e e'(1) st1(1) b1(1) r(1) by simp
  with r b1(3) alike_trans [OF st1(2) r(2)] show ?case by auto
qed

lemma component_text_law:
  "depth T \<le> n \<Longrightarrow> printable_tree T \<Longrightarrow> prints_tree (component_text n) T"
proof (induction T arbitrary: n)
  case (AComp c k x ps cs)
  let ?T = "AComp c k x ps cs"
  obtain m where n: "n = Suc m" "\<forall>T \<in> set cs. depth T \<le> m"
    using AComp.prems(1) by (cases n) (auto simp: foldr_max_le)
  obtain kn where kn: "icalcomponent_kind_to_string k = Some kn" "nul_free kn" using AComp.prems(2) by auto
  obtain nm where nm: "comp_name ?T = Some nm" "nul_free nm"
    using AComp.prems(2) kn by (cases "k = ICAL_X_COMPONENT") (auto simp: comp_name_def)
  have sub: "\<forall>T \<in> set cs. prints_tree (component_text m) T"
    using AComp.IH n(2) AComp.prems(2) by (auto simp: list_all_iff)
  have nf: "nul_free (tree_text ?T)"
  proof -
    have "nul_free (concat (map tree_text cs))" using sub by (induction cs) (auto simp: prints_tree_def)
    moreover have "list_all printable_prop ps \<Longrightarrow> nul_free (concat (map (\<lambda>P. folded True (prop_line P @ CRLF)) ps))"
      by (induction ps) (auto intro!: nul_free_folded prop_line_nul_free)
    ultimately show ?thesis using AComp.prems(2) nm kn by simp
  qed
  moreover have "\<exists>st'. component_text n c st = Some (Some (tree_text ?T), st') \<and> alike st st'" if h: "comp_holds st par ?T" for st par
  proof -
    obtain r where r: "c \<noteq> 0" "i_objs st c = Some (Comp r)" "comp_row par ?T r" using h by auto
    have isa: "icalcomponent_isa c st = Some (k, st)" using r by (simp add: icalcomponent_isa_def comp_at_def comp_row_def)
    obtain b1 where b1: "write_text (Some ''BEGIN:'') (icalmemory_new_buffer 1024, st) = Some (b1, st)" "sb_ok b1" "sb_text b1 = ''BEGIN:''"
      using write_text_law [of "icalmemory_new_buffer 1024" "''BEGIN:''" st] new_buffer_ok [of 1024] by auto
    obtain b2 where b2: "write_text (Some nm) (b1, st) = Some (b2, st)" "sb_ok b2" "sb_text b2 = ''BEGIN:'' @ nm"
      using write_text_law [OF b1(2) nm(2), of st] b1(3) by auto
    obtain b3 where b3: "write_text (Some [CR, LF]) (b2, st) = Some (b3, st)" "sb_ok b3" "sb_text b3 = ''BEGIN:'' @ nm @ CRLF"
      using write_text_law [OF b2(2) crlf_nul_free(2), of st] b2(3) by (auto simp: CRLF_def)
    have lists: "plist_of (co_properties r) (map ap_addr ps)" "plist_of (co_components r) (map ac_addr cs)"
      using r(3) by (simp_all add: comp_row_def)
    obtain b4 st4 where b4: "write_properties (fresh (snd (co_properties r))) (pvl_head (fst (co_properties r))) (co_properties r) (b3, st) = Some (b4, st4)"
      "alike st st4" "sb_ok b4" "sb_text b4 = sb_text b3 @ concat (map (\<lambda>P. folded True (prop_line P @ CRLF)) ps)"
      using write_properties_law [OF cursor_head [OF lists(1)], of st c "fresh (snd (co_properties r))" b3] h AComp.prems(2)
        fuel_law [OF lists(1)] b3(2) by auto
    have "\<forall>T \<in> set cs. comp_holds st4 c T" using h comp_holds_alike [OF _ b4(2)] by auto
    then obtain b5 st5 where b5: "write_components (component_text m) (fresh (snd (co_components r))) (pvl_head (fst (co_components r)))
        (co_components r) (b4, st4) = Some (b5, st5)"
      "alike st4 st5" "sb_ok b5" "sb_text b5 = sb_text b4 @ concat (map tree_text cs)"
      using write_components_law [OF cursor_head [OF lists(2)], of st4 c "component_text m" "fresh (snd (co_components r))" b4]
        sub fuel_law [OF lists(2)] b4(3) by auto
    obtain b6 where b6: "write_text (Some ''END:'') (b5, st5) = Some (b6, st5)" "sb_ok b6" "sb_text b6 = sb_text b5 @ ''END:''"
      using write_text_law [OF b5(3), of "''END:''" st5] by auto
    obtain b7 where b7: "write_text (Some kn) (b6, st5) = Some (b7, st5)" "sb_ok b7" "sb_text b7 = sb_text b6 @ kn"
      using write_text_law [OF b6(2) kn(2)] by blast
    obtain b8 where b8: "write_text (Some [CR, LF]) (b7, st5) = Some (b8, st5)" "sb_ok b8" "sb_text b8 = sb_text b7 @ CRLF"
      using write_text_law [OF b7(2) crlf_nul_free(2), of st5] by (auto simp: CRLF_def)
    have "sb_text b8 = tree_text ?T" using b3 b4 b5 b6 b7 b8 nm kn by simp
    moreover have "(if k \<noteq> ICAL_X_COMPONENT then Some kn else co_x_name r) = Some nm" using nm(1) kn(1) r(3)
      by (auto simp: comp_name_def comp_row_def split: if_splits)
    ultimately have "component_text n c st = Some (Some (tree_text ?T), st5)"
      using n isa r b1(1) b2(1) b3(1) b4(1) b5(1) b6(1) b7(1) b8(1) kn AComp.prems(2)
      by (auto simp: comp_at_def Let_def)
    with alike_trans [OF b4(2) b5(2)] show ?thesis by blast
  qed
  ultimately show ?case unfolding prints_tree_def acomp.sel by blast
qed

end
