(* ===== verification/TreeOps.thy ===== *)
theory TreeOps
  imports TreePrint
begin

text \<open>
  The operations on a component as operations on its tree: adding, removing, counting and walking
  over properties and components. Each leaves what it does not touch as it was.
\<close>

section \<open>What an operation leaves alone\<close>

text \<open>The objects outside a set are the same, and so is the rest of the state.\<close>

definition framed :: "nat set \<Rightarrow> ical \<Rightarrow> ical \<Rightarrow> bool" where
  "framed A st st' \<longleftrightarrow> (\<forall>a. a \<notin> A \<longrightarrow> i_objs st' a = i_objs st a) \<and> i_next st' = i_next st \<and> i_env st' = i_env st"

lemma framed_refl [simp]: "framed A st st"
  by (simp add: framed_def)

lemma framed_put [simp]: "framed {a} st (put_obj a x st)"
  by (simp add: framed_def)

lemma framed_putI: "framed A st st' \<Longrightarrow> a \<in> A \<Longrightarrow> framed A st (put_obj a x st')"
  by (simp add: framed_def put_obj_def)

lemma framed_trans: "framed A st st' \<Longrightarrow> framed A st' st'' \<Longrightarrow> framed A st st''"
  by (simp add: framed_def)

lemma framed_mono: "framed A st st' \<Longrightarrow> A \<subseteq> B \<Longrightarrow> framed B st st'"
  by (auto simp: framed_def)

lemma framed_same: "framed A st st' \<Longrightarrow> a \<notin> A \<Longrightarrow> same_at st st' a"
  by (simp add: framed_def same_at_def)

lemma prop_holds_framed: "prop_holds st c P \<Longrightarrow> framed A st st' \<Longrightarrow> A \<inter> set (prop_addrs P) = {} \<Longrightarrow> prop_holds st' c P"
  by (rule prop_holds_same) (auto intro: framed_same)

lemma comp_holds_framed: "comp_holds st c T \<Longrightarrow> framed A st st' \<Longrightarrow> A \<inter> set (comp_addrs T) = {} \<Longrightarrow> comp_holds st' c T"
  by (rule comp_holds_same) (auto intro: framed_same)

text \<open>Replacing the parent of the root of a property or a tree.\<close>

lemma prop_holds_parent:
  assumes "prop_holds st d P" "distinct (prop_addrs P)" "i_objs st (ap_addr P) = Some (Prop r)"
  shows "prop_holds (put_obj (ap_addr P) (Prop (r\<lparr>pr_parent := c\<rparr>)) st) c P"
proof -
  have "fst q \<noteq> ap_addr P" if "q \<in> set (ap_params P)" for q
    using assms(2) that by (force simp: prop_addrs_def)
  then have ps: "list_all (param_holds (put_obj (ap_addr P) (Prop (r\<lparr>pr_parent := c\<rparr>)) st)) (ap_params P)"
    using assms(1) by (auto simp: prop_holds_def list_all_iff param_holds_def)
  have vs: "value_holds (put_obj (ap_addr P) (Prop (r\<lparr>pr_parent := c\<rparr>)) st) (ap_value P)"
    using assms(1,2) by (auto simp: prop_holds_def value_holds_def prop_addrs_def split: option.splits)
  show ?thesis using assms(1,3) ps vs by (auto simp: prop_holds_def prop_row_def)
qed

lemma comp_addrs_eq: "set (comp_addrs T) = insert (ac_addr T) (\<Union> (set ` prop_addrs ` set (ac_props T)) \<union> \<Union> (set ` comp_addrs ` set (ac_comps T)))"
  by (cases T) auto

lemma comp_holds_iff:
  "comp_holds st par T \<longleftrightarrow> ac_addr T \<noteq> 0 \<and> (\<exists>r. i_objs st (ac_addr T) = Some (Comp r) \<and> comp_row par T r) \<and>
     (\<forall>P \<in> set (ac_props T). prop_holds st (ac_addr T) P) \<and> (\<forall>C \<in> set (ac_comps T). comp_holds st (ac_addr T) C)"
  by (cases T) (simp add: list_all_iff)

lemma distinct_comp_addrs:
  assumes "distinct (comp_addrs T)"
  shows "P \<in> set (ac_props T) \<Longrightarrow> ac_addr T \<notin> set (prop_addrs P) \<and> distinct (prop_addrs P)"
    "C \<in> set (ac_comps T) \<Longrightarrow> ac_addr T \<notin> set (comp_addrs C) \<and> distinct (comp_addrs C)"
  using assms by (cases T; auto simp: distinct_concat_iff)+

text \<open>A new row at the root: the parts hold as before.\<close>

lemma comp_holds_root:
  assumes "comp_row par T r" "ac_addr T \<noteq> 0"
    "\<forall>P \<in> set (ac_props T). prop_holds st (ac_addr T) P \<and> ac_addr T \<notin> set (prop_addrs P)"
    "\<forall>C \<in> set (ac_comps T). comp_holds st (ac_addr T) C \<and> ac_addr T \<notin> set (comp_addrs C)"
  shows "comp_holds (put_obj (ac_addr T) (Comp r) st) par T"
proof -
  have f: "framed {ac_addr T} st (put_obj (ac_addr T) (Comp r) st)" by (simp add: framed_def)
  show ?thesis
    using assms
    by (subst comp_holds_iff) (auto intro: prop_holds_framed [OF _ f] comp_holds_framed [OF _ f])
qed

section \<open>Adding\<close>

text \<open>The time zones of the component at an address.\<close>

definition zones_at :: "ical \<Rightarrow> nat \<Rightarrow> icaltimezone icalarray option" where
  "zones_at st a = (case i_objs st a of Some (Comp r) \<Rightarrow> co_timezones r | _ \<Rightarrow> None)"

definition with_props :: "aprop list \<Rightarrow> acomp \<Rightarrow> acomp" where
  "with_props ps T = AComp (ac_addr T) (ac_kind T) (ac_x_name T) ps (ac_comps T)"

definition with_comps :: "acomp list \<Rightarrow> acomp \<Rightarrow> acomp" where
  "with_comps cs T = AComp (ac_addr T) (ac_kind T) (ac_x_name T) (ac_props T) cs"

lemma with_sel [simp]:
  "ac_addr (with_props ps T) = ac_addr T" "ac_kind (with_props ps T) = ac_kind T" "ac_x_name (with_props ps T) = ac_x_name T"
  "ac_props (with_props ps T) = ps" "ac_comps (with_props ps T) = ac_comps T"
  "ac_addr (with_comps cs T) = ac_addr T" "ac_kind (with_comps cs T) = ac_kind T" "ac_x_name (with_comps cs T) = ac_x_name T"
  "ac_props (with_comps cs T) = ac_props T" "ac_comps (with_comps cs T) = cs"
  by (simp_all add: with_props_def with_comps_def)

lemma add_property_law:
  assumes "comp_holds st par T" "prop_holds st 0 P" "distinct (comp_addrs T)" "distinct (prop_addrs P)"
    "set (comp_addrs T) \<inter> set (prop_addrs P) = {}"
  shows "\<exists>st'. icalcomponent_add_property (ac_addr T) (ap_addr P) st = Some st' \<and>
    comp_holds st' par (with_props (ac_props T @ [P]) T) \<and> framed {ac_addr T, ap_addr P} st st' \<and>
    zones_at st' (ac_addr T) = zones_at st (ac_addr T)"
proof -
  obtain r where r: "i_objs st (ac_addr T) = Some (Comp r)" "comp_row par T r" "ac_addr T \<noteq> 0"
    using assms(1) by (auto simp: comp_holds_iff [of st par T])
  obtain q where q: "i_objs st (ap_addr P) = Some (Prop q)" "prop_row 0 P q" "ap_addr P \<noteq> 0" using assms(2) by (auto simp: prop_holds_def)
  have ne: "ac_addr T \<noteq> ap_addr P" using r q by auto
  let ?st1 = "put_obj (ap_addr P) (Prop (q\<lparr>pr_parent := ac_addr T\<rparr>)) st"
  obtain L where L: "push_elem (ap_addr P) (co_properties r) = Some L" "plist_of L (map ap_addr (ac_props T) @ [ap_addr P])"
    using push_elem_law r(2) by (fastforce simp: comp_row_def)
  let ?st2 = "put_obj (ac_addr T) (Comp (r\<lparr>co_properties := L\<rparr>)) ?st1"
  have run: "icalcomponent_add_property (ac_addr T) (ap_addr P) st = Some ?st2"
    using r q L(1) ne
    by (simp add: icalcomponent_add_property_def icalproperty_get_parent_def icalproperty_set_parent_def set_prop_def set_comp_def
        prop_at_def comp_at_def prop_row_def)
  have f: "framed {ap_addr P} st ?st1" by (simp add: framed_def)
  have P: "prop_holds ?st1 (ac_addr T) P" using prop_holds_parent [OF assms(2,4) q(1)] .
  have "prop_holds ?st1 (ac_addr T) Q" if "Q \<in> set (ac_props T)" for Q
    using assms(1,5) that by (intro prop_holds_framed [OF _ f]) (auto simp: comp_holds_iff [of st par T] comp_addrs_eq [of T] prop_addrs_def)
  moreover have "comp_holds ?st1 (ac_addr T) C" if "C \<in> set (ac_comps T)" for C
    using assms(1,5) that by (intro comp_holds_framed [OF _ f]) (auto simp: comp_holds_iff [of st par T] comp_addrs_eq [of T] prop_addrs_def)
  moreover have "ac_addr T \<notin> set (prop_addrs P)" using assms(5) by (auto simp: comp_addrs_eq [of T])
  moreover have "comp_row par (with_props (ac_props T @ [P]) T) (r\<lparr>co_properties := L\<rparr>)"
    using r(2) L(2) by (simp add: comp_row_def)
  ultimately have "comp_holds ?st2 par (with_props (ac_props T @ [P]) T)"
    using comp_holds_root [of par "with_props (ac_props T @ [P]) T" "r\<lparr>co_properties := L\<rparr>" ?st1] P r(3) distinct_comp_addrs [OF assms(3)]
    by auto
  moreover have "framed {ac_addr T, ap_addr P} st ?st2" by (simp add: framed_def)
  moreover have "zones_at ?st2 (ac_addr T) = zones_at st (ac_addr T)" using r(1) by (simp add: zones_at_def)
  ultimately show ?thesis using run by blast
qed

text \<open>A component without a parent, other than a time zone, goes to the end.\<close>

lemma add_component_law:
  assumes "comp_holds st par T" "comp_holds st 0 C" "distinct (comp_addrs T)" "distinct (comp_addrs C)"
    "set (comp_addrs T) \<inter> set (comp_addrs C) = {}" "ac_kind C \<noteq> ICAL_VTIMEZONE_COMPONENT"
  shows "\<exists>st'. icalcomponent_add_component cov (ac_addr T) (ac_addr C) st = Some st' \<and>
    comp_holds st' par (with_comps (ac_comps T @ [C]) T) \<and> framed {ac_addr T, ac_addr C} st st' \<and>
    zones_at st' (ac_addr T) = zones_at st (ac_addr T)"
proof -
  obtain r where r: "i_objs st (ac_addr T) = Some (Comp r)" "comp_row par T r" "ac_addr T \<noteq> 0"
    using assms(1) by (auto simp: comp_holds_iff [of st par T])
  obtain q where q: "i_objs st (ac_addr C) = Some (Comp q)" "comp_row 0 C q" "ac_addr C \<noteq> 0"
    using assms(2) by (auto simp: comp_holds_iff [of st 0 C])
  have ne: "ac_addr T \<noteq> ac_addr C" using assms(5) by (auto simp: comp_addrs_eq [of T] comp_addrs_eq [of C])
  let ?st1 = "put_obj (ac_addr C) (Comp (q\<lparr>co_parent := ac_addr T\<rparr>)) st"
  obtain L where L: "push_elem (ac_addr C) (co_components r) = Some L" "plist_of L (map ac_addr (ac_comps T) @ [ac_addr C])"
    using push_elem_law r(2) by (fastforce simp: comp_row_def)
  let ?st2 = "put_obj (ac_addr T) (Comp (r\<lparr>co_components := L\<rparr>)) ?st1"
  have run: "icalcomponent_add_component cov (ac_addr T) (ac_addr C) st = Some ?st2"
    using r q L(1) ne assms(6)
    by (simp add: icalcomponent_add_component_def set_comp_def comp_at_def comp_row_def)
  have f: "framed {ac_addr C} st ?st1" by (simp add: framed_def)
  have C: "comp_holds ?st1 (ac_addr T) C"
    using assms(2) distinct_comp_addrs [OF assms(4)] q
    by (intro comp_holds_root) (auto simp: comp_holds_iff [of st 0 C] comp_row_def)
  have "prop_holds ?st1 (ac_addr T) Q" if "Q \<in> set (ac_props T)" for Q
    using assms(1,5) that by (intro prop_holds_framed [OF _ f]) (auto simp: comp_holds_iff [of st par T] comp_addrs_eq [of T] comp_addrs_eq [of C])
  moreover have "comp_holds ?st1 (ac_addr T) D" if "D \<in> set (ac_comps T)" for D
    using assms(1,5) that by (intro comp_holds_framed [OF _ f]) (auto simp: comp_holds_iff [of st par T] comp_addrs_eq [of T] comp_addrs_eq [of C])
  moreover have "ac_addr T \<notin> set (comp_addrs C)" using assms(5) by (auto simp: comp_addrs_eq [of T])
  moreover have "comp_row par (with_comps (ac_comps T @ [C]) T) (r\<lparr>co_components := L\<rparr>)"
    using r(2) L(2) by (simp add: comp_row_def)
  ultimately have "comp_holds ?st2 par (with_comps (ac_comps T @ [C]) T)"
    using comp_holds_root [of par "with_comps (ac_comps T @ [C]) T" "r\<lparr>co_components := L\<rparr>" ?st1] C r(3) distinct_comp_addrs [OF assms(3)]
    by auto
  moreover have "framed {ac_addr T, ac_addr C} st ?st2" by (simp add: framed_def)
  moreover have "zones_at ?st2 (ac_addr T) = zones_at st (ac_addr T)" using r(1) by (simp add: zones_at_def)
  ultimately show ?thesis using run by blast
qed

section \<open>Removing\<close>

lemma unlink_property_skip:
  assumes "i_objs st c = Some (Comp r)" "cursor (co_properties r) e xs ys" "p \<notin> set ys" "length ys < n"
  shows "unlink_property n c p e st = Some st"
  using assms(2-)
proof (induction ys arbitrary: n e xs)
  case Nil
  then have "e = 0" using cursor_zero by blast
  with Nil show ?case by (cases n) auto
next
  case (Cons y ys)
  obtain m where n: "n = Suc m" "length ys < m" using Cons.prems(3) by (cases n) auto
  obtain e' where e': "pvl_next e (snd (co_properties r)) = Some e'" "cursor (co_properties r) e' (xs @ [y]) ys"
    using cursor_next(1) [OF Cons.prems(1)] by blast
  with Cons.IH [OF e'(2)] n cursor_next(2,3) [OF Cons.prems(1)] Cons.prems(2) assms(1) show ?case by (simp add: comp_at_def)
qed

text \<open>The element of the property leaves the list, and the next one stays next.\<close>

lemma unlink_property_law:
  assumes "i_objs st c = Some (Comp r)" "cursor (co_properties r) e xs (us @ p # vs)" "p \<notin> set us" "p \<notin> set vs"
    "length (us @ p # vs) < n" "i_objs st p = Some (Prop q)" "p \<noteq> 0"
  shows "\<exists>L i f. unlink_property n c p e st =
      Some (put_obj p (Prop (q\<lparr>pr_parent := 0\<rparr>)) (put_obj c (Comp (r\<lparr>co_property_iterator := i, co_properties := L\<rparr>)) st)) \<and>
    plist_of L (xs @ us @ vs) \<and> cursor (co_properties r) f (xs @ us) (p # vs) \<and>
    (\<forall>e'. pvl_next f (snd (co_properties r)) = Some e' \<longrightarrow> cursor L e' (xs @ us) vs)"
  using assms(2,3,5)
proof (induction us arbitrary: n e xs)
  case Nil
  obtain m where n: "n = Suc m" "length vs < m" using Nil.prems(3) by (cases n) auto
  have cur: "cursor (co_properties r) e xs (p # vs)" using Nil.prems(1) by simp
  obtain L where L: "remove_elem e (co_properties r) = Some L" "plist_of L (xs @ vs)"
    "\<forall>e'. pvl_next e (snd (co_properties r)) = Some e' \<longrightarrow> cursor L e' xs vs" using cursor_remove [OF cur] by blast
  obtain e' where e': "pvl_next e (snd (co_properties r)) = Some e'" using cursor_next(1) [OF cur] by blast
  have "p \<noteq> c" using assms(1,6) by auto
  define i where "i = (if co_property_iterator r = e then e' else co_property_iterator r)"
  define st' where "st' = put_obj p (Prop (q\<lparr>pr_parent := 0\<rparr>)) (put_obj c (Comp (r\<lparr>co_property_iterator := i, co_properties := L\<rparr>)) st)"
  have c': "i_objs st' c = Some (Comp (r\<lparr>co_property_iterator := i, co_properties := L\<rparr>))"
    using \<open>p \<noteq> c\<close> by (simp add: st'_def)
  have "unlink_property n c p e st = unlink_property m c p e' st'"
    using n e' L(1) cursor_next(2,3) [OF cur] assms(1,6,7) \<open>p \<noteq> c\<close>
    by (simp add: comp_at_def set_comp_def icalproperty_set_parent_def set_prop_def prop_at_def i_def st'_def)
  also have "\<dots> = Some st'" using unlink_property_skip [OF c', of e' xs vs p m] L(3) e' assms(4) n(2) by simp
  finally show ?case unfolding st'_def using L cur by (intro exI [of _ L] exI [of _ i] exI [of _ e]) simp
next
  case (Cons y us)
  obtain m where n: "n = Suc m" "length (us @ p # vs) < m" using Cons.prems(3) by (cases n) auto
  have cur: "cursor (co_properties r) e xs (y # us @ p # vs)" using Cons.prems(1) by simp
  obtain e' where e': "pvl_next e (snd (co_properties r)) = Some e'" "cursor (co_properties r) e' (xs @ [y]) (us @ p # vs)"
    using cursor_next(1) [OF cur] by blast
  have "unlink_property n c p e st = unlink_property m c p e' st"
    using n e' cursor_next(2,3) [OF cur] Cons.prems(2) assms(1) by (simp add: comp_at_def)
  with Cons.IH [OF e'(2) _ n(2)] Cons.prems(2) show ?case by simp
qed

lemma chain_unique: "chain m p a xs t 0 \<Longrightarrow> chain m p a ys t 0 \<Longrightarrow> xs = ys"
proof (induction xs arbitrary: p a ys)
  case Nil
  then show ?case by (cases ys) auto
next
  case (Cons x xs)
  then show ?case by (cases x; cases ys) (auto split: option.splits)
qed

lemma cursor_unique:
  assumes "cursor L e xs ys" "cursor L e' xs ys"
  shows "e = e'"
proof -
  obtain axs bxs where a: "pvl_rep (snd L) (fst L) (axs @ bxs)" "map snd axs = xs" "map snd bxs = ys"
    "e = (case bxs of [] \<Rightarrow> 0 | p # _ \<Rightarrow> fst p)" using assms(1) by (auto simp: cursor_def)
  obtain axs' bxs' where b: "pvl_rep (snd L) (fst L) (axs' @ bxs')" "map snd axs' = xs" "map snd bxs' = ys"
    "e' = (case bxs' of [] \<Rightarrow> 0 | p # _ \<Rightarrow> fst p)" using assms(2) by (auto simp: cursor_def)
  have "axs @ bxs = axs' @ bxs'" using a(1) b(1) by (auto simp: pvl_rep_def dest: chain_unique)
  moreover have "length axs = length axs'" using a(2) b(2) by (metis length_map)
  ultimately have "bxs = bxs'" by simp
  with a(4) b(4) show ?thesis by simp
qed

lemma remove_property_law:
  assumes "comp_holds st par T" "distinct (comp_addrs T)" "ac_props T = ps @ P # qs"
  shows "\<exists>st'. icalcomponent_remove_property (ac_addr T) (ap_addr P) st = Some st' \<and>
    comp_holds st' par (with_props (ps @ qs) T) \<and> prop_holds st' 0 P \<and> framed {ac_addr T, ap_addr P} st st' \<and>
    (\<forall>r e e'. i_objs st (ac_addr T) = Some (Comp r) \<longrightarrow> cursor (co_properties r) e (map ap_addr ps) (map ap_addr (P # qs)) \<longrightarrow>
       pvl_next e (snd (co_properties r)) = Some e' \<longrightarrow>
       (\<exists>r'. i_objs st' (ac_addr T) = Some (Comp r') \<and> cursor (co_properties r') e' (map ap_addr ps) (map ap_addr qs)))"
proof -
  obtain r where r: "i_objs st (ac_addr T) = Some (Comp r)" "comp_row par T r" "ac_addr T \<noteq> 0"
    using assms(1) by (auto simp: comp_holds_iff [of st par T])
  have hP: "prop_holds st (ac_addr T) P" using assms(1,3) by (simp add: comp_holds_iff [of st par T])
  then obtain q where q: "i_objs st (ap_addr P) = Some (Prop q)" "prop_row (ac_addr T) P q" "ap_addr P \<noteq> 0"
    by (auto simp: prop_holds_def)
  note d = distinct_comp_addrs [OF assms(2)]
  have dP: "distinct (prop_addrs P)" "ac_addr T \<notin> set (prop_addrs P)" using d(1) [of P] assms(3) by auto
  have ne: "ac_addr T \<noteq> ap_addr P" using r q by auto
  have disj: "ap_addr P \<notin> set (prop_addrs Q)" if "Q \<in> set (ps @ qs)" for Q
    using assms(2,3) that by (cases T) (auto simp: prop_addrs_def)
  then have fresh_item: "ap_addr P \<notin> ap_addr ` set (ps @ qs)" by (auto simp: prop_addrs_def)
  have disjC: "ap_addr P \<notin> set (comp_addrs C)" if "C \<in> set (ac_comps T)" for C
    using assms(2,3) that by (cases T) (auto simp: prop_addrs_def)
  have lst: "plist_of (co_properties r) (map ap_addr ps @ ap_addr P # map ap_addr qs)"
    using r(2) assms(3) by (simp add: comp_row_def)
  have nodup: "ap_addr P \<notin> set (map ap_addr ps)" "ap_addr P \<notin> set (map ap_addr qs)" using fresh_item by auto
  obtain L i f where L: "unlink_property (fresh (snd (co_properties r))) (ac_addr T) (ap_addr P) (pvl_head (fst (co_properties r))) st =
      Some (put_obj (ap_addr P) (Prop (q\<lparr>pr_parent := 0\<rparr>)) (put_obj (ac_addr T) (Comp (r\<lparr>co_property_iterator := i, co_properties := L\<rparr>)) st))"
    "plist_of L (map ap_addr ps @ map ap_addr qs)" "cursor (co_properties r) f (map ap_addr ps) (ap_addr P # map ap_addr qs)"
    "\<forall>e'. pvl_next f (snd (co_properties r)) = Some e' \<longrightarrow> cursor L e' (map ap_addr ps) (map ap_addr qs)"
    using unlink_property_law [OF r(1) cursor_head [OF lst] nodup fuel_law [OF lst] q(1,3)] unfolding append_Nil by blast
  let ?st1 = "put_obj (ap_addr P) (Prop (q\<lparr>pr_parent := 0\<rparr>)) st"
  let ?st2 = "put_obj (ac_addr T) (Comp (r\<lparr>co_property_iterator := i, co_properties := L\<rparr>)) ?st1"
  have swap: "put_obj (ap_addr P) (Prop (q\<lparr>pr_parent := 0\<rparr>)) (put_obj (ac_addr T) (Comp (r\<lparr>co_property_iterator := i, co_properties := L\<rparr>)) st) = ?st2"
    using ne by (simp add: put_obj_def fun_upd_twist)
  have run: "icalcomponent_remove_property (ac_addr T) (ap_addr P) st = Some ?st2"
    using r q L(1) swap
    by (simp add: icalcomponent_remove_property_def icalproperty_get_parent_def prop_at_def comp_at_def prop_row_def)
  have P: "prop_holds ?st1 0 P" using prop_holds_parent [OF hP dP(1) q(1)] .
  have f: "framed {ap_addr P} st ?st1" "framed {ac_addr T} ?st1 ?st2" by (simp_all add: framed_def)
  have "comp_row par (with_props (ps @ qs) T) (r\<lparr>co_property_iterator := i, co_properties := L\<rparr>)"
    using r(2) L(2) by (simp add: comp_row_def)
  moreover have "prop_holds ?st1 (ac_addr T) Q \<and> ac_addr T \<notin> set (prop_addrs Q)" if "Q \<in> set (ps @ qs)" for Q
    using assms(1,3) that d(1) [of Q] disj [OF that] prop_holds_framed [OF _ f(1), of "ac_addr T" Q]
    by (auto simp: comp_holds_iff [of st par T])
  moreover have "comp_holds ?st1 (ac_addr T) C \<and> ac_addr T \<notin> set (comp_addrs C)" if "C \<in> set (ac_comps T)" for C
    using assms(1) that d(2) [OF that] disjC [OF that] comp_holds_framed [OF _ f(1), of "ac_addr T" C]
    by (auto simp: comp_holds_iff [of st par T])
  ultimately have "comp_holds ?st2 par (with_props (ps @ qs) T)"
    using comp_holds_root [of par "with_props (ps @ qs) T" "r\<lparr>co_property_iterator := i, co_properties := L\<rparr>" ?st1] r(3)
    by auto
  moreover have "prop_holds ?st2 0 P" using prop_holds_framed [OF P f(2)] dP(2) by auto
  moreover have "framed {ac_addr T, ap_addr P} st ?st2" by (simp add: framed_def)
  moreover have "\<exists>r'. i_objs ?st2 (ac_addr T) = Some (Comp r') \<and> cursor (co_properties r') e' (map ap_addr ps) (map ap_addr qs)"
    if "i_objs st (ac_addr T) = Some (Comp r0)" "cursor (co_properties r0) e (map ap_addr ps) (map ap_addr (P # qs))"
      "pvl_next e (snd (co_properties r0)) = Some e'" for r0 e e'
    using that r(1) L(4) cursor_unique [OF L(3), of e] by auto
  ultimately show ?thesis using run by (intro exI [of _ ?st2]) blast
qed

lemma addr_in: "ac_addr C \<in> set (comp_addrs C)" "ap_addr P \<in> set (prop_addrs P)"
  by (cases C; simp) (simp add: prop_addrs_def)

text \<open>A component that is removed keeps its tree.\<close>

lemma drop_take_while:
  "p \<notin> set xs \<Longrightarrow> takeWhile (\<lambda>y. y \<noteq> p) (xs @ p # ys) = xs \<and> dropWhile (\<lambda>y. y \<noteq> p) (xs @ p # ys) = p # ys"
  by (induction xs) auto

lemma remove_component_law:
  assumes "comp_holds st par T" "distinct (comp_addrs T)" "ac_comps T = us @ C # vs" "ac_kind C \<noteq> ICAL_VTIMEZONE_COMPONENT"
  shows "\<exists>st'. remove_component_with free (ac_addr T) (ac_addr C) st = Some st' \<and>
    comp_holds st' par (with_comps (us @ vs) T) \<and> comp_holds st' 0 C \<and> framed {ac_addr T, ac_addr C} st st' \<and>
    zones_at st' = zones_at st"
proof -
  obtain r where r: "i_objs st (ac_addr T) = Some (Comp r)" "comp_row par T r" "ac_addr T \<noteq> 0"
    using assms(1) by (auto simp: comp_holds_iff [of st par T])
  have hC: "comp_holds st (ac_addr T) C" using assms(1,3) by (simp add: comp_holds_iff [of st par T])
  then obtain q where q: "i_objs st (ac_addr C) = Some (Comp q)" "comp_row (ac_addr T) C q" "ac_addr C \<noteq> 0"
    by (auto simp: comp_holds_iff [of st "ac_addr T" C])
  note d = distinct_comp_addrs [OF assms(2)]
  have dC: "distinct (comp_addrs C)" "ac_addr T \<notin> set (comp_addrs C)" using d(2) [of C] assms(3) by auto
  have ne: "ac_addr T \<noteq> ac_addr C" using dC(2) addr_in(1) by metis
  have disjP: "ac_addr C \<notin> set (prop_addrs P)" if "P \<in> set (ac_props T)" for P
    using assms(2,3) that addr_in(1) [of C] by (cases T) auto
  have disjC: "ac_addr C \<notin> set (comp_addrs D)" if "D \<in> set (us @ vs)" for D
    using assms(2,3) that addr_in(1) [of C] by (cases T) (auto; blast)
  then have fresh_item: "ac_addr C \<notin> ac_addr ` set (us @ vs)" using addr_in(1) by fastforce
  have lst: "plist_of (co_components r) (map ac_addr us @ ac_addr C # map ac_addr vs)"
    using r(2) assms(3) by (simp add: comp_row_def)
  obtain e where e: "find_elem (\<lambda>x. Some (x = ac_addr C)) (pvl_head (fst (co_components r))) (co_components r) = Some e"
    "cursor (co_components r) e (map ac_addr us) (ac_addr C # map ac_addr vs)"
    using find_elem_law [OF cursor_head [OF lst], of "\<lambda>x. Some (x = ac_addr C)" "\<lambda>x. x = ac_addr C"]
      drop_take_while [of "ac_addr C" "map ac_addr us" "map ac_addr vs"] fresh_item by fastforce
  obtain e' where e': "pvl_next e (snd (co_components r)) = Some e'" using cursor_next(1) [OF e(2)] by blast
  obtain L where L: "remove_elem e (co_components r) = Some L" "plist_of L (map ac_addr us @ map ac_addr vs)"
    using cursor_remove [OF e(2)] by blast
  let ?st1 = "put_obj (ac_addr C) (Comp (q\<lparr>co_parent := 0\<rparr>)) st"
  let ?i = "if co_component_iterator r = e then e' else co_component_iterator r"
  let ?r = "r\<lparr>co_component_iterator := ?i, co_components := L\<rparr>"
  let ?st2 = "put_obj (ac_addr T) (Comp ?r) ?st1"
  have swap: "put_obj (ac_addr C) (Comp (q\<lparr>co_parent := 0\<rparr>)) (put_obj (ac_addr T) (Comp ?r) st) = ?st2"
    using ne by (simp add: put_obj_def fun_upd_twist)
  have run: "remove_component_with free (ac_addr T) (ac_addr C) st = Some ?st2"
    using r q e(1) e' L(1) ne cursor_next(3) [OF e(2)] assms(4) swap
    by (simp add: remove_component_with_def unlink_component_def set_comp_def comp_at_def comp_row_def)
  have f: "framed {ac_addr C} st ?st1" "framed {ac_addr T} ?st1 ?st2" by (simp_all add: framed_def)
  have C: "comp_holds ?st1 0 C"
    using hC distinct_comp_addrs [OF dC(1)] q
    by (intro comp_holds_root) (auto simp: comp_holds_iff [of st "ac_addr T" C] comp_row_def)
  have "comp_row par (with_comps (us @ vs) T) ?r" using r(2) L(2) by (simp add: comp_row_def)
  moreover have "prop_holds ?st1 (ac_addr T) P \<and> ac_addr T \<notin> set (prop_addrs P)" if "P \<in> set (ac_props T)" for P
    using assms(1) that d(1) [OF that] disjP [OF that] prop_holds_framed [OF _ f(1), of "ac_addr T" P]
    by (auto simp: comp_holds_iff [of st par T])
  moreover have "comp_holds ?st1 (ac_addr T) D \<and> ac_addr T \<notin> set (comp_addrs D)" if "D \<in> set (us @ vs)" for D
    using assms(1,3) that d(2) [of D] disjC [OF that] comp_holds_framed [OF _ f(1), of "ac_addr T" D]
    by (auto simp: comp_holds_iff [of st par T])
  ultimately have "comp_holds ?st2 par (with_comps (us @ vs) T)"
    using comp_holds_root [of par "with_comps (us @ vs) T" ?r ?st1] r(3) by auto
  moreover have "comp_holds ?st2 0 C" using comp_holds_framed [OF C f(2)] dC(2) by auto
  moreover have "framed {ac_addr T, ac_addr C} st ?st2" by (simp add: framed_def)
  moreover have "zones_at ?st2 = zones_at st" using r(1) q(1) by (auto simp: zones_at_def)
  ultimately show ?thesis using run by blast
qed

section \<open>Counting and walking\<close>

lemma count_from_law:
  assumes "cursor L e xs ys" "\<forall>y \<in> set ys. P y = Some (t y)" "length ys < n"
  shows "count_from n P e (snd L) = Some (int (length (filter t ys)))"
  using assms
proof (induction ys arbitrary: n e xs)
  case Nil
  then have "e = 0" using cursor_zero by blast
  with Nil show ?case by (cases n) auto
next
  case (Cons y ys)
  obtain m where n: "n = Suc m" "length ys < m" using Cons.prems(3) by (cases n) auto
  obtain c where c: "cells (snd L) e = Some c" "e_data c = y" "cursor L (e_next c) (xs @ [y]) ys"
    using cursor_cell [OF Cons.prems(1)] by blast
  with Cons.IH [OF c(3) _ n(2)] n(1) Cons.prems(2) cursor_next(3) [OF Cons.prems(1)] show ?case by simp
qed

definition prop_is :: "icalproperty_kind \<Rightarrow> aprop \<Rightarrow> bool" where
  "prop_is kind P \<longleftrightarrow> ap_kind P = kind \<or> kind = ICAL_ANY_PROPERTY"

definition comp_is :: "icalcomponent_kind \<Rightarrow> acomp \<Rightarrow> bool" where
  "comp_is kind C \<longleftrightarrow> ac_kind C = kind \<or> kind = ICAL_ANY_COMPONENT"

lemma prop_kind_law: "prop_holds st c P \<Longrightarrow> prop_kind_is kind st (ap_addr P) = Some (prop_is kind P)"
  by (auto simp: prop_holds_def prop_row_def prop_kind_is_def icalproperty_isa_def prop_at_def prop_is_def)

lemma comp_kind_law: "comp_holds st c T \<Longrightarrow> comp_kind_is kind st (ac_addr T) = Some (comp_is kind T)"
  by (auto simp: comp_holds_iff [of st c T] comp_row_def comp_kind_is_def comp_at_def comp_is_def)

text \<open>A test of addresses that agrees with one of the items.\<close>

definition hit :: "('x \<Rightarrow> nat) \<Rightarrow> ('x \<Rightarrow> bool) \<Rightarrow> 'x list \<Rightarrow> nat \<Rightarrow> bool" where
  "hit a t xs y \<longleftrightarrow> (\<exists>x \<in> set xs. a x = y \<and> t x)"

lemma hit_item: "distinct (map a xs) \<Longrightarrow> x \<in> set xs \<Longrightarrow> hit a t xs (a x) = t x"
  by (auto simp: hit_def distinct_map inj_on_def)

lemma filter_hit: "distinct (map a xs) \<Longrightarrow> set zs \<subseteq> set xs \<Longrightarrow> filter (hit a t xs) (map a zs) = map a (filter t zs)"
  by (induction zs) (auto simp: hit_item)

lemma while_hit:
  "distinct (map a xs) \<Longrightarrow> set zs \<subseteq> set xs \<Longrightarrow> dropWhile (\<lambda>y. \<not> hit a t xs y) (map a zs) = map a (dropWhile (\<lambda>x. \<not> t x) zs)"
  "distinct (map a xs) \<Longrightarrow> set zs \<subseteq> set xs \<Longrightarrow> takeWhile (\<lambda>y. \<not> hit a t xs y) (map a zs) = map a (takeWhile (\<lambda>x. \<not> t x) zs)"
  by (induction zs) (auto simp: hit_item)

lemma distinct_items:
  assumes "distinct (comp_addrs T)"
  shows "distinct (map ap_addr (ac_props T))" "distinct (map ac_addr (ac_comps T))"
proof -
  have p: "distinct (concat (map prop_addrs ps)) \<Longrightarrow> distinct (map ap_addr ps)" for ps
    by (induction ps) (auto simp: prop_addrs_def)
  have c: "distinct (concat (map comp_addrs cs)) \<Longrightarrow> distinct (map ac_addr cs)" for cs
  proof (induction cs)
    case (Cons C cs)
    have "ac_addr C \<noteq> ac_addr D" if "D \<in> set cs" for D
      using Cons.prems that addr_in(1) [of C] addr_in(1) [of D] by (auto; blast)
    with Cons show ?case by auto
  qed simp
  show "distinct (map ap_addr (ac_props T))" "distinct (map ac_addr (ac_comps T))"
    using assms by (cases T; simp add: p c)+
qed

lemma count_properties_law:
  assumes "comp_holds st par T" "distinct (comp_addrs T)"
  shows "icalcomponent_count_properties (ac_addr T) kind st = Some (int (length (filter (prop_is kind) (ac_props T))), st)"
proof -
  obtain r where r: "i_objs st (ac_addr T) = Some (Comp r)" "comp_row par T r" "ac_addr T \<noteq> 0"
    using assms(1) by (auto simp: comp_holds_iff [of st par T])
  note d = distinct_items(1) [OF assms(2)]
  have lst: "plist_of (co_properties r) (map ap_addr (ac_props T))" using r(2) by (simp add: comp_row_def)
  have "\<forall>y \<in> set (map ap_addr (ac_props T)). prop_kind_is kind st y = Some (hit ap_addr (prop_is kind) (ac_props T) y)"
    using assms(1) prop_kind_law hit_item [OF d] by (auto simp: comp_holds_iff [of st par T])
  from count_from_law [OF cursor_head [OF lst] this fuel_law [OF lst]] r show ?thesis
    by (simp add: icalcomponent_count_properties_def comp_at_def filter_hit [OF d])
qed

lemma count_components_law:
  assumes "comp_holds st par T" "distinct (comp_addrs T)"
  shows "icalcomponent_count_components (ac_addr T) kind st = Some (int (length (filter (comp_is kind) (ac_comps T))), st)"
proof -
  obtain r where r: "i_objs st (ac_addr T) = Some (Comp r)" "comp_row par T r" "ac_addr T \<noteq> 0"
    using assms(1) by (auto simp: comp_holds_iff [of st par T])
  note d = distinct_items(2) [OF assms(2)]
  have lst: "plist_of (co_components r) (map ac_addr (ac_comps T))" using r(2) by (simp add: comp_row_def)
  have "\<forall>y \<in> set (map ac_addr (ac_comps T)). comp_kind_is kind st y = Some (hit ac_addr (comp_is kind) (ac_comps T) y)"
    using assms(1) comp_kind_law hit_item [OF d] by (auto simp: comp_holds_iff [of st par T])
  from count_from_law [OF cursor_head [OF lst] this fuel_law [OF lst]] r show ?thesis
    by (simp add: icalcomponent_count_components_def comp_at_def filter_hit [OF d])
qed

text \<open>The iterator at an item: those before it, and those from it on.\<close>

definition prop_cursor :: "nat \<Rightarrow> ical \<Rightarrow> nat list \<Rightarrow> nat list \<Rightarrow> bool" where
  "prop_cursor c st xs ys \<longleftrightarrow>
     (\<exists>r. i_objs st c = Some (Comp r) \<and> cursor (co_properties r) (co_property_iterator r) xs ys)"

lemma seek_property_law:
  assumes "comp_holds st par T" "distinct (comp_addrs T)" "i_objs st (ac_addr T) = Some (Comp r)"
    "cursor (co_properties r) e (map ap_addr us) (map ap_addr vs)" "ac_props T = us @ vs"
  shows "\<exists>st'. seek_property (ac_addr T) e kind st = Some (hd0 (map ap_addr (dropWhile (\<lambda>P. \<not> prop_is kind P) vs)), st') \<and>
    alike st st' \<and> framed {ac_addr T} st st' \<and>
    prop_cursor (ac_addr T) st' (map ap_addr (us @ takeWhile (\<lambda>P. \<not> prop_is kind P) vs))
      (map ap_addr (dropWhile (\<lambda>P. \<not> prop_is kind P) vs))"
proof -
  let ?t = "hit ap_addr (prop_is kind) (ac_props T)"
  note d = distinct_items(1) [OF assms(2)]
  have "\<forall>y \<in> set (map ap_addr vs). prop_kind_is kind st y = Some (?t y)"
    using assms(1,5) prop_kind_law [of st "ac_addr T"] hit_item [OF d] by (auto simp: comp_holds_iff [of st par T])
  from find_elem_law [OF assms(4) this] obtain f where
    f: "find_elem (prop_kind_is kind st) e (co_properties r) = Some f"
      "cursor (co_properties r) f (map ap_addr (us @ takeWhile (\<lambda>P. \<not> prop_is kind P) vs)) (map ap_addr (dropWhile (\<lambda>P. \<not> prop_is kind P) vs))"
    using while_hit [OF d, of vs "prop_is kind"] assms(5) by auto
  have "seek_property (ac_addr T) e kind st = Some (hd0 (map ap_addr (dropWhile (\<lambda>P. \<not> prop_is kind P) vs)),
      put_obj (ac_addr T) (Comp (r\<lparr>co_property_iterator := f\<rparr>)) st)"
    using f cursor_data [OF f(2)] assms(3) by (simp add: seek_property_def comp_at_def set_comp_def)
  then show ?thesis
    using f(2) alike_put_comp(1) [OF assms(3), of f]
    by (intro exI [of _ "put_obj (ac_addr T) (Comp (r\<lparr>co_property_iterator := f\<rparr>)) st"]) (simp add: prop_cursor_def)
qed

lemma first_property_law:
  assumes "comp_holds st par T" "distinct (comp_addrs T)"
  shows "\<exists>st'. icalcomponent_get_first_property (ac_addr T) kind st =
      Some (hd0 (map ap_addr (dropWhile (\<lambda>P. \<not> prop_is kind P) (ac_props T))), st') \<and> alike st st' \<and> framed {ac_addr T} st st' \<and>
    prop_cursor (ac_addr T) st' (map ap_addr (takeWhile (\<lambda>P. \<not> prop_is kind P) (ac_props T)))
      (map ap_addr (dropWhile (\<lambda>P. \<not> prop_is kind P) (ac_props T)))"
proof -
  obtain r where r: "i_objs st (ac_addr T) = Some (Comp r)" "comp_row par T r" "ac_addr T \<noteq> 0"
    using assms(1) by (auto simp: comp_holds_iff [of st par T])
  have "plist_of (co_properties r) (map ap_addr (ac_props T))" using r(2) by (simp add: comp_row_def)
  from seek_property_law [OF assms r(1), of "pvl_head (fst (co_properties r))" "[]" "ac_props T" kind] cursor_head [OF this] r
  show ?thesis by (simp add: icalcomponent_get_first_property_def comp_at_def)
qed

lemma next_property_law:
  assumes "comp_holds st par T" "distinct (comp_addrs T)" "ac_props T = us @ P # vs"
    "prop_cursor (ac_addr T) st (map ap_addr us) (map ap_addr (P # vs))"
  shows "\<exists>st'. icalcomponent_get_next_property (ac_addr T) kind st =
      Some (hd0 (map ap_addr (dropWhile (\<lambda>P. \<not> prop_is kind P) vs)), st') \<and> alike st st' \<and> framed {ac_addr T} st st' \<and>
    prop_cursor (ac_addr T) st' (map ap_addr ((us @ [P]) @ takeWhile (\<lambda>P. \<not> prop_is kind P) vs))
      (map ap_addr (dropWhile (\<lambda>P. \<not> prop_is kind P) vs))"
proof -
  obtain r where r: "i_objs st (ac_addr T) = Some (Comp r)"
    "cursor (co_properties r) (co_property_iterator r) (map ap_addr us) (ap_addr P # map ap_addr vs)"
    using assms(4) by (auto simp: prop_cursor_def)
  have z: "ac_addr T \<noteq> 0" using assms(1) by (simp add: comp_holds_iff [of st par T])
  obtain e where e: "pvl_next (co_property_iterator r) (snd (co_properties r)) = Some e"
    "cursor (co_properties r) e (map ap_addr (us @ [P])) (map ap_addr vs)" using cursor_next(1) [OF r(2)] by auto
  from seek_property_law [OF assms(1,2) r(1) e(2), of kind] assms(3) r(1) e(1) z cursor_next(3) [OF r(2)]
  show ?thesis by (simp add: icalcomponent_get_next_property_def comp_at_def)
qed

definition comp_cursor :: "nat \<Rightarrow> ical \<Rightarrow> nat list \<Rightarrow> nat list \<Rightarrow> bool" where
  "comp_cursor c st xs ys \<longleftrightarrow>
     (\<exists>r. i_objs st c = Some (Comp r) \<and> cursor (co_components r) (co_component_iterator r) xs ys)"

lemma seek_component_law:
  assumes "comp_holds st par T" "distinct (comp_addrs T)" "i_objs st (ac_addr T) = Some (Comp r)"
    "cursor (co_components r) e (map ac_addr us) (map ac_addr vs)" "ac_comps T = us @ vs"
  shows "\<exists>st'. seek_component (ac_addr T) e kind st = Some (hd0 (map ac_addr (dropWhile (\<lambda>P. \<not> comp_is kind P) vs)), st') \<and>
    alike st st' \<and> framed {ac_addr T} st st' \<and>
    comp_cursor (ac_addr T) st' (map ac_addr (us @ takeWhile (\<lambda>P. \<not> comp_is kind P) vs))
      (map ac_addr (dropWhile (\<lambda>P. \<not> comp_is kind P) vs))"
proof -
  let ?t = "hit ac_addr (comp_is kind) (ac_comps T)"
  note d = distinct_items(2) [OF assms(2)]
  have "\<forall>y \<in> set (map ac_addr vs). comp_kind_is kind st y = Some (?t y)"
    using assms(1,5) comp_kind_law [of st "ac_addr T"] hit_item [OF d] by (auto simp: comp_holds_iff [of st par T])
  from find_elem_law [OF assms(4) this] obtain f where
    f: "find_elem (comp_kind_is kind st) e (co_components r) = Some f"
      "cursor (co_components r) f (map ac_addr (us @ takeWhile (\<lambda>P. \<not> comp_is kind P) vs)) (map ac_addr (dropWhile (\<lambda>P. \<not> comp_is kind P) vs))"
    using while_hit [OF d, of vs "comp_is kind"] assms(5) by auto
  have "seek_component (ac_addr T) e kind st = Some (hd0 (map ac_addr (dropWhile (\<lambda>P. \<not> comp_is kind P) vs)),
      put_obj (ac_addr T) (Comp (r\<lparr>co_component_iterator := f\<rparr>)) st)"
    using f cursor_data [OF f(2)] assms(3) by (simp add: seek_component_def comp_at_def set_comp_def)
  then show ?thesis
    using f(2) alike_put_comp(2) [OF assms(3), of f]
    by (intro exI [of _ "put_obj (ac_addr T) (Comp (r\<lparr>co_component_iterator := f\<rparr>)) st"]) (simp add: comp_cursor_def)
qed

lemma first_component_law:
  assumes "comp_holds st par T" "distinct (comp_addrs T)"
  shows "\<exists>st'. icalcomponent_get_first_component (ac_addr T) kind st =
      Some (hd0 (map ac_addr (dropWhile (\<lambda>P. \<not> comp_is kind P) (ac_comps T))), st') \<and> alike st st' \<and> framed {ac_addr T} st st' \<and>
    comp_cursor (ac_addr T) st' (map ac_addr (takeWhile (\<lambda>P. \<not> comp_is kind P) (ac_comps T)))
      (map ac_addr (dropWhile (\<lambda>P. \<not> comp_is kind P) (ac_comps T)))"
proof -
  obtain r where r: "i_objs st (ac_addr T) = Some (Comp r)" "comp_row par T r" "ac_addr T \<noteq> 0"
    using assms(1) by (auto simp: comp_holds_iff [of st par T])
  have "plist_of (co_components r) (map ac_addr (ac_comps T))" using r(2) by (simp add: comp_row_def)
  from seek_component_law [OF assms r(1), of "pvl_head (fst (co_components r))" "[]" "ac_comps T" kind] cursor_head [OF this] r
  show ?thesis by (simp add: icalcomponent_get_first_component_def comp_at_def)
qed

lemma next_component_law:
  assumes "comp_holds st par T" "distinct (comp_addrs T)" "ac_comps T = us @ P # vs"
    "comp_cursor (ac_addr T) st (map ac_addr us) (map ac_addr (P # vs))"
  shows "\<exists>st'. icalcomponent_get_next_component (ac_addr T) kind st =
      Some (hd0 (map ac_addr (dropWhile (\<lambda>P. \<not> comp_is kind P) vs)), st') \<and> alike st st' \<and> framed {ac_addr T} st st' \<and>
    comp_cursor (ac_addr T) st' (map ac_addr ((us @ [P]) @ takeWhile (\<lambda>P. \<not> comp_is kind P) vs))
      (map ac_addr (dropWhile (\<lambda>P. \<not> comp_is kind P) vs))"
proof -
  obtain r where r: "i_objs st (ac_addr T) = Some (Comp r)"
    "cursor (co_components r) (co_component_iterator r) (map ac_addr us) (ac_addr P # map ac_addr vs)"
    using assms(4) by (auto simp: comp_cursor_def)
  have z: "ac_addr T \<noteq> 0" using assms(1) by (simp add: comp_holds_iff [of st par T])
  obtain e where e: "pvl_next (co_component_iterator r) (snd (co_components r)) = Some e"
    "cursor (co_components r) e (map ac_addr (us @ [P])) (map ac_addr vs)" using cursor_next(1) [OF r(2)] by auto
  from seek_component_law [OF assms(1,2) r(1) e(2), of kind] assms(3) r(1) e(1) z cursor_next(3) [OF r(2)]
  show ?thesis by (simp add: icalcomponent_get_next_component_def comp_at_def)
qed

end
