(* ===== verification/TzExpandLaws.thy ===== *)
theory TzExpandLaws
  imports TzExpand TreeOps
begin

text \<open>
  The table of a zone whose parts have no rules: the changes that the tree of the zone tells, sorted.
\<close>

section \<open>Reading a member and walking over all properties\<close>

lemma get_member_law:
  "prop_holds st c P \<Longrightarrow> ap_value P = Some (a, v) \<Longrightarrow> f v = Some x \<Longrightarrow> get_member f null (ap_addr P) st = Some (x, st)"
  by (auto simp: prop_holds_def value_holds_def prop_row_def value_ptr_def get_member_def get_member_e_def
      icalproperty_get_value_def prop_at_def val_at_def)

lemma prop_is_any [simp]: "prop_is ICAL_ANY_PROPERTY P"
  by (simp add: prop_is_def)

lemma comp_is_any [simp]: "comp_is ICAL_ANY_COMPONENT C"
  by (simp add: comp_is_def)

lemma first_any_property:
  assumes "comp_holds st par T" "distinct (comp_addrs T)"
  shows "\<exists>st'. icalcomponent_get_first_property (ac_addr T) ICAL_ANY_PROPERTY st = Some (hd0 (map ap_addr (ac_props T)), st') \<and>
    alike st st' \<and> framed {ac_addr T} st st' \<and> prop_cursor (ac_addr T) st' [] (map ap_addr (ac_props T))"
  using first_property_law [OF assms, of ICAL_ANY_PROPERTY] by simp

lemma next_any_property:
  assumes "comp_holds st par T" "distinct (comp_addrs T)" "ac_props T = us @ P # vs"
    "prop_cursor (ac_addr T) st (map ap_addr us) (map ap_addr (P # vs))"
  shows "\<exists>st'. icalcomponent_get_next_property (ac_addr T) ICAL_ANY_PROPERTY st = Some (hd0 (map ap_addr vs), st') \<and>
    alike st st' \<and> framed {ac_addr T} st st' \<and> prop_cursor (ac_addr T) st' (map ap_addr (us @ [P])) (map ap_addr vs)"
  using next_property_law [OF assms, of ICAL_ANY_PROPERTY] by simp

lemma first_any_component:
  assumes "comp_holds st par T" "distinct (comp_addrs T)"
  shows "\<exists>st'. icalcomponent_get_first_component (ac_addr T) ICAL_ANY_COMPONENT st = Some (hd0 (map ac_addr (ac_comps T)), st') \<and>
    alike st st' \<and> framed {ac_addr T} st st' \<and> comp_cursor (ac_addr T) st' [] (map ac_addr (ac_comps T))"
  using first_component_law [OF assms, of ICAL_ANY_COMPONENT] by simp

lemma next_any_component:
  assumes "comp_holds st par T" "distinct (comp_addrs T)" "ac_comps T = us @ C # vs"
    "comp_cursor (ac_addr T) st (map ac_addr us) (map ac_addr (C # vs))"
  shows "\<exists>st'. icalcomponent_get_next_component (ac_addr T) ICAL_ANY_COMPONENT st = Some (hd0 (map ac_addr vs), st') \<and>
    alike st st' \<and> framed {ac_addr T} st st' \<and> comp_cursor (ac_addr T) st' (map ac_addr (us @ [C])) (map ac_addr vs)"
  using next_component_law [OF assms, of ICAL_ANY_COMPONENT] by simp

text \<open>A step that does not touch a component keeps its cursors.\<close>

lemma framed_comp_cursor: "comp_cursor c st xs ys \<Longrightarrow> framed A st st' \<Longrightarrow> c \<notin> A \<Longrightarrow> comp_cursor c st' xs ys"
  by (simp add: comp_cursor_def framed_def)

section \<open>The changes that a tree tells\<close>

definition held_time :: "aprop \<Rightarrow> icaltimetype" where
  "held_time P = (case ap_value P of None \<Rightarrow> icaltime_null_time | Some (_, v) \<Rightarrow> the (v_time (v_data v)))"

definition held_int :: "aprop \<Rightarrow> int" where
  "held_int P = (case ap_value P of None \<Rightarrow> 0 | Some (_, v) \<Rightarrow> the (v_int (v_data v)))"

definition onset_of :: "aprop \<Rightarrow> onset \<Rightarrow> onset" where
  "onset_of P f =
     (if ap_kind P = ICAL_DTSTART_PROPERTY then f\<lparr>on_dtstart := Some (held_time P)\<rparr>
      else if ap_kind P = ICAL_TZOFFSETTO_PROPERTY then f\<lparr>on_to := Some (held_int P)\<rparr>
      else if ap_kind P = ICAL_TZOFFSETFROM_PROPERTY then f\<lparr>on_from := Some (held_int P)\<rparr>
      else if ap_kind P = ICAL_RDATE_PROPERTY \<or> ap_kind P = ICAL_RRULE_PROPERTY then f\<lparr>on_recurs := True\<rparr>
      else f)"

text \<open>The properties have values of their types, and none is a rule.\<close>

definition onset_typed :: "aprop \<Rightarrow> bool" where
  "onset_typed P \<longleftrightarrow> ap_kind P \<noteq> ICAL_RRULE_PROPERTY \<and>
     (ap_kind P \<in> {ICAL_DTSTART_PROPERTY, ICAL_RDATE_PROPERTY} \<longrightarrow>
        (case ap_value P of None \<Rightarrow> False
         | Some (_, v) \<Rightarrow> v_kind v \<in> {ICAL_DATE_VALUE, ICAL_DATETIME_VALUE} \<and> v_time (v_data v) \<noteq> None)) \<and>
     (ap_kind P \<in> {ICAL_TZOFFSETTO_PROPERTY, ICAL_TZOFFSETFROM_PROPERTY} \<longrightarrow>
        (case ap_value P of None \<Rightarrow> False | Some (_, v) \<Rightarrow> v_int (v_data v) \<noteq> None))"

definition part_changes :: "acomp \<Rightarrow> icaltimezonechange list" where
  "part_changes C =
     (if ac_kind C \<noteq> ICAL_XSTANDARD_COMPONENT \<and> ac_kind C \<noteq> ICAL_XDAYLIGHT_COMPONENT then []
      else let f = fold onset_of (ac_props C) no_onset; daylight = (if ac_kind C = ICAL_XDAYLIGHT_COMPONENT then 1 else 0)
        in case (on_dtstart f, on_to f, on_from f) of
             (Some dtstart, Some to, Some from) \<Rightarrow>
               if \<not> on_recurs f then [utc_change to from daylight dtstart]
               else map (\<lambda>P. rdate_change to from daylight dtstart (held_time P))
                      (filter (\<lambda>P. ap_kind P = ICAL_RDATE_PROPERTY) (ac_props C))
           | _ \<Rightarrow> [])"

definition zone_changes :: "acomp \<Rightarrow> icaltimezonechange list" where
  "zone_changes T = concat (map part_changes (ac_comps T))"

section \<open>The code finds them\<close>

lemma scan_onset_law:
  assumes "prop_holds st c P" "onset_typed P"
  shows "scan_onset (ap_addr P) f st = Some (onset_of P f, st)"
proof -
  have isa: "icalproperty_isa (ap_addr P) st = Some (ap_kind P)"
    using assms(1) by (auto simp: prop_holds_def prop_row_def icalproperty_isa_def prop_at_def)
  show ?thesis
  proof (cases "ap_kind P \<in> {ICAL_DTSTART_PROPERTY, ICAL_TZOFFSETTO_PROPERTY, ICAL_TZOFFSETFROM_PROPERTY}")
    case True
    then obtain a v where v: "ap_value P = Some (a, v)" using assms(2) by (auto simp: onset_typed_def split: option.splits)
    note g = get_member_law [OF assms(1) v]
    show ?thesis
      using True v assms(2) isa g [of icalvalue_get_datetime "held_time P"] g [of icalvalue_get_utcoffset "held_int P"]
      by (auto simp: scan_onset_def onset_of_def onset_typed_def icalproperty_get_dtstart_def icalproperty_get_tzoffsetto_def
          icalproperty_get_tzoffsetfrom_def icalvalue_get_datetime_def icalvalue_get_utcoffset_def held_time_def held_int_def)
  next
    case False
    with isa assms(2) show ?thesis by (auto simp: scan_onset_def onset_of_def onset_typed_def)
  qed
qed

lemma scan_onsets_law:
  assumes "comp_holds st par T" "distinct (comp_addrs T)" "ac_props T = us @ vs"
    "prop_cursor (ac_addr T) st (map ap_addr us) (map ap_addr vs)" "\<forall>P \<in> set vs. onset_typed P" "length vs < n"
  shows "\<exists>st'. scan_onsets n (ac_addr T) (hd0 (map ap_addr vs)) f st = Some (fold onset_of vs f, st') \<and> alike st st' \<and>
    framed {ac_addr T} st st'"
  using assms
proof (induction vs arbitrary: us st f n)
  case Nil
  then show ?case by (cases n) auto
next
  case (Cons P vs)
  obtain m where n: "n = Suc m" "length vs < m" using Cons.prems(6) by (cases n) auto
  have P: "prop_holds st (ac_addr T) P" "ap_addr P \<noteq> 0"
    using Cons.prems(1,3) by (auto simp: comp_holds_iff [of st par T] prop_holds_def)
  obtain st1 where st1: "icalcomponent_get_next_property (ac_addr T) ICAL_ANY_PROPERTY st = Some (hd0 (map ap_addr vs), st1)"
    "alike st st1" "framed {ac_addr T} st st1" "prop_cursor (ac_addr T) st1 (map ap_addr (us @ [P])) (map ap_addr vs)"
    using next_any_property [OF Cons.prems(1-4)] by blast
  obtain st' where "scan_onsets m (ac_addr T) (hd0 (map ap_addr vs)) (onset_of P f) st1 = Some (fold onset_of vs (onset_of P f), st')" "alike st1 st'"
    "framed {ac_addr T} st1 st'"
    using Cons.IH [OF comp_holds_alike [OF Cons.prems(1) st1(2)] Cons.prems(2) _ st1(4) _ n(2)] Cons.prems(3,5) by auto
  with n(1) P scan_onset_law [OF P(1)] Cons.prems(5) st1(1) alike_trans [OF st1(2)] framed_trans [OF st1(3)] show ?case by auto
qed

lemma expand_property_law:
  assumes "prop_holds st c P" "onset_typed P" "array_ok cs"
  shows "\<exists>cs'. expand_property cov end_year to from daylight dtstart (ap_addr P) cs st = Some (cs', st) \<and> array_ok cs' \<and>
    elements cs' = elements cs @ (if ap_kind P = ICAL_RDATE_PROPERTY then [rdate_change to from daylight dtstart (held_time P)] else [])"
proof -
  have isa: "icalproperty_isa (ap_addr P) st = Some (ap_kind P)"
    using assms(1) by (auto simp: prop_holds_def prop_row_def icalproperty_isa_def prop_at_def)
  show ?thesis
  proof (cases "ap_kind P = ICAL_RDATE_PROPERTY")
    case True
    then obtain a v t where v: "ap_value P = Some (a, v)" "v_kind v \<in> {ICAL_DATE_VALUE, ICAL_DATETIME_VALUE}" "v_time (v_data v) = Some t"
      using assms(2) by (auto simp: onset_typed_def split: option.splits)
    have "icalproperty_get_rdate (ap_addr P) st = Some (\<lparr>dtp_time = t, dtp_period = icalperiodtype_null_period\<rparr>, st)"
      using assms(1) v by (auto simp: icalproperty_get_rdate_def get_member_e_def icalvalue_get_datetimeperiod_def prop_holds_def
          value_holds_def prop_row_def value_ptr_def icalproperty_get_value_def prop_at_def val_at_def)
    with True isa v ica.append_law [OF assms(3), of "rdate_change to from daylight dtstart t"] show ?thesis
      by (auto simp: expand_property_def held_time_def)
  next
    case False
    with isa assms(2,3) show ?thesis by (auto simp: expand_property_def onset_typed_def)
  qed
qed

lemma expand_properties_law:
  assumes "comp_holds st par T" "distinct (comp_addrs T)" "ac_props T = us @ vs"
    "prop_cursor (ac_addr T) st (map ap_addr us) (map ap_addr vs)" "\<forall>P \<in> set vs. onset_typed P" "length vs < n" "array_ok cs"
  shows "\<exists>cs' st'. expand_properties n cov end_year to from daylight dtstart (ac_addr T) (hd0 (map ap_addr vs)) cs st = Some (cs', st') \<and>
    alike st st' \<and> framed {ac_addr T} st st' \<and> array_ok cs' \<and>
    elements cs' = elements cs @ map (\<lambda>P. rdate_change to from daylight dtstart (held_time P)) (filter (\<lambda>P. ap_kind P = ICAL_RDATE_PROPERTY) vs)"
  using assms
proof (induction vs arbitrary: us st cs n)
  case Nil
  then show ?case by (cases n) auto
next
  case (Cons P vs)
  obtain m where n: "n = Suc m" "length vs < m" using Cons.prems(6) by (cases n) auto
  have P: "prop_holds st (ac_addr T) P" "ap_addr P \<noteq> 0" "onset_typed P"
    using Cons.prems(1,3,5) by (auto simp: comp_holds_iff [of st par T] prop_holds_def)
  obtain st1 where st1: "icalcomponent_get_next_property (ac_addr T) ICAL_ANY_PROPERTY st = Some (hd0 (map ap_addr vs), st1)"
    "alike st st1" "framed {ac_addr T} st st1" "prop_cursor (ac_addr T) st1 (map ap_addr (us @ [P])) (map ap_addr vs)"
    using next_any_property [OF Cons.prems(1-4)] by blast
  obtain cs1 where cs1: "expand_property cov end_year to from daylight dtstart (ap_addr P) cs st = Some (cs1, st)" "array_ok cs1"
    "elements cs1 = elements cs @ (if ap_kind P = ICAL_RDATE_PROPERTY then [rdate_change to from daylight dtstart (held_time P)] else [])"
    using expand_property_law [OF P(1,3) Cons.prems(7)] by blast
  have "ac_props T = (us @ [P]) @ vs" "\<forall>P \<in> set vs. onset_typed P" using Cons.prems(3,5) by simp_all
  from Cons.IH [OF comp_holds_alike [OF Cons.prems(1) st1(2)] Cons.prems(2) this(1) st1(4) this(2) n(2) cs1(2)] obtain cs' st' where
    r: "expand_properties m cov end_year to from daylight dtstart (ac_addr T) (hd0 (map ap_addr vs)) cs1 st1 = Some (cs', st')"
      "alike st1 st'" "framed {ac_addr T} st1 st'" "array_ok cs'"
      "elements cs' = elements cs1 @ map (\<lambda>P. rdate_change to from daylight dtstart (held_time P)) (filter (\<lambda>P. ap_kind P = ICAL_RDATE_PROPERTY) vs)"
    by blast
  with n(1) P cs1 st1(1) alike_trans [OF st1(2) r(2)] framed_trans [OF st1(3) r(3)] show ?case by auto
qed

lemma expand_vtimezone_law:
  assumes "comp_holds st par C" "distinct (comp_addrs C)" "\<forall>P \<in> set (ac_props C). onset_typed P" "array_ok cs"
  shows "\<exists>cs' st'. icaltimezone_expand_vtimezone cov (ac_addr C) end_year cs st = Some (cs', st') \<and> alike st st' \<and>
    framed {ac_addr C} st st' \<and> array_ok cs' \<and> elements cs' = elements cs @ part_changes C"
proof -
  obtain r where r: "i_objs st (ac_addr C) = Some (Comp r)" "comp_row par C r" "ac_addr C \<noteq> 0"
    using assms(1) by (auto simp: comp_holds_iff [of st par C])
  have isa: "icalcomponent_isa (ac_addr C) st = Some (ac_kind C, st)" using r by (simp add: icalcomponent_isa_def comp_row_def)
  show ?thesis
  proof (cases "ac_kind C \<noteq> ICAL_XSTANDARD_COMPONENT \<and> ac_kind C \<noteq> ICAL_XDAYLIGHT_COMPONENT")
    case True
    with isa assms(4) show ?thesis by (auto simp: icaltimezone_expand_vtimezone_def part_changes_def)
  next
    case False
    define dl :: int where "dl = (if ac_kind C = ICAL_XDAYLIGHT_COMPONENT then 1 else 0)"
    define f where "f = fold onset_of (ac_props C) no_onset"
    obtain st1 where st1: "icalcomponent_get_first_property (ac_addr C) ICAL_ANY_PROPERTY st = Some (hd0 (map ap_addr (ac_props C)), st1)"
      "alike st st1" "framed {ac_addr C} st st1" "prop_cursor (ac_addr C) st1 [] (map ap_addr (ac_props C))"
      using first_any_property [OF assms(1,2)] by blast
    note h1 = comp_holds_alike [OF assms(1) st1(2)]
    obtain r1 where r1: "i_objs st1 (ac_addr C) = Some (Comp r1)" "comp_row par C r1" using h1 by (auto simp: comp_holds_iff [of st1 par C])
    have len: "length (ac_props C) < fresh (snd (co_properties r1))" using r1(2) fuel_law by (fastforce simp: comp_row_def)
    have cur1: "prop_cursor (ac_addr C) st1 (map ap_addr []) (map ap_addr (ac_props C))" using st1(4) by simp
    obtain st2 where st2: "scan_onsets (fresh (snd (co_properties r1))) (ac_addr C) (hd0 (map ap_addr (ac_props C))) no_onset st1 = Some (f, st2)"
      "alike st1 st2" "framed {ac_addr C} st1 st2"
      using scan_onsets_law [OF h1 assms(2) _ cur1 assms(3) len] unfolding f_def by auto
    have a2: "alike st st2" "framed {ac_addr C} st st2" using alike_trans [OF st1(2) st2(2)] framed_trans [OF st1(3) st2(3)] by simp_all
    have run: "icaltimezone_expand_vtimezone cov (ac_addr C) end_year cs st =
        (case (on_dtstart f, on_to f, on_from f) of
          (Some dtstart, Some to, Some from) \<Rightarrow>
            if \<not> on_recurs f then map_option (\<lambda>cs1. (cs1, st2)) (icalarray_append cs (utc_change to from dl dtstart))
            else do {
              (q, st3) \<leftarrow> icalcomponent_get_first_property (ac_addr C) ICAL_ANY_PROPERTY st2;
              expand_properties (fresh (snd (co_properties r1))) cov end_year to from dl dtstart (ac_addr C) q cs st3 }
        | _ \<Rightarrow> Some (cs, st2))"
      using False isa st1(1) r1(1) st2(1) unfolding dl_def icaltimezone_expand_vtimezone_def
      by (auto simp: comp_at_def cong: option.case_cong)
    have pc: "part_changes C = (case (on_dtstart f, on_to f, on_from f) of
          (Some dtstart, Some to, Some from) \<Rightarrow>
            if \<not> on_recurs f then [utc_change to from dl dtstart]
            else map (\<lambda>P. rdate_change to from dl dtstart (held_time P)) (filter (\<lambda>P. ap_kind P = ICAL_RDATE_PROPERTY) (ac_props C))
        | _ \<Rightarrow> [])"
      using False unfolding part_changes_def Let_def f_def dl_def by auto
    show ?thesis
    proof (cases "on_dtstart f \<noteq> None \<and> on_to f \<noteq> None \<and> on_from f \<noteq> None")
      case False
      then have "icaltimezone_expand_vtimezone cov (ac_addr C) end_year cs st = Some (cs, st2)" "part_changes C = []"
        using run pc by (auto split: option.splits)
      with a2 assms(4) show ?thesis by auto
    next
      case True
      then obtain d t g where f: "on_dtstart f = Some d" "on_to f = Some t" "on_from f = Some g" by auto
      show ?thesis
      proof (cases "on_recurs f")
        case False
        with run pc f ica.append_law [OF assms(4), of "utc_change t g dl d"] a2 show ?thesis by auto
      next
        case True
        note h2 = comp_holds_alike [OF assms(1) a2(1)]
        obtain st3 where st3: "icalcomponent_get_first_property (ac_addr C) ICAL_ANY_PROPERTY st2 = Some (hd0 (map ap_addr (ac_props C)), st3)"
          "alike st2 st3" "framed {ac_addr C} st2 st3" "prop_cursor (ac_addr C) st3 (map ap_addr []) (map ap_addr (ac_props C))"
          using first_any_property [OF h2 assms(2)] by auto
        obtain cs' st' where r: "expand_properties (fresh (snd (co_properties r1))) cov end_year t g dl d (ac_addr C) (hd0 (map ap_addr (ac_props C))) cs st3 = Some (cs', st')"
          "alike st3 st'" "framed {ac_addr C} st3 st'" "array_ok cs'"
          "elements cs' = elements cs @ map (\<lambda>P. rdate_change t g dl d (held_time P)) (filter (\<lambda>P. ap_kind P = ICAL_RDATE_PROPERTY) (ac_props C))"
          using expand_properties_law [OF comp_holds_alike [OF h2 st3(2)] assms(2) _ st3(4) assms(3) len assms(4), of cov end_year t g dl d] by auto
        have "alike st st'" "framed {ac_addr C} st st'"
          using a2 st3(2,3) r(2,3) alike_trans framed_trans by blast+
        with run pc f True st3(1) r show ?thesis by auto
      qed
    qed
  qed
qed

lemma expand_parts_law:
  assumes "comp_holds st par T" "distinct (comp_addrs T)" "ac_comps T = us @ vs"
    "comp_cursor (ac_addr T) st (map ac_addr us) (map ac_addr vs)" "\<forall>C \<in> set vs. \<forall>P \<in> set (ac_props C). onset_typed P"
    "length vs < n" "array_ok cs"
  shows "\<exists>cs' st'. expand_parts n cov (ac_addr T) (hd0 (map ac_addr vs)) end_year cs st = Some (cs', st') \<and> alike st st' \<and>
    array_ok cs' \<and> elements cs' = elements cs @ concat (map part_changes vs)"
  using assms
proof (induction vs arbitrary: us st cs n)
  case Nil
  then show ?case by (cases n) auto
next
  case (Cons C vs)
  obtain m where n: "n = Suc m" "length vs < m" using Cons.prems(6) by (cases n) auto
  have C: "comp_holds st (ac_addr T) C" "C \<in> set (ac_comps T)" using Cons.prems(1,3) by (auto simp: comp_holds_iff [of st par T])
  have d: "distinct (comp_addrs C)" "ac_addr T \<noteq> ac_addr C" "ac_addr C \<noteq> 0"
    using distinct_comp_addrs(2) [OF Cons.prems(2) C(2)] addr_in(1) [of C] C(1) by (auto simp: comp_holds_iff [of st "ac_addr T" C])
  obtain cs1 st1 where r1: "icaltimezone_expand_vtimezone cov (ac_addr C) end_year cs st = Some (cs1, st1)" "alike st st1"
    "framed {ac_addr C} st st1" "array_ok cs1" "elements cs1 = elements cs @ part_changes C"
    using expand_vtimezone_law [OF C(1) d(1) _ Cons.prems(7), of cov end_year] Cons.prems(5) by auto
  note h1 = comp_holds_alike [OF Cons.prems(1) r1(2)]
  have cur: "comp_cursor (ac_addr T) st1 (map ac_addr us) (map ac_addr (C # vs))"
    using framed_comp_cursor [OF Cons.prems(4) r1(3)] d(2) by simp
  obtain st2 where st2: "icalcomponent_get_next_component (ac_addr T) ICAL_ANY_COMPONENT st1 = Some (hd0 (map ac_addr vs), st2)"
    "alike st1 st2" "comp_cursor (ac_addr T) st2 (map ac_addr (us @ [C])) (map ac_addr vs)"
    using next_any_component [OF h1 Cons.prems(2,3) cur] by blast
  have "ac_comps T = (us @ [C]) @ vs" "\<forall>C \<in> set vs. \<forall>P \<in> set (ac_props C). onset_typed P" using Cons.prems(3,5) by simp_all
  from Cons.IH [OF comp_holds_alike [OF h1 st2(2)] Cons.prems(2) this(1) st2(3) this(2) n(2) r1(4)] obtain cs' st' where
    r: "expand_parts m cov (ac_addr T) (hd0 (map ac_addr vs)) end_year cs1 st2 = Some (cs', st')" "alike st2 st'" "array_ok cs'"
      "elements cs' = elements cs1 @ concat (map part_changes vs)" by blast
  have "alike st st'" using r1(2) st2(2) r(2) alike_trans by blast
  with n(1) d(3) r1(1,5) st2(1) r show ?case by auto
qed

lemma expand_changes_law:
  assumes "comp_holds st par T" "distinct (comp_addrs T)" "tz_component z = ac_addr T"
    "\<forall>C \<in> set (ac_comps T). \<forall>P \<in> set (ac_props C). onset_typed P"
  shows "\<exists>cs st'. icaltimezone_expand_changes cov z end_year st = Some (z\<lparr>tz_changes := Some cs, tz_end_year := end_year\<rparr>, st') \<and>
    alike st st' \<and> array_ok cs \<and> elements cs = qsort icaltimezone_compare_change_fn (zone_changes T)"
proof -
  obtain st1 where st1: "icalcomponent_get_first_component (ac_addr T) ICAL_ANY_COMPONENT st = Some (hd0 (map ac_addr (ac_comps T)), st1)"
    "alike st st1" "comp_cursor (ac_addr T) st1 (map ac_addr []) (map ac_addr (ac_comps T))"
    using first_any_component [OF assms(1,2)] by auto
  note h1 = comp_holds_alike [OF assms(1) st1(2)]
  obtain r where r: "i_objs st1 (ac_addr T) = Some (Comp r)" "comp_row par T r" "ac_addr T \<noteq> 0" using h1 by (auto simp: comp_holds_iff [of st1 par T])
  have len: "length (ac_comps T) < fresh (snd (co_components r))" using r(2) fuel_law by (fastforce simp: comp_row_def)
  have new: "array_ok (icalarray_new 1 32 :: changes)" "elements (icalarray_new 1 32 :: changes) = []"
    by (simp_all add: array_ok_def elements_def icalarray_new_def)
  obtain cs st2 where cs: "expand_parts (fresh (snd (co_components r))) cov (ac_addr T) (hd0 (map ac_addr (ac_comps T))) end_year (icalarray_new 1 32) st1 =
      Some (cs, st2)" "alike st1 st2" "array_ok cs" "elements cs = zone_changes T"
    using expand_parts_law [OF h1 assms(2) _ st1(3) assms(4) len new(1), of cov end_year] new(2) by (auto simp: zone_changes_def)
  obtain cs1 where "icalarray_sort cs icaltimezone_compare_change_fn = Some cs1" "array_ok cs1"
    "elements cs1 = qsort icaltimezone_compare_change_fn (elements cs)" using ica.sort_law [OF cs(3)] by blast
  with st1(1) r(1,3) cs assms(3) alike_trans [OF st1(2) cs(2)] show ?thesis
    by (auto simp: icaltimezone_expand_changes_def comp_at_def)
qed

end
