(* ===== verification/TreeZones.thy ===== *)
theory TreeZones
  imports TzExpandLaws
begin

text \<open>
  A VTIMEZONE that is added to a component: it goes to the front of the list, and its identifier,
  place and names are read for the list of zones that the component keeps.
\<close>

section \<open>Zones whose members can be read\<close>

text \<open>
  The texts are texts, the times are dates or times without a zone of their own. Anything else is
  read through the wrong member of the union, or as a null text.
\<close>

definition plain_zone :: "icaltimetype \<Rightarrow> bool" where
  "plain_zone t \<longleftrightarrow> zone t = None \<or> zone t = icaltimezone_get_utc_timezone"

definition text_value :: "(nat \<times> icalvalue) option \<Rightarrow> bool" where
  "text_value vo = (case vo of None \<Rightarrow> False | Some (_, v) \<Rightarrow> icalvalue_get_text v \<notin> {None, Some None})"

definition time_value :: "(nat \<times> icalvalue) option \<Rightarrow> bool" where
  "time_value vo = (case vo of None \<Rightarrow> False
     | Some (_, v) \<Rightarrow> v_kind v \<in> {ICAL_DATE_VALUE, ICAL_DATETIME_VALUE} \<and>
         (case v_time (v_data v) of None \<Rightarrow> False | Some t \<Rightarrow> plain_zone t))"

definition readable_prop :: "aprop \<Rightarrow> bool" where
  "readable_prop P \<longleftrightarrow>
     (ap_kind P \<in> {ICAL_TZID_PROPERTY, ICAL_TZNAME_PROPERTY, ICAL_LOCATION_PROPERTY} \<longrightarrow> text_value (ap_value P)) \<and>
     (ap_kind P = ICAL_X_PROPERTY \<longrightarrow> ap_value P \<noteq> None) \<and>
     (ap_kind P \<in> {ICAL_DTSTART_PROPERTY, ICAL_RDATE_PROPERTY} \<longrightarrow> time_value (ap_value P))"

definition readable_zone :: "acomp \<Rightarrow> bool" where
  "readable_zone T \<longleftrightarrow> list_all readable_prop (ac_props T) \<and> list_all (\<lambda>C. list_all readable_prop (ac_props C)) (ac_comps T)"

lemma text_member:
  assumes "prop_holds st c P" "text_value (ap_value P)"
  shows "\<exists>s. get_member icalvalue_get_text null (ap_addr P) st = Some (Some s, st)"
proof -
  obtain a v where "ap_value P = Some (a, v)" "icalvalue_get_text v \<notin> {None, Some None}"
    using assms(2) by (auto simp: text_value_def split: option.split_asm)
  moreover from this(2) obtain s where "icalvalue_get_text v = Some (Some s)" by auto
  ultimately show ?thesis using get_member_law [OF assms(1), of a v icalvalue_get_text "Some s" null] by blast
qed

section \<open>Comparing times\<close>

lemma compare_plain_zone:
  "plain_zone t \<Longrightarrow> plain_zone u \<Longrightarrow> \<exists>k. icaltime_compare cov t u = Some k"
  by (auto simp: icaltime_compare_def icaltime_convert_to_zone_def plain_zone_def)

lemma later_plain:
  assumes "plain_zone t" "plain_zone u"
  shows "\<exists>w. later_of cov t u = Some w \<and> plain_zone w"
  using compare_plain_zone [OF assms, of cov] assms by (auto simp: later_of_def)

section \<open>The place\<close>

lemma seek_lic_location_law:
  assumes "comp_holds st par T" "distinct (comp_addrs T)" "ac_props T = us @ vs"
    "prop_cursor (ac_addr T) st (map ap_addr us) (map ap_addr vs)" "vs = [] \<or> prop_is ICAL_X_PROPERTY (hd vs)"
    "list_all readable_prop vs" "length vs < n"
  shows "\<exists>x st'. seek_lic_location n (ac_addr T) (hd0 (map ap_addr vs)) st = Some (x, st') \<and> alike st st' \<and> framed {ac_addr T} st st'"
  using assms
proof (induction "length vs" arbitrary: vs us st n rule: less_induct)
  case less
  obtain m where n: "n = Suc m" "length vs \<le> m" using less.prems(7) by (cases n) auto
  show ?case
  proof (cases vs)
    case Nil
    with n show ?thesis by (auto intro: exI [of _ None] exI [of _ st])
  next
    case (Cons P ws)
    let ?ws = "dropWhile (\<lambda>P. \<not> prop_is ICAL_X_PROPERTY P) ws"
    let ?us = "(us @ [P]) @ takeWhile (\<lambda>P. \<not> prop_is ICAL_X_PROPERTY P) ws"
    have P: "prop_holds st (ac_addr T) P" "ap_addr P \<noteq> 0"
      using less.prems(1,3) Cons by (auto simp: comp_holds_iff [of st par T] prop_holds_def)
    have name: "icalproperty_get_x_name (ap_addr P) st = Some (ap_x_name P, st)"
      using P by (auto simp: prop_holds_def prop_row_def icalproperty_get_x_name_def prop_at_def)
    obtain a v where v: "ap_value P = Some (a, v)"
      using less.prems(5,6) Cons by (auto simp: readable_prop_def prop_is_def)
    have x: "icalproperty_get_x (ap_addr P) st = Some (icalvalue_get_x v, st)"
      unfolding icalproperty_get_x_def by (rule get_member_law [OF P(1) v]) simp
    obtain st1 where st1: "icalcomponent_get_next_property (ac_addr T) ICAL_X_PROPERTY st = Some (hd0 (map ap_addr ?ws), st1)" "alike st st1"
      "framed {ac_addr T} st st1" "prop_cursor (ac_addr T) st1 (map ap_addr ?us) (map ap_addr ?ws)"
      using next_property_law [OF less.prems(1,2), of us P ws ICAL_X_PROPERTY] less.prems(3,4) Cons by auto
    have len: "length ?ws < length vs" "length ?ws < m"
      using Cons n(2) length_dropWhile_le [of "\<lambda>P. \<not> prop_is ICAL_X_PROPERTY P" ws] by auto
    have hd: "?ws = [] \<or> prop_is ICAL_X_PROPERTY (hd ?ws)" using hd_dropWhile [of "\<lambda>P. \<not> prop_is ICAL_X_PROPERTY P" ws] by auto
    have rd: "list_all readable_prop ?ws" using less.prems(6) Cons by (auto simp: list_all_iff dest: set_dropWhileD)
    have us: "ac_props T = ?us @ ?ws" using less.prems(3) Cons by simp
    obtain y st' where st': "seek_lic_location m (ac_addr T) (hd0 (map ap_addr ?ws)) st1 = Some (y, st')" "alike st1 st'" "framed {ac_addr T} st1 st'"
      using less.hyps [OF len(1) comp_holds_alike [OF less.prems(1) st1(2)] less.prems(2) us st1(4) hd rd len(2)] by blast
    show ?thesis
    proof (cases "ap_x_name P \<noteq> None \<and> strcaseeq (the (ap_x_name P)) ''X-LIC-LOCATION'' \<and> icalvalue_get_x v \<noteq> None")
      case True
      with n(1) Cons P(2) name x show ?thesis by auto
    next
      case False
      then have "seek_lic_location n (ac_addr T) (hd0 (map ap_addr vs)) st = Some (y, st')"
        using n(1) Cons P(2) name x st1(1) st'(1) by auto
      with alike_trans [OF st1(2) st'(2)] framed_trans [OF st1(3) st'(3)] show ?thesis by blast
    qed
  qed
qed

text \<open>The first property of a kind, and what is known of it.\<close>

lemma first_readable:
  assumes "comp_holds st par T" "distinct (comp_addrs T)" "list_all readable_prop (ac_props T)"
  shows "\<exists>ps st'. icalcomponent_get_first_property (ac_addr T) kind st = Some (hd0 (map ap_addr ps), st') \<and> alike st st' \<and> framed {ac_addr T} st st' \<and>
    comp_holds st' par T \<and> list_all readable_prop ps \<and> (ps = [] \<or> prop_is kind (hd ps) \<and> prop_holds st' (ac_addr T) (hd ps)) \<and>
    (\<exists>us. ac_props T = us @ ps \<and> prop_cursor (ac_addr T) st' (map ap_addr us) (map ap_addr ps))"
proof -
  let ?ps = "dropWhile (\<lambda>P. \<not> prop_is kind P) (ac_props T)"
  obtain st' where st': "icalcomponent_get_first_property (ac_addr T) kind st = Some (hd0 (map ap_addr ?ps), st')" "alike st st'"
    "framed {ac_addr T} st st'" "prop_cursor (ac_addr T) st' (map ap_addr (takeWhile (\<lambda>P. \<not> prop_is kind P) (ac_props T))) (map ap_addr ?ps)"
    using first_property_law [OF assms(1,2), of kind] by blast
  note h = comp_holds_alike [OF assms(1) st'(2)]
  have sub: "set ?ps \<subseteq> set (ac_props T)" by (auto dest: set_dropWhileD)
  then have "list_all readable_prop ?ps" using assms(3) by (auto simp: list_all_iff)
  moreover have "?ps = [] \<or> prop_is kind (hd ?ps) \<and> prop_holds st' (ac_addr T) (hd ?ps)"
    using hd_dropWhile [of "\<lambda>P. \<not> prop_is kind P" "ac_props T"] h sub by (cases "?ps") (auto simp: comp_holds_iff [of st' par T])
  moreover have "ac_props T = takeWhile (\<lambda>P. \<not> prop_is kind P) (ac_props T) @ ?ps" by simp
  ultimately show ?thesis using st' h by metis
qed

lemma zone_location_law:
  assumes "comp_holds st par T" "distinct (comp_addrs T)" "list_all readable_prop (ac_props T)"
  shows "\<exists>x st'. icaltimezone_get_location_from_vtimezone (ac_addr T) st = Some (x, st') \<and> alike st st' \<and> framed {ac_addr T} st st'"
proof -
  obtain ps st1 where st1: "icalcomponent_get_first_property (ac_addr T) ICAL_LOCATION_PROPERTY st = Some (hd0 (map ap_addr ps), st1)"
    "alike st st1" "framed {ac_addr T} st st1" "comp_holds st1 par T" "list_all readable_prop ps"
    "ps = [] \<or> prop_is ICAL_LOCATION_PROPERTY (hd ps) \<and> prop_holds st1 (ac_addr T) (hd ps)"
    using first_readable [OF assms] by metis
  show ?thesis
  proof (cases ps)
    case (Cons P qs)
    then have P: "prop_holds st1 (ac_addr T) P" "ap_addr P \<noteq> 0" "text_value (ap_value P)"
      using st1(5,6) by (auto simp: prop_holds_def readable_prop_def prop_is_def)
    obtain s where "icalproperty_get_location (ap_addr P) st1 = Some (Some s, st1)"
      using text_member [OF P(1,3)] unfolding icalproperty_get_location_def by blast
    with st1(1-3) Cons P(2) show ?thesis by (auto simp: icaltimezone_get_location_from_vtimezone_def)
  next
    case Nil
    obtain qs us st2 where st2: "icalcomponent_get_first_property (ac_addr T) ICAL_X_PROPERTY st1 = Some (hd0 (map ap_addr qs), st2)"
      "alike st1 st2" "framed {ac_addr T} st1 st2" "comp_holds st2 par T" "list_all readable_prop qs"
      "qs = [] \<or> prop_is ICAL_X_PROPERTY (hd qs) \<and> prop_holds st2 (ac_addr T) (hd qs)"
      "ac_props T = us @ qs" "prop_cursor (ac_addr T) st2 (map ap_addr us) (map ap_addr qs)"
      using first_readable [OF st1(4) assms(2,3), of ICAL_X_PROPERTY] by auto
    obtain r where r: "i_objs st2 (ac_addr T) = Some (Comp r)" "comp_row par T r" using st2(4) by (auto simp: comp_holds_iff [of st2 par T])
    have "length (ac_props T) < fresh (snd (co_properties r))" using r(2) fuel_law by (fastforce simp: comp_row_def)
    then have len: "length qs < fresh (snd (co_properties r))" using st2(7) by simp
    have hd: "qs = [] \<or> prop_is ICAL_X_PROPERTY (hd qs)" using st2(6) by blast
    obtain x st3 where st3: "seek_lic_location (fresh (snd (co_properties r))) (ac_addr T) (hd0 (map ap_addr qs)) st2 = Some (x, st3)" "alike st2 st3"
      "framed {ac_addr T} st2 st3"
      using seek_lic_location_law [OF st2(4) assms(2) st2(7,8) hd st2(5) len] by blast
    have "icaltimezone_get_location_from_vtimezone (ac_addr T) st = Some (x, st3)"
      using st1(1) Nil st2(1) r(1) st3(1) by (simp add: icaltimezone_get_location_from_vtimezone_def comp_at_def)
    moreover have "alike st st3" using st1(2) st2(2) st3(2) alike_trans by blast
    moreover have "framed {ac_addr T} st st3" using st1(3) st2(3) st3(3) framed_trans by blast
    ultimately show ?thesis by blast
  qed
qed

section \<open>The names\<close>

lemma tzname_step_law:
  assumes "prop_holds st c P" "readable_prop P" "plain_zone (snd cur)"
  shows "\<exists>cur'. tzname_step cov (ap_addr P) cur st = Some (cur', st) \<and> plain_zone (snd cur')"
proof -
  have isa: "icalproperty_isa (ap_addr P) st = Some (ap_kind P)"
    using assms(1) by (auto simp: prop_holds_def prop_row_def icalproperty_isa_def prop_at_def)
  consider "ap_kind P = ICAL_TZNAME_PROPERTY" | "ap_kind P = ICAL_DTSTART_PROPERTY" | "ap_kind P = ICAL_RDATE_PROPERTY"
    | "ap_kind P \<notin> {ICAL_TZNAME_PROPERTY, ICAL_DTSTART_PROPERTY, ICAL_RDATE_PROPERTY}" by blast
  then show ?thesis
  proof cases
    case 1
    then have "text_value (ap_value P)" using assms(2) by (simp add: readable_prop_def)
    from text_member [OF assms(1) this] obtain s where "icalproperty_get_tzname (ap_addr P) st = Some (Some s, st)"
      unfolding icalproperty_get_tzname_def by blast
    with isa 1 assms(3) show ?thesis by (simp add: tzname_step_def)
  next
    case 4
    with isa assms(3) show ?thesis by (simp add: tzname_step_def)
  next
    case 2
    then obtain a v t where v: "ap_value P = Some (a, v)" "v_time (v_data v) = Some t" "plain_zone t"
      using assms(2) by (auto simp: readable_prop_def time_value_def split: option.splits)
    have "icalproperty_get_dtstart (ap_addr P) st = Some (t, st)"
      unfolding icalproperty_get_dtstart_def
      by (rule get_member_law [OF assms(1) v(1)]) (simp add: icalvalue_get_datetime_def v(2))
    with isa 2 later_plain [OF v(3) assms(3), of cov] show ?thesis by (auto simp: tzname_step_def)
  next
    case 3
    then obtain a v t where v: "ap_value P = Some (a, v)" "v_time (v_data v) = Some t" "plain_zone t"
      "v_kind v \<in> {ICAL_DATE_VALUE, ICAL_DATETIME_VALUE}"
      using assms(2) by (auto simp: readable_prop_def time_value_def split: option.splits)
    have "icalproperty_get_rdate (ap_addr P) st = Some (\<lparr>dtp_time = t, dtp_period = icalperiodtype_null_period\<rparr>, st)"
      using assms(1) v by (auto simp: icalproperty_get_rdate_def get_member_e_def icalvalue_get_datetimeperiod_def prop_holds_def
          value_holds_def prop_row_def value_ptr_def icalproperty_get_value_def prop_at_def val_at_def)
    with isa 3 later_plain [OF v(3) assms(3), of cov] show ?thesis by (auto simp: tzname_step_def)
  qed
qed

lemma scan_tzname_law:
  assumes "comp_holds st par T" "distinct (comp_addrs T)" "ac_props T = us @ vs"
    "prop_cursor (ac_addr T) st (map ap_addr us) (map ap_addr vs)" "list_all readable_prop vs" "plain_zone (snd cur)" "length vs < n"
  shows "\<exists>cur' st'. scan_tzname n cov (ac_addr T) (hd0 (map ap_addr vs)) cur st = Some (cur', st') \<and> plain_zone (snd cur') \<and>
    alike st st' \<and> framed {ac_addr T} st st'"
  using assms
proof (induction vs arbitrary: us st cur n)
  case Nil
  then show ?case by (cases n) (auto intro: exI [of _ st])
next
  case (Cons P vs)
  obtain m where n: "n = Suc m" "length vs < m" using Cons.prems(7) by (cases n) auto
  have P: "prop_holds st (ac_addr T) P" "ap_addr P \<noteq> 0"
    using Cons.prems(1,3) by (auto simp: comp_holds_iff [of st par T] prop_holds_def)
  obtain cur1 where cur1: "tzname_step cov (ap_addr P) cur st = Some (cur1, st)" "plain_zone (snd cur1)"
    using tzname_step_law [OF P(1) _ Cons.prems(6), of cov] Cons.prems(5) by auto
  obtain st1 where st1: "icalcomponent_get_next_property (ac_addr T) ICAL_ANY_PROPERTY st = Some (hd0 (map ap_addr vs), st1)"
    "alike st st1" "framed {ac_addr T} st st1" "prop_cursor (ac_addr T) st1 (map ap_addr (us @ [P])) (map ap_addr vs)"
    using next_any_property [OF Cons.prems(1-4)] by blast
  have "ac_props T = (us @ [P]) @ vs" "list_all readable_prop vs" using Cons.prems(3,5) by simp_all
  from Cons.IH [OF comp_holds_alike [OF Cons.prems(1) st1(2)] Cons.prems(2) this(1) st1(4) this(2) cur1(2) n(2)] obtain cur' st' where
    r: "scan_tzname m cov (ac_addr T) (hd0 (map ap_addr vs)) cur1 st1 = Some (cur', st')" "plain_zone (snd cur')" "alike st1 st'"
      "framed {ac_addr T} st1 st'" by blast
  have "scan_tzname n cov (ac_addr T) (hd0 (map ap_addr (P # vs))) cur st = Some (cur', st')" using n(1) P(2) cur1(1) st1(1) r(1) by simp
  with r(2) alike_trans [OF st1(2) r(3)] framed_trans [OF st1(3) r(4)] show ?case by blast
qed

definition plain_names :: "tz_names \<Rightarrow> bool" where
  "plain_names tn \<longleftrightarrow> plain_zone (tn_standard_date tn) \<and> plain_zone (tn_daylight_date tn)"

lemma take_tzname_law:
  assumes "plain_zone (snd cur)" "plain_names tn"
  shows "\<exists>tn'. take_tzname cov k cur tn = Some tn' \<and> plain_names tn'"
proof -
  obtain i j where "icaltime_compare cov (snd cur) (tn_standard_date tn) = Some i" "icaltime_compare cov (snd cur) (tn_daylight_date tn) = Some j"
    using assms compare_plain_zone [of "snd cur"] unfolding plain_names_def by blast
  with assms show ?thesis by (cases "fst cur") (auto simp: take_tzname_def plain_names_def)
qed

lemma zone_part_law:
  assumes "comp_holds st par C" "distinct (comp_addrs C)" "list_all readable_prop (ac_props C)" "plain_names tn"
  shows "\<exists>p st1 r cur st2 tn'. icalcomponent_get_first_property (ac_addr C) ICAL_ANY_PROPERTY st = Some (p, st1) \<and> comp_at (ac_addr C) st1 = Some r \<and>
    scan_tzname (fresh (snd (co_properties r))) cov (ac_addr C) p (None, icaltime_null_time) st1 = Some (cur, st2) \<and>
    take_tzname cov k cur tn = Some tn' \<and> plain_names tn' \<and> alike st st2 \<and> framed {ac_addr C} st st2"
proof -
  obtain st1 where st1: "icalcomponent_get_first_property (ac_addr C) ICAL_ANY_PROPERTY st = Some (hd0 (map ap_addr (ac_props C)), st1)"
    "alike st st1" "framed {ac_addr C} st st1" "prop_cursor (ac_addr C) st1 (map ap_addr []) (map ap_addr (ac_props C))"
    using first_any_property [OF assms(1,2)] by auto
  note h1 = comp_holds_alike [OF assms(1) st1(2)]
  obtain r where r: "i_objs st1 (ac_addr C) = Some (Comp r)" "comp_row par C r" using h1 by (auto simp: comp_holds_iff [of st1 par C])
  have len: "length (ac_props C) < fresh (snd (co_properties r))" using r(2) fuel_law by (fastforce simp: comp_row_def)
  have null: "plain_zone (snd (None :: string option, icaltime_null_time))" by (simp add: plain_zone_def icaltime_null_time_def)
  have all: "ac_props C = [] @ ac_props C" by simp
  obtain cur st2 where st2: "scan_tzname (fresh (snd (co_properties r))) cov (ac_addr C) (hd0 (map ap_addr (ac_props C))) (None, icaltime_null_time) st1 =
      Some (cur, st2)" "plain_zone (snd cur)" "alike st1 st2" "framed {ac_addr C} st1 st2"
    using scan_tzname_law [OF h1 assms(2) all st1(4) assms(3) null len] by blast
  obtain tn' where "take_tzname cov k cur tn = Some tn'" "plain_names tn'" using take_tzname_law [OF st2(2) assms(4)] by blast
  with st1(1) r(1) st2(1) alike_trans [OF st1(2) st2(3)] framed_trans [OF st1(3) st2(4)] show ?thesis by (metis comp_at_iff)
qed

lemma scan_zone_parts_law:
  assumes "comp_holds st par T" "distinct (comp_addrs T)" "ac_comps T = us @ vs"
    "comp_cursor (ac_addr T) st (map ac_addr us) (map ac_addr vs)" "\<forall>C \<in> set vs. list_all readable_prop (ac_props C)"
    "plain_names tn" "length vs < n"
  shows "\<exists>tn' st'. scan_zone_parts n cov (ac_addr T) (hd0 (map ac_addr vs)) tn st = Some (tn', st') \<and>
    alike st st' \<and> framed (set (comp_addrs T)) st st'"
  using assms
proof (induction vs arbitrary: us st tn n)
  case Nil
  then show ?case by (cases n) (auto intro: exI [of _ st])
next
  case (Cons C vs)
  obtain m where n: "n = Suc m" "length vs < m" using Cons.prems(7) by (cases n) auto
  have C: "comp_holds st (ac_addr T) C" "C \<in> set (ac_comps T)" using Cons.prems(1,3) by (auto simp: comp_holds_iff [of st par T])
  have d: "distinct (comp_addrs C)" "ac_addr T \<noteq> ac_addr C" "ac_addr C \<noteq> 0"
    using distinct_comp_addrs(2) [OF Cons.prems(2) C(2)] addr_in(1) [of C] C(1) by (auto simp: comp_holds_iff [of st "ac_addr T" C])
  have sub: "{ac_addr C} \<subseteq> set (comp_addrs T)" "{ac_addr T} \<subseteq> set (comp_addrs T)"
    using C(2) addr_in(1) [of C] addr_in(1) [of T] by (auto simp: comp_addrs_eq [of T])
  obtain rC where rC: "i_objs st (ac_addr C) = Some (Comp rC)" "co_kind rC = ac_kind C"
    using C(1) by (auto simp: comp_holds_iff [of st "ac_addr T" C] comp_row_def)
  have isa: "icalcomponent_isa (ac_addr C) st = Some (ac_kind C, st)" using rC d(3) by (simp add: icalcomponent_isa_def comp_at_def)
  obtain tn1 st1 where st1: "(if ac_kind C = ICAL_XSTANDARD_COMPONENT \<or> ac_kind C = ICAL_XDAYLIGHT_COMPONENT then do {
             (p, st') \<leftarrow> icalcomponent_get_first_property (ac_addr C) ICAL_ANY_PROPERTY st;
             r \<leftarrow> comp_at (ac_addr C) st';
             (cur, st'') \<leftarrow> scan_tzname (fresh (snd (co_properties r))) cov (ac_addr C) p (None, icaltime_null_time) st';
             tn' \<leftarrow> take_tzname cov (ac_kind C) cur tn;
             Some (tn', st'') }
           else Some (tn, st)) = Some (tn1, st1)" "plain_names tn1" "alike st st1" "framed {ac_addr C} st st1"
  proof (cases "ac_kind C = ICAL_XSTANDARD_COMPONENT \<or> ac_kind C = ICAL_XDAYLIGHT_COMPONENT")
    case False
    with that [of tn st] Cons.prems(6) show ?thesis by simp
  next
    case True
    have "list_all readable_prop (ac_props C)" using Cons.prems(5) by simp
    from zone_part_law [OF C(1) d(1) this Cons.prems(6), of cov "ac_kind C"] obtain p sta r cur stb tn' where
      z: "icalcomponent_get_first_property (ac_addr C) ICAL_ANY_PROPERTY st = Some (p, sta)" "comp_at (ac_addr C) sta = Some r"
        "scan_tzname (fresh (snd (co_properties r))) cov (ac_addr C) p (None, icaltime_null_time) sta = Some (cur, stb)"
        "take_tzname cov (ac_kind C) cur tn = Some tn'" "plain_names tn'" "alike st stb" "framed {ac_addr C} st stb" by blast
    show ?thesis by (rule that [of tn' stb]) (use True z in \<open>simp_all add: comp_at_def\<close>)
  qed
  note h1 = comp_holds_alike [OF Cons.prems(1) st1(3)]
  have cur: "comp_cursor (ac_addr T) st1 (map ac_addr us) (map ac_addr (C # vs))"
    using framed_comp_cursor [OF Cons.prems(4) st1(4)] d(2) by simp
  obtain st2 where st2: "icalcomponent_get_next_component (ac_addr T) ICAL_ANY_COMPONENT st1 = Some (hd0 (map ac_addr vs), st2)"
    "alike st1 st2" "framed {ac_addr T} st1 st2" "comp_cursor (ac_addr T) st2 (map ac_addr (us @ [C])) (map ac_addr vs)"
    using next_any_component [OF h1 Cons.prems(2,3) cur] by blast
  have "ac_comps T = (us @ [C]) @ vs" "\<forall>C \<in> set vs. list_all readable_prop (ac_props C)" using Cons.prems(3,5) by simp_all
  from Cons.IH [OF comp_holds_alike [OF h1 st2(2)] Cons.prems(2) this(1) st2(4) this(2) st1(2) n(2)] obtain tn' st' where
    r: "scan_zone_parts m cov (ac_addr T) (hd0 (map ac_addr vs)) tn1 st2 = Some (tn', st')" "alike st2 st'"
      "framed (set (comp_addrs T)) st2 st'" by blast
  have "scan_zone_parts n cov (ac_addr T) (hd0 (map ac_addr (C # vs))) tn st = Some (tn', st')"
    using n(1) d(3) isa st1(1) st2(1) r(1) by simp
  moreover have "alike st st'" using st1(3) st2(2) r(2) alike_trans by blast
  moreover have "framed (set (comp_addrs T)) st st'"
    using framed_trans [OF framed_mono [OF st1(4) sub(1)] framed_trans [OF framed_mono [OF st2(3) sub(2)] r(3)]] .
  ultimately show ?case by blast
qed

lemma zone_names_law:
  assumes "comp_holds st par T" "distinct (comp_addrs T)" "readable_zone T"
  shows "\<exists>x st'. icaltimezone_get_tznames_from_vtimezone cov (ac_addr T) st = Some (x, st') \<and> alike st st' \<and>
    framed (set (comp_addrs T)) st st'"
proof -
  obtain st1 where st1: "icalcomponent_get_first_component (ac_addr T) ICAL_ANY_COMPONENT st = Some (hd0 (map ac_addr (ac_comps T)), st1)"
    "alike st st1" "framed {ac_addr T} st st1" "comp_cursor (ac_addr T) st1 (map ac_addr []) (map ac_addr (ac_comps T))"
    using first_any_component [OF assms(1,2)] by auto
  note h1 = comp_holds_alike [OF assms(1) st1(2)]
  obtain r where r: "i_objs st1 (ac_addr T) = Some (Comp r)" "comp_row par T r" using h1 by (auto simp: comp_holds_iff [of st1 par T])
  have len: "length (ac_comps T) < fresh (snd (co_components r))" using r(2) fuel_law by (fastforce simp: comp_row_def)
  let ?tn = "\<lparr>tn_standard = None, tn_standard_date = icaltime_null_time, tn_daylight = None, tn_daylight_date = icaltime_null_time\<rparr>"
  have null: "plain_names ?tn" by (simp add: plain_names_def plain_zone_def icaltime_null_time_def)
  have all: "ac_comps T = [] @ ac_comps T" "\<forall>C \<in> set (ac_comps T). list_all readable_prop (ac_props C)"
    using assms(3) by (simp_all add: readable_zone_def list_all_iff)
  obtain tn st2 where st2: "scan_zone_parts (fresh (snd (co_components r))) cov (ac_addr T) (hd0 (map ac_addr (ac_comps T))) ?tn st1 = Some (tn, st2)"
    "alike st1 st2" "framed (set (comp_addrs T)) st1 st2"
    using scan_zone_parts_law [OF h1 assms(2) all(1) st1(4) all(2) null len] by blast
  have "icaltimezone_get_tznames_from_vtimezone cov (ac_addr T) st = Some (tznames_of tn, st2)"
    using st1(1) r(1) st2(1) by (simp add: icaltimezone_get_tznames_from_vtimezone_def comp_at_def)
  moreover have "framed (set (comp_addrs T)) st st2"
    using framed_trans [OF framed_mono [OF st1(3)] st2(3)] addr_in(1) [of T] by simp
  ultimately show ?thesis using alike_trans [OF st1(2) st2(2)] by blast
qed

section \<open>The zone\<close>

lemma first_text:
  assumes "comp_holds st par T" "distinct (comp_addrs T)" "list_all readable_prop (ac_props T)"
    "kind \<in> {ICAL_TZID_PROPERTY, ICAL_TZNAME_PROPERTY}"
  shows "\<exists>p st'. icalcomponent_get_first_property (ac_addr T) kind st = Some (p, st') \<and> alike st st' \<and> framed {ac_addr T} st st' \<and>
    (p \<noteq> 0 \<longrightarrow> (\<exists>s. get_member icalvalue_get_text (Some None) p st' = Some (Some s, st')))"
proof -
  obtain ps st1 where st1: "icalcomponent_get_first_property (ac_addr T) kind st = Some (hd0 (map ap_addr ps), st1)"
    "alike st st1" "framed {ac_addr T} st st1" "list_all readable_prop ps"
    "ps = [] \<or> prop_is kind (hd ps) \<and> prop_holds st1 (ac_addr T) (hd ps)"
    using first_readable [OF assms(1-3)] by metis
  have "\<exists>s. get_member icalvalue_get_text (Some None) (hd0 (map ap_addr ps)) st1 = Some (Some s, st1)" if "hd0 (map ap_addr ps) \<noteq> 0"
  proof (cases ps)
    case Nil
    with that show ?thesis by simp
  next
    case (Cons P qs)
    then have "prop_holds st1 (ac_addr T) P" "text_value (ap_value P)"
      using st1(4,5) assms(4) by (auto simp: readable_prop_def prop_is_def)
    from text_member [OF this] Cons show ?thesis by simp
  qed
  with st1(1-3) show ?thesis by blast
qed

lemma zone_properties_law:
  assumes "comp_holds st par T" "distinct (comp_addrs T)" "readable_zone T"
  shows "\<exists>zo st'. icaltimezone_get_vtimezone_properties cov (ac_addr T) st = Some (zo, st') \<and> alike st st' \<and>
    framed (set (comp_addrs T)) st st'"
proof -
  have rd: "list_all readable_prop (ac_props T)" using assms(3) by (simp add: readable_zone_def)
  have sub: "{ac_addr T} \<subseteq> set (comp_addrs T)" using addr_in(1) [of T] by simp
  obtain p st1 where st1: "icalcomponent_get_first_property (ac_addr T) ICAL_TZID_PROPERTY st = Some (p, st1)" "alike st st1" "framed {ac_addr T} st st1"
    "p \<noteq> 0 \<longrightarrow> (\<exists>s. icalproperty_get_tzid p st1 = Some (Some s, st1))"
    using first_text [OF assms(1,2) rd, of ICAL_TZID_PROPERTY] unfolding icalproperty_get_tzid_def by auto
  note f1 = framed_mono [OF st1(3) sub]
  show ?thesis
  proof (cases "p = 0")
    case True
    with st1(1,2) f1 show ?thesis by (auto simp: icaltimezone_get_vtimezone_properties_def)
  next
    case False
    then obtain s where s: "icalproperty_get_tzid p st1 = Some (Some s, st1)" using st1(4) by blast
    note h1 = comp_holds_alike [OF assms(1) st1(2)]
    obtain q st2 where st2: "icalcomponent_get_first_property (ac_addr T) ICAL_TZNAME_PROPERTY st1 = Some (q, st2)" "alike st1 st2"
      "framed {ac_addr T} st1 st2" "q \<noteq> 0 \<longrightarrow> (\<exists>s. icalproperty_get_tzname q st2 = Some (Some s, st2))"
      using first_text [OF h1 assms(2) rd, of ICAL_TZNAME_PROPERTY] unfolding icalproperty_get_tzname_def by auto
    note h2 = comp_holds_alike [OF h1 st2(2)]
    have name: "(if q \<noteq> 0 then do {
                   (tzname, st') \<leftarrow> icalproperty_get_tzname q st2;
                   if tzname = None then None else Some st' }
                 else Some st2) = Some st2" using st2(4) by auto
    obtain x st3 where st3: "icaltimezone_get_location_from_vtimezone (ac_addr T) st2 = Some (x, st3)" "alike st2 st3" "framed {ac_addr T} st2 st3"
      using zone_location_law [OF h2 assms(2) rd] by blast
    obtain y st4 where st4: "icaltimezone_get_tznames_from_vtimezone cov (ac_addr T) st3 = Some (y, st4)" "alike st3 st4"
      "framed (set (comp_addrs T)) st3 st4"
      using zone_names_law [OF comp_holds_alike [OF h2 st3(2)] assms(2,3)] by blast
    have "icaltimezone_get_vtimezone_properties cov (ac_addr T) st =
        Some (Some (icaltimezone_init\<lparr>tz_tzid := Some s, tz_location := x, tz_tznames := y, tz_component := ac_addr T\<rparr>), st4)"
      using st1(1) False s st2(1) name st3(1) st4(1) by (simp add: icaltimezone_get_vtimezone_properties_def)
    moreover have "alike st st4" using st1(2) st2(2) st3(2) st4(2) alike_trans by blast
    moreover have "framed (set (comp_addrs T)) st st4"
      using framed_trans [OF f1 framed_trans [OF framed_mono [OF st2(3) sub] framed_trans [OF framed_mono [OF st3(3) sub] st4(3)]]] .
    ultimately show ?thesis by blast
  qed
qed

section \<open>Adding a component of any kind\<close>

definition is_zone :: "acomp \<Rightarrow> bool" where
  "is_zone C \<longleftrightarrow> ac_kind C = ICAL_VTIMEZONE_COMPONENT"

text \<open>A zone goes to the front, all others to the end.\<close>

definition placed :: "acomp list \<Rightarrow> acomp \<Rightarrow> acomp list" where
  "placed cs C = (if is_zone C then C # cs else cs @ [C])"

definition zone_list_ok :: "ical \<Rightarrow> nat \<Rightarrow> bool" where
  "zone_list_ok st c \<longleftrightarrow> (case zones_at st c of None \<Rightarrow> True | Some a \<Rightarrow> array_ok a)"

lemma zone_list_same: "i_objs st' c = i_objs st c \<Longrightarrow> zone_list_ok st' c = zone_list_ok st c"
  by (simp add: zone_list_ok_def zones_at_def)

lemma comp_holds_new_root:
  assumes "comp_holds st par T" "distinct (comp_addrs T)" "comp_row par T r"
  shows "comp_holds (put_obj (ac_addr T) (Comp r) st) par T"
  using assms distinct_comp_addrs [OF assms(2)]
  by (intro comp_holds_root) (auto simp: comp_holds_iff [of st par T])

lemma append_zone_law:
  assumes "comp_holds st par T" "distinct (comp_addrs T)" "C \<in> set (ac_comps T)" "readable_zone C"
    "i_objs st (ac_addr T) = Some (Comp r)" "co_timezones r = Some a" "array_ok a"
  shows "\<exists>st'. icaltimezone_array_append_from_vtimezone cov (ac_addr T) (ac_addr C) st = Some st' \<and> comp_holds st' par T \<and>
    framed (insert (ac_addr T) (set (comp_addrs C))) st st' \<and> zone_list_ok st' (ac_addr T)"
proof -
  have C: "comp_holds st (ac_addr T) C" "distinct (comp_addrs C)" "ac_addr T \<notin> set (comp_addrs C)"
    using assms(1,3) distinct_comp_addrs(2) [OF assms(2,3)] by (auto simp: comp_holds_iff [of st par T])
  obtain zo st1 where st1: "icaltimezone_get_vtimezone_properties cov (ac_addr C) st = Some (zo, st1)" "alike st st1" "framed (set (comp_addrs C)) st st1"
    using zone_properties_law [OF C(1,2) assms(4)] by blast
  note h1 = comp_holds_alike [OF assms(1) st1(2)]
  have r: "i_objs st1 (ac_addr T) = Some (Comp r)" using st1(3) C(3) assms(5) by (simp add: framed_def)
  have row: "comp_row par T r" using h1 r by (auto simp: comp_holds_iff [of st1 par T])
  have f1: "framed (insert (ac_addr T) (set (comp_addrs C))) st st1" by (rule framed_mono [OF st1(3)]) blast
  show ?thesis
  proof (cases zo)
    case None
    moreover have "zone_list_ok st1 (ac_addr T)" using r assms(6,7) by (simp add: zone_list_ok_def zones_at_def)
    ultimately show ?thesis using st1(1) h1 f1 by (auto simp: icaltimezone_array_append_from_vtimezone_def)
  next
    case (Some z)
    obtain a1 where a1: "icalarray_append a z = Some a1" "array_ok a1" using ica.append_law [OF assms(7), of z] by blast
    let ?r = "r\<lparr>co_timezones := Some a1\<rparr>"
    let ?st2 = "put_obj (ac_addr T) (Comp ?r) st1"
    have "icaltimezone_array_append_from_vtimezone cov (ac_addr T) (ac_addr C) st = Some ?st2"
      using st1(1) Some r assms(6) a1(1) by (simp add: icaltimezone_array_append_from_vtimezone_def set_comp_def comp_at_def)
    moreover have "comp_holds ?st2 par T" using comp_holds_new_root [OF h1 assms(2)] row by (simp add: comp_row_def)
    moreover have "framed (insert (ac_addr T) (set (comp_addrs C))) st ?st2" by (rule framed_putI [OF f1]) simp
    moreover have "zone_list_ok ?st2 (ac_addr T)" using a1(2) by (simp add: zone_list_ok_def zones_at_def)
    ultimately show ?thesis by blast
  qed
qed

lemma add_zone_law:
  assumes "comp_holds st par T" "comp_holds st 0 C" "distinct (comp_addrs T)" "distinct (comp_addrs C)"
    "set (comp_addrs T) \<inter> set (comp_addrs C) = {}" "is_zone C" "readable_zone C" "zone_list_ok st (ac_addr T)"
  shows "\<exists>st'. icalcomponent_add_component cov (ac_addr T) (ac_addr C) st = Some st' \<and>
    comp_holds st' par (with_comps (C # ac_comps T) T) \<and> framed (insert (ac_addr T) (set (comp_addrs C))) st st' \<and>
    zone_list_ok st' (ac_addr T)"
proof -
  obtain r where r: "i_objs st (ac_addr T) = Some (Comp r)" "comp_row par T r" "ac_addr T \<noteq> 0"
    using assms(1) by (auto simp: comp_holds_iff [of st par T])
  obtain q where q: "i_objs st (ac_addr C) = Some (Comp q)" "comp_row 0 C q" "ac_addr C \<noteq> 0"
    using assms(2) by (auto simp: comp_holds_iff [of st 0 C])
  have ne: "ac_addr T \<noteq> ac_addr C" "ac_addr T \<notin> set (comp_addrs C)" using assms(5) by (auto simp: comp_addrs_eq [of T] comp_addrs_eq [of C])
  let ?st1 = "put_obj (ac_addr C) (Comp (q\<lparr>co_parent := ac_addr T\<rparr>)) st"
  obtain L where L: "unshift_elem (ac_addr C) (co_components r) = Some L" "plist_of L (ac_addr C # map ac_addr (ac_comps T))"
    using unshift_elem_law r(2) by (fastforce simp: comp_row_def)
  define a where "a = (case co_timezones r of None \<Rightarrow> icaltimezone_array_new | Some a \<Rightarrow> a)"
  have ok: "array_ok a"
    using assms(8) r(1) by (cases "co_timezones r")
      (simp_all add: a_def zone_list_ok_def zones_at_def icaltimezone_array_new_def icalarray_new_def array_ok_def)
  let ?r3 = "r\<lparr>co_components := L, co_timezones := Some a\<rparr>"
  let ?st3 = "put_obj (ac_addr T) (Comp ?r3) ?st1"
  let ?T = "with_comps (C # ac_comps T) T"
  have f: "framed {ac_addr C} st ?st1" by (simp add: framed_def)
  have C: "comp_holds ?st1 (ac_addr T) C"
    using assms(2) distinct_comp_addrs [OF assms(4)] q
    by (intro comp_holds_root) (auto simp: comp_holds_iff [of st 0 C] comp_row_def)
  have "prop_holds ?st1 (ac_addr T) Q" if "Q \<in> set (ac_props T)" for Q
    using assms(1,5) that by (intro prop_holds_framed [OF _ f]) (auto simp: comp_holds_iff [of st par T] comp_addrs_eq [of T] comp_addrs_eq [of C])
  moreover have "comp_holds ?st1 (ac_addr T) D" if "D \<in> set (ac_comps T)" for D
    using assms(1,5) that by (intro comp_holds_framed [OF _ f]) (auto simp: comp_holds_iff [of st par T] comp_addrs_eq [of T] comp_addrs_eq [of C])
  moreover have "comp_row par ?T ?r3" using r(2) L(2) by (simp add: comp_row_def)
  ultimately have h3: "comp_holds ?st3 par ?T"
    using comp_holds_root [of par ?T ?r3 ?st1] C r(3) distinct_comp_addrs [OF assms(3)] ne(2) by auto
  have d3: "distinct (comp_addrs ?T)" using assms(3-5) by (cases T) (auto simp: with_comps_def)
  obtain st4 where st4: "icaltimezone_array_append_from_vtimezone cov (ac_addr T) (ac_addr C) ?st3 = Some st4" "comp_holds st4 par ?T"
    "framed (insert (ac_addr T) (set (comp_addrs C))) ?st3 st4" "zone_list_ok st4 (ac_addr T)"
    using append_zone_law [OF h3 d3 _ assms(7), of ?r3 a] ok by auto
  obtain r4 where r4: "i_objs st4 (ac_addr T) = Some (Comp r4)" "comp_row par ?T r4" using st4(2) by (auto simp: comp_holds_iff [of st4 par ?T])
  let ?r5 = "r4\<lparr>co_timezones_sorted := 0\<rparr>"
  let ?st5 = "put_obj (ac_addr T) (Comp ?r5) st4"
  have "icalcomponent_add_component cov (ac_addr T) (ac_addr C) st = Some ?st5"
    using r q L(1) ne(1) assms(6) st4(1) r4(1)
    by (simp add: icalcomponent_add_component_def set_comp_def comp_at_def comp_row_def is_zone_def a_def split: option.splits)
  moreover have "comp_holds ?st5 par ?T" using comp_holds_new_root [OF st4(2) d3] r4(2) by (simp add: comp_row_def)
  moreover have "framed (insert (ac_addr T) (set (comp_addrs C))) st ?st5"
  proof -
    have "framed (insert (ac_addr T) (set (comp_addrs C))) st ?st3" using addr_in(1) [of C] by (simp add: framed_def)
    from framed_trans [OF this st4(3)] show ?thesis by (rule framed_putI) simp
  qed
  moreover have "zone_list_ok ?st5 (ac_addr T)" using st4(4) r4(1) by (simp add: zone_list_ok_def zones_at_def)
  ultimately show ?thesis by blast
qed

lemma add_placed_law:
  assumes "comp_holds st par T" "comp_holds st 0 C" "distinct (comp_addrs T)" "distinct (comp_addrs C)"
    "set (comp_addrs T) \<inter> set (comp_addrs C) = {}" "is_zone C \<longrightarrow> readable_zone C" "zone_list_ok st (ac_addr T)"
  shows "\<exists>st'. icalcomponent_add_component cov (ac_addr T) (ac_addr C) st = Some st' \<and>
    comp_holds st' par (with_comps (placed (ac_comps T) C) T) \<and> framed (insert (ac_addr T) (set (comp_addrs C))) st st' \<and>
    zone_list_ok st' (ac_addr T)"
proof (cases "is_zone C")
  case True
  with add_zone_law [OF assms(1-5) True _ assms(7), of cov] assms(6) show ?thesis by (simp add: placed_def)
next
  case False
  then obtain st' where "icalcomponent_add_component cov (ac_addr T) (ac_addr C) st = Some st'"
    "comp_holds st' par (with_comps (ac_comps T @ [C]) T)" "framed {ac_addr T, ac_addr C} st st'" "zones_at st' (ac_addr T) = zones_at st (ac_addr T)"
    using add_component_law [OF assms(1-5), of cov] by (auto simp: is_zone_def)
  moreover have "{ac_addr T, ac_addr C} \<subseteq> insert (ac_addr T) (set (comp_addrs C))" using addr_in(1) [of C] by simp
  ultimately show ?thesis using False assms(7) framed_mono by (auto simp: placed_def zone_list_ok_def)
qed

end
