(* ===== verification/TreeClone.thy ===== *)
theory TreeClone
  imports TreeZones
begin

text \<open>
  Copying a tree: the copy is a tree of new objects, and the objects that were there stay as they
  were. Which tree the copy is says the function copied: the code does not copy the names of X
  components, and adding the copies of the time zones one by one puts them in front of the other
  components in the reverse order. The values have no attachments, which are shared.
\<close>

section \<open>Trees without their addresses\<close>

definition erase_prop :: "aprop \<Rightarrow> aprop" where
  "erase_prop P = AProp 0 (ap_kind P) (ap_x_name P) (map (\<lambda>q. (0, snd q)) (ap_params P))
     (map_option (\<lambda>x. (0, icalvalue_set_parent 0 (snd x))) (ap_value P))"

primrec erase :: "acomp \<Rightarrow> acomp" where
  "erase (AComp c k x ps cs) = AComp 0 k x (map erase_prop ps) (map erase cs)"

lemma erase_prop_twice [simp]: "erase_prop (erase_prop P) = erase_prop P"
  by (simp add: erase_prop_def option.map_comp comp_def icalvalue_set_parent_def)

lemma erase_sel [simp]:
  "ac_kind (erase T) = ac_kind T" "ac_x_name (erase T) = ac_x_name T" "ac_props (erase T) = map erase_prop (ac_props T)"
  "ac_comps (erase T) = map erase (ac_comps T)" "is_zone (erase T) = is_zone T"
  by (cases T; simp add: is_zone_def)+

text \<open>What a copy is, but for the addresses.\<close>

definition zones_in_front :: "acomp list \<Rightarrow> acomp list" where
  "zones_in_front cs = rev (filter is_zone cs) @ filter (\<lambda>C. \<not> is_zone C) cs"

primrec copied :: "acomp \<Rightarrow> acomp" where
  "copied (AComp c k x ps cs) = AComp 0 k None (map erase_prop ps) (zones_in_front (map copied cs))"

lemma copied_sel [simp]:
  "ac_kind (copied T) = ac_kind T" "ac_x_name (copied T) = None" "ac_props (copied T) = map erase_prop (ac_props T)"
  "ac_comps (copied T) = zones_in_front (map copied (ac_comps T))" "is_zone (copied T) = is_zone T"
  by (cases T; simp add: is_zone_def)+

lemma placed_all: "foldl placed ds cs = rev (filter is_zone cs) @ ds @ filter (\<lambda>C. \<not> is_zone C) cs"
  by (induction cs arbitrary: ds) (simp_all add: placed_def)

lemma map_zones_in_front: "map erase (zones_in_front cs) = zones_in_front (map erase cs)"
  by (simp add: zones_in_front_def rev_map filter_map comp_def)

lemma set_zones_in_front [simp]: "set (zones_in_front cs) = set cs"
  by (auto simp: zones_in_front_def)

lemma erase_copied [simp]: "erase (copied T) = copied T"
proof (induction T)
  case (AComp c k x ps cs)
  then have m: "map erase (map copied cs) = map copied cs" by simp
  have "map erase (zones_in_front (map copied cs)) = zones_in_front (map copied cs)" unfolding map_zones_in_front m ..
  then show ?case by simp
qed

text \<open>
  A tree without X names, and with the zones in front and at most one of them in each component, is
  copied as it is.
\<close>

primrec plainly_copied :: "acomp \<Rightarrow> bool" where
  "plainly_copied (AComp c k x ps cs) \<longleftrightarrow> x = None \<and> list_all (\<lambda>C. \<not> is_zone C) (tl cs) \<and> list_all id (map plainly_copied cs)"

lemma copied_plainly: "plainly_copied T \<Longrightarrow> copied T = erase T"
proof (induction T)
  case (AComp c k x ps cs)
  then have m: "map copied cs = map erase cs" by (auto simp: list_all_iff)
  have "zones_in_front ds = ds" if "list_all (\<lambda>C. \<not> is_zone C) (tl ds)" for ds
    using that by (cases ds) (auto simp: zones_in_front_def list_all_iff filter_empty_conv)
  then have "zones_in_front (map erase cs) = map erase cs"
    using AComp.prems by (cases cs) (auto simp: list_all_iff)
  then have "zones_in_front (map copied cs) = map erase cs" unfolding m .
  with AComp.prems show ?case by simp
qed

section \<open>The text does not depend on the addresses\<close>

lemma given_kind_erase: "given_kind (erase_prop P) = given_kind P"
proof -
  have "(case List.find (\<lambda>q. pa_kind (snd q) = ICAL_VALUE_PARAMETER) (map (\<lambda>q. (0::nat, snd q)) qs) of
      None \<Rightarrow> ICAL_NO_VALUE | Some q \<Rightarrow> value_param_kind (snd q)) =
    (case List.find (\<lambda>q. pa_kind (snd q) = ICAL_VALUE_PARAMETER) qs of
      None \<Rightarrow> ICAL_NO_VALUE | Some q \<Rightarrow> value_param_kind (snd q))" for qs :: "(nat \<times> icalparameter) list"
    by (induction qs) auto
  then show ?thesis by (simp add: given_kind_def erase_prop_def)
qed

lemma value_txt_parent [simp]: "value_txt (icalvalue_set_parent p v) = value_txt v"
  by (simp add: value_txt_def icalvalue_set_parent_def)

lemma printable_value_parent [simp]: "printable_value (icalvalue_set_parent p v) = printable_value v"
  by (simp add: printable_value_def icalvalue_set_parent_def)

lemma erase_parts:
  "prop_name (erase_prop P) = prop_name P" "value_clause (erase_prop P) = value_clause P" "prop_value_txt (erase_prop P) = prop_value_txt P"
  "map (param_clause \<circ> snd) (ap_params (erase_prop P)) = map (param_clause \<circ> snd) (ap_params P)"
  "list_all (printable_param \<circ> snd) (ap_params (erase_prop P)) = list_all (printable_param \<circ> snd) (ap_params P)"
  "(case ap_value (erase_prop P) of None \<Rightarrow> True | Some (_, v) \<Rightarrow> printable_value v) = (case ap_value P of None \<Rightarrow> True | Some (_, v) \<Rightarrow> printable_value v)"
proof -
  show "value_clause (erase_prop P) = value_clause P"
    using given_kind_erase [of P] by (auto simp: value_clause_def erase_prop_def kind_of_value_def icalvalue_set_parent_def split: option.splits)
qed (auto simp: erase_prop_def prop_name_def prop_value_txt_def list_all_iff split: option.splits)

lemma prop_line_erase: "erase_prop P = erase_prop P' \<Longrightarrow> prop_line P = prop_line P' \<and> printable_prop P = printable_prop P'"
  by (metis erase_parts prop_line_def printable_prop_def)

text \<open>Trees that are the same but for the addresses have the same text.\<close>

lemma map_eq_erase: "map erase_prop ps = map erase_prop ps' \<Longrightarrow> map prop_line ps = map prop_line ps' \<and> list_all printable_prop ps = list_all printable_prop ps'"
proof (induction ps arbitrary: ps')
  case (Cons P ps)
  then obtain P' qs where "ps' = P' # qs" by (cases ps') auto
  with Cons prop_line_erase [of P P'] show ?case by auto
qed simp

lemma erase_text:
  "erase T = erase T' \<Longrightarrow> tree_text T' = tree_text T \<and> tree_lines T' = tree_lines T \<and> printable_tree T' = printable_tree T"
proof (induction T arbitrary: T')
  case (AComp c k x ps cs)
  obtain c' ps' cs' where T': "T' = AComp c' k x ps' cs'" "map erase_prop ps = map erase_prop ps'" "map erase cs = map erase cs'"
    using AComp.prems by (cases T') auto
  have ps: "map prop_line ps' = map prop_line ps" "list_all printable_prop ps' = list_all printable_prop ps"
    using map_eq_erase [OF T'(2)] by auto
  have folds: "map (\<lambda>P. folded True (prop_line P @ CRLF)) ps' = map (\<lambda>P. folded True (prop_line P @ CRLF)) ps"
    using arg_cong [OF ps(1), of "map (\<lambda>l. folded True (l @ CRLF))"] by (simp add: comp_def)
  have cs: "map tree_text ds' = map tree_text ds \<and> map tree_lines ds' = map tree_lines ds \<and> map printable_tree ds' = map printable_tree ds"
    if "map erase ds = map erase ds'" "set ds \<subseteq> set cs" for ds ds'
    using that
  proof (induction ds arbitrary: ds')
    case (Cons D ds)
    then obtain D' es where "ds' = D' # es" by (cases ds') auto
    with Cons.prems have "erase D = erase D'" "map erase ds = map erase es" "set ds \<subseteq> set cs" "D \<in> set cs" by simp_all
    with AComp.IH [of D D'] Cons.IH [of es] \<open>ds' = D' # es\<close> show ?case by simp
  qed simp
  have nm: "comp_name (AComp c' k x ps' cs') = comp_name (AComp c k x ps cs)" by (simp add: comp_name_def)
  show ?case using cs [OF T'(3)] nm ps folds T'(1) by simp
qed

text \<open>Whether a zone can be read does not either, nor on the copying.\<close>

lemma readable_erase_prop [simp]: "readable_prop (erase_prop P) = readable_prop P"
proof -
  have "text_value (ap_value (erase_prop P)) = text_value (ap_value P)" "time_value (ap_value (erase_prop P)) = time_value (ap_value P)"
    by (cases "ap_value P"; simp add: erase_prop_def text_value_def time_value_def icalvalue_set_parent_def icalvalue_get_text_def split_beta)+
  moreover have "ap_kind (erase_prop P) = ap_kind P" "ap_value (erase_prop P) = None \<longleftrightarrow> ap_value P = None" by (simp_all add: erase_prop_def)
  ultimately show ?thesis unfolding readable_prop_def by (simp only:)
qed

lemma readable_erase: "readable_zone (erase T) = readable_zone T"
  by (simp add: readable_zone_def list_all_iff)

lemma readable_copied: "readable_zone (copied T) = readable_zone T"
  by (simp add: readable_zone_def list_all_iff)

lemma erase_copy_facts:
  assumes "erase T' = copied T"
  shows "is_zone T' = is_zone T" "readable_zone T' = readable_zone T"
  using arg_cong [OF assms, of is_zone] arg_cong [OF assms, of readable_zone] by (simp_all add: readable_erase readable_copied)

section \<open>Values\<close>

definition clonable_value :: "icalvalue \<Rightarrow> bool" where
  "clonable_value v \<longleftrightarrow> icalvalue_kind_is_valid (v_kind v) \<and> v_kind v \<notin> {ICAL_ATTACH_VALUE, ICAL_BINARY_VALUE} \<and>
     (if v_kind v = ICAL_X_VALUE then v_data v = V_zero else v_x_value v = None) \<and>
     (v_kind v \<in> {ICAL_QUERY_VALUE, ICAL_STRING_VALUE, ICAL_TEXT_VALUE, ICAL_CALADDRESS_VALUE, ICAL_URI_VALUE} \<longrightarrow>
        v_data v = V_zero \<or> (\<exists>s. v_data v = V_string s)) \<and>
     (v_kind v = ICAL_RECUR_VALUE \<longrightarrow> v_data v = V_zero \<or> (\<exists>r. v_data v = V_recur r))"

lemma value_clone_law:
  "clonable_value v \<Longrightarrow> icalvalue_new_clone v env = Some (Some (icalvalue_set_parent 0 v), env)"
  by (cases v) (auto simp: clonable_value_def icalvalue_new_clone_def icalvalue_new_impl_def icalvalue_set_parent_def Let_def
      v_string_def v_recur_def split: option.splits if_splits)

section \<open>Properties\<close>

text \<open>Nothing that was there changes but for one object.\<close>

definition grown :: "nat \<Rightarrow> ical \<Rightarrow> ical \<Rightarrow> bool" where
  "grown p st st' \<longleftrightarrow> i_next st \<le> i_next st' \<and> i_env st' = i_env st \<and> (\<forall>a < i_next st. a \<noteq> p \<longrightarrow> i_objs st' a = i_objs st a)"

lemma grown_refl [simp]: "grown p st st"
  by (simp add: grown_def)

lemma grown_trans: "grown p st st1 \<Longrightarrow> grown p st1 st2 \<Longrightarrow> grown p st st2"
  by (auto simp: grown_def)

lemma grown_put: "grown p st (put_obj p x st)"
  by (simp add: grown_def)

lemma grown_new: "grown p st (snd (new_obj x st))"
  by (simp add: grown_def new_obj_def)

lemma new_obj_simps [simp]:
  "fst (new_obj x st) = i_next st" "i_next (snd (new_obj x st)) = Suc (i_next st)" "i_env (snd (new_obj x st)) = i_env st"
  "i_objs (snd (new_obj x st)) a = (if a = i_next st then Some x else i_objs st a)"
  by (simp_all add: new_obj_def)

lemma prop_holds_grown:
  "prop_holds st c P \<Longrightarrow> grown p st st' \<Longrightarrow> \<forall>a \<in> set (prop_addrs P). a < i_next st \<and> a \<noteq> p \<Longrightarrow> prop_holds st' c P"
  by (rule prop_holds_same) (auto simp: grown_def same_at_def)

lemma comp_holds_grown:
  "comp_holds st c T \<Longrightarrow> grown p st st' \<Longrightarrow> \<forall>a \<in> set (comp_addrs T). a < i_next st \<and> a \<noteq> p \<Longrightarrow> comp_holds st' c T"
  by (rule comp_holds_same) (auto simp: grown_def same_at_def)

lemma clone_parameters_law:
  assumes "cursor old e xs (map fst qs)" "list_all (param_holds st) qs" "\<forall>q \<in> set qs. fst q < i_next st \<and> fst q \<noteq> p"
    "i_objs st p = Some (Prop r)" "plist_of (pr_parameters r) us" "p < i_next st" "length qs < n"
  shows "\<exists>L st' vs. clone_parameters n e old p st = Some st' \<and> i_objs st' p = Some (Prop (r\<lparr>pr_parameters := L\<rparr>)) \<and>
    plist_of L (us @ map fst vs) \<and> map snd vs = map snd qs \<and> list_all (param_holds st') vs \<and>
    map fst vs = [i_next st ..< i_next st'] \<and> grown p st st'"
  using assms
proof (induction qs arbitrary: e xs st r us n)
  case Nil
  then have "e = 0" using cursor_zero by fastforce
  with Nil show ?case
    by (cases n) (simp, intro exI [of _ "pr_parameters r"] exI [of _ st] exI [of _ "[]"], simp)
next
  case (Cons q qs)
  obtain m where n: "n = Suc m" "length qs < m" using Cons.prems(7) by (cases n) auto
  have q: "i_objs st (fst q) = Some (Para (snd q))" using Cons.prems(2) by (simp add: param_holds_def)
  have cur: "cursor old e xs (fst q # map fst qs)" using Cons.prems(1) by simp
  obtain e' where e': "pvl_next e (snd old) = Some e'" "cursor old e' (xs @ [fst q]) (map fst qs)"
    using cursor_next(1) [OF cur] by blast
  obtain K where K: "push_elem (i_next st) (pr_parameters r) = Some K" "plist_of K (us @ [i_next st])"
    using push_elem_law [OF Cons.prems(5)] by blast
  let ?st1 = "snd (new_obj (Para (snd q)) st)"
  let ?r = "r\<lparr>pr_parameters := K\<rparr>"
  let ?st2 = "put_obj p (Prop ?r) ?st1"
  have ne: "p \<noteq> i_next st" using Cons.prems(6) by simp
  have g: "grown p st ?st2" using grown_new grown_put grown_trans by blast
  have "clone_parameters n e old p st = clone_parameters m e' old p ?st2"
    using n(1) cursor_next(2,3) [OF cur] q e'(1) K(1) Cons.prems(4) ne
    by (simp add: icalparameter_new_clone_def para_at_def prop_at_def set_prop_def new_obj_def)
  moreover have h: "list_all (param_holds ?st2) qs"
    using Cons.prems(2,3) by (auto simp: list_all_iff param_holds_def)
  moreover have lt: "\<forall>q \<in> set qs. fst q < i_next ?st2 \<and> fst q \<noteq> p" using Cons.prems(3) by auto
  moreover have rw: "i_objs ?st2 p = Some (Prop ?r)" "plist_of (pr_parameters ?r) (us @ [i_next st])" "p < i_next ?st2"
    using K(2) Cons.prems(6) by simp_all
  ultimately obtain L st' vs where r: "clone_parameters n e old p st = Some st'" "i_objs st' p = Some (Prop (?r\<lparr>pr_parameters := L\<rparr>))"
    "plist_of L ((us @ [i_next st]) @ map fst vs)" "map snd vs = map snd qs" "list_all (param_holds st') vs"
    "map fst vs = [i_next ?st2 ..< i_next st']" "grown p ?st2 st'"
    using Cons.IH [OF e'(2) h lt rw n(2)] by metis
  have new: "i_objs st' (i_next st) = Some (Para (snd q))" "Suc (i_next st) \<le> i_next st'"
    using r(7) ne by (auto simp: grown_def)
  show ?case
    using r new g grown_trans [OF g r(7)] Cons.prems(6)
    by (intro exI [of _ L] exI [of _ st'] exI [of _ "(i_next st, snd q) # vs"]) (auto simp: list_all_iff param_holds_def upt_conv_Cons)
qed

definition clonable_prop :: "aprop \<Rightarrow> bool" where
  "clonable_prop P \<longleftrightarrow> icalproperty_kind_is_valid (ap_kind P) \<and> (case ap_value P of None \<Rightarrow> True | Some (_, v) \<Rightarrow> clonable_value v)"

lemma icalproperty_clone_law:
  assumes "prop_holds st c P" "\<forall>a \<in> set (prop_addrs P). a < i_next st" "clonable_prop P"
  shows "\<exists>P' st'. icalproperty_new_clone (ap_addr P) st = Some (ap_addr P', st') \<and> prop_holds st' 0 P' \<and> erase_prop P' = erase_prop P \<and>
    distinct (prop_addrs P') \<and> (\<forall>a \<in> set (prop_addrs P'). i_next st \<le> a \<and> a < i_next st') \<and> grown (i_next st) st st'"
proof -
  obtain r where r: "i_objs st (ap_addr P) = Some (Prop r)" "prop_row c P r" "ap_addr P \<noteq> 0" using assms(1) by (auto simp: prop_holds_def)
  let ?p = "i_next st"
  have p: "?p \<noteq> 0" "ap_addr P < ?p" using assms(2) addr_in(2) [of P] r(3) by auto
  let ?r0 = "\<lparr>pr_kind = ap_kind P, pr_x_name = None, pr_parameters = new_plist, pr_parameter_iterator = 0, pr_value = 0, pr_parent = 0\<rparr>"
  let ?st1 = "snd (new_obj (Prop ?r0) st)"
  have new: "icalproperty_new_impl (pr_kind r) st = (?p, ?st1)"
    using assms(3) r(2) by (simp add: icalproperty_new_impl_def clonable_prop_def prop_row_def new_obj_def)
  obtain vo' st2 where st2: "(if pr_value r = 0 then Some ?st1 else do {
        (v, st') \<leftarrow> clone_value (pr_value r) ?st1;
        set_prop ?p (\<lambda>r. r\<lparr>pr_value := v\<rparr>) st' }) = Some st2"
    "i_objs st2 ?p = Some (Prop (?r0\<lparr>pr_value := value_ptr vo'\<rparr>))" "value_holds st2 vo'"
    "map_option (\<lambda>x. (0, icalvalue_set_parent 0 (snd x))) vo' = map_option (\<lambda>x. (0::nat, icalvalue_set_parent 0 (snd x))) (ap_value P)"
    "case vo' of None \<Rightarrow> i_next st2 = Suc ?p | Some (a, v) \<Rightarrow> a = Suc ?p \<and> i_next st2 = Suc (Suc ?p)" "grown ?p st st2"
  proof (cases "ap_value P")
    case None
    with r(2) that [of ?st1 None] grown_new show ?thesis by (simp add: prop_row_def value_ptr_def value_holds_def)
  next
    case (Some x)
    obtain a v where x: "x = (a, v)" by force
    have v: "a \<noteq> 0" "i_objs st a = Some (Val v)" "clonable_value v" "a < ?p"
      using assms Some x by (auto simp: prop_holds_def value_holds_def clonable_prop_def prop_addrs_def)
    let ?st2 = "snd (new_obj (Val (icalvalue_set_parent 0 v)) ?st1)"
    let ?st3 = "put_obj ?p (Prop (?r0\<lparr>pr_value := Suc ?p\<rparr>)) ?st2"
    have "in_env (icalvalue_new_clone v) ?st1 = Some (Some (icalvalue_set_parent 0 v), ?st1)"
      using value_clone_law [OF v(3)] by (simp add: in_env_def)
    then have "clone_value a ?st1 = Some (Suc ?p, ?st2)"
      using v by (simp add: clone_value_def val_at_def new_value_def new_obj_def)
    then have "(if pr_value r = 0 then Some ?st1 else do {
        (v, st') \<leftarrow> clone_value (pr_value r) ?st1;
        set_prop ?p (\<lambda>r. r\<lparr>pr_value := v\<rparr>) st' }) = Some ?st3"
      using Some x v r(2) by (simp add: prop_row_def value_ptr_def set_prop_def prop_at_def)
    moreover have "grown ?p st ?st3" by (simp add: grown_def)
    ultimately show ?thesis
      using that [of ?st3 "Some (Suc ?p, icalvalue_set_parent 0 v)"] Some x
      by (simp add: value_ptr_def value_holds_def icalvalue_set_parent_def)
  qed
  let ?r3 = "?r0\<lparr>pr_value := value_ptr vo', pr_x_name := ap_x_name P\<rparr>"
  let ?st3 = "put_obj ?p (Prop ?r3) st2"
  have set3: "set_prop ?p (\<lambda>q. q\<lparr>pr_x_name := pr_x_name r\<rparr>) st2 = Some ?st3"
    using st2(2) r(2) by (simp add: set_prop_def prop_at_def prop_row_def)
  have nxt: "?p < i_next st2" "?p < i_next ?st3" using st2(5) by (auto split: option.splits)
  have lst: "plist_of (pr_parameters r) (map fst (ap_params P))" using r(2) by (simp add: prop_row_def)
  have old: "\<forall>q \<in> set (ap_params P). fst q < i_next st" using assms(2) by (auto simp: prop_addrs_def)
  have ph: "list_all (param_holds ?st3) (ap_params P)" "\<forall>q \<in> set (ap_params P). fst q < i_next ?st3 \<and> fst q \<noteq> ?p"
    using assms(1) st2(6) old by (force simp: list_all_iff param_holds_def prop_holds_def grown_def)+
  have len: "length (ap_params P) < fresh (snd (pr_parameters r))" using fuel_law [OF lst] by simp
  obtain L st4 vs where st4: "clone_parameters (fresh (snd (pr_parameters r))) (pvl_head (fst (pr_parameters r))) (pr_parameters r) ?p ?st3 = Some st4"
    "i_objs st4 ?p = Some (Prop (?r3\<lparr>pr_parameters := L\<rparr>))" "plist_of L (map fst vs)" "map snd vs = map snd (ap_params P)"
    "list_all (param_holds st4) vs" "map fst vs = [i_next ?st3 ..< i_next st4]" "grown ?p ?st3 st4"
    using clone_parameters_law [OF cursor_head [OF lst] ph, of ?r3 "[]" "fresh (snd (pr_parameters r))"] nxt(2) len by auto
  let ?P = "AProp ?p (ap_kind P) (ap_x_name P) vs vo'"
  have run: "icalproperty_new_clone (ap_addr P) st = Some (?p, st4)"
    using r(1) new p(1) st2(1) set3 st4(1) by (simp add: icalproperty_new_clone_def prop_at_def)
  have "value_holds st4 vo'"
    using st2(3,5) st4(7) by (auto simp: value_holds_def grown_def split: option.splits)
  then have "prop_holds st4 0 ?P" using st4 p(1) by (simp add: prop_holds_def prop_row_def)
  moreover have "erase_prop ?P = erase_prop P"
    using st2(4) arg_cong [OF st4(4), of "map (\<lambda>q. (0::nat, q))"] by (simp add: erase_prop_def comp_def)
  moreover have "distinct (prop_addrs ?P) \<and> (\<forall>a \<in> set (prop_addrs ?P). i_next st \<le> a \<and> a < i_next st4)"
    using st4(6,7) st2(5) by (auto simp: prop_addrs_def grown_def simp flip: set_map split: option.splits)
  moreover have "grown ?p st st4" using grown_trans [OF grown_trans [OF st2(6) grown_put] st4(7)] .
  ultimately show ?thesis using run by (intro exI [of _ ?P] exI [of _ st4]) simp
qed

section \<open>Components\<close>

text \<open>A tree whose addresses were given once, and a list of trees next to it.\<close>

definition given :: "ical \<Rightarrow> acomp \<Rightarrow> bool" where
  "given st T \<longleftrightarrow> distinct (comp_addrs T) \<and> (\<forall>a \<in> set (comp_addrs T). a < i_next st)"

lemma distinct_with_props:
  "distinct (comp_addrs (with_props (ac_props T @ [P]) T)) \<longleftrightarrow>
     distinct (comp_addrs T) \<and> distinct (prop_addrs P) \<and> set (comp_addrs T) \<inter> set (prop_addrs P) = {}"
  by (cases T) (auto simp: with_props_def)

lemma distinct_with_comps:
  "distinct (comp_addrs (with_comps (placed (ac_comps T) C) T)) \<longleftrightarrow>
     distinct (comp_addrs T) \<and> distinct (comp_addrs C) \<and> set (comp_addrs T) \<inter> set (comp_addrs C) = {}"
  by (cases T) (auto simp: with_comps_def placed_def)

lemma set_with_one:
  "set (comp_addrs (with_props (ac_props T @ [P]) T)) = set (comp_addrs T) \<union> set (prop_addrs P)"
  "set (comp_addrs (with_comps (placed (ac_comps T) C) T)) = set (comp_addrs T) \<union> set (comp_addrs C)"
  by (cases T; auto simp: with_props_def with_comps_def placed_def)+

lemma disjoint_below: "\<forall>a \<in> A. a < n \<Longrightarrow> \<forall>a \<in> B. n \<le> a \<and> a < m \<Longrightarrow> A \<inter> B = {}" for n :: nat
  by force

lemma given_add_prop:
  assumes "given st T" "distinct (prop_addrs P)" "\<forall>a \<in> set (prop_addrs P). i_next st \<le> a \<and> a < i_next st'" "i_next st \<le> i_next st'"
  shows "given st' (with_props (ac_props T @ [P]) T)" "set (comp_addrs T) \<inter> set (prop_addrs P) = {}"
proof -
  have lt: "\<forall>a \<in> set (comp_addrs T). a < i_next st" "distinct (comp_addrs T)" using assms(1) by (auto simp: given_def)
  show d: "set (comp_addrs T) \<inter> set (prop_addrs P) = {}" using disjoint_below [OF lt(1) assms(3)] .
  show "given st' (with_props (ac_props T @ [P]) T)"
    unfolding given_def distinct_with_props set_with_one using lt assms(2-4) d by (auto dest: less_le_trans)
qed

lemma given_add_comp:
  assumes "given st T" "distinct (comp_addrs C)" "\<forall>a \<in> set (comp_addrs C). i_next st \<le> a \<and> a < i_next st'" "i_next st \<le> i_next st'"
  shows "given st' (with_comps (placed (ac_comps T) C) T)" "set (comp_addrs T) \<inter> set (comp_addrs C) = {}"
proof -
  have lt: "\<forall>a \<in> set (comp_addrs T). a < i_next st" "distinct (comp_addrs T)" using assms(1) by (auto simp: given_def)
  show d: "set (comp_addrs T) \<inter> set (comp_addrs C) = {}" using disjoint_below [OF lt(1) assms(3)] .
  show "given st' (with_comps (placed (ac_comps T) C) T)"
    unfolding given_def distinct_with_comps set_with_one using lt assms(2-4) d by (auto dest: less_le_trans)
qed

lemma clone_properties_law:
  assumes "cursor old e xs (map ap_addr ps)" "\<forall>P \<in> set ps. prop_holds st c P \<and> clonable_prop P"
    "\<forall>P \<in> set ps. \<forall>a \<in> set (prop_addrs P). a < i_next st \<and> a \<noteq> ac_addr T"
    "comp_holds st 0 T" "given st T" "length ps < n"
  shows "\<exists>ps' st'. clone_properties n e old (ac_addr T) st = Some st' \<and> comp_holds st' 0 (with_props (ac_props T @ ps') T) \<and>
    map erase_prop ps' = map erase_prop ps \<and> given st' (with_props (ac_props T @ ps') T) \<and>
    (\<forall>a \<in> set (concat (map prop_addrs ps')). i_next st \<le> a) \<and> grown (ac_addr T) st st' \<and>
    zones_at st' (ac_addr T) = zones_at st (ac_addr T)"
  using assms
proof (induction ps arbitrary: e xs st T n)
  case Nil
  then have "e = 0" using cursor_zero by fastforce
  moreover have "with_props (ac_props T @ []) T = T" by (cases T) (simp add: with_props_def)
  ultimately show ?case using Nil by (cases n) (simp, intro exI [of _ "[]"] exI [of _ st], simp)
next
  case (Cons P ps)
  obtain m where n: "n = Suc m" "length ps < m" using Cons.prems(6) by (cases n) auto
  have cur: "cursor old e xs (ap_addr P # map ap_addr ps)" using Cons.prems(1) by simp
  obtain e' where e': "pvl_next e (snd old) = Some e'" "cursor old e' (xs @ [ap_addr P]) (map ap_addr ps)"
    using cursor_next(1) [OF cur] by blast
  obtain P' st1 where st1: "icalproperty_new_clone (ap_addr P) st = Some (ap_addr P', st1)" "prop_holds st1 0 P'" "erase_prop P' = erase_prop P"
    "distinct (prop_addrs P')" "\<forall>a \<in> set (prop_addrs P'). i_next st \<le> a \<and> a < i_next st1" "grown (i_next st) st st1"
    using icalproperty_clone_law [of st c P] Cons.prems(2,3) by (force simp: clonable_prop_def)
  have le1: "i_next st \<le> i_next st1" using st1(6) by (simp add: grown_def)
  have gT: "\<forall>a \<in> set (comp_addrs T). a < i_next st \<and> a \<noteq> i_next st" using Cons.prems(5) by (auto simp: given_def)
  have T1: "comp_holds st1 0 T" using comp_holds_grown [OF Cons.prems(4) st1(6) gT] .
  let ?T = "with_props (ac_props T @ [P']) T"
  note g = given_add_prop [OF Cons.prems(5) st1(4,5) le1]
  obtain st2 where st2: "icalcomponent_add_property (ac_addr T) (ap_addr P') st1 = Some st2" "comp_holds st2 0 ?T"
    "framed {ac_addr T, ap_addr P'} st1 st2" "zones_at st2 (ac_addr T) = zones_at st1 (ac_addr T)"
    using add_property_law [OF T1 st1(2) _ st1(4) g(2)] Cons.prems(5) by (auto simp: given_def)
  have n2: "i_next st2 = i_next st1" using st2(3) by (simp add: framed_def)
  have P': "i_next st \<le> ap_addr P'" using st1(5) addr_in(2) [of P'] by auto
  have grow: "grown (ac_addr T) st st2" using st1(6) st2(3) P' by (auto simp: grown_def framed_def)
  have "\<forall>Q \<in> set ps. prop_holds st2 c Q \<and> clonable_prop Q"
    using Cons.prems(2,3) prop_holds_grown [OF _ grow, of c] by simp
  moreover have "\<forall>Q \<in> set ps. \<forall>a \<in> set (prop_addrs Q). a < i_next st2 \<and> a \<noteq> ac_addr ?T"
    using Cons.prems(3) le1 n2 by fastforce
  moreover have "given st2 ?T" using g(1) n2 by (simp add: given_def)
  ultimately obtain ps' st' where r: "clone_properties m e' old (ac_addr T) st2 = Some st'"
    "comp_holds st' 0 (with_props (ac_props ?T @ ps') ?T)" "map erase_prop ps' = map erase_prop ps"
    "given st' (with_props (ac_props ?T @ ps') ?T)" "\<forall>a \<in> set (concat (map prop_addrs ps')). i_next st2 \<le> a" "grown (ac_addr T) st2 st'"
    "zones_at st' (ac_addr T) = zones_at st2 (ac_addr T)"
    using Cons.IH [OF e'(2), of st2 ?T m] st2(2) n(2) by (metis with_sel(1))
  have eq: "with_props (ac_props ?T @ ps') ?T = with_props (ac_props T @ (P' # ps')) T" by (simp add: with_props_def)
  have "clone_properties n e old (ac_addr T) st = Some st'"
    using n(1) cursor_next(2,3) [OF cur] st1(1) st2(1) e'(1) r(1) by simp
  moreover have "\<forall>a \<in> set (concat (map prop_addrs (P' # ps'))). i_next st \<le> a" using r(5) st1(5) le1 n2 by fastforce
  moreover have "map erase_prop (P' # ps') = map erase_prop (P # ps)" using r(3) st1(3) by simp
  moreover have "zones_at st1 (ac_addr T) = zones_at st (ac_addr T)"
    using st1(6) gT addr_in(1) [of T] by (auto simp: zones_at_def grown_def)
  with r(7) st2(4) have "zones_at st' (ac_addr T) = zones_at st (ac_addr T)" by simp
  ultimately show ?case using r(2,4) eq grown_trans [OF grow r(6)] by metis
qed

text \<open>No value is an attachment, and every time zone among the components can be read.\<close>

primrec clonable_tree :: "acomp \<Rightarrow> bool" where
  "clonable_tree (AComp c k x ps cs) \<longleftrightarrow> icalcomponent_kind_is_valid k \<and> list_all clonable_prop ps \<and>
     list_all (\<lambda>C. is_zone C \<longrightarrow> readable_zone C) cs \<and> list_all id (map clonable_tree cs)"

definition clones :: "(nat \<Rightarrow> ical \<Rightarrow> (nat \<times> ical) option) \<Rightarrow> acomp \<Rightarrow> bool" where
  "clones f T \<longleftrightarrow>
     (\<forall>st par. comp_holds st par T \<longrightarrow> given st T \<longrightarrow>
        (\<exists>T' st'. f (ac_addr T) st = Some (ac_addr T', st') \<and> comp_holds st' 0 T' \<and> erase T' = copied T \<and>
           given st' T' \<and> (\<forall>a \<in> set (comp_addrs T'). i_next st \<le> a) \<and> grown (i_next st) st st'))"

lemma clone_components_law:
  assumes "cursor old e xs (map ac_addr cs)"
    "\<forall>C \<in> set cs. comp_holds st c C \<and> given st C \<and> clones f C \<and> (is_zone C \<longrightarrow> readable_zone C)"
    "\<forall>C \<in> set cs. ac_addr T \<notin> set (comp_addrs C)" "comp_holds st 0 T" "given st T" "zone_list_ok st (ac_addr T)" "length cs < n"
  shows "\<exists>cs' st'. clone_components f cov n e old (ac_addr T) st = Some st' \<and> comp_holds st' 0 (with_comps (foldl placed (ac_comps T) cs') T) \<and>
    map erase cs' = map copied cs \<and> given st' (with_comps (foldl placed (ac_comps T) cs') T) \<and>
    (\<forall>a \<in> set (concat (map comp_addrs cs')). i_next st \<le> a) \<and> grown (ac_addr T) st st'"
  using assms
proof (induction cs arbitrary: e xs st T n)
  case Nil
  then have "e = 0" using cursor_zero by fastforce
  moreover have "with_comps (foldl placed (ac_comps T) []) T = T" by (cases T) (simp add: with_comps_def)
  ultimately show ?case using Nil by (cases n) (simp, intro exI [of _ "[]"] exI [of _ st], simp)
next
  case (Cons C cs)
  obtain m where n: "n = Suc m" "length cs < m" using Cons.prems(7) by (cases n) auto
  have cur: "cursor old e xs (ac_addr C # map ac_addr cs)" using Cons.prems(1) by simp
  obtain e' where e': "pvl_next e (snd old) = Some e'" "cursor old e' (xs @ [ac_addr C]) (map ac_addr cs)"
    using cursor_next(1) [OF cur] by blast
  have C: "comp_holds st c C" "given st C" "clones f C" "is_zone C \<longrightarrow> readable_zone C" using Cons.prems(2) by simp_all
  obtain C' st1 where st1: "f (ac_addr C) st = Some (ac_addr C', st1)" "comp_holds st1 0 C'" "erase C' = copied C"
    "given st1 C'" "\<forall>a \<in> set (comp_addrs C'). i_next st \<le> a" "grown (i_next st) st st1"
    using C unfolding clones_def by blast
  have le1: "i_next st \<le> i_next st1" using st1(6) by (simp add: grown_def)
  have fr: "distinct (comp_addrs C')" "\<forall>a \<in> set (comp_addrs C'). i_next st \<le> a \<and> a < i_next st1"
    using st1(4,5) by (auto simp: given_def)
  have gT: "\<forall>a \<in> set (comp_addrs T). a < i_next st \<and> a \<noteq> i_next st" "distinct (comp_addrs T)" using Cons.prems(5) by (auto simp: given_def)
  have T1: "comp_holds st1 0 T" using comp_holds_grown [OF Cons.prems(4) st1(6) gT(1)] .
  have "i_objs st1 (ac_addr T) = i_objs st (ac_addr T)" using st1(6) gT(1) addr_in(1) [of T] by (simp add: grown_def)
  from zone_list_same [OF this] Cons.prems(6) have z1: "zone_list_ok st1 (ac_addr T)" by simp
  have rd: "is_zone C' \<longrightarrow> readable_zone C'" using C(4) erase_copy_facts [OF st1(3)] by simp
  let ?T = "with_comps (placed (ac_comps T) C') T"
  note g = given_add_comp [OF Cons.prems(5) fr le1]
  obtain st2 where st2: "icalcomponent_add_component cov (ac_addr T) (ac_addr C') st1 = Some st2" "comp_holds st2 0 ?T"
    "framed (insert (ac_addr T) (set (comp_addrs C'))) st1 st2" "zone_list_ok st2 (ac_addr T)"
    using add_placed_law [OF T1 st1(2) gT(2) fr(1) g(2) rd z1] by blast
  have n2: "i_next st2 = i_next st1" using st2(3) by (simp add: framed_def)
  have "a \<notin> set (comp_addrs C')" if "a < i_next st" for a using st1(5) that by auto
  then have grow: "grown (ac_addr T) st st2" using st1(6) st2(3) by (auto simp: grown_def framed_def)
  have "comp_holds st2 c D \<and> given st2 D \<and> clones f D \<and> (is_zone D \<longrightarrow> readable_zone D)" if "D \<in> set cs" for D
  proof -
    have D: "comp_holds st c D" "given st D" "clones f D" "is_zone D \<longrightarrow> readable_zone D" "ac_addr T \<notin> set (comp_addrs D)"
      using Cons.prems(2,3) that by simp_all
    then have "\<forall>a \<in> set (comp_addrs D). a < i_next st \<and> a \<noteq> ac_addr T" by (auto simp: given_def)
    moreover have "given st2 D" using D(2) le1 n2 by (fastforce simp: given_def)
    ultimately show ?thesis using comp_holds_grown [OF D(1) grow] D by simp
  qed
  moreover have "\<forall>D \<in> set cs. ac_addr ?T \<notin> set (comp_addrs D)" using Cons.prems(3) by simp
  moreover have "given st2 ?T" using g(1) n2 by (simp add: given_def)
  ultimately obtain cs' st' where r: "clone_components f cov m e' old (ac_addr T) st2 = Some st'"
    "comp_holds st' 0 (with_comps (foldl placed (ac_comps ?T) cs') ?T)" "map erase cs' = map copied cs"
    "given st' (with_comps (foldl placed (ac_comps ?T) cs') ?T)" "\<forall>a \<in> set (concat (map comp_addrs cs')). i_next st2 \<le> a" "grown (ac_addr T) st2 st'"
    using Cons.IH [OF e'(2), of st2 ?T m] st2(2,4) n(2) by (metis with_sel(6))
  have eq: "with_comps (foldl placed (ac_comps ?T) cs') ?T = with_comps (foldl placed (ac_comps T) (C' # cs')) T" by (simp add: with_comps_def)
  have "clone_components f cov n e old (ac_addr T) st = Some st'"
    using n(1) cursor_next(2,3) [OF cur] st1(1) st2(1) e'(1) r(1) by simp
  moreover have "\<forall>a \<in> set (concat (map comp_addrs (C' # cs'))). i_next st \<le> a" using r(5) st1(5) le1 n2 by fastforce
  moreover have "map erase (C' # cs') = map copied (C # cs)" using r(3) st1(3) by simp
  ultimately show ?case using r(2,4) eq grown_trans [OF grow r(6)] by metis
qed

lemma component_clone_law:
  "depth T \<le> n \<Longrightarrow> clonable_tree T \<Longrightarrow> clones (component_clone n cov) T"
proof (induction T arbitrary: n)
  case (AComp c k x ps cs)
  let ?T = "AComp c k x ps cs"
  obtain m where n: "n = Suc m" "\<forall>T \<in> set cs. depth T \<le> m"
    using AComp.prems(1) by (cases n) (auto simp: foldr_max_le)
  have sub: "\<forall>C \<in> set cs. clones (component_clone m cov) C \<and> (is_zone C \<longrightarrow> readable_zone C)"
    using AComp.IH n(2) AComp.prems(2) by (auto simp: list_all_iff)
  have "\<exists>T' st'. component_clone n cov c st = Some (ac_addr T', st') \<and> comp_holds st' 0 T' \<and> erase T' = copied ?T \<and>
      given st' T' \<and> (\<forall>a \<in> set (comp_addrs T'). i_next st \<le> a) \<and> grown (i_next st) st st'"
    if h: "comp_holds st par ?T" and g: "given st ?T" for st par
  proof -
    obtain r where r: "c \<noteq> 0" "i_objs st c = Some (Comp r)" "comp_row par ?T r" "\<forall>P \<in> set ps. prop_holds st c P"
      "\<forall>C \<in> set cs. comp_holds st c C"
      using h by (auto simp: list_all_iff)
    have lst: "plist_of (co_properties r) (map ap_addr ps)" "plist_of (co_components r) (map ac_addr cs)" "co_kind r = k"
      using r(3) by (simp_all add: comp_row_def)
    have "c < i_next st" using g by (simp add: given_def)
    then have c: "c < i_next st" "i_next st \<noteq> 0" by linarith+
    let ?r0 = "\<lparr>co_kind = k, co_x_name = None, co_properties = new_plist, co_property_iterator = 0,
      co_components = new_plist, co_component_iterator = 0, co_parent = 0, co_timezones = None, co_timezones_sorted = 1\<rparr>"
    let ?p = "i_next st"
    let ?st1 = "snd (new_obj (Comp ?r0) st)"
    let ?N = "AComp ?p k None [] []"
    have new: "icalcomponent_new_impl (co_kind r) st = (?p, ?st1)"
      using AComp.prems(2) lst(3) by (simp add: icalcomponent_new_impl_def new_obj_def)
    have T0: "comp_holds ?st1 0 ?N" "given ?st1 ?N" using c(2) by (simp_all add: comp_row_def given_def)
    have old: "\<forall>a \<in> set (comp_addrs ?T). a < ?p" "distinct (comp_addrs ?T)" using g unfolding given_def by blast+
    have lt: "\<forall>P \<in> set ps. \<forall>a \<in> set (prop_addrs P). a < ?p \<and> a \<noteq> ?p" using old(1) by auto
    have ps1: "\<forall>P \<in> set ps. prop_holds ?st1 c P \<and> clonable_prop P"
      "\<forall>P \<in> set ps. \<forall>a \<in> set (prop_addrs P). a < i_next ?st1 \<and> a \<noteq> ac_addr ?N"
    proof -
      have "prop_holds ?st1 c P" if "P \<in> set ps" for P
        using r(4) lt that by (intro prop_holds_grown [OF _ grown_new, of st c P ?p]) auto
      with lt AComp.prems(2) show "\<forall>P \<in> set ps. prop_holds ?st1 c P \<and> clonable_prop P"
        "\<forall>P \<in> set ps. \<forall>a \<in> set (prop_addrs P). a < i_next ?st1 \<and> a \<noteq> ac_addr ?N"
        by (auto simp: list_all_iff intro: less_SucI)
    qed
    obtain ps' st2 where st2: "clone_properties (fresh (snd (co_properties r))) (pvl_head (fst (co_properties r))) (co_properties r) ?p ?st1 = Some st2"
      "comp_holds st2 0 (with_props ps' ?N)" "map erase_prop ps' = map erase_prop ps" "given st2 (with_props ps' ?N)"
      "\<forall>a \<in> set (concat (map prop_addrs ps')). Suc ?p \<le> a" "grown ?p ?st1 st2" "zones_at st2 ?p = zones_at ?st1 ?p"
      using clone_properties_law [OF cursor_head [OF lst(1)] ps1 T0 fuel_law [OF lst(1), unfolded length_map]] by auto
    let ?T1 = "with_props ps' ?N"
    have gr2: "grown ?p st st2" using grown_trans [OF grown_new st2(6)] .
    have zl: "zone_list_ok st2 ?p" using st2(7) by (simp add: zone_list_ok_def zones_at_def)
    have cs1: "\<forall>C \<in> set cs. comp_holds st2 c C \<and> given st2 C \<and> clones (component_clone m cov) C \<and> (is_zone C \<longrightarrow> readable_zone C)"
      "\<forall>C \<in> set cs. ac_addr ?T1 \<notin> set (comp_addrs C)"
    proof -
      have C: "\<forall>a \<in> set (comp_addrs C). a < ?p \<and> a \<noteq> ?p" "distinct (comp_addrs C)" if "C \<in> set cs" for C
        using old that by (auto simp: distinct_concat_iff)
      then have "given st2 C" if "C \<in> set cs" for C using that gr2 by (fastforce simp: given_def grown_def)
      with C sub r(5) comp_holds_grown [OF _ gr2] show
        "\<forall>C \<in> set cs. comp_holds st2 c C \<and> given st2 C \<and> clones (component_clone m cov) C \<and> (is_zone C \<longrightarrow> readable_zone C)"
        "\<forall>C \<in> set cs. ac_addr ?T1 \<notin> set (comp_addrs C)" by auto
    qed
    obtain cs' st3 where st3: "clone_components (component_clone m cov) cov (fresh (snd (co_components r))) (pvl_head (fst (co_components r)))
        (co_components r) ?p st2 = Some st3"
      "comp_holds st3 0 (with_comps (foldl placed [] cs') ?T1)" "map erase cs' = map copied cs" "given st3 (with_comps (foldl placed [] cs') ?T1)"
      "\<forall>a \<in> set (concat (map comp_addrs cs')). i_next st2 \<le> a" "grown ?p st2 st3"
      using clone_components_law [OF cursor_head [OF lst(2)] cs1 st2(2,4) _ fuel_law [OF lst(2), unfolded length_map], of cov] zl by auto
    let ?cs = "zones_in_front cs'"
    let ?T' = "AComp ?p k None ps' ?cs"
    have pl: "foldl placed [] cs' = ?cs" by (simp add: placed_all zones_in_front_def)
    then have T': "with_comps (foldl placed [] cs') ?T1 = ?T'" by (simp add: with_comps_def with_props_def)
    have "component_clone n cov c st = Some (?p, st3)"
      using n(1) r(1,2) new c(2) st2(1) st3(1) by (simp add: comp_at_def)
    moreover have "erase ?T' = copied ?T" using st2(3) st3(3) by (simp add: map_zones_in_front)
    moreover have "\<forall>a \<in> set (comp_addrs ?T'). ?p \<le> a"
      using st2(5) st3(5) gr2 by (fastforce simp: grown_def)
    moreover have "grown ?p st st3" using grown_trans [OF gr2 st3(6)] .
    ultimately show ?thesis using st3(2,4) T' by (intro exI [of _ ?T'] exI [of _ st3]) simp
  qed
  then show ?case unfolding clones_def acomp.sel by blast
qed

end
