(* ===== verification/TreeFree.thy ===== *)
theory TreeFree
  imports TreeOps
begin

text \<open>
  Freeing a tree: each of its objects leaves the store, nothing else does. The values here have no
  attachments, which are counted and live longer, and the calendar has no array of time zones.
\<close>

section \<open>Taking objects out of the store\<close>

definition wipe :: "nat set \<Rightarrow> ical \<Rightarrow> ical" where
  "wipe A st = st\<lparr>i_objs := i_objs st |` (- A)\<rparr>"

lemma wipe_simps [simp]:
  "i_objs (wipe A st) a = (if a \<in> A then None else i_objs st a)" "i_next (wipe A st) = i_next st" "i_env (wipe A st) = i_env st"
  "wipe {} st = st" "wipe A (wipe B st) = wipe (A \<union> B) st" "free_obj a st = wipe {a} st"
  by (auto simp: wipe_def free_obj_def restrict_map_def fun_eq_iff)

lemma wipe_put:
  "a \<in> A \<Longrightarrow> wipe A (put_obj a x st) = wipe A st"
  "a \<notin> A \<Longrightarrow> wipe A (put_obj a x st) = put_obj a x (wipe A st)"
  by (auto simp: wipe_def put_obj_def restrict_map_def fun_eq_iff)

lemma put_env_same [simp]: "(put_obj a x st)\<lparr>i_env := i_env st\<rparr> = put_obj a x st"
  by (simp add: put_obj_def)

lemma framed_wipe [simp]: "framed A st (wipe A st)"
  by (simp add: framed_def)

lemma wipe_framed: "framed A st st' \<Longrightarrow> A \<subseteq> B \<Longrightarrow> wipe B st' = wipe B st"
  by (rule ical.equality) (auto simp: framed_def wipe_def restrict_map_def fun_eq_iff)

section \<open>Properties\<close>

definition loose_prop :: "aprop \<Rightarrow> bool" where
  "loose_prop P \<longleftrightarrow> list_all (\<lambda>q. pa_parent (snd q) = 0) (ap_params P) \<and>
     (case ap_value P of None \<Rightarrow> True | Some (_, v) \<Rightarrow> v_kind v \<notin> {ICAL_ATTACH_VALUE, ICAL_BINARY_VALUE})"

lemma release_value_law:
  assumes "value_holds st vo" "case vo of None \<Rightarrow> True | Some (_, v) \<Rightarrow> v_kind v \<notin> {ICAL_ATTACH_VALUE, ICAL_BINARY_VALUE}"
  shows "release_value (value_ptr vo) st = Some (wipe (case vo of None \<Rightarrow> {} | Some (a, v) \<Rightarrow> {a}) st)"
  using assms
  by (auto simp: value_holds_def release_value_def value_ptr_def set_val_def free_value_def in_env_def icalvalue_set_parent_def
      icalvalue_free_def val_at_def wipe_put split: option.splits)

lemma free_parameters_law:
  assumes "i_objs st p = Some (Prop r)" "plist_of (pr_parameters r) (map fst qs)" "list_all (param_holds st) qs"
    "list_all (\<lambda>q. pa_parent (snd q) = 0) qs" "distinct (map fst qs)" "p \<notin> fst ` set qs" "length qs < n"
  shows "\<exists>L. free_parameters n p st = Some (put_obj p (Prop (r\<lparr>pr_parameters := L\<rparr>)) (wipe (fst ` set qs) st)) \<and> plist_of L []"
  using assms
proof (induction qs arbitrary: n st r rule: rev_induct)
  case Nil
  then obtain m where "n = Suc m" by (cases n) auto
  with Nil pop_elem_empty [of "pr_parameters r"] show ?case
    by (intro exI [of _ "pr_parameters r"]) (simp add: prop_at_def set_prop_def)
next
  case (snoc q qs)
  obtain m where n: "n = Suc m" "length qs < m" using snoc.prems(7) by (cases n) auto
  obtain L where L: "pop_elem (pr_parameters r) = Some (fst q, L)" "plist_of L (map fst qs)"
    using pop_elem_law snoc.prems(2) by fastforce
  have q: "fst q \<noteq> 0" "i_objs st (fst q) = Some (Para (snd q))" "pa_parent (snd q) = 0" "fst q \<noteq> p"
    using snoc.prems by (auto simp: param_holds_def)
  let ?r = "r\<lparr>pr_parameters := L\<rparr>"
  let ?st1 = "wipe {fst q} (put_obj p (Prop ?r) st)"
  have step: "free_parameters n p st = free_parameters m p ?st1"
    using n(1) snoc.prems(1) L(1) q by (simp add: prop_at_def set_prop_def icalparameter_free_def para_at_def)
  have "list_all (param_holds ?st1) qs" using snoc.prems(3,5,6) by (force simp: list_all_iff param_holds_def)
  moreover have "i_objs ?st1 p = Some (Prop ?r)" using q(4) by simp
  moreover have "plist_of (pr_parameters ?r) (map fst qs)" using L(2) by simp
  ultimately obtain K where K: "free_parameters m p ?st1 = Some (put_obj p (Prop (?r\<lparr>pr_parameters := K\<rparr>)) (wipe (fst ` set qs) ?st1))" "plist_of K []"
    using snoc.IH [of ?st1 ?r m] snoc.prems(4-6) n(2) by auto
  have "put_obj p (Prop (?r\<lparr>pr_parameters := K\<rparr>)) (wipe (fst ` set qs) ?st1) =
      put_obj p (Prop (r\<lparr>pr_parameters := K\<rparr>)) (wipe (fst ` set (qs @ [q])) st)"
    using snoc.prems(6) by (simp add: wipe_put)
  with step K show ?case by (intro exI [of _ K]) simp
qed

lemma icalproperty_free_law:
  assumes "prop_holds st 0 P" "distinct (prop_addrs P)" "loose_prop P"
  shows "icalproperty_free (ap_addr P) st = Some (wipe (set (prop_addrs P)) st)"
proof -
  obtain r where r: "i_objs st (ap_addr P) = Some (Prop r)" "prop_row 0 P r" "ap_addr P \<noteq> 0" using assms(1) by (auto simp: prop_holds_def)
  define V where "V = (case ap_value P of None \<Rightarrow> {} | Some (a, v) \<Rightarrow> {a})"
  have vs: "release_value (value_ptr (ap_value P)) st = Some (wipe V st)"
    unfolding V_def by (rule release_value_law) (use assms in \<open>simp_all add: prop_holds_def loose_prop_def\<close>)
  have disj: "ap_addr P \<notin> V" "fst ` set (ap_params P) \<inter> V = {}" "ap_addr P \<notin> fst ` set (ap_params P)" "distinct (map fst (ap_params P))"
    using assms(2) by (auto simp: prop_addrs_def V_def split: option.splits)
  have ps: "list_all (param_holds (wipe V st)) (ap_params P)"
    using assms(1) disj(2) by (auto simp: prop_holds_def list_all_iff param_holds_def)
  have lst: "plist_of (pr_parameters r) (map fst (ap_params P))" using r(2) by (simp add: prop_row_def)
  obtain L where L: "free_parameters (fresh (snd (pr_parameters r))) (ap_addr P) (wipe V st) =
      Some (put_obj (ap_addr P) (Prop (r\<lparr>pr_parameters := L\<rparr>)) (wipe (fst ` set (ap_params P)) (wipe V st)))"
    using free_parameters_law [of "wipe V st" "ap_addr P" r "ap_params P" "fresh (snd (pr_parameters r))"] r(1) disj ps lst
      assms(3) fuel_law [OF lst] by (auto simp: loose_prop_def)
  have "set (prop_addrs P) = {ap_addr P} \<union> (fst ` set (ap_params P) \<union> V)"
    by (auto simp: prop_addrs_def V_def split: option.splits)
  then have "wipe {ap_addr P} (put_obj (ap_addr P) (Prop (r\<lparr>pr_parameters := L\<rparr>)) (wipe (fst ` set (ap_params P)) (wipe V st))) =
      wipe (set (prop_addrs P)) st"
    by (simp add: wipe_put)
  then show ?thesis
    using r vs L by (simp add: icalproperty_free_def prop_at_def prop_row_def)
qed

section \<open>Components\<close>

lemma free_properties_law:
  assumes "i_objs st c = Some (Comp r)" "plist_of (co_properties r) (map ap_addr ps)" "\<forall>P \<in> set ps. prop_holds st c P"
    "list_all loose_prop ps" "distinct (concat (map prop_addrs ps))" "c \<notin> set (concat (map prop_addrs ps))" "length ps < n"
  shows "\<exists>L. free_properties n c st = Some (put_obj c (Comp (r\<lparr>co_properties := L\<rparr>)) (wipe (set (concat (map prop_addrs ps))) st)) \<and>
    plist_of L []"
  using assms
proof (induction ps arbitrary: n st r rule: rev_induct)
  case Nil
  then obtain m where "n = Suc m" by (cases n) auto
  with Nil pop_elem_empty [of "co_properties r"] show ?case
    by (intro exI [of _ "co_properties r"]) (simp add: comp_at_def set_comp_def)
next
  case (snoc P ps)
  obtain m where n: "n = Suc m" "length ps < m" using snoc.prems(7) by (cases n) auto
  obtain L where L: "pop_elem (co_properties r) = Some (ap_addr P, L)" "plist_of L (map ap_addr ps)"
    using pop_elem_law snoc.prems(2) by fastforce
  have hP: "prop_holds st c P" "distinct (prop_addrs P)" "loose_prop P" "c \<notin> set (prop_addrs P)" using snoc.prems by auto
  obtain q where q: "i_objs st (ap_addr P) = Some (Prop q)" "ap_addr P \<noteq> 0" using hP(1) by (auto simp: prop_holds_def)
  let ?r = "r\<lparr>co_properties := L\<rparr>"
  let ?st1 = "put_obj c (Comp ?r) st"
  let ?st2 = "put_obj (ap_addr P) (Prop (q\<lparr>pr_parent := 0\<rparr>)) ?st1"
  let ?st3 = "put_obj c (Comp ?r) (wipe (set (prop_addrs P)) st)"
  have ne: "ap_addr P \<noteq> c" using hP(4) addr_in(2) by metis
  have "prop_holds ?st1 c P" using hP(4) by (intro prop_holds_framed [OF hP(1), of "{c}"]) (auto simp: framed_def)
  then have P: "prop_holds ?st2 0 P" using prop_holds_parent [of ?st1 c P q 0] hP(2) q ne by simp
  have w: "wipe (set (prop_addrs P)) ?st2 = ?st3" using hP(4) addr_in(2) [of P] by (simp add: wipe_put)
  have step: "free_properties n c st = free_properties m c ?st3"
    using n(1) snoc.prems(1) L(1) q ne icalproperty_free_law [OF P hP(2,3)] w
    by (simp add: comp_at_def set_comp_def icalproperty_set_parent_def set_prop_def prop_at_def)
  have hs: "prop_holds ?st3 c Q" if "Q \<in> set ps" for Q
  proof -
    have "set (prop_addrs P) \<inter> set (prop_addrs Q) = {}" "c \<notin> set (prop_addrs Q)" using snoc.prems(5,6) that by auto
    then show ?thesis
      using snoc.prems(3) that by (intro prop_holds_framed [of st c Q "insert c (set (prop_addrs P))" ?st3]) (auto simp: framed_def)
  qed
  obtain K where K: "free_properties m c ?st3 =
      Some (put_obj c (Comp (?r\<lparr>co_properties := K\<rparr>)) (wipe (set (concat (map prop_addrs ps))) ?st3))" "plist_of K []"
    using snoc.IH [of ?st3 ?r m] snoc.prems(4-6) n(2) L(2) hs by auto
  have "put_obj c (Comp (?r\<lparr>co_properties := K\<rparr>)) (wipe (set (concat (map prop_addrs ps))) ?st3) =
      put_obj c (Comp (r\<lparr>co_properties := K\<rparr>)) (wipe (set (concat (map prop_addrs (ps @ [P])))) st)"
    using snoc.prems(6) by (simp add: wipe_put Un_commute)
  with step K show ?case by (intro exI [of _ K]) simp
qed

text \<open>No component of the tree is a time zone or keeps an array of them.\<close>

primrec loose_tree :: "ical \<Rightarrow> acomp \<Rightarrow> bool" where
  "loose_tree st (AComp c k x ps cs) \<longleftrightarrow>
     zones_at st c = None \<and> list_all loose_prop ps \<and> list_all (\<lambda>C. ac_kind C \<noteq> ICAL_VTIMEZONE_COMPONENT) cs \<and>
     list_all id (map (loose_tree st) cs)"

lemma loose_tree_zones:
  "(\<forall>a \<in> set (comp_addrs T). zones_at st' a = zones_at st a) \<Longrightarrow> loose_tree st' T = loose_tree st T"
proof (induction T)
  case (AComp c k x ps cs)
  then have "loose_tree st' C = loose_tree st C" if "C \<in> set cs" for C using that by auto
  with AComp.prems show ?case by (simp add: list_all_iff)
qed

lemma free_components_law:
  assumes "comp_holds st par T" "distinct (comp_addrs T)" "loose_tree st T" "length (ac_comps T) < n"
    "\<And>C st'. C \<in> set (ac_comps T) \<Longrightarrow> comp_holds st' 0 C \<Longrightarrow> loose_tree st' C \<Longrightarrow> free (ac_addr C) st' = Some (wipe (set (comp_addrs C)) st')"
  shows "\<exists>st'. free_components free n (ac_addr T) st = Some st' \<and> comp_holds st' par (with_comps [] T) \<and>
    framed {ac_addr T} (wipe (set (concat (map comp_addrs (ac_comps T)))) st) st' \<and> zones_at st' (ac_addr T) = None"
  using assms
proof (induction "ac_comps T" arbitrary: T n st)
  case Nil
  then obtain m where n: "n = Suc m" by (cases n) auto
  obtain r where r: "i_objs st (ac_addr T) = Some (Comp r)" "comp_row par T r"
    using Nil.prems(1) by (auto simp: comp_holds_iff [of st par T])
  have l: "plist_of (co_components r) []" using r(2) Nil.hyps by (simp add: comp_row_def)
  have "T = with_comps [] T" using Nil.hyps by (cases T) (simp add: with_comps_def)
  with n r cursor_data [OF cursor_head [OF l]] Nil.prems(1,3) Nil.hyps [symmetric] show ?case
    by (cases T) (simp add: comp_at_def)
next
  case (Cons C cs)
  obtain m where n: "n = Suc m" "length cs < m" using Cons.prems(4) Cons.hyps(2) [symmetric] by (cases n) auto
  obtain r where r: "i_objs st (ac_addr T) = Some (Comp r)" "comp_row par T r"
    using Cons.prems(1) by (auto simp: comp_holds_iff [of st par T])
  have l: "plist_of (co_components r) (map ac_addr (C # cs))" using r(2) Cons.hyps(2) by (simp add: comp_row_def)
  have C: "C \<in> set (ac_comps T)" using Cons.hyps(2) by (metis list.set_intros(1))
  have nz: "ac_addr C \<noteq> 0" "ac_kind C \<noteq> ICAL_VTIMEZONE_COMPONENT" "loose_tree st C"
    using C Cons.prems(1,3) by (cases T; auto simp: comp_holds_iff [of st _ C] list_all_iff)+
  obtain st1 where st1: "remove_component_with free (ac_addr T) (ac_addr C) st = Some st1"
    "comp_holds st1 par (with_comps cs T)" "comp_holds st1 0 C" "framed {ac_addr T, ac_addr C} st st1" "zones_at st1 = zones_at st"
    using remove_component_law [OF Cons.prems(1,2) _ nz(2), of "[]" cs free] Cons.hyps(2) by auto
  have loose1: "loose_tree st1 C" using loose_tree_zones [of C st1 st] st1(5) nz(3) by simp
  let ?A = "set (comp_addrs C)"
  let ?st2 = "wipe ?A st1"
  let ?T = "with_comps cs T"
  have disj: "?A \<inter> set (comp_addrs ?T) = {}" "distinct (comp_addrs ?T)"
    using Cons.prems(2) Cons.hyps(2) [symmetric] by (cases T; auto simp: with_comps_def)+
  have "comp_holds ?st2 par ?T" using comp_holds_framed [OF st1(2) framed_wipe] disj by simp
  moreover have "loose_tree ?st2 ?T"
  proof -
    have "loose_tree st1 ?T"
      using loose_tree_zones [of ?T st1 st] st1(5) Cons.prems(3) Cons.hyps(2) [symmetric] by (cases T) (auto simp: with_comps_def)
    moreover have "zones_at ?st2 a = zones_at st1 a" if "a \<in> set (comp_addrs ?T)" for a
      using disj(1) that by (auto simp: zones_at_def)
    ultimately show ?thesis using loose_tree_zones [of ?T ?st2 st1] by simp
  qed
  ultimately obtain st' where st': "free_components free m (ac_addr T) ?st2 = Some st'"
    "comp_holds st' par (with_comps [] T)" "framed {ac_addr T} (wipe (set (concat (map comp_addrs cs))) ?st2) st'" "zones_at st' (ac_addr T) = None"
    using Cons.hyps(1) [of ?T ?st2 m] disj(2) n(2) Cons.prems(5) Cons.hyps(2) [symmetric] by (auto simp: with_comps_def)
  have "framed {ac_addr T} (wipe (set (concat (map comp_addrs (C # cs)))) st) st'"
    using st'(3) st1(4) addr_in(1) [of C] by (auto simp: framed_def)
  moreover have "free_components free n (ac_addr T) st = Some st'"
    using n(1) r(1) cursor_data [OF cursor_head [OF l]] nz(1) st1(1) Cons.prems(5) [OF C st1(3) loose1] st'(1) by (simp add: comp_at_def)
  ultimately show ?case using st'(2,4) Cons.hyps(2) [symmetric] by auto
qed

lemma component_free_law:
  "comp_holds st 0 T \<Longrightarrow> distinct (comp_addrs T) \<Longrightarrow> loose_tree st T \<Longrightarrow> depth T \<le> n \<Longrightarrow>
     component_free n (ac_addr T) st = Some (wipe (set (comp_addrs T)) st)"
proof (induction T arbitrary: n st)
  case (AComp c k x ps cs)
  let ?T = "AComp c k x ps cs"
  obtain m where n: "n = Suc m" "\<forall>T \<in> set cs. depth T \<le> m"
    using AComp.prems(4) by (cases n) (auto simp: foldr_max_le)
  obtain r where r: "c \<noteq> 0" "i_objs st c = Some (Comp r)" "comp_row 0 ?T r" "\<forall>P \<in> set ps. prop_holds st c P"
    "\<forall>C \<in> set cs. comp_holds st c C"
    using AComp.prems(1) by (auto simp: list_all_iff)
  have lst: "plist_of (co_properties r) (map ap_addr ps)" "plist_of (co_components r) (map ac_addr cs)" "co_parent r = 0"
    using r(3) by (simp_all add: comp_row_def)
  let ?A = "set (concat (map prop_addrs ps))"
  obtain L where L: "free_properties (fresh (snd (co_properties r))) c st = Some (put_obj c (Comp (r\<lparr>co_properties := L\<rparr>)) (wipe ?A st))" "plist_of L []"
    using free_properties_law [OF r(2) lst(1) r(4) _ _ _ fuel_law [OF lst(1), unfolded length_map]] AComp.prems(2,3) by auto
  let ?r1 = "r\<lparr>co_properties := L\<rparr>"
  let ?st1 = "put_obj c (Comp ?r1) (wipe ?A st)"
  have disj: "distinct (comp_addrs C)" "set (comp_addrs C) \<inter> ?A = {}" "c \<notin> set (comp_addrs C)" if "C \<in> set cs" for C
    using AComp.prems(2) that by (auto simp: distinct_concat_iff)
  have "comp_holds (wipe ?A st) c C" if "C \<in> set cs" for C
    using comp_holds_framed [OF _ framed_wipe, of st c C ?A] r(5) disj(2) [OF that] that by (simp add: Int_commute)
  then have T1: "comp_holds ?st1 0 (with_props [] ?T)"
    using comp_holds_root [of 0 "with_props [] ?T" ?r1 "wipe ?A st"] r(1,3) lst L(2) disj(3)
    by (simp add: with_props_def comp_row_def)
  have loose: "loose_tree ?st1 (with_props [] ?T)"
  proof -
    have "loose_tree st C" if "C \<in> set cs" for C using AComp.prems(3) that by (auto simp: list_all_iff)
    moreover have "zones_at ?st1 a = zones_at st a" if "a \<in> set (comp_addrs C)" "C \<in> set cs" for a C
      using disj [OF that(2)] that(1) by (auto simp: zones_at_def)
    ultimately have "loose_tree ?st1 C" if "C \<in> set cs" for C using loose_tree_zones [of C ?st1 st] that by auto
    moreover have "zones_at ?st1 c = None" using AComp.prems(3) r(2) by (simp add: zones_at_def)
    ultimately show ?thesis using AComp.prems(3) by (auto simp: with_props_def list_all_iff)
  qed
  have sub: "component_free m (ac_addr C) st' = Some (wipe (set (comp_addrs C)) st')"
    if "C \<in> set cs" "comp_holds st' 0 C" "loose_tree st' C" for C st'
    using AComp.IH [OF that(1,2) disj(1) [OF that(1)] that(3)] n(2) that(1) by blast
  have "length cs < fresh (snd (co_components r))" using fuel_law [OF lst(2)] by simp
  then obtain st2 where st2: "free_components (component_free m) (fresh (snd (co_components r))) c ?st1 = Some st2"
    "comp_holds st2 0 (with_comps [] (with_props [] ?T))" "framed {c} (wipe (set (concat (map comp_addrs cs))) ?st1) st2" "zones_at st2 c = None"
    using free_components_law [OF T1 _ loose, of "fresh (snd (co_components r))" "component_free m"] AComp.prems(2) sub
    by (auto simp: with_props_def)
  obtain r2 where r2: "i_objs st2 c = Some (Comp r2)" "co_timezones r2 = None"
    using st2(2,4) by (auto simp: with_props_def with_comps_def zones_at_def)
  have "wipe {c} st2 = wipe (set (comp_addrs ?T)) st"
    using st2(3) by (intro ical.equality) (auto simp: framed_def fun_eq_iff wipe_def restrict_map_def put_obj_def)
  then show ?case
    using n(1) r lst(3) L(1) st2(1) r2 by (simp add: comp_at_def)
qed

end
