(* ===== verification/TreeErrors.thy ===== *)
theory TreeErrors
  imports TreeOps
begin

text \<open>
  The error properties of a tree: their number, and the tree without them.
\<close>

section \<open>Counting\<close>

abbreviation error_prop :: "aprop \<Rightarrow> bool" where
  "error_prop P \<equiv> ap_kind P = ICAL_XLICERROR_PROPERTY"

primrec error_count :: "acomp \<Rightarrow> nat" where
  "error_count (AComp c k x ps cs) = length (filter error_prop ps) + sum_list (map error_count cs)"

lemma sum_over_law:
  assumes "cursor L e xs (map a ys)" "\<forall>y \<in> set ys. f (a y) = Some (int (g y))" "length ys < n"
  shows "sum_over f n e L = Some (int (sum_list (map g ys)))"
  using assms
proof (induction ys arbitrary: n e xs)
  case Nil
  then have "e = 0" using cursor_zero by fastforce
  with Nil show ?case by (cases n) auto
next
  case (Cons y ys)
  obtain m where n: "n = Suc m" "length ys < m" using Cons.prems(3) by (cases n) auto
  have cur: "cursor L e xs (a y # map a ys)" using Cons.prems(1) by simp
  obtain e' where e': "pvl_next e (snd L) = Some e'" "cursor L e' (xs @ [a y]) (map a ys)" using cursor_next(1) [OF cur] by blast
  with Cons.IH [OF e'(2) _ n(2)] n(1) Cons.prems(2) cursor_next(2,3) [OF cur] show ?case by simp
qed

lemma property_isa_law: "prop_holds st c P \<Longrightarrow> icalproperty_isa (ap_addr P) st = Some (ap_kind P)"
  by (auto simp: prop_holds_def prop_row_def icalproperty_isa_def prop_at_def)

lemma sum_indicator: "sum_list (map (\<lambda>y. if t y then 1 else 0) ys) = length (filter t ys)"
  by (induction ys) auto

lemma component_errors_law:
  "comp_holds st par T \<Longrightarrow> depth T \<le> n \<Longrightarrow> component_errors n (ac_addr T) st = Some (int (error_count T))"
proof (induction T arbitrary: par n)
  case (AComp c k x ps cs)
  let ?T = "AComp c k x ps cs"
  obtain m where n: "n = Suc m" "\<forall>T \<in> set cs. depth T \<le> m"
    using AComp.prems(2) by (cases n) (auto simp: foldr_max_le)
  obtain r where r: "i_objs st c = Some (Comp r)" "comp_row par ?T r" "\<forall>P \<in> set ps. prop_holds st c P" "\<forall>C \<in> set cs. comp_holds st c C"
    using AComp.prems(1) by (auto simp: list_all_iff)
  have lst: "plist_of (co_properties r) (map ap_addr ps)" "plist_of (co_components r) (map ac_addr cs)"
    using r(2) by (simp_all add: comp_row_def)
  have "\<forall>P \<in> set ps. map_option (\<lambda>k. if k = ICAL_XLICERROR_PROPERTY then 1 else 0) (icalproperty_isa (ap_addr P) st) =
      Some (int (if error_prop P then 1 else 0))"
    using r(3) property_isa_law by fastforce
  from sum_over_law [OF cursor_head [OF lst(1)] this] fuel_law [OF lst(1)]
  have ps: "sum_over (\<lambda>p. map_option (\<lambda>k. if k = ICAL_XLICERROR_PROPERTY then 1 else 0) (icalproperty_isa p st))
      (fresh (snd (co_properties r))) (pvl_head (fst (co_properties r))) (co_properties r) = Some (int (length (filter error_prop ps)))"
    by (simp add: sum_indicator)
  have "\<forall>C \<in> set cs. component_errors m (ac_addr C) st = Some (int (error_count C))" using AComp.IH r(4) n(2) by blast
  from sum_over_law [OF cursor_head [OF lst(2)] this] fuel_law [OF lst(2)]
  have cs: "sum_over (\<lambda>x. component_errors m x st) (fresh (snd (co_components r))) (pvl_head (fst (co_components r))) (co_components r) =
      Some (int (sum_list (map error_count cs)))"
    by simp
  show ?case using n(1) r(1) ps cs by (simp add: comp_at_def)
qed

section \<open>Removing\<close>

primrec strip_tree :: "acomp \<Rightarrow> acomp" where
  "strip_tree (AComp c k x ps cs) = AComp c k x (filter (\<lambda>P. \<not> error_prop P) ps) (map strip_tree cs)"

lemma strip_tree_addr [simp]: "ac_addr (strip_tree T) = ac_addr T"
  by (cases T) simp

lemma strip_tree_errors [simp]: "error_count (strip_tree T) = 0"
proof (induction T)
  case (AComp c k x ps cs)
  have "filter error_prop (filter (\<lambda>P. \<not> error_prop P) ps) = []" by (simp add: filter_empty_conv)
  with AComp show ?case by (simp add: comp_def)
qed

lemma strip_tree_addrs: "set (comp_addrs (strip_tree T)) \<subseteq> set (comp_addrs T)"
  by (induction T) fastforce

lemma strip_trees_addrs: "set (concat (map comp_addrs (map strip_tree cs))) \<subseteq> set (concat (map comp_addrs cs))"
  using strip_tree_addrs by fastforce

lemma filter_addrs: "set (concat (map f (filter t ps))) \<subseteq> set (concat (map f ps))"
  by auto

lemma distinct_filter_concat: "distinct (concat (map f ps)) \<Longrightarrow> distinct (concat (map f (filter t ps)))"
  by (induction ps) auto

lemma strip_tree_distinct: "distinct (comp_addrs T) \<Longrightarrow> distinct (comp_addrs (strip_tree T))"
proof (induction T)
  case (AComp c k x ps cs)
  have cs: "distinct (concat (map comp_addrs (map strip_tree ds)))" if "distinct (concat (map comp_addrs ds))" "set ds \<subseteq> set cs" for ds
    using that
  proof (induction ds)
    case (Cons D ds)
    then have "distinct (comp_addrs (strip_tree D))" "distinct (concat (map comp_addrs (map strip_tree ds)))" using AComp.IH by auto
    moreover have "set (comp_addrs (strip_tree D)) \<inter> set (concat (map comp_addrs (map strip_tree ds))) = {}"
      using Cons.prems(1) strip_tree_addrs [of D] strip_trees_addrs [of ds] by (simp del: set_concat map_map) blast
    ultimately show ?case by simp
  qed simp
  let ?ps = "filter (\<lambda>P. \<not> error_prop P) ps"
  have "distinct (concat (map prop_addrs ?ps))" using AComp.prems by (intro distinct_filter_concat) simp
  moreover have "distinct (concat (map comp_addrs (map strip_tree cs)))" using AComp.prems by (intro cs) simp_all
  moreover have "set (concat (map prop_addrs ?ps)) \<inter> set (concat (map comp_addrs (map strip_tree cs))) = {}"
    "c \<notin> set (concat (map prop_addrs ?ps))" "c \<notin> set (concat (map comp_addrs (map strip_tree cs)))"
    using AComp.prems strip_trees_addrs [of cs] filter_addrs [of prop_addrs "\<lambda>P. \<not> error_prop P" ps]
    by (simp_all del: set_concat map_map) blast+
  ultimately show ?case by simp
qed

lemma strip_properties_law:
  assumes "comp_holds st par T" "distinct (comp_addrs T)" "ac_props T = us @ vs" "i_objs st (ac_addr T) = Some (Comp r)"
    "cursor (co_properties r) e (map ap_addr us) (map ap_addr vs)" "length vs < n"
  shows "\<exists>st'. strip_properties n (ac_addr T) e st = Some st' \<and>
    comp_holds st' par (with_props (us @ filter (\<lambda>P. \<not> error_prop P) vs) T) \<and>
    framed (insert (ac_addr T) (ap_addr ` set vs)) st st'"
  using assms
proof (induction vs arbitrary: st T us r e n)
  case Nil
  then have "e = 0" using cursor_zero by fastforce
  moreover have "with_props us T = T" using Nil.prems(3) by (cases T) (simp add: with_props_def)
  ultimately show ?case using Nil by (cases n) auto
next
  case (Cons P vs)
  obtain m where n: "n = Suc m" "length vs < m" using Cons.prems(6) by (cases n) auto
  have cur: "cursor (co_properties r) e (map ap_addr us) (ap_addr P # map ap_addr vs)" using Cons.prems(5) by simp
  obtain e' where e': "pvl_next e (snd (co_properties r)) = Some e'" "cursor (co_properties r) e' (map ap_addr (us @ [P])) (map ap_addr vs)"
    using cursor_next(1) [OF cur] by auto
  have P: "prop_holds st (ac_addr T) P" using Cons.prems(1,3) by (simp add: comp_holds_iff [of st par T])
  note isa = property_isa_law [OF P]
  show ?case
  proof (cases "error_prop P")
    case False
    have "strip_properties n (ac_addr T) e st = strip_properties m (ac_addr T) e' st"
      using n(1) Cons.prems(4) cursor_next(2,3) [OF cur] e'(1) isa False by (simp add: comp_at_def)
    moreover obtain st' where "strip_properties m (ac_addr T) e' st = Some st'"
      "comp_holds st' par (with_props ((us @ [P]) @ filter (\<lambda>P. \<not> error_prop P) vs) T)"
      "framed (insert (ac_addr T) (ap_addr ` set vs)) st st'"
      using Cons.IH [OF Cons.prems(1,2) _ Cons.prems(4) e'(2) n(2)] Cons.prems(3) by auto
    ultimately show ?thesis using False by (auto intro: framed_mono)
  next
    case True
    obtain st1 r1 where st1: "icalcomponent_remove_property (ac_addr T) (ap_addr P) st = Some st1"
      "comp_holds st1 par (with_props (us @ vs) T)" "framed {ac_addr T, ap_addr P} st st1"
      "i_objs st1 (ac_addr T) = Some (Comp r1)" "cursor (co_properties r1) e' (map ap_addr us) (map ap_addr vs)"
      using remove_property_law [OF Cons.prems(1-3)] Cons.prems(4,5) e'(1) by blast
    let ?T = "with_props (us @ vs) T"
    have d: "distinct (comp_addrs ?T)" using Cons.prems(2,3) by (cases T) (auto simp: with_props_def)
    have "strip_properties n (ac_addr T) e st = strip_properties m (ac_addr T) e' st1"
      using n(1) Cons.prems(4) cursor_next(2,3) [OF cur] e'(1) isa True st1(1) by (simp add: comp_at_def)
    moreover obtain st' where "strip_properties m (ac_addr ?T) e' st1 = Some st'"
      "comp_holds st' par (with_props (us @ filter (\<lambda>P. \<not> error_prop P) vs) ?T)"
      "framed (insert (ac_addr ?T) (ap_addr ` set vs)) st1 st'"
      using Cons.IH [OF st1(2) d, of us r1 e' m] st1(4,5) n(2) by auto
    moreover have "with_props (us @ filter (\<lambda>P. \<not> error_prop P) vs) ?T = with_props (us @ filter (\<lambda>P. \<not> error_prop P) vs) T"
      by (simp add: with_props_def)
    ultimately show ?thesis using True st1(3) by (auto simp: framed_def)
  qed
qed

text \<open>An operation on a component that changes its tree, and nothing outside of it.\<close>

definition maps_tree :: "(nat \<Rightarrow> ical \<Rightarrow> ical option) \<Rightarrow> (acomp \<Rightarrow> acomp) \<Rightarrow> acomp \<Rightarrow> bool" where
  "maps_tree f g T \<longleftrightarrow>
     (\<forall>st par. comp_holds st par T \<longrightarrow>
        (\<exists>st'. f (ac_addr T) st = Some st' \<and> comp_holds st' par (g T) \<and> framed (set (comp_addrs T)) st st'))"

lemma each_component_law:
  assumes "cursor L e xs (map ac_addr cs)" "\<forall>C \<in> set cs. comp_holds st c C \<and> maps_tree f g C" "distinct (concat (map comp_addrs cs))"
    "c \<notin> set (concat (map comp_addrs cs))" "\<forall>C \<in> set cs. set (comp_addrs (g C)) \<subseteq> set (comp_addrs C)"
    "i_objs st c = Some (Comp r)" "co_components r = L" "length cs < n"
  shows "\<exists>st'. each_component f n c e st = Some st' \<and> (\<forall>C \<in> set cs. comp_holds st' c (g C)) \<and>
    framed (set (concat (map comp_addrs cs))) st st'"
  using assms
proof (induction cs arbitrary: e xs st n)
  case Nil
  then have "e = 0" using cursor_zero by fastforce
  with Nil show ?case by (cases n) auto
next
  case (Cons C cs)
  obtain m where n: "n = Suc m" "length cs < m" using Cons.prems(8) by (cases n) auto
  have cur: "cursor L e xs (ac_addr C # map ac_addr cs)" using Cons.prems(1) by simp
  obtain e' where e': "pvl_next e (snd L) = Some e'" "cursor L e' (xs @ [ac_addr C]) (map ac_addr cs)"
    using cursor_next(1) [OF cur] by blast
  obtain st1 where st1: "f (ac_addr C) st = Some st1" "comp_holds st1 c (g C)" "framed (set (comp_addrs C)) st st1"
    using Cons.prems(2) unfolding maps_tree_def by (meson list.set_intros(1))
  have c1: "i_objs st1 c = Some (Comp r)" using Cons.prems(4,6) st1(3) by (simp add: framed_def)
  have "comp_holds st1 c D \<and> maps_tree f g D" if "D \<in> set cs" for D
  proof -
    have "set (comp_addrs C) \<inter> set (comp_addrs D) = {}" using Cons.prems(3) that by auto
    then show ?thesis using comp_holds_framed [OF _ st1(3), of c D] Cons.prems(2) that by simp
  qed
  moreover have "distinct (concat (map comp_addrs cs))" "c \<notin> set (concat (map comp_addrs cs))" using Cons.prems(3,4) by auto
  ultimately obtain st' where r: "each_component f m c e' st1 = Some st'" "\<forall>C \<in> set cs. comp_holds st' c (g C)"
    "framed (set (concat (map comp_addrs cs))) st1 st'"
    using Cons.IH [OF e'(2) _ _ _ _ c1 Cons.prems(7) n(2)] Cons.prems(5) by (metis list.set_intros(2))
  have run: "each_component f n c e st = Some st'"
    using n(1) cursor_next(2,3) [OF cur] Cons.prems(6,7) st1(1) c1 e'(1) r(1) by (simp add: comp_at_def)
  have fr: "framed (set (concat (map comp_addrs (C # cs)))) st st'" using st1(3) r(3) by (simp add: framed_def)
  have "set (concat (map comp_addrs cs)) \<inter> set (comp_addrs (g C)) = {}"
    using Cons.prems(3,5) by (simp del: set_concat) blast
  then have "comp_holds st' c (g C)" using comp_holds_framed [OF st1(2) r(3)] by simp
  with run fr r(2) show ?case by simp
qed

lemma component_strip_law:
  "depth T \<le> n \<Longrightarrow> distinct (comp_addrs T) \<Longrightarrow> maps_tree (component_strip n) strip_tree T"
proof (induction T arbitrary: n)
  case (AComp c k x ps cs)
  let ?T = "AComp c k x ps cs"
  obtain m where n: "n = Suc m" "\<forall>T \<in> set cs. depth T \<le> m"
    using AComp.prems(1) by (cases n) (auto simp: foldr_max_le)
  have sub: "\<forall>C \<in> set cs. maps_tree (component_strip m) strip_tree C"
    using AComp.IH n(2) AComp.prems(2) by (auto simp: distinct_concat_iff)
  have "\<exists>st'. component_strip n c st = Some st' \<and> comp_holds st' par (strip_tree ?T) \<and> framed (set (comp_addrs ?T)) st st'"
    if h: "comp_holds st par ?T" for st par
  proof -
    obtain r where r: "i_objs st c = Some (Comp r)" "comp_row par ?T r" using h by auto
    have lst: "plist_of (co_properties r) (map ap_addr ps)" using r(2) by (simp add: comp_row_def)
    let ?ps = "filter (\<lambda>P. \<not> error_prop P) ps"
    let ?S = "AComp c k x ?ps cs"
    have cur: "cursor (co_properties r) (pvl_head (fst (co_properties r))) (map ap_addr []) (map ap_addr ps)"
      using cursor_head [OF lst] by simp
    obtain st1 where st1: "strip_properties (fresh (snd (co_properties r))) c (pvl_head (fst (co_properties r))) st = Some st1"
      "comp_holds st1 par ?S" "framed (insert c (ap_addr ` set ps)) st st1"
      using strip_properties_law [OF h AComp.prems(2) _ _ cur fuel_law [OF lst, unfolded length_map]] r(1)
      by (auto simp: with_props_def simp del: comp_holds.simps)
    obtain r1 where r1: "i_objs st1 c = Some (Comp r1)" "comp_row par ?S r1" "\<forall>C \<in> set cs. comp_holds st1 c C" "\<forall>P \<in> set ?ps. prop_holds st1 c P"
      "c \<noteq> 0"
      using st1(2) by (auto simp: list_all_iff)
    have lst1: "plist_of (co_components r1) (map ac_addr cs)" using r1(2) by (simp add: comp_row_def)
    obtain st2 where st2: "each_component (component_strip m) (fresh (snd (co_components r1))) c (pvl_head (fst (co_components r1))) st1 = Some st2"
      "\<forall>C \<in> set cs. comp_holds st2 c (strip_tree C)" "framed (set (concat (map comp_addrs cs))) st1 st2"
      using each_component_law [OF cursor_head [OF lst1] _ _ _ _ r1(1) refl fuel_law [OF lst1, unfolded length_map], of "component_strip m" strip_tree]
        r1(3) sub AComp.prems(2) strip_tree_addrs by auto
    have "prop_holds st2 c P" if "P \<in> set ?ps" for P
    proof -
      have "set (concat (map comp_addrs cs)) \<inter> set (prop_addrs P) = {}" using AComp.prems(2) that by auto
      then show ?thesis using prop_holds_framed [OF _ st2(3)] r1(4) that by blast
    qed
    moreover have "i_objs st2 c = Some (Comp r1)" using st2(3) AComp.prems(2) r1(1) by (simp add: framed_def)
    moreover have "comp_row par (strip_tree ?T) r1" using r1(2) by (simp add: comp_row_def comp_def)
    ultimately have "comp_holds st2 par (strip_tree ?T)" using st2(2) r1(5) by (auto simp: list_all_iff)
    moreover have "framed (set (comp_addrs ?T)) st st2"
    proof -
      have "insert c (ap_addr ` set ps) \<subseteq> set (comp_addrs ?T)" "set (concat (map comp_addrs cs)) \<subseteq> set (comp_addrs ?T)"
        using addr_in(2) by auto
      then show ?thesis using framed_trans [OF framed_mono [OF st1(3)] framed_mono [OF st2(3)]] by blast
    qed
    moreover have "component_strip n c st = Some st2" using n(1) r(1) st1(1) r1(1) st2(1) by (simp add: comp_at_def)
    ultimately show ?thesis by blast
  qed
  then show ?case unfolding maps_tree_def acomp.sel by blast
qed

end
