(* ===== verification/TreeProperties.thy ===== *)
theory TreeProperties
  imports TreeClone TreeFree TreeErrors ValueProperties
begin

text \<open>The properties of components: the operations on the store are the operations on trees.\<close>

section \<open>An example\<close>

text \<open>A calendar with an event, the event with a summary and an error.\<close>

definition demo_prop :: "nat \<Rightarrow> icalproperty_kind \<Rightarrow> nat \<Rightarrow> string \<Rightarrow> aprop" where
  "demo_prop a k b s = AProp a k None [] (Some (b, (plain_value ICAL_TEXT_VALUE (V_string s))\<lparr>v_parent := a\<rparr>))"

definition demo_event :: acomp where
  "demo_event = AComp 2 ICAL_VEVENT_COMPONENT None [demo_prop 3 ICAL_SUMMARY_PROPERTY 4 ''Tea, cake'', demo_prop 5 ICAL_XLICERROR_PROPERTY 6 ''bad''] []"

definition demo_tree :: acomp where
  "demo_tree = AComp 1 ICAL_VCALENDAR_COMPONENT None [] [demo_event]"

definition list_of :: "nat list \<Rightarrow> plist" where
  "list_of xs = foldl (\<lambda>L x. the (push_elem x L)) new_plist xs"

definition demo_row :: "nat \<Rightarrow> icalproperty_kind \<Rightarrow> nat \<Rightarrow> icalobject" where
  "demo_row c k v = Prop \<lparr>pr_kind = k, pr_x_name = None, pr_parameters = new_plist, pr_parameter_iterator = 0, pr_value = v, pr_parent = c\<rparr>"

definition demo_comp :: "nat \<Rightarrow> icalcomponent_kind \<Rightarrow> nat list \<Rightarrow> nat list \<Rightarrow> icalobject" where
  "demo_comp par k ps cs = Comp \<lparr>co_kind = k, co_x_name = None, co_properties = list_of ps, co_property_iterator = 0,
     co_components = list_of cs, co_component_iterator = 0, co_parent = par, co_timezones = None, co_timezones_sorted = 1\<rparr>"

definition demo_store :: ical where
  "demo_store = \<lparr>i_env = quiet_env,
     i_objs = [1 \<mapsto> demo_comp 0 ICAL_VCALENDAR_COMPONENT [] [2], 2 \<mapsto> demo_comp 1 ICAL_VEVENT_COMPONENT [3, 5] [],
       3 \<mapsto> demo_row 2 ICAL_SUMMARY_PROPERTY 4, 4 \<mapsto> Val ((plain_value ICAL_TEXT_VALUE (V_string ''Tea, cake''))\<lparr>v_parent := 3\<rparr>),
       5 \<mapsto> demo_row 2 ICAL_XLICERROR_PROPERTY 6, 6 \<mapsto> Val ((plain_value ICAL_TEXT_VALUE (V_string ''bad''))\<lparr>v_parent := 5\<rparr>),
       7 \<mapsto> demo_row 0 ICAL_COMMENT_PROPERTY 0],
     i_next = 8\<rparr>"

lemma list_of_plist: "plist_of (list_of xs) xs"
proof (induction xs rule: rev_induct)
  case (snoc x xs)
  with push_elem_law [OF snoc, of x] show ?case by (auto simp: list_of_def)
qed (simp add: list_of_def)

lemma demo_holds: "comp_holds demo_store 0 demo_tree"
  using list_of_plist [of "[]"] list_of_plist [of "[2]"] list_of_plist [of "[3, 5]"]
  by (simp add: demo_store_def demo_tree_def demo_event_def demo_prop_def demo_row_def demo_comp_def comp_row_def
      prop_holds_def prop_row_def value_holds_def value_ptr_def)

lemma demo_addrs: "comp_addrs demo_tree = [1, 2, 3, 4, 5, 6]"
  by (simp add: demo_tree_def demo_event_def demo_prop_def prop_addrs_def)

lemma demo_in: "tree_in demo_store demo_tree"
  by (simp add: tree_in_def demo_addrs demo_store_def)

lemma demo_names:
  "icalproperty_kind_to_string ICAL_SUMMARY_PROPERTY = Some ''SUMMARY''"
  "icalproperty_kind_to_string ICAL_XLICERROR_PROPERTY = Some ''X-LIC-ERROR''"
  "icalcomponent_kind_to_string ICAL_VCALENDAR_COMPONENT = Some ''VCALENDAR''"
  "icalcomponent_kind_to_string ICAL_VEVENT_COMPONENT = Some ''VEVENT''"
  by code_simp+

lemma demo_texts:
  "quote_text ''Tea, cake'' = ''Tea'' @ [BACKSLASH] @ '', cake''" "quote_text ''bad'' = ''bad''"
  by code_simp+

lemma demo_nul_free: "nul_free ''Tea, cake''" "nul_free ''bad''" "nul_free ([BACKSLASH] @ '', cake'')" "nul_free ''SUMMARY''" "nul_free ''X-LIC-ERROR''"
  by code_simp+

lemma demo_printable: "printable_tree demo_tree"
  using demo_names demo_texts demo_nul_free
  by (simp add: demo_tree_def demo_event_def demo_prop_def printable_prop_def prop_name_def printable_value_def plain_value_def
      printable_data_def prop_value_txt_def value_txt_def data_text_def)

section \<open>Printing\<close>

text \<open>C1: If a component in the store holds a tree whose parts can be printed, then
  \<^verbatim>\<open>icalcomponent_as_ical_string_r\<close> ends and gives the text of the tree: the BEGIN line, the folded lines of
  the properties in their order, the texts of the components, and the END line. It leaves the store
  as it was but for iterators and the error number.\<close>

theorem component_prints_its_tree:
  assumes "comp_holds st par T" "tree_in st T" "printable_tree T"
  shows "\<exists>st'. icalcomponent_as_ical_string_r (ac_addr T) st = Some (Some (tree_text T), st') \<and> alike st st'"
proof -
  have "depth T \<le> Suc (i_next st)" using tree_in_depth [OF assms(2)] by simp
  from component_text_law [OF this assms(3)] assms(1) show ?thesis
    unfolding prints_tree_def icalcomponent_as_ical_string_r_def by blast
qed

theorem component_prints_its_tree_witness:
  "\<exists>st'. icalcomponent_as_ical_string_r 1 demo_store = Some (Some (tree_text demo_tree), st') \<and> alike demo_store st' \<and>
    tree_lines demo_tree = [''BEGIN:VCALENDAR'', ''BEGIN:VEVENT'', ''SUMMARY:Tea'' @ [BACKSLASH] @ '', cake'', ''X-LIC-ERROR:bad'',
      ''END:VEVENT'', ''END:VCALENDAR'']"
proof -
  have lines: "tree_lines demo_tree = [''BEGIN:VCALENDAR'', ''BEGIN:VEVENT'', ''SUMMARY:Tea'' @ [BACKSLASH] @ '', cake'', ''X-LIC-ERROR:bad'',
      ''END:VEVENT'', ''END:VCALENDAR'']"
    by code_simp
  have "ac_addr demo_tree = 1" by (simp add: demo_tree_def)
  with component_prints_its_tree [OF demo_holds demo_in demo_printable] lines show ?thesis by simp
qed

section \<open>Building\<close>

text \<open>C5: Adding a property to a component puts it behind the others of its tree; removing it afterwards gives
  the tree back, and the property is free for another component. Nothing else in the store changes.\<close>

theorem add_and_remove_property:
  assumes "comp_holds st par T" "prop_holds st 0 P" "distinct (comp_addrs T @ prop_addrs P)"
  shows "\<exists>st1 st2. icalcomponent_add_property (ac_addr T) (ap_addr P) st = Some st1 \<and>
    comp_holds st1 par (with_props (ac_props T @ [P]) T) \<and>
    icalcomponent_remove_property (ac_addr T) (ap_addr P) st1 = Some st2 \<and> comp_holds st2 par T \<and> prop_holds st2 0 P \<and>
    framed {ac_addr T, ap_addr P} st st1 \<and> framed {ac_addr T, ap_addr P} st st2"
proof -
  let ?T = "with_props (ac_props T @ [P]) T"
  have d: "distinct (comp_addrs T)" "distinct (prop_addrs P)" "set (comp_addrs T) \<inter> set (prop_addrs P) = {}" using assms(3) by auto
  obtain st1 where st1: "icalcomponent_add_property (ac_addr T) (ap_addr P) st = Some st1" "comp_holds st1 par ?T"
    "framed {ac_addr T, ap_addr P} st st1" using add_property_law [OF assms(1,2) d] by blast
  have "distinct (comp_addrs ?T)" using d by (simp add: distinct_with_props)
  from remove_property_law [OF st1(2) this, of "ac_props T" P "[]"] obtain st2 where
    st2: "icalcomponent_remove_property (ac_addr T) (ap_addr P) st1 = Some st2" "comp_holds st2 par (with_props (ac_props T) ?T)"
      "prop_holds st2 0 P" "framed {ac_addr T, ap_addr P} st1 st2" by auto
  have "with_props (ac_props T) ?T = T" by (cases T) (simp add: with_props_def)
  with st1 st2 framed_trans [OF st1(3) st2(4)] show ?thesis by auto
qed

theorem add_and_remove_property_witness:
  "\<exists>st1 st2. icalcomponent_add_property 1 7 demo_store = Some st1 \<and>
    comp_holds st1 0 (with_props [AProp 7 ICAL_COMMENT_PROPERTY None [] None] demo_tree) \<and>
    icalcomponent_remove_property 1 7 st1 = Some st2 \<and> comp_holds st2 0 demo_tree"
proof -
  let ?P = "AProp 7 ICAL_COMMENT_PROPERTY None [] None"
  have "prop_holds demo_store 0 ?P"
    by (simp add: prop_holds_def prop_row_def demo_store_def demo_row_def value_holds_def value_ptr_def)
  moreover have "distinct (comp_addrs demo_tree @ prop_addrs ?P)" by (simp add: demo_addrs prop_addrs_def)
  moreover have "ac_addr demo_tree = 1" "ac_props demo_tree = []" by (simp_all add: demo_tree_def)
  ultimately show ?thesis using add_and_remove_property [OF demo_holds, of ?P] by auto
qed

section \<open>Walking\<close>

text \<open>The loop over the properties of a kind, the idiom of the callers: first, then next until it is null.\<close>

fun walk_from :: "nat \<Rightarrow> nat \<Rightarrow> icalproperty_kind \<Rightarrow> nat \<Rightarrow> ical \<Rightarrow> (nat list \<times> ical) option" where
  "walk_from 0 c kind p st = None"
| "walk_from (Suc n) c kind p st =
     (if p = 0 then Some ([], st)
      else do {
        (q, st1) \<leftarrow> icalcomponent_get_next_property c kind st;
        (ps, st2) \<leftarrow> walk_from n c kind q st1;
        Some (p # ps, st2) })"

definition walk_properties :: "nat \<Rightarrow> nat \<Rightarrow> icalproperty_kind \<Rightarrow> ical \<Rightarrow> (nat list \<times> ical) option" where
  "walk_properties n c kind st = do {
     (p, st1) \<leftarrow> icalcomponent_get_first_property c kind st;
     walk_from n c kind p st1 }"

lemma walk_from_law:
  assumes "comp_holds st par T" "distinct (comp_addrs T)" "ac_props T = us @ vs"
    "prop_cursor (ac_addr T) st (map ap_addr us) (map ap_addr vs)" "vs = [] \<or> prop_is kind (hd vs)" "length vs < n"
  shows "\<exists>st'. walk_from n (ac_addr T) kind (hd0 (map ap_addr vs)) st = Some (map ap_addr (filter (prop_is kind) vs), st') \<and> alike st st'"
  using assms
proof (induction "length vs" arbitrary: vs us st n rule: less_induct)
  case less
  obtain m where n: "n = Suc m" "length vs \<le> m" using less.prems(6) by (cases n) auto
  show ?case
  proof (cases vs)
    case Nil
    with n show ?thesis by (auto intro: exI [of _ st])
  next
    case (Cons P ws)
    let ?ws = "dropWhile (\<lambda>P. \<not> prop_is kind P) ws"
    let ?us = "(us @ [P]) @ takeWhile (\<lambda>P. \<not> prop_is kind P) ws"
    obtain st1 where st1: "icalcomponent_get_next_property (ac_addr T) kind st = Some (hd0 (map ap_addr ?ws), st1)" "alike st st1"
      "prop_cursor (ac_addr T) st1 (map ap_addr ?us) (map ap_addr ?ws)"
      using next_property_law [OF less.prems(1,2), of us P ws kind] less.prems(3,4) Cons by auto
    have len: "length ?ws < length vs" "length ?ws < m" using Cons n(2) length_dropWhile_le [of "\<lambda>P. \<not> prop_is kind P" ws] by auto
    have "?ws = [] \<or> prop_is kind (hd ?ws)" using hd_dropWhile [of "\<lambda>P. \<not> prop_is kind P" ws] by auto
    with less.hyps [OF len(1) comp_holds_alike [OF less.prems(1) st1(2)] less.prems(2) _ st1(3) _ len(2)] less.prems(3) Cons
    obtain st' where st': "walk_from m (ac_addr T) kind (hd0 (map ap_addr ?ws)) st1 = Some (map ap_addr (filter (prop_is kind) ?ws), st')"
      "alike st1 st'" by auto
    have "filter (prop_is kind) ?ws = filter (prop_is kind) ws" by (induction ws) auto
    moreover have "ap_addr P \<noteq> 0" "prop_is kind P" using less.prems(1,3,5) Cons by (auto simp: comp_holds_iff [of st par T] prop_holds_def)
    ultimately show ?thesis using n(1) Cons st1(1) st' alike_trans [OF st1(2) st'(2)] by auto
  qed
qed

text \<open>C6: The loop with \<^verbatim>\<open>icalcomponent_get_first_property\<close> and \<^verbatim>\<open>icalcomponent_get_next_property\<close> ends and
  visits exactly the properties of the kind, each once and in the order of the component, and
  \<^verbatim>\<open>icalcomponent_count_properties\<close> is their number.\<close>

theorem walk_visits_properties:
  assumes "comp_holds st par T" "distinct (comp_addrs T)" "length (ac_props T) < n"
  shows "\<exists>st'. walk_properties n (ac_addr T) kind st = Some (map ap_addr (filter (prop_is kind) (ac_props T)), st') \<and> alike st st' \<and>
    icalcomponent_count_properties (ac_addr T) kind st = Some (int (length (filter (prop_is kind) (ac_props T))), st)"
proof -
  let ?t = "\<lambda>P. \<not> prop_is kind P"
  obtain st1 where st1: "icalcomponent_get_first_property (ac_addr T) kind st = Some (hd0 (map ap_addr (dropWhile ?t (ac_props T))), st1)"
    "alike st st1" "prop_cursor (ac_addr T) st1 (map ap_addr (takeWhile ?t (ac_props T))) (map ap_addr (dropWhile ?t (ac_props T)))"
    using first_property_law [OF assms(1,2), of kind] by blast
  have "dropWhile ?t (ac_props T) = [] \<or> prop_is kind (hd (dropWhile ?t (ac_props T)))"
    using hd_dropWhile [of ?t "ac_props T"] by auto
  moreover have "length (dropWhile ?t (ac_props T)) < n" using length_dropWhile_le [of ?t "ac_props T"] assms(3) by linarith
  ultimately obtain st' where st': "walk_from n (ac_addr T) kind (hd0 (map ap_addr (dropWhile ?t (ac_props T)))) st1 =
      Some (map ap_addr (filter (prop_is kind) (dropWhile ?t (ac_props T))), st')" "alike st1 st'"
    using walk_from_law [where kind = kind and n = n, OF comp_holds_alike [OF assms(1) st1(2)] assms(2) _ st1(3)] by auto
  have "filter (prop_is kind) (dropWhile ?t ps) = filter (prop_is kind) ps" for ps by (induction ps) auto
  with st1(1) st' alike_trans [OF st1(2) st'(2)] count_properties_law [OF assms(1,2), of kind] show ?thesis
    by (auto simp: walk_properties_def)
qed

theorem walk_visits_properties_witness:
  "\<exists>st st'. walk_properties 3 2 ICAL_XLICERROR_PROPERTY st = Some ([5], st') \<and> alike st st' \<and>
    icalcomponent_count_properties 2 ICAL_XLICERROR_PROPERTY st = Some (1, st)"
proof -
  have "comp_holds demo_store 1 demo_event" using demo_holds by (simp add: demo_tree_def)
  moreover have "distinct (comp_addrs demo_event)" "length (ac_props demo_event) < 3"
    by (simp_all add: demo_event_def demo_prop_def prop_addrs_def)
  moreover have "ac_addr demo_event = 2" "map ap_addr (filter (prop_is ICAL_XLICERROR_PROPERTY) (ac_props demo_event)) = [5]"
    "length (filter (prop_is ICAL_XLICERROR_PROPERTY) (ac_props demo_event)) = 1"
    by (simp_all add: demo_event_def demo_prop_def prop_is_def)
  ultimately show ?thesis using walk_visits_properties [of demo_store 1 demo_event 3 ICAL_XLICERROR_PROPERTY] by auto
qed

section \<open>Copying\<close>















section \<open>Freeing\<close>

text \<open>C3: \<^verbatim>\<open>icalcomponent_free\<close> of a tree without attachments and time zones ends, and takes exactly the objects of the
  tree out of the store: none is left behind, none is freed twice and none of another tree is freed.\<close>

theorem free_wipes_the_tree:
  assumes "comp_holds st 0 T" "tree_in st T" "loose_tree st T"
  shows "icalcomponent_free (ac_addr T) st = Some (st\<lparr>i_objs := i_objs st |` (- set (comp_addrs T))\<rparr>)"
proof -
  have "depth T \<le> Suc (i_next st)" using tree_in_depth [OF assms(2)] by simp
  moreover have "distinct (comp_addrs T)" using assms(2) by (simp add: tree_in_def)
  ultimately show ?thesis using component_free_law [OF assms(1) _ assms(3)] by (simp add: icalcomponent_free_def wipe_def del: component_free.simps)
qed

theorem free_wipes_the_tree_witness:
  "\<exists>st'. icalcomponent_free 1 demo_store = Some st' \<and> dom (i_objs st') = {7}"
proof -
  have "loose_tree demo_store demo_tree"
    by (simp add: demo_tree_def demo_event_def demo_prop_def loose_prop_def plain_value_def zones_at_def demo_store_def demo_comp_def)
  moreover have "ac_addr demo_tree = 1" by (simp add: demo_tree_def)
  ultimately show ?thesis using free_wipes_the_tree [OF demo_holds demo_in] by (auto simp: demo_addrs demo_store_def restrict_map_def dom_def)
qed

section \<open>Errors\<close>

text \<open>C4: \<^verbatim>\<open>icalcomponent_count_errors\<close> counts the error properties of a tree at every depth;
  \<^verbatim>\<open>icalcomponent_strip_errors\<close> takes exactly these out of the tree, so that the count is 0 afterwards, and touches
  nothing outside of it.\<close>

theorem strip_leaves_no_errors:
  assumes "comp_holds st par T" "tree_in st T"
  shows "icalcomponent_count_errors (ac_addr T) st = Some (int (error_count T)) \<and>
    (\<exists>st'. icalcomponent_strip_errors (ac_addr T) st = Some st' \<and> comp_holds st' par (strip_tree T) \<and>
      framed (set (comp_addrs T)) st st' \<and> icalcomponent_count_errors (ac_addr T) st' = Some 0)"
proof -
  have dn: "depth T \<le> Suc (i_next st)" "distinct (comp_addrs T)" using tree_in_depth [OF assms(2)] assms(2) by (simp_all add: tree_in_def)
  obtain st' where st': "icalcomponent_strip_errors (ac_addr T) st = Some st'" "comp_holds st' par (strip_tree T)" "framed (set (comp_addrs T)) st st'"
    using component_strip_law [OF dn] assms(1) unfolding maps_tree_def icalcomponent_strip_errors_def by blast
  have "depth (strip_tree T) \<le> Suc (i_next st')"
  proof -
    have "tree_in st' (strip_tree T)"
      using assms(2) strip_tree_distinct [OF dn(2)] strip_tree_addrs [of T] st'(3) by (auto simp: tree_in_def framed_def)
    then show ?thesis using tree_in_depth by (simp add: le_SucI)
  qed
  from component_errors_law [OF st'(2) this] component_errors_law [OF assms(1) dn(1)] st' show ?thesis
    by (auto simp: icalcomponent_count_errors_def)
qed

theorem strip_leaves_no_errors_witness:
  "icalcomponent_count_errors 1 demo_store = Some 1 \<and>
   (\<exists>st'. icalcomponent_strip_errors 1 demo_store = Some st' \<and> icalcomponent_count_errors 1 st' = Some 0)"
proof -
  have "ac_addr demo_tree = 1" "error_count demo_tree = 1" by (simp_all add: demo_tree_def demo_event_def demo_prop_def)
  with strip_leaves_no_errors [OF demo_holds demo_in] show ?thesis by auto
qed

end
