(* ===== verification/IcalParse.thy ===== *)
theory IcalParse
  imports IcalComponent
begin

text \<open>
  The parser of \<^verbatim>\<open>icalparser.c\<close>: a stack of open components, to which it adds one content line
  after the other. What is wrong in a line becomes an error property in the component at hand.
  The parts of a line are found by the routines in \<open>IcalScan\<close>, the lines by those in \<open>IcalLine\<close>.
  The library is built with \<^verbatim>\<open>ICAL_ERRORS_ARE_FATAL\<close>, so a parameter of an unknown kind ends the line.
\<close>

section \<open>The parser\<close>

datatype icalparser_state =
  ICALPARSER_ERROR | ICALPARSER_SUCCESS | ICALPARSER_BEGIN_COMP | ICALPARSER_END_COMP | ICALPARSER_IN_PROGRESS

record icalparser =
  ps_root_component :: nat
  ps_level :: int
  ps_state :: icalparser_state
  ps_components :: plist
  ps_lines :: icalparser_lines

definition icalparser_new :: icalparser where
  "icalparser_new = \<lparr>ps_root_component = 0, ps_level = 0, ps_state = ICALPARSER_SUCCESS,
     ps_components = new_plist, ps_lines = icalparser_new_lines\<rparr>"

definition icalparser_get_state :: "icalparser \<Rightarrow> icalparser_state" where
  "icalparser_get_state = ps_state"

text \<open>The component at the end of the stack, or null.\<close>

definition open_component :: "icalparser \<Rightarrow> nat option" where
  "open_component parser = elem_data (pvl_tail (fst (ps_components parser))) (ps_components parser)"

definition insert_error :: "nat \<Rightarrow> string option \<Rightarrow> string \<Rightarrow> int \<Rightarrow> ical \<Rightarrow> ical option" where
  "insert_error c text message type st = do {
     let temp = take 1023 (case text of None \<Rightarrow> message @ '':'' | Some t \<Rightarrow> message @ '': '' @ t);
     (param, st1) \<leftarrow> icalparameter_new_xlicerrortype type st;
     (prop, st2) \<leftarrow> icalproperty_vanew_xlicerror (Some temp) [param, 0] st1;
     icalcomponent_add_property c prop st2 }"

text \<open>The line could not be used: an error property, and the state of an error.\<close>

definition line_error ::
    "icalparser \<Rightarrow> nat \<Rightarrow> string option \<Rightarrow> string \<Rightarrow> int \<Rightarrow> ical \<Rightarrow> (icalparser \<times> ical) option" where
  "line_error parser tail text message type st =
     map_option (\<lambda>st1. (parser\<lparr>ps_state := ICALPARSER_ERROR\<rparr>, st1)) (insert_error tail text message type st)"

definition commas_of :: "icalvalue_kind \<Rightarrow> value_commas" where
  "commas_of k = (if k = ICAL_RECUR_VALUE then RECUR_COMMAS else if k = ICAL_QUERY_VALUE then QUERY_COMMAS else OTHER_COMMAS)"

section \<open>BEGIN and END\<close>

text \<open>
  The name of a component that is not known: the component that was made for it holds the error,
  and is then replaced by a component without a kind.
\<close>

definition begin_component :: "icalparser \<Rightarrow> string \<Rightarrow> nat \<Rightarrow> ical \<Rightarrow> (icalparser \<times> ical) option" where
  "begin_component parser line e st = do {
     (str, e1) \<leftarrow> parser_get_next_value (commas_of ICAL_NO_VALUE) line e;
     let kind = icalcomponent_string_to_kind str;
     st1 \<leftarrow> (if kind = ICAL_NO_COMPONENT then
               (let (c, st') = icalcomponent_new ICAL_XLICINVALID_COMPONENT st
                in insert_error c str ''Parse error in component name'' ICAL_XLICERRORTYPE_COMPONENTPARSEERROR st')
             else Some st);
     let (c, st2) = icalcomponent_new kind st1;
     (c1, st3) \<leftarrow> (if c = 0 then
               (let (c', st') = icalcomponent_new ICAL_XLICINVALID_COMPONENT st2
                in map_option (\<lambda>st''. (c', st''))
                     (insert_error c' str ''Parse error in component name'' ICAL_XLICERRORTYPE_COMPONENTPARSEERROR st'))
             else Some (c, st2));
     L \<leftarrow> push_elem c1 (ps_components parser);
     Some (parser\<lparr>ps_level := ps_level parser + 1, ps_components := L, ps_state := ICALPARSER_BEGIN_COMP\<rparr>, st3) }"

text \<open>Components that were not ended are closed at the end, each with an error.\<close>

fun close_components :: "nat \<Rightarrow> coverage \<Rightarrow> icalparser \<Rightarrow> ical \<Rightarrow> (icalparser \<times> ical) option" where
  "close_components 0 cov parser st = None"
| "close_components (Suc n) cov parser st = do {
     tail \<leftarrow> open_component parser;
     if tail = 0 then Some (parser, st)
     else do {
       st1 \<leftarrow> insert_error tail (Some '' '')
                ''Missing END tag for this component. Closing component at end of input.''
                ICAL_XLICERRORTYPE_COMPONENTPARSEERROR st;
       (found, L) \<leftarrow> pop_elem (ps_components parser);
       let parser1 = parser\<lparr>ps_root_component := found, ps_components := L\<rparr>;
       tail1 \<leftarrow> open_component parser1;
       st2 \<leftarrow> (if tail1 \<noteq> 0 \<and> found \<noteq> 0 then do {
                 p \<leftarrow> icalcomponent_get_parent found st1;
                 if p \<noteq> 0 then Some st1 else icalcomponent_add_component cov tail1 found st1 }
               else Some st1);
       close_components n cov parser1 st2 } }"

definition icalparser_clean :: "coverage \<Rightarrow> icalparser \<Rightarrow> ical \<Rightarrow> (nat \<times> icalparser \<times> ical) option" where
  "icalparser_clean cov parser st = do {
     (parser1, st1) \<leftarrow> close_components (fresh (snd (ps_components parser))) cov parser st;
     Some (ps_root_component parser1, parser1, st1) }"

text \<open>A component is given back when as many have ended as have begun.\<close>

definition end_component :: "coverage \<Rightarrow> icalparser \<Rightarrow> string \<Rightarrow> nat \<Rightarrow> ical \<Rightarrow> (nat \<times> icalparser \<times> ical) option" where
  "end_component cov parser line e st = do {
     (str, e1) \<leftarrow> parser_get_next_value (commas_of ICAL_NO_VALUE) line e;
     (found, L) \<leftarrow> pop_elem (ps_components parser);
     let parser1 = parser\<lparr>ps_level := ps_level parser - 1, ps_root_component := found, ps_components := L\<rparr>;
     tail \<leftarrow> open_component parser1;
     st1 \<leftarrow> (if tail \<noteq> 0 then icalcomponent_add_component cov tail found st else Some st);
     if ps_level parser1 = 0 then do {
       (parser2, st2) \<leftarrow>
         (if pvl_count (fst (ps_components parser1)) \<noteq> 0 then do {
            L1 \<leftarrow> push_elem found (ps_components parser1);
            (_, p', st') \<leftarrow> icalparser_clean cov (parser1\<lparr>ps_components := L1\<rparr>) st1;
            Some (p', st') }
          else Some (parser1, st1));
       if pvl_count (fst (ps_components parser2)) \<noteq> 0 then None
       else Some (ps_root_component parser2, parser2\<lparr>ps_state := ICALPARSER_SUCCESS, ps_root_component := 0\<rparr>, st2) }
     else Some (0, parser1\<lparr>ps_state := ICALPARSER_END_COMP\<rparr>, st1) }"

section \<open>Parameters\<close>

text \<open>
  One parameter. The results are the value kind from here on, and whether the line goes on: with
  the next parameter, with the value, or not at all.
\<close>

datatype after_parameter = MORE_PARAMETERS | VALUES_NEXT | LINE_DONE

definition line_parameter ::
    "icalparser \<Rightarrow> nat \<Rightarrow> nat \<Rightarrow> string \<Rightarrow> icalvalue_kind \<Rightarrow> ical
       \<Rightarrow> (after_parameter \<times> icalvalue_kind \<times> icalparser \<times> ical) option" where
  "line_parameter parser tail prop str value_kind st = do {
     nv \<leftarrow> parser_get_param_name str;
     case nv of
       None \<Rightarrow> do {
         st1 \<leftarrow> insert_error tail (Some str) ''Cant parse parameter name'' ICAL_XLICERRORTYPE_PARAMETERNAMEPARSEERROR st;
         Some (VALUES_NEXT, value_kind, parser, st1) }
     | Some (name, pvalue) \<Rightarrow>
         let kind = icalparameter_string_to_kind (Some name)
         in if kind = ICAL_NO_PARAMETER then do {
              (parser1, st1) \<leftarrow> line_error parser tail (Some str) ''Cant parse parameter name''
                 ICAL_XLICERRORTYPE_PARAMETERNAMEPARSEERROR st;
              Some (LINE_DONE, value_kind, parser1, st1) }
            else do {
              (param, st1) \<leftarrow>
                (if kind = ICAL_X_PARAMETER then
                   (let (q, st') = icalparameter_new ICAL_X_PARAMETER st
                    in do {
                      st'' \<leftarrow> icalparameter_set_xname q (Some name) st';
                      st''' \<leftarrow> icalparameter_set_xvalue q (Some pvalue) st'';
                      Some (q, st''') })
                 else icalparameter_new_from_value_string kind (Some pvalue) st);
              if param = 0 then do {
                (parser1, st2) \<leftarrow> line_error parser tail (Some str) ''Cant parse parameter value''
                   ICAL_XLICERRORTYPE_PARAMETERVALUEPARSEERROR st1;
                Some (MORE_PARAMETERS, value_kind, parser1, st2) }
              else if kind = ICAL_VALUE_PARAMETER then do {
                (e, st2) \<leftarrow> icalparameter_get_value param st1;
                let vk = icalparameter_value_to_value_kind e;
                if vk = ICAL_NO_VALUE then do {
                  (parser1, st3) \<leftarrow> line_error parser tail (Some str) ''Got a VALUE parameter with an unknown type''
                     ICAL_XLICERRORTYPE_PARAMETERVALUEPARSEERROR st2;
                  pk \<leftarrow> icalproperty_isa prop st3;
                  st4 \<leftarrow> icalparameter_free param st3;
                  Some (MORE_PARAMETERS, icalproperty_kind_to_value_kind pk, parser1, st4) }
                else do {
                  st3 \<leftarrow> icalproperty_add_parameter prop param st2;
                  Some (MORE_PARAMETERS, vk, parser, st3) } }
              else do {
                st2 \<leftarrow> icalproperty_add_parameter prop param st1;
                Some (MORE_PARAMETERS, value_kind, parser, st2) } } }"

text \<open>
  The loop over the parameters. The character before \<open>e\<close> is the separator that was found
  last. Each round takes a separator of the line, so the length of the line is enough fuel.
\<close>

fun line_parameters ::
    "nat \<Rightarrow> icalparser \<Rightarrow> nat \<Rightarrow> nat \<Rightarrow> string \<Rightarrow> nat \<Rightarrow> icalvalue_kind \<Rightarrow> ical
       \<Rightarrow> (bool \<times> nat \<times> icalvalue_kind \<times> icalparser \<times> ical) option" where
  "line_parameters 0 parser tail prop line e value_kind st = None"
| "line_parameters (Suc n) parser tail prop line e value_kind st =
     (if line ! (e - 1) = CHR '':'' then Some (True, e, value_kind, parser, st)
      else do {
        (str, e1) \<leftarrow> parser_get_next_parameter line e;
        case str of
          None \<Rightarrow> Some (True, e1, value_kind, parser, st)
        | Some s \<Rightarrow> do {
            (next_step, vk, parser1, st1) \<leftarrow> line_parameter parser tail prop (strstriplt s) value_kind st;
            case next_step of
              MORE_PARAMETERS \<Rightarrow> line_parameters n parser1 tail prop line e1 vk st1
            | VALUES_NEXT \<Rightarrow> Some (True, e1, vk, parser1, st1)
            | LINE_DONE \<Rightarrow> Some (False, e1, vk, parser1, st1) } })"

section \<open>Values\<close>

text \<open>The properties that can have several values.\<close>

definition many_values :: "icalproperty_kind \<Rightarrow> bool" where
  "many_values k \<longleftrightarrow> k \<in> {ICAL_X_PROPERTY, ICAL_CATEGORIES_PROPERTY, ICAL_RESOURCES_PROPERTY, ICAL_RDATE_PROPERTY,
     ICAL_EXDATE_PROPERTY, ICAL_FREEBUSY_PROPERTY}"

definition next_value ::
    "icalproperty_kind \<Rightarrow> icalvalue_kind \<Rightarrow> string \<Rightarrow> nat \<Rightarrow> (string option \<times> nat) option" where
  "next_value prop_kind value_kind line e =
     map_option (\<lambda>(so, e1). (map_option strstriplt so, e1))
       (if many_values prop_kind then parser_get_next_value (commas_of value_kind) line e
        else Some (icalparser_get_value line e))"

text \<open>A null text is printed as \<^verbatim>\<open>(null)\<close>.\<close>

definition or_null :: "string option \<Rightarrow> string" where
  "or_null so = (case so of None \<Rightarrow> ''(null)'' | Some s \<Rightarrow> s)"

text \<open>A property without a usable value is taken out of its component and freed.\<close>

definition drop_property ::
    "icalparser \<Rightarrow> nat \<Rightarrow> nat \<Rightarrow> string option \<Rightarrow> string \<Rightarrow> ical \<Rightarrow> (icalparser \<times> ical) option" where
  "drop_property parser tail prop str message st = do {
     (parser1, st1) \<leftarrow> line_error parser tail str (take 199 message) ICAL_XLICERRORTYPE_VALUEPARSEERROR st;
     st2 \<leftarrow> icalcomponent_remove_property tail prop st1;
     st3 \<leftarrow> icalproperty_free prop st2;
     Some (parser1, st3) }"

text \<open>The first value is that of the property; each further one gets a copy of the property.\<close>

fun line_values ::
    "nat \<Rightarrow> icalparser \<Rightarrow> nat \<Rightarrow> nat \<Rightarrow> icalproperty_kind \<Rightarrow> icalvalue_kind \<Rightarrow> nat \<Rightarrow> string \<Rightarrow> nat \<Rightarrow> ical
       \<Rightarrow> (icalparser \<times> ical) option" where
  "line_values 0 parser tail prop prop_kind value_kind vcount line e st = None"
| "line_values (Suc n) parser tail prop prop_kind value_kind vcount line e st = do {
     (so, e1) \<leftarrow> next_value prop_kind value_kind line e;
     case so of
       None \<Rightarrow>
         if vcount = 0 then do {
           pk \<leftarrow> icalproperty_isa prop st;
           drop_property parser tail prop None
             (''No value for '' @ or_null (icalproperty_kind_to_string pk) @ '' property. Removing entire property'') st }
         else Some (parser\<lparr>ps_state := ICALPARSER_IN_PROGRESS\<rparr>, st)
     | Some str \<Rightarrow> do {
         (prop1, st1) \<leftarrow>
           (if vcount > 0 then do {
              (p', st') \<leftarrow> icalproperty_new_clone prop st;
              st'' \<leftarrow> icalcomponent_add_property tail p' st';
              Some (p', st'') }
            else Some (prop, st));
         (val, st2) \<leftarrow> parse_value value_kind str st1;
         if val = 0 then do {
           pk \<leftarrow> icalproperty_isa prop1 st2;
           drop_property parser tail prop1 (Some str)
             (''Can'' @ [char_of (39::nat)] @ ''t parse as '' @ or_null (icalvalue_kind_to_string value_kind) @ '' value in '' @
              or_null (icalproperty_kind_to_string pk) @ '' property. Removing entire property'') st2 }
         else do {
           st3 \<leftarrow> icalproperty_set_value prop1 val st2;
           line_values n parser tail prop1 prop_kind value_kind (vcount + 1) line e1 st3 } } }"

section \<open>A line\<close>

definition property_line ::
    "icalparser \<Rightarrow> nat \<Rightarrow> string \<Rightarrow> string \<Rightarrow> nat \<Rightarrow> ical \<Rightarrow> (icalparser \<times> ical) option" where
  "property_line parser tail name line e st = do {
     let prop_kind = icalproperty_string_to_kind (Some name);
     let (prop, st0) = icalproperty_new prop_kind st;
     if prop = 0
     then line_error parser tail (Some name) ''Parse error in property name'' ICAL_XLICERRORTYPE_PROPERTYPARSEERROR st0
     else do {
       st1 \<leftarrow> (if prop_kind = ICAL_X_PROPERTY then icalproperty_set_x_name prop (Some name) st0 else Some st0);
       st2 \<leftarrow> icalcomponent_add_property tail prop st1;
       (go_on, e1, value_kind, parser1, st3) \<leftarrow>
         line_parameters (Suc (length line)) parser tail prop line e (icalproperty_kind_to_value_kind prop_kind) st2;
       if go_on then line_values (Suc (Suc (length line))) parser1 tail prop prop_kind value_kind 0 line e1 st3
       else Some (parser1, st3) } }"

definition icalparser_add_line ::
    "coverage \<Rightarrow> icalparser \<Rightarrow> string option \<Rightarrow> ical \<Rightarrow> (nat \<times> icalparser \<times> ical) option" where
  "icalparser_add_line cov parser lo st =
     (case lo of
        None \<Rightarrow> Some (0, parser\<lparr>ps_state := ICALPARSER_ERROR\<rparr>, st)
      | Some line \<Rightarrow>
          if line_is_blank line then Some (0, parser, st)
          else do {
            ne \<leftarrow> parser_get_prop_name line;
            tail \<leftarrow> open_component parser;
            (case ne of
               None \<Rightarrow> do {
                 (parser1, st1) \<leftarrow>
                   (if tail \<noteq> 0 then line_error parser tail (Some line)
                      ''Got a data line, but could not find a property name or component begin tag''
                      ICAL_XLICERRORTYPE_COMPONENTPARSEERROR st
                    else Some (parser\<lparr>ps_state := ICALPARSER_ERROR\<rparr>, st));
                 Some (0, parser1, st1) }
             | Some (name, e) \<Rightarrow>
                 if name = [] then do {
                   (parser1, st1) \<leftarrow>
                     (if tail \<noteq> 0 then line_error parser tail (Some line)
                        ''Got a data line, but could not find a property name or component begin tag''
                        ICAL_XLICERRORTYPE_COMPONENTPARSEERROR st
                      else Some (parser\<lparr>ps_state := ICALPARSER_ERROR\<rparr>, st));
                   Some (0, parser1, st1) }
                 else if strcaseeq name ''BEGIN'' then do {
                   (parser1, st1) \<leftarrow> begin_component parser line e st;
                   Some (0, parser1, st1) }
                 else if strcaseeq name ''END'' then end_component cov parser line e st
                 else if tail = 0 then Some (0, parser\<lparr>ps_state := ICALPARSER_ERROR\<rparr>, st)
                 else do {
                   (parser1, st1) \<leftarrow> property_line parser tail name line e st;
                   Some (0, parser1, st1) }) })"

section \<open>A text\<close>

text \<open>The components that come back: the first is the result, further ones go into a common root.\<close>

definition join_root :: "coverage \<Rightarrow> icalparser \<Rightarrow> nat \<Rightarrow> nat \<Rightarrow> ical \<Rightarrow> (nat \<times> ical) option" where
  "join_root cov parser found c st =
     (if c = 0 then Some (found, st)
      else if ps_root_component parser \<noteq> 0 \<or> pvl_count (fst (ps_components parser)) \<noteq> 0 then None
      else if found = 0 then Some (c, st)
      else do {
        (k, st1) \<leftarrow> icalcomponent_isa found st;
        if k \<noteq> ICAL_XROOT_COMPONENT then
          (let (tempc, st2) = icalcomponent_new ICAL_XROOT_COMPONENT st1
           in do {
             st3 \<leftarrow> icalcomponent_add_component cov tempc found st2;
             st4 \<leftarrow> icalcomponent_add_component cov tempc c st3;
             Some (tempc, st4) })
        else do {
          st2 \<leftarrow> icalcomponent_add_component cov found c st1;
          Some (found, st2) } })"

partial_function (option) parse_loop ::
    "coverage \<Rightarrow> 'd line_gen \<Rightarrow> icalparser \<Rightarrow> 'd \<Rightarrow> nat \<Rightarrow> ical \<Rightarrow> (nat \<times> icalparser \<times> 'd \<times> ical) option" where
  "parse_loop cov gen parser d found st = do {
     (line, lines, d1) \<leftarrow> icalparser_get_line gen (ps_lines parser) d;
     (c, parser1, st1) \<leftarrow> icalparser_add_line cov (parser\<lparr>ps_lines := lines\<rparr>) line st;
     (root1, st2) \<leftarrow> join_root cov parser1 found c st1;
     if line = None then Some (root1, parser1, d1, st2)
     else parse_loop cov gen parser1 d1 root1 st2 }"

declare parse_loop.simps [code]

definition icalparser_parse ::
    "coverage \<Rightarrow> 'd line_gen \<Rightarrow> icalparser \<Rightarrow> 'd \<Rightarrow> ical \<Rightarrow> (nat \<times> icalparser \<times> 'd \<times> ical) option" where
  "icalparser_parse cov gen parser d st = do {
     let es = icalerror_get_error_state ICAL_MALFORMEDDATA_ERROR (errs st);
     let st0 = with_error_state (icalerror_set_error_state ICAL_MALFORMEDDATA_ERROR ICAL_ERROR_NONFATAL (errs st)) st;
     (found, parser1, d1, st1) \<leftarrow> parse_loop cov gen parser d 0 st0;
     Some (found, parser1, d1,
       with_error_state (icalerror_set_error_state ICAL_MALFORMEDDATA_ERROR es (errs st1)) st1) }"

fun free_stack :: "nat \<Rightarrow> plist \<Rightarrow> ical \<Rightarrow> ical option" where
  "free_stack 0 L st = None"
| "free_stack (Suc n) L st = do {
     (c, L1) \<leftarrow> pop_elem L;
     if c = 0 then Some st
     else do {
       st1 \<leftarrow> icalcomponent_free c st;
       free_stack n L1 st1 } }"

definition icalparser_free :: "icalparser \<Rightarrow> ical \<Rightarrow> ical option" where
  "icalparser_free parser st = do {
     st1 \<leftarrow> (if ps_root_component parser \<noteq> 0 then icalcomponent_free (ps_root_component parser) st else Some st);
     free_stack (fresh (snd (ps_components parser))) (ps_components parser) st1 }"

definition icalparser_parse_string :: "coverage \<Rightarrow> string \<Rightarrow> ical \<Rightarrow> (nat \<times> ical) option" where
  "icalparser_parse_string cov str st = do {
     let es = icalerror_get_error_state ICAL_MALFORMEDDATA_ERROR (errs st);
     let st0 = with_error_state (icalerror_set_error_state ICAL_MALFORMEDDATA_ERROR ICAL_ERROR_NONFATAL (errs st)) st;
     (c, p, d, st1) \<leftarrow> icalparser_parse cov icalparser_string_line_generator icalparser_new
                        \<lparr>slg_pos = None, slg_str = str\<rparr> st0;
     let st2 = with_error_state (icalerror_set_error_state ICAL_MALFORMEDDATA_ERROR es (errs st1)) st1;
     st3 \<leftarrow> icalparser_free p st2;
     Some (c, st3) }"

end
