(* ===== verification/ZoneProperties.thy ===== *)
theory ZoneProperties
  imports TimeProperties TreeProperties TzExpandLaws
begin

text \<open>The property of the zones of a calendar: from the VTIMEZONE to the offset of a time.\<close>

text \<open>The example: a zone that leaves summer time in November 2007.\<close>

definition demo_held :: "nat \<Rightarrow> icalproperty_kind \<Rightarrow> icalvalue_kind \<Rightarrow> icalvalue_data \<Rightarrow> aprop" where
  "demo_held a k vk d = AProp a k None [] (Some (Suc a, (plain_value vk d)\<lparr>v_parent := a\<rparr>))"

definition demo_part :: acomp where
  "demo_part = AComp 2 ICAL_XSTANDARD_COMPONENT None
     [demo_held 3 ICAL_DTSTART_PROPERTY ICAL_DATETIME_VALUE (V_time (plain_time 2007 11 4 2 0 0)),
      demo_held 5 ICAL_TZOFFSETTO_PROPERTY ICAL_UTCOFFSET_VALUE (V_int (- 18000)),
      demo_held 7 ICAL_TZOFFSETFROM_PROPERTY ICAL_UTCOFFSET_VALUE (V_int (- 14400))] []"

definition demo_zone :: acomp where
  "demo_zone = AComp 1 ICAL_VTIMEZONE_COMPONENT None [] [demo_part]"

definition demo_zone_store :: ical where
  "demo_zone_store = \<lparr>i_env = quiet_env,
     i_objs = [1 \<mapsto> demo_comp 0 ICAL_VTIMEZONE_COMPONENT [] [2], 2 \<mapsto> demo_comp 1 ICAL_XSTANDARD_COMPONENT [3, 5, 7] [],
       3 \<mapsto> demo_row 2 ICAL_DTSTART_PROPERTY 4,
       4 \<mapsto> Val ((plain_value ICAL_DATETIME_VALUE (V_time (plain_time 2007 11 4 2 0 0)))\<lparr>v_parent := 3\<rparr>),
       5 \<mapsto> demo_row 2 ICAL_TZOFFSETTO_PROPERTY 6, 6 \<mapsto> Val ((plain_value ICAL_UTCOFFSET_VALUE (V_int (- 18000)))\<lparr>v_parent := 5\<rparr>),
       7 \<mapsto> demo_row 2 ICAL_TZOFFSETFROM_PROPERTY 8, 8 \<mapsto> Val ((plain_value ICAL_UTCOFFSET_VALUE (V_int (- 14400)))\<lparr>v_parent := 7\<rparr>)],
     i_next = 9\<rparr>"

lemma demo_zone_holds: "comp_holds demo_zone_store 0 demo_zone" "tree_in demo_zone_store demo_zone"
  using list_of_plist [of "[]"] list_of_plist [of "[2]"] list_of_plist [of "[3, 5, 7]"]
  by (simp_all add: demo_zone_store_def demo_zone_def demo_part_def demo_held_def demo_row_def demo_comp_def comp_row_def
      prop_holds_def prop_row_def value_holds_def value_ptr_def tree_in_def prop_addrs_def)

lemma demo_zone_changes:
  "zone_changes demo_zone = [utc_change (- 18000) (- 14400) 0 (plain_time 2007 11 4 2 0 0)]"
  by (simp add: zone_changes_def part_changes_def demo_zone_def demo_part_def demo_held_def onset_of_def held_time_def held_int_def
      plain_value_def no_onset_def v_time_def v_int_def)

definition no_zone :: "nat \<Rightarrow> icaltimezone" where
  "no_zone c = icaltimezone_init\<lparr>tz_component := c\<rparr>"

text \<open>For the zone of a VTIMEZONE whose parts have start times and dates but no rules,
  \<^verbatim>\<open>icaltimezone_ensure_coverage\<close> ends and makes a table with which the offset of every UTC time is that of
  the last change before it which the parts of the component tell, and zero before the first one.\<close>

theorem zone_of_component_gives_offsets:
  assumes "comp_holds st par T" "tree_in st T" "tz_component z = ac_addr T" "tz_changes z = None"
    "\<forall>C \<in> set (ac_comps T). \<forall>P \<in> set (ac_props C). onset_typed P" "\<forall>c \<in> set (zone_changes T). normal_change c"
    "normal_time t" "u \<noteq> utc_timezone"
  shows "\<exists>cs m z' st'. icaltimezone_ensure_coverage cov load today minimum z end_year st = Some (m, z', st') \<and> alike st st' \<and>
    tz_changes z' = Some cs \<and>
    icaltimezone_get_utc_offset_of_utc_time (\<lambda>_ _. Some cs) (Some u) t =
      Some (change_offset (last_change (qsort icaltimezone_compare_change_fn (zone_changes T)) (ical_secs t)))"
proof -
  have d: "distinct (comp_addrs T)" using assms(2) by (simp add: tree_in_def)
  have z: "tz_component z \<noteq> 0" using assms(1,3) by (simp add: comp_holds_iff [of st par T])
  obtain cs st' where cs: "icaltimezone_expand_changes cov z (min (max end_year (if minimum = - 1 then today else minimum) + 5) 2035) st =
      Some (z\<lparr>tz_changes := Some cs, tz_end_year := min (max end_year (if minimum = - 1 then today else minimum) + 5) 2035\<rparr>, st')"
    "alike st st'" "array_ok cs" "elements cs = qsort icaltimezone_compare_change_fn (zone_changes T)"
    using expand_changes_law [OF assms(1) d assms(3,5)] by blast
  have run: "icaltimezone_ensure_coverage cov load today minimum z end_year st =
      Some (if minimum = - 1 then today else minimum,
        z\<lparr>tz_changes := Some cs, tz_end_year := min (max end_year (if minimum = - 1 then today else minimum) + 5) 2035\<rparr>, st')"
    using cs(1) z assms(4)
    by (simp add: icaltimezone_ensure_coverage_def ICALTIMEZONE_EXTRA_COVERAGE_def ICALTIMEZONE_MAX_YEAR_def Let_def)
  have "icaltimezone_get_utc_offset_of_utc_time (\<lambda>_ _. Some cs) (Some u) t =
      Some (change_offset (last_change (elements cs) (ical_secs t)))"
  proof (cases "num_elements cs = 0")
    case True
    then have "elements cs = []" using length_elements [OF cs(3)] by simp
    with True assms(8) show ?thesis
      by (simp add: icaltimezone_get_utc_offset_of_utc_time_def last_change_def change_offset_def)
  next
    case False
    have "set (elements cs) = set (zone_changes T)" using mset_eq_setD [OF mset_qsort] cs(4) by metis
    with False cs(3) assms(6) have "table_ok cs" by (simp add: table_ok_def)
    moreover have "cmp_sorted icaltimezone_compare_change_fn (elements cs)"
      using changecmp.qsort_sorted cs(4) by simp
    ultimately show ?thesis
      using offset_of_utc_last [of cs t] assms(7,8) False
      by (simp add: icaltimezone_get_utc_offset_of_utc_time_def utc_good_def)
  qed
  with run cs(2,4) show ?thesis by auto
qed

theorem zone_of_component_gives_offsets_witness:
  "\<exists>cs m z' st'. icaltimezone_ensure_coverage (\<lambda>_ _. None) (\<lambda>_ _. None) 2009 (- 1) (no_zone 1) 2008 demo_zone_store = Some (m, z', st') \<and>
    tz_changes z' = Some cs \<and>
    icaltimezone_get_utc_offset_of_utc_time (\<lambda>_ _. Some cs) (Some 1) (plain_time 2008 1 1 0 0 0) = Some (- 18000, 0)"
proof -
  let ?t = "plain_time 2008 1 1 0 0 0"
  let ?c = "utc_change (- 18000) (- 14400) 0 (plain_time 2007 11 4 2 0 0)"
  have "ical_secs (plain_time 2007 11 4 2 0 0) = 63330948000" "ical_secs ?t = 63335952000"
    by (simp_all add: day_count_simps)
  then have c: "normal_change ?c" "change_secs ?c < ical_secs ?t"
    using adjust_change_secs [of "change_at (- 18000) (- 14400) 0 (plain_time 2007 11 4 2 0 0)" 0 0 0 14400]
    by (simp_all add: utc_change_def change_at_def change_of_time_def ical_secs_def)
  have typed: "\<forall>C \<in> set (ac_comps demo_zone). \<forall>P \<in> set (ac_props C). onset_typed P"
    by (simp add: demo_zone_def demo_part_def demo_held_def onset_typed_def plain_value_def v_time_def v_int_def)
  have norm: "\<forall>c \<in> set (zone_changes demo_zone). normal_change c" using c(1) by (simp add: demo_zone_changes)
  have "\<exists>cs m z' st'. icaltimezone_ensure_coverage (\<lambda>_ _. None) (\<lambda>_ _. None) 2009 (- 1) (no_zone 1) 2008 demo_zone_store = Some (m, z', st') \<and>
    alike demo_zone_store st' \<and> tz_changes z' = Some cs \<and>
    icaltimezone_get_utc_offset_of_utc_time (\<lambda>_ _. Some cs) (Some 1) ?t =
      Some (change_offset (last_change (qsort icaltimezone_compare_change_fn (zone_changes demo_zone)) (ical_secs ?t)))"
    by (rule zone_of_component_gives_offsets [OF demo_zone_holds _ _ typed norm]) (simp_all add: no_zone_def demo_zone_def icaltimezone_init_def
        utc_timezone_def normal_time_def normal_date_def icaltime_days_in_month_def days_in_month_table_def)
  moreover have "change_offset (last_change (qsort icaltimezone_compare_change_fn (zone_changes demo_zone)) (ical_secs ?t)) = (- 18000, 0)"
    using c(2) by (simp add: demo_zone_changes qsort_def last_change_def change_offset_def utc_change_def icaltimezone_adjust_change_def
        change_at_def change_of_time_def split: prod.splits)
  ultimately show ?thesis by metis
qed

end
