(* ===== verification/CompAccess.thy ===== *)
theory CompAccess
  imports IcalComponent IcalTime IcalDuration
begin

text \<open>
  What \<^verbatim>\<open>icalcomponent.c\<close> offers to read and write the properties of the event in a calendar: the iterators
  over components, the inner component, the accessors of the single properties, and the look-up of the zone of
  a time. Zones are cells of the arrays of the calendars; their addresses, and the zones of the system, are an
  argument (\<open>zone_access\<close>).
\<close>

section \<open>Iterators over components\<close>

text \<open>An iterator belongs to the list of a component; \<open>icalcompiter_null\<close> is the one behind its end.\<close>

record icalcompiter =
  ci_kind :: icalcomponent_kind
  ci_iter :: nat

definition icalcompiter_null :: icalcompiter where
  "icalcompiter_null = \<lparr>ci_kind = ICAL_NO_COMPONENT, ci_iter = 0\<rparr>"

definition icalcomponent_begin_component :: "nat \<Rightarrow> icalcomponent_kind \<Rightarrow> ical \<Rightarrow> (icalcompiter \<times> ical) option" where
  "icalcomponent_begin_component c kind st =
     (if c = 0 then bad_arg icalcompiter_null st
      else do {
        r \<leftarrow> comp_at c st;
        f \<leftarrow> find_elem (comp_kind_is kind st) (pvl_head (fst (co_components r))) (co_components r);
        Some (if f \<noteq> 0 then \<lparr>ci_kind = kind, ci_iter = f\<rparr> else icalcompiter_null, st) })"

text \<open>The last element at or before \<open>e\<close> whose item satisfies the test.\<close>

fun find_back :: "nat \<Rightarrow> (nat \<Rightarrow> bool option) \<Rightarrow> nat \<Rightarrow> nat pvl_heap \<Rightarrow> nat option" where
  "find_back 0 P e h = None"
| "find_back (Suc n) P e h =
     (if e = 0 then Some 0
      else do {
        c \<leftarrow> cells h e;
        b \<leftarrow> P (e_data c);
        if b then Some e else find_back n P (e_prior c) h })"

definition icalcomponent_end_component :: "nat \<Rightarrow> icalcomponent_kind \<Rightarrow> ical \<Rightarrow> (icalcompiter \<times> ical) option" where
  "icalcomponent_end_component c kind st =
     (if c = 0 then bad_arg icalcompiter_null st
      else do {
        r \<leftarrow> comp_at c st;
        f \<leftarrow> find_back (fresh (snd (co_components r))) (comp_kind_is kind st) (pvl_tail (fst (co_components r))) (snd (co_components r));
        if f = 0 then Some (icalcompiter_null, st)
        else do {
          e \<leftarrow> pvl_next f (snd (co_components r));
          Some (\<lparr>ci_kind = kind, ci_iter = e\<rparr>, st) } })"

definition icalcompiter_deref :: "nat \<Rightarrow> icalcompiter \<Rightarrow> ical \<Rightarrow> nat option" where
  "icalcompiter_deref c i st =
     (if ci_iter i = 0 then Some 0
      else do { r \<leftarrow> comp_at c st; elem_data (ci_iter i) (co_components r) })"

definition icalcompiter_next :: "nat \<Rightarrow> icalcompiter \<Rightarrow> ical \<Rightarrow> (nat \<times> icalcompiter) option" where
  "icalcompiter_next c i st =
     (if ci_iter i = 0 then Some (0, i)
      else do {
        r \<leftarrow> comp_at c st;
        e \<leftarrow> pvl_next (ci_iter i) (snd (co_components r));
        f \<leftarrow> find_elem (comp_kind_is (ci_kind i) st) e (co_components r);
        x \<leftarrow> elem_data f (co_components r);
        Some (x, i\<lparr>ci_iter := f\<rparr>) })"

definition icalcompiter_prior :: "nat \<Rightarrow> icalcompiter \<Rightarrow> ical \<Rightarrow> (nat \<times> icalcompiter) option" where
  "icalcompiter_prior c i st =
     (if ci_iter i = 0 then Some (0, i)
      else do {
        r \<leftarrow> comp_at c st;
        e \<leftarrow> pvl_prior (ci_iter i) (snd (co_components r));
        f \<leftarrow> find_back (fresh (snd (co_components r))) (comp_kind_is (ci_kind i) st) e (snd (co_components r));
        x \<leftarrow> elem_data f (co_components r);
        Some (x, i\<lparr>ci_iter := f\<rparr>) })"

section \<open>Making components\<close>

text \<open>The arguments are components and properties; the list ends at a null pointer.\<close>

fun icalcomponent_add_children :: "coverage \<Rightarrow> nat \<Rightarrow> nat list \<Rightarrow> ical \<Rightarrow> ical option" where
  "icalcomponent_add_children cov c [] st = Some st"
| "icalcomponent_add_children cov c (vp # args) st =
     (if vp = 0 then Some st
      else do {
        x \<leftarrow> i_objs st vp;
        st1 \<leftarrow> (case x of
                  Comp _ \<Rightarrow> icalcomponent_add_component cov c vp st
                | Prop _ \<Rightarrow> icalcomponent_add_property c vp st
                | _ \<Rightarrow> None);
        icalcomponent_add_children cov c args st1 })"

definition icalcomponent_vanew :: "coverage \<Rightarrow> icalcomponent_kind \<Rightarrow> nat list \<Rightarrow> ical \<Rightarrow> (nat \<times> ical) option" where
  "icalcomponent_vanew cov kind args st =
     (let (c, st1) = icalcomponent_new_impl kind st
      in if c = 0 then Some (0, st1)
         else map_option (\<lambda>st2. (c, st2)) (icalcomponent_add_children cov c args st1))"

definition icalcomponent_new_vcalendar :: "ical \<Rightarrow> nat \<times> ical" where
  "icalcomponent_new_vcalendar = icalcomponent_new ICAL_VCALENDAR_COMPONENT"

definition icalcomponent_new_vevent :: "ical \<Rightarrow> nat \<times> ical" where
  "icalcomponent_new_vevent = icalcomponent_new ICAL_VEVENT_COMPONENT"

definition icalcomponent_new_vtodo :: "ical \<Rightarrow> nat \<times> ical" where
  "icalcomponent_new_vtodo = icalcomponent_new ICAL_VTODO_COMPONENT"

definition icalcomponent_new_vjournal :: "ical \<Rightarrow> nat \<times> ical" where
  "icalcomponent_new_vjournal = icalcomponent_new ICAL_VJOURNAL_COMPONENT"

definition icalcomponent_new_valarm :: "ical \<Rightarrow> nat \<times> ical" where
  "icalcomponent_new_valarm = icalcomponent_new ICAL_VALARM_COMPONENT"

definition icalcomponent_new_vfreebusy :: "ical \<Rightarrow> nat \<times> ical" where
  "icalcomponent_new_vfreebusy = icalcomponent_new ICAL_VFREEBUSY_COMPONENT"

definition icalcomponent_new_vtimezone :: "ical \<Rightarrow> nat \<times> ical" where
  "icalcomponent_new_vtimezone = icalcomponent_new ICAL_VTIMEZONE_COMPONENT"

definition icalcomponent_new_xstandard :: "ical \<Rightarrow> nat \<times> ical" where
  "icalcomponent_new_xstandard = icalcomponent_new ICAL_XSTANDARD_COMPONENT"

definition icalcomponent_new_xdaylight :: "ical \<Rightarrow> nat \<times> ical" where
  "icalcomponent_new_xdaylight = icalcomponent_new ICAL_XDAYLIGHT_COMPONENT"

definition icalcomponent_new_vagenda :: "ical \<Rightarrow> nat \<times> ical" where
  "icalcomponent_new_vagenda = icalcomponent_new ICAL_VAGENDA_COMPONENT"

definition icalcomponent_new_vquery :: "ical \<Rightarrow> nat \<times> ical" where
  "icalcomponent_new_vquery = icalcomponent_new ICAL_VQUERY_COMPONENT"

definition icalcomponent_new_vreply :: "ical \<Rightarrow> nat \<times> ical" where
  "icalcomponent_new_vreply = icalcomponent_new ICAL_VREPLY_COMPONENT"

section \<open>The inner component\<close>

definition icalcomponent_get_inner :: "nat \<Rightarrow> ical \<Rightarrow> (nat \<times> ical) option" where
  "icalcomponent_get_inner c st = do {
     (k, st1) \<leftarrow> icalcomponent_isa c st;
     if k = ICAL_VCALENDAR_COMPONENT then icalcomponent_get_first_real_component c st1 else Some (c, st1) }"

text \<open>\<^verbatim>\<open>ICALSETUPSET\<close>: the inner component and its first property of the kind, and then the rest.\<close>

definition setup_set :: "icalproperty_kind \<Rightarrow> (nat \<Rightarrow> nat \<Rightarrow> ical \<Rightarrow> ical option) \<Rightarrow> nat \<Rightarrow> ical \<Rightarrow> ical option" where
  "setup_set kind f c st =
     (if c = 0 then bad_arg_v st
      else do {
        (inner, st1) \<leftarrow> icalcomponent_get_inner c st;
        if inner = 0 then set_errno ICAL_MALFORMEDDATA_ERROR st1
        else do {
          (p, st2) \<leftarrow> icalcomponent_get_first_property inner kind st1;
          f inner p st2 } })"

text \<open>A property that is not there is made and added.\<close>

definition or_new :: "(ical \<Rightarrow> (nat \<times> ical) option) \<Rightarrow> nat \<Rightarrow> nat \<Rightarrow> ical \<Rightarrow> (nat \<times> ical) option" where
  "or_new mk inner p st =
     (if p \<noteq> 0 then Some (p, st)
      else do {
        (q, st1) \<leftarrow> mk st;
        st2 \<leftarrow> icalcomponent_add_property inner q st1;
        Some (q, st2) })"

definition set_or_add ::
    "icalproperty_kind \<Rightarrow> (ical \<Rightarrow> (nat \<times> ical) option) \<Rightarrow> (nat \<Rightarrow> ical \<Rightarrow> ical option) \<Rightarrow> nat \<Rightarrow> ical \<Rightarrow> ical option" where
  "set_or_add kind mk put =
     setup_set kind (\<lambda>inner p st. do { (q, st1) \<leftarrow> or_new mk inner p st; put q st1 })"

text \<open>The readers that check their argument and the inner component.\<close>

definition get_inner_property ::
    "icalproperty_kind \<Rightarrow> (nat \<Rightarrow> ical \<Rightarrow> ('x \<times> ical) option) \<Rightarrow> 'x \<Rightarrow> nat \<Rightarrow> ical \<Rightarrow> ('x \<times> ical) option" where
  "get_inner_property kind get null c st =
     (if c = 0 then bad_arg null st
      else do {
        (inner, st1) \<leftarrow> icalcomponent_get_inner c st;
        if inner = 0 then map_option (\<lambda>st2. (null, st2)) (set_errno ICAL_MALFORMEDDATA_ERROR st1)
        else do {
          (p, st2) \<leftarrow> icalcomponent_get_first_property inner kind st1;
          if p = 0 then Some (null, st2) else get p st2 } })"

section \<open>Zones\<close>

text \<open>
  The address of a cell of the array of zones of a component, the identifier of the zone at an address, and
  the zone of the system of an identifier.
\<close>

record zone_access =
  za_place :: "nat \<Rightarrow> nat \<Rightarrow> zone_ref"
  za_tzid :: "zone_ref \<Rightarrow> string option"
  za_builtin :: "string \<Rightarrow> zone_ref option"

definition icaltime_get_tzid :: "zone_access \<Rightarrow> icaltimetype \<Rightarrow> string option" where
  "icaltime_get_tzid za t = Option.bind (zone t) (za_tzid za)"

text \<open>The comparison reads the identifiers, which the zones of a calendar have.\<close>

definition icalcomponent_compare_timezone_fn :: "icaltimezone \<Rightarrow> icaltimezone \<Rightarrow> int" where
  "icalcomponent_compare_timezone_fn z1 z2 = c_strcmp (the (tz_tzid z1)) (the (tz_tzid z2))"

text \<open>A zone without an identifier makes the search go on forever.\<close>

function tzid_search :: "string \<Rightarrow> icaltimezone icalarray \<Rightarrow> nat \<Rightarrow> nat \<Rightarrow> nat option option" where
  "tzid_search tzid a lower upper =
     (if lower < upper then do {
        let middle = (lower + upper) div 2;
        z \<leftarrow> icalarray_element_at a (int middle);
        name \<leftarrow> tz_tzid z;
        let cmp = c_strcmp tzid name;
        if cmp = 0 then Some (Some middle)
        else if cmp < 0 then tzid_search tzid a lower middle
        else tzid_search tzid a (middle + 1) upper }
      else Some None)"
  by pat_completeness auto
termination
  by (relation "measure (\<lambda>(tzid, a, lower, upper). upper - lower)") auto

declare tzid_search.simps [simp del]

definition icalcomponent_get_timezone :: "zone_access \<Rightarrow> nat \<Rightarrow> string option \<Rightarrow> ical \<Rightarrow> (zone_ref option \<times> ical) option" where
  "icalcomponent_get_timezone za c tzid st = do {
     r \<leftarrow> comp_at c st;
     case co_timezones r of
       None \<Rightarrow> Some (None, st)
     | Some a \<Rightarrow> do {
         (a1, st1) \<leftarrow> (if co_timezones_sorted r = 0 then do {
               b \<leftarrow> icalarray_sort a icalcomponent_compare_timezone_fn;
               st' \<leftarrow> set_comp c (\<lambda>r. r\<lparr>co_timezones := Some b, co_timezones_sorted := 1\<rparr>) st;
               Some (b, st') }
             else Some (a, st));
         if num_elements a1 = 0 then Some (None, st1)
         else do {
           s \<leftarrow> tzid;
           i \<leftarrow> tzid_search s a1 0 (num_elements a1);
           Some (map_option (za_place za c) i, st1) } } }"

text \<open>The zone of an identifier in a component or one it is part of.\<close>

fun zone_in_scope :: "nat \<Rightarrow> zone_access \<Rightarrow> nat \<Rightarrow> string option \<Rightarrow> ical \<Rightarrow> (zone_ref option \<times> ical) option" where
  "zone_in_scope 0 za c tzid st = None"
| "zone_in_scope (Suc n) za c tzid st =
     (if c = 0 then Some (None, st)
      else do {
        (tz, st1) \<leftarrow> icalcomponent_get_timezone za c tzid st;
        if tz \<noteq> None then Some (tz, st1)
        else do {
          d \<leftarrow> icalcomponent_get_parent c st1;
          zone_in_scope n za d tzid st1 } })"

definition icalcomponent_get_datetime :: "zone_access \<Rightarrow> nat \<Rightarrow> nat \<Rightarrow> ical \<Rightarrow> (icaltimetype \<times> ical) option" where
  "icalcomponent_get_datetime za c p st = do {
     (v, st1) \<leftarrow> icalproperty_get_value p st;
     x \<leftarrow> val_at v st1;
     t \<leftarrow> icalvalue_get_datetime x;
     (param, st2) \<leftarrow> icalproperty_get_first_parameter p ICAL_TZID_PARAMETER st1;
     if param = 0 then Some (t, st2)
     else do {
       (tzid, st3) \<leftarrow> icalparameter_get_tzid param st2;
       (tz, st4) \<leftarrow> zone_in_scope (Suc (i_next st3)) za c tzid st3;
       let tz1 = (if tz = None then Option.bind tzid (za_builtin za) else tz);
       Some (if tz1 = None then t else icaltime_set_timezone t tz1, st4) } }"

section \<open>Start, end and duration\<close>

text \<open>The parameter with the identifier of the zone, unless the time is in UTC.\<close>

definition put_tzid :: "zone_access \<Rightarrow> icaltimetype \<Rightarrow> nat \<Rightarrow> ical \<Rightarrow> ical option" where
  "put_tzid za t p st =
     (let tzid = icaltime_get_tzid za t
      in if tzid \<noteq> None \<and> icaltime_is_utc t = 0 then do {
           (q, st1) \<leftarrow> icalparameter_new_tzid tzid st;
           icalproperty_add_parameter p q st1 }
         else Some st)"

definition set_zoned ::
    "zone_access \<Rightarrow> (icaltimetype \<Rightarrow> ical \<Rightarrow> (nat \<times> ical) option) \<Rightarrow> (nat \<Rightarrow> icaltimetype \<Rightarrow> ical \<Rightarrow> ical option) \<Rightarrow> icaltimetype
       \<Rightarrow> nat \<Rightarrow> nat \<Rightarrow> ical \<Rightarrow> ical option" where
  "set_zoned za mk put v inner p st = do {
     st1 \<leftarrow> (if p \<noteq> 0 then icalproperty_remove_parameter_by_kind p ICAL_TZID_PARAMETER st else Some st);
     (q, st2) \<leftarrow> or_new (mk v) inner p st1;
     st3 \<leftarrow> put q v st2;
     put_tzid za v q st3 }"

definition icalcomponent_set_dtstart :: "zone_access \<Rightarrow> nat \<Rightarrow> icaltimetype \<Rightarrow> ical \<Rightarrow> ical option" where
  "icalcomponent_set_dtstart za c v =
     setup_set ICAL_DTSTART_PROPERTY (set_zoned za icalproperty_new_dtstart icalproperty_set_dtstart v) c"

definition icalcomponent_get_dtstart :: "zone_access \<Rightarrow> nat \<Rightarrow> ical \<Rightarrow> (icaltimetype \<times> ical) option" where
  "icalcomponent_get_dtstart za c st = do {
     (inner, st1) \<leftarrow> icalcomponent_get_inner c st;
     (p, st2) \<leftarrow> icalcomponent_get_first_property inner ICAL_DTSTART_PROPERTY st1;
     if p = 0 then Some (icaltime_null_time, st2) else icalcomponent_get_datetime za c p st2 }"

definition icalcomponent_get_dtend :: "zone_access \<Rightarrow> nat \<Rightarrow> ical \<Rightarrow> (icaltimetype \<times> ical) option" where
  "icalcomponent_get_dtend za c st = do {
     (inner, st1) \<leftarrow> icalcomponent_get_inner c st;
     (end_prop, st2) \<leftarrow> icalcomponent_get_first_property inner ICAL_DTEND_PROPERTY st1;
     (dur_prop, st3) \<leftarrow> icalcomponent_get_first_property inner ICAL_DURATION_PROPERTY st2;
     if end_prop \<noteq> 0 then icalcomponent_get_datetime za c end_prop st3
     else if dur_prop \<noteq> 0 then do {
       (start, st4) \<leftarrow> icalcomponent_get_dtstart za inner st3;
       (duration, st5) \<leftarrow> icalproperty_get_duration dur_prop st4;
       Some (icaltime_add start duration, st5) }
     else Some (icaltime_null_time, st3) }"

text \<open>The end and the duration exclude each other.\<close>

definition icalcomponent_set_dtend :: "zone_access \<Rightarrow> nat \<Rightarrow> icaltimetype \<Rightarrow> ical \<Rightarrow> ical option" where
  "icalcomponent_set_dtend za c v =
     setup_set ICAL_DTEND_PROPERTY (\<lambda>inner p st. do {
       (q, st1) \<leftarrow> icalcomponent_get_first_property inner ICAL_DURATION_PROPERTY st;
       if q \<noteq> 0 then set_errno ICAL_MALFORMEDDATA_ERROR st1
       else set_zoned za icalproperty_new_dtend icalproperty_set_dtend v inner p st1 }) c"

definition icalcomponent_set_duration :: "nat \<Rightarrow> icaldurationtype \<Rightarrow> ical \<Rightarrow> ical option" where
  "icalcomponent_set_duration c v =
     setup_set ICAL_DURATION_PROPERTY (\<lambda>inner p st. do {
       (q, st1) \<leftarrow> icalcomponent_get_first_property inner ICAL_DTEND_PROPERTY st;
       if q \<noteq> 0 then set_errno ICAL_MALFORMEDDATA_ERROR st1
       else if p = 0 then do {
         (p1, st2) \<leftarrow> icalproperty_new_duration v st1;
         icalcomponent_add_property inner p1 st2 }
       else icalproperty_set_duration p v st1 }) c"

definition icalcomponent_get_duration :: "zone_access \<Rightarrow> nat \<Rightarrow> ical \<Rightarrow> (icaldurationtype \<times> ical) option" where
  "icalcomponent_get_duration za c st = do {
     (inner, st1) \<leftarrow> icalcomponent_get_inner c st;
     (end_prop, st2) \<leftarrow> icalcomponent_get_first_property inner ICAL_DTEND_PROPERTY st1;
     (dur_prop, st3) \<leftarrow> icalcomponent_get_first_property inner ICAL_DURATION_PROPERTY st2;
     if dur_prop \<noteq> 0 \<and> end_prop = 0 then icalproperty_get_duration dur_prop st3
     else if end_prop \<noteq> 0 \<and> dur_prop = 0 then do {
       (start, st4) \<leftarrow> icalcomponent_get_dtstart za inner st3;
       (fin, st5) \<leftarrow> icalcomponent_get_dtend za inner st4;
       Some (icaltime_subtract fin start, st5) }
     else map_option (\<lambda>st4. (icaldurationtype_from_int 0, st4)) (set_errno ICAL_MALFORMEDDATA_ERROR st3) }"

text \<open>The due time; setting it while there is a duration writes the old duration.\<close>

definition icalcomponent_get_due :: "zone_access \<Rightarrow> nat \<Rightarrow> ical \<Rightarrow> (icaltimetype \<times> ical) option" where
  "icalcomponent_get_due za c st = do {
     (inner, st1) \<leftarrow> icalcomponent_get_inner c st;
     (due_prop, st2) \<leftarrow> icalcomponent_get_first_property inner ICAL_DUE_PROPERTY st1;
     (dur_prop, st3) \<leftarrow> icalcomponent_get_first_property inner ICAL_DURATION_PROPERTY st2;
     if due_prop \<noteq> 0 then icalproperty_get_due due_prop st3
     else if dur_prop \<noteq> 0 then do {
       (start, st4) \<leftarrow> icalcomponent_get_dtstart za inner st3;
       (duration, st5) \<leftarrow> icalproperty_get_duration dur_prop st4;
       Some (icaltime_add start duration, st5) }
     else Some (icaltime_null_time, st3) }"

definition icalcomponent_set_due :: "zone_access \<Rightarrow> nat \<Rightarrow> icaltimetype \<Rightarrow> ical \<Rightarrow> ical option" where
  "icalcomponent_set_due za c v st = do {
     (inner, st1) \<leftarrow> icalcomponent_get_inner c st;
     (due_prop, st2) \<leftarrow> icalcomponent_get_first_property inner ICAL_DUE_PROPERTY st1;
     (dur_prop, st3) \<leftarrow> icalcomponent_get_first_property inner ICAL_DURATION_PROPERTY st2;
     if due_prop = 0 \<and> dur_prop = 0 then do {
       (p, st4) \<leftarrow> icalproperty_new_due v st3;
       icalcomponent_add_property inner p st4 }
     else if due_prop \<noteq> 0 then icalproperty_set_due due_prop v st3
     else do {
       (start, st4) \<leftarrow> icalcomponent_get_dtstart za inner st3;
       (due, st5) \<leftarrow> icalcomponent_get_due za inner st4;
       icalproperty_set_duration dur_prop (icaltime_subtract due start) st5 } }"

section \<open>The other properties\<close>

text \<open>The method is a property of the calendar itself.\<close>

definition icalcomponent_set_method :: "nat \<Rightarrow> int \<Rightarrow> ical \<Rightarrow> ical option" where
  "icalcomponent_set_method c v st = do {
     (p, st1) \<leftarrow> icalcomponent_get_first_property c ICAL_METHOD_PROPERTY st;
     (q, st2) \<leftarrow> or_new (icalproperty_new_method v) c p st1;
     icalproperty_set_method q v st2 }"

definition icalcomponent_get_method :: "nat \<Rightarrow> ical \<Rightarrow> (int \<times> ical) option" where
  "icalcomponent_get_method c st = do {
     (p, st1) \<leftarrow> icalcomponent_get_first_property c ICAL_METHOD_PROPERTY st;
     if p = 0 then Some (ICAL_METHOD_NONE, st1) else icalproperty_get_method p st1 }"

definition icalcomponent_set_dtstamp :: "nat \<Rightarrow> icaltimetype \<Rightarrow> ical \<Rightarrow> ical option" where
  "icalcomponent_set_dtstamp c v =
     set_or_add ICAL_DTSTAMP_PROPERTY (icalproperty_new_dtstamp v) (\<lambda>p. icalproperty_set_dtstamp p v) c"

definition icalcomponent_get_dtstamp :: "nat \<Rightarrow> ical \<Rightarrow> (icaltimetype \<times> ical) option" where
  "icalcomponent_get_dtstamp c st = do {
     (inner, st1) \<leftarrow> icalcomponent_get_inner c st;
     (p, st2) \<leftarrow> icalcomponent_get_first_property inner ICAL_DTSTAMP_PROPERTY st1;
     if p = 0 then Some (icaltime_null_time, st2) else icalproperty_get_dtstamp p st2 }"

text \<open>The comment and the identifier are written by the writer of the summary, which also makes a text.\<close>

definition icalcomponent_set_summary :: "nat \<Rightarrow> string option \<Rightarrow> ical \<Rightarrow> ical option" where
  "icalcomponent_set_summary c v =
     set_or_add ICAL_SUMMARY_PROPERTY (icalproperty_new_summary v) (\<lambda>p. icalproperty_set_summary p v) c"

definition icalcomponent_get_summary :: "nat \<Rightarrow> ical \<Rightarrow> (string option \<times> ical) option" where
  "icalcomponent_get_summary = get_inner_property ICAL_SUMMARY_PROPERTY icalproperty_get_summary None"

definition icalcomponent_set_comment :: "nat \<Rightarrow> string option \<Rightarrow> ical \<Rightarrow> ical option" where
  "icalcomponent_set_comment c v =
     set_or_add ICAL_COMMENT_PROPERTY (icalproperty_new_comment v) (\<lambda>p. icalproperty_set_summary p v) c"

definition icalcomponent_get_comment :: "nat \<Rightarrow> ical \<Rightarrow> (string option \<times> ical) option" where
  "icalcomponent_get_comment = get_inner_property ICAL_COMMENT_PROPERTY icalproperty_get_comment None"

definition icalcomponent_set_uid :: "nat \<Rightarrow> string option \<Rightarrow> ical \<Rightarrow> ical option" where
  "icalcomponent_set_uid c v =
     set_or_add ICAL_UID_PROPERTY (icalproperty_new_uid v) (\<lambda>p. icalproperty_set_summary p v) c"

definition icalcomponent_get_uid :: "nat \<Rightarrow> ical \<Rightarrow> (string option \<times> ical) option" where
  "icalcomponent_get_uid = get_inner_property ICAL_UID_PROPERTY icalproperty_get_uid None"

definition icalcomponent_set_description :: "nat \<Rightarrow> string option \<Rightarrow> ical \<Rightarrow> ical option" where
  "icalcomponent_set_description c v =
     set_or_add ICAL_DESCRIPTION_PROPERTY (icalproperty_new_description v) (\<lambda>p. icalproperty_set_description p v) c"

definition icalcomponent_get_description :: "nat \<Rightarrow> ical \<Rightarrow> (string option \<times> ical) option" where
  "icalcomponent_get_description = get_inner_property ICAL_DESCRIPTION_PROPERTY icalproperty_get_description None"

definition icalcomponent_set_location :: "nat \<Rightarrow> string option \<Rightarrow> ical \<Rightarrow> ical option" where
  "icalcomponent_set_location c v =
     set_or_add ICAL_LOCATION_PROPERTY (icalproperty_new_location v) (\<lambda>p. icalproperty_set_location p v) c"

definition icalcomponent_get_location :: "nat \<Rightarrow> ical \<Rightarrow> (string option \<times> ical) option" where
  "icalcomponent_get_location = get_inner_property ICAL_LOCATION_PROPERTY icalproperty_get_location None"

definition icalcomponent_set_recurrenceid :: "nat \<Rightarrow> icaltimetype \<Rightarrow> ical \<Rightarrow> ical option" where
  "icalcomponent_set_recurrenceid c v =
     set_or_add ICAL_RECURRENCEID_PROPERTY (icalproperty_new_recurrenceid v) (\<lambda>p. icalproperty_set_recurrenceid p v) c"

definition icalcomponent_get_recurrenceid :: "nat \<Rightarrow> ical \<Rightarrow> (icaltimetype \<times> ical) option" where
  "icalcomponent_get_recurrenceid = get_inner_property ICAL_RECURRENCEID_PROPERTY icalproperty_get_recurrenceid icaltime_null_time"

definition icalcomponent_set_sequence :: "nat \<Rightarrow> int \<Rightarrow> ical \<Rightarrow> ical option" where
  "icalcomponent_set_sequence c v =
     set_or_add ICAL_SEQUENCE_PROPERTY (icalproperty_new_sequence v) (\<lambda>p. icalproperty_set_sequence p v) c"

definition icalcomponent_get_sequence :: "nat \<Rightarrow> ical \<Rightarrow> (int \<times> ical) option" where
  "icalcomponent_get_sequence = get_inner_property ICAL_SEQUENCE_PROPERTY icalproperty_get_sequence 0"

definition icalcomponent_set_status :: "nat \<Rightarrow> int \<Rightarrow> ical \<Rightarrow> ical option" where
  "icalcomponent_set_status c v =
     set_or_add ICAL_STATUS_PROPERTY (icalproperty_new_status v) (\<lambda>p. icalproperty_set_status p v) c"

definition icalcomponent_get_status :: "nat \<Rightarrow> ical \<Rightarrow> (int \<times> ical) option" where
  "icalcomponent_get_status = get_inner_property ICAL_STATUS_PROPERTY icalproperty_get_status 0"

definition icalcomponent_set_relcalid :: "nat \<Rightarrow> string option \<Rightarrow> ical \<Rightarrow> ical option" where
  "icalcomponent_set_relcalid c v =
     set_or_add ICAL_RELCALID_PROPERTY (icalproperty_new_relcalid v) (\<lambda>p. icalproperty_set_relcalid p v) c"

text \<open>No inner component is not an error here.\<close>

definition icalcomponent_get_relcalid :: "nat \<Rightarrow> ical \<Rightarrow> (string option \<times> ical) option" where
  "icalcomponent_get_relcalid c st =
     (if c = 0 then bad_arg None st
      else do {
        (inner, st1) \<leftarrow> icalcomponent_get_inner c st;
        if inner = 0 then Some (None, st1)
        else do {
          (p, st2) \<leftarrow> icalcomponent_get_first_property inner ICAL_RELCALID_PROPERTY st1;
          if p = 0 then Some (None, st2) else icalproperty_get_relcalid p st2 } })"

end
