(* ===== verification/PropEnums.thy ===== *)
theory PropEnums
  imports IcalComponent
begin

text \<open>
  The enumerators of \<^verbatim>\<open>icalderivedvalue.h\<close> and \<^verbatim>\<open>icalderivedparameter.h\<close> that the code which interprets components
  names. The kinds of values and their texts are in the theory of the kinds.
\<close>

section \<open>Values of properties\<close>

definition ICAL_ACTION_AUDIO :: int where "ICAL_ACTION_AUDIO = 10001"
definition ICAL_ACTION_DISPLAY :: int where "ICAL_ACTION_DISPLAY = 10002"
definition ICAL_ACTION_EMAIL :: int where "ICAL_ACTION_EMAIL = 10003"
definition ICAL_ACTION_PROCEDURE :: int where "ICAL_ACTION_PROCEDURE = 10004"
definition ICAL_ACTION_NONE :: int where "ICAL_ACTION_NONE = 10005"

definition ICAL_METHOD_PUBLISH :: int where "ICAL_METHOD_PUBLISH = 10031"
definition ICAL_METHOD_REQUEST :: int where "ICAL_METHOD_REQUEST = 10032"
definition ICAL_METHOD_REPLY :: int where "ICAL_METHOD_REPLY = 10033"
definition ICAL_METHOD_ADD :: int where "ICAL_METHOD_ADD = 10034"
definition ICAL_METHOD_CANCEL :: int where "ICAL_METHOD_CANCEL = 10035"
definition ICAL_METHOD_REFRESH :: int where "ICAL_METHOD_REFRESH = 10036"
definition ICAL_METHOD_COUNTER :: int where "ICAL_METHOD_COUNTER = 10037"
definition ICAL_METHOD_DECLINECOUNTER :: int where "ICAL_METHOD_DECLINECOUNTER = 10038"
definition ICAL_METHOD_CREATE :: int where "ICAL_METHOD_CREATE = 10039"
definition ICAL_METHOD_READ :: int where "ICAL_METHOD_READ = 10040"
definition ICAL_METHOD_RESPONSE :: int where "ICAL_METHOD_RESPONSE = 10041"
definition ICAL_METHOD_MOVE :: int where "ICAL_METHOD_MOVE = 10042"
definition ICAL_METHOD_MODIFY :: int where "ICAL_METHOD_MODIFY = 10043"
definition ICAL_METHOD_GENERATEUID :: int where "ICAL_METHOD_GENERATEUID = 10044"
definition ICAL_METHOD_DELETE :: int where "ICAL_METHOD_DELETE = 10045"

definition ICAL_STATUS_TENTATIVE :: int where "ICAL_STATUS_TENTATIVE = 10052"
definition ICAL_STATUS_CONFIRMED :: int where "ICAL_STATUS_CONFIRMED = 10053"
definition ICAL_STATUS_COMPLETED :: int where "ICAL_STATUS_COMPLETED = 10054"
definition ICAL_STATUS_NEEDSACTION :: int where "ICAL_STATUS_NEEDSACTION = 10055"
definition ICAL_STATUS_CANCELLED :: int where "ICAL_STATUS_CANCELLED = 10056"
definition ICAL_STATUS_INPROCESS :: int where "ICAL_STATUS_INPROCESS = 10057"
definition ICAL_STATUS_DRAFT :: int where "ICAL_STATUS_DRAFT = 10058"
definition ICAL_STATUS_FINAL :: int where "ICAL_STATUS_FINAL = 10059"

definition ICAL_TRANSP_OPAQUE :: int where "ICAL_TRANSP_OPAQUE = 10062"
definition ICAL_TRANSP_OPAQUENOCONFLICT :: int where "ICAL_TRANSP_OPAQUENOCONFLICT = 10063"
definition ICAL_TRANSP_TRANSPARENT :: int where "ICAL_TRANSP_TRANSPARENT = 10064"
definition ICAL_TRANSP_TRANSPARENTNOCONFLICT :: int where "ICAL_TRANSP_TRANSPARENTNOCONFLICT = 10065"
definition ICAL_TRANSP_NONE :: int where "ICAL_TRANSP_NONE = 10066"

definition ICAL_XLICCLASS_X :: int where "ICAL_XLICCLASS_X = 10067"
definition ICAL_XLICCLASS_PUBLISHNEW :: int where "ICAL_XLICCLASS_PUBLISHNEW = 10068"
definition ICAL_XLICCLASS_PUBLISHUPDATE :: int where "ICAL_XLICCLASS_PUBLISHUPDATE = 10069"
definition ICAL_XLICCLASS_PUBLISHFREEBUSY :: int where "ICAL_XLICCLASS_PUBLISHFREEBUSY = 10070"
definition ICAL_XLICCLASS_REQUESTNEW :: int where "ICAL_XLICCLASS_REQUESTNEW = 10071"
definition ICAL_XLICCLASS_REQUESTUPDATE :: int where "ICAL_XLICCLASS_REQUESTUPDATE = 10072"
definition ICAL_XLICCLASS_REQUESTRESCHEDULE :: int where "ICAL_XLICCLASS_REQUESTRESCHEDULE = 10073"
definition ICAL_XLICCLASS_REQUESTDELEGATE :: int where "ICAL_XLICCLASS_REQUESTDELEGATE = 10074"
definition ICAL_XLICCLASS_REQUESTNEWORGANIZER :: int where "ICAL_XLICCLASS_REQUESTNEWORGANIZER = 10075"
definition ICAL_XLICCLASS_REQUESTFORWARD :: int where "ICAL_XLICCLASS_REQUESTFORWARD = 10076"
definition ICAL_XLICCLASS_REQUESTSTATUS :: int where "ICAL_XLICCLASS_REQUESTSTATUS = 10077"
definition ICAL_XLICCLASS_REQUESTFREEBUSY :: int where "ICAL_XLICCLASS_REQUESTFREEBUSY = 10078"
definition ICAL_XLICCLASS_REPLYACCEPT :: int where "ICAL_XLICCLASS_REPLYACCEPT = 10079"
definition ICAL_XLICCLASS_REPLYDECLINE :: int where "ICAL_XLICCLASS_REPLYDECLINE = 10080"
definition ICAL_XLICCLASS_REPLYDELEGATE :: int where "ICAL_XLICCLASS_REPLYDELEGATE = 10081"
definition ICAL_XLICCLASS_REPLYCRASHERACCEPT :: int where "ICAL_XLICCLASS_REPLYCRASHERACCEPT = 10082"
definition ICAL_XLICCLASS_REPLYCRASHERDECLINE :: int where "ICAL_XLICCLASS_REPLYCRASHERDECLINE = 10083"
definition ICAL_XLICCLASS_ADDINSTANCE :: int where "ICAL_XLICCLASS_ADDINSTANCE = 10084"
definition ICAL_XLICCLASS_CANCELEVENT :: int where "ICAL_XLICCLASS_CANCELEVENT = 10085"
definition ICAL_XLICCLASS_CANCELINSTANCE :: int where "ICAL_XLICCLASS_CANCELINSTANCE = 10086"
definition ICAL_XLICCLASS_CANCELALL :: int where "ICAL_XLICCLASS_CANCELALL = 10087"
definition ICAL_XLICCLASS_REFRESH :: int where "ICAL_XLICCLASS_REFRESH = 10088"
definition ICAL_XLICCLASS_COUNTER :: int where "ICAL_XLICCLASS_COUNTER = 10089"
definition ICAL_XLICCLASS_DECLINECOUNTER :: int where "ICAL_XLICCLASS_DECLINECOUNTER = 10090"
definition ICAL_XLICCLASS_MALFORMED :: int where "ICAL_XLICCLASS_MALFORMED = 10091"
definition ICAL_XLICCLASS_OBSOLETE :: int where "ICAL_XLICCLASS_OBSOLETE = 10092"
definition ICAL_XLICCLASS_MISSEQUENCED :: int where "ICAL_XLICCLASS_MISSEQUENCED = 10093"
definition ICAL_XLICCLASS_UNKNOWN :: int where "ICAL_XLICCLASS_UNKNOWN = 10094"
definition ICAL_XLICCLASS_NONE :: int where "ICAL_XLICCLASS_NONE = 10095"

section \<open>Values of parameters\<close>

definition ICAL_FBTYPE_X :: int where "ICAL_FBTYPE_X = 20019"
definition ICAL_FBTYPE_FREE :: int where "ICAL_FBTYPE_FREE = 20020"
definition ICAL_FBTYPE_BUSY :: int where "ICAL_FBTYPE_BUSY = 20021"
definition ICAL_FBTYPE_BUSYUNAVAILABLE :: int where "ICAL_FBTYPE_BUSYUNAVAILABLE = 20022"
definition ICAL_FBTYPE_BUSYTENTATIVE :: int where "ICAL_FBTYPE_BUSYTENTATIVE = 20023"
definition ICAL_FBTYPE_NONE :: int where "ICAL_FBTYPE_NONE = 20024"

definition ICAL_PARTSTAT_X :: int where "ICAL_PARTSTAT_X = 20029"
definition ICAL_PARTSTAT_NEEDSACTION :: int where "ICAL_PARTSTAT_NEEDSACTION = 20030"
definition ICAL_PARTSTAT_ACCEPTED :: int where "ICAL_PARTSTAT_ACCEPTED = 20031"
definition ICAL_PARTSTAT_DECLINED :: int where "ICAL_PARTSTAT_DECLINED = 20032"
definition ICAL_PARTSTAT_TENTATIVE :: int where "ICAL_PARTSTAT_TENTATIVE = 20033"
definition ICAL_PARTSTAT_DELEGATED :: int where "ICAL_PARTSTAT_DELEGATED = 20034"
definition ICAL_PARTSTAT_COMPLETED :: int where "ICAL_PARTSTAT_COMPLETED = 20035"
definition ICAL_PARTSTAT_INPROCESS :: int where "ICAL_PARTSTAT_INPROCESS = 20036"
definition ICAL_PARTSTAT_NONE :: int where "ICAL_PARTSTAT_NONE = 20037"

definition ICAL_XLICCOMPARETYPE_X :: int where "ICAL_XLICCOMPARETYPE_X = 20077"
definition ICAL_XLICCOMPARETYPE_LESSEQUAL :: int where "ICAL_XLICCOMPARETYPE_LESSEQUAL = 20082"
definition ICAL_XLICCOMPARETYPE_GREATEREQUAL :: int where "ICAL_XLICCOMPARETYPE_GREATEREQUAL = 20083"
definition ICAL_XLICCOMPARETYPE_REGEX :: int where "ICAL_XLICCOMPARETYPE_REGEX = 20084"
definition ICAL_XLICCOMPARETYPE_ISNULL :: int where "ICAL_XLICCOMPARETYPE_ISNULL = 20085"
definition ICAL_XLICCOMPARETYPE_ISNOTNULL :: int where "ICAL_XLICCOMPARETYPE_ISNOTNULL = 20086"
definition ICAL_XLICCOMPARETYPE_NONE :: int where "ICAL_XLICCOMPARETYPE_NONE = 20087"

end
