(* ===== verification/CompRecur.thy ===== *)
theory CompRecur
  imports CompAccess PropEnums RecurNext
begin

text \<open>
  The times of a component, \<^verbatim>\<open>icalcomponent.c\<close>: its span, whether it is busy, and its occurrences, which a
  callback receives. The conversion to seconds reads and restores the variable \<^verbatim>\<open>TZ\<close>, so that the state has
  the environment beside the objects. \<open>mktime\<close> of the C library is an argument, as in the theory of times.
\<close>

section \<open>The span of a component\<close>

definition no_span :: icaltime_span where
  "no_span = \<lparr>span_start = 0, span_end = 0, span_is_busy = 1\<rparr>"

text \<open>The component whose span is asked for: in a calendar the first real one, or else the first zone.\<close>

definition span_inner :: "nat \<Rightarrow> ical \<Rightarrow> (nat \<times> ical) option" where
  "span_inner c st = do {
     (k, st1) \<leftarrow> icalcomponent_isa c st;
     if k \<noteq> ICAL_VCALENDAR_COMPONENT then Some (c, st1)
     else do {
       (i, st2) \<leftarrow> icalcomponent_get_first_real_component c st1;
       if i \<noteq> 0 then Some (i, st2) else icalcomponent_get_first_component c ICAL_VTIMEZONE_COMPONENT st2 } }"

definition has_span :: "icalcomponent_kind \<Rightarrow> bool" where
  "has_span k \<longleftrightarrow> k \<in> {ICAL_VEVENT_COMPONENT, ICAL_VJOURNAL_COMPONENT, ICAL_VTODO_COMPONENT, ICAL_VFREEBUSY_COMPONENT}"

text \<open>The end of the span that starts at the second \<open>s\<close>; a date lasts until the end of the day.\<close>

definition span_until ::
    "coverage \<Rightarrow> (string option \<Rightarrow> tm \<Rightarrow> int) \<Rightarrow> icaltimetype \<Rightarrow> icaltimetype \<Rightarrow> int \<Rightarrow> tz_env \<Rightarrow> (icaltime_span \<times> tz_env) option" where
  "span_until cov mktime_in start fin s env =
     (if icaltime_is_null_time fin \<and> icaltime_is_date start = 0 then Some (no_span, env)
      else do {
        let fin1 = (if icaltime_is_null_time fin then start else fin);
        (e, env1) \<leftarrow> icaltime_as_timet_with_zone cov mktime_in fin1 icaltimezone_get_utc_timezone env;
        Some (no_span\<lparr>span_start := s,
                span_end := (if icaltime_is_date start \<noteq> 0 then e + (60 * 60 * 24 - 1) else e)\<rparr>, env1) })"

definition icalcomponent_get_span ::
    "coverage \<Rightarrow> (string option \<Rightarrow> tm \<Rightarrow> int) \<Rightarrow> zone_access \<Rightarrow> nat \<Rightarrow> ical \<Rightarrow> tz_env \<Rightarrow> (icaltime_span \<times> ical \<times> tz_env) option" where
  "icalcomponent_get_span cov mktime_in za c st env =
     (if c = 0 then Some (no_span, st, env)
      else do {
        (inner, st1) \<leftarrow> span_inner c st;
        k \<leftarrow> (if inner = 0 then Some ICAL_NO_COMPONENT else map_option fst (icalcomponent_isa inner st1));
        if \<not> has_span k then map_option (\<lambda>st2. (no_span, st2, env)) (set_errno ICAL_MALFORMEDDATA_ERROR st1)
        else do {
          (start, st2) \<leftarrow> icalcomponent_get_dtstart za c st1;
          if icaltime_is_null_time start then Some (no_span, st2, env)
          else do {
            (s, env1) \<leftarrow> icaltime_as_timet_with_zone cov mktime_in start icaltimezone_get_utc_timezone env;
            (fin, st3) \<leftarrow> icalcomponent_get_dtend za c st2;
            (sp, env2) \<leftarrow> span_until cov mktime_in start fin s env1;
            Some (sp, st3, env2) } } })"

section \<open>Excluded occurrences\<close>

text \<open>Whether a time is one of the EXDATEs from the property \<open>p\<close> on.\<close>

fun exdate_excludes ::
    "nat \<Rightarrow> coverage \<Rightarrow> zone_access \<Rightarrow> nat \<Rightarrow> nat \<Rightarrow> icaltimetype \<Rightarrow> ical \<Rightarrow> (bool \<times> ical) option" where
  "exdate_excludes 0 cov za c p t st = None"
| "exdate_excludes (Suc n) cov za c p t st =
     (if p = 0 then Some (False, st)
      else do {
        (x, st1) \<leftarrow> icalcomponent_get_datetime za c p st;
        k \<leftarrow> icaltime_compare cov t x;
        if k = 0 then Some (True, st1)
        else do {
          (q, st2) \<leftarrow> icalcomponent_get_next_property c ICAL_EXDATE_PROPERTY st1;
          exdate_excludes n cov za c q t st2 } })"

text \<open>The search in the occurrences of a rule ends at the first one the time is later than.\<close>

partial_function (option) rule_has ::
    "coverage \<Rightarrow> icalrecur_iterator option \<Rightarrow> icaltimetype \<Rightarrow> icalerror_state \<Rightarrow> (bool \<times> icalerror_state) option" where
  "rule_has cov ip t es = do {
     (x, ip1, es1) \<leftarrow> icalrecur_iterator_next cov ip es;
     if icaltime_is_null_time x then Some (False, es1)
     else do {
       k \<leftarrow> icaltime_compare cov t x;
       if k = 0 then Some (True, es1)
       else if k = 1 then Some (False, es1)
       else rule_has cov ip1 t es1 } }"

declare rule_has.simps [code]

definition exrule_has :: "coverage \<Rightarrow> nat \<Rightarrow> icaltimetype \<Rightarrow> icaltimetype \<Rightarrow> ical \<Rightarrow> (bool \<times> ical) option" where
  "exrule_has cov p dtstart t st = do {
     (r, st1) \<leftarrow> icalproperty_get_exrule p st;
     (ip, es1) \<leftarrow> icalrecur_iterator_new r dtstart (errs st1);
     let st2 = with_error_state es1 st1;
     case ip of
       None \<Rightarrow> map_option (\<lambda>st3. (False, st3)) (bad_arg_v st2)
     | Some i \<Rightarrow> map_option (\<lambda>(b, es2). (b, with_error_state es2 st2)) (rule_has cov (Some i) t es1) }"

fun exrule_excludes ::
    "nat \<Rightarrow> coverage \<Rightarrow> nat \<Rightarrow> nat \<Rightarrow> icaltimetype \<Rightarrow> icaltimetype \<Rightarrow> ical \<Rightarrow> (bool \<times> ical) option" where
  "exrule_excludes 0 cov c p dtstart t st = None"
| "exrule_excludes (Suc n) cov c p dtstart t st =
     (if p = 0 then Some (False, st)
      else do {
        (b, st1) \<leftarrow> exrule_has cov p dtstart t st;
        if b then Some (True, st1)
        else do {
          (q, st2) \<leftarrow> icalcomponent_get_next_property c ICAL_EXRULE_PROPERTY st1;
          exrule_excludes n cov c q dtstart t st2 } })"

text \<open>The iterator over the properties is as before afterwards.\<close>

definition icalproperty_recurrence_is_excluded ::
    "coverage \<Rightarrow> zone_access \<Rightarrow> nat \<Rightarrow> icaltimetype \<Rightarrow> icaltimetype \<Rightarrow> ical \<Rightarrow> (bool \<times> ical) option" where
  "icalproperty_recurrence_is_excluded cov za c dtstart t st =
     (if c = 0 \<or> icaltime_is_null_time t then Some (True, st)
      else do {
        r \<leftarrow> comp_at c st;
        let n = fresh (snd (co_properties r));
        (p, st1) \<leftarrow> icalcomponent_get_first_property c ICAL_EXDATE_PROPERTY st;
        (a, st2) \<leftarrow> exdate_excludes n cov za c p t st1;
        (b, st4) \<leftarrow> (if a then Some (True, st2)
          else do {
            (q, st3) \<leftarrow> icalcomponent_get_first_property c ICAL_EXRULE_PROPERTY st2;
            exrule_excludes n cov c q dtstart t st3 });
        st5 \<leftarrow> set_comp c (\<lambda>r'. r'\<lparr>co_property_iterator := co_property_iterator r\<rparr>) st4;
        Some (b, st5) })"

section \<open>Busy components\<close>

definition icalcomponent_is_busy :: "nat \<Rightarrow> ical \<Rightarrow> (int \<times> ical) option" where
  "icalcomponent_is_busy c st = do {
     (p, st1) \<leftarrow> icalcomponent_get_first_property c ICAL_TRANSP_PROPERTY st;
     (ret, st2) \<leftarrow> (if p = 0 then Some (1, st1)
       else do {
         (v, st') \<leftarrow> icalproperty_get_value p st1;
         x \<leftarrow> val_at v st';
         tr \<leftarrow> icalvalue_get_transp x;
         Some (if tr \<in> {ICAL_TRANSP_OPAQUE, ICAL_TRANSP_OPAQUENOCONFLICT, ICAL_TRANSP_NONE} then 1 else 0, st') });
     (status, st3) \<leftarrow> icalcomponent_get_status c st2;
     Some (if status \<in> {ICAL_STATUS_CANCELLED, ICAL_STATUS_TENTATIVE} then 0 else ret, st3) }"

section \<open>Occurrences\<close>

text \<open>
  The callback receives the component and a span, and has data of its own; it adds no properties to the
  component, whose number bounds the loops. What the loops share: the
  component, its start, the span of its start, the range, and the callback.
\<close>

record 'd occurrence_env =
  oe_comp :: nat
  oe_dtstart :: icaltimetype
  oe_base :: icaltime_span
  oe_limit :: icaltime_span
  oe_callback :: "nat \<Rightarrow> icaltime_span \<Rightarrow> 'd \<Rightarrow> ical \<Rightarrow> ('d \<times> ical) option"

text \<open>The span of an occurrence: as long as the first one, which is kept in an \<^verbatim>\<open>int\<close>.\<close>

definition occurrence_span :: "icaltime_span \<Rightarrow> icaltimetype \<Rightarrow> icaltimetype \<Rightarrow> icaltime_span" where
  "occurrence_span base dtstart t =
     (let s = span_start base + icaldurationtype_as_int (icaltime_subtract t dtstart)
      in base\<lparr>span_start := s, span_end := s + to_int32 (span_end base - span_start base)\<rparr>)"

text \<open>The callback for a time that is not excluded. Those of RDATE are not compared with the range.\<close>

definition visit_occurrence ::
    "coverage \<Rightarrow> zone_access \<Rightarrow> 'd occurrence_env \<Rightarrow> bool \<Rightarrow> icaltime_span \<Rightarrow> icaltimetype \<Rightarrow> 'd \<times> ical \<Rightarrow> ('d \<times> ical) option" where
  "visit_occurrence cov za e limited sp t dst = do {
     (x, st1) \<leftarrow> icalproperty_recurrence_is_excluded cov za (oe_comp e) (oe_dtstart e) t (snd dst);
     if \<not> x \<and> (limited \<longrightarrow> icaltime_span_overlaps sp (oe_limit e))
     then oe_callback e (oe_comp e) sp (fst dst) st1 else Some (fst dst, st1) }"

text \<open>The callback may move the iterator over the properties; the loops restore it.\<close>

definition visit_and_restore ::
    "coverage \<Rightarrow> zone_access \<Rightarrow> 'd occurrence_env \<Rightarrow> bool \<Rightarrow> icaltimetype \<Rightarrow> 'd \<times> ical \<Rightarrow> ('d \<times> ical) option" where
  "visit_and_restore cov za e limited t dst = do {
     r \<leftarrow> comp_at (oe_comp e) (snd dst);
     (d, st1) \<leftarrow> visit_occurrence cov za e limited (occurrence_span (oe_base e) (oe_dtstart e) t) t dst;
     st2 \<leftarrow> set_comp (oe_comp e) (\<lambda>r'. r'\<lparr>co_property_iterator := co_property_iterator r\<rparr>) st1;
     Some (d, st2) }"

partial_function (option) rrule_occurrences ::
    "coverage \<Rightarrow> zone_access \<Rightarrow> 'd occurrence_env \<Rightarrow> icalrecur_iterator option \<Rightarrow> 'd \<times> ical \<Rightarrow> ('d \<times> ical) option" where
  "rrule_occurrences cov za e ip dst = do {
     (t, ip1, es1) \<leftarrow> icalrecur_iterator_next cov ip (errs (snd dst));
     let dst1 = (fst dst, with_error_state es1 (snd dst));
     if icaltime_is_null_time t then Some dst1
     else do {
       dst2 \<leftarrow> visit_and_restore cov za e True t dst1;
       rrule_occurrences cov za e ip1 dst2 } }"

declare rrule_occurrences.simps [code]

text \<open>The first occurrence of a rule, which is taken to be the start, is skipped.\<close>

definition visit_rrule ::
    "coverage \<Rightarrow> zone_access \<Rightarrow> 'd occurrence_env \<Rightarrow> nat \<Rightarrow> 'd \<times> ical \<Rightarrow> ('d \<times> ical) option" where
  "visit_rrule cov za e p dst = do {
     (r, st1) \<leftarrow> icalproperty_get_rrule p (snd dst);
     (ip, es1) \<leftarrow> icalrecur_iterator_new r (oe_dtstart e) (errs st1);
     case ip of
       None \<Rightarrow> map_option (\<lambda>st2. (fst dst, st2)) (bad_arg_v (with_error_state es1 st1))
     | Some i \<Rightarrow> do {
         (t, ip1, es2) \<leftarrow> icalrecur_iterator_next cov (Some i) es1;
         rrule_occurrences cov za e ip1 (fst dst, with_error_state es2 st1) } }"

definition visit_rdate ::
    "coverage \<Rightarrow> zone_access \<Rightarrow> 'd occurrence_env \<Rightarrow> nat \<Rightarrow> 'd \<times> ical \<Rightarrow> ('d \<times> ical) option" where
  "visit_rdate cov za e p dst = do {
     (d, st1) \<leftarrow> icalproperty_get_rdate p (snd dst);
     if icaltime_is_null_time (dtp_time d) then Some (fst dst, st1)
     else visit_and_restore cov za e False (dtp_time d) (fst dst, st1) }"

text \<open>A visit of the properties of a kind, from \<open>p\<close> on.\<close>

fun visit_properties ::
    "nat \<Rightarrow> (nat \<Rightarrow> 'd \<times> ical \<Rightarrow> ('d \<times> ical) option) \<Rightarrow> nat \<Rightarrow> icalproperty_kind \<Rightarrow> nat \<Rightarrow> 'd \<times> ical \<Rightarrow> ('d \<times> ical) option" where
  "visit_properties 0 f c kind p dst = None"
| "visit_properties (Suc n) f c kind p dst =
     (if p = 0 then Some dst
      else do {
        dst1 \<leftarrow> f p dst;
        (q, st2) \<leftarrow> icalcomponent_get_next_property c kind (snd dst1);
        visit_properties n f c kind q (fst dst1, st2) })"

definition visit_kind ::
    "(nat \<Rightarrow> 'd \<times> ical \<Rightarrow> ('d \<times> ical) option) \<Rightarrow> nat \<Rightarrow> icalproperty_kind \<Rightarrow> 'd \<times> ical \<Rightarrow> ('d \<times> ical) option" where
  "visit_kind f c kind dst = do {
     (p, st1) \<leftarrow> icalcomponent_get_first_property c kind (snd dst);
     r \<leftarrow> comp_at c st1;
     visit_properties (fresh (snd (co_properties r))) f c kind p (fst dst, st1) }"

definition INT_MAX :: int where "INT_MAX = 2147483647"

text \<open>The span of the start, and the range; no end is the end of the times of 32 bits.\<close>

definition occurrence_base ::
    "coverage \<Rightarrow> (string option \<Rightarrow> tm \<Rightarrow> int) \<Rightarrow> nat \<Rightarrow> icaltimetype \<Rightarrow> icaltimetype \<Rightarrow> ical \<Rightarrow> tz_env
       \<Rightarrow> (icaltime_span \<times> ical \<times> tz_env) option" where
  "occurrence_base cov mktime_in c dtstart dtend st env = do {
     (sp, env1) \<leftarrow> icaltime_span_new cov mktime_in dtstart dtend 1 env;
     (busy, st1) \<leftarrow> icalcomponent_is_busy c st;
     Some (sp\<lparr>span_is_busy := busy\<rparr>, st1, env1) }"

definition occurrence_limit ::
    "coverage \<Rightarrow> (string option \<Rightarrow> tm \<Rightarrow> int) \<Rightarrow> icaltimetype \<Rightarrow> icaltimetype \<Rightarrow> tz_env \<Rightarrow> (icaltime_span \<times> tz_env) option" where
  "occurrence_limit cov mktime_in start fin env = do {
     (a, env1) \<leftarrow> icaltime_as_timet_with_zone cov mktime_in start icaltimezone_get_utc_timezone env;
     (b, env2) \<leftarrow> (if \<not> icaltime_is_null_time fin
                    then icaltime_as_timet_with_zone cov mktime_in fin icaltimezone_get_utc_timezone env1
                    else Some (INT_MAX, env1));
     Some (\<lparr>span_start = a, span_end = b, span_is_busy = 0\<rparr>, env2) }"

definition icalcomponent_foreach_recurrence ::
    "coverage \<Rightarrow> (string option \<Rightarrow> tm \<Rightarrow> int) \<Rightarrow> zone_access \<Rightarrow> nat \<Rightarrow> icaltimetype \<Rightarrow> icaltimetype
       \<Rightarrow> (nat \<Rightarrow> icaltime_span \<Rightarrow> 'd \<Rightarrow> ical \<Rightarrow> ('d \<times> ical) option) \<Rightarrow> 'd \<Rightarrow> ical \<Rightarrow> tz_env \<Rightarrow> ('d \<times> ical \<times> tz_env) option" where
  "icalcomponent_foreach_recurrence cov mktime_in za c start fin callback d st env =
     (if c = 0 then Some (d, st, env)
      else do {
        (dtstart, st1) \<leftarrow> icalcomponent_get_dtstart za c st;
        if icaltime_is_null_time dtstart then Some (d, st1, env)
        else do {
          (dtend, st2) \<leftarrow> icalcomponent_get_dtend za c st1;
          (base, st3, env1) \<leftarrow> occurrence_base cov mktime_in c dtstart dtend st2 env;
          (limit, env2) \<leftarrow> occurrence_limit cov mktime_in start fin env1;
          let e = \<lparr>oe_comp = c, oe_dtstart = dtstart, oe_base = base, oe_limit = limit, oe_callback = callback\<rparr>;
          dst1 \<leftarrow> visit_occurrence cov za e True base dtstart (d, st3);
          dst2 \<leftarrow> visit_kind (visit_rrule cov za e) c ICAL_RRULE_PROPERTY dst1;
          dst3 \<leftarrow> visit_kind (visit_rdate cov za e) c ICAL_RDATE_PROPERTY dst2;
          Some (fst dst3, snd dst3, env2) } })"

end
