(* ===== verification/CompMerge.thy ===== *)
theory CompMerge
  imports CompAccess
begin

text \<open>
  Merging two calendars, \<^verbatim>\<open>icalcomponent.c\<close>: their zones, the new names of zones that conflict, and the references
  to zones. The table of new names has cells of the size of a pointer, into which appending copies as many bytes
  of the texts instead of their addresses; so its elements are texts of that length here, a byte is a character
  and NUL is a character of them. The size of a pointer is an argument.
\<close>

section \<open>References to zones\<close>

definition has_tzid :: "icalproperty_kind \<Rightarrow> bool" where
  "has_tzid k \<longleftrightarrow> k \<in> {ICAL_DTSTART_PROPERTY, ICAL_DTEND_PROPERTY, ICAL_DUE_PROPERTY, ICAL_EXDATE_PROPERTY,
     ICAL_RDATE_PROPERTY}"

text \<open>The callback receives a parameter; data of its own is part of the closure.\<close>

fun tzid_of_properties :: "nat \<Rightarrow> nat \<Rightarrow> (nat \<Rightarrow> ical \<Rightarrow> ical option) \<Rightarrow> nat \<Rightarrow> ical \<Rightarrow> ical option" where
  "tzid_of_properties 0 c callback p st = None"
| "tzid_of_properties (Suc n) c callback p st =
     (if p = 0 then Some st
      else do {
        kind \<leftarrow> icalproperty_isa p st;
        st2 \<leftarrow> (if has_tzid kind then do {
                  (param, st1) \<leftarrow> icalproperty_get_first_parameter p ICAL_TZID_PARAMETER st;
                  if param \<noteq> 0 then callback param st1 else Some st1 }
                else Some st);
        (q, st3) \<leftarrow> icalcomponent_get_next_property c ICAL_ANY_PROPERTY st2;
        tzid_of_properties n c callback q st3 })"

primrec foreach_tzid :: "nat \<Rightarrow> (nat \<Rightarrow> ical \<Rightarrow> ical option) \<Rightarrow> nat \<Rightarrow> ical \<Rightarrow> ical option" where
  "foreach_tzid 0 callback c st = None"
| "foreach_tzid (Suc n) callback c st = do {
     (p, st1) \<leftarrow> icalcomponent_get_first_property c ICAL_ANY_PROPERTY st;
     r \<leftarrow> comp_at c st1;
     st2 \<leftarrow> tzid_of_properties (fresh (snd (co_properties r))) c callback p st1;
     (x, st3) \<leftarrow> icalcomponent_get_first_component c ICAL_ANY_COMPONENT st2;
     convert_components (foreach_tzid n callback) (fresh (snd (co_components r))) c x st3 }"

definition icalcomponent_foreach_tzid :: "(nat \<Rightarrow> ical \<Rightarrow> ical option) \<Rightarrow> nat \<Rightarrow> ical \<Rightarrow> ical option" where
  "icalcomponent_foreach_tzid callback c st = foreach_tzid (Suc (i_next st)) callback c st"

section \<open>The table of new names\<close>

type_synonym rename_table = "string icalarray"

text \<open>The bytes of a text with its NUL that are copied; those behind its memory are not defined.\<close>

definition table_entry :: "nat \<Rightarrow> string \<Rightarrow> string option" where
  "table_entry psize s = (if length s + 1 < psize then None else Some (take psize (s @ [CHR 0x00])))"

definition table_add :: "nat \<Rightarrow> string \<Rightarrow> rename_table \<Rightarrow> rename_table option" where
  "table_add psize s a = Option.bind (table_entry psize s) (icalarray_append a)"

text \<open>A text that starts at a cell runs through the cells behind it until a NUL.\<close>

definition table_text :: "rename_table \<Rightarrow> int \<Rightarrow> string option" where
  "table_text a i =
     (let bytes = concat (drop (nat i) (elements a))
      in if CHR 0x00 \<in> set bytes then Some (takeWhile (\<lambda>b. b \<noteq> CHR 0x00) bytes) else None)"

fun find_rename :: "nat \<Rightarrow> rename_table \<Rightarrow> string \<Rightarrow> int \<Rightarrow> string option option" where
  "find_rename 0 a tzid i = Some None"
| "find_rename (Suc n) a tzid i =
     (if i < int (num_elements a) - 1 then do {
        s \<leftarrow> table_text a i;
        if s = tzid then do { t \<leftarrow> table_text a (i + 1); Some (Some t) }
        else find_rename n a tzid (i + 2) }
      else Some None)"

definition icalcomponent_rename_tzids_callback :: "rename_table \<Rightarrow> nat \<Rightarrow> ical \<Rightarrow> ical option" where
  "icalcomponent_rename_tzids_callback a param st = do {
     (tzid, st1) \<leftarrow> icalparameter_get_tzid param st;
     case tzid of
       None \<Rightarrow> Some st1
     | Some s \<Rightarrow> do {
         t \<leftarrow> find_rename (num_elements a) a s 0;
         if t = None then Some st1 else icalparameter_set_tzid param t st1 } }"

definition icalcomponent_rename_tzids :: "nat \<Rightarrow> rename_table \<Rightarrow> ical \<Rightarrow> ical option" where
  "icalcomponent_rename_tzids c a = icalcomponent_foreach_tzid (icalcomponent_rename_tzids_callback a) c"

definition icalcomponent_get_tzid_prefix_len :: "string \<Rightarrow> nat" where
  "icalcomponent_get_tzid_prefix_len tzid = length (dropWhile is_digit (rev tzid))"

section \<open>Comparing zones\<close>

text \<open>The identifier of a zone, if it has one.\<close>

definition zone_tzid :: "nat \<Rightarrow> ical \<Rightarrow> ((nat \<times> string option) \<times> ical) option" where
  "zone_tzid c st = do {
     (p, st1) \<leftarrow> icalcomponent_get_first_property c ICAL_TZID_PROPERTY st;
     if p = 0 then Some ((0, None), st1)
     else map_option (\<lambda>(s, st2). ((p, s), st2)) (icalproperty_get_tzid p st1) }"

text \<open>
  1 if the texts are the same but for the identifiers, 0 if not, -1 if there is none to compare. The second zone
  has the identifier of the first one for the time of the comparison.
\<close>

definition icalcomponent_compare_vtimezones :: "nat \<Rightarrow> nat \<Rightarrow> ical \<Rightarrow> (int \<times> ical) option" where
  "icalcomponent_compare_vtimezones c1 c2 st = do {
     ((p1, tzid1), st1) \<leftarrow> zone_tzid c1 st;
     if tzid1 = None then Some (- 1, st1)
     else do {
       ((p2, tzid2), st2) \<leftarrow> zone_tzid c2 st1;
       if tzid2 = None then Some (- 1, st2)
       else do {
         st3 \<leftarrow> icalproperty_set_tzid p2 tzid1 st2;
         (s1, st4) \<leftarrow> icalcomponent_as_ical_string_r c1 st3;
         if s1 = None then Some (- 1, st4)
         else do {
           (s2, st5) \<leftarrow> icalcomponent_as_ical_string_r c2 st4;
           if s2 = None then Some (- 1, st5)
           else do {
             st6 \<leftarrow> icalproperty_set_tzid p2 tzid2 st5;
             Some (if s1 = s2 then 1 else 0, st6) } } } } }"

section \<open>Merging\<close>

text \<open>The largest number behind the same name, or the name of a zone that is the same.\<close>

fun conflicting_name ::
    "icaltimezone list \<Rightarrow> string \<Rightarrow> nat \<Rightarrow> int \<Rightarrow> ical \<Rightarrow> ((string option \<times> int) \<times> ical) option" where
  "conflicting_name [] tzid vtimezone max_suffix st = Some ((None, max_suffix), st)"
| "conflicting_name (z # zs) tzid vtimezone max_suffix st = do {
     existing \<leftarrow> tz_tzid z;
     let n = icalcomponent_get_tzid_prefix_len tzid;
     let m = icalcomponent_get_tzid_prefix_len existing;
     if n = m \<and> take n tzid = take n existing then do {
       (k, st1) \<leftarrow> icalcomponent_compare_vtimezones (tz_component z) vtimezone st;
       if k \<noteq> 0 then Some ((Some existing, max_suffix), st1)
       else conflicting_name zs tzid vtimezone (max max_suffix (atoi (drop m existing))) st1 }
     else conflicting_name zs tzid vtimezone max_suffix st }"

definition icalcomponent_handle_conflicting_vtimezones ::
    "nat \<Rightarrow> nat \<Rightarrow> nat \<Rightarrow> string \<Rightarrow> rename_table \<times> ical \<Rightarrow> (rename_table \<times> ical) option" where
  "icalcomponent_handle_conflicting_vtimezones psize c vtimezone tzid w = do {
     r \<leftarrow> comp_at c (snd w);
     ((name, max_suffix), st1) \<leftarrow>
       conflicting_name (case co_timezones r of None \<Rightarrow> [] | Some a \<Rightarrow> elements a) tzid vtimezone 0 (snd w);
     let new_tzid = (case name of Some s \<Rightarrow> s
                     | None \<Rightarrow> take (icalcomponent_get_tzid_prefix_len tzid) tzid @ fmt_d (max_suffix + 1));
     a1 \<leftarrow> table_add psize tzid (fst w);
     a2 \<leftarrow> table_add psize new_tzid a1;
     Some (a2, st1) }"

text \<open>The calendar, instead of its zone, is compared with the zone to merge.\<close>

definition icalcomponent_merge_vtimezone ::
    "nat \<Rightarrow> coverage \<Rightarrow> zone_access \<Rightarrow> nat \<Rightarrow> nat \<Rightarrow> rename_table \<times> ical \<Rightarrow> (rename_table \<times> ical) option" where
  "icalcomponent_merge_vtimezone psize cov za c vtimezone w = do {
     ((p, tzid), st1) \<leftarrow> zone_tzid vtimezone (snd w);
     case tzid of
       None \<Rightarrow> Some (fst w, st1)
     | Some s \<Rightarrow> do {
         (existing, st2) \<leftarrow> icalcomponent_get_timezone za c tzid st1;
         if existing = None then do {
           d \<leftarrow> icalcomponent_get_parent vtimezone st2;
           st3 \<leftarrow> icalcomponent_remove_component d vtimezone st2;
           st4 \<leftarrow> icalcomponent_add_component cov c vtimezone st3;
           Some (fst w, st4) }
         else if take 1 s = ''/'' then Some (fst w, st2)
         else do {
           (k, st3) \<leftarrow> icalcomponent_compare_vtimezones c vtimezone st2;
           if k = 0 then icalcomponent_handle_conflicting_vtimezones psize c vtimezone s (fst w, st3)
           else Some (fst w, st3) } } }"

text \<open>The loops read the next component first.\<close>

fun merge_zones ::
    "nat \<Rightarrow> nat \<Rightarrow> coverage \<Rightarrow> zone_access \<Rightarrow> nat \<Rightarrow> nat \<Rightarrow> nat \<Rightarrow> rename_table \<times> ical \<Rightarrow> (rename_table \<times> ical) option" where
  "merge_zones 0 psize cov za c other x w = None"
| "merge_zones (Suc n) psize cov za c other x w =
     (if x = 0 then Some w
      else do {
        (y, st1) \<leftarrow> icalcomponent_get_next_component other ICAL_VTIMEZONE_COMPONENT (snd w);
        w1 \<leftarrow> icalcomponent_merge_vtimezone psize cov za c x (fst w, st1);
        merge_zones n psize cov za c other y w1 })"

fun move_components :: "nat \<Rightarrow> coverage \<Rightarrow> nat \<Rightarrow> nat \<Rightarrow> nat \<Rightarrow> ical \<Rightarrow> ical option" where
  "move_components 0 cov c other x st = None"
| "move_components (Suc n) cov c other x st =
     (if x = 0 then Some st
      else do {
        (y, st1) \<leftarrow> icalcomponent_get_next_component other ICAL_ANY_COMPONENT st;
        (k, st2) \<leftarrow> icalcomponent_isa x st1;
        st3 \<leftarrow> (if k \<noteq> ICAL_VTIMEZONE_COMPONENT then do {
                  st' \<leftarrow> icalcomponent_remove_component other x st2;
                  icalcomponent_add_component cov c x st' }
                else Some st2);
        move_components n cov c other y st3 })"

text \<open>Freeing a cell of the table frees an address inside its memory, which is not defined.\<close>

definition rename_and_free :: "nat \<Rightarrow> rename_table \<times> ical \<Rightarrow> ical option" where
  "rename_and_free other w =
     (if num_elements (fst w) \<noteq> 0 then do {
        st1 \<leftarrow> icalcomponent_rename_tzids other (fst w) (snd w);
        None }
      else Some (snd w))"

definition icalcomponent_merge_component ::
    "nat \<Rightarrow> coverage \<Rightarrow> zone_access \<Rightarrow> nat \<Rightarrow> nat \<Rightarrow> ical \<Rightarrow> ical option" where
  "icalcomponent_merge_component psize cov za c other st = do {
     (k1, st1) \<leftarrow> icalcomponent_isa c st;
     (k2, st2) \<leftarrow> icalcomponent_isa other st1;
     if k1 \<noteq> ICAL_VCALENDAR_COMPONENT \<or> k2 \<noteq> ICAL_VCALENDAR_COMPONENT then None
     else do {
       r \<leftarrow> comp_at other st2;
       let n = fresh (snd (co_components r));
       (x, st3) \<leftarrow> icalcomponent_get_first_component other ICAL_VTIMEZONE_COMPONENT st2;
       w \<leftarrow> merge_zones n psize cov za c other x (icalarray_new psize 16, st3);
       st4 \<leftarrow> rename_and_free other w;
       (y, st5) \<leftarrow> icalcomponent_get_first_component other ICAL_ANY_COMPONENT st4;
       st6 \<leftarrow> move_components n cov c other y st5;
       icalcomponent_free other st6 } }"

end
