(* ===== verification/IcalRestriction.thy ===== *)
theory IcalRestriction
  imports PropEnums
begin

text \<open>
  The checks of a component against iTIP, \<^verbatim>\<open>icalrestriction.c\<close>: for each method and kind of component, how many
  properties of each kind there may be. A property too many or too few, and one that a function of its row refuses,
  is reported by an X-LIC-ERROR property added to the component.
\<close>

section \<open>Kinds of restrictions\<close>

datatype icalrestriction_kind =
    ICAL_RESTRICTION_NONE | ICAL_RESTRICTION_ZERO | ICAL_RESTRICTION_ONE | ICAL_RESTRICTION_ZEROPLUS |
    ICAL_RESTRICTION_ONEPLUS | ICAL_RESTRICTION_ZEROORONE | ICAL_RESTRICTION_ONEEXCLUSIVE |
    ICAL_RESTRICTION_ONEMUTUAL | ICAL_RESTRICTION_UNKNOWN

text \<open>The results for the counts 0, 1, and 2 or more.\<close>

fun compare_map :: "icalrestriction_kind \<Rightarrow> int list" where
  "compare_map ICAL_RESTRICTION_NONE = [1, 1, 1]"
| "compare_map ICAL_RESTRICTION_ZERO = [1, 0, 0]"
| "compare_map ICAL_RESTRICTION_ONE = [0, 1, 0]"
| "compare_map ICAL_RESTRICTION_ZEROPLUS = [1, 1, 1]"
| "compare_map ICAL_RESTRICTION_ONEPLUS = [0, 1, 1]"
| "compare_map ICAL_RESTRICTION_ZEROORONE = [1, 1, 0]"
| "compare_map ICAL_RESTRICTION_ONEEXCLUSIVE = [1, 1, 0]"
| "compare_map ICAL_RESTRICTION_ONEMUTUAL = [1, 1, 0]"
| "compare_map ICAL_RESTRICTION_UNKNOWN = [1, 1, 1]"

fun restr_string_map :: "icalrestriction_kind \<Rightarrow> string" where
  "restr_string_map ICAL_RESTRICTION_NONE = ''unknown number''"
| "restr_string_map ICAL_RESTRICTION_ZERO = ''0''"
| "restr_string_map ICAL_RESTRICTION_ONE = ''1''"
| "restr_string_map ICAL_RESTRICTION_ZEROPLUS = ''zero or more''"
| "restr_string_map ICAL_RESTRICTION_ONEPLUS = ''one or more''"
| "restr_string_map ICAL_RESTRICTION_ZEROORONE = ''zero or one''"
| "restr_string_map ICAL_RESTRICTION_ONEEXCLUSIVE = ''zero or one, exclusive with another property''"
| "restr_string_map ICAL_RESTRICTION_ONEMUTUAL = ''zero or one, mutual with another property''"
| "restr_string_map ICAL_RESTRICTION_UNKNOWN = ''unknown number''"

definition icalrestriction_compare :: "icalrestriction_kind \<Rightarrow> int \<Rightarrow> int" where
  "icalrestriction_compare restr cnt =
     (if cnt < 0 then - 1 else compare_map restr ! nat (if cnt > 2 then 2 else cnt))"

section \<open>Functions of the rows\<close>

datatype restriction_func =
    F_may_be_draft_final_canceled | F_may_be_comp_need_process | F_may_be_tent_conf | F_may_be_tent_conf_cancel |
    F_must_be_cancel_if_present | F_must_be_canceled_no_attendee | F_must_be_recurring | F_must_have_duration |
    F_must_have_repeat | F_must_if_tz_ref | F_no_dtend | F_no_duration | F_must_be_email

text \<open>A text is the report of a failure. The value of the property is one of a list.\<close>

definition status_among :: "int list \<Rightarrow> string \<Rightarrow> nat \<Rightarrow> ical \<Rightarrow> (string option \<times> ical) option" where
  "status_among allowed message p st = do {
     (stat, st1) \<leftarrow> icalproperty_get_status p st;
     Some (if stat \<in> set allowed then None else Some message, st1) }"

text \<open>The component has a property of the kind.\<close>

definition must_have :: "icalproperty_kind \<Rightarrow> string \<Rightarrow> nat \<Rightarrow> ical \<Rightarrow> (string option \<times> ical) option" where
  "must_have kind message c st = do {
     (p, st1) \<leftarrow> icalcomponent_get_first_property c kind st;
     Some (if p = 0 then Some message else None, st1) }"

definition icalrestriction_may_be_draft_final_canceled :: "nat \<Rightarrow> ical \<Rightarrow> (string option \<times> ical) option" where
  "icalrestriction_may_be_draft_final_canceled = status_among [ICAL_STATUS_DRAFT, ICAL_STATUS_FINAL, ICAL_STATUS_CANCELLED]
     ''Failed iTIP restrictions for STATUS property. Value must be one of DRAFT, FINAL, or CANCELED''"

definition icalrestriction_may_be_comp_need_process :: "nat \<Rightarrow> ical \<Rightarrow> (string option \<times> ical) option" where
  "icalrestriction_may_be_comp_need_process = status_among [ICAL_STATUS_COMPLETED, ICAL_STATUS_NEEDSACTION, ICAL_STATUS_INPROCESS]
     ''Failed iTIP restrictions for STATUS property. Value must be one of COMPLETED, NEEDS-ACTION or IN-PROCESS''"

definition icalrestriction_may_be_tent_conf :: "nat \<Rightarrow> ical \<Rightarrow> (string option \<times> ical) option" where
  "icalrestriction_may_be_tent_conf = status_among [ICAL_STATUS_TENTATIVE, ICAL_STATUS_CONFIRMED]
     ''Failed iTIP restrictions for STATUS property. Value must be one of TENTATIVE or CONFIRMED''"

definition icalrestriction_may_be_tent_conf_cancel :: "nat \<Rightarrow> ical \<Rightarrow> (string option \<times> ical) option" where
  "icalrestriction_may_be_tent_conf_cancel = status_among [ICAL_STATUS_TENTATIVE, ICAL_STATUS_CONFIRMED, ICAL_STATUS_CANCELLED]
     ''Failed iTIP restrictions for STATUS property. Value must be one of TENTATIVE, CONFIRMED or CANCELED''"

definition icalrestriction_must_be_cancel_if_present :: "nat \<Rightarrow> ical \<Rightarrow> (string option \<times> ical) option" where
  "icalrestriction_must_be_cancel_if_present = status_among [ICAL_STATUS_CANCELLED]
     ''Failed iTIP restrictions for STATUS property. Value must be CANCELLED''"

definition icalrestriction_must_be_canceled_no_attendee :: "nat \<Rightarrow> ical \<Rightarrow> (string option \<times> ical) option" where
  "icalrestriction_must_be_canceled_no_attendee p st = Some (None, st)"

definition icalrestriction_must_be_recurring :: "nat \<Rightarrow> ical \<Rightarrow> (string option \<times> ical) option" where
  "icalrestriction_must_be_recurring p st = Some (None, st)"

definition icalrestriction_must_have_duration :: "nat \<Rightarrow> ical \<Rightarrow> (string option \<times> ical) option" where
  "icalrestriction_must_have_duration = must_have ICAL_DURATION_PROPERTY
     ''Failed iTIP restrictions for DURATION property. This component must have a DURATION property''"

definition icalrestriction_must_have_repeat :: "nat \<Rightarrow> ical \<Rightarrow> (string option \<times> ical) option" where
  "icalrestriction_must_have_repeat = must_have ICAL_REPEAT_PROPERTY
     ''Failed iTIP restrictions for REPEAT property. This component must have a REPEAT property''"

definition icalrestriction_must_if_tz_ref :: "nat \<Rightarrow> ical \<Rightarrow> (string option \<times> ical) option" where
  "icalrestriction_must_if_tz_ref p st = Some (None, st)"

text \<open>The message speaks of both properties, but the failure is that there is no DTEND.\<close>

definition icalrestriction_no_dtend :: "nat \<Rightarrow> ical \<Rightarrow> (string option \<times> ical) option" where
  "icalrestriction_no_dtend = must_have ICAL_DTEND_PROPERTY
     ''Failed iTIP restrictions for DTEND property. The component must not have both DURATION and DTEND''"

definition icalrestriction_no_duration :: "nat \<Rightarrow> ical \<Rightarrow> (string option \<times> ical) option" where
  "icalrestriction_no_duration p st = Some (None, st)"

definition icalrestriction_must_be_email :: "nat \<Rightarrow> ical \<Rightarrow> (string option \<times> ical) option" where
  "icalrestriction_must_be_email p st = do {
     (stat, st1) \<leftarrow> icalproperty_get_action p st;
     Some (if stat = ICAL_ACTION_EMAIL then None
           else Some ''Failed iTIP restrictions for ACTION property. Value must be EMAIL.'', st1) }"

text \<open>The functions get the component and its first property of the kind.\<close>

fun restriction_function :: "restriction_func \<Rightarrow> nat \<Rightarrow> nat \<Rightarrow> ical \<Rightarrow> (string option \<times> ical) option" where
  "restriction_function F_may_be_draft_final_canceled c p = icalrestriction_may_be_draft_final_canceled p"
| "restriction_function F_may_be_comp_need_process c p = icalrestriction_may_be_comp_need_process p"
| "restriction_function F_may_be_tent_conf c p = icalrestriction_may_be_tent_conf p"
| "restriction_function F_may_be_tent_conf_cancel c p = icalrestriction_may_be_tent_conf_cancel p"
| "restriction_function F_must_be_cancel_if_present c p = icalrestriction_must_be_cancel_if_present p"
| "restriction_function F_must_be_canceled_no_attendee c p = icalrestriction_must_be_canceled_no_attendee p"
| "restriction_function F_must_be_recurring c p = icalrestriction_must_be_recurring p"
| "restriction_function F_must_have_duration c p = icalrestriction_must_have_duration c"
| "restriction_function F_must_have_repeat c p = icalrestriction_must_have_repeat c"
| "restriction_function F_must_if_tz_ref c p = icalrestriction_must_if_tz_ref p"
| "restriction_function F_no_dtend c p = icalrestriction_no_dtend c"
| "restriction_function F_no_duration c p = icalrestriction_no_duration p"
| "restriction_function F_must_be_email c p = icalrestriction_must_be_email p"

section \<open>Rows\<close>

record icalrestriction_property_record =
  rp_method :: int
  rp_component :: icalcomponent_kind
  rp_property :: icalproperty_kind
  rp_restriction :: icalrestriction_kind
  rp_function :: "restriction_func option"

record icalrestriction_component_record =
  rc_method :: int
  rc_component :: icalcomponent_kind
  rc_subcomponent :: icalcomponent_kind
  rc_restriction :: icalrestriction_kind
  rc_function :: "restriction_func option"

type_synonym property_rows = "(icalproperty_kind \<times> icalrestriction_kind \<times> restriction_func option) list"
type_synonym component_rows = "(icalcomponent_kind \<times> icalrestriction_kind \<times> restriction_func option) list"

definition property_records :: "int \<Rightarrow> icalcomponent_kind \<Rightarrow> property_rows \<Rightarrow> icalrestriction_property_record list" where
  "property_records method c = map (\<lambda>(p, r, f).
     \<lparr>rp_method = method, rp_component = c, rp_property = p, rp_restriction = r, rp_function = f\<rparr>)"

definition component_records :: "int \<Rightarrow> icalcomponent_kind \<Rightarrow> component_rows \<Rightarrow> icalrestriction_component_record list" where
  "component_records method c = map (\<lambda>(s, r, f).
     \<lparr>rc_method = method, rc_component = c, rc_subcomponent = s, rc_restriction = r, rc_function = f\<rparr>)"


section \<open>The table of properties\<close>

text \<open>The rows of a method and a kind of component: the property, how many of it, and a function.\<close>

definition publish_vevent_properties :: "property_rows" where
  "publish_vevent_properties =
     [(ICAL_DTSTAMP_PROPERTY, ICAL_RESTRICTION_ONE, None), (ICAL_DTSTART_PROPERTY, ICAL_RESTRICTION_ONE, None),
      (ICAL_ORGANIZER_PROPERTY, ICAL_RESTRICTION_ONE, None),
      (ICAL_SUMMARY_PROPERTY, ICAL_RESTRICTION_ONE, None), (ICAL_UID_PROPERTY, ICAL_RESTRICTION_ONE, None),
      (ICAL_RECURRENCEID_PROPERTY, ICAL_RESTRICTION_ZEROORONE, Some F_must_be_recurring),
      (ICAL_SEQUENCE_PROPERTY, ICAL_RESTRICTION_ZEROORONE, None),
      (ICAL_ATTACH_PROPERTY, ICAL_RESTRICTION_ZEROPLUS, None),
      (ICAL_CATEGORIES_PROPERTY, ICAL_RESTRICTION_ZEROPLUS, None),
      (ICAL_CLASS_PROPERTY, ICAL_RESTRICTION_ZEROORONE, None),
      (ICAL_COMMENT_PROPERTY, ICAL_RESTRICTION_ZEROORONE, None),
      (ICAL_CONTACT_PROPERTY, ICAL_RESTRICTION_ZEROPLUS, None),
      (ICAL_CREATED_PROPERTY, ICAL_RESTRICTION_ZEROORONE, None),
      (ICAL_DESCRIPTION_PROPERTY, ICAL_RESTRICTION_ZEROORONE, None),
      (ICAL_DTEND_PROPERTY, ICAL_RESTRICTION_ONEEXCLUSIVE, Some F_no_duration),
      (ICAL_DURATION_PROPERTY, ICAL_RESTRICTION_ONEEXCLUSIVE, Some F_no_dtend),
      (ICAL_EXDATE_PROPERTY, ICAL_RESTRICTION_ZEROPLUS, None),
      (ICAL_EXRULE_PROPERTY, ICAL_RESTRICTION_ZEROPLUS, None),
      (ICAL_GEO_PROPERTY, ICAL_RESTRICTION_ZEROORONE, None),
      (ICAL_LASTMODIFIED_PROPERTY, ICAL_RESTRICTION_ZEROORONE, None),
      (ICAL_LOCATION_PROPERTY, ICAL_RESTRICTION_ZEROORONE, None),
      (ICAL_PRIORITY_PROPERTY, ICAL_RESTRICTION_ZEROORONE, None),
      (ICAL_RDATE_PROPERTY, ICAL_RESTRICTION_ZEROPLUS, None),
      (ICAL_RELATEDTO_PROPERTY, ICAL_RESTRICTION_ZEROPLUS, None),
      (ICAL_RESOURCES_PROPERTY, ICAL_RESTRICTION_ZEROORONE, None),
      (ICAL_RRULE_PROPERTY, ICAL_RESTRICTION_ZEROPLUS, None),
      (ICAL_STATUS_PROPERTY, ICAL_RESTRICTION_ZEROORONE, Some F_may_be_tent_conf_cancel),
      (ICAL_TRANSP_PROPERTY, ICAL_RESTRICTION_ZEROORONE, None),
      (ICAL_URL_PROPERTY, ICAL_RESTRICTION_ZEROORONE, None), (ICAL_X_PROPERTY, ICAL_RESTRICTION_ZEROPLUS, None),
      (ICAL_ATTENDEE_PROPERTY, ICAL_RESTRICTION_ZERO, None),
      (ICAL_REQUESTSTATUS_PROPERTY, ICAL_RESTRICTION_ZERO, None),
      (ICAL_RELCALID_PROPERTY, ICAL_RESTRICTION_ZEROORONE, None)]"

definition request_vevent_properties :: "property_rows" where
  "request_vevent_properties =
     [(ICAL_ATTENDEE_PROPERTY, ICAL_RESTRICTION_ONEPLUS, None),
      (ICAL_DTSTAMP_PROPERTY, ICAL_RESTRICTION_ONE, None), (ICAL_DTSTART_PROPERTY, ICAL_RESTRICTION_ONE, None),
      (ICAL_ORGANIZER_PROPERTY, ICAL_RESTRICTION_ONE, None),
      (ICAL_SEQUENCE_PROPERTY, ICAL_RESTRICTION_ZEROORONE, None),
      (ICAL_SUMMARY_PROPERTY, ICAL_RESTRICTION_ONE, None), (ICAL_UID_PROPERTY, ICAL_RESTRICTION_ONE, None),
      (ICAL_ATTACH_PROPERTY, ICAL_RESTRICTION_ZEROPLUS, None),
      (ICAL_CATEGORIES_PROPERTY, ICAL_RESTRICTION_ZEROPLUS, None),
      (ICAL_CLASS_PROPERTY, ICAL_RESTRICTION_ZEROORONE, None),
      (ICAL_COMMENT_PROPERTY, ICAL_RESTRICTION_ZEROORONE, None),
      (ICAL_CONTACT_PROPERTY, ICAL_RESTRICTION_ZEROPLUS, None),
      (ICAL_CREATED_PROPERTY, ICAL_RESTRICTION_ZEROORONE, None),
      (ICAL_DESCRIPTION_PROPERTY, ICAL_RESTRICTION_ZEROORONE, None),
      (ICAL_DTEND_PROPERTY, ICAL_RESTRICTION_ONEEXCLUSIVE, Some F_no_duration),
      (ICAL_DURATION_PROPERTY, ICAL_RESTRICTION_ONEEXCLUSIVE, Some F_no_dtend),
      (ICAL_EXDATE_PROPERTY, ICAL_RESTRICTION_ZEROPLUS, None),
      (ICAL_EXRULE_PROPERTY, ICAL_RESTRICTION_ZEROPLUS, None),
      (ICAL_GEO_PROPERTY, ICAL_RESTRICTION_ZEROORONE, None),
      (ICAL_LASTMODIFIED_PROPERTY, ICAL_RESTRICTION_ZEROORONE, None),
      (ICAL_LOCATION_PROPERTY, ICAL_RESTRICTION_ZEROORONE, None),
      (ICAL_PRIORITY_PROPERTY, ICAL_RESTRICTION_ZEROORONE, None),
      (ICAL_RDATE_PROPERTY, ICAL_RESTRICTION_ZEROPLUS, None),
      (ICAL_RECURRENCEID_PROPERTY, ICAL_RESTRICTION_ZEROORONE, Some F_must_be_recurring),
      (ICAL_RELATEDTO_PROPERTY, ICAL_RESTRICTION_ZEROPLUS, None),
      (ICAL_REQUESTSTATUS_PROPERTY, ICAL_RESTRICTION_ZEROPLUS, None),
      (ICAL_RESOURCES_PROPERTY, ICAL_RESTRICTION_ZEROORONE, None),
      (ICAL_RRULE_PROPERTY, ICAL_RESTRICTION_ZEROPLUS, None),
      (ICAL_STATUS_PROPERTY, ICAL_RESTRICTION_ZEROORONE, Some F_may_be_tent_conf),
      (ICAL_TRANSP_PROPERTY, ICAL_RESTRICTION_ZEROORONE, None),
      (ICAL_URL_PROPERTY, ICAL_RESTRICTION_ZEROORONE, None), (ICAL_X_PROPERTY, ICAL_RESTRICTION_ZEROPLUS, None),
      (ICAL_RELCALID_PROPERTY, ICAL_RESTRICTION_ZEROORONE, None)]"

definition reply_vevent_properties :: "property_rows" where
  "reply_vevent_properties =
     [(ICAL_ATTENDEE_PROPERTY, ICAL_RESTRICTION_ONE, None), (ICAL_DTSTAMP_PROPERTY, ICAL_RESTRICTION_ONE, None),
      (ICAL_ORGANIZER_PROPERTY, ICAL_RESTRICTION_ONE, None),
      (ICAL_RECURRENCEID_PROPERTY, ICAL_RESTRICTION_ZEROORONE, Some F_must_be_recurring),
      (ICAL_UID_PROPERTY, ICAL_RESTRICTION_ONE, None),
      (ICAL_SEQUENCE_PROPERTY, ICAL_RESTRICTION_ZEROORONE, None),
      (ICAL_ATTACH_PROPERTY, ICAL_RESTRICTION_ZEROPLUS, None),
      (ICAL_CATEGORIES_PROPERTY, ICAL_RESTRICTION_ZEROPLUS, None),
      (ICAL_CLASS_PROPERTY, ICAL_RESTRICTION_ZEROORONE, None),
      (ICAL_COMMENT_PROPERTY, ICAL_RESTRICTION_ZEROORONE, None),
      (ICAL_CONTACT_PROPERTY, ICAL_RESTRICTION_ZEROPLUS, None),
      (ICAL_CREATED_PROPERTY, ICAL_RESTRICTION_ZEROORONE, None),
      (ICAL_DESCRIPTION_PROPERTY, ICAL_RESTRICTION_ZEROORONE, None),
      (ICAL_DTEND_PROPERTY, ICAL_RESTRICTION_ONEEXCLUSIVE, Some F_no_duration),
      (ICAL_DTSTART_PROPERTY, ICAL_RESTRICTION_ZEROORONE, None),
      (ICAL_DURATION_PROPERTY, ICAL_RESTRICTION_ONEEXCLUSIVE, Some F_no_dtend),
      (ICAL_EXDATE_PROPERTY, ICAL_RESTRICTION_ZEROPLUS, None),
      (ICAL_EXRULE_PROPERTY, ICAL_RESTRICTION_ZEROPLUS, None),
      (ICAL_GEO_PROPERTY, ICAL_RESTRICTION_ZEROORONE, None),
      (ICAL_LASTMODIFIED_PROPERTY, ICAL_RESTRICTION_ZEROORONE, None),
      (ICAL_LOCATION_PROPERTY, ICAL_RESTRICTION_ZEROORONE, None),
      (ICAL_PRIORITY_PROPERTY, ICAL_RESTRICTION_ZEROORONE, None),
      (ICAL_RDATE_PROPERTY, ICAL_RESTRICTION_ZEROPLUS, None),
      (ICAL_RELATEDTO_PROPERTY, ICAL_RESTRICTION_ZEROPLUS, None),
      (ICAL_RESOURCES_PROPERTY, ICAL_RESTRICTION_ZEROORONE, None),
      (ICAL_REQUESTSTATUS_PROPERTY, ICAL_RESTRICTION_ZEROPLUS, None),
      (ICAL_RRULE_PROPERTY, ICAL_RESTRICTION_ZEROPLUS, None),
      (ICAL_STATUS_PROPERTY, ICAL_RESTRICTION_ZEROORONE, None),
      (ICAL_SUMMARY_PROPERTY, ICAL_RESTRICTION_ZEROORONE, None),
      (ICAL_TRANSP_PROPERTY, ICAL_RESTRICTION_ZEROORONE, None),
      (ICAL_URL_PROPERTY, ICAL_RESTRICTION_ZEROORONE, None), (ICAL_X_PROPERTY, ICAL_RESTRICTION_ZEROPLUS, None),
      (ICAL_RELCALID_PROPERTY, ICAL_RESTRICTION_ZEROORONE, None)]"

definition add_vevent_properties :: "property_rows" where
  "add_vevent_properties =
     [(ICAL_DTSTAMP_PROPERTY, ICAL_RESTRICTION_ONE, None), (ICAL_DTSTART_PROPERTY, ICAL_RESTRICTION_ONE, None),
      (ICAL_ORGANIZER_PROPERTY, ICAL_RESTRICTION_ONE, None),
      (ICAL_SEQUENCE_PROPERTY, ICAL_RESTRICTION_ONE, None), (ICAL_SUMMARY_PROPERTY, ICAL_RESTRICTION_ONE, None),
      (ICAL_UID_PROPERTY, ICAL_RESTRICTION_ONE, None), (ICAL_ATTACH_PROPERTY, ICAL_RESTRICTION_ZEROPLUS, None),
      (ICAL_ATTENDEE_PROPERTY, ICAL_RESTRICTION_ZEROPLUS, None),
      (ICAL_CATEGORIES_PROPERTY, ICAL_RESTRICTION_ZEROPLUS, None),
      (ICAL_CLASS_PROPERTY, ICAL_RESTRICTION_ZEROORONE, None),
      (ICAL_COMMENT_PROPERTY, ICAL_RESTRICTION_ZEROORONE, None),
      (ICAL_CONTACT_PROPERTY, ICAL_RESTRICTION_ZEROPLUS, None),
      (ICAL_CREATED_PROPERTY, ICAL_RESTRICTION_ZEROORONE, None),
      (ICAL_DESCRIPTION_PROPERTY, ICAL_RESTRICTION_ZEROORONE, None),
      (ICAL_DTEND_PROPERTY, ICAL_RESTRICTION_ONEEXCLUSIVE, Some F_no_duration),
      (ICAL_DURATION_PROPERTY, ICAL_RESTRICTION_ONEEXCLUSIVE, Some F_no_dtend),
      (ICAL_EXDATE_PROPERTY, ICAL_RESTRICTION_ZEROPLUS, None),
      (ICAL_EXRULE_PROPERTY, ICAL_RESTRICTION_ZEROPLUS, None),
      (ICAL_GEO_PROPERTY, ICAL_RESTRICTION_ZEROORONE, None),
      (ICAL_LASTMODIFIED_PROPERTY, ICAL_RESTRICTION_ZEROORONE, None),
      (ICAL_LOCATION_PROPERTY, ICAL_RESTRICTION_ZEROORONE, None),
      (ICAL_PRIORITY_PROPERTY, ICAL_RESTRICTION_ZEROORONE, None),
      (ICAL_RDATE_PROPERTY, ICAL_RESTRICTION_ZEROPLUS, None),
      (ICAL_RELATEDTO_PROPERTY, ICAL_RESTRICTION_ZEROPLUS, None),
      (ICAL_RESOURCES_PROPERTY, ICAL_RESTRICTION_ZEROORONE, None),
      (ICAL_RRULE_PROPERTY, ICAL_RESTRICTION_ZEROPLUS, None),
      (ICAL_STATUS_PROPERTY, ICAL_RESTRICTION_ZEROORONE, Some F_may_be_tent_conf),
      (ICAL_TRANSP_PROPERTY, ICAL_RESTRICTION_ZEROORONE, None),
      (ICAL_URL_PROPERTY, ICAL_RESTRICTION_ZEROORONE, None), (ICAL_X_PROPERTY, ICAL_RESTRICTION_ZEROPLUS, None),
      (ICAL_RECURRENCEID_PROPERTY, ICAL_RESTRICTION_ZERO, Some F_must_be_recurring),
      (ICAL_REQUESTSTATUS_PROPERTY, ICAL_RESTRICTION_ZERO, None),
      (ICAL_RELCALID_PROPERTY, ICAL_RESTRICTION_ZEROORONE, None)]"

definition cancel_vevent_properties :: "property_rows" where
  "cancel_vevent_properties =
     [(ICAL_ATTENDEE_PROPERTY, ICAL_RESTRICTION_ZEROPLUS, None),
      (ICAL_DTSTAMP_PROPERTY, ICAL_RESTRICTION_ONE, None),
      (ICAL_ORGANIZER_PROPERTY, ICAL_RESTRICTION_ONE, None),
      (ICAL_SEQUENCE_PROPERTY, ICAL_RESTRICTION_ONE, None), (ICAL_UID_PROPERTY, ICAL_RESTRICTION_ONE, None),
      (ICAL_COMMENT_PROPERTY, ICAL_RESTRICTION_ZEROORONE, None),
      (ICAL_ATTACH_PROPERTY, ICAL_RESTRICTION_ZEROPLUS, None),
      (ICAL_CATEGORIES_PROPERTY, ICAL_RESTRICTION_ZEROPLUS, None),
      (ICAL_CLASS_PROPERTY, ICAL_RESTRICTION_ZEROORONE, None),
      (ICAL_CONTACT_PROPERTY, ICAL_RESTRICTION_ZEROPLUS, None),
      (ICAL_CREATED_PROPERTY, ICAL_RESTRICTION_ZEROORONE, None),
      (ICAL_DESCRIPTION_PROPERTY, ICAL_RESTRICTION_ZEROORONE, None),
      (ICAL_DTEND_PROPERTY, ICAL_RESTRICTION_ONEEXCLUSIVE, Some F_no_duration),
      (ICAL_DTSTART_PROPERTY, ICAL_RESTRICTION_ZEROORONE, None),
      (ICAL_DURATION_PROPERTY, ICAL_RESTRICTION_ONEEXCLUSIVE, Some F_no_dtend),
      (ICAL_EXDATE_PROPERTY, ICAL_RESTRICTION_ZEROPLUS, None),
      (ICAL_EXRULE_PROPERTY, ICAL_RESTRICTION_ZEROPLUS, None),
      (ICAL_GEO_PROPERTY, ICAL_RESTRICTION_ZEROORONE, None),
      (ICAL_LASTMODIFIED_PROPERTY, ICAL_RESTRICTION_ZEROORONE, None),
      (ICAL_LOCATION_PROPERTY, ICAL_RESTRICTION_ZEROORONE, None),
      (ICAL_PRIORITY_PROPERTY, ICAL_RESTRICTION_ZEROORONE, None),
      (ICAL_RDATE_PROPERTY, ICAL_RESTRICTION_ZEROPLUS, None),
      (ICAL_RECURRENCEID_PROPERTY, ICAL_RESTRICTION_ZEROORONE, Some F_must_be_recurring),
      (ICAL_RELATEDTO_PROPERTY, ICAL_RESTRICTION_ZEROPLUS, None),
      (ICAL_RESOURCES_PROPERTY, ICAL_RESTRICTION_ZEROORONE, None),
      (ICAL_RRULE_PROPERTY, ICAL_RESTRICTION_ZEROPLUS, None),
      (ICAL_STATUS_PROPERTY, ICAL_RESTRICTION_ZEROORONE, Some F_must_be_canceled_no_attendee),
      (ICAL_SUMMARY_PROPERTY, ICAL_RESTRICTION_ZEROORONE, None),
      (ICAL_TRANSP_PROPERTY, ICAL_RESTRICTION_ZEROORONE, None),
      (ICAL_URL_PROPERTY, ICAL_RESTRICTION_ZEROORONE, None), (ICAL_X_PROPERTY, ICAL_RESTRICTION_ZEROPLUS, None),
      (ICAL_REQUESTSTATUS_PROPERTY, ICAL_RESTRICTION_ZERO, None),
      (ICAL_RELCALID_PROPERTY, ICAL_RESTRICTION_ZEROORONE, None)]"

definition refresh_vevent_properties :: "property_rows" where
  "refresh_vevent_properties =
     [(ICAL_ATTENDEE_PROPERTY, ICAL_RESTRICTION_ONE, None), (ICAL_DTSTAMP_PROPERTY, ICAL_RESTRICTION_ONE, None),
      (ICAL_ORGANIZER_PROPERTY, ICAL_RESTRICTION_ONE, None), (ICAL_UID_PROPERTY, ICAL_RESTRICTION_ONE, None),
      (ICAL_COMMENT_PROPERTY, ICAL_RESTRICTION_ZEROORONE, None),
      (ICAL_RECURRENCEID_PROPERTY, ICAL_RESTRICTION_ZEROORONE, Some F_must_be_recurring),
      (ICAL_X_PROPERTY, ICAL_RESTRICTION_ZEROPLUS, None), (ICAL_ATTACH_PROPERTY, ICAL_RESTRICTION_ZERO, None),
      (ICAL_CATEGORIES_PROPERTY, ICAL_RESTRICTION_ZERO, None),
      (ICAL_CLASS_PROPERTY, ICAL_RESTRICTION_ZERO, None), (ICAL_CONTACT_PROPERTY, ICAL_RESTRICTION_ZERO, None),
      (ICAL_CREATED_PROPERTY, ICAL_RESTRICTION_ZERO, None),
      (ICAL_DESCRIPTION_PROPERTY, ICAL_RESTRICTION_ZERO, None),
      (ICAL_DTEND_PROPERTY, ICAL_RESTRICTION_ZERO, None), (ICAL_DTSTART_PROPERTY, ICAL_RESTRICTION_ZERO, None),
      (ICAL_DURATION_PROPERTY, ICAL_RESTRICTION_ZERO, None),
      (ICAL_EXDATE_PROPERTY, ICAL_RESTRICTION_ZERO, None), (ICAL_EXRULE_PROPERTY, ICAL_RESTRICTION_ZERO, None),
      (ICAL_GEO_PROPERTY, ICAL_RESTRICTION_ZERO, None),
      (ICAL_LASTMODIFIED_PROPERTY, ICAL_RESTRICTION_ZERO, None),
      (ICAL_LOCATION_PROPERTY, ICAL_RESTRICTION_ZERO, None),
      (ICAL_PRIORITY_PROPERTY, ICAL_RESTRICTION_ZERO, None), (ICAL_RDATE_PROPERTY, ICAL_RESTRICTION_ZERO, None),
      (ICAL_RELATEDTO_PROPERTY, ICAL_RESTRICTION_ZERO, None),
      (ICAL_REQUESTSTATUS_PROPERTY, ICAL_RESTRICTION_ZERO, None),
      (ICAL_RESOURCES_PROPERTY, ICAL_RESTRICTION_ZERO, None),
      (ICAL_RRULE_PROPERTY, ICAL_RESTRICTION_ZERO, None), (ICAL_SEQUENCE_PROPERTY, ICAL_RESTRICTION_ZERO, None),
      (ICAL_STATUS_PROPERTY, ICAL_RESTRICTION_ZERO, None), (ICAL_SUMMARY_PROPERTY, ICAL_RESTRICTION_ZERO, None),
      (ICAL_TRANSP_PROPERTY, ICAL_RESTRICTION_ZERO, None), (ICAL_URL_PROPERTY, ICAL_RESTRICTION_ZERO, None),
      (ICAL_RELCALID_PROPERTY, ICAL_RESTRICTION_ZEROORONE, None)]"

definition counter_vevent_properties :: "property_rows" where
  "counter_vevent_properties =
     [(ICAL_DTSTAMP_PROPERTY, ICAL_RESTRICTION_ONE, None), (ICAL_DTSTART_PROPERTY, ICAL_RESTRICTION_ONE, None),
      (ICAL_ORGANIZER_PROPERTY, ICAL_RESTRICTION_ONE, None),
      (ICAL_SEQUENCE_PROPERTY, ICAL_RESTRICTION_ONE, None), (ICAL_SUMMARY_PROPERTY, ICAL_RESTRICTION_ONE, None),
      (ICAL_UID_PROPERTY, ICAL_RESTRICTION_ONE, None), (ICAL_ATTACH_PROPERTY, ICAL_RESTRICTION_ZEROPLUS, None),
      (ICAL_ATTENDEE_PROPERTY, ICAL_RESTRICTION_ZEROPLUS, None),
      (ICAL_CATEGORIES_PROPERTY, ICAL_RESTRICTION_ZEROPLUS, None),
      (ICAL_CLASS_PROPERTY, ICAL_RESTRICTION_ZEROORONE, None),
      (ICAL_COMMENT_PROPERTY, ICAL_RESTRICTION_ZEROORONE, None),
      (ICAL_CONTACT_PROPERTY, ICAL_RESTRICTION_ZEROPLUS, None),
      (ICAL_CREATED_PROPERTY, ICAL_RESTRICTION_ZEROORONE, None),
      (ICAL_DESCRIPTION_PROPERTY, ICAL_RESTRICTION_ZEROORONE, None),
      (ICAL_DTEND_PROPERTY, ICAL_RESTRICTION_ONEEXCLUSIVE, Some F_no_duration),
      (ICAL_DURATION_PROPERTY, ICAL_RESTRICTION_ONEEXCLUSIVE, Some F_no_dtend),
      (ICAL_EXDATE_PROPERTY, ICAL_RESTRICTION_ZEROPLUS, None),
      (ICAL_EXRULE_PROPERTY, ICAL_RESTRICTION_ZEROPLUS, None),
      (ICAL_GEO_PROPERTY, ICAL_RESTRICTION_ZEROORONE, None),
      (ICAL_LASTMODIFIED_PROPERTY, ICAL_RESTRICTION_ZEROORONE, None),
      (ICAL_LOCATION_PROPERTY, ICAL_RESTRICTION_ZEROORONE, None),
      (ICAL_PRIORITY_PROPERTY, ICAL_RESTRICTION_ZEROORONE, None),
      (ICAL_RDATE_PROPERTY, ICAL_RESTRICTION_ZEROPLUS, None),
      (ICAL_RECURRENCEID_PROPERTY, ICAL_RESTRICTION_ZEROORONE, Some F_must_be_recurring),
      (ICAL_RELATEDTO_PROPERTY, ICAL_RESTRICTION_ZEROPLUS, None),
      (ICAL_REQUESTSTATUS_PROPERTY, ICAL_RESTRICTION_ZEROPLUS, None),
      (ICAL_RESOURCES_PROPERTY, ICAL_RESTRICTION_ZEROORONE, None),
      (ICAL_RRULE_PROPERTY, ICAL_RESTRICTION_ZEROPLUS, None),
      (ICAL_STATUS_PROPERTY, ICAL_RESTRICTION_ZEROORONE, Some F_may_be_tent_conf_cancel),
      (ICAL_TRANSP_PROPERTY, ICAL_RESTRICTION_ZEROORONE, None),
      (ICAL_URL_PROPERTY, ICAL_RESTRICTION_ZEROORONE, None), (ICAL_X_PROPERTY, ICAL_RESTRICTION_ZEROPLUS, None),
      (ICAL_RELCALID_PROPERTY, ICAL_RESTRICTION_ZEROORONE, None)]"

definition declinecounter_vevent_properties :: "property_rows" where
  "declinecounter_vevent_properties =
     [(ICAL_DTSTAMP_PROPERTY, ICAL_RESTRICTION_ONE, None),
      (ICAL_ORGANIZER_PROPERTY, ICAL_RESTRICTION_ONE, None), (ICAL_UID_PROPERTY, ICAL_RESTRICTION_ONE, None),
      (ICAL_COMMENT_PROPERTY, ICAL_RESTRICTION_ZEROORONE, None),
      (ICAL_RECURRENCEID_PROPERTY, ICAL_RESTRICTION_ZEROORONE, Some F_must_be_recurring),
      (ICAL_REQUESTSTATUS_PROPERTY, ICAL_RESTRICTION_ZEROPLUS, None),
      (ICAL_SEQUENCE_PROPERTY, ICAL_RESTRICTION_ZERO, None), (ICAL_X_PROPERTY, ICAL_RESTRICTION_ZEROPLUS, None),
      (ICAL_ATTACH_PROPERTY, ICAL_RESTRICTION_ZERO, None),
      (ICAL_ATTENDEE_PROPERTY, ICAL_RESTRICTION_ZERO, None),
      (ICAL_CATEGORIES_PROPERTY, ICAL_RESTRICTION_ZERO, None),
      (ICAL_CLASS_PROPERTY, ICAL_RESTRICTION_ZERO, None), (ICAL_CONTACT_PROPERTY, ICAL_RESTRICTION_ZERO, None),
      (ICAL_CREATED_PROPERTY, ICAL_RESTRICTION_ZERO, None),
      (ICAL_DESCRIPTION_PROPERTY, ICAL_RESTRICTION_ZERO, None),
      (ICAL_DTEND_PROPERTY, ICAL_RESTRICTION_ZERO, None), (ICAL_DTSTART_PROPERTY, ICAL_RESTRICTION_ZERO, None),
      (ICAL_DURATION_PROPERTY, ICAL_RESTRICTION_ZERO, None),
      (ICAL_EXDATE_PROPERTY, ICAL_RESTRICTION_ZERO, None), (ICAL_EXRULE_PROPERTY, ICAL_RESTRICTION_ZERO, None),
      (ICAL_GEO_PROPERTY, ICAL_RESTRICTION_ZERO, None),
      (ICAL_LASTMODIFIED_PROPERTY, ICAL_RESTRICTION_ZERO, None),
      (ICAL_LOCATION_PROPERTY, ICAL_RESTRICTION_ZERO, None),
      (ICAL_PRIORITY_PROPERTY, ICAL_RESTRICTION_ZERO, None), (ICAL_RDATE_PROPERTY, ICAL_RESTRICTION_ZERO, None),
      (ICAL_RELATEDTO_PROPERTY, ICAL_RESTRICTION_ZERO, None),
      (ICAL_RESOURCES_PROPERTY, ICAL_RESTRICTION_ZERO, None),
      (ICAL_RRULE_PROPERTY, ICAL_RESTRICTION_ZERO, None), (ICAL_STATUS_PROPERTY, ICAL_RESTRICTION_ZERO, None),
      (ICAL_SUMMARY_PROPERTY, ICAL_RESTRICTION_ZERO, None), (ICAL_TRANSP_PROPERTY, ICAL_RESTRICTION_ZERO, None),
      (ICAL_URL_PROPERTY, ICAL_RESTRICTION_ZERO, None),
      (ICAL_RELCALID_PROPERTY, ICAL_RESTRICTION_ZEROORONE, None)]"

definition publish_vfreebusy_properties :: "property_rows" where
  "publish_vfreebusy_properties =
     [(ICAL_DTSTAMP_PROPERTY, ICAL_RESTRICTION_ONE, None), (ICAL_DTSTART_PROPERTY, ICAL_RESTRICTION_ONE, None),
      (ICAL_DTEND_PROPERTY, ICAL_RESTRICTION_ONE, None),
      (ICAL_FREEBUSY_PROPERTY, ICAL_RESTRICTION_ONEPLUS, None),
      (ICAL_ORGANIZER_PROPERTY, ICAL_RESTRICTION_ONE, None),
      (ICAL_COMMENT_PROPERTY, ICAL_RESTRICTION_ZEROORONE, None),
      (ICAL_CONTACT_PROPERTY, ICAL_RESTRICTION_ZEROPLUS, None),
      (ICAL_X_PROPERTY, ICAL_RESTRICTION_ZEROPLUS, None), (ICAL_URL_PROPERTY, ICAL_RESTRICTION_ZEROORONE, None),
      (ICAL_ATTENDEE_PROPERTY, ICAL_RESTRICTION_ZERO, None),
      (ICAL_DURATION_PROPERTY, ICAL_RESTRICTION_ZERO, None),
      (ICAL_REQUESTSTATUS_PROPERTY, ICAL_RESTRICTION_ZERO, None),
      (ICAL_UID_PROPERTY, ICAL_RESTRICTION_ZERO, None)]"

definition request_vfreebusy_properties :: "property_rows" where
  "request_vfreebusy_properties =
     [(ICAL_ATTENDEE_PROPERTY, ICAL_RESTRICTION_ONEPLUS, None),
      (ICAL_DTEND_PROPERTY, ICAL_RESTRICTION_ONE, None), (ICAL_DTSTAMP_PROPERTY, ICAL_RESTRICTION_ONE, None),
      (ICAL_DTSTART_PROPERTY, ICAL_RESTRICTION_ONE, None),
      (ICAL_ORGANIZER_PROPERTY, ICAL_RESTRICTION_ONE, None), (ICAL_UID_PROPERTY, ICAL_RESTRICTION_ONE, None),
      (ICAL_COMMENT_PROPERTY, ICAL_RESTRICTION_ZEROORONE, None),
      (ICAL_CONTACT_PROPERTY, ICAL_RESTRICTION_ZEROPLUS, None),
      (ICAL_X_PROPERTY, ICAL_RESTRICTION_ZEROPLUS, None), (ICAL_FREEBUSY_PROPERTY, ICAL_RESTRICTION_ZERO, None),
      (ICAL_DURATION_PROPERTY, ICAL_RESTRICTION_ZERO, None),
      (ICAL_REQUESTSTATUS_PROPERTY, ICAL_RESTRICTION_ZERO, None),
      (ICAL_URL_PROPERTY, ICAL_RESTRICTION_ZERO, None)]"

definition reply_vfreebusy_properties :: "property_rows" where
  "reply_vfreebusy_properties =
     [(ICAL_ATTENDEE_PROPERTY, ICAL_RESTRICTION_ONE, None), (ICAL_DTSTAMP_PROPERTY, ICAL_RESTRICTION_ONE, None),
      (ICAL_DTEND_PROPERTY, ICAL_RESTRICTION_ONE, None), (ICAL_DTSTART_PROPERTY, ICAL_RESTRICTION_ONE, None),
      (ICAL_FREEBUSY_PROPERTY, ICAL_RESTRICTION_ONEPLUS, None),
      (ICAL_ORGANIZER_PROPERTY, ICAL_RESTRICTION_ONE, None), (ICAL_UID_PROPERTY, ICAL_RESTRICTION_ONE, None),
      (ICAL_COMMENT_PROPERTY, ICAL_RESTRICTION_ZEROORONE, None),
      (ICAL_CONTACT_PROPERTY, ICAL_RESTRICTION_ZEROPLUS, None),
      (ICAL_REQUESTSTATUS_PROPERTY, ICAL_RESTRICTION_ZEROPLUS, None),
      (ICAL_URL_PROPERTY, ICAL_RESTRICTION_ZEROORONE, None), (ICAL_X_PROPERTY, ICAL_RESTRICTION_ZEROPLUS, None),
      (ICAL_DURATION_PROPERTY, ICAL_RESTRICTION_ZERO, None),
      (ICAL_SEQUENCE_PROPERTY, ICAL_RESTRICTION_ZERO, None)]"

definition publish_vtodo_properties :: "property_rows" where
  "publish_vtodo_properties =
     [(ICAL_DTSTAMP_PROPERTY, ICAL_RESTRICTION_ONE, None), (ICAL_DTSTART_PROPERTY, ICAL_RESTRICTION_ONE, None),
      (ICAL_ORGANIZER_PROPERTY, ICAL_RESTRICTION_ONE, None),
      (ICAL_PRIORITY_PROPERTY, ICAL_RESTRICTION_ONE, None),
      (ICAL_SEQUENCE_PROPERTY, ICAL_RESTRICTION_ZEROORONE, None),
      (ICAL_SUMMARY_PROPERTY, ICAL_RESTRICTION_ONE, None), (ICAL_UID_PROPERTY, ICAL_RESTRICTION_ONE, None),
      (ICAL_ATTACH_PROPERTY, ICAL_RESTRICTION_ZEROPLUS, None),
      (ICAL_CATEGORIES_PROPERTY, ICAL_RESTRICTION_ZEROPLUS, None),
      (ICAL_CLASS_PROPERTY, ICAL_RESTRICTION_ZEROORONE, None),
      (ICAL_COMMENT_PROPERTY, ICAL_RESTRICTION_ZEROORONE, None),
      (ICAL_CONTACT_PROPERTY, ICAL_RESTRICTION_ZEROPLUS, None),
      (ICAL_CREATED_PROPERTY, ICAL_RESTRICTION_ZEROORONE, None),
      (ICAL_DESCRIPTION_PROPERTY, ICAL_RESTRICTION_ZEROORONE, None),
      (ICAL_DUE_PROPERTY, ICAL_RESTRICTION_ZEROORONE, None),
      (ICAL_DURATION_PROPERTY, ICAL_RESTRICTION_ZEROORONE, None),
      (ICAL_EXDATE_PROPERTY, ICAL_RESTRICTION_ZEROPLUS, None),
      (ICAL_EXRULE_PROPERTY, ICAL_RESTRICTION_ZEROPLUS, None),
      (ICAL_GEO_PROPERTY, ICAL_RESTRICTION_ZEROORONE, None),
      (ICAL_LASTMODIFIED_PROPERTY, ICAL_RESTRICTION_ZEROORONE, None),
      (ICAL_LOCATION_PROPERTY, ICAL_RESTRICTION_ZEROORONE, None),
      (ICAL_PERCENTCOMPLETE_PROPERTY, ICAL_RESTRICTION_ZEROORONE, None),
      (ICAL_RDATE_PROPERTY, ICAL_RESTRICTION_ZEROPLUS, None),
      (ICAL_RECURRENCEID_PROPERTY, ICAL_RESTRICTION_ZEROORONE, Some F_must_be_recurring),
      (ICAL_RELATEDTO_PROPERTY, ICAL_RESTRICTION_ZEROPLUS, None),
      (ICAL_RESOURCES_PROPERTY, ICAL_RESTRICTION_ZEROORONE, None),
      (ICAL_RRULE_PROPERTY, ICAL_RESTRICTION_ZEROPLUS, None),
      (ICAL_STATUS_PROPERTY, ICAL_RESTRICTION_ZEROORONE, None),
      (ICAL_URL_PROPERTY, ICAL_RESTRICTION_ZEROORONE, None), (ICAL_X_PROPERTY, ICAL_RESTRICTION_ZEROPLUS, None),
      (ICAL_ATTENDEE_PROPERTY, ICAL_RESTRICTION_ZERO, None),
      (ICAL_REQUESTSTATUS_PROPERTY, ICAL_RESTRICTION_ZERO, None),
      (ICAL_RELCALID_PROPERTY, ICAL_RESTRICTION_ZEROORONE, None)]"

definition request_vtodo_properties :: "property_rows" where
  "request_vtodo_properties =
     [(ICAL_ATTENDEE_PROPERTY, ICAL_RESTRICTION_ONEPLUS, None),
      (ICAL_DTSTAMP_PROPERTY, ICAL_RESTRICTION_ONE, None), (ICAL_DTSTART_PROPERTY, ICAL_RESTRICTION_ONE, None),
      (ICAL_ORGANIZER_PROPERTY, ICAL_RESTRICTION_ONE, None),
      (ICAL_PRIORITY_PROPERTY, ICAL_RESTRICTION_ONE, None),
      (ICAL_SEQUENCE_PROPERTY, ICAL_RESTRICTION_ZEROORONE, None),
      (ICAL_SUMMARY_PROPERTY, ICAL_RESTRICTION_ONE, None), (ICAL_UID_PROPERTY, ICAL_RESTRICTION_ONE, None),
      (ICAL_ATTACH_PROPERTY, ICAL_RESTRICTION_ZEROPLUS, None),
      (ICAL_CATEGORIES_PROPERTY, ICAL_RESTRICTION_ZEROPLUS, None),
      (ICAL_CLASS_PROPERTY, ICAL_RESTRICTION_ZEROORONE, None),
      (ICAL_COMMENT_PROPERTY, ICAL_RESTRICTION_ZEROORONE, None),
      (ICAL_CONTACT_PROPERTY, ICAL_RESTRICTION_ZEROPLUS, None),
      (ICAL_CREATED_PROPERTY, ICAL_RESTRICTION_ZEROORONE, None),
      (ICAL_DESCRIPTION_PROPERTY, ICAL_RESTRICTION_ZEROORONE, None),
      (ICAL_DUE_PROPERTY, ICAL_RESTRICTION_ZEROORONE, None),
      (ICAL_DURATION_PROPERTY, ICAL_RESTRICTION_ZEROORONE, None),
      (ICAL_EXDATE_PROPERTY, ICAL_RESTRICTION_ZEROPLUS, None),
      (ICAL_EXRULE_PROPERTY, ICAL_RESTRICTION_ZEROPLUS, None),
      (ICAL_GEO_PROPERTY, ICAL_RESTRICTION_ZEROORONE, None),
      (ICAL_LASTMODIFIED_PROPERTY, ICAL_RESTRICTION_ZEROORONE, None),
      (ICAL_LOCATION_PROPERTY, ICAL_RESTRICTION_ZEROORONE, None),
      (ICAL_PERCENTCOMPLETE_PROPERTY, ICAL_RESTRICTION_ZEROORONE, None),
      (ICAL_RDATE_PROPERTY, ICAL_RESTRICTION_ZEROPLUS, None),
      (ICAL_RECURRENCEID_PROPERTY, ICAL_RESTRICTION_ZEROORONE, Some F_must_be_recurring),
      (ICAL_RELATEDTO_PROPERTY, ICAL_RESTRICTION_ZEROPLUS, None),
      (ICAL_RESOURCES_PROPERTY, ICAL_RESTRICTION_ZEROORONE, None),
      (ICAL_RRULE_PROPERTY, ICAL_RESTRICTION_ZEROPLUS, None),
      (ICAL_STATUS_PROPERTY, ICAL_RESTRICTION_ZEROORONE, Some F_may_be_comp_need_process),
      (ICAL_URL_PROPERTY, ICAL_RESTRICTION_ZEROORONE, None), (ICAL_X_PROPERTY, ICAL_RESTRICTION_ZEROPLUS, None),
      (ICAL_REQUESTSTATUS_PROPERTY, ICAL_RESTRICTION_ZERO, None),
      (ICAL_RELCALID_PROPERTY, ICAL_RESTRICTION_ZEROORONE, None)]"

definition reply_vtodo_properties :: "property_rows" where
  "reply_vtodo_properties =
     [(ICAL_ATTENDEE_PROPERTY, ICAL_RESTRICTION_ONEPLUS, None),
      (ICAL_DTSTAMP_PROPERTY, ICAL_RESTRICTION_ONE, None),
      (ICAL_ORGANIZER_PROPERTY, ICAL_RESTRICTION_ONE, None),
      (ICAL_REQUESTSTATUS_PROPERTY, ICAL_RESTRICTION_ONEPLUS, None),
      (ICAL_UID_PROPERTY, ICAL_RESTRICTION_ONE, None), (ICAL_ATTACH_PROPERTY, ICAL_RESTRICTION_ZEROPLUS, None),
      (ICAL_CATEGORIES_PROPERTY, ICAL_RESTRICTION_ZEROPLUS, None),
      (ICAL_CLASS_PROPERTY, ICAL_RESTRICTION_ZEROORONE, None),
      (ICAL_COMMENT_PROPERTY, ICAL_RESTRICTION_ZEROORONE, None),
      (ICAL_CONTACT_PROPERTY, ICAL_RESTRICTION_ZEROPLUS, None),
      (ICAL_CREATED_PROPERTY, ICAL_RESTRICTION_ZEROORONE, None),
      (ICAL_DESCRIPTION_PROPERTY, ICAL_RESTRICTION_ZEROORONE, None),
      (ICAL_DTSTART_PROPERTY, ICAL_RESTRICTION_ZEROORONE, None),
      (ICAL_DUE_PROPERTY, ICAL_RESTRICTION_ZEROORONE, None),
      (ICAL_DURATION_PROPERTY, ICAL_RESTRICTION_ZEROORONE, None),
      (ICAL_EXDATE_PROPERTY, ICAL_RESTRICTION_ZEROPLUS, None),
      (ICAL_EXRULE_PROPERTY, ICAL_RESTRICTION_ZEROPLUS, None),
      (ICAL_GEO_PROPERTY, ICAL_RESTRICTION_ZEROORONE, None),
      (ICAL_LASTMODIFIED_PROPERTY, ICAL_RESTRICTION_ZEROORONE, None),
      (ICAL_LOCATION_PROPERTY, ICAL_RESTRICTION_ZEROORONE, None),
      (ICAL_PERCENTCOMPLETE_PROPERTY, ICAL_RESTRICTION_ZEROORONE, None),
      (ICAL_PRIORITY_PROPERTY, ICAL_RESTRICTION_ZEROORONE, None),
      (ICAL_RDATE_PROPERTY, ICAL_RESTRICTION_ZEROPLUS, None),
      (ICAL_RELATEDTO_PROPERTY, ICAL_RESTRICTION_ZEROPLUS, None),
      (ICAL_RESOURCES_PROPERTY, ICAL_RESTRICTION_ZEROORONE, None),
      (ICAL_RRULE_PROPERTY, ICAL_RESTRICTION_ZEROPLUS, None),
      (ICAL_RECURRENCEID_PROPERTY, ICAL_RESTRICTION_ZEROORONE, Some F_must_be_recurring),
      (ICAL_SEQUENCE_PROPERTY, ICAL_RESTRICTION_ZEROORONE, None),
      (ICAL_STATUS_PROPERTY, ICAL_RESTRICTION_ZEROORONE, None),
      (ICAL_SUMMARY_PROPERTY, ICAL_RESTRICTION_ZEROORONE, None),
      (ICAL_URL_PROPERTY, ICAL_RESTRICTION_ZEROORONE, None), (ICAL_X_PROPERTY, ICAL_RESTRICTION_ZEROPLUS, None),
      (ICAL_RELCALID_PROPERTY, ICAL_RESTRICTION_ZEROORONE, None)]"

definition add_vtodo_properties :: "property_rows" where
  "add_vtodo_properties =
     [(ICAL_DTSTAMP_PROPERTY, ICAL_RESTRICTION_ONE, None),
      (ICAL_ORGANIZER_PROPERTY, ICAL_RESTRICTION_ONE, None),
      (ICAL_PRIORITY_PROPERTY, ICAL_RESTRICTION_ONE, None),
      (ICAL_SEQUENCE_PROPERTY, ICAL_RESTRICTION_ONE, None), (ICAL_SUMMARY_PROPERTY, ICAL_RESTRICTION_ONE, None),
      (ICAL_UID_PROPERTY, ICAL_RESTRICTION_ONE, None), (ICAL_ATTACH_PROPERTY, ICAL_RESTRICTION_ZEROPLUS, None),
      (ICAL_ATTENDEE_PROPERTY, ICAL_RESTRICTION_ZEROPLUS, None),
      (ICAL_CATEGORIES_PROPERTY, ICAL_RESTRICTION_ZEROPLUS, None),
      (ICAL_CLASS_PROPERTY, ICAL_RESTRICTION_ZEROORONE, None),
      (ICAL_COMMENT_PROPERTY, ICAL_RESTRICTION_ZEROORONE, None),
      (ICAL_CONTACT_PROPERTY, ICAL_RESTRICTION_ZEROPLUS, None),
      (ICAL_CREATED_PROPERTY, ICAL_RESTRICTION_ZEROORONE, None),
      (ICAL_DESCRIPTION_PROPERTY, ICAL_RESTRICTION_ZEROORONE, None),
      (ICAL_DTSTART_PROPERTY, ICAL_RESTRICTION_ZEROORONE, None),
      (ICAL_DUE_PROPERTY, ICAL_RESTRICTION_ZEROORONE, None),
      (ICAL_DURATION_PROPERTY, ICAL_RESTRICTION_ZEROORONE, None),
      (ICAL_EXDATE_PROPERTY, ICAL_RESTRICTION_ZEROPLUS, None),
      (ICAL_EXRULE_PROPERTY, ICAL_RESTRICTION_ZEROPLUS, None),
      (ICAL_GEO_PROPERTY, ICAL_RESTRICTION_ZEROORONE, None),
      (ICAL_LASTMODIFIED_PROPERTY, ICAL_RESTRICTION_ZEROORONE, None),
      (ICAL_LOCATION_PROPERTY, ICAL_RESTRICTION_ZEROORONE, None),
      (ICAL_PERCENTCOMPLETE_PROPERTY, ICAL_RESTRICTION_ZEROORONE, None),
      (ICAL_RDATE_PROPERTY, ICAL_RESTRICTION_ZEROPLUS, None),
      (ICAL_RELATEDTO_PROPERTY, ICAL_RESTRICTION_ZEROPLUS, None),
      (ICAL_RESOURCES_PROPERTY, ICAL_RESTRICTION_ZEROORONE, None),
      (ICAL_RRULE_PROPERTY, ICAL_RESTRICTION_ZEROPLUS, None),
      (ICAL_STATUS_PROPERTY, ICAL_RESTRICTION_ZEROORONE, Some F_may_be_comp_need_process),
      (ICAL_URL_PROPERTY, ICAL_RESTRICTION_ZEROORONE, None), (ICAL_X_PROPERTY, ICAL_RESTRICTION_ZEROPLUS, None),
      (ICAL_RECURRENCEID_PROPERTY, ICAL_RESTRICTION_ZERO, Some F_must_be_recurring),
      (ICAL_REQUESTSTATUS_PROPERTY, ICAL_RESTRICTION_ZERO, None),
      (ICAL_RELCALID_PROPERTY, ICAL_RESTRICTION_ZEROORONE, None)]"

definition cancel_vtodo_properties :: "property_rows" where
  "cancel_vtodo_properties =
     [(ICAL_ATTENDEE_PROPERTY, ICAL_RESTRICTION_ZEROPLUS, None),
      (ICAL_UID_PROPERTY, ICAL_RESTRICTION_ONE, None), (ICAL_DTSTAMP_PROPERTY, ICAL_RESTRICTION_ONE, None),
      (ICAL_ORGANIZER_PROPERTY, ICAL_RESTRICTION_ONE, None),
      (ICAL_SEQUENCE_PROPERTY, ICAL_RESTRICTION_ONE, None),
      (ICAL_ATTACH_PROPERTY, ICAL_RESTRICTION_ZEROPLUS, None),
      (ICAL_CATEGORIES_PROPERTY, ICAL_RESTRICTION_ZEROPLUS, None),
      (ICAL_CLASS_PROPERTY, ICAL_RESTRICTION_ZEROORONE, None),
      (ICAL_COMMENT_PROPERTY, ICAL_RESTRICTION_ZEROORONE, None),
      (ICAL_CONTACT_PROPERTY, ICAL_RESTRICTION_ZEROPLUS, None),
      (ICAL_CREATED_PROPERTY, ICAL_RESTRICTION_ZEROORONE, None),
      (ICAL_DESCRIPTION_PROPERTY, ICAL_RESTRICTION_ZEROORONE, None),
      (ICAL_DTSTART_PROPERTY, ICAL_RESTRICTION_ZEROORONE, None),
      (ICAL_DUE_PROPERTY, ICAL_RESTRICTION_ZEROORONE, None),
      (ICAL_DURATION_PROPERTY, ICAL_RESTRICTION_ZEROORONE, None),
      (ICAL_EXDATE_PROPERTY, ICAL_RESTRICTION_ZEROPLUS, None),
      (ICAL_EXRULE_PROPERTY, ICAL_RESTRICTION_ZEROPLUS, None),
      (ICAL_GEO_PROPERTY, ICAL_RESTRICTION_ZEROORONE, None),
      (ICAL_LASTMODIFIED_PROPERTY, ICAL_RESTRICTION_ZEROORONE, None),
      (ICAL_LOCATION_PROPERTY, ICAL_RESTRICTION_ZEROORONE, None),
      (ICAL_PERCENTCOMPLETE_PROPERTY, ICAL_RESTRICTION_ZEROORONE, None),
      (ICAL_RDATE_PROPERTY, ICAL_RESTRICTION_ZEROPLUS, None),
      (ICAL_RECURRENCEID_PROPERTY, ICAL_RESTRICTION_ZEROORONE, Some F_must_be_recurring),
      (ICAL_RELATEDTO_PROPERTY, ICAL_RESTRICTION_ZEROPLUS, None),
      (ICAL_RESOURCES_PROPERTY, ICAL_RESTRICTION_ZEROORONE, None),
      (ICAL_RRULE_PROPERTY, ICAL_RESTRICTION_ZEROPLUS, None),
      (ICAL_PRIORITY_PROPERTY, ICAL_RESTRICTION_ZEROORONE, None),
      (ICAL_STATUS_PROPERTY, ICAL_RESTRICTION_ZEROORONE, Some F_must_be_canceled_no_attendee),
      (ICAL_URL_PROPERTY, ICAL_RESTRICTION_ZEROORONE, None), (ICAL_X_PROPERTY, ICAL_RESTRICTION_ZEROPLUS, None),
      (ICAL_REQUESTSTATUS_PROPERTY, ICAL_RESTRICTION_ZERO, None),
      (ICAL_RELCALID_PROPERTY, ICAL_RESTRICTION_ZEROORONE, None)]"

definition refresh_vtodo_properties :: "property_rows" where
  "refresh_vtodo_properties =
     [(ICAL_ATTENDEE_PROPERTY, ICAL_RESTRICTION_ONE, None), (ICAL_DTSTAMP_PROPERTY, ICAL_RESTRICTION_ONE, None),
      (ICAL_UID_PROPERTY, ICAL_RESTRICTION_ONE, None),
      (ICAL_RECURRENCEID_PROPERTY, ICAL_RESTRICTION_ZEROORONE, Some F_must_be_recurring),
      (ICAL_X_PROPERTY, ICAL_RESTRICTION_ZEROPLUS, None), (ICAL_ATTACH_PROPERTY, ICAL_RESTRICTION_ZERO, None),
      (ICAL_CATEGORIES_PROPERTY, ICAL_RESTRICTION_ZERO, None),
      (ICAL_CLASS_PROPERTY, ICAL_RESTRICTION_ZERO, None), (ICAL_COMMENT_PROPERTY, ICAL_RESTRICTION_ZERO, None),
      (ICAL_CONTACT_PROPERTY, ICAL_RESTRICTION_ZERO, None),
      (ICAL_CREATED_PROPERTY, ICAL_RESTRICTION_ZERO, None),
      (ICAL_DESCRIPTION_PROPERTY, ICAL_RESTRICTION_ZERO, None),
      (ICAL_DTSTART_PROPERTY, ICAL_RESTRICTION_ZERO, None), (ICAL_DUE_PROPERTY, ICAL_RESTRICTION_ZERO, None),
      (ICAL_DURATION_PROPERTY, ICAL_RESTRICTION_ZERO, None),
      (ICAL_EXDATE_PROPERTY, ICAL_RESTRICTION_ZERO, None), (ICAL_EXRULE_PROPERTY, ICAL_RESTRICTION_ZERO, None),
      (ICAL_GEO_PROPERTY, ICAL_RESTRICTION_ZERO, None),
      (ICAL_LASTMODIFIED_PROPERTY, ICAL_RESTRICTION_ZERO, None),
      (ICAL_LOCATION_PROPERTY, ICAL_RESTRICTION_ZERO, None),
      (ICAL_ORGANIZER_PROPERTY, ICAL_RESTRICTION_ZERO, None),
      (ICAL_PERCENTCOMPLETE_PROPERTY, ICAL_RESTRICTION_ZERO, None),
      (ICAL_PRIORITY_PROPERTY, ICAL_RESTRICTION_ZERO, None), (ICAL_RDATE_PROPERTY, ICAL_RESTRICTION_ZERO, None),
      (ICAL_RELATEDTO_PROPERTY, ICAL_RESTRICTION_ZERO, None),
      (ICAL_REQUESTSTATUS_PROPERTY, ICAL_RESTRICTION_ZERO, None),
      (ICAL_RESOURCES_PROPERTY, ICAL_RESTRICTION_ZERO, None),
      (ICAL_RRULE_PROPERTY, ICAL_RESTRICTION_ZERO, None), (ICAL_SEQUENCE_PROPERTY, ICAL_RESTRICTION_ZERO, None),
      (ICAL_STATUS_PROPERTY, ICAL_RESTRICTION_ZERO, None), (ICAL_URL_PROPERTY, ICAL_RESTRICTION_ZERO, None),
      (ICAL_RELCALID_PROPERTY, ICAL_RESTRICTION_ZEROORONE, None)]"

definition counter_vtodo_properties :: "property_rows" where
  "counter_vtodo_properties =
     [(ICAL_ATTENDEE_PROPERTY, ICAL_RESTRICTION_ONEPLUS, None),
      (ICAL_DTSTAMP_PROPERTY, ICAL_RESTRICTION_ONE, None),
      (ICAL_ORGANIZER_PROPERTY, ICAL_RESTRICTION_ONE, None),
      (ICAL_PRIORITY_PROPERTY, ICAL_RESTRICTION_ONE, None), (ICAL_SUMMARY_PROPERTY, ICAL_RESTRICTION_ONE, None),
      (ICAL_UID_PROPERTY, ICAL_RESTRICTION_ONE, None), (ICAL_ATTACH_PROPERTY, ICAL_RESTRICTION_ZEROPLUS, None),
      (ICAL_CATEGORIES_PROPERTY, ICAL_RESTRICTION_ZEROPLUS, None),
      (ICAL_CLASS_PROPERTY, ICAL_RESTRICTION_ZEROORONE, None),
      (ICAL_COMMENT_PROPERTY, ICAL_RESTRICTION_ZEROORONE, None),
      (ICAL_CONTACT_PROPERTY, ICAL_RESTRICTION_ZEROPLUS, None),
      (ICAL_CREATED_PROPERTY, ICAL_RESTRICTION_ZEROORONE, None),
      (ICAL_DESCRIPTION_PROPERTY, ICAL_RESTRICTION_ZEROORONE, None),
      (ICAL_DTSTART_PROPERTY, ICAL_RESTRICTION_ZEROORONE, None),
      (ICAL_DUE_PROPERTY, ICAL_RESTRICTION_ZEROORONE, None),
      (ICAL_DURATION_PROPERTY, ICAL_RESTRICTION_ZEROORONE, None),
      (ICAL_EXDATE_PROPERTY, ICAL_RESTRICTION_ZEROPLUS, None),
      (ICAL_EXRULE_PROPERTY, ICAL_RESTRICTION_ZEROPLUS, None),
      (ICAL_GEO_PROPERTY, ICAL_RESTRICTION_ZEROORONE, None),
      (ICAL_LASTMODIFIED_PROPERTY, ICAL_RESTRICTION_ZEROORONE, None),
      (ICAL_LOCATION_PROPERTY, ICAL_RESTRICTION_ZEROORONE, None),
      (ICAL_PERCENTCOMPLETE_PROPERTY, ICAL_RESTRICTION_ZEROORONE, None),
      (ICAL_RDATE_PROPERTY, ICAL_RESTRICTION_ZEROPLUS, None),
      (ICAL_RECURRENCEID_PROPERTY, ICAL_RESTRICTION_ZEROORONE, Some F_must_be_recurring),
      (ICAL_RELATEDTO_PROPERTY, ICAL_RESTRICTION_ZEROPLUS, None),
      (ICAL_REQUESTSTATUS_PROPERTY, ICAL_RESTRICTION_ZEROPLUS, None),
      (ICAL_RESOURCES_PROPERTY, ICAL_RESTRICTION_ZEROORONE, None),
      (ICAL_RRULE_PROPERTY, ICAL_RESTRICTION_ZEROORONE, None),
      (ICAL_SEQUENCE_PROPERTY, ICAL_RESTRICTION_ZEROORONE, None),
      (ICAL_STATUS_PROPERTY, ICAL_RESTRICTION_ZEROORONE, Some F_may_be_comp_need_process),
      (ICAL_URL_PROPERTY, ICAL_RESTRICTION_ZEROORONE, None), (ICAL_X_PROPERTY, ICAL_RESTRICTION_ZEROPLUS, None),
      (ICAL_RELCALID_PROPERTY, ICAL_RESTRICTION_ZEROORONE, None)]"

definition declinecounter_vtodo_properties :: "property_rows" where
  "declinecounter_vtodo_properties =
     [(ICAL_ATTENDEE_PROPERTY, ICAL_RESTRICTION_ONEPLUS, None),
      (ICAL_DTSTAMP_PROPERTY, ICAL_RESTRICTION_ONE, None),
      (ICAL_ORGANIZER_PROPERTY, ICAL_RESTRICTION_ONE, None),
      (ICAL_SEQUENCE_PROPERTY, ICAL_RESTRICTION_ONE, None), (ICAL_UID_PROPERTY, ICAL_RESTRICTION_ONE, None),
      (ICAL_ATTACH_PROPERTY, ICAL_RESTRICTION_ZEROPLUS, None),
      (ICAL_CATEGORIES_PROPERTY, ICAL_RESTRICTION_ZEROPLUS, None),
      (ICAL_CLASS_PROPERTY, ICAL_RESTRICTION_ZEROORONE, None),
      (ICAL_COMMENT_PROPERTY, ICAL_RESTRICTION_ZEROORONE, None),
      (ICAL_CONTACT_PROPERTY, ICAL_RESTRICTION_ZEROPLUS, None),
      (ICAL_CREATED_PROPERTY, ICAL_RESTRICTION_ZEROORONE, None),
      (ICAL_DESCRIPTION_PROPERTY, ICAL_RESTRICTION_ZEROORONE, None),
      (ICAL_DTSTART_PROPERTY, ICAL_RESTRICTION_ZEROORONE, None),
      (ICAL_DUE_PROPERTY, ICAL_RESTRICTION_ZEROORONE, None),
      (ICAL_DURATION_PROPERTY, ICAL_RESTRICTION_ZEROORONE, None),
      (ICAL_EXDATE_PROPERTY, ICAL_RESTRICTION_ZEROPLUS, None),
      (ICAL_EXRULE_PROPERTY, ICAL_RESTRICTION_ZEROPLUS, None),
      (ICAL_GEO_PROPERTY, ICAL_RESTRICTION_ZEROORONE, None),
      (ICAL_LASTMODIFIED_PROPERTY, ICAL_RESTRICTION_ZEROORONE, None),
      (ICAL_LOCATION_PROPERTY, ICAL_RESTRICTION_ZEROORONE, None),
      (ICAL_PERCENTCOMPLETE_PROPERTY, ICAL_RESTRICTION_ZEROORONE, None),
      (ICAL_PRIORITY_PROPERTY, ICAL_RESTRICTION_ZEROORONE, None),
      (ICAL_RDATE_PROPERTY, ICAL_RESTRICTION_ZEROPLUS, None),
      (ICAL_RECURRENCEID_PROPERTY, ICAL_RESTRICTION_ZEROORONE, Some F_must_be_recurring),
      (ICAL_RELATEDTO_PROPERTY, ICAL_RESTRICTION_ZEROPLUS, None),
      (ICAL_REQUESTSTATUS_PROPERTY, ICAL_RESTRICTION_ZEROPLUS, None),
      (ICAL_RESOURCES_PROPERTY, ICAL_RESTRICTION_ZEROORONE, None),
      (ICAL_RRULE_PROPERTY, ICAL_RESTRICTION_ZEROPLUS, None),
      (ICAL_STATUS_PROPERTY, ICAL_RESTRICTION_ZEROORONE, None),
      (ICAL_URL_PROPERTY, ICAL_RESTRICTION_ZEROORONE, None), (ICAL_X_PROPERTY, ICAL_RESTRICTION_ZEROPLUS, None),
      (ICAL_RELCALID_PROPERTY, ICAL_RESTRICTION_ZEROORONE, None)]"

definition publish_vjournal_properties :: "property_rows" where
  "publish_vjournal_properties =
     [(ICAL_DESCRIPTION_PROPERTY, ICAL_RESTRICTION_ONE, None),
      (ICAL_DTSTAMP_PROPERTY, ICAL_RESTRICTION_ONE, None), (ICAL_DTSTART_PROPERTY, ICAL_RESTRICTION_ONE, None),
      (ICAL_ORGANIZER_PROPERTY, ICAL_RESTRICTION_ONE, None), (ICAL_UID_PROPERTY, ICAL_RESTRICTION_ONE, None),
      (ICAL_ATTACH_PROPERTY, ICAL_RESTRICTION_ZEROPLUS, None),
      (ICAL_CATEGORIES_PROPERTY, ICAL_RESTRICTION_ZEROPLUS, None),
      (ICAL_CLASS_PROPERTY, ICAL_RESTRICTION_ZEROORONE, None),
      (ICAL_COMMENT_PROPERTY, ICAL_RESTRICTION_ZEROORONE, None),
      (ICAL_CONTACT_PROPERTY, ICAL_RESTRICTION_ZEROPLUS, None),
      (ICAL_CREATED_PROPERTY, ICAL_RESTRICTION_ZEROORONE, None),
      (ICAL_EXDATE_PROPERTY, ICAL_RESTRICTION_ZEROPLUS, None),
      (ICAL_EXRULE_PROPERTY, ICAL_RESTRICTION_ZEROPLUS, None),
      (ICAL_LASTMODIFIED_PROPERTY, ICAL_RESTRICTION_ZEROORONE, None),
      (ICAL_RDATE_PROPERTY, ICAL_RESTRICTION_ZEROPLUS, None),
      (ICAL_RECURRENCEID_PROPERTY, ICAL_RESTRICTION_ZEROORONE, Some F_must_be_recurring),
      (ICAL_RELATEDTO_PROPERTY, ICAL_RESTRICTION_ZEROPLUS, None),
      (ICAL_RRULE_PROPERTY, ICAL_RESTRICTION_ZEROPLUS, None),
      (ICAL_SEQUENCE_PROPERTY, ICAL_RESTRICTION_ZEROORONE, None),
      (ICAL_STATUS_PROPERTY, ICAL_RESTRICTION_ZEROORONE, Some F_may_be_draft_final_canceled),
      (ICAL_SUMMARY_PROPERTY, ICAL_RESTRICTION_ZEROORONE, None),
      (ICAL_URL_PROPERTY, ICAL_RESTRICTION_ZEROORONE, None), (ICAL_X_PROPERTY, ICAL_RESTRICTION_ZEROPLUS, None),
      (ICAL_ATTENDEE_PROPERTY, ICAL_RESTRICTION_ZERO, None)]"

definition add_vjournal_properties :: "property_rows" where
  "add_vjournal_properties =
     [(ICAL_DESCRIPTION_PROPERTY, ICAL_RESTRICTION_ONE, None),
      (ICAL_DTSTAMP_PROPERTY, ICAL_RESTRICTION_ONE, None), (ICAL_DTSTART_PROPERTY, ICAL_RESTRICTION_ONE, None),
      (ICAL_ORGANIZER_PROPERTY, ICAL_RESTRICTION_ONE, None),
      (ICAL_SEQUENCE_PROPERTY, ICAL_RESTRICTION_ONE, None), (ICAL_UID_PROPERTY, ICAL_RESTRICTION_ONE, None),
      (ICAL_ATTACH_PROPERTY, ICAL_RESTRICTION_ZEROPLUS, None),
      (ICAL_CATEGORIES_PROPERTY, ICAL_RESTRICTION_ZEROPLUS, None),
      (ICAL_CLASS_PROPERTY, ICAL_RESTRICTION_ZEROORONE, None),
      (ICAL_COMMENT_PROPERTY, ICAL_RESTRICTION_ZEROORONE, None),
      (ICAL_CONTACT_PROPERTY, ICAL_RESTRICTION_ZEROPLUS, None),
      (ICAL_CREATED_PROPERTY, ICAL_RESTRICTION_ZEROORONE, None),
      (ICAL_EXDATE_PROPERTY, ICAL_RESTRICTION_ZEROPLUS, None),
      (ICAL_EXRULE_PROPERTY, ICAL_RESTRICTION_ZEROPLUS, None),
      (ICAL_LASTMODIFIED_PROPERTY, ICAL_RESTRICTION_ZEROORONE, None),
      (ICAL_RDATE_PROPERTY, ICAL_RESTRICTION_ZEROPLUS, None),
      (ICAL_RELATEDTO_PROPERTY, ICAL_RESTRICTION_ZEROPLUS, None),
      (ICAL_RRULE_PROPERTY, ICAL_RESTRICTION_ZEROPLUS, None),
      (ICAL_STATUS_PROPERTY, ICAL_RESTRICTION_ZEROORONE, None),
      (ICAL_SUMMARY_PROPERTY, ICAL_RESTRICTION_ZEROORONE, None),
      (ICAL_URL_PROPERTY, ICAL_RESTRICTION_ZEROORONE, None), (ICAL_X_PROPERTY, ICAL_RESTRICTION_ZEROPLUS, None),
      (ICAL_ATTENDEE_PROPERTY, ICAL_RESTRICTION_ZERO, None),
      (ICAL_RECURRENCEID_PROPERTY, ICAL_RESTRICTION_ZERO, None)]"

definition cancel_vjournal_properties :: "property_rows" where
  "cancel_vjournal_properties =
     [(ICAL_DTSTAMP_PROPERTY, ICAL_RESTRICTION_ONE, None),
      (ICAL_ORGANIZER_PROPERTY, ICAL_RESTRICTION_ONE, None),
      (ICAL_SEQUENCE_PROPERTY, ICAL_RESTRICTION_ONE, None), (ICAL_UID_PROPERTY, ICAL_RESTRICTION_ONE, None),
      (ICAL_ATTACH_PROPERTY, ICAL_RESTRICTION_ZEROPLUS, None),
      (ICAL_ATTENDEE_PROPERTY, ICAL_RESTRICTION_ZEROPLUS, None),
      (ICAL_CATEGORIES_PROPERTY, ICAL_RESTRICTION_ZEROPLUS, None),
      (ICAL_CLASS_PROPERTY, ICAL_RESTRICTION_ZEROORONE, None),
      (ICAL_COMMENT_PROPERTY, ICAL_RESTRICTION_ZEROORONE, None),
      (ICAL_CONTACT_PROPERTY, ICAL_RESTRICTION_ZEROPLUS, None),
      (ICAL_CREATED_PROPERTY, ICAL_RESTRICTION_ZEROORONE, None),
      (ICAL_DESCRIPTION_PROPERTY, ICAL_RESTRICTION_ZEROORONE, None),
      (ICAL_DTSTART_PROPERTY, ICAL_RESTRICTION_ZEROORONE, None),
      (ICAL_EXDATE_PROPERTY, ICAL_RESTRICTION_ZEROPLUS, None),
      (ICAL_EXRULE_PROPERTY, ICAL_RESTRICTION_ZEROPLUS, None),
      (ICAL_LASTMODIFIED_PROPERTY, ICAL_RESTRICTION_ZEROORONE, None),
      (ICAL_RDATE_PROPERTY, ICAL_RESTRICTION_ZEROPLUS, None),
      (ICAL_RECURRENCEID_PROPERTY, ICAL_RESTRICTION_ZEROORONE, Some F_must_be_recurring),
      (ICAL_RELATEDTO_PROPERTY, ICAL_RESTRICTION_ZEROPLUS, None),
      (ICAL_RRULE_PROPERTY, ICAL_RESTRICTION_ZEROPLUS, None),
      (ICAL_STATUS_PROPERTY, ICAL_RESTRICTION_ZEROORONE, Some F_must_be_cancel_if_present),
      (ICAL_SUMMARY_PROPERTY, ICAL_RESTRICTION_ZEROORONE, None),
      (ICAL_URL_PROPERTY, ICAL_RESTRICTION_ZEROORONE, None), (ICAL_X_PROPERTY, ICAL_RESTRICTION_ZEROPLUS, None),
      (ICAL_REQUESTSTATUS_PROPERTY, ICAL_RESTRICTION_ZERO, None)]"

definition publish_vagenda_properties :: "property_rows" where
  "publish_vagenda_properties =
     [(ICAL_CALMASTER_PROPERTY, ICAL_RESTRICTION_ONE, None),
      (ICAL_OWNER_PROPERTY, ICAL_RESTRICTION_ZEROORONE, None),
      (ICAL_RELCALID_PROPERTY, ICAL_RESTRICTION_ZEROORONE, None),
      (ICAL_TZID_PROPERTY, ICAL_RESTRICTION_ONE, None)]"

definition request_vagenda_properties :: "property_rows" where
  "request_vagenda_properties =
     [(ICAL_CALMASTER_PROPERTY, ICAL_RESTRICTION_ONE, None),
      (ICAL_OWNER_PROPERTY, ICAL_RESTRICTION_ZEROORONE, None),
      (ICAL_RELCALID_PROPERTY, ICAL_RESTRICTION_ZEROORONE, None),
      (ICAL_TZID_PROPERTY, ICAL_RESTRICTION_ONE, None)]"

definition reply_vagenda_properties :: "property_rows" where
  "reply_vagenda_properties =
     [(ICAL_CALMASTER_PROPERTY, ICAL_RESTRICTION_ONE, None),
      (ICAL_OWNER_PROPERTY, ICAL_RESTRICTION_ZEROORONE, None),
      (ICAL_RELCALID_PROPERTY, ICAL_RESTRICTION_ZEROORONE, None),
      (ICAL_TZID_PROPERTY, ICAL_RESTRICTION_ONE, None)]"

definition add_vagenda_properties :: "property_rows" where
  "add_vagenda_properties =
     [(ICAL_CALMASTER_PROPERTY, ICAL_RESTRICTION_ONE, None),
      (ICAL_OWNER_PROPERTY, ICAL_RESTRICTION_ZEROORONE, None),
      (ICAL_RELCALID_PROPERTY, ICAL_RESTRICTION_ZEROORONE, None),
      (ICAL_TZID_PROPERTY, ICAL_RESTRICTION_ONE, None)]"

definition cancel_vagenda_properties :: "property_rows" where
  "cancel_vagenda_properties =
     [(ICAL_CALMASTER_PROPERTY, ICAL_RESTRICTION_ONE, None),
      (ICAL_OWNER_PROPERTY, ICAL_RESTRICTION_ZEROORONE, None),
      (ICAL_RELCALID_PROPERTY, ICAL_RESTRICTION_ZEROORONE, None),
      (ICAL_TZID_PROPERTY, ICAL_RESTRICTION_ONE, None)]"

definition refresh_vagenda_properties :: "property_rows" where
  "refresh_vagenda_properties =
     [(ICAL_CALMASTER_PROPERTY, ICAL_RESTRICTION_ONE, None),
      (ICAL_OWNER_PROPERTY, ICAL_RESTRICTION_ZEROORONE, None),
      (ICAL_RELCALID_PROPERTY, ICAL_RESTRICTION_ZEROORONE, None),
      (ICAL_TZID_PROPERTY, ICAL_RESTRICTION_ONE, None)]"

definition counter_vagenda_properties :: "property_rows" where
  "counter_vagenda_properties =
     [(ICAL_CALMASTER_PROPERTY, ICAL_RESTRICTION_ONE, None),
      (ICAL_OWNER_PROPERTY, ICAL_RESTRICTION_ZEROORONE, None),
      (ICAL_RELCALID_PROPERTY, ICAL_RESTRICTION_ZEROORONE, None),
      (ICAL_TZID_PROPERTY, ICAL_RESTRICTION_ONE, None)]"

definition declinecounter_vagenda_properties :: "property_rows" where
  "declinecounter_vagenda_properties =
     [(ICAL_CALMASTER_PROPERTY, ICAL_RESTRICTION_ONE, None),
      (ICAL_OWNER_PROPERTY, ICAL_RESTRICTION_ZEROORONE, None),
      (ICAL_RELCALID_PROPERTY, ICAL_RESTRICTION_ZEROORONE, None),
      (ICAL_TZID_PROPERTY, ICAL_RESTRICTION_ONE, None)]"

definition none_vagenda_properties :: "property_rows" where
  "none_vagenda_properties =
     [(ICAL_ALLOWCONFLICT_PROPERTY, ICAL_RESTRICTION_ONE, None),
      (ICAL_CALMASTER_PROPERTY, ICAL_RESTRICTION_ONE, None),
      (ICAL_OWNER_PROPERTY, ICAL_RESTRICTION_ZEROORONE, None),
      (ICAL_RELCALID_PROPERTY, ICAL_RESTRICTION_ZEROORONE, None),
      (ICAL_TZID_PROPERTY, ICAL_RESTRICTION_ONE, None),
      (ICAL_DEFAULTCHARSET_PROPERTY, ICAL_RESTRICTION_ONE, None),
      (ICAL_DEFAULTLOCALE_PROPERTY, ICAL_RESTRICTION_ONE, None),
      (ICAL_DEFAULTTZID_PROPERTY, ICAL_RESTRICTION_ONE, None)]"

definition none_vcalendar_properties :: "property_rows" where
  "none_vcalendar_properties =
     [(ICAL_ACTION_PROPERTY, ICAL_RESTRICTION_ZERO, None), (ICAL_ATTACH_PROPERTY, ICAL_RESTRICTION_ZERO, None),
      (ICAL_ATTENDEE_PROPERTY, ICAL_RESTRICTION_ZERO, None),
      (ICAL_RELCALID_PROPERTY, ICAL_RESTRICTION_ZEROORONE, None),
      (ICAL_CALSCALE_PROPERTY, ICAL_RESTRICTION_ZEROORONE, None),
      (ICAL_CATEGORIES_PROPERTY, ICAL_RESTRICTION_ZERO, None),
      (ICAL_CLASS_PROPERTY, ICAL_RESTRICTION_ZERO, None), (ICAL_COMMENT_PROPERTY, ICAL_RESTRICTION_ZERO, None),
      (ICAL_COMPLETED_PROPERTY, ICAL_RESTRICTION_ZERO, None),
      (ICAL_CONTACT_PROPERTY, ICAL_RESTRICTION_ZERO, None),
      (ICAL_CREATED_PROPERTY, ICAL_RESTRICTION_ZERO, None),
      (ICAL_DESCRIPTION_PROPERTY, ICAL_RESTRICTION_ZERO, None),
      (ICAL_DTEND_PROPERTY, ICAL_RESTRICTION_ZERO, None), (ICAL_DTSTAMP_PROPERTY, ICAL_RESTRICTION_ZERO, None),
      (ICAL_DTSTART_PROPERTY, ICAL_RESTRICTION_ZERO, None), (ICAL_DUE_PROPERTY, ICAL_RESTRICTION_ZERO, None),
      (ICAL_DURATION_PROPERTY, ICAL_RESTRICTION_ZERO, None),
      (ICAL_EXDATE_PROPERTY, ICAL_RESTRICTION_ZERO, None), (ICAL_EXRULE_PROPERTY, ICAL_RESTRICTION_ZERO, None),
      (ICAL_FREEBUSY_PROPERTY, ICAL_RESTRICTION_ZERO, None), (ICAL_GEO_PROPERTY, ICAL_RESTRICTION_ZERO, None),
      (ICAL_LASTMODIFIED_PROPERTY, ICAL_RESTRICTION_ZERO, None),
      (ICAL_LOCATION_PROPERTY, ICAL_RESTRICTION_ZERO, None),
      (ICAL_METHOD_PROPERTY, ICAL_RESTRICTION_ZEROORONE, None),
      (ICAL_ORGANIZER_PROPERTY, ICAL_RESTRICTION_ZERO, None),
      (ICAL_PERCENTCOMPLETE_PROPERTY, ICAL_RESTRICTION_ZERO, None),
      (ICAL_PRIORITY_PROPERTY, ICAL_RESTRICTION_ZERO, None), (ICAL_PRODID_PROPERTY, ICAL_RESTRICTION_ONE, None),
      (ICAL_RDATE_PROPERTY, ICAL_RESTRICTION_ZERO, None),
      (ICAL_RECURRENCEID_PROPERTY, ICAL_RESTRICTION_ZERO, None),
      (ICAL_RELATEDTO_PROPERTY, ICAL_RESTRICTION_ZERO, None),
      (ICAL_REPEAT_PROPERTY, ICAL_RESTRICTION_ZERO, None),
      (ICAL_REQUESTSTATUS_PROPERTY, ICAL_RESTRICTION_ZERO, None),
      (ICAL_RESOURCES_PROPERTY, ICAL_RESTRICTION_ZERO, None),
      (ICAL_RRULE_PROPERTY, ICAL_RESTRICTION_ZERO, None), (ICAL_SEQUENCE_PROPERTY, ICAL_RESTRICTION_ZERO, None),
      (ICAL_STATUS_PROPERTY, ICAL_RESTRICTION_ZERO, None), (ICAL_SUMMARY_PROPERTY, ICAL_RESTRICTION_ZERO, None),
      (ICAL_TRANSP_PROPERTY, ICAL_RESTRICTION_ZERO, None), (ICAL_TRIGGER_PROPERTY, ICAL_RESTRICTION_ZERO, None),
      (ICAL_TZID_PROPERTY, ICAL_RESTRICTION_ZERO, None), (ICAL_TZNAME_PROPERTY, ICAL_RESTRICTION_ZERO, None),
      (ICAL_TZOFFSETFROM_PROPERTY, ICAL_RESTRICTION_ZERO, None),
      (ICAL_TZOFFSETTO_PROPERTY, ICAL_RESTRICTION_ZERO, None),
      (ICAL_TZURL_PROPERTY, ICAL_RESTRICTION_ZERO, None), (ICAL_UID_PROPERTY, ICAL_RESTRICTION_ZERO, None),
      (ICAL_URL_PROPERTY, ICAL_RESTRICTION_ZERO, None), (ICAL_VERSION_PROPERTY, ICAL_RESTRICTION_ONE, None),
      (ICAL_X_PROPERTY, ICAL_RESTRICTION_ZEROPLUS, None)]"

definition none_vevent_properties :: "property_rows" where
  "none_vevent_properties =
     [(ICAL_ACTION_PROPERTY, ICAL_RESTRICTION_ZERO, None),
      (ICAL_ATTACH_PROPERTY, ICAL_RESTRICTION_ZEROPLUS, None),
      (ICAL_ATTENDEE_PROPERTY, ICAL_RESTRICTION_ZEROPLUS, None),
      (ICAL_CALSCALE_PROPERTY, ICAL_RESTRICTION_ZERO, None),
      (ICAL_CATEGORIES_PROPERTY, ICAL_RESTRICTION_ZEROPLUS, None),
      (ICAL_CLASS_PROPERTY, ICAL_RESTRICTION_ZEROORONE, None),
      (ICAL_COMMENT_PROPERTY, ICAL_RESTRICTION_ZEROPLUS, None),
      (ICAL_COMPLETED_PROPERTY, ICAL_RESTRICTION_ZERO, None),
      (ICAL_CONTACT_PROPERTY, ICAL_RESTRICTION_ZEROPLUS, None),
      (ICAL_CREATED_PROPERTY, ICAL_RESTRICTION_ZEROORONE, None),
      (ICAL_DESCRIPTION_PROPERTY, ICAL_RESTRICTION_ZEROORONE, None),
      (ICAL_DTEND_PROPERTY, ICAL_RESTRICTION_ONEEXCLUSIVE, Some F_no_duration),
      (ICAL_DTSTAMP_PROPERTY, ICAL_RESTRICTION_ZEROORONE, None),
      (ICAL_DTSTART_PROPERTY, ICAL_RESTRICTION_ZEROORONE, None),
      (ICAL_DUE_PROPERTY, ICAL_RESTRICTION_ZERO, None),
      (ICAL_DURATION_PROPERTY, ICAL_RESTRICTION_ONEEXCLUSIVE, Some F_no_dtend),
      (ICAL_EXDATE_PROPERTY, ICAL_RESTRICTION_ZEROPLUS, None),
      (ICAL_EXRULE_PROPERTY, ICAL_RESTRICTION_ZEROPLUS, None),
      (ICAL_FREEBUSY_PROPERTY, ICAL_RESTRICTION_ZERO, None),
      (ICAL_GEO_PROPERTY, ICAL_RESTRICTION_ZEROORONE, None),
      (ICAL_LASTMODIFIED_PROPERTY, ICAL_RESTRICTION_ZEROORONE, None),
      (ICAL_LOCATION_PROPERTY, ICAL_RESTRICTION_ZEROORONE, None),
      (ICAL_METHOD_PROPERTY, ICAL_RESTRICTION_ZERO, None),
      (ICAL_ORGANIZER_PROPERTY, ICAL_RESTRICTION_ZEROORONE, None),
      (ICAL_PERCENTCOMPLETE_PROPERTY, ICAL_RESTRICTION_ZERO, None),
      (ICAL_PRIORITY_PROPERTY, ICAL_RESTRICTION_ZEROORONE, None),
      (ICAL_PRODID_PROPERTY, ICAL_RESTRICTION_ZERO, None),
      (ICAL_RDATE_PROPERTY, ICAL_RESTRICTION_ZEROPLUS, None),
      (ICAL_RECURRENCEID_PROPERTY, ICAL_RESTRICTION_ZEROORONE, Some F_must_be_recurring),
      (ICAL_RELATEDTO_PROPERTY, ICAL_RESTRICTION_ZEROPLUS, None),
      (ICAL_REPEAT_PROPERTY, ICAL_RESTRICTION_ZERO, None),
      (ICAL_REQUESTSTATUS_PROPERTY, ICAL_RESTRICTION_ZEROPLUS, None),
      (ICAL_RESOURCES_PROPERTY, ICAL_RESTRICTION_ZEROPLUS, None),
      (ICAL_RRULE_PROPERTY, ICAL_RESTRICTION_ZEROPLUS, None),
      (ICAL_SEQUENCE_PROPERTY, ICAL_RESTRICTION_ZEROORONE, None),
      (ICAL_STATUS_PROPERTY, ICAL_RESTRICTION_ZEROORONE, None),
      (ICAL_SUMMARY_PROPERTY, ICAL_RESTRICTION_ZEROORONE, None),
      (ICAL_TRANSP_PROPERTY, ICAL_RESTRICTION_ZEROORONE, None),
      (ICAL_TRIGGER_PROPERTY, ICAL_RESTRICTION_ZERO, None), (ICAL_TZID_PROPERTY, ICAL_RESTRICTION_ZERO, None),
      (ICAL_TZNAME_PROPERTY, ICAL_RESTRICTION_ZERO, None),
      (ICAL_TZOFFSETFROM_PROPERTY, ICAL_RESTRICTION_ZERO, None),
      (ICAL_TZOFFSETTO_PROPERTY, ICAL_RESTRICTION_ZERO, None),
      (ICAL_TZURL_PROPERTY, ICAL_RESTRICTION_ZERO, None), (ICAL_UID_PROPERTY, ICAL_RESTRICTION_ZEROORONE, None),
      (ICAL_URL_PROPERTY, ICAL_RESTRICTION_ZEROORONE, None),
      (ICAL_VERSION_PROPERTY, ICAL_RESTRICTION_ZERO, None), (ICAL_X_PROPERTY, ICAL_RESTRICTION_ZEROPLUS, None),
      (ICAL_RELCALID_PROPERTY, ICAL_RESTRICTION_ZEROORONE, None)]"

definition none_vtodo_properties :: "property_rows" where
  "none_vtodo_properties =
     [(ICAL_ACTION_PROPERTY, ICAL_RESTRICTION_ZERO, None),
      (ICAL_ATTACH_PROPERTY, ICAL_RESTRICTION_ZEROPLUS, None),
      (ICAL_ATTENDEE_PROPERTY, ICAL_RESTRICTION_ZEROPLUS, None),
      (ICAL_CALSCALE_PROPERTY, ICAL_RESTRICTION_ZERO, None),
      (ICAL_CATEGORIES_PROPERTY, ICAL_RESTRICTION_ZEROPLUS, None),
      (ICAL_CLASS_PROPERTY, ICAL_RESTRICTION_ZEROORONE, None),
      (ICAL_COMMENT_PROPERTY, ICAL_RESTRICTION_ZEROPLUS, None),
      (ICAL_COMPLETED_PROPERTY, ICAL_RESTRICTION_ZEROORONE, None),
      (ICAL_CONTACT_PROPERTY, ICAL_RESTRICTION_ZEROPLUS, None),
      (ICAL_CREATED_PROPERTY, ICAL_RESTRICTION_ZEROORONE, None),
      (ICAL_DESCRIPTION_PROPERTY, ICAL_RESTRICTION_ZEROORONE, None),
      (ICAL_DTEND_PROPERTY, ICAL_RESTRICTION_ZERO, None),
      (ICAL_DTSTAMP_PROPERTY, ICAL_RESTRICTION_ZEROORONE, None),
      (ICAL_DTSTART_PROPERTY, ICAL_RESTRICTION_ZEROORONE, None),
      (ICAL_DUE_PROPERTY, ICAL_RESTRICTION_ONEEXCLUSIVE, None),
      (ICAL_DURATION_PROPERTY, ICAL_RESTRICTION_ONEEXCLUSIVE, None),
      (ICAL_EXDATE_PROPERTY, ICAL_RESTRICTION_ZEROPLUS, None),
      (ICAL_EXRULE_PROPERTY, ICAL_RESTRICTION_ZEROPLUS, None),
      (ICAL_FREEBUSY_PROPERTY, ICAL_RESTRICTION_ZERO, None),
      (ICAL_GEO_PROPERTY, ICAL_RESTRICTION_ZEROORONE, None),
      (ICAL_LASTMODIFIED_PROPERTY, ICAL_RESTRICTION_ZEROORONE, None),
      (ICAL_LOCATION_PROPERTY, ICAL_RESTRICTION_ZEROORONE, None),
      (ICAL_METHOD_PROPERTY, ICAL_RESTRICTION_ZERO, None),
      (ICAL_ORGANIZER_PROPERTY, ICAL_RESTRICTION_ZEROORONE, None),
      (ICAL_PERCENTCOMPLETE_PROPERTY, ICAL_RESTRICTION_ZEROORONE, None),
      (ICAL_PRIORITY_PROPERTY, ICAL_RESTRICTION_ZEROORONE, None),
      (ICAL_PRODID_PROPERTY, ICAL_RESTRICTION_ZERO, None),
      (ICAL_RDATE_PROPERTY, ICAL_RESTRICTION_ZEROPLUS, None),
      (ICAL_RECURRENCEID_PROPERTY, ICAL_RESTRICTION_ZEROORONE, Some F_must_be_recurring),
      (ICAL_RELATEDTO_PROPERTY, ICAL_RESTRICTION_ZEROPLUS, None),
      (ICAL_REPEAT_PROPERTY, ICAL_RESTRICTION_ZERO, None),
      (ICAL_REQUESTSTATUS_PROPERTY, ICAL_RESTRICTION_ZEROPLUS, None),
      (ICAL_RESOURCES_PROPERTY, ICAL_RESTRICTION_ZEROPLUS, None),
      (ICAL_RRULE_PROPERTY, ICAL_RESTRICTION_ZEROPLUS, None),
      (ICAL_SEQUENCE_PROPERTY, ICAL_RESTRICTION_ZEROORONE, None),
      (ICAL_STATUS_PROPERTY, ICAL_RESTRICTION_ZEROORONE, None),
      (ICAL_SUMMARY_PROPERTY, ICAL_RESTRICTION_ZEROORONE, None),
      (ICAL_TRANSP_PROPERTY, ICAL_RESTRICTION_ZERO, None), (ICAL_TRIGGER_PROPERTY, ICAL_RESTRICTION_ZERO, None),
      (ICAL_TZID_PROPERTY, ICAL_RESTRICTION_ZERO, None), (ICAL_TZNAME_PROPERTY, ICAL_RESTRICTION_ZERO, None),
      (ICAL_TZOFFSETFROM_PROPERTY, ICAL_RESTRICTION_ZERO, None),
      (ICAL_TZOFFSETTO_PROPERTY, ICAL_RESTRICTION_ZERO, None),
      (ICAL_TZURL_PROPERTY, ICAL_RESTRICTION_ZERO, None), (ICAL_UID_PROPERTY, ICAL_RESTRICTION_ZEROORONE, None),
      (ICAL_URL_PROPERTY, ICAL_RESTRICTION_ZEROORONE, None),
      (ICAL_VERSION_PROPERTY, ICAL_RESTRICTION_ZERO, None), (ICAL_X_PROPERTY, ICAL_RESTRICTION_ZEROPLUS, None),
      (ICAL_RELCALID_PROPERTY, ICAL_RESTRICTION_ZEROORONE, None)]"

definition none_vjournal_properties :: "property_rows" where
  "none_vjournal_properties =
     [(ICAL_ACTION_PROPERTY, ICAL_RESTRICTION_ZERO, None),
      (ICAL_ATTACH_PROPERTY, ICAL_RESTRICTION_ZEROPLUS, None),
      (ICAL_ATTENDEE_PROPERTY, ICAL_RESTRICTION_ZEROPLUS, None),
      (ICAL_CALSCALE_PROPERTY, ICAL_RESTRICTION_ZERO, None),
      (ICAL_CATEGORIES_PROPERTY, ICAL_RESTRICTION_ZEROPLUS, None),
      (ICAL_CLASS_PROPERTY, ICAL_RESTRICTION_ZEROORONE, None),
      (ICAL_COMMENT_PROPERTY, ICAL_RESTRICTION_ZEROPLUS, None),
      (ICAL_COMPLETED_PROPERTY, ICAL_RESTRICTION_ZERO, None),
      (ICAL_CONTACT_PROPERTY, ICAL_RESTRICTION_ZEROPLUS, None),
      (ICAL_CREATED_PROPERTY, ICAL_RESTRICTION_ZEROORONE, None),
      (ICAL_DESCRIPTION_PROPERTY, ICAL_RESTRICTION_ZEROORONE, None),
      (ICAL_DTEND_PROPERTY, ICAL_RESTRICTION_ZERO, None),
      (ICAL_DTSTAMP_PROPERTY, ICAL_RESTRICTION_ZEROORONE, None),
      (ICAL_DTSTART_PROPERTY, ICAL_RESTRICTION_ZEROORONE, None),
      (ICAL_DUE_PROPERTY, ICAL_RESTRICTION_ONEEXCLUSIVE, None),
      (ICAL_DURATION_PROPERTY, ICAL_RESTRICTION_ONEEXCLUSIVE, None),
      (ICAL_EXDATE_PROPERTY, ICAL_RESTRICTION_ZEROPLUS, None),
      (ICAL_EXRULE_PROPERTY, ICAL_RESTRICTION_ZEROPLUS, None),
      (ICAL_FREEBUSY_PROPERTY, ICAL_RESTRICTION_ZERO, None), (ICAL_GEO_PROPERTY, ICAL_RESTRICTION_ZERO, None),
      (ICAL_LASTMODIFIED_PROPERTY, ICAL_RESTRICTION_ZEROORONE, None),
      (ICAL_LOCATION_PROPERTY, ICAL_RESTRICTION_ZERO, None),
      (ICAL_METHOD_PROPERTY, ICAL_RESTRICTION_ZERO, None),
      (ICAL_ORGANIZER_PROPERTY, ICAL_RESTRICTION_ZEROORONE, None),
      (ICAL_PERCENTCOMPLETE_PROPERTY, ICAL_RESTRICTION_ZERO, None),
      (ICAL_PRIORITY_PROPERTY, ICAL_RESTRICTION_ZERO, None),
      (ICAL_PRODID_PROPERTY, ICAL_RESTRICTION_ZERO, None),
      (ICAL_RDATE_PROPERTY, ICAL_RESTRICTION_ZEROPLUS, None),
      (ICAL_RECURRENCEID_PROPERTY, ICAL_RESTRICTION_ZEROORONE, Some F_must_be_recurring),
      (ICAL_RELATEDTO_PROPERTY, ICAL_RESTRICTION_ZEROPLUS, None),
      (ICAL_REPEAT_PROPERTY, ICAL_RESTRICTION_ZERO, None),
      (ICAL_REQUESTSTATUS_PROPERTY, ICAL_RESTRICTION_ZEROPLUS, None),
      (ICAL_RESOURCES_PROPERTY, ICAL_RESTRICTION_ZERO, None),
      (ICAL_RRULE_PROPERTY, ICAL_RESTRICTION_ZEROPLUS, None),
      (ICAL_SEQUENCE_PROPERTY, ICAL_RESTRICTION_ZEROORONE, None),
      (ICAL_STATUS_PROPERTY, ICAL_RESTRICTION_ZEROORONE, None),
      (ICAL_SUMMARY_PROPERTY, ICAL_RESTRICTION_ZEROORONE, None),
      (ICAL_TRANSP_PROPERTY, ICAL_RESTRICTION_ZERO, None), (ICAL_TRIGGER_PROPERTY, ICAL_RESTRICTION_ZERO, None),
      (ICAL_TZID_PROPERTY, ICAL_RESTRICTION_ZERO, None), (ICAL_TZNAME_PROPERTY, ICAL_RESTRICTION_ZERO, None),
      (ICAL_TZOFFSETFROM_PROPERTY, ICAL_RESTRICTION_ZERO, None),
      (ICAL_TZOFFSETTO_PROPERTY, ICAL_RESTRICTION_ZERO, None),
      (ICAL_TZURL_PROPERTY, ICAL_RESTRICTION_ZERO, None), (ICAL_UID_PROPERTY, ICAL_RESTRICTION_ZEROORONE, None),
      (ICAL_URL_PROPERTY, ICAL_RESTRICTION_ZEROORONE, None),
      (ICAL_VERSION_PROPERTY, ICAL_RESTRICTION_ZERO, None), (ICAL_X_PROPERTY, ICAL_RESTRICTION_ZEROPLUS, None)]"

definition none_vfreebusy_properties :: "property_rows" where
  "none_vfreebusy_properties =
     [(ICAL_ACTION_PROPERTY, ICAL_RESTRICTION_ZERO, None), (ICAL_ATTACH_PROPERTY, ICAL_RESTRICTION_ZERO, None),
      (ICAL_ATTENDEE_PROPERTY, ICAL_RESTRICTION_ZEROPLUS, None),
      (ICAL_CALSCALE_PROPERTY, ICAL_RESTRICTION_ZERO, None),
      (ICAL_CATEGORIES_PROPERTY, ICAL_RESTRICTION_ZERO, None),
      (ICAL_CLASS_PROPERTY, ICAL_RESTRICTION_ZERO, None),
      (ICAL_COMMENT_PROPERTY, ICAL_RESTRICTION_ZEROPLUS, None),
      (ICAL_COMPLETED_PROPERTY, ICAL_RESTRICTION_ZERO, None),
      (ICAL_CONTACT_PROPERTY, ICAL_RESTRICTION_ZEROORONE, None),
      (ICAL_CREATED_PROPERTY, ICAL_RESTRICTION_ZERO, None),
      (ICAL_DESCRIPTION_PROPERTY, ICAL_RESTRICTION_ZERO, None),
      (ICAL_DTEND_PROPERTY, ICAL_RESTRICTION_ZEROORONE, None),
      (ICAL_DTSTAMP_PROPERTY, ICAL_RESTRICTION_ZERO, None),
      (ICAL_DTSTART_PROPERTY, ICAL_RESTRICTION_ZEROORONE, None),
      (ICAL_DUE_PROPERTY, ICAL_RESTRICTION_ZERO, None),
      (ICAL_DURATION_PROPERTY, ICAL_RESTRICTION_ZEROORONE, None),
      (ICAL_EXDATE_PROPERTY, ICAL_RESTRICTION_ZERO, None), (ICAL_EXRULE_PROPERTY, ICAL_RESTRICTION_ZERO, None),
      (ICAL_FREEBUSY_PROPERTY, ICAL_RESTRICTION_ZEROPLUS, None),
      (ICAL_GEO_PROPERTY, ICAL_RESTRICTION_ZERO, None),
      (ICAL_LASTMODIFIED_PROPERTY, ICAL_RESTRICTION_ZERO, None),
      (ICAL_LOCATION_PROPERTY, ICAL_RESTRICTION_ZERO, None),
      (ICAL_METHOD_PROPERTY, ICAL_RESTRICTION_ZERO, None),
      (ICAL_ORGANIZER_PROPERTY, ICAL_RESTRICTION_ZEROORONE, None),
      (ICAL_PERCENTCOMPLETE_PROPERTY, ICAL_RESTRICTION_ZERO, None),
      (ICAL_PRIORITY_PROPERTY, ICAL_RESTRICTION_ZERO, None),
      (ICAL_PRODID_PROPERTY, ICAL_RESTRICTION_ZERO, None), (ICAL_RDATE_PROPERTY, ICAL_RESTRICTION_ZERO, None),
      (ICAL_RECURRENCEID_PROPERTY, ICAL_RESTRICTION_ZERO, None),
      (ICAL_RELATEDTO_PROPERTY, ICAL_RESTRICTION_ZERO, None),
      (ICAL_REPEAT_PROPERTY, ICAL_RESTRICTION_ZERO, None),
      (ICAL_REQUESTSTATUS_PROPERTY, ICAL_RESTRICTION_ZEROPLUS, None),
      (ICAL_RESOURCES_PROPERTY, ICAL_RESTRICTION_ZERO, None),
      (ICAL_RRULE_PROPERTY, ICAL_RESTRICTION_ZERO, None), (ICAL_SEQUENCE_PROPERTY, ICAL_RESTRICTION_ZERO, None),
      (ICAL_STATUS_PROPERTY, ICAL_RESTRICTION_ZERO, None), (ICAL_SUMMARY_PROPERTY, ICAL_RESTRICTION_ZERO, None),
      (ICAL_TRANSP_PROPERTY, ICAL_RESTRICTION_ZERO, None), (ICAL_TRIGGER_PROPERTY, ICAL_RESTRICTION_ZERO, None),
      (ICAL_TZID_PROPERTY, ICAL_RESTRICTION_ZERO, None), (ICAL_TZNAME_PROPERTY, ICAL_RESTRICTION_ZERO, None),
      (ICAL_TZOFFSETFROM_PROPERTY, ICAL_RESTRICTION_ZERO, None),
      (ICAL_TZOFFSETTO_PROPERTY, ICAL_RESTRICTION_ZERO, None),
      (ICAL_TZURL_PROPERTY, ICAL_RESTRICTION_ZERO, None), (ICAL_UID_PROPERTY, ICAL_RESTRICTION_ZEROORONE, None),
      (ICAL_URL_PROPERTY, ICAL_RESTRICTION_ZEROORONE, None),
      (ICAL_VERSION_PROPERTY, ICAL_RESTRICTION_ZERO, None), (ICAL_X_PROPERTY, ICAL_RESTRICTION_ZEROPLUS, None)]"

definition none_vtimezone_properties :: "property_rows" where
  "none_vtimezone_properties =
     [(ICAL_ACTION_PROPERTY, ICAL_RESTRICTION_ZERO, None), (ICAL_ATTACH_PROPERTY, ICAL_RESTRICTION_ZERO, None),
      (ICAL_ATTENDEE_PROPERTY, ICAL_RESTRICTION_ZERO, None),
      (ICAL_CALSCALE_PROPERTY, ICAL_RESTRICTION_ZERO, None),
      (ICAL_CATEGORIES_PROPERTY, ICAL_RESTRICTION_ZERO, None),
      (ICAL_CLASS_PROPERTY, ICAL_RESTRICTION_ZERO, None), (ICAL_COMMENT_PROPERTY, ICAL_RESTRICTION_ZERO, None),
      (ICAL_COMPLETED_PROPERTY, ICAL_RESTRICTION_ZERO, None),
      (ICAL_CONTACT_PROPERTY, ICAL_RESTRICTION_ZERO, None),
      (ICAL_CREATED_PROPERTY, ICAL_RESTRICTION_ZERO, None),
      (ICAL_DESCRIPTION_PROPERTY, ICAL_RESTRICTION_ZERO, None),
      (ICAL_DTEND_PROPERTY, ICAL_RESTRICTION_ZERO, None), (ICAL_DTSTAMP_PROPERTY, ICAL_RESTRICTION_ZERO, None),
      (ICAL_DTSTART_PROPERTY, ICAL_RESTRICTION_ZERO, None), (ICAL_DUE_PROPERTY, ICAL_RESTRICTION_ZERO, None),
      (ICAL_DURATION_PROPERTY, ICAL_RESTRICTION_ZERO, None),
      (ICAL_EXDATE_PROPERTY, ICAL_RESTRICTION_ZERO, None), (ICAL_EXRULE_PROPERTY, ICAL_RESTRICTION_ZERO, None),
      (ICAL_FREEBUSY_PROPERTY, ICAL_RESTRICTION_ZERO, None), (ICAL_GEO_PROPERTY, ICAL_RESTRICTION_ZERO, None),
      (ICAL_LASTMODIFIED_PROPERTY, ICAL_RESTRICTION_ZEROORONE, None),
      (ICAL_LOCATION_PROPERTY, ICAL_RESTRICTION_ZERO, None),
      (ICAL_METHOD_PROPERTY, ICAL_RESTRICTION_ZERO, None),
      (ICAL_ORGANIZER_PROPERTY, ICAL_RESTRICTION_ZERO, None),
      (ICAL_PERCENTCOMPLETE_PROPERTY, ICAL_RESTRICTION_ZERO, None),
      (ICAL_PRIORITY_PROPERTY, ICAL_RESTRICTION_ZERO, None),
      (ICAL_PRODID_PROPERTY, ICAL_RESTRICTION_ZERO, None), (ICAL_RDATE_PROPERTY, ICAL_RESTRICTION_ZERO, None),
      (ICAL_RECURRENCEID_PROPERTY, ICAL_RESTRICTION_ZERO, None),
      (ICAL_RELATEDTO_PROPERTY, ICAL_RESTRICTION_ZERO, None),
      (ICAL_REPEAT_PROPERTY, ICAL_RESTRICTION_ZERO, None),
      (ICAL_REQUESTSTATUS_PROPERTY, ICAL_RESTRICTION_ZERO, None),
      (ICAL_RESOURCES_PROPERTY, ICAL_RESTRICTION_ZERO, None),
      (ICAL_RRULE_PROPERTY, ICAL_RESTRICTION_ZERO, None), (ICAL_SEQUENCE_PROPERTY, ICAL_RESTRICTION_ZERO, None),
      (ICAL_STATUS_PROPERTY, ICAL_RESTRICTION_ZERO, None), (ICAL_SUMMARY_PROPERTY, ICAL_RESTRICTION_ZERO, None),
      (ICAL_TRANSP_PROPERTY, ICAL_RESTRICTION_ZERO, None), (ICAL_TRIGGER_PROPERTY, ICAL_RESTRICTION_ZERO, None),
      (ICAL_TZID_PROPERTY, ICAL_RESTRICTION_ONE, None), (ICAL_TZNAME_PROPERTY, ICAL_RESTRICTION_ZERO, None),
      (ICAL_TZOFFSETFROM_PROPERTY, ICAL_RESTRICTION_ZERO, None),
      (ICAL_TZOFFSETTO_PROPERTY, ICAL_RESTRICTION_ZERO, None),
      (ICAL_TZURL_PROPERTY, ICAL_RESTRICTION_ZEROPLUS, None), (ICAL_UID_PROPERTY, ICAL_RESTRICTION_ZERO, None),
      (ICAL_URL_PROPERTY, ICAL_RESTRICTION_ZERO, None), (ICAL_VERSION_PROPERTY, ICAL_RESTRICTION_ZERO, None),
      (ICAL_X_PROPERTY, ICAL_RESTRICTION_ZEROORONE, None)]"

definition none_xstandard_properties :: "property_rows" where
  "none_xstandard_properties =
     [(ICAL_ACTION_PROPERTY, ICAL_RESTRICTION_ZERO, None), (ICAL_ATTACH_PROPERTY, ICAL_RESTRICTION_ZERO, None),
      (ICAL_ATTENDEE_PROPERTY, ICAL_RESTRICTION_ZERO, None),
      (ICAL_CALSCALE_PROPERTY, ICAL_RESTRICTION_ZERO, None),
      (ICAL_CATEGORIES_PROPERTY, ICAL_RESTRICTION_ZERO, None),
      (ICAL_CLASS_PROPERTY, ICAL_RESTRICTION_ZERO, None),
      (ICAL_COMMENT_PROPERTY, ICAL_RESTRICTION_ZEROPLUS, None),
      (ICAL_COMPLETED_PROPERTY, ICAL_RESTRICTION_ZERO, None),
      (ICAL_CONTACT_PROPERTY, ICAL_RESTRICTION_ZERO, None),
      (ICAL_CREATED_PROPERTY, ICAL_RESTRICTION_ZERO, None),
      (ICAL_DESCRIPTION_PROPERTY, ICAL_RESTRICTION_ZERO, None),
      (ICAL_DTEND_PROPERTY, ICAL_RESTRICTION_ZERO, None), (ICAL_DTSTAMP_PROPERTY, ICAL_RESTRICTION_ZERO, None),
      (ICAL_DTSTART_PROPERTY, ICAL_RESTRICTION_ONE, None), (ICAL_DUE_PROPERTY, ICAL_RESTRICTION_ZERO, None),
      (ICAL_DURATION_PROPERTY, ICAL_RESTRICTION_ZERO, None),
      (ICAL_EXDATE_PROPERTY, ICAL_RESTRICTION_ZERO, None), (ICAL_EXRULE_PROPERTY, ICAL_RESTRICTION_ZERO, None),
      (ICAL_FREEBUSY_PROPERTY, ICAL_RESTRICTION_ZERO, None), (ICAL_GEO_PROPERTY, ICAL_RESTRICTION_ZERO, None),
      (ICAL_LASTMODIFIED_PROPERTY, ICAL_RESTRICTION_ZERO, None),
      (ICAL_LOCATION_PROPERTY, ICAL_RESTRICTION_ZERO, None),
      (ICAL_METHOD_PROPERTY, ICAL_RESTRICTION_ZERO, None),
      (ICAL_ORGANIZER_PROPERTY, ICAL_RESTRICTION_ZERO, None),
      (ICAL_PERCENTCOMPLETE_PROPERTY, ICAL_RESTRICTION_ZERO, None),
      (ICAL_PRIORITY_PROPERTY, ICAL_RESTRICTION_ZERO, None),
      (ICAL_PRODID_PROPERTY, ICAL_RESTRICTION_ZERO, None),
      (ICAL_RDATE_PROPERTY, ICAL_RESTRICTION_ZEROPLUS, None),
      (ICAL_RECURRENCEID_PROPERTY, ICAL_RESTRICTION_ZERO, None),
      (ICAL_RELATEDTO_PROPERTY, ICAL_RESTRICTION_ZERO, None),
      (ICAL_REPEAT_PROPERTY, ICAL_RESTRICTION_ZERO, None),
      (ICAL_REQUESTSTATUS_PROPERTY, ICAL_RESTRICTION_ZERO, None),
      (ICAL_RESOURCES_PROPERTY, ICAL_RESTRICTION_ZERO, None),
      (ICAL_RRULE_PROPERTY, ICAL_RESTRICTION_ZEROPLUS, None),
      (ICAL_SEQUENCE_PROPERTY, ICAL_RESTRICTION_ZERO, None),
      (ICAL_STATUS_PROPERTY, ICAL_RESTRICTION_ZERO, None), (ICAL_SUMMARY_PROPERTY, ICAL_RESTRICTION_ZERO, None),
      (ICAL_TRANSP_PROPERTY, ICAL_RESTRICTION_ZERO, None), (ICAL_TRIGGER_PROPERTY, ICAL_RESTRICTION_ZERO, None),
      (ICAL_TZID_PROPERTY, ICAL_RESTRICTION_ZERO, None),
      (ICAL_TZNAME_PROPERTY, ICAL_RESTRICTION_ZEROPLUS, None),
      (ICAL_TZOFFSETFROM_PROPERTY, ICAL_RESTRICTION_ONE, None),
      (ICAL_TZOFFSETTO_PROPERTY, ICAL_RESTRICTION_ONE, None),
      (ICAL_TZURL_PROPERTY, ICAL_RESTRICTION_ZERO, None), (ICAL_UID_PROPERTY, ICAL_RESTRICTION_ZERO, None),
      (ICAL_URL_PROPERTY, ICAL_RESTRICTION_ZERO, None), (ICAL_VERSION_PROPERTY, ICAL_RESTRICTION_ZERO, None),
      (ICAL_X_PROPERTY, ICAL_RESTRICTION_ZEROPLUS, None)]"

definition none_xdaylight_properties :: "property_rows" where
  "none_xdaylight_properties =
     [(ICAL_ACTION_PROPERTY, ICAL_RESTRICTION_ZERO, None), (ICAL_ATTACH_PROPERTY, ICAL_RESTRICTION_ZERO, None),
      (ICAL_ATTENDEE_PROPERTY, ICAL_RESTRICTION_ZERO, None),
      (ICAL_CALSCALE_PROPERTY, ICAL_RESTRICTION_ZERO, None),
      (ICAL_CATEGORIES_PROPERTY, ICAL_RESTRICTION_ZERO, None),
      (ICAL_CLASS_PROPERTY, ICAL_RESTRICTION_ZERO, None),
      (ICAL_COMMENT_PROPERTY, ICAL_RESTRICTION_ZEROPLUS, None),
      (ICAL_COMPLETED_PROPERTY, ICAL_RESTRICTION_ZERO, None),
      (ICAL_CONTACT_PROPERTY, ICAL_RESTRICTION_ZERO, None),
      (ICAL_CREATED_PROPERTY, ICAL_RESTRICTION_ZERO, None),
      (ICAL_DESCRIPTION_PROPERTY, ICAL_RESTRICTION_ZERO, None),
      (ICAL_DTEND_PROPERTY, ICAL_RESTRICTION_ZERO, None), (ICAL_DTSTAMP_PROPERTY, ICAL_RESTRICTION_ZERO, None),
      (ICAL_DTSTART_PROPERTY, ICAL_RESTRICTION_ONE, None), (ICAL_DUE_PROPERTY, ICAL_RESTRICTION_ZERO, None),
      (ICAL_DURATION_PROPERTY, ICAL_RESTRICTION_ZERO, None),
      (ICAL_EXDATE_PROPERTY, ICAL_RESTRICTION_ZERO, None), (ICAL_EXRULE_PROPERTY, ICAL_RESTRICTION_ZERO, None),
      (ICAL_FREEBUSY_PROPERTY, ICAL_RESTRICTION_ZERO, None), (ICAL_GEO_PROPERTY, ICAL_RESTRICTION_ZERO, None),
      (ICAL_LASTMODIFIED_PROPERTY, ICAL_RESTRICTION_ZERO, None),
      (ICAL_LOCATION_PROPERTY, ICAL_RESTRICTION_ZERO, None),
      (ICAL_METHOD_PROPERTY, ICAL_RESTRICTION_ZERO, None),
      (ICAL_ORGANIZER_PROPERTY, ICAL_RESTRICTION_ZERO, None),
      (ICAL_PERCENTCOMPLETE_PROPERTY, ICAL_RESTRICTION_ZERO, None),
      (ICAL_PRIORITY_PROPERTY, ICAL_RESTRICTION_ZERO, None),
      (ICAL_PRODID_PROPERTY, ICAL_RESTRICTION_ZERO, None),
      (ICAL_RDATE_PROPERTY, ICAL_RESTRICTION_ZEROPLUS, None),
      (ICAL_RECURRENCEID_PROPERTY, ICAL_RESTRICTION_ZERO, None),
      (ICAL_RELATEDTO_PROPERTY, ICAL_RESTRICTION_ZERO, None),
      (ICAL_REPEAT_PROPERTY, ICAL_RESTRICTION_ZERO, None),
      (ICAL_REQUESTSTATUS_PROPERTY, ICAL_RESTRICTION_ZERO, None),
      (ICAL_RESOURCES_PROPERTY, ICAL_RESTRICTION_ZERO, None),
      (ICAL_RRULE_PROPERTY, ICAL_RESTRICTION_ZEROPLUS, None),
      (ICAL_SEQUENCE_PROPERTY, ICAL_RESTRICTION_ZERO, None),
      (ICAL_STATUS_PROPERTY, ICAL_RESTRICTION_ZERO, None), (ICAL_SUMMARY_PROPERTY, ICAL_RESTRICTION_ZERO, None),
      (ICAL_TRANSP_PROPERTY, ICAL_RESTRICTION_ZERO, None), (ICAL_TRIGGER_PROPERTY, ICAL_RESTRICTION_ZERO, None),
      (ICAL_TZID_PROPERTY, ICAL_RESTRICTION_ZERO, None),
      (ICAL_TZNAME_PROPERTY, ICAL_RESTRICTION_ZEROPLUS, None),
      (ICAL_TZOFFSETFROM_PROPERTY, ICAL_RESTRICTION_ONE, None),
      (ICAL_TZOFFSETTO_PROPERTY, ICAL_RESTRICTION_ONE, None),
      (ICAL_TZURL_PROPERTY, ICAL_RESTRICTION_ZERO, None), (ICAL_UID_PROPERTY, ICAL_RESTRICTION_ZERO, None),
      (ICAL_URL_PROPERTY, ICAL_RESTRICTION_ZERO, None), (ICAL_VERSION_PROPERTY, ICAL_RESTRICTION_ZERO, None),
      (ICAL_X_PROPERTY, ICAL_RESTRICTION_ZEROPLUS, None)]"

definition none_xaudioalarm_properties :: "property_rows" where
  "none_xaudioalarm_properties =
     [(ICAL_ACTION_PROPERTY, ICAL_RESTRICTION_ONE, None),
      (ICAL_ATTACH_PROPERTY, ICAL_RESTRICTION_ZEROORONE, None),
      (ICAL_ATTENDEE_PROPERTY, ICAL_RESTRICTION_ZERO, None),
      (ICAL_CALSCALE_PROPERTY, ICAL_RESTRICTION_ZERO, None),
      (ICAL_CATEGORIES_PROPERTY, ICAL_RESTRICTION_ZERO, None),
      (ICAL_CLASS_PROPERTY, ICAL_RESTRICTION_ZERO, None), (ICAL_COMMENT_PROPERTY, ICAL_RESTRICTION_ZERO, None),
      (ICAL_COMPLETED_PROPERTY, ICAL_RESTRICTION_ZERO, None),
      (ICAL_CONTACT_PROPERTY, ICAL_RESTRICTION_ZERO, None),
      (ICAL_CREATED_PROPERTY, ICAL_RESTRICTION_ZERO, None),
      (ICAL_DESCRIPTION_PROPERTY, ICAL_RESTRICTION_ZERO, None),
      (ICAL_DTEND_PROPERTY, ICAL_RESTRICTION_ZERO, None), (ICAL_DTSTAMP_PROPERTY, ICAL_RESTRICTION_ZERO, None),
      (ICAL_DTSTART_PROPERTY, ICAL_RESTRICTION_ZERO, None), (ICAL_DUE_PROPERTY, ICAL_RESTRICTION_ZERO, None),
      (ICAL_DURATION_PROPERTY, ICAL_RESTRICTION_ONEMUTUAL, Some F_must_have_repeat),
      (ICAL_REPEAT_PROPERTY, ICAL_RESTRICTION_ONEMUTUAL, Some F_must_have_duration),
      (ICAL_EXDATE_PROPERTY, ICAL_RESTRICTION_ZERO, None), (ICAL_EXRULE_PROPERTY, ICAL_RESTRICTION_ZERO, None),
      (ICAL_FREEBUSY_PROPERTY, ICAL_RESTRICTION_ZERO, None), (ICAL_GEO_PROPERTY, ICAL_RESTRICTION_ZERO, None),
      (ICAL_LASTMODIFIED_PROPERTY, ICAL_RESTRICTION_ZERO, None),
      (ICAL_LOCATION_PROPERTY, ICAL_RESTRICTION_ZERO, None),
      (ICAL_METHOD_PROPERTY, ICAL_RESTRICTION_ZERO, None),
      (ICAL_ORGANIZER_PROPERTY, ICAL_RESTRICTION_ZERO, None),
      (ICAL_PERCENTCOMPLETE_PROPERTY, ICAL_RESTRICTION_ZERO, None),
      (ICAL_PRIORITY_PROPERTY, ICAL_RESTRICTION_ZERO, None),
      (ICAL_PRODID_PROPERTY, ICAL_RESTRICTION_ZERO, None), (ICAL_RDATE_PROPERTY, ICAL_RESTRICTION_ZERO, None),
      (ICAL_RECURRENCEID_PROPERTY, ICAL_RESTRICTION_ZERO, None),
      (ICAL_RELATEDTO_PROPERTY, ICAL_RESTRICTION_ZERO, None),
      (ICAL_REQUESTSTATUS_PROPERTY, ICAL_RESTRICTION_ZERO, None),
      (ICAL_RESOURCES_PROPERTY, ICAL_RESTRICTION_ZERO, None),
      (ICAL_RRULE_PROPERTY, ICAL_RESTRICTION_ZERO, None), (ICAL_SEQUENCE_PROPERTY, ICAL_RESTRICTION_ZERO, None),
      (ICAL_STATUS_PROPERTY, ICAL_RESTRICTION_ZERO, None), (ICAL_SUMMARY_PROPERTY, ICAL_RESTRICTION_ZERO, None),
      (ICAL_TRANSP_PROPERTY, ICAL_RESTRICTION_ZERO, None), (ICAL_TRIGGER_PROPERTY, ICAL_RESTRICTION_ONE, None),
      (ICAL_TZID_PROPERTY, ICAL_RESTRICTION_ZERO, None), (ICAL_TZNAME_PROPERTY, ICAL_RESTRICTION_ZERO, None),
      (ICAL_TZOFFSETFROM_PROPERTY, ICAL_RESTRICTION_ZERO, None),
      (ICAL_TZOFFSETTO_PROPERTY, ICAL_RESTRICTION_ZERO, None),
      (ICAL_TZURL_PROPERTY, ICAL_RESTRICTION_ZERO, None), (ICAL_UID_PROPERTY, ICAL_RESTRICTION_ZERO, None),
      (ICAL_URL_PROPERTY, ICAL_RESTRICTION_ZERO, None), (ICAL_VERSION_PROPERTY, ICAL_RESTRICTION_ZERO, None),
      (ICAL_X_PROPERTY, ICAL_RESTRICTION_ZEROPLUS, None)]"

definition none_xdisplayalarm_properties :: "property_rows" where
  "none_xdisplayalarm_properties =
     [(ICAL_ACTION_PROPERTY, ICAL_RESTRICTION_ONE, None), (ICAL_ATTACH_PROPERTY, ICAL_RESTRICTION_ZERO, None),
      (ICAL_ATTENDEE_PROPERTY, ICAL_RESTRICTION_ZERO, None),
      (ICAL_CALSCALE_PROPERTY, ICAL_RESTRICTION_ZERO, None),
      (ICAL_CATEGORIES_PROPERTY, ICAL_RESTRICTION_ZERO, None),
      (ICAL_CLASS_PROPERTY, ICAL_RESTRICTION_ZERO, None), (ICAL_COMMENT_PROPERTY, ICAL_RESTRICTION_ZERO, None),
      (ICAL_COMPLETED_PROPERTY, ICAL_RESTRICTION_ZERO, None),
      (ICAL_CONTACT_PROPERTY, ICAL_RESTRICTION_ZERO, None),
      (ICAL_CREATED_PROPERTY, ICAL_RESTRICTION_ZERO, None),
      (ICAL_DESCRIPTION_PROPERTY, ICAL_RESTRICTION_ONE, None),
      (ICAL_DTEND_PROPERTY, ICAL_RESTRICTION_ZERO, None), (ICAL_DTSTAMP_PROPERTY, ICAL_RESTRICTION_ZERO, None),
      (ICAL_DTSTART_PROPERTY, ICAL_RESTRICTION_ZERO, None), (ICAL_DUE_PROPERTY, ICAL_RESTRICTION_ZERO, None),
      (ICAL_DURATION_PROPERTY, ICAL_RESTRICTION_ONEMUTUAL, Some F_must_have_repeat),
      (ICAL_REPEAT_PROPERTY, ICAL_RESTRICTION_ONEMUTUAL, Some F_must_have_duration),
      (ICAL_EXDATE_PROPERTY, ICAL_RESTRICTION_ZERO, None), (ICAL_EXRULE_PROPERTY, ICAL_RESTRICTION_ZERO, None),
      (ICAL_FREEBUSY_PROPERTY, ICAL_RESTRICTION_ZERO, None), (ICAL_GEO_PROPERTY, ICAL_RESTRICTION_ZERO, None),
      (ICAL_LASTMODIFIED_PROPERTY, ICAL_RESTRICTION_ZERO, None),
      (ICAL_LOCATION_PROPERTY, ICAL_RESTRICTION_ZERO, None),
      (ICAL_METHOD_PROPERTY, ICAL_RESTRICTION_ZERO, None),
      (ICAL_ORGANIZER_PROPERTY, ICAL_RESTRICTION_ZERO, None),
      (ICAL_PERCENTCOMPLETE_PROPERTY, ICAL_RESTRICTION_ZERO, None),
      (ICAL_PRIORITY_PROPERTY, ICAL_RESTRICTION_ZERO, None),
      (ICAL_PRODID_PROPERTY, ICAL_RESTRICTION_ZERO, None), (ICAL_RDATE_PROPERTY, ICAL_RESTRICTION_ZERO, None),
      (ICAL_RECURRENCEID_PROPERTY, ICAL_RESTRICTION_ZERO, None),
      (ICAL_RELATEDTO_PROPERTY, ICAL_RESTRICTION_ZERO, None),
      (ICAL_REQUESTSTATUS_PROPERTY, ICAL_RESTRICTION_ZERO, None),
      (ICAL_RESOURCES_PROPERTY, ICAL_RESTRICTION_ZERO, None),
      (ICAL_RRULE_PROPERTY, ICAL_RESTRICTION_ZERO, None), (ICAL_SEQUENCE_PROPERTY, ICAL_RESTRICTION_ZERO, None),
      (ICAL_STATUS_PROPERTY, ICAL_RESTRICTION_ZERO, None), (ICAL_SUMMARY_PROPERTY, ICAL_RESTRICTION_ZERO, None),
      (ICAL_TRANSP_PROPERTY, ICAL_RESTRICTION_ZERO, None), (ICAL_TRIGGER_PROPERTY, ICAL_RESTRICTION_ONE, None),
      (ICAL_TZID_PROPERTY, ICAL_RESTRICTION_ZERO, None), (ICAL_TZNAME_PROPERTY, ICAL_RESTRICTION_ZERO, None),
      (ICAL_TZOFFSETFROM_PROPERTY, ICAL_RESTRICTION_ZERO, None),
      (ICAL_TZOFFSETTO_PROPERTY, ICAL_RESTRICTION_ZERO, None),
      (ICAL_TZURL_PROPERTY, ICAL_RESTRICTION_ZERO, None), (ICAL_UID_PROPERTY, ICAL_RESTRICTION_ZERO, None),
      (ICAL_URL_PROPERTY, ICAL_RESTRICTION_ZERO, None), (ICAL_VERSION_PROPERTY, ICAL_RESTRICTION_ZERO, None),
      (ICAL_X_PROPERTY, ICAL_RESTRICTION_ZEROPLUS, None)]"

definition none_xemailalarm_properties :: "property_rows" where
  "none_xemailalarm_properties =
     [(ICAL_ACTION_PROPERTY, ICAL_RESTRICTION_ONE, Some F_must_be_email),
      (ICAL_ATTACH_PROPERTY, ICAL_RESTRICTION_ZEROPLUS, None),
      (ICAL_ATTENDEE_PROPERTY, ICAL_RESTRICTION_ONEPLUS, None),
      (ICAL_CALSCALE_PROPERTY, ICAL_RESTRICTION_ZERO, None),
      (ICAL_CATEGORIES_PROPERTY, ICAL_RESTRICTION_ZERO, None),
      (ICAL_CLASS_PROPERTY, ICAL_RESTRICTION_ZERO, None), (ICAL_COMMENT_PROPERTY, ICAL_RESTRICTION_ZERO, None),
      (ICAL_COMPLETED_PROPERTY, ICAL_RESTRICTION_ZERO, None),
      (ICAL_CONTACT_PROPERTY, ICAL_RESTRICTION_ZERO, None),
      (ICAL_CREATED_PROPERTY, ICAL_RESTRICTION_ZERO, None),
      (ICAL_DESCRIPTION_PROPERTY, ICAL_RESTRICTION_ONE, None),
      (ICAL_DTEND_PROPERTY, ICAL_RESTRICTION_ZERO, None), (ICAL_DTSTAMP_PROPERTY, ICAL_RESTRICTION_ZERO, None),
      (ICAL_DTSTART_PROPERTY, ICAL_RESTRICTION_ZERO, None), (ICAL_DUE_PROPERTY, ICAL_RESTRICTION_ZERO, None),
      (ICAL_DURATION_PROPERTY, ICAL_RESTRICTION_ONEMUTUAL, Some F_must_have_repeat),
      (ICAL_REPEAT_PROPERTY, ICAL_RESTRICTION_ONEMUTUAL, Some F_must_have_duration),
      (ICAL_EXDATE_PROPERTY, ICAL_RESTRICTION_ZERO, None), (ICAL_EXRULE_PROPERTY, ICAL_RESTRICTION_ZERO, None),
      (ICAL_FREEBUSY_PROPERTY, ICAL_RESTRICTION_ZERO, None), (ICAL_GEO_PROPERTY, ICAL_RESTRICTION_ZERO, None),
      (ICAL_LASTMODIFIED_PROPERTY, ICAL_RESTRICTION_ZERO, None),
      (ICAL_LOCATION_PROPERTY, ICAL_RESTRICTION_ZERO, None),
      (ICAL_METHOD_PROPERTY, ICAL_RESTRICTION_ZERO, None),
      (ICAL_ORGANIZER_PROPERTY, ICAL_RESTRICTION_ZERO, None),
      (ICAL_PERCENTCOMPLETE_PROPERTY, ICAL_RESTRICTION_ZERO, None),
      (ICAL_PRIORITY_PROPERTY, ICAL_RESTRICTION_ZERO, None),
      (ICAL_PRODID_PROPERTY, ICAL_RESTRICTION_ZERO, None), (ICAL_RDATE_PROPERTY, ICAL_RESTRICTION_ZERO, None),
      (ICAL_RECURRENCEID_PROPERTY, ICAL_RESTRICTION_ZERO, None),
      (ICAL_RELATEDTO_PROPERTY, ICAL_RESTRICTION_ZERO, None),
      (ICAL_REQUESTSTATUS_PROPERTY, ICAL_RESTRICTION_ZERO, None),
      (ICAL_RESOURCES_PROPERTY, ICAL_RESTRICTION_ZERO, None),
      (ICAL_RRULE_PROPERTY, ICAL_RESTRICTION_ZERO, None), (ICAL_SEQUENCE_PROPERTY, ICAL_RESTRICTION_ZERO, None),
      (ICAL_STATUS_PROPERTY, ICAL_RESTRICTION_ZERO, None), (ICAL_SUMMARY_PROPERTY, ICAL_RESTRICTION_ONE, None),
      (ICAL_TRANSP_PROPERTY, ICAL_RESTRICTION_ZERO, None), (ICAL_TRIGGER_PROPERTY, ICAL_RESTRICTION_ONE, None),
      (ICAL_TZID_PROPERTY, ICAL_RESTRICTION_ZERO, None), (ICAL_TZNAME_PROPERTY, ICAL_RESTRICTION_ZERO, None),
      (ICAL_TZOFFSETFROM_PROPERTY, ICAL_RESTRICTION_ZERO, None),
      (ICAL_TZOFFSETTO_PROPERTY, ICAL_RESTRICTION_ZERO, None),
      (ICAL_TZURL_PROPERTY, ICAL_RESTRICTION_ZERO, None), (ICAL_UID_PROPERTY, ICAL_RESTRICTION_ZERO, None),
      (ICAL_URL_PROPERTY, ICAL_RESTRICTION_ZERO, None), (ICAL_VERSION_PROPERTY, ICAL_RESTRICTION_ZERO, None),
      (ICAL_X_PROPERTY, ICAL_RESTRICTION_ZEROPLUS, None)]"

definition none_xprocedurealarm_properties :: "property_rows" where
  "none_xprocedurealarm_properties =
     [(ICAL_ACTION_PROPERTY, ICAL_RESTRICTION_ONE, None),
      (ICAL_ATTACH_PROPERTY, ICAL_RESTRICTION_ZEROORONE, None),
      (ICAL_ATTENDEE_PROPERTY, ICAL_RESTRICTION_ZERO, None),
      (ICAL_CALSCALE_PROPERTY, ICAL_RESTRICTION_ZERO, None),
      (ICAL_CATEGORIES_PROPERTY, ICAL_RESTRICTION_ZERO, None),
      (ICAL_CLASS_PROPERTY, ICAL_RESTRICTION_ZERO, None), (ICAL_COMMENT_PROPERTY, ICAL_RESTRICTION_ZERO, None),
      (ICAL_COMPLETED_PROPERTY, ICAL_RESTRICTION_ZERO, None),
      (ICAL_CONTACT_PROPERTY, ICAL_RESTRICTION_ZERO, None),
      (ICAL_CREATED_PROPERTY, ICAL_RESTRICTION_ZERO, None),
      (ICAL_DESCRIPTION_PROPERTY, ICAL_RESTRICTION_ZEROORONE, None),
      (ICAL_DTEND_PROPERTY, ICAL_RESTRICTION_ZERO, None), (ICAL_DTSTAMP_PROPERTY, ICAL_RESTRICTION_ZERO, None),
      (ICAL_DTSTART_PROPERTY, ICAL_RESTRICTION_ZERO, None), (ICAL_DUE_PROPERTY, ICAL_RESTRICTION_ZERO, None),
      (ICAL_DURATION_PROPERTY, ICAL_RESTRICTION_ONEMUTUAL, Some F_must_have_repeat),
      (ICAL_REPEAT_PROPERTY, ICAL_RESTRICTION_ONEMUTUAL, Some F_must_have_duration),
      (ICAL_EXDATE_PROPERTY, ICAL_RESTRICTION_ZERO, None), (ICAL_EXRULE_PROPERTY, ICAL_RESTRICTION_ZERO, None),
      (ICAL_FREEBUSY_PROPERTY, ICAL_RESTRICTION_ZERO, None), (ICAL_GEO_PROPERTY, ICAL_RESTRICTION_ZERO, None),
      (ICAL_LASTMODIFIED_PROPERTY, ICAL_RESTRICTION_ZERO, None),
      (ICAL_LOCATION_PROPERTY, ICAL_RESTRICTION_ZERO, None),
      (ICAL_METHOD_PROPERTY, ICAL_RESTRICTION_ZERO, None),
      (ICAL_ORGANIZER_PROPERTY, ICAL_RESTRICTION_ZERO, None),
      (ICAL_PERCENTCOMPLETE_PROPERTY, ICAL_RESTRICTION_ZERO, None),
      (ICAL_PRIORITY_PROPERTY, ICAL_RESTRICTION_ZERO, None),
      (ICAL_PRODID_PROPERTY, ICAL_RESTRICTION_ZERO, None), (ICAL_RDATE_PROPERTY, ICAL_RESTRICTION_ZERO, None),
      (ICAL_RECURRENCEID_PROPERTY, ICAL_RESTRICTION_ZERO, None),
      (ICAL_RELATEDTO_PROPERTY, ICAL_RESTRICTION_ZERO, None),
      (ICAL_REQUESTSTATUS_PROPERTY, ICAL_RESTRICTION_ZERO, None),
      (ICAL_RESOURCES_PROPERTY, ICAL_RESTRICTION_ZERO, None),
      (ICAL_RRULE_PROPERTY, ICAL_RESTRICTION_ZERO, None), (ICAL_SEQUENCE_PROPERTY, ICAL_RESTRICTION_ZERO, None),
      (ICAL_STATUS_PROPERTY, ICAL_RESTRICTION_ZERO, None), (ICAL_SUMMARY_PROPERTY, ICAL_RESTRICTION_ZERO, None),
      (ICAL_TRANSP_PROPERTY, ICAL_RESTRICTION_ZERO, None), (ICAL_TRIGGER_PROPERTY, ICAL_RESTRICTION_ONE, None),
      (ICAL_TZID_PROPERTY, ICAL_RESTRICTION_ZERO, None), (ICAL_TZNAME_PROPERTY, ICAL_RESTRICTION_ZERO, None),
      (ICAL_TZOFFSETFROM_PROPERTY, ICAL_RESTRICTION_ZERO, None),
      (ICAL_TZOFFSETTO_PROPERTY, ICAL_RESTRICTION_ZERO, None),
      (ICAL_TZURL_PROPERTY, ICAL_RESTRICTION_ZERO, None), (ICAL_UID_PROPERTY, ICAL_RESTRICTION_ZERO, None),
      (ICAL_URL_PROPERTY, ICAL_RESTRICTION_ZERO, None), (ICAL_VERSION_PROPERTY, ICAL_RESTRICTION_ZERO, None),
      (ICAL_X_PROPERTY, ICAL_RESTRICTION_ZEROPLUS, None)]"

definition none_vquery_properties :: "property_rows" where
  "none_vquery_properties =
     [(ICAL_QUERY_PROPERTY, ICAL_RESTRICTION_ZEROORONE, None),
      (ICAL_QUERYNAME_PROPERTY, ICAL_RESTRICTION_ONE, None), (ICAL_EXPAND_PROPERTY, ICAL_RESTRICTION_ONE, None)]"

text \<open>The rows in the order of the source; the one that ends the array is the end of the list.\<close>

definition icalrestriction_property_records :: "icalrestriction_property_record list" where
  "icalrestriction_property_records = concat
     [property_records ICAL_METHOD_PUBLISH ICAL_VEVENT_COMPONENT publish_vevent_properties,
      property_records ICAL_METHOD_REQUEST ICAL_VEVENT_COMPONENT request_vevent_properties,
      property_records ICAL_METHOD_REPLY ICAL_VEVENT_COMPONENT reply_vevent_properties,
      property_records ICAL_METHOD_ADD ICAL_VEVENT_COMPONENT add_vevent_properties,
      property_records ICAL_METHOD_CANCEL ICAL_VEVENT_COMPONENT cancel_vevent_properties,
      property_records ICAL_METHOD_REFRESH ICAL_VEVENT_COMPONENT refresh_vevent_properties,
      property_records ICAL_METHOD_COUNTER ICAL_VEVENT_COMPONENT counter_vevent_properties,
      property_records ICAL_METHOD_DECLINECOUNTER ICAL_VEVENT_COMPONENT declinecounter_vevent_properties,
      property_records ICAL_METHOD_PUBLISH ICAL_VFREEBUSY_COMPONENT publish_vfreebusy_properties,
      property_records ICAL_METHOD_REQUEST ICAL_VFREEBUSY_COMPONENT request_vfreebusy_properties,
      property_records ICAL_METHOD_REPLY ICAL_VFREEBUSY_COMPONENT reply_vfreebusy_properties,
      property_records ICAL_METHOD_PUBLISH ICAL_VTODO_COMPONENT publish_vtodo_properties,
      property_records ICAL_METHOD_REQUEST ICAL_VTODO_COMPONENT request_vtodo_properties,
      property_records ICAL_METHOD_REPLY ICAL_VTODO_COMPONENT reply_vtodo_properties,
      property_records ICAL_METHOD_ADD ICAL_VTODO_COMPONENT add_vtodo_properties,
      property_records ICAL_METHOD_CANCEL ICAL_VTODO_COMPONENT cancel_vtodo_properties,
      property_records ICAL_METHOD_REFRESH ICAL_VTODO_COMPONENT refresh_vtodo_properties,
      property_records ICAL_METHOD_COUNTER ICAL_VTODO_COMPONENT counter_vtodo_properties,
      property_records ICAL_METHOD_DECLINECOUNTER ICAL_VTODO_COMPONENT declinecounter_vtodo_properties,
      property_records ICAL_METHOD_PUBLISH ICAL_VJOURNAL_COMPONENT publish_vjournal_properties,
      property_records ICAL_METHOD_ADD ICAL_VJOURNAL_COMPONENT add_vjournal_properties,
      property_records ICAL_METHOD_CANCEL ICAL_VJOURNAL_COMPONENT cancel_vjournal_properties,
      property_records ICAL_METHOD_PUBLISH ICAL_VAGENDA_COMPONENT publish_vagenda_properties,
      property_records ICAL_METHOD_REQUEST ICAL_VAGENDA_COMPONENT request_vagenda_properties,
      property_records ICAL_METHOD_REPLY ICAL_VAGENDA_COMPONENT reply_vagenda_properties,
      property_records ICAL_METHOD_ADD ICAL_VAGENDA_COMPONENT add_vagenda_properties,
      property_records ICAL_METHOD_CANCEL ICAL_VAGENDA_COMPONENT cancel_vagenda_properties,
      property_records ICAL_METHOD_REFRESH ICAL_VAGENDA_COMPONENT refresh_vagenda_properties,
      property_records ICAL_METHOD_COUNTER ICAL_VAGENDA_COMPONENT counter_vagenda_properties,
      property_records ICAL_METHOD_DECLINECOUNTER ICAL_VAGENDA_COMPONENT declinecounter_vagenda_properties,
      property_records ICAL_METHOD_NONE ICAL_VAGENDA_COMPONENT none_vagenda_properties,
      property_records ICAL_METHOD_NONE ICAL_VCALENDAR_COMPONENT none_vcalendar_properties,
      property_records ICAL_METHOD_NONE ICAL_VEVENT_COMPONENT none_vevent_properties,
      property_records ICAL_METHOD_NONE ICAL_VTODO_COMPONENT none_vtodo_properties,
      property_records ICAL_METHOD_NONE ICAL_VJOURNAL_COMPONENT none_vjournal_properties,
      property_records ICAL_METHOD_NONE ICAL_VFREEBUSY_COMPONENT none_vfreebusy_properties,
      property_records ICAL_METHOD_NONE ICAL_VTIMEZONE_COMPONENT none_vtimezone_properties,
      property_records ICAL_METHOD_NONE ICAL_XSTANDARD_COMPONENT none_xstandard_properties,
      property_records ICAL_METHOD_NONE ICAL_XDAYLIGHT_COMPONENT none_xdaylight_properties,
      property_records ICAL_METHOD_NONE ICAL_XAUDIOALARM_COMPONENT none_xaudioalarm_properties,
      property_records ICAL_METHOD_NONE ICAL_XDISPLAYALARM_COMPONENT none_xdisplayalarm_properties,
      property_records ICAL_METHOD_NONE ICAL_XEMAILALARM_COMPONENT none_xemailalarm_properties,
      property_records ICAL_METHOD_NONE ICAL_XPROCEDUREALARM_COMPONENT none_xprocedurealarm_properties,
      property_records ICAL_METHOD_NONE ICAL_VQUERY_COMPONENT none_vquery_properties]"

section \<open>The table of components\<close>

text \<open>Their functions are all null; nothing looks up this table.\<close>

definition publish_vevent_components :: "component_rows" where
  "publish_vevent_components =
     [(ICAL_VALARM_COMPONENT, ICAL_RESTRICTION_ZEROPLUS, None),
      (ICAL_VFREEBUSY_COMPONENT, ICAL_RESTRICTION_ZERO, None),
      (ICAL_VJOURNAL_COMPONENT, ICAL_RESTRICTION_ZERO, None),
      (ICAL_VTODO_COMPONENT, ICAL_RESTRICTION_ZERO, None),
      (ICAL_VTIMEZONE_COMPONENT, ICAL_RESTRICTION_ZEROPLUS, Some F_must_if_tz_ref),
      (ICAL_X_COMPONENT, ICAL_RESTRICTION_ZEROPLUS, None)]"

definition request_vevent_components :: "component_rows" where
  "request_vevent_components =
     [(ICAL_VALARM_COMPONENT, ICAL_RESTRICTION_ZEROPLUS, None),
      (ICAL_VTIMEZONE_COMPONENT, ICAL_RESTRICTION_ZEROPLUS, Some F_must_if_tz_ref),
      (ICAL_X_COMPONENT, ICAL_RESTRICTION_ZEROPLUS, None),
      (ICAL_VFREEBUSY_COMPONENT, ICAL_RESTRICTION_ZERO, None),
      (ICAL_VJOURNAL_COMPONENT, ICAL_RESTRICTION_ZERO, None),
      (ICAL_VTODO_COMPONENT, ICAL_RESTRICTION_ZERO, None)]"

definition reply_vevent_components :: "component_rows" where
  "reply_vevent_components =
     [(ICAL_VTIMEZONE_COMPONENT, ICAL_RESTRICTION_ZEROORONE, Some F_must_if_tz_ref),
      (ICAL_X_COMPONENT, ICAL_RESTRICTION_ZEROPLUS, None), (ICAL_VALARM_COMPONENT, ICAL_RESTRICTION_ZERO, None),
      (ICAL_VFREEBUSY_COMPONENT, ICAL_RESTRICTION_ZERO, None),
      (ICAL_VJOURNAL_COMPONENT, ICAL_RESTRICTION_ZERO, None),
      (ICAL_VTODO_COMPONENT, ICAL_RESTRICTION_ZERO, None)]"

definition add_vevent_components :: "component_rows" where
  "add_vevent_components =
     [(ICAL_VALARM_COMPONENT, ICAL_RESTRICTION_ZEROPLUS, None),
      (ICAL_VTIMEZONE_COMPONENT, ICAL_RESTRICTION_ZEROPLUS, Some F_must_if_tz_ref),
      (ICAL_X_COMPONENT, ICAL_RESTRICTION_ZEROPLUS, None),
      (ICAL_VFREEBUSY_COMPONENT, ICAL_RESTRICTION_ZERO, None),
      (ICAL_VTODO_COMPONENT, ICAL_RESTRICTION_ZERO, None),
      (ICAL_VJOURNAL_COMPONENT, ICAL_RESTRICTION_ZERO, None)]"

definition cancel_vevent_components :: "component_rows" where
  "cancel_vevent_components =
     [(ICAL_VTIMEZONE_COMPONENT, ICAL_RESTRICTION_ZEROPLUS, Some F_must_if_tz_ref),
      (ICAL_X_COMPONENT, ICAL_RESTRICTION_ZEROPLUS, None), (ICAL_VTODO_COMPONENT, ICAL_RESTRICTION_ZERO, None),
      (ICAL_VJOURNAL_COMPONENT, ICAL_RESTRICTION_ZERO, None),
      (ICAL_VFREEBUSY_COMPONENT, ICAL_RESTRICTION_ZERO, None),
      (ICAL_VALARM_COMPONENT, ICAL_RESTRICTION_ZERO, None)]"

definition refresh_vevent_components :: "component_rows" where
  "refresh_vevent_components =
     [(ICAL_X_COMPONENT, ICAL_RESTRICTION_ZEROPLUS, None), (ICAL_VTODO_COMPONENT, ICAL_RESTRICTION_ZERO, None),
      (ICAL_VJOURNAL_COMPONENT, ICAL_RESTRICTION_ZERO, None),
      (ICAL_VFREEBUSY_COMPONENT, ICAL_RESTRICTION_ZERO, None),
      (ICAL_VTIMEZONE_COMPONENT, ICAL_RESTRICTION_ZERO, Some F_must_if_tz_ref),
      (ICAL_VALARM_COMPONENT, ICAL_RESTRICTION_ZERO, None)]"

definition counter_vevent_components :: "component_rows" where
  "counter_vevent_components =
     [(ICAL_VALARM_COMPONENT, ICAL_RESTRICTION_ZEROPLUS, None),
      (ICAL_VTIMEZONE_COMPONENT, ICAL_RESTRICTION_ZEROPLUS, Some F_must_if_tz_ref),
      (ICAL_X_COMPONENT, ICAL_RESTRICTION_ZEROPLUS, None), (ICAL_VTODO_COMPONENT, ICAL_RESTRICTION_ZERO, None),
      (ICAL_VJOURNAL_COMPONENT, ICAL_RESTRICTION_ZERO, None),
      (ICAL_VFREEBUSY_COMPONENT, ICAL_RESTRICTION_ZERO, None)]"

definition declinecounter_vevent_components :: "component_rows" where
  "declinecounter_vevent_components =
     [(ICAL_X_COMPONENT, ICAL_RESTRICTION_ZEROPLUS, None), (ICAL_VTODO_COMPONENT, ICAL_RESTRICTION_ZERO, None),
      (ICAL_VJOURNAL_COMPONENT, ICAL_RESTRICTION_ZERO, None),
      (ICAL_VFREEBUSY_COMPONENT, ICAL_RESTRICTION_ZERO, None),
      (ICAL_VTIMEZONE_COMPONENT, ICAL_RESTRICTION_ZERO, Some F_must_if_tz_ref),
      (ICAL_VALARM_COMPONENT, ICAL_RESTRICTION_ZERO, None)]"

definition publish_vfreebusy_components :: "component_rows" where
  "publish_vfreebusy_components =
     [(ICAL_X_COMPONENT, ICAL_RESTRICTION_ZEROPLUS, None), (ICAL_VEVENT_COMPONENT, ICAL_RESTRICTION_ZERO, None),
      (ICAL_VTODO_COMPONENT, ICAL_RESTRICTION_ZERO, None),
      (ICAL_VJOURNAL_COMPONENT, ICAL_RESTRICTION_ZERO, None),
      (ICAL_VTIMEZONE_COMPONENT, ICAL_RESTRICTION_ZERO, Some F_must_if_tz_ref),
      (ICAL_VALARM_COMPONENT, ICAL_RESTRICTION_ZERO, None)]"

definition request_vfreebusy_components :: "component_rows" where
  "request_vfreebusy_components =
     [(ICAL_X_COMPONENT, ICAL_RESTRICTION_ZEROPLUS, None), (ICAL_VALARM_COMPONENT, ICAL_RESTRICTION_ZERO, None),
      (ICAL_VEVENT_COMPONENT, ICAL_RESTRICTION_ZERO, None), (ICAL_VTODO_COMPONENT, ICAL_RESTRICTION_ZERO, None),
      (ICAL_VJOURNAL_COMPONENT, ICAL_RESTRICTION_ZERO, None),
      (ICAL_VTIMEZONE_COMPONENT, ICAL_RESTRICTION_ZERO, None)]"

definition reply_vfreebusy_components :: "component_rows" where
  "reply_vfreebusy_components =
     [(ICAL_X_COMPONENT, ICAL_RESTRICTION_ZEROPLUS, None), (ICAL_VALARM_COMPONENT, ICAL_RESTRICTION_ZERO, None),
      (ICAL_VEVENT_COMPONENT, ICAL_RESTRICTION_ZERO, None), (ICAL_VTODO_COMPONENT, ICAL_RESTRICTION_ZERO, None),
      (ICAL_VJOURNAL_COMPONENT, ICAL_RESTRICTION_ZERO, None),
      (ICAL_VTIMEZONE_COMPONENT, ICAL_RESTRICTION_ZERO, None)]"

definition publish_vtodo_components :: "component_rows" where
  "publish_vtodo_components =
     [(ICAL_VTIMEZONE_COMPONENT, ICAL_RESTRICTION_ZEROPLUS, None),
      (ICAL_VALARM_COMPONENT, ICAL_RESTRICTION_ZEROPLUS, None),
      (ICAL_X_COMPONENT, ICAL_RESTRICTION_ZEROPLUS, None),
      (ICAL_VFREEBUSY_COMPONENT, ICAL_RESTRICTION_ZERO, None),
      (ICAL_VEVENT_COMPONENT, ICAL_RESTRICTION_ZERO, None),
      (ICAL_VJOURNAL_COMPONENT, ICAL_RESTRICTION_ZERO, None)]"

definition request_vtodo_components :: "component_rows" where
  "request_vtodo_components =
     [(ICAL_VALARM_COMPONENT, ICAL_RESTRICTION_ZEROPLUS, None),
      (ICAL_VTIMEZONE_COMPONENT, ICAL_RESTRICTION_ZEROPLUS, None),
      (ICAL_X_COMPONENT, ICAL_RESTRICTION_ZEROPLUS, None), (ICAL_VEVENT_COMPONENT, ICAL_RESTRICTION_ZERO, None),
      (ICAL_VFREEBUSY_COMPONENT, ICAL_RESTRICTION_ZERO, None),
      (ICAL_VJOURNAL_COMPONENT, ICAL_RESTRICTION_ZERO, None)]"

definition reply_vtodo_components :: "component_rows" where
  "reply_vtodo_components =
     [(ICAL_VTIMEZONE_COMPONENT, ICAL_RESTRICTION_ZEROORONE, None),
      (ICAL_X_COMPONENT, ICAL_RESTRICTION_ZEROPLUS, None), (ICAL_VALARM_COMPONENT, ICAL_RESTRICTION_ZERO, None),
      (ICAL_VEVENT_COMPONENT, ICAL_RESTRICTION_ZERO, None),
      (ICAL_VFREEBUSY_COMPONENT, ICAL_RESTRICTION_ZERO, None)]"

definition add_vtodo_components :: "component_rows" where
  "add_vtodo_components =
     [(ICAL_VALARM_COMPONENT, ICAL_RESTRICTION_ZEROPLUS, None),
      (ICAL_VTIMEZONE_COMPONENT, ICAL_RESTRICTION_ZEROPLUS, None),
      (ICAL_X_COMPONENT, ICAL_RESTRICTION_ZEROPLUS, None), (ICAL_VEVENT_COMPONENT, ICAL_RESTRICTION_ZERO, None),
      (ICAL_VJOURNAL_COMPONENT, ICAL_RESTRICTION_ZERO, None),
      (ICAL_VFREEBUSY_COMPONENT, ICAL_RESTRICTION_ZERO, None)]"

definition cancel_vtodo_components :: "component_rows" where
  "cancel_vtodo_components =
     [(ICAL_VTIMEZONE_COMPONENT, ICAL_RESTRICTION_ZEROORONE, None),
      (ICAL_X_COMPONENT, ICAL_RESTRICTION_ZEROPLUS, None), (ICAL_VALARM_COMPONENT, ICAL_RESTRICTION_ZERO, None),
      (ICAL_VEVENT_COMPONENT, ICAL_RESTRICTION_ZERO, None),
      (ICAL_VFREEBUSY_COMPONENT, ICAL_RESTRICTION_ZERO, None)]"

definition refresh_vtodo_components :: "component_rows" where
  "refresh_vtodo_components =
     [(ICAL_X_COMPONENT, ICAL_RESTRICTION_ZEROPLUS, None), (ICAL_VALARM_COMPONENT, ICAL_RESTRICTION_ZERO, None),
      (ICAL_VEVENT_COMPONENT, ICAL_RESTRICTION_ZERO, None),
      (ICAL_VFREEBUSY_COMPONENT, ICAL_RESTRICTION_ZERO, None),
      (ICAL_VTIMEZONE_COMPONENT, ICAL_RESTRICTION_ZERO, None)]"

definition counter_vtodo_components :: "component_rows" where
  "counter_vtodo_components =
     [(ICAL_VALARM_COMPONENT, ICAL_RESTRICTION_ZEROPLUS, None),
      (ICAL_VTIMEZONE_COMPONENT, ICAL_RESTRICTION_ZEROORONE, None),
      (ICAL_X_COMPONENT, ICAL_RESTRICTION_ZEROPLUS, None), (ICAL_VEVENT_COMPONENT, ICAL_RESTRICTION_ZERO, None),
      (ICAL_VFREEBUSY_COMPONENT, ICAL_RESTRICTION_ZERO, None)]"

definition declinecounter_vtodo_components :: "component_rows" where
  "declinecounter_vtodo_components =
     [(ICAL_VTIMEZONE_COMPONENT, ICAL_RESTRICTION_ZEROPLUS, None),
      (ICAL_X_COMPONENT, ICAL_RESTRICTION_ZEROPLUS, None), (ICAL_VALARM_COMPONENT, ICAL_RESTRICTION_ZERO, None),
      (ICAL_VEVENT_COMPONENT, ICAL_RESTRICTION_ZERO, None),
      (ICAL_VFREEBUSY_COMPONENT, ICAL_RESTRICTION_ZERO, None)]"

definition publish_vjournal_components :: "component_rows" where
  "publish_vjournal_components =
     [(ICAL_VALARM_COMPONENT, ICAL_RESTRICTION_ZEROPLUS, None),
      (ICAL_VTIMEZONE_COMPONENT, ICAL_RESTRICTION_ZEROPLUS, None),
      (ICAL_X_COMPONENT, ICAL_RESTRICTION_ZEROPLUS, None), (ICAL_VEVENT_COMPONENT, ICAL_RESTRICTION_ZERO, None),
      (ICAL_VFREEBUSY_COMPONENT, ICAL_RESTRICTION_ZERO, None),
      (ICAL_VTODO_COMPONENT, ICAL_RESTRICTION_ZERO, None)]"

definition add_vjournal_components :: "component_rows" where
  "add_vjournal_components =
     [(ICAL_VALARM_COMPONENT, ICAL_RESTRICTION_ZEROPLUS, None),
      (ICAL_VTIMEZONE_COMPONENT, ICAL_RESTRICTION_ZEROORONE, None),
      (ICAL_X_COMPONENT, ICAL_RESTRICTION_ZEROPLUS, None), (ICAL_VEVENT_COMPONENT, ICAL_RESTRICTION_ZERO, None),
      (ICAL_VFREEBUSY_COMPONENT, ICAL_RESTRICTION_ZERO, None),
      (ICAL_VTODO_COMPONENT, ICAL_RESTRICTION_ZERO, None)]"

definition cancel_vjournal_components :: "component_rows" where
  "cancel_vjournal_components =
     [(ICAL_VTIMEZONE_COMPONENT, ICAL_RESTRICTION_ZEROPLUS, None),
      (ICAL_X_COMPONENT, ICAL_RESTRICTION_ZEROPLUS, None), (ICAL_VALARM_COMPONENT, ICAL_RESTRICTION_ZERO, None),
      (ICAL_VEVENT_COMPONENT, ICAL_RESTRICTION_ZERO, None),
      (ICAL_VFREEBUSY_COMPONENT, ICAL_RESTRICTION_ZERO, None),
      (ICAL_VTODO_COMPONENT, ICAL_RESTRICTION_ZERO, None)]"

definition none_vtimezone_components :: "component_rows" where
  "none_vtimezone_components =
     [(ICAL_XSTANDARD_COMPONENT, ICAL_RESTRICTION_ZEROPLUS, None),
      (ICAL_XDAYLIGHT_COMPONENT, ICAL_RESTRICTION_ZEROPLUS, None)]"

definition icalrestriction_component_records :: "icalrestriction_component_record list" where
  "icalrestriction_component_records = concat
     [component_records ICAL_METHOD_PUBLISH ICAL_VEVENT_COMPONENT publish_vevent_components,
      component_records ICAL_METHOD_REQUEST ICAL_VEVENT_COMPONENT request_vevent_components,
      component_records ICAL_METHOD_REPLY ICAL_VEVENT_COMPONENT reply_vevent_components,
      component_records ICAL_METHOD_ADD ICAL_VEVENT_COMPONENT add_vevent_components,
      component_records ICAL_METHOD_CANCEL ICAL_VEVENT_COMPONENT cancel_vevent_components,
      component_records ICAL_METHOD_REFRESH ICAL_VEVENT_COMPONENT refresh_vevent_components,
      component_records ICAL_METHOD_COUNTER ICAL_VEVENT_COMPONENT counter_vevent_components,
      component_records ICAL_METHOD_DECLINECOUNTER ICAL_VEVENT_COMPONENT declinecounter_vevent_components,
      component_records ICAL_METHOD_PUBLISH ICAL_VFREEBUSY_COMPONENT publish_vfreebusy_components,
      component_records ICAL_METHOD_REQUEST ICAL_VFREEBUSY_COMPONENT request_vfreebusy_components,
      component_records ICAL_METHOD_REPLY ICAL_VFREEBUSY_COMPONENT reply_vfreebusy_components,
      component_records ICAL_METHOD_PUBLISH ICAL_VTODO_COMPONENT publish_vtodo_components,
      component_records ICAL_METHOD_REQUEST ICAL_VTODO_COMPONENT request_vtodo_components,
      component_records ICAL_METHOD_REPLY ICAL_VTODO_COMPONENT reply_vtodo_components,
      component_records ICAL_METHOD_ADD ICAL_VTODO_COMPONENT add_vtodo_components,
      component_records ICAL_METHOD_CANCEL ICAL_VTODO_COMPONENT cancel_vtodo_components,
      component_records ICAL_METHOD_REFRESH ICAL_VTODO_COMPONENT refresh_vtodo_components,
      component_records ICAL_METHOD_COUNTER ICAL_VTODO_COMPONENT counter_vtodo_components,
      component_records ICAL_METHOD_DECLINECOUNTER ICAL_VTODO_COMPONENT declinecounter_vtodo_components,
      component_records ICAL_METHOD_PUBLISH ICAL_VJOURNAL_COMPONENT publish_vjournal_components,
      component_records ICAL_METHOD_ADD ICAL_VJOURNAL_COMPONENT add_vjournal_components,
      component_records ICAL_METHOD_CANCEL ICAL_VJOURNAL_COMPONENT cancel_vjournal_components,
      component_records ICAL_METHOD_NONE ICAL_VTIMEZONE_COMPONENT none_vtimezone_components]"

section \<open>Look-up\<close>

definition null_prop_record :: icalrestriction_property_record where
  "null_prop_record = \<lparr>rp_method = ICAL_METHOD_NONE, rp_component = ICAL_NO_COMPONENT, rp_property = ICAL_NO_PROPERTY,
     rp_restriction = ICAL_RESTRICTION_UNKNOWN, rp_function = None\<rparr>"

definition null_comp_record :: icalrestriction_component_record where
  "null_comp_record = \<lparr>rc_method = ICAL_METHOD_NONE, rc_component = ICAL_NO_COMPONENT,
     rc_subcomponent = ICAL_NO_COMPONENT, rc_restriction = ICAL_RESTRICTION_UNKNOWN, rc_function = None\<rparr>"

definition icalrestriction_get_property_restriction ::
    "int \<Rightarrow> icalcomponent_kind \<Rightarrow> icalproperty_kind \<Rightarrow> icalrestriction_property_record" where
  "icalrestriction_get_property_restriction method c p =
     (case List.find (\<lambda>r. method = rp_method r \<and> c = rp_component r \<and> p = rp_property r)
             (takeWhile (\<lambda>r. rp_restriction r \<noteq> ICAL_RESTRICTION_NONE) icalrestriction_property_records) of
        Some r \<Rightarrow> r | None \<Rightarrow> null_prop_record)"

definition icalrestriction_get_component_restriction ::
    "int \<Rightarrow> icalcomponent_kind \<Rightarrow> icalcomponent_kind \<Rightarrow> icalrestriction_component_record" where
  "icalrestriction_get_component_restriction method c s =
     (case List.find (\<lambda>r. method = rc_method r \<and> c = rc_component r \<and> s = rc_subcomponent r)
             (takeWhile (\<lambda>r. rc_restriction r \<noteq> ICAL_RESTRICTION_NONE) icalrestriction_component_records) of
        Some r \<Rightarrow> r | None \<Rightarrow> null_comp_record)"

section \<open>Checking\<close>

definition ICAL_XLICERRORTYPE_INVALIDITIP :: int where "ICAL_XLICERRORTYPE_INVALIDITIP = 20094"

definition ITIP_BUF_SIZE :: nat where "ITIP_BUF_SIZE = 1024"

definition add_itip_error :: "nat \<Rightarrow> string \<Rightarrow> ical \<Rightarrow> ical option" where
  "add_itip_error c message st = do {
     (param, st1) \<leftarrow> icalparameter_new_xlicerrortype ICAL_XLICERRORTYPE_INVALIDITIP st;
     (p, st2) \<leftarrow> icalproperty_vanew_xlicerror (Some message) [param, 0] st1;
     icalcomponent_add_property c p st2 }"

text \<open>A kind without a name is never counted wrong: no row restricts it.\<close>

definition count_message :: "icalproperty_kind \<Rightarrow> icalrestriction_kind \<Rightarrow> int \<Rightarrow> string option" where
  "count_message kind restr cnt =
     map_option (\<lambda>name. take (ITIP_BUF_SIZE - 1)
       (''Failed iTIP restrictions for '' @ name @ '' property. Expected '' @ restr_string_map restr @
        '' instances of the property and got '' @ fmt_d cnt)) (icalproperty_kind_to_string kind)"

definition counted_as :: "icalrestriction_kind \<Rightarrow> icalrestriction_kind" where
  "counted_as restr =
     (if restr = ICAL_RESTRICTION_ONEEXCLUSIVE \<or> restr = ICAL_RESTRICTION_ONEMUTUAL
      then ICAL_RESTRICTION_ZEROORONE else restr)"

text \<open>
  The check of a kind of property. The report of a function is kept in \<open>funcr\<close>, which is not reset: after a
  failure each of the following kinds fails with the same report.
\<close>

definition check_kind ::
    "int \<Rightarrow> nat \<Rightarrow> icalcomponent_kind \<Rightarrow> icalproperty_kind \<Rightarrow> string option \<times> bool \<Rightarrow> ical
       \<Rightarrow> ((string option \<times> bool) \<times> ical) option" where
  "check_kind method c ckind kind fv st = do {
     (cnt, st1) \<leftarrow> icalcomponent_count_properties c kind st;
     let row = icalrestriction_get_property_restriction method ckind kind;
     let restr = counted_as (rp_restriction row);
     let cmp = icalrestriction_compare restr cnt;
     if cmp = - 1 then None
     else do {
       st2 \<leftarrow> (if cmp = 0 then do { m \<leftarrow> count_message kind restr cnt; add_itip_error c m st1 } else Some st1);
       (p, st3) \<leftarrow> icalcomponent_get_first_property c kind st2;
       (funcr, st4) \<leftarrow> (case rp_function row of
                          Some f \<Rightarrow> if p \<noteq> 0 then restriction_function f c p st3 else Some (fst fv, st3)
                        | None \<Rightarrow> Some (fst fv, st3));
       st5 \<leftarrow> (case funcr of Some m \<Rightarrow> add_itip_error c m st4 | None \<Rightarrow> Some st4);
       Some ((funcr, snd fv \<and> cmp \<noteq> 0 \<and> funcr = None), st5) } }"

fun check_kinds ::
    "int \<Rightarrow> nat \<Rightarrow> icalcomponent_kind \<Rightarrow> icalproperty_kind list \<Rightarrow> string option \<times> bool \<Rightarrow> ical \<Rightarrow> (bool \<times> ical) option" where
  "check_kinds method c ckind [] fv st = Some (snd fv, st)"
| "check_kinds method c ckind (k # ks) fv st = do {
     (fv1, st1) \<leftarrow> check_kind method c ckind k fv st;
     check_kinds method c ckind ks fv1 st1 }"

definition icalrestriction_check_component :: "int \<Rightarrow> nat \<Rightarrow> ical \<Rightarrow> (bool \<times> ical) option" where
  "icalrestriction_check_component method c st = do {
     (ckind, st1) \<leftarrow> icalcomponent_isa c st;
     check_kinds method c ckind [ICAL_ANY_PROPERTY + 1 .. ICAL_NO_PROPERTY - 1] (None, True) st1 }"

text \<open>After a component that fails, the rest is not checked.\<close>

fun check_inner :: "nat \<Rightarrow> int \<Rightarrow> nat \<Rightarrow> nat \<Rightarrow> bool \<Rightarrow> ical \<Rightarrow> (bool \<times> ical) option" where
  "check_inner 0 method c x valid st = None"
| "check_inner (Suc n) method c x valid st =
     (if x = 0 then Some (valid, st)
      else do {
        (valid1, st1) \<leftarrow> (if valid then icalrestriction_check_component method x st else Some (False, st));
        (y, st2) \<leftarrow> icalcomponent_get_next_component c ICAL_ANY_COMPONENT st1;
        check_inner n method c y valid1 st2 })"

definition icalrestriction_check :: "nat \<Rightarrow> ical \<Rightarrow> (bool \<times> ical) option" where
  "icalrestriction_check c st =
     (if c = 0 then bad_arg False st
      else do {
        (k, st1) \<leftarrow> icalcomponent_isa c st;
        if k \<noteq> ICAL_VCALENDAR_COMPONENT then bad_arg False st1
        else do {
          (p, st2) \<leftarrow> icalcomponent_get_first_property c ICAL_METHOD_PROPERTY st1;
          (method, st3) \<leftarrow> (if p = 0 then Some (ICAL_METHOD_NONE, st2) else icalproperty_get_method p st2);
          (valid, st4) \<leftarrow> icalrestriction_check_component ICAL_METHOD_NONE c st3;
          (x, st5) \<leftarrow> icalcomponent_get_first_component c ICAL_ANY_COMPONENT st4;
          r \<leftarrow> comp_at c st5;
          check_inner (fresh (snd (co_components r))) method c x valid st5 } })"

definition icalcomponent_check_restrictions :: "nat \<Rightarrow> ical \<Rightarrow> (bool \<times> ical) option" where
  "icalcomponent_check_restrictions c st = (if c = 0 then bad_arg False st else icalrestriction_check c st)"

end
