(* ===== verification/IcalClassify.thy ===== *)
theory IcalClassify
  imports CompRecur
begin

text \<open>
  The class of an iTIP message, \<^verbatim>\<open>icalclassify.c\<close>: how an incoming component relates to the stored one that it
  matches. The set of components of \<^verbatim>\<open>icalset.c\<close>, whose operations depend on where it is stored, is the list of
  those it runs over.
\<close>

section \<open>Overlaps\<close>

text \<open>A copy of each component of a set whose span intersects the given one goes into a new component.\<close>

fun add_overlaps ::
    "coverage \<Rightarrow> (string option \<Rightarrow> tm \<Rightarrow> int) \<Rightarrow> zone_access \<Rightarrow> icaltime_span \<Rightarrow> nat \<Rightarrow> nat list \<Rightarrow> ical \<Rightarrow> tz_env
       \<Rightarrow> (ical \<times> tz_env) option" where
  "add_overlaps cov mk za compspan target [] st env = Some (st, env)"
| "add_overlaps cov mk za compspan target (c # cs) st env = do {
     (sp, st1, env1) \<leftarrow> icalcomponent_get_span cov mk za c (clear_errno st) env;
     if icalerrno (errs st1) \<noteq> ICAL_NO_ERROR then add_overlaps cov mk za compspan target cs st1 env1
     else if span_start compspan < span_end sp \<and> span_end compspan > span_start sp then do {
       (d, st2) \<leftarrow> icalcomponent_new_clone cov c st1;
       st3 \<leftarrow> icalcomponent_add_component cov target d st2;
       add_overlaps cov mk za compspan target cs st3 env1 }
     else add_overlaps cov mk za compspan target cs st1 env1 }"

definition icalclassify_find_overlaps ::
    "coverage \<Rightarrow> (string option \<Rightarrow> tm \<Rightarrow> int) \<Rightarrow> zone_access \<Rightarrow> nat list \<Rightarrow> nat \<Rightarrow> ical \<Rightarrow> tz_env
       \<Rightarrow> (nat \<times> ical \<times> tz_env) option" where
  "icalclassify_find_overlaps cov mk za cs c st env = do {
     (compspan, st1, env1) \<leftarrow> icalcomponent_get_span cov mk za c (clear_errno st) env;
     if icalerrno (errs st1) \<noteq> ICAL_NO_ERROR then Some (0, st1, env1)
     else do {
       let (target, st2) = icalcomponent_new ICAL_XROOT_COMPONENT st1;
       (st3, env2) \<leftarrow> add_overlaps cov mk za compspan target cs st2 env1;
       (n, st4) \<leftarrow> icalcomponent_count_components target ICAL_ANY_COMPONENT st3;
       if n \<noteq> 0 then Some (target, st4, env2)
       else map_option (\<lambda>st5. (0, st5, env2)) (icalcomponent_free target st4) } }"

section \<open>Attendees\<close>

definition icalclassify_lowercase :: "string option \<Rightarrow> string option" where
  "icalclassify_lowercase = map_option (map to_lower)"

text \<open>What is behind the first colon of an address.\<close>

definition upn_of :: "string \<Rightarrow> string option" where
  "upn_of s = (case dropWhile (\<lambda>x. x \<noteq> CHR '':'') s of [] \<Rightarrow> None | _ # r \<Rightarrow> Some r)"

fun seek_attendee :: "nat \<Rightarrow> nat \<Rightarrow> string \<Rightarrow> nat \<Rightarrow> ical \<Rightarrow> (nat \<times> ical) option" where
  "seek_attendee 0 inner upn p st = None"
| "seek_attendee (Suc n) inner upn p st =
     (if p = 0 then Some (0, st)
      else do {
        (a, st1) \<leftarrow> icalproperty_get_attendee p st;
        if Option.bind (icalclassify_lowercase a) upn_of = Some upn then Some (p, st1)
        else do {
          (q, st2) \<leftarrow> icalcomponent_get_next_property inner ICAL_ATTENDEE_PROPERTY st1;
          seek_attendee n inner upn q st2 } })"

definition icalclassify_find_attendee :: "nat \<Rightarrow> string option \<Rightarrow> ical \<Rightarrow> (nat \<times> ical) option" where
  "icalclassify_find_attendee c attendee st =
     (case icalclassify_lowercase attendee of
        None \<Rightarrow> Some (0, st)
      | Some l \<Rightarrow> do {
          let upn = (case upn_of l of None \<Rightarrow> l | Some u \<Rightarrow> u);
          (inner, st1) \<leftarrow> icalcomponent_get_first_real_component c st;
          (p, st2) \<leftarrow> icalcomponent_get_first_property inner ICAL_ATTENDEE_PROPERTY st1;
          if inner = 0 then Some (0, st2)
          else do {
            r \<leftarrow> comp_at inner st2;
            seek_attendee (fresh (snd (co_properties r))) inner upn p st2 } })"

section \<open>Parts of a message\<close>

record icalclassify_parts =
  cp_c :: nat
  cp_inner_kind :: icalcomponent_kind
  cp_method :: int
  cp_organizer :: "string option"
  cp_reply_partstat :: int
  cp_reply_attendee :: "string option"
  cp_uid :: "string option"
  cp_sequence :: int
  cp_dtstamp :: icaltimetype
  cp_recurrence_id :: icaltimetype

text \<open>All members zero, but the method and the status of the participation.\<close>

definition no_parts :: icalclassify_parts where
  "no_parts = \<lparr>cp_c = 0, cp_inner_kind = ICAL_NO_COMPONENT, cp_method = ICAL_METHOD_NONE, cp_organizer = None,
     cp_reply_partstat = ICAL_PARTSTAT_NONE, cp_reply_attendee = None, cp_uid = None, cp_sequence = 0,
     cp_dtstamp = icaltime_null_time, cp_recurrence_id = icaltime_null_time\<rparr>"

text \<open>The value of the first property of a kind, or the given one.\<close>

definition first_value ::
    "nat \<Rightarrow> icalproperty_kind \<Rightarrow> (nat \<Rightarrow> ical \<Rightarrow> ('x \<times> ical) option) \<Rightarrow> 'x \<Rightarrow> ical \<Rightarrow> ('x \<times> ical) option" where
  "first_value c kind get x st = do {
     (p, st1) \<leftarrow> icalcomponent_get_first_property c kind st;
     if p \<noteq> 0 then get p st1 else Some (x, st1) }"

definition get_reply :: "nat \<Rightarrow> icalclassify_parts \<Rightarrow> ical \<Rightarrow> (icalclassify_parts \<times> ical) option" where
  "get_reply inner parts st = do {
     (p, st1) \<leftarrow> icalcomponent_get_first_property inner ICAL_ATTENDEE_PROPERTY st;
     if p = 0 then Some (parts, st1)
     else do {
       (param, st2) \<leftarrow> icalproperty_get_first_parameter p ICAL_PARTSTAT_PARAMETER st1;
       (ps, st3) \<leftarrow> (if param \<noteq> 0 then icalparameter_get_partstat param st2 else Some (cp_reply_partstat parts, st2));
       (a, st4) \<leftarrow> icalproperty_get_attendee p st3;
       Some (parts\<lparr>cp_reply_partstat := ps, cp_reply_attendee := a\<rparr>, st4) } }"

definition icalssutil_get_parts :: "nat \<Rightarrow> ical \<Rightarrow> (icalclassify_parts \<times> ical) option" where
  "icalssutil_get_parts c st =
     (if c = 0 then Some (no_parts, st)
      else do {
        (method, st1) \<leftarrow> first_value c ICAL_METHOD_PROPERTY icalproperty_get_method ICAL_METHOD_NONE st;
        (inner, st2) \<leftarrow> icalcomponent_get_first_real_component c st1;
        (kind, st3) \<leftarrow> icalcomponent_isa inner st2;
        (organizer, st4) \<leftarrow> first_value inner ICAL_ORGANIZER_PROPERTY icalproperty_get_organizer None st3;
        (seqn, st5) \<leftarrow> first_value inner ICAL_SEQUENCE_PROPERTY icalproperty_get_sequence 0 st4;
        (uid, st6) \<leftarrow> first_value inner ICAL_UID_PROPERTY icalproperty_get_uid None st5;
        (rid, st7) \<leftarrow> first_value inner ICAL_RECURRENCEID_PROPERTY icalproperty_get_recurrenceid icaltime_null_time st6;
        (stamp, st8) \<leftarrow> first_value inner ICAL_DTSTAMP_PROPERTY icalproperty_get_dtstamp icaltime_null_time st7;
        let parts = no_parts\<lparr>cp_c := c, cp_inner_kind := kind, cp_method := method, cp_organizer := organizer,
          cp_sequence := seqn, cp_uid := uid, cp_recurrence_id := rid, cp_dtstamp := stamp\<rparr>;
        if method = ICAL_METHOD_REPLY then get_reply inner parts st8 else Some (parts, st8) })"

section \<open>Rescheduling\<close>

definition time_kinds :: "icalproperty_kind list" where
  "time_kinds = [ICAL_DTSTART_PROPERTY, ICAL_DTEND_PROPERTY, ICAL_DURATION_PROPERTY, ICAL_DUE_PROPERTY,
     ICAL_RRULE_PROPERTY, ICAL_RDATE_PROPERTY, ICAL_EXRULE_PROPERTY, ICAL_EXDATE_PROPERTY]"

fun kinds_differ :: "icalproperty_kind list \<Rightarrow> nat \<Rightarrow> nat \<Rightarrow> ical \<Rightarrow> (bool \<times> ical) option" where
  "kinds_differ [] i1 i2 st = Some (False, st)"
| "kinds_differ (k # ks) i1 i2 st = do {
     (p1, st1) \<leftarrow> icalcomponent_get_first_property i1 k st;
     (p2, st2) \<leftarrow> icalcomponent_get_first_property i2 k st1;
     if (p1 \<noteq> 0) \<noteq> (p2 \<noteq> 0) then Some (True, st2)
     else if p1 = 0 then kinds_differ ks i1 i2 st2
     else do {
       (s1, st3) \<leftarrow> icalproperty_as_ical_string_r p1 st2;
       (s2, st4) \<leftarrow> icalproperty_as_ical_string_r p2 st3;
       t1 \<leftarrow> s1;
       t2 \<leftarrow> s2;
       if t1 \<noteq> t2 then Some (True, st4) else kinds_differ ks i1 i2 st4 } }"

definition icalssutil_is_rescheduled :: "nat \<Rightarrow> nat \<Rightarrow> ical \<Rightarrow> (bool \<times> ical) option" where
  "icalssutil_is_rescheduled a b st = do {
     (i1, st1) \<leftarrow> icalcomponent_get_first_real_component a st;
     (i2, st2) \<leftarrow> icalcomponent_get_first_real_component b st1;
     kinds_differ time_kinds i1 i2 st2 }"

section \<open>The tests\<close>

text \<open>
  Each test has the parts of the message, those of the match, and the user. The caller always has parts of the
  match, those of no component if there is none, so that the pointer to them is not null: a test for that fails.
\<close>

type_synonym classifier =
  "icalclassify_parts \<Rightarrow> icalclassify_parts option \<Rightarrow> string option \<Rightarrow> ical \<Rightarrow> (bool \<times> ical) option"

definition icalclassify_publish_new :: classifier where
  "icalclassify_publish_new cp match user st =
     Some (cp_method cp = ICAL_METHOD_PUBLISH \<and> match = None \<and> cp_inner_kind cp \<noteq> ICAL_VFREEBUSY_COMPONENT, st)"

definition icalclassify_publish_update :: classifier where
  "icalclassify_publish_update cp match user st =
     Some (cp_method cp = ICAL_METHOD_PUBLISH \<and> match \<noteq> None \<and> cp_inner_kind cp \<noteq> ICAL_VFREEBUSY_COMPONENT, st)"

definition icalclassify_publish_freebusy :: classifier where
  "icalclassify_publish_freebusy cp match user st =
     Some (cp_method cp = ICAL_METHOD_PUBLISH \<and> cp_inner_kind cp = ICAL_VFREEBUSY_COMPONENT, st)"

definition icalclassify_request_new :: classifier where
  "icalclassify_request_new cp match user st =
     map_option (\<lambda>m. (cp_c m = 0 \<and> cp_method cp = ICAL_METHOD_REQUEST, st)) match"

definition icalclassify_request_update :: classifier where
  "icalclassify_request_update cp match user st =
     (case match of
        None \<Rightarrow> Some (False, st)
      | Some m \<Rightarrow> if cp_sequence cp \<ge> cp_sequence m
                   then map_option (\<lambda>(b, st1). (\<not> b, st1)) (icalssutil_is_rescheduled (cp_c cp) (cp_c m) st)
                   else Some (False, st))"

definition icalclassify_request_reschedule :: classifier where
  "icalclassify_request_reschedule cp match user st = do {
     m \<leftarrow> match;
     if cp_c m \<noteq> 0 \<and> cp_sequence cp > cp_sequence m then icalssutil_is_rescheduled (cp_c cp) (cp_c m) st
     else Some (False, st) }"

definition icalclassify_request_delegate :: classifier where
  "icalclassify_request_delegate cp match user st = do {
     (p, st1) \<leftarrow> icalclassify_find_attendee (cp_c cp) user st;
     if p = 0 then Some (False, st1)
     else do {
       (param, st2) \<leftarrow> icalproperty_get_first_parameter p ICAL_DELEGATEDFROM_PARAMETER st1;
       Some (param \<noteq> 0, st2) } }"

definition unimplemented :: classifier where
  "unimplemented cp match user st = map_option (\<lambda>st1. (False, st1)) (set_errno ICAL_UNIMPLEMENTED_ERROR st)"

definition icalclassify_request_new_organizer :: classifier where
  "icalclassify_request_new_organizer = unimplemented"

definition icalclassify_request_status :: classifier where
  "icalclassify_request_status = unimplemented"

definition icalclassify_request_forward :: classifier where
  "icalclassify_request_forward = unimplemented"

definition icalclassify_request_freebusy :: classifier where
  "icalclassify_request_freebusy = unimplemented"

text \<open>A reply: whether its attendee is one of the match, and the status of the participation.\<close>

definition reply_is :: "bool \<Rightarrow> int \<Rightarrow> classifier" where
  "reply_is invited partstat cp match user st = do {
     m \<leftarrow> match;
     (p, st1) \<leftarrow> icalclassify_find_attendee (cp_c m) (cp_reply_attendee cp) st;
     Some ((p \<noteq> 0) = invited \<and> cp_reply_partstat cp = partstat, st1) }"

definition icalclassify_reply_accept :: classifier where
  "icalclassify_reply_accept = reply_is True ICAL_PARTSTAT_ACCEPTED"

definition icalclassify_reply_decline :: classifier where
  "icalclassify_reply_decline = reply_is True ICAL_PARTSTAT_DECLINED"

definition icalclassify_reply_delegate :: classifier where
  "icalclassify_reply_delegate = reply_is True ICAL_PARTSTAT_DELEGATED"

definition icalclassify_reply_crasher_accept :: classifier where
  "icalclassify_reply_crasher_accept = reply_is False ICAL_PARTSTAT_ACCEPTED"

definition icalclassify_reply_crasher_decline :: classifier where
  "icalclassify_reply_crasher_decline = reply_is False ICAL_PARTSTAT_DECLINED"

definition method_is :: "int \<Rightarrow> classifier" where
  "method_is method cp match user st = Some (cp_method cp = method, st)"

definition icalclassify_add_instance :: classifier where
  "icalclassify_add_instance = method_is ICAL_METHOD_ADD"

definition icalclassify_cancel_event :: classifier where
  "icalclassify_cancel_event = method_is ICAL_METHOD_CANCEL"

definition icalclassify_cancel_instance :: classifier where
  "icalclassify_cancel_instance = method_is ICAL_METHOD_CANCEL"

definition icalclassify_cancel_all :: classifier where
  "icalclassify_cancel_all = method_is ICAL_METHOD_CANCEL"

definition icalclassify_refesh :: classifier where
  "icalclassify_refesh = method_is ICAL_METHOD_REFRESH"

definition icalclassify_counter :: classifier where
  "icalclassify_counter = method_is ICAL_METHOD_COUNTER"

definition icalclassify_delinecounter :: classifier where
  "icalclassify_delinecounter = method_is ICAL_METHOD_DECLINECOUNTER"

section \<open>Classification\<close>

definition icalclassify_map :: "(int \<times> classifier \<times> int) list" where
  "icalclassify_map =
     [(ICAL_METHOD_PUBLISH, icalclassify_publish_new, ICAL_XLICCLASS_PUBLISHNEW),
      (ICAL_METHOD_PUBLISH, icalclassify_publish_update, ICAL_XLICCLASS_PUBLISHUPDATE),
      (ICAL_METHOD_PUBLISH, icalclassify_publish_freebusy, ICAL_XLICCLASS_PUBLISHFREEBUSY),
      (ICAL_METHOD_REQUEST, icalclassify_request_delegate, ICAL_XLICCLASS_REQUESTDELEGATE),
      (ICAL_METHOD_REQUEST, icalclassify_request_new, ICAL_XLICCLASS_REQUESTNEW),
      (ICAL_METHOD_REQUEST, icalclassify_request_update, ICAL_XLICCLASS_REQUESTUPDATE),
      (ICAL_METHOD_REQUEST, icalclassify_request_reschedule, ICAL_XLICCLASS_REQUESTRESCHEDULE),
      (ICAL_METHOD_REQUEST, icalclassify_request_new_organizer, ICAL_XLICCLASS_REQUESTNEWORGANIZER),
      (ICAL_METHOD_REQUEST, icalclassify_request_forward, ICAL_XLICCLASS_REQUESTFORWARD),
      (ICAL_METHOD_REQUEST, icalclassify_request_status, ICAL_XLICCLASS_REQUESTSTATUS),
      (ICAL_METHOD_REQUEST, icalclassify_request_freebusy, ICAL_XLICCLASS_REQUESTFREEBUSY),
      (ICAL_METHOD_REPLY, icalclassify_reply_accept, ICAL_XLICCLASS_REPLYACCEPT),
      (ICAL_METHOD_REPLY, icalclassify_reply_decline, ICAL_XLICCLASS_REPLYDECLINE),
      (ICAL_METHOD_REPLY, icalclassify_reply_delegate, ICAL_XLICCLASS_REPLYDELEGATE),
      (ICAL_METHOD_REPLY, icalclassify_reply_crasher_accept, ICAL_XLICCLASS_REPLYCRASHERACCEPT),
      (ICAL_METHOD_REPLY, icalclassify_reply_crasher_decline, ICAL_XLICCLASS_REPLYCRASHERDECLINE),
      (ICAL_METHOD_ADD, icalclassify_add_instance, ICAL_XLICCLASS_ADDINSTANCE),
      (ICAL_METHOD_CANCEL, icalclassify_cancel_event, ICAL_XLICCLASS_CANCELEVENT),
      (ICAL_METHOD_CANCEL, icalclassify_cancel_instance, ICAL_XLICCLASS_CANCELINSTANCE),
      (ICAL_METHOD_CANCEL, icalclassify_cancel_all, ICAL_XLICCLASS_CANCELALL),
      (ICAL_METHOD_REFRESH, icalclassify_refesh, ICAL_XLICCLASS_REFRESH),
      (ICAL_METHOD_COUNTER, icalclassify_counter, ICAL_XLICCLASS_COUNTER),
      (ICAL_METHOD_DECLINECOUNTER, icalclassify_delinecounter, ICAL_XLICCLASS_DECLINECOUNTER)]"

text \<open>The class of the first test of the method that succeeds.\<close>

fun first_class ::
    "(int \<times> classifier \<times> int) list \<Rightarrow> int \<Rightarrow> icalclassify_parts \<Rightarrow> icalclassify_parts \<Rightarrow> string option \<Rightarrow> ical
       \<Rightarrow> (int \<times> ical) option" where
  "first_class [] method cp match user st = Some (ICAL_XLICCLASS_UNKNOWN, st)"
| "first_class ((m, f, cls) # rest) method cp match user st =
     (if m = method then do {
        (b, st1) \<leftarrow> f cp (Some match) user st;
        if b then Some (cls, st1) else first_class rest method cp match user st1 }
      else first_class rest method cp match user st)"

text \<open>
  A request that is not newer than the match: one with a smaller sequence number, or with the same one and a time
  stamp that is not later. An assertion has both stamps in UTC or neither.
\<close>

definition outdated :: "coverage \<Rightarrow> icalclassify_parts \<Rightarrow> icalclassify_parts \<Rightarrow> int option option" where
  "outdated cov cp match =
     (if (is_utc (cp_dtstamp cp) = 1) \<noteq> (is_utc (cp_dtstamp match) = 1) then None
      else if cp_sequence cp > cp_sequence match then Some None
      else do {
        k \<leftarrow> icaltime_compare cov (cp_dtstamp cp) (cp_dtstamp match);
        Some (if cp_sequence cp < cp_sequence match
              then Some (if k > 0 then ICAL_XLICCLASS_MISSEQUENCED else ICAL_XLICCLASS_OBSOLETE)
              else if k \<le> 0 then Some ICAL_XLICCLASS_OBSOLETE else None) })"

definition icalclassify :: "coverage \<Rightarrow> nat \<Rightarrow> nat \<Rightarrow> string option \<Rightarrow> ical \<Rightarrow> (int \<times> ical) option" where
  "icalclassify cov c match user st = do {
     (inner, st1) \<leftarrow> icalcomponent_get_first_real_component c st;
     if inner = 0 then Some (ICAL_XLICCLASS_NONE, st1)
     else do {
       (comp_parts, st2) \<leftarrow> icalssutil_get_parts c st1;
       (match_parts, st3) \<leftarrow> icalssutil_get_parts match st2;
       old \<leftarrow> (if match \<noteq> 0 \<and> cp_method comp_parts = ICAL_METHOD_REQUEST
               then outdated cov comp_parts match_parts else Some None);
       case old of
         Some cls \<Rightarrow> Some (cls, st3)
       | None \<Rightarrow> do {
           (p, st4) \<leftarrow> icalcomponent_get_first_property c ICAL_METHOD_PROPERTY st3;
           if p = 0 then Some (ICAL_XLICCLASS_UNKNOWN, st4)
           else do {
             (method, st5) \<leftarrow> icalproperty_get_method p st4;
             first_class icalclassify_map method comp_parts match_parts user st5 } } } }"

end
