(* ===== verification/IcalMessage.thy ===== *)
theory IcalMessage
  imports CompRecur
begin

text \<open>
  Replies to iTIP messages, \<^verbatim>\<open>icalmessage.c\<close>. The time of the clock is an argument.
\<close>

section \<open>Parts of a message\<close>

definition icalmessage_get_inner :: "nat \<Rightarrow> ical \<Rightarrow> (nat \<times> ical) option" where
  "icalmessage_get_inner c st = do {
     (k, st1) \<leftarrow> icalcomponent_isa c st;
     if k = ICAL_VCALENDAR_COMPONENT then icalcomponent_get_first_real_component c st1 else Some (c, st1) }"

text \<open>A null text is a null pointer that is copied.\<close>

definition lowercase :: "string option \<Rightarrow> string option" where
  "lowercase = map_option (map to_lower)"

text \<open>Whether a text occurs in another, \<^verbatim>\<open>strstr\<close>.\<close>

fun strstr :: "string \<Rightarrow> string \<Rightarrow> bool" where
  "strstr [] needle = (needle = [])"
| "strstr (x # xs) needle = (take (length needle) (x # xs) = needle \<or> strstr xs needle)"

text \<open>The address is searched for the user as given, although in lower case.\<close>

fun seek_user :: "nat \<Rightarrow> nat \<Rightarrow> string \<Rightarrow> nat \<Rightarrow> ical \<Rightarrow> (nat \<times> ical) option" where
  "seek_user 0 inner user p st = None"
| "seek_user (Suc n) inner user p st =
     (if p = 0 then Some (0, st)
      else do {
        (a, st1) \<leftarrow> icalproperty_get_attendee p st;
        l \<leftarrow> lowercase a;
        if strstr l user then Some (p, st1)
        else do {
          (q, st2) \<leftarrow> icalcomponent_get_next_property inner ICAL_ATTENDEE_PROPERTY st1;
          seek_user n inner user q st2 } })"

definition icalmessage_find_attendee :: "nat \<Rightarrow> string option \<Rightarrow> ical \<Rightarrow> (nat \<times> ical) option" where
  "icalmessage_find_attendee c user st = do {
     (inner, st1) \<leftarrow> icalmessage_get_inner c st;
     u \<leftarrow> user;
     (p, st2) \<leftarrow> icalcomponent_get_first_property inner ICAL_ATTENDEE_PROPERTY st1;
     if p = 0 then Some (0, st2)
     else do {
       r \<leftarrow> comp_at inner st2;
       seek_user (fresh (snd (co_properties r))) inner u p st2 } }"

definition icalmessage_copy_properties :: "nat \<Rightarrow> nat \<Rightarrow> icalproperty_kind \<Rightarrow> ical \<Rightarrow> ical option" where
  "icalmessage_copy_properties to from kind st = do {
     (to_inner, st1) \<leftarrow> icalmessage_get_inner to st;
     (from_inner, st2) \<leftarrow> icalmessage_get_inner from st1;
     if to_inner = 0 \<and> from_inner = 0 then set_errno ICAL_MALFORMEDDATA_ERROR st2
     else do {
       (p, st3) \<leftarrow> icalcomponent_get_first_property from_inner kind st2;
       if p = 0 then Some st3
       else do {
         (p', st4) \<leftarrow> icalcomponent_get_first_property from_inner kind st3;
         (q, st5) \<leftarrow> icalproperty_new_clone p' st4;
         icalcomponent_add_property to_inner q st5 } } }"

fun copy_kinds :: "nat \<Rightarrow> nat \<Rightarrow> icalproperty_kind list \<Rightarrow> ical \<Rightarrow> ical option" where
  "copy_kinds to from [] st = Some st"
| "copy_kinds to from (k # ks) st = do { st1 \<leftarrow> icalmessage_copy_properties to from k st; copy_kinds to from ks st1 }"

section \<open>Replies\<close>

text \<open>What every reply starts with. The arguments of the constructors are evaluated first.\<close>

definition reply_skeleton :: "coverage \<Rightarrow> int \<Rightarrow> ical \<Rightarrow> (nat \<times> ical) option" where
  "reply_skeleton cov now st = do {
     t \<leftarrow> icaltime_from_timet cov now 0;
     (stamp, st1) \<leftarrow> icalproperty_new_dtstamp t st;
     (event, st2) \<leftarrow> icalcomponent_vanew cov ICAL_VEVENT_COMPONENT [stamp, 0] st1;
     (method, st3) \<leftarrow> icalproperty_new_method ICAL_METHOD_REPLY st2;
     icalcomponent_vanew cov ICAL_VCALENDAR_COMPONENT [method, event, 0] st3 }"

definition reply_prodid :: string where
  "reply_prodid = take 44 ''-//SoftwareStudio//NONSGML libical 0.44 //EN''"

definition add_new :: "(ical \<Rightarrow> (nat \<times> ical) option) \<Rightarrow> nat \<Rightarrow> ical \<Rightarrow> ical option" where
  "add_new mk c st = do { (p, st1) \<leftarrow> mk st; icalcomponent_add_property c p st1 }"

definition icalmessage_new_reply_base ::
    "coverage \<Rightarrow> int \<Rightarrow> nat \<Rightarrow> string option \<Rightarrow> string option \<Rightarrow> ical \<Rightarrow> (nat \<times> ical) option" where
  "icalmessage_new_reply_base cov now c user msg st = do {
     (reply, st1) \<leftarrow> reply_skeleton cov now st;
     (inner, st2) \<leftarrow> icalmessage_get_inner reply st1;
     if c = 0 then bad_arg 0 st2
     else do {
       st3 \<leftarrow> copy_kinds reply c [ICAL_UID_PROPERTY, ICAL_ORGANIZER_PROPERTY, ICAL_RECURRENCEID_PROPERTY,
                ICAL_SUMMARY_PROPERTY, ICAL_SEQUENCE_PROPERTY] st2;
       t \<leftarrow> icaltime_from_timet cov now 0;
       st4 \<leftarrow> icalcomponent_set_dtstamp reply t st3;
       st5 \<leftarrow> (if msg \<noteq> None then add_new (icalproperty_new_comment msg) inner st4 else Some st4);
       (attendee, st6) \<leftarrow> icalmessage_find_attendee c user st5;
       if attendee = 0 then do {
         st7 \<leftarrow> set_errno ICAL_MALFORMEDDATA_ERROR st6;
         st8 \<leftarrow> icalcomponent_free reply st7;
         Some (0, st8) }
       else do {
         st7 \<leftarrow> add_new (icalproperty_new_clone attendee) inner st6;
         st8 \<leftarrow> add_new (icalproperty_new_version (Some ''2.0'')) reply st7;
         st9 \<leftarrow> add_new (icalproperty_new_prodid (Some reply_prodid)) reply st8;
         Some (reply, st9) } } }"

text \<open>Setting the status of the participation of the first attendee of a reply.\<close>

definition set_partstat :: "int \<Rightarrow> nat \<Rightarrow> ical \<Rightarrow> (nat \<times> ical) option" where
  "set_partstat ps reply st = do {
     (inner, st1) \<leftarrow> icalmessage_get_inner reply st;
     (attendee, st2) \<leftarrow> icalcomponent_get_first_property inner ICAL_ATTENDEE_PROPERTY st1;
     (q, st3) \<leftarrow> icalparameter_new_partstat ps st2;
     st4 \<leftarrow> icalproperty_set_parameter attendee q st3;
     Some (attendee, st4) }"

definition icalmessage_new_accept_reply ::
    "coverage \<Rightarrow> int \<Rightarrow> nat \<Rightarrow> string option \<Rightarrow> string option \<Rightarrow> ical \<Rightarrow> (nat \<times> ical) option" where
  "icalmessage_new_accept_reply cov now c user msg st =
     (if c = 0 then bad_arg 0 st
      else do {
        (reply, st1) \<leftarrow> icalmessage_new_reply_base cov now c user msg st;
        if reply = 0 then Some (0, st1)
        else map_option (\<lambda>(a, st2). (reply, st2)) (set_partstat ICAL_PARTSTAT_ACCEPTED reply st1) })"

text \<open>The other replies look for the inner component before the check, which reports a null pointer.\<close>

definition checked_reply ::
    "coverage \<Rightarrow> int \<Rightarrow> nat \<Rightarrow> string option \<Rightarrow> string option \<Rightarrow> (nat \<Rightarrow> ical \<Rightarrow> ical option) \<Rightarrow> ical \<Rightarrow> (nat \<times> ical) option" where
  "checked_reply cov now c user msg f st =
     (if c = 0 then bad_arg 0 st
      else do {
        (reply, st1) \<leftarrow> icalmessage_new_reply_base cov now c user msg st;
        (inner, st2) \<leftarrow> icalmessage_get_inner reply st1;
        if reply = 0 then Some (0, st2) else map_option (\<lambda>st3. (reply, st3)) (f reply st2) })"

definition icalmessage_new_decline_reply ::
    "coverage \<Rightarrow> int \<Rightarrow> nat \<Rightarrow> string option \<Rightarrow> string option \<Rightarrow> ical \<Rightarrow> (nat \<times> ical) option" where
  "icalmessage_new_decline_reply cov now c user msg =
     checked_reply cov now c user msg (\<lambda>reply st. map_option snd (set_partstat ICAL_PARTSTAT_DECLINED reply st))"

definition icalmessage_new_counterpropose_reply ::
    "coverage \<Rightarrow> int \<Rightarrow> nat \<Rightarrow> nat \<Rightarrow> string option \<Rightarrow> string option \<Rightarrow> ical \<Rightarrow> (nat \<times> ical) option" where
  "icalmessage_new_counterpropose_reply cov now oldc newc user msg st =
     (if oldc = 0 \<or> newc = 0 then bad_arg 0 st
      else do {
        (reply, st1) \<leftarrow> icalmessage_new_reply_base cov now newc user msg st;
        st2 \<leftarrow> icalcomponent_set_method reply ICAL_METHOD_COUNTER st1;
        Some (reply, st2) })"

text \<open>The user delegates to another.\<close>

definition set_delegated :: "string option \<Rightarrow> nat \<Rightarrow> ical \<Rightarrow> (nat \<times> ical) option" where
  "set_delegated delegatee reply st = do {
     (attendee, st1) \<leftarrow> set_partstat ICAL_PARTSTAT_DELEGATED reply st;
     (q, st2) \<leftarrow> icalparameter_new_delegatedto delegatee st1;
     st3 \<leftarrow> icalproperty_set_parameter attendee q st2;
     Some (attendee, st3) }"

definition icalmessage_new_delegate_reply ::
    "coverage \<Rightarrow> int \<Rightarrow> nat \<Rightarrow> string option \<Rightarrow> string option \<Rightarrow> string option \<Rightarrow> ical \<Rightarrow> (nat \<times> ical) option" where
  "icalmessage_new_delegate_reply cov now c user delegatee msg =
     checked_reply cov now c user msg (\<lambda>reply st. map_option snd (set_delegated delegatee reply st))"

definition icalmessage_new_delegate_request ::
    "coverage \<Rightarrow> int \<Rightarrow> nat \<Rightarrow> string option \<Rightarrow> string option \<Rightarrow> string option \<Rightarrow> ical \<Rightarrow> (nat \<times> ical) option" where
  "icalmessage_new_delegate_request cov now c user delegatee msg =
     checked_reply cov now c user msg (\<lambda>reply st. do {
       st1 \<leftarrow> icalcomponent_set_method reply ICAL_METHOD_REQUEST st;
       (attendee, st2) \<leftarrow> set_delegated delegatee reply st1;
       (inner, st3) \<leftarrow> icalmessage_get_inner reply st2;
       (a, st4) \<leftarrow> icalproperty_get_attendee attendee st3;
       (q, st5) \<leftarrow> icalparameter_new_delegatedfrom a st4;
       add_new (icalproperty_vanew_attendee delegatee [q, 0]) inner st5 })"

text \<open>All statuses of the request are copied to the reply, if there is no code of an error.\<close>

fun copy_statuses :: "nat \<Rightarrow> nat \<Rightarrow> nat \<Rightarrow> nat \<Rightarrow> ical \<Rightarrow> ical option" where
  "copy_statuses 0 inner cinner p st = None"
| "copy_statuses (Suc n) inner cinner p st =
     (if p = 0 then Some st
      else do {
        st1 \<leftarrow> add_new (icalproperty_new_clone p) inner st;
        (q, st2) \<leftarrow> icalcomponent_get_next_property cinner ICAL_REQUESTSTATUS_PROPERTY st1;
        copy_statuses n inner cinner q st2 })"

definition icalmessage_new_error_reply ::
    "coverage \<Rightarrow> int \<Rightarrow> nat \<Rightarrow> string option \<Rightarrow> string option \<Rightarrow> string option \<Rightarrow> icalrequeststatus \<Rightarrow> ical
       \<Rightarrow> (nat \<times> ical) option" where
  "icalmessage_new_error_reply cov now c user msg debug code =
     checked_reply cov now c user msg (\<lambda>reply st. do {
       (inner, st1) \<leftarrow> icalmessage_get_inner reply st;
       (cinner, st2) \<leftarrow> icalmessage_get_inner c st1;
       if code \<noteq> ICAL_UNKNOWN_STATUS
       then add_new (icalproperty_new_requeststatus \<lparr>rs_code = code, rs_desc = None, rs_debug = debug\<rparr>) inner st2
       else do {
         (p, st3) \<leftarrow> icalcomponent_get_first_property cinner ICAL_REQUESTSTATUS_PROPERTY st2;
         if p = 0 then Some st3
         else do {
           r \<leftarrow> comp_at cinner st3;
           copy_statuses (fresh (snd (co_properties r))) inner cinner p st3 } } })"

end
