(* ===== verification/IcalSpanlist.thy ===== *)
theory IcalSpanlist
  imports CompRecur
begin

text \<open>
  Lists of busy and free time, \<^verbatim>\<open>icalspanlist.c\<close>: the spans of the events of a set, in the order of their starts, the
  free spans between them, and their conversions. The set is the list of its components, and the time of the
  clock is an argument.
\<close>

section \<open>The list\<close>

record icalspanlist =
  sl_spans :: pvl_list
  sl_heap :: "icaltime_span pvl_heap"
  sl_start :: icaltimetype
  sl_end :: icaltimetype

definition compare_span :: "icaltime_span \<Rightarrow> icaltime_span \<Rightarrow> int" where
  "compare_span a b =
     (if span_start a = span_start b then 0 else if span_start a < span_start b then - 1 else 1)"

definition insert_span :: "icaltime_span \<Rightarrow> icalspanlist \<Rightarrow> icalspanlist option" where
  "insert_span s sl = do {
     (L, h) \<leftarrow> pvl_insert_ordered (sl_spans sl) compare_span s (sl_heap sl);
     Some (sl\<lparr>sl_spans := L, sl_heap := h\<rparr>) }"

definition icalspanlist_new_callback ::
    "nat \<Rightarrow> icaltime_span \<Rightarrow> icalspanlist \<Rightarrow> ical \<Rightarrow> (icalspanlist \<times> ical) option" where
  "icalspanlist_new_callback c s sl st =
     (if span_is_busy s = 0 then Some (sl, st) else map_option (\<lambda>sl1. (sl1, st)) (insert_span s sl))"

text \<open>A heap without elements, with the counters at some values.\<close>

definition empty_spanlist :: "icaltimetype \<Rightarrow> icaltimetype \<Rightarrow> icalspanlist" where
  "empty_spanlist start fin =
     (let (L, h) = pvl_newlist \<lparr>cells = Map.empty, fresh = 1, pvl_elem_count = 0, pvl_list_count = 0\<rparr>
      in \<lparr>sl_spans = L, sl_heap = h, sl_start = start, sl_end = fin\<rparr>)"

section \<open>Making the list\<close>

text \<open>The occurrences of the events of the set.\<close>

fun add_events ::
    "coverage \<Rightarrow> (string option \<Rightarrow> tm \<Rightarrow> int) \<Rightarrow> zone_access \<Rightarrow> nat list \<Rightarrow> icalspanlist \<Rightarrow> ical \<Rightarrow> tz_env
       \<Rightarrow> (icalspanlist \<times> ical \<times> tz_env) option" where
  "add_events cov mk za [] sl st env = Some (sl, st, env)"
| "add_events cov mk za (c # cs) sl st env = do {
     (kind, st1) \<leftarrow> icalcomponent_isa c st;
     (inner, st2) \<leftarrow> icalcomponent_get_inner c st1;
     if inner = 0 then add_events cov mk za cs sl st2 env
     else do {
       (inner_kind, st3) \<leftarrow> icalcomponent_isa inner st2;
       if kind \<noteq> ICAL_VEVENT_COMPONENT \<and> inner_kind \<noteq> ICAL_VEVENT_COMPONENT then add_events cov mk za cs sl st3 env
       else do {
         (sl1, st4, env1) \<leftarrow> icalcomponent_foreach_recurrence cov mk za c (sl_start sl) (sl_end sl)
            icalspanlist_new_callback sl (clear_errno st3) env;
         add_events cov mk za cs sl1 st4 env1 } } }"

text \<open>
  The free time before each span. The new span goes in front of the one that is looked at, so that the loop
  does not meet it.
\<close>

fun fill_free :: "nat \<Rightarrow> nat \<Rightarrow> int \<Rightarrow> icalspanlist \<Rightarrow> icalspanlist option" where
  "fill_free 0 e start sl = None"
| "fill_free (Suc n) e start sl =
     (if e = 0 then Some sl
      else do {
        x \<leftarrow> cells (sl_heap sl) e;
        let s = e_data x;
        sl1 \<leftarrow> (if start < span_start s
                then insert_span \<lparr>span_start = start, span_end = span_start s, span_is_busy = 0\<rparr> sl
                else Some sl);
        nxt \<leftarrow> pvl_next e (sl_heap sl1);
        fill_free n nxt (span_end s) sl1 })"

text \<open>Without an end of the range, an empty free span follows the last one.\<close>

definition fill_end :: "icaltimetype \<Rightarrow> icalspanlist \<Rightarrow> icalspanlist option" where
  "fill_end fin sl =
     (if icaltime_is_null_time fin \<and> pvl_tail (sl_spans sl) \<noteq> 0 then do {
        x \<leftarrow> cells (sl_heap sl) (pvl_tail (sl_spans sl));
        let t = span_end (e_data x);
        insert_span \<lparr>span_start = t, span_end = t, span_is_busy = 0\<rparr> sl }
      else Some sl)"

definition icalspanlist_new ::
    "coverage \<Rightarrow> (string option \<Rightarrow> tm \<Rightarrow> int) \<Rightarrow> zone_access \<Rightarrow> nat list \<Rightarrow> icaltimetype \<Rightarrow> icaltimetype \<Rightarrow> ical \<Rightarrow> tz_env
       \<Rightarrow> (icalspanlist \<times> ical \<times> tz_env) option" where
  "icalspanlist_new cov mk za cs start fin st env = do {
     (sl, st1, env1) \<leftarrow> add_events cov mk za cs (empty_spanlist start fin) st env;
     sl1 \<leftarrow> fill_free (fresh (sl_heap sl)) (pvl_head (sl_spans sl)) (icaltime_as_timet start) sl;
     sl2 \<leftarrow> fill_end fin sl1;
     Some (sl2, st1, env1) }"

text \<open>Freeing pops the spans and then frees the list; what is left is the heap.\<close>

fun pop_spans :: "nat \<Rightarrow> icalspanlist \<Rightarrow> icalspanlist option" where
  "pop_spans 0 sl = None"
| "pop_spans (Suc n) sl = do {
     (x, L, h) \<leftarrow> pvl_pop (sl_spans sl) (sl_heap sl);
     let sl1 = sl\<lparr>sl_spans := L, sl_heap := h\<rparr>;
     if x = None then Some sl1 else pop_spans n sl1 }"

definition icalspanlist_free :: "icalspanlist \<Rightarrow> icaltime_span pvl_heap option" where
  "icalspanlist_free sl = map_option sl_heap (pop_spans (fresh (sl_heap sl)) sl)"

section \<open>Free time\<close>

definition no_period :: "icaltimetype \<Rightarrow> icaltimetype \<Rightarrow> icalperiodtype" where
  "no_period s e = \<lparr>p_start = s, p_end = e, p_duration = icaldurationtype_null_duration\<rparr>"

text \<open>The first free span that starts at or after the time. The duration of the result is not set by the code.\<close>

fun seek_free :: "nat \<Rightarrow> coverage \<Rightarrow> nat \<Rightarrow> int \<Rightarrow> icalspanlist \<Rightarrow> (icaltimetype \<times> icaltimetype) option" where
  "seek_free 0 cov e t sl = None"
| "seek_free (Suc n) cov e t sl =
     (if e = 0 then Some (icaltime_null_time, icaltime_null_time)
      else do {
        x \<leftarrow> cells (sl_heap sl) e;
        let s = e_data x;
        if span_is_busy s = 0 \<and> span_start s \<ge> t \<and> (t < span_end s \<or> span_end s = span_start s) then do {
          a \<leftarrow> icaltime_from_timet cov (if t < span_start s then span_start s else t) 0;
          b \<leftarrow> icaltime_from_timet cov (span_end s) 0;
          Some (a, b) }
        else seek_free n cov (e_next x) t sl })"

definition icalspanlist_next_free_time ::
    "coverage \<Rightarrow> icalspanlist \<Rightarrow> icaltimetype \<Rightarrow> (icaltimetype \<times> icaltimetype) option" where
  "icalspanlist_next_free_time cov sl t =
     (let e = pvl_head (sl_spans sl); tt = icaltime_as_timet t
      in if e = 0 then Some (icaltime_null_time, icaltime_null_time)
         else do {
           x \<leftarrow> cells (sl_heap sl) e;
           let s = e_data x;
           if tt < span_start s then do {
             b \<leftarrow> icaltime_from_timet cov (if span_is_busy s = 1 then span_start s else span_end s) 0;
             Some (t, b) }
           else seek_free (fresh (sl_heap sl)) cov e tt sl })"

section \<open>The matrix\<close>

text \<open>A slot outside of the memory of the matrix is an error of the model. The loop stops before \<open>to\<close>.\<close>

function mark_slots :: "int \<Rightarrow> int \<Rightarrow> int list \<Rightarrow> int list option" where
  "mark_slots i to m =
     (if i < to then
        (if 0 \<le> i \<and> i < int (length m) then mark_slots (i + 1) to (m[nat i := m ! nat i + 1]) else None)
      else Some m)"
  by pat_completeness auto
termination
  by (relation "measure (\<lambda>(i, to, m). nat (to - i))") auto

declare mark_slots.simps [simp del]

fun mark_spans :: "nat \<Rightarrow> nat \<Rightarrow> int \<Rightarrow> int \<Rightarrow> icalspanlist \<Rightarrow> int list \<Rightarrow> int list option" where
  "mark_spans 0 e delta start sl m = None"
| "mark_spans (Suc n) e delta start sl m =
     (if e = 0 then Some m
      else do {
        x \<leftarrow> cells (sl_heap sl) e;
        let s = e_data x;
        m1 \<leftarrow> (if span_is_busy s = 1 then
                 (let offset_start = to_int32 (c_div (span_start s) delta - c_div start delta);
                      offset_end = to_int32 (c_div (span_end s - 1) delta - c_div start delta + 1)
                  in mark_slots offset_start (min offset_end (int (length m) - 1)) m)
               else Some m);
        mark_spans n (e_next x) delta start sl m1 })"

definition icalspanlist_as_freebusy_matrix ::
    "coverage \<Rightarrow> (string option \<Rightarrow> tm \<Rightarrow> int) \<Rightarrow> icalspanlist \<Rightarrow> int \<Rightarrow> tz_env \<Rightarrow> (int list \<times> tz_env) option" where
  "icalspanlist_as_freebusy_matrix cov mk sl delta_t env = do {
     let delta = (if delta_t = 0 then 3600 else delta_t);
     (a, env1) \<leftarrow> icaltime_as_timet_with_zone cov mk (sl_start sl) icaltimezone_get_utc_timezone env;
     (b, env2) \<leftarrow> icaltime_as_timet_with_zone cov mk (sl_end sl) icaltimezone_get_utc_timezone env1;
     let start = c_div a delta * delta;
     let fin = c_div b delta * delta;
     let slots = c_div (to_int32 (fin - start)) delta + 1;
     if slots < 1 then None
     else do {
       m \<leftarrow> mark_spans (fresh (sl_heap sl)) (pvl_head (sl_spans sl)) delta start sl
              (replicate (nat slots - 1) 0 @ [- 1]);
       Some (m, env2) } }"

section \<open>Components of free and busy time\<close>

fun add_freebusy :: "nat \<Rightarrow> coverage \<Rightarrow> nat \<Rightarrow> icalspanlist \<Rightarrow> nat \<Rightarrow> ical \<Rightarrow> ical option" where
  "add_freebusy 0 cov e sl c st = None"
| "add_freebusy (Suc n) cov e sl c st =
     (if e = 0 then Some st
      else do {
        x \<leftarrow> cells (sl_heap sl) e;
        let s = e_data x;
        st1 \<leftarrow> (if span_is_busy s = 1 then do {
                  a \<leftarrow> icaltime_from_timet_with_zone cov (span_start s) 0 icaltimezone_get_utc_timezone;
                  b \<leftarrow> icaltime_from_timet_with_zone cov (span_end s) 0 icaltimezone_get_utc_timezone;
                  (p, st') \<leftarrow> icalproperty_new_freebusy (no_period a b) st;
                  (q, st'') \<leftarrow> icalparameter_new_fbtype ICAL_FBTYPE_BUSY st';
                  st3 \<leftarrow> icalproperty_add_parameter p q st'';
                  icalcomponent_add_property c p st3 }
                else Some st);
        add_freebusy n cov (e_next x) sl c st1 })"

definition add_made :: "(ical \<Rightarrow> (nat \<times> ical) option) \<Rightarrow> nat \<Rightarrow> ical \<Rightarrow> ical option" where
  "add_made mk c st = do { (p, st1) \<leftarrow> mk st; icalcomponent_add_property c p st1 }"

definition icalspanlist_as_vfreebusy ::
    "coverage \<Rightarrow> int \<Rightarrow> icalspanlist \<Rightarrow> string option \<Rightarrow> string option \<Rightarrow> ical \<Rightarrow> (nat \<times> ical) option" where
  "icalspanlist_as_vfreebusy cov now sl organizer attendee st = do {
     atime \<leftarrow> icaltime_from_timet cov now 0;
     if attendee = None then map_option (\<lambda>st1. (0, st1)) (set_errno ICAL_USAGE_ERROR st)
     else do {
       let (c, st1) = icalcomponent_new_vfreebusy st;
       st2 \<leftarrow> add_made (icalproperty_new_dtstart (sl_start sl)) c st1;
       st3 \<leftarrow> add_made (icalproperty_new_dtend (sl_end sl)) c st2;
       st4 \<leftarrow> add_made (icalproperty_new_dtstamp atime) c st3;
       st5 \<leftarrow> (if organizer \<noteq> None then add_made (icalproperty_new_organizer organizer) c st4 else Some st4);
       st6 \<leftarrow> add_made (icalproperty_new_attendee attendee) c st5;
       st7 \<leftarrow> add_freebusy (fresh (sl_heap sl)) cov (pvl_head (sl_spans sl)) sl c st6;
       Some (c, st7) } }"

text \<open>Free time is read as busy, and busy time as free.\<close>

definition fbtype_busy :: "int \<Rightarrow> int" where
  "fbtype_busy t = (if t \<in> {ICAL_FBTYPE_FREE, ICAL_FBTYPE_NONE, ICAL_FBTYPE_X} then 1 else 0)"

definition freebusy_span ::
    "coverage \<Rightarrow> (string option \<Rightarrow> tm \<Rightarrow> int) \<Rightarrow> nat \<Rightarrow> ical \<Rightarrow> tz_env \<Rightarrow> (icaltime_span \<times> ical \<times> tz_env) option" where
  "freebusy_span cov mk p st env = do {
     (param, st1) \<leftarrow> icalproperty_get_first_parameter p ICAL_FBTYPE_PARAMETER st;
     (t, st2) \<leftarrow> (if param \<noteq> 0 then icalparameter_get_fbtype param st1 else Some (ICAL_FBTYPE_BUSY, st1));
     (period, st3) \<leftarrow> icalproperty_get_freebusy p st2;
     (a, env1) \<leftarrow> icaltime_as_timet_with_zone cov mk (p_start period) icaltimezone_get_utc_timezone env;
     (b, env2) \<leftarrow> icaltime_as_timet_with_zone cov mk (p_end period) icaltimezone_get_utc_timezone env1;
     Some (\<lparr>span_start = a, span_end = b, span_is_busy = fbtype_busy t\<rparr>, st3, env2) }"

fun read_freebusy ::
    "nat \<Rightarrow> coverage \<Rightarrow> (string option \<Rightarrow> tm \<Rightarrow> int) \<Rightarrow> nat \<Rightarrow> nat \<Rightarrow> icalspanlist \<Rightarrow> ical \<Rightarrow> tz_env
       \<Rightarrow> (icalspanlist \<times> ical \<times> tz_env) option" where
  "read_freebusy 0 cov mk c p sl st env = None"
| "read_freebusy (Suc n) cov mk c p sl st env =
     (if p = 0 then Some (sl, st, env)
      else do {
        (s, st1, env1) \<leftarrow> freebusy_span cov mk p st env;
        sl1 \<leftarrow> insert_span s sl;
        (q, st2) \<leftarrow> icalcomponent_get_next_property c ICAL_FREEBUSY_PROPERTY st1;
        read_freebusy n cov mk c q sl1 st2 env1 })"

text \<open>The range of the list that is returned is not set by the code; it is what the memory has, an argument.\<close>

definition icalspanlist_from_vfreebusy ::
    "coverage \<Rightarrow> (string option \<Rightarrow> tm \<Rightarrow> int) \<Rightarrow> icaltimetype \<Rightarrow> icaltimetype \<Rightarrow> nat \<Rightarrow> ical \<Rightarrow> tz_env
       \<Rightarrow> (icalspanlist option \<times> ical \<times> tz_env) option" where
  "icalspanlist_from_vfreebusy cov mk junk1 junk2 c st env =
     (if c = 0 then map_option (\<lambda>st1. (None, st1, env)) (bad_arg_v st)
      else do {
        (inner, st1) \<leftarrow> icalcomponent_get_inner c st;
        if inner = 0 then Some (None, st1, env)
        else do {
          (p, st2) \<leftarrow> icalcomponent_get_first_property inner ICAL_FREEBUSY_PROPERTY st1;
          r \<leftarrow> comp_at inner st2;
          (sl, st3, env1) \<leftarrow> read_freebusy (fresh (snd (co_properties r))) cov mk inner p (empty_spanlist junk1 junk2) st2 env;
          Some (Some sl, st3, env1) } })"

end
