(* ===== verification/IcalGauge.thy ===== *)
theory IcalGauge
  imports PropEnums
begin

text \<open>
  Gauges, which select components, \<^verbatim>\<open>icalgauge.c\<close>: a component is compared with a pattern component, or with
  the clauses of a query. The text of a query is read by a generated parser, which is not modelled; the lists of
  a query are lists here.
\<close>

section \<open>The structures\<close>

datatype icalgaugelogic = ICALGAUGELOGIC_NONE | ICALGAUGELOGIC_AND | ICALGAUGELOGIC_OR

record icalgauge_where =
  w_logic :: icalgaugelogic
  w_comp :: icalcomponent_kind
  w_prop :: icalproperty_kind
  w_compare :: int
  w_value :: "string option"

record icalgauge =
  g_select :: "icalgauge_where list"
  g_from :: "icalcomponent_kind list"
  g_where :: "icalgauge_where list"
  g_expand :: bool

definition icalgauge_get_expand :: "icalgauge \<Rightarrow> bool" where
  "icalgauge_get_expand g = g_expand g"

section \<open>Comparisons\<close>

text \<open>
  The result of a comparison meets the one asked for. The count of values that meet it starts anew at one that
  does not.
\<close>

definition meets :: "int \<Rightarrow> int \<Rightarrow> bool" where
  "meets rel cmp \<longleftrightarrow>
     rel = cmp \<or>
     (cmp = ICAL_XLICCOMPARETYPE_LESSEQUAL \<and> rel \<in> {ICAL_XLICCOMPARETYPE_LESS, ICAL_XLICCOMPARETYPE_EQUAL}) \<or>
     (cmp = ICAL_XLICCOMPARETYPE_GREATEREQUAL \<and> rel \<in> {ICAL_XLICCOMPARETYPE_GREATER, ICAL_XLICCOMPARETYPE_EQUAL}) \<or>
     (cmp = ICAL_XLICCOMPARETYPE_NOTEQUAL \<and> rel \<in> {ICAL_XLICCOMPARETYPE_GREATER, ICAL_XLICCOMPARETYPE_LESS})"

definition count_pass :: "int \<Rightarrow> int \<Rightarrow> int \<Rightarrow> int" where
  "count_pass rel cmp localpass = (if meets rel cmp then localpass + 1 else 0)"

text \<open>The values of two properties; a null value is an error of the arguments.\<close>

definition compare_values :: "nat \<Rightarrow> nat \<Rightarrow> ical \<Rightarrow> (int \<times> ical) option" where
  "compare_values a b st =
     (if a = 0 \<or> b = 0 then bad_arg 0 st
      else do {
        x \<leftarrow> val_at a st;
        y \<leftarrow> val_at b st;
        in_env (icalvalue_compare x y) st })"

section \<open>A component as a gauge\<close>

definition compare_property :: "nat \<Rightarrow> nat \<Rightarrow> int \<times> bool \<Rightarrow> ical \<Rightarrow> ((int \<times> bool) \<times> ical) option" where
  "compare_property c p lp st = do {
     (param, st1) \<leftarrow> icalproperty_get_first_parameter p ICAL_XLICCOMPARETYPE_PARAMETER st;
     (cmp, st2) \<leftarrow> (if param \<noteq> 0 then icalparameter_get_xliccomparetype param st1
                    else Some (ICAL_XLICCOMPARETYPE_EQUAL, st1));
     k \<leftarrow> icalproperty_isa p st2;
     (target, st3) \<leftarrow> icalcomponent_get_first_property c k st2;
     if target = 0 then Some (lp, st3)
     else do {
       (a, st4) \<leftarrow> icalproperty_get_value p st3;
       (b, st5) \<leftarrow> icalproperty_get_value target st4;
       (rel, st6) \<leftarrow> compare_values a b st5;
       let localpass = count_pass rel cmp (fst lp);
       Some ((localpass, snd lp \<and> localpass > 0), st6) } }"

fun compare_properties :: "nat \<Rightarrow> nat \<Rightarrow> nat \<Rightarrow> nat \<Rightarrow> int \<times> bool \<Rightarrow> ical \<Rightarrow> (bool \<times> ical) option" where
  "compare_properties 0 c gauge p lp st = None"
| "compare_properties (Suc n) c gauge p lp st =
     (if p = 0 then Some (snd lp, st)
      else do {
        (lp1, st1) \<leftarrow> compare_property c p lp st;
        (q, st2) \<leftarrow> icalcomponent_get_next_property gauge ICAL_ANY_PROPERTY st1;
        compare_properties n c gauge q lp1 st2 })"

text \<open>The first child of the kind of each child of the gauge.\<close>

fun compare_children ::
    "(nat \<Rightarrow> nat \<Rightarrow> ical \<Rightarrow> (bool \<times> ical) option) \<Rightarrow> nat \<Rightarrow> nat \<Rightarrow> nat \<Rightarrow> nat \<Rightarrow> bool \<Rightarrow> ical \<Rightarrow> (bool \<times> ical) option" where
  "compare_children f 0 c gauge x pass st = None"
| "compare_children f (Suc n) c gauge x pass st =
     (if x = 0 then Some (pass, st)
      else do {
        (k, st1) \<leftarrow> icalcomponent_isa x st;
        (child, st2) \<leftarrow> icalcomponent_get_first_component c k st1;
        (pass1, st3) \<leftarrow> (if child \<noteq> 0 then map_option (\<lambda>(b, st'). (pass \<and> b, st')) (f child x st2)
                         else Some (False, st2));
        (y, st4) \<leftarrow> icalcomponent_get_next_component gauge ICAL_ANY_COMPONENT st3;
        compare_children f n c gauge y pass1 st4 })"

primrec compare_recurse :: "nat \<Rightarrow> nat \<Rightarrow> nat \<Rightarrow> ical \<Rightarrow> (bool \<times> ical) option" where
  "compare_recurse 0 c gauge st = None"
| "compare_recurse (Suc n) c gauge st =
     (if c = 0 \<or> gauge = 0 then bad_arg False st
      else do {
        (gk, st1) \<leftarrow> icalcomponent_isa gauge st;
        (ck, st2) \<leftarrow> icalcomponent_isa c st1;
        if gk \<noteq> ck \<and> gk \<noteq> ICAL_ANY_COMPONENT then Some (False, st2)
        else do {
          (p, st3) \<leftarrow> icalcomponent_get_first_property gauge ICAL_ANY_PROPERTY st2;
          r \<leftarrow> comp_at gauge st3;
          (pass, st4) \<leftarrow> compare_properties (fresh (snd (co_properties r))) c gauge p (0, True) st3;
          (x, st5) \<leftarrow> icalcomponent_get_first_component gauge ICAL_ANY_COMPONENT st4;
          compare_children (compare_recurse n) (fresh (snd (co_components r))) c gauge x pass st5 } })"

definition icalgauge_compare_recurse :: "nat \<Rightarrow> nat \<Rightarrow> ical \<Rightarrow> (bool \<times> ical) option" where
  "icalgauge_compare_recurse c gauge st = compare_recurse (Suc (i_next st)) c gauge st"

section \<open>A query\<close>

definition query_kind :: "icalcomponent_kind \<Rightarrow> bool" where
  "query_kind k \<longleftrightarrow> k \<in> {ICAL_VEVENT_COMPONENT, ICAL_VTODO_COMPONENT, ICAL_VJOURNAL_COMPONENT, ICAL_VQUERY_COMPONENT,
     ICAL_VAGENDA_COMPONENT}"

text \<open>The component that is tested; 0 if there is none.\<close>

definition query_inner :: "nat \<Rightarrow> ical \<Rightarrow> (nat \<times> ical) option" where
  "query_inner c st = do {
     (inner, st1) \<leftarrow> icalcomponent_get_first_real_component c st;
     if inner \<noteq> 0 then Some (inner, st1)
     else do {
       (k, st2) \<leftarrow> icalcomponent_isa c st1;
       if query_kind k then Some (c, st2)
       else map_option (\<lambda>st3. (0, st3)) (set_errno ICAL_MALFORMEDDATA_ERROR st2) } }"

text \<open>The value that a clause compares with; \<open>None\<close> inside is an error.\<close>

definition clause_value :: "icalgauge_where \<Rightarrow> ical \<Rightarrow> (icalvalue option \<times> ical) option" where
  "clause_value w st =
     (let vk = icalproperty_kind_to_value_kind (w_prop w)
      in case w_value w of
           None \<Rightarrow> map_option (\<lambda>st1. (None, st1)) (set_errno ICAL_INTERNAL_ERROR st)
         | Some s \<Rightarrow>
             if w_prop w = ICAL_NO_PROPERTY \<or> vk = ICAL_NO_VALUE
             then map_option (\<lambda>st1. (None, st1)) (set_errno ICAL_INTERNAL_ERROR st)
             else if w_compare w = ICAL_XLICCOMPARETYPE_ISNULL \<or> w_compare w = ICAL_XLICCOMPARETYPE_ISNOTNULL
             then Some (icalvalue_new vk, st)
             else in_env (icalvalue_new_from_string vk s) st)"

text \<open>The value of a property, or of the recurrence identifier of its component.\<close>

definition queried_value :: "bool \<Rightarrow> nat \<Rightarrow> nat \<Rightarrow> ical \<Rightarrow> (nat \<times> ical) option" where
  "queried_value compare_recur sub p st =
     (if compare_recur then do {
        (q, st1) \<leftarrow> icalcomponent_get_first_property sub ICAL_RECURRENCEID_PROPERTY st;
        icalproperty_get_value q st1 }
      else icalproperty_get_value p st)"

text \<open>
  The look at the recurrence identifier moves the iterator, and the search goes on behind it: the same property
  is found again, without an end, if it is behind the identifier.
\<close>

fun clause_properties ::
    "nat \<Rightarrow> bool \<Rightarrow> nat \<Rightarrow> icalgauge_where \<Rightarrow> icalvalue \<Rightarrow> nat \<Rightarrow> int \<Rightarrow> ical \<Rightarrow> (int \<times> ical) option" where
  "clause_properties 0 recur sub w v p pass st = None"
| "clause_properties (Suc n) recur sub w v p pass st =
     (if p = 0 then Some (pass, st)
      else if w_compare w = ICAL_XLICCOMPARETYPE_ISNULL then Some (0, st)
      else if w_compare w = ICAL_XLICCOMPARETYPE_ISNOTNULL then Some (1, st)
      else do {
        (a, st1) \<leftarrow> queried_value recur sub p st;
        (rel, st2) \<leftarrow> (if a = 0 then bad_arg 0 st1
                       else do { x \<leftarrow> val_at a st1; in_env (icalvalue_compare x v) st1 });
        (q, st3) \<leftarrow> icalcomponent_get_next_property sub (w_prop w) st2;
        clause_properties n recur sub w v q (count_pass rel (w_compare w) pass) st3 })"

definition merge_logic :: "icalgaugelogic \<Rightarrow> bool \<Rightarrow> bool \<Rightarrow> bool" where
  "merge_logic l this earlier =
     (case l of ICALGAUGELOGIC_AND \<Rightarrow> this \<and> earlier | ICALGAUGELOGIC_OR \<Rightarrow> this \<or> earlier | ICALGAUGELOGIC_NONE \<Rightarrow> this)"

text \<open>
  A clause, with whether an earlier one compares the recurrence identifier: that is not reset. \<open>None\<close> inside is
  a clause that ends the comparison with a failure.
\<close>

definition check_clause ::
    "icalgauge \<Rightarrow> nat \<Rightarrow> icalgauge_where \<Rightarrow> bool \<times> bool \<Rightarrow> ical \<Rightarrow> ((bool \<times> bool) option \<times> ical) option" where
  "check_clause g inner w rl st = do {
     (vo, st1) \<leftarrow> clause_value w st;
     case vo of
       None \<Rightarrow> Some (None, st1)
     | Some v \<Rightarrow> do {
         (sub, st2) \<leftarrow> (if w_comp w = ICAL_NO_COMPONENT then Some (inner, st1)
                        else icalcomponent_get_first_component inner (w_comp w) st1);
         if sub = 0 then map_option (\<lambda>(u, st3). (None, st3)) (in_env (\<lambda>env. map_option (\<lambda>env1. ((), env1)) (icalvalue_free v env)) st2)
         else do {
           (rrule, st3) \<leftarrow> icalcomponent_get_first_property sub ICAL_RRULE_PROPERTY st2;
           let recur = (fst rl \<or> (g_expand g \<and> rrule \<noteq> 0 \<and>
                 w_prop w \<in> {ICAL_DTSTART_PROPERTY, ICAL_DTEND_PROPERTY, ICAL_DUE_PROPERTY}));
           (p, st4) \<leftarrow> icalcomponent_get_first_property sub (w_prop w) st3;
           r \<leftarrow> comp_at sub st4;
           (pass, st5) \<leftarrow> clause_properties (fresh (snd (co_properties r))) recur sub w v p
               (if w_compare w = ICAL_XLICCOMPARETYPE_ISNULL then 1 else 0) st4;
           (u, st6) \<leftarrow> in_env (\<lambda>env. map_option (\<lambda>env1. ((), env1)) (icalvalue_free v env)) st5;
           Some (Some (recur, merge_logic (w_logic w) (pass > 0) (snd rl)), st6) } } }"

fun check_clauses :: "icalgauge \<Rightarrow> nat \<Rightarrow> icalgauge_where list \<Rightarrow> bool \<times> bool \<Rightarrow> ical \<Rightarrow> (bool \<times> ical) option" where
  "check_clauses g inner [] rl st = Some (snd rl, st)"
| "check_clauses g inner (w # ws) rl st = do {
     (ro, st1) \<leftarrow> check_clause g inner w rl st;
     case ro of None \<Rightarrow> Some (False, st1) | Some rl1 \<Rightarrow> check_clauses g inner ws rl1 st1 }"

definition icalgauge_compare :: "icalgauge \<Rightarrow> nat \<Rightarrow> ical \<Rightarrow> (bool \<times> ical) option" where
  "icalgauge_compare g c st =
     (if c = 0 then bad_arg False st
      else do {
        (inner, st1) \<leftarrow> query_inner c st;
        if inner = 0 then Some (False, st1)
        else do {
          (k, st2) \<leftarrow> icalcomponent_isa inner st1;
          if k \<notin> set (g_from g) then Some (False, st2)
          else check_clauses g inner (g_where g) (False, True) st2 } })"

end
