(* ===== verification/IcalLangbind.thy ===== *)
theory IcalLangbind
  imports PropEnums
begin

text \<open>
  What the bindings to other languages call, \<^verbatim>\<open>icallangbind.c\<close>: the iterators by names, and a property as the
  text of a table. The text of a pointer is an argument.
\<close>

section \<open>Iterators\<close>

definition icallangbind_get_first_parameter :: "nat \<Rightarrow> ical \<Rightarrow> (nat \<times> ical) option" where
  "icallangbind_get_first_parameter p = icalproperty_get_first_parameter p ICAL_ANY_PARAMETER"

definition icallangbind_get_next_parameter :: "nat \<Rightarrow> ical \<Rightarrow> (nat \<times> ical) option" where
  "icallangbind_get_next_parameter p = icalproperty_get_next_parameter p ICAL_ANY_PARAMETER"

text \<open>The search for an X property of a name, from \<open>p\<close> on. One without a name is a comparison with null.\<close>

fun seek_x_name :: "nat \<Rightarrow> nat \<Rightarrow> string \<Rightarrow> nat \<Rightarrow> ical \<Rightarrow> (nat \<times> ical) option" where
  "seek_x_name 0 c name p st = None"
| "seek_x_name (Suc n) c name p st =
     (if p = 0 then Some (0, st)
      else do {
        (x, st1) \<leftarrow> icalproperty_get_x_name p st;
        s \<leftarrow> x;
        if s = name then Some (p, st1)
        else do {
          (q, st2) \<leftarrow> icalcomponent_get_next_property c ICAL_X_PROPERTY st1;
          seek_x_name n c name q st2 } })"

definition property_by_name ::
    "(nat \<Rightarrow> icalproperty_kind \<Rightarrow> ical \<Rightarrow> (nat \<times> ical) option) \<Rightarrow> nat \<Rightarrow> string \<Rightarrow> ical \<Rightarrow> (nat \<times> ical) option" where
  "property_by_name get c name st =
     (let kind = icalproperty_string_to_kind (Some name)
      in if kind = ICAL_NO_PROPERTY then Some (0, st)
         else do {
           (p, st1) \<leftarrow> get c kind st;
           if kind \<noteq> ICAL_X_PROPERTY \<or> p = 0 then Some (p, st1)
           else do {
             r \<leftarrow> comp_at c st1;
             seek_x_name (fresh (snd (co_properties r))) c name p st1 } })"

definition icallangbind_get_first_property :: "nat \<Rightarrow> string \<Rightarrow> ical \<Rightarrow> (nat \<times> ical) option" where
  "icallangbind_get_first_property = property_by_name icalcomponent_get_first_property"

definition icallangbind_get_next_property :: "nat \<Rightarrow> string \<Rightarrow> ical \<Rightarrow> (nat \<times> ical) option" where
  "icallangbind_get_next_property = property_by_name icalcomponent_get_next_property"

definition icallangbind_get_first_component :: "nat \<Rightarrow> string \<Rightarrow> ical \<Rightarrow> (nat \<times> ical) option" where
  "icallangbind_get_first_component c name st =
     (let kind = icalcomponent_string_to_kind (Some name)
      in if kind = ICAL_NO_COMPONENT then Some (0, st) else icalcomponent_get_first_component c kind st)"

definition icallangbind_get_next_component :: "nat \<Rightarrow> string \<Rightarrow> ical \<Rightarrow> (nat \<times> ical) option" where
  "icallangbind_get_next_component c name st =
     (let kind = icalcomponent_string_to_kind (Some name)
      in if kind = ICAL_NO_COMPONENT then Some (0, st) else icalcomponent_get_next_component c kind st)"

section \<open>A property as text\<close>

text \<open>
  Line breaks are left out, and the character behind one is taken as it is: a line break at the end makes the
  loop run on behind the text, two of them keep the second.
\<close>

fun remove_newlines :: "string \<Rightarrow> string option" where
  "remove_newlines [] = Some []"
| "remove_newlines (x # xs) =
     (if x = LF then
        (case xs of [] \<Rightarrow> None | y # ys \<Rightarrow> map_option (\<lambda>s. y # s) (remove_newlines ys))
      else map_option (\<lambda>s. x # s) (remove_newlines xs))"

definition quoted_word :: "string \<Rightarrow> string" where
  "quoted_word s = char_of (39 :: nat) # s @ [char_of (39 :: nat)]"

definition eval_value :: "string \<Rightarrow> nat \<Rightarrow> ical \<Rightarrow> (string \<times> ical) option" where
  "eval_value sep v st = do {
     x \<leftarrow> val_at v st;
     if v_kind x \<in> {ICAL_ATTACH_VALUE, ICAL_BINARY_VALUE, ICAL_NO_VALUE}
     then map_option (\<lambda>st1. ([], st1)) (set_errno ICAL_INTERNAL_ERROR st)
     else do {
       (so, st1) \<leftarrow> in_env (icalvalue_as_ical_string_r (Some x)) st;
       s \<leftarrow> so;
       t \<leftarrow> remove_newlines s;
       Some ('', '' @ quoted_word ''value'' @ sep @ quoted_word t, st1) } }"

text \<open>A parameter is its name and what is behind the equals sign.\<close>

definition eval_parameter :: "string \<Rightarrow> nat \<Rightarrow> ical \<Rightarrow> (string \<times> ical) option" where
  "eval_parameter sep param st = do {
     (so, st1) \<leftarrow> icalparameter_as_ical_string_r param st;
     case so of
       None \<Rightarrow> map_option (\<lambda>st2. ([], st2)) (set_errno ICAL_NEWFAILED_ERROR st1)
     | Some s \<Rightarrow>
         Some (case split_chr (CHR ''='') s of
                 (a, None) \<Rightarrow> []
               | (a, Some b) \<Rightarrow> '', '' @ quoted_word a @ sep @ quoted_word b, st1) }"

fun eval_parameters :: "nat \<Rightarrow> string \<Rightarrow> nat \<Rightarrow> nat \<Rightarrow> ical \<Rightarrow> (string \<times> ical) option" where
  "eval_parameters 0 sep p param st = None"
| "eval_parameters (Suc n) sep p param st =
     (if param = 0 then Some ([], st)
      else do {
        (s, st1) \<leftarrow> eval_parameter sep param st;
        (q, st2) \<leftarrow> icalproperty_get_next_parameter p ICAL_ANY_PARAMETER st1;
        (r, st3) \<leftarrow> eval_parameters n sep p q st2;
        Some (s @ r, st3) })"

text \<open>The texts are appended to a buffer that grows; the result is what it holds.\<close>

definition icallangbind_property_eval_string_r ::
    "(nat \<Rightarrow> string) \<Rightarrow> nat \<Rightarrow> string \<Rightarrow> ical \<Rightarrow> (string option \<times> ical) option" where
  "icallangbind_property_eval_string_r pointer p sep st =
     (if p = 0 then Some (None, st)
      else do {
        (v, st1) \<leftarrow> icalproperty_get_value p st;
        k \<leftarrow> icalproperty_isa p st1;
        name \<leftarrow> icalproperty_kind_to_string k;
        vt \<leftarrow> (if v = 0 then Some []
               else do {
                 x \<leftarrow> val_at v st1;
                 t \<leftarrow> icalvalue_kind_to_string (v_kind x);
                 Some ('', '' @ quoted_word ''value_type'' @ '' '' @ sep @ quoted_word t) });
        (vs, st2) \<leftarrow> (if v = 0 then Some ([], st1) else eval_value sep v st1);
        (param, st3) \<leftarrow> icalproperty_get_first_parameter p ICAL_ANY_PARAMETER st2;
        r \<leftarrow> prop_at p st3;
        (ps, st4) \<leftarrow> eval_parameters (fresh (snd (pr_parameters r))) sep p param st3;
        Some (Some (''{  '' @ quoted_word ''name'' @ '' '' @ sep @ quoted_word name @ vt @
                    '', '' @ quoted_word ''pid'' @ '' '' @ sep @ quoted_word (take 24 (pointer p)) @ vs @ ps @ ''}''), st4) })"

section \<open>Quoting\<close>

text \<open>
  The buffer is twice as long as the text. A text that does not fit, with its terminator, leaves the buffer as
  it was made: the first character is NUL. The buffer for an empty text has no characters.
\<close>

definition icallangbind_quote_as_ical_r :: "string \<Rightarrow> ical \<Rightarrow> (string \<times> ical) option" where
  "icallangbind_quote_as_ical_r str st =
     (if str = [] then None
      else map_option (\<lambda>(so, st1). (case so of Some s \<Rightarrow> s | None \<Rightarrow> [], st1))
             (in_env (icalvalue_encode_ical_string str (2 * int (length str))) st))"

end
