(* ===== verification/TzBuiltin.thy ===== *)
theory TzBuiltin
  imports IcalParse TzExpand
begin

text \<open>
  The zones of the system, \<^verbatim>\<open>icaltimezone.c\<close>: the table of their places, the component of one that is loaded
  from its file when it is first asked for, and the ways to look one up. The files, the expansion into changes
  and the clock are arguments.
\<close>

section \<open>The store of zones\<close>

text \<open>The static variables, and what the program is built or run with.\<close>

record tz_store =
  ts_builtin :: "icaltimezone icalarray option"
  ts_prefix :: string
  ts_directory :: "string option"

record tz_files =
  tf_read :: "string \<Rightarrow> string option"
  tf_default :: string
  tf_fetch :: "string \<Rightarrow> ical \<Rightarrow> (nat \<times> ical) option"

definition ical_tzid_prefix :: string where
  "ical_tzid_prefix = ''/freeassociation.sourceforge.net/''"

definition icaltimezone_set_tzid_prefix :: "string option \<Rightarrow> tz_store \<Rightarrow> tz_store" where
  "icaltimezone_set_tzid_prefix p ts = (case p of Some s \<Rightarrow> ts\<lparr>ts_prefix := s\<rparr> | None \<Rightarrow> ts)"

definition get_zone_directory :: "tz_files \<Rightarrow> tz_store \<Rightarrow> string" where
  "get_zone_directory fs ts = (case ts_directory ts of None \<Rightarrow> tf_default fs | Some d \<Rightarrow> d)"

definition set_zone_directory :: "string \<Rightarrow> tz_store \<Rightarrow> tz_store" where
  "set_zone_directory path ts = ts\<lparr>ts_directory := Some path\<rparr>"

section \<open>The table of places\<close>

text \<open>\<^verbatim>\<open>%s\<close>: white space is skipped and the text up to the next one is read.\<close>

definition scan_text :: "string \<Rightarrow> string option" where
  "scan_text s =
     (let w = takeWhile (\<lambda>c. \<not> is_space c) (dropWhile is_space s) in if w = [] then None else Some w)"

text \<open>A coordinate in degrees. The number of the code is rounded to a \<^verbatim>\<open>double\<close>.\<close>

definition coordinate :: "int \<Rightarrow> int \<Rightarrow> int \<Rightarrow> rat" where
  "coordinate d m s =
     (if d \<ge> 0 then of_int d + of_int m / 60 + of_int s / 3600 else of_int d - of_int m / 60 - of_int s / 3600)"

definition scan_coordinate :: "string \<Rightarrow> (rat \<times> string) option" where
  "scan_coordinate s0 = do {
     (d, s1) \<leftarrow> scan_wd 4 s0;
     (m, s2) \<leftarrow> scan_wd 2 s1;
     (s, s3) \<leftarrow> scan_wd 2 s2;
     Some (coordinate d m s, s3) }"

definition zone_of_line :: "string \<Rightarrow> icaltimezone option" where
  "zone_of_line buf = do {
     (lat, s1) \<leftarrow> scan_coordinate buf;
     (lon, s2) \<leftarrow> scan_coordinate s1;
     location \<leftarrow> scan_text s2;
     Some (icaltimezone_init\<lparr>tz_location := Some location, tz_latitude := lat, tz_longitude := lon\<rparr>) }"

text \<open>The pieces of a file that \<^verbatim>\<open>fgets\<close> gives with a buffer of the size.\<close>

function fgets_all :: "nat \<Rightarrow> string \<Rightarrow> string list" where
  "fgets_all sz s =
     (if s = [] \<or> sz < 2 then []
      else let n = min (sz - 1) (length (takeWhile (\<lambda>c. c \<noteq> LF) s) + 1)
           in take n s # fgets_all sz (drop n s))"
  by pat_completeness auto
termination
  by (relation "measure (\<lambda>(sz, s). length s)") auto

declare fgets_all.simps [simp del]

text \<open>Lines that are not of the form are reported and skipped.\<close>

fun add_zone_lines :: "string list \<Rightarrow> icaltimezone icalarray \<Rightarrow> icaltimezone icalarray option" where
  "add_zone_lines [] a = Some a"
| "add_zone_lines (buf # bufs) a =
     (if take 1 buf = ''#'' then add_zone_lines bufs a
      else case zone_of_line buf of
             None \<Rightarrow> add_zone_lines bufs a
           | Some z \<Rightarrow> Option.bind (icalarray_append a z) (add_zone_lines bufs))"

definition icaltimezone_parse_zone_tab :: "tz_files \<Rightarrow> tz_store \<Rightarrow> ical \<Rightarrow> (tz_store \<times> ical) option" where
  "icaltimezone_parse_zone_tab fs ts st =
     (if ts_builtin ts \<noteq> None then None
      else case tf_read fs (get_zone_directory fs ts @ ''/zones.tab'') of
             None \<Rightarrow> map_option (\<lambda>st1. (ts\<lparr>ts_builtin := Some (icalarray_new 1 32)\<rparr>, st1)) (set_errno ICAL_FILE_ERROR st)
           | Some txt \<Rightarrow>
               map_option (\<lambda>a. (ts\<lparr>ts_builtin := Some a\<rparr>, st)) (add_zone_lines (fgets_all 1024 txt) (icalarray_new 1 32)))"

definition icaltimezone_init_builtin_timezones :: "tz_files \<Rightarrow> tz_store \<Rightarrow> ical \<Rightarrow> (tz_store \<times> ical) option" where
  "icaltimezone_init_builtin_timezones = icaltimezone_parse_zone_tab"

definition icaltimezone_get_builtin_timezones ::
    "tz_files \<Rightarrow> tz_store \<Rightarrow> ical \<Rightarrow> (icaltimezone icalarray \<times> tz_store \<times> ical) option" where
  "icaltimezone_get_builtin_timezones fs ts st = do {
     (ts1, st1) \<leftarrow> (if ts_builtin ts = None then icaltimezone_init_builtin_timezones fs ts st else Some (ts, st));
     a \<leftarrow> ts_builtin ts1;
     Some (a, ts1, st1) }"

definition icaltimezone_free_builtin_timezones :: "tz_store \<Rightarrow> ical \<Rightarrow> (tz_store \<times> ical) option" where
  "icaltimezone_free_builtin_timezones ts st =
     (case ts_builtin ts of
        None \<Rightarrow> Some (ts, st)
      | Some a \<Rightarrow> map_option (\<lambda>st1. (ts\<lparr>ts_builtin := None\<rparr>, st1)) (icaltimezone_array_free icalcomponent_free a st))"

definition icaltimezone_release_zone_tab :: "tz_store \<Rightarrow> tz_store" where
  "icaltimezone_release_zone_tab ts = ts\<lparr>ts_builtin := None\<rparr>"

section \<open>Loading a zone\<close>

text \<open>The calls of \<^verbatim>\<open>fgets\<close> by the parser.\<close>

definition icaltimezone_load_get_line_fn :: "string line_gen" where
  "icaltimezone_load_get_line_fn out sz s =
     (case fgets_all sz s of
        [] \<Rightarrow> (False, out, s)
      | l # _ \<Rightarrow> (True, l @ NUL # drop (Suc (length l)) out, drop (length l) s))"

text \<open>A zone that is loaded keeps what the table says of its place.\<close>

definition take_vtimezone :: "coverage \<Rightarrow> icaltimezone \<Rightarrow> nat \<Rightarrow> ical \<Rightarrow> (icaltimezone \<times> bool \<times> ical) option" where
  "take_vtimezone cov z c st = do {
     (zo, st1) \<leftarrow> icaltimezone_get_vtimezone_properties cov c st;
     Some (case zo of
             None \<Rightarrow> (z, False, st1)
           | Some y \<Rightarrow> (z\<lparr>tz_tzid := tz_tzid y, tz_location := tz_location y, tz_tznames := tz_tznames y,
                          tz_component := c\<rparr>, True, st1)) }"

definition icaltimezone_load_builtin_timezone ::
    "coverage \<Rightarrow> tz_files \<Rightarrow> tz_store \<Rightarrow> icaltimezone \<Rightarrow> ical \<Rightarrow> (icaltimezone \<times> ical) option" where
  "icaltimezone_load_builtin_timezone cov fs ts z st =
     (if tz_location z = None \<or> tz_location z = Some [] then Some (z, st)
      else case tf_read fs (get_zone_directory fs ts @ ''/'' @ the (tz_location z) @ ''.ics'') of
             None \<Rightarrow> map_option (\<lambda>st1. (z, st1)) (set_errno ICAL_FILE_ERROR st)
           | Some txt \<Rightarrow> do {
               (c, parser, rest, st1) \<leftarrow> icalparser_parse cov icaltimezone_load_get_line_fn icalparser_new txt st;
               st2 \<leftarrow> icalparser_free parser st1;
               (subcomp, st3) \<leftarrow> icalcomponent_get_first_component c ICAL_VTIMEZONE_COMPONENT st2;
               if subcomp = 0 then map_option (\<lambda>st4. (z, st4)) (set_errno ICAL_PARSE_ERROR st3)
               else do {
                 (z1, ok, st4) \<leftarrow> take_vtimezone cov z subcomp st3;
                 st5 \<leftarrow> icalcomponent_remove_component c subcomp st4;
                 st6 \<leftarrow> icalcomponent_free c st5;
                 Some (z1, st6) } })"

section \<open>What a zone says of itself\<close>

type_synonym zone_loader = "icaltimezone \<Rightarrow> ical \<Rightarrow> (icaltimezone \<times> ical) option"

definition icaltimezone_get_tzid :: "zone_loader \<Rightarrow> icaltimezone \<Rightarrow> ical \<Rightarrow> (string option \<times> icaltimezone \<times> ical) option" where
  "icaltimezone_get_tzid load z st = do {
     (z1, st1) \<leftarrow> (if tz_tzid z = None then load z st else Some (z, st));
     Some (tz_tzid z1, z1, st1) }"

definition icaltimezone_get_location :: "icaltimezone \<Rightarrow> string option" where
  "icaltimezone_get_location = tz_location"

definition icaltimezone_get_tznames :: "zone_loader \<Rightarrow> icaltimezone \<Rightarrow> ical \<Rightarrow> (string option \<times> icaltimezone \<times> ical) option" where
  "icaltimezone_get_tznames load z st = do {
     (z1, st1) \<leftarrow> (if tz_component z = 0 then load z st else Some (z, st));
     Some (tz_tznames z1, z1, st1) }"

definition icaltimezone_get_latitude :: "icaltimezone option \<Rightarrow> rat" where
  "icaltimezone_get_latitude z = (case z of None \<Rightarrow> 0 | Some z \<Rightarrow> tz_latitude z)"

definition icaltimezone_get_longitude :: "icaltimezone option \<Rightarrow> rat" where
  "icaltimezone_get_longitude z = (case z of None \<Rightarrow> 0 | Some z \<Rightarrow> tz_longitude z)"

definition icaltimezone_get_component :: "zone_loader \<Rightarrow> icaltimezone \<Rightarrow> ical \<Rightarrow> (nat \<times> icaltimezone \<times> ical) option" where
  "icaltimezone_get_component load z st = do {
     (z1, st1) \<leftarrow> (if tz_component z = 0 then load z st else Some (z, st));
     Some (tz_component z1, z1, st1) }"

definition icaltimezone_set_component :: "coverage \<Rightarrow> icaltimezone \<Rightarrow> nat \<Rightarrow> ical \<Rightarrow> (icaltimezone \<times> bool \<times> ical) option" where
  "icaltimezone_set_component cov z c st = do {
     st1 \<leftarrow> icaltimezone_free icalcomponent_free z st;
     take_vtimezone cov icaltimezone_init c st1 }"

text \<open>What is behind the third slash of a text.\<close>

fun after_slashes :: "nat \<Rightarrow> string \<Rightarrow> string option" where
  "after_slashes k [] = None"
| "after_slashes k (c # cs) =
     (if c = CHR ''/'' then (if k \<le> 1 then Some cs else after_slashes (k - 1) cs) else after_slashes k cs)"

definition has_prefix :: "string \<Rightarrow> string \<Rightarrow> bool" where
  "has_prefix p s \<longleftrightarrow> take (length p) s = p"

definition icaltimezone_get_display_name ::
    "zone_loader \<Rightarrow> tz_store \<Rightarrow> icaltimezone \<Rightarrow> ical \<Rightarrow> (string option \<times> icaltimezone \<times> ical) option" where
  "icaltimezone_get_display_name load ts z st =
     (if icaltimezone_get_location z \<noteq> None then Some (icaltimezone_get_location z, z, st)
      else do {
        (names, z1, st1) \<leftarrow> icaltimezone_get_tznames load z st;
        if names \<noteq> None then Some (names, z1, st1)
        else do {
          (tzid, z2, st2) \<leftarrow> icaltimezone_get_tzid load z1 st1;
          Some (case tzid of
                  None \<Rightarrow> None
                | Some s \<Rightarrow> (if has_prefix (ts_prefix ts) s
                             then (case after_slashes 3 s of Some r \<Rightarrow> Some r | None \<Rightarrow> Some s) else Some s), z2, st2) } })"

section \<open>Looking up a zone\<close>

text \<open>A zone of the system: the static one of UTC, or a cell of the table.\<close>

datatype builtin_zone = Utc_zone | Zone_cell nat

fun find_location :: "nat \<Rightarrow> icaltimezone icalarray \<Rightarrow> string \<Rightarrow> int \<Rightarrow> nat option option" where
  "find_location 0 a location i = Some None"
| "find_location (Suc n) a location i = do {
     z \<leftarrow> icalarray_element_at a i;
     l \<leftarrow> icaltimezone_get_location z;
     if l = location then Some (Some (nat i)) else find_location n a location (i + 1) }"

text \<open>A place that is not in the table may have a zone all the same, which joins the table.\<close>

definition fetch_zone ::
    "coverage \<Rightarrow> tz_files \<Rightarrow> tz_store \<Rightarrow> icaltimezone icalarray \<Rightarrow> string \<Rightarrow> ical
       \<Rightarrow> (builtin_zone option \<times> tz_store \<times> ical) option" where
  "fetch_zone cov fs ts a location st = do {
     (c, st1) \<leftarrow> tf_fetch fs location st;
     if c = 0 then Some (None, ts, st1)
     else do {
       (z, ok, st2) \<leftarrow> icaltimezone_set_component cov icaltimezone_init c st1;
       if ok then do {
         b \<leftarrow> icalarray_append a z;
         Some (Some (Zone_cell (num_elements b - 1)), ts\<lparr>ts_builtin := Some b\<rparr>, st2) }
       else map_option (\<lambda>st3. (None, ts, st3)) (icalcomponent_free c st2) } }"

definition icaltimezone_get_builtin_timezone ::
    "coverage \<Rightarrow> tz_files \<Rightarrow> tz_store \<Rightarrow> string option \<Rightarrow> ical \<Rightarrow> (builtin_zone option \<times> tz_store \<times> ical) option" where
  "icaltimezone_get_builtin_timezone cov fs ts location st =
     (if location = None \<or> location = Some [] then Some (None, ts, st)
      else do {
        (a, ts1, st1) \<leftarrow> icaltimezone_get_builtin_timezones fs ts st;
        if the location = ''UTC'' then Some (Some Utc_zone, ts1, st1)
        else do {
          i \<leftarrow> find_location (num_elements a) a (the location) 0;
          case i of
            Some k \<Rightarrow> Some (Some (Zone_cell k), ts1, st1)
          | None \<Rightarrow> fetch_zone cov fs ts1 a (the location) st1 } })"

text \<open>Writing a zone that was loaded back to its cell.\<close>

definition put_zone :: "nat \<Rightarrow> icaltimezone \<Rightarrow> tz_store \<Rightarrow> tz_store" where
  "put_zone i z ts =
     ts\<lparr>ts_builtin := map_option (\<lambda>a. a\<lparr>array_data := (array_data a)[i := Some z]\<rparr>) (ts_builtin ts)\<rparr>"

definition tm_to_icaltimetype :: "tm \<Rightarrow> icaltimetype" where
  "tm_to_icaltimetype t =
     \<lparr>year = tm_year t + 1900, month = tm_mon t + 1, day = tm_mday t, hour = tm_hour t, minute = tm_min t,
      second = tm_sec t, is_utc = 0, is_date = 0, is_daylight = 0, zone = None\<rparr>"

text \<open>The offset of a zone now.\<close>

definition get_offset :: "coverage \<Rightarrow> int \<Rightarrow> zone_ref \<Rightarrow> int option" where
  "get_offset cov now z =
     map_option fst (icaltimezone_get_utc_offset cov (Some z) (tm_to_icaltimetype (gmtime now)))"

fun find_offset ::
    "nat \<Rightarrow> coverage \<Rightarrow> zone_loader \<Rightarrow> (nat \<Rightarrow> zone_ref) \<Rightarrow> int \<Rightarrow> int \<Rightarrow> string \<Rightarrow> nat \<Rightarrow> tz_store \<Rightarrow> ical
       \<Rightarrow> (builtin_zone option \<times> tz_store \<times> ical) option" where
  "find_offset 0 cov load place now offset name i ts st = Some (None, ts, st)"
| "find_offset (Suc n) cov load place now offset name i ts st = do {
     a \<leftarrow> ts_builtin ts;
     z \<leftarrow> icalarray_element_at a (int i);
     (z1, st1) \<leftarrow> (if tz_component z = 0 then load z st else Some (z, st));
     let ts1 = put_zone i z1 ts;
     k \<leftarrow> get_offset cov now (place i);
     if k = offset \<and> tz_tznames z1 = Some name then Some (Some (Zone_cell i), ts1, st1)
     else find_offset n cov load place now offset name (i + 1) ts1 st1 }"

definition icaltimezone_get_builtin_timezone_from_offset ::
    "coverage \<Rightarrow> tz_files \<Rightarrow> (nat \<Rightarrow> zone_ref) \<Rightarrow> int \<Rightarrow> tz_store \<Rightarrow> int \<Rightarrow> string option \<Rightarrow> ical
       \<Rightarrow> (builtin_zone option \<times> tz_store \<times> ical) option" where
  "icaltimezone_get_builtin_timezone_from_offset cov fs place now ts offset tzname st = do {
     (a, ts1, st1) \<leftarrow> icaltimezone_get_builtin_timezones fs ts st;
     if offset = 0 then Some (Some Utc_zone, ts1, st1)
     else case tzname of
            None \<Rightarrow> Some (None, ts1, st1)
          | Some name \<Rightarrow>
              find_offset (num_elements a) cov (icaltimezone_load_builtin_timezone cov fs ts1) place now offset name 0 ts1 st1 }"

text \<open>The identifier of a zone of the system, which is read with its component.\<close>

definition zone_matches ::
    "coverage \<Rightarrow> tz_files \<Rightarrow> builtin_zone \<Rightarrow> string \<Rightarrow> tz_store \<Rightarrow> ical \<Rightarrow> (bool \<times> tz_store \<times> ical) option" where
  "zone_matches cov fs b tzid ts st =
     (case b of
        Utc_zone \<Rightarrow> Some (tzid = ''UTC'', ts, st)
      | Zone_cell i \<Rightarrow> do {
          a \<leftarrow> ts_builtin ts;
          z \<leftarrow> icalarray_element_at a (int i);
          (name, z1, st1) \<leftarrow> icaltimezone_get_tzid (icaltimezone_load_builtin_timezone cov fs ts) z st;
          s \<leftarrow> name;
          Some (s = tzid, put_zone i z1 ts, st1) })"

definition icaltimezone_get_builtin_timezone_from_tzid ::
    "coverage \<Rightarrow> tz_files \<Rightarrow> tz_store \<Rightarrow> string option \<Rightarrow> ical \<Rightarrow> (builtin_zone option \<times> tz_store \<times> ical) option" where
  "icaltimezone_get_builtin_timezone_from_tzid cov fs ts tzid st =
     (case tzid of
        None \<Rightarrow> Some (None, ts, st)
      | Some s \<Rightarrow>
          if s = [] \<or> \<not> has_prefix (ts_prefix ts) s then Some (None, ts, st)
          else case after_slashes 3 s of
                 None \<Rightarrow> Some (None, ts, st)
               | Some p \<Rightarrow> do {
                   (b, ts1, st1) \<leftarrow> icaltimezone_get_builtin_timezone cov fs ts (Some p) st;
                   case b of
                     None \<Rightarrow> Some (None, ts1, st1)
                   | Some b' \<Rightarrow> do {
                       (same, ts2, st2) \<leftarrow> zone_matches cov fs b' s ts1 st1;
                       Some (if same then b else None, ts2, st2) } })"

section \<open>Listing the changes of a zone\<close>

text \<open>
  The buffer is a pointer, so that the bound of \<^verbatim>\<open>snprintf\<close> is the size of a pointer, an argument, and not
  that of the memory behind it.
\<close>

definition format_utc_offset :: "nat \<Rightarrow> int \<Rightarrow> string" where
  "format_utc_offset psize offset =
     (let o1 = \<bar>offset\<bar>;
          hours = c_div o1 3600;
          minutes = c_div (c_mod o1 3600) 60;
          seconds = c_mod o1 60
      in take (psize - 1)
           ((if offset < 0 then ''-'' else ''+'') @ fmt_0d 2 hours @ fmt_0d 2 minutes @
            (if seconds = 0 then [] else fmt_0d 2 seconds)))"

definition month_names :: "string list" where
  "month_names = [''Jan'', ''Feb'', ''Mar'', ''Apr'', ''May'', ''Jun'', ''Jul'', ''Aug'', ''Sep'', ''Oct'', ''Nov'', ''Dec'']"

text \<open>\<^verbatim>\<open>%2i\<close> fills up with blanks.\<close>

definition fmt_2i :: "int \<Rightarrow> string" where
  "fmt_2i v = (let s = fmt_d v in replicate (2 - length s) CHR '' '' @ s)"

definition change_line :: "nat \<Rightarrow> string \<Rightarrow> icaltimezonechange \<Rightarrow> string option" where
  "change_line psize location c =
     (if 1 \<le> c_month c \<and> c_month c \<le> 12 then
        Some (location @ [TAB] @ fmt_2i (c_day c) @ '' '' @ month_names ! nat (c_month c - 1) @ '' '' @
              fmt_0d 4 (c_year c) @ [TAB] @ fmt_2i (c_hour c) @ '':'' @ fmt_0d 2 (c_minute c) @ '':'' @
              fmt_0d 2 (c_second c) @ [TAB] @ format_utc_offset psize (utc_offset c) @ [LF])
      else None)"

fun dump_lines :: "nat \<Rightarrow> string \<Rightarrow> int \<Rightarrow> icaltimezonechange list \<Rightarrow> string option" where
  "dump_lines psize location max_year [] = Some []"
| "dump_lines psize location max_year (c # cs) =
     (if c_year c > max_year then Some []
      else do {
        s \<leftarrow> change_line psize location c;
        r \<leftarrow> dump_lines psize location max_year cs;
        Some (s @ r) })"

text \<open>The output of the dump, with the least year of an expansion and the zone afterwards.\<close>

definition icaltimezone_dump_changes ::
    "nat \<Rightarrow> coverage \<Rightarrow> zone_loader \<Rightarrow> int \<Rightarrow> int \<Rightarrow> icaltimezone \<Rightarrow> int \<Rightarrow> ical
       \<Rightarrow> (string \<times> int \<times> icaltimezone \<times> ical) option" where
  "icaltimezone_dump_changes psize cov load today minimum z max_year st = do {
     (m1, z1, st1) \<leftarrow> icaltimezone_ensure_coverage cov load today minimum z max_year st;
     a \<leftarrow> tz_changes z1;
     location \<leftarrow> tz_location z1;
     s \<leftarrow> dump_lines psize location max_year (elements a);
     Some (s, m1, z1, st1) }"

end
