(* ===== verification/SspmCodec.thy ===== *)
theory SspmCodec
  imports IcalLine
begin

text \<open>
  The two encodings of MIME, \<^verbatim>\<open>sspm.c\<close>: base64 and quoted-printable, both directions. The output of an encoder
  goes to a buffer that grows as needed; it is the text that is appended here. A \<^verbatim>\<open>char\<close> is signed.
\<close>

section \<open>Base64\<close>

type_synonym byte = "8 word"
type_synonym byte3 = "byte \<times> byte \<times> byte"

definition byte_of :: "char \<Rightarrow> byte" where "byte_of c = of_nat (of_char c)"
definition char_of_byte :: "byte \<Rightarrow> char" where "char_of_byte b = char_of (unat b)"

definition BaseTable :: string where
  "BaseTable = ''ABCDEFGHIJKLMNOPQRSTUVWXYZabcdefghijklmnopqrstuvwxyz0123456789+/''"

text \<open>65 stands for a character that is not used. The cases fall through.\<close>

definition base64_letter :: "byte \<Rightarrow> char" where
  "base64_letter x = (if x = 65 then CHR ''='' else BaseTable ! unat x)"

unbundle bit_operations_syntax

definition sspm_write_base64 :: "byte3 \<Rightarrow> nat \<Rightarrow> string option" where
  "sspm_write_base64 inbuf sz =
     (case inbuf of (i0, i1, i2) \<Rightarrow>
        if sz \<notin> {2, 3, 4} then None
        else
          let o3 = (if sz = 4 then i2 AND 0x3F else 65);
              o2 = (if sz = 4 \<or> sz = 3 then push_bit 2 (i1 AND 0x0F) OR drop_bit 6 (i2 AND 0xC0) else 65);
              o0 = drop_bit 2 (i0 AND 0xFC);
              o1 = push_bit 4 (i0 AND 0x03) OR drop_bit 4 (i1 AND 0xF0)
          in Some (map base64_letter [o0, o1, o2, o3]))"

definition set_byte :: "nat \<Rightarrow> byte \<Rightarrow> byte3 \<Rightarrow> byte3" where
  "set_byte k x b = (case b of (b0, b1, b2) \<Rightarrow> if k = 0 then (x, b1, b2) else if k = 1 then (b0, x, b2) else (b0, b1, x))"

text \<open>A full group is written when the byte behind it is read. A failed assertion is \<open>None\<close>.\<close>

fun encode_base64_loop :: "string \<Rightarrow> nat \<Rightarrow> bool \<Rightarrow> nat \<Rightarrow> byte3 \<Rightarrow> string \<Rightarrow> (nat \<times> bool \<times> byte3 \<times> string) option" where
  "encode_base64_loop [] i first lpos inbuf out = Some (i, first, inbuf, out)"
| "encode_base64_loop (c # cs) i first lpos inbuf out = do {
     (inbuf1, lpos1, out1) \<leftarrow> (if i mod 3 = 0 \<and> \<not> first
        then map_option (\<lambda>s. ((0, 0, 0), lpos + 4, out @ s)) (sspm_write_base64 inbuf 4)
        else Some (inbuf, lpos, out));
     if lpos1 mod 4 \<noteq> 0 then None
     else
       let (lpos2, out2) = (if lpos1 = 72 then (0, out1 @ [LF]) else (lpos1, out1))
       in encode_base64_loop cs (i + 1) False lpos2 (set_byte (i mod 3) (byte_of c) inbuf1) out2 }"

text \<open>The group that is left is written if it has one or two bytes.\<close>

definition sspm_encode_base64 :: "string \<Rightarrow> string option" where
  "sspm_encode_base64 data = do {
     (i, first, inbuf, out) \<leftarrow> encode_base64_loop data 0 True 0 (0, 0, 0) [];
     if i mod 3 = 1 \<and> \<not> first then map_option (\<lambda>s. out @ s) (sspm_write_base64 inbuf 2)
     else if i mod 3 = 2 \<and> \<not> first then map_option (\<lambda>s. out @ s) (sspm_write_base64 inbuf 3)
     else Some out }"

text \<open>The value of a letter; \<open>None\<close> is -1.\<close>

definition base64_value :: "char \<Rightarrow> byte option" where
  "base64_value c =
     (let k = (of_char c :: nat)
      in if 65 \<le> k \<and> k \<le> 90 then Some (of_nat (k - 65))
         else if 97 \<le> k \<and> k \<le> 122 then Some (of_nat (k - 97 + 26))
         else if 48 \<le> k \<and> k \<le> 57 then Some (of_nat (k - 48 + 52))
         else if c = CHR ''/'' then Some 63
         else if c = CHR ''+'' then Some 62
         else None)"

text \<open>Four letters are three bytes.\<close>

definition base64_bytes :: "byte list \<Rightarrow> string" where
  "base64_bytes buf =
     map char_of_byte
       [push_bit 2 (buf ! 0) OR drop_bit 4 (buf ! 1 AND 0x30),
        push_bit 4 (buf ! 1 AND 0x0F) OR drop_bit 2 (buf ! 2 AND 0x3C),
        push_bit 6 (buf ! 2 AND 0x03) OR (buf ! 3 AND 0x3F)]"

text \<open>
  The loop up to the first character that is not a letter, at which the group is filled with zeros. The state is
  the position, the group, and the number of letters; \<open>None\<close> is the null pointer for a text without a letter.
\<close>

fun decode_base64_loop :: "nat \<Rightarrow> string \<Rightarrow> nat \<Rightarrow> byte list \<Rightarrow> nat \<Rightarrow> string \<Rightarrow> (nat \<times> string) option" where
  "decode_base64_loop sz [] p buf size_out dest = Some (size_out, dest)"
| "decode_base64_loop sz (c # cs) p buf size_out dest =
     (if p \<ge> sz then Some (size_out, dest)
      else case base64_value c of
             None \<Rightarrow>
               if size_out = 0 then None
               else Some (size_out, dest @ base64_bytes (map (\<lambda>k. if k \<le> p mod 4 then buf ! k else 0) [0, 1, 2, 3]))
           | Some x \<Rightarrow>
               let buf1 = buf[p mod 4 := x]
               in if p mod 4 = 3
                  then decode_base64_loop sz cs (p + 1) [0, 0, 0, 0] (size_out + 1) (dest @ base64_bytes buf1)
                  else decode_base64_loop sz cs (p + 1) buf1 (size_out + 1) dest)"

text \<open>The bytes that are written and the size.\<close>

definition decode_base64 :: "string \<Rightarrow> nat \<Rightarrow> (string \<times> nat) option" where
  "decode_base64 src sz =
     map_option (\<lambda>(n, dest). (dest, n div 4 * 3 + (if n mod 4 = 2 then 1 else if n mod 4 = 3 then 2 else 0)))
       (decode_base64_loop sz src 0 [0, 0, 0, 0] 0 [])"

section \<open>Quoted-printable\<close>

definition sspm_is_printable :: "char \<Rightarrow> bool" where
  "sspm_is_printable c \<longleftrightarrow> 33 \<le> (of_char c :: nat) \<and> (of_char c :: nat) \<le> 126 \<and> c \<noteq> CHR ''=''"

definition hex_digit :: "nat \<Rightarrow> char" where
  "hex_digit k = ''0123456789ABCDEF'' ! k"

text \<open>\<^verbatim>\<open>=%02X\<close> in a buffer of four bytes: a negative character has eight digits, and two are kept.\<close>

definition sspm_append_hex :: "char \<Rightarrow> string" where
  "sspm_append_hex c =
     (let k = (of_char c :: nat)
      in if k \<ge> 128 then ''=FF'' else [CHR ''='', hex_digit (k div 16), hex_digit (k mod 16)])"

text \<open>One character, with the one behind it.\<close>

definition encode_qp_char :: "char \<Rightarrow> char \<Rightarrow> string" where
  "encode_qp_char c n =
     (if sspm_is_printable c then [c]
      else if c = TAB \<or> c = CHR '' '' then (if n = LF \<or> n = CR then sspm_append_hex c else [c])
      else if c = LF \<or> c = CR then [c]
      else sspm_append_hex c)"

text \<open>A line break sets the position to zero; beyond column 72 there is a soft one.\<close>

fun encode_qp :: "string \<Rightarrow> nat \<Rightarrow> string" where
  "encode_qp [] lpos = []"
| "encode_qp (c # cs) lpos =
     (let s = encode_qp_char c (case cs of [] \<Rightarrow> NUL | n # _ \<Rightarrow> n);
          lpos1 = (if c = LF \<or> c = CR then 0 else lpos + length s)
      in if lpos1 > 72 then s @ [CHR ''='', LF] @ encode_qp cs 0 else s @ encode_qp cs lpos1)"

definition sspm_encode_quoted_printable :: "string \<Rightarrow> string" where
  "sspm_encode_quoted_printable data = encode_qp data 0"

definition hex_value :: "char \<Rightarrow> int" where
  "hex_value c = (if is_digit c then int (of_char c) - 48 else int (of_char c) - 55)"

text \<open>The loop ends at the size, which counts the characters that are written.\<close>

function decode_qp :: "nat \<Rightarrow> string \<Rightarrow> nat \<Rightarrow> string" where
  "decode_qp sz src i =
     (case src of
        [] \<Rightarrow> []
      | c # s1 \<Rightarrow>
          if i \<ge> sz then []
          else if c \<noteq> CHR ''='' then c # decode_qp sz s1 (i + 1)
          else case s1 of
                 [] \<Rightarrow> []
               | d # s2 \<Rightarrow>
                   if d = LF \<or> d = CR
                   then decode_qp sz (if s2 \<noteq> [] \<and> (hd s2 = LF \<or> hd s2 = CR) then tl s2 else s2) i
                   else case s2 of
                          [] \<Rightarrow> []
                        | e # s3 \<Rightarrow>
                            char_of (nat ((hex_value d * 16 + hex_value e) mod 256)) # decode_qp sz s3 (i + 1))"
  by pat_completeness auto
termination
  by (relation "measure (\<lambda>(sz, src, i). length src)") auto

declare decode_qp.simps [simp del]

definition decode_quoted_printable :: "string \<Rightarrow> nat \<Rightarrow> string \<times> nat" where
  "decode_quoted_printable src sz = (let d = decode_qp sz src 0 in (d, length d))"

end
