(* ===== verification/Sspm.thy ===== *)
theory Sspm
  imports SspmCodec
begin

text \<open>
  The parser and the printer of MIME messages, \<^verbatim>\<open>sspm.c\<close>. A message is an array of parts, in the order in which
  they begin, each with its header and the level of its nesting. What is done with the lines of a part is up to
  the actions of the caller, which have a state; the pointer to a part is a number, and 0 is null.
\<close>

section \<open>Types\<close>

datatype sspm_major_type =
    SSPM_NO_MAJOR_TYPE | SSPM_TEXT_MAJOR_TYPE | SSPM_IMAGE_MAJOR_TYPE | SSPM_AUDIO_MAJOR_TYPE |
    SSPM_VIDEO_MAJOR_TYPE | SSPM_APPLICATION_MAJOR_TYPE | SSPM_MULTIPART_MAJOR_TYPE | SSPM_MESSAGE_MAJOR_TYPE |
    SSPM_UNKNOWN_MAJOR_TYPE

datatype sspm_minor_type =
    SSPM_NO_MINOR_TYPE | SSPM_ANY_MINOR_TYPE | SSPM_PLAIN_MINOR_TYPE | SSPM_RFC822_MINOR_TYPE |
    SSPM_DIGEST_MINOR_TYPE | SSPM_CALENDAR_MINOR_TYPE | SSPM_MIXED_MINOR_TYPE | SSPM_RELATED_MINOR_TYPE |
    SSPM_ALTERNATIVE_MINOR_TYPE | SSPM_PARALLEL_MINOR_TYPE | SSPM_UNKNOWN_MINOR_TYPE

datatype sspm_encoding =
    SSPM_NO_ENCODING | SSPM_QUOTED_PRINTABLE_ENCODING | SSPM_8BIT_ENCODING | SSPM_7BIT_ENCODING |
    SSPM_BINARY_ENCODING | SSPM_BASE64_ENCODING | SSPM_UNKNOWN_ENCODING

datatype sspm_error =
    SSPM_NO_ERROR | SSPM_UNEXPECTED_BOUNDARY_ERROR | SSPM_WRONG_BOUNDARY_ERROR | SSPM_NO_BOUNDARY_ERROR |
    SSPM_NO_HEADER_ERROR | SSPM_MALFORMED_HEADER_ERROR

datatype mime_state =
    UNKNOWN_STATE | IN_HEADER | END_OF_HEADER | IN_BODY | OPENING_PART | END_OF_PART | TERMINAL_END_OF_PART |
    END_OF_INPUT

record sspm_header =
  h_def :: bool
  h_boundary :: "string option"
  h_major :: sspm_major_type
  h_minor :: sspm_minor_type
  h_minor_text :: "string option"
  h_content_type_params :: "string list option"
  h_encoding :: sspm_encoding
  h_content_id :: "string option"
  h_error :: sspm_error
  h_error_text :: "string option"

record sspm_part =
  p_header :: sspm_header
  p_level :: int
  p_data_size :: nat
  p_data :: nat

definition major_content_type_map :: "(sspm_major_type \<times> string) list" where
  "major_content_type_map =
     [(SSPM_MULTIPART_MAJOR_TYPE, ''multipart''), (SSPM_TEXT_MAJOR_TYPE, ''text''), (SSPM_TEXT_MAJOR_TYPE, ''text''),
      (SSPM_IMAGE_MAJOR_TYPE, ''image''), (SSPM_AUDIO_MAJOR_TYPE, ''audio''), (SSPM_VIDEO_MAJOR_TYPE, ''video''),
      (SSPM_APPLICATION_MAJOR_TYPE, ''application''), (SSPM_MULTIPART_MAJOR_TYPE, ''multipart''),
      (SSPM_MESSAGE_MAJOR_TYPE, ''message'')]"

definition minor_content_type_map :: "(sspm_minor_type \<times> string) list" where
  "minor_content_type_map =
     [(SSPM_ANY_MINOR_TYPE, ''*''), (SSPM_PLAIN_MINOR_TYPE, ''plain''), (SSPM_RFC822_MINOR_TYPE, ''rfc822''),
      (SSPM_DIGEST_MINOR_TYPE, ''digest''), (SSPM_CALENDAR_MINOR_TYPE, ''calendar''),
      (SSPM_MIXED_MINOR_TYPE, ''mixed''), (SSPM_RELATED_MINOR_TYPE, ''related''),
      (SSPM_ALTERNATIVE_MINOR_TYPE, ''alternative''), (SSPM_PARALLEL_MINOR_TYPE, ''parallel'')]"

definition sspm_encoding_map :: "(sspm_encoding \<times> string) list" where
  "sspm_encoding_map =
     [(SSPM_NO_ENCODING, ''''), (SSPM_QUOTED_PRINTABLE_ENCODING, ''quoted-printable''), (SSPM_8BIT_ENCODING, ''8bit''),
      (SSPM_7BIT_ENCODING, ''7bit''), (SSPM_BINARY_ENCODING, ''binary''), (SSPM_BASE64_ENCODING, ''base64'')]"

definition starts_with :: "string \<Rightarrow> string \<Rightarrow> bool" where
  "starts_with s p \<longleftrightarrow> take (length p) s = p"

definition sspm_lowercase :: "string \<Rightarrow> string" where
  "sspm_lowercase = map to_lower"

definition sspm_find_major_content_type :: "string \<Rightarrow> sspm_major_type" where
  "sspm_find_major_content_type s =
     (case List.find (\<lambda>e. starts_with (sspm_lowercase s) (snd e)) major_content_type_map of
        Some e \<Rightarrow> fst e | None \<Rightarrow> SSPM_UNKNOWN_MAJOR_TYPE)"

definition sspm_find_minor_content_type :: "string \<Rightarrow> sspm_minor_type" where
  "sspm_find_minor_content_type s =
     (case dropWhile (\<lambda>c. c \<noteq> CHR ''/'') (sspm_lowercase s) of
        [] \<Rightarrow> SSPM_UNKNOWN_MINOR_TYPE
      | _ # p \<Rightarrow> (case List.find (\<lambda>e. starts_with p (snd e)) minor_content_type_map of
                    Some e \<Rightarrow> fst e | None \<Rightarrow> SSPM_UNKNOWN_MINOR_TYPE))"

text \<open>
  The loop over the major types compares with the unknown minor type, whose number is larger than that of any
  entry: a type that is not in the table makes it run on behind the table.
\<close>

definition sspm_major_type_string :: "sspm_major_type \<Rightarrow> string option" where
  "sspm_major_type_string t =
     (if t = SSPM_UNKNOWN_MAJOR_TYPE then Some [] else map_option snd (List.find (\<lambda>e. fst e = t) major_content_type_map))"

definition sspm_minor_type_string :: "sspm_minor_type \<Rightarrow> string" where
  "sspm_minor_type_string t =
     (case List.find (\<lambda>e. fst e = t) minor_content_type_map of Some e \<Rightarrow> snd e | None \<Rightarrow> [])"

definition sspm_encoding_string :: "sspm_encoding \<Rightarrow> string" where
  "sspm_encoding_string t =
     (case List.find (\<lambda>e. fst e = t) sspm_encoding_map of Some e \<Rightarrow> snd e | None \<Rightarrow> [])"

section \<open>Lines\<close>

text \<open>The position of a text in a line, \<^verbatim>\<open>strstr\<close>.\<close>

fun find_text :: "string \<Rightarrow> string \<Rightarrow> string option" where
  "find_text needle [] = (if needle = [] then Some [] else None)"
| "find_text needle (c # cs) = (if starts_with (c # cs) needle then Some (c # cs) else find_text needle cs)"

definition cut_last_quote :: "string \<Rightarrow> string" where
  "cut_last_quote s =
     (if CHR ''\"'' \<in> set s then rev (tl (dropWhile (\<lambda>c. c \<noteq> CHR ''\"'') (rev s))) else s)"

text \<open>
  The value of a parameter. Its text is in a static array of 1024 bytes, of which only the text itself is written
  when a semicolon is behind it: what an earlier call has left there follows, up to its NUL. A quote behind the
  semicolon makes the length wrap round.
\<close>

definition sspm_get_parameter :: "string \<Rightarrow> string \<Rightarrow> string \<Rightarrow> (string option \<times> string) option" where
  "sspm_get_parameter line param name =
     (case find_text param line of
        None \<Rightarrow> Some (None, name)
      | Some p0 \<Rightarrow>
          let p1 = dropWhile (\<lambda>c. c = CHR '' '' \<or> c = CHR ''='') (drop (length param) p0);
              p = (if CHR ''\"'' \<in> set p1 then tl (dropWhile (\<lambda>c. c \<noteq> CHR ''\"'') p1) else p1);
              s = (if CHR '';'' \<in> set p1 then Some (dropWhile (\<lambda>c. c \<noteq> CHR '';'') p1) else None)
          in do {
            name1 \<leftarrow> (case s of
                 Some s' \<Rightarrow>
                   if length s' > length p \<or> length p - length s' > 1024 then None
                   else Some (take (length p - length s') p @ drop (length p - length s') name)
               | None \<Rightarrow> Some (take 1023 p @ replicate (1024 - length (take 1023 p)) NUL));
            t \<leftarrow> c_str name1;
            let v = cut_last_quote t;
            Some (Some v, v @ NUL # drop (length v + 1) name1) })"

definition sspm_property_name :: "string \<Rightarrow> string option" where
  "sspm_property_name line =
     (if CHR '':'' \<in> set line then Some (takeWhile (\<lambda>c. c \<noteq> CHR '':'') line) else None)"

text \<open>
  What is behind the colon, up to a semicolon, without blanks and line breaks. Without a semicolon the code copies
  bytes behind the end of the line as well, but also the NUL there, which ends the text.
\<close>

definition sspm_value :: "string \<Rightarrow> string" where
  "sspm_value line =
     (case dropWhile (\<lambda>c. c \<noteq> CHR '':'') line of
        [] \<Rightarrow> []
      | _ # c \<Rightarrow> filter (\<lambda>x. x \<noteq> CHR '' '' \<and> x \<noteq> LF) (takeWhile (\<lambda>x. x \<noteq> CHR '';'') c))"

definition mime_headers :: "string list" where
  "mime_headers = [''Content-Type'', ''Content-Transfer-Encoding'', ''Content-Disposition'', ''Content-Id'', ''Mime-Version'']"

definition sspm_is_mime_header :: "string \<Rightarrow> bool" where
  "sspm_is_mime_header line =
     (case sspm_property_name line of None \<Rightarrow> False | Some name \<Rightarrow> list_ex (strcaseeq name) mime_headers)"

definition sspm_is_mail_header :: "string \<Rightarrow> bool" where
  "sspm_is_mail_header line \<longleftrightarrow> sspm_property_name line \<noteq> None"

text \<open>The count of the other characters is a \<^verbatim>\<open>char\<close>, which is zero again after 256 of them.\<close>

definition sspm_is_blank :: "string \<Rightarrow> bool" where
  "sspm_is_blank line \<longleftrightarrow> length (filter (\<lambda>c. \<not> (c = CHR '' '' \<or> c = TAB \<or> c = LF)) line) mod 256 = 0"

definition sspm_is_continuation_line :: "string \<Rightarrow> bool" where
  "sspm_is_continuation_line line \<longleftrightarrow> (case line of c # _ \<Rightarrow> c = CHR '' '' \<or> c = TAB | [] \<Rightarrow> False)"

definition sspm_is_mime_boundary :: "string \<Rightarrow> bool" where
  "sspm_is_mime_boundary line \<longleftrightarrow> starts_with line ''--''"

definition sspm_is_mime_terminating_boundary :: "string \<Rightarrow> bool" where
  "sspm_is_mime_terminating_boundary line \<longleftrightarrow> sspm_is_mime_boundary line \<and> find_text [CHR ''-'', CHR ''-'', LF] line \<noteq> None"

datatype line_type =
    EMPTY | BLANK | MIME_HEADER | MAIL_HEADER | HEADER_CONTINUATION | BOUNDARY | TERMINATING_BOUNDARY | UNKNOWN_TYPE

definition get_line_type :: "string option \<Rightarrow> line_type" where
  "get_line_type l =
     (case l of
        None \<Rightarrow> EMPTY
      | Some line \<Rightarrow>
          if sspm_is_blank line then BLANK
          else if sspm_is_mime_header line then MIME_HEADER
          else if sspm_is_mail_header line then MAIL_HEADER
          else if sspm_is_continuation_line line then HEADER_CONTINUATION
          else if sspm_is_mime_terminating_boundary line then TERMINATING_BOUNDARY
          else if sspm_is_mime_boundary line then BOUNDARY
          else UNKNOWN_TYPE)"

section \<open>Headers\<close>

definition no_header :: sspm_header where
  "no_header = \<lparr>h_def = False, h_boundary = None, h_major = SSPM_NO_MAJOR_TYPE, h_minor = SSPM_NO_MINOR_TYPE,
     h_minor_text = None, h_content_type_params = None, h_encoding = SSPM_NO_ENCODING, h_content_id = None,
     h_error = SSPM_NO_ERROR, h_error_text = None\<rparr>"

definition no_part :: sspm_part where
  "no_part = \<lparr>p_header = no_header, p_level = 0, p_data_size = 0, p_data = 0\<rparr>"

definition sspm_set_error :: "sspm_error \<Rightarrow> string option \<Rightarrow> sspm_header \<Rightarrow> sspm_header" where
  "sspm_set_error e message h = h\<lparr>h_error := e, h_def := False, h_error_text := message\<rparr>"

definition content_type :: "string \<Rightarrow> string option \<Rightarrow> sspm_header \<Rightarrow> sspm_header" where
  "content_type val boundary h =
     (let minor = sspm_find_minor_content_type val;
          h1 = h\<lparr>h_def := False, h_major := sspm_find_major_content_type val, h_minor := minor\<rparr>;
          h2 = (if minor = SSPM_UNKNOWN_MINOR_TYPE
                then h1\<lparr>h_minor_text := Some (case dropWhile (\<lambda>c. c \<noteq> CHR ''/'') val of [] \<Rightarrow> ''unknown'' | _ # p \<Rightarrow> p)\<rparr>
                else h1)
      in (case boundary of None \<Rightarrow> h2 | Some b \<Rightarrow> h2\<lparr>h_boundary := Some b\<rparr>))"

definition encoding_of :: "string \<Rightarrow> sspm_encoding" where
  "encoding_of s =
     (if strcaseeq s ''base64'' then SSPM_BASE64_ENCODING
      else if strcaseeq s ''quoted-printable'' then SSPM_QUOTED_PRINTABLE_ENCODING
      else if strcaseeq s ''binary'' then SSPM_BINARY_ENCODING
      else if strcaseeq s ''7bit'' then SSPM_7BIT_ENCODING
      else if strcaseeq s ''8bit'' then SSPM_8BIT_ENCODING
      else SSPM_UNKNOWN_ENCODING)"

text \<open>One line of a header; the static array of the parameters is passed on.\<close>

definition sspm_build_header :: "string \<Rightarrow> sspm_header \<times> string \<Rightarrow> (sspm_header \<times> string) option" where
  "sspm_build_header line hn = do {
     prop \<leftarrow> sspm_property_name line;
     let val = sspm_value line;
     if strcaseeq prop ''Content-Type'' then do {
       (boundary, name) \<leftarrow> sspm_get_parameter line ''boundary'' (snd hn);
       Some (content_type val boundary (fst hn), name) }
     else if strcaseeq prop ''Content-Transfer-Encoding''
     then Some ((fst hn)\<lparr>h_encoding := encoding_of val, h_def := False\<rparr>, snd hn)
     else if strcaseeq prop ''Content-Id'' then Some ((fst hn)\<lparr>h_content_id := Some val, h_def := False\<rparr>, snd hn)
     else Some hn }"

section \<open>The state of the parser\<close>

text \<open>The state of the caller is read by the reader of lines and by the actions.\<close>

record 'd sspm_action =
  sa_major :: sspm_major_type
  sa_minor :: sspm_minor_type
  sa_new_part :: "'d \<Rightarrow> nat \<times> 'd"
  sa_add_line :: "nat \<Rightarrow> sspm_header \<Rightarrow> string \<Rightarrow> nat \<Rightarrow> 'd \<Rightarrow> 'd"
  sa_end_part :: "nat \<Rightarrow> 'd \<Rightarrow> nat \<times> 'd"

record 'd mime_impl =
  mi_parts :: "sspm_part list"
  mi_part_no :: nat
  mi_level :: int
  mi_actions :: "'d sspm_action list"
  mi_get_string :: "'d \<Rightarrow> string option \<times> 'd"
  mi_data :: 'd
  mi_temp :: string
  mi_state :: mime_state
  mi_name :: string

definition sspm_default_action :: "'d sspm_action" where
  "sspm_default_action = \<lparr>sa_major = SSPM_UNKNOWN_MAJOR_TYPE, sa_minor = SSPM_UNKNOWN_MINOR_TYPE,
     sa_new_part = (\<lambda>d. (0, d)), sa_add_line = (\<lambda>p h l n d. d), sa_end_part = (\<lambda>p d. (0, d))\<rparr>"

definition get_action :: "'d mime_impl \<Rightarrow> sspm_major_type \<Rightarrow> sspm_minor_type \<Rightarrow> 'd sspm_action" where
  "get_action impl major minor =
     (case List.find (\<lambda>a. major = sa_major a \<and> (minor = sa_minor a \<or> minor = SSPM_ANY_MINOR_TYPE))
             (takeWhile (\<lambda>a. sa_major a \<noteq> SSPM_UNKNOWN_MAJOR_TYPE) (mi_actions impl)) of
        Some a \<Rightarrow> a | None \<Rightarrow> sspm_default_action)"

definition sspm_get_next_line :: "'d mime_impl \<Rightarrow> string option \<times> 'd mime_impl" where
  "sspm_get_next_line impl =
     (let (l, d) = mi_get_string impl (mi_data impl); impl1 = impl\<lparr>mi_data := d\<rparr>
      in case l of
           None \<Rightarrow> (None, impl1\<lparr>mi_state := END_OF_INPUT\<rparr>)
         | Some s \<Rightarrow> (Some s, impl1\<lparr>mi_temp := s\<rparr>))"

text \<open>There is no check against the number of parts; a part behind the array is an error of the model.\<close>

definition sspm_store_part :: "sspm_header \<Rightarrow> nat \<Rightarrow> nat \<Rightarrow> 'd mime_impl \<Rightarrow> 'd mime_impl option" where
  "sspm_store_part h part sz impl =
     (if mi_part_no impl < length (mi_parts impl) then
        Some (impl\<lparr>mi_parts := (mi_parts impl)[mi_part_no impl :=
                     \<lparr>p_header = h, p_level = mi_level impl, p_data_size = sz, p_data = part\<rparr>],
                   mi_part_no := mi_part_no impl + 1\<rparr>)
      else None)"

definition upd_header :: "nat \<Rightarrow> (sspm_header \<Rightarrow> sspm_header) \<Rightarrow> 'd mime_impl \<Rightarrow> 'd mime_impl option" where
  "upd_header k f impl =
     (if k < length (mi_parts impl)
      then Some (impl\<lparr>mi_parts := (mi_parts impl)[k := (mi_parts impl ! k)\<lparr>p_header := f (p_header (mi_parts impl ! k))\<rparr>]\<rparr>)
      else None)"

section \<open>Reading a header\<close>

definition MAX_HEADER_LINES :: nat where "MAX_HEADER_LINES = 25"

definition strip_last_newline :: "string \<Rightarrow> string" where
  "strip_last_newline s = (if s \<noteq> [] \<and> last s = LF then butlast s else s)"

text \<open>
  The lines up to a blank one; \<open>Inl\<close> is a line that is not part of a header. The array has room for 25 lines and
  the loop stops before the last; lines of more than 1023 characters are failed assertions. A continuation line
  does not count, so that only the input bounds their number.
\<close>

partial_function (option) read_lines ::
    "string list \<Rightarrow> 'd mime_impl \<Rightarrow> ((string + string list) \<times> 'd mime_impl) option" where
  "read_lines ls impl =
     (if length ls \<ge> MAX_HEADER_LINES - 1 then Some (Inr ls, impl)
      else case sspm_get_next_line impl of
        (None, impl1) \<Rightarrow> Some (Inr ls, impl1)
      | (Some buf, impl1) \<Rightarrow>
          let t = get_line_type (Some buf)
          in if t = BLANK then Some (Inr ls, impl1\<lparr>mi_state := END_OF_HEADER\<rparr>)
             else if t = MAIL_HEADER \<or> t = MIME_HEADER then
               (if length buf < 1024 then read_lines (ls @ [buf]) (impl1\<lparr>mi_state := IN_HEADER\<rparr>) else None)
             else if t = HEADER_CONTINUATION \<and> ls \<noteq> [] then
               (let l = strip_last_newline (last ls); b = dropWhile (\<lambda>c. c = CHR '' '' \<or> c = TAB) buf
                in if length b + length l < 1024
                   then read_lines (butlast ls @ [l @ b]) (impl1\<lparr>mi_state := IN_HEADER\<rparr>) else None)
             else Some (Inl buf, impl1))"

declare read_lines.simps [code]

fun build_headers :: "string list \<Rightarrow> sspm_header \<times> string \<Rightarrow> (sspm_header \<times> string) option" where
  "build_headers [] hn = Some hn"
| "build_headers (l # ls) hn = Option.bind (sspm_build_header l hn) (build_headers ls)"

definition default_header :: sspm_header where
  "default_header = no_header\<lparr>h_def := True, h_major := SSPM_TEXT_MAJOR_TYPE, h_minor := SSPM_PLAIN_MINOR_TYPE\<rparr>"

definition sspm_read_header :: "'d mime_impl \<Rightarrow> (sspm_header \<times> 'd mime_impl) option" where
  "sspm_read_header impl = do {
     (r, impl1) \<leftarrow> read_lines [] impl;
     case r of
       Inl buf \<Rightarrow> Some (sspm_set_error SSPM_MALFORMED_HEADER_ERROR (Some buf) default_header, impl1)
     | Inr ls \<Rightarrow> do {
         (h, name) \<leftarrow> build_headers ls (default_header, mi_name impl1);
         Some (h, impl1\<lparr>mi_name := name\<rparr>) } }"

section \<open>Reading a part\<close>

text \<open>The lines up to a given one.\<close>

partial_function (option) skip_to :: "string \<Rightarrow> 'd mime_impl \<Rightarrow> 'd mime_impl option" where
  "skip_to boundary impl =
     (case sspm_get_next_line impl of
        (None, impl1) \<Rightarrow> Some impl1
      | (Some l, impl1) \<Rightarrow> if l = boundary then Some impl1 else skip_to boundary impl1)"

declare skip_to.simps [code]

text \<open>
  A line that begins with two hyphens is compared with the boundary of the parent, as far as the size of a pointer.
  One that is not the boundary is skipped, with all up to its end.
\<close>

definition same_boundary :: "nat \<Rightarrow> string \<Rightarrow> string \<Rightarrow> bool" where
  "same_boundary psize line boundary \<longleftrightarrow> take psize (drop 2 line) = take psize boundary"

definition wrong_boundary :: "string \<Rightarrow> nat \<Rightarrow> string \<Rightarrow> string \<Rightarrow> 'd mime_impl \<Rightarrow> 'd mime_impl option" where
  "wrong_boundary mark k boundary line impl = do {
     impl1 \<leftarrow> upd_header k (sspm_set_error SSPM_WRONG_BOUNDARY_ERROR
                (Some (take 255 (''Expected: '' @ boundary @ mark @ line)))) impl;
     skip_to (line @ ''--'') impl1 }"

text \<open>A line of the body, decoded.\<close>

definition body_line :: "sspm_encoding \<Rightarrow> string \<Rightarrow> string \<times> nat" where
  "body_line enc line =
     (if enc = SSPM_BASE64_ENCODING then
        (case decode_base64 line (length line) of Some (s, n) \<Rightarrow> (take n s, n) | None \<Rightarrow> (line, length line))
      else if enc = SSPM_QUOTED_PRINTABLE_ENCODING then decode_quoted_printable line (length line)
      else (line, length line))"

definition finish_part :: "'d sspm_action \<Rightarrow> nat \<Rightarrow> 'd mime_impl \<Rightarrow> nat \<times> 'd mime_impl" where
  "finish_part a part impl = (let (p, d) = sa_end_part a part (mi_data impl) in (p, impl\<lparr>mi_data := d\<rparr>))"

text \<open>The lines of a body, up to its boundary or the end of the input. The parent is an index of the parts.\<close>

partial_function (option) part_lines ::
    "nat \<Rightarrow> 'd sspm_action \<Rightarrow> nat option \<Rightarrow> nat \<Rightarrow> sspm_header \<times> nat \<Rightarrow> 'd mime_impl
       \<Rightarrow> (nat \<times> (sspm_header \<times> nat) \<times> 'd mime_impl) option" where
  "part_lines psize a parent part hs impl =
     (case sspm_get_next_line impl of
        (None, impl1) \<Rightarrow> (let (p, impl2) = finish_part a part impl1 in Some (p, hs, impl2))
      | (Some line, impl1) \<Rightarrow>
          if sspm_is_mime_boundary line then
            (case parent of
               None \<Rightarrow> do {
                 impl2 \<leftarrow> skip_to (line @ ''--'') impl1;
                 Some (0, (sspm_set_error SSPM_UNEXPECTED_BOUNDARY_ERROR (Some line) (fst hs), snd hs), impl2) }
             | Some k \<Rightarrow>
                 if k \<ge> length (mi_parts impl1) then None
                 else do {
                   boundary \<leftarrow> h_boundary (p_header (mi_parts impl1 ! k));
                   if same_boundary psize line boundary
                   then let (p, impl2) = finish_part a part impl1 in Some (p, hs, impl2\<lparr>mi_state := END_OF_PART\<rparr>)
                   else do {
                     impl2 \<leftarrow> wrong_boundary ''--. Got: '' k boundary line impl1;
                     part_lines psize a parent part hs impl2 } })
          else
            (let (s, n) = body_line (h_encoding (fst hs)) line
             in part_lines psize a parent part (fst hs, n)
                  (impl1\<lparr>mi_data := sa_add_line a part (fst hs) s n (mi_data impl1)\<rparr>)))"

declare part_lines.simps [code]

definition sspm_make_part ::
    "nat \<Rightarrow> nat option \<Rightarrow> sspm_header \<Rightarrow> 'd mime_impl \<Rightarrow> (nat \<times> (sspm_header \<times> nat) \<times> 'd mime_impl) option" where
  "sspm_make_part psize parent h impl =
     (let a = get_action impl (h_major h) (h_minor h);
          (part, d) = sa_new_part a (mi_data impl)
      in part_lines psize a parent part (h, 0) (impl\<lparr>mi_data := d, mi_state := IN_BODY\<rparr>))"

section \<open>Reading a message of many parts\<close>

text \<open>The opening boundary; \<open>False\<close> is one that is wrong.\<close>

partial_function (option) opening_boundary :: "nat \<Rightarrow> nat \<Rightarrow> string \<Rightarrow> 'd mime_impl \<Rightarrow> (bool \<times> 'd mime_impl) option" where
  "opening_boundary psize k boundary impl =
     (case sspm_get_next_line impl of
        (None, impl1) \<Rightarrow> Some (True, impl1)
      | (Some line, impl1) \<Rightarrow>
          if \<not> sspm_is_mime_boundary line then opening_boundary psize k boundary impl1
          else if \<not> sspm_is_mime_terminating_boundary line \<and> same_boundary psize line boundary then Some (True, impl1)
          else do {
            impl2 \<leftarrow> wrong_boundary ''. Got: '' k boundary line impl1;
            Some (False, impl2) })"

declare opening_boundary.simps [code]

partial_function (option) drain :: "'d mime_impl \<Rightarrow> 'd mime_impl option" where
  "drain impl = (case sspm_get_next_line impl of (None, impl1) \<Rightarrow> Some impl1 | (Some l, impl1) \<Rightarrow> drain impl1)"

declare drain.simps [code]

text \<open>
  One part behind an opening boundary. \<open>multi\<close> reads the parts of a part that is a message of many parts itself.
  The result for a failure is 0, as is that of every multipart part.
\<close>

definition make_subpart ::
    "(nat \<Rightarrow> 'd mime_impl \<Rightarrow> (nat \<times> 'd mime_impl) option) \<Rightarrow> nat \<Rightarrow> nat \<Rightarrow> sspm_header \<Rightarrow> 'd mime_impl
       \<Rightarrow> (nat \<times> 'd mime_impl) option" where
  "make_subpart multi psize k h impl =
     (if h_error h \<noteq> SSPM_NO_ERROR then
        (if h_def h then Some (0, impl) else map_option (\<lambda>i. (0, i)) (sspm_store_part h 0 0 impl))
      else if h_major h = SSPM_MULTIPART_MAJOR_TYPE then do {
        let child = mi_part_no impl;
        impl1 \<leftarrow> sspm_store_part h 0 0 impl;
        (part, impl2) \<leftarrow> multi child impl1;
        if get_line_type (Some (mi_temp impl2)) \<noteq> TERMINATING_BOUNDARY then do {
          impl3 \<leftarrow> upd_header child (sspm_set_error SSPM_NO_BOUNDARY_ERROR (Some (mi_temp impl2))) impl2;
          Some (0, impl3) }
        else Some (part, snd (sspm_get_next_line impl2)) }
      else do {
        (part, (h1, sz), impl1) \<leftarrow> sspm_make_part psize (Some k) h impl;
        impl2 \<leftarrow> sspm_store_part h1 part sz impl1;
        Some (part, impl2) })"

definition sspm_make_multipart_subpart ::
    "(nat \<Rightarrow> 'd mime_impl \<Rightarrow> (nat \<times> 'd mime_impl) option) \<Rightarrow> nat \<Rightarrow> nat \<Rightarrow> 'd mime_impl \<Rightarrow> (nat \<times> 'd mime_impl) option" where
  "sspm_make_multipart_subpart multi psize k impl =
     (if k \<ge> length (mi_parts impl) then None
      else case h_boundary (p_header (mi_parts impl ! k)) of
        None \<Rightarrow> do {
          impl1 \<leftarrow> upd_header k (sspm_set_error SSPM_NO_BOUNDARY_ERROR None) impl;
          map_option (\<lambda>i. (0, i)) (drain impl1) }
      | Some boundary \<Rightarrow> do {
          (ok, impl1) \<leftarrow> (if get_line_type (Some (mi_temp impl)) \<noteq> BOUNDARY
                          then opening_boundary psize k boundary impl else Some (True, impl));
          if \<not> ok then Some (0, impl1)
          else do {
            (h, impl2) \<leftarrow> sspm_read_header impl1;
            make_subpart multi psize k h impl2 } })"

definition clear_part :: "'d mime_impl \<Rightarrow> 'd mime_impl option" where
  "clear_part impl =
     upd_header (mi_part_no impl) (\<lambda>h. h\<lparr>h_major := SSPM_NO_MAJOR_TYPE, h_minor := SSPM_NO_MINOR_TYPE\<rparr>) impl"

text \<open>The parts of a message, up to its end. A message of many parts may contain others.\<close>

partial_function (option) subparts ::
    "(nat \<Rightarrow> 'd mime_impl \<Rightarrow> (nat \<times> 'd mime_impl) option) \<Rightarrow> nat \<Rightarrow> nat \<Rightarrow> 'd mime_impl \<Rightarrow> 'd mime_impl option" where
  "subparts multi psize k impl = do {
     (part, impl1) \<leftarrow> sspm_make_multipart_subpart multi psize k impl;
     impl2 \<leftarrow> (if part = 0 then clear_part impl1 else Some impl1);
     if get_line_type (Some (mi_temp impl2)) \<noteq> TERMINATING_BOUNDARY \<and> mi_state impl2 \<noteq> END_OF_INPUT
     then subparts multi psize k impl2 else Some impl2 }"

declare subparts.simps [code]

text \<open>The depth of the nesting is the fuel: each level takes one of the parts of the array.\<close>

primrec multipart_part :: "nat \<Rightarrow> nat \<Rightarrow> nat \<Rightarrow> 'd mime_impl \<Rightarrow> (nat \<times> 'd mime_impl) option" where
  "multipart_part 0 psize k impl = None"
| "multipart_part (Suc n) psize k impl =
     (let impl1 = impl\<lparr>mi_level := mi_level impl + 1\<rparr>
      in if mi_part_no impl1 \<ge> length (mi_parts impl1) then None
         else do {
           let impl2 = impl1\<lparr>mi_parts := (mi_parts impl1)[mi_part_no impl1 := no_part]\<rparr>;
           impl3 \<leftarrow> subparts (multipart_part n psize) psize k impl2;
           Some (0, impl3\<lparr>mi_level := mi_level impl3 - 1\<rparr>) })"

definition sspm_make_multipart_part :: "nat \<Rightarrow> nat \<Rightarrow> 'd mime_impl \<Rightarrow> (nat \<times> 'd mime_impl) option" where
  "sspm_make_multipart_part psize k impl = multipart_part (Suc (length (mi_parts impl))) psize k impl"

definition start_mime ::
    "sspm_part list \<Rightarrow> 'd sspm_action list \<Rightarrow> ('d \<Rightarrow> string option \<times> 'd) \<Rightarrow> string \<Rightarrow> 'd \<Rightarrow> 'd mime_impl" where
  "start_mime parts actions get_string name d =
     \<lparr>mi_parts = map (\<lambda>p. p\<lparr>p_header := (p_header p)\<lparr>h_major := SSPM_NO_MAJOR_TYPE, h_minor := SSPM_NO_MINOR_TYPE\<rparr>\<rparr>) parts,
      mi_part_no = 0, mi_level = 0, mi_actions = actions, mi_get_string = get_string, mi_data = d, mi_temp = [],
      mi_state = UNKNOWN_STATE, mi_name = name\<rparr>"

definition sspm_parse_mime ::
    "nat \<Rightarrow> sspm_part list \<Rightarrow> 'd sspm_action list \<Rightarrow> ('d \<Rightarrow> string option \<times> 'd) \<Rightarrow> string \<Rightarrow> 'd \<Rightarrow> 'd mime_impl option" where
  "sspm_parse_mime psize parts actions get_string name d = do {
     (h, impl1) \<leftarrow> sspm_read_header (start_mime parts actions get_string name d);
     if h_major h = SSPM_MULTIPART_MAJOR_TYPE then do {
       impl2 \<leftarrow> sspm_store_part h 0 0 impl1;
       map_option snd (sspm_make_multipart_part psize 0 impl2) }
     else do {
       (part, (h1, sz), impl2) \<leftarrow> sspm_make_part psize None h impl1;
       sspm_store_part h1 part sz impl2 } }"

section \<open>Writing\<close>

text \<open>The line of the encoding is made, but not written.\<close>

definition sspm_write_header :: "sspm_header \<Rightarrow> string option" where
  "sspm_write_header h = do {
     major \<leftarrow> sspm_major_type_string (h_major h);
     minor \<leftarrow> (if h_minor h = SSPM_UNKNOWN_MINOR_TYPE then h_minor_text h else Some (sspm_minor_type_string (h_minor h)));
     Some (take 1023 (''Content-Type: '' @ major @ ''/'' @ minor) @
           (case h_boundary h of None \<Rightarrow> []
            | Some b \<Rightarrow> take 1023 ('';boundary='' @ [CHR ''\"''] @ b @ [CHR ''\"''])) @
           (case h_content_type_params h of None \<Rightarrow> []
            | Some ps \<Rightarrow> concat (map (\<lambda>p. CHR '';'' # take 1023 p) (takeWhile (\<lambda>p. p \<noteq> []) ps))) @
           [LF, LF]) }"

text \<open>The data of a part is a text at an address.\<close>

definition sspm_write_part :: "(nat \<Rightarrow> string) \<Rightarrow> sspm_part \<Rightarrow> string option" where
  "sspm_write_part mem p = do {
     hd \<leftarrow> sspm_write_header (p_header p);
     if p_data p = 0 then Some hd
     else do {
       let enc = h_encoding (p_header p);
       s \<leftarrow> (if enc = SSPM_BASE64_ENCODING
             then (if p_data_size p \<noteq> 0 then sspm_encode_base64 (mem (p_data p)) else None)
             else Some (if enc = SSPM_QUOTED_PRINTABLE_ENCODING then sspm_encode_quoted_printable (mem (p_data p))
                        else mem (p_data p)));
       Some (hd @ s @ [LF, LF]) } }"

text \<open>
  The parts of the next level behind a part. The result has the index of the last of them. \<open>parts ! n\<close> must exist:
  the array ends with a part without a type.
\<close>

function write_children ::
    "nat \<Rightarrow> (nat \<Rightarrow> string) \<Rightarrow> sspm_part list \<Rightarrow> string option \<Rightarrow> int \<Rightarrow> nat \<Rightarrow> (string \<times> nat) option" where
  "write_children fuel mem parts boundary lvl n =
     (if fuel = 0 \<or> n \<ge> length parts then None
      else
        let p = parts ! n
        in if h_major (p_header p) \<noteq> SSPM_NO_MAJOR_TYPE \<and> p_level p = lvl then do {
             b \<leftarrow> boundary;
             (s, m) \<leftarrow> (if h_major (p_header p) = SSPM_MULTIPART_MAJOR_TYPE then do {
                 hd \<leftarrow> sspm_write_header (p_header p);
                 (body, k) \<leftarrow> write_children (fuel - 1) mem parts (h_boundary (p_header p)) (p_level p + 1) (n + 1);
                 c \<leftarrow> h_boundary (p_header p);
                 Some (hd @ body @ [LF, LF] @ ''--'' @ c @ [LF], k - 1) }
               else map_option (\<lambda>s. (s, n)) (sspm_write_part mem p));
             (r, k) \<leftarrow> write_children (fuel - 1) mem parts boundary lvl (m + 1);
             Some (b @ [LF] @ s @ r, k) }
           else Some ([], n))"
  by pat_completeness auto
termination
  by (relation "measure (\<lambda>(fuel, mem, parts, boundary, lvl, n). fuel)") auto

declare write_children.simps [simp del]

definition sspm_write_multipart_part :: "(nat \<Rightarrow> string) \<Rightarrow> sspm_part list \<Rightarrow> nat \<Rightarrow> (string \<times> nat) option" where
  "sspm_write_multipart_part mem parts n =
     (if n \<ge> length parts then None
      else do {
        let p = parts ! n;
        hd \<leftarrow> sspm_write_header (p_header p);
        (body, k) \<leftarrow> write_children (Suc (length parts)) mem parts (h_boundary (p_header p)) (p_level p + 1) (n + 1);
        c \<leftarrow> h_boundary (p_header p);
        Some (hd @ body @ [LF, LF] @ ''--'' @ c @ [LF], k - 1) })"

fun write_parts :: "nat \<Rightarrow> (nat \<Rightarrow> string) \<Rightarrow> sspm_part list \<Rightarrow> nat \<Rightarrow> string option" where
  "write_parts 0 mem parts n = None"
| "write_parts (Suc fuel) mem parts n =
     (if n \<ge> length parts then None
      else if h_major (p_header (parts ! n)) = SSPM_NO_MAJOR_TYPE then Some []
      else do {
        (s, m) \<leftarrow> (if h_major (p_header (parts ! n)) = SSPM_MULTIPART_MAJOR_TYPE
                   then sspm_write_multipart_part mem parts n
                   else map_option (\<lambda>s. (s, n)) (sspm_write_part mem (parts ! n)));
        r \<leftarrow> write_parts fuel mem parts (m + 1);
        Some (s @ r) })"

definition sspm_write_mime :: "(nat \<Rightarrow> string) \<Rightarrow> sspm_part list \<Rightarrow> string option \<Rightarrow> string option" where
  "sspm_write_mime mem parts header = do {
     let h = (case header of None \<Rightarrow> [] | Some s \<Rightarrow> if s \<noteq> [] \<and> last s \<noteq> LF then s @ [LF] else s);
     body \<leftarrow> write_parts (Suc (length parts)) mem parts 0;
     Some (h @ ''Mime-Version: 1.0'' @ [LF] @ body) }"

end
