(* ===== verification/SspmCodecLaws.thy ===== *)
theory SspmCodecLaws
  imports SspmCodec
begin

text \<open>
  What the encodings of MIME do to a text: the letters of a group give its bytes back, the base64 of a text is
  the groups of its bytes but for a last full group, and quoted-printable gives back a line of ASCII.
\<close>

section \<open>One group of base64\<close>

lemma base64_table: "map base64_value BaseTable = map (\<lambda>n. Some (of_nat n :: byte)) [0..<64]"
  by (simp add: BaseTable_def base64_value_def upt_conv_Cons)

lemma base64_table_nth: "n < 64 \<Longrightarrow> base64_value (BaseTable ! n) = Some (of_nat n :: byte)"
proof -
  assume n: "n < 64"
  have "length BaseTable = 64" by (simp add: BaseTable_def)
  with n have "base64_value (BaseTable ! n) = map base64_value BaseTable ! n" by simp
  also have "\<dots> = Some (of_nat n)" unfolding base64_table using n by simp
  finally show ?thesis .
qed

lemma unat_less_64: "unat (x :: byte) < 64 \<Longrightarrow> x \<noteq> 65"
  by auto

lemma base64_value_letter [simp]: "unat x < 64 \<Longrightarrow> base64_value (base64_letter x) = Some x"
  by (simp add: base64_letter_def unat_less_64 base64_table_nth)

lemma base64_value_equals [simp]: "base64_value (CHR ''='') = None"
  by (simp add: base64_value_def)

lemma base64_letter_65 [simp]: "base64_letter 65 = CHR ''=''"
  by (simp add: base64_letter_def)

lemma byte_bits: "n < 8 \<Longrightarrow> n = 0 \<or> n = 1 \<or> n = 2 \<or> n = 3 \<or> n = 4 \<or> n = 5 \<or> n = 6 \<or> n = (7 :: nat)"
  by arith

lemma byte_eqI:
  assumes "bit x 0 = bit y 0" "bit x 1 = bit y 1" "bit x 2 = bit y 2" "bit x 3 = bit y 3"
    "bit x 4 = bit y 4" "bit x 5 = bit y 5" "bit x 6 = bit y 6" "bit x 7 = bit y 7"
  shows "(x :: byte) = y"
  by (rule bit_word_eqI) (use assms in \<open>auto dest!: byte_bits\<close>)

lemma byte_below_64:
  assumes "\<not> bit x 6" "\<not> bit (x :: byte) 7"
  shows "unat x < 64"
proof -
  have "take_bit 6 x = x"
    by (rule byte_eqI) (use assms in \<open>simp_all add: bit_take_bit_iff\<close>)
  then have "unat x = take_bit 6 (unat x)" by (metis unsigned_take_bit_eq)
  also have "\<dots> < 2 ^ 6" by (rule take_bit_nat_less_exp)
  finally show ?thesis by simp
qed

unbundle bit_operations_syntax

text \<open>The four numbers of three bytes.\<close>

definition sextets :: "byte3 \<Rightarrow> byte list" where
  "sextets b = (case b of (x, y, z) \<Rightarrow>
     [drop_bit 2 (x AND 0xFC), push_bit 4 (x AND 0x03) OR drop_bit 4 (y AND 0xF0),
      push_bit 2 (y AND 0x0F) OR drop_bit 6 (z AND 0xC0), z AND 0x3F])"

lemma sextets_below: "s \<in> set (sextets b) \<Longrightarrow> unat s < 64"
  by (cases b) (auto simp: sextets_def bit_simps intro!: byte_below_64)

lemma sextets_bytes: "base64_bytes (sextets (x, y, z)) = map char_of_byte [x, y, z]"
proof -
  have "push_bit 2 (drop_bit 2 (x AND 0xFC)) OR
      drop_bit 4 ((push_bit 4 (x AND 0x03) OR drop_bit 4 (y AND 0xF0)) AND 0x30) = x"
    by (rule byte_eqI) (simp_all add: bit_simps)
  moreover have "push_bit 4 ((push_bit 4 (x AND 0x03) OR drop_bit 4 (y AND 0xF0)) AND 0x0F) OR
      drop_bit 2 ((push_bit 2 (y AND 0x0F) OR drop_bit 6 (z AND 0xC0)) AND 0x3C) = y"
    by (rule byte_eqI) (simp_all add: bit_simps)
  moreover have "push_bit 6 ((push_bit 2 (y AND 0x0F) OR drop_bit 6 (z AND 0xC0)) AND 0x03) OR (z AND 0x3F AND 0x3F) = z"
    by (rule byte_eqI) (simp_all add: bit_simps)
  ultimately show ?thesis by (simp only: sextets_def base64_bytes_def) simp
qed

section \<open>The groups of a text\<close>

definition letters :: "byte list \<Rightarrow> string" where "letters = map base64_letter"

text \<open>The letters that follow when a group is full and the text is what is behind it: a last full group is lost.\<close>

fun groups :: "byte3 \<Rightarrow> string \<Rightarrow> string" where
  "groups b [] = []"
| "groups b [x] = letters (sextets b) @ letters (take 2 (sextets (byte_of x, 0, 0))) @ ''==''"
| "groups b [x, y] = letters (sextets b) @ letters (take 3 (sextets (byte_of x, byte_of y, 0))) @ ''=''"
| "groups b (x # y # z # r) = letters (sextets b) @ groups (byte_of x, byte_of y, byte_of z) r"

lemma write_group [simp]:
  "sspm_write_base64 b 4 = Some (letters (sextets b))"
  "sspm_write_base64 (x, y, z) 2 = Some (letters (take 2 (sextets (x, y, z))) @ ''=='')"
  "sspm_write_base64 (x, y, z) 3 = Some (letters (take 3 (sextets (x, y, z))) @ ''='')"
  by (cases b; simp add: sspm_write_base64_def sextets_def letters_def)+

definition finish_base64 :: "nat \<times> bool \<times> byte3 \<times> string \<Rightarrow> string option" where
  "finish_base64 s = (case s of (i, first, inbuf, out) \<Rightarrow>
     if i mod 3 = 1 \<and> \<not> first then map_option (\<lambda>s. out @ s) (sspm_write_base64 inbuf 2)
     else if i mod 3 = 2 \<and> \<not> first then map_option (\<lambda>s. out @ s) (sspm_write_base64 inbuf 3)
     else Some out)"

lemma encode_finish:
  "sspm_encode_base64 data = Option.bind (encode_base64_loop data 0 True 0 (0, 0, 0) []) finish_base64"
  unfolding sspm_encode_base64_def
  by (rule arg_cong [where f = "Option.bind _"]) (auto simp: fun_eq_iff finish_base64_def)

lemma mod3_steps:
  assumes "i mod 3 = (0 :: nat)"
  shows "Suc i mod 3 = 1" "Suc (Suc i) mod 3 = 2" "Suc (Suc (Suc i)) mod 3 = 0"
  using assms by presburger+

text \<open>The loop with a full group.\<close>

lemma encode_groups:
  assumes "i mod 3 = 0" "lpos mod 4 = 0" "lpos + 4 * ((length data + 2) div 3) < 72"
  shows "Option.bind (encode_base64_loop data i False lpos b out) finish_base64 = Some (out @ groups b data)"
  using assms
proof (induction b data arbitrary: i lpos out rule: groups.induct)
  case (1 b)
  then show ?case by (simp add: finish_base64_def)
next
  case (2 b x)
  from 2 mod3_steps [OF 2(1)] show ?case by (simp add: finish_base64_def set_byte_def)
next
  case (3 b x y)
  from 3 mod3_steps [OF 3(1)] show ?case by (simp add: finish_base64_def set_byte_def)
next
  case (4 b x y z r)
  have l: "(length (x # y # z # r) + 2) div 3 = (length r + 2) div 3 + 1" by simp
  have "lpos + 4 + 4 * ((length r + 2) div 3) < 72" using 4(4) unfolding l by simp
  moreover have "(lpos + 4) mod 4 = 0" using 4(3) by simp
  moreover note m = mod3_steps [OF 4(2)]
  ultimately have ih: "Option.bind (encode_base64_loop r (Suc (Suc (Suc i))) False (lpos + 4) (byte_of x, byte_of y, byte_of z)
      (out @ letters (sextets b))) finish_base64 =
      Some ((out @ letters (sextets b)) @ groups (byte_of x, byte_of y, byte_of z) r)"
    by (intro 4(1)) simp_all
  have "lpos + 4 \<noteq> 72" using 4(4) by simp
  then show ?case using ih m 4(2,3) by (simp add: set_byte_def)
qed

text \<open>The text of a line.\<close>

fun base64_line :: "string \<Rightarrow> string" where
  "base64_line [] = []"
| "base64_line [x] = letters (take 2 (sextets (byte_of x, 0, 0))) @ ''==''"
| "base64_line [x, y] = letters (take 3 (sextets (byte_of x, byte_of y, 0))) @ ''=''"
| "base64_line (x # y # z # r) = groups (byte_of x, byte_of y, byte_of z) r"

lemma encode_line:
  assumes "length data \<le> 54"
  shows "sspm_encode_base64 data = Some (base64_line data)"
  using assms
  by (cases data rule: base64_line.cases)
     (auto simp: encode_finish set_byte_def encode_groups finish_base64_def)

section \<open>Decoding\<close>

lemma decode_letter:
  assumes "unat x < 64" "p < sz"
  shows "decode_base64_loop sz (base64_letter x # cs) p buf n dest =
    (if p mod 4 = 3 then decode_base64_loop sz cs (p + 1) [0, 0, 0, 0] (n + 1) (dest @ base64_bytes (buf[3 := x]))
     else decode_base64_loop sz cs (p + 1) (buf[p mod 4 := x]) (n + 1) dest)"
  using assms by simp

lemma char_of_byte_of [simp]: "char_of_byte (byte_of c) = c"
proof -
  have "(of_char c :: nat) < 256" by (metis of_char_of char_of_char mod_less_divisor zero_less_numeral)
  then show ?thesis by (simp add: char_of_byte_def byte_of_def unat_of_nat)
qed

lemma decode_group:
  assumes "p mod 4 = 0" "p + 4 \<le> sz"
  shows "decode_base64_loop sz (letters (sextets (x, y, z)) @ cs) p [0, 0, 0, 0] n dest =
    decode_base64_loop sz cs (p + 4) [0, 0, 0, 0] (n + 4) (dest @ map char_of_byte [x, y, z])"
proof -
  have m: "(p + 1) mod 4 = 1" "(p + 2) mod 4 = 2" "(p + 3) mod 4 = 3" using assms(1) by presburger+
  have l: "p < sz" "p + 1 < sz" "p + 2 < sz" "p + 3 < sz" using assms(2) by simp_all
  obtain s0 s1 s2 s3 where s: "sextets (x, y, z) = [s0, s1, s2, s3]" by (simp add: sextets_def)
  have b: "unat s0 < 64" "unat s1 < 64" "unat s2 < 64" "unat s3 < 64"
    using sextets_below [of _ "(x, y, z)"] s by auto
  let ?c = base64_letter
  have "decode_base64_loop sz (?c s0 # ?c s1 # ?c s2 # ?c s3 # cs) p [0, 0, 0, 0] n dest =
      decode_base64_loop sz (?c s1 # ?c s2 # ?c s3 # cs) (p + 1) [s0, 0, 0, 0] (n + 1) dest"
    unfolding decode_letter [OF b(1) l(1)] using assms(1) by simp
  also have "\<dots> = decode_base64_loop sz (?c s2 # ?c s3 # cs) (p + 2) [s0, s1, 0, 0] (n + 2) dest"
    unfolding decode_letter [OF b(2) l(2)] m by simp
  also have "\<dots> = decode_base64_loop sz (?c s3 # cs) (p + 3) [s0, s1, s2, 0] (n + 3) dest"
    unfolding decode_letter [OF b(3) l(3)] m by (simp add: numeral_2_eq_2 numeral_3_eq_3)
  also have "\<dots> = decode_base64_loop sz cs (p + 4) [0, 0, 0, 0] (n + 4) (dest @ base64_bytes [s0, s1, s2, s3])"
    unfolding decode_letter [OF b(4) l(4)] m by (simp add: numeral_3_eq_3 numeral_eq_Suc)
  finally show ?thesis using sextets_bytes [of x y z] by (simp add: s letters_def)
qed

lemma decode_two:
  assumes "p mod 4 = 0" "p + 2 < sz"
  shows "decode_base64_loop sz (letters (take 2 (sextets (x, 0, 0))) @ ''=='') p [0, 0, 0, 0] n dest =
    Some (n + 2, dest @ map char_of_byte [x, 0, 0])"
proof -
  have m: "(p + 1) mod 4 = 1" "(p + 2) mod 4 = 2" using assms(1) by presburger+
  have l: "p < sz" "p + 1 < sz" "p + 2 < sz" using assms(2) by simp_all
  obtain s0 s1 where s: "sextets (x, 0, 0) = [s0, s1, 0, 0]" by (simp add: sextets_def)
  have b: "unat s0 < 64" "unat s1 < 64" using sextets_below [of _ "(x, 0, 0)"] s by auto
  let ?c = base64_letter
  have "decode_base64_loop sz (?c s0 # ?c s1 # ''=='') p [0, 0, 0, 0] n dest =
      decode_base64_loop sz (?c s1 # ''=='') (p + 1) [s0, 0, 0, 0] (n + 1) dest"
    unfolding decode_letter [OF b(1) l(1)] using assms(1) by simp
  also have "\<dots> = decode_base64_loop sz ''=='' (p + 2) [s0, s1, 0, 0] (n + 2) dest"
    unfolding decode_letter [OF b(2) l(2)] m by simp
  also have "\<dots> = Some (n + 2, dest @ base64_bytes [s0, s1, 0, 0])"
    using l(3) m(2) by simp
  finally show ?thesis using sextets_bytes [of x 0 0] by (simp add: s letters_def numeral_2_eq_2)
qed

lemma decode_three:
  assumes "p mod 4 = 0" "p + 3 < sz"
  shows "decode_base64_loop sz (letters (take 3 (sextets (x, y, 0))) @ ''='') p [0, 0, 0, 0] n dest =
    Some (n + 3, dest @ map char_of_byte [x, y, 0])"
proof -
  have m: "(p + 1) mod 4 = 1" "(p + 2) mod 4 = 2" "(p + 3) mod 4 = 3" using assms(1) by presburger+
  have l: "p < sz" "p + 1 < sz" "p + 2 < sz" "p + 3 < sz" using assms(2) by simp_all
  obtain s0 s1 s2 where s: "sextets (x, y, 0) = [s0, s1, s2, 0]" by (simp add: sextets_def)
  have b: "unat s0 < 64" "unat s1 < 64" "unat s2 < 64" using sextets_below [of _ "(x, y, 0)"] s by auto
  let ?c = base64_letter
  have "decode_base64_loop sz (?c s0 # ?c s1 # ?c s2 # ''='') p [0, 0, 0, 0] n dest =
      decode_base64_loop sz (?c s1 # ?c s2 # ''='') (p + 1) [s0, 0, 0, 0] (n + 1) dest"
    unfolding decode_letter [OF b(1) l(1)] using assms(1) by simp
  also have "\<dots> = decode_base64_loop sz (?c s2 # ''='') (p + 2) [s0, s1, 0, 0] (n + 2) dest"
    unfolding decode_letter [OF b(2) l(2)] m by simp
  also have "\<dots> = decode_base64_loop sz ''='' (p + 3) [s0, s1, s2, 0] (n + 3) dest"
    unfolding decode_letter [OF b(3) l(3)] m by (simp add: numeral_2_eq_2 numeral_3_eq_3)
  also have "\<dots> = Some (n + 3, dest @ base64_bytes [s0, s1, s2, 0])"
    using l(4) m(3) by simp
  finally show ?thesis using sextets_bytes [of x y 0] by (simp add: s letters_def numeral_3_eq_3)
qed

section \<open>Base64 and back\<close>

text \<open>How much of a text is left: a last full group is lost.\<close>

definition kept :: "nat \<Rightarrow> nat" where
  "kept n = (if n mod 3 = 0 then n - 3 else n)"

definition decoded_size :: "nat \<Rightarrow> nat" where
  "decoded_size n = n div 4 * 3 + (if n mod 4 = 2 then 1 else if n mod 4 = 3 then 2 else 0)"

lemma decoded_size_add:
  assumes "n mod 4 = 0"
  shows "decoded_size (n + 2) = decoded_size n + 1" "decoded_size (n + 3) = decoded_size n + 2"
    "decoded_size (n + 4) = decoded_size n + 3" "(n + 4) mod 4 = 0"
proof -
  have m: "(n + 2) mod 4 = 2" "(n + 3) mod 4 = 3" and d: "(n + 2) div 4 = n div 4" "(n + 3) div 4 = n div 4"
    using assms by presburger+
  show "decoded_size (n + 2) = decoded_size n + 1" "decoded_size (n + 3) = decoded_size n + 2"
    unfolding decoded_size_def m d using assms by simp_all
  show "decoded_size (n + 4) = decoded_size n + 3" "(n + 4) mod 4 = 0"
    using assms by (simp_all add: decoded_size_def)
qed

lemma letters_length [simp]: "length (letters xs) = length xs" "length (sextets b) = 4"
  by (cases b; simp add: letters_def sextets_def)+

lemma kept_step: "0 < n \<Longrightarrow> kept (n + 3) = kept n + 3"
  by (auto simp: kept_def)

lemma decode_groups:
  assumes "p mod 4 = 0" "n mod 4 = 0" "p + length (groups b data) \<le> sz"
  shows "\<exists>n' junk. decode_base64_loop sz (groups b data) p [0, 0, 0, 0] n dest =
      Some (n', dest @ take (kept (3 + length data)) ((case b of (x, y, z) \<Rightarrow> map char_of_byte [x, y, z]) @ data) @ junk) \<and>
    decoded_size n' = decoded_size n + kept (3 + length data)"
  using assms
proof (induction b data arbitrary: p n dest rule: groups.induct)
  case (1 b)
  then show ?case by (simp add: kept_def)
next
  case (2 b x)
  obtain b0 b1 b2 where b: "b = (b0, b1, b2)" by (cases b)
  from 2 have "(p + 4) mod 4 = 0" "p + 4 \<le> sz" "p + 4 + 2 < sz" by simp_all
  with 2 decoded_size_add [OF 2(2)] decoded_size_add(1) [OF decoded_size_add(4) [OF 2(2)]] show ?case
    by (simp add: b decode_group decode_two kept_def)
next
  case (3 b x y)
  obtain b0 b1 b2 where b: "b = (b0, b1, b2)" by (cases b)
  from 3 have "(p + 4) mod 4 = 0" "p + 4 \<le> sz" "p + 4 + 3 < sz" by simp_all
  with 3 decoded_size_add [OF 3(2)] decoded_size_add(2) [OF decoded_size_add(4) [OF 3(2)]] show ?case
    by (simp add: b decode_group decode_three kept_def)
next
  case (4 b x y z r)
  obtain b0 b1 b2 where b: "b = (b0, b1, b2)" by (cases b)
  have p: "(p + 4) mod 4 = 0" "p + 4 \<le> sz" "p + 4 + length (groups (byte_of x, byte_of y, byte_of z) r) \<le> sz"
    using 4(2,4) by simp_all
  obtain n' junk where ih: "decode_base64_loop sz (groups (byte_of x, byte_of y, byte_of z) r) (p + 4) [0, 0, 0, 0] (n + 4)
      (dest @ map char_of_byte [b0, b1, b2]) =
      Some (n', (dest @ map char_of_byte [b0, b1, b2]) @ take (kept (3 + length r)) ([x, y, z] @ r) @ junk)"
    and sz: "decoded_size n' = decoded_size (n + 4) + kept (3 + length r)"
    using 4(1) [OF p(1) decoded_size_add(4) [OF 4(3)] p(3), of "dest @ map char_of_byte [b0, b1, b2]"] by auto
  have k: "kept (3 + length (x # y # z # r)) = kept (3 + length r) + 3"
    using kept_step [of "3 + length r"] by (simp add: add.commute)
  show ?case
    unfolding k using ih sz decoded_size_add(3) [OF 4(3)] decode_group [OF 4(2) p(2)]
    by (auto simp: b numeral_3_eq_3 intro: exI [of _ junk])
qed

lemma base64_of_line:
  assumes "length data \<le> 54"
  shows "\<exists>txt bytes. sspm_encode_base64 data = Some txt \<and>
    decode_base64 txt (length txt) = Some (bytes, kept (length data)) \<and>
    take (kept (length data)) bytes = take (kept (length data)) data"
proof -
  have sz: "map_option (\<lambda>(n, dest). (dest, n div 4 * 3 + (if n mod 4 = 2 then 1 else if n mod 4 = 3 then 2 else 0))) =
      map_option (\<lambda>(n, dest). (dest, decoded_size n))"
    by (simp add: decoded_size_def)
  have "\<exists>n' junk. decode_base64_loop (length (base64_line data)) (base64_line data) 0 [0, 0, 0, 0] 0 [] =
      Some (n', take (kept (length data)) data @ junk) \<and> decoded_size n' = kept (length data)"
  proof (cases data rule: base64_line.cases)
    case 1
    then show ?thesis by (simp add: kept_def decoded_size_def)
  next
    case (2 x)
    then show ?thesis
      using decode_two [of 0 4 "byte_of x" 0 "[]"] by (simp add: kept_def decoded_size_def)
  next
    case (3 x y)
    then show ?thesis
      using decode_three [of 0 4 "byte_of x" "byte_of y" 0 "[]"] by (simp add: kept_def decoded_size_def)
  next
    case (4 x y z r)
    then show ?thesis
      using decode_groups [of 0 0 "(byte_of x, byte_of y, byte_of z)" r "length (base64_line data)" "[]"]
      by (simp add: decoded_size_def numeral_3_eq_3)
  qed
  moreover have "kept (length data) \<le> length data" by (simp add: kept_def)
  ultimately show ?thesis
    unfolding decode_base64_def sz encode_line [OF assms] by (auto simp: min_def)
qed

section \<open>Quoted-printable and back\<close>

lemma hex_table: "map (\<lambda>k. hex_value (hex_digit k)) [0..<16] = map int [0..<16]"
  by (simp add: hex_value_def hex_digit_def is_digit_def upt_conv_Cons)

lemma hex_value_digit: "k < 16 \<Longrightarrow> hex_value (hex_digit k) = int k"
  using arg_cong [OF hex_table, of "\<lambda>xs. xs ! k"] by simp

lemma hex_digit_no_break: "k < 16 \<Longrightarrow> hex_digit k \<noteq> LF \<and> hex_digit k \<noteq> CR"
  using hex_value_digit [of k] by (auto simp: hex_value_def is_digit_def LF_def CR_def)

lemma hex_pair:
  assumes "k < 256"
  shows "(hex_value (hex_digit (k div 16)) * 16 + hex_value (hex_digit (k mod 16))) mod 256 = int k"
proof -
  have "hex_value (hex_digit (k div 16)) * 16 + hex_value (hex_digit (k mod 16)) = int (k div 16 * 16 + k mod 16)"
    using assms by (simp add: hex_value_digit zdiv_int zmod_int del: div_mult_mod_eq)
  then show ?thesis using assms by simp
qed

text \<open>A character of ASCII that is no line break.\<close>

definition qp_char :: "char \<Rightarrow> bool" where
  "qp_char c \<longleftrightarrow> (of_char c :: nat) < 128 \<and> c \<noteq> LF \<and> c \<noteq> CR"

lemma decode_qp_plain: "c \<noteq> CHR ''='' \<Longrightarrow> i < sz \<Longrightarrow> decode_qp sz (c # s) i = c # decode_qp sz s (i + 1)"
  by (subst decode_qp.simps) simp

lemma decode_qp_hex:
  assumes "(of_char c :: nat) < 128" "i < sz"
  shows "decode_qp sz (sspm_append_hex c @ s) i = c # decode_qp sz s (i + 1)"
proof -
  let ?k = "of_char c :: nat"
  have k: "?k div 16 < 16" "?k mod 16 < 16" "?k < 256" using assms(1) by simp_all
  show ?thesis
    using assms hex_digit_no_break [OF k(1)] hex_pair [OF k(3)]
    by (subst decode_qp.simps) (simp add: sspm_append_hex_def Let_def)
qed

lemma decode_qp_soft:
  assumes "i < sz" "s = [] \<or> (hd s \<noteq> LF \<and> hd s \<noteq> CR)"
  shows "decode_qp sz (CHR ''='' # LF # s) i = decode_qp sz s i"
  using assms by (subst decode_qp.simps) auto

lemma encode_qp_char_cases:
  assumes "n \<noteq> LF" "n \<noteq> CR" "c \<noteq> LF" "c \<noteq> CR"
  shows "(encode_qp_char c n = [c] \<and> c \<noteq> CHR ''='') \<or> encode_qp_char c n = sspm_append_hex c"
proof -
  have t: "TAB \<noteq> CHR ''=''" by (simp add: char_codes)
  consider "sspm_is_printable c" | "\<not> sspm_is_printable c" "c = TAB" | "\<not> sspm_is_printable c" "c = CHR '' ''"
    | "\<not> sspm_is_printable c" "c \<noteq> TAB" "c \<noteq> CHR '' ''" by metis
  then show ?thesis
  proof cases
    case 1
    then have "c \<noteq> CHR ''=''" by (simp add: sspm_is_printable_def)
    with 1 show ?thesis by (simp add: encode_qp_char_def)
  qed (use assms t in \<open>simp_all add: encode_qp_char_def\<close>)
qed

lemma qp_char_head:
  assumes "list_all qp_char cs"
  shows "(case cs of [] \<Rightarrow> NUL | n # _ \<Rightarrow> n) \<noteq> LF \<and> (case cs of [] \<Rightarrow> NUL | n # _ \<Rightarrow> n) \<noteq> CR"
proof (cases cs)
  case Nil
  have "NUL \<noteq> LF" "NUL \<noteq> CR" by (simp_all add: char_codes NUL_def)
  then show ?thesis by (simp add: Nil)
next
  case (Cons c r)
  then show ?thesis using assms by (simp add: qp_char_def)
qed

lemma encode_qp_char_hd:
  assumes "n \<noteq> LF" "n \<noteq> CR" "c \<noteq> LF" "c \<noteq> CR"
  shows "\<exists>x r. encode_qp_char c n = x # r \<and> x \<noteq> LF \<and> x \<noteq> CR"
  using encode_qp_char_cases [OF assms] assms(3,4)
  by (auto simp: sspm_append_hex_def Let_def char_codes)

lemma encode_qp_hd:
  assumes "list_all qp_char cs"
  shows "encode_qp cs l = [] \<or> (hd (encode_qp cs l) \<noteq> LF \<and> hd (encode_qp cs l) \<noteq> CR)"
proof (cases cs)
  case (Cons c r)
  define n where "n = (case r of [] \<Rightarrow> NUL | n # _ \<Rightarrow> n)"
  obtain x t where "encode_qp_char c n = x # t" "x \<noteq> LF" "x \<noteq> CR"
    using encode_qp_char_hd [of n c] assms qp_char_head [of r] by (auto simp: Cons n_def qp_char_def)
  then show ?thesis by (simp add: Cons Let_def n_def [symmetric])
qed simp

lemma decode_encode_qp:
  assumes "list_all qp_char data" "i + length (encode_qp data lpos) \<le> sz"
  shows "decode_qp sz (encode_qp data lpos) i = data"
  using assms
proof (induction data arbitrary: i lpos)
  case Nil
  then show ?case by (simp add: decode_qp.simps)
next
  case (Cons c cs)
  define n where "n = (case cs of [] \<Rightarrow> NUL | n # _ \<Rightarrow> n)"
  define s where "s = encode_qp_char c n"
  have q: "qp_char c" "list_all qp_char cs" "n \<noteq> LF" "n \<noteq> CR"
    using Cons.prems(1) qp_char_head [of cs] by (auto simp: n_def)
  have two: "(encode_qp_char c n = [c] \<and> c \<noteq> CHR ''='') \<or> encode_qp_char c n = sspm_append_hex c"
    using encode_qp_char_cases [OF q(3,4)] q(1) by (simp add: qp_char_def)
  have one: "decode_qp sz (s @ t) i = c # decode_qp sz t (i + 1)" if "i < sz" for t
    using that q(1) two by (auto simp: s_def qp_char_def decode_qp_plain decode_qp_hex)
  have len: "1 \<le> length s"
    using two by (auto simp: s_def sspm_append_hex_def Let_def)
  let ?l = "lpos + length s"
  have enc: "encode_qp (c # cs) lpos =
      (if ?l > 72 then s @ [CHR ''='', LF] @ encode_qp cs 0 else s @ encode_qp cs ?l)"
    using q(1) by (simp add: s_def n_def Let_def qp_char_def)
  show ?case
  proof (cases "?l > 72")
    case True
    with Cons.prems(2) len have b: "i < sz" "i + 1 < sz" "i + 1 + length (encode_qp cs 0) \<le> sz" by (auto simp: enc simp del: encode_qp.simps)
    then show ?thesis
      using True one Cons.IH [OF q(2) b(3)] decode_qp_soft [OF b(2) encode_qp_hd [OF q(2)], of 0]
      by (simp add: enc del: encode_qp.simps)
  next
    case False
    with Cons.prems(2) len have b: "i < sz" "i + 1 + length (encode_qp cs ?l) \<le> sz" by (auto simp: enc simp del: encode_qp.simps)
    then show ?thesis using False one Cons.IH [OF q(2) b(2)] by (simp add: enc del: encode_qp.simps)
  qed
qed

end
