(* ===== verification/Spec2Isabelle.thy ===== *)
theory Spec2Isabelle
  imports StoreProperties TimeProperties DurationProperties RecurProperties TextProperties ValueProperties TreeProperties IcalParse
    ZoneProperties CompRecur CompMerge IcalRestriction IcalClassify IcalMessage IcalSpanlist IcalGauge IcalLangbind
    TzBuiltin Sspm SspmCodecLaws
begin

text \<open>
  A verification library for the iCalendar core of this repository: the C library
  \<^verbatim>\<open>libical\<close> (\<^verbatim>\<open>src/Support Libs/libical-0.44/src/libical\<close>, and parts of \<^verbatim>\<open>libicalss\<close> next to it), which
  the reader application calls to open a calendar file and to show its events in local time.

  How the program works. The parser reads content lines from a text, takes each line apart and adds
  properties with parameters and values to a stack of open components. The objects point to each other and
  keep their parts in doubly linked lists with one iterator each. Values are times, durations, periods,
  recurrence rules, texts and so on; the calendar keeps its VTIMEZONE components as zones, which are
  expanded into sorted tables of changes when an offset is asked for. The occurrences of an event come
  from the iterators of its rules. Errors go to an error number, or abort if the state of the error says so.

  \<^bold>\<open>Basic parts.\<close> The prelude (\<open>Prelude\<close>, \<open>CText\<close>, \<open>Compare\<close>) holds the arithmetic of C, \<^verbatim>\<open>printf\<close> and
  \<^verbatim>\<open>scanf\<close> on the formats used, and the contract of comparison functions with \<^verbatim>\<open>qsort\<close>.
  \<open>Pvl\<close>, \<open>PvlSeq\<close>: \<^verbatim>\<open>pvl.c\<close>, doubly linked lists over a heap of elements, and the lists of items they stand for.
  \<open>IcalArray\<close>: \<^verbatim>\<open>icalarray.c\<close>. \<open>IcalMemory\<close>: \<^verbatim>\<open>icalmemory.c\<close>, growing text buffers and the
  ring of temporary buffers. \<open>IcalError\<close>: \<^verbatim>\<open>icalerror.c\<close>. Their properties are in \<open>StoreProperties\<close>.

  \<^bold>\<open>Time.\<close> \<open>CalDate\<close>: \<^verbatim>\<open>caldate.c\<close>. \<open>TimeBase\<close>, \<open>TimeDays\<close>: the calendar of \<^verbatim>\<open>icaltime.c\<close> and its
  normalising adjustment. \<open>IcalTimezone\<close>, \<open>TzLookup\<close>: the conversions of \<^verbatim>\<open>icaltimezone.c\<close> with a table of
  changes. \<open>LibcTime\<close>, \<open>IcalTime\<close>, \<open>TimeLaws\<close>: seconds, text, comparison and spans of \<^verbatim>\<open>icaltime.c\<close>. Their
  properties are in \<open>TimeProperties\<close>. \<open>IcalDuration\<close>, \<open>DurationLaws\<close>: \<^verbatim>\<open>icalduration.c\<close>, amounts of time and
  their text; \<open>IcalPeriod\<close>: \<^verbatim>\<open>icalperiod.c\<close>; their properties are in \<open>DurationProperties\<close>.
  \<open>TzExpand\<close>, \<open>TzExpandLaws\<close>: the expansion of a VTIMEZONE into its table of changes, and which table
  that is for parts without rules; \<open>ZoneProperties\<close> joins it with the look-up. \<open>TzBuiltin\<close>: the zones of the
  system, whose files are an argument.

  \<^bold>\<open>Recurrence.\<close> \<open>IcalRecur\<close>: the rules of \<^verbatim>\<open>icalrecur.c\<close>, their parser and printer. \<open>RecurIter\<close>,
  \<open>RecurYear\<close>, \<open>RecurNext\<close>: the iterator over the occurrences of a rule, by frequency: the
  carries and the steps up to the week and month, the days of a year and the creation of
  an iterator, the loop for the next occurrence. \<open>RecurText\<close>, \<open>RecurRoundTrip\<close> show that printing and parsing
  are inverse; \<open>RecurStart\<close> which rules get an iterator; \<open>RecurSteps\<close>, \<open>RecurPlain\<close> which times plain rules
  give; \<open>RecurSound\<close> what every time that is given satisfies and why a call gives none; \<open>RecurWeekday\<close> that the
  arithmetic for weekdays and the days of a year by weekday are right. Their properties are in \<open>RecurProperties\<close>.

  \<^bold>\<open>Lines.\<close> \<open>IcalLine\<close>: the reader of content lines in \<^verbatim>\<open>icalparser.c\<close> with its buffer of 80 bytes, and the
  folding of long lines in \<^verbatim>\<open>icalproperty.c\<close>; \<open>LineLaws\<close> shows that the reader is unfolding of
  the whole text, wherever the buffer cuts it, and undoes the folding. \<open>IcalScan\<close>: the routines that
  take a line apart. Their properties are in \<open>TextProperties\<close>.

  \<^bold>\<open>Values.\<close> \<open>IcalKinds\<close>: the tables of \<^verbatim>\<open>icalderivedproperty.c\<close>, \<^verbatim>\<open>icalderivedparameter.c\<close>,
  \<^verbatim>\<open>icalderivedvalue.c\<close> and \<^verbatim>\<open>icalcomponent.c\<close> that name the kinds of components, properties,
  parameters, values and enumerated values, and their look-ups; \<open>PropEnums\<close>: the numbers of enumerated values that
  later code tests. \<open>IcalTypes\<close>: triggers and request states. \<open>CFloat\<close>: single precision numbers with their text.
  \<open>IcalValue\<close>: the object of \<^verbatim>\<open>icalvalue.c\<close> with its constructors, setters and getters, and the attachments it
  shares. \<open>ValueText\<close>: printing, parsing and comparing values of every kind. \<open>ValueLaws\<close> and
  \<open>ValueRoundTrip\<close> show that the text of a value is read back. The properties of
  values are in \<open>ValueProperties\<close>: the round trip, the types of values that are read, and the
  reference counts of attachments.

  \<^bold>\<open>Objects.\<close> \<open>IcalObject\<close>: the store of values, parameters, properties and components, a map from addresses, with
  the error state and the attachments. \<open>ParamAccess\<close>, \<open>PropAccess\<close>: the accessors of \<^verbatim>\<open>icalderivedparameter.c\<close> and
  \<^verbatim>\<open>icalderivedproperty.c\<close>. \<open>IcalProperty\<close>, \<open>IcalComponent\<close>: \<^verbatim>\<open>icalproperty.c\<close>, \<^verbatim>\<open>icalparameter.c\<close> and the core of
  \<^verbatim>\<open>icalcomponent.c\<close>: lists, iterators, adding, removing, freeing, copying, printing, errors, and the zones a calendar
  keeps. \<open>IcalParse\<close>: the parser with its stack. \<open>CompAccess\<close>, \<open>CompRecur\<close>, \<open>CompMerge\<close>: the rest of
  \<^verbatim>\<open>icalcomponent.c\<close>: accessors of an event, spans and occurrences, merging of calendars.

  \<^bold>\<open>Objects as trees.\<close> \<open>ListLaws\<close>: the lists of objects as lists of addresses with cursors. \<open>TreeRep\<close>: which tree a
  component of the store holds, and that states that differ in iterators and the error number hold the same
  trees. Over it the operations of the store are functions of trees: \<open>TreePrint\<close> (the text), \<open>TreeOps\<close>
  (adding, removing, counting, walking), \<open>TreeZones\<close> (adding a time zone), \<open>TreeClone\<close> (copying), \<open>TreeFree\<close>
  (freeing) and \<open>TreeErrors\<close> (error properties). Their properties are in \<open>TreeProperties\<close>.

  \<^bold>\<open>Around them.\<close> \<open>IcalRestriction\<close>: \<^verbatim>\<open>icalrestriction.c\<close>. \<open>IcalClassify\<close>, \<open>IcalMessage\<close>, \<open>IcalSpanlist\<close>,
  \<open>IcalGauge\<close>: the files of \<^verbatim>\<open>libicalss\<close> that classify messages, make replies, list busy time and select
  components. \<open>IcalLangbind\<close>: \<^verbatim>\<open>icallangbind.c\<close>. \<open>SspmCodec\<close>, \<open>Sspm\<close>: the codings, the parser and the writer
  of \<^verbatim>\<open>sspm.c\<close>; \<open>SspmCodecLaws\<close> states what the codings do to a text. These theories hold the definitions;
  no property of the manifest is about them yet.

  \<^bold>\<open>Interfaces.\<close> What one part relies on in another is a locale, interpreted on the model: comparison functions
  (\<open>c_compare\<close>), growing arrays (\<open>growable\<close>), text buffers (\<open>string_writer\<close>), lists of items (\<open>item_list\<close>),
  calendars that number days (\<open>day_numbering\<close>) and tables of changes (\<open>change_points\<close>).

  \<^bold>\<open>Conventions.\<close> \<open>None\<close> is an abort, an access outside an object or through the wrong member of a union, or a
  loop that does not end; an error of the program is a value. The integers of C are integers where the
  program's values stay in range, and words or wrapped integers where they do not; the doubles of
  \<^verbatim>\<open>caldate.c\<close> are rationals. Allocation succeeds, and an address is never given twice.

  \<^bold>\<open>Bounds.\<close> A loop over a list has the number of elements ever made in the list as fuel, which is more than
  its length (\<open>fuel_law\<close>); a recursion over components has the number of objects ever made, and a tree in
  the store is not deeper than that (\<open>tree_in_depth\<close>). The binary search in a
  table of changes is proved to end. The loops of a rule that need not end (for a year with days, for a weekday, for an accepted
  time) are partial functions without fuel, and the theorems that they return are proved for plain
  rules. A callback for the occurrences of an event is taken to add no properties to it.

  \<^bold>\<open>Not modelled.\<close> The application in Objective-C, which only shows what the library gives; \<^verbatim>\<open>icalmime.c\<close>;
  \<^verbatim>\<open>icaltz-util.c\<close>, which reads binary files; the sets of calendars, the data base, the scanner and the grammar of
  queries in \<^verbatim>\<open>libicalss\<close>; \<^verbatim>\<open>libicalvcal\<close> and \<^verbatim>\<open>libicalcap\<close>; the bindings to other languages; \<^verbatim>\<open>vsnprintf.c\<close>; the
  functions that read the clock, the branches for Windows and threads, and most variants of a printing function that only
  put its result into the ring of temporary buffers.
\<close>

end
